(* ===== verification/Prelude.thy ===== *)
theory Prelude
  imports Main "HOL-Library.Multiset"
begin

text \<open>
  The shared vocabulary of the development: the exceptions of the modelled
  program, the result type that carries them, the traversal of a sequence by a
  function that may raise, stable sorting by a key (Python's \<open>sorted\<close> with a
  \<open>key\<close>), and the wrappers for arguments whose class the code tests with
  \<open>isinstance\<close>.

  Strings.  A HOL character stands for one code point below 256.  On these
  code points NFC normalisation is the identity and no surrogate occurs; text
  outside Latin-1 is outside the model.
\<close>

named_theorems res_simps \<open>evaluation of the result type\<close>

section \<open>Exceptions and results\<close>

text \<open>
  One constructor per exception class of the source; the argument is the message.
  \<open>AppError\<close> also has its HTTP status and error code, an \<open>HTTPException\<close> its status.
\<close>

datatype exn =
    ValueError string
  | TypeErr string
  | RuntimeError string
  | KeyErr string
  | IndexErr string
  | OverflowErr string
  | ZeroDivisionErr string
  | DecimalException string
  | StopIter string
  | UnicodeErr string
  | AdjustmentFactorError string
  | AdjustedPriceError string
  | CorporateActionValidationError string
  | ConformalValidationError string
  | InsufficientCalibrationData string
  | WalkForwardEvaluationError string exn
  | OutcomeValidationError string
  | OutcomeResolutionPolicyError string
  | OutcomeResolutionPolicyMismatch string
  | OutcomeResolutionMisconfigured string
  | SnapshotValidationError string
  | ForecastCohortValidationError string
  | ForecastRunValidationError string
  | ForecastSelectionPolicyValidationError string
  | ForecastCalibrationSetValidationError string
  | AppError int string string
  | HTTPException int string
  | SelectionTooLargeError string
  | BarVersionConflictError string
  | AttributeErr string
  | BackendError string

type_synonym 'a res = "exn + 'a"

definition bind_res :: "'a res \<Rightarrow> ('a \<Rightarrow> 'b res) \<Rightarrow> 'b res" where
  "bind_res m f = (case m of Inl e \<Rightarrow> Inl e | Inr x \<Rightarrow> f x)"

text \<open>\<open>check c e\<close> is the statement \<open>if c: raise e\<close>.\<close>

definition check :: "bool \<Rightarrow> exn \<Rightarrow> unit res" where
  "check c e = (if c then Inl e else Inr ())"

definition is_ok :: "'a res \<Rightarrow> bool" where
  "is_ok m = (case m of Inl _ \<Rightarrow> False | Inr _ \<Rightarrow> True)"

lemma bind_res_simps [simp, res_simps]:
  "bind_res (Inl e) f = Inl e"
  "bind_res (Inr x) f = f x"
  by (simp_all add: bind_res_def)

lemma check_simps [simp, res_simps]:
  "check True e = Inl e"
  "check False e = Inr ()"
  by (simp_all add: check_def)

lemma is_ok_simps [simp, res_simps]:
  "is_ok (Inl e) = False"
  "is_ok (Inr x) = True"
  by (simp_all add: is_ok_def)

lemma bind_res_Inr_iff: "bind_res m f = Inr y \<longleftrightarrow> (\<exists>x. m = Inr x \<and> f x = Inr y)"
  by (cases m) simp_all

lemma bind_res_Inl_iff:
  "bind_res m f = Inl e \<longleftrightarrow> m = Inl e \<or> (\<exists>x. m = Inr x \<and> f x = Inl e)"
  by (cases m) simp_all

lemma check_Inr_iff: "check c e = Inr u \<longleftrightarrow> \<not> c"
  by (cases c) simp_all

lemma check_Inl_iff: "check c e = Inl e' \<longleftrightarrow> c \<and> e' = e"
  by (cases c) auto

lemmas res_iffs = bind_res_Inr_iff check_Inr_iff

lemma bind_res_InrE:
  assumes "bind_res m f = Inr y"
  obtains x where "m = Inr x" and "f x = Inr y"
  using assms by (auto simp: bind_res_Inr_iff)

lemma bind_check_InrE:
  assumes "bind_res (check c e) f = Inr y"
  obtains "\<not> c" and "f () = Inr y"
  using assms by (cases c) auto

lemma bind_okI: "m = Inr x \<Longrightarrow> f x = r \<Longrightarrow> bind_res m f = r"
  by simp

lemma check_okI: "\<not> c \<Longrightarrow> f () = r \<Longrightarrow> bind_res (check c e) f = r"
  by simp

lemma bind_check_iff [simp]: "bind_res (check c e) f = (if c then Inl e else f ())"
  by simp

lemma is_ok_iff: "is_ok m \<longleftrightarrow> (\<exists>x. m = Inr x)"
  by (cases m) simp_all

section \<open>Traversals\<close>

text \<open>
  \<open>map_res f xs\<close> is the loop that applies \<open>f\<close> to each element in order and
  stops at the first exception.
\<close>

fun map_res :: "('a \<Rightarrow> 'b res) \<Rightarrow> 'a list \<Rightarrow> 'b list res" where
  "map_res f [] = Inr []"
| "map_res f (x # xs) = bind_res (f x) (\<lambda>y. bind_res (map_res f xs) (\<lambda>ys. Inr (y # ys)))"

lemma map_res_Inr_iff: "map_res f xs = Inr ys \<longleftrightarrow> list_all2 (\<lambda>x y. f x = Inr y) xs ys"
proof (induction xs arbitrary: ys)
  case Nil
  then show ?case by (auto simp: eq_commute)
next
  case (Cons x xs)
  then show ?case by (cases ys) (auto simp: bind_res_Inr_iff)
qed

lemma map_res_length: "map_res f xs = Inr ys \<Longrightarrow> length ys = length xs"
  by (auto simp: map_res_Inr_iff dest: list_all2_lengthD)

lemma map_res_nth: "map_res f xs = Inr ys \<Longrightarrow> i < length xs \<Longrightarrow> f (xs ! i) = Inr (ys ! i)"
  by (auto simp: map_res_Inr_iff dest: list_all2_nthD)

lemma map_res_in:
  assumes "map_res f xs = Inr ys" and "y \<in> set ys"
  obtains x where "x \<in> set xs" and "f x = Inr y"
  using assms by (metis in_set_conv_nth map_res_length map_res_nth)

lemma map_res_in_src:
  assumes "map_res f xs = Inr ys" and "x \<in> set xs"
  obtains y where "y \<in> set ys" and "f x = Inr y"
  using assms by (metis in_set_conv_nth map_res_length map_res_nth)

lemma map_res_total: "(\<And>x. x \<in> set xs \<Longrightarrow> f x = Inr (g x)) \<Longrightarrow> map_res f xs = Inr (map g xs)"
  by (induction xs) auto

lemma map_res_take: "map_res f xs = Inr ys \<Longrightarrow> map_res f (take n xs) = Inr (take n ys)"
  by (simp add: map_res_Inr_iff list_all2_takeI)

lemma map_res_is_ok: "is_ok (map_res f xs) \<longleftrightarrow> (\<forall>x \<in> set xs. is_ok (f x))"
proof (induction xs)
  case (Cons x xs)
  then show ?case
    by (cases "f x"; cases "map_res f xs") auto
qed simp

lemma map_res_map: "map_res f xs = Inr ys \<Longrightarrow> ys = map (\<lambda>x. projr (f x)) xs"
  by (induction xs arbitrary: ys) (auto simp: bind_res_Inr_iff)

lemma map_res_mset:
  assumes "map_res f xs = Inr ys" and "mset xs' = mset xs"
  obtains ys' where "map_res f xs' = Inr ys'" and "mset ys' = mset ys"
proof -
  have "\<forall>x \<in> set xs. is_ok (f x)"
    using assms(1) map_res_is_ok [of f xs] by simp
  moreover have "set xs' = set xs"
    using assms(2) by (metis mset_eq_setD)
  ultimately have "is_ok (map_res f xs')"
    by (simp add: map_res_is_ok)
  then obtain ys' where ys': "map_res f xs' = Inr ys'"
    by (auto simp: is_ok_iff)
  have "mset ys' = mset ys"
    using assms(2) map_res_map [OF ys'] map_res_map [OF assms(1)] by simp
  with ys' show ?thesis by (rule that)
qed

section \<open>Arguments of unknown class\<close>

text \<open>
  A parameter the code tests with \<open>isinstance\<close>: an instance of the expected
  class, or an object of some other class.  A parameter the code iterates over
  inside \<open>try: ... except TypeError\<close>: a finite iterable, or an object that is
  not iterable.
\<close>

datatype 'a pyarg = Inst 'a | Foreign

datatype 'a pyseq = Seq "'a list" | NotIterable

fun is_inst :: "'a pyarg \<Rightarrow> bool" where
  "is_inst (Inst _) = True"
| "is_inst Foreign = False"

fun insts :: "'a pyarg list \<Rightarrow> 'a list" where
  "insts [] = []"
| "insts (Inst x # xs) = x # insts xs"
| "insts (Foreign # xs) = insts xs"

lemma insts_map_Inst [simp]: "insts (map Inst xs) = xs"
  by (induction xs) simp_all

lemma all_is_inst_iff: "(\<forall>a \<in> set as. is_inst a) \<longleftrightarrow> as = map Inst (insts as)"
proof (induction as)
  case (Cons a as)
  then show ?case by (cases a) auto
qed simp

lemma insts_filter: "insts xs = map (\<lambda>a. case a of Inst x \<Rightarrow> x) (filter is_inst xs)"
  by (induction xs rule: insts.induct) simp_all

lemma insts_mset: "mset xs = mset ys \<Longrightarrow> mset (insts xs) = mset (insts ys)"
  by (simp add: insts_filter)

section \<open>Lists\<close>

fun strictly_increasing :: "('a \<Rightarrow> 'b::linorder) \<Rightarrow> 'a list \<Rightarrow> bool" where
  "strictly_increasing f (x # y # zs) = (f x < f y \<and> strictly_increasing f (y # zs))"
| "strictly_increasing f _ = True"

text \<open>Some adjacent pair violates the order: the \<open>any(... zip(xs, xs[1:]))\<close> idiom.\<close>

fun any_adjacent :: "('a \<Rightarrow> 'a \<Rightarrow> bool) \<Rightarrow> 'a list \<Rightarrow> bool" where
  "any_adjacent p (x # y # zs) = (p x y \<or> any_adjacent p (y # zs))"
| "any_adjacent p _ = False"

lemma any_adjacent_zip: "any_adjacent p xs \<longleftrightarrow> (\<exists>(x, y) \<in> set (zip xs (tl xs)). p x y)"
  by (induction p xs rule: any_adjacent.induct) auto

lemma strictly_increasing_iff: "strictly_increasing f xs \<longleftrightarrow> sorted_wrt (\<lambda>x y. f x < f y) xs"
proof (induction f xs rule: strictly_increasing.induct)
  case (1 f x y zs)
  then show ?case by (auto intro: less_trans)
qed simp_all

lemma not_any_adjacent_ge:
  "\<not> any_adjacent (\<lambda>x y. f x \<ge> f y) xs \<longleftrightarrow> strictly_increasing f xs"
  by (induction f xs rule: strictly_increasing.induct) auto

lemma foldl_max_ge: "m \<le> foldl max m xs \<and> (\<forall>x \<in> set xs. (x :: 'a::linorder) \<le> foldl max m xs)"
proof (induction xs arbitrary: m)
  case (Cons a xs)
  from Cons [of "max m a"] show ?case by auto
qed simp

lemma foldl_max_in: "x \<in> set (a # xs) \<Longrightarrow> x \<le> foldl max (a :: 'a::linorder) xs"
  using foldl_max_ge [of a xs] by auto

lemma sort_key_perm:
  assumes "mset xs = mset ys" and "inj_on f (set xs)"
  shows "sort_key f xs = sort_key f ys"
proof (rule sort_key_inj_key_eq)
  show "mset xs = mset (sort_key f ys)" using assms(1) by simp
  show "inj_on f (set xs)" by (rule assms(2))
  show "sorted (map f (sort_key f ys))" by simp
qed

lemma sort_key_Nil_iff: "sort_key f xs = [] \<longleftrightarrow> xs = []"
  by (metis length_0_conv length_sort)

lemma distinct_map_sort_key: "distinct (map g (sort_key f xs)) \<longleftrightarrow> distinct (map g xs)"
  by (simp add: distinct_map)

end
