(* ===== verification/Text.thy ===== *)
theory Text
  imports Prelude "HOL-Library.Char_ord" "HOL-Library.List_Lexorder"
begin

text \<open>
  The string operations the program uses: rendering of integers, hexadecimal
  digits, \<open>strip\<close>, \<open>upper\<close>, \<open>lower\<close>, \<open>startswith\<close> and the character classes
  behind its regular expressions.  Strings are compared by code point, as
  \<open>HOL-Library.List_Lexorder\<close> orders character lists.
\<close>

section \<open>Characters\<close>

definition cp :: "char \<Rightarrow> int" where
  "cp c = of_char c"

definition is_digit :: "char \<Rightarrow> bool" where
  "is_digit c \<longleftrightarrow> 48 \<le> cp c \<and> cp c \<le> 57"

definition is_upper :: "char \<Rightarrow> bool" where
  "is_upper c \<longleftrightarrow> 65 \<le> cp c \<and> cp c \<le> 90"

definition is_lower :: "char \<Rightarrow> bool" where
  "is_lower c \<longleftrightarrow> 97 \<le> cp c \<and> cp c \<le> 122"

definition is_hex_lower :: "char \<Rightarrow> bool" where
  "is_hex_lower c \<longleftrightarrow> is_digit c \<or> (97 \<le> cp c \<and> cp c \<le> 102)"

text \<open>\<open>str.isspace\<close> on one code point below 256.\<close>

definition is_space :: "char \<Rightarrow> bool" where
  "is_space c \<longleftrightarrow> (9 \<le> cp c \<and> cp c \<le> 13) \<or> (28 \<le> cp c \<and> cp c \<le> 32) \<or> cp c = 133 \<or> cp c = 160"

definition py_strip :: "string \<Rightarrow> string" where
  "py_strip s = rev (dropWhile is_space (rev (dropWhile is_space s)))"

text \<open>
  \<open>str.upper\<close> and \<open>str.lower\<close>.  The upper forms of the micro sign and of y with
  diaeresis lie outside Latin-1, so outside the model; they are kept here.
\<close>

definition upper_char :: "char \<Rightarrow> string" where
  "upper_char c =
     (if is_lower c then [char_of (cp c - 32)]
      else if 224 \<le> cp c \<and> cp c \<le> 254 \<and> cp c \<noteq> 247 then [char_of (cp c - 32)]
      else if cp c = 223 then ''SS''
      else [c])"

definition py_upper :: "string \<Rightarrow> string" where
  "py_upper s = concat (map upper_char s)"

definition lower_char :: "char \<Rightarrow> char" where
  "lower_char c =
     (if is_upper c then char_of (cp c + 32)
      else if 192 \<le> cp c \<and> cp c \<le> 222 \<and> cp c \<noteq> 215 then char_of (cp c + 32)
      else c)"

definition py_lower :: "string \<Rightarrow> string" where
  "py_lower s = map lower_char s"

definition startswith :: "string \<Rightarrow> string \<Rightarrow> bool" where
  "startswith s p \<longleftrightarrow> take (length p) s = p"

text \<open>\<open>rstrip\<close> of a single character.\<close>

definition rstrip_char :: "char \<Rightarrow> string \<Rightarrow> string" where
  "rstrip_char c s = rev (dropWhile (\<lambda>x. x = c) (rev s))"

definition lstrip_char :: "char \<Rightarrow> string \<Rightarrow> string" where
  "lstrip_char c s = dropWhile (\<lambda>x. x = c) s"

lemma py_strip_id: "s \<noteq> [] \<Longrightarrow> \<not> is_space (hd s) \<Longrightarrow> \<not> is_space (last s) \<Longrightarrow> py_strip s = s"
proof (cases s rule: rev_cases)
  case (snoc ys y)
  assume "\<not> is_space (hd s)" "\<not> is_space (last s)"
  then show ?thesis using snoc by (cases ys) (simp_all add: py_strip_def)
qed simp

section \<open>Decimal digits\<close>

definition digit_char :: "int \<Rightarrow> char" where
  "digit_char d = char_of (48 + d)"

definition digit_val :: "char \<Rightarrow> int" where
  "digit_val c = cp c - 48"

function nat_digits :: "int \<Rightarrow> int list" where
  "nat_digits n = (if n < 10 then [n] else nat_digits (n div 10) @ [n mod 10])"
  by pat_completeness auto
termination
  by (relation "measure nat") auto

declare nat_digits.simps [simp del]

text \<open>\<open>str(n)\<close> for a nonnegative \<open>n\<close>, and for any integer.\<close>

definition nat_str :: "int \<Rightarrow> string" where
  "nat_str n = map digit_char (nat_digits n)"

definition int_str :: "int \<Rightarrow> string" where
  "int_str i = (if i < 0 then CHR ''-'' # nat_str (- i) else nat_str i)"

definition digits_val :: "string \<Rightarrow> int" where
  "digits_val s = foldl (\<lambda>a c. 10 * a + digit_val c) 0 s"

text \<open>\<open>f"{n:0wd}"\<close> for a nonnegative \<open>n\<close>.\<close>

definition zfill :: "nat \<Rightarrow> int \<Rightarrow> string" where
  "zfill w n = (let s = nat_str n in replicate (w - length s) (CHR ''0'') @ s)"

lemma cp_bounds: "0 \<le> cp c" "cp c < 256"
proof -
  have "cp c = int (of_char c)" unfolding cp_def by (rule of_nat_of_char [symmetric])
  then show "0 \<le> cp c" "cp c < 256" using nat_of_char_less_256 [of c] by linarith+
qed

lemma char_of_cp [simp]: "char_of (cp c) = c"
  by (simp add: cp_def)

lemma cp_char_of [simp]: "0 \<le> n \<Longrightarrow> n < 256 \<Longrightarrow> cp (char_of n) = n"
  by (simp add: cp_def)

lemma cp_inject: "cp a = cp b \<longleftrightarrow> a = b"
  by (metis char_of_cp)

lemma digit_char_facts [simp]:
  assumes "0 \<le> d" and "d < 10"
  shows "is_digit (digit_char d)" and "digit_val (digit_char d) = d"
  using assms by (simp_all add: is_digit_def digit_char_def digit_val_def)

lemma digit_char_inject:
  "0 \<le> d \<Longrightarrow> d < 10 \<Longrightarrow> 0 \<le> e \<Longrightarrow> e < 10 \<Longrightarrow> digit_char d = digit_char e \<longleftrightarrow> d = e"
  by (metis digit_char_facts(2))

lemma digit_char_0: "digit_char 0 = CHR ''0''"
  unfolding digit_char_def by (simp flip: cp_inject) (simp add: cp_def)

lemma nat_digits_range: "0 \<le> n \<Longrightarrow> d \<in> set (nat_digits n) \<Longrightarrow> 0 \<le> d \<and> d < 10"
proof (induction n rule: nat_digits.induct)
  case (1 n)
  then show ?case by (cases "n < 10") (auto simp: nat_digits.simps [of n])
qed

lemma nat_digits_nonempty [simp]: "nat_digits n \<noteq> []"
  by (subst nat_digits.simps) simp

lemma nat_str_nonempty [simp]: "nat_str n \<noteq> []"
  by (simp add: nat_str_def)

lemma nat_str_small: "n < 10 \<Longrightarrow> nat_str n = [digit_char n]"
  by (simp add: nat_str_def nat_digits.simps [of n])

lemma nat_str_step: "10 \<le> n \<Longrightarrow> nat_str n = nat_str (n div 10) @ [digit_char (n mod 10)]"
  by (simp add: nat_str_def nat_digits.simps [of n])

lemma nat_str_digits: "0 \<le> n \<Longrightarrow> c \<in> set (nat_str n) \<Longrightarrow> is_digit c"
  by (auto simp: nat_str_def dest: nat_digits_range)

lemma digits_val_snoc [simp]: "digits_val (s @ [c]) = 10 * digits_val s + digit_val c"
  by (simp add: digits_val_def)

lemma digits_val_Nil [simp]: "digits_val [] = 0"
  by (simp add: digits_val_def)

lemma digits_val_single [simp]: "digits_val [c] = digit_val c"
  by (simp add: digits_val_def)

lemma digits_val_nat_str [simp]: "0 \<le> n \<Longrightarrow> digits_val (nat_str n) = n"
proof (induction n rule: nat_digits.induct)
  case (1 n)
  then show ?case by (cases "n < 10") (simp_all add: nat_str_small nat_str_step)
qed

lemma nat_str_inject: "0 \<le> m \<Longrightarrow> 0 \<le> n \<Longrightarrow> nat_str m = nat_str n \<longleftrightarrow> m = n"
  by (metis digits_val_nat_str)

lemma nat_str_no_leading_zero: "0 < n \<Longrightarrow> hd (nat_str n) \<noteq> CHR ''0''"
proof (induction n rule: nat_digits.induct)
  case (1 n)
  then show ?case
    by (cases "n < 10") (simp_all add: nat_str_small nat_str_step digit_char_inject flip: digit_char_0)
qed

section \<open>Hexadecimal\<close>

definition hex_char :: "int \<Rightarrow> char" where
  "hex_char d = (if d < 10 then char_of (48 + d) else char_of (87 + d))"

definition hex_val :: "char \<Rightarrow> int" where
  "hex_val c = (if is_digit c then cp c - 48 else cp c - 87)"

lemma hex_char_facts:
  assumes "0 \<le> d" and "d < 16"
  shows "is_hex_lower (hex_char d)" and "hex_val (hex_char d) = d"
  using assms by (auto simp: is_hex_lower_def hex_char_def hex_val_def is_digit_def)

text \<open>The \<open>w\<close> lowercase hexadecimal digits of a number, most significant first.\<close>

fun hex_fixed :: "nat \<Rightarrow> int \<Rightarrow> string" where
  "hex_fixed 0 n = []"
| "hex_fixed (Suc w) n = hex_fixed w (n div 16) @ [hex_char (n mod 16)]"

definition unhex :: "string \<Rightarrow> int" where
  "unhex s = foldl (\<lambda>a c. 16 * a + hex_val c) 0 s"

lemma length_hex_fixed [simp]: "length (hex_fixed w n) = w"
  by (induction w n rule: hex_fixed.induct) simp_all

lemma hex_fixed_digits: "c \<in> set (hex_fixed w n) \<Longrightarrow> is_hex_lower c"
  by (induction w n rule: hex_fixed.induct) (auto simp: hex_char_facts)

lemma unhex_hex_fixed: "0 \<le> n \<Longrightarrow> n < 16 ^ w \<Longrightarrow> unhex (hex_fixed w n) = n"
proof (induction w n rule: hex_fixed.induct)
  case (2 w n)
  have "16 * (n div 16) \<le> n" by simp
  moreover have "n < 16 * 16 ^ w" using 2 by simp
  ultimately have "n div 16 < 16 ^ w" by linarith
  moreover have "0 \<le> n div 16" using 2 by simp
  ultimately show ?case using 2 by (simp add: unhex_def hex_char_facts)
qed (simp add: unhex_def)

section \<open>Representation\<close>

text \<open>\<open>repr\<close> of a string of code points below 256.\<close>

definition printable :: "char \<Rightarrow> bool" where
  "printable c \<longleftrightarrow> 32 \<le> cp c \<and> \<not> (127 \<le> cp c \<and> cp c \<le> 160) \<and> cp c \<noteq> 173"

definition repr_char :: "char \<Rightarrow> char \<Rightarrow> string" where
  "repr_char q c =
     (if c = q \<or> c = CHR 0x5C then [CHR 0x5C, c]
      else if c = CHR 0x0A then [CHR 0x5C, CHR ''n'']
      else if c = CHR 0x0D then [CHR 0x5C, CHR ''r'']
      else if c = CHR 0x09 then [CHR 0x5C, CHR ''t'']
      else if printable c then [c]
      else [CHR 0x5C, CHR ''x''] @ hex_fixed 2 (cp c))"

definition py_repr :: "string \<Rightarrow> string" where
  "py_repr s =
     (let q = (if CHR 0x27 \<in> set s \<and> CHR 0x22 \<notin> set s then CHR 0x22 else CHR 0x27)
      in q # concat (map (repr_char q) s) @ [q])"

section \<open>Patterns\<close>

text \<open>\<open>^[A-Z0-9.\-_:]+$\<close>, by \<open>fullmatch\<close>.\<close>

definition symbol_pattern :: "string \<Rightarrow> bool" where
  "symbol_pattern s \<longleftrightarrow> s \<noteq> [] \<and>
     (\<forall>c \<in> set s. is_upper c \<or> is_digit c \<or> c = CHR ''.'' \<or> c = CHR ''-'' \<or> c = CHR ''_'' \<or> c = CHR '':'')"

text \<open>\<open>^[A-Za-z0-9._:\-]+$\<close>, by \<open>fullmatch\<close>.\<close>

definition provider_id_pattern :: "string \<Rightarrow> bool" where
  "provider_id_pattern s \<longleftrightarrow> s \<noteq> [] \<and>
     (\<forall>c \<in> set s. is_upper c \<or> is_lower c \<or> is_digit c \<or> c = CHR ''.'' \<or> c = CHR ''_''
        \<or> c = CHR '':'' \<or> c = CHR ''-'')"

text \<open>\<open>^sha256:[0-9a-f]{64}$\<close>, by \<open>fullmatch\<close>.\<close>

definition content_id_pattern :: "string \<Rightarrow> bool" where
  "content_id_pattern s \<longleftrightarrow> startswith s ''sha256:'' \<and> length s = 71 \<and>
     (\<forall>c \<in> set (drop 7 s). is_hex_lower c)"

text \<open>\<open>^[0-9a-f]{16}$\<close>, by \<open>fullmatch\<close>.\<close>

definition binary64_hex_pattern :: "string \<Rightarrow> bool" where
  "binary64_hex_pattern s \<longleftrightarrow> length s = 16 \<and> (\<forall>c \<in> set s. is_hex_lower c)"

lemma hex_fixed_binary64 [simp]: "binary64_hex_pattern (hex_fixed 16 n)"
  by (auto simp: binary64_hex_pattern_def dest: hex_fixed_digits)

end
