(* ===== verification/Sha256.thy ===== *)
theory Sha256
  imports Text "HOL-Library.Word"
begin

unbundle bit_operations_syntax

text \<open>
  \<open>hashlib.sha256(payload).hexdigest()\<close>, executable on 32-bit words, and the
  UTF-8 encoding of a string that precedes it.  The properties of the program
  rest only on the shape of the digest (64 lowercase hexadecimal digits) and on
  the digest being a function of the bytes.
\<close>

type_synonym bytes = "8 word list"

section \<open>UTF-8\<close>

definition utf8_char :: "char \<Rightarrow> bytes" where
  "utf8_char c =
     (if cp c < 128 then [word_of_int (cp c)]
      else [word_of_int (192 + cp c div 64), word_of_int (128 + cp c mod 64)])"

definition utf8_encode :: "string \<Rightarrow> bytes" where
  "utf8_encode s = concat (map utf8_char s)"

text \<open>
  Strict decoding.  \<open>None\<close> stands for \<open>UnicodeDecodeError\<close>, and for a code point
  above 255, which is outside the model.
\<close>

fun utf8_decode :: "bytes \<Rightarrow> string option" where
  "utf8_decode [] = Some []"
| "utf8_decode (b # bs) =
     (if uint b < 128 then map_option (Cons (char_of (uint b))) (utf8_decode bs)
      else if 194 \<le> uint b \<and> uint b \<le> 195 then
        (case bs of [] \<Rightarrow> None
         | b' # bs' \<Rightarrow>
             if 128 \<le> uint b' \<and> uint b' < 192
             then map_option (Cons (char_of ((uint b - 192) * 64 + (uint b' - 128)))) (utf8_decode bs')
             else None)
      else None)"

section \<open>The hash function\<close>

definition sha_k :: "32 word list" where
  "sha_k = [
    1116352408, 1899447441, 3049323471, 3921009573, 961987163, 1508970993, 2453635748,
    2870763221, 3624381080, 310598401, 607225278, 1426881987, 1925078388, 2162078206,
    2614888103, 3248222580, 3835390401, 4022224774, 264347078, 604807628, 770255983,
    1249150122, 1555081692, 1996064986, 2554220882, 2821834349, 2952996808, 3210313671,
    3336571891, 3584528711, 113926993, 338241895, 666307205, 773529912, 1294757372,
    1396182291, 1695183700, 1986661051, 2177026350, 2456956037, 2730485921, 2820302411,
    3259730800, 3345764771, 3516065817, 3600352804, 4094571909, 275423344, 430227734,
    506948616, 659060556, 883997877, 958139571, 1322822218, 1537002063, 1747873779,
    1955562222, 2024104815, 2227730452, 2361852424, 2428436474, 2756734187, 3204031479,
    3329325298]"

definition sha_init :: "32 word list" where
  "sha_init = [
    1779033703, 3144134277, 1013904242, 2773480762, 1359893119, 2600822924, 528734635,
    1541459225]"

definition sha_pad :: "bytes \<Rightarrow> bytes" where
  "sha_pad m =
     (let l = length m in
      m @ [128] @ replicate ((119 - l mod 64) mod 64) 0 @
      map (\<lambda>i. word_of_int (8 * int l div 256 ^ i)) [7, 6, 5, 4, 3, 2, 1, 0])"

fun be_words :: "bytes \<Rightarrow> 32 word list" where
  "be_words (a # b # c # d # bs) =
     word_of_int (((uint a * 256 + uint b) * 256 + uint c) * 256 + uint d) # be_words bs"
| "be_words _ = []"

definition ssig0 :: "32 word \<Rightarrow> 32 word" where
  "ssig0 x = word_rotr 7 x XOR word_rotr 18 x XOR drop_bit 3 x"

definition ssig1 :: "32 word \<Rightarrow> 32 word" where
  "ssig1 x = word_rotr 17 x XOR word_rotr 19 x XOR drop_bit 10 x"

definition bsig0 :: "32 word \<Rightarrow> 32 word" where
  "bsig0 x = word_rotr 2 x XOR word_rotr 13 x XOR word_rotr 22 x"

definition bsig1 :: "32 word \<Rightarrow> 32 word" where
  "bsig1 x = word_rotr 6 x XOR word_rotr 11 x XOR word_rotr 25 x"

text \<open>The message schedule, newest word first.\<close>

fun sha_schedule :: "nat \<Rightarrow> 32 word list \<Rightarrow> 32 word list" where
  "sha_schedule 0 ws = ws"
| "sha_schedule (Suc n) ws =
     sha_schedule n ((ssig1 (ws ! 1) + ws ! 6 + ssig0 (ws ! 14) + ws ! 15) # ws)"

fun sha_round :: "32 word list \<Rightarrow> 32 word \<times> 32 word \<Rightarrow> 32 word list" where
  "sha_round [a, b, c, d, e, f, g, h] (k, w) =
     (let t1 = h + bsig1 e + ((e AND f) XOR ((NOT e) AND g)) + k + w;
          t2 = bsig0 a + ((a AND b) XOR (a AND c) XOR (b AND c))
      in [t1 + t2, a, b, c, d + t1, e, f, g])"
| "sha_round s _ = s"

definition sha_block :: "32 word list \<Rightarrow> 32 word list \<Rightarrow> 32 word list" where
  "sha_block s ws =
     map2 (+) s (foldl sha_round s (zip sha_k (rev (sha_schedule 48 (rev ws)))))"

fun sha_blocks :: "32 word list \<Rightarrow> nat \<Rightarrow> 32 word list \<Rightarrow> 32 word list" where
  "sha_blocks s 0 ws = s"
| "sha_blocks s (Suc n) ws = sha_blocks (sha_block s (take 16 ws)) n (drop 16 ws)"

definition sha256_words :: "bytes \<Rightarrow> 32 word list" where
  "sha256_words m =
     (let ws = be_words (sha_pad m) in sha_blocks sha_init (length ws div 16) ws)"

definition sha256_hex :: "bytes \<Rightarrow> string" where
  "sha256_hex m = concat (map (\<lambda>w. hex_fixed 8 (uint w)) (sha256_words m))"

definition sha256_bytes :: "bytes \<Rightarrow> bytes" where
  "sha256_bytes m =
     concat (map (\<lambda>w. map (\<lambda>k. word_of_int (uint w div 256 ^ k)) [3, 2, 1, 0]) (sha256_words m))"

text \<open>\<open>hmac.new(key, msg, hashlib.sha256).hexdigest()\<close>\<close>

definition hmac_sha256_hex :: "bytes \<Rightarrow> bytes \<Rightarrow> string" where
  "hmac_sha256_hex key m =
     (let k0 = (if 64 < length key then sha256_bytes key else key);
          k = k0 @ replicate (64 - length k0) 0
      in sha256_hex (map (\<lambda>b. b XOR 92) k @ sha256_bytes (map (\<lambda>b. b XOR 54) k @ m)))"

definition content_id :: "bytes \<Rightarrow> string" where
  "content_id m = ''sha256:'' @ sha256_hex m"

section \<open>The shape of a digest\<close>

lemma length_sha_round: "length s = 8 \<Longrightarrow> length (sha_round s kw) = 8"
  by (cases "(s, kw)" rule: sha_round.cases) (auto simp: Let_def)

lemma length_foldl_round: "length s = 8 \<Longrightarrow> length (foldl sha_round s kws) = 8"
  by (induction kws arbitrary: s) (simp_all add: length_sha_round)

lemma length_sha_blocks: "length s = 8 \<Longrightarrow> length (sha_blocks s n ws) = 8"
  by (induction s n ws rule: sha_blocks.induct) (simp_all add: sha_block_def length_foldl_round)

lemma length_sha256_words: "length (sha256_words m) = 8"
  by (simp add: sha256_words_def Let_def length_sha_blocks sha_init_def)

lemma length_concat_hex: "length (concat (map (\<lambda>w. hex_fixed 8 (uint w)) ws)) = 8 * length ws"
  by (induction ws) simp_all

lemma length_sha256_hex [simp]: "length (sha256_hex m) = 64"
  by (simp add: sha256_hex_def length_concat_hex length_sha256_words)

lemma sha256_hex_digits: "c \<in> set (sha256_hex m) \<Longrightarrow> is_hex_lower c"
  by (auto simp: sha256_hex_def dest: hex_fixed_digits)

lemma content_id_pattern [simp]: "content_id_pattern (content_id m)"
  by (auto simp: content_id_pattern_def content_id_def startswith_def dest: sha256_hex_digits)

section \<open>UTF-8 round trip\<close>

lemma utf8_decode_char: "utf8_decode (utf8_char c @ bs) = map_option (Cons c) (utf8_decode bs)"
proof (cases "cp c < 128")
  case True
  then have "uint (word_of_int (cp c) :: 8 word) = cp c"
    using cp_bounds [of c] by (simp add: uint_word_of_int)
  with True show ?thesis by (simp add: utf8_char_def)
next
  case False
  let ?h = "192 + cp c div 64" and ?l = "128 + cp c mod 64"
  have "cp c < 256" by (rule cp_bounds)
  then have h: "194 \<le> ?h" "?h \<le> 195" and l: "128 \<le> ?l" "?l < 192" using False by auto
  have u: "uint (word_of_int i :: 8 word) = i" if "0 \<le> i" "i < 256" for i
    using that by (simp add: uint_word_of_int)
  have uh: "uint (word_of_int ?h :: 8 word) = ?h" and ul: "uint (word_of_int ?l :: 8 word) = ?l"
    using h l by (intro u; linarith)+
  have v: "(?h - 192) * 64 + (?l - 128) = cp c" by simp
  have s: "utf8_char c = [word_of_int ?h, word_of_int ?l]" using False by (simp add: utf8_char_def)
  show ?thesis
    unfolding s append_Cons append_Nil utf8_decode.simps list.case uh ul v char_of_cp
    using h l by simp
qed

lemma utf8_round_trip [simp]: "utf8_decode (utf8_encode s) = Some s"
  by (induction s) (simp_all add: utf8_encode_def utf8_decode_char)

lemma utf8_encode_inject: "utf8_encode s = utf8_encode t \<longleftrightarrow> s = t"
  by (metis option.inject utf8_round_trip)

end
