(* ===== verification/Float64.thy ===== *)
theory Float64
  imports Complex_Main Prelude "HOL-Library.Word"
begin

text \<open>
  Python's \<open>float\<close>: IEEE 754 binary64, as its 64-bit pattern.

  The low 63 bits of a pattern, read as an integer, are its \<open>magnitude index\<close>:
  the indices below \<open>inf_idx\<close> enumerate the finite nonnegative floats in
  increasing order (\<open>mval\<close> is the value at an index), \<open>inf_idx\<close> is infinity and
  everything above is a NaN.  Comparison is therefore integer comparison of
  signed indices, and every arithmetic operation computes its exact result as a
  fraction of integers and rounds it once, to nearest with ties to even.
  \<open>rmag\<close> is the rounding of a real number; the executable rounding of a fraction
  agrees with it (\<open>rnd_mag_eq\<close>), rounding is monotone (\<open>rmag_mono\<close>) and leaves
  representable values alone (\<open>rmag_mval\<close>).
\<close>

type_synonym f64 = "64 word"

section \<open>Bit patterns\<close>

definition inf_idx :: int where
  "inf_idx = 9218868437227405312"

definition f_idx :: "f64 \<Rightarrow> int" where
  "f_idx w = uint w mod 9223372036854775808"

definition f_isneg :: "f64 \<Rightarrow> bool" where
  "f_isneg w \<longleftrightarrow> 9223372036854775808 \<le> uint w"

definition f_pack :: "bool \<Rightarrow> int \<Rightarrow> f64" where
  "f_pack s i = word_of_int (if s then 9223372036854775808 + i else i)"

definition f_isnan :: "f64 \<Rightarrow> bool" where
  "f_isnan w \<longleftrightarrow> inf_idx < f_idx w"

definition f_isinf :: "f64 \<Rightarrow> bool" where
  "f_isinf w \<longleftrightarrow> f_idx w = inf_idx"

text \<open>\<open>math.isfinite\<close>\<close>

definition f_isfinite :: "f64 \<Rightarrow> bool" where
  "f_isfinite w \<longleftrightarrow> f_idx w < inf_idx"

definition f_zero :: f64 where "f_zero = 0"
definition f_one :: f64 where "f_one = 4607182418800017408"
definition f_nan :: f64 where "f_nan = 9221120237041090560"
definition f_inf :: f64 where "f_inf = 9218868437227405312"

lemma f_idx_nonneg [simp]: "0 \<le> f_idx w"
  by (simp add: f_idx_def)

lemma f_idx_bound: "f_idx w < 9223372036854775808"
  by (simp add: f_idx_def)

lemma uint_f64_bound: "uint (w :: f64) < 18446744073709551616"
  using uint_lt2p [of w] by simp

lemma uint_word_of_int_64: "0 \<le> i \<Longrightarrow> i < 18446744073709551616 \<Longrightarrow> uint (word_of_int i :: f64) = i"
  by (simp add: uint_word_of_int)

lemma mod_above:
  fixes x b :: int
  assumes "b \<le> x" and "x < b + b"
  shows "x mod b = x - b"
  using assms by (metis add_diff_cancel_left' add_le_same_cancel1 diff_add_cancel diff_ge_0_iff_ge
      diff_less_eq linorder_not_less mod_add_self2 mod_pos_pos_trivial nle_le)

lemma uint_f_pack:
  assumes "0 \<le> i" and "i < 9223372036854775808"
  shows "uint (f_pack s i) = (if s then 9223372036854775808 + i else i)"
proof (cases s)
  case True
  then show ?thesis unfolding f_pack_def by (simp only: if_True)
      (intro uint_word_of_int_64; use assms in linarith)
next
  case False
  then show ?thesis unfolding f_pack_def by (simp only: if_False)
      (intro uint_word_of_int_64; use assms in linarith)
qed

lemma f_idx_pack [simp]:
  assumes "0 \<le> i" and "i < 9223372036854775808"
  shows "f_idx (f_pack s i) = i"
proof -
  have "(9223372036854775808 + i) mod 9223372036854775808 = i"
    by (simp only: mod_add_self1 mod_pos_pos_trivial [OF assms])
  then show ?thesis
    unfolding f_idx_def uint_f_pack [OF assms]
    by (cases s) (simp_all only: if_True if_False mod_pos_pos_trivial [OF assms])
qed

lemma f_isneg_pack [simp]:
  assumes "0 \<le> i" and "i < 9223372036854775808"
  shows "f_isneg (f_pack s i) = s"
proof (cases s)
  case True
  have "9223372036854775808 \<le> 9223372036854775808 + i" using assms by linarith
  with True show ?thesis unfolding f_isneg_def uint_f_pack [OF assms] by (simp only: if_True)
next
  case False
  have "\<not> 9223372036854775808 \<le> i" using assms by linarith
  with False show ?thesis unfolding f_isneg_def uint_f_pack [OF assms] by (simp only: if_False)
qed

lemma f_pack_idx [simp]: "f_pack (f_isneg w) (f_idx w) = w"
proof (cases "f_isneg w")
  case True
  then have "uint w mod 9223372036854775808 = uint w - 9223372036854775808"
    unfolding f_isneg_def using uint_f64_bound [of w] by (intro mod_above) linarith+
  with True show ?thesis by (simp only: f_pack_def f_idx_def if_True) simp
next
  case False
  then have "uint w mod 9223372036854775808 = uint w"
    unfolding f_isneg_def using uint_ge_0 [of w] by (intro mod_pos_pos_trivial) linarith+
  with False show ?thesis by (simp only: f_pack_def f_idx_def if_False) simp
qed

lemma f_eq_iff: "a = b \<longleftrightarrow> f_isneg a = f_isneg b \<and> f_idx a = f_idx b"
proof
  assume h: "f_isneg a = f_isneg b \<and> f_idx a = f_idx b"
  have "a = f_pack (f_isneg a) (f_idx a)" by (simp only: f_pack_idx)
  also have "\<dots> = f_pack (f_isneg b) (f_idx b)" using h by (simp only:)
  also have "\<dots> = b" by (simp only: f_pack_idx)
  finally show "a = b" .
qed simp

section \<open>Values\<close>

text \<open>Significand and exponent of a finite magnitude index: the value is \<open>man * 2 powi ex\<close>.\<close>

definition f_man :: "int \<Rightarrow> int" where
  "f_man i = (if i < 4503599627370496 then i
              else 4503599627370496 + i mod 4503599627370496)"

definition f_ex :: "int \<Rightarrow> int" where
  "f_ex i = (if i < 4503599627370496 then - 1074 else i div 4503599627370496 - 1075)"

definition mval :: "int \<Rightarrow> real" where
  "mval i = of_int (f_man i) * 2 powi f_ex i"

definition fval :: "f64 \<Rightarrow> real" where
  "fval w = (if f_isneg w then - mval (f_idx w) else mval (f_idx w))"

section \<open>Rounding to nearest, ties to even\<close>

function blen :: "int \<Rightarrow> nat" where
  "blen n = (if n \<le> 0 then 0 else Suc (blen (n div 2)))"
  by pat_completeness auto
termination
  by (relation "measure nat") auto

declare blen.simps [simp del]

lemma blen_bounds: "0 < n \<Longrightarrow> 2 ^ (blen n - 1) \<le> n \<and> n < 2 ^ blen n \<and> 0 < blen n"
proof (induction n rule: blen.induct)
  case (1 n)
  show ?case
  proof (cases "n = 1")
    case True
    then show ?thesis by (simp add: blen.simps [of 1] blen.simps [of 0])
  next
    case False
    with 1 have IH: "2 ^ (blen (n div 2) - 1) \<le> n div 2" "n div 2 < 2 ^ blen (n div 2)"
      "0 < blen (n div 2)" by auto
    have b: "blen n = Suc (blen (n div 2))" using 1 by (simp add: blen.simps [of n])
    obtain k where k: "blen (n div 2) = Suc k" using IH(3) gr0_implies_Suc by blast
    have "2 ^ k \<le> n div 2" "n div 2 < 2 * 2 ^ k" using IH k by simp_all
    then have "2 * 2 ^ k \<le> n" "n < 2 * (2 * 2 ^ k)" by linarith+
    then show ?thesis using b k by simp
  qed
qed

text \<open>\<open>rhe a b\<close> is the integer nearest to \<open>a / b\<close>, the even one on a tie.\<close>

definition rhe :: "int \<Rightarrow> int \<Rightarrow> int" where
  "rhe a b = (let q = a div b; r = a mod b in
     if 2 * r < b \<or> (2 * r = b \<and> even q) then q else q + 1)"

definition rh :: "real \<Rightarrow> int" where
  "rh x = (let q = \<lfloor>x\<rfloor>; r = x - of_int q in
     if r < 1 / 2 \<or> (r = 1 / 2 \<and> even q) then q else q + 1)"

lemma rhe_rh:
  assumes "0 < b"
  shows "rhe a b = rh (of_int a / of_int b)"
proof -
  have q: "\<lfloor>(of_int a / of_int b) :: real\<rfloor> = a div b"
    by (simp add: floor_divide_of_int_eq)
  have "(of_int a :: real) = of_int (a div b) * of_int b + of_int (a mod b)"
    by (metis div_mult_mod_eq of_int_add of_int_mult)
  then have r: "of_int a / of_int b - of_int (a div b) = (of_int (a mod b) / of_int b :: real)"
    using assms by (simp add: field_simps)
  have "(of_int (2 * (a mod b)) < (of_int b :: real)) \<longleftrightarrow> 2 * (a mod b) < b"
    "(of_int (2 * (a mod b)) = (of_int b :: real)) \<longleftrightarrow> 2 * (a mod b) = b"
    by (simp_all only: of_int_less_iff of_int_eq_iff)
  then have "(of_int (a mod b) / of_int b < (1 / 2 :: real)) \<longleftrightarrow> 2 * (a mod b) < b"
    "(of_int (a mod b) / of_int b = (1 / 2 :: real)) \<longleftrightarrow> 2 * (a mod b) = b"
    using assms by (auto simp add: field_simps)
  then show ?thesis
    unfolding rhe_def rh_def Let_def q r by simp
qed

lemma rh_of_int [simp]: "rh (of_int i) = i"
  by (simp add: rh_def)

lemma rh_near: "\<bar>of_int (rh x) - x\<bar> \<le> 1 / 2"
  using floor_correct [of x] by (auto simp: rh_def Let_def)

lemma rh_mono:
  assumes "x \<le> y"
  shows "rh x \<le> rh y"
proof (rule ccontr)
  assume "\<not> rh x \<le> rh y"
  then have gt: "rh y + 1 \<le> rh x" by simp
  have "of_int (rh y) + 1 / 2 \<ge> y" "of_int (rh x) - 1 / 2 \<le> x"
    using rh_near [of x] rh_near [of y] by linarith+
  moreover have "of_int (rh y) + 1 \<le> (of_int (rh x) :: real)"
    using gt by (metis of_int_le_iff of_int_add of_int_1)
  ultimately have "x = y" using assms by linarith
  with gt show False by simp
qed

text \<open>\<open>ilog n d\<close> is the exponent of \<open>n / d\<close>: \<open>2 powi ilog n d \<le> n / d < 2 powi (ilog n d + 1)\<close>.\<close>

definition ilog :: "int \<Rightarrow> int \<Rightarrow> int" where
  "ilog n d = (let k = int (blen n) - int (blen d) in
     if (if 0 \<le> k then d * 2 ^ nat k \<le> n else d \<le> n * 2 ^ nat (- k)) then k else k - 1)"

definition rhe_scaled :: "int \<Rightarrow> int \<Rightarrow> int \<Rightarrow> int" where
  "rhe_scaled n d e = (if 0 \<le> e then rhe n (d * 2 ^ nat e) else rhe (n * 2 ^ nat (- e)) d)"

text \<open>The magnitude index of the float nearest to \<open>n / d\<close>, for \<open>0 \<le> n\<close> and \<open>0 < d\<close>.\<close>

definition rnd_mag :: "int \<Rightarrow> int \<Rightarrow> int" where
  "rnd_mag n d = (if n \<le> 0 then 0 else
     (let e = max (ilog n d - 52) (- 1074)
      in min inf_idx (rhe_scaled n d e + (e + 1074) * 4503599627370496)))"

definition rmag :: "real \<Rightarrow> int" where
  "rmag x = (if x \<le> 0 then 0 else
     (let e = max (\<lfloor>log 2 x\<rfloor> - 52) (- 1074)
      in min inf_idx (rh (x / 2 powi e) + (e + 1074) * 4503599627370496)))"

lemma powi_nat_cases:
  "(2::real) powi e = (if 0 \<le> e then 2 ^ nat e else inverse (2 ^ nat (- e)))"
  by (simp add: power_int_def power_one_over inverse_eq_divide)

lemma floor_log_powi:
  assumes "0 < x" and "2 powi m \<le> x" and "x < 2 powi (m + 1)"
  shows "\<lfloor>log 2 x\<rfloor> = m"
proof -
  have "of_int m \<le> log 2 x"
    using assms by (simp add: le_log_iff powr_real_of_int')
  moreover have "log 2 x < of_int m + 1"
    using assms powr_real_of_int' [of 2 "m + 1"] by (simp add: log_less_iff)
  ultimately show ?thesis by linarith
qed

lemma floor_log_bounds:
  assumes "0 < x"
  shows "2 powi \<lfloor>log 2 x\<rfloor> \<le> x" and "x < 2 powi (\<lfloor>log 2 x\<rfloor> + 1)"
proof -
  have "of_int \<lfloor>log 2 x\<rfloor> \<le> log 2 x" by simp
  then have "2 powr of_int \<lfloor>log 2 x\<rfloor> \<le> x" using assms by (simp only: le_log_iff)
  then show "2 powi \<lfloor>log 2 x\<rfloor> \<le> x" by (simp add: powr_real_of_int')
  have "log 2 x < of_int (\<lfloor>log 2 x\<rfloor> + 1)" by simp
  then have "x < 2 powr of_int (\<lfloor>log 2 x\<rfloor> + 1)" using assms by (simp only: log_less_iff)
  then show "x < 2 powi (\<lfloor>log 2 x\<rfloor> + 1)"
    using powr_real_of_int' [of 2 "\<lfloor>log 2 x\<rfloor> + 1"] by simp
qed

lemma ilog_floor_log:
  assumes "0 < n" and "0 < d"
  shows "ilog n d = \<lfloor>log 2 (of_int n / of_int d)\<rfloor>"
proof -
  define k where "k = int (blen n) - int (blen d)"
  let ?x = "of_int n / of_int d :: real"
  have x0: "0 < ?x" using assms by simp
  obtain i j where i: "blen n = Suc i" and j: "blen d = Suc j"
    using blen_bounds [OF assms(1)] blen_bounds [OF assms(2)] gr0_implies_Suc by metis
  have n: "2 ^ i \<le> n" "n < 2 * 2 ^ i" and d: "2 ^ j \<le> d" "d < 2 * 2 ^ j"
    using blen_bounds [OF assms(1)] blen_bounds [OF assms(2)] i j by simp_all
  have nr: "2 ^ i \<le> (of_int n :: real)" "(of_int n :: real) < 2 * 2 ^ i"
    "2 ^ j \<le> (of_int d :: real)" "(of_int d :: real) < 2 * 2 ^ j"
  proof -
    have "of_int (2 ^ i) \<le> (of_int n :: real)" "(of_int n :: real) < of_int (2 * 2 ^ i)"
      "of_int (2 ^ j) \<le> (of_int d :: real)" "(of_int d :: real) < of_int (2 * 2 ^ j)"
      using n d by (simp_all only: of_int_le_iff of_int_less_iff)
    then show "2 ^ i \<le> (of_int n :: real)" "(of_int n :: real) < 2 * 2 ^ i"
      "2 ^ j \<le> (of_int d :: real)" "(of_int d :: real) < 2 * 2 ^ j"
      by simp_all
  qed
  have k: "k = int i - int j" by (simp add: k_def i j)
  have pk: "(2::real) powi k = 2 ^ i / 2 ^ j"
    by (simp add: k power_int_diff)
  have up: "?x < 2 powi (k + 1)"
  proof -
    have "of_int n * 2 ^ j < (2 * 2 ^ i) * (of_int d :: real)"
      using nr(2,3) assms by (intro mult_strict_right_mono mult_strict_left_mono
          order.strict_trans1 [OF mult_left_mono mult_strict_right_mono]) simp_all
    then show ?thesis using assms by (simp add: power_int_add pk field_simps)
  qed
  have lo: "2 powi (k - 1) \<le> ?x"
  proof -
    have "2 ^ i * of_int d \<le> of_int n * (2 * 2 ^ j :: real)"
      using nr(1,4) assms by (intro mult_mono) simp_all
    then show ?thesis using assms by (simp add: power_int_diff pk field_simps)
  qed
  have cond: "(if 0 \<le> k then d * 2 ^ nat k \<le> n else d \<le> n * 2 ^ nat (- k)) \<longleftrightarrow> 2 powi k \<le> ?x"
  proof (cases "0 \<le> k")
    case True
    have "(of_int (d * 2 ^ nat k) \<le> (of_int n :: real)) \<longleftrightarrow> d * 2 ^ nat k \<le> n"
      by (simp only: of_int_le_iff)
    then show ?thesis using True assms by (simp add: powi_nat_cases field_simps)
  next
    case False
    have "(of_int d \<le> (of_int (n * 2 ^ nat (- k)) :: real)) \<longleftrightarrow> d \<le> n * 2 ^ nat (- k)"
      by (simp only: of_int_le_iff)
    then show ?thesis using False assms by (simp add: powi_nat_cases field_simps)
  qed
  note fl = floor_log_powi [OF x0]
  have il: "ilog n d = (if 2 powi k \<le> ?x then k else k - 1)"
    unfolding ilog_def Let_def k_def [symmetric] cond ..
  show ?thesis
  proof (cases "2 powi k \<le> ?x")
    case True
    then have "ilog n d = k" using il by simp
    with fl [OF True up] show ?thesis by simp
  next
    case False
    then have "ilog n d = k - 1" using il by simp
    with fl [of "k - 1"] lo False show ?thesis by simp
  qed
qed

lemma rhe_scaled_rh:
  assumes "0 < d"
  shows "rhe_scaled n d e = rh (of_int n / of_int d / 2 powi e)"
  using assms by (auto simp: rhe_scaled_def rhe_rh powi_nat_cases field_simps)

lemma rnd_mag_eq:
  assumes "0 < d"
  shows "rnd_mag n d = rmag (of_int n / of_int d)"
proof (cases "0 < n")
  case True
  then show ?thesis
    using assms by (simp add: rnd_mag_def rmag_def Let_def ilog_floor_log rhe_scaled_rh
        divide_le_0_iff)
next
  case False
  then show ?thesis using assms by (simp add: rnd_mag_def rmag_def divide_le_0_iff)
qed


section \<open>Rounding is monotone and exact on representable values\<close>

lemma rmag_nonneg: "0 \<le> rmag x"
proof (cases "x \<le> 0")
  case False
  let ?e = "max (\<lfloor>log 2 x\<rfloor> - 52) (- 1074)"
  have "0 \<le> rh (x / 2 powi ?e)"
    using rh_mono [of 0 "x / 2 powi ?e"] rh_of_int [of 0] False by simp
  moreover have "0 \<le> (?e + 1074) * 4503599627370496" by (intro mult_nonneg_nonneg) simp_all
  ultimately show ?thesis using False by (simp add: rmag_def Let_def inf_idx_def)
qed (simp add: rmag_def)

lemma rmag_le_inf: "rmag x \<le> inf_idx"
  by (simp add: rmag_def Let_def inf_idx_def)

lemma rmag_bound: "rmag x < 9223372036854775808"
  using rmag_le_inf [of x] by (simp add: inf_idx_def)

lemma rmag_mono:
  assumes "x \<le> y"
  shows "rmag x \<le> rmag y"
proof (cases "0 < x")
  case False
  then show ?thesis using rmag_nonneg [of y] by (simp add: rmag_def)
next
  case True
  with assms have y0: "0 < y" by simp
  define ex where "ex = max (\<lfloor>log 2 x\<rfloor> - 52) (- 1074)"
  define ey where "ey = max (\<lfloor>log 2 y\<rfloor> - 52) (- 1074)"
  have "\<lfloor>log 2 x\<rfloor> \<le> \<lfloor>log 2 y\<rfloor>" using assms True by (intro floor_mono) simp
  then have le: "ex \<le> ey" by (simp add: ex_def ey_def)
  have "rh (x / 2 powi ex) + (ex + 1074) * 4503599627370496
      \<le> rh (y / 2 powi ey) + (ey + 1074) * 4503599627370496"
  proof (cases "ex = ey")
    case True
    have "rh (x / 2 powi ex) \<le> rh (y / 2 powi ex)"
      using assms by (intro rh_mono divide_right_mono) simp_all
    with True show ?thesis by simp
  next
    case False
    with le have lt: "ex + 1 \<le> ey" by simp
    then have ey: "ey = \<lfloor>log 2 y\<rfloor> - 52" by (auto simp: ex_def ey_def max_def split: if_splits)
    have "2 powi (ey + 52) \<le> y" using floor_log_bounds [OF y0] ey by simp
    then have "of_int 4503599627370496 \<le> y / 2 powi ey"
      by (simp add: power_int_add field_simps)
    then have hy: "4503599627370496 \<le> rh (y / 2 powi ey)"
      using rh_mono rh_of_int by metis
    have "\<lfloor>log 2 x\<rfloor> + 1 \<le> ex + 53" by (simp add: ex_def)
    then have "x < 2 powi (ex + 53)"
      using floor_log_bounds [OF \<open>0 < x\<close>] power_int_increasing [of "\<lfloor>log 2 x\<rfloor> + 1" "ex + 53" "2::real"]
      by simp
    then have "x / 2 powi ex \<le> of_int 9007199254740992"
      by (simp add: power_int_add field_simps)
    then have hx: "rh (x / 2 powi ex) \<le> 9007199254740992"
      using rh_mono rh_of_int by metis
    have "(ex + 1 + 1074) * 4503599627370496 \<le> (ey + 1074) * 4503599627370496"
      using lt by simp
    with hx hy show ?thesis by (simp add: algebra_simps)
  qed
  then show ?thesis
    using True y0 by (simp add: rmag_def Let_def flip: ex_def ey_def)
qed

lemma mval_0 [simp]: "mval 0 = 0"
  by (simp add: mval_def f_man_def)

lemma mval_nonneg [simp]: "0 \<le> i \<Longrightarrow> 0 \<le> mval i"
  by (simp add: mval_def f_man_def)

lemma mval_pos: "0 < i \<Longrightarrow> 0 < mval i"
  by (auto simp: mval_def f_man_def add_pos_nonneg)

lemma mval_eq_0: "0 \<le> i \<Longrightarrow> mval i = 0 \<longleftrightarrow> i = 0"
  using mval_pos [of i] by (cases "i = 0") auto

lemma rmag_mval_sub:
  assumes "0 < i" and "i < 4503599627370496"
  shows "rmag (mval i) = i"
proof -
  let ?x = "mval i"
  have x: "?x = of_int i * 2 powi (- 1074)" using assms by (simp add: mval_def f_man_def f_ex_def)
  have x0: "0 < ?x" using assms(1) by (rule mval_pos)
  have "?x < 2 powi 52 * 2 powi (- 1074)"
    unfolding x using assms by (intro mult_strict_right_mono) simp_all
  then have lt: "?x < 2 powi (- 1022)" by (simp flip: power_int_add)
  have "\<lfloor>log 2 ?x\<rfloor> < - 1022"
  proof (rule ccontr)
    assume "\<not> ?thesis"
    then have "2 powi (- 1022) \<le> (2::real) powi \<lfloor>log 2 ?x\<rfloor>" by (intro power_int_increasing) simp_all
    with floor_log_bounds(1) [OF x0] lt show False by linarith
  qed
  then have "\<lfloor>log 2 ?x\<rfloor> - 52 \<le> - 1074" by linarith
  then have e: "max (\<lfloor>log 2 ?x\<rfloor> - 52) (- 1074) = - 1074" by (rule max_absorb2)
  have "?x / 2 powi (- 1074) = of_int i" by (simp add: x)
  then show ?thesis using assms x0 unfolding rmag_def e Let_def by (simp add: inf_idx_def)
qed

lemma rmag_mval_norm:
  assumes "4503599627370496 \<le> i" and "i < inf_idx"
  shows "rmag (mval i) = i"
proof -
  define k where "k = i div 4503599627370496"
  define f where "f = i mod 4503599627370496"
  have i: "i = k * 4503599627370496 + f" by (simp add: k_def f_def)
  have f: "0 \<le> f" "f < 4503599627370496" by (simp_all add: f_def)
  have k: "1 \<le> k" using i f assms(1) by linarith
  let ?x = "mval i" and ?e = "k - 1075"
  have x: "?x = of_int (4503599627370496 + f) * 2 powi ?e"
    using assms(1) by (simp add: mval_def f_man_def f_ex_def k_def f_def)
  have x0: "0 < ?x" using assms(1) by (intro mval_pos) simp
  have "2 powi (?e + 52) = (4503599627370496::real) * 2 powi ?e"
    by (subst power_int_add) simp_all
  moreover have "\<dots> \<le> ?x" unfolding x using f by (intro mult_right_mono) simp_all
  ultimately have lo: "2 powi (?e + 52) \<le> ?x" by simp
  have "?x < 9007199254740992 * 2 powi ?e" unfolding x using f by (intro mult_strict_right_mono) simp_all
  moreover have "2 powi (?e + 52 + 1) = (9007199254740992::real) * 2 powi ?e"
    unfolding add.assoc by (subst power_int_add) simp_all
  ultimately have hi: "?x < 2 powi (?e + 52 + 1)" by simp
  have e: "max (\<lfloor>log 2 ?x\<rfloor> - 52) (- 1074) = ?e"
    using floor_log_powi [OF x0 lo hi] k by simp
  have q: "?x / 2 powi ?e = of_int (4503599627370496 + f)" by (simp add: x)
  have "rmag ?x = min inf_idx ((4503599627370496 + f) + (?e + 1074) * 4503599627370496)"
    using x0 unfolding rmag_def e Let_def q rh_of_int by simp
  also have "(4503599627370496 + f) + (?e + 1074) * 4503599627370496 = i"
    by (simp add: i algebra_simps)
  finally show ?thesis using assms(2) by simp
qed

lemma rmag_mval: "0 \<le> i \<Longrightarrow> i < inf_idx \<Longrightarrow> rmag (mval i) = i"
  using rmag_mval_sub rmag_mval_norm by (cases "i = 0"; cases "i < 4503599627370496") (auto simp: rmag_def)

lemma mval_less_iff:
  assumes "0 \<le> i" "i < inf_idx" "0 \<le> j" "j < inf_idx"
  shows "mval i < mval j \<longleftrightarrow> i < j"
  using assms rmag_mono [of "mval i" "mval j"] rmag_mono [of "mval j" "mval i"]
  by (metis linorder_not_less order_less_le rmag_mval)

lemma mval_le_iff:
  assumes "0 \<le> i" "i < inf_idx" "0 \<le> j" "j < inf_idx"
  shows "mval i \<le> mval j \<longleftrightarrow> i \<le> j"
  using mval_less_iff [OF assms(3,4,1,2)] by (simp add: linorder_not_less [symmetric])

section \<open>Comparison\<close>

definition f_key :: "f64 \<Rightarrow> int" where
  "f_key w = (if f_isneg w then - f_idx w else f_idx w)"

definition f_lt :: "f64 \<Rightarrow> f64 \<Rightarrow> bool" where
  "f_lt a b \<longleftrightarrow> \<not> f_isnan a \<and> \<not> f_isnan b \<and> f_key a < f_key b"

definition f_le :: "f64 \<Rightarrow> f64 \<Rightarrow> bool" where
  "f_le a b \<longleftrightarrow> \<not> f_isnan a \<and> \<not> f_isnan b \<and> f_key a \<le> f_key b"

text \<open>Python's \<open>==\<close> on floats: zeros of both signs are equal, a NaN equals nothing.\<close>

definition f_eq :: "f64 \<Rightarrow> f64 \<Rightarrow> bool" where
  "f_eq a b \<longleftrightarrow> \<not> f_isnan a \<and> \<not> f_isnan b \<and> f_key a = f_key b"

text \<open>\<open>max(a, b)\<close> and \<open>min(a, b)\<close> keep the first argument on a tie.\<close>

definition f_max :: "f64 \<Rightarrow> f64 \<Rightarrow> f64" where
  "f_max a b = (if f_lt a b then b else a)"

definition f_min :: "f64 \<Rightarrow> f64 \<Rightarrow> f64" where
  "f_min a b = (if f_lt b a then b else a)"

lemma f_finite_not_nan: "f_isfinite w \<Longrightarrow> \<not> f_isnan w"
  by (simp add: f_isfinite_def f_isnan_def)

lemma f_finite_not_inf: "f_isfinite w \<Longrightarrow> \<not> f_isinf w"
  by (simp add: f_isfinite_def f_isinf_def)

lemma f_le_key: "f_isfinite a \<Longrightarrow> f_isfinite b \<Longrightarrow> f_le a b \<longleftrightarrow> f_key a \<le> f_key b"
  by (simp add: f_le_def f_finite_not_nan)

lemma f_lt_key: "f_isfinite a \<Longrightarrow> f_isfinite b \<Longrightarrow> f_lt a b \<longleftrightarrow> f_key a < f_key b"
  by (simp add: f_lt_def f_finite_not_nan)

lemma f_eq_key: "f_isfinite a \<Longrightarrow> f_isfinite b \<Longrightarrow> f_eq a b \<longleftrightarrow> f_key a = f_key b"
  by (simp add: f_eq_def f_finite_not_nan)

text \<open>The comparison of finite floats is the comparison of their values.\<close>

lemma fval_le_iff:
  assumes "f_isfinite a" and "f_isfinite b"
  shows "fval a \<le> fval b \<longleftrightarrow> f_key a \<le> f_key b"
proof -
  let ?i = "f_idx a" and ?j = "f_idx b"
  have ij: "0 \<le> ?i" "?i < inf_idx" "0 \<le> ?j" "?j < inf_idx"
    using assms by (simp_all add: f_isfinite_def)
  have z: "mval ?i = 0 \<longleftrightarrow> ?i = 0" "mval ?j = 0 \<longleftrightarrow> ?j = 0"
    using ij by (simp_all add: mval_eq_0)
  have m: "0 \<le> mval ?i" "0 \<le> mval ?j" by simp_all
  note le = mval_le_iff [OF ij] mval_le_iff [OF ij(3,4,1,2)]
  show ?thesis
  proof (cases "f_isneg a"; cases "f_isneg b")
    assume "f_isneg a" "\<not> f_isneg b"
    then show ?thesis using m ij unfolding fval_def f_key_def by (simp only: if_True if_False) linarith
  next
    assume n: "\<not> f_isneg a" "f_isneg b"
    have "mval ?i \<le> - mval ?j \<longleftrightarrow> mval ?i = 0 \<and> mval ?j = 0" using m by linarith
    also have "\<dots> \<longleftrightarrow> ?i \<le> - ?j" using z ij by linarith
    finally show ?thesis using n unfolding fval_def f_key_def by (simp only: if_True if_False)
  qed (use le in \<open>simp_all add: fval_def f_key_def\<close>)
qed

lemma f_le_fval: "f_isfinite a \<Longrightarrow> f_isfinite b \<Longrightarrow> f_le a b \<longleftrightarrow> fval a \<le> fval b"
  by (simp add: f_le_key fval_le_iff)

lemma f_lt_fval: "f_isfinite a \<Longrightarrow> f_isfinite b \<Longrightarrow> f_lt a b \<longleftrightarrow> fval a < fval b"
  using fval_le_iff [of b a] by (simp add: f_lt_key linorder_not_le [symmetric])

section \<open>Arithmetic\<close>

definition rnd_scaled :: "int \<Rightarrow> int \<Rightarrow> int" where
  "rnd_scaled n e = (if 0 \<le> e then rnd_mag (n * 2 ^ nat e) 1 else rnd_mag n (2 ^ nat (- e)))"

lemma rnd_scaled_eq: "rnd_scaled n e = rmag (of_int n * 2 powi e)"
  by (simp add: rnd_scaled_def rnd_mag_eq powi_nat_cases field_simps)

definition f_neg :: "f64 \<Rightarrow> f64" where
  "f_neg w = f_pack (\<not> f_isneg w) (f_idx w)"

definition f_abs :: "f64 \<Rightarrow> f64" where
  "f_abs w = f_pack False (f_idx w)"

definition f_mul :: "f64 \<Rightarrow> f64 \<Rightarrow> f64" where
  "f_mul a b =
     (if f_isnan a \<or> f_isnan b then f_nan
      else let s = (f_isneg a \<noteq> f_isneg b) in
        if f_isinf a \<or> f_isinf b
        then (if f_idx a = 0 \<or> f_idx b = 0 then f_nan else f_pack s inf_idx)
        else f_pack s (rnd_scaled (f_man (f_idx a) * f_man (f_idx b))
                         (f_ex (f_idx a) + f_ex (f_idx b))))"

definition f_sman :: "f64 \<Rightarrow> int" where
  "f_sman w = (if f_isneg w then - f_man (f_idx w) else f_man (f_idx w))"

definition f_add :: "f64 \<Rightarrow> f64 \<Rightarrow> f64" where
  "f_add a b =
     (if f_isnan a \<or> f_isnan b then f_nan
      else if f_isinf a then (if f_isinf b \<and> f_isneg a \<noteq> f_isneg b then f_nan else a)
      else if f_isinf b then b
      else let e = min (f_ex (f_idx a)) (f_ex (f_idx b));
               n = f_sman a * 2 ^ nat (f_ex (f_idx a) - e) + f_sman b * 2 ^ nat (f_ex (f_idx b) - e)
           in if n = 0 then f_pack (f_isneg a \<and> f_isneg b) 0
              else f_pack (n < 0) (rnd_scaled \<bar>n\<bar> e))"

definition f_sub :: "f64 \<Rightarrow> f64 \<Rightarrow> f64" where
  "f_sub a b = f_add a (f_neg b)"

text \<open>Division by a nonzero float; Python raises on a zero divisor.\<close>

definition f_quot :: "f64 \<Rightarrow> f64 \<Rightarrow> f64" where
  "f_quot a b =
     (if f_isnan a \<or> f_isnan b then f_nan
      else let s = (f_isneg a \<noteq> f_isneg b) in
        if f_isinf a then (if f_isinf b then f_nan else f_pack s inf_idx)
        else if f_isinf b then f_pack s 0
        else let e = f_ex (f_idx a) - f_ex (f_idx b)
             in f_pack s (if 0 \<le> e then rnd_mag (f_man (f_idx a) * 2 ^ nat e) (f_man (f_idx b))
                          else rnd_mag (f_man (f_idx a)) (f_man (f_idx b) * 2 ^ nat (- e))))"

definition f_div :: "f64 \<Rightarrow> f64 \<Rightarrow> f64 res" where
  "f_div a b = (if f_idx b = 0 then Inl (ZeroDivisionErr ''float division by zero'')
                else Inr (f_quot a b))"

text \<open>
  \<open>int / int\<close> and \<open>float(int)\<close>: the exact quotient rounded once; an \<open>OverflowError\<close>
  where the result would be infinite.
\<close>

definition f_of_ratio :: "int \<Rightarrow> int \<Rightarrow> f64 res" where
  "f_of_ratio n d =
     (if d = 0 then Inl (ZeroDivisionErr ''division by zero'')
      else let i = rnd_mag \<bar>n\<bar> \<bar>d\<bar>
           in if i = inf_idx then Inl (OverflowErr ''integer division result too large for a float'')
              else Inr (f_pack ((n < 0) \<noteq> (d < 0) \<and> n \<noteq> 0) i))"

definition f_of_int :: "int \<Rightarrow> f64 res" where
  "f_of_int n =
     (let i = rnd_mag \<bar>n\<bar> 1
      in if i = inf_idx then Inl (OverflowErr ''int too large to convert to float'')
         else Inr (f_pack (n < 0) i))"

lemma rnd_scaled_bounds: "0 \<le> rnd_scaled n e" "rnd_scaled n e < 9223372036854775808"
  by (simp_all add: rnd_scaled_eq rmag_nonneg rmag_bound)

lemma f_mul_finite:
  assumes "f_isfinite a" and "f_isfinite b"
  shows "f_idx (f_mul a b) = rmag (mval (f_idx a) * mval (f_idx b))"
    and "f_isneg (f_mul a b) = (f_isneg a \<noteq> f_isneg b)"
proof -
  have "of_int (f_man (f_idx a) * f_man (f_idx b)) * 2 powi (f_ex (f_idx a) + f_ex (f_idx b))
      = mval (f_idx a) * mval (f_idx b)"
    by (simp add: mval_def power_int_add)
  then have r: "rnd_scaled (f_man (f_idx a) * f_man (f_idx b)) (f_ex (f_idx a) + f_ex (f_idx b))
      = rmag (mval (f_idx a) * mval (f_idx b))"
    by (simp only: rnd_scaled_eq)
  have m: "f_mul a b = f_pack (f_isneg a \<noteq> f_isneg b) (rmag (mval (f_idx a) * mval (f_idx b)))"
    using assms by (simp add: f_mul_def Let_def r f_finite_not_nan f_finite_not_inf)
  show "f_idx (f_mul a b) = rmag (mval (f_idx a) * mval (f_idx b))"
    unfolding m by (rule f_idx_pack [OF rmag_nonneg rmag_bound])
  show "f_isneg (f_mul a b) = (f_isneg a \<noteq> f_isneg b)"
    unfolding m by (rule f_isneg_pack [OF rmag_nonneg rmag_bound])
qed

lemma mval_one: "mval (f_idx f_one) = 1"
  by (simp add: f_idx_def f_one_def mval_def f_man_def f_ex_def power_int_def power_one_over)

lemma f_one_facts [simp]: "f_isfinite f_one" "\<not> f_isneg f_one"
  by (simp_all add: f_isfinite_def f_isneg_def f_idx_def f_one_def inf_idx_def)

lemma f_mul_one:
  assumes "f_isfinite a"
  shows "f_mul a f_one = a"
proof -
  have "rmag (mval (f_idx a)) = f_idx a"
    using assms by (intro rmag_mval) (simp_all add: f_isfinite_def)
  then show ?thesis
    using f_mul_finite [OF assms f_one_facts(1)] by (simp add: f_eq_iff mval_one)
qed

lemma f_mul_mono_idx:
  assumes "f_isfinite a" "f_isfinite b" "f_isfinite c" "f_idx a \<le> f_idx b"
  shows "f_idx (f_mul a c) \<le> f_idx (f_mul b c)"
proof -
  have "mval (f_idx a) \<le> mval (f_idx b)"
    using assms by (simp add: mval_le_iff f_isfinite_def)
  then show ?thesis
    using assms by (simp add: f_mul_finite rmag_mono mult_right_mono)
qed

section \<open>Integer parts\<close>

text \<open>\<open>math.floor\<close>, \<open>math.ceil\<close> and \<open>int\<close> of a finite float.\<close>

definition f_floor :: "f64 \<Rightarrow> int" where
  "f_floor x = (let e = f_ex (f_idx x) in
     if 0 \<le> e then f_sman x * 2 ^ nat e else f_sman x div 2 ^ nat (- e))"

definition f_ceil :: "f64 \<Rightarrow> int" where
  "f_ceil x = (let e = f_ex (f_idx x) in
     if 0 \<le> e then f_sman x * 2 ^ nat e else - ((- f_sman x) div 2 ^ nat (- e)))"

definition f_trunc :: "f64 \<Rightarrow> int" where
  "f_trunc x = (if f_isneg x then f_ceil x else f_floor x)"

text \<open>\<open>round(x)\<close> of a finite float: to the nearest integer, the even one on a tie.\<close>

definition f_round :: "f64 \<Rightarrow> int" where
  "f_round x = (let e = f_ex (f_idx x) in
     if 0 \<le> e then f_sman x * 2 ^ nat e else rhe (f_sman x) (2 ^ nat (- e)))"

definition f_of_int_exact :: "int \<Rightarrow> f64" where
  "f_of_int_exact n = f_pack (n < 0) (rnd_mag \<bar>n\<bar> 1)"

text \<open>C's \<open>fmod\<close> of finite floats with a nonzero divisor: exact, with the sign of the dividend.\<close>

definition f_fmod :: "f64 \<Rightarrow> f64 \<Rightarrow> f64" where
  "f_fmod a b =
     (let e = min (f_ex (f_idx a)) (f_ex (f_idx b));
          m = f_man (f_idx a) * 2 ^ nat (f_ex (f_idx a) - e);
          n = f_man (f_idx b) * 2 ^ nat (f_ex (f_idx b) - e)
      in f_pack (f_isneg a) (rnd_scaled (m mod n) e))"

text \<open>Python's \<open>a // b\<close> on finite floats with a positive divisor.\<close>

definition f_floordiv :: "f64 \<Rightarrow> f64 \<Rightarrow> f64" where
  "f_floordiv a b =
     (let m = f_fmod a b;
          d = f_quot (f_sub a m) b;
          d' = (if f_idx m \<noteq> 0 \<and> f_isneg m then f_sub d f_one else d)
      in if f_idx d' = 0 then f_pack (f_isneg a) 0
         else let fl = f_of_int_exact (f_floor d')
              in if f_lt 4602678819172646912 (f_sub d' fl) then f_add fl f_one else fl)"

lemma f_floor_fval:
  assumes "f_isfinite x"
  shows "f_floor x = \<lfloor>fval x\<rfloor>" and "f_ceil x = \<lceil>fval x\<rceil>"
proof -
  have v: "fval x = of_int (f_sman x) * 2 powi f_ex (f_idx x)"
    by (simp add: fval_def mval_def f_sman_def)
  show "f_floor x = \<lfloor>fval x\<rfloor>"
  proof (cases "0 \<le> f_ex (f_idx x)")
    case True
    then have "fval x = of_int (f_sman x * 2 ^ nat (f_ex (f_idx x)))" by (simp add: v powi_nat_cases)
    with True show ?thesis by (simp only: floor_of_int) (simp add: f_floor_def Let_def)
  next
    case False
    then have "fval x = of_int (f_sman x) / of_int (2 ^ nat (- f_ex (f_idx x)))"
      by (simp add: v powi_nat_cases divide_inverse)
    with False show ?thesis by (simp only: floor_divide_of_int_eq) (simp add: f_floor_def Let_def)
  qed
  show "f_ceil x = \<lceil>fval x\<rceil>"
  proof (cases "0 \<le> f_ex (f_idx x)")
    case True
    then have "fval x = of_int (f_sman x * 2 ^ nat (f_ex (f_idx x)))" by (simp add: v powi_nat_cases)
    with True show ?thesis by (simp only: ceiling_of_int) (simp add: f_ceil_def Let_def)
  next
    case False
    then have "- fval x = of_int (- f_sman x) / of_int (2 ^ nat (- f_ex (f_idx x)))"
      by (simp add: v powi_nat_cases divide_inverse)
    then have "\<lfloor>- fval x\<rfloor> = (- f_sman x) div 2 ^ nat (- f_ex (f_idx x))"
      by (simp only: floor_divide_of_int_eq)
    with False show ?thesis by (simp add: ceiling_def f_ceil_def Let_def)
  qed
qed

end
