(* ===== verification/Decimal34.thy ===== *)
theory Decimal34
  imports Text Float64
begin

text \<open>
  Python's \<open>decimal\<close>: finite decimals as sign, coefficient and exponent, the
  context rounding \<open>_fix\<close> of the General Decimal Arithmetic with the default
  exponent range, and the operations the program applies under a 34-digit
  half-even context.  Also the two conversions between decimals and binary64:
  \<open>float(Decimal)\<close> (one correct rounding) and \<open>Decimal(str(float))\<close> (the
  shortest decimal that converts back).
\<close>

datatype dec = Dec bool int int | DecInf bool | DecNaN

definition e_max :: int where "e_max = 999999"
definition e_min :: int where "e_min = - 999999"

definition decimal_precision :: nat where
  "decimal_precision = 34"

fun dec_finite :: "dec \<Rightarrow> bool" where
  "dec_finite (Dec s c e) = True"
| "dec_finite _ = False"

text \<open>\<open>value > 0\<close>; a NaN compares false (a signalling comparison is not modelled).\<close>

fun dec_positive :: "dec \<Rightarrow> bool" where
  "dec_positive (Dec s c e) = (\<not> s \<and> 0 < c)"
| "dec_positive (DecInf s) = (\<not> s)"
| "dec_positive DecNaN = False"

fun dval :: "dec \<Rightarrow> real" where
  "dval (Dec s c e) = (if s then -1 else 1) * of_int c * 10 powi e"
| "dval _ = 0"

definition ndigits :: "int \<Rightarrow> int" where
  "ndigits c = int (length (nat_digits c))"

section \<open>Rounding to a context\<close>

text \<open>\<open>_fix\<close>: round to \<open>prec\<close> digits, half even; overflow is trapped, underflow is not.\<close>

definition dec_fix :: "nat \<Rightarrow> bool \<Rightarrow> int \<Rightarrow> int \<Rightarrow> dec res" where
  "dec_fix prec s c e =
     (let etiny = e_min - int prec + 1; etop = e_max - int prec + 1 in
      if c = 0 then Inr (Dec s 0 (min (max e etiny) e_max))
      else let m0 = ndigits c + e - int prec in
        if etop < m0 then Inl (DecimalException ''Overflow'')
        else let m = max m0 etiny in
          if m \<le> e then Inr (Dec s c e)
          else let q = rhe c (10 ^ nat (m - e)) in
            if ndigits q > int prec
            then (if etop < m + 1 then Inl (DecimalException ''Overflow'')
                  else Inr (Dec s (q div 10) (m + 1)))
            else Inr (Dec s q m))"

text \<open>Unary plus.\<close>

fun dec_plus :: "nat \<Rightarrow> dec \<Rightarrow> dec res" where
  "dec_plus prec (Dec s c e) = dec_fix prec (s \<and> c \<noteq> 0) c e"
| "dec_plus prec d = Inr d"

fun dec_mul :: "nat \<Rightarrow> dec \<Rightarrow> dec \<Rightarrow> dec res" where
  "dec_mul prec (Dec s c e) (Dec s' c' e') = dec_fix prec (s \<noteq> s') (c * c') (e + e')"
| "dec_mul prec DecNaN _ = Inr DecNaN"
| "dec_mul prec _ DecNaN = Inr DecNaN"
| "dec_mul prec (DecInf s) (DecInf s') = Inr (DecInf (s \<noteq> s'))"
| "dec_mul prec (DecInf s) (Dec s' c e) =
     (if c = 0 then Inl (DecimalException ''InvalidOperation'') else Inr (DecInf (s \<noteq> s')))"
| "dec_mul prec (Dec s c e) (DecInf s') =
     (if c = 0 then Inl (DecimalException ''InvalidOperation'') else Inr (DecInf (s \<noteq> s')))"

text \<open>An exact quotient moves as close to the ideal exponent as its trailing zeros allow.\<close>

function strip_to :: "int \<Rightarrow> int \<Rightarrow> int \<Rightarrow> int \<times> int" where
  "strip_to ideal c e = (if e < ideal \<and> c mod 10 = 0 then strip_to ideal (c div 10) (e + 1) else (c, e))"
  by pat_completeness auto
termination
  by (relation "measure (\<lambda>(ideal, c, e). nat (ideal - e))") auto

declare strip_to.simps [simp del]

fun dec_div :: "nat \<Rightarrow> dec \<Rightarrow> dec \<Rightarrow> dec res" where
  "dec_div prec (Dec s c e) (Dec s' c' e') =
     (if c' = 0 then Inl (DecimalException (if c = 0 then ''InvalidOperation'' else ''DivisionByZero''))
      else if c = 0 then dec_fix prec (s \<noteq> s') 0 (e - e')
      else let shift = ndigits c' - ndigits c + int prec + 1;
               ex = e - e' - shift;
               a = (if 0 \<le> shift then c * 10 ^ nat shift else c);
               b = (if 0 \<le> shift then c' else c' * 10 ^ nat (- shift));
               q = a div b
           in if a mod b \<noteq> 0
              then dec_fix prec (s \<noteq> s') (if q mod 5 = 0 then q + 1 else q) ex
              else (case strip_to (e - e') q ex of (q', ex') \<Rightarrow> dec_fix prec (s \<noteq> s') q' ex'))"
| "dec_div prec DecNaN _ = Inr DecNaN"
| "dec_div prec _ DecNaN = Inr DecNaN"
| "dec_div prec (DecInf s) (DecInf s') = Inl (DecimalException ''InvalidOperation'')"
| "dec_div prec (DecInf s) (Dec s' c e) = Inr (DecInf (s \<noteq> s'))"
| "dec_div prec (Dec s c e) (DecInf s') = dec_fix prec (s \<noteq> s') 0 (e_min - int prec + 1)"

fun dec_add :: "nat \<Rightarrow> dec \<Rightarrow> dec \<Rightarrow> dec res" where
  "dec_add prec (Dec s c e) (Dec s' c' e') =
     (let m = min e e';
          n = (if s then - c else c) * 10 ^ nat (e - m) + (if s' then - c' else c') * 10 ^ nat (e' - m)
      in dec_fix prec (if n = 0 then s \<and> s' else n < 0) \<bar>n\<bar> m)"
| "dec_add prec DecNaN _ = Inr DecNaN"
| "dec_add prec _ DecNaN = Inr DecNaN"
| "dec_add prec (DecInf s) (DecInf s') =
     (if s \<noteq> s' then Inl (DecimalException ''InvalidOperation'') else Inr (DecInf s))"
| "dec_add prec (DecInf s) (Dec s' c e) = Inr (DecInf s)"
| "dec_add prec (Dec s c e) (DecInf s') = Inr (DecInf s')"

section \<open>Rendering\<close>

text \<open>\<open>value.normalize(context)\<close>\<close>

fun dec_normalize :: "nat \<Rightarrow> dec \<Rightarrow> dec res" where
  "dec_normalize prec (Dec s c e) =
     bind_res (dec_fix prec s c e) (\<lambda>d. case d of
         Dec s' c' e' \<Rightarrow>
           (if c' = 0 then Inr (Dec s' 0 0)
            else case strip_to e_max c' e' of (c'', e'') \<Rightarrow> Inr (Dec s' c'' e''))
       | _ \<Rightarrow> Inr d)"
| "dec_normalize prec d = Inr d"

text \<open>\<open>format(value, "f")\<close>\<close>

fun dec_format_f :: "dec \<Rightarrow> string" where
  "dec_format_f (Dec s c e) =
     (let ds = nat_str c;
          e0 = (if c = 0 \<and> 0 < e then 0 else e);
          dot = int (length ds) + e0;
          ip = (if dot < 0 then ''0''
                else if int (length ds) < dot then ds @ replicate (nat dot - length ds) (CHR ''0'')
                else if dot = 0 then ''0'' else take (nat dot) ds);
          fp = (if dot < 0 then replicate (nat (- dot)) (CHR ''0'') @ ds
                else if int (length ds) < dot then [] else drop (nat dot) ds)
      in (if s then ''-'' else []) @ ip @ (if fp = [] then [] else CHR ''.'' # fp))"
| "dec_format_f (DecInf s) = (if s then ''-Infinity'' else ''Infinity'')"
| "dec_format_f DecNaN = ''NaN''"

text \<open>Trailing zeros of a fraction, and a trailing point, are removed; \<open>-0\<close> becomes \<open>0\<close>.\<close>

definition trim_fraction :: "string \<Rightarrow> string" where
  "trim_fraction r =
     (if CHR ''.'' \<in> set r then rstrip_char (CHR ''.'') (rstrip_char (CHR ''0'') r) else r)"

section \<open>Conversions with binary64\<close>

definition dec_idx :: "int \<Rightarrow> int \<Rightarrow> int" where
  "dec_idx c e = (if 0 \<le> e then rnd_mag (c * 10 ^ nat e) 1 else rnd_mag c (10 ^ nat (- e)))"

fun f_of_dec :: "dec \<Rightarrow> f64" where
  "f_of_dec (Dec s c e) = f_pack s (dec_idx c e)"
| "f_of_dec (DecInf s) = f_pack s inf_idx"
| "f_of_dec DecNaN = f_nan"

text \<open>
  \<open>repr\<close> of a positive finite float: \<open>shortest k i\<close> looks for the least number of
  significant digits, from \<open>18 - k\<close> to 17, for which one of the two neighbouring
  decimals converts back to the index \<open>i\<close>, and takes the nearer one (the even one
  on a tie).  Seventeen digits always suffice; the exact expansion that ends the
  search is never reached.
\<close>

definition val_num :: "int \<Rightarrow> int" where
  "val_num i = (if 0 \<le> f_ex i then f_man i * 2 ^ nat (f_ex i) else f_man i)"

definition val_den :: "int \<Rightarrow> int" where
  "val_den i = (if 0 \<le> f_ex i then 1 else 2 ^ nat (- f_ex i))"

definition ilog10 :: "int \<Rightarrow> int \<Rightarrow> int" where
  "ilog10 n d = (let k = ndigits n - ndigits d in
     if (if 0 \<le> k then d * 10 ^ nat k \<le> n else d \<le> n * 10 ^ nat (- k)) then k else k - 1)"

definition near_decimal :: "int \<Rightarrow> int \<Rightarrow> (int \<times> int) option" where
  "near_decimal k i =
     (let n = val_num i; d = val_den i;
          p = ilog10 n d + 1 - k;
          a = (if 0 \<le> p then n else n * 10 ^ nat (- p));
          b = (if 0 \<le> p then d * 10 ^ nat p else d);
          q = a div b;
          lo = dec_idx q p = i; hi = dec_idx (q + 1) p = i;
          up = 2 * (a mod b) > b \<or> (2 * (a mod b) = b \<and> odd q)
      in if lo \<and> (\<not> hi \<or> \<not> up) then Some (q, p)
         else if hi then Some (q + 1, p) else None)"

fun shortest :: "nat \<Rightarrow> int \<Rightarrow> int \<times> int" where
  "shortest 0 i = (if 0 \<le> f_ex i then (f_man i * 2 ^ nat (f_ex i), 0)
                   else (f_man i * 5 ^ nat (- f_ex i), f_ex i))"
| "shortest (Suc k) i = (case near_decimal (17 - int k) i of Some r \<Rightarrow> r | None \<Rightarrow> shortest k i)"

text \<open>\<open>Decimal(str(x))\<close> for a finite \<open>x\<close>.\<close>

definition dec_of_float_str :: "f64 \<Rightarrow> dec" where
  "dec_of_float_str x =
     (if f_idx x = 0 then Dec (f_isneg x) 0 (- 1)
      else case shortest 17 (f_idx x) of (q, p) \<Rightarrow>
        (let dot = ndigits q + p in
         if 0 \<le> p \<and> dot \<le> 16 then Dec (f_isneg x) (q * 10 ^ nat (p + 1)) (- 1)
         else Dec (f_isneg x) q p))"

lemma dec_idx_eq: "dec_idx c e = rmag (of_int c * 10 powi e)"
  by (auto simp: dec_idx_def rnd_mag_eq power_int_def power_one_over inverse_eq_divide field_simps)

lemma dec_idx_bounds: "0 \<le> dec_idx c e" "dec_idx c e < 9223372036854775808"
  unfolding dec_idx_eq by (rule rmag_nonneg rmag_bound)+

lemma f_of_dec_idx: "f_idx (f_of_dec (Dec s c e)) = rmag (of_int c * 10 powi e)"
  using dec_idx_bounds [of c e] by (simp add: dec_idx_eq)

lemma f_of_dec_neg: "f_isneg (f_of_dec (Dec s c e)) = s"
  using dec_idx_bounds [of c e] by simp

lemma near_decimal_idx: "near_decimal k i = Some (q, p) \<Longrightarrow> dec_idx q p = i"
  by (auto simp: near_decimal_def Let_def split: if_splits)

lemma shortest_idx:
  assumes "0 \<le> i" and "i < inf_idx" and "shortest k i = (q, p)"
  shows "dec_idx q p = i"
  using assms(3)
proof (induction k)
  case 0
  have "of_int q * 10 powi p = mval i"
  proof (cases "0 \<le> f_ex i")
    case True
    with 0 show ?thesis by (auto simp: mval_def power_int_def)
  next
    case False
    have "(5::real) ^ nat (- f_ex i) * 10 powi f_ex i = 2 powi f_ex i"
    proof -
      have "(10::real) powi f_ex i = inverse (5 ^ nat (- f_ex i) * 2 ^ nat (- f_ex i))"
        using False by (simp add: power_int_def power_one_over inverse_eq_divide flip: power_mult_distrib)
      then show ?thesis using False by (simp add: powi_nat_cases)
    qed
    with False 0 show ?thesis by (auto simp: mval_def)
  qed
  then show ?case using assms(1,2) by (simp add: dec_idx_eq rmag_mval)
next
  case (Suc k)
  then show ?case by (auto split: option.splits dest: near_decimal_idx)
qed

lemma f_of_dec_of_float_str:
  assumes "f_isfinite x"
  shows "f_of_dec (dec_of_float_str x) = x"
proof (cases "f_idx x = 0")
  case True
  then show ?thesis
    using dec_idx_bounds [of 0 "- 1"] by (simp add: dec_of_float_str_def f_eq_iff dec_idx_eq rmag_def)
next
  case False
  obtain q p where s: "shortest 17 (f_idx x) = (q, p)" by (cases "shortest 17 (f_idx x)")
  have i: "dec_idx q p = f_idx x"
    using shortest_idx [OF _ _ s] assms by (simp add: f_isfinite_def)
  moreover have "dec_idx (q * 10 ^ nat (p + 1)) (- 1) = dec_idx q p" if "0 \<le> p"
    using that by (simp add: dec_idx_eq power_int_def nat_add_distrib)
  ultimately show ?thesis
    using False s f_idx_bound [of x] by (auto simp: dec_of_float_str_def Let_def)
qed

end
