(* ===== verification/Json.thy ===== *)
theory Json
  imports Sha256 Decimal34
begin

text \<open>
  The \<open>json\<close> module as the program uses it: \<open>json.dumps\<close> with
  \<open>sort_keys=True, separators=(",", ":"), ensure_ascii=False, allow_nan=False\<close>,
  UTF-8 encoded (the canonical form behind every content address), and
  \<open>json.loads\<close>.  A Python \<open>dict\<close> is an association list in insertion order.
  The main results: parsing a canonical document gives the document back with
  its keys sorted (\<open>loads_canonical\<close>), so the canonical form is injective up to
  the order of keys (\<open>canonical_json_inject\<close>).
\<close>

datatype json =
    JNull
  | JBool bool
  | JInt int
  | JFloat f64
  | JStr string
  | JArr "json list"
  | JObj "(string \<times> json) list"

section \<open>Dictionaries\<close>

definition dict_keys :: "(string \<times> json) list \<Rightarrow> string set" where
  "dict_keys d = fst ` set d"

fun dict_get :: "(string \<times> json) list \<Rightarrow> string \<Rightarrow> json option" where
  "dict_get [] k = None"
| "dict_get ((k', v) # d) k = (if k' = k then Some v else dict_get d k)"

text \<open>Assignment keeps the position of an existing key.\<close>

fun dict_set :: "string \<Rightarrow> json \<Rightarrow> (string \<times> json) list \<Rightarrow> (string \<times> json) list" where
  "dict_set k v [] = [(k, v)]"
| "dict_set k v ((k', v') # d) = (if k' = k then (k, v) # d else (k', v') # dict_set k v d)"

section \<open>Rendering\<close>

text \<open>\<open>float.__repr__\<close> of a finite float\<close>

definition exp_str :: "int \<Rightarrow> string" where
  "exp_str e = (if e < 0 then ''-'' else ''+'') @ zfill 2 \<bar>e\<bar>"

definition f_repr :: "f64 \<Rightarrow> string" where
  "f_repr x =
     (if f_idx x = 0 then (if f_isneg x then ''-0.0'' else ''0.0'')
      else case shortest 17 (f_idx x) of (q, p) \<Rightarrow>
        (let ds = nat_str q; dot = int (length ds) + p in
         if - 3 \<le> dot \<and> dot \<le> 16 then dec_format_f (dec_of_float_str x)
         else (if f_isneg x then ''-'' else []) @ take 1 ds @
              (if length ds = 1 then [] else CHR ''.'' # drop 1 ds) @ ''e'' @ exp_str (dot - 1)))"

definition esc_char :: "char \<Rightarrow> string" where
  "esc_char c =
     (if c = CHR 0x22 then [CHR 0x5C, CHR 0x22]
      else if c = CHR 0x5C then [CHR 0x5C, CHR 0x5C]
      else if c = CHR 0x0A then [CHR 0x5C, CHR ''n'']
      else if c = CHR 0x0D then [CHR 0x5C, CHR ''r'']
      else if c = CHR 0x09 then [CHR 0x5C, CHR ''t'']
      else if c = CHR 0x0C then [CHR 0x5C, CHR ''f'']
      else if c = CHR 0x08 then [CHR 0x5C, CHR ''b'']
      else if cp c < 32 then [CHR 0x5C, CHR ''u''] @ hex_fixed 4 (cp c)
      else [c])"

definition render_str :: "string \<Rightarrow> string" where
  "render_str s = CHR 0x22 # concat (map esc_char s) @ [CHR 0x22]"

fun join_comma :: "string list \<Rightarrow> string" where
  "join_comma [] = []"
| "join_comma [s] = s"
| "join_comma (s # t # ts) = s @ CHR '','' # join_comma (t # ts)"

fun render :: "json \<Rightarrow> string" where
  "render JNull = ''null''"
| "render (JBool b) = (if b then ''true'' else ''false'')"
| "render (JInt i) = int_str i"
| "render (JFloat x) = f_repr x"
| "render (JStr s) = render_str s"
| "render (JArr js) = CHR ''['' # join_comma (map render js) @ '']''"
| "render (JObj d) = CHR ''{'' # join_comma (map (\<lambda>(k, v). render_str k @ CHR '':'' # render v) d) @ ''}''"

text \<open>\<open>sort_keys=True\<close>: every object with its keys in code-point order.\<close>

fun jsort :: "json \<Rightarrow> json" where
  "jsort (JArr js) = JArr (map jsort js)"
| "jsort (JObj d) = JObj (sort_key fst (map (\<lambda>(k, v). (k, jsort v)) d))"
| "jsort j = j"

fun all_floats_finite :: "json \<Rightarrow> bool" where
  "all_floats_finite (JFloat x) = f_isfinite x"
| "all_floats_finite (JArr js) = (\<forall>j \<in> set js. all_floats_finite j)"
| "all_floats_finite (JObj d) = (\<forall>(k, v) \<in> set d. all_floats_finite v)"
| "all_floats_finite j = True"

definition canonical_bytes :: "json \<Rightarrow> bytes" where
  "canonical_bytes j = utf8_encode (render (jsort j))"

definition canonical_json :: "json \<Rightarrow> bytes res" where
  "canonical_json j =
     (if all_floats_finite j then Inr (canonical_bytes j)
      else Inl (ValueError ''Out of range float values are not JSON compliant''))"

section \<open>Parsing\<close>

definition is_ws :: "char \<Rightarrow> bool" where
  "is_ws c \<longleftrightarrow> cp c = 32 \<or> cp c = 9 \<or> cp c = 10 \<or> cp c = 13"

definition skip_ws :: "string \<Rightarrow> string" where
  "skip_ws s = dropWhile is_ws s"

definition is_hex :: "char \<Rightarrow> bool" where
  "is_hex c \<longleftrightarrow> is_hex_lower c \<or> (65 \<le> cp c \<and> cp c \<le> 70)"

definition hex_val_any :: "char \<Rightarrow> int" where
  "hex_val_any c = (if 65 \<le> cp c \<and> cp c \<le> 70 then cp c - 55 else hex_val c)"

definition unescape :: "char \<Rightarrow> char option" where
  "unescape c =
     (if c = CHR 0x22 \<or> c = CHR 0x5C \<or> c = CHR ''/'' then Some c
      else if c = CHR ''n'' then Some (CHR 0x0A)
      else if c = CHR ''r'' then Some (CHR 0x0D)
      else if c = CHR ''t'' then Some (CHR 0x09)
      else if c = CHR ''f'' then Some (CHR 0x0C)
      else if c = CHR ''b'' then Some (CHR 0x08)
      else None)"

text \<open>A string after its opening quote; a code point above 255 is outside the model.\<close>

fun parse_str :: "string \<Rightarrow> (string \<times> string) option" where
  "parse_str [] = None"
| "parse_str (c # cs) =
     (if c = CHR 0x22 then Some ([], cs)
      else if c = CHR 0x5C then
        (case cs of
           [] \<Rightarrow> None
         | e # es \<Rightarrow>
             if e = CHR ''u'' then
               (case es of
                  h1 # h2 # h3 # h4 # r \<Rightarrow>
                    if is_hex h1 \<and> is_hex h2 \<and> is_hex h3 \<and> is_hex h4 then
                      let u = ((hex_val_any h1 * 16 + hex_val_any h2) * 16 + hex_val_any h3) * 16 + hex_val_any h4
                      in if u < 256 then map_option (\<lambda>(s, t). (char_of u # s, t)) (parse_str r) else None
                    else None
                | _ \<Rightarrow> None)
             else (case unescape e of
                     None \<Rightarrow> None
                   | Some d \<Rightarrow> map_option (\<lambda>(s, t). (d # s, t)) (parse_str es)))
      else if cp c < 32 then None
      else map_option (\<lambda>(s, t). (c # s, t)) (parse_str cs))"

text \<open>\<open>(-?(?:0|[1-9]\d*))(\.\d+)?([eE][-+]?\d+)?\<close>\<close>

definition take_digits :: "string \<Rightarrow> string \<times> string" where
  "take_digits s = (takeWhile is_digit s, dropWhile is_digit s)"

definition parse_frac :: "string \<Rightarrow> string \<times> string" where
  "parse_frac s = (case s of
       c # r \<Rightarrow> if c = CHR ''.'' \<and> fst (take_digits r) \<noteq> [] then take_digits r else ([], s)
     | [] \<Rightarrow> ([], s))"

definition parse_exp :: "string \<Rightarrow> int option \<times> string" where
  "parse_exp s = (case s of
       c # r \<Rightarrow>
         if c = CHR ''e'' \<or> c = CHR ''E'' then
           (let neg = (r \<noteq> [] \<and> hd r = CHR ''-'');
                r' = (if r \<noteq> [] \<and> (hd r = CHR ''-'' \<or> hd r = CHR ''+'') then tl r else r);
                ds = fst (take_digits r')
            in if ds = [] then (None, s)
               else (Some (if neg then - digits_val ds else digits_val ds), snd (take_digits r')))
         else (None, s)
     | [] \<Rightarrow> (None, s))"

definition parse_num :: "string \<Rightarrow> (json \<times> string) option" where
  "parse_num s =
     (let neg = (s \<noteq> [] \<and> hd s = CHR ''-'');
          s1 = (if neg then tl s else s);
          ip = (if s1 \<noteq> [] \<and> hd s1 = CHR ''0'' then ''0'' else fst (take_digits s1));
          s2 = drop (length ip) s1
      in if ip = [] then None
         else let (fp, s3) = parse_frac s2; (ex, s4) = parse_exp s3
              in if fp = [] \<and> ex = None
                 then Some (JInt (if neg then - digits_val ip else digits_val ip), s4)
                 else Some (JFloat (f_of_dec (Dec neg (digits_val (ip @ fp))
                              ((case ex of None \<Rightarrow> 0 | Some e \<Rightarrow> e) - int (length fp)))), s4))"

definition parse_scalar :: "string \<Rightarrow> (json \<times> string) option" where
  "parse_scalar s =
     (if startswith s ''null'' then Some (JNull, drop 4 s)
      else if startswith s ''true'' then Some (JBool True, drop 4 s)
      else if startswith s ''false'' then Some (JBool False, drop 5 s)
      else parse_num s)"

text \<open>
  The hooks of \<open>json.loads\<close>: \<open>object_pairs_hook\<close> receives the members of an object in
  their textual order, duplicates included; \<open>parse_constant\<close> receives the name of a
  non-finite constant.  Both may raise.
\<close>

record json_hooks =
  jh_object :: "(string \<times> json) list \<Rightarrow> json res"
  jh_constant :: "string \<Rightarrow> json res"

definition json_error :: exn where
  "json_error = ValueError ''JSONDecodeError''"

text \<open>
  The recursive scanner.  The fuel argument: two units pay for each character
  consumed, so \<open>2 * length s + 2\<close> is enough for every text \<open>s\<close>.
\<close>

fun parse_value :: "json_hooks \<Rightarrow> nat \<Rightarrow> string \<Rightarrow> (json \<times> string) res"
and parse_elems :: "json_hooks \<Rightarrow> nat \<Rightarrow> string \<Rightarrow> (json list \<times> string) res"
and parse_members :: "json_hooks \<Rightarrow> nat \<Rightarrow> string \<Rightarrow> ((string \<times> json) list \<times> string) res" where
  "parse_value h 0 s = Inl json_error"
| "parse_value h (Suc n) s =
     (case s of
        [] \<Rightarrow> Inl json_error
      | c # cs \<Rightarrow>
          if c = CHR 0x22 then (case parse_str cs of None \<Rightarrow> Inl json_error | Some (t, r) \<Rightarrow> Inr (JStr t, r))
          else if c = CHR ''{'' then
            (case skip_ws cs of
               [] \<Rightarrow> Inl json_error
             | d # ds \<Rightarrow> if d = CHR ''}'' then bind_res (jh_object h []) (\<lambda>j. Inr (j, ds))
                 else bind_res (parse_members h n (d # ds)) (\<lambda>(m, r).
                      bind_res (jh_object h m) (\<lambda>j. Inr (j, r))))
          else if c = CHR ''['' then
            (case skip_ws cs of
               [] \<Rightarrow> Inl json_error
             | d # ds \<Rightarrow> if d = CHR '']'' then Inr (JArr [], ds)
                 else bind_res (parse_elems h n (d # ds)) (\<lambda>(m, r). Inr (JArr m, r)))
          else (case parse_scalar s of
                  Some r \<Rightarrow> Inr r
                | None \<Rightarrow>
                    if startswith s ''NaN'' then bind_res (jh_constant h ''NaN'') (\<lambda>j. Inr (j, drop 3 s))
                    else if startswith s ''Infinity'' then bind_res (jh_constant h ''Infinity'') (\<lambda>j. Inr (j, drop 8 s))
                    else if startswith s ''-Infinity'' then bind_res (jh_constant h ''-Infinity'') (\<lambda>j. Inr (j, drop 9 s))
                    else Inl json_error))"
| "parse_elems h 0 s = Inl json_error"
| "parse_elems h (Suc n) s =
     bind_res (parse_value h n s) (\<lambda>(v, r).
       (case skip_ws r of
          [] \<Rightarrow> Inl json_error
        | d # ds \<Rightarrow>
            if d = CHR '']'' then Inr ([v], ds)
            else if d = CHR '','' then bind_res (parse_elems h n (skip_ws ds)) (\<lambda>(vs, t). Inr (v # vs, t))
            else Inl json_error))"
| "parse_members h 0 s = Inl json_error"
| "parse_members h (Suc n) s =
     (case s of
        [] \<Rightarrow> Inl json_error
      | q # qs \<Rightarrow>
          if q \<noteq> CHR 0x22 then Inl json_error
          else (case parse_str qs of
             None \<Rightarrow> Inl json_error
           | Some (k, r) \<Rightarrow>
               (case skip_ws r of
                  [] \<Rightarrow> Inl json_error
                | d # ds \<Rightarrow>
                    if d \<noteq> CHR '':'' then Inl json_error
                    else bind_res (parse_value h n (skip_ws ds)) (\<lambda>(v, r').
                         (case skip_ws r' of
                            [] \<Rightarrow> Inl json_error
                          | e # es \<Rightarrow>
                              if e = CHR ''}'' then Inr ([(k, v)], es)
                              else if e = CHR '','' then
                                bind_res (parse_members h n (skip_ws es)) (\<lambda>(m, t). Inr ((k, v) # m, t))
                              else Inl json_error)))))"

text \<open>\<open>json.loads(text, object_pairs_hook=..., parse_constant=...)\<close>\<close>

definition json_parse :: "json_hooks \<Rightarrow> string \<Rightarrow> json res" where
  "json_parse h s =
     bind_res (parse_value h (2 * length s + 2) (skip_ws s)) (\<lambda>(j, r).
     if skip_ws r = [] then Inr j else Inl json_error)"

text \<open>\<open>json.loads(payload.decode("utf-8"), ...)\<close>\<close>

definition json_loads_with :: "json_hooks \<Rightarrow> bytes \<Rightarrow> json res" where
  "json_loads_with h b =
     (case utf8_decode b of None \<Rightarrow> Inl (UnicodeErr ''invalid utf-8'') | Some s \<Rightarrow> json_parse h s)"

text \<open>Without hooks the last of several equal keys wins and the constants are floats.\<close>

definition default_hooks :: json_hooks where
  "default_hooks = \<lparr>jh_object = (\<lambda>m. Inr (JObj (foldl (\<lambda>a (k, v). dict_set k v a) [] m))),
     jh_constant = (\<lambda>c. Inr (JFloat (if c = ''NaN'' then f_nan else if c = ''Infinity'' then f_inf else f_neg f_inf)))\<rparr>"

text \<open>\<open>json.loads(bytes)\<close>; \<open>None\<close> is \<open>UnicodeDecodeError\<close> or \<open>JSONDecodeError\<close>.\<close>

definition json_loads :: "bytes \<Rightarrow> json option" where
  "json_loads b = (case json_loads_with default_hooks b of Inl _ \<Rightarrow> None | Inr j \<Rightarrow> Some j)"

section \<open>Round trip\<close>

text \<open>Documents without floats whose objects have distinct keys.\<close>

fun plain :: "json \<Rightarrow> bool" where
  "plain (JFloat x) = False"
| "plain (JArr js) = (\<forall>j \<in> set js. plain j)"
| "plain (JObj d) = (distinct (map fst d) \<and> (\<forall>(k, v) \<in> set d. plain v))"
| "plain j = True"

definition delim :: "string \<Rightarrow> bool" where
  "delim r \<longleftrightarrow> r = [] \<or> hd r = CHR '','' \<or> hd r = CHR ''}'' \<or> hd r = CHR '']''"

lemma cp_simps [simp]: "cp (Char a b c d e f g h) = of_char (Char a b c d e f g h)"
  by (simp only: cp_def)

lemma hex_char_hex: "0 \<le> d \<Longrightarrow> d < 16 \<Longrightarrow> is_hex (hex_char d) \<and> hex_val_any (hex_char d) = d"
  by (auto simp: is_hex_def is_hex_lower_def hex_val_any_def hex_val_def hex_char_def is_digit_def)

lemma parse_str_u:
  assumes "0 \<le> d1" "d1 < 16" "0 \<le> d2" "d2 < 16" "0 \<le> d3" "d3 < 16" "0 \<le> d4" "d4 < 16"
    and "((d1 * 16 + d2) * 16 + d3) * 16 + d4 = u" and "u < 256"
  shows "parse_str (CHR 0x5C # CHR ''u'' # hex_char d1 # hex_char d2 # hex_char d3 # hex_char d4 # r) =
    map_option (\<lambda>(s, t). (char_of u # s, t)) (parse_str r)"
proof -
  have "is_hex (hex_char d1)" "is_hex (hex_char d2)" "is_hex (hex_char d3)" "is_hex (hex_char d4)"
    "hex_val_any (hex_char d1) = d1" "hex_val_any (hex_char d2) = d2"
    "hex_val_any (hex_char d3) = d3" "hex_val_any (hex_char d4) = d4"
    using assms hex_char_hex by auto
  then show ?thesis using assms(9,10) by (simp add: Let_def)
qed

lemma parse_esc:
  "parse_str (esc_char c @ r) = map_option (\<lambda>(s, t). (c # s, t)) (parse_str r)"
proof (cases "c \<in> {CHR 0x22, CHR 0x5C, CHR 0x0A, CHR 0x0D, CHR 0x09, CHR 0x0C, CHR 0x08}")
  case True
  then show ?thesis by (auto simp: esc_char_def unescape_def)
next
  case False
  show ?thesis
  proof (cases "cp c < 32")
    case True
    let ?n = "cp c"
    have n: "0 \<le> ?n" by (rule cp_bounds)
    have hx: "hex_fixed 4 ?n = [hex_char (?n div 4096 mod 16), hex_char (?n div 256 mod 16),
        hex_char (?n div 16 mod 16), hex_char (?n mod 16)]"
      by (simp add: eval_nat_numeral flip: zdiv_zmult2_eq)
    have v: "((?n div 4096 mod 16 * 16 + ?n div 256 mod 16) * 16 + ?n div 16 mod 16) * 16 + ?n mod 16 = ?n"
    proof -
      have "?n div 4096 = 0" "?n div 256 = 0" "?n div 16 < 16" "0 \<le> ?n div 16"
        using n True by (simp_all add: div_pos_pos_trivial)
      then have "?n div 4096 mod 16 = 0" "?n div 256 mod 16 = 0" "?n div 16 mod 16 = ?n div 16"
        by (simp_all add: mod_pos_pos_trivial)
      then show ?thesis by simp
    qed
    have e: "esc_char c = [CHR 0x5C, CHR ''u''] @ hex_fixed 4 ?n"
      using False True by (simp add: esc_char_def)
    have "parse_str (esc_char c @ r) = map_option (\<lambda>(s, t). (char_of ?n # s, t)) (parse_str r)"
      unfolding e hx append_Cons append_Nil
      by (rule parse_str_u [OF _ _ _ _ _ _ _ _ v]) (use True in simp_all)
    then show ?thesis by simp
  next
    case F: False
    with False show ?thesis by (auto simp: esc_char_def)
  qed
qed

lemma parse_str_render [simp]:
  "parse_str (concat (map esc_char s) @ CHR 0x22 # r) = Some (s, r)"
  by (induction s) (simp_all add: parse_esc)

lemma take_digits_nat_str:
  assumes "0 \<le> n" and "r = [] \<or> \<not> is_digit (hd r)"
  shows "take_digits (nat_str n @ r) = (nat_str n, r)"
proof -
  have "\<forall>c \<in> set (nat_str n). is_digit c" using nat_str_digits assms(1) by blast
  then show ?thesis
    using assms(2) by (cases r) (auto simp: take_digits_def takeWhile_append2 dropWhile_append2)
qed

lemma delim_no_number:
  assumes "delim r"
  shows "r = [] \<or> \<not> is_digit (hd r)" and "parse_frac r = ([], r)" and "parse_exp r = (None, r)"
  using assms by (cases r; auto simp: delim_def is_digit_def parse_frac_def parse_exp_def)+

lemma nat_str_hd:
  assumes "0 \<le> n"
  obtains c cs where "nat_str n = c # cs" and "is_digit c" and "c = CHR ''0'' \<longrightarrow> n = 0"
proof (cases "nat_str n")
  case (Cons c cs)
  moreover have "is_digit c" using nat_str_digits [OF assms, of c] Cons by simp
  moreover have "c = CHR ''0'' \<longrightarrow> n = 0"
    using nat_str_no_leading_zero [of n] Cons assms by (cases "n = 0") auto
  ultimately show ?thesis by (rule that)
qed simp

lemma parse_num_nat:
  assumes "0 \<le> n" and "delim r"
  shows "parse_num (nat_str n @ r) = Some (JInt n, r)"
    and "parse_num (CHR ''-'' # nat_str n @ r) = Some (JInt (- n), r)"
proof -
  obtain c cs where c: "nat_str n = c # cs" "is_digit c" "c = CHR ''0'' \<longrightarrow> n = 0"
    using nat_str_hd [OF assms(1)] by blast
  have nd: "c \<noteq> CHR ''-''" using c(2) by (auto simp: is_digit_def)
  note d = delim_no_number [OF assms(2)]
  have z: "cs = [] \<and> digit_val c = 0" if "n = 0"
    using that c(1) by (auto simp: nat_str_small digit_char_0 digit_val_def)
  have v: "digits_val (c # cs) = n" using assms(1) c(1) by (metis digits_val_nat_str)
  have t: "take_digits (c # cs @ r) = (c # cs, r)"
    using take_digits_nat_str [OF assms(1) d(1)] c(1) by simp
  show "parse_num (nat_str n @ r) = Some (JInt n, r)"
    using c nd d t v z assms(1) by (auto simp: parse_num_def Let_def digit_val_def)
  show "parse_num (CHR ''-'' # nat_str n @ r) = Some (JInt (- n), r)"
    using c nd d t v z assms(1) by (auto simp: parse_num_def Let_def digit_val_def)
qed

lemma int_str_hd:
  obtains c cs where "int_str i = c # cs" and "is_digit c \<or> c = CHR ''-''"
proof (cases "i < 0")
  case True
  then show ?thesis using that by (simp add: int_str_def)
next
  case False
  then have "0 \<le> i" by simp
  then obtain c cs where "nat_str i = c # cs" "is_digit c" by (rule nat_str_hd)
  with False show ?thesis using that by (simp add: int_str_def)
qed

lemma parse_scalar_int:
  assumes "delim r"
  shows "parse_scalar (int_str i @ r) = Some (JInt i, r)"
proof -
  obtain c cs where c: "int_str i = c # cs" "is_digit c \<or> c = CHR ''-''" by (rule int_str_hd)
  then have "\<not> startswith (int_str i @ r) ''null''" "\<not> startswith (int_str i @ r) ''true''"
    "\<not> startswith (int_str i @ r) ''false''"
    by (auto simp: startswith_def is_digit_def)
  moreover have "parse_num (int_str i @ r) = Some (JInt i, r)"
    using parse_num_nat [of i r] parse_num_nat [of "- i" r] assms by (auto simp: int_str_def)
  ultimately show ?thesis by (simp add: parse_scalar_def)
qed

text \<open>What starts a rendered value: never white space, never a closing bracket.\<close>

lemma render_hd:
  assumes "plain j"
  obtains c cs where "render j = c # cs" and "\<not> is_ws c" and "c \<noteq> CHR '']''"
proof (cases j)
  case (JInt i)
  obtain c cs where "int_str i = c # cs" "is_digit c \<or> c = CHR ''-''" by (rule int_str_hd)
  with JInt show ?thesis by (intro that [of c cs]) (auto simp: is_ws_def is_digit_def)
next
  case (JBool b)
  then show ?thesis using that by (cases b) (auto simp: is_ws_def)
qed (use assms that in \<open>auto simp: is_ws_def render_str_def\<close>)

lemma skip_ws_render [simp]: "plain j \<Longrightarrow> skip_ws (render j @ r) = render j @ r"
  by (erule render_hd) (simp add: skip_ws_def)

lemma skip_ws_render' [simp]: "plain j \<Longrightarrow> skip_ws (render j) = render j"
  using skip_ws_render [of j "[]"] by simp

lemma skip_ws_Cons: "\<not> is_ws c \<Longrightarrow> skip_ws (c # cs) = c # cs"
  by (simp add: skip_ws_def)

lemma not_ws_simps [simp]:
  "\<not> is_ws (CHR '','')" "\<not> is_ws (CHR '']'')" "\<not> is_ws (CHR ''}'')" "\<not> is_ws (CHR '':'')"
  "\<not> is_ws (CHR 0x22)"
  by (simp_all add: is_ws_def)

lemma delim_simps [simp]:
  "delim []" "delim (CHR '','' # r)" "delim (CHR '']'' # r)" "delim (CHR ''}'' # r)"
  by (simp_all add: delim_def)

text \<open>Hooks that accept an object with distinct keys as it is.\<close>

definition plain_hooks :: "json_hooks \<Rightarrow> bool" where
  "plain_hooks h \<longleftrightarrow> (\<forall>m. distinct (map fst m) \<longrightarrow> jh_object h m = Inr (JObj m))"

abbreviation parses :: "json_hooks \<Rightarrow> json \<Rightarrow> bool" where
  "parses h j \<equiv> \<forall>n r. delim r \<longrightarrow> 2 * length (render j) \<le> n \<longrightarrow> parse_value h n (render j @ r) = Inr (j, r)"

lemma parse_elems_render:
  assumes "js \<noteq> []" and "\<forall>j \<in> set js. plain j \<and> parses h j"
    and "2 * length (join_comma (map render js)) + 1 \<le> n"
  shows "parse_elems h n (join_comma (map render js) @ CHR '']'' # r) = Inr (js, r)"
  using assms
proof (induction js arbitrary: n)
  case (Cons j js)
  then obtain m where n: "n = Suc m" by (cases n) auto
  show ?case
  proof (cases js)
    case Nil
    have "parse_value h m (render j @ CHR '']'' # r) = Inr (j, CHR '']'' # r)"
      using Cons.prems n Nil by simp
    then show ?thesis using n Nil by (simp add: skip_ws_Cons)
  next
    case (Cons k ks)
    let ?t = "join_comma (map render js) @ CHR '']'' # r"
    have j: "parse_value h m (render j @ CHR '','' # ?t) = Inr (j, CHR '','' # ?t)"
      using Cons.prems n Cons by simp
    have "parse_elems h m ?t = Inr (js, r)"
      using Cons.prems n Cons by (intro Cons.IH) auto
    moreover have "skip_ws ?t = ?t"
      using Cons.prems Cons by (cases ks) (auto simp: skip_ws_render)
    ultimately show ?thesis using n j Cons by (simp add: skip_ws_Cons)
  qed
qed simp

definition render_member :: "string \<times> json \<Rightarrow> string" where
  "render_member kv = render_str (fst kv) @ CHR '':'' # render (snd kv)"

lemma render_JObj: "render (JObj d) = CHR ''{'' # join_comma (map render_member d) @ ''}''"
proof -
  have "(\<lambda>(k, v). render_str k @ CHR '':'' # render v) = render_member"
    by (auto simp: render_member_def)
  then show ?thesis by simp
qed

lemma parse_members_step:
  assumes "plain v" and "delim t" and "2 * length (render v) \<le> m" and "parses h v"
  shows "parse_members h (Suc m) (render_member (k, v) @ t) =
    (case skip_ws t of
       [] \<Rightarrow> Inl json_error
     | e # es \<Rightarrow>
         if e = CHR ''}'' then Inr ([(k, v)], es)
         else if e = CHR '','' then
           bind_res (parse_members h m (skip_ws es)) (\<lambda>(m, t). Inr ((k, v) # m, t))
         else Inl json_error)"
proof -
  have "parse_value h m (render v @ t) = Inr (v, t)" using assms by simp
  then show ?thesis
    using assms(1) by (simp add: render_member_def render_str_def skip_ws_Cons)
qed

lemma parse_members_render:
  assumes "d \<noteq> []" and "\<forall>(k, v) \<in> set d. plain v \<and> parses h v"
    and "2 * length (join_comma (map render_member d)) + 1 \<le> n"
  shows "parse_members h n (join_comma (map render_member d) @ CHR ''}'' # r) = Inr (d, r)"
  using assms
proof (induction d arbitrary: n)
  case (Cons kv d)
  obtain k v where kv: "kv = (k, v)" by (cases kv)
  from Cons obtain m where n: "n = Suc m" by (cases n) auto
  have v: "plain v" "parses h v" using Cons.prems(2) kv by auto
  have lv: "length (render_member (k, v)) \<ge> length (render v) + 1" by (simp add: render_member_def)
  show ?case
  proof (cases d)
    case Nil
    have "2 * length (render v) \<le> m" using Cons.prems(3) n kv Nil lv by simp
    then show ?thesis
      using v parse_members_step [of v "CHR ''}'' # r" m h k] n kv Nil by (simp add: skip_ws_Cons)
  next
    case (Cons kw ks)
    let ?t = "join_comma (map render_member d) @ CHR ''}'' # r"
    have m: "2 * length (render v) \<le> m" using Cons.prems(3) n kv Cons lv by simp
    have "parse_members h m ?t = Inr (d, r)"
      using Cons.prems n Cons by (intro Cons.IH) auto
    moreover have "skip_ws ?t = ?t"
      using Cons by (cases ks) (simp_all add: render_member_def render_str_def skip_ws_Cons)
    ultimately show ?thesis
      using v m parse_members_step [of v "CHR '','' # ?t" m h k] n kv Cons by (simp add: skip_ws_Cons)
  qed
qed simp

lemma foldl_dict_set:
  assumes "distinct (map fst (a @ m))"
  shows "foldl (\<lambda>a (k, v). dict_set k v a) a m = a @ m"
  using assms
proof (induction m arbitrary: a)
  case (Cons kv m)
  obtain k v where kv: "kv = (k, v)" by (cases kv)
  have "dict_set k v a = a @ [(k, v)]" if "k \<notin> set (map fst a)" for a
    using that by (induction k v a rule: dict_set.induct) auto
  moreover have "k \<notin> set (map fst a)" using Cons.prems kv by auto
  ultimately show ?case using Cons.IH [of "a @ [kv]"] Cons.prems kv by simp
qed simp

lemma join_comma_nonempty: "xs \<noteq> [] \<Longrightarrow> hd xs \<noteq> [] \<Longrightarrow> \<exists>t. join_comma xs @ r = hd xs @ t"
  by (cases xs rule: join_comma.cases) auto

theorem parse_render:
  assumes hooks: "plain_hooks h"
  shows "plain j \<Longrightarrow> parses h j"
proof (induction j)
  case (JArr js)
  show ?case
  proof (intro allI impI)
    fix n r
    assume n: "2 * length (render (JArr js)) \<le> n"
    then obtain m where m: "n = Suc m" by (cases n) auto
    show "parse_value h n (render (JArr js) @ r) = Inr (JArr js, r)"
    proof (cases js)
      case Nil
      then show ?thesis by (simp add: m skip_ws_Cons)
    next
      case (Cons k ks)
      let ?t = "join_comma (map render js) @ CHR '']'' # r"
      have pk: "plain k" using JArr.prems Cons by simp
      then obtain c cs where c: "render k = c # cs" "\<not> is_ws c" "c \<noteq> CHR '']''" by (rule render_hd)
      obtain t where t: "?t = c # t"
        using join_comma_nonempty [of "map render js" "CHR '']'' # r"] Cons c by auto
      have "parse_elems h m ?t = Inr (js, r)"
        using JArr n m Cons by (intro parse_elems_render) auto
      then show ?thesis using c t by (simp add: m skip_ws_Cons)
    qed
  qed
next
  case (JObj d)
  show ?case
  proof (intro allI impI)
    fix n r
    assume n: "2 * length (render (JObj d)) \<le> n"
    then obtain m where m: "n = Suc m" by (cases n) auto
    show "parse_value h n (render (JObj d) @ r) = Inr (JObj d, r)"
    proof (cases d)
      case Nil
      then show ?thesis using hooks by (simp add: m skip_ws_Cons plain_hooks_def)
    next
      case (Cons kv ks)
      let ?t = "join_comma (map render_member d) @ CHR ''}'' # r"
      have h: "hd (render_member kv) = CHR 0x22" "render_member kv \<noteq> []"
        by (simp_all add: render_member_def render_str_def)
      obtain t where t: "?t = CHR 0x22 # t"
        using join_comma_nonempty [of "map render_member d" "CHR ''}'' # r"] Cons h
        by (cases "render_member kv") auto
      have "\<forall>(k, v) \<in> set d. plain v \<and> parses h v" using JObj by fastforce
      then have "parse_members h m ?t = Inr (d, r)"
        using n m Cons by (intro parse_members_render) (auto simp: render_JObj simp del: render.simps)
      moreover have "jh_object h d = Inr (JObj d)" using JObj.prems hooks by (simp add: plain_hooks_def)
      ultimately show ?thesis using t
        by (simp add: m skip_ws_Cons render_JObj del: render.simps)
    qed
  qed
next
  case (JStr s)
  show ?case
  proof (intro allI impI)
    fix n r
    assume "2 * length (render (JStr s)) \<le> n"
    then obtain m where "n = Suc m" by (cases n) (auto simp: render_str_def)
    then show "parse_value h n (render (JStr s) @ r) = Inr (JStr s, r)"
      by (simp add: render_str_def)
  qed
next
  case (JInt i)
  show ?case
  proof (intro allI impI)
    fix n r
    assume d: "delim r" and n: "2 * length (render (JInt i)) \<le> n"
    obtain c cs where c: "int_str i = c # cs" "is_digit c \<or> c = CHR ''-''" by (rule int_str_hd)
    then obtain m where m: "n = Suc m" using n by (cases n) auto
    have "c \<noteq> CHR 0x22" "c \<noteq> CHR ''{''" "c \<noteq> CHR ''[''" using c(2) by (auto simp: is_digit_def)
    then show "parse_value h n (render (JInt i) @ r) = Inr (JInt i, r)"
      using c(1) parse_scalar_int [OF d, of i] by (simp add: m)
  qed
next
  case (JBool b)
  show ?case
  proof (intro allI impI)
    fix n r
    assume "2 * length (render (JBool b)) \<le> n"
    then obtain m where "n = Suc m" by (cases n; cases b) auto
    then show "parse_value h n (render (JBool b) @ r) = Inr (JBool b, r)"
      by (simp add: parse_scalar_def startswith_def)
  qed
next
  case JNull
  show ?case
  proof (intro allI impI)
    fix n r
    assume "2 * length (render JNull) \<le> n"
    then obtain m where "n = Suc m" by (cases n) auto
    then show "parse_value h n (render JNull @ r) = Inr (JNull, r)"
      by (simp add: parse_scalar_def startswith_def)
  qed
qed simp

lemma plain_finite: "plain j \<Longrightarrow> all_floats_finite j"
  by (induction j) fastforce+

lemma plain_jsort: "plain j \<Longrightarrow> plain (jsort j)"
proof (induction j)
  case (JObj d)
  let ?f = "\<lambda>(k, v). (k, jsort v)"
  have m: "map fst (map ?f d) = map fst d" by auto
  have "mset (map fst (sort_key fst (map ?f d))) = mset (map fst d)"
    by (metis m mset_map mset_sort)
  then have "distinct (map fst (sort_key fst (map ?f d)))"
    using JObj.prems by (metis mset_eq_imp_distinct_iff plain.simps(3))
  then show ?case using JObj by fastforce
qed auto

lemma default_hooks_plain: "plain_hooks default_hooks"
  using foldl_dict_set [of "[]"] by (simp add: plain_hooks_def default_hooks_def)

lemma loads_with_canonical:
  assumes "plain_hooks h" and "plain j" and "canonical_json j = Inr b"
  shows "json_loads_with h b = Inr (jsort j)"
proof -
  let ?s = "render (jsort j)"
  have p: "plain (jsort j)" using assms(2) by (rule plain_jsort)
  have b: "b = utf8_encode ?s" using assms(2,3) plain_finite by (auto simp: canonical_json_def canonical_bytes_def)
  have "2 * length ?s \<le> 2 * length ?s + 2" by simp
  then have "parse_value h (2 * length ?s + 2) (?s @ []) = Inr (jsort j, [])"
    using parse_render [OF assms(1) p] delim_simps(1) by blast
  then have "parse_value h (2 * length ?s + 2) (skip_ws ?s) = Inr (jsort j, [])"
    unfolding skip_ws_render' [OF p] append_Nil2 .
  then show ?thesis unfolding json_loads_with_def b utf8_round_trip option.case json_parse_def
    by (simp only: bind_res_simps prod.case) (simp add: skip_ws_def)
qed

lemma loads_canonical: "plain j \<Longrightarrow> canonical_json j = Inr b \<Longrightarrow> json_loads b = Some (jsort j)"
  using loads_with_canonical [OF default_hooks_plain] by (simp add: json_loads_def)

lemma canonical_json_total: "plain j \<Longrightarrow> canonical_json j = Inr (canonical_bytes j)"
  by (simp add: canonical_json_def plain_finite)

lemma canonical_json_inject:
  assumes "plain i" and "plain j" and "canonical_json i = canonical_json j"
  shows "jsort i = jsort j"
  using assms loads_canonical canonical_json_total by (metis option.inject)

lemma jsort_idem [simp]: "jsort (jsort j) = jsort j"
proof (induction j)
  case (JObj d)
  let ?f = "\<lambda>(k, v). (k, jsort v)"
  have "map ?f (sort_key fst (map ?f d)) = sort_key fst (map ?f d)"
    by (rule map_idI) (use JObj in fastforce)
  then show ?case by (simp add: sort_key_stable sort_key_id_if_sorted)
qed simp_all

end
