(* ===== verification/PyObj.thy ===== *)
theory PyObj
  imports Json
begin

text \<open>
  Dates, instants and Python objects of unknown class.

  A \<open>date\<close> is its proleptic Gregorian ordinal (day 1 is 0001-01-01), an
  \<open>instant\<close> counts microseconds of UTC from that day.  A Python object that the
  code inspects with \<open>isinstance\<close> or \<open>type(...) is\<close> is a \<open>pyobj\<close>; the validators
  of the program turn it into a typed value or raise.  A \<open>datetime\<close> carries its
  local reading and, when it is aware, its offset from UTC.
\<close>

type_synonym date = int
type_synonym instant = int

section \<open>Calendar arithmetic\<close>

definition max_ordinal :: int where "max_ordinal = 3652059"
definition day_micros :: int where "day_micros = 86400000000"

definition date_of_instant :: "instant \<Rightarrow> date" where
  "date_of_instant t = t div day_micros + 1"

definition days_before_month :: "int \<Rightarrow> int" where
  "days_before_month m = [0, 31, 59, 90, 120, 151, 181, 212, 243, 273, 304, 334] ! nat (m - 1)"

definition days_in_month :: "int \<Rightarrow> int" where
  "days_in_month m = [31, 28, 31, 30, 31, 30, 31, 31, 30, 31, 30, 31] ! nat (m - 1)"

definition is_leap :: "int \<Rightarrow> bool" where
  "is_leap y \<longleftrightarrow> y mod 4 = 0 \<and> (y mod 100 \<noteq> 0 \<or> y mod 400 = 0)"

definition ymd_to_ord :: "int \<Rightarrow> int \<Rightarrow> int \<Rightarrow> date" where
  "ymd_to_ord y m d =
     (let p = y - 1 in p * 365 + p div 4 - p div 100 + p div 400)
     + days_before_month m + (if 2 < m \<and> is_leap y then 1 else 0) + d"

definition ord_to_ymd :: "date \<Rightarrow> int \<times> int \<times> int" where
  "ord_to_ymd ord =
     (let n0 = ord - 1;
          n400 = n0 div 146097; a = n0 mod 146097;
          n100 = a div 36524; b = a mod 36524;
          n4 = b div 1461; c = b mod 1461;
          n1 = c div 365; n = c mod 365;
          year = n400 * 400 + 1 + n100 * 100 + n4 * 4 + n1
      in if n1 = 4 \<or> n100 = 4 then (year - 1, 12, 31)
         else let leap = (n1 = 3 \<and> (n4 \<noteq> 24 \<or> n100 = 3));
                  m = (n + 50) div 32;
                  pre = days_before_month m + (if 2 < m \<and> leap then 1 else 0)
              in if n < pre
                 then (year, m - 1, n - (pre - (days_in_month (m - 1) + (if m - 1 = 2 \<and> leap then 1 else 0))) + 1)
                 else (year, m, n - pre + 1))"

text \<open>\<open>date.isoformat()\<close>\<close>

definition date_iso :: "date \<Rightarrow> string" where
  "date_iso d = (case ord_to_ymd d of (y, m, dd) \<Rightarrow> zfill 4 y @ ''-'' @ zfill 2 m @ ''-'' @ zfill 2 dd)"

text \<open>\<open>YYYY-MM-DDThh:mm:ss.ffffffZ\<close>\<close>

definition instant_text :: "instant \<Rightarrow> string" where
  "instant_text t =
     (let s = t mod day_micros in
      date_iso (date_of_instant t) @ ''T'' @ zfill 2 (s div 3600000000) @ '':'' @
      zfill 2 (s div 60000000 mod 60) @ '':'' @ zfill 2 (s div 1000000 mod 60) @ ''.'' @
      zfill 6 (s mod 1000000) @ ''Z'')"

section \<open>Objects\<close>

datatype pyobj =
    PyNone
  | PyBool bool
  | PyInt int
  | PyFloat f64
  | PyStr string
  | PyDec dec
  | PyDate date
  | PyDatetime int "int option"
  | PyBytes bytes
  | PyOther

text \<open>The exact comparison of two decimals.\<close>

fun dec_eq :: "dec \<Rightarrow> dec \<Rightarrow> bool" where
  "dec_eq (Dec s c e) (Dec s' c' e') =
     ((if s then - c else c) * 10 ^ nat (e - min e e') = (if s' then - c' else c') * 10 ^ nat (e' - min e e'))"
| "dec_eq (DecInf s) (DecInf s') = (s = s')"
| "dec_eq _ _ = False"

text \<open>
  \<open>value.astimezone(UTC)\<close> behind the awareness test: every module of the
  program has its own copy that raises its own exception class.
\<close>

definition utc_of :: "(string \<Rightarrow> exn) \<Rightarrow> pyobj \<Rightarrow> string \<Rightarrow> instant res" where
  "utc_of raise v label =
     (case v of
        PyDatetime t (Some off) \<Rightarrow>
          (if 0 \<le> t - off \<and> t - off < max_ordinal * day_micros then Inr (t - off)
           else Inl (raise (label @ '' cannot be normalized to UTC'')))
      | _ \<Rightarrow> Inl (raise (label @ '' must be timezone-aware'')))"

text \<open>
  \<open>float(value)\<close> of an object that passed \<open>isinstance(value, Real)\<close> and is not a
  \<open>bool\<close>; \<open>None\<close> for an object that fails those tests.
\<close>

definition real_float :: "pyobj \<Rightarrow> f64 res option" where
  "real_float v =
     (case v of PyInt i \<Rightarrow> Some (f_of_int i) | PyFloat x \<Rightarrow> Some (Inr x) | _ \<Rightarrow> None)"

text \<open>An object that passed \<open>isinstance(value, Integral)\<close> and is not a \<open>bool\<close>.\<close>

definition integral :: "pyobj \<Rightarrow> int option" where
  "integral v = (case v of PyInt i \<Rightarrow> Some i | _ \<Rightarrow> None)"

text \<open>NFC normalisation: the identity on code points below 256.\<close>

definition nfc :: "string \<Rightarrow> string" where
  "nfc s = s"

definition has_surrogate :: "string \<Rightarrow> bool" where
  "has_surrogate s \<longleftrightarrow> (\<exists>c \<in> set s. 55296 \<le> cp c \<and> cp c \<le> 57343)"

lemma utc_of_Inr_iff:
  "utc_of raise v label = Inr t \<longleftrightarrow>
     (\<exists>l off. v = PyDatetime l (Some off) \<and> t = l - off \<and> 0 \<le> t \<and> t < max_ordinal * day_micros)"
  by (auto simp: utc_of_def split: pyobj.splits option.splits)

end
