(* ===== verification/RateLimit.thy ===== *)
theory RateLimit
  imports PyObj
begin

text \<open>
  \<open>app/core/rate_limit.py\<close> with the key check of \<open>app/core/security.py\<close> and
  \<open>Settings.api_key_set\<close>: the fixed-window limiter in front of the API.

  The counter store is an interface (locale \<open>counter_store\<close>) that the in-memory
  backend implements; the middleware and \<open>hit\<close> take the store's \<open>increment\<close> as
  an argument that may raise, as the Redis backend does when it is unreachable.
  Clock readings are binary64 floats, as \<open>time.time\<close> and \<open>time.monotonic\<close> return.
\<close>

section \<open>Rate specifications\<close>

definition window_seconds_of :: "string \<Rightarrow> int option" where
  "window_seconds_of u =
     (if u = ''second'' then Some 1 else if u = ''minute'' then Some 60
      else if u = ''hour'' then Some 3600 else if u = ''day'' then Some 86400 else None)"

definition strip_plural_tail :: "string \<Rightarrow> bool" where
  "strip_plural_tail t \<longleftrightarrow> list_all is_space t \<or> (t \<noteq> [] \<and> hd t = CHR ''s'' \<and> list_all is_space (tl t))"

definition match_unit :: "string \<Rightarrow> string option" where
  "match_unit s =
     find (\<lambda>u. startswith s u \<and> strip_plural_tail (drop (length u) s)) [''second'', ''minute'', ''hour'', ''day'']"

text \<open>\<open>^\s*(\d+)\s*/\s*(second|minute|hour|day)s?\s*$\<close>, by \<open>fullmatch\<close>.\<close>

definition match_rate :: "string \<Rightarrow> (string \<times> string) option" where
  "match_rate rate =
     (let s1 = dropWhile is_space rate;
          ds = takeWhile is_digit s1;
          s2 = dropWhile is_space (dropWhile is_digit s1)
      in if ds = [] \<or> s2 = [] \<or> hd s2 \<noteq> CHR ''/'' then None
         else map_option (\<lambda>u. (ds, u)) (match_unit (dropWhile is_space (tl s2))))"

definition parse_rate :: "string \<Rightarrow> (int \<times> int) res" where
  "parse_rate rate =
     (case match_rate rate of
        None \<Rightarrow> Inl (ValueError (''unsupported rate limit spec: '' @ py_repr rate))
      | Some (ds, unit_name) \<Rightarrow>
          let limit = digits_val ds in
          bind_res (check (limit < 1) (ValueError ''rate limit must allow at least one request'')) (\<lambda>_.
          case window_seconds_of unit_name of
            Some w \<Rightarrow> Inr (limit, w)
          | None \<Rightarrow> Inl (KeyErr unit_name)))"

section \<open>The in-memory backend\<close>

record RateLimitDecision =
  rd_allowed :: bool
  rd_limit :: int
  rd_remaining :: int
  rd_reset_after :: int

record MemoryRateLimitBackend =
  mb_counts :: "string \<Rightarrow> int option"
  mb_expiries :: "string \<Rightarrow> f64 option"

definition mb_init :: MemoryRateLimitBackend where
  "mb_init = \<lparr>mb_counts = (\<lambda>_. None), mb_expiries = (\<lambda>_. None)\<rparr>"

definition mb_expired :: "MemoryRateLimitBackend \<Rightarrow> f64 \<Rightarrow> string \<Rightarrow> bool" where
  "mb_expired st now key = (case mb_expiries st key of None \<Rightarrow> False | Some e \<Rightarrow> f_le e now)"

text \<open>The loop that removes every expired key from both dictionaries.\<close>

definition mb_sweep :: "MemoryRateLimitBackend \<Rightarrow> f64 \<Rightarrow> MemoryRateLimitBackend" where
  "mb_sweep st now = \<lparr>
     mb_counts = (\<lambda>k. if mb_expired st now k then None else mb_counts st k),
     mb_expiries = (\<lambda>k. if mb_expired st now k then None else mb_expiries st k)\<rparr>"

definition mb_increment ::
  "MemoryRateLimitBackend \<Rightarrow> f64 \<Rightarrow> string \<Rightarrow> int \<Rightarrow> int \<times> MemoryRateLimitBackend" where
  "mb_increment st now bucket ttl_seconds =
     (let s = mb_sweep st now;
          s' = (if mb_counts s bucket = None
                then s\<lparr>mb_expiries := (mb_expiries s)(bucket \<mapsto> f_add now (f_of_int_exact ttl_seconds))\<rparr>
                else s);
          n = (case mb_counts s' bucket of None \<Rightarrow> 0 | Some c \<Rightarrow> c) + 1
      in (n, s'\<lparr>mb_counts := (mb_counts s')(bucket \<mapsto> n)\<rparr>))"

section \<open>The limiter\<close>

record ApiRateLimiter =
  rl_limit :: int
  rl_window_seconds :: int
  rl_identity_secret :: string
  rl_valid_key_identities :: "string list"
  rl_enabled :: bool
  rl_fail_open :: bool
  rl_scope_prefix :: string

definition identity_hex_chars :: nat where
  "identity_hex_chars = 32"

definition rl_key_digest :: "string \<Rightarrow> string \<Rightarrow> string" where
  "rl_key_digest secret api_key =
     take identity_hex_chars (hmac_sha256_hex (utf8_encode secret) (utf8_encode api_key))"

definition rl_identity_for :: "ApiRateLimiter \<Rightarrow> string option \<Rightarrow> string \<Rightarrow> string" where
  "rl_identity_for rl api_key client_ip =
     (case api_key of
        Some k \<Rightarrow>
          if k \<noteq> [] \<and> List.member (rl_valid_key_identities rl) (rl_key_digest (rl_identity_secret rl) k)
          then ''key:'' @ rl_key_digest (rl_identity_secret rl) k
          else ''ip:'' @ client_ip
      | None \<Rightarrow> ''ip:'' @ client_ip)"

definition rl_window_index :: "ApiRateLimiter \<Rightarrow> f64 \<Rightarrow> int" where
  "rl_window_index rl now = f_trunc (f_floordiv now (f_of_int_exact (rl_window_seconds rl)))"

definition rl_bucket :: "ApiRateLimiter \<Rightarrow> string \<Rightarrow> f64 \<Rightarrow> string" where
  "rl_bucket rl identity now =
     ''rl:'' @ identity @ '':'' @ int_str (rl_window_seconds rl) @ '':'' @ int_str (rl_window_index rl now)"

definition rl_decision :: "ApiRateLimiter \<Rightarrow> f64 \<Rightarrow> int \<Rightarrow> RateLimitDecision" where
  "rl_decision rl now n =
     (let reset = f_ceil (f_sub (f_of_int_exact ((rl_window_index rl now + 1) * rl_window_seconds rl)) now)
      in \<lparr>rd_allowed = (n \<le> rl_limit rl), rd_limit = rl_limit rl,
          rd_remaining = max 0 (rl_limit rl - n), rd_reset_after = max 1 reset\<rparr>)"

text \<open>\<open>increment\<close> is the backend's operation; it may raise.\<close>

definition rl_hit ::
  "('s \<Rightarrow> string \<Rightarrow> int \<Rightarrow> int res \<times> 's) \<Rightarrow> ApiRateLimiter \<Rightarrow> string \<Rightarrow> f64 \<Rightarrow> 's
     \<Rightarrow> RateLimitDecision res \<times> 's" where
  "rl_hit increment rl identity now st =
     (case increment st (rl_bucket rl identity now) (rl_window_seconds rl * 2) of
        (Inl e, st') \<Rightarrow> (Inl e, st')
      | (Inr n, st') \<Rightarrow> (Inr (rl_decision rl now n), st'))"

definition mb_backend ::
  "f64 \<Rightarrow> MemoryRateLimitBackend \<Rightarrow> string \<Rightarrow> int \<Rightarrow> int res \<times> MemoryRateLimitBackend" where
  "mb_backend mt st bucket ttl = (case mb_increment st mt bucket ttl of (n, st') \<Rightarrow> (Inr n, st'))"

section \<open>Configuration\<close>

record Settings =
  se_app_env :: string
  se_api_v1_prefix :: string
  se_rate_limit_storage_uri :: string
  se_rate_limit_default :: string
  se_rate_limit_enabled :: bool
  se_rate_limit_fail_open :: bool
  se_jwt_secret :: string
  se_api_keys :: string

fun split_comma :: "string \<Rightarrow> string list" where
  "split_comma [] = [[]]"
| "split_comma (c # cs) =
     (if c = CHR '','' then [] # split_comma cs
      else (case split_comma cs of [] \<Rightarrow> [[c]] | w # ws \<Rightarrow> (c # w) # ws))"

definition api_key_set :: "Settings \<Rightarrow> string list" where
  "api_key_set settings = remdups (map py_strip (filter (\<lambda>k. py_strip k \<noteq> []) (split_comma (se_api_keys settings))))"

datatype BackendKind = RedisBackend string | MemoryBackend

definition is_redis_uri :: "string \<Rightarrow> bool" where
  "is_redis_uri uri \<longleftrightarrow> startswith uri ''redis://'' \<or> startswith uri ''rediss://''"

definition build_rate_limiter :: "Settings \<Rightarrow> (ApiRateLimiter \<times> BackendKind) res" where
  "build_rate_limiter settings =
     bind_res (parse_rate (se_rate_limit_default settings)) (\<lambda>(limit, window_seconds).
     let storage_uri = se_rate_limit_storage_uri settings in
     bind_res (check (se_rate_limit_enabled settings
         \<and> (se_app_env settings = ''staging'' \<or> se_app_env settings = ''production'')
         \<and> \<not> is_redis_uri storage_uri)
       (ValueError ''staging/production rate limiting requires shared Redis storage'')) (\<lambda>_.
     bind_res (if is_redis_uri storage_uri then Inr (RedisBackend storage_uri)
               else if startswith storage_uri ''memory://'' then Inr MemoryBackend
               else Inl (ValueError (''unsupported rate_limit_storage_uri: '' @ py_repr storage_uri))) (\<lambda>backend.
     Inr (\<lparr>rl_limit = limit, rl_window_seconds = window_seconds,
           rl_identity_secret = se_jwt_secret settings,
           rl_valid_key_identities = map (rl_key_digest (se_jwt_secret settings)) (api_key_set settings),
           rl_enabled = se_rate_limit_enabled settings,
           rl_fail_open = se_rate_limit_fail_open settings,
           rl_scope_prefix = se_api_v1_prefix settings\<rparr>, backend))))"

section \<open>The middleware\<close>

record response =
  rs_status :: int
  rs_error_code :: string
  rs_headers :: "(string \<times> string) list"

record request =
  rq_path :: string
  rq_client_host :: "string option"
  rq_api_key :: "string option"

definition set_header :: "string \<Rightarrow> string \<Rightarrow> response \<Rightarrow> response" where
  "set_header k v r = r\<lparr>rs_headers := filter (\<lambda>kv. fst kv \<noteq> k) (rs_headers r) @ [(k, v)]\<rparr>"

definition rl_envelope :: "string \<Rightarrow> int \<Rightarrow> response" where
  "rl_envelope code status_code = \<lparr>rs_status = status_code, rs_error_code = code, rs_headers = []\<rparr>"

definition rl_apply_headers :: "response \<Rightarrow> RateLimitDecision \<Rightarrow> response" where
  "rl_apply_headers r d =
     set_header ''RateLimit-Reset'' (int_str (rd_reset_after d))
       (set_header ''RateLimit-Remaining'' (int_str (rd_remaining d))
         (set_header ''RateLimit-Limit'' (int_str (rd_limit d)) r))"

definition path_is_in_scope :: "string \<Rightarrow> string \<Rightarrow> bool" where
  "path_is_in_scope path prefix =
     (let stripped = rstrip_char (CHR ''/'') prefix;
          normalized = (if stripped = [] then ''/'' else stripped)
      in if normalized = ''/'' then startswith path ''/''
         else path = normalized \<or> startswith path (normalized @ ''/''))"

text \<open>
  \<open>dispatch\<close>: the response, the store afterwards, and whether the request was
  passed on to the application (\<open>call_next\<close>).
\<close>

definition rl_dispatch ::
  "('s \<Rightarrow> string \<Rightarrow> int \<Rightarrow> int res \<times> 's) \<Rightarrow> ApiRateLimiter option \<Rightarrow> (request \<Rightarrow> response) \<Rightarrow> request
     \<Rightarrow> f64 \<Rightarrow> 's \<Rightarrow> response \<times> 's \<times> bool" where
  "rl_dispatch increment limiter call_next req now st =
     (case limiter of
        None \<Rightarrow> (call_next req, st, True)
      | Some rl \<Rightarrow>
          if \<not> rl_enabled rl \<or> \<not> path_is_in_scope (rq_path req) (rl_scope_prefix rl)
          then (call_next req, st, True)
          else
            let client_ip = (case rq_client_host req of Some h \<Rightarrow> h | None \<Rightarrow> ''unknown'');
                identity = rl_identity_for rl (rq_api_key req) client_ip
            in case rl_hit increment rl identity now st of
                 (Inl e, st') \<Rightarrow>
                   if rl_fail_open rl then (call_next req, st', True)
                   else (rl_envelope ''rate_limit_unavailable'' 503, st', False)
               | (Inr decision, st') \<Rightarrow>
                   if \<not> rd_allowed decision
                   then (rl_apply_headers
                           (set_header ''Retry-After'' (int_str (rd_reset_after decision))
                             (rl_envelope ''rate_limited'' 429)) decision, st', False)
                   else (rl_apply_headers (call_next req) decision, st', True))"

section \<open>API keys\<close>

datatype auth_result = Authorized string | Unauthorized string

definition require_api_key :: "string option \<Rightarrow> Settings \<Rightarrow> auth_result" where
  "require_api_key x_api_key settings =
     (let allowed = api_key_set settings in
      if allowed = []
      then (if se_app_env settings = ''staging'' \<or> se_app_env settings = ''production''
            then Unauthorized ''API key authentication is not configured.''
            else Authorized (case x_api_key of
                   Some k \<Rightarrow> if k = [] then ''anonymous'' else k | None \<Rightarrow> ''anonymous''))
      else (case x_api_key of
              None \<Rightarrow> Unauthorized ''Missing or invalid API key.''
            | Some k \<Rightarrow> if \<not> List.member allowed k then Unauthorized ''Missing or invalid API key.''
                        else Authorized k))"

section \<open>Counter stores\<close>

text \<open>
  The contract between the limiter and its store.  \<open>entry s b\<close> is the counter of
  bucket \<open>b\<close> and the moment it expires; \<open>le e t\<close> says that \<open>e\<close> has passed at time
  \<open>t\<close>, \<open>due t ttl\<close> is the expiry of a counter created at \<open>t\<close>.
\<close>

locale counter_store =
  fixes inc :: "'s \<Rightarrow> 't \<Rightarrow> 'b \<Rightarrow> int \<Rightarrow> int \<times> 's"
    and entry :: "'s \<Rightarrow> 'b \<Rightarrow> (int \<times> 't) option"
    and inv :: "'s \<Rightarrow> bool"
    and le :: "'t \<Rightarrow> 't \<Rightarrow> bool"
    and due :: "'t \<Rightarrow> int \<Rightarrow> 't"
  assumes inc_inv: "inv s \<Longrightarrow> inv (snd (inc s t b ttl))"
    and inc_old: "inv s \<Longrightarrow> entry s b = Some (n, e) \<Longrightarrow> \<not> le e t \<Longrightarrow>
      fst (inc s t b ttl) = n + 1 \<and> entry (snd (inc s t b ttl)) b = Some (n + 1, e)"
    and inc_new: "inv s \<Longrightarrow> (\<And>n e. entry s b = Some (n, e) \<Longrightarrow> le e t) \<Longrightarrow>
      fst (inc s t b ttl) = 1 \<and> entry (snd (inc s t b ttl)) b = Some (1, due t ttl)"
    and inc_other: "inv s \<Longrightarrow> b' \<noteq> b \<Longrightarrow>
      entry (snd (inc s t b ttl)) b' =
        (case entry s b' of Some (n, e) \<Rightarrow> if le e t then None else Some (n, e) | None \<Rightarrow> None)"
begin

text \<open>The counter values that a sequence of increments returns, with their buckets.\<close>

fun tally :: "int \<Rightarrow> 's \<Rightarrow> ('t \<times> 'b) list \<Rightarrow> ('b \<times> int) list" where
  "tally ttl s [] = []"
| "tally ttl s ((t, b) # evs) = (b, fst (inc s t b ttl)) # tally ttl (snd (inc s t b ttl)) evs"

lemma tally_old:
  assumes "inv s" and "entry s b = Some (n, e)" and "\<forall>(t, b') \<in> set evs. \<not> le e t"
  shows "map snd (filter (\<lambda>(b', _). b' = b) (tally ttl s evs)) =
    map (\<lambda>k. n + 1 + int k) [0..<length (filter (\<lambda>(_, b'). b' = b) evs)]"
  using assms
proof (induction evs arbitrary: s n)
  case (Cons ev evs)
  obtain t b' where ev: "ev = (t, b')" by (cases ev)
  let ?s = "snd (inc s t b' ttl)"
  have i: "inv ?s" using Cons.prems(1) by (rule inc_inv)
  show ?case
  proof (cases "b' = b")
    case True
    have o: "fst (inc s t b ttl) = n + 1 \<and> entry ?s b = Some (n + 1, e)"
      using inc_old [of s b n e t ttl] Cons.prems ev True by simp
    have "map snd (filter (\<lambda>(b', _). b' = b) (tally ttl ?s evs)) =
      map (\<lambda>k. n + 1 + 1 + int k) [0..<length (filter (\<lambda>(_, b'). b' = b) evs)]"
      using Cons.prems o i by (intro Cons.IH) auto
    moreover have "map (\<lambda>k. n + 1 + int k) [0..<Suc m] = (n + 1) # map (\<lambda>k. n + 1 + 1 + int k) [0..<m]" for m
      by (simp add: upt_conv_Cons map_Suc_upt [symmetric] comp_def del: upt_Suc)
    ultimately show ?thesis using ev True o by (simp del: upt_Suc)
  next
    case False
    have "entry ?s b = Some (n, e)"
      using inc_other [of s b b' t ttl] Cons.prems ev False by simp
    then show ?thesis using Cons.IH [of ?s n] Cons.prems i ev False by simp
  qed
qed simp

lemma tally_new:
  assumes "inv s" and "entry s b = None"
    and "\<forall>(t, b1) \<in> set evs. \<forall>(t', b2) \<in> set evs. \<not> le (due t ttl) t'"
  shows "map snd (filter (\<lambda>(b', _). b' = b) (tally ttl s evs)) =
    map (\<lambda>k. 1 + int k) [0..<length (filter (\<lambda>(_, b'). b' = b) evs)]"
  using assms
proof (induction evs arbitrary: s)
  case (Cons ev evs)
  obtain t b' where ev: "ev = (t, b')" by (cases ev)
  let ?s = "snd (inc s t b' ttl)"
  have i: "inv ?s" using Cons.prems(1) by (rule inc_inv)
  show ?case
  proof (cases "b' = b")
    case True
    have o: "fst (inc s t b ttl) = 1 \<and> entry ?s b = Some (1, due t ttl)"
      using inc_new [of s b t ttl] Cons.prems True by simp
    have "map snd (filter (\<lambda>(b', _). b' = b) (tally ttl ?s evs)) =
      map (\<lambda>k. 1 + 1 + int k) [0..<length (filter (\<lambda>(_, b'). b' = b) evs)]"
      using Cons.prems o i ev by (intro tally_old [where e = "due t ttl"]) auto
    moreover have "map (\<lambda>k. 1 + int k) [0..<Suc m] = 1 # map (\<lambda>k. 1 + 1 + int k) [0..<m]" for m
      by (simp add: upt_conv_Cons map_Suc_upt [symmetric] comp_def del: upt_Suc)
    ultimately show ?thesis using ev True o by (simp del: upt_Suc)
  next
    case False
    have "entry ?s b = None"
      using inc_other [of s b b' t ttl] Cons.prems ev False by simp
    moreover have "\<forall>(t, b1) \<in> set evs. \<forall>(t', b2) \<in> set evs. \<not> le (due t ttl) t'"
      using Cons.prems(3) by auto
    ultimately show ?thesis using Cons.IH [OF i] ev False by simp
  qed
qed simp

text \<open>Hence at most \<open>limit\<close> increments of one bucket see a value within the limit.\<close>

lemma tally_within:
  assumes "inv s" and "entry s b = None"
    and "\<forall>(t, b1) \<in> set evs. \<forall>(t', b2) \<in> set evs. \<not> le (due t ttl) t'"
  shows "length (filter (\<lambda>(b', v). b' = b \<and> v \<le> limit) (tally ttl s evs)) =
    min (nat limit) (length (filter (\<lambda>(_, b'). b' = b) evs))"
proof -
  let ?k = "length (filter (\<lambda>(_, b'). b' = b) evs)"
  have split: "length (filter (\<lambda>(b', v). b' = b \<and> v \<le> limit) xs) =
      length (filter (\<lambda>v. v \<le> limit) (map snd (filter (\<lambda>(b', _). b' = b) xs)))" for xs :: "('b \<times> int) list"
    by (induction xs) auto
  have "length (filter (\<lambda>v. v \<le> limit) (map (\<lambda>k. 1 + int k) [0..<m])) = min (nat limit) m" for m
    by (induction m) auto
  then show ?thesis unfolding split tally_new [OF assms] .
qed

end

section \<open>The in-memory backend is a counter store\<close>

definition mb_entry :: "MemoryRateLimitBackend \<Rightarrow> string \<Rightarrow> (int \<times> f64) option" where
  "mb_entry st b =
     (case mb_counts st b of
        None \<Rightarrow> None
      | Some n \<Rightarrow> (case mb_expiries st b of None \<Rightarrow> None | Some e \<Rightarrow> Some (n, e)))"

definition mb_inv :: "MemoryRateLimitBackend \<Rightarrow> bool" where
  "mb_inv st \<longleftrightarrow> (\<forall>b. (mb_counts st b = None) = (mb_expiries st b = None))"

definition mb_due :: "f64 \<Rightarrow> int \<Rightarrow> f64" where
  "mb_due t ttl = f_add t (f_of_int_exact ttl)"

lemma mb_init_inv [simp]: "mb_inv mb_init" "mb_entry mb_init b = None"
  by (simp_all add: mb_inv_def mb_init_def mb_entry_def)

lemmas mb_defs = mb_increment_def mb_sweep_def mb_expired_def mb_entry_def mb_due_def Let_def

interpretation mb: counter_store mb_increment mb_entry mb_inv f_le mb_due
proof
  fix s t b ttl
  assume "mb_inv s"
  then show "mb_inv (snd (mb_increment s t b ttl))"
    by (auto simp: mb_inv_def mb_defs split: option.splits)
next
  fix s b n e t ttl
  assume "mb_inv s" "mb_entry s b = Some (n, e)" "\<not> f_le e t"
  then show "fst (mb_increment s t b ttl) = n + 1
      \<and> mb_entry (snd (mb_increment s t b ttl)) b = Some (n + 1, e)"
    by (auto simp: mb_defs split: option.splits)
next
  fix s b t ttl
  assume i: "mb_inv s" and "\<And>n e. mb_entry s b = Some (n, e) \<Longrightarrow> f_le e t"
  then have "mb_counts s b = None \<or> mb_expired s t b"
    by (fastforce simp: mb_entry_def mb_expired_def mb_inv_def split: option.splits)
  then show "fst (mb_increment s t b ttl) = 1
      \<and> mb_entry (snd (mb_increment s t b ttl)) b = Some (1, mb_due t ttl)"
    by (auto simp: mb_increment_def mb_sweep_def mb_entry_def mb_due_def Let_def)
next
  fix s b' b t ttl
  assume "mb_inv s" "(b' :: string) \<noteq> b"
  then show "mb_entry (snd (mb_increment s t b ttl)) b' =
      (case mb_entry s b' of Some (n, e) \<Rightarrow> if f_le e t then None else Some (n, e) | None \<Rightarrow> None)"
    by (auto simp: mb_defs split: option.splits)
qed

text \<open>A run of hits: each with its monotonic time, its clock reading and its identity.\<close>

fun rl_run ::
  "ApiRateLimiter \<Rightarrow> MemoryRateLimitBackend \<Rightarrow> (f64 \<times> f64 \<times> string) list \<Rightarrow> (string \<times> RateLimitDecision res) list" where
  "rl_run rl st [] = []"
| "rl_run rl st ((mt, now, identity) # evs) =
     (case rl_hit (mb_backend mt) rl identity now st of
        (d, st') \<Rightarrow> (rl_bucket rl identity now, d) # rl_run rl st' evs)"

definition allowed_in :: "string \<Rightarrow> string \<times> RateLimitDecision res \<Rightarrow> bool" where
  "allowed_in b h = (fst h = b \<and> (case snd h of Inr d \<Rightarrow> rd_allowed d | Inl _ \<Rightarrow> False))"

definition ev_bucket :: "ApiRateLimiter \<Rightarrow> f64 \<times> f64 \<times> string \<Rightarrow> f64 \<times> string" where
  "ev_bucket rl ev = (fst ev, rl_bucket rl (snd (snd ev)) (fst (snd ev)))"

lemma rl_run_tally:
  "length (filter (allowed_in b) (rl_run rl st evs)) =
   length (filter (\<lambda>(b', v). b' = b \<and> v \<le> rl_limit rl)
     (mb.tally (rl_window_seconds rl * 2) st (map (ev_bucket rl) evs)))"
proof (induction evs arbitrary: st)
  case (Cons ev evs)
  obtain mt now identity where ev: "ev = (mt, now, identity)" by (cases ev)
  obtain n st' where inc: "mb_increment st mt (rl_bucket rl identity now) (rl_window_seconds rl * 2) = (n, st')"
    by (cases "mb_increment st mt (rl_bucket rl identity now) (rl_window_seconds rl * 2)")
  show ?case
    using Cons.IH [of st'] inc
    by (simp add: ev ev_bucket_def rl_hit_def mb_backend_def allowed_in_def rl_decision_def Let_def)
qed simp

section \<open>Properties\<close>


definition demo_limiter :: ApiRateLimiter where
  "demo_limiter = \<lparr>rl_limit = 1, rl_window_seconds = 60, rl_identity_secret = ''k'',
     rl_valid_key_identities = [], rl_enabled = True, rl_fail_open = False, rl_scope_prefix = ''/v1''\<rparr>"

text \<open>The monotonic clock reads 1.0 and 2.0, the wall clock 120.0 and 121.0.\<close>

definition demo_hits :: "(f64 \<times> f64 \<times> string) list" where
  "demo_hits = [(4607182418800017408, 4638144666238189568, ''ip:a''),
                (4611686018427387904, 4638215034982367232, ''ip:a'')]"


text \<open>C33. Fail closed.  A request reaches the application only if the limiter is
  absent, disabled or the path is out of its scope, or the hit was counted and
  allowed, or the store raised and the deployment explicitly fails open.
\<close>

theorem dispatch_forwards_only_if_permitted:
  assumes "rl_dispatch increment (Some rl) call_next req now st = (resp, st', True)"
  shows "\<not> rl_enabled rl \<or> \<not> path_is_in_scope (rq_path req) (rl_scope_prefix rl) \<or>
    (let h = fst (rl_hit increment rl
        (rl_identity_for rl (rq_api_key req) (case rq_client_host req of Some c \<Rightarrow> c | None \<Rightarrow> ''unknown'')) now st)
     in case h of Inr d \<Rightarrow> rd_allowed d | Inl _ \<Rightarrow> rl_fail_open rl)"
  using assms by (auto simp: rl_dispatch_def Let_def split: if_splits sum.splits prod.splits)

theorem dispatch_forwards_only_if_permitted_witness:
  "rd_allowed (rl_decision demo_limiter 0 1)"
proof -
  let ?req = "\<lparr>rq_path = ''/v1/x'', rq_client_host = None, rq_api_key = None\<rparr>"
  let ?next = "\<lambda>_ :: request. rl_envelope ''ok'' 200"
  let ?inc = "\<lambda>(st :: unit) b t. (Inr (1 :: int), st)"
  have s: "path_is_in_scope ''/v1/x'' ''/v1''" and al: "rd_allowed (rl_decision demo_limiter 0 1)" by code_simp+
  obtain resp where "rl_dispatch ?inc (Some demo_limiter) ?next ?req 0 () = (resp, (), True)"
    using s al by (simp add: rl_dispatch_def demo_limiter_def rl_hit_def Let_def)
  from dispatch_forwards_only_if_permitted [OF this] s show ?thesis
    by (simp add: rl_hit_def Let_def demo_limiter_def)
qed

text \<open>An unauthenticated caller cannot multiply its quota: whatever header it
  sends, its identity is its address or one of the configured key identities.
\<close>

theorem identity_is_ip_or_configured_key:
  "rl_identity_for rl api_key client_ip \<in>
     insert (''ip:'' @ client_ip) ((@) ''key:'' ` set (rl_valid_key_identities rl))"
  by (auto simp: rl_identity_for_def split: option.splits)



text \<open>In staging and production a request is authorized only with one of the
  configured keys; with no keys configured every request is refused.
\<close>

theorem production_requires_configured_key:
  assumes "se_app_env settings \<in> {''staging'', ''production''}"
    and "require_api_key x settings = Authorized k"
  shows "x = Some k \<and> k \<in> set (api_key_set settings)"
  using assms by (auto simp: require_api_key_def Let_def split: if_splits option.splits)

theorem production_requires_configured_key_witness:
  "''k1'' \<in> set (api_key_set \<lparr>se_app_env = ''production'', se_api_v1_prefix = [],
      se_rate_limit_storage_uri = [], se_rate_limit_default = [], se_rate_limit_enabled = True,
      se_rate_limit_fail_open = False, se_jwt_secret = [], se_api_keys = ''k0, k1,''\<rparr>)"
proof -
  let ?s = "\<lparr>se_app_env = ''production'', se_api_v1_prefix = [],
      se_rate_limit_storage_uri = [], se_rate_limit_default = [], se_rate_limit_enabled = True,
      se_rate_limit_fail_open = False, se_jwt_secret = [], se_api_keys = ''k0, k1,''\<rparr>"
  have "require_api_key (Some ''k1'') ?s = Authorized ''k1''" by code_simp
  from production_requires_configured_key [OF _ this] show ?thesis by simp
qed

end
