(* ===== verification/AdjustmentFactors.thy ===== *)
theory AdjustmentFactors
  imports PyObj
begin

text \<open>
  \<open>app/services/adjustment_factors.py\<close>: the content-addressed artifact of
  split and dividend adjustment factors over a contiguous raw-close series.

  The exchange calendar and the installed package versions are third-party: the
  record \<open>af_env\<close> carries them.  Arguments whose class the code tests are
  \<open>pyobj\<close> fields of the \<open>...Arg\<close> records; the validated rows are the typed
  records of the same classes.
\<close>

section \<open>Environment and data\<close>

record af_env =
  env_pandas_version :: string
  env_tzdata_version :: string
  env_xcals_version :: string
  env_calendar_available :: bool
  env_sessions_in_range :: "date \<Rightarrow> date \<Rightarrow> date list option"
  env_session_close :: "date \<Rightarrow> pyobj"

record RawCloseArg =
  rca_observation_date :: pyobj
  rca_observed_at :: pyobj
  rca_timespan :: pyobj
  rca_multiplier :: pyobj
  rca_source :: pyobj
  rca_adjustment_basis :: pyobj
  rca_version_recorded_at :: pyobj
  rca_available_at :: pyobj
  rca_close :: pyobj

record RawCloseVersion =
  rc_observation_date :: date
  rc_observed_at :: instant
  rc_timespan :: string
  rc_multiplier :: int
  rc_source :: string
  rc_adjustment_basis :: string
  rc_version_recorded_at :: instant
  rc_available_at :: instant
  rc_close :: dec

record SplitActionArg =
  sa_provider_event_id :: pyobj
  sa_version_id :: pyobj
  sa_effective_date :: pyobj
  sa_split_from :: pyobj
  sa_split_to :: pyobj
  sa_adjustment_type :: pyobj

record SplitActionVersion =
  sv_provider_event_id :: string
  sv_version_id :: string
  sv_effective_date :: date
  sv_split_from :: dec
  sv_split_to :: dec
  sv_adjustment_type :: string

record DividendActionArg =
  da_provider_event_id :: pyobj
  da_version_id :: pyobj
  da_ex_dividend_date :: pyobj
  da_cash_amount :: pyobj
  da_currency :: pyobj
  da_distribution_type :: pyobj

record DividendActionVersion =
  dv_provider_event_id :: string
  dv_version_id :: string
  dv_ex_dividend_date :: date
  dv_cash_amount :: dec
  dv_currency :: string
  dv_distribution_type :: string

record AdjustmentFactor =
  af_raw_input_ordinal :: int
  af_price_factor_decimal :: string
  af_volume_factor_decimal :: string
  af_price_factor_f64_be :: string
  af_volume_factor_f64_be :: string

record AdjustmentFactorSet =
  fs_factor_set_id :: string
  fs_canonical_payload :: bytes
  fs_format :: string
  fs_policy_version :: string
  fs_policy_hash :: string
  fs_symbol :: string
  fs_cutoff :: instant
  fs_anchor_date :: date
  fs_split_collection_id :: string
  fs_dividend_collection_id :: string
  fs_raw_inputs :: "RawCloseVersion list"
  fs_action_version_ids :: "string list"
  fs_factors :: "AdjustmentFactor list"

definition adjustment_factor_policy_version :: string where
  "adjustment_factor_policy_version = ''split-dividend-gross-total-return-v1''"

definition adjustment_factor_set_format :: string where
  "adjustment_factor_set_format = ''stockapi-adjustment-factor-set-v1''"

definition calendar_engine_version :: string where
  "calendar_engine_version = ''4.13.2''"

definition max_raw_inputs :: nat where
  "max_raw_inputs = 5000"

section \<open>The policy document\<close>

definition af_policy_document :: "af_env \<Rightarrow> json" where
  "af_policy_document env = JObj [
     (''arithmetic'', JObj [
        (''calculation'', JStr ''decimal''),
        (''evaluation_order'', JArr [
           JStr ''round_each_input'',
           JStr ''round_addition'',
           JStr ''round_cumulative_factor_times_numerator'',
           JStr ''round_product_divided_by_denominator'']),
        (''precision'', JInt (int decimal_precision)),
        (''published_float_conversion'', JStr ''round_to_nearest_ties_to_even''),
        (''rounding'', JStr ''ROUND_HALF_EVEN''),
        (''published_float'', JStr ''ieee754-binary64-big-endian-hex'')]),
     (''calendar'', JObj [
        (''engine'', JStr ''exchange_calendars''),
        (''engine_version'', JStr calendar_engine_version),
        (''name'', JStr ''XNYS''),
        (''pandas_version'', JStr (env_pandas_version env)),
        (''schedule_end'', JStr ''2100-12-31''),
        (''schedule_start'', JStr ''1990-01-01''),
        (''tzdata_version'', JStr (env_tzdata_version env))]),
     (''action_date'', JStr ''must_equal_an_exact_raw_xnys_session''),
     (''cardinality'', JStr ''at_most_one_total_action_per_session''),
     (''date_application'', JStr ''observation_date<action_date<=anchor_date''),
     (''dividend'', JObj [
        (''allowed_distribution_types'', JArr [JStr ''recurring'']),
        (''cash'', JStr ''strictly_positive_usd''),
        (''price_factor_step'', JStr ''post_action_raw_close/(post_action_raw_close+cash)''),
        (''return_identity'', JStr ''(post_action_raw_close+cash)/previous_raw_close-1''),
        (''volume_factor_step'', JStr ''1'')]),
     (''format'', JStr ''stockapi-adjustment-factor-policy-v1''),
     (''raw_series'', JObj [
        (''anchor'', JStr ''newest_raw_xnys_session_factor_one''),
        (''close'', JObj [
           (''calculation_value'', JStr ''decimal34_of_binary64_shortest_round_trip_decimal''),
           (''published_decimal'', JStr ''canonical_positive_decimal''),
           (''published_float'', JStr ''ieee754-binary64-big-endian-hex'')]),
        (''receipt'', JObj [
           (''availability_order'',
              JStr ''observed_at<=version_recorded_at<=available_at<=factor_set_cutoff''),
           (''identity_fields'', JArr [
              JStr ''symbol'', JStr ''timespan'', JStr ''multiplier'', JStr ''observed_at'',
              JStr ''source'', JStr ''adjustment_basis'', JStr ''version_recorded_at'',
              JStr ''available_at'']),
           (''ordering'', JStr ''observation_date_ascending_with_unique_exact_receipts'')]),
        (''sessions'', JStr ''exact_contiguous_xnys_sessions''),
        (''source_contract'', JObj [
           (''adjustment_basis'', JStr ''raw''),
           (''multiplier'', JInt 1),
           (''observed_at'', JStr ''exact_xnys_regular_session_close_utc''),
           (''source'', JStr ''polygon_open_close''),
           (''timespan'', JStr ''day'')]),
        (''target'', JStr ''raw_close_unchanged'')]),
     (''split'', JObj [
        (''allowed_adjustment_types'', JArr [JStr ''forward_split'', JStr ''reverse_split'']),
        (''price_factor_step'', JStr ''split_from/split_to''),
        (''volume_factor_step'', JStr ''split_to/split_from'')]),
     (''version'', JStr adjustment_factor_policy_version)]"

definition af_policy_canonical :: "af_env \<Rightarrow> bytes" where
  "af_policy_canonical env = canonical_bytes (af_policy_document env)"

definition adjustment_factor_policy_hash :: "af_env \<Rightarrow> string" where
  "adjustment_factor_policy_hash env = content_id (af_policy_canonical env)"

text \<open>A detached copy of the policy, parsed back from its canonical bytes.\<close>

definition adjustment_factor_policy_document :: "af_env \<Rightarrow> (string \<times> json) list res" where
  "adjustment_factor_policy_document env =
     (case json_loads (af_policy_canonical env) of
        Some (JObj d) \<Rightarrow> Inr d
      | Some _ \<Rightarrow> Inl (RuntimeError ''adjustment-factor policy is not an object'')
      | None \<Rightarrow> Inl (ValueError ''JSONDecodeError''))"

section \<open>Decimal steps\<close>

definition af_positive_decimal :: "pyobj \<Rightarrow> string \<Rightarrow> dec res" where
  "af_positive_decimal v label =
     (case v of
        PyDec d \<Rightarrow>
          bind_res (check (\<not> dec_finite d \<or> \<not> dec_positive d)
              (AdjustmentFactorError (label @ '' must be finite and positive''))) (\<lambda>_.
          case dec_plus decimal_precision d of
            Inl _ \<Rightarrow> Inl (AdjustmentFactorError (label @ '' cannot be represented''))
          | Inr n \<Rightarrow>
              if \<not> dec_finite n \<or> \<not> dec_positive n
              then Inl (AdjustmentFactorError (label @ '' must be finite and positive''))
              else Inr n)
      | _ \<Rightarrow> Inl (AdjustmentFactorError (label @ '' must be a Decimal'')))"

definition af_mul_div :: "dec \<Rightarrow> dec \<Rightarrow> dec \<Rightarrow> string \<Rightarrow> dec res" where
  "af_mul_div left num den label =
     (case bind_res (dec_mul decimal_precision left num) (\<lambda>p.
             bind_res (dec_div decimal_precision p den) (dec_plus decimal_precision)) of
        Inl _ \<Rightarrow> Inl (AdjustmentFactorError (label @ '' cannot be represented''))
      | Inr r \<Rightarrow>
          if \<not> dec_finite r \<or> \<not> dec_positive r
          then Inl (AdjustmentFactorError (label @ '' must remain finite and positive''))
          else Inr r)"

definition af_add :: "dec \<Rightarrow> dec \<Rightarrow> string \<Rightarrow> dec res" where
  "af_add left right label =
     (case bind_res (dec_add decimal_precision left right) (dec_plus decimal_precision) of
        Inl _ \<Rightarrow> Inl (AdjustmentFactorError (label @ '' cannot be represented''))
      | Inr r \<Rightarrow>
          if \<not> dec_finite r \<or> \<not> dec_positive r
          then Inl (AdjustmentFactorError (label @ '' must remain finite and positive''))
          else Inr r)"

fun dec_is_zero :: "dec \<Rightarrow> bool" where
  "dec_is_zero (Dec s c e) = (c = 0)"
| "dec_is_zero _ = False"

definition af_decimal_text :: "dec \<Rightarrow> string res" where
  "af_decimal_text v =
     (if dec_is_zero v then Inr ''0''
      else case dec_normalize decimal_precision v of
        Inl _ \<Rightarrow> Inl (AdjustmentFactorError ''Decimal value cannot be canonicalized'')
      | Inr n \<Rightarrow>
          (let r = trim_fraction (dec_format_f n) in Inr (if r = ''-0'' then ''0'' else r)))"

definition af_binary64_bits :: "dec \<Rightarrow> string \<Rightarrow> string res" where
  "af_binary64_bits v label =
     (let x = f_of_dec v in
      if \<not> f_isfinite x \<or> f_le x f_zero
      then Inl (AdjustmentFactorError (label @ '' cannot be represented as positive binary64''))
      else Inr (hex_fixed 16 (uint x)))"

definition af_canonical_raw_close :: "pyobj \<Rightarrow> dec res" where
  "af_canonical_raw_close v =
     bind_res (af_positive_decimal v ''raw close'') (\<lambda>supplied.
     let x = f_of_dec supplied in
     if \<not> f_isfinite x \<or> f_le x f_zero
     then Inl (AdjustmentFactorError ''raw close cannot be represented as positive binary64'')
     else af_positive_decimal (PyDec (dec_of_float_str x)) ''raw close'')"

section \<open>Scalar validators\<close>

definition max_identifier_length :: nat where
  "max_identifier_length = 256"

definition af_identifier :: "pyobj \<Rightarrow> string \<Rightarrow> string res" where
  "af_identifier v label =
     (case v of
        PyStr s \<Rightarrow>
          if s \<noteq> nfc s \<or> s = [] \<or> py_strip s \<noteq> s \<or> max_identifier_length < length s \<or> has_surrogate s
          then Inl (AdjustmentFactorError (label @ '' must be an exact bounded opaque identifier''))
          else Inr s
      | _ \<Rightarrow> Inl (AdjustmentFactorError (label @ '' must be text'')))"

definition af_content_id :: "pyobj \<Rightarrow> string \<Rightarrow> string res" where
  "af_content_id v label =
     bind_res (af_identifier v label) (\<lambda>s.
     if \<not> content_id_pattern s
     then Inl (AdjustmentFactorError (label @ '' must be a SHA-256 content address''))
     else Inr s)"

definition af_symbol :: "pyobj \<Rightarrow> string res" where
  "af_symbol v =
     (case v of
        PyStr s \<Rightarrow>
          if s \<noteq> py_upper (py_strip s) \<or> \<not> symbol_pattern s
          then Inl (AdjustmentFactorError ''symbol must be uppercase and canonical'')
          else Inr s
      | _ \<Rightarrow> Inl (AdjustmentFactorError ''symbol must be uppercase and canonical''))"

definition af_date :: "pyobj \<Rightarrow> string \<Rightarrow> date res" where
  "af_date v label =
     (case v of PyDate d \<Rightarrow> Inr d | _ \<Rightarrow> Inl (AdjustmentFactorError (label @ '' must be a date'')))"

definition af_utc :: "pyobj \<Rightarrow> string \<Rightarrow> instant res" where
  "af_utc v label = utc_of AdjustmentFactorError v label"

definition af_timestamp :: "instant \<Rightarrow> string" where
  "af_timestamp t = instant_text t"

section \<open>The raw series\<close>

definition af_calendar :: "af_env \<Rightarrow> unit res" where
  "af_calendar env =
     (if env_xcals_version env \<noteq> calendar_engine_version
      then Inl (AdjustmentFactorError ''exchange_calendars version differs from the adjustment policy'')
      else if \<not> env_calendar_available env
      then Inl (AdjustmentFactorError ''the pinned XNYS calendar is unavailable'')
      else Inr ())"

definition af_validate_contiguous_xnys :: "af_env \<Rightarrow> date list \<Rightarrow> unit res" where
  "af_validate_contiguous_xnys env dates =
     bind_res (af_calendar env) (\<lambda>_.
     case env_sessions_in_range env (hd dates) (last dates) of
       None \<Rightarrow> Inl (AdjustmentFactorError ''raw dates are outside the pinned XNYS schedule'')
     | Some expected \<Rightarrow>
         if dates \<noteq> expected
         then Inl (AdjustmentFactorError ''raw dates must be exact contiguous XNYS sessions'')
         else Inr ())"

definition af_raw_close :: "instant \<Rightarrow> RawCloseArg \<Rightarrow> RawCloseVersion res" where
  "af_raw_close cutoff item =
     bind_res (af_date (rca_observation_date item) ''raw observation_date'') (\<lambda>observation_date.
     bind_res (af_utc (rca_observed_at item) ''raw observed_at'') (\<lambda>observed_at.
     bind_res (af_utc (rca_version_recorded_at item) ''raw version_recorded_at'') (\<lambda>version_recorded_at.
     bind_res (af_utc (rca_available_at item) ''raw available_at'') (\<lambda>available_at.
     bind_res (check (rca_timespan item \<noteq> PyStr ''day'')
       (AdjustmentFactorError ''raw timespan must be exactly day'')) (\<lambda>_.
     bind_res (check (rca_multiplier item \<noteq> PyInt 1)
       (AdjustmentFactorError ''raw multiplier must be exactly one'')) (\<lambda>_.
     bind_res (check (rca_source item \<noteq> PyStr ''polygon_open_close'')
       (AdjustmentFactorError ''raw source must be exactly polygon_open_close'')) (\<lambda>_.
     bind_res (check (rca_adjustment_basis item \<noteq> PyStr ''raw'')
       (AdjustmentFactorError ''raw adjustment_basis must be exactly raw'')) (\<lambda>_.
     bind_res (check (date_of_instant observed_at \<noteq> observation_date)
       (AdjustmentFactorError ''raw observed_at date must equal observation_date'')) (\<lambda>_.
     bind_res (check (\<not> (observed_at \<le> version_recorded_at \<and> version_recorded_at \<le> available_at
           \<and> available_at \<le> cutoff))
       (AdjustmentFactorError (''raw receipt timestamps must satisfy ''
          @ ''observed_at <= version_recorded_at <= available_at <= cutoff''))) (\<lambda>_.
     bind_res (af_canonical_raw_close (rca_close item)) (\<lambda>close.
     Inr \<lparr>rc_observation_date = observation_date, rc_observed_at = observed_at,
          rc_timespan = ''day'', rc_multiplier = 1, rc_source = ''polygon_open_close'',
          rc_adjustment_basis = ''raw'', rc_version_recorded_at = version_recorded_at,
          rc_available_at = available_at, rc_close = close\<rparr>)))))))))))"

definition rc_receipt_key ::
  "RawCloseVersion \<Rightarrow> string \<times> int \<times> instant \<times> string \<times> string \<times> instant \<times> instant" where
  "rc_receipt_key r = (rc_timespan r, rc_multiplier r, rc_observed_at r, rc_source r,
     rc_adjustment_basis r, rc_version_recorded_at r, rc_available_at r)"

text \<open>The loop over the rows that compares each with the exchange's session close.\<close>

fun af_check_session_closes :: "af_env \<Rightarrow> RawCloseVersion list \<Rightarrow> unit res" where
  "af_check_session_closes env [] = Inr ()"
| "af_check_session_closes env (r # rs) =
     bind_res (af_utc (env_session_close env (rc_observation_date r)) ''raw session close'') (\<lambda>expected.
     if rc_observed_at r \<noteq> expected
     then Inl (AdjustmentFactorError ''raw observed_at must be the exact XNYS session close'')
     else af_check_session_closes env rs)"

definition af_validated_raw_closes ::
  "af_env \<Rightarrow> RawCloseArg pyarg pyseq \<Rightarrow> instant \<Rightarrow> RawCloseVersion list res" where
  "af_validated_raw_closes env values cutoff =
     (case values of
        NotIterable \<Rightarrow> Inl (AdjustmentFactorError ''raw_closes must be a finite sequence'')
      | Seq supplied \<Rightarrow>
          bind_res (check (supplied = [])
            (AdjustmentFactorError ''raw_closes must not be empty'')) (\<lambda>_.
          bind_res (check (max_raw_inputs < length supplied)
            (AdjustmentFactorError ''raw_closes exceed the 5000-row factor-set limit'')) (\<lambda>_.
          bind_res (check (\<not> list_all is_inst supplied)
            (AdjustmentFactorError ''raw_closes contain an unsupported value'')) (\<lambda>_.
          bind_res (map_res (af_raw_close cutoff) (insts supplied)) (\<lambda>rows.
          let normalized = sort_key rc_observation_date rows;
              dates = map rc_observation_date normalized in
          bind_res (check (\<not> distinct dates)
            (AdjustmentFactorError ''raw observation dates must be unique'')) (\<lambda>_.
          bind_res (af_validate_contiguous_xnys env dates) (\<lambda>_.
          bind_res (check (\<not> distinct (map rc_receipt_key normalized))
            (AdjustmentFactorError ''raw exact receipt identities must be unique'')) (\<lambda>_.
          bind_res (check (any_adjacent (\<lambda>l r. rc_observed_at l \<ge> rc_observed_at r) normalized)
            (AdjustmentFactorError ''raw observations must be strictly chronological'')) (\<lambda>_.
          bind_res (af_check_session_closes env normalized) (\<lambda>_.
          bind_res (af_utc (env_session_close env (rc_observation_date (last normalized)))
            ''anchor session close'') (\<lambda>anchor_close.
          bind_res (check (cutoff < anchor_close)
            (AdjustmentFactorError ''cutoff must not precede the anchor session close'')) (\<lambda>_.
          Inr normalized))))))))))))"

section \<open>Corporate actions\<close>

definition af_action_date :: "pyobj \<Rightarrow> string \<Rightarrow> RawCloseVersion list \<Rightarrow> date res" where
  "af_action_date v label raw =
     bind_res (check (v = PyNone) (AdjustmentFactorError (label @ '' must be known''))) (\<lambda>_.
     bind_res (af_date v label) (\<lambda>d.
     bind_res (check (d < rc_observation_date (hd raw) \<or> rc_observation_date (last raw) < d)
       (AdjustmentFactorError (label @ '' is outside the raw date span''))) (\<lambda>_.
     bind_res (check (\<not> List.member (map rc_observation_date raw) d)
       (AdjustmentFactorError (label @ '' must be an exact raw XNYS session''))) (\<lambda>_.
     Inr d))))"

definition af_split_row :: "RawCloseVersion list \<Rightarrow> SplitActionArg \<Rightarrow> SplitActionVersion res" where
  "af_split_row raw item =
     bind_res (af_action_date (sa_effective_date item) ''split effective_date'' raw) (\<lambda>effective_date.
     case sa_adjustment_type item of
       PyStr kind \<Rightarrow>
         bind_res (check (kind \<noteq> ''forward_split'' \<and> kind \<noteq> ''reverse_split'')
           (AdjustmentFactorError ''split adjustment_type is outside the v1 allowlist'')) (\<lambda>_.
         bind_res (af_identifier (sa_provider_event_id item) ''split provider_event_id'') (\<lambda>event_id.
         bind_res (af_content_id (sa_version_id item) ''split version_id'') (\<lambda>version_id.
         bind_res (af_positive_decimal (sa_split_from item) ''split_from'') (\<lambda>split_from.
         bind_res (af_positive_decimal (sa_split_to item) ''split_to'') (\<lambda>split_to.
         Inr \<lparr>sv_provider_event_id = event_id, sv_version_id = version_id,
              sv_effective_date = effective_date, sv_split_from = split_from,
              sv_split_to = split_to, sv_adjustment_type = kind\<rparr>)))))
     | _ \<Rightarrow> Inl (AdjustmentFactorError ''split adjustment_type is outside the v1 allowlist''))"

text \<open>Sorting by a pair is a stable sort by the second key, then by the first.\<close>

definition sort_splits :: "SplitActionVersion list \<Rightarrow> SplitActionVersion list" where
  "sort_splits xs = sort_key sv_effective_date (sort_key sv_provider_event_id xs)"

definition af_validated_splits ::
  "SplitActionArg pyarg pyseq \<Rightarrow> RawCloseVersion list \<Rightarrow> SplitActionVersion list res" where
  "af_validated_splits values raw =
     (case values of
        NotIterable \<Rightarrow> Inl (AdjustmentFactorError ''splits must be a finite sequence'')
      | Seq supplied \<Rightarrow>
          bind_res (check (\<not> list_all is_inst supplied)
            (AdjustmentFactorError ''splits contain an unsupported value'')) (\<lambda>_.
          bind_res (map_res (af_split_row raw) (insts supplied)) (\<lambda>normalized.
          Inr (sort_splits normalized))))"

definition af_dividend_row :: "RawCloseVersion list \<Rightarrow> DividendActionArg \<Rightarrow> DividendActionVersion res" where
  "af_dividend_row raw item =
     bind_res (af_action_date (da_ex_dividend_date item) ''dividend ex_dividend_date'' raw) (\<lambda>ex_date.
     bind_res (check (da_currency item \<noteq> PyStr ''USD'')
       (AdjustmentFactorError ''dividend currency must be exactly USD'')) (\<lambda>_.
     bind_res (check (da_distribution_type item \<noteq> PyStr ''recurring'')
       (AdjustmentFactorError ''dividend distribution_type is outside the v1 allowlist'')) (\<lambda>_.
     bind_res (af_identifier (da_provider_event_id item) ''dividend provider_event_id'') (\<lambda>event_id.
     bind_res (af_content_id (da_version_id item) ''dividend version_id'') (\<lambda>version_id.
     bind_res (af_positive_decimal (da_cash_amount item) ''dividend cash_amount'') (\<lambda>cash.
     Inr \<lparr>dv_provider_event_id = event_id, dv_version_id = version_id,
          dv_ex_dividend_date = ex_date, dv_cash_amount = cash, dv_currency = ''USD'',
          dv_distribution_type = ''recurring''\<rparr>))))))"

definition sort_dividends :: "DividendActionVersion list \<Rightarrow> DividendActionVersion list" where
  "sort_dividends xs = sort_key dv_ex_dividend_date (sort_key dv_provider_event_id xs)"

definition af_validated_dividends ::
  "DividendActionArg pyarg pyseq \<Rightarrow> RawCloseVersion list \<Rightarrow> DividendActionVersion list res" where
  "af_validated_dividends values raw =
     (case values of
        NotIterable \<Rightarrow> Inl (AdjustmentFactorError ''dividends must be a finite sequence'')
      | Seq supplied \<Rightarrow>
          bind_res (check (\<not> list_all is_inst supplied)
            (AdjustmentFactorError ''dividends contain an unsupported value'')) (\<lambda>_.
          bind_res (map_res (af_dividend_row raw) (insts supplied)) (\<lambda>normalized.
          Inr (sort_dividends normalized))))"

definition af_validate_action_identity ::
  "SplitActionVersion list \<Rightarrow> DividendActionVersion list \<Rightarrow> unit res" where
  "af_validate_action_identity splits dividends =
     bind_res (check (\<not> distinct (map sv_provider_event_id splits @ map dv_provider_event_id dividends))
       (AdjustmentFactorError ''corporate-action IDs must be unique'')) (\<lambda>_.
     bind_res (check (\<not> distinct (map sv_version_id splits @ map dv_version_id dividends))
       (AdjustmentFactorError ''corporate-action version IDs must be unique'')) (\<lambda>_.
     bind_res (check (\<not> distinct (map sv_effective_date splits @ map dv_ex_dividend_date dividends))
       (AdjustmentFactorError ''v1 permits at most one split or dividend on a session'')) (\<lambda>_.
     Inr ())))"

section \<open>The factor recurrence\<close>

definition af_factor_row :: "int \<Rightarrow> dec \<Rightarrow> dec \<Rightarrow> AdjustmentFactor res" where
  "af_factor_row ordinal price_factor volume_factor =
     bind_res (af_decimal_text price_factor) (\<lambda>price_text.
     bind_res (af_decimal_text volume_factor) (\<lambda>volume_text.
     bind_res (af_binary64_bits price_factor ''price factor'') (\<lambda>price_bits.
     bind_res (af_binary64_bits volume_factor ''volume factor'') (\<lambda>volume_bits.
     Inr \<lparr>af_raw_input_ordinal = ordinal, af_price_factor_decimal = price_text,
          af_volume_factor_decimal = volume_text, af_price_factor_f64_be = price_bits,
          af_volume_factor_f64_be = volume_bits\<rparr>))))"

text \<open>The two dictionaries keyed by date; a later item replaces an earlier one.\<close>

definition split_by_date :: "SplitActionVersion list \<Rightarrow> date \<Rightarrow> SplitActionVersion option" where
  "split_by_date xs d = find (\<lambda>x. sv_effective_date x = d) (rev xs)"

definition dividend_by_date :: "DividendActionVersion list \<Rightarrow> date \<Rightarrow> DividendActionVersion option" where
  "dividend_by_date xs d = find (\<lambda>x. dv_ex_dividend_date x = d) (rev xs)"

text \<open>The two cumulative factors after the row of one session, going back in time.\<close>

definition af_step ::
  "SplitActionVersion list \<Rightarrow> DividendActionVersion list \<Rightarrow> RawCloseVersion \<Rightarrow> dec \<times> dec \<Rightarrow> (dec \<times> dec) res" where
  "af_step splits dividends row = (\<lambda>(price_factor, volume_factor).
     case split_by_date splits (rc_observation_date row) of
       Some split \<Rightarrow>
         bind_res (af_mul_div price_factor (sv_split_from split) (sv_split_to split) ''split price factor'') (\<lambda>p.
         bind_res (af_mul_div volume_factor (sv_split_to split) (sv_split_from split) ''split volume factor'') (\<lambda>v.
         Inr (p, v)))
     | None \<Rightarrow>
         (case dividend_by_date dividends (rc_observation_date row) of
            Some dividend \<Rightarrow>
              bind_res (af_add (rc_close row) (dv_cash_amount dividend) ''dividend denominator'') (\<lambda>denominator.
              bind_res (af_mul_div price_factor (rc_close row) denominator ''dividend price factor'') (\<lambda>p.
              Inr (p, volume_factor)))
          | None \<Rightarrow> Inr (price_factor, volume_factor)))"

text \<open>
  The loop \<open>for raw_input_ordinal in range(len(raw) - 1, -1, -1)\<close>: the rows come
  newest first, each with its ordinal; the result lists the factor rows newest
  first (\<open>factors_descending\<close>).
\<close>

fun af_factor_loop ::
  "SplitActionVersion list \<Rightarrow> DividendActionVersion list \<Rightarrow> (int \<times> RawCloseVersion) list \<Rightarrow> dec \<times> dec
     \<Rightarrow> AdjustmentFactor list res" where
  "af_factor_loop splits dividends [] acc = Inr []"
| "af_factor_loop splits dividends ((ordinal, row) # rows) acc =
     bind_res (af_factor_row ordinal (fst acc) (snd acc)) (\<lambda>factor.
     bind_res (af_step splits dividends row acc) (\<lambda>acc'.
     bind_res (af_factor_loop splits dividends rows acc') (\<lambda>factors.
     Inr (factor # factors))))"

definition dec_one :: dec where
  "dec_one = Dec False 1 0"

definition af_enumerate :: "'a list \<Rightarrow> (int \<times> 'a) list" where
  "af_enumerate xs = zip (map int [0..<length xs]) xs"

definition af_factors ::
  "SplitActionVersion list \<Rightarrow> DividendActionVersion list \<Rightarrow> RawCloseVersion list \<Rightarrow> AdjustmentFactor list res" where
  "af_factors splits dividends raw =
     bind_res (af_factor_loop splits dividends (rev (af_enumerate raw)) (dec_one, dec_one)) (\<lambda>descending.
     Inr (rev descending))"

section \<open>The payload\<close>

definition af_split_json :: "SplitActionVersion \<Rightarrow> json res" where
  "af_split_json item =
     bind_res (af_decimal_text (sv_split_from item)) (\<lambda>split_from.
     bind_res (af_decimal_text (sv_split_to item)) (\<lambda>split_to.
     Inr (JObj [
       (''provider_event_id'', JStr (sv_provider_event_id item)),
       (''adjustment_type'', JStr (sv_adjustment_type item)),
       (''effective_date'', JStr (date_iso (sv_effective_date item))),
       (''split_from'', JStr split_from),
       (''split_to'', JStr split_to),
       (''version_id'', JStr (sv_version_id item))])))"

definition af_dividend_json :: "DividendActionVersion \<Rightarrow> json res" where
  "af_dividend_json item =
     bind_res (af_decimal_text (dv_cash_amount item)) (\<lambda>cash.
     Inr (JObj [
       (''provider_event_id'', JStr (dv_provider_event_id item)),
       (''cash_amount'', JStr cash),
       (''currency'', JStr (dv_currency item)),
       (''distribution_type'', JStr (dv_distribution_type item)),
       (''ex_dividend_date'', JStr (date_iso (dv_ex_dividend_date item))),
       (''version_id'', JStr (dv_version_id item))]))"

definition af_factor_json :: "AdjustmentFactor \<Rightarrow> json" where
  "af_factor_json item = JObj [
     (''price_factor_decimal'', JStr (af_price_factor_decimal item)),
     (''price_factor_f64_be'', JStr (af_price_factor_f64_be item)),
     (''raw_input_ordinal'', JInt (af_raw_input_ordinal item)),
     (''volume_factor_decimal'', JStr (af_volume_factor_decimal item)),
     (''volume_factor_f64_be'', JStr (af_volume_factor_f64_be item))]"

definition af_raw_json :: "RawCloseVersion \<Rightarrow> json res" where
  "af_raw_json item =
     bind_res (af_decimal_text (rc_close item)) (\<lambda>close_text.
     bind_res (af_binary64_bits (rc_close item) ''raw close'') (\<lambda>close_bits.
     Inr (JObj [
       (''adjustment_basis'', JStr (rc_adjustment_basis item)),
       (''available_at'', JStr (af_timestamp (rc_available_at item))),
       (''close_decimal'', JStr close_text),
       (''close_f64_be'', JStr close_bits),
       (''multiplier'', JInt (rc_multiplier item)),
       (''observation_date'', JStr (date_iso (rc_observation_date item))),
       (''observed_at'', JStr (af_timestamp (rc_observed_at item))),
       (''source'', JStr (rc_source item)),
       (''timespan'', JStr (rc_timespan item)),
       (''version_recorded_at'', JStr (af_timestamp (rc_version_recorded_at item)))])))"

definition af_payload_document ::
  "af_env \<Rightarrow> string \<Rightarrow> instant \<Rightarrow> string \<Rightarrow> string \<Rightarrow> json list \<Rightarrow> json list \<Rightarrow> json list
     \<Rightarrow> RawCloseVersion list \<Rightarrow> AdjustmentFactor list \<Rightarrow> json" where
  "af_payload_document env symbol cutoff split_id dividend_id split_rows dividend_rows raw_rows raw factors =
     JObj [
       (''actions'', JObj [
          (''dividends'', JObj [(''collection_id'', JStr dividend_id), (''versions'', JArr dividend_rows)]),
          (''splits'', JObj [(''collection_id'', JStr split_id), (''versions'', JArr split_rows)])]),
       (''anchor_date'', JStr (date_iso (rc_observation_date (last raw)))),
       (''cutoff'', JStr (af_timestamp cutoff)),
       (''factors'', JArr (map af_factor_json factors)),
       (''format'', JStr adjustment_factor_set_format),
       (''policy_hash'', JStr (adjustment_factor_policy_hash env)),
       (''policy_version'', JStr adjustment_factor_policy_version),
       (''raw_inputs'', JArr raw_rows),
       (''symbol'', JStr symbol)]"

section \<open>The builder\<close>

definition build_adjustment_factor_set ::
  "af_env \<Rightarrow> pyobj \<Rightarrow> pyobj \<Rightarrow> RawCloseArg pyarg pyseq \<Rightarrow> pyobj \<Rightarrow> SplitActionArg pyarg pyseq
     \<Rightarrow> pyobj \<Rightarrow> DividendActionArg pyarg pyseq \<Rightarrow> AdjustmentFactorSet res" where
  "build_adjustment_factor_set env symbol cutoff raw_closes split_collection_id splits
       dividend_collection_id dividends =
     bind_res (af_symbol symbol) (\<lambda>normalized_symbol.
     bind_res (af_utc cutoff ''cutoff'') (\<lambda>normalized_cutoff.
     bind_res (af_content_id split_collection_id ''split_collection_id'') (\<lambda>split_collection.
     bind_res (af_content_id dividend_collection_id ''dividend_collection_id'') (\<lambda>dividend_collection.
     bind_res (check (split_collection = dividend_collection)
       (AdjustmentFactorError ''corporate-action collection IDs must be distinct'')) (\<lambda>_.
     bind_res (af_validated_raw_closes env raw_closes normalized_cutoff) (\<lambda>raw.
     bind_res (af_validated_splits splits raw) (\<lambda>normalized_splits.
     bind_res (af_validated_dividends dividends raw) (\<lambda>normalized_dividends.
     bind_res (af_validate_action_identity normalized_splits normalized_dividends) (\<lambda>_.
     bind_res (af_factors normalized_splits normalized_dividends raw) (\<lambda>factors.
     bind_res (map_res af_split_json normalized_splits) (\<lambda>split_rows.
     bind_res (map_res af_dividend_json normalized_dividends) (\<lambda>dividend_rows.
     bind_res (map_res af_raw_json raw) (\<lambda>raw_rows.
     bind_res (canonical_json (af_payload_document env normalized_symbol normalized_cutoff
         split_collection dividend_collection split_rows dividend_rows raw_rows raw factors)) (\<lambda>payload.
     Inr \<lparr>fs_factor_set_id = content_id payload, fs_canonical_payload = payload,
          fs_format = adjustment_factor_set_format,
          fs_policy_version = adjustment_factor_policy_version,
          fs_policy_hash = adjustment_factor_policy_hash env, fs_symbol = normalized_symbol,
          fs_cutoff = normalized_cutoff, fs_anchor_date = rc_observation_date (last raw),
          fs_split_collection_id = split_collection,
          fs_dividend_collection_id = dividend_collection, fs_raw_inputs = raw,
          fs_action_version_ids =
            sort (map sv_version_id normalized_splits @ map dv_version_id normalized_dividends),
          fs_factors = factors\<rparr>))))))))))))))"

section \<open>What a successful build went through\<close>

lemma build_stages:
  assumes "build_adjustment_factor_set env symbol cutoff raw_closes split_id splits dividend_id dividends = Inr fs"
  obtains sy cu si di raw ns nd factors srows drows rrows payload
  where "af_symbol symbol = Inr sy" and "af_utc cutoff ''cutoff'' = Inr cu"
    and "af_content_id split_id ''split_collection_id'' = Inr si"
    and "af_content_id dividend_id ''dividend_collection_id'' = Inr di" and "si \<noteq> di"
    and "af_validated_raw_closes env raw_closes cu = Inr raw"
    and "af_validated_splits splits raw = Inr ns" and "af_validated_dividends dividends raw = Inr nd"
    and "af_validate_action_identity ns nd = Inr ()" and "af_factors ns nd raw = Inr factors"
    and "map_res af_split_json ns = Inr srows" and "map_res af_dividend_json nd = Inr drows"
    and "map_res af_raw_json raw = Inr rrows"
    and "canonical_json (af_payload_document env sy cu si di srows drows rrows raw factors) = Inr payload"
    and "fs = \<lparr>fs_factor_set_id = content_id payload, fs_canonical_payload = payload,
          fs_format = adjustment_factor_set_format,
          fs_policy_version = adjustment_factor_policy_version,
          fs_policy_hash = adjustment_factor_policy_hash env, fs_symbol = sy,
          fs_cutoff = cu, fs_anchor_date = rc_observation_date (last raw),
          fs_split_collection_id = si, fs_dividend_collection_id = di, fs_raw_inputs = raw,
          fs_action_version_ids = sort (map sv_version_id ns @ map dv_version_id nd),
          fs_factors = factors\<rparr>"
  using assms unfolding build_adjustment_factor_set_def
  by (elim bind_res_InrE bind_check_InrE)
     (rule that; (assumption | (drule Inr_inject, erule sym) | (simp only: sum.inject, erule sym) | simp))

lemma build_intro:
  assumes "af_symbol symbol = Inr sy" and "af_utc cutoff ''cutoff'' = Inr cu"
    and "af_content_id split_id ''split_collection_id'' = Inr si"
    and "af_content_id dividend_id ''dividend_collection_id'' = Inr di" and "si \<noteq> di"
    and "af_validated_raw_closes env raw_closes cu = Inr raw"
    and "af_validated_splits splits raw = Inr ns" and "af_validated_dividends dividends raw = Inr nd"
    and "af_validate_action_identity ns nd = Inr ()" and "af_factors ns nd raw = Inr factors"
    and "map_res af_split_json ns = Inr srows" and "map_res af_dividend_json nd = Inr drows"
    and "map_res af_raw_json raw = Inr rrows"
    and "canonical_json (af_payload_document env sy cu si di srows drows rrows raw factors) = Inr payload"
  shows "build_adjustment_factor_set env symbol cutoff raw_closes split_id splits dividend_id dividends = Inr
     \<lparr>fs_factor_set_id = content_id payload, fs_canonical_payload = payload,
          fs_format = adjustment_factor_set_format,
          fs_policy_version = adjustment_factor_policy_version,
          fs_policy_hash = adjustment_factor_policy_hash env, fs_symbol = sy,
          fs_cutoff = cu, fs_anchor_date = rc_observation_date (last raw),
          fs_split_collection_id = si, fs_dividend_collection_id = di, fs_raw_inputs = raw,
          fs_action_version_ids = sort (map sv_version_id ns @ map dv_version_id nd),
          fs_factors = factors\<rparr>"
  unfolding build_adjustment_factor_set_def using assms by simp

section \<open>The raw series\<close>

definition wf_raw :: "af_env \<Rightarrow> instant \<Rightarrow> RawCloseVersion \<Rightarrow> bool" where
  "wf_raw env cutoff r \<longleftrightarrow>
     rc_timespan r = ''day'' \<and> rc_multiplier r = 1 \<and> rc_source r = ''polygon_open_close'' \<and>
     rc_adjustment_basis r = ''raw'' \<and> rc_observation_date r = date_of_instant (rc_observed_at r) \<and>
     rc_observed_at r \<le> rc_version_recorded_at r \<and> rc_version_recorded_at r \<le> rc_available_at r \<and>
     rc_available_at r \<le> cutoff \<and> dec_finite (rc_close r) \<and> dec_positive (rc_close r)"

lemma af_positive_decimal_facts:
  "af_positive_decimal v label = Inr d \<Longrightarrow> dec_finite d \<and> dec_positive d"
  by (auto simp: af_positive_decimal_def res_iffs split: pyobj.splits sum.splits if_splits)

lemma af_raw_close_facts:
  assumes "af_raw_close cutoff item = Inr r"
  shows "wf_raw env cutoff r"
  using assms unfolding af_raw_close_def
  by (elim bind_res_InrE bind_check_InrE)
     (auto simp: wf_raw_def af_canonical_raw_close_def res_iffs Let_def split: if_splits
       dest: af_positive_decimal_facts)

lemma check_session_closes_iff:
  "af_check_session_closes env rs = Inr () \<longleftrightarrow>
     (\<forall>r \<in> set rs. af_utc (env_session_close env (rc_observation_date r)) ''raw session close'' = Inr (rc_observed_at r))"
  by (induction rs) (auto simp: res_iffs split: if_splits)

lemma validated_raw_facts:
  assumes "af_validated_raw_closes env v cutoff = Inr raw"
  shows "raw \<noteq> []" and "length raw \<le> 5000" and "sorted_wrt (<) (map rc_observation_date raw)"
    and "sorted_wrt (<) (map rc_observed_at raw)" and "\<forall>r \<in> set raw. wf_raw env cutoff r"
    and "env_sessions_in_range env (rc_observation_date (hd raw)) (rc_observation_date (last raw)) =
       Some (map rc_observation_date raw)"
    and "\<forall>r \<in> set raw. af_utc (env_session_close env (rc_observation_date r)) ''raw session close'' = Inr (rc_observed_at r)"
proof -
  from assms obtain supplied rows where
      v: "v = Seq supplied" and ne: "supplied \<noteq> []" and len: "\<not> 5000 < length supplied"
      and inst: "list_all is_inst supplied" and rows: "map_res (af_raw_close cutoff) (insts supplied) = Inr rows"
      and raw: "raw = sort_key rc_observation_date rows" and d: "distinct (map rc_observation_date raw)"
      and cont: "af_validate_contiguous_xnys env (map rc_observation_date raw) = Inr ()"
      and chr: "\<not> any_adjacent (\<lambda>l r. rc_observed_at l \<ge> rc_observed_at r) raw"
      and close: "af_check_session_closes env raw = Inr ()"
    unfolding af_validated_raw_closes_def Let_def max_raw_inputs_def
    by (cases v) (auto simp: res_iffs split: if_splits)
  have "length (insts supplied) = length supplied"
    using inst by (metis all_is_inst_iff length_map list_all_iff)
  then have "length raw = length supplied"
    using map_res_length [OF rows] raw by simp
  then show ne': "raw \<noteq> []" and "length raw \<le> 5000" using ne len by auto
  have "sorted (map rc_observation_date raw)" by (simp add: raw)
  with d show "sorted_wrt (<) (map rc_observation_date raw)" by (simp add: strict_sorted_iff)
  show "sorted_wrt (<) (map rc_observed_at raw)"
    using chr by (simp add: not_any_adjacent_ge strictly_increasing_iff sorted_wrt_map)
  show "\<forall>r \<in> set raw. wf_raw env cutoff r"
    using rows raw af_raw_close_facts by (auto elim!: map_res_in)
  show "env_sessions_in_range env (rc_observation_date (hd raw)) (rc_observation_date (last raw)) =
       Some (map rc_observation_date raw)"
    using cont ne' by (auto simp: af_validate_contiguous_xnys_def res_iffs hd_map last_map
        split: option.splits if_splits)
  show "\<forall>r \<in> set raw. af_utc (env_session_close env (rc_observation_date r)) ''raw session close'' = Inr (rc_observed_at r)"
    using close by (simp add: check_session_closes_iff)
qed

section \<open>The factor recurrence\<close>

text \<open>The cumulative factors before each row of the loop, in the order of the loop.\<close>

lemma factor_loop_trace:
  assumes "af_factor_loop splits dividends rows acc = Inr fs"
  shows "\<exists>accs. length accs = length rows \<and> (rows \<noteq> [] \<longrightarrow> accs ! 0 = acc) \<and> length fs = length rows \<and>
    (\<forall>k < length rows. af_factor_row (fst (rows ! k)) (fst (accs ! k)) (snd (accs ! k)) = Inr (fs ! k)) \<and>
    (\<forall>k. Suc k < length rows \<longrightarrow> af_step splits dividends (snd (rows ! k)) (accs ! k) = Inr (accs ! Suc k))"
  using assms
proof (induction rows arbitrary: acc fs)
  case (Cons row rows)
  obtain i r where row: "row = (i, r)" by (cases row)
  from Cons.prems row obtain f acc' fs' where f: "af_factor_row i (fst acc) (snd acc) = Inr f"
      and s: "af_step splits dividends r acc = Inr acc'"
      and l: "af_factor_loop splits dividends rows acc' = Inr fs'" and fs: "fs = f # fs'"
    by (auto simp: res_iffs)
  from Cons.IH [OF l] obtain accs where a: "length accs = length rows" "rows \<noteq> [] \<longrightarrow> accs ! 0 = acc'"
      "length fs' = length rows"
      "\<forall>k < length rows. af_factor_row (fst (rows ! k)) (fst (accs ! k)) (snd (accs ! k)) = Inr (fs' ! k)"
      "\<forall>k. Suc k < length rows \<longrightarrow> af_step splits dividends (snd (rows ! k)) (accs ! k) = Inr (accs ! Suc k)"
    by blast
  show ?case
  proof (intro exI [of _ "acc # accs"] conjI allI impI)
    fix k assume "k < length (row # rows)"
    then show "af_factor_row (fst ((row # rows) ! k)) (fst ((acc # accs) ! k)) (snd ((acc # accs) ! k)) = Inr (fs ! k)"
      using f a fs row by (cases k) auto
  next
    fix k assume k: "Suc k < length (row # rows)"
    then show "af_step splits dividends (snd ((row # rows) ! k)) ((acc # accs) ! k) = Inr ((acc # accs) ! Suc k)"
      using s a row by (cases k) auto
  qed (use a fs in auto)
qed simp

lemma length_enumerate [simp]: "length (af_enumerate xs) = length xs"
  by (simp add: af_enumerate_def)

lemma nth_enumerate [simp]: "i < length xs \<Longrightarrow> af_enumerate xs ! i = (int i, xs ! i)"
  by (simp add: af_enumerate_def)

lemma af_factors_trace:
  assumes "af_factors splits dividends raw = Inr factors"
  shows "\<exists>accs. length accs = length raw \<and> length factors = length raw \<and>
    (raw \<noteq> [] \<longrightarrow> last accs = (dec_one, dec_one)) \<and>
    (\<forall>i < length raw. af_factor_row (int i) (fst (accs ! i)) (snd (accs ! i)) = Inr (factors ! i)) \<and>
    (\<forall>i. Suc i < length raw \<longrightarrow> af_step splits dividends (raw ! Suc i) (accs ! Suc i) = Inr (accs ! i))"
proof -
  let ?n = "length raw" and ?rows = "rev (af_enumerate raw)"
  from assms obtain ds where l: "af_factor_loop splits dividends ?rows (dec_one, dec_one) = Inr ds"
      and f: "factors = rev ds" by (auto simp: af_factors_def res_iffs)
  from factor_loop_trace [OF l] obtain accs where a: "length accs = ?n" "raw \<noteq> [] \<longrightarrow> accs ! 0 = (dec_one, dec_one)"
      "length ds = ?n"
      "\<And>k. k < ?n \<Longrightarrow> af_factor_row (fst (?rows ! k)) (fst (accs ! k)) (snd (accs ! k)) = Inr (ds ! k)"
      "\<And>k. Suc k < ?n \<Longrightarrow> af_step splits dividends (snd (?rows ! k)) (accs ! k) = Inr (accs ! Suc k)"
    by (auto simp: af_enumerate_def)
  have r: "?rows ! k = (int (?n - Suc k), raw ! (?n - Suc k))" if "k < ?n" for k
    using that by (simp add: rev_nth)
  show ?thesis
  proof (intro exI [of _ "rev accs"] conjI allI impI)
    assume "raw \<noteq> []"
    with a show "last (rev accs) = (dec_one, dec_one)"
      by (metis hd_conv_nth last_rev length_0_conv)
  next
    fix i assume i: "i < ?n"
    then show "af_factor_row (int i) (fst (rev accs ! i)) (snd (rev accs ! i)) = Inr (factors ! i)"
      using a(4) [of "?n - Suc i"] r [of "?n - Suc i"] a(1,3) f by (simp add: rev_nth)
  next
    fix i assume i: "Suc i < ?n"
    have "?n - Suc (?n - Suc (Suc i)) = Suc i" "Suc (?n - Suc (Suc i)) = ?n - Suc i" using i by auto
    then show "af_step splits dividends (raw ! Suc i) (rev accs ! Suc i) = Inr (rev accs ! i)"
      using a(5) [of "?n - Suc (Suc i)"] r [of "?n - Suc (Suc i)"] a(1) i by (simp add: rev_nth)
  qed (use a f in auto)
qed

end
