(* ===== verification/AdjustedPrices.thy ===== *)
theory AdjustedPrices
  imports AdjustmentFactors
begin

text \<open>
  \<open>app/services/adjusted_prices.py\<close>: the projection of a complete window of raw
  OHLCV receipts through one immutable factor artifact.

  An artifact is the typed record \<open>AdjustmentFactorSet\<close>, so the tests of the code
  that its own fields have their declared classes are discharged by typing.  The
  rows and receipts of the caller are records of \<open>pyobj\<close> fields.
\<close>

section \<open>Data\<close>

record RawOhlcvArg =
  ra_symbol :: pyobj
  ra_timestamp :: pyobj
  ra_timespan :: pyobj
  ra_multiplier :: pyobj
  ra_source :: pyobj
  ra_adjustment_basis :: pyobj
  ra_version_recorded_at :: pyobj
  ra_available_at :: pyobj
  ra_open :: pyobj
  ra_high :: pyobj
  ra_low :: pyobj
  ra_close :: pyobj
  ra_volume :: pyobj
  ra_vwap :: pyobj
  ra_trade_count :: pyobj

record RawOhlcvVersion =
  ro_symbol :: string
  ro_timestamp :: instant
  ro_timespan :: string
  ro_multiplier :: int
  ro_source :: string
  ro_adjustment_basis :: string
  ro_version_recorded_at :: instant
  ro_available_at :: instant
  ro_open :: f64
  ro_high :: f64
  ro_low :: f64
  ro_close :: f64
  ro_volume :: f64
  ro_vwap :: "f64 option"
  ro_trade_count :: "int option"

record CollectionReceiptArg =
  cra_collection_id :: pyobj
  cra_collection_recorded_at :: pyobj
  cra_available_at :: pyobj

record CorporateActionCollectionReceipt =
  cr_collection_id :: string
  cr_collection_recorded_at :: instant
  cr_available_at :: instant

record FactorSetReceiptArg =
  fra_factor_set_id :: pyobj
  fra_factor_set_recorded_at :: pyobj
  fra_available_at :: pyobj

record AdjustmentFactorSetReceipt =
  fr_factor_set_id :: string
  fr_factor_set_recorded_at :: instant
  fr_available_at :: instant

record AdjustedOhlcvRow =
  ao_raw_input_ordinal :: int
  ao_symbol :: string
  ao_timestamp :: instant
  ao_timespan :: string
  ao_multiplier :: int
  ao_source :: string
  ao_adjustment_basis :: string
  ao_raw_version_recorded_at :: instant
  ao_raw_available_at :: instant
  ao_available_at :: instant
  ao_open :: f64
  ao_high :: f64
  ao_low :: f64
  ao_close :: f64
  ao_volume :: f64
  ao_vwap :: "f64 option"
  ao_trade_count :: "int option"
  ao_price_factor_f64_be :: string
  ao_volume_factor_f64_be :: string

record AdjustedPriceLineage =
  li_factor_set_id :: string
  li_factor_set_recorded_at :: instant
  li_factor_set_available_at :: instant
  li_policy_version :: string
  li_policy_hash :: string
  li_cutoff :: instant
  li_anchor_date :: date
  li_split_collection_id :: string
  li_split_collection_recorded_at :: instant
  li_split_collection_available_at :: instant
  li_dividend_collection_id :: string
  li_dividend_collection_recorded_at :: instant
  li_dividend_collection_available_at :: instant
  li_action_version_ids :: "string list"
  li_max_input_available_at :: instant
  li_data_available_at :: instant
  li_raw_input_count :: nat
  li_adjustment_basis :: string

record AdjustedPriceWindow =
  wi_rows :: "AdjustedOhlcvRow list"
  wi_lineage :: AdjustedPriceLineage
  wi_start_ordinal :: int
  wi_stop_ordinal :: int

definition adjusted_price_basis :: string where
  "adjusted_price_basis = ''split_dividend_adjusted''"

definition ap_root_keys :: "string list" where
  "ap_root_keys = [''actions'', ''anchor_date'', ''cutoff'', ''factors'', ''format'', ''policy_hash'',
     ''policy_version'', ''raw_inputs'', ''symbol'']"

definition ap_action_keys :: "string list" where
  "ap_action_keys = [''dividends'', ''splits'']"

definition ap_action_collection_keys :: "string list" where
  "ap_action_collection_keys = [''collection_id'', ''versions'']"

definition ap_split_keys :: "string list" where
  "ap_split_keys = [''adjustment_type'', ''effective_date'', ''provider_event_id'', ''split_from'',
     ''split_to'', ''version_id'']"

definition ap_dividend_keys :: "string list" where
  "ap_dividend_keys = [''cash_amount'', ''currency'', ''distribution_type'', ''ex_dividend_date'',
     ''provider_event_id'', ''version_id'']"

section \<open>Scalars\<close>

definition ap_utc :: "pyobj \<Rightarrow> string \<Rightarrow> instant res" where
  "ap_utc v label = utc_of AdjustedPriceError v label"

definition ap_timestamp :: "instant \<Rightarrow> string" where
  "ap_timestamp t = instant_text t"

definition ap_decimal_text :: "dec \<Rightarrow> string \<Rightarrow> string res" where
  "ap_decimal_text v label =
     (case dec_normalize decimal_precision v of
        Inl _ \<Rightarrow> Inl (AdjustedPriceError (label @ '' cannot be represented as a canonical decimal''))
      | Inr n \<Rightarrow>
          (let r = trim_fraction (dec_format_f n) in Inr (if r = ''-0'' then ''0'' else r)))"

definition ap_float_bits :: "f64 \<Rightarrow> string" where
  "ap_float_bits x = hex_fixed 16 (uint x)"

definition ap_decimal_binary64 :: "dec \<Rightarrow> string \<Rightarrow> f64 res" where
  "ap_decimal_binary64 v label =
     bind_res (check (\<not> dec_finite v) (AdjustedPriceError (label @ '' must be a finite Decimal''))) (\<lambda>_.
     let x = f_of_dec v in
     if \<not> f_isfinite x \<or> f_le x f_zero
     then Inl (AdjustedPriceError (label @ '' must be positive finite binary64''))
     else Inr x)"

definition ap_canonical_json :: "json \<Rightarrow> bytes res" where
  "ap_canonical_json v =
     (case canonical_json v of
        Inl _ \<Rightarrow> Inl (AdjustedPriceError ''factor payload cannot be represented as canonical JSON'')
      | Inr b \<Rightarrow> Inr b)"

definition ap_decode_positive_factor :: "string \<Rightarrow> string \<Rightarrow> f64 res" where
  "ap_decode_positive_factor bits label =
     bind_res (check (\<not> binary64_hex_pattern bits)
       (AdjustedPriceError (''published '' @ label @ '' is not canonical binary64 hex''))) (\<lambda>_.
     let x = word_of_int (unhex bits) :: f64 in
     if \<not> f_isfinite x \<or> f_le x f_zero
     then Inl (AdjustedPriceError (''published '' @ label @ '' must be finite and positive''))
     else Inr x)"

definition ap_finite_nonnegative_float :: "pyobj \<Rightarrow> string \<Rightarrow> f64 res" where
  "ap_finite_nonnegative_float v label =
     (case v of
        PyFloat x \<Rightarrow>
          if \<not> f_isfinite x \<or> f_lt x f_zero
          then Inl (AdjustedPriceError (label @ '' must be finite and nonnegative''))
          else Inr x
      | _ \<Rightarrow> Inl (AdjustedPriceError (label @ '' must be an exact binary64 float'')))"

definition ap_trade_count :: "pyobj \<Rightarrow> int option res" where
  "ap_trade_count v =
     (case v of
        PyNone \<Rightarrow> Inr None
      | PyInt i \<Rightarrow>
          if i < 0 then Inl (AdjustedPriceError ''raw trade_count must be a nonnegative integer or null'')
          else Inr (Some i)
      | _ \<Rightarrow> Inl (AdjustedPriceError ''raw trade_count must be a nonnegative integer or null''))"

definition ap_validate_ohlc :: "f64 \<Rightarrow> f64 \<Rightarrow> f64 \<Rightarrow> f64 \<Rightarrow> string \<Rightarrow> unit res" where
  "ap_validate_ohlc open_value high low close label =
     check (f_lt high low \<or> f_lt high (f_max open_value close) \<or> f_lt (f_min open_value close) low)
       (AdjustedPriceError (label @ '' OHLC values are inconsistent''))"

definition ap_multiply :: "f64 \<Rightarrow> f64 \<Rightarrow> string \<Rightarrow> f64 res" where
  "ap_multiply value factor label =
     (let r = f_mul value factor in
      if \<not> f_isfinite r \<or> f_lt r f_zero \<or> (f_lt f_zero value \<and> f_eq r f_zero)
      then Inl (AdjustedPriceError (label @ '' cannot be represented as finite binary64''))
      else Inr r)"

definition ap_slice_bounds :: "pyobj \<Rightarrow> pyobj \<Rightarrow> int \<Rightarrow> (int \<times> int) res" where
  "ap_slice_bounds start stop cnt =
     (case start of
        PyInt i \<Rightarrow>
          bind_res (check (i < 0) (AdjustedPriceError ''start_ordinal must be a nonnegative integer'')) (\<lambda>_.
          case (case stop of PyNone \<Rightarrow> PyInt cnt | _ \<Rightarrow> stop) of
            PyInt j \<Rightarrow>
              bind_res (check (j < i \<or> cnt < j)
                (AdjustedPriceError ''stop_ordinal must be between start_ordinal and window size'')) (\<lambda>_.
              bind_res (check (cnt < i)
                (AdjustedPriceError ''start_ordinal must not exceed the window size'')) (\<lambda>_.
              Inr (i, j)))
          | _ \<Rightarrow> Inl (AdjustedPriceError ''stop_ordinal must be between start_ordinal and window size''))
      | _ \<Rightarrow> Inl (AdjustedPriceError ''start_ordinal must be a nonnegative integer''))"

section \<open>Validation of the artifact against its own payload\<close>

definition ap_expected_raw_json :: "RawCloseVersion \<Rightarrow> json res" where
  "ap_expected_raw_json raw =
     bind_res (ap_decimal_binary64 (rc_close raw) ''factor raw close'') (\<lambda>close.
     bind_res (ap_decimal_text (rc_close raw) ''factor raw close'') (\<lambda>close_text.
     Inr (JObj [
       (''adjustment_basis'', JStr (rc_adjustment_basis raw)),
       (''available_at'', JStr (ap_timestamp (rc_available_at raw))),
       (''close_decimal'', JStr close_text),
       (''close_f64_be'', JStr (ap_float_bits close)),
       (''multiplier'', JInt (rc_multiplier raw)),
       (''observation_date'', JStr (date_iso (rc_observation_date raw))),
       (''observed_at'', JStr (ap_timestamp (rc_observed_at raw))),
       (''source'', JStr (rc_source raw)),
       (''timespan'', JStr (rc_timespan raw)),
       (''version_recorded_at'', JStr (ap_timestamp (rc_version_recorded_at raw)))])))"

fun is_jobj :: "json \<Rightarrow> bool" where
  "is_jobj (JObj d) = True"
| "is_jobj _ = False"

definition ap_validate_payload_raw_projection :: "int \<Rightarrow> RawCloseVersion \<Rightarrow> json \<Rightarrow> unit res" where
  "ap_validate_payload_raw_projection ordinal raw payload_row =
     bind_res (check (\<not> is_jobj payload_row)
       (AdjustedPriceError ''factor payload contains an unsupported raw input'')) (\<lambda>_.
     bind_res (ap_expected_raw_json raw) (\<lambda>expected_row.
     bind_res (ap_canonical_json payload_row) (\<lambda>a.
     bind_res (ap_canonical_json expected_row) (\<lambda>b.
     check (a \<noteq> b)
       (AdjustedPriceError (''factor raw input projection differs at ordinal '' @ int_str ordinal))))))"

fun ap_check_raw_rows :: "int \<Rightarrow> RawCloseVersion list \<Rightarrow> json list \<Rightarrow> unit res" where
  "ap_check_raw_rows ordinal (r # rs) (j # js) =
     bind_res (ap_validate_payload_raw_projection ordinal r j) (\<lambda>_. ap_check_raw_rows (ordinal + 1) rs js)"
| "ap_check_raw_rows ordinal _ _ = Inr ()"

definition ap_expected_factor_json :: "int \<Rightarrow> AdjustmentFactor \<Rightarrow> json" where
  "ap_expected_factor_json ordinal factor = JObj [
     (''price_factor_decimal'', JStr (af_price_factor_decimal factor)),
     (''price_factor_f64_be'', JStr (af_price_factor_f64_be factor)),
     (''raw_input_ordinal'', JInt ordinal),
     (''volume_factor_decimal'', JStr (af_volume_factor_decimal factor)),
     (''volume_factor_f64_be'', JStr (af_volume_factor_f64_be factor))]"

fun ap_check_factor_rows :: "int \<Rightarrow> AdjustmentFactor list \<Rightarrow> json list \<Rightarrow> unit res" where
  "ap_check_factor_rows ordinal (f # fs) (j # js) =
     bind_res (check (\<not> is_jobj j)
       (AdjustedPriceError ''factor payload contains an unsupported row'')) (\<lambda>_.
     bind_res (if af_raw_input_ordinal f \<noteq> ordinal then Inr True
               else bind_res (ap_canonical_json j) (\<lambda>a.
                    bind_res (ap_canonical_json (ap_expected_factor_json ordinal f)) (\<lambda>b. Inr (a \<noteq> b)))) (\<lambda>bad.
     bind_res (check bad
       (AdjustedPriceError ''published factor projection does not match the artifact'')) (\<lambda>_.
     ap_check_factor_rows (ordinal + 1) fs js)))"
| "ap_check_factor_rows ordinal _ _ = Inr ()"

fun ap_is_str :: "json option \<Rightarrow> bool" where
  "ap_is_str (Some (JStr s)) = True"
| "ap_is_str _ = False"

text \<open>One action row of the payload: its version identity, or the exception.\<close>

definition ap_action_row :: "string list \<Rightarrow> string \<Rightarrow> json \<Rightarrow> string res" where
  "ap_action_row expected_keys label row =
     (case row of
        JObj d \<Rightarrow>
          bind_res (check (dict_keys d \<noteq> set expected_keys
              \<or> list_ex (\<lambda>k. \<not> ap_is_str (dict_get d k)) expected_keys)
            (AdjustedPriceError (''factor payload contains an unsupported '' @ label @ '' action row''))) (\<lambda>_.
          case dict_get d ''version_id'' of
            Some (JStr version_id) \<Rightarrow>
              if \<not> content_id_pattern version_id
              then Inl (AdjustedPriceError ''factor payload action version identity is malformed'')
              else Inr version_id
          | _ \<Rightarrow> Inl (KeyErr ''version_id''))
      | _ \<Rightarrow> Inl (AdjustedPriceError (''factor payload contains an unsupported '' @ label @ '' action row'')))"

fun json_index :: "json \<Rightarrow> string \<Rightarrow> json option" where
  "json_index (JObj d) k = dict_get d k"
| "json_index _ k = None"

fun json_keys :: "json \<Rightarrow> string set" where
  "json_keys (JObj d) = dict_keys d"
| "json_keys _ = {}"

definition ap_root_mismatch ::
  "AdjustmentFactorSet \<Rightarrow> (string \<times> json) list \<Rightarrow> json \<Rightarrow> json \<Rightarrow> json \<Rightarrow> bool" where
  "ap_root_mismatch artifact document actions split_document dividend_document \<longleftrightarrow>
     dict_get document ''format'' \<noteq> Some (JStr adjustment_factor_set_format)
     \<or> dict_get document ''policy_version'' \<noteq> Some (JStr (fs_policy_version artifact))
     \<or> dict_get document ''policy_hash'' \<noteq> Some (JStr (fs_policy_hash artifact))
     \<or> dict_get document ''symbol'' \<noteq> Some (JStr (fs_symbol artifact))
     \<or> dict_get document ''cutoff'' \<noteq> Some (JStr (ap_timestamp (fs_cutoff artifact)))
     \<or> dict_get document ''anchor_date'' \<noteq> Some (JStr (date_iso (fs_anchor_date artifact)))
     \<or> json_keys actions \<noteq> set ap_action_keys
     \<or> \<not> is_jobj split_document
     \<or> \<not> is_jobj dividend_document
     \<or> json_keys split_document \<noteq> set ap_action_collection_keys
     \<or> json_keys dividend_document \<noteq> set ap_action_collection_keys
     \<or> json_index split_document ''collection_id'' \<noteq> Some (JStr (fs_split_collection_id artifact))
     \<or> json_index dividend_document ''collection_id'' \<noteq> Some (JStr (fs_dividend_collection_id artifact))"

definition ap_validate_artifact_projection ::
  "AdjustmentFactorSet \<Rightarrow> (string \<times> json) list \<Rightarrow> unit res" where
  "ap_validate_artifact_projection artifact document =
     bind_res (check (dict_keys document \<noteq> set ap_root_keys)
       (AdjustedPriceError ''factor payload root does not have the exact canonical structure'')) (\<lambda>_.
     case (Option.bind (dict_get document ''actions'') (\<lambda>actions.
             Option.bind (json_index actions ''splits'') (\<lambda>s.
             Option.bind (json_index actions ''dividends'') (\<lambda>d.
             Option.bind (dict_get document ''raw_inputs'') (\<lambda>r.
             Option.bind (dict_get document ''factors'') (\<lambda>f. Some (actions, s, d, r, f))))))) of
       None \<Rightarrow> Inl (AdjustedPriceError ''factor payload is missing required projections'')
     | Some (actions, split_document, dividend_document, payload_raw, payload_factors) \<Rightarrow>
         bind_res (check (ap_root_mismatch artifact document actions split_document dividend_document)
           (AdjustedPriceError ''factor payload root projection does not match the artifact'')) (\<lambda>_.
         case (payload_raw, payload_factors) of
           (JArr raw_rows, JArr factor_rows) \<Rightarrow>
             (case (json_index split_document ''versions'', json_index dividend_document ''versions'') of
                (Some (JArr split_versions), Some (JArr dividend_versions)) \<Rightarrow>
                  bind_res (map_res (ap_action_row ap_split_keys ''split'') split_versions) (\<lambda>split_ids.
                  bind_res (map_res (ap_action_row ap_dividend_keys ''dividend'') dividend_versions) (\<lambda>dividend_ids.
                  let version_ids = split_ids @ dividend_ids in
                  bind_res (check (\<not> distinct version_ids \<or> fs_action_version_ids artifact \<noteq> sort version_ids)
                    (AdjustedPriceError ''factor action-version projection does not match the artifact'')) (\<lambda>_.
                  bind_res (check (length raw_rows \<noteq> length (fs_raw_inputs artifact)
                      \<or> length factor_rows \<noteq> length (fs_factors artifact))
                    (AdjustedPriceError ''factor payload row counts do not match the artifact'')) (\<lambda>_.
                  bind_res (ap_check_raw_rows 0 (fs_raw_inputs artifact) raw_rows) (\<lambda>_.
                  ap_check_factor_rows 0 (fs_factors artifact) factor_rows)))))
              | _ \<Rightarrow> Inl (AdjustedPriceError ''factor payload action versions must be arrays''))
         | _ \<Rightarrow> Inl (AdjustedPriceError ''factor payload row projections must be arrays'')))"

definition ap_validated_artifact :: "af_env \<Rightarrow> AdjustmentFactorSet pyarg \<Rightarrow> AdjustmentFactorSet res" where
  "ap_validated_artifact env value =
     (case value of
        Foreign \<Rightarrow> Inl (AdjustedPriceError ''factor_set must be an AdjustmentFactorSet'')
      | Inst v \<Rightarrow>
          bind_res (check (fs_policy_version v \<noteq> adjustment_factor_policy_version)
            (AdjustedPriceError ''factor policy version is not supported'')) (\<lambda>_.
          bind_res (check (fs_policy_hash v \<noteq> adjustment_factor_policy_hash env)
            (AdjustedPriceError ''factor policy hash is not supported'')) (\<lambda>_.
          bind_res (check (fs_factor_set_id v \<noteq> content_id (fs_canonical_payload v))
            (AdjustedPriceError ''factor set content address does not match its payload'')) (\<lambda>_.
          case json_loads (fs_canonical_payload v) of
            None \<Rightarrow> Inl (AdjustedPriceError ''factor canonical payload is not valid JSON'')
          | Some (JObj document) \<Rightarrow>
              bind_res (ap_canonical_json (JObj document)) (\<lambda>b.
              bind_res (check (b \<noteq> fs_canonical_payload v)
                (AdjustedPriceError ''factor payload is not exact canonical JSON'')) (\<lambda>_.
              bind_res (ap_validate_artifact_projection v document) (\<lambda>_. Inr v)))
          | Some _ \<Rightarrow> Inl (AdjustedPriceError ''factor canonical payload must be an object'')))))"

section \<open>Receipts and rows\<close>

definition ap_collection_receipt ::
  "CollectionReceiptArg pyarg \<Rightarrow> string \<Rightarrow> instant \<Rightarrow> string \<Rightarrow> CorporateActionCollectionReceipt res" where
  "ap_collection_receipt value expected_id cutoff label =
     (case value of
        Foreign \<Rightarrow> Inl (AdjustedPriceError (label @ '' receipt has an unsupported value''))
      | Inst v \<Rightarrow>
          bind_res (ap_utc (cra_collection_recorded_at v) (label @ '' recorded_at'')) (\<lambda>recorded_at.
          bind_res (ap_utc (cra_available_at v) (label @ '' available_at'')) (\<lambda>available_at.
          bind_res (check (cra_collection_id v \<noteq> PyStr expected_id)
            (AdjustedPriceError (label @ '' receipt does not match the factor set''))) (\<lambda>_.
          bind_res (check (\<not> (recorded_at \<le> available_at \<and> available_at \<le> cutoff))
            (AdjustedPriceError (label @ '' receipt is outside the factor cutoff''))) (\<lambda>_.
          Inr \<lparr>cr_collection_id = expected_id, cr_collection_recorded_at = recorded_at,
               cr_available_at = available_at\<rparr>)))))"

definition ap_factor_set_receipt ::
  "FactorSetReceiptArg pyarg \<Rightarrow> string \<Rightarrow> instant \<Rightarrow> AdjustmentFactorSetReceipt res" where
  "ap_factor_set_receipt value expected_id minimum_available_at =
     (case value of
        Foreign \<Rightarrow> Inl (AdjustedPriceError ''factor-set receipt has an unsupported value'')
      | Inst v \<Rightarrow>
          bind_res (ap_utc (fra_factor_set_recorded_at v) ''factor-set recorded_at'') (\<lambda>recorded_at.
          bind_res (ap_utc (fra_available_at v) ''factor-set available_at'') (\<lambda>available_at.
          bind_res (check (fra_factor_set_id v \<noteq> PyStr expected_id)
            (AdjustedPriceError ''factor-set receipt does not match the artifact'')) (\<lambda>_.
          bind_res (check (\<not> (minimum_available_at \<le> recorded_at \<and> recorded_at \<le> available_at))
            (AdjustedPriceError ''factor-set receipt precedes its content or inputs'')) (\<lambda>_.
          Inr \<lparr>fr_factor_set_id = expected_id, fr_factor_set_recorded_at = recorded_at,
               fr_available_at = available_at\<rparr>)))))"

definition ap_raw_sequence :: "RawOhlcvArg pyarg pyseq \<Rightarrow> RawOhlcvArg list res" where
  "ap_raw_sequence values =
     (case values of
        NotIterable \<Rightarrow> Inl (AdjustedPriceError ''raw_rows must be a finite sequence'')
      | Seq rows \<Rightarrow>
          bind_res (check (rows = []) (AdjustedPriceError ''raw_rows must not be empty'')) (\<lambda>_.
          bind_res (check (\<not> list_all is_inst rows)
            (AdjustedPriceError ''raw_rows contain an unsupported value'')) (\<lambda>_.
          Inr (insts rows))))"

definition ap_validate_cardinality :: "AdjustmentFactorSet \<Rightarrow> RawOhlcvArg list \<Rightarrow> unit res" where
  "ap_validate_cardinality artifact rows =
     bind_res (check (fs_raw_inputs artifact = [])
       (AdjustedPriceError ''factor set raw window must not be empty'')) (\<lambda>_.
     bind_res (check (length (fs_raw_inputs artifact) \<noteq> length (fs_factors artifact))
       (AdjustedPriceError ''factor set does not contain one factor per raw input'')) (\<lambda>_.
     check (length rows \<noteq> length (fs_raw_inputs artifact))
       (AdjustedPriceError ''raw_rows must cover the complete factor window'')))"

text \<open>\<open>value == i\<close> for an integer \<open>i\<close>: a \<open>bool\<close> counts as 0 or 1, a number compares by value.\<close>

definition py_eq_int :: "pyobj \<Rightarrow> int \<Rightarrow> bool" where
  "py_eq_int v i =
     (case v of
        PyInt j \<Rightarrow> j = i
      | PyBool b \<Rightarrow> (if b then 1 else 0) = i
      | PyFloat x \<Rightarrow> (case f_of_int i of Inr y \<Rightarrow> f_eq x y | Inl _ \<Rightarrow> False)
      | PyDec d \<Rightarrow>
          (case d of
             Dec s c e \<Rightarrow> (if 0 \<le> e then (if s then - c else c) * 10 ^ nat e = i
                           else (if s then - c else c) = i * 10 ^ nat (- e))
           | _ \<Rightarrow> False)
      | _ \<Rightarrow> False)"

definition ap_validate_raw_row ::
  "int \<Rightarrow> RawOhlcvArg \<Rightarrow> RawCloseVersion \<Rightarrow> AdjustmentFactorSet \<Rightarrow> RawOhlcvVersion res" where
  "ap_validate_raw_row ordinal row expected artifact =
     bind_res (ap_utc (ra_timestamp row) ''raw timestamp'') (\<lambda>timestamp.
     bind_res (ap_utc (ra_version_recorded_at row) ''raw version_recorded_at'') (\<lambda>version_recorded_at.
     bind_res (ap_utc (ra_available_at row) ''raw available_at'') (\<lambda>available_at.
     bind_res (check (ra_symbol row \<noteq> PyStr (fs_symbol artifact)
         \<or> timestamp \<noteq> rc_observed_at expected
         \<or> date_of_instant timestamp \<noteq> rc_observation_date expected
         \<or> ra_timespan row \<noteq> PyStr (rc_timespan expected)
         \<or> \<not> py_eq_int (ra_multiplier row) (rc_multiplier expected)
         \<or> ra_source row \<noteq> PyStr (rc_source expected)
         \<or> ra_adjustment_basis row \<noteq> PyStr (rc_adjustment_basis expected)
         \<or> version_recorded_at \<noteq> rc_version_recorded_at expected
         \<or> available_at \<noteq> rc_available_at expected)
       (AdjustedPriceError (''raw receipt identity differs at ordinal '' @ int_str ordinal))) (\<lambda>_.
     bind_res (check (ra_timespan row \<noteq> PyStr ''day'' \<or> ra_multiplier row \<noteq> PyInt 1)
       (AdjustedPriceError ''adjusted reads require the exact day/1 raw series'')) (\<lambda>_.
     bind_res (check (ra_source row \<noteq> PyStr ''polygon_open_close'' \<or> ra_adjustment_basis row \<noteq> PyStr ''raw'')
       (AdjustedPriceError ''adjusted reads require the exact polygon_open_close raw input series'')) (\<lambda>_.
     bind_res (check (\<not> (timestamp \<le> version_recorded_at \<and> version_recorded_at \<le> available_at
           \<and> available_at \<le> fs_cutoff artifact))
       (AdjustedPriceError ''raw receipt timestamps are outside the factor cutoff'')) (\<lambda>_.
     bind_res (ap_finite_nonnegative_float (ra_open row) ''raw open'') (\<lambda>open_value.
     bind_res (ap_finite_nonnegative_float (ra_high row) ''raw high'') (\<lambda>high_value.
     bind_res (ap_finite_nonnegative_float (ra_low row) ''raw low'') (\<lambda>low_value.
     bind_res (ap_finite_nonnegative_float (ra_close row) ''raw close'') (\<lambda>close_value.
     bind_res (ap_finite_nonnegative_float (ra_volume row) ''raw volume'') (\<lambda>volume_value.
     bind_res (if ra_vwap row = PyNone then Inr None
               else bind_res (ap_finite_nonnegative_float (ra_vwap row) ''raw vwap'') (\<lambda>x. Inr (Some x))) (\<lambda>vwap_value.
     bind_res (ap_trade_count (ra_trade_count row)) (\<lambda>trade_count.
     bind_res (ap_validate_ohlc open_value high_value low_value close_value ''raw'') (\<lambda>_.
     bind_res (ap_decimal_binary64 (rc_close expected) ''factor raw close'') (\<lambda>factor_close.
     bind_res (check (ap_float_bits close_value \<noteq> ap_float_bits factor_close)
       (AdjustedPriceError (''raw close differs from the factor input at ordinal '' @ int_str ordinal))) (\<lambda>_.
     Inr \<lparr>ro_symbol = fs_symbol artifact, ro_timestamp = timestamp, ro_timespan = ''day'',
          ro_multiplier = 1, ro_source = rc_source expected, ro_adjustment_basis = ''raw'',
          ro_version_recorded_at = version_recorded_at, ro_available_at = available_at,
          ro_open = open_value, ro_high = high_value, ro_low = low_value, ro_close = close_value,
          ro_volume = volume_value, ro_vwap = vwap_value, ro_trade_count = trade_count\<rparr>)))))))))))))))))"

definition ap_adjust_row ::
  "int \<Rightarrow> RawOhlcvVersion \<Rightarrow> AdjustmentFactor \<Rightarrow> instant \<Rightarrow> AdjustedOhlcvRow res" where
  "ap_adjust_row ordinal raw factor derived_available_at =
     bind_res (ap_decode_positive_factor (af_price_factor_f64_be factor) ''price factor'') (\<lambda>price_factor.
     bind_res (ap_decode_positive_factor (af_volume_factor_f64_be factor) ''volume factor'') (\<lambda>volume_factor.
     bind_res (ap_multiply (ro_open raw) price_factor ''adjusted open'') (\<lambda>open_value.
     bind_res (ap_multiply (ro_high raw) price_factor ''adjusted high'') (\<lambda>high_value.
     bind_res (ap_multiply (ro_low raw) price_factor ''adjusted low'') (\<lambda>low_value.
     bind_res (ap_multiply (ro_close raw) price_factor ''adjusted close'') (\<lambda>close_value.
     bind_res (ap_multiply (ro_volume raw) volume_factor ''adjusted volume'') (\<lambda>volume_value.
     bind_res (case ro_vwap raw of None \<Rightarrow> Inr None
               | Some x \<Rightarrow> bind_res (ap_multiply x price_factor ''adjusted vwap'') (\<lambda>y. Inr (Some y))) (\<lambda>vwap_value.
     bind_res (ap_validate_ohlc open_value high_value low_value close_value ''adjusted'') (\<lambda>_.
     Inr \<lparr>ao_raw_input_ordinal = ordinal, ao_symbol = ro_symbol raw, ao_timestamp = ro_timestamp raw,
          ao_timespan = ro_timespan raw, ao_multiplier = ro_multiplier raw, ao_source = ro_source raw,
          ao_adjustment_basis = adjusted_price_basis,
          ao_raw_version_recorded_at = ro_version_recorded_at raw,
          ao_raw_available_at = ro_available_at raw, ao_available_at = derived_available_at,
          ao_open = open_value, ao_high = high_value, ao_low = low_value, ao_close = close_value,
          ao_volume = volume_value, ao_vwap = vwap_value, ao_trade_count = ro_trade_count raw,
          ao_price_factor_f64_be = af_price_factor_f64_be factor,
          ao_volume_factor_f64_be = af_volume_factor_f64_be factor\<rparr>)))))))))"

section \<open>The projection\<close>

definition ap_validate_rows ::
  "AdjustmentFactorSet \<Rightarrow> RawOhlcvArg list \<Rightarrow> RawOhlcvVersion list res" where
  "ap_validate_rows artifact rows =
     map_res (\<lambda>(ordinal, row, expected). ap_validate_raw_row ordinal row expected artifact)
       (af_enumerate (zip rows (fs_raw_inputs artifact)))"

definition ap_adjust_rows ::
  "AdjustmentFactorSet \<Rightarrow> RawOhlcvVersion list \<Rightarrow> instant \<Rightarrow> AdjustedOhlcvRow list res" where
  "ap_adjust_rows artifact rows derived_available_at =
     map_res (\<lambda>(ordinal, row, factor). ap_adjust_row ordinal row factor derived_available_at)
       (af_enumerate (zip rows (fs_factors artifact)))"

definition adjust_ohlcv_window ::
  "af_env \<Rightarrow> AdjustmentFactorSet pyarg \<Rightarrow> RawOhlcvArg pyarg pyseq \<Rightarrow> CollectionReceiptArg pyarg
     \<Rightarrow> CollectionReceiptArg pyarg \<Rightarrow> FactorSetReceiptArg pyarg \<Rightarrow> pyobj \<Rightarrow> pyobj \<Rightarrow> AdjustedPriceWindow res" where
  "adjust_ohlcv_window env factor_set raw_rows split_collection_receipt dividend_collection_receipt
       factor_set_receipt start_ordinal stop_ordinal =
     bind_res (ap_validated_artifact env factor_set) (\<lambda>artifact.
     bind_res (ap_raw_sequence raw_rows) (\<lambda>rows.
     bind_res (ap_validate_cardinality artifact rows) (\<lambda>_.
     bind_res (ap_collection_receipt split_collection_receipt (fs_split_collection_id artifact)
         (fs_cutoff artifact) ''split collection'') (\<lambda>split_receipt.
     bind_res (ap_collection_receipt dividend_collection_receipt (fs_dividend_collection_id artifact)
         (fs_cutoff artifact) ''dividend collection'') (\<lambda>dividend_receipt.
     bind_res (ap_validate_rows artifact rows) (\<lambda>normalized_rows.
     let input_available_at =
       foldl max (cr_available_at dividend_receipt)
         (map ro_available_at normalized_rows @ [cr_available_at split_receipt]) in
     bind_res (ap_factor_set_receipt factor_set_receipt (fs_factor_set_id artifact) input_available_at) (\<lambda>factor_receipt.
     bind_res (ap_adjust_rows artifact normalized_rows (fr_available_at factor_receipt)) (\<lambda>full_window.
     bind_res (check (any_adjacent (\<lambda>l r. ao_timestamp l \<ge> ao_timestamp r) full_window)
       (AdjustedPriceError ''raw rows must be strictly chronological'')) (\<lambda>_.
     bind_res (ap_slice_bounds start_ordinal stop_ordinal (int (length full_window))) (\<lambda>(start, stop).
     Inr \<lparr>wi_rows = take (nat (stop - start)) (drop (nat start) full_window),
          wi_lineage =
            \<lparr>li_factor_set_id = fs_factor_set_id artifact,
             li_factor_set_recorded_at = fr_factor_set_recorded_at factor_receipt,
             li_factor_set_available_at = fr_available_at factor_receipt,
             li_policy_version = fs_policy_version artifact,
             li_policy_hash = fs_policy_hash artifact,
             li_cutoff = fs_cutoff artifact,
             li_anchor_date = fs_anchor_date artifact,
             li_split_collection_id = fs_split_collection_id artifact,
             li_split_collection_recorded_at = cr_collection_recorded_at split_receipt,
             li_split_collection_available_at = cr_available_at split_receipt,
             li_dividend_collection_id = fs_dividend_collection_id artifact,
             li_dividend_collection_recorded_at = cr_collection_recorded_at dividend_receipt,
             li_dividend_collection_available_at = cr_available_at dividend_receipt,
             li_action_version_ids = fs_action_version_ids artifact,
             li_max_input_available_at = input_available_at,
             li_data_available_at = fr_available_at factor_receipt,
             li_raw_input_count = length full_window,
             li_adjustment_basis = adjusted_price_basis\<rparr>,
          wi_start_ordinal = start, wi_stop_ordinal = stop\<rparr>))))))))))"

end
