(* ===== verification/AdjustmentFactorLaws.thy ===== *)
theory AdjustmentFactorLaws
  imports AdjustmentFactors
begin

text \<open>
  What \<open>build_adjustment_factor_set\<close> promises: the invariants of the raw series,
  the recurrence of the factors and its anchor, which actions a factor depends
  on, independence of the order of the inputs, and the class of its exceptions.
\<close>

section \<open>A concrete factor set\<close>

text \<open>Three sessions, a 2:1 split on the third and a dividend of 0.50 USD on the second.\<close>

definition sample_close_utc :: "date \<Rightarrow> instant" where
  "sample_close_utc d = (d - 1) * day_micros + 75600000000"

definition sample_env :: af_env where
  "sample_env = \<lparr>env_pandas_version = ''2.2.2'', env_tzdata_version = ''2024.1'',
     env_xcals_version = ''4.13.2'', env_calendar_available = True,
     env_sessions_in_range = (\<lambda>a b. if a = 738886 \<and> b = 738888 then Some [738886, 738887, 738888] else None),
     env_session_close = (\<lambda>d. PyDatetime (sample_close_utc d) (Some 0))\<rparr>"

definition sample_raw_arg :: "date \<Rightarrow> dec \<Rightarrow> RawCloseArg" where
  "sample_raw_arg d c = \<lparr>rca_observation_date = PyDate d,
     rca_observed_at = PyDatetime (sample_close_utc d) (Some 0), rca_timespan = PyStr ''day'',
     rca_multiplier = PyInt 1, rca_source = PyStr ''polygon_open_close'',
     rca_adjustment_basis = PyStr ''raw'',
     rca_version_recorded_at = PyDatetime (sample_close_utc d + 60000000) (Some 0),
     rca_available_at = PyDatetime (sample_close_utc d + 120000000) (Some 0), rca_close = PyDec c\<rparr>"

definition sample_raw_args :: "RawCloseArg pyarg pyseq" where
  "sample_raw_args = Seq [Inst (sample_raw_arg 738886 (Dec False 2000 (- 1))),
     Inst (sample_raw_arg 738887 (Dec False 1995 (- 1))), Inst (sample_raw_arg 738888 (Dec False 100 0))]"

definition sample_raw :: "date \<Rightarrow> dec \<Rightarrow> RawCloseVersion" where
  "sample_raw d c = \<lparr>rc_observation_date = d, rc_observed_at = sample_close_utc d,
     rc_timespan = ''day'', rc_multiplier = 1, rc_source = ''polygon_open_close'',
     rc_adjustment_basis = ''raw'', rc_version_recorded_at = sample_close_utc d + 60000000,
     rc_available_at = sample_close_utc d + 120000000, rc_close = c\<rparr>"

definition sample_raws :: "RawCloseVersion list" where
  "sample_raws = [sample_raw 738886 (Dec False 2000 (- 1)), sample_raw 738887 (Dec False 1995 (- 1)),
     sample_raw 738888 (Dec False 1000 (- 1))]"

definition sample_id :: "char \<Rightarrow> string" where
  "sample_id c = ''sha256:'' @ replicate 64 c"

definition sample_splits :: "SplitActionArg pyarg pyseq" where
  "sample_splits = Seq [Inst \<lparr>sa_provider_event_id = PyStr ''S1'', sa_version_id = PyStr (sample_id (CHR ''c'')),
     sa_effective_date = PyDate 738888, sa_split_from = PyDec (Dec False 1 0),
     sa_split_to = PyDec (Dec False 2 0), sa_adjustment_type = PyStr ''forward_split''\<rparr>]"

definition sample_split_rows :: "SplitActionVersion list" where
  "sample_split_rows = [\<lparr>sv_provider_event_id = ''S1'', sv_version_id = sample_id (CHR ''c''),
     sv_effective_date = 738888, sv_split_from = Dec False 1 0, sv_split_to = Dec False 2 0,
     sv_adjustment_type = ''forward_split''\<rparr>]"

definition sample_dividends :: "DividendActionArg pyarg pyseq" where
  "sample_dividends = Seq [Inst \<lparr>da_provider_event_id = PyStr ''D1'', da_version_id = PyStr (sample_id (CHR ''d'')),
     da_ex_dividend_date = PyDate 738887, da_cash_amount = PyDec (Dec False 50 (- 2)),
     da_currency = PyStr ''USD'', da_distribution_type = PyStr ''recurring''\<rparr>]"

definition sample_dividend_rows :: "DividendActionVersion list" where
  "sample_dividend_rows = [\<lparr>dv_provider_event_id = ''D1'', dv_version_id = sample_id (CHR ''d''),
     dv_ex_dividend_date = 738887, dv_cash_amount = Dec False 50 (- 2), dv_currency = ''USD'',
     dv_distribution_type = ''recurring''\<rparr>]"

definition sample_factors :: "AdjustmentFactor list" where
  "sample_factors =
     [\<lparr>af_raw_input_ordinal = 0, af_price_factor_decimal = ''0.49875'', af_volume_factor_decimal = ''2'',
       af_price_factor_f64_be = ''3fdfeb851eb851ec'', af_volume_factor_f64_be = ''4000000000000000''\<rparr>,
      \<lparr>af_raw_input_ordinal = 1, af_price_factor_decimal = ''0.5'', af_volume_factor_decimal = ''2'',
       af_price_factor_f64_be = ''3fe0000000000000'', af_volume_factor_f64_be = ''4000000000000000''\<rparr>,
      \<lparr>af_raw_input_ordinal = 2, af_price_factor_decimal = ''1'', af_volume_factor_decimal = ''1'',
       af_price_factor_f64_be = ''3ff0000000000000'', af_volume_factor_f64_be = ''3ff0000000000000''\<rparr>]"

definition sample_cutoff :: instant where
  "sample_cutoff = sample_close_utc 738889"

definition sample_build :: "AdjustmentFactorSet res" where
  "sample_build = build_adjustment_factor_set sample_env (PyStr ''AAPL'')
     (PyDatetime sample_cutoff (Some 0)) sample_raw_args (PyStr (sample_id (CHR ''a''))) sample_splits
     (PyStr (sample_id (CHR ''b''))) sample_dividends"

lemma sample_stages:
  "af_symbol (PyStr ''AAPL'') = Inr ''AAPL''"
  "af_utc (PyDatetime sample_cutoff (Some 0)) ''cutoff'' = Inr sample_cutoff"
  "af_content_id (PyStr (sample_id (CHR ''a''))) l = Inr (sample_id (CHR ''a''))"
  "af_content_id (PyStr (sample_id (CHR ''b''))) l = Inr (sample_id (CHR ''b''))"
  "sample_id (CHR ''a'') \<noteq> sample_id (CHR ''b'')"
  by code_simp+

lemma sample_raw_stage: "af_validated_raw_closes sample_env sample_raw_args sample_cutoff = Inr sample_raws"
  by code_simp

lemma sample_action_stages:
  "af_validated_splits sample_splits sample_raws = Inr sample_split_rows"
  "af_validated_dividends sample_dividends sample_raws = Inr sample_dividend_rows"
  "af_validate_action_identity sample_split_rows sample_dividend_rows = Inr ()"
  by code_simp+

lemma sample_factor_stage:
  "af_factors sample_split_rows sample_dividend_rows sample_raws = Inr sample_factors"
  by code_simp

section \<open>The payload is plain JSON\<close>

lemma af_split_json_plain: "af_split_json x = Inr j \<Longrightarrow> plain j"
  by (auto simp: af_split_json_def res_iffs)

lemma af_dividend_json_plain: "af_dividend_json x = Inr j \<Longrightarrow> plain j"
  by (auto simp: af_dividend_json_def res_iffs)

lemma af_raw_json_plain: "af_raw_json x = Inr j \<Longrightarrow> plain j"
  by (auto simp: af_raw_json_def res_iffs)

lemma af_factor_json_plain [simp]: "plain (af_factor_json f)"
  by (simp add: af_factor_json_def)

lemma af_payload_plain:
  assumes "map_res af_split_json ns = Inr srows" and "map_res af_dividend_json nd = Inr drows"
    and "map_res af_raw_json raw = Inr rrows"
  shows "plain (af_payload_document env sy cu si di srows drows rrows raw factors)"
proof -
  have "\<forall>j \<in> set srows. plain j" "\<forall>j \<in> set drows. plain j" "\<forall>j \<in> set rrows. plain j"
    using assms by (metis map_res_in af_split_json_plain af_dividend_json_plain af_raw_json_plain)+
  then show ?thesis by (simp add: af_payload_document_def)
qed

lemma sample_build_ok:
  "\<exists>fs. sample_build = Inr fs \<and> fs_raw_inputs fs = sample_raws \<and> fs_factors fs = sample_factors \<and>
     fs_split_collection_id fs = sample_id (CHR ''a'') \<and>
     fs_dividend_collection_id fs = sample_id (CHR ''b'') \<and>
     fs_symbol fs = ''AAPL'' \<and> fs_cutoff fs = sample_cutoff"
proof -
  have "is_ok (map_res af_split_json sample_split_rows)" "is_ok (map_res af_dividend_json sample_dividend_rows)"
    "is_ok (map_res af_raw_json sample_raws)" by code_simp+
  then obtain s d r where rows: "map_res af_split_json sample_split_rows = Inr s"
      "map_res af_dividend_json sample_dividend_rows = Inr d" "map_res af_raw_json sample_raws = Inr r"
    by (auto simp: is_ok_iff)
  note built = build_intro [OF sample_stages(1,2) sample_stages(3) sample_stages(4)
          sample_stages(5) sample_raw_stage sample_action_stages sample_factor_stage rows
          canonical_json_total [OF af_payload_plain [OF rows]]]
  show ?thesis
    unfolding sample_build_def by (intro exI conjI, rule built) simp_all
qed

section \<open>The properties\<close>

lemma anchor_factor_row:
  assumes "build_adjustment_factor_set env symbol cutoff raws si splits di dividends = Inr fs"
  shows "fs_raw_inputs fs \<noteq> [] \<and> fs_anchor_date fs = rc_observation_date (last (fs_raw_inputs fs)) \<and>
    last (fs_factors fs) =
      \<lparr>af_raw_input_ordinal = int (length (fs_raw_inputs fs)) - 1,
       af_price_factor_decimal = ''1'', af_volume_factor_decimal = ''1'',
       af_price_factor_f64_be = ''3ff0000000000000'', af_volume_factor_f64_be = ''3ff0000000000000''\<rparr>"
proof -
  have one: "af_factor_row i dec_one dec_one = Inr \<lparr>af_raw_input_ordinal = i,
       af_price_factor_decimal = ''1'', af_volume_factor_decimal = ''1'',
       af_price_factor_f64_be = ''3ff0000000000000'', af_volume_factor_f64_be = ''3ff0000000000000''\<rparr>" for i
  proof -
    have "af_decimal_text dec_one = Inr ''1''" "\<And>l. af_binary64_bits dec_one l = Inr ''3ff0000000000000''"
      by code_simp+
    then show ?thesis by (simp add: af_factor_row_def)
  qed
  from assms obtain cu raw ns nd factors payload where
      r: "af_validated_raw_closes env raws cu = Inr raw" and f: "af_factors ns nd raw = Inr factors"
      and fs: "fs_raw_inputs fs = raw" "fs_factors fs = factors" "fs_anchor_date fs = rc_observation_date (last raw)"
    by (elim build_stages) (rule that; simp)
  have ne: "raw \<noteq> []" using validated_raw_facts(1) [OF r] .
  let ?n = "length raw"
  obtain accs where "length accs = ?n" "length factors = ?n" "last accs = (dec_one, dec_one)"
      "\<forall>i < ?n. af_factor_row (int i) (fst (accs ! i)) (snd (accs ! i)) = Inr (factors ! i)"
    using af_factors_trace [OF f] ne by blast
  moreover from this have "accs ! (?n - 1) = (dec_one, dec_one)" "factors ! (?n - 1) = last factors"
    using ne by (metis last_conv_nth length_0_conv)+
  ultimately have "af_factor_row (int (?n - 1)) dec_one dec_one = Inr (last factors)"
    using ne by (metis diff_less fst_conv length_greater_0_conv snd_conv zero_less_one)
  moreover have "int (?n - 1) = int ?n - 1" using ne by (cases raw) auto
  ultimately show ?thesis using one ne fs by simp
qed

text \<open>The newest session of a successful build is the anchor: its price and volume
  factor are exactly one, as decimal text and as binary64, and the artifact names its
  date.\<close>

theorem anchor_factor_is_one:
  assumes "build_adjustment_factor_set env symbol cutoff raws si splits di dividends = Inr fs"
  shows "fs_raw_inputs fs \<noteq> [] \<and> fs_anchor_date fs = rc_observation_date (last (fs_raw_inputs fs)) \<and>
    last (fs_factors fs) =
      \<lparr>af_raw_input_ordinal = int (length (fs_raw_inputs fs)) - 1,
       af_price_factor_decimal = ''1'', af_volume_factor_decimal = ''1'',
       af_price_factor_f64_be = ''3ff0000000000000'', af_volume_factor_f64_be = ''3ff0000000000000''\<rparr>"
  using assms by (rule anchor_factor_row)

theorem anchor_factor_is_one_witness:
  "\<exists>fs. sample_build = Inr fs \<and> af_price_factor_decimal (last (fs_factors fs)) = ''1'' \<and>
     fs_anchor_date fs = 738888"
proof -
  obtain fs where "sample_build = Inr fs" "fs_raw_inputs fs = sample_raws" using sample_build_ok by blast
  then show ?thesis
    using anchor_factor_is_one [of sample_env "PyStr ''AAPL''" "PyDatetime sample_cutoff (Some 0)" sample_raw_args
        "PyStr (sample_id (CHR ''a''))" sample_splits "PyStr (sample_id (CHR ''b''))" sample_dividends fs]
    by (simp add: sample_build_def sample_raws_def sample_raw_def)
qed



lemma af_step_cong:
  assumes "split_by_date s1 (rc_observation_date r) = split_by_date s2 (rc_observation_date r)"
    and "dividend_by_date d1 (rc_observation_date r) = dividend_by_date d2 (rc_observation_date r)"
  shows "af_step s1 d1 r acc = af_step s2 d2 r acc"
  using assms by (simp add: af_step_def split: prod.split option.split)

text \<open>C27. The factors of a session depend on the corporate actions of later sessions only
  (\<open>observation_date < action_date <= anchor_date\<close>): two action histories that agree after
  a date give the same factors on that date and on every later session, whatever they hold
  on or before it.\<close>

theorem factors_depend_on_later_actions:
  assumes "af_factors s1 d1 raw = Inr f1" and "af_factors s2 d2 raw = Inr f2"
    and "sorted_wrt (<) (map rc_observation_date raw)"
    and "\<forall>d. day < d \<longrightarrow> split_by_date s1 d = split_by_date s2 d \<and> dividend_by_date d1 d = dividend_by_date d2 d"
    and "i < length raw" and "day \<le> rc_observation_date (raw ! i)"
  shows "f1 ! i = f2 ! i"
proof -
  let ?n = "length raw"
  have ne: "raw \<noteq> []" using assms(5) by auto
  obtain a1 where a1: "length a1 = ?n" "last a1 = (dec_one, dec_one)"
      "\<forall>i < ?n. af_factor_row (int i) (fst (a1 ! i)) (snd (a1 ! i)) = Inr (f1 ! i)"
      "\<forall>i. Suc i < ?n \<longrightarrow> af_step s1 d1 (raw ! Suc i) (a1 ! Suc i) = Inr (a1 ! i)"
    using af_factors_trace [OF assms(1)] ne by blast
  obtain a2 where a2: "length a2 = ?n" "last a2 = (dec_one, dec_one)"
      "\<forall>i < ?n. af_factor_row (int i) (fst (a2 ! i)) (snd (a2 ! i)) = Inr (f2 ! i)"
      "\<forall>i. Suc i < ?n \<longrightarrow> af_step s2 d2 (raw ! Suc i) (a2 ! Suc i) = Inr (a2 ! i)"
    using af_factors_trace [OF assms(2)] ne by blast
  have "a1 ! j = a2 ! j" if "i \<le> j" "j < ?n" for j
    using that
  proof (induction "?n - Suc j" arbitrary: j)
    case 0
    then have "j = ?n - 1" by simp
    with a1(1,2) a2(1,2) ne show ?case by (metis last_conv_nth length_0_conv)
  next
    case (Suc k)
    then have j: "Suc j < ?n" "a1 ! Suc j = a2 ! Suc j" by auto
    have "rc_observation_date (raw ! i) < rc_observation_date (raw ! Suc j)"
      using sorted_wrt_nth_less [OF assms(3), of i "Suc j"] j Suc.prems by simp
    then have "day < rc_observation_date (raw ! Suc j)" using assms(6) by simp
    then have "af_step s1 d1 (raw ! Suc j) = af_step s2 d2 (raw ! Suc j)"
      using assms(4) af_step_cong by blast
    then show ?case using a1(4) a2(4) j by (metis Inr_inject)
  qed
  then show ?thesis using a1(3) a2(3) assms(5) by (metis Inr_inject order_refl)
qed

theorem factors_depend_on_later_actions_witness:
  "\<exists>f. af_factors sample_split_rows [] sample_raws = Inr f \<and> f ! 1 = sample_factors ! 1"
proof -
  have "is_ok (af_factors sample_split_rows [] sample_raws)" by code_simp
  then obtain f where f: "af_factors sample_split_rows [] sample_raws = Inr f" by (auto simp: is_ok_iff)
  have "\<forall>d. 738887 < d \<longrightarrow> dividend_by_date [] d = dividend_by_date sample_dividend_rows d"
    by (simp add: dividend_by_date_def sample_dividend_rows_def)
  then have "f ! 1 = sample_factors ! 1"
    using factors_depend_on_later_actions [OF f sample_factor_stage, of 738887 1]
    by (simp add: sample_raws_def sample_raw_def)
  with f show ?thesis by blast
qed

section \<open>Order of the inputs\<close>

lemma validated_raw_perm:
  assumes "af_validated_raw_closes env (Seq xs) cu = Inr raw" and p: "mset ys = mset xs"
  shows "af_validated_raw_closes env (Seq ys) cu = Inr raw"
proof -
  have e: "ys = [] \<longleftrightarrow> xs = []" "length ys = length xs" "list_all is_inst ys \<longleftrightarrow> list_all is_inst xs"
    using p by (auto simp: list_all_iff dest: mset_eq_setD mset_eq_length)
  from assms(1) obtain rows where rows: "map_res (af_raw_close cu) (insts xs) = Inr rows"
      and d: "distinct (map rc_observation_date (sort_key rc_observation_date rows))"
    by (auto simp: af_validated_raw_closes_def Let_def res_iffs split: if_splits)
  obtain rows' where rows': "map_res (af_raw_close cu) (insts ys) = Inr rows'" "mset rows' = mset rows"
    using map_res_mset [OF rows insts_mset [OF p]] .
  have "inj_on rc_observation_date (set rows')"
    using d rows'(2) by (metis distinct_map mset_eq_setD set_sort)
  then have "sort_key rc_observation_date rows' = sort_key rc_observation_date rows"
    by (intro sort_key_perm rows'(2))
  then show ?thesis
    using assms(1) rows rows'(1) e by (simp add: af_validated_raw_closes_def)
qed

lemma validated_splits_perm:
  assumes "af_validated_splits (Seq xs) raw = Inr ns" and p: "mset ys = mset xs"
    and d: "distinct (map sv_provider_event_id ns)"
  shows "af_validated_splits (Seq ys) raw = Inr ns"
proof -
  have e: "list_all is_inst ys \<longleftrightarrow> list_all is_inst xs"
    using p by (auto simp: list_all_iff dest: mset_eq_setD)
  from assms(1) obtain rows where rows: "map_res (af_split_row raw) (insts xs) = Inr rows"
      and ns: "ns = sort_splits rows" and a: "list_all is_inst xs"
    by (auto simp: af_validated_splits_def res_iffs split: if_splits)
  obtain rows' where rows': "map_res (af_split_row raw) (insts ys) = Inr rows'" "mset rows' = mset rows"
    using map_res_mset [OF rows insts_mset [OF p]] .
  have inj: "inj_on sv_provider_event_id (set rows')"
    using d ns rows'(2) by (metis distinct_map mset_eq_setD set_sort sort_splits_def)
  have "sort_splits rows' = ns"
    using sort_key_perm [OF rows'(2) inj] ns by (simp add: sort_splits_def)
  then show ?thesis using rows'(1) a e by (simp add: af_validated_splits_def)
qed

lemma validated_dividends_perm:
  assumes "af_validated_dividends (Seq xs) raw = Inr nd" and p: "mset ys = mset xs"
    and d: "distinct (map dv_provider_event_id nd)"
  shows "af_validated_dividends (Seq ys) raw = Inr nd"
proof -
  have e: "list_all is_inst ys \<longleftrightarrow> list_all is_inst xs"
    using p by (auto simp: list_all_iff dest: mset_eq_setD)
  from assms(1) obtain rows where rows: "map_res (af_dividend_row raw) (insts xs) = Inr rows"
      and nd: "nd = sort_dividends rows" and a: "list_all is_inst xs"
    by (auto simp: af_validated_dividends_def res_iffs split: if_splits)
  obtain rows' where rows': "map_res (af_dividend_row raw) (insts ys) = Inr rows'" "mset rows' = mset rows"
    using map_res_mset [OF rows insts_mset [OF p]] .
  have inj: "inj_on dv_provider_event_id (set rows')"
    using d nd rows'(2) by (metis distinct_map mset_eq_setD set_sort sort_dividends_def)
  have "sort_dividends rows' = nd"
    using sort_key_perm [OF rows'(2) inj] nd by (simp add: sort_dividends_def)
  then show ?thesis using rows'(1) a e by (simp add: af_validated_dividends_def)
qed

text \<open>C28. The artifact does not depend on the order in which the caller lists the raw rows,
  the splits and the dividends: any permutation of the three inputs of a successful build
  gives the same set, byte for byte of its payload and with the same content address.\<close>

theorem build_order_independent:
  assumes "build_adjustment_factor_set env symbol cutoff (Seq raws) si (Seq splits) di (Seq dividends) = Inr fs"
    and "mset raws' = mset raws" and "mset splits' = mset splits" and "mset dividends' = mset dividends"
  shows "build_adjustment_factor_set env symbol cutoff (Seq raws') si (Seq splits') di (Seq dividends') = Inr fs"
  using assms(1)
proof (rule build_stages)
  fix sy cu sid did raw ns nd factors srows drows rrows payload
  assume stages: "af_symbol symbol = Inr sy" "af_utc cutoff ''cutoff'' = Inr cu"
      "af_content_id si ''split_collection_id'' = Inr sid" "af_content_id di ''dividend_collection_id'' = Inr did"
      "sid \<noteq> did"
    and raw: "af_validated_raw_closes env (Seq raws) cu = Inr raw"
    and ns: "af_validated_splits (Seq splits) raw = Inr ns"
    and nd: "af_validated_dividends (Seq dividends) raw = Inr nd"
    and i: "af_validate_action_identity ns nd = Inr ()" and f: "af_factors ns nd raw = Inr factors"
    and rows: "map_res af_split_json ns = Inr srows" "map_res af_dividend_json nd = Inr drows"
      "map_res af_raw_json raw = Inr rrows"
    and c: "canonical_json (af_payload_document env sy cu sid did srows drows rrows raw factors) = Inr payload"
    and fs: "fs = \<lparr>fs_factor_set_id = content_id payload, fs_canonical_payload = payload,
          fs_format = adjustment_factor_set_format,
          fs_policy_version = adjustment_factor_policy_version,
          fs_policy_hash = adjustment_factor_policy_hash env, fs_symbol = sy,
          fs_cutoff = cu, fs_anchor_date = rc_observation_date (last raw),
          fs_split_collection_id = sid, fs_dividend_collection_id = did, fs_raw_inputs = raw,
          fs_action_version_ids = sort (map sv_version_id ns @ map dv_version_id nd),
          fs_factors = factors\<rparr>"
  from i have "distinct (map sv_provider_event_id ns)" "distinct (map dv_provider_event_id nd)"
    by (auto simp: af_validate_action_identity_def res_iffs split: if_splits)
  note v = validated_splits_perm [OF ns assms(3) this(1)] validated_dividends_perm [OF nd assms(4) this(2)]
  show ?thesis
    unfolding fs by (rule build_intro [OF stages validated_raw_perm [OF raw assms(2)] v i f rows c])
qed

theorem build_order_independent_witness:
  "build_adjustment_factor_set sample_env (PyStr ''AAPL'') (PyDatetime sample_cutoff (Some 0))
     (Seq [Inst (sample_raw_arg 738888 (Dec False 100 0)), Inst (sample_raw_arg 738886 (Dec False 2000 (- 1))),
        Inst (sample_raw_arg 738887 (Dec False 1995 (- 1)))]) (PyStr (sample_id (CHR ''a''))) sample_splits
     (PyStr (sample_id (CHR ''b''))) sample_dividends = sample_build \<and> is_ok sample_build"
proof -
  obtain fs where fs: "sample_build = Inr fs" using sample_build_ok by blast
  from build_order_independent [OF this [unfolded sample_build_def sample_raw_args_def sample_splits_def sample_dividends_def]]
  show ?thesis unfolding fs sample_splits_def sample_dividends_def by simp
qed

section \<open>The raw series of a built artifact\<close>

text \<open>The raw inputs of a built artifact are a complete series without lookahead: between 1
  and 5000 rows, strictly increasing in date and in observation time, equal to the
  exchange's list of sessions between the first and the last, each observed at the exact
  close of its session, recorded and available in that order and no later than the cutoff,
  with a finite positive close.\<close>

theorem built_raw_series:
  assumes "build_adjustment_factor_set env symbol cutoff raws si splits di dividends = Inr fs"
  shows "fs_raw_inputs fs \<noteq> [] \<and> length (fs_raw_inputs fs) \<le> 5000 \<and>
    sorted_wrt (<) (map rc_observation_date (fs_raw_inputs fs)) \<and>
    sorted_wrt (<) (map rc_observed_at (fs_raw_inputs fs)) \<and>
    env_sessions_in_range env (rc_observation_date (hd (fs_raw_inputs fs)))
      (rc_observation_date (last (fs_raw_inputs fs))) = Some (map rc_observation_date (fs_raw_inputs fs)) \<and>
    (\<forall>r \<in> set (fs_raw_inputs fs). wf_raw env (fs_cutoff fs) r \<and>
       af_utc (env_session_close env (rc_observation_date r)) ''raw session close'' = Inr (rc_observed_at r))"
proof -
  from assms obtain cu raw where
      r: "af_validated_raw_closes env raws cu = Inr raw" and fs: "fs_raw_inputs fs = raw" "fs_cutoff fs = cu"
    by (elim build_stages) (rule that; simp)
  show ?thesis unfolding fs using validated_raw_facts [OF r] by blast
qed

theorem built_raw_series_witness:
  "\<exists>fs. sample_build = Inr fs \<and> length (fs_raw_inputs fs) = 3 \<and>
     (\<forall>r \<in> set (fs_raw_inputs fs). wf_raw sample_env (fs_cutoff fs) r)"
proof -
  obtain fs where fs: "sample_build = Inr fs" "fs_raw_inputs fs = sample_raws" using sample_build_ok by blast
  have "length sample_raws = 3" by (simp add: sample_raws_def)
  with built_raw_series [OF fs(1) [unfolded sample_build_def]] fs show ?thesis by auto
qed

section \<open>Exceptions\<close>

definition only_af_error :: "'a res \<Rightarrow> bool" where
  "only_af_error m \<longleftrightarrow> (\<forall>e. m = Inl e \<longrightarrow> (\<exists>msg. e = AdjustmentFactorError msg))"

named_theorems af_errors \<open>computations that raise AdjustmentFactorError only\<close>

lemma only_af_error_simps [simp]:
  "only_af_error (Inr x)" "only_af_error (Inl (AdjustmentFactorError msg))"
  "only_af_error (check c (AdjustmentFactorError msg))"
  by (simp_all add: only_af_error_def check_def)

lemma only_af_error_bind:
  "only_af_error m \<Longrightarrow> (\<And>x. m = Inr x \<Longrightarrow> only_af_error (f x)) \<Longrightarrow> only_af_error (bind_res m f)"
  by (cases m) (auto simp: only_af_error_def)

lemma only_af_error_map: "(\<And>x. only_af_error (f x)) \<Longrightarrow> only_af_error (map_res f xs)"
  by (induction xs) (auto intro!: only_af_error_bind)

lemma af_scalar_errors [af_errors]:
  "only_af_error (af_positive_decimal v l)" "only_af_error (af_mul_div a b c l)" "only_af_error (af_add a b l)"
  "only_af_error (af_decimal_text d)" "only_af_error (af_binary64_bits d l)" "only_af_error (af_identifier v l)"
  "only_af_error (af_symbol v)" "only_af_error (af_date v l)" "only_af_error (af_utc v l)"
  "only_af_error (af_calendar env)"
  by (auto simp: af_positive_decimal_def af_mul_div_def af_add_def af_decimal_text_def Let_def
      af_binary64_bits_def af_identifier_def af_symbol_def af_date_def af_utc_def utc_of_def af_calendar_def
      split: pyobj.splits sum.splits option.splits)

lemma af_record_errors [af_errors]:
  "only_af_error (af_canonical_raw_close v)" "only_af_error (af_content_id v l)"
  "only_af_error (af_validate_contiguous_xnys env ds)" "only_af_error (af_action_date v l raw)"
  "only_af_error (af_validate_action_identity ns nd)" "only_af_error (af_factor_row i p q)"
  "only_af_error (af_step ns nd r acc)" "only_af_error (af_split_json s)" "only_af_error (af_dividend_json d)"
  "only_af_error (af_raw_json r)"
  by (auto simp: af_canonical_raw_close_def af_content_id_def af_validate_contiguous_xnys_def Let_def
      af_action_date_def af_validate_action_identity_def af_factor_row_def af_step_def af_split_json_def
      af_dividend_json_def af_raw_json_def af_errors split: option.splits prod.splits simp del: bind_check_iff
      intro!: only_af_error_bind)

lemma af_row_errors [af_errors]:
  "only_af_error (af_raw_close cu item)" "only_af_error (af_split_row raw s)" "only_af_error (af_dividend_row raw d)"
  unfolding af_raw_close_def af_split_row_def af_dividend_row_def
  by ((intro only_af_error_bind af_errors conjI allI impI
       | simp del: bind_check_iff add: af_errors split: pyobj.split)+)

lemma af_loop_errors [af_errors]:
  "only_af_error (af_check_session_closes env rs)" "only_af_error (af_factor_loop ns nd rows acc)"
  "only_af_error (af_factors ns nd raw)"
proof -
  show "only_af_error (af_check_session_closes env rs)"
    by (induction rs) (auto intro!: only_af_error_bind af_errors)
  have l: "only_af_error (af_factor_loop ns nd rows acc)" for rows acc
    by (induction ns nd rows acc rule: af_factor_loop.induct) (auto intro!: only_af_error_bind af_errors)
  then show "only_af_error (af_factor_loop ns nd rows acc)" .
  show "only_af_error (af_factors ns nd raw)"
    unfolding af_factors_def by (intro only_af_error_bind l) simp
qed

lemma af_input_errors [af_errors]:
  "only_af_error (af_validated_raw_closes env v cu)" "only_af_error (af_validated_splits w raw)"
  "only_af_error (af_validated_dividends x raw)"
  unfolding af_validated_raw_closes_def af_validated_splits_def af_validated_dividends_def Let_def
  by ((intro only_af_error_bind only_af_error_map af_errors conjI allI impI
       | simp del: bind_check_iff add: af_errors split: pyseq.split)+)

text \<open>Whatever it is given, the builder returns an artifact or raises its own exception: no
  other exception class leaves it, not even from the decimal arithmetic or the JSON
  encoder.\<close>

theorem build_raises_only_its_error:
  "case build_adjustment_factor_set env symbol cutoff raws si splits di dividends of
     Inr fs \<Rightarrow> True
   | Inl e \<Rightarrow> (case e of AdjustmentFactorError msg \<Rightarrow> True | _ \<Rightarrow> False)"
proof -
  have "only_af_error (build_adjustment_factor_set env symbol cutoff raws si splits di dividends)"
    unfolding build_adjustment_factor_set_def
    by ((intro only_af_error_bind only_af_error_map af_errors
         | simp del: bind_check_iff add: canonical_json_total [OF af_payload_plain])+)
  then show ?thesis by (auto simp: only_af_error_def split: sum.split exn.split)
qed

end
