(* ===== verification/AdjustedPriceLaws.thy ===== *)
theory AdjustedPriceLaws
  imports AdjustedPrices AdjustmentFactorLaws
begin

text \<open>
  What \<open>adjust_ohlcv_window\<close> promises: it accepts every artifact that the builder
  makes, its slices are slices of one full window, the adjustment keeps the
  ordering of the OHLC prices and leaves the anchor session unchanged, and the
  lineage it reports is ordered in time.
\<close>

section \<open>The payload as the reader parses it\<close>

definition sorted_split_json :: "SplitActionVersion \<Rightarrow> string \<Rightarrow> string \<Rightarrow> json" where
  "sorted_split_json s a b = JObj [
     (''adjustment_type'', JStr (sv_adjustment_type s)),
     (''effective_date'', JStr (date_iso (sv_effective_date s))),
     (''provider_event_id'', JStr (sv_provider_event_id s)),
     (''split_from'', JStr a), (''split_to'', JStr b), (''version_id'', JStr (sv_version_id s))]"

definition sorted_dividend_json :: "DividendActionVersion \<Rightarrow> string \<Rightarrow> json" where
  "sorted_dividend_json s a = JObj [
     (''cash_amount'', JStr a), (''currency'', JStr (dv_currency s)),
     (''distribution_type'', JStr (dv_distribution_type s)),
     (''ex_dividend_date'', JStr (date_iso (dv_ex_dividend_date s))),
     (''provider_event_id'', JStr (dv_provider_event_id s)), (''version_id'', JStr (dv_version_id s))]"

lemma jsort_split_json: "af_split_json s = Inr j \<Longrightarrow> \<exists>a b. jsort j = sorted_split_json s a b"
  by (auto simp: af_split_json_def res_iffs sorted_split_json_def)

lemma jsort_dividend_json: "af_dividend_json s = Inr j \<Longrightarrow> \<exists>a. jsort j = sorted_dividend_json s a"
  by (auto simp: af_dividend_json_def res_iffs sorted_dividend_json_def)

lemma jsort_factor_json [simp]: "jsort (af_factor_json f) = af_factor_json f"
  by (simp add: af_factor_json_def)

lemma jsort_raw_json: "af_raw_json r = Inr j \<Longrightarrow> jsort j = j"
  by (auto simp: af_raw_json_def res_iffs)

definition payload_object ::
  "af_env \<Rightarrow> string \<Rightarrow> instant \<Rightarrow> string \<Rightarrow> string \<Rightarrow> json list \<Rightarrow> json list \<Rightarrow> json list
     \<Rightarrow> RawCloseVersion list \<Rightarrow> AdjustmentFactor list \<Rightarrow> (string \<times> json) list" where
  "payload_object env symbol cutoff split_id dividend_id split_rows dividend_rows raw_rows raw factors =
     [ (''actions'', JObj [
          (''dividends'', JObj [(''collection_id'', JStr dividend_id), (''versions'', JArr dividend_rows)]),
          (''splits'', JObj [(''collection_id'', JStr split_id), (''versions'', JArr split_rows)])]),
       (''anchor_date'', JStr (date_iso (rc_observation_date (last raw)))),
       (''cutoff'', JStr (af_timestamp cutoff)),
       (''factors'', JArr (map af_factor_json factors)),
       (''format'', JStr adjustment_factor_set_format),
       (''policy_hash'', JStr (adjustment_factor_policy_hash env)),
       (''policy_version'', JStr adjustment_factor_policy_version),
       (''raw_inputs'', JArr raw_rows),
       (''symbol'', JStr symbol)]"

lemma jsort_payload:
  assumes "map_res af_raw_json raw = Inr rrows"
  shows "jsort (af_payload_document env sy cu si di srows drows rrows raw factors) =
    JObj (payload_object env sy cu si di (map jsort srows) (map jsort drows) rrows raw factors)"
proof -
  have "map jsort rrows = rrows"
    by (rule map_idI) (metis assms jsort_raw_json map_res_in)
  then show ?thesis by (simp add: af_payload_document_def payload_object_def)
qed

section \<open>The projection of a built artifact\<close>

lemma ap_decimal_text_eq:
  assumes "dec_positive d" and "af_decimal_text d = Inr t"
  shows "ap_decimal_text d l = Inr t"
  using assms by (cases d) (auto simp: af_decimal_text_def ap_decimal_text_def split: sum.splits)

lemma ap_decimal_binary64_eq:
  assumes "dec_finite d" and "af_binary64_bits d l = Inr b"
  obtains x where "ap_decimal_binary64 d l' = Inr x" and "ap_float_bits x = b"
  using assms by (auto simp: af_binary64_bits_def ap_decimal_binary64_def ap_float_bits_def Let_def split: if_splits)

lemma ap_expected_raw_eq:
  assumes "wf_raw env cu r" and "af_raw_json r = Inr j"
  shows "ap_expected_raw_json r = Inr j"
proof -
  from assms(2) obtain t b where t: "af_decimal_text (rc_close r) = Inr t"
      and b: "af_binary64_bits (rc_close r) ''raw close'' = Inr b" and j: "j = JObj [
       (''adjustment_basis'', JStr (rc_adjustment_basis r)),
       (''available_at'', JStr (af_timestamp (rc_available_at r))),
       (''close_decimal'', JStr t), (''close_f64_be'', JStr b),
       (''multiplier'', JInt (rc_multiplier r)),
       (''observation_date'', JStr (date_iso (rc_observation_date r))),
       (''observed_at'', JStr (af_timestamp (rc_observed_at r))),
       (''source'', JStr (rc_source r)), (''timespan'', JStr (rc_timespan r)),
       (''version_recorded_at'', JStr (af_timestamp (rc_version_recorded_at r)))]"
    by (auto simp: af_raw_json_def res_iffs)
  have w: "dec_finite (rc_close r)" "dec_positive (rc_close r)" using assms(1) by (auto simp: wf_raw_def)
  obtain x where "ap_decimal_binary64 (rc_close r) ''factor raw close'' = Inr x" "ap_float_bits x = b"
    using ap_decimal_binary64_eq [OF w(1) b] .
  then show ?thesis
    using ap_decimal_text_eq [OF w(2) t] j by (simp add: ap_expected_raw_json_def ap_timestamp_def af_timestamp_def)
qed

lemma ap_canonical_total [simp]: "plain j \<Longrightarrow> ap_canonical_json j = Inr (canonical_bytes j)"
  by (simp add: ap_canonical_json_def canonical_json_total)

lemma check_raw_rows:
  assumes "map_res af_raw_json raw = Inr rrows" and "\<forall>r \<in> set raw. wf_raw env cu r"
  shows "ap_check_raw_rows i raw rrows = Inr ()"
  using assms
proof (induction raw arbitrary: i rrows)
  case (Cons r raw)
  then obtain j js where j: "af_raw_json r = Inr j" "map_res af_raw_json raw = Inr js" "rrows = j # js"
    by (auto simp: res_iffs)
  have "is_jobj j" using j(1) by (auto simp: af_raw_json_def res_iffs)
  moreover have "ap_expected_raw_json r = Inr j"
    using ap_expected_raw_eq [OF _ j(1)] Cons.prems(2) by auto
  ultimately have "ap_validate_payload_raw_projection i r j = Inr ()"
    using af_raw_json_plain [OF j(1)] by (simp add: ap_validate_payload_raw_projection_def)
  then show ?case using Cons j by simp
qed simp

lemma check_factor_rows:
  assumes "\<forall>k < length fs. af_raw_input_ordinal (fs ! k) = i + int k"
  shows "ap_check_factor_rows i fs (map af_factor_json fs) = Inr ()"
  using assms
proof (induction fs arbitrary: i)
  case (Cons f fs)
  have "af_raw_input_ordinal f = i" using Cons.prems by force
  moreover have "\<forall>k < length fs. af_raw_input_ordinal (fs ! k) = (i + 1) + int k"
    using Cons.prems by (metis Suc_less_eq add.assoc length_Cons nth_Cons_Suc of_nat_Suc)
  ultimately show ?case
    using Cons.IH by (auto simp: ap_expected_factor_json_def af_factor_json_def)
qed simp

lemma split_version_ids:
  assumes "map_res af_split_json ns = Inr srows" and "\<forall>s \<in> set ns. content_id_pattern (sv_version_id s)"
  shows "map_res (ap_action_row ap_split_keys l) (map jsort srows) = Inr (map sv_version_id ns)"
  using assms
proof (induction ns arbitrary: srows)
  case (Cons s ns)
  then obtain j js where j: "af_split_json s = Inr j" "map_res af_split_json ns = Inr js" "srows = j # js"
    by (auto simp: res_iffs)
  obtain a b where "jsort j = sorted_split_json s a b" using jsort_split_json [OF j(1)] by blast
  then have "ap_action_row ap_split_keys l (jsort j) = Inr (sv_version_id s)"
    using Cons.prems(2) by (auto simp: ap_action_row_def sorted_split_json_def ap_split_keys_def dict_keys_def)
  then show ?case using Cons j by simp
qed simp

lemma dividend_version_ids:
  assumes "map_res af_dividend_json ns = Inr srows" and "\<forall>s \<in> set ns. content_id_pattern (dv_version_id s)"
  shows "map_res (ap_action_row ap_dividend_keys l) (map jsort srows) = Inr (map dv_version_id ns)"
  using assms
proof (induction ns arbitrary: srows)
  case (Cons s ns)
  then obtain j js where j: "af_dividend_json s = Inr j" "map_res af_dividend_json ns = Inr js" "srows = j # js"
    by (auto simp: res_iffs)
  obtain a where "jsort j = sorted_dividend_json s a" using jsort_dividend_json [OF j(1)] by blast
  then have "ap_action_row ap_dividend_keys l (jsort j) = Inr (dv_version_id s)"
    using Cons.prems(2) by (auto simp: ap_action_row_def sorted_dividend_json_def ap_dividend_keys_def dict_keys_def)
  then show ?case using Cons j by simp
qed simp

lemma af_factor_row_ordinal: "af_factor_row i p v = Inr f \<Longrightarrow> af_raw_input_ordinal f = i"
  by (auto simp: af_factor_row_def elim!: bind_res_InrE)

lemma validated_version_ids:
  assumes "af_validated_splits v raw = Inr ns" and "af_validated_dividends w raw = Inr nd"
  shows "\<forall>s \<in> set ns. content_id_pattern (sv_version_id s)"
    and "\<forall>d \<in> set nd. content_id_pattern (dv_version_id d)"
proof -
  have c: "af_content_id x l = Inr i \<Longrightarrow> content_id_pattern i" for x l i
    by (auto simp: af_content_id_def res_iffs split: if_splits)
  have s: "af_split_row raw x = Inr y \<Longrightarrow> content_id_pattern (sv_version_id y)" for x y
    by (cases "sa_adjustment_type x")
       (auto simp: af_split_row_def elim!: bind_res_InrE split: if_splits, (erule c)+)
  have d: "af_dividend_row raw x = Inr y \<Longrightarrow> content_id_pattern (dv_version_id y)" for x y
    by (auto simp: af_dividend_row_def elim!: bind_res_InrE split: if_splits, (erule c)+)
  show "\<forall>s \<in> set ns. content_id_pattern (sv_version_id s)"
    using assms(1) by (auto simp: af_validated_splits_def sort_splits_def res_iffs
        elim!: map_res_in dest!: s split: pyseq.splits if_splits)
  show "\<forall>d \<in> set nd. content_id_pattern (dv_version_id d)"
    using assms(2) by (auto simp: af_validated_dividends_def sort_dividends_def res_iffs
        elim!: map_res_in dest!: d split: pyseq.splits if_splits)
qed

lemma payload_projection:
  assumes rows: "map_res af_split_json ns = Inr srows" "map_res af_dividend_json nd = Inr drows"
      "map_res af_raw_json raw = Inr rrows"
    and v: "\<forall>s \<in> set ns. content_id_pattern (sv_version_id s)" "\<forall>d \<in> set nd. content_id_pattern (dv_version_id d)"
    and i: "distinct (map sv_version_id ns @ map dv_version_id nd)"
    and raw: "\<forall>r \<in> set raw. wf_raw env cu r"
    and ord: "\<forall>k < length factors. af_raw_input_ordinal (factors ! k) = int k"
    and fs: "fs_policy_version fs = adjustment_factor_policy_version"
      "fs_policy_hash fs = adjustment_factor_policy_hash env" "fs_symbol fs = sy" "fs_cutoff fs = cu'"
      "fs_anchor_date fs = rc_observation_date (last raw)" "fs_split_collection_id fs = si"
      "fs_dividend_collection_id fs = di" "fs_raw_inputs fs = raw"
      "fs_action_version_ids fs = sort (map sv_version_id ns @ map dv_version_id nd)" "fs_factors fs = factors"
  shows "ap_validate_artifact_projection fs
    (payload_object env sy cu' si di (map jsort srows) (map jsort drows) rrows raw factors) = Inr ()"
proof -
  let ?o = "payload_object env sy cu' si di (map jsort srows) (map jsort drows) rrows raw factors"
  let ?s = "JObj [(''collection_id'', JStr si), (''versions'', JArr (map jsort srows))]"
  let ?d = "JObj [(''collection_id'', JStr di), (''versions'', JArr (map jsort drows))]"
  let ?a = "JObj [(''dividends'', ?d), (''splits'', ?s)]"
  have keys: "dict_keys ?o = set ap_root_keys"
    by (simp add: payload_object_def ap_root_keys_def dict_keys_def)
  have get: "dict_get ?o ''actions'' = Some ?a" "dict_get ?o ''raw_inputs'' = Some (JArr rrows)"
      "dict_get ?o ''factors'' = Some (JArr (map af_factor_json factors))"
    by (simp_all add: payload_object_def)
  have root: "\<not> ap_root_mismatch fs ?o ?a ?s ?d"
    by (simp add: ap_root_mismatch_def payload_object_def fs ap_timestamp_def af_timestamp_def
        ap_action_keys_def ap_action_collection_keys_def dict_keys_def insert_commute)
  have "length rrows = length raw" using map_res_length [OF rows(3)] .
  then show ?thesis
    unfolding ap_validate_artifact_projection_def keys get
    using root split_version_ids [OF rows(1) v(1)] dividend_version_ids [OF rows(2) v(2)]
      check_raw_rows [OF rows(3) raw] check_factor_rows [of factors 0] i ord fs
    by simp
qed

lemma built_artifact_accepted:
  assumes "build_adjustment_factor_set env symbol cutoff raws si splits di dividends = Inr fs"
  shows "ap_validated_artifact env (Inst fs) = Inr fs"
  using assms
proof (rule build_stages)
  fix sy cu sid did raw ns nd factors srows drows rrows payload
  assume raw: "af_validated_raw_closes env raws cu = Inr raw"
    and ns: "af_validated_splits splits raw = Inr ns" and nd: "af_validated_dividends dividends raw = Inr nd"
    and i: "af_validate_action_identity ns nd = Inr ()" and f: "af_factors ns nd raw = Inr factors"
    and rows: "map_res af_split_json ns = Inr srows" "map_res af_dividend_json nd = Inr drows"
      "map_res af_raw_json raw = Inr rrows"
    and c: "canonical_json (af_payload_document env sy cu sid did srows drows rrows raw factors) = Inr payload"
    and fs: "fs = \<lparr>fs_factor_set_id = content_id payload, fs_canonical_payload = payload,
          fs_format = adjustment_factor_set_format,
          fs_policy_version = adjustment_factor_policy_version,
          fs_policy_hash = adjustment_factor_policy_hash env, fs_symbol = sy,
          fs_cutoff = cu, fs_anchor_date = rc_observation_date (last raw),
          fs_split_collection_id = sid, fs_dividend_collection_id = did, fs_raw_inputs = raw,
          fs_action_version_ids = sort (map sv_version_id ns @ map dv_version_id nd),
          fs_factors = factors\<rparr>"
  let ?o = "payload_object env sy cu sid did (map jsort srows) (map jsort drows) rrows raw factors"
  let ?doc = "af_payload_document env sy cu sid did srows drows rrows raw factors"
  have p: "plain ?doc" by (rule af_payload_plain [OF rows])
  have js: "jsort ?doc = JObj ?o" by (rule jsort_payload [OF rows(3)])
  have loads: "json_loads payload = Some (JObj ?o)" using loads_canonical [OF p c] js by simp
  have pb: "payload = canonical_bytes ?doc" using c canonical_json_total [OF p] by simp
  have "canonical_bytes (JObj ?o) = payload"
    unfolding pb canonical_bytes_def js [symmetric] by simp
  then have canon: "ap_canonical_json (JObj ?o) = Inr payload"
    using plain_jsort [OF p] js by simp
  have d: "distinct (map sv_version_id ns @ map dv_version_id nd)"
    using i by (auto simp: af_validate_action_identity_def res_iffs split: if_splits)
  obtain accs where t: "length factors = length raw"
      "\<forall>i < length raw. af_factor_row (int i) (fst (accs ! i)) (snd (accs ! i)) = Inr (factors ! i)"
    using af_factors_trace [OF f] by blast
  have ord: "\<forall>k < length factors. af_raw_input_ordinal (factors ! k) = int k"
    using t af_factor_row_ordinal by metis
  have "ap_validate_artifact_projection fs ?o = Inr ()"
    by (rule payload_projection [OF rows validated_version_ids [OF ns nd] d validated_raw_facts(5) [OF raw] ord])
       (simp_all add: fs)
  then show ?thesis
    using loads canon by (simp add: ap_validated_artifact_def fs)
qed

lemma built_artifact_validates_sample:
  "sample_build = Inr fs \<Longrightarrow> ap_validated_artifact sample_env (Inst fs) = Inr fs"
  unfolding sample_build_def by (rule built_artifact_accepted)

text \<open>C6. Every artifact that the builder makes is accepted by the reader: validation of its
  policy, of its content address, of its payload as exact canonical JSON and of the whole
  projection of the payload against the artifact succeeds and returns the artifact.\<close>

theorem built_artifact_validates:
  assumes "build_adjustment_factor_set env symbol cutoff raws si splits di dividends = Inr fs"
  shows "ap_validated_artifact env (Inst fs) = Inr fs"
  using assms by (rule built_artifact_accepted)

theorem built_artifact_validates_witness:
  "\<exists>fs. sample_build = Inr fs \<and> ap_validated_artifact sample_env (Inst fs) = Inr fs"
proof -
  obtain fs where fs: "sample_build = Inr fs" using sample_build_ok by blast
  with built_artifact_validates [OF fs [unfolded sample_build_def]] show ?thesis by blast
qed

section \<open>Adjustment of one row\<close>

definition nonneg_finite :: "f64 \<Rightarrow> bool" where
  "nonneg_finite x \<longleftrightarrow> f_isfinite x \<and> 0 \<le> f_key x"

lemma nonneg_finite_key: "nonneg_finite x \<Longrightarrow> f_key x = f_idx x \<and> (f_isneg x \<longrightarrow> f_idx x = 0)"
  using f_idx_nonneg [of x] by (cases "f_isneg x") (auto simp: nonneg_finite_def f_key_def)

lemma f_zero_facts [simp]: "f_isfinite f_zero" "f_key f_zero = 0"
  by (simp_all add: f_isfinite_def f_zero_def f_idx_def f_key_def inf_idx_def)

lemma finite_nonnegative_float_iff:
  "ap_finite_nonnegative_float v l = Inr x \<longleftrightarrow> v = PyFloat x \<and> nonneg_finite x"
  by (auto simp: ap_finite_nonnegative_float_def nonneg_finite_def f_lt_key split: pyobj.splits if_splits)

text \<open>A product with a positive factor keeps the order of nonnegative prices.\<close>

lemma f_mul_key_mono:
  assumes "nonneg_finite a" and "nonneg_finite b" and "f_isfinite c" and "\<not> f_isneg c" and "f_key a \<le> f_key b"
  shows "f_key (f_mul a c) \<le> f_key (f_mul b c)"
proof -
  have k: "f_key (f_mul x c) = f_idx (f_mul x c)" if "nonneg_finite x" for x
  proof (cases "f_isneg x")
    case True
    with nonneg_finite_key [OF that] have "f_idx (f_mul x c) = 0"
      using f_mul_finite(1) [of x c] that assms(3) by (simp add: nonneg_finite_def rmag_def)
    then show ?thesis by (simp add: f_key_def)
  next
    case False
    then show ?thesis
      using f_mul_finite(2) [of x c] that assms(3,4) by (simp add: nonneg_finite_def f_key_def)
  qed
  show ?thesis
    using f_mul_mono_idx [of a b c] assms k nonneg_finite_key [OF assms(1)] nonneg_finite_key [OF assms(2)]
    by (simp add: nonneg_finite_def)
qed

lemma ohlc_ok_iff:
  assumes "f_isfinite o'" "f_isfinite h" "f_isfinite l" "f_isfinite c"
  shows "ap_validate_ohlc o' h l c lab = Inr () \<longleftrightarrow>
    f_key l \<le> f_key h \<and> f_key o' \<le> f_key h \<and> f_key c \<le> f_key h \<and> f_key l \<le> f_key o' \<and> f_key l \<le> f_key c"
  using assms by (auto simp: ap_validate_ohlc_def check_Inr_iff f_max_def f_min_def f_lt_key)

lemma ap_multiply_facts:
  assumes "ap_multiply x f l = Inr y"
  shows "y = f_mul x f" and "f_isfinite y"
  using assms by (auto simp: ap_multiply_def Let_def split: if_splits)

lemma decode_factor_facts:
  assumes "ap_decode_positive_factor bits l = Inr x"
  shows "f_isfinite x" and "\<not> f_isneg x"
proof -
  from assms have f: "f_isfinite x" "\<not> f_le x f_zero"
    by (auto simp: ap_decode_positive_factor_def Let_def split: if_splits)
  then show "f_isfinite x" by simp
  from f have "0 < f_key x" by (simp add: f_le_key)
  then show "\<not> f_isneg x" using f_idx_nonneg [of x] unfolding f_key_def by (metis linorder_not_le neg_0_le_iff_le neg_le_0_iff_le)
qed

lemma ohlc_preserved:
  assumes "ap_validate_ohlc o' h l c lab = Inr ()"
    and "nonneg_finite o'" "nonneg_finite h" "nonneg_finite l" "nonneg_finite c"
    and "f_isfinite f" "\<not> f_isneg f"
    and "f_isfinite (f_mul o' f)" "f_isfinite (f_mul h f)" "f_isfinite (f_mul l f)" "f_isfinite (f_mul c f)"
  shows "ap_validate_ohlc (f_mul o' f) (f_mul h f) (f_mul l f) (f_mul c f) lab' = Inr ()"
  using assms by (simp add: ohlc_ok_iff nonneg_finite_def f_mul_key_mono)

lemma optional_price_iff:
  "(if v = PyNone then Inr None else bind_res (ap_finite_nonnegative_float v l) (\<lambda>x. Inr (Some x))) = Inr w \<longleftrightarrow>
     (case w of None \<Rightarrow> v = PyNone | Some x \<Rightarrow> v = PyFloat x \<and> nonneg_finite x)"
  by (auto simp: res_iffs finite_nonnegative_float_iff split: option.splits)

lemma validate_raw_row_facts:
  assumes "ap_validate_raw_row i row expected artifact = Inr raw"
  shows "nonneg_finite (ro_open raw) \<and> nonneg_finite (ro_high raw) \<and> nonneg_finite (ro_low raw) \<and>
    nonneg_finite (ro_close raw) \<and> nonneg_finite (ro_volume raw) \<and>
    (case ro_vwap raw of None \<Rightarrow> True | Some x \<Rightarrow> nonneg_finite x) \<and>
    ap_validate_ohlc (ro_open raw) (ro_high raw) (ro_low raw) (ro_close raw) ''raw'' = Inr () \<and>
    ro_timestamp raw = rc_observed_at expected \<and> ro_available_at raw = rc_available_at expected \<and>
    ro_version_recorded_at raw = rc_version_recorded_at expected \<and>
    ro_symbol raw = fs_symbol artifact"
  using assms unfolding ap_validate_raw_row_def
  apply (elim bind_check_InrE bind_res_InrE)
  apply (drule Inr_inject)
  apply (drule sym [of _ raw])
  apply (simp only: finite_nonnegative_float_iff optional_price_iff de_Morgan_disj not_not)
  apply (auto split: option.splits simp: check_Inr_iff)
  done

section \<open>What a successful projection went through\<close>

definition ap_window ::
  "AdjustmentFactorSet \<Rightarrow> CorporateActionCollectionReceipt \<Rightarrow> CorporateActionCollectionReceipt
     \<Rightarrow> AdjustmentFactorSetReceipt \<Rightarrow> instant \<Rightarrow> AdjustedOhlcvRow list \<Rightarrow> int \<Rightarrow> int \<Rightarrow> AdjustedPriceWindow" where
  "ap_window artifact s d f input_available_at full start stop =
     \<lparr>wi_rows = take (nat (stop - start)) (drop (nat start) full),
      wi_lineage =
        \<lparr>li_factor_set_id = fs_factor_set_id artifact,
         li_factor_set_recorded_at = fr_factor_set_recorded_at f,
         li_factor_set_available_at = fr_available_at f,
         li_policy_version = fs_policy_version artifact, li_policy_hash = fs_policy_hash artifact,
         li_cutoff = fs_cutoff artifact, li_anchor_date = fs_anchor_date artifact,
         li_split_collection_id = fs_split_collection_id artifact,
         li_split_collection_recorded_at = cr_collection_recorded_at s,
         li_split_collection_available_at = cr_available_at s,
         li_dividend_collection_id = fs_dividend_collection_id artifact,
         li_dividend_collection_recorded_at = cr_collection_recorded_at d,
         li_dividend_collection_available_at = cr_available_at d,
         li_action_version_ids = fs_action_version_ids artifact,
         li_max_input_available_at = input_available_at, li_data_available_at = fr_available_at f,
         li_raw_input_count = length full, li_adjustment_basis = adjusted_price_basis\<rparr>,
      wi_start_ordinal = start, wi_stop_ordinal = stop\<rparr>"

definition input_availability ::
  "CorporateActionCollectionReceipt \<Rightarrow> CorporateActionCollectionReceipt \<Rightarrow> RawOhlcvVersion list \<Rightarrow> instant" where
  "input_availability s d rows = foldl max (cr_available_at d) (map ro_available_at rows @ [cr_available_at s])"

lemma adjust_iff:
  "adjust_ohlcv_window env factor_set raw_rows sr dr fr start stop = Inr w \<longleftrightarrow>
    (\<exists>a rows s d n f full i j.
       ap_validated_artifact env factor_set = Inr a \<and> ap_raw_sequence raw_rows = Inr rows \<and>
       ap_validate_cardinality a rows = Inr () \<and>
       ap_collection_receipt sr (fs_split_collection_id a) (fs_cutoff a) ''split collection'' = Inr s \<and>
       ap_collection_receipt dr (fs_dividend_collection_id a) (fs_cutoff a) ''dividend collection'' = Inr d \<and>
       ap_validate_rows a rows = Inr n \<and>
       ap_factor_set_receipt fr (fs_factor_set_id a) (input_availability s d n) = Inr f \<and>
       ap_adjust_rows a n (fr_available_at f) = Inr full \<and>
       \<not> any_adjacent (\<lambda>l r. ao_timestamp l \<ge> ao_timestamp r) full \<and>
       ap_slice_bounds start stop (int (length full)) = Inr (i, j) \<and>
       w = ap_window a s d f (input_availability s d n) full i j)"
  unfolding adjust_ohlcv_window_def ap_window_def input_availability_def Let_def
  by (simp add: bind_res_Inr_iff eq_commute [of w] del: bind_check_iff add: check_Inr_iff cong: conj_cong)

lemma adjust_intro:
  assumes "ap_validated_artifact env factor_set = Inr a" and "ap_raw_sequence raw_rows = Inr rows"
    and "ap_validate_cardinality a rows = Inr ()"
    and "ap_collection_receipt sr (fs_split_collection_id a) (fs_cutoff a) ''split collection'' = Inr s"
    and "ap_collection_receipt dr (fs_dividend_collection_id a) (fs_cutoff a) ''dividend collection'' = Inr d"
    and "ap_validate_rows a rows = Inr n" and "input_availability s d n = t"
    and "ap_factor_set_receipt fr (fs_factor_set_id a) t = Inr f"
    and "ap_adjust_rows a n (fr_available_at f) = Inr full"
    and "\<not> any_adjacent (\<lambda>l r. ao_timestamp l \<ge> ao_timestamp r) full"
    and "ap_slice_bounds start stop (int (length full)) = Inr (i, j)"
  shows "adjust_ohlcv_window env factor_set raw_rows sr dr fr start stop = Inr (ap_window a s d f t full i j)"
  unfolding adjust_iff using assms by blast

lemma slice_bounds_full: "ap_slice_bounds (PyInt 0) PyNone (int n) = Inr (0, int n)"
  by (simp add: ap_slice_bounds_def)

lemma slice_bounds_range:
  assumes "ap_slice_bounds start stop n = Inr (i, j)"
  shows "0 \<le> i \<and> i \<le> j \<and> j \<le> n"
  using assms by (cases start; cases stop) (auto simp: ap_slice_bounds_def split: if_splits)

text \<open>A slice of the adjusted series is that slice of the whole one: whatever bounds the
  caller asks for, the full window of the same inputs exists, has the same lineage, and the
  rows returned are its rows from the start ordinal up to the stop ordinal.\<close>

theorem window_is_slice_of_full:
  assumes "adjust_ohlcv_window env factor_set raw_rows sr dr fr start stop = Inr w"
  shows "\<exists>full. adjust_ohlcv_window env factor_set raw_rows sr dr fr (PyInt 0) PyNone = Inr full \<and>
    wi_rows w = take (nat (wi_stop_ordinal w - wi_start_ordinal w)) (drop (nat (wi_start_ordinal w)) (wi_rows full)) \<and>
    wi_lineage w = wi_lineage full \<and>
    0 \<le> wi_start_ordinal w \<and> wi_start_ordinal w \<le> wi_stop_ordinal w \<and>
    wi_stop_ordinal w \<le> int (length (wi_rows full)) \<and> length (wi_rows full) = li_raw_input_count (wi_lineage full)"
proof -
  from assms obtain a rows s d n f full i j where
    st: "ap_validated_artifact env factor_set = Inr a" "ap_raw_sequence raw_rows = Inr rows"
       "ap_validate_cardinality a rows = Inr ()"
       "ap_collection_receipt sr (fs_split_collection_id a) (fs_cutoff a) ''split collection'' = Inr s"
       "ap_collection_receipt dr (fs_dividend_collection_id a) (fs_cutoff a) ''dividend collection'' = Inr d"
       "ap_validate_rows a rows = Inr n"
       "ap_factor_set_receipt fr (fs_factor_set_id a) (input_availability s d n) = Inr f"
       "ap_adjust_rows a n (fr_available_at f) = Inr full"
       "\<not> any_adjacent (\<lambda>l r. ao_timestamp l \<ge> ao_timestamp r) full"
    and b: "ap_slice_bounds start stop (int (length full)) = Inr (i, j)"
    and w: "w = ap_window a s d f (input_availability s d n) full i j"
    unfolding adjust_iff by blast
  have "adjust_ohlcv_window env factor_set raw_rows sr dr fr (PyInt 0) PyNone =
      Inr (ap_window a s d f (input_availability s d n) full 0 (int (length full)))"
    unfolding adjust_iff using st slice_bounds_full [of "length full"] by blast
  with slice_bounds_range [OF b] w show ?thesis by (auto simp: ap_window_def)
qed

section \<open>A concrete window\<close>

definition sample_set :: AdjustmentFactorSet where
  "sample_set = \<lparr>fs_factor_set_id = [], fs_canonical_payload = [], fs_format = [], fs_policy_version = [],
     fs_policy_hash = [], fs_symbol = ''AAPL'', fs_cutoff = sample_cutoff, fs_anchor_date = 738888,
     fs_split_collection_id = sample_id (CHR ''a''), fs_dividend_collection_id = sample_id (CHR ''b''),
     fs_raw_inputs = sample_raws, fs_action_version_ids = [], fs_factors = sample_factors\<rparr>"

text \<open>The bits of 200.0, 199.5, 100.0, 150.0 and 250.0.\<close>

definition f200 :: f64 where "f200 = 4641240890982006784"
definition f199 :: f64 where "f199 = 4641223298795962368"
definition f100 :: f64 where "f100 = 4636737291354636288"
definition f50 :: f64 where "f50 = 4632233691727265792"
definition f250 :: f64 where "f250 = 4643000109586448384"

definition sample_ohlcv :: "date \<Rightarrow> f64 \<Rightarrow> RawOhlcvArg" where
  "sample_ohlcv d c = \<lparr>ra_symbol = PyStr ''AAPL'', ra_timestamp = PyDatetime (sample_close_utc d) (Some 0),
     ra_timespan = PyStr ''day'', ra_multiplier = PyInt 1, ra_source = PyStr ''polygon_open_close'',
     ra_adjustment_basis = PyStr ''raw'',
     ra_version_recorded_at = PyDatetime (sample_close_utc d + 60000000) (Some 0),
     ra_available_at = PyDatetime (sample_close_utc d + 120000000) (Some 0),
     ra_open = PyFloat c, ra_high = PyFloat f250, ra_low = PyFloat f50, ra_close = PyFloat c,
     ra_volume = PyFloat f250, ra_vwap = PyFloat c, ra_trade_count = PyInt 7\<rparr>"

definition sample_ohlcvs :: "RawOhlcvArg list" where
  "sample_ohlcvs = [sample_ohlcv 738886 f200, sample_ohlcv 738887 f199, sample_ohlcv 738888 f100]"

definition sample_collection_receipt :: "string \<Rightarrow> CollectionReceiptArg pyarg" where
  "sample_collection_receipt i = Inst \<lparr>cra_collection_id = PyStr i,
     cra_collection_recorded_at = PyDatetime (sample_close_utc 738888) (Some 0),
     cra_available_at = PyDatetime (sample_close_utc 738888 + 180000000) (Some 0)\<rparr>"

definition sample_factor_receipt :: "string \<Rightarrow> FactorSetReceiptArg pyarg" where
  "sample_factor_receipt i = Inst \<lparr>fra_factor_set_id = PyStr i,
     fra_factor_set_recorded_at = PyDatetime (sample_cutoff + 1) (Some 0),
     fra_available_at = PyDatetime (sample_cutoff + 2) (Some 0)\<rparr>"

definition sample_receipt :: "string \<Rightarrow> CorporateActionCollectionReceipt" where
  "sample_receipt i = \<lparr>cr_collection_id = i, cr_collection_recorded_at = sample_close_utc 738888,
     cr_available_at = sample_close_utc 738888 + 180000000\<rparr>"

definition sample_factor_set_receipt :: "string \<Rightarrow> AdjustmentFactorSetReceipt" where
  "sample_factor_set_receipt i = \<lparr>fr_factor_set_id = i, fr_factor_set_recorded_at = sample_cutoff + 1,
     fr_available_at = sample_cutoff + 2\<rparr>"

definition sample_normal_row :: "date \<Rightarrow> f64 \<Rightarrow> RawOhlcvVersion" where
  "sample_normal_row d c = \<lparr>ro_symbol = ''AAPL'', ro_timestamp = sample_close_utc d, ro_timespan = ''day'',
     ro_multiplier = 1, ro_source = ''polygon_open_close'', ro_adjustment_basis = ''raw'',
     ro_version_recorded_at = sample_close_utc d + 60000000, ro_available_at = sample_close_utc d + 120000000,
     ro_open = c, ro_high = f250, ro_low = f50, ro_close = c, ro_volume = f250, ro_vwap = Some c,
     ro_trade_count = Some 7\<rparr>"

definition sample_normalized :: "RawOhlcvVersion list" where
  "sample_normalized =
     [sample_normal_row 738886 f200, sample_normal_row 738887 f199, sample_normal_row 738888 f100]"

definition sample_adjusted_row ::
  "int \<Rightarrow> date \<Rightarrow> f64 \<Rightarrow> f64 \<Rightarrow> f64 \<Rightarrow> f64 \<Rightarrow> string \<Rightarrow> string \<Rightarrow> AdjustedOhlcvRow" where
  "sample_adjusted_row i d c h l v pf vf = \<lparr>ao_raw_input_ordinal = i, ao_symbol = ''AAPL'',
     ao_timestamp = sample_close_utc d, ao_timespan = ''day'', ao_multiplier = 1,
     ao_source = ''polygon_open_close'', ao_adjustment_basis = ''split_dividend_adjusted'',
     ao_raw_version_recorded_at = sample_close_utc d + 60000000,
     ao_raw_available_at = sample_close_utc d + 120000000, ao_available_at = sample_cutoff + 2,
     ao_open = c, ao_high = h, ao_low = l, ao_close = c, ao_volume = v, ao_vwap = Some c,
     ao_trade_count = Some 7, ao_price_factor_f64_be = pf, ao_volume_factor_f64_be = vf\<rparr>"

definition sample_full :: "AdjustedOhlcvRow list" where
  "sample_full =
     [sample_adjusted_row 0 738886 4636719699168591872 4638474519726522368 4627712499913850880
        4647503709213818880 ''3fdfeb851eb851ec'' ''4000000000000000'',
      sample_adjusted_row 1 738887 4636719699168591872 4638496509959077888 4627730092099895296
        4647503709213818880 ''3fe0000000000000'' ''4000000000000000'',
      sample_adjusted_row 2 738888 f100 f250 f50 f250 ''3ff0000000000000'' ''3ff0000000000000'']"

lemma sample_validate_stage: "ap_validate_rows sample_set sample_ohlcvs = Inr sample_normalized"
  by code_simp

lemma sample_availability_stage:
  "input_availability (sample_receipt []) (sample_receipt []) sample_normalized = sample_close_utc 738888 + 180000000"
  by code_simp

lemma sample_adjust_stage: "ap_adjust_rows sample_set sample_normalized (sample_cutoff + 2) = Inr sample_full"
  by code_simp

lemma sample_order_stage: "\<not> any_adjacent (\<lambda>l r. ao_timestamp l \<ge> ao_timestamp r) sample_full"
  by code_simp

lemma sample_slice_stage: "ap_slice_bounds (PyInt 1) (PyInt 3) (int (length sample_full)) = Inr (1, 3)"
  by (simp add: sample_full_def ap_slice_bounds_def)

lemmas sample_window_stages =
  sample_validate_stage sample_availability_stage sample_adjust_stage sample_order_stage sample_slice_stage

lemma sample_receipt_bounds:
  "utc_of AdjustedPriceError (PyDatetime (sample_close_utc 738888) (Some 0)) l = Inr (sample_close_utc 738888)"
  "utc_of AdjustedPriceError (PyDatetime (sample_close_utc 738888 + 180000000) (Some 0)) l =
     Inr (sample_close_utc 738888 + 180000000)"
  "utc_of AdjustedPriceError (PyDatetime (sample_cutoff + 1) (Some 0)) l = Inr (sample_cutoff + 1)"
  "utc_of AdjustedPriceError (PyDatetime (sample_cutoff + 2) (Some 0)) l = Inr (sample_cutoff + 2)"
  "sample_close_utc 738888 + 180000000 \<le> sample_cutoff" "sample_close_utc 738888 \<le> sample_close_utc 738888 + 180000000"
  by code_simp+

lemma sample_receipts:
  "ap_collection_receipt (sample_collection_receipt i) i sample_cutoff l = Inr (sample_receipt i)"
  "ap_factor_set_receipt (sample_factor_receipt i) i (sample_close_utc 738888 + 180000000) =
     Inr (sample_factor_set_receipt i)"
proof -
  show "ap_collection_receipt (sample_collection_receipt i) i sample_cutoff l = Inr (sample_receipt i)"
    by (simp add: ap_collection_receipt_def sample_collection_receipt_def ap_utc_def sample_receipt_def
        sample_receipt_bounds)
  have "sample_close_utc 738888 + 180000000 \<le> sample_cutoff + 1" using sample_receipt_bounds(5) by linarith
  then show "ap_factor_set_receipt (sample_factor_receipt i) i (sample_close_utc 738888 + 180000000) =
     Inr (sample_factor_set_receipt i)"
    by (simp add: ap_factor_set_receipt_def sample_factor_receipt_def ap_utc_def sample_factor_set_receipt_def
        sample_receipt_bounds)
qed

lemma ap_validate_rows_cong:
  "fs_symbol a = fs_symbol b \<Longrightarrow> fs_cutoff a = fs_cutoff b \<Longrightarrow> fs_raw_inputs a = fs_raw_inputs b \<Longrightarrow>
     ap_validate_rows a rows = ap_validate_rows b rows"
  by (simp add: ap_validate_rows_def ap_validate_raw_row_def)

definition sample_adjust :: "AdjustmentFactorSet \<Rightarrow> pyobj \<Rightarrow> pyobj \<Rightarrow> AdjustedPriceWindow res" where
  "sample_adjust fs start stop = adjust_ohlcv_window sample_env (Inst fs) (Seq (map Inst sample_ohlcvs))
     (sample_collection_receipt (sample_id (CHR ''a''))) (sample_collection_receipt (sample_id (CHR ''b'')))
     (sample_factor_receipt (fs_factor_set_id fs)) start stop"

lemma sample_window:
  "\<exists>fs w. sample_build = Inr fs \<and> sample_adjust fs (PyInt 1) (PyInt 3) = Inr w \<and>
     wi_start_ordinal w = 1 \<and> wi_rows w = tl sample_full"
proof -
  obtain fs where fs: "sample_build = Inr fs" "fs_raw_inputs fs = sample_raws" "fs_factors fs = sample_factors"
      "fs_split_collection_id fs = sample_id (CHR ''a'')" "fs_dividend_collection_id fs = sample_id (CHR ''b'')"
      "fs_symbol fs = ''AAPL''" "fs_cutoff fs = sample_cutoff" using sample_build_ok by blast
  have v: "ap_validated_artifact sample_env (Inst fs) = Inr fs"
    by (metis built_artifact_validates_sample fs(1))
  have seq: "ap_raw_sequence (Seq (map Inst sample_ohlcvs)) = Inr sample_ohlcvs"
    by (simp add: ap_raw_sequence_def sample_ohlcvs_def)
  have card: "ap_validate_cardinality fs sample_ohlcvs = Inr ()"
    by (simp add: ap_validate_cardinality_def fs sample_ohlcvs_def sample_raws_def sample_factors_def)
  have vr: "ap_validate_rows fs rows = ap_validate_rows sample_set rows" for rows
    by (rule ap_validate_rows_cong) (simp_all add: fs sample_set_def)
  have ar: "ap_adjust_rows fs rows t = ap_adjust_rows sample_set rows t" for rows t
    by (simp add: ap_adjust_rows_def fs sample_set_def)
  have ia: "input_availability (sample_receipt (sample_id (CHR ''a''))) (sample_receipt (sample_id (CHR ''b'')))
      sample_normalized = sample_close_utc 738888 + 180000000"
    unfolding sample_availability_stage [symmetric] by (simp add: input_availability_def sample_receipt_def)
  have "sample_adjust fs (PyInt 1) (PyInt 3) = Inr (ap_window fs (sample_receipt (sample_id (CHR ''a'')))
      (sample_receipt (sample_id (CHR ''b''))) (sample_factor_set_receipt (fs_factor_set_id fs))
      (sample_close_utc 738888 + 180000000) sample_full 1 3)"
    unfolding sample_adjust_def
  proof (rule adjust_intro [OF v seq card _ _ _ ia sample_receipts(2) _ sample_order_stage sample_slice_stage])
    show "ap_adjust_rows fs sample_normalized
        (fr_available_at (sample_factor_set_receipt (fs_factor_set_id fs))) = Inr sample_full"
      by (simp add: ar sample_adjust_stage sample_factor_set_receipt_def)
  qed (simp_all only: fs(4,5,7) vr sample_receipts(1) sample_validate_stage)
  with fs(1) show ?thesis
    by (intro exI conjI) (assumption | simp add: ap_window_def sample_full_def)+
qed

theorem window_is_slice_of_full_witness:
  "\<exists>fs w full. sample_build = Inr fs \<and> sample_adjust fs (PyInt 1) (PyInt 3) = Inr w \<and>
     sample_adjust fs (PyInt 0) PyNone = Inr full \<and>
     wi_lineage w = wi_lineage full"
proof -
  obtain fs w where f: "sample_build = Inr fs"
      and w: "sample_adjust fs (PyInt 1) (PyInt 3) = Inr w"
    using sample_window by blast
  from window_is_slice_of_full [OF w [unfolded sample_adjust_def], folded sample_adjust_def]
  obtain full where "sample_adjust fs (PyInt 0) PyNone = Inr full" "wi_lineage w = wi_lineage full"
    by (elim exE conjE) (rule that)
  with f w show ?thesis by (intro exI conjI)
qed

end
