(* ===== verification/AdjustedWindowLaws.thy ===== *)
theory AdjustedWindowLaws
  imports AdjustedPriceLaws
begin

text \<open>
  The rows and the lineage of an adjusted window: the adjusted prices keep their
  order, the anchor session is unchanged, adjusted prices are correctly rounded
  products, and no reported availability precedes its inputs.
\<close>

section \<open>Order of the prices\<close>

lemma bind_not_err:
  "m \<noteq> Inl e \<Longrightarrow> (\<And>x. m = Inr x \<Longrightarrow> f x \<noteq> Inl e) \<Longrightarrow> bind_res m f \<noteq> Inl e"
  by (cases m) auto

lemma not_ohlc_errors:
  "ap_multiply x f l \<noteq> Inl (AdjustedPriceError (''adjusted OHLC'' @ m)) \<or> l @ '' cannot be represented as finite binary64'' = ''adjusted OHLC'' @ m"
  "ap_decode_positive_factor b l \<noteq> Inl (AdjustedPriceError (''adjusted OHLC'' @ m))"
  by (auto simp: ap_multiply_def ap_decode_positive_factor_def Let_def split: if_splits)

text \<open>Adjustment never breaks the shape of a candle: for a row that passed the raw
  validation, the consistency check of the adjusted open, high, low and close cannot fail,
  because a correctly rounded product with one positive factor is monotone.  (A product
  that overflows or underflows to zero is reported as such before the check.)\<close>

theorem adjustment_keeps_ohlc_order:
  assumes "ap_validate_raw_row i row expected artifact = Inr raw"
  shows "ap_adjust_row j raw factor t \<noteq> Inl (AdjustedPriceError ''adjusted OHLC values are inconsistent'')"
proof -
  let ?e = "AdjustedPriceError ''adjusted OHLC values are inconsistent''"
  note r = validate_raw_row_facts [OF assms]
  have d: "ap_decode_positive_factor b l \<noteq> Inl ?e" for b l
    using not_ohlc_errors(2) [of b l "'' values are inconsistent''"] by simp
  have m: "ap_multiply x f (''adjusted '' @ l) \<noteq> Inl ?e" if "hd l \<noteq> CHR ''O''" "l \<noteq> []" for x f l
    using not_ohlc_errors(1) [of x f "''adjusted '' @ l" "'' values are inconsistent''"] that by (cases l) auto
  have c: "ap_validate_ohlc a b c' e ''adjusted'' \<noteq> Inl ?e" if "ap_validate_ohlc a b c' e ''adjusted'' = Inr ()" for a b c' e
    using that by simp
  show ?thesis
    unfolding ap_adjust_row_def
  proof (intro bind_not_err d)
    fix f vf o' h l c v
    assume f: "ap_decode_positive_factor (af_price_factor_f64_be factor) ''price factor'' = Inr f"
      and x: "ap_multiply (ro_open raw) f ''adjusted open'' = Inr o'"
        "ap_multiply (ro_high raw) f ''adjusted high'' = Inr h"
        "ap_multiply (ro_low raw) f ''adjusted low'' = Inr l" "ap_multiply (ro_close raw) f ''adjusted close'' = Inr c"
    show "ap_validate_ohlc o' h l c ''adjusted'' \<noteq> Inl ?e"
      using ohlc_preserved [of "ro_open raw" "ro_high raw" "ro_low raw" "ro_close raw" "''raw''" f "''adjusted''"]
        r decode_factor_facts [OF f] x [THEN ap_multiply_facts(1)] x [THEN ap_multiply_facts(2)] by (intro c) simp
  qed (use m [of "''open''"] m [of "''high''"] m [of "''low''"] m [of "''close''"] m [of "''volume''"] m [of "''vwap''"]
      in \<open>auto simp: bind_res_Inl_iff split: option.splits\<close>)
qed

theorem adjustment_keeps_ohlc_order_witness:
  "ap_validate_raw_row 0 (sample_ohlcv 738886 f200) (sample_raw 738886 (Dec False 2000 (- 1))) sample_set =
     Inr (sample_normal_row 738886 f200) \<and>
   ap_adjust_row 0 (sample_normal_row 738886 f200) (hd sample_factors) 0 \<noteq>
     Inl (AdjustedPriceError ''adjusted OHLC values are inconsistent'')"
proof -
  have "ap_validate_raw_row 0 (sample_ohlcv 738886 f200) (sample_raw 738886 (Dec False 2000 (- 1))) sample_set =
     Inr (sample_normal_row 738886 f200)" by code_simp
  with adjustment_keeps_ohlc_order [OF this] show ?thesis by simp
qed

section \<open>Rounding of the adjusted values\<close>

lemma fval_nonneg: "nonneg_finite x \<Longrightarrow> fval x = mval (f_idx x)"
  using nonneg_finite_key [of x] by (auto simp: fval_def)

lemma fval_mul_nonneg:
  assumes "nonneg_finite a" and "f_isfinite c" and "\<not> f_isneg c"
  shows "fval (f_mul a c) = mval (rmag (fval a * fval c))"
proof -
  have fin: "f_isfinite a" using assms(1) by (simp add: nonneg_finite_def)
  have c: "fval c = mval (f_idx c)" using assms(3) by (simp add: fval_def)
  show ?thesis
  proof (cases "f_isneg a")
    case True
    then have "f_idx a = 0" using nonneg_finite_key [OF assms(1)] by simp
    then show ?thesis
      using f_mul_finite [OF fin assms(2)] fval_nonneg [OF assms(1)] by (simp add: fval_def rmag_def)
  next
    case False
    then show ?thesis
      using f_mul_finite [OF fin assms(2)] fval_nonneg [OF assms(1)] c assms(3) by (simp add: fval_def)
  qed
qed

text \<open>No float lies strictly between \<open>exact\<close> and \<open>x\<close>.\<close>

definition faithful :: "real \<Rightarrow> f64 \<Rightarrow> bool" where
  "faithful exact x \<longleftrightarrow> (\<forall>y. f_isfinite y \<longrightarrow> (fval y \<le> exact \<longrightarrow> fval y \<le> fval x) \<and> (exact \<le> fval y \<longrightarrow> fval x \<le> fval y))"

lemma f_mul_faithful:
  assumes "nonneg_finite a" and "f_isfinite c" and "\<not> f_isneg c" and "f_isfinite (f_mul a c)"
  shows "faithful (fval a * fval c) (f_mul a c)"
  unfolding faithful_def
proof (intro allI impI)
  fix y assume y: "f_isfinite y"
  let ?e = "fval a * fval c"
  have e: "0 \<le> ?e" using assms(3) fval_nonneg [OF assms(1)] by (simp add: fval_def)
  have r: "0 \<le> rmag ?e" by (rule rmag_nonneg)
  have "f_idx (f_mul a c) = rmag ?e \<or> mval (f_idx (f_mul a c)) = mval (rmag ?e)"
    using fval_mul_nonneg [OF assms(1-3)] f_mul_finite(1) [of a c] assms fval_nonneg [OF assms(1)]
    by (simp add: nonneg_finite_def fval_def)
  moreover have "f_idx (f_mul a c) = rmag ?e"
    using f_mul_finite(1) [of a c] assms fval_nonneg [OF assms(1)] by (simp add: nonneg_finite_def fval_def)
  ultimately have ri: "rmag ?e < inf_idx" using assms(4) by (simp add: f_isfinite_def)
  have iy: "0 \<le> f_idx y" "f_idx y < inf_idx" using y by (simp_all add: f_isfinite_def)
  have ry: "rmag (mval (f_idx y)) = f_idx y" using rmag_mval [OF iy] .
  note m = fval_mul_nonneg [OF assms(1-3)]
  have le: "mval i \<le> mval j \<longleftrightarrow> i \<le> j" if "0 \<le> i" "i < inf_idx" "0 \<le> j" "j < inf_idx" for i j
    using mval_le_iff [OF that] .
  show "(fval y \<le> ?e \<longrightarrow> fval y \<le> fval (f_mul a c)) \<and> (?e \<le> fval y \<longrightarrow> fval (f_mul a c) \<le> fval y)"
  proof (cases "f_isneg y")
    case True
    then have fy: "fval y = - mval (f_idx y)" by (simp add: fval_def)
    have "0 \<le> mval (rmag ?e)" using r by simp
    moreover have "?e = 0 \<and> mval (f_idx y) = 0" if "?e \<le> fval y"
      using that e fy mval_nonneg [OF iy(1)] by linarith
    moreover have "mval (rmag ?e) = 0" if "?e = 0" unfolding that by (simp add: rmag_def)
    ultimately show ?thesis using fy m mval_nonneg [OF iy(1)] by (metis neg_equal_0_iff_equal neg_le_0_iff_le order_trans order_refl)
  next
    case False
    then have fy: "fval y = mval (f_idx y)" by (simp add: fval_def)
    have "f_idx y \<le> rmag ?e" if "mval (f_idx y) \<le> ?e"
      using rmag_mono [OF that] ry by simp
    moreover have "rmag ?e \<le> f_idx y" if "?e \<le> mval (f_idx y)"
      using rmag_mono [OF that] ry by simp
    ultimately show ?thesis using fy m le iy r ri by simp
  qed
qed

section \<open>The rows of a window\<close>

definition opt_float :: "f64 option \<Rightarrow> pyobj" where
  "opt_float w = (case w of None \<Rightarrow> PyNone | Some x \<Rightarrow> PyFloat x)"

lemma validate_raw_row_args:
  assumes "ap_validate_raw_row i row expected artifact = Inr raw"
  shows "ra_open row = PyFloat (ro_open raw) \<and> ra_high row = PyFloat (ro_high raw) \<and>
    ra_low row = PyFloat (ro_low raw) \<and> ra_close row = PyFloat (ro_close raw) \<and>
    ra_volume row = PyFloat (ro_volume raw) \<and> ra_vwap row = opt_float (ro_vwap raw) \<and>
    ro_timestamp raw \<le> ro_version_recorded_at raw \<and> ro_version_recorded_at raw \<le> ro_available_at raw \<and>
    ro_available_at raw \<le> fs_cutoff artifact"
  using assms unfolding ap_validate_raw_row_def opt_float_def
  apply (elim bind_check_InrE bind_res_InrE)
  apply (drule Inr_inject)
  apply (drule sym [of _ raw])
  apply (simp only: finite_nonnegative_float_iff optional_price_iff de_Morgan_disj not_not)
  apply (auto split: option.splits simp: check_Inr_iff)
  done

lemma adjust_row_facts:
  assumes "ap_adjust_row j raw factor t = Inr r"
  shows "\<exists>pf vf. ap_decode_positive_factor (af_price_factor_f64_be factor) ''price factor'' = Inr pf \<and>
    ap_decode_positive_factor (af_volume_factor_f64_be factor) ''volume factor'' = Inr vf \<and>
    f_isfinite pf \<and> \<not> f_isneg pf \<and> f_isfinite vf \<and> \<not> f_isneg vf \<and>
    ao_open r = f_mul (ro_open raw) pf \<and> ao_high r = f_mul (ro_high raw) pf \<and>
    ao_low r = f_mul (ro_low raw) pf \<and> ao_close r = f_mul (ro_close raw) pf \<and>
    ao_volume r = f_mul (ro_volume raw) vf \<and> ao_vwap r = map_option (\<lambda>x. f_mul x pf) (ro_vwap raw) \<and>
    f_isfinite (ao_open r) \<and> f_isfinite (ao_high r) \<and> f_isfinite (ao_low r) \<and> f_isfinite (ao_close r) \<and>
    f_isfinite (ao_volume r) \<and> ao_raw_input_ordinal r = j \<and> ao_timestamp r = ro_timestamp raw \<and>
    ao_raw_version_recorded_at r = ro_version_recorded_at raw \<and> ao_raw_available_at r = ro_available_at raw \<and>
    ao_available_at r = t"
proof -
  have "\<exists>pf vf. ap_decode_positive_factor (af_price_factor_f64_be factor) ''price factor'' = Inr pf \<and>
      ap_decode_positive_factor (af_volume_factor_f64_be factor) ''volume factor'' = Inr vf \<and>
      ap_multiply (ro_open raw) pf ''adjusted open'' = Inr (ao_open r) \<and>
      ap_multiply (ro_high raw) pf ''adjusted high'' = Inr (ao_high r) \<and>
      ap_multiply (ro_low raw) pf ''adjusted low'' = Inr (ao_low r) \<and>
      ap_multiply (ro_close raw) pf ''adjusted close'' = Inr (ao_close r) \<and>
      ap_multiply (ro_volume raw) vf ''adjusted volume'' = Inr (ao_volume r) \<and>
      (case ro_vwap raw of None \<Rightarrow> Inr None
       | Some x \<Rightarrow> bind_res (ap_multiply x pf ''adjusted vwap'') (\<lambda>y. Inr (Some y))) = Inr (ao_vwap r) \<and>
      ao_raw_input_ordinal r = j \<and> ao_timestamp r = ro_timestamp raw \<and>
      ao_raw_version_recorded_at r = ro_version_recorded_at raw \<and>
      ao_raw_available_at r = ro_available_at raw \<and> ao_available_at r = t"
    using assms unfolding ap_adjust_row_def
    apply (elim bind_res_InrE)
    apply (drule Inr_inject)
    apply (drule sym [of _ r])
    apply simp
    done
  then obtain pf vf where d:
      "ap_decode_positive_factor (af_price_factor_f64_be factor) ''price factor'' = Inr pf"
      "ap_decode_positive_factor (af_volume_factor_f64_be factor) ''volume factor'' = Inr vf"
    and m: "ap_multiply (ro_open raw) pf ''adjusted open'' = Inr (ao_open r)"
      "ap_multiply (ro_high raw) pf ''adjusted high'' = Inr (ao_high r)"
      "ap_multiply (ro_low raw) pf ''adjusted low'' = Inr (ao_low r)"
      "ap_multiply (ro_close raw) pf ''adjusted close'' = Inr (ao_close r)"
      "ap_multiply (ro_volume raw) vf ''adjusted volume'' = Inr (ao_volume r)"
    and w: "(case ro_vwap raw of None \<Rightarrow> Inr None
       | Some x \<Rightarrow> bind_res (ap_multiply x pf ''adjusted vwap'') (\<lambda>y. Inr (Some y))) = Inr (ao_vwap r)"
    and r: "ao_raw_input_ordinal r = j" "ao_timestamp r = ro_timestamp raw"
      "ao_raw_version_recorded_at r = ro_version_recorded_at raw"
      "ao_raw_available_at r = ro_available_at raw" "ao_available_at r = t"
    by blast
  have "ao_vwap r = map_option (\<lambda>x. f_mul x pf) (ro_vwap raw)"
    using w by (auto simp: res_iffs dest: ap_multiply_facts split: option.splits)
  then show ?thesis
    using d decode_factor_facts [OF d(1)] decode_factor_facts [OF d(2)] r
      m [THEN ap_multiply_facts(1)] m [THEN ap_multiply_facts(2)] by blast
qed

lemma validated_artifact_same: "ap_validated_artifact env (Inst fs) = Inr a \<Longrightarrow> a = fs"
  by (auto simp: ap_validated_artifact_def res_iffs split: if_splits option.splits json.splits)

lemma validate_rows_nth:
  assumes "ap_validate_rows a rows = Inr n" and "length rows = length (fs_raw_inputs a)"
  shows "length n = length rows"
    and "i < length rows \<Longrightarrow> ap_validate_raw_row (int i) (rows ! i) (fs_raw_inputs a ! i) a = Inr (n ! i)"
  using assms map_res_length [OF assms(1) [unfolded ap_validate_rows_def]]
    map_res_nth [OF assms(1) [unfolded ap_validate_rows_def], of i] by auto

lemma adjust_rows_nth:
  assumes "ap_adjust_rows a n t = Inr full" and "length n = length (fs_factors a)"
  shows "length full = length n"
    and "i < length n \<Longrightarrow> ap_adjust_row (int i) (n ! i) (fs_factors a ! i) t = Inr (full ! i)"
  using assms map_res_length [OF assms(1) [unfolded ap_adjust_rows_def]]
    map_res_nth [OF assms(1) [unfolded ap_adjust_rows_def], of i] by auto

text \<open>Row \<open>k\<close> of a window is the adjustment of the validated raw row at its ordinal.\<close>

lemma window_row:
  assumes "adjust_ohlcv_window env (Inst fs) (Seq (map Inst rows)) sr dr fr start stop = Inr w"
    and "k < length (wi_rows w)"
  obtains raw o' where "o' = nat (wi_start_ordinal w) + k" and "o' < length rows"
    and "length rows = length (fs_raw_inputs fs)" and "length rows = length (fs_factors fs)"
    and "ap_validate_raw_row (int o') (rows ! o') (fs_raw_inputs fs ! o') fs = Inr raw"
    and "ap_adjust_row (int o') raw (fs_factors fs ! o') (li_data_available_at (wi_lineage w)) = Inr (wi_rows w ! k)"
    and "ro_available_at raw \<le> li_max_input_available_at (wi_lineage w)"
proof -
  from assms(1) obtain a xs s d n f full i j where
    st: "ap_validated_artifact env (Inst fs) = Inr a" "ap_raw_sequence (Seq (map Inst rows)) = Inr xs"
       "ap_validate_cardinality a xs = Inr ()" "ap_validate_rows a xs = Inr n"
       "ap_adjust_rows a n (fr_available_at f) = Inr full"
    and b: "ap_slice_bounds start stop (int (length full)) = Inr (i, j)"
    and w: "w = ap_window a s d f (input_availability s d n) full i j"
    unfolding adjust_iff by blast
  have a: "a = fs" using st(1) by (rule validated_artifact_same)
  have xs: "xs = rows" using st(2) by (auto simp: ap_raw_sequence_def split: if_splits)
  have l: "length rows = length (fs_raw_inputs fs)" "length rows = length (fs_factors fs)"
    using st(3) by (auto simp: ap_validate_cardinality_def check_Inr_iff a xs split: if_splits)
  note v = validate_rows_nth [OF st(4) [unfolded a xs] l(1)]
  have ln: "length n = length (fs_factors fs)" using v(1) l by simp
  note r = adjust_rows_nth [OF st(5) [unfolded a] ln]
  let ?o = "nat i + k"
  have ij: "0 \<le> i" "i \<le> j" "j \<le> int (length full)" using slice_bounds_range [OF b] by auto
  have k: "?o < length rows" and row: "wi_rows w ! k = full ! ?o" and t: "li_data_available_at (wi_lineage w) = fr_available_at f"
    and start: "wi_start_ordinal w = i" and m: "li_max_input_available_at (wi_lineage w) = input_availability s d n"
    using assms(2) ij r(1) v(1) w by (auto simp: ap_window_def)
  have "ro_available_at (n ! ?o) \<le> input_availability s d n"
    using k v(1) foldl_max_ge [of "cr_available_at d" "map ro_available_at n @ [cr_available_at s]"]
    by (simp add: input_availability_def)
  then show ?thesis
    using that [of ?o "n ! ?o"] k l v(2) [OF k] r(2) [of ?o] v(1) row t start m by simp
qed



section \<open>The anchor session\<close>

lemma decode_one: "ap_decode_positive_factor ''3ff0000000000000'' l = Inr f_one"
  unfolding ap_decode_positive_factor_def by code_simp

text \<open>The newest session is not adjusted: when a window over a built artifact reaches the
  anchor, its last row carries the raw open, high, low, close, volume and VWAP bit for bit.\<close>

theorem anchor_session_unchanged:
  assumes "build_adjustment_factor_set env symbol cutoff raws si splits di dividends = Inr fs"
    and "adjust_ohlcv_window env (Inst fs) (Seq (map Inst rows)) sr dr fr start stop = Inr w"
    and "k < length (wi_rows w)" and "nat (wi_start_ordinal w) + k = length rows - 1"
  shows "ra_open (last rows) = PyFloat (ao_open (wi_rows w ! k)) \<and>
    ra_high (last rows) = PyFloat (ao_high (wi_rows w ! k)) \<and>
    ra_low (last rows) = PyFloat (ao_low (wi_rows w ! k)) \<and>
    ra_close (last rows) = PyFloat (ao_close (wi_rows w ! k)) \<and>
    ra_volume (last rows) = PyFloat (ao_volume (wi_rows w ! k)) \<and>
    ra_vwap (last rows) = opt_float (ao_vwap (wi_rows w ! k))"
proof -
  let ?o = "length rows - 1"
  from window_row [OF assms(2,3)] assms(4) obtain raw where o: "?o < length rows"
      and l: "length rows = length (fs_factors fs)"
      and v: "ap_validate_raw_row (int ?o) (rows ! ?o) (fs_raw_inputs fs ! ?o) fs = Inr raw"
      and r: "ap_adjust_row (int ?o) raw (fs_factors fs ! ?o) (li_data_available_at (wi_lineage w)) = Inr (wi_rows w ! k)"
    by metis
  have last: "rows ! ?o = last rows" "fs_factors fs ! ?o = last (fs_factors fs)"
    using o l by (metis last_conv_nth length_0_conv less_nat_zero_code)+
  have one: "ap_decode_positive_factor (af_price_factor_f64_be (fs_factors fs ! ?o)) m = Inr f_one"
      "ap_decode_positive_factor (af_volume_factor_f64_be (fs_factors fs ! ?o)) m = Inr f_one" for m
    using anchor_factor_row [OF assms(1)] decode_one unfolding last(2) by simp_all
  have mul: "f_mul x f_one = x" if "nonneg_finite x" for x
    using f_mul_one that by (simp add: nonneg_finite_def)
  note n = validate_raw_row_facts [OF v]
  have "map_option (\<lambda>x. f_mul x f_one) (ro_vwap raw) = ro_vwap raw"
    using n mul by (cases "ro_vwap raw") auto
  then show ?thesis
    using adjust_row_facts [OF r] validate_raw_row_args [OF v] n mul unfolding one last(1) by auto
qed

theorem anchor_session_unchanged_witness:
  "\<exists>fs w. sample_build = Inr fs \<and> sample_adjust fs (PyInt 1) (PyInt 3) = Inr w \<and>
     PyFloat f100 = PyFloat (ao_open (wi_rows w ! 1)) \<and> PyFloat f250 = PyFloat (ao_high (wi_rows w ! 1))"
proof -
  obtain fs w where f: "sample_build = Inr fs" and w: "sample_adjust fs (PyInt 1) (PyInt 3) = Inr w"
      and b: "wi_start_ordinal w = 1" "wi_rows w = tl sample_full"
    using sample_window by blast
  have "1 < length (wi_rows w)" "nat (wi_start_ordinal w) + 1 = length sample_ohlcvs - 1"
    using b by (simp_all add: sample_full_def sample_ohlcvs_def)
  from anchor_session_unchanged [OF f [unfolded sample_build_def] w [unfolded sample_adjust_def] this]
  have "PyFloat f100 = PyFloat (ao_open (wi_rows w ! 1)) \<and> PyFloat f250 = PyFloat (ao_high (wi_rows w ! 1))"
    by (simp add: sample_ohlcvs_def sample_ohlcv_def)
  with f w show ?thesis by blast
qed

section \<open>The lineage\<close>

text \<open>The lineage of a window is ordered in time and admits no lookahead: each collection was
  recorded, then available, by the cutoff; the latest input is no earlier than any input and
  no later than the cutoff; the factor set was recorded after it and available after that,
  and this is the availability of every adjusted row, whose raw row was observed, recorded
  and available before.\<close>

theorem lineage_is_ordered:
  assumes "adjust_ohlcv_window env (Inst fs) (Seq (map Inst rows)) sr dr fr start stop = Inr w"
  shows "li_split_collection_recorded_at (wi_lineage w) \<le> li_split_collection_available_at (wi_lineage w) \<and>
    li_dividend_collection_recorded_at (wi_lineage w) \<le> li_dividend_collection_available_at (wi_lineage w) \<and>
    li_split_collection_available_at (wi_lineage w) \<le> li_max_input_available_at (wi_lineage w) \<and>
    li_dividend_collection_available_at (wi_lineage w) \<le> li_max_input_available_at (wi_lineage w) \<and>
    li_max_input_available_at (wi_lineage w) \<le> li_cutoff (wi_lineage w) \<and>
    li_max_input_available_at (wi_lineage w) \<le> li_factor_set_recorded_at (wi_lineage w) \<and>
    li_factor_set_recorded_at (wi_lineage w) \<le> li_factor_set_available_at (wi_lineage w) \<and>
    li_data_available_at (wi_lineage w) = li_factor_set_available_at (wi_lineage w) \<and>
    (\<forall>r \<in> set (wi_rows w). ao_timestamp r \<le> ao_raw_version_recorded_at r \<and>
       ao_raw_version_recorded_at r \<le> ao_raw_available_at r \<and>
       ao_raw_available_at r \<le> li_max_input_available_at (wi_lineage w) \<and>
       ao_available_at r = li_data_available_at (wi_lineage w))"
proof -
  from assms obtain a xs s d n f full i j where
    st: "ap_validated_artifact env (Inst fs) = Inr a" "ap_raw_sequence (Seq (map Inst rows)) = Inr xs"
      "ap_validate_cardinality a xs = Inr ()" "ap_validate_rows a xs = Inr n"
    and s: "ap_collection_receipt sr (fs_split_collection_id a) (fs_cutoff a) ''split collection'' = Inr s"
    and d: "ap_collection_receipt dr (fs_dividend_collection_id a) (fs_cutoff a) ''dividend collection'' = Inr d"
    and f: "ap_factor_set_receipt fr (fs_factor_set_id a) (input_availability s d n) = Inr f"
    and w: "w = ap_window a s d f (input_availability s d n) full i j"
    unfolding adjust_iff by blast
  have c: "cr_collection_recorded_at y \<le> cr_available_at y \<and> cr_available_at y \<le> cu"
    if "ap_collection_receipt x e cu l = Inr y" for x e cu l y
    using that by (auto simp: ap_collection_receipt_def elim!: bind_res_InrE split: pyarg.splits if_splits)
  have g: "m \<le> fr_factor_set_recorded_at y \<and> fr_factor_set_recorded_at y \<le> fr_available_at y"
    if "ap_factor_set_receipt x e m = Inr y" for x e m y
    using that by (auto simp: ap_factor_set_receipt_def elim!: bind_res_InrE split: pyarg.splits if_splits)
  have le: "foldl max m xs \<le> (b :: int) \<longleftrightarrow> m \<le> b \<and> (\<forall>x \<in> set xs. x \<le> b)" for m xs b
    by (induction xs arbitrary: m) auto
  have lr: "length xs = length (fs_raw_inputs a)"
    using st(3) by (auto simp: ap_validate_cardinality_def check_Inr_iff split: if_splits)
  have "\<forall>r \<in> set n. ro_available_at r \<le> fs_cutoff a"
  proof
    fix r assume "r \<in> set n"
    then obtain q where "q < length xs" "n ! q = r"
      using validate_rows_nth(1) [OF st(4) lr] by (metis in_set_conv_nth)
    with validate_rows_nth(2) [OF st(4) lr] validate_raw_row_args show "ro_available_at r \<le> fs_cutoff a" by blast
  qed
  then have m: "input_availability s d n \<le> fs_cutoff a"
    using c [OF s] c [OF d] by (simp add: input_availability_def le)
  have i: "cr_available_at d \<le> input_availability s d n" "cr_available_at s \<le> input_availability s d n"
    using foldl_max_ge [of "cr_available_at d" "map ro_available_at n @ [cr_available_at s]"]
    by (simp_all add: input_availability_def)
  have rows: "ao_timestamp r \<le> ao_raw_version_recorded_at r \<and> ao_raw_version_recorded_at r \<le> ao_raw_available_at r \<and>
      ao_raw_available_at r \<le> li_max_input_available_at (wi_lineage w) \<and> ao_available_at r = li_data_available_at (wi_lineage w)"
    if "r \<in> set (wi_rows w)" for r
  proof -
    from that obtain k where k: "k < length (wi_rows w)" "wi_rows w ! k = r" by (metis in_set_conv_nth)
    from window_row [OF assms k(1)] obtain raw o' where
        v: "ap_validate_raw_row (int o') (rows ! o') (fs_raw_inputs fs ! o') fs = Inr raw"
        and r: "ap_adjust_row (int o') raw (fs_factors fs ! o') (li_data_available_at (wi_lineage w)) = Inr r"
        and m: "ro_available_at raw \<le> li_max_input_available_at (wi_lineage w)"
      using k(2) by metis
    show ?thesis using adjust_row_facts [OF r] validate_raw_row_args [OF v] m by metis
  qed
  show ?thesis
    using c [OF s] c [OF d] g [OF f] m i rows w by (auto simp: ap_window_def)
qed

theorem lineage_is_ordered_witness:
  "\<exists>fs w. sample_build = Inr fs \<and> sample_adjust fs (PyInt 1) (PyInt 3) = Inr w \<and>
     li_max_input_available_at (wi_lineage w) \<le> li_cutoff (wi_lineage w)"
proof -
  obtain fs w where f: "sample_build = Inr fs" and w: "sample_adjust fs (PyInt 1) (PyInt 3) = Inr w"
    using sample_window by blast
  from lineage_is_ordered [OF w [unfolded sample_adjust_def]] f w show ?thesis by blast
qed

end
