(* ===== verification/CorporateActions.thy ===== *)
theory CorporateActions
  imports PyObj
begin

text \<open>
  \<open>app/services/corporate_actions.py\<close>: canonical versions of splits and dividends
  and the complete one-page collections that hold them.  The pages and their
  results come validated from the provider layer (\<open>data_sources/base.py\<close>), so
  their fields are typed; a \<open>datetime\<close> carries its local reading and its offset.
\<close>

section \<open>Data\<close>

datatype pydatetime = DT int "int option"

record Split =
  sp_provider_event_id :: string
  sp_symbol :: string
  sp_execution_date :: date
  sp_split_from :: dec
  sp_split_to :: dec
  sp_adjustment_type :: string
  sp_historical_adjustment_factor :: dec
  sp_source :: string

record Dividend =
  di_provider_event_id :: string
  di_symbol :: string
  di_ex_dividend_date :: date
  di_cash_amount :: dec
  di_split_adjusted_cash_amount :: dec
  di_historical_adjustment_factor :: dec
  di_currency :: "string option"
  di_pay_date :: "date option"
  di_record_date :: "date option"
  di_declaration_date :: "date option"
  di_frequency :: "int option"
  di_distribution_type :: string
  di_source :: string

record CorporateActionPage =
  pg_provider_request_id :: string
  pg_provider_origin :: string
  pg_endpoint :: string
  pg_symbol :: string
  pg_start :: date
  pg_end :: date
  pg_source :: string
  pg_fetched_at :: pydatetime

record SplitPage = CorporateActionPage +
  pg_splits :: "Split list"

record DividendPage = CorporateActionPage +
  pg_dividends :: "Dividend list"

record CorporateActionVersionRecord =
  vr_action_version_id :: string
  vr_canonical_event :: bytes
  vr_source :: string
  vr_action_type :: string
  vr_provider_event_id :: string
  vr_symbol :: string
  vr_effective_date :: date
  vr_status :: string
  vr_split_from :: "dec option"
  vr_split_to :: "dec option"
  vr_adjustment_type :: "string option"
  vr_cash_amount :: "dec option"
  vr_split_adjusted_cash_amount :: "dec option"
  vr_currency :: "string option"
  vr_declaration_date :: "date option"
  vr_record_date :: "date option"
  vr_pay_date :: "date option"
  vr_frequency :: "int option"
  vr_distribution_type :: "string option"
  vr_historical_adjustment_factor :: "dec option"
  vr_schema_version :: int

record CorporateActionCollectionRecord =
  co_collection_id :: string
  co_canonical_manifest :: bytes
  co_action_type :: string
  co_endpoint :: string
  co_symbol :: string
  co_coverage_start :: date
  co_coverage_end :: date
  co_provider_request_id :: string
  co_fetched_at :: instant
  co_members :: "CorporateActionVersionRecord list"
  co_source :: string
  co_query_policy_hash :: string
  co_page_limit :: int
  co_page_count :: int
  co_pagination_exhausted :: bool
  co_schema_version :: int

definition corporate_action_schema_version :: int where
  "corporate_action_schema_version = 1"

definition corporate_action_page_limit :: int where
  "corporate_action_page_limit = 5000"

definition corporate_action_origin :: string where
  "corporate_action_origin = ''https://api.massive.com''"

definition corporate_action_source :: string where
  "corporate_action_source = ''polygon''"

definition splits_endpoint :: string where
  "splits_endpoint = ''/stocks/v1/splits''"

definition dividends_endpoint :: string where
  "dividends_endpoint = ''/stocks/v1/dividends''"

definition corporate_action_query_policy_document :: json where
  "corporate_action_query_policy_document = JObj [
     (''canonical_evidence'', JObj [
        (''encoding'', JStr ''utf8-json-sort-keys-compact-no-nan''),
        (''provider_identifier_pattern'', JStr (''^[A-Za-z0-9._:'' @ [CHR 0x5C] @ ''-]{1,128}$'')),
        (''storage_projection'', JStr ''database-derived-from-exact-canonical-bytes'')]),
     (''format'', JStr ''corporate-action-query-policy-v1''),
     (''origin'', JStr corporate_action_origin),
     (''source'', JStr corporate_action_source),
     (''page'', JObj [
        (''count'', JInt 1), (''limit'', JInt corporate_action_page_limit),
        (''next_url'', JStr ''must_be_absent''), (''retries'', JInt 0), (''status'', JStr ''OK'')]),
     (''queries'', JObj [
        (''dividend'', JObj [
           (''date_field'', JStr ''ex_dividend_date''), (''endpoint'', JStr dividends_endpoint),
           (''sort'', JStr ''ex_dividend_date.asc'')]),
        (''split'', JObj [
           (''date_field'', JStr ''execution_date''), (''endpoint'', JStr splits_endpoint),
           (''sort'', JStr ''execution_date.asc'')])]),
     (''scope'', JStr ''one_uppercase_symbol_and_inclusive_date_window''),
     (''version_selection'', JObj [
        (''eligibility'', JStr ''post_commit_receipt_available_at_lte_consumer_cutoff''),
        (''newest_order'', JArr [
           JStr ''collection_recorded_at_desc'', JStr ''collection_id_desc''])])]"

definition corporate_action_query_policy_hash :: string where
  "corporate_action_query_policy_hash = content_id (canonical_bytes corporate_action_query_policy_document)"

abbreviation ca_error :: "string \<Rightarrow> exn" where
  "ca_error m \<equiv> CorporateActionValidationError m"

section \<open>Scalars\<close>

definition ca_text :: "string option \<Rightarrow> string \<Rightarrow> nat \<Rightarrow> string res" where
  "ca_text v name maximum =
     (case v of
        None \<Rightarrow> Inl (ca_error (name @ '' must be text''))
      | Some s \<Rightarrow>
          let normalized = py_strip s in
          if normalized = [] \<or> maximum < length normalized
          then Inl (ca_error (name @ '' is empty or too long''))
          else Inr normalized)"

definition ca_source :: "string \<Rightarrow> string res" where
  "ca_source v =
     bind_res (ca_text (Some v) ''source'' 64) (\<lambda>t.
     let normalized = py_lower t in
     if normalized \<noteq> corporate_action_source
     then Inl (ca_error ''corporate-action source is not supported'')
     else Inr normalized)"

definition ca_symbol :: "string \<Rightarrow> string res" where
  "ca_symbol v =
     bind_res (ca_text (Some v) ''symbol'' 32) (\<lambda>t.
     let normalized = py_upper t in
     if normalized \<noteq> v \<or> \<not> symbol_pattern normalized
     then Inl (ca_error ''symbol must be uppercase and canonical'')
     else Inr normalized)"

definition ca_provider_id :: "string \<Rightarrow> string \<Rightarrow> string res" where
  "ca_provider_id v name =
     bind_res (ca_text (Some v) name 128) (\<lambda>normalized.
     if \<not> provider_id_pattern normalized
     then Inl (ca_error (name @ '' is not a canonical provider identifier''))
     else Inr normalized)"

text \<open>\<open>value.partition(".")\<close> without the separator.\<close>

definition partition_dot :: "string \<Rightarrow> string \<times> string" where
  "partition_dot s = (takeWhile (\<lambda>c. c \<noteq> CHR ''.'') s, drop 1 (dropWhile (\<lambda>c. c \<noteq> CHR ''.'') s))"

text \<open>\<open>Decimal(text)\<close> of an unsigned plain decimal.\<close>

definition dec_parse :: "string \<Rightarrow> dec" where
  "dec_parse s = (case partition_dot s of (i, f) \<Rightarrow> Dec False (digits_val (i @ f)) (- int (length f)))"

definition ca_decimal :: "dec \<Rightarrow> string res" where
  "ca_decimal v =
     (case v of
        Dec s c e \<Rightarrow>
          bind_res (check (\<not> dec_positive v) (ca_error ''corporate-action decimal is invalid'')) (\<lambda>_.
          let digits = ndigits c; adjusted = e + digits - 1 in
          bind_res (check (256 < digits \<or> \<not> (- 18 \<le> adjusted \<and> adjusted < 20))
            (ca_error ''corporate-action decimal is not exactly representable as NUMERIC(38,18)'')) (\<lambda>_.
          bind_res (dec_normalize (nat (max 38 digits)) v) (\<lambda>n.
          let normalized = trim_fraction (dec_format_f n) in
          (case partition_dot normalized of (integer, fraction) \<Rightarrow>
             if startswith normalized ''-'' \<or> 20 < length integer \<or> 18 < length fraction
                \<or> 38 < length (lstrip_char (CHR ''0'') integer) + length fraction
                \<or> \<not> dec_eq (dec_parse normalized) v
             then Inl (ca_error ''corporate-action decimal is not exactly representable as NUMERIC(38,18)'')
             else Inr normalized))))
      | _ \<Rightarrow> Inl (ca_error ''corporate-action decimal is invalid''))"

definition ca_date_text :: "date option \<Rightarrow> json" where
  "ca_date_text d = (case d of None \<Rightarrow> JNull | Some x \<Rightarrow> JStr (date_iso x))"

definition ca_int :: "int option \<Rightarrow> json" where
  "ca_int v = (case v of None \<Rightarrow> JNull | Some x \<Rightarrow> JInt x)"

text \<open>\<open>value.astimezone(UTC)\<close> of an aware value.\<close>

definition ca_astimezone :: "pydatetime \<Rightarrow> instant res" where
  "ca_astimezone v =
     (case v of
        DT t off \<Rightarrow>
          let u = t - (case off of None \<Rightarrow> 0 | Some o' \<Rightarrow> o') in
          if 0 \<le> u \<and> u < max_ordinal * day_micros then Inr u
          else Inl (OverflowErr ''date value out of range''))"

definition ca_timestamp :: "instant \<Rightarrow> string" where
  "ca_timestamp t = instant_text t"

section \<open>Records\<close>

text \<open>The post-init checks of the two frozen dataclasses.\<close>

definition CorporateActionVersionRecord_post :: "CorporateActionVersionRecord \<Rightarrow> CorporateActionVersionRecord res" where
  "CorporateActionVersionRecord_post r =
     bind_res (check (\<not> content_id_pattern (vr_action_version_id r))
       (ca_error ''action_version_id is malformed'')) (\<lambda>_.
     bind_res (check (content_id (vr_canonical_event r) \<noteq> vr_action_version_id r)
       (ca_error ''action_version_id does not match its bytes'')) (\<lambda>_.
     bind_res (check (vr_schema_version r \<noteq> corporate_action_schema_version)
       (ca_error ''action schema_version is not supported'')) (\<lambda>_.
     Inr r)))"

definition member_escaped :: "CorporateActionCollectionRecord \<Rightarrow> CorporateActionVersionRecord \<Rightarrow> bool" where
  "member_escaped r m \<longleftrightarrow>
     vr_source m \<noteq> co_source r \<or> vr_symbol m \<noteq> co_symbol r \<or> vr_action_type m \<noteq> co_action_type r
     \<or> \<not> (co_coverage_start r \<le> vr_effective_date m \<and> vr_effective_date m \<le> co_coverage_end r)"

definition logical_id :: "CorporateActionVersionRecord \<Rightarrow> string \<times> string \<times> string" where
  "logical_id m = (vr_source m, vr_action_type m, vr_provider_event_id m)"

definition CorporateActionCollectionRecord_post ::
  "CorporateActionCollectionRecord \<Rightarrow> CorporateActionCollectionRecord res" where
  "CorporateActionCollectionRecord_post r =
     bind_res (check (\<not> content_id_pattern (co_collection_id r))
       (ca_error ''collection_id is malformed'')) (\<lambda>_.
     bind_res (check (content_id (co_canonical_manifest r) \<noteq> co_collection_id r)
       (ca_error ''collection_id does not match its bytes'')) (\<lambda>_.
     bind_res (check (co_query_policy_hash r \<noteq> corporate_action_query_policy_hash)
       (ca_error ''collection query policy is not supported'')) (\<lambda>_.
     bind_res (check (co_schema_version r \<noteq> corporate_action_schema_version)
       (ca_error ''collection schema_version is not supported'')) (\<lambda>_.
     bind_res (check (co_coverage_start r > co_coverage_end r)
       (ca_error ''collection coverage is inverted'')) (\<lambda>_.
     bind_res (check (int (length (co_members r)) > corporate_action_page_limit)
       (ca_error ''collection exceeds the page limit'')) (\<lambda>_.
     bind_res (check (\<not> distinct (map logical_id (co_members r)))
       (ca_error ''collection repeats a logical provider event'')) (\<lambda>_.
     bind_res (check (list_ex (member_escaped r) (co_members r))
       (ca_error ''collection member escaped its source, symbol, type, or date scope'')) (\<lambda>_.
     Inr r))))))))"

definition event_count :: "CorporateActionCollectionRecord \<Rightarrow> int" where
  "event_count r = int (length (co_members r))"

definition ca_split_document :: "Split \<Rightarrow> string \<Rightarrow> string \<Rightarrow> string \<Rightarrow> json res" where
  "ca_split_document v provider_event_id source symbol =
     bind_res (ca_decimal (sp_historical_adjustment_factor v)) (\<lambda>haf.
     bind_res (ca_decimal (sp_split_from v)) (\<lambda>split_from.
     bind_res (ca_decimal (sp_split_to v)) (\<lambda>split_to.
     Inr (JObj [
       (''action_type'', JStr ''split''),
       (''adjustment_type'', JStr (sp_adjustment_type v)),
       (''effective_date'', JStr (date_iso (sp_execution_date v))),
       (''historical_adjustment_factor'', JStr haf),
       (''provider_event_id'', JStr provider_event_id),
       (''schema_version'', JInt corporate_action_schema_version),
       (''source'', JStr source),
       (''split_from'', JStr split_from),
       (''split_to'', JStr split_to),
       (''status'', JStr ''active''),
       (''symbol'', JStr symbol)]))))"

definition ca_split_record :: "Split \<Rightarrow> CorporateActionVersionRecord res" where
  "ca_split_record v =
     bind_res (ca_provider_id (sp_provider_event_id v) ''provider_event_id'') (\<lambda>provider_event_id.
     bind_res (ca_source (sp_source v)) (\<lambda>source.
     bind_res (ca_symbol (sp_symbol v)) (\<lambda>symbol.
     bind_res (ca_split_document v provider_event_id source symbol) (\<lambda>document.
     bind_res (canonical_json document) (\<lambda>payload.
     CorporateActionVersionRecord_post
       \<lparr>vr_action_version_id = content_id payload, vr_canonical_event = payload, vr_source = source,
        vr_action_type = ''split'', vr_provider_event_id = provider_event_id, vr_symbol = symbol,
        vr_effective_date = sp_execution_date v, vr_status = ''active'',
        vr_split_from = Some (sp_split_from v), vr_split_to = Some (sp_split_to v),
        vr_adjustment_type = Some (sp_adjustment_type v), vr_cash_amount = None,
        vr_split_adjusted_cash_amount = None, vr_currency = None, vr_declaration_date = None,
        vr_record_date = None, vr_pay_date = None, vr_frequency = None, vr_distribution_type = None,
        vr_historical_adjustment_factor = Some (sp_historical_adjustment_factor v),
        vr_schema_version = corporate_action_schema_version\<rparr>)))))"

definition ca_dividend_document :: "Dividend \<Rightarrow> string \<Rightarrow> string \<Rightarrow> string \<Rightarrow> string \<Rightarrow> json res" where
  "ca_dividend_document v currency provider_event_id source symbol =
     bind_res (ca_decimal (di_cash_amount v)) (\<lambda>cash.
     bind_res (ca_decimal (di_historical_adjustment_factor v)) (\<lambda>haf.
     bind_res (ca_decimal (di_split_adjusted_cash_amount v)) (\<lambda>adjusted.
     Inr (JObj [
       (''action_type'', JStr ''dividend''),
       (''cash_amount'', JStr cash),
       (''currency'', JStr currency),
       (''declaration_date'', ca_date_text (di_declaration_date v)),
       (''distribution_type'', JStr (di_distribution_type v)),
       (''effective_date'', JStr (date_iso (di_ex_dividend_date v))),
       (''frequency'', ca_int (di_frequency v)),
       (''historical_adjustment_factor'', JStr haf),
       (''pay_date'', ca_date_text (di_pay_date v)),
       (''provider_event_id'', JStr provider_event_id),
       (''record_date'', ca_date_text (di_record_date v)),
       (''schema_version'', JInt corporate_action_schema_version),
       (''source'', JStr source),
       (''split_adjusted_cash_amount'', JStr adjusted),
       (''status'', JStr ''active''),
       (''symbol'', JStr symbol)]))))"

definition ca_dividend_record :: "Dividend \<Rightarrow> CorporateActionVersionRecord res" where
  "ca_dividend_record v =
     bind_res (ca_text (di_currency v) ''currency'' 3) (\<lambda>text.
     let currency = py_upper text in
     bind_res (check (length currency \<noteq> 3)
       (ca_error ''currency must have exactly three characters'')) (\<lambda>_.
     bind_res (ca_provider_id (di_provider_event_id v) ''provider_event_id'') (\<lambda>provider_event_id.
     bind_res (ca_source (di_source v)) (\<lambda>source.
     bind_res (ca_symbol (di_symbol v)) (\<lambda>symbol.
     bind_res (ca_dividend_document v currency provider_event_id source symbol) (\<lambda>document.
     bind_res (canonical_json document) (\<lambda>payload.
     CorporateActionVersionRecord_post
       \<lparr>vr_action_version_id = content_id payload, vr_canonical_event = payload, vr_source = source,
        vr_action_type = ''dividend'', vr_provider_event_id = provider_event_id, vr_symbol = symbol,
        vr_effective_date = di_ex_dividend_date v, vr_status = ''active'',
        vr_split_from = None, vr_split_to = None, vr_adjustment_type = None,
        vr_cash_amount = Some (di_cash_amount v),
        vr_split_adjusted_cash_amount = Some (di_split_adjusted_cash_amount v),
        vr_currency = Some currency, vr_declaration_date = di_declaration_date v,
        vr_record_date = di_record_date v, vr_pay_date = di_pay_date v,
        vr_frequency = di_frequency v, vr_distribution_type = Some (di_distribution_type v),
        vr_historical_adjustment_factor = Some (di_historical_adjustment_factor v),
        vr_schema_version = corporate_action_schema_version\<rparr>)))))))"

section \<open>Collections\<close>

definition ca_manifest ::
  "string \<Rightarrow> string \<Rightarrow> string \<Rightarrow> date \<Rightarrow> date \<Rightarrow> string \<Rightarrow> instant \<Rightarrow> CorporateActionVersionRecord list \<Rightarrow> json" where
  "ca_manifest action_type endpoint symbol start end_date request_id normalized_time members =
     JObj [
       (''action_type'', JStr action_type),
       (''coverage'', JObj [(''end'', JStr (date_iso end_date)), (''start'', JStr (date_iso start))]),
       (''endpoint'', JStr endpoint),
       (''event_count'', JInt (int (length members))),
       (''event_version_ids'', JArr (map (\<lambda>m. JStr (vr_action_version_id m)) members)),
       (''format'', JStr ''corporate-action-complete-collection-v1''),
       (''page'', JObj [(''count'', JInt 1), (''limit'', JInt corporate_action_page_limit),
          (''pagination_exhausted'', JBool True)]),
       (''provider_origin'', JStr corporate_action_origin),
       (''provider_request_id'', JStr request_id),
       (''query_policy_hash'', JStr corporate_action_query_policy_hash),
       (''response_completed_at'', JStr (ca_timestamp normalized_time)),
       (''schema_version'', JInt corporate_action_schema_version),
       (''source'', JStr corporate_action_source),
       (''symbol'', JStr symbol)]"

definition ca_collection ::
  "string \<Rightarrow> string \<Rightarrow> string \<Rightarrow> date \<Rightarrow> date \<Rightarrow> string \<Rightarrow> pydatetime \<Rightarrow> CorporateActionVersionRecord list
     \<Rightarrow> CorporateActionCollectionRecord res" where
  "ca_collection action_type endpoint symbol start end_date request_id fetched_at members =
     bind_res (ca_astimezone fetched_at) (\<lambda>normalized_time.
     bind_res (canonical_json (ca_manifest action_type endpoint symbol start end_date request_id
         normalized_time members)) (\<lambda>payload.
     CorporateActionCollectionRecord_post
       \<lparr>co_collection_id = content_id payload, co_canonical_manifest = payload,
        co_action_type = action_type, co_endpoint = endpoint, co_symbol = symbol,
        co_coverage_start = start, co_coverage_end = end_date, co_provider_request_id = request_id,
        co_fetched_at = normalized_time, co_members = members, co_source = corporate_action_source,
        co_query_policy_hash = corporate_action_query_policy_hash,
        co_page_limit = corporate_action_page_limit, co_page_count = 1, co_pagination_exhausted = True,
        co_schema_version = corporate_action_schema_version\<rparr>))"

fun is_naive :: "pydatetime \<Rightarrow> bool" where
  "is_naive (DT t off) = (off = None)"

definition ca_validate_page :: "('a CorporateActionPage_scheme) \<Rightarrow> string \<Rightarrow> unit res" where
  "ca_validate_page page expected_endpoint =
     bind_res (check (pg_provider_origin page \<noteq> corporate_action_origin)
       (ca_error ''corporate-action origin is not supported'')) (\<lambda>_.
     bind_res (check (pg_endpoint page \<noteq> expected_endpoint)
       (ca_error ''corporate-action endpoint is not supported'')) (\<lambda>_.
     bind_res (ca_source (pg_source page)) (\<lambda>source.
     bind_res (check (source \<noteq> corporate_action_source)
       (ca_error ''corporate-action source is not supported'')) (\<lambda>_.
     bind_res (ca_symbol (pg_symbol page)) (\<lambda>symbol.
     bind_res (check (symbol \<noteq> pg_symbol page)
       (ca_error ''corporate-action symbol is not canonical'')) (\<lambda>_.
     bind_res (check (pg_start page > pg_end page)
       (ca_error ''corporate-action date window is inverted'')) (\<lambda>_.
     bind_res (ca_provider_id (pg_provider_request_id page) ''provider_request_id'') (\<lambda>_.
     check (is_naive (pg_fetched_at page))
       (ca_error ''corporate-action fetched_at must be timezone-aware'')))))))))"

text \<open>Sorting by a pair is a stable sort by the second key, then by the first.\<close>

definition sorted_splits :: "Split list \<Rightarrow> Split list" where
  "sorted_splits xs = sort_key sp_execution_date (sort_key sp_provider_event_id xs)"

definition sorted_dividends :: "Dividend list \<Rightarrow> Dividend list" where
  "sorted_dividends xs = sort_key di_ex_dividend_date (sort_key di_provider_event_id xs)"

definition build_split_collection :: "SplitPage \<Rightarrow> CorporateActionCollectionRecord res" where
  "build_split_collection page =
     bind_res (ca_validate_page page splits_endpoint) (\<lambda>_.
     bind_res (map_res ca_split_record (sorted_splits (pg_splits page))) (\<lambda>members.
     ca_collection ''split'' splits_endpoint (pg_symbol page) (pg_start page) (pg_end page)
       (pg_provider_request_id page) (pg_fetched_at page) members))"

definition build_dividend_collection :: "DividendPage \<Rightarrow> CorporateActionCollectionRecord res" where
  "build_dividend_collection page =
     bind_res (ca_validate_page page dividends_endpoint) (\<lambda>_.
     bind_res (map_res ca_dividend_record (sorted_dividends (pg_dividends page))) (\<lambda>members.
     ca_collection ''dividend'' dividends_endpoint (pg_symbol page) (pg_start page) (pg_end page)
       (pg_provider_request_id page) (pg_fetched_at page) members))"

end
