(* ===== verification/CorporateActionLaws.thy ===== *)
theory CorporateActionLaws
  imports CorporateActions
begin

text \<open>
  What the corporate-action collections promise: decimal texts are canonical for
  their values, an event's bytes determine the event, a collection is complete,
  ordered and in scope, and does not depend on the order of the provider's page.
\<close>

section \<open>Canonical decimals\<close>

lemma nat_digits_length: "0 \<le> n \<Longrightarrow> n < 10 ^ length (nat_digits n)"
proof (induction n rule: nat_digits.induct)
  case (1 n)
  show ?case
  proof (cases "n < 10")
    case True
    then show ?thesis using 1 by (simp add: nat_digits.simps)
  next
    case False
    then have "n div 10 < 10 ^ length (nat_digits (n div 10))" using 1 by simp
    then have "n < 10 * 10 ^ length (nat_digits (n div 10))" by linarith
    with False show ?thesis by (simp add: nat_digits.simps [of n])
  qed
qed

lemma strip_to_facts:
  assumes "strip_to ideal c e = (c', e')"
  shows "of_int c * 10 powi e = (of_int c' * 10 powi e' :: real)" and "0 < c \<Longrightarrow> 0 < c'"
    and "e' < ideal \<Longrightarrow> c' mod 10 \<noteq> 0"
  using assms
proof (induction ideal c e rule: strip_to.induct)
  case (1 ideal c e)
  let ?b = "e < ideal \<and> c mod 10 = 0"
  { case 1
    show ?case
    proof (cases ?b)
      case True
      then have "c = 10 * (c div 10)" by presburger
      then have "(of_int c :: real) = 10 * of_int (c div 10)" by (metis of_int_mult of_int_numeral)
      then have "of_int c * 10 powi e = (of_int (c div 10) * 10 powi (e + 1) :: real)"
        by (simp add: power_int_add)
      with True 1 "1.IH"(1) show ?thesis by (simp add: strip_to.simps [of ideal c e])
    qed (use 1 in \<open>auto simp: strip_to.simps [of ideal c e] split: if_splits\<close>) }
  { case 2
    show ?case
    proof (cases ?b)
      case True
      then have "0 < c div 10" using 2(1) by presburger
      with True 2 "1.IH"(2) show ?thesis by (simp add: strip_to.simps [of ideal c e])
    qed (use 2 in \<open>auto simp: strip_to.simps [of ideal c e] split: if_splits\<close>) }
  { case 3
    show ?case
    proof (cases ?b)
      case True
      with 3 "1.IH"(3) show ?thesis by (simp add: strip_to.simps [of ideal c e])
    next
      case False
      with 3 show ?thesis by (auto simp: strip_to.simps [of ideal c e] split: if_splits)
    qed }
qed

lemma normal_unique:
  assumes "of_int c * 10 powi e = (of_int c' * 10 powi e' :: real)"
    and "c mod 10 \<noteq> 0" and "c' mod 10 \<noteq> 0"
  shows "c = c' \<and> e = e'"
proof -
  have no: "\<not> e < e'" if "of_int c * 10 powi e = (of_int c' * 10 powi e' :: real)" "c mod 10 \<noteq> 0" for c c' e e'
  proof
    assume l: "e < e'"
    have "(10::real) powi e' = 10 powi e * 10 powi (e' - e)" by (simp flip: power_int_add)
    with that(1) have "(of_int c :: real) = of_int c' * 10 powi (e' - e)" by simp
    also have "\<dots> = of_int (c' * 10 ^ nat (e' - e))" using l by (simp add: power_int_def)
    finally have "c = c' * 10 ^ nat (e' - e)" by (simp only: of_int_eq_iff)
    moreover have "nat (e' - e) = Suc (nat (e' - e) - 1)" using l by simp
    ultimately have "c = 10 * (c' * 10 ^ (nat (e' - e) - 1))" by (metis mult.left_commute power_Suc)
    with that(2) show False by simp
  qed
  have "e = e'" using no [OF assms(1,2)] no [OF assms(1) [symmetric] assms(3)] by simp
  with assms(1) show ?thesis by simp
qed

text \<open>Inside the domain that \<open>_decimal\<close> accepts, normalisation is exact.\<close>

lemma dec_normalize_exact:
  assumes "0 < c" and "ndigits c \<le> 256" and "- 18 \<le> e + ndigits c - 1" and "e + ndigits c - 1 < 20"
    and "prec = nat (max 38 (ndigits c))"
  obtains c' e' where "dec_normalize prec (Dec False c e) = Inr (Dec False c' e')"
    and "of_int c * 10 powi e = (of_int c' * 10 powi e' :: real)" and "c' mod 10 \<noteq> 0"
proof -
  let ?p = "int prec"
  have nd: "0 < ndigits c" by (simp add: ndigits_def)
  have p: "38 \<le> ?p" "?p \<le> 256" "ndigits c \<le> ?p" using assms(2,5) by auto
  have f: "dec_fix prec False c e = Inr (Dec False c e)"
    using assms p nd by (simp add: dec_fix_def Let_def e_min_def e_max_def)
  obtain c' e' where s: "strip_to e_max c e = (c', e')" by (cases "strip_to e_max c e")
  note facts = strip_to_facts [OF s]
  have "(1::real) \<le> of_int c'" using facts(2) assms(1) by simp
  then have "(10::real) powi e' \<le> of_int c' * 10 powi e'" by simp
  also have "\<dots> = of_int c * 10 powi e" using facts(1) by simp
  also have "\<dots> < 10 powi (ndigits c + e)"
  proof -
    have "c < 10 ^ length (nat_digits c)" using nat_digits_length assms(1) by simp
    then have "(of_int c :: real) < 10 ^ length (nat_digits c)"
      by (metis of_int_less_iff of_int_numeral of_int_power)
    then have "(of_int c :: real) < 10 powi (ndigits c)" by (simp add: ndigits_def power_int_def)
    then show ?thesis by (simp add: power_int_add)
  qed
  also have "\<dots> \<le> 10 powi 20" by (rule power_int_increasing) (use assms(4) in auto)
  finally have lt: "(10::real) powi e' < 10 powi 20" .
  have "e' < 20"
  proof (rule ccontr)
    assume "\<not> e' < 20"
    then have "(10::real) powi 20 \<le> 10 powi e'" by (intro power_int_increasing) auto
    with lt show False by simp
  qed
  then have "c' mod 10 \<noteq> 0" using facts(3) by (simp add: e_max_def)
  moreover have "dec_normalize prec (Dec False c e) = Inr (Dec False c' e')"
    using f s facts(2) assms(1) by simp
  ultimately show ?thesis using that facts(1) by blast
qed

lemma dec_eq_dval: "dec_eq (Dec s c e) (Dec s' c' e') \<Longrightarrow> dval (Dec s c e) = dval (Dec s' c' e')"
proof -
  let ?m = "min e e'" and ?a = "if s then - c else c" and ?b = "if s' then - c' else c'"
  assume "dec_eq (Dec s c e) (Dec s' c' e')"
  then have "?a * 10 ^ nat (e - ?m) = ?b * 10 ^ nat (e' - ?m)" by simp
  then have "real_of_int (?a * 10 ^ nat (e - ?m)) = real_of_int (?b * 10 ^ nat (e' - ?m))" by (rule arg_cong)
  then have "(of_int ?a * 10 ^ nat (e - ?m) :: real) = of_int ?b * 10 ^ nat (e' - ?m)"
    by (simp only: of_int_mult of_int_power of_int_numeral)
  then have "(of_int ?a * 10 ^ nat (e - ?m) * 10 powi ?m :: real) = of_int ?b * 10 ^ nat (e' - ?m) * 10 powi ?m"
    by simp
  moreover have "(10::real) ^ nat (x - ?m) * 10 powi ?m = 10 powi x" if "?m \<le> x" for x
  proof -
    have "(10::real) ^ nat (x - ?m) = 10 powi (x - ?m)" using that by (simp add: power_int_def)
    then show ?thesis by (simp flip: power_int_add)
  qed
  ultimately have "(of_int ?a * 10 powi e :: real) = of_int ?b * 10 powi e'" by (simp add: mult.assoc)
  then show ?thesis by (cases s; cases s') simp_all
qed

lemma dec_parse_form:
  "dec_parse t = Dec False (digits_val (fst (partition_dot t) @ snd (partition_dot t)))
     (- int (length (snd (partition_dot t))))"
  by (simp add: dec_parse_def case_prod_beta)

lemma ca_decimal_domain:
  assumes "ca_decimal v = Inr t"
  obtains c e where "v = Dec False c e" and "0 < c" and "ndigits c \<le> 256" and "- 18 \<le> e + ndigits c - 1"
    and "e + ndigits c - 1 < 20" and "dec_eq (dec_parse t) v" and "length (fst (partition_dot t)) \<le> 20"
    and "length (snd (partition_dot t)) \<le> 18"
    and "\<forall>n. dec_normalize (nat (max 38 (ndigits c))) v = Inr n \<longrightarrow> t = trim_fraction (dec_format_f n)"
proof (cases v)
  case (Dec s c e)
  let ?p = "nat (max 38 (ndigits c))"
  from assms Dec have p: "dec_positive v" and b: "ndigits c \<le> 256" "- 18 \<le> e + ndigits c - 1" "e + ndigits c - 1 < 20"
    unfolding ca_decimal_def
    by (simp_all del: dec_normalize.simps dec_positive.simps add: Let_def split: if_splits)
  from assms Dec p b obtain n where n: "dec_normalize ?p v = Inr n"
    unfolding ca_decimal_def by (cases "dec_normalize ?p v") (simp_all del: dec_normalize.simps add: Let_def)
  have t: "t = trim_fraction (dec_format_f n) \<and> length (fst (partition_dot t)) \<le> 20 \<and>
      length (snd (partition_dot t)) \<le> 18 \<and> dec_eq (dec_parse t) v"
    using assms p b n Dec unfolding ca_decimal_def
    by (simp del: dec_normalize.simps dec_eq.simps add: Let_def case_prod_beta split: if_splits)
  have sc: "v = Dec False c e" "0 < c" using p Dec by simp_all
  have u: "\<forall>n. dec_normalize ?p v = Inr n \<longrightarrow> t = trim_fraction (dec_format_f n)"
    unfolding n using t by blast
  have q: "dec_eq (dec_parse t) v" "length (fst (partition_dot t)) \<le> 20" "length (snd (partition_dot t)) \<le> 18"
    using t by blast+
  show ?thesis by (rule that [OF sc b q u])
qed (use assms in \<open>simp_all add: ca_decimal_def\<close>)

lemma ca_decimal_text_facts:
  assumes "ca_decimal v = Inr t" and "ca_decimal w = Inr u"
  shows "dval (dec_parse t) = dval v \<and> length (fst (partition_dot t)) \<le> 20 \<and>
    length (snd (partition_dot t)) \<le> 18 \<and> (t = u \<longleftrightarrow> dval v = dval w)"
proof -
  from ca_decimal_domain [OF assms(1)] obtain c e where v: "v = Dec False c e" "0 < c" "ndigits c \<le> 256"
      "- 18 \<le> e + ndigits c - 1" "e + ndigits c - 1 < 20" and ev: "dec_eq (dec_parse t) v"
      and lt: "length (fst (partition_dot t)) \<le> 20" "length (snd (partition_dot t)) \<le> 18"
      and nv: "\<forall>n. dec_normalize (nat (max 38 (ndigits c))) v = Inr n \<longrightarrow> t = trim_fraction (dec_format_f n)"
    by blast
  from ca_decimal_domain [OF assms(2)] obtain d f where w: "w = Dec False d f" "0 < d" "ndigits d \<le> 256"
      "- 18 \<le> f + ndigits d - 1" "f + ndigits d - 1 < 20" and ew: "dec_eq (dec_parse u) w"
      and nw: "\<forall>n. dec_normalize (nat (max 38 (ndigits d))) w = Inr n \<longrightarrow> u = trim_fraction (dec_format_f n)"
    by blast
  have pt: "dval (dec_parse t) = dval v" and pu: "dval (dec_parse u) = dval w"
    using ev ew dec_eq_dval unfolding v(1) w(1) dec_parse_form by blast+
  obtain c' e' where c': "dec_normalize (nat (max 38 (ndigits c))) v = Inr (Dec False c' e')"
      "of_int c * 10 powi e = (of_int c' * 10 powi e' :: real)" "c' mod 10 \<noteq> 0"
    using dec_normalize_exact [OF v(2-5) refl] v(1) by metis
  obtain d' f' where d': "dec_normalize (nat (max 38 (ndigits d))) w = Inr (Dec False d' f')"
      "of_int d * 10 powi f = (of_int d' * 10 powi f' :: real)" "d' mod 10 \<noteq> 0"
    using dec_normalize_exact [OF w(2-5) refl] w(1) by metis
  have "t = u" if "dval v = dval w"
  proof -
    from that v(1) w(1) c'(2) d'(2) have "(of_int c' * 10 powi e' :: real) = of_int d' * 10 powi f'" by simp
    then have "c' = d' \<and> e' = f'" using normal_unique c'(3) d'(3) by blast
    with c'(1) d'(1) nv nw show ?thesis by metis
  qed
  with pt pu lt show ?thesis by metis
qed

lemma ca_decimal_value_iff: "ca_decimal v = Inr t \<Longrightarrow> ca_decimal w = Inr u \<Longrightarrow> t = u \<longleftrightarrow> dval v = dval w"
  using ca_decimal_text_facts by blast

text \<open>The decimal text of an event is canonical: it denotes exactly the supplied value, fits
  NUMERIC(38,18), and two supplied decimals get the same text if and only if they have the
  same value, however many trailing zeros or whatever exponent they came with.\<close>

theorem ca_decimal_canonical:
  assumes "ca_decimal v = Inr t" and "ca_decimal w = Inr u"
  shows "dval (dec_parse t) = dval v \<and> length (fst (partition_dot t)) \<le> 20 \<and>
    length (snd (partition_dot t)) \<le> 18 \<and> (t = u \<longleftrightarrow> dval v = dval w)"
  using assms by (rule ca_decimal_text_facts)

theorem ca_decimal_canonical_witness:
  "ca_decimal (Dec False 2500 (- 3)) = Inr ''2.5'' \<and> ca_decimal (Dec False 25 (- 1)) = Inr ''2.5'' \<and>
   dval (Dec False 2500 (- 3)) = dval (Dec False 25 (- 1))"
proof -
  have "ca_decimal (Dec False 2500 (- 3)) = Inr ''2.5''" "ca_decimal (Dec False 25 (- 1)) = Inr ''2.5''"
    by code_simp+
  with ca_decimal_canonical [OF this] show ?thesis by blast
qed

section \<open>Events\<close>

lemma version_post_iff:
  "CorporateActionVersionRecord_post r = Inr r' \<longleftrightarrow>
     r' = r \<and> content_id_pattern (vr_action_version_id r) \<and>
     content_id (vr_canonical_event r) = vr_action_version_id r \<and> vr_schema_version r = 1"
  by (auto simp: CorporateActionVersionRecord_post_def corporate_action_schema_version_def split: if_splits)

lemma split_document_facts:
  assumes "ca_split_document v i so sy = Inr d"
  obtains h f t where "ca_decimal (sp_historical_adjustment_factor v) = Inr h"
    and "ca_decimal (sp_split_from v) = Inr f" and "ca_decimal (sp_split_to v) = Inr t"
    and "d = JObj [
       (''action_type'', JStr ''split''),
       (''adjustment_type'', JStr (sp_adjustment_type v)),
       (''effective_date'', JStr (date_iso (sp_execution_date v))),
       (''historical_adjustment_factor'', JStr h),
       (''provider_event_id'', JStr i), (''schema_version'', JInt 1), (''source'', JStr so),
       (''split_from'', JStr f), (''split_to'', JStr t), (''status'', JStr ''active''), (''symbol'', JStr sy)]"
  using assms unfolding ca_split_document_def corporate_action_schema_version_def
  by (elim bind_res_InrE) (metis Inr_inject that)

lemma split_record_facts:
  assumes "ca_split_record v = Inr r"
  shows "ca_provider_id (sp_provider_event_id v) ''provider_event_id'' = Inr (vr_provider_event_id r) \<and>
    ca_source (sp_source v) = Inr (vr_source r) \<and> ca_symbol (sp_symbol v) = Inr (vr_symbol r) \<and>
    (\<exists>d. ca_split_document v (vr_provider_event_id r) (vr_source r) (vr_symbol r) = Inr d \<and>
       canonical_json d = Inr (vr_canonical_event r)) \<and>
    vr_action_version_id r = content_id (vr_canonical_event r) \<and> vr_action_type r = ''split'' \<and>
    vr_effective_date r = sp_execution_date v \<and> vr_adjustment_type r = Some (sp_adjustment_type v) \<and>
    vr_split_from r = Some (sp_split_from v) \<and> vr_split_to r = Some (sp_split_to v) \<and>
    vr_historical_adjustment_factor r = Some (sp_historical_adjustment_factor v)"
  using assms unfolding ca_split_record_def
  apply (elim bind_res_InrE)
  apply (simp only: version_post_iff)
  apply simp
  done

text \<open>The canonical bytes of a split determine the event: two splits whose records carry the
  same bytes agree in provider identifier, source, symbol, adjustment type, effective-date
  text, and in the values of their ratio and historical factor.\<close>

theorem split_bytes_determine_event:
  assumes "ca_split_record v = Inr r" and "ca_split_record v' = Inr r'"
    and "vr_canonical_event r = vr_canonical_event r'"
  shows "vr_provider_event_id r = vr_provider_event_id r' \<and> vr_source r = vr_source r' \<and>
    vr_symbol r = vr_symbol r' \<and> sp_adjustment_type v = sp_adjustment_type v' \<and>
    date_iso (sp_execution_date v) = date_iso (sp_execution_date v') \<and>
    dval (sp_split_from v) = dval (sp_split_from v') \<and> dval (sp_split_to v) = dval (sp_split_to v') \<and>
    dval (sp_historical_adjustment_factor v) = dval (sp_historical_adjustment_factor v')"
proof -
  from split_record_facts [OF assms(1)] obtain d where
      d: "ca_split_document v (vr_provider_event_id r) (vr_source r) (vr_symbol r) = Inr d"
      and c: "canonical_json d = Inr (vr_canonical_event r)" by metis
  from split_record_facts [OF assms(2)] obtain d' where
      d': "ca_split_document v' (vr_provider_event_id r') (vr_source r') (vr_symbol r') = Inr d'"
      and c': "canonical_json d' = Inr (vr_canonical_event r')" by metis
  from split_document_facts [OF d] obtain h f t where
      dec: "ca_decimal (sp_historical_adjustment_factor v) = Inr h" "ca_decimal (sp_split_from v) = Inr f"
        "ca_decimal (sp_split_to v) = Inr t"
      and doc: "d = JObj [
       (''action_type'', JStr ''split''),
       (''adjustment_type'', JStr (sp_adjustment_type v)),
       (''effective_date'', JStr (date_iso (sp_execution_date v))),
       (''historical_adjustment_factor'', JStr h),
       (''provider_event_id'', JStr (vr_provider_event_id r)), (''schema_version'', JInt 1), (''source'', JStr (vr_source r)),
       (''split_from'', JStr f), (''split_to'', JStr t), (''status'', JStr ''active''), (''symbol'', JStr (vr_symbol r))]" .
  from split_document_facts [OF d'] obtain h' f' t' where
      dec': "ca_decimal (sp_historical_adjustment_factor v') = Inr h'" "ca_decimal (sp_split_from v') = Inr f'"
        "ca_decimal (sp_split_to v') = Inr t'"
      and doc': "d' = JObj [
       (''action_type'', JStr ''split''),
       (''adjustment_type'', JStr (sp_adjustment_type v')),
       (''effective_date'', JStr (date_iso (sp_execution_date v'))),
       (''historical_adjustment_factor'', JStr h'),
       (''provider_event_id'', JStr (vr_provider_event_id r')), (''schema_version'', JInt 1), (''source'', JStr (vr_source r')),
       (''split_from'', JStr f'), (''split_to'', JStr t'), (''status'', JStr ''active''), (''symbol'', JStr (vr_symbol r'))]" .
  have "plain d" "plain d'" by (simp_all add: doc doc')
  then have "jsort d = jsort d'" using canonical_json_inject c c' assms(3) by metis
  moreover have "jsort d = d" "jsort d' = d'" by (simp_all add: doc doc')
  ultimately have "d = d'" by simp
  with doc doc' have "h = h'" "f = f'" "t = t'" "vr_provider_event_id r = vr_provider_event_id r'"
      "vr_source r = vr_source r'" "vr_symbol r = vr_symbol r'" "sp_adjustment_type v = sp_adjustment_type v'"
      "date_iso (sp_execution_date v) = date_iso (sp_execution_date v')" by simp_all
  with ca_decimal_value_iff dec dec' show ?thesis by metis
qed

definition sample_split :: "string \<Rightarrow> date \<Rightarrow> dec \<Rightarrow> Split" where
  "sample_split i d t = \<lparr>sp_provider_event_id = i, sp_symbol = ''AAPL'', sp_execution_date = d,
     sp_split_from = Dec False 1 0, sp_split_to = t, sp_adjustment_type = ''forward_split'',
     sp_historical_adjustment_factor = Dec False 5 (- 1), sp_source = ''polygon''\<rparr>"

lemma split_record_total:
  assumes "ca_provider_id (sp_provider_event_id v) ''provider_event_id'' = Inr i" and "ca_source (sp_source v) = Inr so"
    and "ca_symbol (sp_symbol v) = Inr sy" and "ca_split_document v i so sy = Inr d"
  shows "\<exists>r. ca_split_record v = Inr r \<and> vr_provider_event_id r = i \<and> vr_source r = so \<and>
    vr_symbol r = sy \<and> vr_action_type r = ''split'' \<and> vr_effective_date r = sp_execution_date v \<and>
    vr_canonical_event r = canonical_bytes d"
proof -
  have "plain d" using assms(4) by (elim split_document_facts) simp
  then show ?thesis
    unfolding ca_split_record_def assms bind_res_simps
    by (simp add: assms canonical_json_total version_post_iff corporate_action_schema_version_def)
qed

lemma sample_split_record:
  assumes "ca_provider_id i ''provider_event_id'' = Inr i" and "ca_decimal t = Inr t'"
  shows "\<exists>r. ca_split_record (sample_split i d t) = Inr r \<and> vr_provider_event_id r = i \<and>
    vr_source r = ''polygon'' \<and> vr_symbol r = ''AAPL'' \<and> vr_action_type r = ''split'' \<and> vr_effective_date r = d \<and>
    vr_canonical_event r = canonical_bytes (JObj [
       (''action_type'', JStr ''split''), (''adjustment_type'', JStr ''forward_split''),
       (''effective_date'', JStr (date_iso d)), (''historical_adjustment_factor'', JStr ''0.5''),
       (''provider_event_id'', JStr i), (''schema_version'', JInt 1), (''source'', JStr ''polygon''),
       (''split_from'', JStr ''1''), (''split_to'', JStr t'), (''status'', JStr ''active''), (''symbol'', JStr ''AAPL'')])"
proof -
  let ?v = "sample_split i d t"
  have c: "ca_source ''polygon'' = Inr ''polygon''" "ca_symbol ''AAPL'' = Inr ''AAPL''"
      "ca_decimal (Dec False 5 (- 1)) = Inr ''0.5''" "ca_decimal (Dec False 1 0) = Inr ''1''" by code_simp+
  have "ca_split_document ?v i ''polygon'' ''AAPL'' = Inr (JObj [
       (''action_type'', JStr ''split''), (''adjustment_type'', JStr ''forward_split''),
       (''effective_date'', JStr (date_iso d)), (''historical_adjustment_factor'', JStr ''0.5''),
       (''provider_event_id'', JStr i), (''schema_version'', JInt 1), (''source'', JStr ''polygon''),
       (''split_from'', JStr ''1''), (''split_to'', JStr t'), (''status'', JStr ''active''), (''symbol'', JStr ''AAPL'')])"
    by (simp add: ca_split_document_def sample_split_def c assms(2) corporate_action_schema_version_def)
  from split_record_total [OF _ _ _ this] c assms(1) show ?thesis by (simp add: sample_split_def)
qed

theorem split_bytes_determine_event_witness:
  "\<exists>r r'. ca_split_record (sample_split ''E1'' 738000 (Dec False 2 0)) = Inr r \<and>
     ca_split_record (sample_split ''E1'' 738000 (Dec False 200 (- 2))) = Inr r' \<and>
     vr_canonical_event r = vr_canonical_event r' \<and> dval (Dec False 2 0) = dval (Dec False 200 (- 2))"
proof -
  have c: "ca_provider_id ''E1'' ''provider_event_id'' = Inr ''E1''" "ca_decimal (Dec False 2 0) = Inr ''2''"
      "ca_decimal (Dec False 200 (- 2)) = Inr ''2''" by code_simp+
  obtain r r' where r: "ca_split_record (sample_split ''E1'' 738000 (Dec False 2 0)) = Inr r"
      "ca_split_record (sample_split ''E1'' 738000 (Dec False 200 (- 2))) = Inr r'"
      "vr_canonical_event r = vr_canonical_event r'"
    using sample_split_record [OF c(1,2)] sample_split_record [OF c(1,3)] by metis
  from split_bytes_determine_event [OF this]
  have "dval (Dec False 2 0) = dval (Dec False 200 (- 2))" by (simp add: sample_split_def)
  with r show ?thesis by blast
qed

section \<open>Collections\<close>

lemma collection_post_iff:
  "CorporateActionCollectionRecord_post r = Inr r' \<longleftrightarrow>
     r' = r \<and> content_id_pattern (co_collection_id r) \<and> content_id (co_canonical_manifest r) = co_collection_id r \<and>
     co_query_policy_hash r = corporate_action_query_policy_hash \<and> co_schema_version r = 1 \<and>
     co_coverage_start r \<le> co_coverage_end r \<and> length (co_members r) \<le> 5000 \<and>
     distinct (map logical_id (co_members r)) \<and> (\<forall>x \<in> set (co_members r). \<not> member_escaped r x)"
  by (auto simp: CorporateActionCollectionRecord_post_def corporate_action_schema_version_def
      corporate_action_page_limit_def list_ex_iff split: if_splits)

lemma ca_collection_iff:
  "ca_collection ty ep sy a b rq ft ms = Inr r \<longleftrightarrow>
    (\<exists>t. ca_astimezone ft = Inr t \<and> co_canonical_manifest r = canonical_bytes (ca_manifest ty ep sy a b rq t ms) \<and>
      co_collection_id r = content_id (co_canonical_manifest r) \<and> co_action_type r = ty \<and> co_endpoint r = ep \<and>
      co_symbol r = sy \<and> co_coverage_start r = a \<and> co_coverage_end r = b \<and> co_provider_request_id r = rq \<and>
      co_fetched_at r = t \<and> co_members r = ms \<and> co_source r = corporate_action_source \<and>
      co_query_policy_hash r = corporate_action_query_policy_hash \<and> co_page_limit r = corporate_action_page_limit \<and>
      co_page_count r = 1 \<and> co_pagination_exhausted r \<and> co_schema_version r = 1 \<and> a \<le> b \<and>
      length ms \<le> 5000 \<and> distinct (map logical_id ms) \<and> (\<forall>x \<in> set ms. \<not> member_escaped r x))"
proof -
  have "plain (ca_manifest ty ep sy a b rq t ms)" for t
    by (simp add: ca_manifest_def)
  then show ?thesis
    by (cases r) (auto simp: ca_collection_def bind_res_Inr_iff canonical_json_total collection_post_iff
        corporate_action_schema_version_def member_escaped_def)
qed

lemma manifest_loads:
  assumes "co_canonical_manifest r = canonical_bytes (ca_manifest ty ep sy a b rq t ms)"
  shows "\<exists>d. json_loads (co_canonical_manifest r) = Some (JObj d) \<and>
    dict_get d ''event_version_ids'' = Some (JArr (map (\<lambda>m. JStr (vr_action_version_id m)) ms)) \<and>
    dict_get d ''event_count'' = Some (JInt (int (length ms))) \<and> dict_get d ''symbol'' = Some (JStr sy) \<and>
    dict_get d ''response_completed_at'' = Some (JStr (ca_timestamp t))"
proof -
  have p: "plain (ca_manifest ty ep sy a b rq t ms)" by (simp add: ca_manifest_def)
  show ?thesis
    unfolding assms using loads_canonical [OF p canonical_json_total [OF p]]
    by (simp add: ca_manifest_def comp_def)
qed

lemma distinct_provider_ids:
  assumes "distinct (map logical_id ms)" and "\<forall>m \<in> set ms. vr_source m = so \<and> vr_action_type m = ty"
  shows "distinct (map vr_provider_event_id ms)"
  using assms by (auto simp: distinct_map inj_on_def logical_id_def)

text \<open>
  The two kinds of page share one contract: what a record of an event keeps of
  the event.  The laws of the collections are proved once from it.
\<close>

locale event_page =
  fixes record_of :: "'e \<Rightarrow> CorporateActionVersionRecord res"
    and date_of :: "'e \<Rightarrow> date"
    and provider_id :: "'e \<Rightarrow> string"
  assumes record_of_facts: "record_of v = Inr r \<Longrightarrow>
    ca_provider_id (provider_id v) ''provider_event_id'' = Inr (vr_provider_event_id r) \<and>
    vr_effective_date r = date_of v \<and> vr_action_version_id r = content_id (vr_canonical_event r)"
begin

definition ordered :: "'e list \<Rightarrow> 'e list" where
  "ordered xs = sort_key date_of (sort_key provider_id xs)"

lemma members_map:
  assumes "map_res record_of (ordered xs) = Inr ms"
  shows "map vr_effective_date ms = map date_of (ordered xs)"
    and "map vr_provider_event_id ms =
      map (\<lambda>s. projr (ca_provider_id s ''provider_event_id'')) (map provider_id (ordered xs))"
proof -
  have r: "record_of (ordered xs ! i) = Inr (ms ! i)" if "i < length ms" for i
    using map_res_nth [OF assms] map_res_length [OF assms] that by simp
  show "map vr_effective_date ms = map date_of (ordered xs)"
    using record_of_facts [OF r] map_res_length [OF assms] by (intro nth_equalityI) simp_all
  show "map vr_provider_event_id ms =
      map (\<lambda>s. projr (ca_provider_id s ''provider_event_id'')) (map provider_id (ordered xs))"
    using record_of_facts [OF r] map_res_length [OF assms] by (intro nth_equalityI) simp_all
qed

lemma collection_facts:
  assumes "map_res record_of (ordered xs) = Inr ms" and "ca_collection ty ep sy a b rq ft ms = Inr r"
  shows "length ms = length xs \<and> co_members r = ms \<and> sorted (map vr_effective_date ms) \<and>
    distinct (map vr_provider_event_id ms) \<and>
    (\<forall>m \<in> set ms. vr_action_version_id m = content_id (vr_canonical_event m) \<and> vr_symbol m = sy \<and>
       a \<le> vr_effective_date m \<and> vr_effective_date m \<le> b) \<and>
    co_collection_id r = content_id (co_canonical_manifest r) \<and>
    (\<exists>d. json_loads (co_canonical_manifest r) = Some (JObj d) \<and>
       dict_get d ''event_version_ids'' = Some (JArr (map (\<lambda>m. JStr (vr_action_version_id m)) ms)) \<and>
       dict_get d ''event_count'' = Some (JInt (event_count r)) \<and> dict_get d ''symbol'' = Some (JStr sy))"
proof -
  from assms(2) obtain t where c: "co_canonical_manifest r = canonical_bytes (ca_manifest ty ep sy a b rq t ms)"
      and s: "co_symbol r = sy" "co_coverage_start r = a" "co_coverage_end r = b" "co_members r = ms"
        "co_source r = corporate_action_source" "co_action_type r = ty"
        "co_collection_id r = content_id (co_canonical_manifest r)" "\<forall>x \<in> set ms. \<not> member_escaped r x"
        "distinct (map logical_id ms)"
    unfolding ca_collection_iff by blast
  have i: "vr_action_version_id x = content_id (vr_canonical_event x)" if "x \<in> set ms" for x
    using map_res_in [OF assms(1) that] record_of_facts by metis
  have e: "vr_source x = corporate_action_source \<and> vr_action_type x = ty \<and> vr_symbol x = sy \<and>
      a \<le> vr_effective_date x \<and> vr_effective_date x \<le> b" if "x \<in> set ms" for x
    using s that by (auto simp: member_escaped_def)
  have "distinct (map vr_provider_event_id ms)"
    using distinct_provider_ids [OF s(9), of corporate_action_source ty] e by blast
  moreover have "sorted (map vr_effective_date ms)"
    unfolding members_map(1) [OF assms(1)] by (simp add: ordered_def)
  moreover have "length ms = length xs" using map_res_length [OF assms(1)] by (simp add: ordered_def)
  ultimately show ?thesis
    using manifest_loads [OF c] s i e by (auto simp: event_count_def)
qed

lemma ordered_perm:
  assumes "map_res record_of (ordered xs) = Inr ms" and "distinct (map vr_provider_event_id ms)"
    and "mset ys = mset xs"
  shows "ordered ys = ordered xs"
proof -
  have "distinct (map provider_id (ordered xs))"
    using assms(2) unfolding members_map(2) [OF assms(1)]
    by (auto simp: distinct_map dest: inj_on_imageI2)
  then have "inj_on provider_id (set ys)"
    using mset_eq_setD [OF assms(3)] by (simp add: ordered_def distinct_map)
  from sort_key_perm [OF assms(3) this] show ?thesis by (simp add: ordered_def)
qed

end

interpretation splits: event_page ca_split_record sp_execution_date sp_provider_event_id
  by unfold_locales (use split_record_facts in blast)

lemma dividend_record_facts:
  assumes "ca_dividend_record v = Inr r"
  shows "ca_provider_id (di_provider_event_id v) ''provider_event_id'' = Inr (vr_provider_event_id r) \<and>
    vr_effective_date r = di_ex_dividend_date v \<and> vr_action_version_id r = content_id (vr_canonical_event r)"
  using assms unfolding ca_dividend_record_def Let_def
  apply (elim bind_check_InrE bind_res_InrE)
  apply (simp only: version_post_iff)
  apply simp
  done

interpretation dividends: event_page ca_dividend_record di_ex_dividend_date di_provider_event_id
  by unfold_locales (rule dividend_record_facts)

lemma build_split_iff:
  "build_split_collection page = Inr r \<longleftrightarrow> ca_validate_page page splits_endpoint = Inr () \<and>
    (\<exists>ms. map_res ca_split_record (splits.ordered (pg_splits page)) = Inr ms \<and>
      ca_collection ''split'' splits_endpoint (pg_symbol page) (pg_start page) (pg_end page)
        (pg_provider_request_id page) (pg_fetched_at page) ms = Inr r)"
  by (auto simp: build_split_collection_def bind_res_Inr_iff splits.ordered_def sorted_splits_def)

lemma build_dividend_iff:
  "build_dividend_collection page = Inr r \<longleftrightarrow> ca_validate_page page dividends_endpoint = Inr () \<and>
    (\<exists>ms. map_res ca_dividend_record (dividends.ordered (pg_dividends page)) = Inr ms \<and>
      ca_collection ''dividend'' dividends_endpoint (pg_symbol page) (pg_start page) (pg_end page)
        (pg_provider_request_id page) (pg_fetched_at page) ms = Inr r)"
  by (auto simp: build_dividend_collection_def bind_res_Inr_iff dividends.ordered_def sorted_dividends_def)

text \<open>C34. A built split collection is complete and content-addressed: it has one member per result
  of the page, in date order, with distinct provider identifiers, each inside the window and
  addressed by its own bytes; its identifier is the hash of a manifest which parses back to
  the members' addresses in order, their number and the symbol.\<close>

theorem split_collection_complete:
  assumes "build_split_collection page = Inr r"
  shows "length (co_members r) = length (pg_splits page) \<and> sorted (map vr_effective_date (co_members r)) \<and>
    distinct (map vr_provider_event_id (co_members r)) \<and>
    (\<forall>m \<in> set (co_members r). vr_action_version_id m = content_id (vr_canonical_event m) \<and>
       vr_symbol m = pg_symbol page \<and> pg_start page \<le> vr_effective_date m \<and> vr_effective_date m \<le> pg_end page) \<and>
    co_collection_id r = content_id (co_canonical_manifest r) \<and>
    (\<exists>d. json_loads (co_canonical_manifest r) = Some (JObj d) \<and>
       dict_get d ''event_version_ids'' = Some (JArr (map (\<lambda>m. JStr (vr_action_version_id m)) (co_members r))) \<and>
       dict_get d ''event_count'' = Some (JInt (event_count r)) \<and>
       dict_get d ''symbol'' = Some (JStr (pg_symbol page)))"
  using assms unfolding build_split_iff by (auto dest: splits.collection_facts)

text \<open>Neither collection depends on the order of the provider's page: any permutation of the
  results of a page that builds gives the same members, manifest bytes and identifier.\<close>

theorem collections_order_independent:
  assumes "build_split_collection sp = Inr r" and "mset xs = mset (pg_splits sp)"
    and "build_dividend_collection dp = Inr q" and "mset ys = mset (pg_dividends dp)"
  shows "build_split_collection (sp\<lparr>pg_splits := xs\<rparr>) = Inr r \<and>
    build_dividend_collection (dp\<lparr>pg_dividends := ys\<rparr>) = Inr q"
proof
  have v: "ca_validate_page (sp\<lparr>pg_splits := xs\<rparr>) e = ca_validate_page sp e"
      "ca_validate_page (dp\<lparr>pg_dividends := ys\<rparr>) e = ca_validate_page dp e" for e
    by (simp_all add: ca_validate_page_def)
  show "build_split_collection (sp\<lparr>pg_splits := xs\<rparr>) = Inr r"
    using assms(1,2) splits.collection_facts splits.ordered_perm [OF _ _ assms(2)]
    unfolding build_split_iff by (fastforce simp: v)
  show "build_dividend_collection (dp\<lparr>pg_dividends := ys\<rparr>) = Inr q"
    using assms(3,4) dividends.collection_facts dividends.ordered_perm [OF _ _ assms(4)]
    unfolding build_dividend_iff by (fastforce simp: v)
qed

definition sample_page :: "Split list \<Rightarrow> SplitPage" where
  "sample_page xs = \<lparr>pg_provider_request_id = ''R1'', pg_provider_origin = ''https://api.massive.com'',
     pg_endpoint = ''/stocks/v1/splits'', pg_symbol = ''AAPL'', pg_start = 737000, pg_end = 739000,
     pg_source = ''polygon'', pg_fetched_at = DT 63839739600000000 (Some 0), pg_splits = xs\<rparr>"

lemma sample_split_collection:
  "\<exists>r. build_split_collection (sample_page [sample_split ''E2'' 738500 (Dec False 4 0),
     sample_split ''E1'' 738000 (Dec False 2 0)]) = Inr r"
proof -
  have c: "ca_provider_id ''E1'' ''provider_event_id'' = Inr ''E1''" "ca_decimal (Dec False 2 0) = Inr ''2''"
      "ca_provider_id ''E2'' ''provider_event_id'' = Inr ''E2''" "ca_decimal (Dec False 4 0) = Inr ''4''" by code_simp+
  obtain a b where a: "ca_split_record (sample_split ''E1'' 738000 (Dec False 2 0)) = Inr a"
      "vr_provider_event_id a = ''E1''" "vr_source a = ''polygon''" "vr_symbol a = ''AAPL''" "vr_action_type a = ''split''"
      "vr_effective_date a = 738000"
    and b: "ca_split_record (sample_split ''E2'' 738500 (Dec False 4 0)) = Inr b"
      "vr_provider_event_id b = ''E2''" "vr_source b = ''polygon''" "vr_symbol b = ''AAPL''" "vr_action_type b = ''split''"
      "vr_effective_date b = 738500"
    using sample_split_record [OF c(1,2), of 738000] sample_split_record [OF c(3,4), of 738500] by blast
  let ?p = "sample_page [sample_split ''E2'' 738500 (Dec False 4 0), sample_split ''E1'' 738000 (Dec False 2 0)]"
  have s: "sorted_splits (pg_splits ?p) = [sample_split ''E1'' 738000 (Dec False 2 0), sample_split ''E2'' 738500 (Dec False 4 0)]"
    by (simp add: sorted_splits_def sample_page_def sample_split_def)
  have v: "ca_validate_page ?p splits_endpoint = Inr ()" by code_simp
  have t: "ca_astimezone (DT 63839739600000000 (Some 0)) = Inr 63839739600000000" by code_simp
  have "\<exists>r. ca_collection ''split'' splits_endpoint ''AAPL'' 737000 739000 ''R1'' (DT 63839739600000000 (Some 0)) [a, b] = Inr r"
    unfolding ca_collection_def t
    by (simp add: canonical_json_total ca_manifest_def collection_post_iff logical_id_def member_escaped_def a b
        corporate_action_schema_version_def corporate_action_source_def)
  then show ?thesis
    unfolding build_split_collection_def v s by (simp add: a b) (simp add: sample_page_def)
qed

theorem split_collection_complete_witness:
  "\<exists>r. build_split_collection (sample_page [sample_split ''E2'' 738500 (Dec False 4 0),
     sample_split ''E1'' 738000 (Dec False 2 0)]) = Inr r \<and> length (co_members r) = 2"
proof -
  obtain r where r: "build_split_collection (sample_page [sample_split ''E2'' 738500 (Dec False 4 0),
     sample_split ''E1'' 738000 (Dec False 2 0)]) = Inr r" using sample_split_collection by blast
  from split_collection_complete [OF r] r show ?thesis by (simp add: sample_page_def)
qed

definition sample_dividend_page :: DividendPage where
  "sample_dividend_page = \<lparr>pg_provider_request_id = ''R2'', pg_provider_origin = ''https://api.massive.com'',
     pg_endpoint = ''/stocks/v1/dividends'', pg_symbol = ''AAPL'', pg_start = 737000, pg_end = 739000,
     pg_source = ''polygon'', pg_fetched_at = DT 63839739600000000 (Some 0), pg_dividends = []\<rparr>"

theorem collections_order_independent_witness:
  "build_split_collection (sample_page [sample_split ''E1'' 738000 (Dec False 2 0), sample_split ''E2'' 738500 (Dec False 4 0)])
   = build_split_collection (sample_page [sample_split ''E2'' 738500 (Dec False 4 0), sample_split ''E1'' 738000 (Dec False 2 0)])"
proof -
  obtain r where r: "build_split_collection (sample_page [sample_split ''E2'' 738500 (Dec False 4 0),
     sample_split ''E1'' 738000 (Dec False 2 0)]) = Inr r" using sample_split_collection by blast
  have v: "ca_validate_page sample_dividend_page dividends_endpoint = Inr ()"
      "ca_astimezone (DT 63839739600000000 (Some 0)) = Inr 63839739600000000" by code_simp+
  have "\<exists>q. ca_collection ''dividend'' dividends_endpoint ''AAPL'' 737000 739000 ''R2''
      (DT 63839739600000000 (Some 0)) [] = Inr q"
    unfolding ca_collection_def v(2)
    by (simp add: canonical_json_total ca_manifest_def collection_post_iff
        corporate_action_schema_version_def corporate_action_source_def)
  then obtain q where q: "build_dividend_collection sample_dividend_page = Inr q"
    unfolding build_dividend_collection_def v(1) by (auto simp: sample_dividend_page_def sorted_dividends_def)
  from collections_order_independent [OF r, of "[sample_split ''E1'' 738000 (Dec False 2 0), sample_split ''E2'' 738500 (Dec False 4 0)]", OF _ q, of "[]"]
  show ?thesis unfolding r by (simp add: sample_page_def sample_dividend_page_def)
qed

end
