(* ===== verification/FloatLaws.thy ===== *)
theory FloatLaws
  imports Float64
begin

text \<open>
  Binary64 arithmetic as one rounding of the exact result.  \<open>rkey x\<close> is the signed
  index of the float nearest to \<open>x\<close>; comparisons of floats are comparisons of
  signed indices (\<open>f_key\<close>), rounding is monotone and exact on floats, so order
  facts about computed values reduce to order facts about reals.
\<close>

named_theorems f_rounding \<open>the signed index of an arithmetic result\<close>

definition rkey :: "real \<Rightarrow> int" where
  "rkey x = (if x < 0 then - rmag (- x) else rmag x)"

lemma rmag_0 [simp]: "rmag 0 = 0"
  by (simp add: rmag_def)

lemma rmag_nonpos: "x \<le> 0 \<Longrightarrow> rmag x = 0"
  by (simp add: rmag_def)

lemma rkey_mono: "x \<le> y \<Longrightarrow> rkey x \<le> rkey y"
  using rmag_mono [of x y] rmag_mono [of "- y" "- x"] rmag_nonneg [of y] rmag_nonneg [of "- x"]
  by (auto simp: rkey_def)

lemma rkey_minus: "rkey (- x) = - rkey x"
  by (auto simp: rkey_def rmag_nonpos)

lemma rkey_0 [simp]: "rkey 0 = 0"
  by (simp add: rkey_def)

lemma f_isfinite_key: "f_isfinite w \<longleftrightarrow> \<bar>f_key w\<bar> < inf_idx"
  using f_idx_nonneg [of w] by (simp add: f_isfinite_def f_key_def)

lemma rkey_fval:
  assumes "f_isfinite y"
  shows "rkey (fval y) = f_key y"
proof -
  have i: "0 \<le> f_idx y" "f_idx y < inf_idx" using assms by (simp_all add: f_isfinite_def)
  have r: "rmag (mval (f_idx y)) = f_idx y" by (rule rmag_mval [OF i])
  show ?thesis
  proof (cases "f_isneg y \<and> f_idx y \<noteq> 0")
    case True
    then have "0 < f_idx y" using i(1) by linarith
    then have "0 < mval (f_idx y)" by (rule mval_pos)
    with True r show ?thesis by (simp add: rkey_def fval_def f_key_def)
  next
    case False
    then have "fval y = mval (f_idx y) \<and> f_key y = f_idx y" by (auto simp: fval_def f_key_def)
    moreover have "(mval (f_idx y) < 0) = False" using mval_nonneg [OF i(1)] by (metis linorder_not_less)
    ultimately show ?thesis using r by (simp only: rkey_def if_False)
  qed
qed

lemma fval_key_0: "f_key x = 0 \<Longrightarrow> fval x = 0"
  by (auto simp: f_key_def fval_def split: if_splits)

lemma f_key_pack:
  assumes "0 \<le> i" and "i < 9223372036854775808"
  shows "f_key (f_pack s i) = (if s then - i else i)"
  using assms by (simp add: f_key_def)

lemma f_neg_facts [simp]:
  "f_isneg (f_neg x) = (\<not> f_isneg x)" "f_idx (f_neg x) = f_idx x" "f_key (f_neg x) = - f_key x"
  "fval (f_neg x) = - fval x" "f_isfinite (f_neg x) = f_isfinite x"
  using f_idx_nonneg [of x] f_idx_bound [of x]
  by (simp_all add: f_neg_def f_key_def fval_def f_isfinite_def)

lemma f_abs_facts [simp]:
  "\<not> f_isneg (f_abs x)" "f_idx (f_abs x) = f_idx x" "f_key (f_abs x) = \<bar>f_key x\<bar>"
  "fval (f_abs x) = \<bar>fval x\<bar>" "f_isfinite (f_abs x) = f_isfinite x"
  using f_idx_nonneg [of x] f_idx_bound [of x] mval_nonneg [OF f_idx_nonneg [of x]]
  by (simp_all add: f_abs_def f_key_def fval_def f_isfinite_def)

lemma f_key_mul [f_rounding]:
  assumes "f_isfinite a" and "f_isfinite b"
  shows "f_key (f_mul a b) = rkey (fval a * fval b)"
proof -
  note m = f_mul_finite [OF assms]
  have p: "0 \<le> mval (f_idx a)" "0 \<le> mval (f_idx b)" by simp_all
  have e: "fval a * fval b = (if f_isneg a \<noteq> f_isneg b then - (mval (f_idx a) * mval (f_idx b)) else mval (f_idx a) * mval (f_idx b))"
    by (simp add: fval_def)
  show ?thesis
    using m p mult_nonneg_nonneg [OF p] unfolding e f_key_def
    by (auto simp: rkey_def rmag_nonpos linorder_not_less)
qed

lemma f_key_add [f_rounding]:
  assumes "f_isfinite a" and "f_isfinite b"
  shows "f_key (f_add a b) = rkey (fval a + fval b)"
proof -
  define e where "e = min (f_ex (f_idx a)) (f_ex (f_idx b))"
  define n where "n = f_sman a * 2 ^ nat (f_ex (f_idx a) - e) + f_sman b * 2 ^ nat (f_ex (f_idx b) - e)"
  have v: "fval x = of_int (f_sman x) * 2 powi f_ex (f_idx x)" for x
    by (simp add: fval_def mval_def f_sman_def)
  have s: "(2::real) ^ nat (k - e) * 2 powi e = 2 powi k" if "e \<le> k" for k
  proof -
    have "(2::real) ^ nat (k - e) = 2 powi (k - e)" using that by (simp add: power_int_def)
    then show ?thesis by (simp flip: power_int_add)
  qed
  have x: "fval a + fval b = of_int n * 2 powi e"
    unfolding v n_def using s [of "f_ex (f_idx a)"] s [of "f_ex (f_idx b)"]
    by (simp add: e_def distrib_right mult.assoc)
  have d: "f_add a b = (if n = 0 then f_pack (f_isneg a \<and> f_isneg b) 0 else f_pack (n < 0) (rnd_scaled \<bar>n\<bar> e))"
    using assms by (simp add: f_add_def Let_def f_finite_not_nan f_finite_not_inf e_def n_def)
  have k: "f_key (f_add a b) = (if n < 0 then - rnd_scaled \<bar>n\<bar> e else if n = 0 then 0 else rnd_scaled \<bar>n\<bar> e)"
    using f_key_pack [OF rnd_scaled_bounds] f_key_pack [of 0] by (simp add: d)
  have "(0::real) < 2 powi e" by simp
  then have sg: "of_int n * (2::real) powi e < 0 \<longleftrightarrow> n < 0"
    using mult_neg_pos [of "of_int n" "2 powi e"] mult_nonneg_nonneg [of "of_int n" "2 powi e"]
    by (metis linorder_not_less of_int_0_le_iff of_int_less_0_iff order_less_imp_le)
  show ?thesis unfolding k x rkey_def sg rnd_scaled_eq by (auto simp: rmag_nonpos)
qed

lemma f_key_sub [f_rounding]:
  "f_isfinite a \<Longrightarrow> f_isfinite b \<Longrightarrow> f_key (f_sub a b) = rkey (fval a - fval b)"
  by (simp add: f_sub_def f_key_add)

lemma f_key_quot [f_rounding]:
  assumes "f_isfinite a" and "f_isfinite b" and "f_idx b \<noteq> 0"
  shows "f_key (f_quot a b) = rkey (fval a / fval b)"
proof -
  let ?e = "f_ex (f_idx a) - f_ex (f_idx b)"
  let ?r = "if 0 \<le> ?e then rnd_mag (f_man (f_idx a) * 2 ^ nat ?e) (f_man (f_idx b))
                          else rnd_mag (f_man (f_idx a)) (f_man (f_idx b) * 2 ^ nat (- ?e))"
  have mb: "0 < f_man (f_idx b)"
  proof -
    have "0 < f_idx b" using assms(3) f_idx_nonneg [of b] by linarith
    then show ?thesis by (simp add: f_man_def add_pos_nonneg)
  qed
  have pe: "(2::real) powi f_ex (f_idx a) / 2 powi f_ex (f_idx b) = 2 powi ?e"
    by (simp add: power_int_diff)
  have q: "mval (f_idx a) / mval (f_idx b) = of_int (f_man (f_idx a)) / of_int (f_man (f_idx b)) * 2 powi ?e"
    unfolding mval_def pe [symmetric] by simp
  have r: "?r = rmag (mval (f_idx a) / mval (f_idx b))"
  proof (cases "0 \<le> ?e")
    case True
    then have "(2::real) powi ?e = 2 ^ nat ?e" by (simp add: power_int_def)
    with True mb show ?thesis by (simp add: rnd_mag_eq q)
  next
    case False
    then have "(2::real) powi ?e = inverse (2 ^ nat (- ?e))" by (simp add: powi_nat_cases)
    then have "mval (f_idx a) / mval (f_idx b) = of_int (f_man (f_idx a)) / of_int (f_man (f_idx b) * 2 ^ nat (- ?e))"
      unfolding q by (simp add: divide_inverse)
    moreover have "0 < f_man (f_idx b) * 2 ^ nat (- ?e)" using mb by simp
    ultimately show ?thesis using False by (simp only: rnd_mag_eq if_False)
  qed
  have d: "f_quot a b = f_pack (f_isneg a \<noteq> f_isneg b) (rmag (mval (f_idx a) / mval (f_idx b)))"
    using assms by (simp add: f_quot_def Let_def f_finite_not_nan f_finite_not_inf flip: r)
  have p: "0 \<le> mval (f_idx a) / mval (f_idx b)" by simp
  have e: "fval a / fval b = (if f_isneg a \<noteq> f_isneg b then - (mval (f_idx a) / mval (f_idx b)) else mval (f_idx a) / mval (f_idx b))"
    by (simp add: fval_def)
  show ?thesis
    using p f_key_pack [OF rmag_nonneg rmag_bound] unfolding d e
    by (auto simp: rkey_def rmag_nonpos linorder_not_less)
qed

text \<open>A finite result lies on the same side of every float as the exact value.\<close>

lemma rkey_le_key: "f_isfinite y \<Longrightarrow> x \<le> fval y \<Longrightarrow> rkey x \<le> f_key y"
  using rkey_mono [of x "fval y"] by (simp add: rkey_fval)

lemma key_le_rkey: "f_isfinite y \<Longrightarrow> fval y \<le> x \<Longrightarrow> f_key y \<le> rkey x"
  using rkey_mono [of "fval y" x] by (simp add: rkey_fval)

lemma fval_zero [simp]: "fval f_zero = 0" "f_key f_zero = 0" "f_isfinite f_zero"
  by (simp_all add: fval_key_0 f_zero_def f_key_def f_idx_def f_isfinite_def inf_idx_def)

lemma fval_one [simp]: "fval f_one = 1" "f_key f_one = f_idx f_one"
  by (simp_all add: fval_def mval_one f_key_def)

lemma rkey_not_nan: "\<bar>rkey x\<bar> \<le> inf_idx"
  using rmag_le_inf rmag_nonneg by (simp add: rkey_def)

section \<open>The rounding error\<close>

lemma shift_div_mod:
  fixes r m :: int
  assumes "0 \<le> r" and "r < 4503599627370496"
  shows "(r + m * 4503599627370496) div 4503599627370496 = m"
    and "(r + m * 4503599627370496) mod 4503599627370496 = r"
  using assms by simp_all

lemma mval_shift:
  assumes "- 1074 \<le> e" and "0 \<le> q" and "q \<le> 9007199254740992"
    and "4503599627370496 \<le> q \<or> e = - 1074"
  shows "mval (q + (e + 1074) * 4503599627370496) = of_int q * 2 powi e"
proof -
  consider "q < 4503599627370496" | "4503599627370496 \<le> q" "q < 9007199254740992"
    | "q = 9007199254740992" using assms(3) by linarith
  then show ?thesis
  proof cases
    case 1
    with assms(4) have "e = - 1074" by simp
    with 1 show ?thesis by (simp add: mval_def f_man_def f_ex_def)
  next
    case 2
    let ?i = "q + (e + 1074) * 4503599627370496"
    have i: "?i = (q - 4503599627370496) + (e + 1075) * 4503599627370496" by (simp add: algebra_simps)
    have "?i div 4503599627370496 = e + 1075" "?i mod 4503599627370496 = q - 4503599627370496"
      unfolding i using shift_div_mod [of "q - 4503599627370496" "e + 1075"] 2 by linarith+
    moreover have "\<not> ?i < 4503599627370496"
      using mult_right_mono [of 0 "e + 1074" 4503599627370496] assms(1) 2 by linarith
    ultimately show ?thesis by (simp add: mval_def f_man_def f_ex_def)
  next
    case 3
    let ?i = "q + (e + 1074) * 4503599627370496"
    have i: "?i = (e + 1076) * 4503599627370496" using 3 by (simp add: algebra_simps)
    have "?i div 4503599627370496 = e + 1076" "?i mod 4503599627370496 = 0"
      unfolding i by simp_all
    moreover have "\<not> ?i < 4503599627370496"
      using mult_right_mono [of 0 "e + 1074" 4503599627370496] assms(1) 3 by linarith
    moreover have "(2::real) powi (e + 1) = 2 * 2 powi e" by (simp add: power_int_add)
    ultimately show ?thesis using 3 by (simp add: mval_def f_man_def f_ex_def add.commute)
  qed
qed

lemma mval_rmag:
  assumes "0 < x" and "rmag x < inf_idx" and e: "e = max (\<lfloor>log 2 x\<rfloor> - 52) (- 1074)"
  shows "mval (rmag x) = of_int (rh (x / 2 powi e)) * 2 powi e"
proof -
  let ?q = "rh (x / 2 powi e)"
  have r: "rmag x = ?q + (e + 1074) * 4503599627370496"
    using assms(1,2) by (simp add: rmag_def Let_def e min_def split: if_splits)
  have "\<lfloor>log 2 x\<rfloor> + 1 \<le> e + 53" by (simp add: e)
  then have "x < 2 powi (e + 53)"
    using floor_log_bounds [OF assms(1)] power_int_increasing [of "\<lfloor>log 2 x\<rfloor> + 1" "e + 53" "2::real"]
    by simp
  then have "x / 2 powi e \<le> of_int 9007199254740992" by (simp add: power_int_add field_simps)
  then have hi: "?q \<le> 9007199254740992" using rh_mono rh_of_int by metis
  have lo: "0 \<le> ?q" using rh_mono [of 0 "x / 2 powi e"] rh_of_int [of 0] assms(1) by simp
  have "4503599627370496 \<le> ?q \<or> e = - 1074"
  proof (cases "e = - 1074")
    case False
    then have "\<lfloor>log 2 x\<rfloor> = e + 52" by (auto simp: e max_def split: if_splits)
    then have "2 powi (e + 52) \<le> x" using floor_log_bounds [OF assms(1)] by simp
    then have "of_int 4503599627370496 \<le> x / 2 powi e" by (simp add: power_int_add field_simps)
    then show ?thesis using rh_mono rh_of_int by metis
  qed simp
  then show ?thesis unfolding r by (intro mval_shift) (use hi lo in \<open>simp_all add: e\<close>)
qed

text \<open>Half a unit in the last place of the binade below \<open>2 powi k\<close>.\<close>

lemma rmag_error:
  assumes "0 < x" and "x < 2 powi k" and "- 1021 \<le> k" and "rmag x < inf_idx"
  shows "\<bar>mval (rmag x) - x\<bar> \<le> 2 powi (k - 54)"
proof -
  define e where "e = max (\<lfloor>log 2 x\<rfloor> - 52) (- 1074)"
  let ?q = "of_int (rh (x / 2 powi e)) :: real"
  have "log 2 x < of_int k"
    using assms(1,2) powr_real_of_int' [of 2 k] by (simp add: log_less_iff)
  then have "\<lfloor>log 2 x\<rfloor> < k" by (simp add: floor_less_iff)
  then have ek: "e - 1 \<le> k - 54" using assms(3) by (simp add: e_def)
  have "mval (rmag x) - x = (?q - x / 2 powi e) * 2 powi e"
    using mval_rmag [OF assms(1,4) e_def] by (simp add: left_diff_distrib)
  then have "\<bar>mval (rmag x) - x\<bar> = \<bar>?q - x / 2 powi e\<bar> * 2 powi e" by (simp add: abs_mult)
  also have "\<dots> \<le> 1 / 2 * 2 powi e" by (intro mult_right_mono rh_near) simp
  also have "\<dots> = 2 powi (e - 1)" by (simp add: power_int_diff)
  also have "\<dots> \<le> 2 powi (k - 54)" using ek by (intro power_int_increasing) simp_all
  finally show ?thesis .
qed

lemma rh_close:
  assumes "\<bar>x - of_int m\<bar> < 1 / 2"
  shows "rh x = m"
proof -
  have "\<bar>of_int (rh x) - (of_int m :: real)\<bar> < 1" using rh_near [of x] assms by linarith
  then have "\<bar>of_int (rh x - m)\<bar> < (1 :: real)" by simp
  then show ?thesis by linarith
qed

lemma f_round_fval: "f_round x = rh (fval x)"
proof -
  have v: "fval x = of_int (f_sman x) * 2 powi f_ex (f_idx x)"
    by (simp add: fval_def mval_def f_sman_def)
  show ?thesis
  proof (cases "0 \<le> f_ex (f_idx x)")
    case True
    then have "fval x = of_int (f_sman x * 2 ^ nat (f_ex (f_idx x)))" by (simp add: v powi_nat_cases)
    with True show ?thesis by (simp only: rh_of_int) (simp add: f_round_def Let_def)
  next
    case False
    then have "fval x = of_int (f_sman x) / of_int (2 ^ nat (- f_ex (f_idx x)))"
      by (simp add: v powi_nat_cases divide_inverse)
    with False show ?thesis by (simp add: f_round_def Let_def rhe_rh)
  qed
qed

text \<open>The largest finite float, and how far above it the exact result may be.\<close>

definition top_val :: real where
  "top_val = of_int ((2 ^ 53 - 1) * 2 ^ 971)"

lemma rmag_top: "rmag (top_val + 1) = inf_idx - 1"
proof -
  have "rnd_mag ((2 ^ 53 - 1) * 2 ^ 971 + 1) 1 = inf_idx - 1" by code_simp
  then show ?thesis using rnd_mag_eq [of 1 "(2 ^ 53 - 1) * 2 ^ 971 + 1"] by (simp add: top_val_def)
qed

lemma mval_le_top:
  assumes "0 \<le> i" and "i < inf_idx"
  shows "mval i \<le> top_val"
proof -
  have "mval i \<le> mval (inf_idx - 1)" using assms by (subst mval_le_iff) (simp_all add: inf_idx_def)
  also have "f_man (inf_idx - 1) = 2 ^ 53 - 1" "f_ex (inf_idx - 1) = 971" by code_simp+
  then have "mval (inf_idx - 1) = top_val" by (simp add: mval_def top_val_def power_int_def)
  finally show ?thesis .
qed

lemma fval_le_top: "f_isfinite x \<Longrightarrow> \<bar>fval x\<bar> \<le> top_val"
  using mval_le_top [of "f_idx x"] by (simp add: fval_def f_isfinite_def)

lemma rkey_finite:
  assumes "\<bar>x\<bar> \<le> top_val + 1"
  shows "\<bar>rkey x\<bar> < inf_idx"
proof -
  have "rmag \<bar>x\<bar> \<le> inf_idx - 1" using rmag_mono [OF assms] by (simp add: rmag_top)
  then show ?thesis using rmag_nonneg [of "\<bar>x\<bar>"] by (auto simp: rkey_def abs_if split: if_splits)
qed

section \<open>Values from keys, signs and shifts\<close>

lemma fval_of_key: "fval y = (if f_key y < 0 then - mval (- f_key y) else mval (f_key y))"
proof (cases "f_isneg y \<and> f_idx y \<noteq> 0")
  case True
  then have "0 < f_idx y" using f_idx_nonneg [of y] by linarith
  with True show ?thesis by (simp add: fval_def f_key_def)
next
  case False
  then have "fval y = mval (f_idx y) \<and> f_key y = f_idx y" by (auto simp: fval_def f_key_def)
  moreover have "\<not> f_idx y < 0" using f_idx_nonneg [of y] by linarith
  ultimately show ?thesis by (simp only: if_False)
qed

lemma rkey_inv:
  assumes "f_key y = rkey x"
  shows "fval y = (if x < 0 then - mval (rmag (- x)) else mval (rmag x))"
  using rmag_nonneg [of x] rmag_nonneg [of "- x"] unfolding fval_of_key assms(1) rkey_def
  by (cases "rmag (- x) = 0") auto

lemma f_of_ratio_pos:
  assumes "0 \<le> n" and "0 < d" and "rmag (of_int n / of_int d) < inf_idx"
  shows "f_of_ratio n d = Inr (f_pack False (rmag (of_int n / of_int d)))"
  using assms by (simp add: f_of_ratio_def Let_def rnd_mag_eq)

lemma pack_rmag_facts:
  assumes "rmag x < inf_idx"
  shows "f_isfinite (f_pack False (rmag x))" "f_key (f_pack False (rmag x)) = rmag x"
    "fval (f_pack False (rmag x)) = mval (rmag x)"
  using assms rmag_nonneg [of x] rmag_bound [of x]
  by (simp_all add: f_isfinite_def f_key_def fval_def)

lemma rmag_small:
  assumes "x \<le> top_val"
  shows "rmag x < inf_idx"
  using rmag_mono [of x "top_val + 1"] assms by (simp add: rmag_top)

lemma top_val_big: "2 powi 1000 \<le> top_val"
  by (simp add: top_val_def)

lemma f_key_max: "f_isfinite a \<Longrightarrow> f_isfinite b \<Longrightarrow> f_key (f_max a b) = max (f_key a) (f_key b)"
  by (simp add: f_max_def f_lt_key)

lemma f_key_min: "f_isfinite a \<Longrightarrow> f_isfinite b \<Longrightarrow> f_key (f_min a b) = min (f_key a) (f_key b)"
  by (simp add: f_min_def f_lt_key)

lemma f_extremum_finite:
  "f_isfinite a \<Longrightarrow> f_isfinite b \<Longrightarrow> f_isfinite (f_max a b)"
  "f_isfinite a \<Longrightarrow> f_isfinite b \<Longrightarrow> f_isfinite (f_min a b)"
  by (simp_all add: f_max_def f_min_def)

lemma fval_sign:
  assumes "f_isfinite x"
  shows "fval x \<le> 0 \<longleftrightarrow> f_key x \<le> 0" and "0 \<le> fval x \<longleftrightarrow> 0 \<le> f_key x"
    and "fval x < 0 \<longleftrightarrow> f_key x < 0" and "0 < fval x \<longleftrightarrow> 0 < f_key x"
  using fval_le_iff [OF assms fval_zero(3)] fval_le_iff [OF fval_zero(3) assms]
  by (simp_all add: linorder_not_le [symmetric])

text \<open>Adding a nonnegative amount does not decrease a float, subtracting one does not increase it.\<close>

lemma f_key_shift:
  assumes "f_isfinite x" and "f_isfinite d"
  shows "0 \<le> f_key d \<Longrightarrow> f_key x \<le> f_key (f_add x d)" and "0 \<le> f_key d \<Longrightarrow> f_key (f_sub x d) \<le> f_key x"
    and "f_key d \<le> 0 \<Longrightarrow> f_key (f_add x d) \<le> f_key x" and "f_key d \<le> 0 \<Longrightarrow> f_key x \<le> f_key (f_sub x d)"
  using assms fval_sign [OF assms(2)] key_le_rkey [OF assms(1)] rkey_le_key [OF assms(1)]
  by (simp_all add: f_key_add f_key_sub)

lemma f_add_zero:
  assumes "f_isfinite x" and "f_idx x \<noteq> 0"
  shows "f_add x f_zero = x"
proof -
  have k: "f_key (f_add x f_zero) = f_key x"
    using f_key_add [OF assms(1) fval_zero(3)] by (simp add: rkey_fval [OF assms(1)])
  have p: "0 < f_idx x" using assms(2) f_idx_nonneg [of x] by linarith
  have n: "0 \<le> f_idx (f_add x f_zero)" by (rule f_idx_nonneg)
  have "f_isneg (f_add x f_zero) = f_isneg x"
  proof (rule ccontr)
    assume "f_isneg (f_add x f_zero) \<noteq> f_isneg x"
    then have "f_idx (f_add x f_zero) + f_idx x = 0" using k by (cases "f_isneg x") (simp_all add: f_key_def)
    then show False using n p by linarith
  qed
  with k show ?thesis by (auto simp: f_eq_iff f_key_def split: if_splits)
qed

end
