(* ===== verification/Conformal.thy ===== *)
theory Conformal
  imports FloatLaws PyObj
begin

text \<open>
  The conformal-calibration kernels (\<open>ml/calibration/conformal.py\<close>): canonical
  coverages and ranks, the finite-sample order statistic, absolute-residual and
  signed CQR calibration, and the projected adaptive (ACI) recurrence.

  The dataclasses are records; their constructors, which re-validate every field
  of whatever object they are given, are functions on \<open>pyobj\<close>.  A sequence
  argument that is a string, a \<open>bytes\<close> object or not iterable at all is
  \<open>NotIterable\<close>: the code gives the three the same error.
\<close>

section \<open>Constants\<close>

definition FINITE_SAMPLE_POLICY_VERSION :: string where
  "FINITE_SAMPLE_POLICY_VERSION = ''finite-sample-nearest-rank-v1''"
definition ABSOLUTE_RESIDUAL_POLICY_VERSION :: string where
  "ABSOLUTE_RESIDUAL_POLICY_VERSION = ''absolute-residual-v1''"
definition CQR_POLICY_VERSION :: string where
  "CQR_POLICY_VERSION = ''signed-cqr-v1''"
definition ACI_POLICY_VERSION :: string where
  "ACI_POLICY_VERSION = ''projected-aci-v1''"
definition COVERAGE_SCALE :: int where
  "COVERAGE_SCALE = 1000"
definition COVERAGE_TOLERANCE :: f64 where
  "COVERAGE_TOLERANCE = 4427486594234968593"

definition cv_thousand :: f64 where
  "cv_thousand = 4652007308841189376"

section \<open>Scalar validation\<close>

definition cv_finite :: "pyobj \<Rightarrow> string \<Rightarrow> f64 res" where
  "cv_finite value name =
     (case real_float value of
        Some (Inr converted) \<Rightarrow>
          bind_res (check (\<not> f_isfinite converted)
                     (ConformalValidationError (name @ '' must contain only finite real numbers'')))
            (\<lambda>_. Inr converted)
      | _ \<Rightarrow> Inl (ConformalValidationError (name @ '' must contain only finite real numbers'')))"

definition cv_finite_result :: "f64 \<Rightarrow> string \<Rightarrow> f64 res" where
  "cv_finite_result value name =
     bind_res (check (\<not> f_isfinite value)
                (ConformalValidationError (name @ '' overflowed to a nonfinite value''))) (\<lambda>_.
     Inr value)"

definition cv_positive_finite :: "pyobj \<Rightarrow> string \<Rightarrow> f64 res" where
  "cv_positive_finite value name =
     bind_res (cv_finite value name) (\<lambda>converted.
     bind_res (check (f_le converted f_zero) (ConformalValidationError (name @ '' must be positive''))) (\<lambda>_.
     Inr converted))"

definition cv_open_probability :: "pyobj \<Rightarrow> string \<Rightarrow> f64 res" where
  "cv_open_probability value name =
     bind_res (cv_finite value name) (\<lambda>converted.
     bind_res (check (\<not> (f_lt f_zero converted \<and> f_lt converted f_one))
                (ConformalValidationError (name @ '' must be strictly between zero and one''))) (\<lambda>_.
     Inr converted))"

definition cv_positive_integer :: "pyobj \<Rightarrow> string \<Rightarrow> int res" where
  "cv_positive_integer value name =
     (case integral value of
        Some i \<Rightarrow> if i < 1 then Inl (ConformalValidationError (name @ '' must be a positive integer'')) else Inr i
      | None \<Rightarrow> Inl (ConformalValidationError (name @ '' must be a positive integer'')))"

definition cv_nonnegative_integer :: "pyobj \<Rightarrow> string \<Rightarrow> int res" where
  "cv_nonnegative_integer value name =
     (case integral value of
        Some i \<Rightarrow> if i < 0 then Inl (ConformalValidationError (name @ '' must be a nonnegative integer'')) else Inr i
      | None \<Rightarrow> Inl (ConformalValidationError (name @ '' must be a nonnegative integer'')))"

text \<open>The coverage as a float and as an integer number of thousandths.\<close>

definition cv_coverage :: "pyobj \<Rightarrow> (f64 \<times> int) res" where
  "cv_coverage value =
     bind_res (cv_finite value ''coverage'') (\<lambda>coverage.
     bind_res (check (\<not> (f_lt f_zero coverage \<and> f_lt coverage f_one))
                (ConformalValidationError ''coverage must be strictly between zero and one'')) (\<lambda>_.
     let millis = f_round (f_mul coverage cv_thousand) in
     bind_res (f_of_ratio millis COVERAGE_SCALE) (\<lambda>canonical.
     bind_res (check (\<not> (1 \<le> millis \<and> millis \<le> 999)
                      \<or> f_lt COVERAGE_TOLERANCE (f_abs (f_sub coverage canonical)))
                (ConformalValidationError ''coverage must be a canonical thousandth'')) (\<lambda>_.
     Inr (canonical, millis)))))"

definition cv_rank :: "int \<Rightarrow> int \<Rightarrow> int" where
  "cv_rank sample_count coverage_millis =
     ((sample_count + 1) * coverage_millis + COVERAGE_SCALE - 1) div COVERAGE_SCALE"

section \<open>Sequences and intervals\<close>

definition cv_finite_sequence :: "pyobj pyseq \<Rightarrow> string \<Rightarrow> f64 list res" where
  "cv_finite_sequence values name =
     (case values of
        NotIterable \<Rightarrow> Inl (ConformalValidationError (name @ '' must be a nonempty sequence''))
      | Seq vs \<Rightarrow>
          bind_res (map_res (\<lambda>value. cv_finite value name) vs) (\<lambda>normalized.
          bind_res (check (normalized = []) (ConformalValidationError (name @ '' must be a nonempty sequence''))) (\<lambda>_.
          Inr normalized)))"

definition cv_paired :: "pyobj pyseq \<Rightarrow> pyobj pyseq \<Rightarrow> string \<Rightarrow> string \<Rightarrow> (f64 list \<times> f64 list) res" where
  "cv_paired left right left_name right_name =
     bind_res (cv_finite_sequence left left_name) (\<lambda>left_values.
     bind_res (cv_finite_sequence right right_name) (\<lambda>right_values.
     bind_res (check (length left_values \<noteq> length right_values)
                (ConformalValidationError (left_name @ '' and '' @ right_name @ '' must have equal lengths''))) (\<lambda>_.
     Inr (left_values, right_values))))"

definition cv_ordered_interval :: "pyobj \<Rightarrow> pyobj \<Rightarrow> (f64 \<times> f64) res" where
  "cv_ordered_interval lower upper =
     bind_res (cv_finite lower ''lower'') (\<lambda>low.
     bind_res (cv_finite upper ''upper'') (\<lambda>high.
     bind_res (check (f_lt high low) (ConformalValidationError ''lower cannot be greater than upper'')) (\<lambda>_.
     Inr (low, high))))"

section \<open>The finite-sample quantile\<close>

record QuantileSelection =
  qs_coverage :: f64
  qs_sample_count :: int
  qs_rank :: int
  qs_value :: f64
  qs_policy_version :: string

definition quantile_selection :: "pyobj \<Rightarrow> pyobj \<Rightarrow> pyobj \<Rightarrow> pyobj \<Rightarrow> string \<Rightarrow> QuantileSelection res" where
  "quantile_selection coverage0 sample_count0 rank0 value0 policy_version =
     bind_res (cv_coverage coverage0) (\<lambda>(coverage, coverage_millis).
     bind_res (cv_positive_integer sample_count0 ''sample_count'') (\<lambda>sample_count.
     bind_res (cv_positive_integer rank0 ''rank'') (\<lambda>rank.
     let expected_rank = cv_rank sample_count coverage_millis in
     bind_res (check (expected_rank > sample_count)
                (InsufficientCalibrationData ''the requested coverage has no finite order statistic for this sample'')) (\<lambda>_.
     bind_res (check (rank \<noteq> expected_rank)
                (ConformalValidationError ''rank does not match the finite-sample policy'')) (\<lambda>_.
     bind_res (cv_finite value0 ''value'') (\<lambda>value.
     bind_res (check (policy_version \<noteq> FINITE_SAMPLE_POLICY_VERSION)
                (ConformalValidationError ''quantile policy_version is not supported'')) (\<lambda>_.
     Inr \<lparr>qs_coverage = coverage, qs_sample_count = sample_count, qs_rank = rank,
          qs_value = value, qs_policy_version = policy_version\<rparr>)))))))"

definition finite_sample_quantile :: "pyobj pyseq \<Rightarrow> pyobj \<Rightarrow> QuantileSelection res" where
  "finite_sample_quantile scores coverage =
     bind_res (cv_finite_sequence scores ''scores'') (\<lambda>normalized.
     bind_res (cv_coverage coverage) (\<lambda>(canonical_coverage, coverage_millis).
     let rank = cv_rank (int (length normalized)) coverage_millis in
     bind_res (check (rank > int (length normalized))
                (InsufficientCalibrationData ''the requested coverage has no finite order statistic for this sample'')) (\<lambda>_.
     let value = sort_key f_key normalized ! nat (rank - 1) in
     quantile_selection (PyFloat canonical_coverage) (PyInt (int (length normalized))) (PyInt rank)
       (PyFloat value) FINITE_SAMPLE_POLICY_VERSION)))"

section \<open>Absolute residuals\<close>

record AbsoluteResidualCalibration =
  ar_selection :: QuantileSelection
  ar_policy_version :: string

definition absolute_residual_calibration :: "QuantileSelection pyarg \<Rightarrow> string \<Rightarrow> AbsoluteResidualCalibration res" where
  "absolute_residual_calibration selection0 policy_version =
     (case selection0 of
        Foreign \<Rightarrow> Inl (TypeErr ''selection must be a QuantileSelection'')
      | Inst selection \<Rightarrow>
          bind_res (check (f_lt (qs_value selection) f_zero)
                     (ConformalValidationError ''absolute-residual radius cannot be negative'')) (\<lambda>_.
          bind_res (check (policy_version \<noteq> ABSOLUTE_RESIDUAL_POLICY_VERSION)
                     (ConformalValidationError ''absolute-residual policy_version is not supported'')) (\<lambda>_.
          Inr \<lparr>ar_selection = selection, ar_policy_version = policy_version\<rparr>)))"

definition ar_interval :: "AbsoluteResidualCalibration \<Rightarrow> pyobj \<Rightarrow> (f64 \<times> f64) res" where
  "ar_interval self point =
     bind_res (cv_finite point ''point'') (\<lambda>center.
     let radius = qs_value (ar_selection self) in
     bind_res (cv_finite_result (f_sub center radius) ''absolute-residual lower bound'') (\<lambda>lower.
     bind_res (cv_finite_result (f_add center radius) ''absolute-residual upper bound'') (\<lambda>upper.
     Inr (lower, upper))))"

definition ar_score :: "f64 \<times> f64 \<Rightarrow> f64 res" where
  "ar_score = (\<lambda>(observed, predicted).
     bind_res (cv_finite_result (f_sub observed predicted) ''absolute residual'') (\<lambda>d. Inr (f_abs d)))"

definition absolute_residual_scores :: "pyobj pyseq \<Rightarrow> pyobj pyseq \<Rightarrow> f64 list res" where
  "absolute_residual_scores actual point =
     bind_res (cv_paired actual point ''actual'' ''point'') (\<lambda>(actual_values, point_values).
     map_res ar_score (zip actual_values point_values))"

definition fit_absolute_residual :: "pyobj pyseq \<Rightarrow> pyobj pyseq \<Rightarrow> pyobj \<Rightarrow> AbsoluteResidualCalibration res" where
  "fit_absolute_residual actual point coverage =
     bind_res (absolute_residual_scores actual point) (\<lambda>scores.
     bind_res (finite_sample_quantile (Seq (map PyFloat scores)) coverage) (\<lambda>selection.
     absolute_residual_calibration (Inst selection) ABSOLUTE_RESIDUAL_POLICY_VERSION))"

section \<open>Signed CQR\<close>

record CQRCalibration =
  cqr_selection :: QuantileSelection
  cqr_policy_version :: string

definition cqr_calibration :: "QuantileSelection pyarg \<Rightarrow> string \<Rightarrow> CQRCalibration res" where
  "cqr_calibration selection0 policy_version =
     (case selection0 of
        Foreign \<Rightarrow> Inl (TypeErr ''selection must be a QuantileSelection'')
      | Inst selection \<Rightarrow>
          bind_res (check (policy_version \<noteq> CQR_POLICY_VERSION)
                     (ConformalValidationError ''CQR policy_version is not supported'')) (\<lambda>_.
          Inr \<lparr>cqr_selection = selection, cqr_policy_version = policy_version\<rparr>))"

definition cqr_interval :: "CQRCalibration \<Rightarrow> pyobj \<Rightarrow> pyobj \<Rightarrow> (f64 \<times> f64) res" where
  "cqr_interval self lower upper =
     bind_res (cv_ordered_interval lower upper) (\<lambda>(raw_lower, raw_upper).
     let correction = qs_value (cqr_selection self) in
     bind_res (cv_finite_result (f_sub raw_lower correction) ''CQR lower bound'') (\<lambda>calibrated_lower.
     bind_res (cv_finite_result (f_add raw_upper correction) ''CQR upper bound'') (\<lambda>calibrated_upper.
     bind_res (check (f_lt calibrated_upper calibrated_lower)
                (ConformalValidationError ''signed CQR correction produces an empty interval'')) (\<lambda>_.
     Inr (calibrated_lower, calibrated_upper)))))"

definition cqr_score :: "f64 \<times> f64 \<times> f64 \<Rightarrow> f64 res" where
  "cqr_score = (\<lambda>(observed, low, high).
     bind_res (check (f_lt high low) (ConformalValidationError ''lower cannot be greater than upper'')) (\<lambda>_.
     bind_res (cv_finite_result (f_sub low observed) ''CQR lower score'') (\<lambda>below.
     bind_res (cv_finite_result (f_sub observed high) ''CQR upper score'') (\<lambda>above.
     Inr (f_max below above)))))"

definition cqr_scores :: "pyobj pyseq \<Rightarrow> pyobj pyseq \<Rightarrow> pyobj pyseq \<Rightarrow> f64 list res" where
  "cqr_scores actual lower upper =
     bind_res (cv_finite_sequence actual ''actual'') (\<lambda>actual_values.
     bind_res (cv_finite_sequence lower ''lower'') (\<lambda>lower_values.
     bind_res (cv_finite_sequence upper ''upper'') (\<lambda>upper_values.
     bind_res (check (\<not> (length actual_values = length lower_values \<and> length lower_values = length upper_values))
                (ConformalValidationError ''actual, lower, and upper must have equal lengths'')) (\<lambda>_.
     map_res cqr_score (zip actual_values (zip lower_values upper_values))))))"

definition fit_cqr :: "pyobj pyseq \<Rightarrow> pyobj pyseq \<Rightarrow> pyobj pyseq \<Rightarrow> pyobj \<Rightarrow> CQRCalibration res" where
  "fit_cqr actual lower upper coverage =
     bind_res (cqr_scores actual lower upper) (\<lambda>scores.
     bind_res (finite_sample_quantile (Seq (map PyFloat scores)) coverage) (\<lambda>selection.
     cqr_calibration (Inst selection) CQR_POLICY_VERSION))"

definition interval_missed :: "pyobj \<Rightarrow> pyobj \<Rightarrow> pyobj \<Rightarrow> bool res" where
  "interval_missed actual lower upper =
     bind_res (cv_finite actual ''actual'') (\<lambda>observed.
     bind_res (cv_ordered_interval lower upper) (\<lambda>(low, high).
     Inr (\<not> (f_le low observed \<and> f_le observed high))))"

section \<open>The projected ACI recurrence\<close>

record ACIState =
  aci_target :: f64
  aci_current :: f64
  aci_learning_rate :: f64
  aci_minimum :: f64
  aci_maximum :: f64
  aci_update_count :: int
  aci_miss_count :: int
  aci_algorithm_version :: string

definition aci_state :: "pyobj \<Rightarrow> pyobj \<Rightarrow> pyobj \<Rightarrow> pyobj \<Rightarrow> pyobj \<Rightarrow> pyobj \<Rightarrow> pyobj \<Rightarrow> string \<Rightarrow> ACIState res" where
  "aci_state target0 current0 learning_rate0 minimum0 maximum0 update_count0 miss_count0 algorithm_version =
     bind_res (cv_open_probability target0 ''target_miscoverage'') (\<lambda>target.
     bind_res (cv_open_probability current0 ''current_miscoverage'') (\<lambda>current.
     bind_res (cv_positive_finite learning_rate0 ''learning_rate'') (\<lambda>learning_rate.
     bind_res (cv_open_probability minimum0 ''minimum_miscoverage'') (\<lambda>minimum.
     bind_res (cv_open_probability maximum0 ''maximum_miscoverage'') (\<lambda>maximum.
     bind_res (check (\<not> (f_le minimum target \<and> f_le target maximum))
                (ConformalValidationError ''target_miscoverage must be within the projection bounds'')) (\<lambda>_.
     bind_res (check (\<not> (f_le minimum current \<and> f_le current maximum))
                (ConformalValidationError ''current_miscoverage must be within the projection bounds'')) (\<lambda>_.
     bind_res (cv_nonnegative_integer update_count0 ''update_count'') (\<lambda>updates.
     bind_res (cv_nonnegative_integer miss_count0 ''miss_count'') (\<lambda>misses.
     bind_res (check (misses > updates) (ConformalValidationError ''miss_count cannot exceed update_count'')) (\<lambda>_.
     bind_res (check (algorithm_version \<noteq> ACI_POLICY_VERSION)
                (ConformalValidationError ''ACI algorithm_version is not supported'')) (\<lambda>_.
     Inr \<lparr>aci_target = target, aci_current = current, aci_learning_rate = learning_rate,
          aci_minimum = minimum, aci_maximum = maximum, aci_update_count = updates,
          aci_miss_count = misses, aci_algorithm_version = algorithm_version\<rparr>)))))))))))"

definition aci_transition :: "ACIState pyarg \<Rightarrow> pyobj \<Rightarrow> ACIState res" where
  "aci_transition state0 missed0 =
     (case state0 of
        Foreign \<Rightarrow> Inl (TypeErr ''state must be an ACIState'')
      | Inst state \<Rightarrow>
          (case missed0 of
             PyBool missed \<Rightarrow>
               let error = (if missed then f_one else f_zero) in
               bind_res (cv_finite_result (f_mul (aci_learning_rate state) (f_sub (aci_target state) error)) ''ACI update'') (\<lambda>delta.
               bind_res (cv_finite_result (f_add (aci_current state) delta) ''ACI update'') (\<lambda>raw.
               let projected = f_min (aci_maximum state) (f_max (aci_minimum state) raw) in
               aci_state (PyFloat (aci_target state)) (PyFloat projected) (PyFloat (aci_learning_rate state))
                 (PyFloat (aci_minimum state)) (PyFloat (aci_maximum state))
                 (PyInt (aci_update_count state + 1))
                 (PyInt (aci_miss_count state + (if missed then 1 else 0)))
                 (aci_algorithm_version state)))
           | _ \<Rightarrow> Inl (TypeErr ''missed must be a bool'')))"

text \<open>A run of the recurrence over the outcomes in their fixed order.\<close>

fun aci_run :: "ACIState \<Rightarrow> bool list \<Rightarrow> ACIState res" where
  "aci_run st [] = Inr st"
| "aci_run st (m # ms) = bind_res (aci_transition (Inst st) (PyBool m)) (\<lambda>st'. aci_run st' ms)"

lemma cv_finite_Inr_iff:
  "cv_finite v n = Inr x \<longleftrightarrow> real_float v = Some (Inr x) \<and> f_isfinite x"
  by (auto simp: cv_finite_def split: option.splits sum.splits)

lemma cv_finite_float [simp]: "f_isfinite x \<Longrightarrow> cv_finite (PyFloat x) n = Inr x"
  by (simp add: cv_finite_Inr_iff real_float_def)

end
