(* ===== verification/ConformalLaws.thy ===== *)
theory ConformalLaws
  imports Conformal
begin

text \<open>
  What the conformal kernels guarantee.  A canonical coverage survives its own
  re-validation, so the quantile selector returns exactly when the rank exists;
  what it returns is the order statistic that finite-sample coverage needs; the
  projected recurrence keeps a valid state valid through any sequence of
  outcomes and never raises on one.
\<close>

section \<open>Scalars\<close>

lemma cv_finite_seq_Inr:
  assumes "cv_finite_sequence s n = Inr xs"
  shows "xs \<noteq> []" and "x \<in> set xs \<Longrightarrow> f_isfinite x"
  using assms by (auto simp: cv_finite_sequence_def cv_finite_Inr_iff split: pyseq.splits
      elim!: bind_res_InrE map_res_in split: if_splits)

lemma cv_finite_sequence_floats:
  assumes "xs \<noteq> []" and "\<forall>x \<in> set xs. f_isfinite x"
  shows "cv_finite_sequence (Seq (map PyFloat xs)) n = Inr xs"
proof -
  have "map_res (\<lambda>v. cv_finite v n) (map PyFloat xs) = Inr xs"
    using assms(2) by (induction xs) simp_all
  with assms(1) show ?thesis by (simp add: cv_finite_sequence_def)
qed

lemma cv_finite_result_Inr_iff: "cv_finite_result x n = Inr y \<longleftrightarrow> y = x \<and> f_isfinite x"
  by (auto simp: cv_finite_result_def)

section \<open>Canonical coverages\<close>

lemma thousand_facts: "f_isfinite cv_thousand" "fval cv_thousand = 1000"
proof -
  have i: "f_idx cv_thousand = 4652007308841189376" "\<not> f_isneg cv_thousand"
    by (simp_all add: cv_thousand_def f_idx_def f_isneg_def)
  show "f_isfinite cv_thousand" by (simp add: f_isfinite_def i inf_idx_def)
  show "fval cv_thousand = 1000"
    by (simp add: fval_def i mval_def f_man_def f_ex_def power_int_def power_one_over)
qed

lemma coverage_ratio:
  assumes m: "1 \<le> m" "m \<le> 999" and c: "f_of_ratio m COVERAGE_SCALE = Inr c"
  shows "f_isfinite c" and "0 < fval c" and "fval c < 1" and "\<bar>fval c - of_int m / 1000\<bar> \<le> 2 powi (- 54)"
proof -
  let ?x = "of_int m / 1000 :: real"
  have x: "0 < ?x" "?x < 2 powi 0" using m by simp_all
  have "(1::real) \<le> 2 powi 1000" by simp
  moreover have "?x < 1" using x(2) by simp
  ultimately have "?x \<le> top_val" using top_val_big by linarith
  then have r: "rmag ?x < inf_idx" by (rule rmag_small)
  have c': "c = f_pack False (rmag ?x)"
    using c m r f_of_ratio_pos [of m 1000] by (simp add: COVERAGE_SCALE_def)
  show "f_isfinite c" unfolding c' by (rule pack_rmag_facts [OF r])
  have e: "\<bar>fval c - ?x\<bar> \<le> 2 powi (- 54)"
    using rmag_error [OF x _ r] pack_rmag_facts(3) [OF r] by (simp add: c')
  then show "\<bar>fval c - ?x\<bar> \<le> 2 powi (- 54)" .
  have "(2::real) powi (- 54) < 1 / 1000" by (simp add: power_int_def power_one_over)
  moreover have "1 / 1000 \<le> ?x" "?x \<le> 999 / 1000" using m by simp_all
  ultimately show "0 < fval c" "fval c < 1" using e by linarith+
qed

lemma coverage_millis:
  assumes m: "1 \<le> m" "m \<le> 999" and c: "f_of_ratio m COVERAGE_SCALE = Inr c"
  shows "f_round (f_mul c cv_thousand) = m"
proof -
  note r = coverage_ratio [OF m c]
  let ?p = "fval c * 1000" and ?y = "f_mul c cv_thousand"
  have p: "0 < ?p" "?p < 2 powi 10" using r by simp_all
  have "(2::real) powi 10 \<le> 2 powi 1000" by (intro power_int_increasing) simp_all
  then have "?p \<le> top_val" using p(2) top_val_big by linarith
  then have f: "rmag ?p < inf_idx" by (rule rmag_small)
  have k: "f_key ?y = rkey ?p" using f_key_mul [OF r(1) thousand_facts(1)] by (simp add: thousand_facts)
  have v: "fval ?y = mval (rmag ?p)" using rkey_inv [OF k] p(1) by simp
  have "\<bar>mval (rmag ?p) - ?p\<bar> \<le> 2 powi (- 44)" using rmag_error [OF p _ f] by simp
  moreover have "\<bar>?p - of_int m\<bar> \<le> 1000 * 2 powi (- 54)" using r(4) by linarith
  moreover have "(2::real) powi (- 44) < 1 / 4" "1000 * (2::real) powi (- 54) < 1 / 4"
    by (simp_all add: power_int_def power_one_over)
  ultimately have "\<bar>fval ?y - of_int m\<bar> < 1 / 2" unfolding v by linarith
  then show ?thesis unfolding f_round_fval by (rule rh_close)
qed

lemma canonical_coverage:
  assumes m: "1 \<le> m" "m \<le> 999" and c: "f_of_ratio m COVERAGE_SCALE = Inr c"
  shows "cv_coverage (PyFloat c) = Inr (c, m)"
proof -
  note r = coverage_ratio [OF m c]
  have "f_key (f_abs (f_sub c c)) = 0" using f_key_sub [OF r(1) r(1)] by simp
  moreover have "f_isfinite (f_sub c c)" using f_key_sub [OF r(1) r(1)] by (simp add: f_isfinite_key inf_idx_def)
  moreover have "f_isfinite COVERAGE_TOLERANCE" "0 < f_key COVERAGE_TOLERANCE"
    by (simp_all add: f_isfinite_def f_key_def f_isneg_def f_idx_def COVERAGE_TOLERANCE_def inf_idx_def)
  ultimately have t: "\<not> f_lt COVERAGE_TOLERANCE (f_abs (f_sub c c))" by (simp add: f_lt_key)
  have l: "f_lt f_zero c" "f_lt c f_one" using r by (simp_all add: f_lt_fval)
  show ?thesis using r(1) t l m by (simp add: cv_coverage_def coverage_millis [OF m c] c)
qed

lemma cv_coverage_Inr:
  assumes "cv_coverage v = Inr (c, m)"
  shows "1 \<le> m" and "m \<le> 999" and "f_of_ratio m COVERAGE_SCALE = Inr c"
  using assms by (auto simp: cv_coverage_def Let_def bind_res_Inr_iff split: if_splits)

section \<open>The order statistic\<close>

lemma cv_rank_iff: "cv_rank n m \<le> r \<longleftrightarrow> (n + 1) * m \<le> 1000 * r"
  unfolding cv_rank_def COVERAGE_SCALE_def by linarith

lemma cv_rank_pos: "0 \<le> n \<Longrightarrow> 1 \<le> m \<Longrightarrow> 1 \<le> cv_rank n m"
  using cv_rank_iff [of n m 0] mult_pos_pos [of "n + 1" m] by linarith

lemma quantile_selection_canonical:
  assumes "cv_coverage v = Inr (c, m)" and "1 \<le> n" and "cv_rank n m \<le> n" and "f_isfinite x"
  shows "quantile_selection (PyFloat c) (PyInt n) (PyInt (cv_rank n m)) (PyFloat x) FINITE_SAMPLE_POLICY_VERSION
    = Inr \<lparr>qs_coverage = c, qs_sample_count = n, qs_rank = cv_rank n m, qs_value = x,
           qs_policy_version = FINITE_SAMPLE_POLICY_VERSION\<rparr>"
  using assms canonical_coverage [OF cv_coverage_Inr [OF assms(1)]] cv_rank_pos [of n m] cv_coverage_Inr(1) [OF assms(1)]
  by (simp add: quantile_selection_def cv_positive_integer_def integral_def Let_def)

definition order_stat :: "f64 list \<Rightarrow> int \<Rightarrow> f64" where
  "order_stat xs r = sort_key f_key xs ! nat (r - 1)"

lemma order_stat_in:
  assumes "1 \<le> r" and "r \<le> int (length xs)"
  shows "order_stat xs r \<in> set xs"
proof -
  have "nat (r - 1) < length (sort_key f_key xs)" using assms by simp
  then have "sort_key f_key xs ! nat (r - 1) \<in> set (sort_key f_key xs)" by (rule nth_mem)
  then show ?thesis by (simp add: order_stat_def)
qed

lemma finite_sample_quantile_eval:
  assumes "cv_finite_sequence s ''scores'' = Inr xs" and "cv_coverage v = Inr (c, m)"
  shows "finite_sample_quantile s v =
    (if cv_rank (int (length xs)) m > int (length xs)
     then Inl (InsufficientCalibrationData ''the requested coverage has no finite order statistic for this sample'')
     else Inr \<lparr>qs_coverage = c, qs_sample_count = int (length xs), qs_rank = cv_rank (int (length xs)) m,
               qs_value = order_stat xs (cv_rank (int (length xs)) m),
               qs_policy_version = FINITE_SAMPLE_POLICY_VERSION\<rparr>)"
proof (cases "cv_rank (int (length xs)) m > int (length xs)")
  case True
  then show ?thesis using assms by (simp add: finite_sample_quantile_def Let_def)
next
  case False
  let ?n = "int (length xs)"
  have n: "1 \<le> ?n" using cv_finite_seq_Inr(1) [OF assms(1)] by (cases xs) simp_all
  have r: "1 \<le> cv_rank ?n m" using cv_rank_pos [of ?n m] cv_coverage_Inr(1) [OF assms(2)] by simp
  have "f_isfinite (order_stat xs (cv_rank ?n m))"
    using order_stat_in [OF r] False cv_finite_seq_Inr(2) [OF assms(1)] by simp
  then show ?thesis
    using assms False quantile_selection_canonical [OF assms(2) n] by (simp add: finite_sample_quantile_def Let_def order_stat_def)
qed

text \<open>At least \<open>r\<close> of the scores are at most the \<open>r\<close>-th smallest, fewer than \<open>r\<close> are below it.\<close>

lemma sorted_nth_count:
  fixes f :: "'a \<Rightarrow> 'b::linorder"
  assumes "sorted (map f ys)" and "k < length ys"
  shows "k + 1 \<le> length (filter (\<lambda>x. f x \<le> f (ys ! k)) ys)"
    and "length (filter (\<lambda>x. f x < f (ys ! k)) ys) \<le> k"
proof -
  have s: "f (ys ! i) \<le> f (ys ! j)" if "i \<le> j" "j < length ys" for i j
    using sorted_nth_mono [OF assms(1) that(1)] that by simp
  have "{..k} \<subseteq> {i. i < length ys \<and> f (ys ! i) \<le> f (ys ! k)}" using s assms(2) by auto
  then have "card {..k} \<le> card {i. i < length ys \<and> f (ys ! i) \<le> f (ys ! k)}" by (intro card_mono) simp_all
  then show "k + 1 \<le> length (filter (\<lambda>x. f x \<le> f (ys ! k)) ys)" by (simp add: length_filter_conv_card)
  have "{i. i < length ys \<and> f (ys ! i) < f (ys ! k)} \<subseteq> {..<k}"
    using s [of k] by (force simp: linorder_not_le [symmetric])
  then have "card {i. i < length ys \<and> f (ys ! i) < f (ys ! k)} \<le> card {..<k}" by (intro card_mono) simp_all
  then show "length (filter (\<lambda>x. f x < f (ys ! k)) ys) \<le> k" by (simp add: length_filter_conv_card)
qed

lemma order_stat_counts:
  assumes "1 \<le> r" and "r \<le> int (length xs)"
  shows "r \<le> int (length (filter (\<lambda>x. f_key x \<le> f_key (order_stat xs r)) xs))"
    and "int (length (filter (\<lambda>x. f_key x < f_key (order_stat xs r)) xs)) < r"
proof -
  let ?ys = "sort_key f_key xs"
  have k: "nat (r - 1) < length ?ys" using assms by simp
  have p: "length (filter P ?ys) = length (filter P xs)" for P
    by (metis mset_filter mset_sort size_mset)
  note c = sorted_nth_count [of f_key ?ys, OF _ k]
  show "r \<le> int (length (filter (\<lambda>x. f_key x \<le> f_key (order_stat xs r)) xs))"
    using c(1) assms by (simp add: p order_stat_def)
  show "int (length (filter (\<lambda>x. f_key x < f_key (order_stat xs r)) xs)) < r"
    using c(2) assms by (simp add: p order_stat_def)
qed

lemma map_sort_key: "map f (sort_key f xs) = sort (map f xs)"
  by (rule properties_for_sort [symmetric]) simp_all

lemma order_stat_perm:
  assumes "mset xs = mset ys" and "1 \<le> r" and "r \<le> int (length xs)"
  shows "f_key (order_stat xs r) = f_key (order_stat ys r)"
proof -
  have l: "length xs = length ys" using assms(1) by (rule mset_eq_length)
  have "sort (map f_key xs) = sort (map f_key ys)"
    by (rule properties_for_sort) (simp_all add: assms(1))
  then have "map f_key (sort_key f_key xs) ! nat (r - 1) = map f_key (sort_key f_key ys) ! nat (r - 1)"
    by (simp add: map_sort_key)
  then show ?thesis using assms(2,3) l by (simp add: order_stat_def)
qed

section \<open>Intervals\<close>

lemma cv_ordered_interval_Inr:
  assumes "cv_ordered_interval lower upper = Inr (lo, hi)"
  shows "f_isfinite lo" and "f_isfinite hi" and "f_key lo \<le> f_key hi"
  using assms by (auto simp: cv_ordered_interval_def bind_res_Inr_iff cv_finite_Inr_iff f_lt_key split: if_splits)

lemma quantile_value_finite:
  assumes "finite_sample_quantile s v = Inr sel"
  obtains xs c m where "cv_finite_sequence s ''scores'' = Inr xs" and "cv_coverage v = Inr (c, m)"
    and "cv_rank (int (length xs)) m \<le> int (length xs)"
    and "sel = \<lparr>qs_coverage = c, qs_sample_count = int (length xs), qs_rank = cv_rank (int (length xs)) m,
               qs_value = order_stat xs (cv_rank (int (length xs)) m),
               qs_policy_version = FINITE_SAMPLE_POLICY_VERSION\<rparr>"
    and "f_isfinite (qs_value sel)"
proof -
  obtain xs where xs: "cv_finite_sequence s ''scores'' = Inr xs"
    using assms unfolding finite_sample_quantile_def by (elim bind_res_InrE)
  obtain p where p: "cv_coverage v = Inr p"
    using assms xs unfolding finite_sample_quantile_def by (auto elim: bind_res_InrE)
  obtain c m where cm: "p = (c, m)" by (cases p)
  note p = p [unfolded cm]
  note e = finite_sample_quantile_eval [OF xs p]
  have r: "cv_rank (int (length xs)) m \<le> int (length xs)" using assms e by (auto split: if_splits)
  have r1: "1 \<le> cv_rank (int (length xs)) m"
    using cv_rank_pos [of "int (length xs)" m] cv_coverage_Inr(1) [OF p] by simp
  show ?thesis
    using that [OF xs p r] e assms r order_stat_in [OF r1 r] cv_finite_seq_Inr(2) [OF xs] by auto
qed

lemma absolute_scores_nonneg:
  assumes "absolute_residual_scores a p = Inr xs" and "x \<in> set xs"
  shows "f_isfinite x" and "0 \<le> f_key x"
proof -
  obtain pr where "(case pr of (actual_values, point_values) \<Rightarrow> map_res ar_score (zip actual_values point_values)) = Inr xs"
    using assms(1) unfolding absolute_residual_scores_def by (rule bind_res_InrE)
  then have "map_res ar_score (zip (fst pr) (snd pr)) = Inr xs" by (simp add: case_prod_beta)
  then obtain q where "ar_score q = Inr x" using assms(2) by (rule map_res_in)
  then show "f_isfinite x" "0 \<le> f_key x"
    by (auto simp: ar_score_def cv_finite_result_Inr_iff bind_res_Inr_iff split: prod.splits)
qed

lemma fitted_radius:
  assumes "fit_absolute_residual a p cov = Inr cal"
  shows "f_isfinite (qs_value (ar_selection cal))" and "0 \<le> f_key (qs_value (ar_selection cal))"
proof -
  obtain scores where "absolute_residual_scores a p = Inr scores"
    and b: "bind_res (finite_sample_quantile (Seq (map PyFloat scores)) cov)
      (\<lambda>sel. absolute_residual_calibration (Inst sel) ABSOLUTE_RESIDUAL_POLICY_VERSION) = Inr cal"
    using assms unfolding fit_absolute_residual_def by (rule bind_res_InrE)
  from b obtain sel where q: "finite_sample_quantile (Seq (map PyFloat scores)) cov = Inr sel"
    and c: "absolute_residual_calibration (Inst sel) ABSOLUTE_RESIDUAL_POLICY_VERSION = Inr cal"
    by (rule bind_res_InrE)
  have cal: "ar_selection cal = sel" "\<not> f_lt (qs_value sel) f_zero"
    using c by (auto simp: absolute_residual_calibration_def split: if_splits)
  have f: "f_isfinite (qs_value sel)" by (rule quantile_value_finite [OF q])
  then show "f_isfinite (qs_value (ar_selection cal))" "0 \<le> f_key (qs_value (ar_selection cal))"
    using cal by (simp_all add: f_lt_key)
qed

section \<open>The projected recurrence\<close>

definition aci_valid :: "ACIState \<Rightarrow> bool" where
  "aci_valid st \<longleftrightarrow>
     (\<forall>x \<in> {aci_target st, aci_current st, aci_minimum st, aci_maximum st}.
        f_isfinite x \<and> 0 < f_key x \<and> f_key x < f_key f_one) \<and>
     f_isfinite (aci_learning_rate st) \<and> 0 < f_key (aci_learning_rate st) \<and>
     f_key (aci_minimum st) \<le> f_key (aci_target st) \<and> f_key (aci_target st) \<le> f_key (aci_maximum st) \<and>
     f_key (aci_minimum st) \<le> f_key (aci_current st) \<and> f_key (aci_current st) \<le> f_key (aci_maximum st) \<and>
     0 \<le> aci_miss_count st \<and> aci_miss_count st \<le> aci_update_count st \<and>
     aci_algorithm_version st = ACI_POLICY_VERSION"

lemma cv_open_probability_Inr_iff:
  "cv_open_probability v n = Inr x \<longleftrightarrow>
     cv_finite v n = Inr x \<and> 0 < f_key x \<and> f_key x < f_key f_one"
proof -
  have "f_lt f_zero x \<and> f_lt x f_one \<longleftrightarrow> 0 < f_key x \<and> f_key x < f_key f_one" if "f_isfinite x" for x
    using that by (simp add: f_lt_key)
  then show ?thesis
    by (cases "cv_finite v n") (auto simp: cv_open_probability_def dest: cv_finite_Inr_iff [THEN iffD1])
qed

lemma cv_positive_finite_Inr_iff:
  "cv_positive_finite v n = Inr x \<longleftrightarrow> cv_finite v n = Inr x \<and> 0 < f_key x"
proof -
  have "f_le x f_zero \<longleftrightarrow> \<not> 0 < f_key x" if "f_isfinite x" for x
    using that by (auto simp: f_le_key)
  then show ?thesis
    by (cases "cv_finite v n") (auto simp: cv_positive_finite_def dest: cv_finite_Inr_iff [THEN iffD1])
qed

lemma cv_nonnegative_integer_Inr_iff:
  "cv_nonnegative_integer v n = Inr i \<longleftrightarrow> v = PyInt i \<and> 0 \<le> i"
  by (auto simp: cv_nonnegative_integer_def integral_def split: pyobj.splits)

lemma aci_state_valid:
  assumes "aci_state a b c d e f g ver = Inr st"
  shows "aci_valid st"
proof -
  from assms obtain target current lr minimum maximum updates misses where
    o: "cv_open_probability a ''target_miscoverage'' = Inr target"
       "cv_open_probability b ''current_miscoverage'' = Inr current"
       "cv_open_probability d ''minimum_miscoverage'' = Inr minimum"
       "cv_open_probability e ''maximum_miscoverage'' = Inr maximum"
    and l: "cv_positive_finite c ''learning_rate'' = Inr lr"
    and le: "f_le minimum target" "f_le target maximum" "f_le minimum current" "f_le current maximum"
    and n: "cv_nonnegative_integer f ''update_count'' = Inr updates"
       "cv_nonnegative_integer g ''miss_count'' = Inr misses" "\<not> misses > updates"
    and v: "ver = ACI_POLICY_VERSION"
    and st: "st = \<lparr>aci_target = target, aci_current = current, aci_learning_rate = lr,
          aci_minimum = minimum, aci_maximum = maximum, aci_update_count = updates,
          aci_miss_count = misses, aci_algorithm_version = ver\<rparr>"
    unfolding aci_state_def by (elim bind_check_InrE bind_res_InrE) (drule Inr_inject, blast)
  note o = o [unfolded cv_open_probability_Inr_iff cv_finite_Inr_iff]
  note l = l [unfolded cv_positive_finite_Inr_iff cv_finite_Inr_iff]
  show ?thesis
    using o l le n v unfolding st aci_valid_def cv_nonnegative_integer_Inr_iff by (simp add: f_le_key)
qed

lemma aci_valid_state:
  assumes "aci_valid st"
  shows "aci_state (PyFloat (aci_target st)) (PyFloat (aci_current st)) (PyFloat (aci_learning_rate st))
     (PyFloat (aci_minimum st)) (PyFloat (aci_maximum st)) (PyInt (aci_update_count st))
     (PyInt (aci_miss_count st)) (aci_algorithm_version st) = Inr st"
proof -
  have o: "cv_open_probability (PyFloat x) n = Inr x" if "f_isfinite x \<and> 0 < f_key x \<and> f_key x < f_key f_one" for x n
    using that by (simp add: cv_open_probability_Inr_iff)
  have l: "cv_positive_finite (PyFloat x) n = Inr x" if "f_isfinite x" "0 < f_key x" for x n
    using that by (simp add: cv_positive_finite_Inr_iff)
  have n: "cv_nonnegative_integer (PyInt i) n = Inr i" if "0 \<le> i" for i n
    using that by (simp add: cv_nonnegative_integer_Inr_iff)
  show ?thesis
    using assms unfolding aci_valid_def aci_state_def by (simp add: o l n f_le_key)
qed

lemma f_key_le_0_mul:
  assumes "f_isfinite a" and "f_isfinite b" and "0 \<le> fval a" and "f_key y = rkey (fval a * fval b)"
  shows "fval b \<le> 0 \<Longrightarrow> f_key y \<le> 0" and "0 \<le> fval b \<Longrightarrow> 0 \<le> f_key y"
  using assms rkey_mono [of "fval a * fval b" 0] rkey_mono [of 0 "fval a * fval b"]
  by (simp_all add: mult_nonneg_nonpos)

lemma aci_step:
  assumes v: "aci_valid st"
  obtains st' where "aci_transition (Inst st) (PyBool m) = Inr st'" and "aci_valid st'"
    and "aci_target st' = aci_target st" and "aci_learning_rate st' = aci_learning_rate st"
    and "aci_minimum st' = aci_minimum st" and "aci_maximum st' = aci_maximum st"
    and "aci_update_count st' = aci_update_count st + 1"
    and "aci_miss_count st' = aci_miss_count st + (if m then 1 else 0)"
    and "if m then f_key (aci_current st') \<le> f_key (aci_current st)
         else f_key (aci_current st) \<le> f_key (aci_current st')"
proof -
  let ?t = "aci_target st" and ?c = "aci_current st" and ?g = "aci_learning_rate st"
  let ?e = "if m then f_one else f_zero"
  have f: "f_isfinite ?t" "f_isfinite ?c" "f_isfinite ?g" "f_isfinite (aci_minimum st)" "f_isfinite (aci_maximum st)"
    using v by (simp_all add: aci_valid_def)
  have e: "f_isfinite ?e" "fval ?e = (if m then 1 else 0)" by simp_all
  have t: "0 < fval ?t" "fval ?t < 1" and c: "0 < fval ?c" "fval ?c < 1" and g: "0 < fval ?g"
    using v f fval_sign f_lt_fval [of _ f_one] by (simp_all add: aci_valid_def f_lt_key)
  have top: "1 \<le> top_val" using top_val_big by (rule order_trans [rotated]) simp
  define s where "s = f_sub ?t ?e"
  have sk: "f_key s = rkey (fval ?t - fval ?e)" unfolding s_def by (rule f_key_sub [OF f(1) e(1)])
  have s: "f_isfinite s" unfolding f_isfinite_key sk by (rule rkey_finite) (use t e top in auto)
  have s1: "fval s \<le> 1" "- 1 \<le> fval s"
  proof -
    have "f_key s \<le> f_key f_one" unfolding sk by (rule rkey_le_key) (use t e in auto)
    then show "fval s \<le> 1" using fval_le_iff [OF s f_one_facts(1)] by simp
    have "f_key (f_neg f_one) \<le> f_key s" unfolding sk by (rule key_le_rkey) (use t e in auto)
    then show "- 1 \<le> fval s" using fval_le_iff [of "f_neg f_one" s] s by simp
  qed
  have ss: "if m then fval s \<le> 0 else 0 \<le> fval s"
    using fval_sign [OF s] rkey_mono [of "fval ?t - fval ?e" 0] rkey_mono [of 0 "fval ?t - fval ?e"] sk t e by auto
  define d where "d = f_mul ?g s"
  have dk: "f_key d = rkey (fval ?g * fval s)" unfolding d_def by (rule f_key_mul [OF f(3) s])
  have "\<bar>fval ?g * fval s\<bar> \<le> \<bar>fval ?g\<bar> * 1" unfolding abs_mult using s1 by (intro mult_left_mono) auto
  then have d: "f_isfinite d" unfolding f_isfinite_key dk using fval_le_top [OF f(3)] by (intro rkey_finite) simp
  have ds: "if m then f_key d \<le> 0 else 0 \<le> f_key d"
    using f_key_le_0_mul [OF f(3) s _ dk] g ss by (auto split: if_splits)
  define r where "r = f_add ?c d"
  have rk: "f_key r = rkey (fval ?c + fval d)" unfolding r_def by (rule f_key_add [OF f(2) d])
  have r: "f_isfinite r" unfolding f_isfinite_key rk using fval_le_top [OF d] c by (intro rkey_finite) linarith
  have rs: "if m then f_key r \<le> f_key ?c else f_key ?c \<le> f_key r"
    using f_key_shift [OF f(2) d] ds by (simp add: r_def split: if_splits)
  define p where "p = f_min (aci_maximum st) (f_max (aci_minimum st) r)"
  have p: "f_isfinite p" "f_key p = min (f_key (aci_maximum st)) (max (f_key (aci_minimum st)) (f_key r))"
    using f r by (simp_all add: p_def f_key_min f_key_max f_extremum_finite)
  let ?st' = "st\<lparr>aci_current := p, aci_update_count := aci_update_count st + 1,
      aci_miss_count := aci_miss_count st + (if m then 1 else 0)\<rparr>"
  have v': "aci_valid ?st'" using v p by (auto simp: aci_valid_def)
  have "aci_transition (Inst st) (PyBool m) = Inr ?st'"
    using aci_valid_state [OF v'] d r
    by (simp add: aci_transition_def Let_def cv_finite_result_def flip: s_def d_def r_def p_def)
  moreover have "if m then f_key p \<le> f_key ?c else f_key ?c \<le> f_key p"
    using rs p(2) v by (auto simp: aci_valid_def)
  ultimately show ?thesis using v' by (intro that [of ?st']) simp_all
qed

lemma aci_run_steps:
  assumes "aci_valid st"
  obtains st' where "aci_run st ms = Inr st'" and "aci_valid st'"
    and "aci_target st' = aci_target st" and "aci_learning_rate st' = aci_learning_rate st"
    and "aci_minimum st' = aci_minimum st" and "aci_maximum st' = aci_maximum st"
    and "aci_update_count st' = aci_update_count st + int (length ms)"
    and "aci_miss_count st' = aci_miss_count st + int (length (filter (\<lambda>b. b) ms))"
  using assms
proof (induction ms arbitrary: st thesis)
  case Nil
  then show ?case by simp
next
  case (Cons m ms)
  obtain st1 where s1: "aci_transition (Inst st) (PyBool m) = Inr st1" "aci_valid st1"
    "aci_target st1 = aci_target st" "aci_learning_rate st1 = aci_learning_rate st"
    "aci_minimum st1 = aci_minimum st" "aci_maximum st1 = aci_maximum st"
    "aci_update_count st1 = aci_update_count st + 1"
    "aci_miss_count st1 = aci_miss_count st + (if m then 1 else 0)"
    using aci_step [OF Cons.prems(2)] by metis
  obtain st2 where s2: "aci_run st1 ms = Inr st2" "aci_valid st2"
    "aci_target st2 = aci_target st1" "aci_learning_rate st2 = aci_learning_rate st1"
    "aci_minimum st2 = aci_minimum st1" "aci_maximum st2 = aci_maximum st1"
    "aci_update_count st2 = aci_update_count st1 + int (length ms)"
    "aci_miss_count st2 = aci_miss_count st1 + int (length (filter (\<lambda>b. b) ms))"
    using Cons.IH [OF _ s1(2)] by metis
  show ?case using s1 s2 by (intro Cons.prems(1) [of st2]) simp_all
qed

section \<open>Properties\<close>

text \<open>C29. The value a successful selection returns is one of the scores, its rank is the least integer
  \<open>r\<close> with \<open>r >= (n + 1) * coverage\<close>, at least that many scores do not exceed it and fewer are
  strictly below it: the finite-sample coverage guarantee of split conformal prediction, with the coverage
  an exact number of thousandths.\<close>

theorem quantile_is_order_statistic:
  assumes "finite_sample_quantile scores coverage = Inr sel"
  shows "\<exists>xs m. cv_finite_sequence scores ''scores'' = Inr xs \<and> 1 \<le> m \<and> m \<le> 999 \<and>
    f_of_ratio m 1000 = Inr (qs_coverage sel) \<and>
    qs_sample_count sel = int (length xs) \<and> qs_value sel \<in> set xs \<and>
    (int (length xs) + 1) * m \<le> 1000 * qs_rank sel \<and> 1000 * (qs_rank sel - 1) < (int (length xs) + 1) * m \<and>
    (int (length xs) + 1) * m \<le> 1000 * int (length (filter (\<lambda>x. f_le x (qs_value sel)) xs)) \<and>
    1000 * int (length (filter (\<lambda>x. f_lt x (qs_value sel)) xs)) < (int (length xs) + 1) * m"
proof -
  obtain xs c m where xs: "cv_finite_sequence scores ''scores'' = Inr xs" and c: "cv_coverage coverage = Inr (c, m)"
    and r: "cv_rank (int (length xs)) m \<le> int (length xs)"
    and sel: "sel = \<lparr>qs_coverage = c, qs_sample_count = int (length xs), qs_rank = cv_rank (int (length xs)) m,
               qs_value = order_stat xs (cv_rank (int (length xs)) m),
               qs_policy_version = FINITE_SAMPLE_POLICY_VERSION\<rparr>"
    and fin: "f_isfinite (qs_value sel)"
    by (rule quantile_value_finite [OF assms])
  let ?n = "int (length xs)" and ?r = "cv_rank (int (length xs)) m"
  note m = cv_coverage_Inr [OF c]
  have r1: "1 \<le> ?r" using cv_rank_pos [of ?n m] m(1) by simp
  have rk: "(?n + 1) * m \<le> 1000 * ?r" "1000 * (?r - 1) < (?n + 1) * m"
    using cv_rank_iff [of ?n m ?r] cv_rank_iff [of ?n m "?r - 1"] by linarith+
  note fx = cv_finite_seq_Inr(2) [OF xs]
  have le: "filter (\<lambda>x. f_le x (qs_value sel)) xs = filter (\<lambda>x. f_key x \<le> f_key (order_stat xs ?r)) xs"
    "filter (\<lambda>x. f_lt x (qs_value sel)) xs = filter (\<lambda>x. f_key x < f_key (order_stat xs ?r)) xs"
    using fx fin by (auto intro!: filter_cong simp: f_le_key f_lt_key sel)
  note cnt = order_stat_counts [OF r1 r]
  have "qs_value sel \<in> set xs" using order_stat_in [OF r1 r] by (simp add: sel)
  moreover have "(?n + 1) * m \<le> 1000 * int (length (filter (\<lambda>x. f_le x (qs_value sel)) xs))"
    unfolding le using cnt(1) rk(1) by linarith
  moreover have "1000 * int (length (filter (\<lambda>x. f_lt x (qs_value sel)) xs)) < (?n + 1) * m"
    unfolding le using cnt(2) by (intro le_less_trans [OF _ rk(2)]) simp
  ultimately show ?thesis
    using xs m rk by (intro exI [of _ xs] exI [of _ m]) (simp add: sel COVERAGE_SCALE_def)
qed

text \<open>On a validated sample and a canonical coverage the selector returns exactly when the rank
  \<open>ceil((n + 1) * coverage)\<close> exists in the sample; otherwise it refuses with
  \<open>InsufficientCalibrationData\<close>.  No other error is possible: the re-validation of the result never
  rejects what the selector computed.\<close>

theorem quantile_returns_iff_rank_exists:
  assumes "cv_finite_sequence scores ''scores'' = Inr xs" and "cv_coverage coverage = Inr (c, m)"
  shows "if (int (length xs) + 1) * m \<le> 1000 * int (length xs)
    then is_ok (finite_sample_quantile scores coverage)
    else finite_sample_quantile scores coverage =
      Inl (InsufficientCalibrationData ''the requested coverage has no finite order statistic for this sample'')"
  using finite_sample_quantile_eval [OF assms] cv_rank_iff [of "int (length xs)" m "int (length xs)"] by auto

text \<open>Every canonical thousandth survives the coverage validator: the float nearest to
  \<open>m / 1000\<close> is accepted and read back as exactly \<open>m\<close> thousandths.\<close>

theorem coverage_roundtrip:
  assumes "1 \<le> m" and "m \<le> 999"
  shows "\<exists>c. f_of_ratio m 1000 = Inr c \<and> cv_coverage (PyFloat c) = Inr (c, m)"
proof -
  have "of_int m / 1000 \<le> top_val"
    using assms(2) top_val_big order_trans [of "of_int m / 1000" "2 powi 1000"]
      one_le_power_int [of "2::real" 1000] by (simp add: order_trans [of _ 1])
  then obtain c where "f_of_ratio m 1000 = Inr c"
    using f_of_ratio_pos [of m 1000] assms rmag_small by fastforce
  then show ?thesis using canonical_coverage [OF assms] by (auto simp: COVERAGE_SCALE_def)
qed

text \<open>The order in which the scores are supplied does not matter: a permutation of the sample gives a
  selection with the same coverage, count and rank and a numerically equal value.\<close>

theorem quantile_order_independent:
  assumes "mset vs = mset ws" and "finite_sample_quantile (Seq vs) coverage = Inr sel"
  shows "\<exists>sel'. finite_sample_quantile (Seq ws) coverage = Inr sel' \<and> qs_coverage sel' = qs_coverage sel \<and>
    qs_sample_count sel' = qs_sample_count sel \<and> qs_rank sel' = qs_rank sel \<and> f_eq (qs_value sel') (qs_value sel)"
proof -
  obtain xs c m where xs: "cv_finite_sequence (Seq vs) ''scores'' = Inr xs" and c: "cv_coverage coverage = Inr (c, m)"
    and r: "cv_rank (int (length xs)) m \<le> int (length xs)"
    and sel: "sel = \<lparr>qs_coverage = c, qs_sample_count = int (length xs), qs_rank = cv_rank (int (length xs)) m,
               qs_value = order_stat xs (cv_rank (int (length xs)) m),
               qs_policy_version = FINITE_SAMPLE_POLICY_VERSION\<rparr>"
    and fin: "f_isfinite (qs_value sel)"
    by (rule quantile_value_finite [OF assms(2)])
  have mr: "map_res (\<lambda>v. cv_finite v ''scores'') vs = Inr xs" "xs \<noteq> []"
    using xs by (auto simp: cv_finite_sequence_def bind_res_Inr_iff split: if_splits)
  obtain ys where ys: "map_res (\<lambda>v. cv_finite v ''scores'') ws = Inr ys" "mset ys = mset xs"
    using map_res_mset [OF mr(1) assms(1) [symmetric]] by blast
  have l: "length ys = length xs" using ys(2) by (rule mset_eq_length)
  have ws: "cv_finite_sequence (Seq ws) ''scores'' = Inr ys"
    using ys mr(2) by (auto simp: cv_finite_sequence_def)
  note e = finite_sample_quantile_eval [OF ws c, unfolded l]
  have r1: "1 \<le> cv_rank (int (length xs)) m" using cv_rank_pos [of _ m] cv_coverage_Inr(1) [OF c] by simp
  let ?r = "cv_rank (int (length xs)) m"
  have "f_isfinite (order_stat ys ?r)"
    using order_stat_in [OF r1] r l cv_finite_seq_Inr(2) [OF ws] by simp
  then have "f_eq (order_stat ys ?r) (order_stat xs ?r)"
    using order_stat_perm [OF ys(2) r1] r l fin by (simp add: f_eq_key sel)
  then show ?thesis using e r by (simp add: sel)
qed

text \<open>A fitted absolute-residual calibration has a nonnegative radius, so the interval it puts around a
  point contains that point: checked against the interval, the point is never a miss.\<close>

theorem fitted_interval_contains_point:
  assumes "fit_absolute_residual actual point coverage = Inr cal" and "ar_interval cal x = Inr (lo, hi)"
  shows "interval_missed x (PyFloat lo) (PyFloat hi) = Inr False"
proof -
  let ?r = "qs_value (ar_selection cal)"
  note r = fitted_radius [OF assms(1)]
  from assms(2) obtain c where c: "cv_finite x ''point'' = Inr c"
    and b: "f_isfinite (f_sub c ?r)" "f_isfinite (f_add c ?r)" and e: "lo = f_sub c ?r" "hi = f_add c ?r"
    by (auto simp: ar_interval_def Let_def bind_res_Inr_iff cv_finite_result_Inr_iff)
  have cf: "f_isfinite c" "cv_finite x ''actual'' = Inr c" using c by (simp_all add: cv_finite_Inr_iff)
  have "f_key lo \<le> f_key c" "f_key c \<le> f_key hi" using f_key_shift [OF cf(1) r(1)] r(2) by (simp_all add: e)
  then show ?thesis
    using cf b by (simp add: interval_missed_def cv_ordered_interval_def f_le_key f_lt_key flip: e)
qed

text \<open>The signed CQR correction moves both ends of a base interval outwards when it is nonnegative and
  inwards when it is not, and an interval it would invert is refused: what is returned is never empty.\<close>

theorem cqr_correction_direction:
  assumes "fit_cqr actual lower upper coverage = Inr cal" and "cqr_interval cal (PyFloat a) (PyFloat b) = Inr (lo, hi)"
  shows "f_le lo hi \<and>
    (if f_le f_zero (qs_value (cqr_selection cal)) then f_le lo a \<and> f_le b hi else f_le a lo \<and> f_le hi b)"
proof -
  let ?q = "qs_value (cqr_selection cal)"
  from assms(1) obtain scores where b: "bind_res (finite_sample_quantile (Seq (map PyFloat scores)) coverage)
      (\<lambda>sel. cqr_calibration (Inst sel) CQR_POLICY_VERSION) = Inr cal"
    unfolding fit_cqr_def by (rule bind_res_InrE)
  from b obtain sel where q: "finite_sample_quantile (Seq (map PyFloat scores)) coverage = Inr sel"
    and "cqr_calibration (Inst sel) CQR_POLICY_VERSION = Inr cal" by (rule bind_res_InrE)
  then have "cqr_selection cal = sel" by (auto simp: cqr_calibration_def)
  moreover have "f_isfinite (qs_value sel)" by (rule quantile_value_finite [OF q])
  ultimately have f: "f_isfinite ?q" by simp
  from assms(2) have ab: "f_isfinite a" "f_isfinite b" and e: "lo = f_sub a ?q" "hi = f_add b ?q"
    and lh: "f_isfinite lo" "f_isfinite hi" "\<not> f_lt hi lo"
    by (auto simp: cqr_interval_def Let_def bind_res_Inr_iff cv_finite_result_Inr_iff cv_ordered_interval_def
        cv_finite_Inr_iff real_float_def split: if_splits)
  show ?thesis
    using f_key_shift [OF ab(1) f] f_key_shift [OF ab(2) f] ab f lh
    by (simp add: f_le_key f_lt_key flip: e)
qed

text \<open>From a state the constructor accepted, every finite sequence of outcomes is processed to its end:
  no update raises, whatever the learning rate and the order of misses and covers.\<close>

theorem aci_run_never_raises:
  assumes "aci_state target current rate minimum maximum updates misses version = Inr st"
  shows "\<exists>st'. aci_run st outcomes = Inr st'"
  using aci_run_steps [OF aci_state_valid [OF assms]] by metis

text \<open>C31. Along every run the projected miscoverage stays between its bounds and strictly inside (0, 1), the
  target, rate and bounds never change, and the counters count exactly the outcomes and the misses.\<close>

theorem aci_run_invariant:
  assumes "aci_state target current rate minimum maximum updates misses version = Inr st"
    and "aci_run st outcomes = Inr st'"
  shows "f_le (aci_minimum st) (aci_current st') \<and> f_le (aci_current st') (aci_maximum st) \<and>
    f_lt f_zero (aci_current st') \<and> f_lt (aci_current st') f_one \<and>
    aci_target st' = aci_target st \<and> aci_learning_rate st' = aci_learning_rate st \<and>
    aci_minimum st' = aci_minimum st \<and> aci_maximum st' = aci_maximum st \<and>
    aci_update_count st' = aci_update_count st + int (length outcomes) \<and>
    aci_miss_count st' = aci_miss_count st + int (length (filter (\<lambda>b. b) outcomes)) \<and>
    aci_miss_count st' \<le> aci_update_count st'"
proof -
  obtain st2 where s: "aci_run st outcomes = Inr st2" "aci_valid st2"
    "aci_target st2 = aci_target st" "aci_learning_rate st2 = aci_learning_rate st"
    "aci_minimum st2 = aci_minimum st" "aci_maximum st2 = aci_maximum st"
    "aci_update_count st2 = aci_update_count st + int (length outcomes)"
    "aci_miss_count st2 = aci_miss_count st + int (length (filter (\<lambda>b. b) outcomes))"
    by (rule aci_run_steps [OF aci_state_valid [OF assms(1)]])
  have "st2 = st'" using s(1) assms(2) by simp
  with s show ?thesis by (auto simp: aci_valid_def f_le_key f_lt_key)
qed

text \<open>The feedback has the right sign: a miss never raises the current miscoverage and a covered outcome
  never lowers it.\<close>

theorem aci_step_direction:
  assumes "aci_state target current rate minimum maximum updates misses version = Inr st"
    and "aci_transition (Inst st) (PyBool missed) = Inr st'"
  shows "if missed then f_le (aci_current st') (aci_current st) else f_le (aci_current st) (aci_current st')"
proof -
  note v = aci_state_valid [OF assms(1)]
  obtain st2 where s: "aci_transition (Inst st) (PyBool missed) = Inr st2" "aci_valid st2"
    "if missed then f_key (aci_current st2) \<le> f_key (aci_current st) else f_key (aci_current st) \<le> f_key (aci_current st2)"
    by (rule aci_step [OF v])
  have e: "st2 = st'" using s(1) assms(2) by simp
  have "f_isfinite (aci_current st')" "f_isfinite (aci_current st)"
    using s(2) v unfolding e by (simp_all add: aci_valid_def)
  then show ?thesis using s(3) unfolding e by (simp add: f_le_key split: if_splits)
qed

section \<open>The properties at concrete inputs\<close>

text \<open>Three scores 1.0, 3 (an \<open>int\<close>) and 2.0; coverage one half.\<close>

definition demo_scores :: "pyobj list" where
  "demo_scores = [PyFloat f_one, PyInt 3, PyFloat 4611686018427387904]"

definition demo_half :: pyobj where
  "demo_half = PyFloat 4602678819172646912"

lemma demo_coverage: "cv_coverage demo_half = Inr (4602678819172646912, 500)"
  by code_simp

lemma demo_sequence:
  "cv_finite_sequence (Seq demo_scores) ''scores'' = Inr [f_one, 4613937818241073152, 4611686018427387904]"
  by code_simp

lemma demo_selection: "is_ok (finite_sample_quantile (Seq demo_scores) demo_half)"
  using finite_sample_quantile_eval [OF demo_sequence demo_coverage] by (simp add: cv_rank_def COVERAGE_SCALE_def)

theorem quantile_is_order_statistic_witness:
  "\<exists>sel. finite_sample_quantile (Seq demo_scores) demo_half = Inr sel \<and>
    (\<exists>xs m. cv_finite_sequence (Seq demo_scores) ''scores'' = Inr xs \<and>
      (int (length xs) + 1) * m \<le> 1000 * int (length (filter (\<lambda>x. f_le x (qs_value sel)) xs)))"
  using demo_selection quantile_is_order_statistic [of "Seq demo_scores" demo_half] unfolding is_ok_iff by metis

theorem quantile_returns_iff_rank_exists_witness:
  "is_ok (finite_sample_quantile (Seq demo_scores) demo_half)"
  using quantile_returns_iff_rank_exists [OF demo_sequence demo_coverage] by simp

theorem coverage_roundtrip_witness:
  "\<exists>c. f_of_ratio 900 1000 = Inr c \<and> cv_coverage (PyFloat c) = Inr (c, 900)"
  by (rule coverage_roundtrip) simp_all

theorem quantile_order_independent_witness:
  "\<exists>sel sel'. finite_sample_quantile (Seq demo_scores) demo_half = Inr sel \<and>
    finite_sample_quantile (Seq (rev demo_scores)) demo_half = Inr sel' \<and> f_eq (qs_value sel') (qs_value sel)"
proof -
  obtain sel where "finite_sample_quantile (Seq demo_scores) demo_half = Inr sel"
    using demo_selection unfolding is_ok_iff by metis
  with quantile_order_independent [OF _ this, of "rev demo_scores"] show ?thesis by (metis mset_rev)
qed

definition demo_sel :: QuantileSelection where
  "demo_sel = \<lparr>qs_coverage = 4602678819172646912, qs_sample_count = 2, qs_rank = 2, qs_value = 4611686018427387904,
     qs_policy_version = FINITE_SAMPLE_POLICY_VERSION\<rparr>"

lemma demo_quantile: "finite_sample_quantile (Seq (map PyFloat [f_one, 4611686018427387904])) demo_half = Inr demo_sel"
proof -
  have s: "cv_finite_sequence (Seq (map PyFloat [f_one, 4611686018427387904])) ''scores'' = Inr [f_one, 4611686018427387904]"
    by code_simp
  have "order_stat [f_one, 4611686018427387904] 2 = 4611686018427387904" by code_simp
  then show ?thesis
    using finite_sample_quantile_eval [OF s demo_coverage] by (simp add: cv_rank_def COVERAGE_SCALE_def demo_sel_def)
qed

lemma demo_not_negative: "\<not> f_lt (qs_value demo_sel) f_zero"
  by code_simp

lemma demo_radius:
  "fit_absolute_residual (Seq [PyFloat f_one, PyFloat 4611686018427387904]) (Seq [PyFloat 4611686018427387904, PyFloat 4616189618054758400]) demo_half
     = Inr \<lparr>ar_selection = demo_sel, ar_policy_version = ABSOLUTE_RESIDUAL_POLICY_VERSION\<rparr>"
proof -
  have "absolute_residual_scores (Seq [PyFloat f_one, PyFloat 4611686018427387904]) (Seq [PyFloat 4611686018427387904, PyFloat 4616189618054758400]) = Inr [f_one, 4611686018427387904]" by code_simp
  then show ?thesis using demo_quantile
    by (simp add: fit_absolute_residual_def absolute_residual_calibration_def demo_not_negative)
qed

lemma demo_radius_interval:
  "ar_interval \<lparr>ar_selection = demo_sel, ar_policy_version = ABSOLUTE_RESIDUAL_POLICY_VERSION\<rparr> (PyFloat 4616189618054758400)
     = Inr (4611686018427387904, 4618441417868443648)"
  by code_simp

theorem fitted_interval_contains_point_witness:
  "interval_missed (PyFloat 4616189618054758400) (PyFloat 4611686018427387904) (PyFloat 4618441417868443648) = Inr False"
  by (rule fitted_interval_contains_point [OF demo_radius demo_radius_interval])

lemma demo_cqr:
  "fit_cqr (Seq [PyFloat f_one, PyFloat 4616189618054758400]) (Seq [PyFloat 4611686018427387904, PyFloat 4611686018427387904]) (Seq [PyFloat 4616189618054758400, PyFloat 4611686018427387904]) demo_half
     = Inr \<lparr>cqr_selection = demo_sel, cqr_policy_version = CQR_POLICY_VERSION\<rparr>"
proof -
  have "cqr_scores (Seq [PyFloat f_one, PyFloat 4616189618054758400]) (Seq [PyFloat 4611686018427387904, PyFloat 4611686018427387904]) (Seq [PyFloat 4616189618054758400, PyFloat 4611686018427387904]) = Inr [f_one, 4611686018427387904]" by code_simp
  then show ?thesis using demo_quantile by (simp add: fit_cqr_def cqr_calibration_def)
qed

lemma demo_cqr_interval:
  "cqr_interval \<lparr>cqr_selection = demo_sel, cqr_policy_version = CQR_POLICY_VERSION\<rparr> (PyFloat 4616189618054758400) (PyFloat 4620693217682128896)
     = Inr (4611686018427387904, 4621819117588971520)"
  by code_simp

theorem cqr_correction_direction_witness:
  "f_le 4611686018427387904 4621819117588971520 \<and> f_le 4611686018427387904 4616189618054758400 \<and> f_le 4620693217682128896 4621819117588971520"
proof -
  have "f_le f_zero (qs_value demo_sel)" by code_simp
  then show ?thesis using cqr_correction_direction [OF demo_cqr demo_cqr_interval] by simp
qed

text \<open>Target and current miscoverage one half, rate one, bounds 0.1 and 0.9.\<close>

definition demo_aci :: "ACIState res" where
  "demo_aci = aci_state demo_half demo_half (PyInt 1) (PyFloat 4591870180066957722) (PyFloat 4606281698874543309)
     (PyInt 0) (PyInt 0) ACI_POLICY_VERSION"

lemma demo_aci_ok: "is_ok demo_aci"
  by code_simp

theorem aci_run_never_raises_witness:
  "\<exists>st st'. demo_aci = Inr st \<and> aci_run st [True, False, True] = Inr st'"
  using demo_aci_ok aci_run_never_raises unfolding is_ok_iff demo_aci_def by metis

theorem aci_run_invariant_witness:
  "\<exists>st st'. demo_aci = Inr st \<and> aci_run st [True, False, True] = Inr st' \<and>
     f_le (aci_current st') (aci_maximum st) \<and> aci_miss_count st' = aci_miss_count st + 2"
proof -
  obtain st where st: "demo_aci = Inr st" using demo_aci_ok unfolding is_ok_iff by metis
  note v = st [unfolded demo_aci_def]
  obtain st' where r: "aci_run st [True, False, True] = Inr st'" using aci_run_steps [OF aci_state_valid [OF v]] by metis
  from aci_run_invariant [OF v r]
  have "f_le (aci_current st') (aci_maximum st) \<and> aci_miss_count st' = aci_miss_count st + 2" by simp
  with st r show ?thesis by blast
qed

theorem aci_step_direction_witness:
  "\<exists>st st'. demo_aci = Inr st \<and> aci_transition (Inst st) (PyBool True) = Inr st' \<and> f_le (aci_current st') (aci_current st)"
proof -
  obtain st where st: "demo_aci = Inr st" using demo_aci_ok unfolding is_ok_iff by metis
  note v = st [unfolded demo_aci_def]
  obtain st' where r: "aci_transition (Inst st) (PyBool True) = Inr st'" by (rule aci_step [OF aci_state_valid [OF v], of True])
  from aci_step_direction [OF v r] have "f_le (aci_current st') (aci_current st)" by simp
  with st r show ?thesis by blast
qed

end
