(* ===== verification/FloatOps.thy ===== *)
theory FloatOps
  imports FloatLaws
begin

text \<open>
  The numeric parts of Python's standard library the evaluation code uses:
  \<open>math.fsum\<close> (the exact sum rounded once, an \<open>OverflowError\<close> where a running
  total leaves the binary64 range), \<open>math.sqrt\<close> (correctly rounded), the two
  argument \<open>round\<close> (the nearest decimal with that many places, ties of the exact
  binary value to even, read back as a float), \<open>math.isclose\<close> with an absolute
  tolerance, and indexing of a sequence by a possibly negative \<open>int\<close>.
\<close>

section \<open>Sequence indexing\<close>

definition py_index :: "'a list \<Rightarrow> int \<Rightarrow> 'a res" where
  "py_index xs i =
     (let j = (if i < 0 then i + int (length xs) else i)
      in if 0 \<le> j \<and> j < int (length xs) then Inr (xs ! nat j)
         else Inl (IndexErr ''index out of range''))"

lemma py_index_nonneg: "0 \<le> i \<Longrightarrow> i < int (length xs) \<Longrightarrow> py_index xs i = Inr (xs ! nat i)"
  by (simp add: py_index_def)

lemma py_index_negative:
  assumes "- int (length xs) \<le> i" and "i < 0"
  shows "py_index xs i = Inr (xs ! nat (i + int (length xs)))"
  using assms by (simp add: py_index_def)

lemma py_index_last:
  assumes "xs \<noteq> []"
  shows "py_index xs (- 1) = Inr (last xs)"
proof -
  have "nat (- 1 + int (length xs)) = length xs - 1" by linarith
  with assms show ?thesis by (cases xs) (simp_all add: py_index_negative last_conv_nth del: nat_int_add)
qed

lemma py_index_set: "py_index xs i = Inr x \<Longrightarrow> x \<in> set xs"
  by (auto simp: py_index_def Let_def split: if_splits)

section \<open>\<open>math.fsum\<close>\<close>

text \<open>
  The argument is the sequence of values a generator yields; a value that
  raises stops the sum with its exception.  \<open>e\<close> is the least exponent of the
  summands, so that the running total is an integer multiple of \<open>2 powi e\<close>.
\<close>

fun fsum_exp :: "f64 res list \<Rightarrow> int" where
  "fsum_exp [] = 971"
| "fsum_exp (Inr x # xs) = (if f_idx x = 0 then fsum_exp xs else min (f_ex (f_idx x)) (fsum_exp xs))"
| "fsum_exp (Inl _ # xs) = fsum_exp xs"

fun fsum_loop :: "int \<Rightarrow> int \<Rightarrow> f64 res list \<Rightarrow> f64 res" where
  "fsum_loop e n [] = Inr (f_pack (n < 0) (rnd_scaled \<bar>n\<bar> e))"
| "fsum_loop e n (Inl r # xs) = Inl r"
| "fsum_loop e n (Inr x # xs) =
     (let n' = n + f_sman x * 2 ^ nat (f_ex (f_idx x) - e)
      in if rnd_scaled \<bar>n'\<bar> e = inf_idx then Inl (OverflowErr ''intermediate overflow in fsum'')
         else fsum_loop e n' xs)"

definition f_fsum :: "f64 res list \<Rightarrow> f64 res" where
  "f_fsum xs = fsum_loop (fsum_exp xs) 0 xs"

lemma fsum_term:
  assumes "f_idx x = 0 \<or> e \<le> f_ex (f_idx x)"
  shows "of_int (f_sman x * 2 ^ nat (f_ex (f_idx x) - e)) * 2 powi e = fval x"
proof (cases "f_idx x = 0")
  case True
  then show ?thesis by (simp add: f_sman_def f_man_def fval_def)
next
  case False
  with assms have le: "e \<le> f_ex (f_idx x)" by simp
  have v: "fval x = of_int (f_sman x) * 2 powi f_ex (f_idx x)"
    by (simp add: fval_def mval_def f_sman_def)
  have "(2::real) ^ nat (f_ex (f_idx x) - e) = 2 powi (f_ex (f_idx x) - e)" using le by (simp add: power_int_def)
  then show ?thesis unfolding v by (simp add: mult.assoc flip: power_int_add)
qed

lemma fsum_exp_le: "Inr x \<in> set xs \<Longrightarrow> f_idx x = 0 \<or> fsum_exp xs \<le> f_ex (f_idx x)"
  by (induction xs rule: fsum_exp.induct) auto

lemma fsum_loop_nonneg:
  assumes "\<forall>x \<in> set xs. 0 \<le> fval x \<and> (f_idx x = 0 \<or> e \<le> f_ex (f_idx x))" and "0 \<le> n"
    and "rmag (of_int n * 2 powi e) < inf_idx"
  shows "fsum_loop e n (map Inr xs) =
    (let t = rmag (of_int n * 2 powi e + sum_list (map fval xs))
     in if t = inf_idx then Inl (OverflowErr ''intermediate overflow in fsum'') else Inr (f_pack False t))"
  using assms
proof (induction xs arbitrary: n)
  case Nil
  then show ?case by (simp add: rnd_scaled_eq)
next
  case (Cons x xs)
  let ?d = "f_sman x * 2 ^ nat (f_ex (f_idx x) - e)"
  let ?S = "sum_list (map fval xs)"
  have d: "of_int ?d * 2 powi e = fval x" using Cons.prems(1) by (intro fsum_term) simp
  have "0 \<le> of_int ?d * (2::real) powi e" using Cons.prems(1) d by simp
  then have "0 \<le> (of_int ?d :: real)"
    using mult_neg_pos [of "of_int ?d :: real" "2 powi e"] by (metis linorder_not_le zero_less_numeral zero_less_power_int)
  then have d0: "0 \<le> ?d" by (simp only: of_int_0_le_iff)
  have S0: "0 \<le> ?S" using Cons.prems(1) by (intro sum_list_nonneg) auto
  have n': "of_int (n + ?d) * 2 powi e = of_int n * 2 powi e + fval x" using d by (simp add: distrib_right)
  have r: "rnd_scaled \<bar>n + ?d\<bar> e = rmag (of_int n * 2 powi e + fval x)"
    using d0 Cons.prems(2) n' by (simp add: rnd_scaled_eq)
  show ?case
  proof (cases "rmag (of_int n * 2 powi e + fval x) = inf_idx")
    case True
    have "rmag (of_int n * 2 powi e + fval x) \<le> rmag (of_int n * 2 powi e + (fval x + ?S))"
      using S0 by (intro rmag_mono) simp
    then have "rmag (of_int n * 2 powi e + (fval x + ?S)) = inf_idx"
      using True rmag_le_inf [of "of_int n * 2 powi e + (fval x + ?S)"] by linarith
    then show ?thesis using True r by (simp add: Let_def)
  next
    case False
    then have "rmag (of_int (n + ?d) * 2 powi e) < inf_idx"
      using rmag_le_inf [of "of_int (n + ?d) * 2 powi e"] n' by simp
    from Cons.IH [OF _ _ this] Cons.prems(1,2) d0
    have "fsum_loop e (n + ?d) (map Inr xs) = (let t = rmag (of_int (n + ?d) * 2 powi e + ?S)
       in if t = inf_idx then Inl (OverflowErr ''intermediate overflow in fsum'') else Inr (f_pack False t))"
      by simp
    then show ?thesis using False r n' by (simp add: Let_def add.assoc)
  qed
qed

text \<open>On nonnegative finite summands the result is the exact sum rounded once.\<close>

lemma f_fsum_nonneg:
  assumes "\<forall>x \<in> set xs. 0 \<le> fval x"
  shows "f_fsum (map Inr xs) =
    (let t = rmag (sum_list (map fval xs))
     in if t = inf_idx then Inl (OverflowErr ''intermediate overflow in fsum'') else Inr (f_pack False t))"
proof -
  have "\<forall>x \<in> set xs. 0 \<le> fval x \<and> (f_idx x = 0 \<or> fsum_exp (map Inr xs) \<le> f_ex (f_idx x))"
    using assms fsum_exp_le [of _ "map Inr xs"] by auto
  from fsum_loop_nonneg [OF this, of 0] show ?thesis by (simp add: f_fsum_def inf_idx_def)
qed

section \<open>\<open>math.sqrt\<close>\<close>

function isqrt :: "int \<Rightarrow> int" where
  "isqrt n = (if n \<le> 0 then 0
     else let r = 2 * isqrt (n div 4) in if (r + 1) * (r + 1) \<le> n then r + 1 else r)"
  by pat_completeness auto
termination by (relation "measure nat") auto

declare isqrt.simps [simp del]

definition f_sqrt :: "f64 \<Rightarrow> f64" where
  "f_sqrt x =
     (if f_idx x = 0 then x
      else let e = f_ex (f_idx x); k = 110 + e mod 2; m = f_man (f_idx x) * 2 ^ nat k; s = isqrt m
           in f_pack False (rnd_scaled (2 * s + (if s * s = m then 0 else 1)) ((e - k) div 2 - 1)))"

section \<open>Decimal rounding and closeness\<close>

text \<open>\<open>round(x, n)\<close> of a finite float.\<close>

definition f_round_digits :: "f64 \<Rightarrow> nat \<Rightarrow> f64" where
  "f_round_digits x n =
     (let e = f_ex (f_idx x); m = f_man (f_idx x) * 10 ^ n;
          k = (if 0 \<le> e then m * 2 ^ nat e else rhe m (2 ^ nat (- e)))
      in f_pack (f_isneg x) (rnd_mag k (10 ^ n)))"

text \<open>\<open>math.isclose(a, b, rel_tol=0.0, abs_tol=tol)\<close> of finite floats.\<close>

definition f_isclose :: "f64 \<Rightarrow> f64 \<Rightarrow> f64 \<Rightarrow> bool" where
  "f_isclose a b tol \<longleftrightarrow> f_eq a b \<or> f_le (f_abs (f_sub b a)) tol"

definition f_two :: f64 where "f_two = 4611686018427387904"
definition f_half :: f64 where "f_half = 4602678819172646912"

text \<open>\<open>max(xs)\<close> of a nonempty sequence: the first largest element.\<close>

definition f_maximum :: "f64 list \<Rightarrow> f64" where
  "f_maximum xs = foldl f_max (hd xs) (tl xs)"

lemma isqrt_bounds: "0 \<le> n \<Longrightarrow> 0 \<le> isqrt n \<and> isqrt n * isqrt n \<le> n \<and> n < (isqrt n + 1) * (isqrt n + 1)"
proof (induction n rule: isqrt.induct)
  case (1 n)
  show ?case
  proof (cases "n = 0")
    case True
    then show ?thesis by (simp add: isqrt.simps [of 0])
  next
    case False
    define q where "q = isqrt (n div 4)"
    have n0: "0 < n" using 1(2) False by simp
    then have IH: "0 \<le> q" "q * q \<le> n div 4" "n div 4 < (q + 1) * (q + 1)" using 1(1) by (simp_all add: q_def)
    have lo: "(2 * q) * (2 * q) \<le> n" using IH(2) by simp
    have "n div 4 + 1 \<le> (q + 1) * (q + 1)" using IH(3) by simp
    then have "n < 4 * ((q + 1) * (q + 1))" by linarith
    then have hi: "n < (2 * q + 1 + 1) * (2 * q + 1 + 1)" by (simp add: algebra_simps)
    have "isqrt n = (if (2 * q + 1) * (2 * q + 1) \<le> n then 2 * q + 1 else 2 * q)"
      using n0 by (subst isqrt.simps) (simp add: Let_def q_def)
    then show ?thesis using lo hi IH(1) by simp
  qed
qed

end
