(* ===== verification/Technical.thy ===== *)
theory Technical
  imports FloatOps PyObj
begin

text \<open>
  Technical indicators (\<open>ml/features/technical.py\<close>).  A public function validates
  its arguments and runs its \<open>_core\<close> on the validated floats.  An output tuple is a
  list of \<open>f64 option\<close>; \<open>None\<close> is the structural warm-up.  \<open>math.log\<close> and
  \<open>math.log1p\<close> belong to the platform's C library and are arguments.
\<close>

type_synonym indicator_values = "f64 option list"

record libm =
  libm_log :: "f64 \<Rightarrow> f64"
  libm_log1p :: "f64 \<Rightarrow> f64"

definition CALCULATION_VERSION :: string where
  "CALCULATION_VERSION = ''owned-indicators-v1''"

section \<open>Validation\<close>

definition ti_positive_period :: "pyobj \<Rightarrow> string \<Rightarrow> int \<Rightarrow> int res" where
  "ti_positive_period value name minimum =
     (case value of
        PyInt i \<Rightarrow> if i < minimum then Inl (ValueError (name @ '' must be at least '' @ int_str minimum)) else Inr i
      | _ \<Rightarrow> Inl (TypeErr (name @ '' must be an integer'')))"

definition ti_positive_finite :: "pyobj \<Rightarrow> string \<Rightarrow> f64 res" where
  "ti_positive_finite value name =
     (case real_float value of
        None \<Rightarrow> Inl (TypeErr (name @ '' must be a real number''))
      | Some r \<Rightarrow>
          bind_res r (\<lambda>number.
          bind_res (check (\<not> f_isfinite number \<or> f_le number f_zero)
                     (ValueError (name @ '' must be positive and finite''))) (\<lambda>_.
          Inr number)))"

definition ti_finite_result :: "f64 \<Rightarrow> string \<Rightarrow> f64 res" where
  "ti_finite_result value name =
     bind_res (check (\<not> f_isfinite value) (ValueError (name @ '' overflowed to a nonfinite value''))) (\<lambda>_.
     Inr value)"

definition ti_element :: "string \<Rightarrow> bool \<Rightarrow> bool \<Rightarrow> nat \<times> pyobj \<Rightarrow> f64 res" where
  "ti_element name positive nonnegative = (\<lambda>(index, value).
     let label = name @ ''['' @ int_str (int index) @ '']'' in
     (case real_float value of
        None \<Rightarrow> Inl (TypeErr (label @ '' must be a real number''))
      | Some r \<Rightarrow>
          bind_res r (\<lambda>number.
          bind_res (check (\<not> f_isfinite number) (ValueError (label @ '' must be finite''))) (\<lambda>_.
          bind_res (check (positive \<and> f_le number f_zero) (ValueError (label @ '' must be positive''))) (\<lambda>_.
          bind_res (check (nonnegative \<and> f_lt number f_zero) (ValueError (label @ '' must be nonnegative''))) (\<lambda>_.
          Inr number))))))"

definition ti_finite_series :: "pyobj pyseq \<Rightarrow> string \<Rightarrow> bool \<Rightarrow> bool \<Rightarrow> f64 list res" where
  "ti_finite_series values name positive nonnegative =
     (case values of
        NotIterable \<Rightarrow> Inl (TypeErr (name @ '' must be an iterable of real numbers''))
      | Seq vs \<Rightarrow>
          bind_res (map_res (ti_element name positive nonnegative) (zip [0..<length vs] vs)) (\<lambda>normalized.
          bind_res (check (normalized = []) (ValueError (name @ '' must not be empty''))) (\<lambda>_.
          Inr normalized)))"

text \<open>\<open>if normalized and timestamp <= normalized[-1]\<close>: \<open>previous\<close> is the last timestamp so far.\<close>

fun ti_timestamps :: "nat \<Rightarrow> instant option \<Rightarrow> pyobj list \<Rightarrow> instant list res" where
  "ti_timestamps index previous [] = Inr []"
| "ti_timestamps index previous (value # rest) =
     bind_res (utc_of ValueError value (''observed_at['' @ int_str (int index) @ '']'')) (\<lambda>timestamp.
     bind_res (check (case previous of None \<Rightarrow> False | Some p \<Rightarrow> timestamp \<le> p)
                (ValueError ''observed_at must be strictly increasing'')) (\<lambda>_.
     bind_res (ti_timestamps (Suc index) (Some timestamp) rest) (\<lambda>normalized.
     Inr (timestamp # normalized))))"

definition ti_chronological_timestamps :: "pyobj pyseq \<Rightarrow> instant list res" where
  "ti_chronological_timestamps values =
     (case values of
        NotIterable \<Rightarrow> Inl (TypeErr ''observed_at must be an iterable of datetimes'')
      | Seq vs \<Rightarrow>
          bind_res (ti_timestamps 0 None vs) (\<lambda>normalized.
          bind_res (check (normalized = []) (ValueError ''observed_at must not be empty'')) (\<lambda>_.
          Inr normalized)))"

definition ti_equal_lengths :: "string \<Rightarrow> nat list \<Rightarrow> unit res" where
  "ti_equal_lengths names lengths =
     check (length (remdups lengths) \<noteq> 1) (ValueError (names @ '' must have equal lengths''))"

definition ti_validate_hlc :: "f64 list \<Rightarrow> f64 list \<Rightarrow> f64 list \<Rightarrow> unit res" where
  "ti_validate_hlc high low close =
     bind_res (map_res (\<lambda>index.
         bind_res (check (f_lt (high ! index) (low ! index))
           (ValueError (''highs['' @ int_str (int index) @ ''] must be greater than or equal to lows['' @ int_str (int index) @ '']''))) (\<lambda>_.
         check (f_lt (high ! index) (close ! index) \<or> f_lt (close ! index) (low ! index))
           (ValueError (''closes['' @ int_str (int index) @ ''] must lie within its high-low range''))))
       [0..<length high]) (\<lambda>_. Inr ())"

definition ti_validate_ohlc :: "f64 list \<Rightarrow> f64 list \<Rightarrow> f64 list \<Rightarrow> f64 list \<Rightarrow> unit res" where
  "ti_validate_ohlc open_values high low close =
     bind_res (ti_validate_hlc high low close) (\<lambda>_.
     bind_res (map_res (\<lambda>index.
         check (f_lt (high ! index) (open_values ! index) \<or> f_lt (open_values ! index) (low ! index))
           (ValueError (''opens['' @ int_str (int index) @ ''] must lie within its high-low range'')))
       [0..<length open_values]) (\<lambda>_. Inr ()))"

section \<open>Stable sums\<close>

text \<open>
  \<open>(value - mean) ** 2\<close> is the correctly rounded product: the normalized values lie
  in \<open>[-1, 1]\<close>, so the power cannot overflow.
\<close>

definition ti_fsum :: "f64 list \<Rightarrow> string \<Rightarrow> f64 res" where
  "ti_fsum values name =
     (case f_fsum (map Inr values) of
        Inl _ \<Rightarrow> Inl (ValueError (name @ '' overflowed to a nonfinite value''))
      | Inr result \<Rightarrow> ti_finite_result result name)"

definition ti_count :: "nat \<Rightarrow> f64" where
  "ti_count n = f_of_int_exact (int n)"

definition ti_stable_mean :: "f64 list \<Rightarrow> string \<Rightarrow> f64 res" where
  "ti_stable_mean values name =
     bind_res (check (values = []) (ValueError (name @ '' requires at least one value''))) (\<lambda>_.
     let scale = f_maximum (map f_abs values) in
     if f_eq scale f_zero then Inr f_zero
     else bind_res (ti_fsum (map (\<lambda>value. f_quot value scale) values) name) (\<lambda>total.
          ti_finite_result (f_mul scale (f_quot total (ti_count (length values)))) name))"

definition ti_stable_standard_deviation :: "f64 list \<Rightarrow> nat \<Rightarrow> string \<Rightarrow> f64 res" where
  "ti_stable_standard_deviation values ddof name =
     bind_res (check (\<not> ddof < length values)
                (ValueError (name @ '' has insufficient values for ddof='' @ int_str (int ddof)))) (\<lambda>_.
     let scale = f_maximum (map f_abs values) in
     if f_eq scale f_zero then Inr f_zero
     else
       let normalized = map (\<lambda>value. f_quot value scale) values in
       bind_res (ti_stable_mean normalized (name @ '' mean'')) (\<lambda>mean.
       bind_res (ti_fsum (map (\<lambda>value. let d = f_sub value mean in f_mul d d) normalized) name) (\<lambda>sum_squared.
       ti_finite_result (f_mul scale (f_sqrt (f_quot sum_squared (ti_count (length values - ddof))))) name)))"

section \<open>Returns and averages\<close>

text \<open>A tuple of floats passed on to another public function.\<close>

definition ti_floats :: "f64 list \<Rightarrow> pyobj pyseq" where
  "ti_floats xs = Seq (map PyFloat xs)"

text \<open>\<open>data[stop - w : stop]\<close>\<close>

definition ti_window :: "'a list \<Rightarrow> nat \<Rightarrow> nat \<Rightarrow> 'a list" where
  "ti_window data w stop = take w (drop (stop - w) data)"

definition ti_simple_core :: "f64 list \<Rightarrow> nat \<Rightarrow> indicator_values res" where
  "ti_simple_core data lag =
     map_res (\<lambda>index.
       if index < lag then Inr None
       else let denominator = data ! (index - lag) in
            bind_res (f_div (f_sub (data ! index) denominator) denominator) (\<lambda>r.
            bind_res (ti_finite_result r ''simple return'') (\<lambda>v. Inr (Some v))))
       [0..<length data]"

definition simple_returns :: "pyobj pyseq \<Rightarrow> pyobj \<Rightarrow> indicator_values res" where
  "simple_returns values period =
     bind_res (ti_finite_series values ''values'' True False) (\<lambda>data.
     bind_res (ti_positive_period period ''period'' 1) (\<lambda>lag.
     ti_simple_core data (nat lag)))"

definition ti_log_value :: "libm \<Rightarrow> f64 \<Rightarrow> f64 \<Rightarrow> f64 res" where
  "ti_log_value m current previous =
     bind_res (f_div (f_sub current previous) previous) (\<lambda>relative_change.
     Inr (if f_lt (f_neg f_half) relative_change \<and> f_lt relative_change f_half
          then libm_log1p m relative_change
          else f_sub (libm_log m current) (libm_log m previous)))"

definition ti_log_core :: "libm \<Rightarrow> f64 list \<Rightarrow> nat \<Rightarrow> indicator_values res" where
  "ti_log_core m data lag =
     map_res (\<lambda>index.
       if index < lag then Inr None
       else bind_res (ti_log_value m (data ! index) (data ! (index - lag))) (\<lambda>value.
            bind_res (ti_finite_result value ''log return'') (\<lambda>v. Inr (Some v))))
       [0..<length data]"

definition log_returns :: "libm \<Rightarrow> pyobj pyseq \<Rightarrow> pyobj \<Rightarrow> indicator_values res" where
  "log_returns m values period =
     bind_res (ti_finite_series values ''values'' True False) (\<lambda>data.
     bind_res (ti_positive_period period ''period'' 1) (\<lambda>lag.
     ti_log_core m data (nat lag)))"

definition ti_sma_core :: "f64 list \<Rightarrow> nat \<Rightarrow> indicator_values res" where
  "ti_sma_core data window =
     map_res (\<lambda>index.
       if index < window - 1 then Inr None
       else bind_res (ti_stable_mean (ti_window data window (index + 1)) ''simple moving average'') (\<lambda>mean.
            bind_res (ti_finite_result mean ''simple moving average'') (\<lambda>v. Inr (Some v))))
       [0..<length data]"

definition sma :: "pyobj pyseq \<Rightarrow> pyobj \<Rightarrow> indicator_values res" where
  "sma values period =
     bind_res (ti_finite_series values ''values'' False False) (\<lambda>data.
     bind_res (ti_positive_period period ''period'' 1) (\<lambda>window.
     ti_sma_core data (nat window)))"

fun ti_ema_loop :: "f64 \<Rightarrow> f64 \<Rightarrow> f64 list \<Rightarrow> indicator_values res" where
  "ti_ema_loop alpha previous [] = Inr []"
| "ti_ema_loop alpha previous (x # xs) =
     bind_res (ti_finite_result (f_add (f_mul alpha x) (f_mul (f_sub f_one alpha) previous)) ''exponential moving average'') (\<lambda>current.
     bind_res (ti_ema_loop alpha current xs) (\<lambda>output.
     Inr (Some current # output)))"

definition ti_ema_core :: "f64 list \<Rightarrow> nat \<Rightarrow> indicator_values res" where
  "ti_ema_core data width =
     (if length data < width then Inr (replicate (length data) None)
      else
        bind_res (ti_stable_mean (take width data) ''EMA seed'') (\<lambda>seed.
        let alpha = f_quot f_two (f_add (ti_count width) f_one) in
        bind_res (ti_ema_loop alpha seed (drop width data)) (\<lambda>output.
        Inr (replicate (width - 1) None @ Some seed # output))))"

definition ema :: "pyobj pyseq \<Rightarrow> pyobj \<Rightarrow> indicator_values res" where
  "ema values period =
     bind_res (ti_finite_series values ''values'' False False) (\<lambda>data.
     bind_res (ti_positive_period period ''period'' 1) (\<lambda>width.
     ti_ema_core data (nat width)))"

definition ti_volatility_core :: "indicator_values \<Rightarrow> nat \<Rightarrow> indicator_values res" where
  "ti_volatility_core returns window =
     map_res (\<lambda>index.
       if index < window then Inr None
       else let sample = ti_window returns window (index + 1) in
            if list_ex (\<lambda>v. v = None) sample then Inr None
            else bind_res (ti_stable_standard_deviation (map the sample) 1 ''return volatility'') (\<lambda>v. Inr (Some v)))
       [0..<length returns]"

definition return_volatility :: "pyobj pyseq \<Rightarrow> pyobj \<Rightarrow> indicator_values res" where
  "return_volatility values period =
     bind_res (ti_finite_series values ''values'' False False) (\<lambda>data.
     bind_res (ti_positive_period period ''period'' 2) (\<lambda>window.
     bind_res (simple_returns (ti_floats data) (PyInt 1)) (\<lambda>returns.
     ti_volatility_core returns (nat window))))"

section \<open>Relative strength\<close>

definition f_hundred :: f64 where "f_hundred = 4636737291354636288"
definition f_fifty :: f64 where "f_fifty = 4632233691727265792"

definition rsi_value :: "f64 \<Rightarrow> f64 \<Rightarrow> f64 res" where
  "rsi_value average_gain average_loss =
     (if f_eq average_gain f_zero \<and> f_eq average_loss f_zero then Inr f_fifty
      else if f_eq average_loss f_zero then Inr f_hundred
      else if f_eq average_gain f_zero then Inr f_zero
      else if f_le average_gain average_loss then
        (let relative_strength = f_quot average_gain average_loss in
         ti_finite_result (f_quot (f_mul f_hundred relative_strength) (f_add f_one relative_strength)) ''RSI'')
      else
        (let inverse_strength = f_quot average_loss average_gain in
         ti_finite_result (f_quot f_hundred (f_add f_one inverse_strength)) ''RSI''))"

definition ti_wilder :: "f64 \<Rightarrow> f64 \<Rightarrow> nat \<Rightarrow> f64" where
  "ti_wilder previous current window = f_add previous (f_quot (f_sub current previous) (ti_count window))"

fun ti_rsi_loop :: "nat \<Rightarrow> f64 \<Rightarrow> f64 \<Rightarrow> f64 list \<Rightarrow> indicator_values res" where
  "ti_rsi_loop window average_gain average_loss [] = Inr []"
| "ti_rsi_loop window average_gain average_loss (change # changes) =
     bind_res (ti_finite_result (ti_wilder average_gain (f_max change f_zero) window) ''RSI average gain'') (\<lambda>gain.
     bind_res (ti_finite_result (ti_wilder average_loss (f_max (f_neg change) f_zero) window) ''RSI average loss'') (\<lambda>loss.
     bind_res (rsi_value gain loss) (\<lambda>value.
     bind_res (ti_rsi_loop window gain loss changes) (\<lambda>output.
     Inr (Some value # output)))))"

definition ti_changes :: "f64 list \<Rightarrow> f64 list" where
  "ti_changes data = map (\<lambda>index. f_sub (data ! index) (data ! (index - 1))) [1..<length data]"

definition ti_rsi_core :: "f64 list \<Rightarrow> nat \<Rightarrow> indicator_values res" where
  "ti_rsi_core data window =
     (if length data \<le> window then Inr (replicate (length data) None)
      else
        let changes = ti_changes data in
        bind_res (ti_stable_mean (map (\<lambda>change. f_max change f_zero) (take window changes)) ''RSI average gain'') (\<lambda>average_gain.
        bind_res (ti_stable_mean (map (\<lambda>change. f_max (f_neg change) f_zero) (take window changes)) ''RSI average loss'') (\<lambda>average_loss.
        bind_res (rsi_value average_gain average_loss) (\<lambda>first.
        bind_res (ti_rsi_loop window average_gain average_loss (drop window changes)) (\<lambda>output.
        Inr (replicate window None @ Some first # output))))))"

definition rsi :: "pyobj pyseq \<Rightarrow> pyobj \<Rightarrow> indicator_values res" where
  "rsi values period =
     bind_res (ti_finite_series values ''values'' True False) (\<lambda>data.
     bind_res (ti_positive_period period ''period'' 1) (\<lambda>window.
     ti_rsi_core data (nat window)))"

section \<open>MACD\<close>

record macd_values =
  mv_line :: indicator_values
  mv_signal :: indicator_values
  mv_histogram :: indicator_values

definition ti_macd_line :: "nat \<Rightarrow> indicator_values \<Rightarrow> indicator_values \<Rightarrow> nat \<Rightarrow> indicator_values res" where
  "ti_macd_line n fast_values slow_values slow =
     map_res (\<lambda>index.
       if index < slow - 1 then Inr None
       else (case (fast_values ! index, slow_values ! index) of
               (Some fast_value, Some slow_value) \<Rightarrow>
                 bind_res (ti_finite_result (f_sub fast_value slow_value) ''MACD line'') (\<lambda>v. Inr (Some v))
             | _ \<Rightarrow> Inr None))
       [0..<n]"

text \<open>
  The loop over \<open>enumerate(signal_tail)\<close>, with \<open>index = slow - 1 + offset\<close>; the two
  lists are updated in place.
\<close>

fun ti_macd_tail :: "nat \<Rightarrow> indicator_values \<Rightarrow> indicator_values \<Rightarrow> indicator_values \<Rightarrow> indicator_values
    \<Rightarrow> (indicator_values \<times> indicator_values) res" where
  "ti_macd_tail index line signal histogram [] = Inr (signal, histogram)"
| "ti_macd_tail index line signal histogram (None # tail) = ti_macd_tail (Suc index) line signal histogram tail"
| "ti_macd_tail index line signal histogram (Some value # tail) =
     (case line ! index of
        None \<Rightarrow> Inl (RuntimeError ''MACD alignment invariant failed'')
      | Some line_value \<Rightarrow>
          bind_res (ti_finite_result (f_sub line_value value) ''MACD histogram'') (\<lambda>h.
          ti_macd_tail (Suc index) line (signal[index := Some value]) (histogram[index := Some h]) tail))"

definition ti_macd_core :: "f64 list \<Rightarrow> int \<Rightarrow> int \<Rightarrow> int \<Rightarrow> macd_values res" where
  "ti_macd_core data fast slow signal_window =
     bind_res (check (slow \<le> fast) (ValueError ''fast_period must be less than slow_period'')) (\<lambda>_.
     bind_res (ema (ti_floats data) (PyInt fast)) (\<lambda>fast_values.
     bind_res (ema (ti_floats data) (PyInt slow)) (\<lambda>slow_values.
     bind_res (ti_macd_line (length data) fast_values slow_values (nat slow)) (\<lambda>line.
     let available_line = map the (filter (\<lambda>value. value \<noteq> None) (drop (nat slow - 1) line)) in
     bind_res (if available_line \<noteq> [] then ema (ti_floats available_line) (PyInt signal_window) else Inr []) (\<lambda>signal_tail.
     bind_res (ti_macd_tail (nat slow - 1) line (replicate (length data) None) (replicate (length data) None) signal_tail)
       (\<lambda>(signal, histogram).
     Inr \<lparr>mv_line = line, mv_signal = signal, mv_histogram = histogram\<rparr>))))))"

definition macd :: "pyobj pyseq \<Rightarrow> pyobj \<Rightarrow> pyobj \<Rightarrow> pyobj \<Rightarrow> macd_values res" where
  "macd values fast_period slow_period signal_period =
     bind_res (ti_finite_series values ''values'' False False) (\<lambda>data.
     bind_res (ti_positive_period fast_period ''fast_period'' 1) (\<lambda>fast.
     bind_res (ti_positive_period slow_period ''slow_period'' 1) (\<lambda>slow.
     bind_res (ti_positive_period signal_period ''signal_period'' 1) (\<lambda>signal_window.
     ti_macd_core data fast slow signal_window))))"

section \<open>Bollinger bands\<close>

record bollinger_values =
  bv_lower :: indicator_values
  bv_middle :: indicator_values
  bv_upper :: indicator_values

definition ti_band :: "f64 \<Rightarrow> f64 \<Rightarrow> f64 list \<Rightarrow> (f64 option \<times> f64 option) res" where
  "ti_band width mean sample =
     bind_res (ti_stable_standard_deviation sample 0 ''Bollinger standard deviation'') (\<lambda>deviation.
     bind_res (ti_finite_result (f_sub mean (f_mul width deviation)) ''lower Bollinger band'') (\<lambda>lower.
     bind_res (ti_finite_result (f_add mean (f_mul width deviation)) ''upper Bollinger band'') (\<lambda>upper.
     Inr (Some lower, Some upper))))"

definition ti_bollinger_core :: "f64 list \<Rightarrow> int \<Rightarrow> f64 \<Rightarrow> bollinger_values res" where
  "ti_bollinger_core data window width =
     bind_res (sma (ti_floats data) (PyInt window)) (\<lambda>middle.
     bind_res (map_res (\<lambda>index.
         if index < nat window - 1 then Inr (None, None)
         else (case middle ! index of
                 None \<Rightarrow> Inl (RuntimeError ''Bollinger alignment invariant failed'')
               | Some mean \<Rightarrow> ti_band width mean (ti_window data (nat window) (index + 1))))
         [0..<length data]) (\<lambda>bands.
     Inr \<lparr>bv_lower = map fst bands, bv_middle = middle, bv_upper = map snd bands\<rparr>))"

definition bollinger_bands :: "pyobj pyseq \<Rightarrow> pyobj \<Rightarrow> pyobj \<Rightarrow> bollinger_values res" where
  "bollinger_bands values period standard_deviations =
     bind_res (ti_finite_series values ''values'' False False) (\<lambda>data.
     bind_res (ti_positive_period period ''period'' 1) (\<lambda>window.
     bind_res (ti_positive_finite standard_deviations ''standard_deviations'') (\<lambda>width.
     ti_bollinger_core data window width)))"

section \<open>Average true range\<close>

definition ti_true_range :: "f64 list \<Rightarrow> f64 list \<Rightarrow> f64 list \<Rightarrow> nat \<Rightarrow> f64 option res" where
  "ti_true_range high low close index =
     (if index = 0 then Inr None
      else bind_res (ti_finite_result
             (f_maximum [f_sub (high ! index) (low ! index),
                         f_abs (f_sub (high ! index) (close ! (index - 1))),
                         f_abs (f_sub (low ! index) (close ! (index - 1)))]) ''true range'') (\<lambda>v. Inr (Some v)))"

fun ti_atr_loop :: "nat \<Rightarrow> f64 \<Rightarrow> indicator_values \<Rightarrow> indicator_values res" where
  "ti_atr_loop window previous [] = Inr []"
| "ti_atr_loop window previous (None # ranges) = Inl (RuntimeError ''ATR alignment invariant failed'')"
| "ti_atr_loop window previous (Some current # ranges) =
     bind_res (ti_finite_result (ti_wilder previous current window) ''average true range'') (\<lambda>value.
     bind_res (ti_atr_loop window value ranges) (\<lambda>output.
     Inr (Some value # output)))"

definition ti_atr_core :: "f64 list \<Rightarrow> f64 list \<Rightarrow> f64 list \<Rightarrow> nat \<Rightarrow> indicator_values res" where
  "ti_atr_core high low close window =
     (if length close \<le> window then Inr (replicate (length close) None)
      else
        bind_res (map_res (ti_true_range high low close) [0..<length close]) (\<lambda>true_ranges.
        let seed_values = map the (filter (\<lambda>value. value \<noteq> None) (ti_window true_ranges window (window + 1))) in
        bind_res (ti_stable_mean seed_values ''ATR seed'') (\<lambda>seed.
        bind_res (ti_atr_loop window seed (drop (window + 1) true_ranges)) (\<lambda>output.
        Inr (replicate window None @ Some seed # output)))))"

definition average_true_range :: "pyobj pyseq \<Rightarrow> pyobj pyseq \<Rightarrow> pyobj pyseq \<Rightarrow> pyobj \<Rightarrow> indicator_values res" where
  "average_true_range highs lows closes period =
     bind_res (ti_finite_series highs ''highs'' False False) (\<lambda>high.
     bind_res (ti_finite_series lows ''lows'' False False) (\<lambda>low.
     bind_res (ti_finite_series closes ''closes'' False False) (\<lambda>close.
     bind_res (ti_equal_lengths ''high, low, close'' [length high, length low, length close]) (\<lambda>_.
     bind_res (ti_validate_hlc high low close) (\<lambda>_.
     bind_res (ti_positive_period period ''period'' 1) (\<lambda>window.
     ti_atr_core high low close (nat window)))))))"

section \<open>The complete bundle\<close>

record IndicatorConfig =
  ic_return_period :: int
  ic_sma_period :: int
  ic_ema_period :: int
  ic_volatility_period :: int
  ic_rsi_period :: int
  ic_macd_fast_period :: int
  ic_macd_slow_period :: int
  ic_macd_signal_period :: int
  ic_bollinger_period :: int
  ic_bollinger_standard_deviations :: pyobj
  ic_atr_period :: int

text \<open>The constructor with \<open>__post_init__\<close>; an \<open>int\<close> width is stored as it is given.\<close>

definition indicator_config :: "pyobj \<Rightarrow> pyobj \<Rightarrow> pyobj \<Rightarrow> pyobj \<Rightarrow> pyobj \<Rightarrow> pyobj \<Rightarrow> pyobj \<Rightarrow> pyobj
    \<Rightarrow> pyobj \<Rightarrow> pyobj \<Rightarrow> pyobj \<Rightarrow> IndicatorConfig res" where
  "indicator_config return_period sma_period ema_period volatility_period rsi_period macd_fast_period
       macd_slow_period macd_signal_period bollinger_period standard_deviations atr_period =
     bind_res (ti_positive_period return_period ''return_period'' 1) (\<lambda>rp.
     bind_res (ti_positive_period sma_period ''sma_period'' 1) (\<lambda>sp.
     bind_res (ti_positive_period ema_period ''ema_period'' 1) (\<lambda>ep.
     bind_res (ti_positive_period rsi_period ''rsi_period'' 1) (\<lambda>rs.
     bind_res (ti_positive_period macd_fast_period ''macd_fast_period'' 1) (\<lambda>mf.
     bind_res (ti_positive_period macd_slow_period ''macd_slow_period'' 1) (\<lambda>ms.
     bind_res (ti_positive_period macd_signal_period ''macd_signal_period'' 1) (\<lambda>sg.
     bind_res (ti_positive_period bollinger_period ''bollinger_period'' 1) (\<lambda>bp.
     bind_res (ti_positive_period atr_period ''atr_period'' 1) (\<lambda>ap.
     bind_res (ti_positive_period volatility_period ''volatility_period'' 2) (\<lambda>vp.
     bind_res (check (ms \<le> mf) (ValueError ''macd_fast_period must be less than macd_slow_period'')) (\<lambda>_.
     bind_res (ti_positive_finite standard_deviations ''bollinger_standard_deviations'') (\<lambda>_.
     Inr \<lparr>ic_return_period = rp, ic_sma_period = sp, ic_ema_period = ep, ic_volatility_period = vp,
          ic_rsi_period = rs, ic_macd_fast_period = mf, ic_macd_slow_period = ms, ic_macd_signal_period = sg,
          ic_bollinger_period = bp, ic_bollinger_standard_deviations = standard_deviations,
          ic_atr_period = ap\<rparr>))))))))))))"

text \<open>\<open>IndicatorConfig()\<close>\<close>

definition default_indicator_config :: IndicatorConfig where
  "default_indicator_config =
     \<lparr>ic_return_period = 1, ic_sma_period = 20, ic_ema_period = 20, ic_volatility_period = 20,
      ic_rsi_period = 14, ic_macd_fast_period = 12, ic_macd_slow_period = 26, ic_macd_signal_period = 9,
      ic_bollinger_period = 20, ic_bollinger_standard_deviations = PyFloat f_two, ic_atr_period = 14\<rparr>"

record TechnicalIndicators =
  tx_calculation_version :: string
  tx_policy_hash :: string
  tx_config :: IndicatorConfig
  tx_observed_at :: "instant list"
  tx_simple_return :: indicator_values
  tx_log_return :: indicator_values
  tx_sma :: indicator_values
  tx_ema :: indicator_values
  tx_return_volatility :: indicator_values
  tx_rsi :: indicator_values
  tx_macd :: macd_values
  tx_bollinger :: bollinger_values
  tx_atr :: indicator_values

definition ti_config :: "IndicatorConfig pyarg option \<Rightarrow> IndicatorConfig res" where
  "ti_config config =
     (case config of
        None \<Rightarrow> Inr default_indicator_config
      | Some (Inst c) \<Rightarrow> Inr c
      | Some Foreign \<Rightarrow> Inl (TypeErr ''config must be an IndicatorConfig''))"

definition required_observations :: "IndicatorConfig pyarg option \<Rightarrow> int res" where
  "required_observations config =
     bind_res (ti_config config) (\<lambda>c.
     Inr (foldl max (ic_return_period c + 1)
            [ic_sma_period c, ic_ema_period c, ic_volatility_period c + 1, ic_rsi_period c + 1,
             ic_macd_slow_period c + ic_macd_signal_period c - 1, ic_bollinger_period c, ic_atr_period c + 1]))"

definition ti_policy_document :: "IndicatorConfig \<Rightarrow> f64 \<Rightarrow> json" where
  "ti_policy_document c deviations = JObj [
     (''calculation_version'', JStr CALCULATION_VERSION),
     (''parameters'', JObj [
        (''atr_period'', JInt (ic_atr_period c)),
        (''bollinger_period'', JInt (ic_bollinger_period c)),
        (''bollinger_standard_deviations'', JFloat deviations),
        (''ema_period'', JInt (ic_ema_period c)),
        (''macd_fast_period'', JInt (ic_macd_fast_period c)),
        (''macd_signal_period'', JInt (ic_macd_signal_period c)),
        (''macd_slow_period'', JInt (ic_macd_slow_period c)),
        (''return_period'', JInt (ic_return_period c)),
        (''rsi_period'', JInt (ic_rsi_period c)),
        (''sma_period'', JInt (ic_sma_period c)),
        (''volatility_period'', JInt (ic_volatility_period c))])]"

text \<open>\<open>float(config.bollinger_standard_deviations)\<close>; the constructor has excluded other classes.\<close>

definition ti_float :: "pyobj \<Rightarrow> f64 res" where
  "ti_float value =
     (case real_float value of None \<Rightarrow> Inl (TypeErr ''float() argument must be a string or a real number'') | Some r \<Rightarrow> r)"

definition indicator_policy_hash :: "IndicatorConfig pyarg option \<Rightarrow> string res" where
  "indicator_policy_hash config =
     bind_res (ti_config config) (\<lambda>c.
     bind_res (ti_float (ic_bollinger_standard_deviations c)) (\<lambda>deviations.
     bind_res (canonical_json (ti_policy_document c deviations)) (\<lambda>canonical.
     Inr (''sha256:'' @ sha256_hex canonical))))"

definition ti_output_series :: "TechnicalIndicators \<Rightarrow> indicator_values list" where
  "ti_output_series output =
     [tx_simple_return output, tx_log_return output, tx_sma output, tx_ema output,
      tx_return_volatility output, tx_rsi output,
      mv_line (tx_macd output), mv_signal (tx_macd output), mv_histogram (tx_macd output),
      bv_lower (tx_bollinger output), bv_middle (tx_bollinger output), bv_upper (tx_bollinger output),
      tx_atr output]"

definition ti_validate_output :: "TechnicalIndicators \<Rightarrow> nat \<Rightarrow> unit res" where
  "ti_validate_output output n =
     (let series = ti_output_series output in
      bind_res (check (length (tx_observed_at output) \<noteq> n \<or> list_ex (\<lambda>values. length values \<noteq> n) series)
                 (RuntimeError ''indicator output alignment invariant failed'')) (\<lambda>_.
      bind_res (check (tx_calculation_version output \<noteq> CALCULATION_VERSION)
                 (RuntimeError ''indicator calculation-version invariant failed'')) (\<lambda>_.
      bind_res (indicator_policy_hash (Some (Inst (tx_config output)))) (\<lambda>policy.
      bind_res (check (tx_policy_hash output \<noteq> policy)
                 (RuntimeError ''indicator policy-identity invariant failed'')) (\<lambda>_.
      check (list_ex (list_ex (\<lambda>value. case value of None \<Rightarrow> False | Some v \<Rightarrow> \<not> f_isfinite v)) series)
        (RuntimeError ''indicator output finiteness invariant failed''))))))"

definition ti_outputs :: "libm \<Rightarrow> IndicatorConfig \<Rightarrow> instant list \<Rightarrow> f64 list \<Rightarrow> f64 list \<Rightarrow> f64 list
    \<Rightarrow> TechnicalIndicators res" where
  "ti_outputs m c timestamps high low close =
     bind_res (indicator_policy_hash (Some (Inst c))) (\<lambda>policy.
     bind_res (simple_returns (ti_floats close) (PyInt (ic_return_period c))) (\<lambda>v_simple.
     bind_res (log_returns m (ti_floats close) (PyInt (ic_return_period c))) (\<lambda>v_log.
     bind_res (sma (ti_floats close) (PyInt (ic_sma_period c))) (\<lambda>v_sma.
     bind_res (ema (ti_floats close) (PyInt (ic_ema_period c))) (\<lambda>v_ema.
     bind_res (return_volatility (ti_floats close) (PyInt (ic_volatility_period c))) (\<lambda>v_vol.
     bind_res (rsi (ti_floats close) (PyInt (ic_rsi_period c))) (\<lambda>v_rsi.
     bind_res (macd (ti_floats close) (PyInt (ic_macd_fast_period c)) (PyInt (ic_macd_slow_period c))
                 (PyInt (ic_macd_signal_period c))) (\<lambda>v_macd.
     bind_res (bollinger_bands (ti_floats close) (PyInt (ic_bollinger_period c))
                 (ic_bollinger_standard_deviations c)) (\<lambda>v_bollinger.
     bind_res (average_true_range (ti_floats high) (ti_floats low) (ti_floats close)
                 (PyInt (ic_atr_period c))) (\<lambda>v_atr.
     Inr \<lparr>tx_calculation_version = CALCULATION_VERSION, tx_policy_hash = policy, tx_config = c,
          tx_observed_at = timestamps, tx_simple_return = v_simple, tx_log_return = v_log,
          tx_sma = v_sma, tx_ema = v_ema, tx_return_volatility = v_vol, tx_rsi = v_rsi,
          tx_macd = v_macd, tx_bollinger = v_bollinger, tx_atr = v_atr\<rparr>))))))))))"

definition calculate_indicators :: "libm \<Rightarrow> pyobj pyseq \<Rightarrow> pyobj pyseq \<Rightarrow> pyobj pyseq \<Rightarrow> pyobj pyseq \<Rightarrow> pyobj pyseq
    \<Rightarrow> IndicatorConfig pyarg option \<Rightarrow> TechnicalIndicators res" where
  "calculate_indicators m observed_at opens highs lows closes config =
     bind_res (ti_config config) (\<lambda>c.
     bind_res (ti_chronological_timestamps observed_at) (\<lambda>timestamps.
     bind_res (ti_finite_series opens ''opens'' False True) (\<lambda>open_values.
     bind_res (ti_finite_series highs ''highs'' False True) (\<lambda>high_values.
     bind_res (ti_finite_series lows ''lows'' False True) (\<lambda>low_values.
     bind_res (ti_finite_series closes ''closes'' True False) (\<lambda>close_values.
     bind_res (ti_equal_lengths ''observed_at, open, high, low, close''
                 [length timestamps, length open_values, length high_values, length low_values,
                  length close_values]) (\<lambda>_.
     bind_res (ti_validate_ohlc open_values high_values low_values close_values) (\<lambda>_.
     bind_res (required_observations (Some (Inst c))) (\<lambda>required.
     bind_res (check (int (length close_values) < required)
                 (ValueError (''indicator bundle requires at least '' @ int_str required @
                    '' observations; received '' @ int_str (int (length close_values))))) (\<lambda>_.
     bind_res (ti_outputs m c timestamps high_values low_values close_values) (\<lambda>output.
     bind_res (ti_validate_output output (length close_values)) (\<lambda>_.
     Inr output))))))))))))"

end
