(* ===== verification/TechnicalLaws.thy ===== *)
theory TechnicalLaws
  imports Technical
begin

text \<open>
  What the technical indicators guarantee.  \<open>ti_aligned k n xs\<close>: the series \<open>xs\<close> has
  one entry per observation, \<open>None\<close> exactly before index \<open>k\<close>, and a finite value from
  there on.  Every calculation is aligned, and the calculation on the first \<open>n\<close>
  observations is the first \<open>n\<close> entries of the calculation on all of them.
\<close>

definition ti_aligned :: "nat \<Rightarrow> nat \<Rightarrow> indicator_values \<Rightarrow> bool" where
  "ti_aligned k n xs \<longleftrightarrow> length xs = n \<and>
     (\<forall>i < n. case xs ! i of None \<Rightarrow> i < k | Some v \<Rightarrow> k \<le> i \<and> f_isfinite v)"

section \<open>Pieces\<close>

lemma finite_result_Inr [simp]: "ti_finite_result x name = Inr v \<longleftrightarrow> f_isfinite x \<and> v = x"
  by (auto simp: ti_finite_result_def)

lemma finite_result_ok: "f_isfinite x \<Longrightarrow> ti_finite_result x name = Inr x"
  by simp

lemma stable_mean_finite: "ti_stable_mean xs name = Inr v \<Longrightarrow> f_isfinite v"
  unfolding ti_stable_mean_def Let_def by (auto simp: bind_res_Inr_iff check_Inr_iff split: if_splits)

lemma stable_deviation_finite: "ti_stable_standard_deviation xs d name = Inr v \<Longrightarrow> f_isfinite v"
  unfolding ti_stable_standard_deviation_def Let_def
  by (auto simp: bind_res_Inr_iff check_Inr_iff split: if_splits)

lemma rsi_value_finite:
  assumes "rsi_value g l = Inr v"
  shows "f_isfinite v"
proof -
  have "f_isfinite f_fifty" "f_isfinite f_hundred" by code_simp+
  with assms show ?thesis unfolding rsi_value_def Let_def by (auto split: if_splits)
qed

lemma aligned_length: "ti_aligned k n xs \<Longrightarrow> length xs = n"
  by (simp add: ti_aligned_def)

lemma aligned_None: "ti_aligned k n xs \<Longrightarrow> i < n \<Longrightarrow> i < k \<Longrightarrow> xs ! i = None"
  by (cases "xs ! i") (fastforce simp: ti_aligned_def)+

lemma aligned_Some:
  assumes "ti_aligned k n xs" and "i < n" and "k \<le> i"
  obtains v where "xs ! i = Some v" and "f_isfinite v"
  using assms by (cases "xs ! i") (fastforce simp: ti_aligned_def)+

lemma aligned_map_res:
  assumes "map_res f [0..<n] = Inr xs"
    and "\<And>i. i < n \<Longrightarrow> i < k \<Longrightarrow> f i = Inr None"
    and "\<And>i v. i < n \<Longrightarrow> k \<le> i \<Longrightarrow> f i = Inr v \<Longrightarrow> \<exists>x. v = Some x \<and> f_isfinite x"
  shows "ti_aligned k n xs"
proof -
  have "case xs ! i of None \<Rightarrow> i < k | Some v \<Rightarrow> k \<le> i \<and> f_isfinite v" if "i < n" for i
  proof -
    have "f i = Inr (xs ! i)" using map_res_nth [OF assms(1), of i] that by simp
    then show ?thesis using assms(2,3) [OF that] by (cases "i < k") auto
  qed
  then show ?thesis using map_res_length [OF assms(1)] by (simp add: ti_aligned_def)
qed

lemma aligned_none: "n \<le> k \<Longrightarrow> ti_aligned k n (replicate n None)"
  by (simp add: ti_aligned_def)

lemma aligned_append:
  assumes "\<forall>v \<in> set ys. \<exists>x. v = Some x \<and> f_isfinite x"
  shows "ti_aligned k (k + length ys) (replicate k None @ ys)"
proof -
  have e: "\<exists>x. ys ! j = Some x \<and> f_isfinite x" if "j < length ys" for j using assms that nth_mem by blast
  have "case (replicate k None @ ys) ! i of None \<Rightarrow> i < k | Some v \<Rightarrow> k \<le> i \<and> f_isfinite v"
    if "i < k + length ys" for i
  proof (cases "i < k")
    case False
    then have "i - k < length ys" using that by simp
    then obtain x where "ys ! (i - k) = Some x" "f_isfinite x" using e by blast
    with False show ?thesis by (simp add: nth_append)
  qed (simp add: nth_append)
  then show ?thesis by (simp add: ti_aligned_def)
qed

lemma map_res_upt_take:
  assumes "map_res f [0..<n] = Inr xs" and "\<And>i. i < m \<Longrightarrow> i < n \<Longrightarrow> g i = f i"
  shows "map_res g [0..<min m n] = Inr (take m xs)"
proof -
  have l: "list_all2 (\<lambda>x y. f x = Inr y) [0..<n] xs" using assms(1) by (simp only: map_res_Inr_iff)
  then have n: "length xs = n" by (auto dest: list_all2_lengthD)
  have t: "take m [0..<n] = [0..<min m n]" by (cases "m \<le> n") (simp_all add: take_upt)
  have "list_all2 (\<lambda>x y. f x = Inr y) (take m [0..<n]) (take m xs)" using l by (rule list_all2_takeI)
  then have "list_all2 (\<lambda>x y. f x = Inr y) [0..<min m n] (take m xs)" by (simp only: t)
  then show ?thesis unfolding map_res_Inr_iff using assms(2) n by (simp add: list_all2_conv_all_nth min.commute)
qed

lemma window_take: "stop \<le> m \<Longrightarrow> w \<le> stop \<Longrightarrow> ti_window (take m xs) w stop = ti_window xs w stop"
  by (simp add: ti_window_def drop_take)

section \<open>Returns and moving averages\<close>

lemma simple_core_aligned:
  assumes "ti_simple_core data lag = Inr xs"
  shows "ti_aligned lag (length data) xs"
  using assms unfolding ti_simple_core_def
  by (elim aligned_map_res) (auto simp: Let_def bind_res_Inr_iff)

lemma simple_core_take:
  assumes "ti_simple_core data lag = Inr xs"
  shows "ti_simple_core (take m data) lag = Inr (take m xs)"
  unfolding ti_simple_core_def length_take min.commute [of "length data"]
  by (rule map_res_upt_take [OF assms [unfolded ti_simple_core_def]]) (simp add: Let_def less_imp_diff_less)

lemma log_core_aligned:
  assumes "ti_log_core m data lag = Inr xs"
  shows "ti_aligned lag (length data) xs"
  using assms unfolding ti_log_core_def
  by (elim aligned_map_res) (auto simp: Let_def bind_res_Inr_iff)

lemma log_core_take:
  assumes "ti_log_core l data lag = Inr xs"
  shows "ti_log_core l (take m data) lag = Inr (take m xs)"
  unfolding ti_log_core_def length_take min.commute [of "length data"]
  by (rule map_res_upt_take [OF assms [unfolded ti_log_core_def]]) (simp add: less_imp_diff_less)

lemma sma_core_aligned:
  assumes "ti_sma_core data w = Inr xs"
  shows "ti_aligned (w - 1) (length data) xs"
  using assms unfolding ti_sma_core_def
  by (elim aligned_map_res) (auto simp: Let_def bind_res_Inr_iff)

lemma sma_core_take:
  assumes "ti_sma_core data w = Inr xs"
  shows "ti_sma_core (take m data) w = Inr (take m xs)"
  unfolding ti_sma_core_def length_take min.commute [of "length data"]
  by (rule map_res_upt_take [OF assms [unfolded ti_sma_core_def]]) (simp add: window_take)

lemma ema_loop_facts:
  assumes "ti_ema_loop alpha p xs = Inr ys"
  shows "length ys = length xs" and "\<forall>v \<in> set ys. \<exists>x. v = Some x \<and> f_isfinite x"
    and "ti_ema_loop alpha p (take k xs) = Inr (take k ys)"
  using assms
proof (induction xs arbitrary: p ys k)
  case (Cons x xs)
  case 1 then show ?case using Cons.IH(1) by (auto simp: bind_res_Inr_iff)
  case 2 then show ?case using Cons.IH(2) by (auto simp: bind_res_Inr_iff)
  case 3 then show ?case using Cons.IH(3) by (cases k) (fastforce simp: bind_res_Inr_iff)+
qed auto

lemma ema_core_cases:
  assumes "ti_ema_core data w = Inr xs" and "0 < w"
  obtains "length data < w" and "xs = replicate (length data) None"
  | seed ys where "w \<le> length data" and "ti_stable_mean (take w data) ''EMA seed'' = Inr seed"
      and "ti_ema_loop (f_quot f_two (f_add (ti_count w) f_one)) seed (drop w data) = Inr ys"
      and "xs = replicate (w - 1) None @ Some seed # ys"
  using assms by (auto simp: ti_ema_core_def Let_def bind_res_Inr_iff split: if_splits)

lemma ema_core_aligned:
  assumes "ti_ema_core data w = Inr xs" and "0 < w"
  shows "ti_aligned (w - 1) (length data) xs"
  using assms
proof (cases rule: ema_core_cases)
  case 1
  then show ?thesis by (simp add: aligned_none)
next
  case (2 seed ys)
  have "ti_aligned (w - 1) (w - 1 + length (Some seed # ys)) (replicate (w - 1) None @ Some seed # ys)"
    using ema_loop_facts(2) [OF 2(3)] stable_mean_finite [OF 2(2)] by (intro aligned_append) auto
  moreover have "w - 1 + length (Some seed # ys) = length data"
    using 2(1) ema_loop_facts(1) [OF 2(3)] assms(2) by simp
  ultimately show ?thesis using 2(4) by metis
qed

lemma ema_core_take:
  assumes "ti_ema_core data w = Inr xs" and "0 < w"
  shows "ti_ema_core (take m data) w = Inr (take m xs)"
  using assms
proof (cases rule: ema_core_cases)
  case 1
  then show ?thesis by (simp add: ti_ema_core_def min_def)
next
  case (2 seed ys)
  show ?thesis
  proof (cases "m < w")
    case True
    then show ?thesis using 2 by (simp add: ti_ema_core_def min_def)
  next
    case False
    then have "m - (w - 1) = Suc (m - w)" using assms(2) by simp
    then have t: "take m xs = replicate (w - 1) None @ Some seed # take (m - w) ys"
      using assms(2) 2(4) False by simp
    have "ti_ema_loop (f_quot f_two (f_add (ti_count w) f_one)) seed (drop w (take m data)) = Inr (take (m - w) ys)"
      using ema_loop_facts(3) [OF 2(3)] by (simp add: drop_take)
    then show ?thesis using False 2(1,2) t by (simp add: ti_ema_core_def Let_def min_def)
  qed
qed

lemma volatility_core_aligned:
  assumes "ti_volatility_core returns w = Inr xs" and "ti_aligned 1 (length returns) returns" and "0 < w"
  shows "ti_aligned w (length returns) xs"
  using assms(1) unfolding ti_volatility_core_def
proof (rule aligned_map_res)
  fix i v
  assume i: "i < length returns" "w \<le> i"
    and f: "(if i < w then Inr None else let sample = ti_window returns w (i + 1) in
        if list_ex (\<lambda>v. v = None) sample then Inr None
        else bind_res (ti_stable_standard_deviation (map the sample) 1 ''return volatility'') (\<lambda>v. Inr (Some v))) = Inr v"
  have "ti_window returns w (i + 1) ! j \<noteq> None" if "j < w" for j
  proof -
    have "i + 1 - w + j < length returns" "1 \<le> i + 1 - w + j" using i that by linarith+
    then obtain y where "returns ! (i + 1 - w + j) = Some y" using aligned_Some [OF assms(2)] by metis
    then show ?thesis using i that by (simp add: ti_window_def)
  qed
  then have "\<not> list_ex (\<lambda>v. v = None) (ti_window returns w (i + 1))"
    by (auto simp: list_ex_length ti_window_def)
  then show "\<exists>x. v = Some x \<and> f_isfinite x" using f i(2) stable_deviation_finite
    by (auto simp: Let_def bind_res_Inr_iff)
qed simp

lemma volatility_core_take:
  assumes "ti_volatility_core returns w = Inr xs"
  shows "ti_volatility_core (take m returns) w = Inr (take m xs)"
  unfolding ti_volatility_core_def length_take min.commute [of "length returns"]
  by (rule map_res_upt_take [OF assms [unfolded ti_volatility_core_def]]) (simp add: window_take)

section \<open>Passing floats on\<close>

text \<open>A series that has been validated passes every later validation unchanged.\<close>

lemma element_float:
  assumes "f_isfinite x" and "positive \<longrightarrow> 0 < f_key x" and "nonneg \<longrightarrow> 0 \<le> f_key x"
  shows "ti_element name positive nonneg (i, PyFloat x) = Inr x"
  using assms by (auto simp: ti_element_def real_float_def Let_def f_le_key f_lt_key)

lemma finite_series_floats:
  assumes "data \<noteq> []" and "\<forall>x \<in> set data. f_isfinite x \<and> (positive \<longrightarrow> 0 < f_key x) \<and> (nonneg \<longrightarrow> 0 \<le> f_key x)"
  shows "ti_finite_series (ti_floats data) name positive nonneg = Inr data"
proof -
  have "map_res (ti_element name positive nonneg) (zip [0..<length data] (map PyFloat data)) = Inr data"
    unfolding map_res_Inr_iff using assms(2) by (simp add: list_all2_conv_all_nth element_float)
  then show ?thesis using assms(1) by (simp add: ti_finite_series_def ti_floats_def)
qed

lemma public_on_floats:
  assumes "data \<noteq> []" and "\<forall>x \<in> set data. f_isfinite x" and "1 \<le> w"
  shows "sma (ti_floats data) (PyInt w) = ti_sma_core data (nat w)"
    and "ema (ti_floats data) (PyInt w) = ti_ema_core data (nat w)"
    and "\<forall>x \<in> set data. 0 < f_key x \<Longrightarrow> simple_returns (ti_floats data) (PyInt w) = ti_simple_core data (nat w)"
    and "\<forall>x \<in> set data. 0 < f_key x \<Longrightarrow> log_returns m (ti_floats data) (PyInt w) = ti_log_core m data (nat w)"
    and "\<forall>x \<in> set data. 0 < f_key x \<Longrightarrow> rsi (ti_floats data) (PyInt w) = ti_rsi_core data (nat w)"
  using assms by (simp_all add: sma_def ema_def simple_returns_def log_returns_def rsi_def
      finite_series_floats ti_positive_period_def)

section \<open>Relative strength\<close>

lemma rsi_loop_facts:
  assumes "ti_rsi_loop w g l xs = Inr ys"
  shows "length ys = length xs" and "\<forall>v \<in> set ys. \<exists>x. v = Some x \<and> f_isfinite x"
    and "ti_rsi_loop w g l (take k xs) = Inr (take k ys)"
  using assms
proof (induction xs arbitrary: g l ys k)
  case (Cons x xs)
  case 1 then show ?case using Cons.IH(1) by (auto simp: bind_res_Inr_iff)
  case 2 then show ?case using Cons.IH(2) by (auto simp: bind_res_Inr_iff rsi_value_finite)
  case 3 then show ?case using Cons.IH(3) by (cases k) (fastforce simp: bind_res_Inr_iff)+
qed auto

lemma changes_length [simp]: "length (ti_changes data) = length data - 1"
  by (simp add: ti_changes_def)

lemma changes_take: "ti_changes (take m data) = take (m - 1) (ti_changes data)"
proof (rule nth_equalityI)
  fix i
  assume "i < length (ti_changes (take m data))"
  then have "Suc i < m" "Suc i < length data" by simp_all
  moreover have "ti_changes xs ! i = f_sub (xs ! Suc i) (xs ! i)" if "Suc i < length xs" for xs
    using that nth_upt [of 1 i "length xs"] by (simp add: ti_changes_def)
  ultimately show "ti_changes (take m data) ! i = take (m - 1) (ti_changes data) ! i" by simp
qed (simp add: min_def)

lemma rsi_core_cases:
  assumes "ti_rsi_core data w = Inr xs"
  obtains "length data \<le> w" and "xs = replicate (length data) None"
  | g l v ys where "w < length data"
      and "ti_stable_mean (map (\<lambda>change. f_max change f_zero) (take w (ti_changes data))) ''RSI average gain'' = Inr g"
      and "ti_stable_mean (map (\<lambda>change. f_max (f_neg change) f_zero) (take w (ti_changes data))) ''RSI average loss'' = Inr l"
      and "rsi_value g l = Inr v" and "ti_rsi_loop w g l (drop w (ti_changes data)) = Inr ys"
      and "xs = replicate w None @ Some v # ys"
  using assms by (auto simp: ti_rsi_core_def Let_def bind_res_Inr_iff split: if_splits)

lemma rsi_core_aligned:
  assumes "ti_rsi_core data w = Inr xs"
  shows "ti_aligned w (length data) xs"
  using assms
proof (cases rule: rsi_core_cases)
  case 1
  then show ?thesis by (simp add: aligned_none)
next
  case (2 g l v ys)
  have "ti_aligned w (w + length (Some v # ys)) (replicate w None @ Some v # ys)"
    using rsi_loop_facts(2) [OF 2(5)] rsi_value_finite [OF 2(4)] by (intro aligned_append) auto
  moreover have "w + length (Some v # ys) = length data" using 2(1) rsi_loop_facts(1) [OF 2(5)] by simp
  ultimately show ?thesis using 2(6) by metis
qed

lemma rsi_core_take:
  assumes "ti_rsi_core data w = Inr xs"
  shows "ti_rsi_core (take m data) w = Inr (take m xs)"
  using assms
proof (cases rule: rsi_core_cases)
  case 1
  then show ?thesis by (simp add: ti_rsi_core_def min_def)
next
  case (2 g l v ys)
  show ?thesis
  proof (cases "m \<le> w")
    case True
    then show ?thesis using 2 by (simp add: ti_rsi_core_def min_def)
  next
    case False
    then have "m - w = Suc (m - 1 - w)" by simp
    then have t: "take m xs = replicate w None @ Some v # take (m - 1 - w) ys" using 2(6) False by simp
    have c: "take w (ti_changes (take m data)) = take w (ti_changes data)"
      "drop w (ti_changes (take m data)) = take (m - 1 - w) (drop w (ti_changes data))"
      using False by (simp_all add: changes_take drop_take min_absorb1)
    have "ti_rsi_loop w g l (drop w (ti_changes (take m data))) = Inr (take (m - 1 - w) ys)"
      unfolding c by (rule rsi_loop_facts(3) [OF 2(5)])
    then show ?thesis using False 2(1-4) t by (simp add: ti_rsi_core_def Let_def c(1) min_def)
  qed
qed

section \<open>MACD\<close>

lemma macd_tail_take:
  assumes "ti_macd_tail idx line s h tail = Inr (s', h')"
  shows "ti_macd_tail idx (take m line) (take m s) (take m h) (take (m - idx) tail) = Inr (take m s', take m h')"
  using assms
proof (induction idx line s h tail rule: ti_macd_tail.induct)
  case (2 idx line s h tail)
  have "m - Suc idx = m - idx - 1" by simp
  with 2 show ?case by (cases "m - idx") auto
next
  case (3 idx line s h v tail)
  then obtain lv x where l: "line ! idx = Some lv" "x = f_sub lv v" "f_isfinite x"
    and r: "ti_macd_tail (Suc idx) line (s[idx := Some v]) (h[idx := Some x]) tail = Inr (s', h')"
    by (auto simp: bind_res_Inr_iff split: option.splits)
  have IH: "ti_macd_tail (Suc idx) (take m line) (take m (s[idx := Some v])) (take m (h[idx := Some x])) (take (m - Suc idx) tail)
      = Inr (take m s', take m h')"
    using 3(1) [OF l(1), of x] l(2,3) r by simp
  show ?case
  proof (cases "idx < m")
    case True
    then have "m - idx = Suc (m - Suc idx)" by simp
    then show ?thesis using True l IH by (simp add: take_update_swap finite_result_ok)
  next
    case False
    then show ?thesis using IH by simp
  qed
qed simp

text \<open>The histogram is defined exactly where the signal is.\<close>

definition ti_matches :: "f64 option \<Rightarrow> f64 option \<Rightarrow> bool" where
  "ti_matches t x \<longleftrightarrow> (case t of None \<Rightarrow> x = None | Some _ \<Rightarrow> \<exists>y. x = Some y \<and> f_isfinite y)"

lemma drop_replicate_step:
  assumes "drop i xs = x # ys"
  shows "i < length xs" and "take (Suc i) xs = take i xs @ [x]" and "drop (Suc i) xs = ys"
proof -
  show i: "i < length xs" using assms by (metis drop_all linorder_not_le list.distinct(1))
  show "take (Suc i) xs = take i xs @ [x]" using i nth_via_drop [OF assms] by (simp add: take_Suc_conv_app_nth)
  show "drop (Suc i) xs = ys" using assms by (simp add: drop_Suc tl_drop [symmetric])
qed

lemma macd_tail_facts:
  assumes "ti_macd_tail idx line s h tail = Inr (s', h')"
    and "drop idx s = replicate (length tail) None" and "drop idx h = replicate (length tail) None"
  shows "\<exists>hs. s' = take idx s @ tail \<and> h' = take idx h @ hs \<and> list_all2 ti_matches tail hs"
  using assms
proof (induction idx line s h tail rule: ti_macd_tail.induct)
  case (2 idx line s h tail)
  note ss = drop_replicate_step [OF 2(3) [unfolded length_Cons replicate_Suc]]
  note hs = drop_replicate_step [OF 2(4) [unfolded length_Cons replicate_Suc]]
  show ?case using 2(1) [OF _ ss(3) hs(3)] 2(2) ss(2) hs(2) by (auto simp: ti_matches_def)
next
  case (3 idx line s h v tail)
  then obtain lv x where l: "line ! idx = Some lv" "x = f_sub lv v" "f_isfinite x"
    and r: "ti_macd_tail (Suc idx) line (s[idx := Some v]) (h[idx := Some x]) tail = Inr (s', h')"
    by (auto simp: bind_res_Inr_iff split: option.splits)
  note ss = drop_replicate_step [OF 3(3) [unfolded length_Cons replicate_Suc]]
  note hs = drop_replicate_step [OF 3(4) [unfolded length_Cons replicate_Suc]]
  have d: "drop (Suc idx) (s[idx := Some v]) = replicate (length tail) None"
    "drop (Suc idx) (h[idx := Some x]) = replicate (length tail) None" using ss(3) hs(3) by simp_all
  have t: "take (Suc idx) (s[idx := Some v]) = take idx s @ [Some v]" "take (Suc idx) (h[idx := Some x]) = take idx h @ [Some x]"
    using ss(1) hs(1) by (simp_all add: take_Suc_conv_app_nth)
  show ?case using 3(1) [OF l(1) r d] l t by (auto simp: ti_matches_def finite_result_ok)
qed simp

lemma aligned_shift:
  assumes "ti_aligned k n xs"
  shows "ti_aligned (d + k) (d + n) (replicate d None @ xs)"
proof -
  have "case (replicate d None @ xs) ! i of None \<Rightarrow> i < d + k | Some v \<Rightarrow> d + k \<le> i \<and> f_isfinite v" if "i < d + n" for i
  proof (cases "i < d")
    case False
    then have "case xs ! (i - d) of None \<Rightarrow> i - d < k | Some v \<Rightarrow> k \<le> i - d \<and> f_isfinite v"
      using assms that by (simp add: ti_aligned_def)
    then show ?thesis using False by (simp add: nth_append split: option.splits) linarith+
  qed (simp add: nth_append)
  then show ?thesis using assms by (simp add: ti_aligned_def)
qed

lemma aligned_matches:
  assumes "ti_aligned k n xs" and "list_all2 ti_matches xs ys"
  shows "ti_aligned k n ys"
proof -
  have "case ys ! i of None \<Rightarrow> i < k | Some v \<Rightarrow> k \<le> i \<and> f_isfinite v" if "i < n" for i
    using assms that list_all2_nthD [OF assms(2), of i]
    by (fastforce simp: ti_aligned_def ti_matches_def split: option.splits)
  then show ?thesis using assms by (simp add: ti_aligned_def list_all2_lengthD [symmetric])
qed

lemma macd_line_aligned:
  assumes "ti_macd_line n fast slow w = Inr xs" and "ti_aligned k n fast" and "ti_aligned (w - 1) n slow" and "k \<le> w - 1"
  shows "ti_aligned (w - 1) n xs"
  using assms(1) unfolding ti_macd_line_def
proof (rule aligned_map_res)
  fix i v
  assume i: "i < n" "w - 1 \<le> i"
    and f: "(if i < w - 1 then Inr None else (case (fast ! i, slow ! i) of (Some fast_value, Some slow_value) \<Rightarrow>
        bind_res (ti_finite_result (f_sub fast_value slow_value) ''MACD line'') (\<lambda>v. Inr (Some v)) | _ \<Rightarrow> Inr None)) = Inr v"
  obtain a where "fast ! i = Some a" using aligned_Some [OF assms(2) i(1)] i(2) assms(4) by fastforce
  moreover obtain b where "slow ! i = Some b" using aligned_Some [OF assms(3) i] .
  ultimately show "\<exists>x. v = Some x \<and> f_isfinite x" using f i(2) by (auto simp: bind_res_Inr_iff)
qed simp

lemma macd_line_take:
  assumes "ti_macd_line n fast slow w = Inr xs"
  shows "ti_macd_line (min m n) (take m fast) (take m slow) w = Inr (take m xs)"
  unfolding ti_macd_line_def by (rule map_res_upt_take [OF assms [unfolded ti_macd_line_def]]) simp

lemma aligned_finite:
  assumes "ti_aligned k n xs" and "i < n" and "xs ! i = Some v"
  shows "f_isfinite v"
  using assms by (fastforce simp: ti_aligned_def)

text \<open>The entries from the first defined one on.\<close>

lemma aligned_values:
  assumes "ti_aligned k n xs"
  shows "length (map the (filter (\<lambda>v. v \<noteq> None) (drop k xs))) = n - k"
    and "\<forall>x \<in> set (map the (filter (\<lambda>v. v \<noteq> None) (drop k xs))). f_isfinite x"
    and "map the (filter (\<lambda>v. v \<noteq> None) (drop k (take m xs))) = take (m - k) (map the (filter (\<lambda>v. v \<noteq> None) (drop k xs)))"
proof -
  have all: "\<forall>v \<in> set (drop k xs). \<exists>x. v = Some x \<and> f_isfinite x"
  proof
    fix v
    assume "v \<in> set (drop k xs)"
    then obtain j where j: "j < length (drop k xs)" "drop k xs ! j = v" unfolding in_set_conv_nth by blast
    then have "k + j < n" "v = xs ! (k + j)" using aligned_length [OF assms] by simp_all
    then show "\<exists>x. v = Some x \<and> f_isfinite x" using aligned_Some [OF assms, of "k + j"] by fastforce
  qed
  then have f: "filter (\<lambda>v. v \<noteq> None) (drop k xs) = drop k xs" by (intro filter_True) auto
  have "filter (\<lambda>v. v \<noteq> None) (drop k (take m xs)) = drop k (take m xs)"
    using all by (intro filter_True) (auto simp: drop_take dest: in_set_takeD)
  with f all aligned_length [OF assms]
  show "length (map the (filter (\<lambda>v. v \<noteq> None) (drop k xs))) = n - k"
    and "\<forall>x \<in> set (map the (filter (\<lambda>v. v \<noteq> None) (drop k xs))). f_isfinite x"
    and "map the (filter (\<lambda>v. v \<noteq> None) (drop k (take m xs))) = take (m - k) (map the (filter (\<lambda>v. v \<noteq> None) (drop k xs)))"
    by (fastforce simp: drop_take take_map)+
qed

abbreviation ti_available :: "nat \<Rightarrow> indicator_values \<Rightarrow> f64 list" where
  "ti_available k line \<equiv> map the (filter (\<lambda>value. value \<noteq> None) (drop k line))"

lemma macd_core_stages:
  assumes "ti_macd_core data fast slow sig = Inr mv" and "data \<noteq> []" and "\<forall>x \<in> set data. f_isfinite x"
    and "1 \<le> fast" and "1 \<le> slow" and "1 \<le> sig"
  obtains fv sv line tail sg hs where "fast < slow" and "ti_ema_core data (nat fast) = Inr fv"
    and "ti_ema_core data (nat slow) = Inr sv" and "ti_macd_line (length data) fv sv (nat slow) = Inr line"
    and "ti_aligned (nat slow - 1) (length data) line"
    and "(if ti_available (nat slow - 1) line \<noteq> [] then ti_ema_core (ti_available (nat slow - 1) line) (nat sig) else Inr []) = Inr tail"
    and "ti_macd_tail (nat slow - 1) line (replicate (length data) None) (replicate (length data) None) tail = Inr (sg, hs)"
    and "mv = \<lparr>mv_line = line, mv_signal = sg, mv_histogram = hs\<rparr>"
proof -
  from assms(1) public_on_floats(2) [OF assms(2,3,4)] public_on_floats(2) [OF assms(2,3,5)]
  obtain fv sv line tail sg hs where s: "\<not> slow \<le> fast" "ti_ema_core data (nat fast) = Inr fv"
      "ti_ema_core data (nat slow) = Inr sv" "ti_macd_line (length data) fv sv (nat slow) = Inr line"
      "(if ti_available (nat slow - 1) line \<noteq> [] then ema (ti_floats (ti_available (nat slow - 1) line)) (PyInt sig) else Inr []) = Inr tail"
      "ti_macd_tail (nat slow - 1) line (replicate (length data) None) (replicate (length data) None) tail = Inr (sg, hs)"
      "mv = \<lparr>mv_line = line, mv_signal = sg, mv_histogram = hs\<rparr>"
    unfolding ti_macd_core_def Let_def
    apply (elim bind_check_InrE bind_res_InrE)
    subgoal premises p for a b c d e
      using p(1) [OF p(4) p(5) [unfolded p(2)] p(6) [unfolded p(3)] p(7,8), of "fst e" "snd e"] p(9,10)
      by (cases e) simp
    done
  have a: "ti_aligned (nat slow - 1) (length data) line"
    using s(1) assms(4,5) ema_core_aligned [OF s(2)] ema_core_aligned [OF s(3)] by (intro macd_line_aligned [OF s(4)]) auto
  have "ema (ti_floats (ti_available (nat slow - 1) line)) (PyInt sig) = ti_ema_core (ti_available (nat slow - 1) line) (nat sig)"
    if "ti_available (nat slow - 1) line \<noteq> []"
    by (rule public_on_floats(2) [OF that aligned_values(2) [OF a] assms(6)])
  then show ?thesis using that [OF _ s(2,3,4) a _ s(6,7)] s(1,5) by (simp split: if_splits)
qed

lemma macd_core_aligned:
  assumes "ti_macd_core data fast slow sig = Inr mv" and "data \<noteq> []" and "\<forall>x \<in> set data. f_isfinite x"
    and "1 \<le> fast" and "1 \<le> slow" and "1 \<le> sig"
  shows "ti_aligned (nat slow - 1) (length data) (mv_line mv)"
    and "ti_aligned (nat slow - 1 + (nat sig - 1)) (length data) (mv_signal mv)"
    and "ti_aligned (nat slow - 1 + (nat sig - 1)) (length data) (mv_histogram mv)"
proof -
  from assms obtain fv sv line tail sg hs where s: "fast < slow" "ti_ema_core data (nat fast) = Inr fv"
    "ti_ema_core data (nat slow) = Inr sv" "ti_macd_line (length data) fv sv (nat slow) = Inr line"
    "ti_aligned (nat slow - 1) (length data) line"
    "(if ti_available (nat slow - 1) line \<noteq> [] then ti_ema_core (ti_available (nat slow - 1) line) (nat sig) else Inr []) = Inr tail"
    "ti_macd_tail (nat slow - 1) line (replicate (length data) None) (replicate (length data) None) tail = Inr (sg, hs)"
    "mv = \<lparr>mv_line = line, mv_signal = sg, mv_histogram = hs\<rparr>"
    by (rule macd_core_stages)
  note av = aligned_values(1) [OF s(5)]
  have t: "ti_aligned (nat sig - 1) (length data - (nat slow - 1)) tail"
  proof (cases "ti_available (nat slow - 1) line = []")
    case True
    then have "length data - (nat slow - 1) = 0" using av by (metis list.size(3))
    moreover have "tail = []" using True s(6) by simp
    ultimately show ?thesis by (simp add: ti_aligned_def)
  next
    case False
    then show ?thesis using s(6) ema_core_aligned [of "ti_available (nat slow - 1) line" "nat sig" tail] av assms(6) by simp
  qed
  have d: "drop (nat slow - 1) (replicate (length data) None) = replicate (length tail) None"
    using aligned_length [OF t] by simp
  from macd_tail_facts [OF s(7) d d] obtain hs' where h: "sg = replicate (min (nat slow - 1) (length data)) None @ tail"
    "hs = replicate (min (nat slow - 1) (length data)) None @ hs'" "list_all2 ti_matches tail hs'"
    by (auto simp: min.commute)
  have shift: "ti_aligned (nat slow - 1 + (nat sig - 1)) (length data) (replicate (min (nat slow - 1) (length data)) None @ xs)"
    if "ti_aligned (nat sig - 1) (length data - (nat slow - 1)) xs" for xs
  proof (cases "nat slow - 1 \<le> length data")
    case True
    then show ?thesis using aligned_shift [OF that, of "nat slow - 1"] by (simp add: min_def)
  next
    case False
    then have "xs = []" using aligned_length [OF that] by simp
    with False show ?thesis by (simp add: aligned_none)
  qed
  show "ti_aligned (nat slow - 1) (length data) (mv_line mv)" using s(5,8) by simp
  show "ti_aligned (nat slow - 1 + (nat sig - 1)) (length data) (mv_signal mv)" using shift [OF t] s(8) h(1) by simp
  show "ti_aligned (nat slow - 1 + (nat sig - 1)) (length data) (mv_histogram mv)"
    using shift [OF aligned_matches [OF t h(3)]] s(8) h(2) by simp
qed

definition ti_macd_take :: "nat \<Rightarrow> macd_values \<Rightarrow> macd_values" where
  "ti_macd_take m mv = \<lparr>mv_line = take m (mv_line mv), mv_signal = take m (mv_signal mv),
     mv_histogram = take m (mv_histogram mv)\<rparr>"

lemma macd_core_take:
  assumes "ti_macd_core data fast slow sig = Inr mv" and "data \<noteq> []" and "\<forall>x \<in> set data. f_isfinite x"
    and "1 \<le> fast" and "1 \<le> slow" and "1 \<le> sig" and "0 < m"
  shows "ti_macd_core (take m data) fast slow sig = Inr (ti_macd_take m mv)"
proof -
  from assms(1-6) obtain fv sv line tail sg hs where s: "fast < slow" "ti_ema_core data (nat fast) = Inr fv"
    "ti_ema_core data (nat slow) = Inr sv" "ti_macd_line (length data) fv sv (nat slow) = Inr line"
    "ti_aligned (nat slow - 1) (length data) line"
    "(if ti_available (nat slow - 1) line \<noteq> [] then ti_ema_core (ti_available (nat slow - 1) line) (nat sig) else Inr []) = Inr tail"
    "ti_macd_tail (nat slow - 1) line (replicate (length data) None) (replicate (length data) None) tail = Inr (sg, hs)"
    "mv = \<lparr>mv_line = line, mv_signal = sg, mv_histogram = hs\<rparr>"
    by (rule macd_core_stages)
  let ?k = "nat slow - 1" and ?d = "take m data"
  let ?a = "ti_available ?k line"
  have c: "?d \<noteq> []" "\<forall>x \<in> set ?d. f_isfinite x" using assms(2,3,7) by (auto dest: in_set_takeD)
  have e: "ema (ti_floats ?d) (PyInt fast) = Inr (take m fv)" "ema (ti_floats ?d) (PyInt slow) = Inr (take m sv)"
    using public_on_floats(2) [OF c assms(4)] public_on_floats(2) [OF c assms(5)] ema_core_take [OF s(2)] ema_core_take [OF s(3)] assms(4,5)
    by simp_all
  have l: "ti_macd_line (length ?d) (take m fv) (take m sv) (nat slow) = Inr (take m line)"
    using macd_line_take [OF s(4), of m] by (simp add: min.commute)
  have a: "ti_available ?k (take m line) = take (m - ?k) ?a" by (rule aligned_values(3) [OF s(5)])
  have t: "(if ti_available ?k (take m line) \<noteq> [] then ema (ti_floats (ti_available ?k (take m line))) (PyInt sig) else Inr [])
      = Inr (take (m - ?k) tail)"
  proof (cases "take (m - ?k) ?a = []")
    case True
    then have z: "ti_available ?k (take m line) = []" by (simp only: a)
    have "take (m - ?k) tail = []"
    proof (cases "?a = []")
      case True
      then show ?thesis using s(6) by simp
    next
      case False
      then show ?thesis using True by (metis take_eq_Nil)
    qed
    then show ?thesis unfolding z by simp
  next
    case False
    then have ne: "?a \<noteq> []" by auto
    have "\<forall>x \<in> set (take (m - ?k) ?a). f_isfinite x" using aligned_values(2) [OF s(5)] in_set_takeD by metis
    from public_on_floats(2) [OF False this assms(6)]
    moreover have "0 < nat sig" using assms(6) by simp
    ultimately show ?thesis unfolding a if_P [OF False] using ema_core_take [OF s(6) [unfolded if_P [OF ne]]] by metis
  qed
  have tl: "ti_macd_tail ?k (take m line) (replicate (length ?d) None) (replicate (length ?d) None) (take (m - ?k) tail)
      = Inr (take m sg, take m hs)"
    using macd_tail_take [OF s(7), of m] by (simp add: min.commute [of "length data"])
  have nf: "(slow \<le> fast) = False" using s(1) by simp
  show ?thesis unfolding ti_macd_core_def Let_def s(8) ti_macd_take_def
    by (simp only: nf check_simps bind_res_simps e l t tl case_prod_conv macd_values.select_convs)
qed

section \<open>Bollinger bands and average true range\<close>

lemma band_finite:
  assumes "ti_band width mean sample = Inr (lo, up)"
  shows "\<exists>l u. lo = Some l \<and> up = Some u \<and> f_isfinite l \<and> f_isfinite u"
  using assms by (auto simp: ti_band_def bind_res_Inr_iff)

definition ti_bands :: "f64 list \<Rightarrow> indicator_values \<Rightarrow> nat \<Rightarrow> f64 \<Rightarrow> nat \<Rightarrow> (f64 option \<times> f64 option) res" where
  "ti_bands data middle w width = (\<lambda>index.
     if index < w - 1 then Inr (None, None)
     else (case middle ! index of
             None \<Rightarrow> Inl (RuntimeError ''Bollinger alignment invariant failed'')
           | Some mean \<Rightarrow> ti_band width mean (ti_window data w (index + 1))))"

lemma bollinger_core_stages:
  assumes "ti_bollinger_core data w width = Inr bv" and "data \<noteq> []" and "\<forall>x \<in> set data. f_isfinite x" and "1 \<le> w"
  obtains bands where "ti_sma_core data (nat w) = Inr (bv_middle bv)"
    and "map_res (ti_bands data (bv_middle bv) (nat w) width) [0..<length data] = Inr bands"
    and "bv_lower bv = map fst bands" and "bv_upper bv = map snd bands"
  using assms(1) public_on_floats(1) [OF assms(2-4)]
  unfolding ti_bollinger_core_def ti_bands_def [symmetric] by (auto simp: bind_res_Inr_iff)

lemma bollinger_core_aligned:
  assumes "ti_bollinger_core data w width = Inr bv" and "data \<noteq> []" and "\<forall>x \<in> set data. f_isfinite x" and "1 \<le> w"
  shows "ti_aligned (nat w - 1) (length data) (bv_lower bv)" and "ti_aligned (nat w - 1) (length data) (bv_middle bv)"
    and "ti_aligned (nat w - 1) (length data) (bv_upper bv)"
proof -
  from assms obtain bands where b: "ti_sma_core data (nat w) = Inr (bv_middle bv)"
    "map_res (ti_bands data (bv_middle bv) (nat w) width) [0..<length data] = Inr bands"
    "bv_lower bv = map fst bands" "bv_upper bv = map snd bands" by (rule bollinger_core_stages)
  show "ti_aligned (nat w - 1) (length data) (bv_middle bv)" by (rule sma_core_aligned [OF b(1)])
  have l: "length bands = length data" using map_res_length [OF b(2)] by simp
  have n: "ti_bands data (bv_middle bv) (nat w) width i = Inr (bands ! i)" if "i < length data" for i
    using map_res_nth [OF b(2), of i] that by simp
  have "(case fst (bands ! i) of None \<Rightarrow> i < nat w - 1 | Some v \<Rightarrow> nat w - 1 \<le> i \<and> f_isfinite v) \<and>
      (case snd (bands ! i) of None \<Rightarrow> i < nat w - 1 | Some v \<Rightarrow> nat w - 1 \<le> i \<and> f_isfinite v)" if lt: "i < length data" for i
  proof (cases "i < nat w - 1")
    case True
    then have "bands ! i = (None, None)" using n [OF lt] by (simp add: ti_bands_def)
    then show ?thesis using True by simp
  next
    case False
    then obtain mean where "ti_band width mean (ti_window data (nat w) (i + 1)) = Inr (bands ! i)"
      using n [OF lt] by (auto simp: ti_bands_def split: option.splits)
    then show ?thesis using False band_finite [of _ _ _ "fst (bands ! i)" "snd (bands ! i)"] by fastforce
  qed
  then show "ti_aligned (nat w - 1) (length data) (bv_lower bv)" "ti_aligned (nat w - 1) (length data) (bv_upper bv)"
    unfolding ti_aligned_def b(3,4) using l by simp_all
qed

definition ti_bollinger_take :: "nat \<Rightarrow> bollinger_values \<Rightarrow> bollinger_values" where
  "ti_bollinger_take m bv = \<lparr>bv_lower = take m (bv_lower bv), bv_middle = take m (bv_middle bv),
     bv_upper = take m (bv_upper bv)\<rparr>"

lemma bollinger_core_take:
  assumes "ti_bollinger_core data w width = Inr bv" and "data \<noteq> []" and "\<forall>x \<in> set data. f_isfinite x" and "1 \<le> w"
    and "0 < m"
  shows "ti_bollinger_core (take m data) w width = Inr (ti_bollinger_take m bv)"
proof -
  from assms(1-4) obtain bands where b: "ti_sma_core data (nat w) = Inr (bv_middle bv)"
    "map_res (ti_bands data (bv_middle bv) (nat w) width) [0..<length data] = Inr bands"
    "bv_lower bv = map fst bands" "bv_upper bv = map snd bands" by (rule bollinger_core_stages)
  have c: "take m data \<noteq> []" "\<forall>x \<in> set (take m data). f_isfinite x" using assms(2,3,5) by (auto dest: in_set_takeD)
  have s: "sma (ti_floats (take m data)) (PyInt w) = Inr (take m (bv_middle bv))"
    using public_on_floats(1) [OF c assms(4)] sma_core_take [OF b(1)] by simp
  have "map_res (ti_bands (take m data) (take m (bv_middle bv)) (nat w) width) [0..<length (take m data)] = Inr (take m bands)"
    unfolding length_take min.commute [of "length data"]
  proof (rule map_res_upt_take [OF b(2)])
    fix i
    assume i: "i < m" "i < length data"
    have "ti_window (take m data) (nat w) (i + 1) = ti_window data (nat w) (i + 1)" if "\<not> i < nat w - 1"
      using i that by (intro window_take) linarith+
    then show "ti_bands (take m data) (take m (bv_middle bv)) (nat w) width i = ti_bands data (bv_middle bv) (nat w) width i"
      using i by (cases "i < nat w - 1") (simp_all add: ti_bands_def split: option.split)
  qed
  then show ?thesis unfolding ti_bollinger_core_def ti_bands_def [symmetric] s
    by (simp add: b(3,4) ti_bollinger_take_def take_map)
qed

lemma true_range_aligned:
  assumes "map_res (ti_true_range high low close) [0..<n] = Inr tr"
  shows "ti_aligned 1 n tr"
  using assms by (rule aligned_map_res) (auto simp: ti_true_range_def bind_res_Inr_iff)

lemma atr_loop_facts:
  assumes "ti_atr_loop w p xs = Inr ys"
  shows "length ys = length xs" and "\<forall>v \<in> set ys. \<exists>x. v = Some x \<and> f_isfinite x"
    and "ti_atr_loop w p (take k xs) = Inr (take k ys)"
  using assms
proof (induction xs arbitrary: p ys k)
  case (Cons x xs)
  case 1 then show ?case using Cons.IH(1) by (cases x) (auto simp: bind_res_Inr_iff)
  case 2 then show ?case using Cons.IH(2) by (cases x) (auto simp: bind_res_Inr_iff)
  case 3 then show ?case using Cons.IH(3) by (cases k; cases x) (fastforce simp: bind_res_Inr_iff)+
qed auto

lemma atr_core_cases:
  assumes "ti_atr_core high low close w = Inr xs"
  obtains "length close \<le> w" and "xs = replicate (length close) None"
  | tr seed ys where "w < length close" and "map_res (ti_true_range high low close) [0..<length close] = Inr tr"
      and "ti_stable_mean (map the (filter (\<lambda>value. value \<noteq> None) (ti_window tr w (w + 1)))) ''ATR seed'' = Inr seed"
      and "ti_atr_loop w seed (drop (w + 1) tr) = Inr ys"
      and "xs = replicate w None @ Some seed # ys"
  using assms unfolding ti_atr_core_def Let_def by (auto simp: bind_res_Inr_iff split: if_splits)

lemma atr_core_aligned:
  assumes "ti_atr_core high low close w = Inr xs"
  shows "ti_aligned w (length close) xs"
  using assms
proof (cases rule: atr_core_cases)
  case 1
  then show ?thesis by (simp add: aligned_none)
next
  case (2 tr seed ys)
  have "ti_aligned w (w + length (Some seed # ys)) (replicate w None @ Some seed # ys)"
    using atr_loop_facts(2) [OF 2(4)] stable_mean_finite [OF 2(3)] by (intro aligned_append) auto
  moreover have "w + length (Some seed # ys) = length close"
    using 2(1) atr_loop_facts(1) [OF 2(4)] map_res_length [OF 2(2)] by simp
  ultimately show ?thesis using 2(5) by metis
qed

lemma true_range_take:
  "i < m \<Longrightarrow> ti_true_range (take m high) (take m low) (take m close) i = ti_true_range high low close i"
  by (simp add: ti_true_range_def less_imp_diff_less)

lemma atr_core_take:
  assumes "ti_atr_core high low close w = Inr xs"
  shows "ti_atr_core (take m high) (take m low) (take m close) w = Inr (take m xs)"
  using assms
proof (cases rule: atr_core_cases)
  case 1
  then show ?thesis by (simp add: ti_atr_core_def min_def)
next
  case (2 tr seed ys)
  show ?thesis
  proof (cases "m \<le> w")
    case True
    then show ?thesis using 2 by (simp add: ti_atr_core_def min_def)
  next
    case False
    then have "m - w = Suc (m - (w + 1))" by simp
    then have t: "take m xs = replicate w None @ Some seed # take (m - (w + 1)) ys" using 2(5) False by simp
    have tr: "map_res (ti_true_range (take m high) (take m low) (take m close)) [0..<length (take m close)] = Inr (take m tr)"
      unfolding length_take min.commute [of "length close"] by (rule map_res_upt_take [OF 2(2)]) (rule true_range_take)
    have win: "ti_window (take m tr) w (w + 1) = ti_window tr w (w + 1)" using False by (intro window_take) simp_all
    have lp: "ti_atr_loop w seed (drop (w + 1) (take m tr)) = Inr (take (m - (w + 1)) ys)"
      unfolding drop_take by (rule atr_loop_facts(3) [OF 2(4)])
    have "\<not> length (take m close) \<le> w" using False 2(1) by simp
    then show ?thesis unfolding ti_atr_core_def Let_def by (simp only: if_False tr bind_res_simps win 2(3) lp t)
  qed
qed

end
