(* ===== verification/TechnicalBundleLaws.thy ===== *)
theory TechnicalBundleLaws
  imports TechnicalLaws
begin

text \<open>
  The complete indicator bundle: what a successful \<open>calculate_indicators\<close> went
  through, the exact warm-up of every series, independence of later observations,
  and the exceptions that can leave it.
\<close>

section \<open>Validated inputs\<close>

lemma element_facts:
  assumes "ti_element name positive nonneg iv = Inr x"
  shows "f_isfinite x" and "positive \<Longrightarrow> 0 < f_key x" and "nonneg \<Longrightarrow> 0 \<le> f_key x"
  using assms by (auto simp: ti_element_def Let_def bind_res_Inr_iff check_Inr_iff f_le_key f_lt_key
      split: option.splits prod.splits if_splits)

lemma finite_series_facts:
  assumes "ti_finite_series values name positive nonneg = Inr data"
  obtains vs where "values = Seq vs" and "data \<noteq> []" and "length data = length vs"
    and "\<forall>x \<in> set data. f_isfinite x" and "positive \<Longrightarrow> \<forall>x \<in> set data. 0 < f_key x"
    and "nonneg \<Longrightarrow> \<forall>x \<in> set data. 0 \<le> f_key x"
proof -
  obtain vs where v: "values = Seq vs" using assms by (cases "values") (auto simp: ti_finite_series_def)
  then have m: "map_res (ti_element name positive nonneg) (zip [0..<length vs] vs) = Inr data" and ne: "data \<noteq> []"
    using assms by (auto simp: ti_finite_series_def bind_res_Inr_iff split: if_splits)
  have "\<exists>iv. ti_element name positive nonneg iv = Inr x" if "x \<in> set data" for x
    using map_res_in [OF m that] by metis
  then show ?thesis using that [OF v ne] map_res_length [OF m] element_facts by (simp, metis)
qed

lemma finite_series_take:
  assumes "ti_finite_series (Seq vs) name positive nonneg = Inr data" and "0 < n"
  shows "ti_finite_series (Seq (take n vs)) name positive nonneg = Inr (take n data)"
proof -
  have m: "map_res (ti_element name positive nonneg) (zip [0..<length vs] vs) = Inr data" "data \<noteq> []"
    using assms by (auto simp: ti_finite_series_def bind_res_Inr_iff split: if_splits)
  have "zip [0..<length (take n vs)] (take n vs) = take n (zip [0..<length vs] vs)"
    by (cases "n \<le> length vs") (simp_all add: take_zip take_upt)
  then show ?thesis using map_res_take [OF m(1), of n] m(2) assms(2) by (simp add: ti_finite_series_def)
qed

lemma timestamps_take: "ti_timestamps i p vs = Inr ts \<Longrightarrow> ti_timestamps i p (take n vs) = Inr (take n ts)"
proof (induction i p vs arbitrary: n ts rule: ti_timestamps.induct)
  case (2 i p v rest)
  from 2(2) obtain t ts' where f: "utc_of ValueError v (''observed_at['' @ int_str (int i) @ '']'') = Inr t"
    "\<not> (case p of None \<Rightarrow> False | Some q \<Rightarrow> t \<le> q)" "ti_timestamps (Suc i) (Some t) rest = Inr ts'" "ts = t # ts'"
    unfolding ti_timestamps.simps by (elim bind_check_InrE bind_res_InrE) simp
  show ?case using f(1,2) 2(1) [OF f(3)] by (cases n) (simp_all add: f(4))
qed simp

lemma timestamps_length: "ti_timestamps i p vs = Inr ts \<Longrightarrow> length ts = length vs"
  by (induction i p vs arbitrary: ts rule: ti_timestamps.induct) (auto simp: bind_res_Inr_iff split: if_splits)

lemma chronological_take:
  assumes "ti_chronological_timestamps (Seq vs) = Inr ts" and "0 < n"
  shows "ti_chronological_timestamps (Seq (take n vs)) = Inr (take n ts)"
proof -
  have "ti_timestamps 0 None vs = Inr ts" "ts \<noteq> []"
    using assms(1) by (auto simp: ti_chronological_timestamps_def bind_res_Inr_iff split: if_splits)
  then show ?thesis using timestamps_take assms(2) by (simp add: ti_chronological_timestamps_def)
qed

lemma hlc_iff:
  "ti_validate_hlc high low close = Inr () \<longleftrightarrow>
     (\<forall>i < length high. \<not> f_lt (high ! i) (low ! i) \<and> \<not> f_lt (high ! i) (close ! i) \<and> \<not> f_lt (close ! i) (low ! i))"
  (is "?l \<longleftrightarrow> ?r")
proof
  assume ?l
  then obtain us where "map_res (\<lambda>index.
         bind_res (check (f_lt (high ! index) (low ! index))
           (ValueError (''highs['' @ int_str (int index) @ ''] must be greater than or equal to lows['' @ int_str (int index) @ '']''))) (\<lambda>_.
         check (f_lt (high ! index) (close ! index) \<or> f_lt (close ! index) (low ! index))
           (ValueError (''closes['' @ int_str (int index) @ ''] must lie within its high-low range''))))
       [0..<length high] = Inr us"
    by (auto simp: ti_validate_hlc_def bind_res_Inr_iff)
  from map_res_nth [OF this] show ?r by (fastforce simp: check_def split: if_splits)
next
  assume ?r
  then show ?l unfolding ti_validate_hlc_def
    by (subst map_res_total [where g = "\<lambda>_. ()"]) (auto simp: check_def)
qed

lemma ohlc_iff:
  "ti_validate_ohlc op high low close = Inr () \<longleftrightarrow> ti_validate_hlc high low close = Inr () \<and>
     (\<forall>i < length op. \<not> f_lt (high ! i) (op ! i) \<and> \<not> f_lt (op ! i) (low ! i))"
  (is "?l \<longleftrightarrow> ?r")
proof
  assume ?l
  then obtain us where h: "ti_validate_hlc high low close = Inr ()" and m: "map_res (\<lambda>index.
         check (f_lt (high ! index) (op ! index) \<or> f_lt (op ! index) (low ! index))
           (ValueError (''opens['' @ int_str (int index) @ ''] must lie within its high-low range'')))
       [0..<length op] = Inr us"
    by (auto simp: ti_validate_ohlc_def bind_res_Inr_iff)
  from map_res_nth [OF m] h show ?r by (auto simp: check_Inr_iff)
next
  assume ?r
  then show ?l unfolding ti_validate_ohlc_def
    by (subst map_res_total [where g = "\<lambda>_. ()"]) (auto simp: check_def)
qed

lemma equal_lengths_iff:
  "ti_equal_lengths names (n # ns) = Inr () \<longleftrightarrow> (\<forall>k \<in> set ns. k = n)"
proof -
  have "length (remdups (n # ns)) = 1 \<longleftrightarrow> card (insert n (set ns)) = 1" by (simp only: length_remdups_card_conv list.set)
  also have "\<dots> \<longleftrightarrow> (\<forall>k \<in> set ns. k = n)" by (auto simp: card_1_singleton_iff)
  finally show ?thesis by (simp add: ti_equal_lengths_def check_Inr_iff del: remdups.simps)
qed

section \<open>The public functions on validated series\<close>

definition clean :: "f64 list \<Rightarrow> bool" where
  "clean data \<longleftrightarrow> data \<noteq> [] \<and> (\<forall>x \<in> set data. f_isfinite x)"

definition clean_pos :: "f64 list \<Rightarrow> bool" where
  "clean_pos data \<longleftrightarrow> clean data \<and> (\<forall>x \<in> set data. 0 < f_key x)"

lemma clean_take: "clean data \<Longrightarrow> 0 < n \<Longrightarrow> clean (take n data)"
  by (auto simp: clean_def dest: in_set_takeD)

lemma clean_pos_take: "clean_pos data \<Longrightarrow> 0 < n \<Longrightarrow> clean_pos (take n data)"
  by (auto simp: clean_pos_def clean_take dest: in_set_takeD)

lemma clean_posD: "clean_pos data \<Longrightarrow> clean data"
  by (simp add: clean_pos_def)

lemma series_clean:
  "clean data \<Longrightarrow> ti_finite_series (ti_floats data) name False False = Inr data"
  "clean_pos data \<Longrightarrow> ti_finite_series (ti_floats data) name True False = Inr data"
  by (simp_all add: clean_def clean_pos_def finite_series_floats)

lemma period_iff: "ti_positive_period (PyInt w) name k = Inr v \<longleftrightarrow> k \<le> w \<and> v = w"
  by (auto simp: ti_positive_period_def)

lemma public_iff:
  assumes "clean data"
  shows "sma (ti_floats data) (PyInt w) = Inr xs \<longleftrightarrow> 1 \<le> w \<and> ti_sma_core data (nat w) = Inr xs"
    and "ema (ti_floats data) (PyInt w) = Inr xs \<longleftrightarrow> 1 \<le> w \<and> ti_ema_core data (nat w) = Inr xs"
    and "macd (ti_floats data) (PyInt a) (PyInt b) (PyInt c) = Inr mv \<longleftrightarrow>
       1 \<le> a \<and> 1 \<le> b \<and> 1 \<le> c \<and> ti_macd_core data a b c = Inr mv"
    and "bollinger_bands (ti_floats data) (PyInt w) sd = Inr bv \<longleftrightarrow>
       1 \<le> w \<and> (\<exists>width. ti_positive_finite sd ''standard_deviations'' = Inr width \<and> ti_bollinger_core data w width = Inr bv)"
  using assms by (auto simp: sma_def ema_def macd_def bollinger_bands_def series_clean bind_res_Inr_iff period_iff)

lemma public_pos_iff:
  assumes "clean_pos data"
  shows "simple_returns (ti_floats data) (PyInt w) = Inr xs \<longleftrightarrow> 1 \<le> w \<and> ti_simple_core data (nat w) = Inr xs"
    and "log_returns m (ti_floats data) (PyInt w) = Inr xs \<longleftrightarrow> 1 \<le> w \<and> ti_log_core m data (nat w) = Inr xs"
    and "rsi (ti_floats data) (PyInt w) = Inr xs \<longleftrightarrow> 1 \<le> w \<and> ti_rsi_core data (nat w) = Inr xs"
    and "return_volatility (ti_floats data) (PyInt w) = Inr xs \<longleftrightarrow>
       2 \<le> w \<and> (\<exists>r. ti_simple_core data 1 = Inr r \<and> ti_volatility_core r (nat w) = Inr xs)"
  using assms by (auto simp: simple_returns_def log_returns_def rsi_def return_volatility_def series_clean
      clean_posD bind_res_Inr_iff period_iff)

lemma atr_iff:
  assumes "clean high" and "clean low" and "clean close" and "length high = length close" and "length low = length close"
    and "ti_validate_hlc high low close = Inr ()"
  shows "average_true_range (ti_floats high) (ti_floats low) (ti_floats close) (PyInt w) = Inr xs \<longleftrightarrow>
     1 \<le> w \<and> ti_atr_core high low close (nat w) = Inr xs"
proof -
  have "ti_equal_lengths ''high, low, close'' [length high, length low, length close] = Inr ()"
    using assms(4,5) by (simp add: equal_lengths_iff)
  with assms show ?thesis
    by (auto simp: average_true_range_def series_clean bind_res_Inr_iff period_iff)
qed

lemma hlc_take: "ti_validate_hlc high low close = Inr () \<Longrightarrow> ti_validate_hlc (take n high) (take n low) (take n close) = Inr ()"
  by (simp add: hlc_iff)

lemma ohlc_take: "ti_validate_ohlc op high low close = Inr () \<Longrightarrow>
    ti_validate_ohlc (take n op) (take n high) (take n low) (take n close) = Inr ()"
  by (simp add: ohlc_iff hlc_take)

section \<open>The bundle\<close>

text \<open>The prices of a bundle, validated.\<close>

definition clean_prices :: "f64 list \<Rightarrow> f64 list \<Rightarrow> f64 list \<Rightarrow> bool" where
  "clean_prices high low close \<longleftrightarrow> clean high \<and> clean low \<and> clean_pos close \<and> length high = length close \<and>
     length low = length close \<and> ti_validate_hlc high low close = Inr ()"

lemma clean_prices_take: "clean_prices high low close \<Longrightarrow> 0 < n \<Longrightarrow> clean_prices (take n high) (take n low) (take n close)"
  by (simp add: clean_prices_def clean_take clean_pos_take hlc_take)

definition ti_truncate :: "nat \<Rightarrow> TechnicalIndicators \<Rightarrow> TechnicalIndicators" where
  "ti_truncate n out = out \<lparr>
     tx_observed_at := take n (tx_observed_at out),
     tx_simple_return := take n (tx_simple_return out),
     tx_log_return := take n (tx_log_return out),
     tx_sma := take n (tx_sma out),
     tx_ema := take n (tx_ema out),
     tx_return_volatility := take n (tx_return_volatility out),
     tx_rsi := take n (tx_rsi out),
     tx_macd := ti_macd_take n (tx_macd out),
     tx_bollinger := ti_bollinger_take n (tx_bollinger out),
     tx_atr := take n (tx_atr out)\<rparr>"

lemma outputs_iff:
  assumes "clean_prices high low close"
  shows "ti_outputs m c ts high low close = Inr out \<longleftrightarrow>
     indicator_policy_hash (Some (Inst c)) = Inr (tx_policy_hash out) \<and>
     tx_calculation_version out = CALCULATION_VERSION \<and> tx_config out = c \<and> tx_observed_at out = ts \<and>
     1 \<le> ic_return_period c \<and> ti_simple_core close (nat (ic_return_period c)) = Inr (tx_simple_return out) \<and>
     ti_log_core m close (nat (ic_return_period c)) = Inr (tx_log_return out) \<and>
     1 \<le> ic_sma_period c \<and> ti_sma_core close (nat (ic_sma_period c)) = Inr (tx_sma out) \<and>
     1 \<le> ic_ema_period c \<and> ti_ema_core close (nat (ic_ema_period c)) = Inr (tx_ema out) \<and>
     2 \<le> ic_volatility_period c \<and> (\<exists>r. ti_simple_core close 1 = Inr r \<and>
        ti_volatility_core r (nat (ic_volatility_period c)) = Inr (tx_return_volatility out)) \<and>
     1 \<le> ic_rsi_period c \<and> ti_rsi_core close (nat (ic_rsi_period c)) = Inr (tx_rsi out) \<and>
     1 \<le> ic_macd_fast_period c \<and> 1 \<le> ic_macd_slow_period c \<and> 1 \<le> ic_macd_signal_period c \<and>
     ti_macd_core close (ic_macd_fast_period c) (ic_macd_slow_period c) (ic_macd_signal_period c) = Inr (tx_macd out) \<and>
     1 \<le> ic_bollinger_period c \<and> (\<exists>width. ti_positive_finite (ic_bollinger_standard_deviations c) ''standard_deviations'' = Inr width \<and>
        ti_bollinger_core close (ic_bollinger_period c) width = Inr (tx_bollinger out)) \<and>
     1 \<le> ic_atr_period c \<and> ti_atr_core high low close (nat (ic_atr_period c)) = Inr (tx_atr out)"
proof -
  have p: "clean close" "clean_pos close" "clean high" "clean low" "length high = length close" "length low = length close"
    "ti_validate_hlc high low close = Inr ()" using assms by (simp_all add: clean_prices_def clean_posD)
  show ?thesis
    unfolding ti_outputs_def bind_res_Inr_iff public_iff [OF p(1)] public_pos_iff [OF p(2)]
      atr_iff [OF p(3,4,1,5,6,7)]
    by (cases out) auto
qed

text \<open>The first index at which each output of a configuration is defined, in the order of \<open>ti_output_series\<close>.\<close>

definition ti_first_indices :: "IndicatorConfig \<Rightarrow> int list" where
  "ti_first_indices c =
     (let signal = ic_macd_slow_period c + ic_macd_signal_period c - 2 in
      [ic_return_period c, ic_return_period c, ic_sma_period c - 1, ic_ema_period c - 1, ic_volatility_period c,
       ic_rsi_period c, ic_macd_slow_period c - 1, signal, signal,
       ic_bollinger_period c - 1, ic_bollinger_period c - 1, ic_bollinger_period c - 1, ic_atr_period c])"

lemma outputs_aligned:
  assumes "clean_prices high low close" and "ti_outputs m c ts high low close = Inr out"
  shows "list_all2 (\<lambda>k xs. 0 \<le> k \<and> ti_aligned (nat k) (length close) xs) (ti_first_indices c) (ti_output_series out)"
proof -
  note o = assms(2) [unfolded outputs_iff [OF assms(1)]]
  have p: "close \<noteq> []" "\<forall>x \<in> set close. f_isfinite x" using assms(1) by (auto simp: clean_prices_def clean_pos_def clean_def)
  obtain r width where rw: "ti_simple_core close 1 = Inr r" "ti_volatility_core r (nat (ic_volatility_period c)) = Inr (tx_return_volatility out)"
    "ti_bollinger_core close (ic_bollinger_period c) width = Inr (tx_bollinger out)" using o by blast
  have ra: "ti_aligned 1 (length r) r" "length r = length close" using simple_core_aligned [OF rw(1)] by (simp_all add: ti_aligned_def)
  have v: "ti_aligned (nat (ic_volatility_period c)) (length close) (tx_return_volatility out)"
    using volatility_core_aligned [OF rw(2) ra(1)] ra(2) o by simp
  have mc: "ti_macd_core close (ic_macd_fast_period c) (ic_macd_slow_period c) (ic_macd_signal_period c) = Inr (tx_macd out)"
    "1 \<le> ic_macd_fast_period c" "1 \<le> ic_macd_slow_period c" "1 \<le> ic_macd_signal_period c" using o by simp_all
  have bc: "1 \<le> ic_bollinger_period c" using o by simp
  have i: "nat (ic_macd_slow_period c) - 1 + (nat (ic_macd_signal_period c) - 1) = nat (ic_macd_slow_period c + ic_macd_signal_period c - 2)"
    "nat (ic_macd_slow_period c) - 1 = nat (ic_macd_slow_period c - 1)" "nat (ic_bollinger_period c) - 1 = nat (ic_bollinger_period c - 1)"
    "nat (ic_sma_period c) - 1 = nat (ic_sma_period c - 1)" "nat (ic_ema_period c) - 1 = nat (ic_ema_period c - 1)"
    using mc by linarith+
  have s: "ti_aligned (nat (ic_return_period c)) (length close) (tx_simple_return out)"
    "ti_aligned (nat (ic_return_period c)) (length close) (tx_log_return out)"
    "ti_aligned (nat (ic_sma_period c) - 1) (length close) (tx_sma out)"
    "ti_aligned (nat (ic_rsi_period c)) (length close) (tx_rsi out)" "ti_aligned (nat (ic_atr_period c)) (length close) (tx_atr out)"
    using o simple_core_aligned log_core_aligned sma_core_aligned rsi_core_aligned atr_core_aligned by blast+
  have e: "ti_aligned (nat (ic_ema_period c) - 1) (length close) (tx_ema out)" using o by (intro ema_core_aligned) simp_all
  note ma = macd_core_aligned [OF mc(1) p mc(2-4)]
  have sg: "ti_aligned (nat (ic_macd_slow_period c + ic_macd_signal_period c - 2)) (length close) (mv_signal (tx_macd out))"
    "ti_aligned (nat (ic_macd_slow_period c + ic_macd_signal_period c - 2)) (length close) (mv_histogram (tx_macd out))"
    unfolding i(1) [symmetric] by (rule ma(2,3))+
  note ba = bollinger_core_aligned [OF rw(3) p bc, unfolded i(3)]
  have nn: "0 \<le> ic_return_period c" "0 \<le> ic_sma_period c - 1" "0 \<le> ic_ema_period c - 1" "0 \<le> ic_volatility_period c"
    "0 \<le> ic_rsi_period c" "0 \<le> ic_macd_slow_period c - 1" "0 \<le> ic_macd_slow_period c + ic_macd_signal_period c - 2"
    "0 \<le> ic_bollinger_period c - 1" "0 \<le> ic_atr_period c" using o by simp_all
  show ?thesis unfolding ti_first_indices_def ti_output_series_def Let_def
    by (intro list_all2_Cons [THEN iffD2] conjI list_all2_Nil [THEN iffD2] TrueI refl nn)
      (rule s(1,2,4,5) v s(3) [unfolded i(4)] e [unfolded i(5)] ma(1) [unfolded i(2)] sg ba)+
qed

lemma outputs_validate:
  assumes "clean_prices high low close" and "ti_outputs m c ts high low close = Inr out" and "length ts = length close"
  shows "ti_validate_output out (length close) = Inr ()"
proof -
  note o = assms(2) [unfolded outputs_iff [OF assms(1)]]
  have a: "\<exists>k. ti_aligned k (length close) xs" if "xs \<in> set (ti_output_series out)" for xs
  proof -
    obtain j where "j < length (ti_output_series out)" "ti_output_series out ! j = xs"
      using \<open>xs \<in> set (ti_output_series out)\<close> unfolding in_set_conv_nth by blast
    then show ?thesis using list_all2_nthD2 [OF outputs_aligned [OF assms(1,2)]] by blast
  qed
  have f: "\<not> list_ex (\<lambda>value. case value of None \<Rightarrow> False | Some v \<Rightarrow> \<not> f_isfinite v) xs" if mem: "xs \<in> set (ti_output_series out)" for xs
  proof -
    obtain k where k: "ti_aligned k (length close) xs" using a [OF mem] by blast
    have "\<not> (case xs ! i of None \<Rightarrow> False | Some v \<Rightarrow> \<not> f_isfinite v)" if "i < length xs" for i
      using aligned_finite [OF k, of i] aligned_length [OF k] that by (cases "xs ! i") simp_all
    then show ?thesis unfolding list_ex_length by blast
  qed
  have "\<not> list_ex (\<lambda>values. length values \<noteq> length close) (ti_output_series out)"
    using a aligned_length by (fastforce simp: list_ex_iff)
  moreover have "\<not> list_ex (list_ex (\<lambda>value. case value of None \<Rightarrow> False | Some v \<Rightarrow> \<not> f_isfinite v)) (ti_output_series out)"
    using f by (simp add: list_ex_iff)
  ultimately show ?thesis using o assms(3) by (simp add: ti_validate_output_def Let_def)
qed

lemma outputs_take:
  assumes "clean_prices high low close" and "ti_outputs m c ts high low close = Inr out" and "0 < n"
  shows "ti_outputs m c (take n ts) (take n high) (take n low) (take n close) = Inr (ti_truncate n out)"
proof -
  note o = assms(2) [unfolded outputs_iff [OF assms(1)]]
  have p: "close \<noteq> []" "\<forall>x \<in> set close. f_isfinite x" using assms(1) by (auto simp: clean_prices_def clean_pos_def clean_def)
  obtain r width where rw: "ti_simple_core close 1 = Inr r" "ti_volatility_core r (nat (ic_volatility_period c)) = Inr (tx_return_volatility out)"
    "ti_positive_finite (ic_bollinger_standard_deviations c) ''standard_deviations'' = Inr width"
    "ti_bollinger_core close (ic_bollinger_period c) width = Inr (tx_bollinger out)" using o by blast
  have m: "ti_macd_core (take n close) (ic_macd_fast_period c) (ic_macd_slow_period c) (ic_macd_signal_period c) = Inr (ti_macd_take n (tx_macd out))"
    using o assms(3) by (intro macd_core_take [OF _ p]) simp_all
  have b: "ti_bollinger_core (take n close) (ic_bollinger_period c) width = Inr (ti_bollinger_take n (tx_bollinger out))"
    using o assms(3) by (intro bollinger_core_take [OF rw(4) p]) simp_all
  have e: "ti_ema_core (take n close) (nat (ic_ema_period c)) = Inr (take n (tx_ema out))" using o by (intro ema_core_take) simp_all
  show ?thesis unfolding outputs_iff [OF clean_prices_take [OF assms(1,3)]]
    using o rw(3) b m e simple_core_take [OF rw(1)] volatility_core_take [OF rw(2)]
    by (auto simp: ti_truncate_def simple_core_take log_core_take sma_core_take rsi_core_take atr_core_take)
qed

lemma calc_stages:
  assumes "calculate_indicators m observed_at opens highs lows closes config = Inr out"
  obtains c ts op hi lo cl r where "ti_config config = Inr c" and "ti_chronological_timestamps observed_at = Inr ts"
    and "ti_finite_series opens ''opens'' False True = Inr op" and "ti_finite_series highs ''highs'' False True = Inr hi"
    and "ti_finite_series lows ''lows'' False True = Inr lo" and "ti_finite_series closes ''closes'' True False = Inr cl"
    and "length ts = length cl \<and> length op = length cl \<and> length hi = length cl \<and> length lo = length cl"
    and "ti_validate_ohlc op hi lo cl = Inr ()" and "required_observations (Some (Inst c)) = Inr r"
    and "r \<le> int (length cl)" and "ti_outputs m c ts hi lo cl = Inr out"
proof -
  from assms obtain c ts op hi lo cl r where "ti_config config = Inr c" "ti_chronological_timestamps observed_at = Inr ts"
    "ti_finite_series opens ''opens'' False True = Inr op" "ti_finite_series highs ''highs'' False True = Inr hi"
    "ti_finite_series lows ''lows'' False True = Inr lo" "ti_finite_series closes ''closes'' True False = Inr cl"
    "ti_equal_lengths ''observed_at, open, high, low, close'' [length ts, length op, length hi, length lo, length cl] = Inr ()"
    "ti_validate_ohlc op hi lo cl = Inr ()" "required_observations (Some (Inst c)) = Inr r"
    "\<not> int (length cl) < r" "ti_outputs m c ts hi lo cl = Inr out"
    unfolding calculate_indicators_def by (elim bind_check_InrE bind_res_InrE) simp
  then show ?thesis using that [of c ts op hi lo cl r] by (simp add: equal_lengths_iff)
qed

lemma prices_clean:
  assumes "ti_finite_series highs ''highs'' False True = Inr hi" and "ti_finite_series lows ''lows'' False True = Inr lo"
    and "ti_finite_series closes ''closes'' True False = Inr cl"
    and "length hi = length cl \<and> length lo = length cl" and "ti_validate_ohlc op hi lo cl = Inr ()"
  shows "clean_prices hi lo cl"
  using finite_series_facts [OF assms(1)] finite_series_facts [OF assms(2)] finite_series_facts [OF assms(3)] assms(4,5)
  by (auto simp: clean_prices_def clean_pos_def clean_def ohlc_iff)

lemma required_positive:
  assumes "clean_prices high low close" and "ti_outputs m c ts high low close = Inr out" and "required_observations (Some (Inst c)) = Inr r"
  shows "0 < r" and "\<forall>k \<in> set (ti_first_indices c). k < r"
proof -
  note o = assms(2) [unfolded outputs_iff [OF assms(1)]]
  have r: "r = foldl max (ic_return_period c + 1)
      [ic_sma_period c, ic_ema_period c, ic_volatility_period c + 1, ic_rsi_period c + 1,
       ic_macd_slow_period c + ic_macd_signal_period c - 1, ic_bollinger_period c, ic_atr_period c + 1]"
    using assms(3) unfolding required_observations_def ti_config_def
    by (simp only: option.case pyarg.case bind_res_simps sum.inject)
  have g: "ic_return_period c + 1 \<le> r" "ic_sma_period c \<le> r" "ic_ema_period c \<le> r" "ic_volatility_period c + 1 \<le> r"
    "ic_rsi_period c + 1 \<le> r" "ic_macd_slow_period c + ic_macd_signal_period c - 1 \<le> r" "ic_bollinger_period c \<le> r"
    "ic_atr_period c + 1 \<le> r" unfolding r by (intro foldl_max_in; simp only: list.set insert_iff simp_thms)+
  have p: "1 \<le> ic_return_period c" "1 \<le> ic_macd_signal_period c" using o by simp_all
  show "0 < r" using g(1) p(1) by linarith
  show "\<forall>k \<in> set (ti_first_indices c). k < r" using g p(2) by (auto simp: ti_first_indices_def Let_def)
qed

text \<open>
  Every series of a successful bundle has one entry per observation, is \<open>None\<close> exactly
  before the first index its periods determine, and is finite from there on; with at
  least \<open>required_observations\<close> every series is defined at the last observation.
\<close>

theorem warm_up_is_exact:
  assumes "calculate_indicators m observed_at opens highs lows closes config = Inr out"
  shows "list_all2 (\<lambda>k values. 0 \<le> k \<and> k < int (length (tx_observed_at out)) \<and>
           length values = length (tx_observed_at out) \<and>
           (\<forall>i < length values. (values ! i = None) = (int i < k) \<and>
              (values ! i = None \<or> f_isfinite (the (values ! i)))))
         (ti_first_indices (tx_config out)) (ti_output_series out)"
  using assms
proof (rule calc_stages)
  fix c ts op hi lo cl r
  assume a: "ti_finite_series highs ''highs'' False True = Inr hi" "ti_finite_series lows ''lows'' False True = Inr lo"
    "ti_finite_series closes ''closes'' True False = Inr cl"
    "length ts = length cl \<and> length op = length cl \<and> length hi = length cl \<and> length lo = length cl"
    "ti_validate_ohlc op hi lo cl = Inr ()" "required_observations (Some (Inst c)) = Inr r" "r \<le> int (length cl)"
    "ti_outputs m c ts hi lo cl = Inr out"
  have p: "clean_prices hi lo cl" using a(4) by (intro prices_clean [OF a(1-3) _ a(5)]) simp
  have o: "tx_config out = c" "length (tx_observed_at out) = length cl" using a(4,8) by (simp_all add: outputs_iff [OF p])
  have one: "k < int (length cl) \<and> length xs = length cl \<and>
      (\<forall>i < length xs. (xs ! i = None) = (int i < k) \<and> (xs ! i = None \<or> f_isfinite (the (xs ! i))))"
    if "0 \<le> k" "k < r" "ti_aligned (nat k) (length cl) xs" for k xs
  proof (intro conjI allI impI)
    show "k < int (length cl)" "length xs = length cl" using that a(7) by (simp_all add: ti_aligned_def)
    fix i
    assume "i < length xs"
    then have "case xs ! i of None \<Rightarrow> i < nat k | Some v \<Rightarrow> nat k \<le> i \<and> f_isfinite v" using that(3) by (simp add: ti_aligned_def)
    then show "(xs ! i = None) = (int i < k)" "xs ! i = None \<or> f_isfinite (the (xs ! i))"
      using that(1) by (cases "xs ! i"; force)+
  qed
  show ?thesis unfolding o
    by (rule list.rel_mono_strong [OF outputs_aligned [OF p a(8)]]) (use one required_positive(2) [OF p a(8,6)] in blast)
qed

text \<open>C26.
  The bundle computed from the first \<open>n\<close> observations, \<open>n\<close> at least the required number,
  is the bundle computed from all of them cut off after \<open>n\<close> entries: no indicator value
  depends on a later observation.
\<close>

theorem indicators_are_causal:
  assumes "calculate_indicators m (Seq tss) (Seq os) (Seq hs) (Seq ls) (Seq cs) config = Inr out"
    and "required_observations config = Inr r" and "r \<le> int n"
  shows "calculate_indicators m (Seq (take n tss)) (Seq (take n os)) (Seq (take n hs)) (Seq (take n ls)) (Seq (take n cs)) config
    = Inr (ti_truncate n out)"
  using assms(1)
proof (rule calc_stages)
  fix c ts op hi lo cl r'
  assume a: "ti_config config = Inr c" "ti_chronological_timestamps (Seq tss) = Inr ts"
    "ti_finite_series (Seq os) ''opens'' False True = Inr op" "ti_finite_series (Seq hs) ''highs'' False True = Inr hi"
    "ti_finite_series (Seq ls) ''lows'' False True = Inr lo" "ti_finite_series (Seq cs) ''closes'' True False = Inr cl"
    "length ts = length cl \<and> length op = length cl \<and> length hi = length cl \<and> length lo = length cl"
    "ti_validate_ohlc op hi lo cl = Inr ()" "required_observations (Some (Inst c)) = Inr r'" "r' \<le> int (length cl)"
    "ti_outputs m c ts hi lo cl = Inr out"
  have p: "clean_prices hi lo cl" using a(7) by (intro prices_clean [OF a(4-6) _ a(8)]) simp
  have "required_observations config = required_observations (Some (Inst c))"
    unfolding required_observations_def a(1) by (simp only: ti_config_def option.case pyarg.case)
  then have r: "r' = r" using a(9) assms(2) by simp
  have n: "0 < n" using required_positive(1) [OF p a(11,9)] r assms(3) by simp
  note t = outputs_take [OF p a(11) n]
  have v: "ti_validate_output (ti_truncate n out) (length (take n cl)) = Inr ()"
    using a(7) by (intro outputs_validate [OF clean_prices_take [OF p n] t]) simp
  have e: "ti_equal_lengths ''observed_at, open, high, low, close''
      [length (take n ts), length (take n op), length (take n hi), length (take n lo), length (take n cl)] = Inr ()"
    using a(7) by (simp add: equal_lengths_iff)
  have k: "\<not> int (length (take n cl)) < r'" using a(10) assms(3) r by simp
  show ?thesis unfolding calculate_indicators_def
    by (rule bind_okI [OF a(1)], rule bind_okI [OF chronological_take [OF a(2) n]],
        rule bind_okI [OF finite_series_take [OF a(3) n]], rule bind_okI [OF finite_series_take [OF a(4) n]],
        rule bind_okI [OF finite_series_take [OF a(5) n]], rule bind_okI [OF finite_series_take [OF a(6) n]],
        rule bind_okI [OF e], rule bind_okI [OF ohlc_take [OF a(8)]], rule bind_okI [OF a(9)],
        rule check_okI [OF k], rule bind_okI [OF t], rule bind_okI [OF v], rule refl)
qed

end
