(* ===== verification/TechnicalErrorLaws.thy ===== *)
theory TechnicalErrorLaws
  imports TechnicalBundleLaws
begin

text \<open>
  The exceptions of the indicator bundle.  The code marks the branches that raise
  \<open>RuntimeError\<close> as protected by construction; here they are shown to be unreachable,
  together with every index and division error.
\<close>

named_theorems raises_intros \<open>which exceptions can leave a computation\<close>

definition input_error :: "exn \<Rightarrow> bool" where
  "input_error e \<longleftrightarrow> (case e of ValueError _ \<Rightarrow> True | TypeErr _ \<Rightarrow> True | OverflowErr _ \<Rightarrow> True | _ \<Rightarrow> False)"

definition input_safe :: "'a res \<Rightarrow> bool" where
  "input_safe m \<longleftrightarrow> (case m of Inl e \<Rightarrow> input_error e | Inr _ \<Rightarrow> True)"

lemma input_error_simps [simp]: "input_error (ValueError s)" "input_error (TypeErr s)" "input_error (OverflowErr s)"
  by (simp_all add: input_error_def)

lemma input_safe_simps [simp]: "input_safe (Inr x)" "input_safe (Inl e) = input_error e"
  by (simp_all add: input_safe_def)

lemma safe_bind [raises_intros]: "input_safe m \<Longrightarrow> (\<And>x. m = Inr x \<Longrightarrow> input_safe (f x)) \<Longrightarrow> input_safe (bind_res m f)"
  by (cases m) simp_all

lemma safe_check [raises_intros]: "input_error e \<Longrightarrow> (\<not> c \<Longrightarrow> input_safe (f ())) \<Longrightarrow> input_safe (bind_res (check c e) f)"
  by (cases c) simp_all

lemma safe_check_end [raises_intros]: "input_error e \<Longrightarrow> input_safe (check c e)"
  by (cases c) simp_all

lemma safe_map_res [raises_intros]: "(\<And>x. x \<in> set xs \<Longrightarrow> input_safe (f x)) \<Longrightarrow> input_safe (map_res f xs)"
proof (induction xs)
  case (Cons x xs)
  then have "input_safe (f x)" "input_safe (map_res f xs)" by simp_all
  then show ?case by (auto intro!: raises_intros)
qed simp

lemma safe_finite_result [raises_intros]: "input_safe (ti_finite_result x name)"
  by (simp add: ti_finite_result_def)

lemma safe_fsum [raises_intros]: "input_safe (ti_fsum xs name)"
  by (auto simp: ti_fsum_def split: sum.split intro: raises_intros)

lemma safe_stable_mean [raises_intros]: "input_safe (ti_stable_mean xs name)"
  unfolding ti_stable_mean_def Let_def by (auto intro!: raises_intros)

lemma safe_stable_deviation [raises_intros]: "input_safe (ti_stable_standard_deviation xs d name)"
  unfolding ti_stable_standard_deviation_def Let_def by (auto intro!: raises_intros)

lemma safe_real_float: "real_float v = Some r \<Longrightarrow> input_safe r"
  by (auto simp: real_float_def f_of_int_def Let_def split: pyobj.splits if_splits)

lemma safe_period [raises_intros]: "input_safe (ti_positive_period v name k)"
  by (auto simp: ti_positive_period_def split: pyobj.split)

lemma safe_positive_finite [raises_intros]: "input_safe (ti_positive_finite v name)"
  by (auto simp: ti_positive_finite_def split: option.split intro!: safe_bind dest: safe_real_float)

lemma safe_element [raises_intros]: "input_safe (ti_element name p n iv)"
  by (auto simp: ti_element_def Let_def split: option.split prod.split intro!: safe_bind dest: safe_real_float)

lemma safe_series [raises_intros]: "input_safe (ti_finite_series vs name p n)"
  unfolding ti_finite_series_def by (cases vs) (auto intro!: raises_intros)

lemma safe_timestamps: "input_safe (ti_timestamps i p vs)"
proof (induction i p vs rule: ti_timestamps.induct)
  case (2 i p v rest)
  have "input_safe (utc_of ValueError v (''observed_at['' @ int_str (int i) @ '']''))"
    by (auto simp: utc_of_def split: pyobj.split option.split)
  then show ?case using 2 unfolding ti_timestamps.simps by (intro raises_intros) auto
qed simp

lemma safe_chronological [raises_intros]: "input_safe (ti_chronological_timestamps vs)"
  unfolding ti_chronological_timestamps_def by (cases vs) (auto intro!: raises_intros safe_timestamps)

lemma safe_validation [raises_intros]:
  "input_safe (ti_equal_lengths names ns)" "input_safe (ti_validate_hlc high low close)"
  "input_safe (ti_validate_ohlc op high low close)"
  unfolding ti_validate_ohlc_def ti_validate_hlc_def ti_equal_lengths_def by (auto intro!: raises_intros)

lemma safe_config [raises_intros]: "input_safe (ti_config c)"
  by (auto simp: ti_config_def split: option.split pyarg.split)

lemma safe_required [raises_intros]: "input_safe (required_observations c)"
  unfolding required_observations_def by (intro raises_intros) simp

lemma safe_policy [raises_intros]: "input_safe (indicator_policy_hash c)"
  unfolding indicator_policy_hash_def ti_float_def canonical_json_def
  by (auto intro!: raises_intros dest: safe_real_float split: option.split)

section \<open>The series\<close>

lemma safe_div:
  assumes "\<forall>x \<in> set data. 0 < f_key x" and "i < length data"
  shows "input_safe (f_div a (data ! i))"
proof -
  have "0 < f_key (data ! i)" using assms by simp
  then have "f_idx (data ! i) \<noteq> 0" by (auto simp: f_key_def split: if_splits)
  then show ?thesis by (simp add: f_div_def)
qed

lemma safe_returns:
  assumes "\<forall>x \<in> set data. 0 < f_key x"
  shows "input_safe (ti_simple_core data lag)" and "input_safe (ti_log_core m data lag)"
  unfolding ti_simple_core_def ti_log_core_def ti_log_value_def Let_def
  by (auto intro!: raises_intros safe_div [OF assms])

lemma safe_sma [raises_intros]: "input_safe (ti_sma_core data w)"
  unfolding ti_sma_core_def by (auto intro!: raises_intros)

lemma safe_ema_loop: "input_safe (ti_ema_loop a p xs)"
  by (induction xs arbitrary: p) (auto intro!: raises_intros)

lemma safe_ema [raises_intros]: "input_safe (ti_ema_core data w)"
  unfolding ti_ema_core_def Let_def by (auto intro!: raises_intros safe_ema_loop)

lemma safe_volatility [raises_intros]: "input_safe (ti_volatility_core r w)"
  unfolding ti_volatility_core_def Let_def by (auto intro!: raises_intros)

lemma safe_rsi_value [raises_intros]: "input_safe (rsi_value g l)"
  unfolding rsi_value_def Let_def by (auto intro!: raises_intros)

lemma safe_rsi_loop: "input_safe (ti_rsi_loop w g l xs)"
  by (induction xs arbitrary: g l) (auto intro!: raises_intros)

lemma safe_rsi [raises_intros]: "input_safe (ti_rsi_core data w)"
  unfolding ti_rsi_core_def Let_def by (auto intro!: raises_intros safe_rsi_loop)

text \<open>The alignment test of MACD never fires: the line is defined wherever the signal is.\<close>

lemma safe_macd_tail:
  assumes "\<forall>j < length tail. line ! (idx + j) \<noteq> None"
  shows "input_safe (ti_macd_tail idx line s h tail)"
  using assms
proof (induction idx line s h tail rule: ti_macd_tail.induct)
  case (2 idx line s h tail)
  have "\<forall>j < length tail. line ! (Suc idx + j) \<noteq> None" using 2(2) by (metis Suc_mono add_Suc_shift length_Cons)
  then show ?case using 2(1) by simp
next
  case (3 idx line s h v tail)
  obtain lv where l: "line ! idx = Some lv" using 3(2) by fastforce
  have "\<forall>j < length tail. line ! (Suc idx + j) \<noteq> None" using 3(2) by (metis Suc_mono add_Suc_shift length_Cons)
  then show ?case using 3(1) [OF l] l by (auto intro!: safe_bind safe_finite_result)
qed simp

lemma safe_macd:
  assumes "data \<noteq> []" and "\<forall>x \<in> set data. f_isfinite x" and "1 \<le> fast" and "1 \<le> slow" and "1 \<le> sig"
  shows "input_safe (ti_macd_core data fast slow sig)"
  unfolding ti_macd_core_def Let_def public_on_floats(2) [OF assms(1,2,3)] public_on_floats(2) [OF assms(1,2,4)]
proof (intro safe_check safe_bind)
  fix fv sv line tail
  assume s: "\<not> slow \<le> fast" "ti_ema_core data (nat fast) = Inr fv" "ti_ema_core data (nat slow) = Inr sv"
    "ti_macd_line (length data) fv sv (nat slow) = Inr line"
    and t: "(if ti_available (nat slow - 1) line \<noteq> [] then ema (ti_floats (ti_available (nat slow - 1) line)) (PyInt sig) else Inr []) = Inr tail"
  have a: "ti_aligned (nat slow - 1) (length data) line"
    using s(1) assms(3,4) ema_core_aligned [OF s(2)] ema_core_aligned [OF s(3)] by (intro macd_line_aligned [OF s(4)]) auto
  have "length tail \<le> length data - (nat slow - 1)"
  proof (cases "ti_available (nat slow - 1) line = []")
    case True
    then show ?thesis using t by simp
  next
    case False
    have "ti_ema_core (ti_available (nat slow - 1) line) (nat sig) = Inr tail"
      using t [unfolded if_P [OF False]] public_on_floats(2) [OF False aligned_values(2) [OF a] assms(5)] by simp
    from aligned_length [OF ema_core_aligned [OF this]] assms(5) show ?thesis using aligned_values(1) [OF a] by simp
  qed
  then have "\<forall>j < length tail. line ! (nat slow - 1 + j) \<noteq> None"
    using aligned_Some [OF a] by (metis le_add1 less_diff_conv add.commute option.distinct(1) order_less_le_trans)
  then show "input_safe (ti_macd_tail (nat slow - 1) line (replicate (length data) None) (replicate (length data) None) tail)"
    by (rule safe_macd_tail)
qed (auto simp: ti_macd_line_def ema_def split: prod.split option.split intro!: raises_intros)

lemma safe_band [raises_intros]: "input_safe (ti_band width mean sample)"
  unfolding ti_band_def by (intro raises_intros) simp

lemma safe_bollinger:
  assumes "data \<noteq> []" and "\<forall>x \<in> set data. f_isfinite x" and "1 \<le> w"
  shows "input_safe (ti_bollinger_core data w width)"
  unfolding ti_bollinger_core_def public_on_floats(1) [OF assms]
proof (intro safe_bind safe_map_res)
  fix middle i
  assume m: "ti_sma_core data (nat w) = Inr middle" and i: "i \<in> set [0..<length data]"
  show "input_safe (if i < nat w - 1 then Inr (None, None)
      else case middle ! i of None \<Rightarrow> Inl (RuntimeError ''Bollinger alignment invariant failed'')
        | Some mean \<Rightarrow> ti_band width mean (ti_window data (nat w) (i + 1)))"
  proof (cases "i < nat w - 1")
    case False
    then obtain mean where "middle ! i = Some mean" using aligned_Some [OF sma_core_aligned [OF m], of i] i by auto
    then show ?thesis using False by (simp add: safe_band)
  qed simp
qed (auto intro!: raises_intros)

lemma safe_atr_loop: "None \<notin> set xs \<Longrightarrow> input_safe (ti_atr_loop w p xs)"
  by (induction w p xs rule: ti_atr_loop.induct) (auto intro!: safe_bind safe_finite_result)

lemma safe_atr [raises_intros]: "input_safe (ti_atr_core high low close w)"
proof (cases "length close \<le> w")
  case False
  have loop: "input_safe (ti_atr_loop w p (drop (w + 1) tr))"
    if "map_res (ti_true_range high low close) [0..<length close] = Inr tr" for tr p
  proof (rule safe_atr_loop)
    note a = true_range_aligned [OF that]
    show "None \<notin> set (drop (w + 1) tr)"
    proof
      assume "None \<in> set (drop (w + 1) tr)"
      then obtain j where "j < length (drop (w + 1) tr)" "drop (w + 1) tr ! j = None" unfolding in_set_conv_nth by blast
      then have "w + 1 + j < length close" "tr ! (w + 1 + j) = None" using aligned_length [OF a] by simp_all
      then show False using aligned_Some [OF a, of "w + 1 + j"] by auto
    qed
  qed
  have "input_safe (map_res (ti_true_range high low close) [0..<length close])"
    by (auto simp: ti_true_range_def intro!: raises_intros)
  then show ?thesis using False unfolding ti_atr_core_def Let_def by (auto intro!: raises_intros loop [simplified])
qed (simp add: ti_atr_core_def)

section \<open>The bundle\<close>

lemma positive_period_int: "ti_positive_period (PyInt w) name k = Inr v \<Longrightarrow> k \<le> v"
  by (simp add: ti_positive_period_def split: if_splits)

lemma safe_public:
  assumes "clean data"
  shows "input_safe (sma (ti_floats data) p)" and "input_safe (ema (ti_floats data) p)"
    and "input_safe (macd (ti_floats data) (PyInt f) (PyInt s) (PyInt g))"
    and "input_safe (bollinger_bands (ti_floats data) (PyInt w) sd)"
  unfolding sma_def ema_def macd_def bollinger_bands_def series_clean(1) [OF assms] bind_res_simps
  using assms by (auto intro!: raises_intros safe_macd safe_bollinger simp: clean_def dest: positive_period_int)

lemma safe_public_pos:
  assumes "clean_pos data"
  shows "input_safe (simple_returns (ti_floats data) p)" and "input_safe (log_returns m (ti_floats data) p)"
    and "input_safe (rsi (ti_floats data) p)" and "input_safe (return_volatility (ti_floats data) p)"
  unfolding simple_returns_def log_returns_def rsi_def return_volatility_def series_clean(1) [OF clean_posD [OF assms]]
    series_clean(2) [OF assms] bind_res_simps
  using assms by (auto intro!: raises_intros safe_returns simp: clean_pos_def)

lemma safe_outputs:
  assumes "clean_prices high low close"
  shows "input_safe (ti_outputs m c ts high low close)"
proof -
  have p: "clean close" "clean_pos close" using assms by (simp_all add: clean_prices_def clean_posD)
  have "input_safe (average_true_range (ti_floats high) (ti_floats low) (ti_floats close) w)" for w
    unfolding average_true_range_def by (intro raises_intros)
  then show ?thesis unfolding ti_outputs_def
    by (intro safe_bind safe_policy safe_public [OF p(1)] safe_public_pos [OF p(2)]) simp_all
qed


end
