(* ===== verification/TechnicalRangeLaws.thy ===== *)
theory TechnicalRangeLaws
  imports TechnicalBundleLaws
begin

text \<open>
  The ranges of the indicator values in binary64 arithmetic: Wilder averages of
  nonnegative terms never become negative by rounding, the relative strength index
  stays within \<open>[0, 100]\<close>, the true range average is nonnegative, and a Bollinger
  band encloses its mean.
\<close>

section \<open>Division by a count\<close>

lemma count_cases:
  assumes "0 < n"
  shows "\<not> f_isnan (ti_count n) \<and> \<not> f_isneg (ti_count n) \<and>
    (f_isinf (ti_count n) \<or> f_isfinite (ti_count n) \<and> 1 \<le> fval (ti_count n))"
proof -
  let ?k = "rmag (of_nat n)"
  have c: "ti_count n = f_pack False ?k" using rnd_mag_eq [of 1 "int n"] by (simp add: ti_count_def f_of_int_exact_def)
  have k: "0 \<le> ?k" "?k \<le> inf_idx" "?k < 9223372036854775808" using rmag_nonneg rmag_le_inf [of "of_nat n"] by (auto simp: inf_idx_def)
  have i: "f_idx (ti_count n) = ?k" "\<not> f_isneg (ti_count n)" using k by (simp_all add: c)
  show ?thesis
  proof (cases "?k = inf_idx")
    case True
    then show ?thesis using i by (simp add: f_isnan_def f_isinf_def)
  next
    case False
    then have f: "f_isfinite (ti_count n)" using k(2) i(1) by (simp add: f_isfinite_def)
    have one: "f_isfinite f_one" by code_simp
    then have "f_key f_one \<le> rkey (of_nat n)" using assms by (intro key_le_rkey) simp_all
    moreover have "rkey (of_nat n) = f_key (ti_count n)" using i assms by (simp add: rkey_def f_key_def)
    ultimately have "fval f_one \<le> fval (ti_count n)" using f one by (simp only: fval_le_iff)
    then show ?thesis using f i by (simp add: f_finite_not_nan)
  qed
qed

lemma quot_count:
  assumes "f_isfinite a" and "0 < n"
  shows "f_isfinite (f_quot a (ti_count n))"
    and "0 \<le> f_key a \<Longrightarrow> 0 \<le> f_key (f_quot a (ti_count n)) \<and> f_key (f_quot a (ti_count n)) \<le> f_key a"
    and "f_key a \<le> 0 \<Longrightarrow> f_key a \<le> f_key (f_quot a (ti_count n)) \<and> f_key (f_quot a (ti_count n)) \<le> 0"
proof -
  note c = count_cases [OF assms(2)]
  let ?q = "f_quot a (ti_count n)"
  have b: "(0 \<le> f_key a \<longrightarrow> 0 \<le> f_key ?q \<and> f_key ?q \<le> f_key a) \<and> (f_key a \<le> 0 \<longrightarrow> f_key a \<le> f_key ?q \<and> f_key ?q \<le> 0)"
  proof (cases "f_isinf (ti_count n)")
    case True
    then have "?q = f_pack (f_isneg a) 0" using assms(1) c by (simp add: f_quot_def Let_def f_finite_not_nan f_finite_not_inf)
    then show ?thesis by (simp add: f_key_def)
  next
    case False
    then have f: "f_isfinite (ti_count n)" "1 \<le> fval (ti_count n)" using c by simp_all
    then have "f_idx (ti_count n) \<noteq> 0" by (auto simp: fval_def mval_def f_man_def split: if_splits)
    then have k: "f_key ?q = rkey (fval a / fval (ti_count n))" by (rule f_key_quot [OF assms(1) f(1)])
    have u: "fval a / fval (ti_count n) \<le> fval a" "0 \<le> fval a / fval (ti_count n)" if "0 \<le> fval a"
      using that f(2) by (simp_all add: divide_le_eq mult_le_cancel_left1)
    have l: "fval a \<le> fval a / fval (ti_count n)" "fval a / fval (ti_count n) \<le> 0" if "fval a \<le> 0"
    proof -
      have "fval a * (fval (ti_count n) - 1) \<le> 0" using that f(2) by (intro mult_nonpos_nonneg) simp_all
      then show "fval a \<le> fval a / fval (ti_count n)" using f(2) by (simp add: le_divide_eq algebra_simps)
      show "fval a / fval (ti_count n) \<le> 0" using that f(2) by (simp add: divide_nonpos_pos)
    qed
    have z: "0 \<le> rkey x" if "0 \<le> x" for x using rkey_mono [OF that] by simp
    have z': "rkey x \<le> 0" if "x \<le> 0" for x using rkey_mono [OF that] by simp
    show ?thesis unfolding k using u l z z' rkey_le_key [OF assms(1)] key_le_rkey [OF assms(1)] fval_sign [OF assms(1)] by blast
  qed
  show "f_isfinite ?q" using b assms(1) unfolding f_isfinite_key by (cases "0 \<le> f_key a") auto
  show "0 \<le> f_key a \<Longrightarrow> 0 \<le> f_key ?q \<and> f_key ?q \<le> f_key a" and "f_key a \<le> 0 \<Longrightarrow> f_key a \<le> f_key ?q \<and> f_key ?q \<le> 0"
    using b by simp_all
qed

section \<open>Means and Wilder steps\<close>

lemma f_maximum_facts:
  assumes "xs \<noteq> []" and "\<forall>x \<in> set xs. f_isfinite x"
  shows "f_maximum xs \<in> set xs" and "\<forall>x \<in> set xs. f_key x \<le> f_key (f_maximum xs)"
proof -
  have "foldl f_max a ys \<in> insert a (set ys) \<and> (\<forall>x \<in> insert a (set ys). f_key x \<le> f_key (foldl f_max a ys))"
    if "f_isfinite a" "\<forall>y \<in> set ys. f_isfinite y" for a ys
    using that
  proof (induction ys arbitrary: a)
    case (Cons y ys)
    then have m: "f_isfinite (f_max a y)" "f_key (f_max a y) = max (f_key a) (f_key y)"
      by (simp_all add: f_extremum_finite f_key_max)
    have "f_max a y = a \<or> f_max a y = y" by (simp add: f_max_def)
    then show ?case using Cons.IH [OF m(1)] Cons.prems m(2) by auto
  qed simp
  from this [of "hd xs" "tl xs"] assms show "f_maximum xs \<in> set xs" "\<forall>x \<in> set xs. f_key x \<le> f_key (f_maximum xs)"
    unfolding f_maximum_def by (cases xs; auto)+
qed

lemma stable_mean_nonneg:
  assumes "ti_stable_mean xs name = Inr v" and "\<forall>x \<in> set xs. f_isfinite x \<and> 0 \<le> f_key x"
  shows "0 \<le> f_key v"
proof -
  let ?s = "f_maximum (map f_abs xs)"
  have ne: "xs \<noteq> []" using assms(1) by (auto simp: ti_stable_mean_def)
  have s: "f_isfinite ?s" "0 \<le> f_key ?s"
    using f_maximum_facts(1) [of "map f_abs xs"] assms(2) ne by auto
  show ?thesis
  proof (cases "f_eq ?s f_zero")
    case True
    then show ?thesis using assms(1) ne by (simp add: ti_stable_mean_def)
  next
    case False
    then have k: "f_key ?s \<noteq> 0" using s by (simp add: f_eq_key)
    then have i: "f_idx ?s \<noteq> 0" by (auto simp: f_key_def split: if_splits)
    obtain total where t: "ti_fsum (map (\<lambda>value. f_quot value ?s) xs) name = Inr total"
      and v: "v = f_mul ?s (f_quot total (ti_count (length xs)))" "f_isfinite v"
      using assms(1) ne False by (auto simp: ti_stable_mean_def Let_def bind_res_Inr_iff)
    have "0 \<le> fval (f_quot x ?s)" if "x \<in> set xs" for x
    proof -
      have x: "f_isfinite x" "0 \<le> f_key x" "f_key x \<le> f_key ?s" using that assms(2) f_maximum_facts(2) [of "map f_abs xs"] ne by auto
      then have "0 \<le> fval x / fval ?s" "fval x / fval ?s \<le> 1"
        using fval_sign [OF x(1)] fval_sign [OF s(1)] fval_le_iff [OF x(1) s(1)] s k by (auto simp: divide_le_eq_1)
      then show ?thesis using f_key_quot [OF x(1) s(1) i] rkey_mono [of 0 "fval x / fval ?s"]
        unfolding fval_of_key [of "f_quot x ?s"] by (simp add: mval_nonneg)
    qed
    then have "f_fsum (map Inr (map (\<lambda>value. f_quot value ?s) xs)) = Inr total \<and> f_isfinite total
        \<longrightarrow> 0 \<le> f_key total"
      using f_fsum_nonneg [of "map (\<lambda>value. f_quot value ?s) xs"] rmag_nonneg rmag_bound by (auto simp: Let_def f_key_pack split: if_splits)
    moreover have "f_fsum (map Inr (map (\<lambda>value. f_quot value ?s) xs)) = Inr total \<and> f_isfinite total"
      using t by (simp add: ti_fsum_def split: sum.splits)
    ultimately have tot: "f_isfinite total" "0 \<le> f_key total" by simp_all
    have n: "0 < length xs" using ne by simp
    note q = quot_count(1) [OF tot(1) n] quot_count(2) [OF tot(1) n tot(2)]
    show ?thesis using f_key_mul [OF s(1) q(1)] rkey_mono [of 0 "fval ?s * fval (f_quot total (ti_count (length xs)))"]
      fval_sign(2) [OF s(1)] fval_sign(2) [OF q(1)] s(2) q(2) v(1) by simp
  qed
qed

lemma wilder_nonneg:
  assumes "f_isfinite p" and "0 \<le> f_key p" and "f_isfinite x" and "0 \<le> f_key x" and "0 < n"
  shows "0 \<le> f_key (ti_wilder p x n)"
proof -
  let ?d = "f_sub x p" and ?q = "f_quot (f_sub x p) (ti_count n)"
  have f: "0 \<le> fval p" "0 \<le> fval x" using fval_sign(2) assms by blast+
  have kd: "f_key ?d = rkey (fval x - fval p)" by (rule f_key_sub [OF assms(3,1)])
  have d: "- f_key p \<le> f_key ?d" "f_key ?d \<le> f_key x"
    unfolding kd using key_le_rkey [of "f_neg p" "fval x - fval p"] rkey_le_key [OF assms(3), of "fval x - fval p"] f assms(1) by simp_all
  then have fd: "f_isfinite ?d" using assms(1,3) by (simp add: f_isfinite_key)
  have q: "- f_key p \<le> f_key ?q" using quot_count [OF fd assms(5)] d(1) assms(2) by (cases "0 \<le> f_key ?d") auto
  have "fval (f_neg p) \<le> fval ?q" using q assms(1) quot_count(1) [OF fd assms(5)] by (subst fval_le_iff) simp_all
  then show ?thesis using rkey_mono [of 0 "fval p + fval ?q"] f_key_add [OF assms(1) quot_count(1) [OF fd assms(5)]]
    by (simp add: ti_wilder_def)
qed

section \<open>The relative strength index\<close>

definition in_percent :: "f64 \<Rightarrow> bool" where
  "in_percent v \<longleftrightarrow> f_le f_zero v \<and> f_le v f_hundred"

lemma hundred_facts: "f_isfinite f_hundred" "f_isfinite f_one" "fval f_hundred = 100"
proof -
  show "f_isfinite f_hundred" "f_isfinite f_one" by code_simp+
  have "f_isneg f_hundred = False" "f_man (f_idx f_hundred) = 7036874417766400" "f_ex (f_idx f_hundred) = - 46" by code_simp+
  then show "fval f_hundred = 100" by (simp add: fval_def mval_def power_int_minus)
qed

lemma quot_percent:
  assumes "f_isfinite a" and "f_isfinite b" and "0 \<le> fval a" and "1 \<le> fval b" and "fval a \<le> 100"
  shows "0 \<le> f_key (f_quot a b)" and "f_key (f_quot a b) \<le> f_key f_hundred"
proof -
  have "f_idx b \<noteq> 0" using assms(4) by (auto simp: fval_def mval_def f_man_def split: if_splits)
  then have k: "f_key (f_quot a b) = rkey (fval a / fval b)" by (rule f_key_quot [OF assms(1,2)])
  have "fval a \<le> 100 * fval b" using assms(4,5) by linarith
  then have q: "0 \<le> fval a / fval b" "fval a / fval b \<le> 100" using assms(3,4) by (simp_all add: divide_le_eq)
  show "0 \<le> f_key (f_quot a b)" unfolding k using rkey_mono [OF q(1)] by simp
  show "f_key (f_quot a b) \<le> f_key f_hundred" unfolding k by (rule rkey_le_key) (simp_all add: hundred_facts q)
qed

lemma ratio_facts:
  assumes "f_isfinite a" and "f_isfinite b" and "0 \<le> f_key a" and "f_key a \<le> f_key b" and "0 < f_key b"
  shows "f_isfinite (f_quot a b)" and "0 \<le> fval (f_quot a b)" and "fval (f_quot a b) \<le> 1"
    and "f_isfinite (f_add f_one (f_quot a b))" and "1 \<le> fval (f_add f_one (f_quot a b))"
proof -
  have v: "0 \<le> fval a" "fval a \<le> fval b" "0 < fval b" using fval_sign [OF assms(1)] fval_sign [OF assms(2)] fval_le_iff [OF assms(1,2)] assms by simp_all
  have "f_idx b \<noteq> 0" using assms(5) by (auto simp: f_key_def split: if_splits)
  then have k: "f_key (f_quot a b) = rkey (fval a / fval b)" by (rule f_key_quot [OF assms(1,2)])
  have q: "0 \<le> fval a / fval b" "fval a / fval b \<le> fval f_one" using v by simp_all
  have kb: "0 \<le> f_key (f_quot a b)" "f_key (f_quot a b) \<le> f_key f_one" unfolding k
    using rkey_mono [OF q(1)] rkey_le_key [OF hundred_facts(2) q(2)] by simp_all
  then show fq: "f_isfinite (f_quot a b)" using hundred_facts(2) unfolding f_isfinite_key by simp
  show r: "0 \<le> fval (f_quot a b)" "fval (f_quot a b) \<le> 1"
    using kb fval_sign(2) [OF fq] fval_le_iff [OF fq hundred_facts(2)] by simp_all
  have ka: "f_key (f_add f_one (f_quot a b)) = rkey (1 + fval (f_quot a b))" using f_key_add [OF hundred_facts(2) fq] by simp
  have lo: "f_key f_one \<le> f_key (f_add f_one (f_quot a b))" unfolding ka by (rule key_le_rkey) (use r hundred_facts in simp_all)
  have "f_key (f_add f_one (f_quot a b)) \<le> f_key f_hundred" unfolding ka by (rule rkey_le_key) (use r hundred_facts in simp_all)
  then show fa: "f_isfinite (f_add f_one (f_quot a b))" using lo hundred_facts(1,2) unfolding f_isfinite_key by linarith
  show "1 \<le> fval (f_add f_one (f_quot a b))" using lo fval_le_iff [OF hundred_facts(2) fa] by simp
qed

lemma rsi_value_range:
  assumes "rsi_value g l = Inr v" and "f_isfinite g" and "f_isfinite l" and "0 \<le> f_key g" and "0 \<le> f_key l"
  shows "in_percent v"
proof -
  have vf: "f_isfinite v" by (rule rsi_value_finite [OF assms(1)])
  have eq: "f_eq g f_zero \<longleftrightarrow> f_key g = 0" "f_eq l f_zero \<longleftrightarrow> f_key l = 0" using assms(2,3) by (simp_all add: f_eq_key)
  have c: "in_percent f_zero" "in_percent f_fifty" "in_percent f_hundred" by code_simp+
  have range: "in_percent w" if "f_isfinite w" "0 \<le> f_key w" "f_key w \<le> f_key f_hundred" for w
    using that hundred_facts(1) by (simp add: in_percent_def f_le_key)
  show ?thesis
  proof (cases "f_key g = 0 \<or> f_key l = 0")
    case True
    then show ?thesis using assms(1) c by (auto simp: rsi_value_def eq split: if_splits)
  next
    case False
    then have p: "0 < f_key g" "0 < f_key l" using assms(4,5) by simp_all
    show ?thesis
    proof (cases "f_key g \<le> f_key l")
      case True
      let ?r = "f_quot g l"
      note r = ratio_facts [OF assms(2,3,4) True p(2)]
      have v: "v = f_quot (f_mul f_hundred ?r) (f_add f_one ?r)"
        using assms(1-3) False True by (simp add: rsi_value_def eq f_le_key Let_def)
      have km: "f_key (f_mul f_hundred ?r) = rkey (100 * fval ?r)" using f_key_mul [OF hundred_facts(1) r(1)] by (simp add: hundred_facts)
      have "0 \<le> f_key (f_mul f_hundred ?r)" unfolding km using rkey_mono [of 0 "100 * fval ?r"] r(2) by simp
      moreover have le: "f_key (f_mul f_hundred ?r) \<le> f_key f_hundred" unfolding km by (rule rkey_le_key) (use r hundred_facts in simp_all)
      ultimately have fm: "f_isfinite (f_mul f_hundred ?r)" using hundred_facts(1) unfolding f_isfinite_key by linarith
      have "0 \<le> fval (f_mul f_hundred ?r)" "fval (f_mul f_hundred ?r) \<le> 100"
        using \<open>0 \<le> f_key (f_mul f_hundred ?r)\<close> le fval_sign(2) [OF fm] fval_le_iff [OF fm hundred_facts(1)] hundred_facts(3) by simp_all
      then show ?thesis using range [OF vf] quot_percent [OF fm r(4) _ r(5)] unfolding v by blast
    next
      case False': False
      let ?r = "f_quot l g"
      note r = ratio_facts [OF assms(3,2,5) _ p(1)]
      have le: "f_key l \<le> f_key g" using False' by simp
      have v: "v = f_quot f_hundred (f_add f_one ?r)"
        using assms(1-3) False False' by (simp add: rsi_value_def eq f_le_key Let_def)
      have "0 \<le> f_key v" "f_key v \<le> f_key f_hundred" unfolding v
        using quot_percent [OF hundred_facts(1) r(4) [OF le] _ r(5) [OF le]] hundred_facts(3) by simp_all
      then show ?thesis by (rule range [OF vf])
    qed
  qed
qed

lemma positive_part:
  assumes "f_isfinite x"
  shows "f_isfinite (f_max x f_zero)" and "0 \<le> f_key (f_max x f_zero)"
  using assms by (simp_all add: f_extremum_finite f_key_max)

lemma rsi_loop_range:
  assumes "ti_rsi_loop w g l xs = Inr ys" and "f_isfinite g" and "f_isfinite l" and "0 \<le> f_key g" and "0 \<le> f_key l"
    and "\<forall>x \<in> set xs. f_isfinite x" and "0 < w" and "Some v \<in> set ys"
  shows "in_percent v"
  using assms
proof (induction xs arbitrary: g l ys)
  case (Cons x xs)
  let ?g = "ti_wilder g (f_max x f_zero) w" and ?l = "ti_wilder l (f_max (f_neg x) f_zero) w"
  obtain y zs where s: "f_isfinite ?g" "f_isfinite ?l" "rsi_value ?g ?l = Inr y" "ti_rsi_loop w ?g ?l xs = Inr zs"
    "ys = Some y # zs" using Cons.prems(1) by (auto simp: bind_res_Inr_iff)
  have n: "0 \<le> f_key ?g" "0 \<le> f_key ?l" using Cons.prems(2-7) positive_part [of x] positive_part [of "f_neg x"]
    by (simp_all add: wilder_nonneg)
  show ?case
  proof (cases "v = y")
    case True
    then show ?thesis using rsi_value_range [OF s(3,1,2) n] by simp
  next
    case False
    have "\<forall>x \<in> set xs. f_isfinite x" "Some v \<in> set zs" using False Cons.prems(6,8) s(5) by simp_all
    then show ?thesis using Cons.IH [OF s(4,1,2) n _ Cons.prems(7)] by blast
  qed
qed simp

lemma changes_finite:
  assumes "\<forall>x \<in> set data. f_isfinite x \<and> 0 < f_key x" and "x \<in> set (ti_changes data)"
  shows "f_isfinite x"
proof -
  obtain i where i: "Suc i < length data" "x = f_sub (data ! Suc i) (data ! i)"
  proof -
    obtain j where j: "1 \<le> j" "j < length data" "x = f_sub (data ! j) (data ! (j - 1))"
      using assms(2) unfolding ti_changes_def set_map set_upt by auto
    then show thesis using that [of "j - 1"] by simp
  qed
  then have d: "f_isfinite (data ! Suc i)" "f_isfinite (data ! i)" "0 < f_key (data ! Suc i)" "0 < f_key (data ! i)"
    using assms(1) by simp_all
  have k: "f_key x = rkey (fval (data ! Suc i) - fval (data ! i))" unfolding i(2) by (rule f_key_sub [OF d(1,2)])
  have "0 < fval (data ! Suc i)" "0 < fval (data ! i)" using fval_sign(4) d by blast+
  then have "- f_key (data ! i) \<le> f_key x" "f_key x \<le> f_key (data ! Suc i)"
    unfolding k using key_le_rkey [of "f_neg (data ! i)"] rkey_le_key [OF d(1)] d(2) by simp_all
  then show ?thesis using d unfolding f_isfinite_key by simp
qed

text \<open>
  Every value the relative strength index returns lies between 0 and 100, whatever the
  rounding errors of the averages.
\<close>

theorem rsi_in_percent:
  assumes "rsi values period = Inr xs" and "Some v \<in> set xs"
  shows "f_le f_zero v \<and> f_le v f_hundred"
proof -
  obtain data w where s: "ti_finite_series values ''values'' True False = Inr data" "1 \<le> w" "ti_rsi_core data (nat w) = Inr xs"
  proof -
    obtain data w where p: "ti_finite_series values ''values'' True False = Inr data"
      "ti_positive_period period ''period'' 1 = Inr w" "ti_rsi_core data (nat w) = Inr xs"
      using assms(1) unfolding rsi_def by (elim bind_res_InrE)
    then show thesis by (intro that [OF p(1) _ p(3)]) (simp add: ti_positive_period_def split: pyobj.splits if_splits)
  qed
  have d: "\<forall>x \<in> set data. f_isfinite x \<and> 0 < f_key x" using finite_series_facts [OF s(1)] by metis
  from s(3) have "in_percent v"
  proof (cases rule: rsi_core_cases)
    case 1
    then show ?thesis using assms(2) by simp
  next
    case (2 g l y ys)
    have c: "\<forall>x \<in> set (ti_changes data). f_isfinite x" using changes_finite [OF d] by blast
    have t: "f_isfinite (f_max x f_zero) \<and> 0 \<le> f_key (f_max x f_zero)" "f_isfinite (f_max (f_neg x) f_zero) \<and> 0 \<le> f_key (f_max (f_neg x) f_zero)"
      if "x \<in> set (take (nat w) (ti_changes data))" for x
      using positive_part [of x] positive_part [of "f_neg x"] c in_set_takeD [OF that] by simp_all
    have gl: "f_isfinite g" "f_isfinite l" "0 \<le> f_key g" "0 \<le> f_key l"
      using stable_mean_finite 2(2,3) stable_mean_nonneg [OF 2(2)] stable_mean_nonneg [OF 2(3)] t by auto
    have "\<forall>x \<in> set (drop (nat w) (ti_changes data)). f_isfinite x" using c in_set_dropD by metis
    then show ?thesis using rsi_loop_range [OF 2(5) gl] rsi_value_range [OF 2(4) gl] assms(2) s(2) 2(6) by auto
  qed
  then show ?thesis by (simp add: in_percent_def)
qed

section \<open>Average true range\<close>

lemma true_range_nonneg:
  assumes "map_res (ti_true_range high low close) [0..<n] = Inr tr" and "Some v \<in> set tr"
    and "\<forall>i < n. f_isfinite (high ! i) \<and> f_isfinite (low ! i) \<and> f_isfinite (close ! i) \<and> f_key (low ! i) \<le> f_key (high ! i)"
  shows "f_isfinite v \<and> 0 \<le> f_key v"
proof -
  obtain i where i: "i < n" "ti_true_range high low close i = Inr (Some v)" using map_res_in [OF assms(1,2)] by auto
  let ?a = "f_sub (high ! i) (low ! i)" and ?b = "f_abs (f_sub (high ! i) (close ! (i - 1)))"
    and ?c = "f_abs (f_sub (low ! i) (close ! (i - 1)))"
  have v: "v = f_maximum [?a, ?b, ?c]" "f_isfinite v" using i(2) by (auto simp: ti_true_range_def bind_res_Inr_iff split: if_splits)
  have h: "f_isfinite (high ! i)" "f_isfinite (low ! i)" "f_key (low ! i) \<le> f_key (high ! i)" using assms(3) i(1) by simp_all
  have "0 \<le> fval (high ! i) - fval (low ! i)" using h by (simp add: fval_le_iff)
  then have "0 \<le> f_key ?a" using rkey_mono [of 0 "fval (high ! i) - fval (low ! i)"] by (simp add: f_key_sub [OF h(1,2)])
  moreover have "v = ?a \<or> v = ?b \<or> v = ?c" unfolding v(1) by (simp add: f_maximum_def f_max_def)
  ultimately show ?thesis using v(2) by auto
qed

lemma atr_loop_nonneg:
  assumes "ti_atr_loop w p xs = Inr ys" and "f_isfinite p" and "0 \<le> f_key p" and "0 < w"
    and "\<forall>x. Some x \<in> set xs \<longrightarrow> f_isfinite x \<and> 0 \<le> f_key x" and "Some v \<in> set ys"
  shows "0 \<le> f_key v"
  using assms
proof (induction w p xs arbitrary: ys rule: ti_atr_loop.induct)
  case (3 w p x xs)
  then obtain zs where s: "f_isfinite (ti_wilder p x w)" "ti_atr_loop w (ti_wilder p x w) xs = Inr zs" "ys = Some (ti_wilder p x w) # zs"
    by (auto simp: bind_res_Inr_iff)
  have n: "0 \<le> f_key (ti_wilder p x w)" using 3(3-6) by (intro wilder_nonneg) simp_all
  show ?case using 3(1) [OF s(2,1) n 3(5)] 3(6,7) s n by (auto simp: finite_result_ok)
qed simp_all

lemma positive_period_Inr:
  assumes "ti_positive_period period name k = Inr w"
  shows "k \<le> w"
  using assms by (simp add: ti_positive_period_def split: pyobj.splits if_splits)

lemma atr_core_nonneg:
  assumes "ti_atr_core high low close w = Inr xs" and "0 < w" and "Some v \<in> set xs"
    and "\<forall>i < length close. f_isfinite (high ! i) \<and> f_isfinite (low ! i) \<and> f_isfinite (close ! i) \<and> f_key (low ! i) \<le> f_key (high ! i)"
  shows "0 \<le> f_key v"
  using assms(1)
proof (cases rule: atr_core_cases)
  case 1
  then show ?thesis using assms(3) by simp
next
  case (2 tr seed ys)
  note t = true_range_nonneg [OF 2(2) _ assms(4)]
  have "\<forall>x \<in> set (map the (filter (\<lambda>value. value \<noteq> None) (ti_window tr w (w + 1)))). f_isfinite x \<and> 0 \<le> f_key x"
    using t by (auto simp: ti_window_def dest!: in_set_takeD in_set_dropD)
  then have s: "f_isfinite seed" "0 \<le> f_key seed" using stable_mean_finite [OF 2(3)] stable_mean_nonneg [OF 2(3)] by simp_all
  have "\<forall>x. Some x \<in> set (drop (w + 1) tr) \<longrightarrow> f_isfinite x \<and> 0 \<le> f_key x" using t in_set_dropD by metis
  then show ?thesis using atr_loop_nonneg [OF 2(4) s assms(2)] s(2) assms(3) 2(5) by auto
qed

text \<open>
  Every value the average true range returns is nonnegative.
\<close>

theorem atr_nonnegative:
  assumes "average_true_range highs lows closes period = Inr xs" and "Some v \<in> set xs"
  shows "f_le f_zero v"
proof -
  obtain high low close w where s: "ti_finite_series highs ''highs'' False False = Inr high"
    "ti_finite_series lows ''lows'' False False = Inr low" "ti_finite_series closes ''closes'' False False = Inr close"
    "ti_equal_lengths ''high, low, close'' [length high, length low, length close] = Inr ()"
    "ti_validate_hlc high low close = Inr ()" "ti_positive_period period ''period'' 1 = Inr w"
    "ti_atr_core high low close (nat w) = Inr xs"
    using assms(1) unfolding average_true_range_def by (elim bind_res_InrE) simp
  have l: "length low = length high" "length close = length high" using s(4) by (simp_all add: equal_lengths_iff)
  have f: "\<forall>x \<in> set high. f_isfinite x" "\<forall>x \<in> set low. f_isfinite x" "\<forall>x \<in> set close. f_isfinite x"
    using finite_series_facts [OF s(1)] finite_series_facts [OF s(2)] finite_series_facts [OF s(3)] by metis+
  have "f_isfinite (high ! i) \<and> f_isfinite (low ! i) \<and> f_isfinite (close ! i) \<and> f_key (low ! i) \<le> f_key (high ! i)"
    if "i < length close" for i
  proof -
    have "f_isfinite (high ! i)" "f_isfinite (low ! i)" "f_isfinite (close ! i)" using f l that by simp_all
    moreover have "\<not> f_lt (high ! i) (low ! i)" using s(5) l that by (simp add: hlc_iff)
    ultimately show ?thesis by (simp add: f_lt_key linorder_not_less)
  qed
  then have k: "0 \<le> f_key v" using atr_core_nonneg [OF s(7) _ assms(2)] positive_period_Inr [OF s(6)] by simp
  obtain i where "i < length xs" "xs ! i = Some v" using assms(2) unfolding in_set_conv_nth by blast
  then have "f_isfinite v" using aligned_finite [OF atr_core_aligned [OF s(7)]] aligned_length [OF atr_core_aligned [OF s(7)]] by metis
  then show ?thesis using k by (simp add: f_le_key)
qed

section \<open>Bollinger bands\<close>

lemma sqrt_nonneg:
  assumes "0 \<le> f_key x"
  shows "0 \<le> f_key (f_sqrt x)"
proof (cases "f_idx x = 0")
  case False
  then obtain n e where "f_sqrt x = f_pack False (rnd_scaled n e)" by (simp add: f_sqrt_def Let_def)
  then show ?thesis using f_key_pack [OF rnd_scaled_bounds] rnd_scaled_bounds(1) by simp
qed (use assms in \<open>simp add: f_sqrt_def\<close>)

lemma sqrt_cases: "f_sqrt x = x \<or> f_isfinite (f_sqrt x) \<or> f_isinf (f_sqrt x)"
proof (cases "f_idx x = 0")
  case False
  then obtain n e where q: "f_sqrt x = f_pack False (rnd_scaled n e)" by (simp add: f_sqrt_def Let_def)
  have "rnd_scaled n e \<le> inf_idx" by (simp add: rnd_scaled_eq rmag_le_inf)
  then show ?thesis using rnd_scaled_bounds [of n e] by (auto simp: q f_isfinite_def f_isinf_def)
qed (simp add: f_sqrt_def)

lemma fsum_nonneg:
  assumes "ti_fsum xs name = Inr t" and "\<forall>x \<in> set xs. 0 \<le> fval x"
  shows "f_isfinite t" and "0 \<le> f_key t"
proof -
  have t: "f_fsum (map Inr xs) = Inr t" "f_isfinite t" using assms(1) by (simp_all add: ti_fsum_def split: sum.splits)
  then show "f_isfinite t" "0 \<le> f_key t"
    using f_fsum_nonneg [OF assms(2)] rmag_nonneg rmag_bound by (auto simp: Let_def f_key_pack split: if_splits)
qed

lemma square_nonneg: "0 \<le> fval (f_mul d d)"
proof -
  have nan: "\<not> f_isneg f_nan" by code_simp
  have "\<not> f_isneg (f_mul d d)"
  proof (cases "f_isnan d")
    case True
    with nan show ?thesis by (simp add: f_mul_def)
  next
    case False
    then show ?thesis using rnd_scaled_bounds nan by (simp add: f_mul_def Let_def f_isneg_pack inf_idx_def)
  qed
  then show ?thesis by (simp add: fval_def mval_nonneg f_idx_nonneg)
qed

lemma stable_deviation_nonneg:
  assumes "ti_stable_standard_deviation xs 0 name = Inr v" and "\<forall>x \<in> set xs. f_isfinite x"
  shows "0 \<le> f_key v"
proof -
  let ?s = "f_maximum (map f_abs xs)"
  have ne: "xs \<noteq> []" using assms(1) by (auto simp: ti_stable_standard_deviation_def)
  have s: "f_isfinite ?s" "0 \<le> f_key ?s" using f_maximum_facts(1) [of "map f_abs xs"] assms(2) ne by auto
  show ?thesis
  proof (cases "f_eq ?s f_zero")
    case True
    then show ?thesis using assms(1) ne by (simp add: ti_stable_standard_deviation_def Let_def)
  next
    case False
    obtain mean t where t: "ti_fsum (map (\<lambda>value. let d = f_sub value mean in f_mul d d) (map (\<lambda>value. f_quot value ?s) xs)) name = Inr t"
      and v: "v = f_mul ?s (f_sqrt (f_quot t (ti_count (length xs))))" "f_isfinite v"
      using assms(1) ne False by (auto simp: ti_stable_standard_deviation_def Let_def bind_res_Inr_iff)
    have f: "f_isfinite t" "0 \<le> f_key t" using fsum_nonneg [OF t] square_nonneg by (auto simp: Let_def)
    have n: "0 < length xs" using ne by simp
    let ?q = "f_sqrt (f_quot t (ti_count (length xs)))"
    have q: "0 \<le> f_key ?q" using sqrt_nonneg quot_count(2) [OF f(1) n f(2)] by blast
    have k: "f_key ?s \<noteq> 0" using False s by (simp add: f_eq_key)
    have fq: "f_isfinite ?q"
    proof (rule ccontr)
      assume "\<not> f_isfinite ?q"
      then have "f_isinf ?q" using sqrt_cases [of "f_quot t (ti_count (length xs))"] quot_count(1) [OF f(1) n] by auto
      moreover have "f_idx ?s \<noteq> 0" using k by (auto simp: f_key_def split: if_splits)
      moreover have "f_idx ?q \<noteq> 0" using \<open>f_isinf ?q\<close> by (simp add: f_isinf_def inf_idx_def)
      ultimately have "v = f_pack (f_isneg ?s \<noteq> f_isneg ?q) inf_idx"
        using v(1) f_finite_not_nan [OF s(1)] f_finite_not_inf [OF s(1)] \<open>f_isinf ?q\<close> by (simp add: f_mul_def Let_def f_isnan_def [of ?q] f_isinf_def [of ?q])
      then show False using v(2) by (simp add: f_isfinite_def inf_idx_def)
    qed
    have "0 \<le> fval ?s * fval ?q" using fval_sign(2) [OF s(1)] fval_sign(2) [OF fq] s(2) q by simp
    then show ?thesis using rkey_mono [of 0 "fval ?s * fval ?q"] f_key_mul [OF s(1) fq] v(1) by simp
  qed
qed

lemma band_encloses:
  assumes "ti_band width mean sample = Inr (Some l, Some u)" and "f_isfinite width" and "0 < f_key width" and "f_isfinite mean"
    and "\<forall>x \<in> set sample. f_isfinite x"
  shows "f_le l mean" and "f_le mean u"
proof -
  obtain d where d: "ti_stable_standard_deviation sample 0 ''Bollinger standard deviation'' = Inr d"
    and l: "l = f_sub mean (f_mul width d)" "f_isfinite l" and u: "u = f_add mean (f_mul width d)" "f_isfinite u"
    using assms(1) by (auto simp: ti_band_def bind_res_Inr_iff)
  have fd: "f_isfinite d" "0 \<le> f_key d" using stable_deviation_finite [OF d] stable_deviation_nonneg [OF d assms(5)] by simp_all
  have km: "f_key (f_mul width d) = rkey (fval width * fval d)" by (rule f_key_mul [OF assms(2) fd(1)])
  have "0 \<le> fval width * fval d" using fval_sign(4) [OF assms(2)] fval_sign(2) [OF fd(1)] fd(2) assms(3) by simp
  then have k: "0 \<le> f_key (f_mul width d)" unfolding km using rkey_mono [of 0 "fval width * fval d"] by simp
  have fm: "f_isfinite (f_mul width d)"
  proof (rule ccontr)
    assume "\<not> f_isfinite (f_mul width d)"
    moreover have "\<bar>f_key (f_mul width d)\<bar> \<le> inf_idx" unfolding km by (rule rkey_not_nan)
    ultimately have "f_key (f_mul width d) = inf_idx" using k by (simp add: f_isfinite_key)
    moreover have "f_key (f_mul width d) = f_idx (f_mul width d) \<or> f_key (f_mul width d) = - f_idx (f_mul width d)"
      by (simp add: f_key_def)
    ultimately have "f_idx (f_mul width d) = inf_idx" using f_idx_nonneg [of "f_mul width d"] unfolding inf_idx_def by linarith
    then have "f_isinf (f_mul width d)" "\<not> f_isnan (f_mul width d)" by (simp_all add: f_isinf_def f_isnan_def)
    then have "u = f_mul width d" using u(1) assms(4) by (simp add: f_add_def f_finite_not_nan f_finite_not_inf)
    then show False using u(2) \<open>\<not> f_isfinite (f_mul width d)\<close> by simp
  qed
  show "f_le l mean" "f_le mean u" using f_key_shift [OF assms(4) fm] k l u assms(4) by (simp_all add: f_le_key)
qed

text \<open>
  At every index where the bands are defined the lower band is at most the moving average
  and the moving average at most the upper band.
\<close>

theorem bands_enclose_mean:
  assumes "bollinger_bands values period deviations = Inr bv" and "i < length (bv_middle bv)"
    and "bv_middle bv ! i = Some mean"
  shows "\<exists>l u. bv_lower bv ! i = Some l \<and> bv_upper bv ! i = Some u \<and> f_le l mean \<and> f_le mean u"
proof -
  obtain data w width where s: "ti_finite_series values ''values'' False False = Inr data" "ti_positive_period period ''period'' 1 = Inr w"
    "ti_positive_finite deviations ''standard_deviations'' = Inr width" "ti_bollinger_core data w width = Inr bv"
    using assms(1) unfolding bollinger_bands_def by (elim bind_res_InrE)
  have d: "data \<noteq> []" "\<forall>x \<in> set data. f_isfinite x" using finite_series_facts [OF s(1)] by metis+
  have w: "1 \<le> w" by (rule positive_period_Inr [OF s(2)])
  have wf: "f_isfinite width" "0 < f_key width"
    using s(3) by (auto simp: ti_positive_finite_def bind_res_Inr_iff f_le_key split: option.splits if_splits)
  from bollinger_core_stages [OF s(4) d w] obtain bands where b: "ti_sma_core data (nat w) = Inr (bv_middle bv)"
    "map_res (ti_bands data (bv_middle bv) (nat w) width) [0..<length data] = Inr bands"
    "bv_lower bv = map fst bands" "bv_upper bv = map snd bands" by blast
  note a = sma_core_aligned [OF b(1)]
  have i: "i < length data" "length bands = length data" using assms(2) aligned_length [OF a] map_res_length [OF b(2)] by simp_all
  have mf: "f_isfinite mean" by (rule aligned_finite [OF a i(1) assms(3)])
  have "\<not> i < nat w - 1" using aligned_None [OF a i(1)] assms(3) by auto
  then have t: "ti_band width mean (ti_window data (nat w) (i + 1)) = Inr (bands ! i)"
    using map_res_nth [OF b(2), of i] i assms(3) by (simp add: ti_bands_def)
  obtain lo up where p: "bands ! i = (lo, up)" by fastforce
  from band_finite [OF t [unfolded p]] obtain l u where lu: "bands ! i = (Some l, Some u)" unfolding p by blast
  have "\<forall>x \<in> set (ti_window data (nat w) (i + 1)). f_isfinite x" using d(2) by (auto simp: ti_window_def dest!: in_set_takeD in_set_dropD)
  with band_encloses [OF t [unfolded lu] wf mf] show ?thesis using b(3,4) i lu by simp
qed

end
