(* ===== verification/TechnicalCases.thy ===== *)
theory TechnicalCases
  imports TechnicalErrorLaws TechnicalRangeLaws
begin

text \<open>
  Concrete bundles for the indicator theorems: four sessions of the constant price 1.
\<close>

section \<open>Arithmetic on 0 and 1\<close>

definition f_nzero :: f64 where "f_nzero = 9223372036854775808"

lemma unit_idx: "f_idx f_zero = 0" "f_idx f_nzero = 0" "f_isneg f_zero = False" "f_isneg f_nzero = True"
  "f_idx f_one = 4607182418800017408" "f_isneg f_one = False"
  "f_pack False 0 = f_zero" "f_pack True 0 = f_nzero" "f_pack False 4607182418800017408 = f_one"
  "f_man 0 = 0" "f_ex 0 = - 1074" "f_man 4607182418800017408 = 4503599627370496" "f_ex 4607182418800017408 = - 52"
  by code_simp+

lemma unit_class: "f_isfinite f_zero" "f_isfinite f_nzero" "f_isfinite f_one"
  "\<not> f_isnan f_zero" "\<not> f_isnan f_nzero" "\<not> f_isnan f_one" "\<not> f_isinf f_zero" "\<not> f_isinf f_nzero" "\<not> f_isinf f_one"
  by code_simp+

lemma unit_neg: "f_neg f_zero = f_nzero" "f_neg f_nzero = f_zero" "f_abs f_zero = f_zero" "f_abs f_nzero = f_zero" "f_abs f_one = f_one"
  by (simp_all add: f_neg_def f_abs_def unit_idx)

lemma rnd_zero: "rnd_scaled 0 e = 0" "0 < d \<Longrightarrow> rnd_mag 0 d = 0"
  by (simp_all add: rnd_scaled_eq rnd_mag_eq)

lemma unit_add: "f_add f_zero f_zero = f_zero" "f_add f_zero f_nzero = f_zero" "f_add f_nzero f_zero = f_zero" "f_add f_nzero f_nzero = f_nzero"
  by (simp_all add: f_add_def Let_def unit_class unit_idx f_sman_def)

lemma key_inject:
  assumes "f_key x = f_key y" and "f_key y \<noteq> 0"
  shows "x = y"
proof -
  have "f_key w = f_idx w \<and> \<not> f_isneg w \<or> f_key w = - f_idx w \<and> f_isneg w" for w by (simp add: f_key_def)
  then show ?thesis using assms f_idx_nonneg [of x] f_idx_nonneg [of y] unfolding f_eq_iff by (smt (verit))
qed

lemma one_key: "f_key f_one \<noteq> 0" "f_key f_nzero = 0" "fval f_nzero = 0"
  by (simp_all add: f_key_def fval_key_0 unit_idx)

lemma one_plus_zero: "f_isfinite z \<Longrightarrow> f_key z = 0 \<Longrightarrow> f_add f_one z = f_one" "f_isfinite z \<Longrightarrow> f_key z = 0 \<Longrightarrow> f_add z f_one = f_one"
  by (rule key_inject, simp add: f_key_add unit_class fval_key_0 rkey_fval [of f_one, unfolded fval_one], simp add: one_key unit_idx del: fval_one)+

lemma unit_add_one: "f_add f_one f_zero = f_one" "f_add f_one f_nzero = f_one" "f_add f_zero f_one = f_one"
  by (simp_all add: one_plus_zero unit_class one_key)

lemma unit_sub: "f_sub f_one f_one = f_zero" "f_sub f_zero f_zero = f_zero" "f_sub f_nzero f_zero = f_nzero" "f_sub f_one f_zero = f_one"
  by (simp_all add: f_sub_def unit_neg unit_add unit_add_one) code_simp

lemma unit_mul: "f_mul f_one f_one = f_one" "f_mul f_one f_zero = f_zero" "f_mul f_zero f_one = f_zero" "f_mul f_zero f_zero = f_zero"
  by (simp_all add: f_mul_def Let_def unit_class unit_idx rnd_zero) code_simp

lemma unit_quot: "f_quot f_one f_one = f_one" "f_quot f_zero f_one = f_zero" "f_quot f_nzero f_one = f_nzero"
  by (simp_all add: f_quot_def Let_def unit_class unit_idx rnd_zero) code_simp

lemma unit_order: "f_max f_zero f_zero = f_zero" "f_max f_nzero f_zero = f_nzero" "f_eq f_zero f_zero" "\<not> f_eq f_one f_zero"
  "f_le f_one f_zero = False" "f_lt f_one f_one = False" "f_lt f_one f_zero = False" "f_lt (f_neg f_half) f_zero" "f_lt f_zero f_half"
  by code_simp+

lemma unit_sums: "f_fsum [Inr f_one] = Inr f_one" "f_fsum [Inr f_zero] = Inr f_zero" "f_sqrt f_zero = f_zero" "ti_count 1 = f_one"
  "f_quot f_two (f_add f_one f_one) = f_one"
proof -
  show "f_fsum [Inr f_zero] = Inr f_zero" by (simp add: f_fsum_def unit_idx f_sman_def rnd_scaled_eq inf_idx_def)
  show "f_sqrt f_zero = f_zero" by (simp add: f_sqrt_def unit_idx)
qed code_simp+

lemmas unit_arith = unit_class unit_neg unit_add unit_add_one unit_sub unit_mul unit_quot unit_order unit_sums

section \<open>Series of ones and zeros\<close>

definition demo_ones :: "f64 list" where "demo_ones = [f_one, f_one, f_one, f_one]"

lemma demo_upt: "[0..<4] = [0, 1, 2, 3 :: nat]" "[1..<4] = [1, 2, 3 :: nat]"
  by (simp_all add: upt_rec)

lemma mean_cases: "ti_stable_mean [f_one] n = Inr f_one" "ti_stable_mean [f_zero] n = Inr f_zero" "ti_stable_mean [f_nzero] n = Inr f_zero"
  by (simp_all add: ti_stable_mean_def ti_fsum_def f_maximum_def Let_def unit_arith finite_result_ok unit_sums(4) [unfolded One_nat_def])

lemma demo_simple: "ti_simple_core demo_ones 1 = Inr [None, Some f_zero, Some f_zero, Some f_zero]"
proof -
  have d: "f_div f_zero f_one = Inr f_zero" by (simp add: f_div_def unit_idx unit_quot)
  show ?thesis by (simp add: ti_simple_core_def demo_ones_def demo_upt d unit_arith finite_result_ok Let_def)
qed

definition demo_libm :: libm where
  "demo_libm = \<lparr>libm_log = (\<lambda>_. f_zero), libm_log1p = (\<lambda>x. x)\<rparr>"

lemma demo_log: "ti_log_core demo_libm demo_ones 1 = Inr [None, Some f_zero, Some f_zero, Some f_zero]"
proof -
  have d: "f_div f_zero f_one = Inr f_zero" by (simp add: f_div_def unit_idx unit_quot)
  show ?thesis by (simp add: ti_log_core_def ti_log_value_def demo_libm_def demo_ones_def demo_upt d unit_arith finite_result_ok)
qed

lemma demo_sma: "ti_sma_core demo_ones 1 = Inr (map Some demo_ones)"
  by (simp add: ti_sma_core_def demo_ones_def demo_upt ti_window_def mean_cases unit_class finite_result_ok)

lemma demo_ema: "ti_ema_core demo_ones 1 = Inr (map Some demo_ones)"
  by (simp add: ti_ema_core_def demo_ones_def mean_cases unit_arith finite_result_ok unit_sums(4) [unfolded One_nat_def])

lemma demo_vol: "ti_volatility_core [None, Some f_zero, Some f_zero, Some f_zero] 2 = Inr [None, None, Some f_zero, Some f_zero]"
proof -
  have "ti_stable_standard_deviation [f_zero, f_zero] 1 n = Inr f_zero" for n
    by (simp add: ti_stable_standard_deviation_def f_maximum_def unit_arith)
  then show ?thesis by (simp add: ti_volatility_core_def demo_upt ti_window_def Let_def)
qed

lemma demo_rsi: "ti_rsi_core demo_ones 1 = Inr [None, Some f_fifty, Some f_fifty, Some f_fifty]"
proof -
  have r: "rsi_value f_zero f_zero = Inr f_fifty" by (simp add: rsi_value_def unit_order)
  have w: "ti_wilder f_zero f_zero (Suc 0) = f_zero" "ti_wilder f_zero f_nzero (Suc 0) = f_zero"
    using unit_sums(4) by (simp_all add: ti_wilder_def unit_arith)
  have c: "ti_changes demo_ones = [f_zero, f_zero, f_zero]" by (simp add: ti_changes_def demo_ones_def demo_upt unit_sub)
  have n: "length demo_ones = 4" by (simp add: demo_ones_def)
  show ?thesis by (simp add: ti_rsi_core_def n c r w mean_cases unit_neg unit_order Let_def finite_result_ok unit_class)
qed

lemma demo_clean: "clean demo_ones" "clean_pos demo_ones" "clean_prices demo_ones demo_ones demo_ones"
proof -
  have "0 < f_key f_one" by code_simp
  then show c: "clean demo_ones" "clean_pos demo_ones" by (simp_all add: clean_def clean_pos_def demo_ones_def unit_class)
  have "\<not> f_lt (demo_ones ! i) (demo_ones ! i)" for i by (simp add: f_lt_def)
  then show "clean_prices demo_ones demo_ones demo_ones" using c by (simp add: clean_prices_def hlc_iff)
qed

definition demo_macd :: macd_values where
  "demo_macd = \<lparr>mv_line = [None, Some f_zero, Some f_zero, Some f_zero], mv_signal = [None, Some f_zero, Some f_zero, Some f_zero],
     mv_histogram = [None, Some f_zero, Some f_zero, Some f_zero]\<rparr>"

lemma unit_two: "f_max f_one f_one = f_one" "f_fsum [Inr f_one, Inr f_one] = Inr f_two" "f_isfinite f_two"
  "ti_count (Suc (Suc 0)) = f_two" "ti_count 2 = f_two" "f_quot f_two f_two = f_one"
  "f_add (f_mul (f_quot f_two (f_add f_two f_one)) f_one) (f_mul (f_sub f_one (f_quot f_two (f_add f_two f_one))) f_one) = f_one"
  by code_simp+

lemma demo_macd: "ti_macd_core demo_ones 1 2 1 = Inr demo_macd"
proof -
  have z: "clean [f_zero, f_zero, f_zero]" by (simp add: clean_def unit_class)
  have two: "ti_stable_mean [f_one, f_one] n = Inr f_one" for n
    by (simp add: ti_stable_mean_def ti_fsum_def f_maximum_def Let_def unit_arith unit_two finite_result_ok)
  have slow: "ti_ema_core demo_ones 2 = Inr [None, Some f_one, Some f_one, Some f_one]"
    by (simp add: ti_ema_core_def demo_ones_def two unit_two unit_class finite_result_ok Let_def)
  have e: "ema (ti_floats demo_ones) (PyInt 1) = Inr (map Some demo_ones)" "ema (ti_floats demo_ones) (PyInt 2) = Inr [None, Some f_one, Some f_one, Some f_one]"
    "ema (ti_floats [f_zero, f_zero, f_zero]) (PyInt 1) = Inr [Some f_zero, Some f_zero, Some f_zero]"
    using demo_ema slow
    by (simp_all add: public_iff(2) demo_clean z)
      (simp add: ti_ema_core_def mean_cases unit_arith finite_result_ok unit_sums(4) [unfolded One_nat_def])
  have l: "ti_macd_line 4 (map Some demo_ones) [None, Some f_one, Some f_one, Some f_one] 2 = Inr [None, Some f_zero, Some f_zero, Some f_zero]"
    by (simp add: ti_macd_line_def demo_upt demo_ones_def unit_arith finite_result_ok)
  have n: "length demo_ones = 4" by (simp add: demo_ones_def)
  have r: "replicate 4 (None :: f64 option) = [None, None, None, None]" by (simp add: numeral_eq_Suc)
  show ?thesis by (simp add: ti_macd_core_def Let_def e n l r unit_arith finite_result_ok demo_macd_def)
qed

lemma demo_bollinger: "\<exists>bv. ti_bollinger_core demo_ones 1 f_one = Inr bv"
proof -
  have d: "ti_stable_standard_deviation [f_one] 0 n = Inr f_zero" for n
    using mean_cases(1) unit_sums(4)
    by (simp add: ti_stable_standard_deviation_def ti_fsum_def f_maximum_def Let_def unit_arith finite_result_ok)
  have b: "ti_band f_one f_one [f_one] = Inr (Some f_one, Some f_one)"
    by (simp add: ti_band_def d unit_arith finite_result_ok)
  have s: "sma (ti_floats demo_ones) (PyInt 1) = Inr (map Some demo_ones)" using demo_sma by (simp add: public_iff demo_clean)
  have n: "length demo_ones = 4" by (simp add: demo_ones_def)
  show ?thesis by (simp add: ti_bollinger_core_def s n demo_upt) (simp add: ti_window_def demo_ones_def b)
qed

lemma demo_atr: "ti_atr_core demo_ones demo_ones demo_ones 1 = Inr [None, Some f_zero, Some f_zero, Some f_zero]"
proof -
  have t: "map_res (ti_true_range demo_ones demo_ones demo_ones) [0, 1, 2, 3] = Inr [None, Some f_zero, Some f_zero, Some f_zero]"
    by (simp add: ti_true_range_def demo_ones_def f_maximum_def unit_arith finite_result_ok)
  have n: "length demo_ones = 4" by (simp add: demo_ones_def)
  have w: "ti_wilder f_zero f_zero (Suc 0) = f_zero" using unit_sums(4) by (simp add: ti_wilder_def unit_arith)
  show ?thesis by (simp add: ti_atr_core_def n demo_upt t [simplified] Let_def ti_window_def mean_cases w unit_class finite_result_ok)
qed

section \<open>A bundle\<close>

definition demo_indicator_config :: IndicatorConfig where
  "demo_indicator_config =
     \<lparr>ic_return_period = 1, ic_sma_period = 1, ic_ema_period = 1, ic_volatility_period = 2, ic_rsi_period = 1,
      ic_macd_fast_period = 1, ic_macd_slow_period = 2, ic_macd_signal_period = 1,
      ic_bollinger_period = 1, ic_bollinger_standard_deviations = PyFloat f_one, ic_atr_period = 1\<rparr>"

lemma demo_policy: "\<exists>h. indicator_policy_hash (Some (Inst demo_indicator_config)) = Inr h"
  by (simp add: indicator_policy_hash_def ti_config_def ti_float_def real_float_def demo_indicator_config_def
      canonical_json_def ti_policy_document_def unit_class)

lemma demo_outputs: "\<exists>out. ti_outputs demo_libm demo_indicator_config ts demo_ones demo_ones demo_ones = Inr out"
proof -
  obtain h bv where h: "indicator_policy_hash (Some (Inst demo_indicator_config)) = Inr h"
    "ti_bollinger_core demo_ones 1 f_one = Inr bv" using demo_policy demo_bollinger by blast
  have w: "ti_positive_finite (PyFloat f_one) n = Inr f_one" for n
    by (simp add: ti_positive_finite_def real_float_def unit_class unit_order)
  let ?z = "[None, Some f_zero, Some f_zero, Some f_zero]"
  have "ti_outputs demo_libm demo_indicator_config ts demo_ones demo_ones demo_ones = Inr
    \<lparr>tx_calculation_version = CALCULATION_VERSION, tx_policy_hash = h, tx_config = demo_indicator_config,
      tx_observed_at = ts, tx_simple_return = ?z, tx_log_return = ?z, tx_sma = map Some demo_ones, tx_ema = map Some demo_ones,
      tx_return_volatility = [None, None, Some f_zero, Some f_zero], tx_rsi = [None, Some f_fifty, Some f_fifty, Some f_fifty],
      tx_macd = demo_macd, tx_bollinger = bv, tx_atr = ?z\<rparr>"
    unfolding outputs_iff [OF demo_clean(3)]
    using h w demo_simple demo_log demo_sma demo_ema demo_vol demo_rsi demo_macd demo_atr
    by (simp add: demo_indicator_config_def)
  then show ?thesis by blast
qed

definition demo_days :: "pyobj list" where
  "demo_days = [PyDatetime 0 (Some 0), PyDatetime 1 (Some 0), PyDatetime 2 (Some 0), PyDatetime 3 (Some 0)]"

definition demo_prices :: "pyobj list" where
  "demo_prices = map PyFloat demo_ones"

lemma demo_required: "required_observations (Some (Inst demo_indicator_config)) = Inr 3"
  by (simp add: required_observations_def ti_config_def demo_indicator_config_def)

lemma demo_bundle:
  "\<exists>out. calculate_indicators demo_libm (Seq demo_days) (Seq demo_prices) (Seq demo_prices) (Seq demo_prices)
     (Seq demo_prices) (Some (Inst demo_indicator_config)) = Inr out"
proof -
  let ?ts = "[0, 1, 2, 3 :: instant]"
  obtain out where o: "ti_outputs demo_libm demo_indicator_config ?ts demo_ones demo_ones demo_ones = Inr out" using demo_outputs by blast
  have k: "0 < f_key f_one" by code_simp
  have s: "ti_finite_series (Seq demo_prices) name p n = Inr demo_ones" for name p n
    using finite_series_floats [of demo_ones p n name] k by (simp add: demo_prices_def demo_ones_def ti_floats_def unit_class)
  have t: "ti_chronological_timestamps (Seq demo_days) = Inr ?ts"
    by (simp add: ti_chronological_timestamps_def demo_days_def utc_of_def max_ordinal_def day_micros_def)
  have n: "length demo_ones = 4" by (simp add: demo_ones_def)
  have e: "ti_equal_lengths ''observed_at, open, high, low, close''
      [length ?ts, length demo_ones, length demo_ones, length demo_ones, length demo_ones] = Inr ()"
    by (simp add: equal_lengths_iff n)
  have v: "ti_validate_ohlc demo_ones demo_ones demo_ones demo_ones = Inr ()"
    using demo_clean(3) by (simp add: clean_prices_def ohlc_iff hlc_iff)
  have c: "ti_config (Some (Inst demo_indicator_config)) = Inr demo_indicator_config" by (simp add: ti_config_def)
  have r: "\<not> int (length demo_ones) < 3" by (simp add: n)
  have w: "ti_validate_output out (length demo_ones) = Inr ()" by (rule outputs_validate [OF demo_clean(3) o]) (simp add: n)
  have "calculate_indicators demo_libm (Seq demo_days) (Seq demo_prices) (Seq demo_prices) (Seq demo_prices)
     (Seq demo_prices) (Some (Inst demo_indicator_config)) = Inr out"
    unfolding calculate_indicators_def
    by (rule bind_okI [OF c], rule bind_okI [OF t], rule bind_okI [OF s], rule bind_okI [OF s], rule bind_okI [OF s],
        rule bind_okI [OF s], rule bind_okI [OF e], rule bind_okI [OF v], rule bind_okI [OF demo_required],
        rule check_okI [OF r], rule bind_okI [OF o], rule bind_okI [OF w], rule refl)
  then show ?thesis by blast
qed

theorem indicators_are_causal_witness:
  "\<exists>out. calculate_indicators demo_libm (Seq (take 3 demo_days)) (Seq (take 3 demo_prices)) (Seq (take 3 demo_prices))
     (Seq (take 3 demo_prices)) (Seq (take 3 demo_prices)) (Some (Inst demo_indicator_config)) = Inr (ti_truncate 3 out)"
  using demo_bundle indicators_are_causal [OF _ demo_required, where n = 3] by fastforce

theorem warm_up_is_exact_witness:
  "\<exists>out. tx_config out = demo_indicator_config \<and> list_all2 (\<lambda>k values. k < int (length (tx_observed_at out)) \<and>
     length values = length (tx_observed_at out)) (ti_first_indices (tx_config out)) (ti_output_series out)"
proof -
  obtain out where o: "calculate_indicators demo_libm (Seq demo_days) (Seq demo_prices) (Seq demo_prices) (Seq demo_prices)
     (Seq demo_prices) (Some (Inst demo_indicator_config)) = Inr out" using demo_bundle by blast
  have "list_all2 (\<lambda>k values. k < int (length (tx_observed_at out)) \<and> length values = length (tx_observed_at out))
      (ti_first_indices (tx_config out)) (ti_output_series out)"
    by (rule list.rel_mono_strong [OF warm_up_is_exact [OF o]]) blast
  moreover from o have "tx_config out = demo_indicator_config"
  proof (rule calc_stages)
    fix c ts op hi lo cl r
    assume a: "ti_finite_series (Seq demo_prices) ''highs'' False True = Inr hi" "ti_finite_series (Seq demo_prices) ''lows'' False True = Inr lo"
      "ti_finite_series (Seq demo_prices) ''closes'' True False = Inr cl"
      "length ts = length cl \<and> length op = length cl \<and> length hi = length cl \<and> length lo = length cl"
      "ti_validate_ohlc op hi lo cl = Inr ()" "ti_outputs demo_libm c ts hi lo cl = Inr out"
      "ti_config (Some (Inst demo_indicator_config)) = Inr c"
    have "clean_prices hi lo cl" using a(4) by (intro prices_clean [OF a(1-3) _ a(5)]) simp
    from a(6) [unfolded outputs_iff [OF this]] a(7) show ?thesis by (simp add: ti_config_def)
  qed
  ultimately show ?thesis by blast
qed

theorem rsi_in_percent_witness:
  "Some f_fifty \<in> set [None, Some f_fifty, Some f_fifty, Some f_fifty] \<and> f_le f_zero f_fifty \<and> f_le f_fifty f_hundred"
proof -
  have "rsi (ti_floats demo_ones) (PyInt 1) = Inr [None, Some f_fifty, Some f_fifty, Some f_fifty]"
    using demo_rsi by (simp add: public_pos_iff demo_clean)
  from rsi_in_percent [OF this, of f_fifty] show ?thesis by simp
qed

theorem atr_nonnegative_witness: "f_le f_zero f_zero \<and> average_true_range (ti_floats demo_ones) (ti_floats demo_ones) (ti_floats demo_ones) (PyInt 1)
    = Inr [None, Some f_zero, Some f_zero, Some f_zero]"
proof -
  have a: "average_true_range (ti_floats demo_ones) (ti_floats demo_ones) (ti_floats demo_ones) (PyInt 1)
    = Inr [None, Some f_zero, Some f_zero, Some f_zero]"
    using demo_clean demo_atr by (simp add: atr_iff clean_prices_def)
  from atr_nonnegative [OF this, of f_zero] a show ?thesis by simp
qed

theorem bands_enclose_mean_witness:
  "\<exists>bv l u. bollinger_bands (ti_floats demo_ones) (PyInt 1) (PyFloat f_one) = Inr bv \<and>
     bv_lower bv ! 0 = Some l \<and> bv_upper bv ! 0 = Some u \<and> f_le l f_one \<and> f_le f_one u"
proof -
  obtain bv where b: "ti_bollinger_core demo_ones 1 f_one = Inr bv" using demo_bollinger by blast
  have m: "bv_middle bv = map Some demo_ones"
  proof (rule bollinger_core_stages [OF b])
    show "demo_ones \<noteq> []" "\<forall>x \<in> set demo_ones. f_isfinite x" using demo_clean(1) by (simp_all add: clean_def)
    show "bv_middle bv = map Some demo_ones" if "ti_sma_core demo_ones (nat 1) = Inr (bv_middle bv)"
      using that demo_sma by simp
  qed simp
  have p: "bollinger_bands (ti_floats demo_ones) (PyInt 1) (PyFloat f_one) = Inr bv"
    using b by (simp add: public_iff demo_clean ti_positive_finite_def real_float_def unit_class unit_order)
  from bands_enclose_mean [OF p, of 0 f_one] p show ?thesis by (auto simp: m demo_ones_def)
qed


end
