(* ===== verification/Metrics.thy ===== *)
theory Metrics
  imports FloatOps PyObj
begin

text \<open>
  Forecast accuracy metrics (\<open>ml/evaluation/metrics.py\<close>).  The square in the root
  mean squared error is taken as the correctly rounded product.
\<close>

section \<open>Arguments\<close>

definition mt_finite_value :: "string \<Rightarrow> pyobj \<Rightarrow> f64 res" where
  "mt_finite_value name value =
     (case real_float value of
        None \<Rightarrow> Inl (ValueError (name @ '' must contain only finite real numbers''))
      | Some r \<Rightarrow>
          bind_res r (\<lambda>number.
          bind_res (check (\<not> f_isfinite number)
                     (ValueError (name @ '' must contain only finite real numbers''))) (\<lambda>_.
          Inr number)))"

definition mt_finite_values :: "pyobj pyseq \<Rightarrow> string \<Rightarrow> f64 list res" where
  "mt_finite_values values name =
     (case values of
        NotIterable \<Rightarrow> Inl (ValueError (name @ '' must be a non-empty finite sequence''))
      | Seq raw_values \<Rightarrow>
          bind_res (check (raw_values = []) (ValueError (name @ '' must be a non-empty finite sequence''))) (\<lambda>_.
          map_res (mt_finite_value name) raw_values))"

definition mt_paired_values :: "pyobj pyseq \<Rightarrow> pyobj pyseq \<Rightarrow> (f64 list \<times> f64 list) res" where
  "mt_paired_values actual predicted =
     bind_res (mt_finite_values actual ''actual'') (\<lambda>actual_values.
     bind_res (mt_finite_values predicted ''predicted'') (\<lambda>predicted_values.
     bind_res (check (length actual_values \<noteq> length predicted_values)
                (ValueError ''actual and predicted must have equal lengths'')) (\<lambda>_.
     Inr (actual_values, predicted_values))))"

definition mt_probability :: "pyobj \<Rightarrow> string \<Rightarrow> f64 res" where
  "mt_probability value name =
     (case real_float value of
        None \<Rightarrow> Inl (ValueError (name @ '' must be a finite probability strictly between 0 and 1''))
      | Some r \<Rightarrow>
          bind_res r (\<lambda>probability.
          bind_res (check (\<not> f_isfinite probability \<or> \<not> (f_lt f_zero probability \<and> f_lt probability f_one))
                     (ValueError (name @ '' must be a finite probability strictly between 0 and 1''))) (\<lambda>_.
          Inr probability)))"

definition mt_finite_error :: "f64 \<Rightarrow> f64 \<Rightarrow> f64 res" where
  "mt_finite_error observed forecast =
     (let error = f_sub observed forecast in
      bind_res (check (\<not> f_isfinite error) (ValueError ''metric arithmetic produced a non-finite error'')) (\<lambda>_.
      Inr error))"

text \<open>\<open>len(xs)\<close> as a float.  The length converts to a finite float (a longer sequence fits in no memory).\<close>

definition convertible_len :: "'a list \<Rightarrow> bool" where
  "convertible_len xs \<longleftrightarrow> length xs < 2 ^ 1000"

lemma convertible_len_cong: "length xs = length ys \<Longrightarrow> convertible_len xs = convertible_len ys"
  by (simp add: convertible_len_def)

definition f_len :: "'a list \<Rightarrow> f64" where
  "f_len xs = f_of_int_exact (int (length xs))"

section \<open>Point metrics\<close>

definition mt_mae_term :: "f64 \<Rightarrow> f64 \<times> f64 \<Rightarrow> f64 res" where
  "mt_mae_term cnt = (\<lambda>(observed, forecast).
     bind_res (mt_finite_error observed forecast) (\<lambda>error. Inr (f_quot (f_abs error) cnt)))"

definition mean_absolute_error :: "pyobj pyseq \<Rightarrow> pyobj pyseq \<Rightarrow> f64 res" where
  "mean_absolute_error actual predicted =
     bind_res (mt_paired_values actual predicted) (\<lambda>(actual_values, predicted_values).
     bind_res (f_fsum (map (mt_mae_term (f_len actual_values)) (zip actual_values predicted_values))) (\<lambda>result.
     bind_res (check (\<not> f_isfinite result) (ValueError ''metric result is non-finite'')) (\<lambda>_.
     Inr result)))"

definition mt_scaled_square :: "f64 \<Rightarrow> f64 \<Rightarrow> f64" where
  "mt_scaled_square scale error = (let r = f_quot error scale in f_mul r r)"

definition root_mean_squared_error :: "pyobj pyseq \<Rightarrow> pyobj pyseq \<Rightarrow> f64 res" where
  "root_mean_squared_error actual predicted =
     bind_res (mt_paired_values actual predicted) (\<lambda>(actual_values, predicted_values).
     bind_res (map_res (\<lambda>(observed, forecast). mt_finite_error observed forecast) (zip actual_values predicted_values)) (\<lambda>errors.
     let scale = f_maximum (map f_abs errors) in
     if f_eq scale f_zero then Inr f_zero
     else
       bind_res (f_fsum (map (\<lambda>error. Inr (mt_scaled_square scale error)) errors)) (\<lambda>total.
       let mean_scaled_square = f_quot total (f_len errors);
           result = f_mul scale (f_sqrt mean_scaled_square) in
       bind_res (check (\<not> f_isfinite result) (ValueError ''metric result is non-finite'')) (\<lambda>_.
       Inr result))))"

section \<open>Quantile and interval metrics\<close>

definition mt_pinball_term :: "f64 \<Rightarrow> f64 \<Rightarrow> f64 \<times> f64 \<Rightarrow> f64 res" where
  "mt_pinball_term level cnt = (\<lambda>(observed, forecast).
     bind_res (mt_finite_error observed forecast) (\<lambda>error.
     let loss = f_max (f_mul level error) (f_mul (f_sub level f_one) error) in
     bind_res (check (\<not> f_isfinite loss) (ValueError ''metric result is non-finite'')) (\<lambda>_.
     Inr (f_quot loss cnt))))"

definition pinball_loss :: "pyobj pyseq \<Rightarrow> pyobj pyseq \<Rightarrow> pyobj \<Rightarrow> f64 res" where
  "pinball_loss actual predicted_quantile quantile =
     bind_res (mt_paired_values actual predicted_quantile) (\<lambda>(actual_values, predicted_values).
     bind_res (mt_probability quantile ''quantile'') (\<lambda>level.
     bind_res (map_res (mt_pinball_term level (f_len actual_values)) (zip actual_values predicted_values)) (\<lambda>losses.
     f_fsum (map Inr losses))))"

definition mt_covered :: "f64 \<times> f64 \<times> f64 \<Rightarrow> bool" where
  "mt_covered = (\<lambda>(observed, lower_bound, upper_bound). f_le lower_bound observed \<and> f_le observed upper_bound)"

fun mt_count_covered :: "int \<Rightarrow> (f64 \<times> f64 \<times> f64) list \<Rightarrow> int res" where
  "mt_count_covered covered [] = Inr covered"
| "mt_count_covered covered ((observed, lower_bound, upper_bound) # rows) =
     bind_res (check (f_lt upper_bound lower_bound)
                (ValueError ''lower bounds must be less than or equal to upper bounds'')) (\<lambda>_.
     mt_count_covered (covered + (if mt_covered (observed, lower_bound, upper_bound) then 1 else 0)) rows)"

definition empirical_interval_coverage :: "pyobj pyseq \<Rightarrow> pyobj pyseq \<Rightarrow> pyobj pyseq \<Rightarrow> f64 res" where
  "empirical_interval_coverage actual lower upper =
     bind_res (mt_finite_values actual ''actual'') (\<lambda>actual_values.
     bind_res (mt_finite_values lower ''lower'') (\<lambda>lower_values.
     bind_res (mt_finite_values upper ''upper'') (\<lambda>upper_values.
     bind_res (check (\<not> (length actual_values = length lower_values \<and> length lower_values = length upper_values))
                (ValueError ''actual, lower, and upper must have equal lengths'')) (\<lambda>_.
     bind_res (mt_count_covered 0 (zip actual_values (zip lower_values upper_values))) (\<lambda>covered.
     f_of_ratio covered (int (length actual_values)))))))"

section \<open>Facts\<close>

lemma mt_finite_value_Inr_iff:
  "mt_finite_value n v = Inr x \<longleftrightarrow> real_float v = Some (Inr x) \<and> f_isfinite x"
  by (auto simp: mt_finite_value_def bind_res_Inr_iff split: option.splits)

lemma mt_finite_values_Inr:
  assumes "mt_finite_values s n = Inr xs"
  obtains vs where "s = Seq vs" and "vs \<noteq> []" and "map_res (mt_finite_value n) vs = Inr xs"
    and "xs \<noteq> []" and "\<forall>x \<in> set xs. f_isfinite x"
proof (cases s)
  case (Seq vs)
  then have v: "vs \<noteq> []" "map_res (mt_finite_value n) vs = Inr xs"
    using assms by (auto simp: mt_finite_values_def split: if_splits)
  have "f_isfinite x" if "x \<in> set xs" for x
    using map_res_in [OF v(2) that] by (metis mt_finite_value_Inr_iff)
  moreover have "xs \<noteq> []" using map_res_length [OF v(2)] v(1) by auto
  ultimately show ?thesis using Seq v by (intro that) auto
qed (use assms in \<open>simp add: mt_finite_values_def\<close>)

lemma mt_finite_values_floats:
  assumes "xs \<noteq> []" and "\<forall>x \<in> set xs. f_isfinite x"
  shows "mt_finite_values (Seq (map PyFloat xs)) n = Inr xs"
proof -
  have "map_res (mt_finite_value n) (map PyFloat xs) = Inr xs"
    using assms(2) by (induction xs) (simp_all add: mt_finite_value_def real_float_def)
  with assms(1) show ?thesis by (simp add: mt_finite_values_def)
qed

lemma mt_paired_floats:
  assumes "xs \<noteq> []" and "length xs = length ys" and "\<forall>x \<in> set xs. f_isfinite x" and "\<forall>y \<in> set ys. f_isfinite y"
  shows "mt_paired_values (Seq (map PyFloat xs)) (Seq (map PyFloat ys)) = Inr (xs, ys)"
proof -
  have "ys \<noteq> []" using assms(1,2) by auto
  with assms show ?thesis by (simp add: mt_paired_values_def mt_finite_values_floats)
qed

lemma mt_paired_values_Inr:
  assumes "mt_paired_values a p = Inr (xs, ys)"
  shows "mt_finite_values a ''actual'' = Inr xs" and "mt_finite_values p ''predicted'' = Inr ys"
    and "length xs = length ys"
  using assms by (auto simp: mt_paired_values_def bind_res_Inr_iff split: if_splits)

lemma mt_finite_error_Inr_iff: "mt_finite_error x y = Inr e \<longleftrightarrow> e = f_sub x y \<and> f_isfinite e"
  by (auto simp: mt_finite_error_def Let_def)

lemma mt_count_covered_eq:
  "mt_count_covered c rows = Inr k \<Longrightarrow> k = c + int (length (filter mt_covered rows))"
  by (induction c rows rule: mt_count_covered.induct) (auto split: if_splits)

lemma f_len_facts:
  assumes "xs \<noteq> []" and "convertible_len xs"
  shows "f_isfinite (f_len xs)" and "0 < fval (f_len xs)" and "f_idx (f_len xs) \<noteq> 0"
proof -
  let ?n = "of_int (int (length xs)) :: real"
  have n: "1 \<le> ?n" using assms(1) by (cases xs) simp_all
  have "?n \<le> 2 powi 1000" using assms(2) by (simp add: convertible_len_def power_int_def)
  then have r: "rmag ?n < inf_idx" using rmag_small by (meson order_trans top_val_big)
  have l: "f_len xs = f_pack False (rmag ?n)"
    using rnd_mag_eq [of 1 "int (length xs)"] by (simp add: f_len_def f_of_int_exact_def)
  have "f_idx f_one \<le> rmag ?n"
    using rmag_mono [OF n] rkey_fval [OF f_one_facts(1)] by (simp add: rkey_def)
  moreover have "0 < f_idx f_one" by (simp add: f_idx_def f_one_def)
  ultimately have p: "0 < rmag ?n" by linarith
  show "f_isfinite (f_len xs)" "f_idx (f_len xs) \<noteq> 0"
    using p r rmag_bound [of ?n] unfolding l f_isfinite_def by simp_all
  show "0 < fval (f_len xs)" using mval_pos [OF p] p rmag_bound [of ?n] unfolding l fval_def by simp
qed

end
