(* ===== verification/MetricsLaws.thy ===== *)
theory MetricsLaws
  imports Metrics Conformal
begin

text \<open>
  The metrics as numbers: the mean absolute error is the exact sum of its terms
  rounded once and does not depend on the order of the observations, pinball
  loss is never negative, and interval coverage is the fraction of outcomes the
  conformal layer does not count as misses.
\<close>

section \<open>Sums\<close>

lemma fsum_loop_Inr_all:
  assumes "fsum_loop e n xs = Inr r"
  obtains ys where "xs = map Inr ys"
proof -
  have "\<exists>ys. xs = map Inr ys"
    using assms
  proof (induction e n xs rule: fsum_loop.induct)
    case (1 e n)
    then show ?case by simp
  next
    case (2 e n r xs)
    then show ?case by simp
  next
    case (3 e n x xs)
    then obtain ys where "xs = map Inr ys" by (auto simp: Let_def split: if_splits)
    then have "Inr x # xs = map Inr (x # ys)" by simp
    then show ?case by (rule exI)
  qed
  then show ?thesis using that by blast
qed

lemma f_fsum_Inr_nonneg:
  assumes "f_fsum xs = Inr r" and "\<And>x. Inr x \<in> set xs \<Longrightarrow> 0 \<le> fval x"
  obtains ys where "xs = map Inr ys" and "rmag (sum_list (map fval ys)) < inf_idx"
    and "r = f_pack False (rmag (sum_list (map fval ys)))"
proof -
  obtain ys where ys: "xs = map Inr ys" using assms(1) unfolding f_fsum_def by (rule fsum_loop_Inr_all)
  have "\<forall>x \<in> set ys. 0 \<le> fval x" using assms(2) ys by auto
  from f_fsum_nonneg [OF this] have f: "f_fsum xs = (let t = rmag (sum_list (map fval ys))
     in if t = inf_idx then Inl (OverflowErr ''intermediate overflow in fsum'') else Inr (f_pack False t))"
    by (simp only: ys)
  have "rmag (sum_list (map fval ys)) \<noteq> inf_idx" using f assms(1) by (auto simp: Let_def)
  then have "rmag (sum_list (map fval ys)) < inf_idx" using rmag_le_inf [of "sum_list (map fval ys)"] by linarith
  moreover have "r = f_pack False (rmag (sum_list (map fval ys)))" using f assms(1) by (auto simp: Let_def split: if_splits)
  ultimately show ?thesis using ys by (intro that)
qed

lemma f_quot_nonneg:
  assumes "f_isfinite a" and "0 \<le> f_key a" and "f_isfinite b" and "0 < fval b"
  shows "0 \<le> f_key (f_quot a b)" and "0 \<le> fval (f_quot a b)"
proof -
  have "f_idx b \<noteq> 0" using assms(4) by (auto simp: fval_def split: if_splits)
  from f_key_quot [OF assms(1,3) this] show k: "0 \<le> f_key (f_quot a b)"
    using rkey_mono [of 0 "fval a / fval b"] fval_sign [OF assms(1)] assms(2,4) by simp
  show "0 \<le> fval (f_quot a b)" unfolding fval_of_key using k by simp
qed

section \<open>Mean absolute error\<close>

text \<open>Sequences of fewer than \<open>2 ^ 1000\<close> elements: the length converts to a finite float.\<close>

lemma mae_terms_nonneg:
  assumes "xs \<noteq> []" and "convertible_len xs" and "Inr t \<in> set (map (mt_mae_term (f_len xs)) rows)"
  shows "0 \<le> fval t"
proof -
  obtain x y where e: "mt_mae_term (f_len xs) (x, y) = Inr t" using assms(3) by auto
  then have f: "f_isfinite (f_sub x y)" and t: "t = f_quot (f_abs (f_sub x y)) (f_len xs)"
    by (auto simp: mt_mae_term_def bind_res_Inr_iff mt_finite_error_Inr_iff)
  show ?thesis unfolding t using f_len_facts [OF assms(1,2)] f by (intro f_quot_nonneg) simp_all
qed

lemma mae_Inr:
  assumes "mean_absolute_error a p = Inr r" and "mt_paired_values a p = Inr (xs, ys)" and "convertible_len xs"
  obtains ts where "map (mt_mae_term (f_len xs)) (zip xs ys) = map Inr ts"
    and "rmag (sum_list (map fval ts)) < inf_idx" and "r = f_pack False (rmag (sum_list (map fval ts)))"
    and "f_isfinite r"
proof -
  have s: "f_fsum (map (mt_mae_term (f_len xs)) (zip xs ys)) = Inr r" "f_isfinite r"
    using assms(1,2) by (auto simp: mean_absolute_error_def bind_res_Inr_iff split: if_splits)
  have ne: "xs \<noteq> []" by (rule mt_finite_values_Inr [OF mt_paired_values_Inr(1) [OF assms(2)]])
  obtain ts where "map (mt_mae_term (f_len xs)) (zip xs ys) = map Inr ts"
    and "rmag (sum_list (map fval ts)) < inf_idx" and "r = f_pack False (rmag (sum_list (map fval ts)))"
    by (rule f_fsum_Inr_nonneg [OF s(1) mae_terms_nonneg [OF ne assms(3)]])
  then show ?thesis using s(2) by (intro that)
qed

lemma mt_paired_perm:
  assumes "mt_paired_values (Seq as) (Seq ps) = Inr (xs, ys)" and "length as' = length ps'"
    and "mset (zip as ps) = mset (zip as' ps')"
  obtains xs' ys' where "mt_paired_values (Seq as') (Seq ps') = Inr (xs', ys')"
    and "mset (zip xs' ys') = mset (zip xs ys)" and "length xs' = length xs"
proof -
  let ?f = "\<lambda>n v. projr (mt_finite_value n v)"
  obtain x: "map_res (mt_finite_value ''actual'') as = Inr xs" and "as \<noteq> []"
    using mt_finite_values_Inr [OF mt_paired_values_Inr(1) [OF assms(1)]] by (metis pyseq.inject)
  obtain y: "map_res (mt_finite_value ''predicted'') ps = Inr ys" and "ps \<noteq> []"
    using mt_finite_values_Inr [OF mt_paired_values_Inr(2) [OF assms(1)]] by (metis pyseq.inject)
  have len: "length as = length ps"
    using map_res_length [OF x] map_res_length [OF y] mt_paired_values_Inr(3) [OF assms(1)] by simp
  have l': "length (zip as' ps') = length (zip as ps)" using assms(3) by (metis size_mset)
  then have ne: "as' \<noteq> []" "ps' \<noteq> []" using len assms(2) \<open>as \<noteq> []\<close> by auto
  have st: "set (zip as' ps') = set (zip as ps)" using assms(3) by (metis set_mset_mset)
  have fs: "set as' = set as" "set ps' = set ps"
    using st len assms(2) by (metis map_fst_zip set_map, metis map_snd_zip set_map)
  have xo: "\<forall>v \<in> set as. is_ok (mt_finite_value ''actual'' v)" using x map_res_is_ok [of "mt_finite_value ''actual''" as] by simp
  have yo: "\<forall>v \<in> set ps. is_ok (mt_finite_value ''predicted'' v)" using y map_res_is_ok [of "mt_finite_value ''predicted''" ps] by simp
  obtain xs' where x': "map_res (mt_finite_value ''actual'') as' = Inr xs'"
    using xo fs(1) map_res_is_ok [of "mt_finite_value ''actual''" as'] by (metis is_ok_iff)
  obtain ys' where y': "map_res (mt_finite_value ''predicted'') ps' = Inr ys'"
    using yo fs(2) map_res_is_ok [of "mt_finite_value ''predicted''" ps'] by (metis is_ok_iff)
  note m = map_res_map [OF x] map_res_map [OF y] map_res_map [OF x'] map_res_map [OF y']
  have p': "mt_paired_values (Seq as') (Seq ps') = Inr (xs', ys')"
    using x' y' ne assms(2) map_res_length [OF x'] map_res_length [OF y']
    by (simp add: mt_paired_values_def mt_finite_values_def)
  have "mset (zip xs' ys') = image_mset (\<lambda>(a, b). (?f ''actual'' a, ?f ''predicted'' b)) (mset (zip as' ps'))"
    unfolding m(3,4) zip_map_map by (simp only: mset_map)
  also have "\<dots> = mset (zip xs ys)" unfolding m(1,2) zip_map_map mset_map assms(3) ..
  finally have mz: "mset (zip xs' ys') = mset (zip xs ys)" .
  have "length xs' = length xs"
    using l' len assms(2) map_res_length [OF x] map_res_length [OF x'] by simp
  with p' mz show ?thesis by (rule that)
qed

section \<open>Pinball loss\<close>

lemma pinball_term_nonneg:
  assumes "f_isfinite level" and "0 < fval level" and "fval level < 1" and "f_isfinite n" and "0 < fval n"
    and t: "mt_pinball_term level n (x, y) = Inr t"
  shows "0 \<le> fval t"
proof -
  define e where "e = f_sub x y"
  define u where "u = f_mul level e"
  define v where "v = f_mul (f_sub level f_one) e"
  have f: "f_isfinite e" "f_isfinite (f_max u v)" and tq: "t = f_quot (f_max u v) n"
    using t by (auto simp: mt_pinball_term_def Let_def bind_res_Inr_iff mt_finite_error_Inr_iff e_def u_def v_def split: if_splits)
  have lk: "f_key (f_sub level f_one) = rkey (fval level - 1)" using f_key_sub [OF assms(1) f_one_facts(1)] by simp
  have "1 \<le> top_val" using top_val_big by (rule order_trans [rotated]) simp
  then have l1: "f_isfinite (f_sub level f_one)" unfolding f_isfinite_key lk by (intro rkey_finite) (use assms in auto)
  have l0: "fval (f_sub level f_one) \<le> 0"
    using rkey_mono [of "fval level - 1" 0] assms(3) fval_sign [OF l1] lk by simp
  have uk: "f_key u = rkey (fval level * fval e)" unfolding u_def by (rule f_key_mul [OF assms(1) f(1)])
  have vk: "f_key v = rkey (fval (f_sub level f_one) * fval e)" unfolding v_def by (rule f_key_mul [OF l1 f(1)])
  have nn: "\<not> f_isnan u" "\<not> f_isnan v"
    using rkey_not_nan [of "fval level * fval e"] rkey_not_nan [of "fval (f_sub level f_one) * fval e"]
    by (auto simp: f_isnan_def f_key_def uk [symmetric] vk [symmetric] split: if_splits)
  have "f_key (f_max u v) = max (f_key u) (f_key v)" using nn by (simp add: f_max_def f_lt_def)
  moreover have "0 \<le> f_key u \<or> 0 \<le> f_key v"
  proof (cases "0 \<le> fval e")
    case True
    then show ?thesis using rkey_mono [of 0 "fval level * fval e"] assms(2) uk by simp
  next
    case False
    then show ?thesis using rkey_mono [of 0 "fval (f_sub level f_one) * fval e"] l0 vk by (simp add: mult_nonpos_nonpos)
  qed
  ultimately have "0 \<le> f_key (f_max u v)" by (simp only: le_max_iff_disj)
  then show ?thesis unfolding tq using f(2) assms(4,5) by (intro f_quot_nonneg)
qed

section \<open>Properties\<close>

text \<open>A mean absolute error is the exact sum of the per-observation terms \<open>|actual - predicted| / n\<close>
  rounded once, and is not negative (on sequences whose length converts to a float).\<close>

theorem mae_is_one_rounding:
  assumes "mean_absolute_error actual predicted = Inr r" and "mt_paired_values actual predicted = Inr (xs, ys)"
    and "convertible_len xs"
  shows "f_key r = rkey (\<Sum>(x, y) \<leftarrow> zip xs ys. fval (f_quot (f_abs (f_sub x y)) (f_len xs))) \<and> f_le f_zero r"
proof -
  obtain ts where ts: "map (mt_mae_term (f_len xs)) (zip xs ys) = map Inr ts"
    and r: "rmag (sum_list (map fval ts)) < inf_idx" "r = f_pack False (rmag (sum_list (map fval ts)))" "f_isfinite r"
    by (rule mae_Inr [OF assms])
  have "map fval ts = map (\<lambda>q. fval (projr (mt_mae_term (f_len xs) q))) (zip xs ys)"
    using arg_cong [OF ts, of "map (\<lambda>q. fval (projr q))"] by (simp add: comp_def)
  also have "\<dots> = map (\<lambda>(x, y). fval (f_quot (f_abs (f_sub x y)) (f_len xs))) (zip xs ys)"
  proof (rule map_cong [OF refl])
    fix q assume "q \<in> set (zip xs ys)"
    then obtain t where "mt_mae_term (f_len xs) q = Inr t" using ts by (metis image_eqI image_iff list.set_map)
    then show "fval (projr (mt_mae_term (f_len xs) q)) = (case q of (x, y) \<Rightarrow> fval (f_quot (f_abs (f_sub x y)) (f_len xs)))"
      by (cases q) (auto simp: mt_mae_term_def mt_finite_error_def Let_def split: if_splits)
  qed
  finally have m: "map fval ts = map (\<lambda>(x, y). fval (f_quot (f_abs (f_sub x y)) (f_len xs))) (zip xs ys)" .
  have ne: "xs \<noteq> []" by (rule mt_finite_values_Inr [OF mt_paired_values_Inr(1) [OF assms(2)]])
  have "0 \<le> fval t" if "t \<in> set ts" for t
    using mae_terms_nonneg [OF ne assms(3)] ts that by (metis image_eqI list.set_map)
  then have "0 \<le> sum_list (map fval ts)" by (intro sum_list_nonneg) auto
  then have "f_key r = rkey (sum_list (map fval ts))" using r pack_rmag_facts(2) by (simp add: rkey_def)
  moreover from this have "0 \<le> f_key r" using rkey_mono [of 0 "sum_list (map fval ts)"] \<open>0 \<le> sum_list (map fval ts)\<close> by simp
  ultimately show ?thesis using r(3) by (simp add: m f_le_key)
qed

text \<open>The mean absolute error does not depend on the order of the observations: supplying the same pairs in
  another order gives the same float, bit for bit.\<close>

theorem mae_order_independent:
  assumes "mset (zip as ps) = mset (zip as' ps')" and "length as' = length ps'" and "convertible_len as"
    and "mean_absolute_error (Seq as) (Seq ps) = Inr r"
  shows "mean_absolute_error (Seq as') (Seq ps') = Inr r"
proof -
  obtain xs ys where p: "mt_paired_values (Seq as) (Seq ps) = Inr (xs, ys)"
    using assms(4) unfolding mean_absolute_error_def by (auto elim: bind_res_InrE)
  obtain xs' ys' where p': "mt_paired_values (Seq as') (Seq ps') = Inr (xs', ys')"
    and z: "mset (zip xs' ys') = mset (zip xs ys)" and l: "length xs' = length xs"
    by (rule mt_paired_perm [OF p assms(2,1)])
  obtain vs where "as = vs" "map_res (mt_finite_value ''actual'') vs = Inr xs" "xs \<noteq> []"
    using mt_finite_values_Inr [OF mt_paired_values_Inr(1) [OF p]] by (metis pyseq.inject)
  then have lx: "convertible_len xs" and ne: "xs \<noteq> []"
    using assms(3) convertible_len_cong map_res_length by blast+
  obtain ts where ts: "map (mt_mae_term (f_len xs)) (zip xs ys) = map Inr ts"
    and r: "rmag (sum_list (map fval ts)) < inf_idx" "r = f_pack False (rmag (sum_list (map fval ts)))" "f_isfinite r"
    by (rule mae_Inr [OF assms(4) p lx])
  have fl: "f_len xs' = f_len xs" using l by (simp add: f_len_def)
  have "is_ok (mt_mae_term (f_len xs) q)" if "q \<in> set (zip xs ys)" for q
  proof -
    have "mt_mae_term (f_len xs) q \<in> set (map (mt_mae_term (f_len xs)) (zip xs ys))"
      using that by (simp only: set_map image_eqI)
    then show ?thesis unfolding ts by auto
  qed
  then have "\<forall>q \<in> set (zip xs' ys'). is_ok (mt_mae_term (f_len xs) q)"
    using mset_eq_setD [OF z] by simp
  then have ts': "map (mt_mae_term (f_len xs)) (zip xs' ys') = map Inr (map (\<lambda>q. projr (mt_mae_term (f_len xs) q)) (zip xs' ys'))"
    by (auto simp: is_ok_iff)
  let ?ts' = "map (\<lambda>q. projr (mt_mae_term (f_len xs) q)) (zip xs' ys')"
  have "ts = map (\<lambda>q. projr (mt_mae_term (f_len xs) q)) (zip xs ys)"
    using arg_cong [OF ts, of "map projr"] by (simp add: comp_def)
  then have "mset ?ts' = mset ts" using z by (simp add: mset_map)
  then have "mset (map fval ?ts') = mset (map fval ts)" by (simp only: mset_map)
  then have s: "sum_list (map fval ?ts') = sum_list (map fval ts)" by (metis sum_mset_sum_list)
  have "0 \<le> fval t" if "t \<in> set ?ts'" for t
  proof (rule mae_terms_nonneg [OF ne lx])
    show "Inr t \<in> set (map (mt_mae_term (f_len xs)) (zip xs' ys'))"
      unfolding ts' using that by (simp only: set_map image_eqI)
  qed
  then have nn: "\<forall>t \<in> set ?ts'. 0 \<le> fval t" by blast
  have "f_fsum (map (mt_mae_term (f_len xs)) (zip xs' ys')) = Inr r"
    unfolding ts' using f_fsum_nonneg [OF nn] r by (simp only: s) (simp add: Let_def)
  then show ?thesis using p' r(3) by (simp add: mean_absolute_error_def fl)
qed

text \<open>Pinball loss is never negative, at any level and for any outcomes and forecasts it accepts.\<close>

theorem pinball_nonneg:
  assumes "pinball_loss actual predicted level = Inr r" and "mt_paired_values actual predicted = Inr (xs, ys)"
    and "convertible_len xs"
  shows "0 \<le> f_key r \<and> 0 \<le> fval r"
proof -
  obtain l ls where l: "mt_probability level ''quantile'' = Inr l"
    and ls: "map_res (mt_pinball_term l (f_len xs)) (zip xs ys) = Inr ls" and s: "f_fsum (map Inr ls) = Inr r"
    using assms(1,2) by (auto simp: pinball_loss_def bind_res_Inr_iff)
  have lf: "f_isfinite l" "f_lt f_zero l" "f_lt l f_one"
    using l by (auto simp: mt_probability_def bind_res_Inr_iff split: option.splits if_splits)
  then have lv: "0 < fval l" "fval l < 1" by (simp_all add: f_lt_fval)
  have ne: "xs \<noteq> []" by (rule mt_finite_values_Inr [OF mt_paired_values_Inr(1) [OF assms(2)]])
  note n = f_len_facts(1,2) [OF ne assms(3)]
  have nn: "0 \<le> fval t" if t: "t \<in> set ls" for t
  proof -
    obtain q where "mt_pinball_term l (f_len xs) q = Inr t" using map_res_in [OF ls t] by metis
    then show ?thesis using pinball_term_nonneg [OF lf(1) lv n] by (cases q) simp
  qed
  have "\<And>x. Inr x \<in> set (map Inr ls :: f64 res list) \<Longrightarrow> 0 \<le> fval x" using nn by auto
  then obtain us where "rmag (sum_list (map fval us)) < inf_idx" "r = f_pack False (rmag (sum_list (map fval us)))"
    by (rule f_fsum_Inr_nonneg [OF s])
  then have "0 \<le> f_key r" using pack_rmag_facts(2) rmag_nonneg by simp
  then show ?thesis unfolding fval_of_key by simp
qed

text \<open>Empirical interval coverage is the number of outcomes that \<open>interval_missed\<close> does not count as
  misses, divided by the number of outcomes: evaluation and calibration agree on what a miss is.\<close>

theorem coverage_counts_non_misses:
  assumes "empirical_interval_coverage (Seq (map PyFloat xs)) (Seq (map PyFloat ls)) (Seq (map PyFloat us)) = Inr c"
  shows "f_of_ratio (int (length (filter (\<lambda>(x, l, u). interval_missed (PyFloat x) (PyFloat l) (PyFloat u) = Inr False)
             (zip xs (zip ls us))))) (int (length xs)) = Inr c"
proof -
  have fin: "ys = zs" "\<forall>x \<in> set zs. f_isfinite x" if "mt_finite_values (Seq (map PyFloat ys)) n = Inr zs" for ys zs n
  proof -
    have m: "map_res (mt_finite_value n) (map PyFloat ys) = Inr zs"
      using that by (auto simp: mt_finite_values_def split: if_splits)
    show "\<forall>x \<in> set zs. f_isfinite x" by (rule mt_finite_values_Inr [OF that])
    show "ys = zs"
    proof (rule nth_equalityI)
      show "length ys = length zs" using map_res_length [OF m] by simp
      show "ys ! i = zs ! i" if "i < length ys" for i
        using map_res_nth [OF m, of i] that by (auto simp: mt_finite_value_Inr_iff real_float_def)
    qed
  qed
  obtain as bs cs k where v: "mt_finite_values (Seq (map PyFloat xs)) ''actual'' = Inr as"
    "mt_finite_values (Seq (map PyFloat ls)) ''lower'' = Inr bs"
    "mt_finite_values (Seq (map PyFloat us)) ''upper'' = Inr cs"
    and k: "mt_count_covered 0 (zip as (zip bs cs)) = Inr k" and c: "f_of_ratio k (int (length as)) = Inr c"
    using assms unfolding empirical_interval_coverage_def by (auto simp: bind_res_Inr_iff split: if_splits)
  note e = fin [OF v(1)] fin [OF v(2)] fin [OF v(3)]
  have ordered: "\<not> f_lt u l" if "(x, l, u) \<in> set rows" "mt_count_covered n rows = Inr j" for x l u rows n j
    using that by (induction n rows rule: mt_count_covered.induct) (auto split: if_splits)
  have "mt_covered (x, l, u) \<longleftrightarrow> interval_missed (PyFloat x) (PyFloat l) (PyFloat u) = Inr False"
    if "(x, l, u) \<in> set (zip as (zip bs cs))" for x l u
  proof -
    have "f_isfinite x" "f_isfinite l" "f_isfinite u"
      using e set_zip_leftD [OF that] set_zip_leftD [OF set_zip_rightD [OF that]] set_zip_rightD [OF set_zip_rightD [OF that]]
      by simp_all
    then show ?thesis using ordered [OF that k]
      by (simp add: interval_missed_def cv_ordered_interval_def mt_covered_def)
  qed
  then have "filter mt_covered (zip as (zip bs cs)) =
      filter (\<lambda>(x, l, u). interval_missed (PyFloat x) (PyFloat l) (PyFloat u) = Inr False) (zip as (zip bs cs))"
    by (intro filter_cong) auto
  then show ?thesis using mt_count_covered_eq [OF k] c e by simp
qed

section \<open>The properties at concrete inputs\<close>

text \<open>Outcomes 1, 4; forecasts 2, 2.\<close>

definition demo_actual :: "f64 list" where "demo_actual = [f_one, 4616189618054758400]"
definition demo_predicted :: "f64 list" where "demo_predicted = [f_two, f_two]"

lemma demo_paired:
  "mt_paired_values (Seq (map PyFloat demo_actual)) (Seq (map PyFloat demo_predicted)) = Inr (demo_actual, demo_predicted)"
  by code_simp

lemma demo_len: "convertible_len demo_actual" "convertible_len (map PyFloat demo_actual)"
  by (simp_all add: convertible_len_def demo_actual_def)

lemma demo_mae: "is_ok (mean_absolute_error (Seq (map PyFloat demo_actual)) (Seq (map PyFloat demo_predicted)))"
  by code_simp

theorem mae_is_one_rounding_witness:
  "\<exists>r. mean_absolute_error (Seq (map PyFloat demo_actual)) (Seq (map PyFloat demo_predicted)) = Inr r \<and> f_le f_zero r"
  using demo_mae mae_is_one_rounding [OF _ demo_paired demo_len(1)] unfolding is_ok_iff by blast

theorem mae_order_independent_witness:
  "\<exists>r. mean_absolute_error (Seq (map PyFloat demo_actual)) (Seq (map PyFloat demo_predicted)) = Inr r \<and>
     mean_absolute_error (Seq (rev (map PyFloat demo_actual))) (Seq (rev (map PyFloat demo_predicted))) = Inr r"
proof -
  have "mset (zip (map PyFloat demo_actual) (map PyFloat demo_predicted)) =
      mset (zip (rev (map PyFloat demo_actual)) (rev (map PyFloat demo_predicted)))"
    by (simp add: demo_actual_def demo_predicted_def)
  moreover have "length (rev (map PyFloat demo_actual)) = length (rev (map PyFloat demo_predicted))"
    by (simp add: demo_actual_def demo_predicted_def)
  ultimately have "mean_absolute_error (Seq (map PyFloat demo_actual)) (Seq (map PyFloat demo_predicted)) = Inr r \<Longrightarrow>
      mean_absolute_error (Seq (rev (map PyFloat demo_actual))) (Seq (rev (map PyFloat demo_predicted))) = Inr r" for r
    by (rule mae_order_independent [OF _ _ demo_len(2)])
  moreover obtain r where "mean_absolute_error (Seq (map PyFloat demo_actual)) (Seq (map PyFloat demo_predicted)) = Inr r"
    using demo_mae unfolding is_ok_iff by blast
  ultimately show ?thesis by blast
qed

lemma demo_pinball_terms:
  "mt_probability (PyFloat f_half) ''quantile'' = Inr f_half"
  "mt_pinball_term f_half f_two (f_one, f_two) = Inr 4598175219545276416"
  "mt_pinball_term f_half f_two (4616189618054758400, f_two) = Inr 4602678819172646912"
  by code_simp+

lemma demo_pinball_sum: "is_ok (f_fsum [Inr 4598175219545276416, Inr 4602678819172646912])"
  by code_simp

lemma demo_pinball: "is_ok (pinball_loss (Seq (map PyFloat demo_actual)) (Seq (map PyFloat demo_predicted)) (PyFloat f_half))"
proof -
  have "f_len demo_actual = f_two" by code_simp
  then have "map_res (mt_pinball_term f_half (f_len demo_actual)) (zip demo_actual demo_predicted)
      = Inr [4598175219545276416, 4602678819172646912]"
    by (simp add: demo_actual_def demo_predicted_def demo_pinball_terms)
  then show ?thesis using demo_pinball_sum by (simp add: pinball_loss_def demo_paired demo_pinball_terms)
qed

theorem pinball_nonneg_witness:
  "\<exists>r. pinball_loss (Seq (map PyFloat demo_actual)) (Seq (map PyFloat demo_predicted)) (PyFloat f_half) = Inr r \<and> 0 \<le> f_key r"
  using demo_pinball pinball_nonneg [OF _ demo_paired demo_len(1)] unfolding is_ok_iff by blast

lemma demo_coverage_ok:
  "is_ok (empirical_interval_coverage (Seq (map PyFloat demo_actual)) (Seq (map PyFloat [f_one, f_one])) (Seq (map PyFloat demo_predicted)))"
  by code_simp

theorem coverage_counts_non_misses_witness:
  "\<exists>c. empirical_interval_coverage (Seq (map PyFloat demo_actual)) (Seq (map PyFloat [f_one, f_one])) (Seq (map PyFloat demo_predicted)) = Inr c \<and>
    f_of_ratio (int (length (filter (\<lambda>(x, l, u). interval_missed (PyFloat x) (PyFloat l) (PyFloat u) = Inr False)
             (zip demo_actual (zip [f_one, f_one] demo_predicted))))) (int (length demo_actual)) = Inr c"
  using demo_coverage_ok coverage_counts_non_misses unfolding is_ok_iff by blast

end
