(* ===== verification/Baselines.thy ===== *)
theory Baselines
  imports FloatOps PyObj
begin

text \<open>
  The baseline forecasters (\<open>ml/models/baselines.py\<close>).  The class hierarchy is a
  datatype of kinds and a record: the shared state is the fitted history, the
  abstract method is \<open>bl_forecast_at\<close>.  A dict of forecasts is the list of its
  items in insertion order.
\<close>

section \<open>Arguments\<close>

definition bl_positive_integer :: "pyobj \<Rightarrow> string \<Rightarrow> int res" where
  "bl_positive_integer value name =
     (case integral value of
        Some i \<Rightarrow> if i < 1 then Inl (ValueError (name @ '' must be a positive integer'')) else Inr i
      | None \<Rightarrow> Inl (ValueError (name @ '' must be a positive integer'')))"

definition bl_finite_value :: "pyobj \<Rightarrow> f64 res" where
  "bl_finite_value value =
     (case real_float value of
        None \<Rightarrow> Inl (ValueError ''values must contain only finite real numbers'')
      | Some r \<Rightarrow>
          bind_res r (\<lambda>number.
          bind_res (check (\<not> f_isfinite number) (ValueError ''values must contain only finite real numbers'')) (\<lambda>_.
          Inr number)))"

definition bl_finite_history :: "pyobj pyseq \<Rightarrow> int \<Rightarrow> f64 list res" where
  "bl_finite_history values minimum =
     (case values of
        NotIterable \<Rightarrow> Inl (ValueError ''values must be a finite sequence'')
      | Seq raw_values \<Rightarrow>
          bind_res (check (int (length raw_values) < minimum)
                     (ValueError (''values must contain at least '' @ int_str minimum @ '' observation(s)''))) (\<lambda>_.
          map_res bl_finite_value raw_values))"

fun bl_levels :: "f64 list \<Rightarrow> pyobj list \<Rightarrow> f64 list res" where
  "bl_levels levels [] = Inr levels"
| "bl_levels levels (quantile # rest) =
     (case real_float quantile of
        None \<Rightarrow> Inl (ValueError ''quantiles must contain only finite probabilities strictly between 0 and 1'')
      | Some r \<Rightarrow>
          bind_res r (\<lambda>level.
          bind_res (check (\<not> f_isfinite level \<or> \<not> (f_lt f_zero level \<and> f_lt level f_one))
                     (ValueError ''quantiles must contain only finite probabilities strictly between 0 and 1'')) (\<lambda>_.
          bind_res (check (\<exists>l \<in> set levels. f_eq l level) (ValueError ''quantiles must not contain duplicates'')) (\<lambda>_.
          bl_levels (levels @ [level]) rest))))"

definition bl_quantile_levels :: "pyobj pyseq \<Rightarrow> f64 list res" where
  "bl_quantile_levels quantiles =
     (case quantiles of
        NotIterable \<Rightarrow> Inl (ValueError ''quantiles must be a non-empty sequence'')
      | Seq raw_quantiles \<Rightarrow>
          bind_res (check (raw_quantiles = []) (ValueError ''quantiles must be a non-empty sequence'')) (\<lambda>_.
          bl_levels [] raw_quantiles))"

section \<open>Interpolated quantiles\<close>

definition bl_linear_quantile_from_ordered :: "f64 list \<Rightarrow> f64 \<Rightarrow> f64 res" where
  "bl_linear_quantile_from_ordered ordered probability =
     (let position = f_mul (f_of_int_exact (int (length ordered) - 1)) probability;
          lower_index = f_trunc position;
          fraction = f_sub position (f_of_int_exact lower_index)
      in if f_eq fraction f_zero then py_index ordered lower_index
         else bind_res (py_index ordered lower_index) (\<lambda>lower.
              bind_res (py_index ordered (lower_index + 1)) (\<lambda>upper.
              Inr (f_add (f_mul (f_sub f_one fraction) lower) (f_mul fraction upper)))))"

definition bl_linear_quantile :: "f64 list \<Rightarrow> f64 \<Rightarrow> f64 res" where
  "bl_linear_quantile values probability =
     bl_linear_quantile_from_ordered (sort_key f_key values) probability"

section \<open>The forecasters\<close>

datatype baseline_kind = NaiveForecaster | DriftForecaster | SeasonalNaiveForecaster int

record EmpiricalResidualBaseline =
  bl_kind :: baseline_kind
  bl_history :: "f64 list option"

text \<open>The three constructors; only the seasonal one validates an argument.\<close>

definition naive_forecaster :: EmpiricalResidualBaseline where
  "naive_forecaster = \<lparr>bl_kind = NaiveForecaster, bl_history = None\<rparr>"

definition drift_forecaster :: EmpiricalResidualBaseline where
  "drift_forecaster = \<lparr>bl_kind = DriftForecaster, bl_history = None\<rparr>"

definition seasonal_naive_forecaster :: "pyobj \<Rightarrow> EmpiricalResidualBaseline res" where
  "seasonal_naive_forecaster season_length0 =
     bind_res (bl_positive_integer season_length0 ''season_length'') (\<lambda>season_length.
     Inr \<lparr>bl_kind = SeasonalNaiveForecaster season_length, bl_history = None\<rparr>)"

fun bl_model_version :: "baseline_kind \<Rightarrow> string" where
  "bl_model_version NaiveForecaster = ''baseline-naive@1''"
| "bl_model_version DriftForecaster = ''baseline-drift@1''"
| "bl_model_version (SeasonalNaiveForecaster season_length) =
     ''baseline-seasonal-naive-s'' @ int_str season_length @ ''@1''"

fun bl_minimum_history :: "baseline_kind \<Rightarrow> int" where
  "bl_minimum_history NaiveForecaster = 1"
| "bl_minimum_history DriftForecaster = 2"
| "bl_minimum_history (SeasonalNaiveForecaster season_length) = season_length"

definition naive_forecast_at :: "f64 list \<Rightarrow> f64 res" where
  "naive_forecast_at history = py_index history (- 1)"

definition drift_forecast_at :: "f64 list \<Rightarrow> int \<Rightarrow> f64 res" where
  "drift_forecast_at history step =
     bind_res (py_index history (- 1)) (\<lambda>final.
     bind_res (py_index history 0) (\<lambda>first.
     bind_res (f_div (f_sub final first) (f_of_int_exact (int (length history) - 1))) (\<lambda>slope.
     bind_res (f_of_int step) (\<lambda>steps.
     Inr (f_add final (f_mul slope steps))))))"

definition seasonal_forecast_at :: "int \<Rightarrow> f64 list \<Rightarrow> int \<Rightarrow> f64 res" where
  "seasonal_forecast_at season_length history step =
     (let seasonal_offset = (step - 1) mod season_length
      in py_index history (- season_length + seasonal_offset))"

fun bl_forecast_at :: "baseline_kind \<Rightarrow> f64 list \<Rightarrow> int \<Rightarrow> f64 res" where
  "bl_forecast_at NaiveForecaster history step = naive_forecast_at history"
| "bl_forecast_at DriftForecaster history step = drift_forecast_at history step"
| "bl_forecast_at (SeasonalNaiveForecaster season_length) history step =
     seasonal_forecast_at season_length history step"

section \<open>Fitting and prediction\<close>

definition bl_fit :: "EmpiricalResidualBaseline \<Rightarrow> pyobj pyseq \<Rightarrow> EmpiricalResidualBaseline res" where
  "bl_fit self values =
     bind_res (bl_finite_history values (bl_minimum_history (bl_kind self))) (\<lambda>history.
     Inr (self\<lparr>bl_history := Some history\<rparr>))"

definition bl_fitted_history :: "EmpiricalResidualBaseline \<Rightarrow> f64 list res" where
  "bl_fitted_history self =
     (case bl_history self of
        None \<Rightarrow> Inl (RuntimeError ''fit must be called before prediction'')
      | Some history \<Rightarrow> Inr history)"

definition bl_checked_forecast :: "baseline_kind \<Rightarrow> f64 list \<Rightarrow> int \<Rightarrow> f64 res" where
  "bl_checked_forecast kind history step =
     bind_res (bl_forecast_at kind history step) (\<lambda>forecast.
     bind_res (check (\<not> f_isfinite forecast) (ValueError ''point forecast is non-finite'')) (\<lambda>_.
     Inr forecast))"

definition bl_points :: "baseline_kind \<Rightarrow> f64 list \<Rightarrow> int \<Rightarrow> f64 list res" where
  "bl_points kind history steps = map_res (bl_checked_forecast kind history) [1..steps]"

definition bl_predict :: "EmpiricalResidualBaseline \<Rightarrow> pyobj \<Rightarrow> f64 list res" where
  "bl_predict self horizon =
     bind_res (bl_positive_integer horizon ''horizon'') (\<lambda>steps.
     bind_res (bl_fitted_history self) (\<lambda>history.
     bl_points (bl_kind self) history steps))"

definition bl_origin_error :: "baseline_kind \<Rightarrow> f64 list \<Rightarrow> int \<Rightarrow> int \<Rightarrow> f64 res" where
  "bl_origin_error kind history step prefix_size =
     (let prefix = take (nat prefix_size) history in
      bind_res (py_index history (prefix_size + step - 1)) (\<lambda>actual.
      bind_res (bl_checked_forecast kind prefix step) (\<lambda>forecast.
      let error = f_sub actual forecast in
      bind_res (check (\<not> f_isfinite error) (ValueError ''historical forecast error is non-finite'')) (\<lambda>_.
      Inr error))))"

definition bl_expanding_origin_errors :: "baseline_kind \<Rightarrow> f64 list \<Rightarrow> int \<Rightarrow> f64 list res" where
  "bl_expanding_origin_errors kind history step =
     map_res (bl_origin_error kind history step) [bl_minimum_history kind..int (length history) - step]"

definition bl_level_forecast :: "f64 list \<Rightarrow> f64 \<Rightarrow> f64 \<Rightarrow> f64 \<Rightarrow> f64 res" where
  "bl_level_forecast ordered_errors median_error point level =
     bind_res (bl_linear_quantile_from_ordered ordered_errors level) (\<lambda>q.
     let adjusted_error = f_sub q median_error; forecast = f_add point adjusted_error in
     bind_res (check (\<not> f_isfinite forecast) (ValueError ''quantile forecast is non-finite'')) (\<lambda>_.
     Inr forecast))"

definition bl_step_forecasts :: "baseline_kind \<Rightarrow> f64 list \<Rightarrow> f64 list \<Rightarrow> int \<Rightarrow> f64 \<Rightarrow> f64 list res" where
  "bl_step_forecasts kind history levels step point =
     bind_res (bl_expanding_origin_errors kind history step) (\<lambda>errors.
     bind_res (check (length errors < 2)
                (ValueError (''horizon step '' @ int_str step @ '' requires at least 2 prefix-only historical errors; got ''
                             @ int_str (int (length errors))))) (\<lambda>_.
     let ordered_errors = sort_key f_key errors in
     bind_res (check (f_eq (hd ordered_errors) (last ordered_errors))
                (ValueError (''horizon step '' @ int_str step @ '' historical errors have zero dispersion; ''
                             @ ''cannot estimate a non-degenerate interval''))) (\<lambda>_.
     bind_res (bl_linear_quantile_from_ordered ordered_errors f_half) (\<lambda>median_error.
     map_res (bl_level_forecast ordered_errors median_error point) levels))))"

text \<open>One pass over the points; each step appends one forecast to the list of every level.\<close>

fun bl_quantile_steps ::
  "baseline_kind \<Rightarrow> f64 list \<Rightarrow> f64 list \<Rightarrow> int \<Rightarrow> f64 list \<Rightarrow> (f64 \<times> f64 list) list \<Rightarrow> (f64 \<times> f64 list) list res"
where
  "bl_quantile_steps kind history levels step [] forecasts = Inr forecasts"
| "bl_quantile_steps kind history levels step (point # points) forecasts =
     bind_res (bl_step_forecasts kind history levels step point) (\<lambda>row.
     bl_quantile_steps kind history levels (step + 1) points
       (map2 (\<lambda>(level, path) forecast. (level, path @ [forecast])) forecasts row))"

definition bl_predict_quantiles ::
  "EmpiricalResidualBaseline \<Rightarrow> pyobj \<Rightarrow> pyobj pyseq \<Rightarrow> (f64 \<times> f64 list) list res" where
  "bl_predict_quantiles self horizon quantiles =
     bind_res (bl_positive_integer horizon ''horizon'') (\<lambda>steps.
     bind_res (bl_quantile_levels quantiles) (\<lambda>levels.
     bind_res (bl_fitted_history self) (\<lambda>history.
     bind_res (bl_points (bl_kind self) history steps) (\<lambda>points.
     bl_quantile_steps (bl_kind self) history levels 1 points (map (\<lambda>level. (level, [])) levels)))))"

end
