(* ===== verification/BaselinesLaws.thy ===== *)
theory BaselinesLaws
  imports Baselines
begin

text \<open>
  The baselines: the median quantile path is the point forecast, the historical
  errors behind the quantiles never change when later observations arrive, and a
  fitted seasonal model repeats its last season for any horizon.
\<close>

section \<open>Validation\<close>

lemma bl_finite_value_Inr_iff:
  "bl_finite_value v = Inr x \<longleftrightarrow> real_float v = Some (Inr x) \<and> f_isfinite x"
  by (auto simp: bl_finite_value_def bind_res_Inr_iff split: option.splits)

lemma bl_positive_integer_Inr_iff: "bl_positive_integer v n = Inr i \<longleftrightarrow> v = PyInt i \<and> 1 \<le> i"
  by (auto simp: bl_positive_integer_def integral_def split: pyobj.splits)

lemma bl_finite_history_Inr:
  assumes "bl_finite_history values m = Inr h"
  shows "m \<le> int (length h)" and "\<forall>x \<in> set h. f_isfinite x"
proof -
  obtain vs where v: "\<not> int (length vs) < m" "map_res bl_finite_value vs = Inr h"
    using assms by (auto simp: bl_finite_history_def split: pyseq.splits if_splits)
  then show "m \<le> int (length h)" using map_res_length [OF v(2)] by simp
  have "f_isfinite x" if "x \<in> set h" for x
    using map_res_in [OF v(2) that] by (metis bl_finite_value_Inr_iff)
  then show "\<forall>x \<in> set h. f_isfinite x" by blast
qed

section \<open>The median path\<close>

lemma f_sub_self:
  assumes "f_isfinite (f_add p (f_sub q q))"
  shows "f_isfinite q" and "f_isfinite p"
proof -
  have nan: "f_isnan f_nan" "\<not> f_isfinite f_nan"
    by (simp_all add: f_isnan_def f_isfinite_def f_nan_def f_idx_def inf_idx_def)
  show "f_isfinite q"
  proof (rule ccontr)
    assume "\<not> f_isfinite q"
    then have "f_isnan q \<or> f_isinf q" by (auto simp: f_isfinite_def f_isnan_def f_isinf_def)
    then have "f_sub q q = f_nan"
      by (auto simp: f_sub_def f_add_def f_isnan_def f_isinf_def)
    then show False using assms nan by (simp add: f_add_def)
  qed
  then have z: "f_key (f_sub q q) = 0" "f_isfinite (f_sub q q)"
    using f_key_sub [of q q] by (simp_all add: f_isfinite_key inf_idx_def)
  show "f_isfinite p"
  proof (rule ccontr)
    assume "\<not> f_isfinite p"
    then consider "f_isnan p" | "f_isinf p" "\<not> f_isnan p"
      by (auto simp: f_isfinite_def f_isnan_def f_isinf_def linorder_not_less order_le_less)
    then have "f_add p (f_sub q q) = f_nan \<or> f_add p (f_sub q q) = p"
      using z(2) by cases (auto simp: f_add_def f_finite_not_nan f_finite_not_inf)
    then show False using assms nan(2) \<open>\<not> f_isfinite p\<close> by auto
  qed
qed

lemma median_forecast:
  assumes "bl_linear_quantile_from_ordered errs f_half = Inr med" and "bl_level_forecast errs med p f_half = Inr f"
  shows "f_eq f p"
proof -
  have f: "f = f_add p (f_sub med med)" "f_isfinite f"
    using assms by (auto simp: bl_level_forecast_def Let_def split: if_splits)
  note fin = f_sub_self [OF f(2) [unfolded f(1)]]
  have z: "f_key (f_sub med med) = 0" "f_isfinite (f_sub med med)"
    using f_key_sub [OF fin(1) fin(1)] by (simp_all add: f_isfinite_key inf_idx_def)
  have "f_key f = f_key p"
    using f_key_add [OF fin(2) z(2)] fval_key_0 [OF z(1)] by (simp add: f(1) rkey_fval [OF fin(2)])
  then show ?thesis using f(2) fin(2) by (simp add: f_eq_key)
qed

lemma bl_quantile_steps_paths:
  assumes "bl_quantile_steps kind h levels s pts fs = Inr fs'" and "map fst fs = levels"
  shows "map fst fs' = levels"
    and "(l, path') \<in> set fs' \<Longrightarrow> \<exists>path fcs. (l, path) \<in> set fs \<and> path' = path @ fcs \<and>
      list_all2 (\<lambda>p f. \<exists>errs med. bl_linear_quantile_from_ordered errs f_half = Inr med \<and>
                    bl_level_forecast errs med p l = Inr f) pts fcs"
proof -
  have "map fst fs' = levels \<and> (\<forall>l path'. (l, path') \<in> set fs' \<longrightarrow> (\<exists>path fcs. (l, path) \<in> set fs \<and> path' = path @ fcs \<and>
      list_all2 (\<lambda>p f. \<exists>errs med. bl_linear_quantile_from_ordered errs f_half = Inr med \<and>
                    bl_level_forecast errs med p l = Inr f) pts fcs))"
    using assms
  proof (induction pts arbitrary: s fs)
    case Nil
    then show ?case by auto
  next
    case (Cons p pts)
    let ?app = "\<lambda>row. map2 (\<lambda>(level, path) forecast. (level, path @ [forecast])) fs row"
    obtain row where row: "bl_step_forecasts kind h levels s p = Inr row"
      and rest: "bl_quantile_steps kind h levels (s + 1) pts (?app row) = Inr fs'"
      using Cons.prems(1) by (auto elim: bind_res_InrE)
    obtain errs med where med: "bl_linear_quantile_from_ordered errs f_half = Inr med"
      and r: "map_res (bl_level_forecast errs med p) levels = Inr row"
      using row by (auto simp: bl_step_forecasts_def Let_def bind_res_Inr_iff split: if_splits)
    have len: "length row = length fs" using map_res_length [OF r] Cons.prems(2) by (metis length_map)
    have "map fst (?app row) = levels"
      using len Cons.prems(2) by (intro nth_equalityI) (auto simp: case_prod_beta)
    note IH = Cons.IH [OF rest this]
    show ?case
    proof (intro conjI allI impI)
      show "map fst fs' = levels" using IH by blast
      fix l path' assume "(l, path') \<in> set fs'"
      then obtain path1 fcs where p1: "(l, path1) \<in> set (?app row)" and pp: "path' = path1 @ fcs"
        and la: "list_all2 (\<lambda>p f. \<exists>errs med. bl_linear_quantile_from_ordered errs f_half = Inr med \<and>
                    bl_level_forecast errs med p l = Inr f) pts fcs"
        using IH by blast
      obtain j where j: "j < length fs" "fst (fs ! j) = l" "path1 = snd (fs ! j) @ [row ! j]"
        using p1 len by (auto simp: set_conv_nth case_prod_beta)
      have "levels ! j = l" using j Cons.prems(2) by (metis nth_map)
      then have "bl_level_forecast errs med p l = Inr (row ! j)"
        using map_res_nth [OF r] j(1) Cons.prems(2) by (metis length_map)
      then have "list_all2 (\<lambda>p f. \<exists>errs med. bl_linear_quantile_from_ordered errs f_half = Inr med \<and>
                    bl_level_forecast errs med p l = Inr f) (p # pts) (row ! j # fcs)"
        using med la by auto
      moreover have "(l, snd (fs ! j)) \<in> set fs" using j by (metis nth_mem prod.collapse)
      moreover have "path' = snd (fs ! j) @ row ! j # fcs" using pp j(3) by simp
      ultimately show "\<exists>path fcs. (l, path) \<in> set fs \<and> path' = path @ fcs \<and>
        list_all2 (\<lambda>p f. \<exists>errs med. bl_linear_quantile_from_ordered errs f_half = Inr med \<and>
                    bl_level_forecast errs med p l = Inr f) (p # pts) fcs" by blast
    qed
  qed
  then show "map fst fs' = levels"
    and "(l, path') \<in> set fs' \<Longrightarrow> \<exists>path fcs. (l, path) \<in> set fs \<and> path' = path @ fcs \<and>
      list_all2 (\<lambda>p f. \<exists>errs med. bl_linear_quantile_from_ordered errs f_half = Inr med \<and>
                    bl_level_forecast errs med p l = Inr f) pts fcs"
    by blast+
qed

section \<open>Properties\<close>

text \<open>The 0.5 quantile path of a forecaster equals its point forecast at every step: recentring the
  historical errors by their median leaves the point where it is.\<close>

theorem median_path_is_point:
  assumes "bl_predict_quantiles self horizon quantiles = Inr forecasts" and "(f_half, path) \<in> set forecasts"
  shows "\<exists>points. bl_predict self horizon = Inr points \<and> list_all2 f_eq path points"
proof -
  obtain steps levels history points where
    s: "bl_positive_integer horizon ''horizon'' = Inr steps" "bl_fitted_history self = Inr history"
       "bl_points (bl_kind self) history steps = Inr points"
    and q: "bl_quantile_steps (bl_kind self) history levels 1 points (map (\<lambda>level. (level, [])) levels) = Inr forecasts"
    using assms(1) by (auto simp: bl_predict_quantiles_def bind_res_Inr_iff)
  have "map fst (map (\<lambda>level. (level, [] :: f64 list)) levels) = levels" by (simp add: comp_def)
  from bl_quantile_steps_paths(2) [OF q this assms(2)]
  have "list_all2 (\<lambda>p f. \<exists>errs med. bl_linear_quantile_from_ordered errs f_half = Inr med \<and>
                    bl_level_forecast errs med p f_half = Inr f) points path" by auto
  then have "list_all2 (\<lambda>p f. f_eq f p) points path"
    by (rule list_all2_mono) (blast intro: median_forecast)
  then have "list_all2 f_eq path points" by (simp add: list_all2_conv_all_nth)
  then show ?thesis using s by (simp add: bl_predict_def)
qed

lemma py_index_take: "0 \<le> i \<Longrightarrow> i < int m \<Longrightarrow> m \<le> length xs \<Longrightarrow> py_index (take m xs) i = py_index xs i"
  by (simp add: py_index_nonneg nat_less_iff)

text \<open>No look-ahead in the uncertainty estimate: the historical error of an origin is computed from the
  observations up to its target only, so the errors of a shortened history are a prefix of the errors of the
  whole one.  New observations append errors; they never revise one.\<close>

theorem errors_never_revised:
  assumes "bl_expanding_origin_errors kind history step = Inr errors" and "1 \<le> step" and "1 \<le> bl_minimum_history kind"
    and "m \<le> length history"
  shows "bl_expanding_origin_errors kind (take m history) step =
    Inr (take (nat (int m - step - bl_minimum_history kind + 1)) errors)"
proof -
  let ?lo = "bl_minimum_history kind" and ?k = "nat (int m - step - bl_minimum_history kind + 1)"
  have l: "length (take m history) = m" using assms(4) by simp
  have pre: "[?lo..int m - step] = take ?k [?lo..int (length history) - step]"
  proof (rule nth_equalityI)
    show "length [?lo..int m - step] = length (take ?k [?lo..int (length history) - step])"
      using assms(4) by simp
    show "[?lo..int m - step] ! i = take ?k [?lo..int (length history) - step] ! i" if "i < length [?lo..int m - step]" for i
      using that assms(4) by (simp add: nth_upto)
  qed
  have mt: "map_res f (take n xs) = Inr (take n ys)" if "map_res f xs = Inr ys" for f :: "int \<Rightarrow> f64 res" and xs ys n
    using that by (simp add: map_res_Inr_iff list_all2_takeI)
  have cong: "map_res f xs = map_res g xs" if "\<And>x. x \<in> set xs \<Longrightarrow> f x = g x" for f g :: "int \<Rightarrow> f64 res" and xs
    using that by (induction xs) simp_all
  have "bl_origin_error kind (take m history) step p = bl_origin_error kind history step p"
    if "p \<in> set [?lo..int m - step]" for p
  proof -
    have p: "?lo \<le> p" "p \<le> int m - step" using that by simp_all
    have "py_index (take m history) (p + step - 1) = py_index history (p + step - 1)"
      using p assms by (intro py_index_take) linarith+
    moreover have "take (nat p) (take m history) = take (nat p) history" using p assms(2) by (simp add: min_absorb1 nat_le_iff)
    ultimately show ?thesis by (simp add: bl_origin_error_def)
  qed
  then have "bl_expanding_origin_errors kind (take m history) step = map_res (bl_origin_error kind history step) [?lo..int m - step]"
    unfolding bl_expanding_origin_errors_def l by (rule cong)
  also have "\<dots> = Inr (take ?k errors)"
    unfolding pre using assms(1) unfolding bl_expanding_origin_errors_def by (rule mt)
  finally show ?thesis .
qed

text \<open>A fitted seasonal model answers every horizon: it never raises, returns one value per step, and step
  \<open>k\<close> repeats the value of the last season at offset \<open>(k - 1) mod season\<close>.\<close>

theorem seasonal_repeats_last_season:
  assumes "seasonal_naive_forecaster (PyInt season) = Inr model" and "bl_fit model values = Inr fitted"
    and "bl_history fitted = Some history" and "1 \<le> horizon"
  shows "bl_predict fitted (PyInt horizon) =
    Inr (map (\<lambda>k. history ! (length history - nat season + k mod nat season)) [0..<nat horizon])"
proof -
  have s: "1 \<le> season" and k: "bl_kind model = SeasonalNaiveForecaster season"
    using assms(1) by (auto simp: seasonal_naive_forecaster_def bl_positive_integer_Inr_iff bind_res_Inr_iff)
  have h: "bl_finite_history values season = Inr history" and kf: "bl_kind fitted = SeasonalNaiveForecaster season"
    using assms(2,3) k by (auto simp: bl_fit_def bind_res_Inr_iff)
  note hf = bl_finite_history_Inr [OF h]
  let ?v = "\<lambda>k. history ! (length history - nat season + k mod nat season)"
  have f: "bl_checked_forecast (SeasonalNaiveForecaster season) history (int k + 1) = Inr (?v k)" for k
  proof -
    have m: "0 \<le> int k mod season" "int k mod season < season" using s by simp_all
    obtain n where n: "season = int n" using s by (metis nonneg_int_cases order_trans zero_le_one)
    have "nat (- int n + int (k mod n) + int (length history)) = length history - n + k mod n"
      using hf(1) n by linarith
    then have i: "nat (- season + int k mod season + int (length history)) = length history - nat season + k mod nat season"
      by (simp add: n zmod_int)
    have "py_index history (- season + int k mod season) = Inr (?v k)"
      using py_index_negative [of history "- season + int k mod season"] m hf(1) unfolding i by simp
    moreover have "f_isfinite (?v k)"
      using py_index_set [OF calculation] hf(2) by blast
    ultimately show ?thesis by (simp add: bl_checked_forecast_def seasonal_forecast_at_def Let_def)
  qed
  have u: "[1..horizon] = map (\<lambda>k. int k + 1) [0..<nat horizon]"
    by (rule nth_equalityI) (simp_all add: nth_upto)
  have "map_res (bl_checked_forecast (SeasonalNaiveForecaster season) history) (map (\<lambda>k. int k + 1) ks) = Inr (map ?v ks)" for ks
    using f by (induction ks) simp_all
  then show ?thesis
    using assms(3,4) by (simp add: bl_predict_def bl_positive_integer_Inr_iff [THEN iffD2] bl_fitted_history_def kf bl_points_def u)
qed

section \<open>The properties at concrete inputs\<close>

text \<open>The history 1, 2, 4, 8: the naive one-step errors are 1, 2, 4, their median is 2.\<close>

definition demo_history :: "f64 list" where
  "demo_history = [f_one, f_two, 4616189618054758400, 4620693217682128896]"

definition demo_fitted :: EmpiricalResidualBaseline where
  "demo_fitted = \<lparr>bl_kind = NaiveForecaster, bl_history = Some demo_history\<rparr>"

lemma demo_points: "bl_points NaiveForecaster demo_history 1 = Inr [4620693217682128896]"
  by code_simp

lemma demo_errors: "bl_expanding_origin_errors NaiveForecaster demo_history 1 = Inr [f_one, f_two, 4616189618054758400]"
  by code_simp

lemma demo_median: "bl_linear_quantile_from_ordered [f_one, f_two, 4616189618054758400] f_half = Inr f_two"
  by code_simp

lemma demo_level: "bl_level_forecast [f_one, f_two, 4616189618054758400] f_two 4620693217682128896 f_half = Inr 4620693217682128896"
proof -
  have "f_sub f_two f_two = f_zero" "f_isfinite 4620693217682128896" "f_idx 4620693217682128896 \<noteq> 0" by code_simp+
  then show ?thesis by (simp add: bl_level_forecast_def demo_median f_add_zero)
qed

lemma demo_ordered: "sort_key f_key [f_one, f_two, 4616189618054758400] = [f_one, f_two, 4616189618054758400]"
  "\<not> f_eq f_one 4616189618054758400"
  by code_simp+

lemma demo_quantiles:
  "bl_predict_quantiles demo_fitted (PyInt 1) (Seq [PyFloat f_half]) = Inr [(f_half, [4620693217682128896])]"
proof -
  have "bl_quantile_levels (Seq [PyFloat f_half]) = Inr [f_half]" by code_simp
  moreover have "bl_step_forecasts NaiveForecaster demo_history [f_half] 1 4620693217682128896 = Inr [4620693217682128896]"
    using demo_ordered by (simp add: bl_step_forecasts_def demo_errors demo_median demo_level Let_def)
  ultimately show ?thesis
    using demo_points by (simp add: bl_predict_quantiles_def bl_positive_integer_def integral_def bl_fitted_history_def demo_fitted_def)
qed

theorem median_path_is_point_witness:
  "\<exists>points. bl_predict demo_fitted (PyInt 1) = Inr points \<and> list_all2 f_eq [4620693217682128896] points"
  by (rule median_path_is_point [OF demo_quantiles]) simp

theorem errors_never_revised_witness:
  "bl_expanding_origin_errors NaiveForecaster (take 3 demo_history) 1 = Inr [f_one, f_two]"
  using errors_never_revised [OF demo_errors, of 3] by (simp add: demo_history_def)

theorem seasonal_repeats_last_season_witness:
  "\<exists>fitted. bl_predict fitted (PyInt 3) = Inr [4616189618054758400, 4620693217682128896, 4616189618054758400]"
proof -
  let ?m = "\<lparr>bl_kind = SeasonalNaiveForecaster 2, bl_history = None\<rparr>"
  let ?f = "\<lparr>bl_kind = SeasonalNaiveForecaster 2, bl_history = Some demo_history\<rparr>"
  have m: "seasonal_naive_forecaster (PyInt 2) = Inr ?m" by code_simp
  have f: "bl_fit ?m (Seq (map PyFloat demo_history)) = Inr ?f" by code_simp
  have "[0..<nat 3] = [0, 1, 2]" by code_simp
  then have "bl_predict ?f (PyInt 3) = Inr [4616189618054758400, 4620693217682128896, 4616189618054758400]"
    using seasonal_repeats_last_season [OF m f, of demo_history 3] by (simp add: demo_history_def)
  then show ?thesis by blast
qed

end
