(* ===== verification/WalkForward.thy ===== *)
theory WalkForward
  imports Metrics Baselines "HOL-Library.List_Lexorder" "HOL-Library.Char_ord" "HOL-Library.Product_Lexorder"
begin

text \<open>
  Expanding-window evaluation of forecasters (\<open>ml/evaluation/walk_forward.py\<close>) over
  the \<open>Forecaster\<close> interface of \<open>ml/models/base.py\<close>.

  A forecaster is an object: \<open>fc_id\<close> is its identity (the code compares objects with
  \<open>is\<close>), the methods are functions of the arguments, and any of them may raise.
  \<open>predict\<close> may return something that is not iterable, \<open>predict_quantiles\<close> something
  that is not a \<open>dict\<close> (\<open>None\<close>); a dict is the list of its items.  A model factory is
  called once per origin and may answer differently each time: it is a function of
  the number of its earlier calls.
\<close>

section \<open>The forecaster interface\<close>

datatype Forecaster =
  Forecaster
    (fc_id: nat)
    (fc_model_version: pyobj)
    (fc_fit: "f64 list \<Rightarrow> exn + Forecaster pyarg")
    (fc_predict: "int \<Rightarrow> exn + pyobj pyseq")
    (fc_predict_quantiles: "int \<Rightarrow> f64 list \<Rightarrow> exn + (pyobj \<times> pyobj pyseq) list option")

section \<open>Records\<close>

record WalkForwardConfig =
  wc_initial_train_size :: int
  wc_horizon :: int
  wc_stride :: int
  wc_interval_coverages :: "f64 list"

record BaselineCandidate =
  bc_name :: string
  bc_model_factory :: "nat \<Rightarrow> exn + Forecaster pyarg"

record QuantileScore =
  qsc_level :: f64
  qsc_pinball_loss :: f64

record CoverageScore =
  cs_nominal_coverage :: f64
  cs_empirical_coverage :: f64

record MetricSummary =
  ms_sample_count :: int
  ms_mae :: f64
  ms_rmse :: f64
  ms_mean_pinball_loss :: f64
  ms_by_quantile :: "QuantileScore list"
  ms_by_coverage :: "CoverageScore list"
  ms_aggregation :: string

record HorizonMetrics =
  hm_horizon_step :: int
  hm_metrics :: MetricSummary

record QuantilePath =
  qp_level :: f64
  qp_values :: "f64 list"

record OriginForecast =
  of_train_end_exclusive :: int
  of_origin_index :: int
  of_target_start_index :: int
  of_actual :: "f64 list"
  of_point :: "f64 list"
  of_quantiles :: "QuantilePath list"

record ModelEvaluation =
  me_candidate_name :: string
  me_model_version :: string
  me_origins :: "OriginForecast list"
  me_by_horizon :: "HorizonMetrics list"
  me_aggregate :: MetricSummary
  me_evaluation_method :: string
  me_point_in_time_verified :: bool
  me_lookahead_status :: string
  me_purged :: bool
  me_embargoed :: bool
  me_dependence_note :: string

record LeaderboardEntry =
  le_rank :: int
  le_evaluation :: ModelEvaluation

record BaselineLeaderboard =
  lb_config :: WalkForwardConfig
  lb_entries :: "LeaderboardEntry list"
  lb_ranking_metric :: string
  lb_ranking_order :: "string list"
  lb_aggregation :: string
  lb_point_in_time_verified :: bool
  lb_lookahead_status :: string
  lb_selection_status :: string

section \<open>Validation\<close>

definition LEVEL_TOLERANCE :: f64 where
  "LEVEL_TOLERANCE = 4427486594234968593"

text \<open>\<open>1e-9\<close>\<close>

definition MEDIAN_TOLERANCE :: f64 where
  "MEDIAN_TOLERANCE = 4472406533629990549"

definition wf_positive_integer :: "pyobj \<Rightarrow> string \<Rightarrow> int res" where
  "wf_positive_integer value name =
     (case integral value of
        Some i \<Rightarrow> if i < 1 then Inl (ValueError (name @ '' must be a positive integer'')) else Inr i
      | None \<Rightarrow> Inl (ValueError (name @ '' must be a positive integer'')))"

definition wf_finite :: "pyobj \<Rightarrow> string \<Rightarrow> f64 res" where
  "wf_finite value label =
     (case real_float value of
        None \<Rightarrow> Inl (ValueError (label @ '' must contain only finite real numbers''))
      | Some r \<Rightarrow>
          bind_res r (\<lambda>converted.
          bind_res (check (\<not> f_isfinite converted) (ValueError (label @ '' must contain only finite real numbers''))) (\<lambda>_.
          Inr converted)))"

definition wf_finite_sequence :: "pyobj pyseq \<Rightarrow> f64 list res" where
  "wf_finite_sequence values =
     (case values of
        NotIterable \<Rightarrow> Inl (ValueError ''values must be a finite sequence'')
      | Seq raw_values \<Rightarrow> map_res (\<lambda>value. wf_finite value ''values'') raw_values)"

definition wf_finite_probability :: "pyobj \<Rightarrow> string \<Rightarrow> f64 res" where
  "wf_finite_probability value label =
     (case real_float value of
        None \<Rightarrow> Inl (ValueError (label @ '' must contain probabilities strictly between 0 and 1''))
      | Some r \<Rightarrow>
          bind_res r (\<lambda>converted.
          bind_res (check (\<not> f_isfinite converted \<or> \<not> (f_lt f_zero converted \<and> f_lt converted f_one))
                     (ValueError (label @ '' must contain probabilities strictly between 0 and 1''))) (\<lambda>_.
          Inr converted)))"

definition wf_canonical_coverage :: "pyobj \<Rightarrow> f64 res" where
  "wf_canonical_coverage raw =
     bind_res (wf_finite_probability raw ''interval_coverages'') (\<lambda>coverage.
     let canonical = f_round_digits coverage 3 in
     bind_res (check (f_lt LEVEL_TOLERANCE (f_abs (f_sub coverage canonical)))
                (ValueError ''interval_coverages support at most three decimal places'')) (\<lambda>_.
     Inr canonical))"

definition wf_interval_coverages :: "pyobj pyseq \<Rightarrow> f64 list res" where
  "wf_interval_coverages coverages =
     (case coverages of
        NotIterable \<Rightarrow> Inl (ValueError ''interval_coverages must be a non-empty sequence'')
      | Seq raw_coverages \<Rightarrow>
          bind_res (check (raw_coverages = []) (ValueError ''interval_coverages must be a non-empty sequence'')) (\<lambda>_.
          bind_res (map_res wf_canonical_coverage raw_coverages) (\<lambda>normalized.
          bind_res (check (\<not> distinct (map f_key normalized)) (ValueError ''interval_coverages must not contain duplicates'')) (\<lambda>_.
          bind_res (check (map f_key normalized \<noteq> sort (map f_key normalized)) (ValueError ''interval_coverages must be sorted'')) (\<lambda>_.
          Inr normalized)))))"

text \<open>\<open>normalized != coverages\<close>: the argument must itself be a tuple of equal numbers.\<close>

definition wf_same_number :: "f64 \<Rightarrow> pyobj \<Rightarrow> bool" where
  "wf_same_number x v = (case v of PyFloat y \<Rightarrow> f_eq x y | _ \<Rightarrow> False)"

definition walk_forward_config :: "pyobj \<Rightarrow> pyobj \<Rightarrow> pyobj \<Rightarrow> bool \<Rightarrow> pyobj pyseq \<Rightarrow> WalkForwardConfig res" where
  "walk_forward_config initial_train_size0 horizon0 stride0 is_tuple coverages =
     bind_res (wf_positive_integer initial_train_size0 ''initial_train_size'') (\<lambda>initial_train_size.
     bind_res (wf_positive_integer horizon0 ''horizon'') (\<lambda>horizon.
     bind_res (wf_positive_integer stride0 ''stride'') (\<lambda>stride.
     bind_res (wf_interval_coverages coverages) (\<lambda>normalized.
     bind_res (check (\<not> (is_tuple \<and> (case coverages of NotIterable \<Rightarrow> False | Seq raw \<Rightarrow> list_all2 wf_same_number normalized raw)))
                (ValueError ''interval_coverages must be sorted and canonical'')) (\<lambda>_.
     Inr \<lparr>wc_initial_train_size = initial_train_size, wc_horizon = horizon, wc_stride = stride,
          wc_interval_coverages = normalized\<rparr>)))))"

definition baseline_candidate :: "pyobj \<Rightarrow> (nat \<Rightarrow> exn + Forecaster pyarg) pyarg \<Rightarrow> BaselineCandidate res" where
  "baseline_candidate name0 factory0 =
     (case name0 of
        PyStr name \<Rightarrow>
          bind_res (check (name = [] \<or> py_strip name \<noteq> name)
                     (ValueError ''candidate name must be a non-empty trimmed string'')) (\<lambda>_.
          (case factory0 of
             Foreign \<Rightarrow> Inl (ValueError ''model_factory must be callable'')
           | Inst factory \<Rightarrow> Inr \<lparr>bc_name = name, bc_model_factory = factory\<rparr>))
      | _ \<Rightarrow> Inl (ValueError ''candidate name must be a non-empty trimmed string''))"

definition wf_low_level :: "f64 \<Rightarrow> f64" where
  "wf_low_level coverage = f_round_digits (f_quot (f_sub f_one coverage) f_two) 12"

definition wf_high_level :: "f64 \<Rightarrow> f64" where
  "wf_high_level coverage = f_round_digits (f_quot (f_add f_one coverage) f_two) 12"

definition wf_add_level :: "f64 \<Rightarrow> f64 list \<Rightarrow> f64 list" where
  "wf_add_level x levels = (if \<exists>l \<in> set levels. f_eq l x then levels else levels @ [x])"

definition wf_quantile_levels :: "f64 list \<Rightarrow> f64 list" where
  "wf_quantile_levels coverages =
     sort_key f_key (fold (\<lambda>coverage levels. wf_add_level (wf_high_level coverage) (wf_add_level (wf_low_level coverage) levels))
       coverages [f_half])"

definition wf_model_version :: "pyobj \<Rightarrow> string res" where
  "wf_model_version value =
     (case value of
        PyStr s \<Rightarrow> if s = [] \<or> py_strip s \<noteq> s then Inl (ValueError ''model_version must be a non-empty trimmed string'') else Inr s
      | _ \<Rightarrow> Inl (ValueError ''model_version must be a non-empty trimmed string''))"

definition wf_forecast_path :: "pyobj pyseq \<Rightarrow> int \<Rightarrow> string \<Rightarrow> f64 list res" where
  "wf_forecast_path values horizon label =
     (case values of
        NotIterable \<Rightarrow> Inl (ValueError (label @ '' forecast must be a sequence''))
      | Seq raw_values \<Rightarrow>
          bind_res (check (int (length raw_values) \<noteq> horizon) (ValueError (label @ '' forecast length must match horizon''))) (\<lambda>_.
          map_res (\<lambda>value. wf_finite value (label @ '' forecast'')) raw_values))"

text \<open>A dict keyed by floats, as the list of its items; keys are equal when \<open>==\<close> holds.\<close>

definition wf_get :: "(f64 \<times> 'a) list \<Rightarrow> f64 \<Rightarrow> 'a option" where
  "wf_get d level = map_option snd (find (\<lambda>(k, _). f_eq k level) d)"

fun wf_collect_paths ::
  "f64 list \<Rightarrow> int \<Rightarrow> (f64 \<times> f64 list) list \<Rightarrow> (pyobj \<times> pyobj pyseq) list \<Rightarrow> (f64 \<times> f64 list) list res"
where
  "wf_collect_paths levels horizon normalized [] = Inr normalized"
| "wf_collect_paths levels horizon normalized ((raw_level, raw_path) # items) =
     bind_res (wf_finite_probability raw_level ''quantile levels'') (\<lambda>level.
     case find (\<lambda>requested. f_le (f_abs (f_sub requested level)) LEVEL_TOLERANCE) levels of
       None \<Rightarrow> Inl (ValueError (''forecaster returned unexpected quantile '' @ f_repr level))
     | Some m \<Rightarrow>
         bind_res (check (wf_get normalized m \<noteq> None) (ValueError (''forecaster returned duplicate quantile '' @ f_repr m))) (\<lambda>_.
         bind_res (wf_forecast_path raw_path horizon (''quantile '' @ f_repr m)) (\<lambda>path.
         wf_collect_paths levels horizon (normalized @ [(m, path)]) items)))"

fun wf_repr_list :: "f64 list \<Rightarrow> string" where
  "wf_repr_list [] = []"
| "wf_repr_list [x] = f_repr x"
| "wf_repr_list (x # xs) = f_repr x @ '', '' @ wf_repr_list xs"

definition wf_quantile_paths ::
  "(pyobj \<times> pyobj pyseq) list option \<Rightarrow> f64 list \<Rightarrow> int \<Rightarrow> (f64 \<times> f64 list) list res" where
  "wf_quantile_paths paths levels horizon =
     (case paths of
        None \<Rightarrow> Inl (ValueError ''quantile forecasts must be a dictionary'')
      | Some items \<Rightarrow>
          bind_res (wf_collect_paths levels horizon [] items) (\<lambda>normalized.
          let missing = filter (\<lambda>level. wf_get normalized level = None) levels in
          bind_res (check (missing \<noteq> [])
                     (ValueError (''forecaster omitted requested quantiles ['' @ wf_repr_list missing @ '']''))) (\<lambda>_.
          Inr normalized)))"

text \<open>\<open>quantiles[level][step]\<close>\<close>

definition wf_at :: "(f64 \<times> f64 list) list \<Rightarrow> f64 \<Rightarrow> int \<Rightarrow> f64 res" where
  "wf_at quantiles level step =
     (case wf_get quantiles level of
        None \<Rightarrow> Inl (KeyErr (f_repr level))
      | Some path \<Rightarrow> py_index path step)"

definition wf_validate_step :: "(f64 \<times> f64 list) list \<Rightarrow> f64 list \<Rightarrow> int \<times> f64 \<Rightarrow> unit res" where
  "wf_validate_step quantiles levels = (\<lambda>(step, point_value).
     bind_res (map_res (\<lambda>level. wf_at quantiles level step) levels) (\<lambda>ordered.
     bind_res (check (any_adjacent (\<lambda>current following. f_lt following current) ordered)
                (ValueError ''forecaster returned crossing quantiles'')) (\<lambda>_.
     bind_res (wf_at quantiles f_half step) (\<lambda>median.
     check (\<not> f_isclose median point_value MEDIAN_TOLERANCE)
       (ValueError ''forecaster point must equal its median quantile'')))))"

definition wf_validate_distribution :: "f64 list \<Rightarrow> (f64 \<times> f64 list) list \<Rightarrow> f64 list \<Rightarrow> unit res" where
  "wf_validate_distribution point quantiles levels =
     bind_res (map_res (wf_validate_step quantiles levels) (zip (map int [0..<length point]) point)) (\<lambda>_.
     Inr ())"

section \<open>Scores\<close>

definition wf_safe_mean :: "f64 list \<Rightarrow> f64 res" where
  "wf_safe_mean values =
     (let scale = f_maximum (map f_abs values) in
      if f_eq scale f_zero then Inr f_zero
      else
        bind_res (f_fsum (map (\<lambda>value. Inr (f_quot (f_quot value scale) (f_len values))) values)) (\<lambda>total.
        let result = f_mul scale total in
        bind_res (check (\<not> f_isfinite result) (ValueError ''metric aggregation produced a non-finite result'')) (\<lambda>_.
        Inr result)))"

text \<open>\<open>next(... for x in xs if x.key == key)\<close>\<close>

definition wf_next :: "('a \<Rightarrow> f64) \<Rightarrow> f64 \<Rightarrow> 'a list \<Rightarrow> 'a res" where
  "wf_next key k xs =
     (case find (\<lambda>x. f_eq (key x) k) xs of None \<Rightarrow> Inl (StopIter '''') | Some x \<Rightarrow> Inr x)"

definition wf_floats :: "f64 list \<Rightarrow> pyobj pyseq" where
  "wf_floats xs = Seq (map PyFloat xs)"

definition wf_level_values :: "OriginForecast list \<Rightarrow> int \<Rightarrow> f64 \<Rightarrow> f64 list res" where
  "wf_level_values origins offset level =
     map_res (\<lambda>origin. bind_res (wf_next qp_level level (of_quantiles origin)) (\<lambda>path. py_index (qp_values path) offset)) origins"

definition wf_quantile_score :: "f64 list \<Rightarrow> (f64 \<times> f64 list) list \<Rightarrow> f64 \<Rightarrow> QuantileScore res" where
  "wf_quantile_score actual quantile_values level =
     (case wf_get quantile_values level of
        None \<Rightarrow> Inl (KeyErr (f_repr level))
      | Some predicted \<Rightarrow>
          bind_res (pinball_loss (wf_floats actual) (wf_floats predicted) (PyFloat level)) (\<lambda>loss.
          Inr \<lparr>qsc_level = level, qsc_pinball_loss = loss\<rparr>))"

definition wf_coverage_score :: "f64 list \<Rightarrow> (f64 \<times> f64 list) list \<Rightarrow> f64 \<Rightarrow> CoverageScore res" where
  "wf_coverage_score actual quantile_values coverage =
     (case wf_get quantile_values (wf_low_level coverage) of
        None \<Rightarrow> Inl (KeyErr (f_repr (wf_low_level coverage)))
      | Some lower \<Rightarrow>
          (case wf_get quantile_values (wf_high_level coverage) of
             None \<Rightarrow> Inl (KeyErr (f_repr (wf_high_level coverage)))
           | Some upper \<Rightarrow>
               bind_res (empirical_interval_coverage (wf_floats actual) (wf_floats lower) (wf_floats upper)) (\<lambda>c.
               Inr \<lparr>cs_nominal_coverage = coverage, cs_empirical_coverage = c\<rparr>)))"

definition wf_score_offset :: "OriginForecast list \<Rightarrow> f64 list \<Rightarrow> f64 list \<Rightarrow> int \<Rightarrow> HorizonMetrics res" where
  "wf_score_offset origins levels coverages offset =
     bind_res (map_res (\<lambda>origin. py_index (of_actual origin) offset) origins) (\<lambda>actual.
     bind_res (map_res (\<lambda>origin. py_index (of_point origin) offset) origins) (\<lambda>point.
     bind_res (map_res (\<lambda>level. bind_res (wf_level_values origins offset level) (\<lambda>vs. Inr (level, vs))) levels) (\<lambda>quantile_values.
     bind_res (map_res (wf_quantile_score actual quantile_values) levels) (\<lambda>quantile_scores.
     bind_res (map_res (wf_coverage_score actual quantile_values) coverages) (\<lambda>coverage_scores.
     bind_res (mean_absolute_error (wf_floats actual) (wf_floats point)) (\<lambda>mae.
     bind_res (root_mean_squared_error (wf_floats actual) (wf_floats point)) (\<lambda>rmse.
     bind_res (wf_safe_mean (map qsc_pinball_loss quantile_scores)) (\<lambda>mean_pinball_loss.
     Inr \<lparr>hm_horizon_step = offset + 1,
          hm_metrics = \<lparr>ms_sample_count = int (length origins), ms_mae = mae, ms_rmse = rmse,
            ms_mean_pinball_loss = mean_pinball_loss, ms_by_quantile = quantile_scores,
            ms_by_coverage = coverage_scores, ms_aggregation = ''within_horizon''\<rparr>\<rparr>))))))))"

definition wf_score_by_horizon :: "OriginForecast list \<Rightarrow> f64 list \<Rightarrow> f64 list \<Rightarrow> HorizonMetrics list res" where
  "wf_score_by_horizon origins levels coverages =
     map_res (wf_score_offset origins levels coverages) [0..int (length (of_actual (hd origins))) - 1]"

definition wf_macro_quantile :: "MetricSummary list \<Rightarrow> f64 \<Rightarrow> QuantileScore res" where
  "wf_macro_quantile metrics level =
     bind_res (map_res (\<lambda>metric. bind_res (wf_next qsc_level level (ms_by_quantile metric)) (\<lambda>score. Inr (qsc_pinball_loss score))) metrics) (\<lambda>losses.
     bind_res (wf_safe_mean losses) (\<lambda>loss.
     Inr \<lparr>qsc_level = level, qsc_pinball_loss = loss\<rparr>))"

definition wf_macro_coverage :: "MetricSummary list \<Rightarrow> f64 \<Rightarrow> CoverageScore res" where
  "wf_macro_coverage metrics coverage =
     bind_res (map_res (\<lambda>metric. bind_res (wf_next cs_nominal_coverage coverage (ms_by_coverage metric)) (\<lambda>score. Inr (cs_empirical_coverage score))) metrics) (\<lambda>cs.
     bind_res (wf_safe_mean cs) (\<lambda>c.
     Inr \<lparr>cs_nominal_coverage = coverage, cs_empirical_coverage = c\<rparr>))"

definition wf_macro_summary :: "HorizonMetrics list \<Rightarrow> MetricSummary res" where
  "wf_macro_summary by_horizon =
     (let metrics = map hm_metrics by_horizon;
          levels = map qsc_level (ms_by_quantile (hd metrics));
          coverages = map cs_nominal_coverage (ms_by_coverage (hd metrics)) in
      bind_res (wf_safe_mean (map ms_mae metrics)) (\<lambda>mae.
      bind_res (wf_safe_mean (map ms_rmse metrics)) (\<lambda>rmse.
      bind_res (wf_safe_mean (map ms_mean_pinball_loss metrics)) (\<lambda>mean_pinball_loss.
      bind_res (map_res (wf_macro_quantile metrics) levels) (\<lambda>by_quantile.
      bind_res (map_res (wf_macro_coverage metrics) coverages) (\<lambda>by_coverage.
      Inr \<lparr>ms_sample_count = sum_list (map ms_sample_count metrics), ms_mae = mae, ms_rmse = rmse,
           ms_mean_pinball_loss = mean_pinball_loss, ms_by_quantile = by_quantile,
           ms_by_coverage = by_coverage, ms_aggregation = ''equal_horizon_macro''\<rparr>))))))"

section \<open>Evaluating one candidate\<close>

function wf_range :: "int \<Rightarrow> int \<Rightarrow> int \<Rightarrow> int list" where
  "wf_range start stop stride =
     (if stride < 1 \<or> stop \<le> start then [] else start # wf_range (start + stride) stop stride)"
  by pat_completeness auto
termination by (relation "measure (\<lambda>(start, stop, stride). nat (stop - start))") auto

declare wf_range.simps [simp del]

text \<open>
  The body of the \<open>try\<close>: \<open>instances\<close> are the identities of the objects seen so
  far, \<open>version\<close> the model version of the first origin, \<open>k\<close> the number of earlier
  calls of the factory.
\<close>

definition wf_model ::
  "(nat \<Rightarrow> exn + Forecaster pyarg) \<Rightarrow> f64 list \<Rightarrow> nat \<Rightarrow> nat list \<Rightarrow> string option \<Rightarrow> int
     \<Rightarrow> (Forecaster \<times> nat list \<times> string) res"
where
  "wf_model factory series k instances version train_size =
     bind_res (factory k) (\<lambda>template0.
     case template0 of
       Foreign \<Rightarrow> Inl (TypeErr ''model_factory must return a Forecaster'')
     | Inst template \<Rightarrow>
         bind_res (check (fc_id template \<in> set instances)
                    (TypeErr ''model_factory must return a fresh template at every origin'')) (\<lambda>_.
         let instances1 = instances @ [fc_id template] in
         bind_res (fc_fit template (take (nat train_size) series)) (\<lambda>fitted0.
         case fitted0 of
           Foreign \<Rightarrow> Inl (TypeErr ''Forecaster.fit must return a Forecaster'')
         | Inst fitted \<Rightarrow>
             bind_res (check (fc_id fitted = fc_id template)
                        (TypeErr ''Forecaster.fit must return a distinct origin-local instance'')) (\<lambda>_.
             bind_res (check (fc_id fitted \<in> set instances1)
                        (TypeErr ''Forecaster.fit must return a fresh fitted instance at every origin'')) (\<lambda>_.
             bind_res (wf_model_version (fc_model_version fitted)) (\<lambda>current_version.
             bind_res (check (version \<noteq> None \<and> version \<noteq> Some current_version)
                        (ValueError ''model_version must remain stable across origins'')) (\<lambda>_.
             Inr (fitted, instances1 @ [fc_id fitted], current_version))))))))"

definition wf_forecast :: "int \<Rightarrow> f64 list \<Rightarrow> Forecaster \<Rightarrow> (f64 list \<times> (f64 \<times> f64 list) list) res" where
  "wf_forecast horizon levels fitted =
     bind_res (fc_predict fitted horizon) (\<lambda>raw_point.
     bind_res (wf_forecast_path raw_point horizon ''point'') (\<lambda>point.
     bind_res (fc_predict_quantiles fitted horizon levels) (\<lambda>raw_paths.
     bind_res (wf_quantile_paths raw_paths levels horizon) (\<lambda>quantiles.
     bind_res (wf_validate_distribution point quantiles levels) (\<lambda>_.
     Inr (point, quantiles))))))"

definition wf_origin ::
  "BaselineCandidate \<Rightarrow> WalkForwardConfig \<Rightarrow> f64 list \<Rightarrow> f64 list \<Rightarrow> nat \<Rightarrow> nat list \<Rightarrow> string option \<Rightarrow> int
     \<Rightarrow> ((f64 list \<times> (f64 \<times> f64 list) list) \<times> nat list \<times> string) res"
where
  "wf_origin candidate config series levels k instances version train_size =
     bind_res (wf_model (bc_model_factory candidate) series k instances version train_size) (\<lambda>(fitted, instances', version').
     bind_res (wf_forecast (wc_horizon config) levels fitted) (\<lambda>forecast.
     Inr (forecast, instances', version')))"

text \<open>\<open>except Exception as exc: raise WalkForwardEvaluationError(...) from exc\<close>\<close>

definition wf_wrap :: "BaselineCandidate \<Rightarrow> int \<Rightarrow> 'a res \<Rightarrow> 'a res" where
  "wf_wrap candidate train_size r =
     (case r of
        Inr x \<Rightarrow> Inr x
      | Inl exc \<Rightarrow> Inl (WalkForwardEvaluationError
          (''candidate '' @ py_repr (bc_name candidate) @ '' failed at train_size='' @ int_str train_size @ '': '') exc))"

definition wf_origin_forecast ::
  "WalkForwardConfig \<Rightarrow> f64 list \<Rightarrow> f64 list \<Rightarrow> int \<Rightarrow> f64 list \<Rightarrow> (f64 \<times> f64 list) list \<Rightarrow> OriginForecast res" where
  "wf_origin_forecast config series levels train_size point quantiles =
     bind_res (map_res (\<lambda>level. case wf_get quantiles level of
                  None \<Rightarrow> Inl (KeyErr (f_repr level))
                | Some path \<Rightarrow> Inr \<lparr>qp_level = level, qp_values = path\<rparr>) levels) (\<lambda>paths.
     Inr \<lparr>of_train_end_exclusive = train_size, of_origin_index = train_size - 1,
          of_target_start_index = train_size,
          of_actual = take (nat (wc_horizon config)) (drop (nat train_size) series),
          of_point = point, of_quantiles = paths\<rparr>)"

fun wf_origins ::
  "BaselineCandidate \<Rightarrow> WalkForwardConfig \<Rightarrow> f64 list \<Rightarrow> f64 list \<Rightarrow> nat \<Rightarrow> nat list \<Rightarrow> string option \<Rightarrow> int list
     \<Rightarrow> (OriginForecast list \<times> string option) res"
where
  "wf_origins candidate config series levels k instances version [] = Inr ([], version)"
| "wf_origins candidate config series levels k instances version (train_size # train_sizes) =
     bind_res (wf_wrap candidate train_size
                 (wf_origin candidate config series levels k instances version train_size)) (\<lambda>((point, quantiles), instances', version').
     bind_res (wf_origin_forecast config series levels train_size point quantiles) (\<lambda>origin.
     bind_res (wf_origins candidate config series levels (Suc k) instances' (Some version') train_sizes) (\<lambda>(origins, final).
     Inr (origin # origins, final))))"

definition evaluate_walk_forward ::
  "pyobj pyseq \<Rightarrow> BaselineCandidate pyarg \<Rightarrow> WalkForwardConfig pyarg \<Rightarrow> ModelEvaluation res" where
  "evaluate_walk_forward values candidate0 config0 =
     (case candidate0 of
        Foreign \<Rightarrow> Inl (TypeErr ''candidate must be a BaselineCandidate'')
      | Inst candidate \<Rightarrow>
     (case config0 of
        Foreign \<Rightarrow> Inl (TypeErr ''config must be a WalkForwardConfig'')
      | Inst config \<Rightarrow>
     bind_res (wf_finite_sequence values) (\<lambda>series.
     bind_res (check (int (length series) < wc_initial_train_size config + wc_horizon config)
                (ValueError ''values must contain initial_train_size plus a complete forecast horizon'')) (\<lambda>_.
     let levels = wf_quantile_levels (wc_interval_coverages config);
         last_train_size = int (length series) - wc_horizon config in
     bind_res (wf_origins candidate config series levels 0 [] None
                 (wf_range (wc_initial_train_size config) (last_train_size + 1) (wc_stride config))) (\<lambda>(origins, model_version).
     case model_version of
       None \<Rightarrow> Inl (RuntimeError ''walk-forward evaluation produced no origins'')
     | Some version \<Rightarrow>
         bind_res (wf_score_by_horizon origins levels (wc_interval_coverages config)) (\<lambda>by_horizon.
         bind_res (wf_macro_summary by_horizon) (\<lambda>aggregate.
         Inr \<lparr>me_candidate_name = bc_name candidate, me_model_version = version, me_origins = origins,
              me_by_horizon = by_horizon, me_aggregate = aggregate,
              me_evaluation_method = ''expanding_window_prefix_only'', me_point_in_time_verified = False,
              me_lookahead_status = ''not_run'', me_purged = False, me_embargoed = False,
              me_dependence_note = ''Overlapping rolling-origin forecast cells are not independent samples.''\<rparr>)))))))"

section \<open>The leaderboard\<close>

definition wf_ranking_key :: "ModelEvaluation \<Rightarrow> int \<times> int \<times> int \<times> string \<times> string" where
  "wf_ranking_key evaluation =
     (f_key (ms_mean_pinball_loss (me_aggregate evaluation)), f_key (ms_rmse (me_aggregate evaluation)),
      f_key (ms_mae (me_aggregate evaluation)), me_candidate_name evaluation, me_model_version evaluation)"

definition wf_rank :: "ModelEvaluation list \<Rightarrow> LeaderboardEntry list" where
  "wf_rank ordered =
     map (\<lambda>(index, evaluation). \<lparr>le_rank = index, le_evaluation = evaluation\<rparr>)
       (zip [1..int (length ordered)] ordered)"

definition build_baseline_leaderboard ::
  "pyobj pyseq \<Rightarrow> BaselineCandidate pyarg pyseq \<Rightarrow> WalkForwardConfig pyarg \<Rightarrow> BaselineLeaderboard res" where
  "build_baseline_leaderboard values candidates config0 =
     (case candidates of
        NotIterable \<Rightarrow> Inl (ValueError ''candidates must be a non-empty sequence'')
      | Seq candidate_list \<Rightarrow>
     bind_res (check (candidate_list = []) (ValueError ''candidates must be a non-empty sequence'')) (\<lambda>_.
     bind_res (check (\<exists>c \<in> set candidate_list. \<not> is_inst c)
                (TypeErr ''candidates must contain only BaselineCandidate values'')) (\<lambda>_.
     bind_res (check (\<not> distinct (map bc_name (insts candidate_list)))
                (ValueError ''candidate names must be unique'')) (\<lambda>_.
     bind_res (wf_finite_sequence values) (\<lambda>series.
     bind_res (map_res (\<lambda>candidate. evaluate_walk_forward (wf_floats series) candidate config0) candidate_list) (\<lambda>evaluations.
     bind_res (check (\<not> distinct (map me_model_version evaluations))
                (ValueError ''candidate model_version identities must be unique'')) (\<lambda>_.
     case config0 of
       Foreign \<Rightarrow> Inl (TypeErr ''config must be a WalkForwardConfig'')
     | Inst config \<Rightarrow>
         Inr \<lparr>lb_config = config, lb_entries = wf_rank (sort_key wf_ranking_key evaluations),
              lb_ranking_metric = ''aggregate_mean_pinball_loss'',
              lb_ranking_order = [''aggregate_mean_pinball_loss'', ''aggregate_rmse'', ''aggregate_mae'',
                                  ''candidate_name'', ''model_version''],
              lb_aggregation = ''equal_horizon_macro'', lb_point_in_time_verified = False,
              lb_lookahead_status = ''not_run'',
              lb_selection_status = ''evaluation_only_not_post_selection_test''\<rparr>)))))))"

end
