(* ===== verification/WalkForwardLaws.thy ===== *)
theory WalkForwardLaws
  imports WalkForward
begin

text \<open>
  Walk-forward evaluation: which origins are scored, what a model may see at an
  origin, and that the leaderboard ranks the candidates independently of the
  order they are supplied in.
\<close>

section \<open>The origin grid\<close>

lemma wf_range_nth:
  assumes "1 \<le> s"
  shows "i < length (wf_range a b s) \<Longrightarrow> wf_range a b s ! i = a + int i * s"
    and "i < length (wf_range a b s) \<longleftrightarrow> a + int i * s < b"
proof -
  have "(i < length (wf_range a b s) \<longrightarrow> wf_range a b s ! i = a + int i * s) \<and>
        (i < length (wf_range a b s) \<longleftrightarrow> a + int i * s < b)"
    using assms
  proof (induction a b s arbitrary: i rule: wf_range.induct)
    case (1 a b s)
    show ?case
    proof (cases "b \<le> a")
      case True
      have "0 \<le> int i * s" using "1.prems" by simp
      with True have "\<not> a + int i * s < b" by linarith
      with True "1.prems" show ?thesis by (simp add: wf_range.simps [of a])
    next
      case False
      note r = wf_range.simps [of a b s]
      show ?thesis
      proof (cases i)
        case 0
        with False "1.prems" show ?thesis by (simp add: r)
      next
        case (Suc j)
        have "(j < length (wf_range (a + s) b s) \<longrightarrow> wf_range (a + s) b s ! j = a + s + int j * s) \<and>
              (j < length (wf_range (a + s) b s) \<longleftrightarrow> a + s + int j * s < b)"
          using "1.IH" [of j] False "1.prems" by simp
        moreover have "int i * s = s + int j * s" by (simp add: Suc distrib_right)
        ultimately show ?thesis using False "1.prems" by (simp add: r Suc add.assoc)
      qed
    qed
  qed
  then show "i < length (wf_range a b s) \<Longrightarrow> wf_range a b s ! i = a + int i * s"
    and "i < length (wf_range a b s) \<longleftrightarrow> a + int i * s < b" by blast+
qed

lemma wf_range_set:
  assumes "1 \<le> s"
  shows "x \<in> set (wf_range a b s) \<longleftrightarrow> a \<le> x \<and> x < b \<and> (x - a) mod s = 0"
proof
  assume "x \<in> set (wf_range a b s)"
  then obtain i where "i < length (wf_range a b s)" "x = wf_range a b s ! i" by (metis in_set_conv_nth)
  then have "x = a + int i * s" "x < b" using wf_range_nth [OF assms] by simp_all
  then show "a \<le> x \<and> x < b \<and> (x - a) mod s = 0" using assms by simp
next
  assume h: "a \<le> x \<and> x < b \<and> (x - a) mod s = 0"
  define i where "i = nat ((x - a) div s)"
  have "int i * s = x - a" using h assms by (simp add: i_def pos_imp_zdiv_nonneg_iff minus_mod_eq_div_mult [symmetric])
  then have x: "x = a + int i * s" by simp
  then have "i < length (wf_range a b s)" using wf_range_nth(2) [OF assms] h by simp
  then show "x \<in> set (wf_range a b s)" using wf_range_nth(1) [OF assms] x by (metis nth_mem)
qed

lemma wf_range_sorted:
  assumes "1 \<le> s"
  shows "sorted_wrt (<) (wf_range a b s)"
  unfolding sorted_wrt_iff_nth_less using assms wf_range_nth(1) [OF assms] by simp

section \<open>One origin\<close>

lemma wf_model_Inr:
  assumes "wf_model factory series k instances version ts = Inr (fitted, instances', version')"
  obtains template where "factory k = Inr (Inst template)" and "fc_fit template (take (nat ts) series) = Inr (Inst fitted)"
    and "version = None \<or> version = Some version'"
proof -
  obtain t where t: "factory k = Inr (Inst t)"
    using assms by (cases "factory k"; cases "projr (factory k)") (auto simp: wf_model_def)
  obtain g where g: "fc_fit t (take (nat ts) series) = Inr (Inst g)"
    using assms t by (cases "fc_fit t (take (nat ts) series)"; cases "projr (fc_fit t (take (nat ts) series))")
      (auto simp: wf_model_def Let_def split: if_splits)
  have "g = fitted \<and> (version = None \<or> version = Some version')"
    using assms t g by (auto simp: wf_model_def Let_def bind_res_Inr_iff split: if_splits)
  with t g show ?thesis by (intro that) auto
qed

lemma wf_origin_Inr:
  assumes "wf_origin c config series levels k instances version ts = Inr (fc, instances', version')"
  obtains template fitted where "bc_model_factory c k = Inr (Inst template)"
    and "fc_fit template (take (nat ts) series) = Inr (Inst fitted)"
    and "wf_forecast (wc_horizon config) levels fitted = Inr fc"
proof -
  obtain t where t: "wf_model (bc_model_factory c) series k instances version ts = Inr t"
    and f: "(case t of (fitted, instances', version') \<Rightarrow>
       bind_res (wf_forecast (wc_horizon config) levels fitted) (\<lambda>forecast. Inr (forecast, instances', version')))
       = Inr (fc, instances', version')"
    using assms unfolding wf_origin_def by (rule bind_res_InrE)
  obtain fitted i v where tt: "t = (fitted, i, v)" by (cases t)
  have "wf_forecast (wc_horizon config) levels fitted = Inr fc"
    using f by (auto simp: tt bind_res_Inr_iff)
  then show ?thesis using wf_model_Inr [OF t [unfolded tt]] that by blast
qed

lemma wf_origin_forecast_Inr:
  assumes "wf_origin_forecast config series levels ts point quantiles = Inr orig"
  shows "of_train_end_exclusive orig = ts" and "of_point orig = point"
    and "of_actual orig = take (nat (wc_horizon config)) (drop (nat ts) series)"
    and "map_res (\<lambda>level. case wf_get quantiles level of None \<Rightarrow> Inl (KeyErr (f_repr level))
                | Some path \<Rightarrow> Inr \<lparr>qp_level = level, qp_values = path\<rparr>) levels = Inr (of_quantiles orig)"
  using assms by (auto simp: wf_origin_forecast_def bind_res_Inr_iff)

lemma wf_origins_nth:
  assumes "wf_origins c config series levels k instances version tss = Inr (os, final)"
  shows "length os = length tss"
    and "i < length tss \<Longrightarrow> \<exists>template fitted quantiles. bc_model_factory c (k + i) = Inr (Inst template) \<and>
      fc_fit template (take (nat (tss ! i)) series) = Inr (Inst fitted) \<and>
      wf_forecast (wc_horizon config) levels fitted = Inr (of_point (os ! i), quantiles) \<and>
      wf_origin_forecast config series levels (tss ! i) (of_point (os ! i)) quantiles = Inr (os ! i)"
proof -
  have "length os = length tss \<and> (\<forall>i < length tss. \<exists>template fitted quantiles. bc_model_factory c (k + i) = Inr (Inst template) \<and>
      fc_fit template (take (nat (tss ! i)) series) = Inr (Inst fitted) \<and>
      wf_forecast (wc_horizon config) levels fitted = Inr (of_point (os ! i), quantiles) \<and>
      wf_origin_forecast config series levels (tss ! i) (of_point (os ! i)) quantiles = Inr (os ! i))"
    using assms
  proof (induction tss arbitrary: k instances version os final)
    case Nil
    then show ?case by simp
  next
    case (Cons ts tss)
    obtain r where w: "wf_wrap c ts (wf_origin c config series levels k instances version ts) = Inr r"
      using Cons.prems by (auto elim: bind_res_InrE)
    obtain point quantiles inst v where r: "r = ((point, quantiles), inst, v)" by (metis prod.collapse)
    have o: "wf_origin c config series levels k instances version ts = Inr ((point, quantiles), inst, v)"
      using w by (auto simp: wf_wrap_def r split: sum.splits)
    have "bind_res (wf_origin_forecast config series levels ts point quantiles) (\<lambda>origin.
        bind_res (wf_origins c config series levels (Suc k) inst (Some v) tss) (\<lambda>(origins, final).
        Inr (origin # origins, final))) = Inr (os, final)"
      using Cons.prems w by (simp add: r)
    then obtain origin where b: "wf_origin_forecast config series levels ts point quantiles = Inr origin"
      and rest: "bind_res (wf_origins c config series levels (Suc k) inst (Some v) tss) (\<lambda>(origins, final).
        Inr (origin # origins, final)) = Inr (os, final)" by (rule bind_res_InrE)
    from rest obtain os' final' where os': "wf_origins c config series levels (Suc k) inst (Some v) tss = Inr (os', final')"
      and os: "os = origin # os'" by (auto simp: bind_res_Inr_iff)
    note IH = Cons.IH [OF os']
    have pt: "of_point origin = point" by (rule wf_origin_forecast_Inr [OF b])
    obtain template fitted where t: "bc_model_factory c k = Inr (Inst template)"
      "fc_fit template (take (nat ts) series) = Inr (Inst fitted)"
      "wf_forecast (wc_horizon config) levels fitted = Inr (point, quantiles)"
      by (rule wf_origin_Inr [OF o])
    show ?case
    proof (intro conjI allI impI)
      show "length os = length (ts # tss)" using IH os by simp
      fix i assume i: "i < length (ts # tss)"
      show "\<exists>template fitted quantiles. bc_model_factory c (k + i) = Inr (Inst template) \<and>
        fc_fit template (take (nat ((ts # tss) ! i)) series) = Inr (Inst fitted) \<and>
        wf_forecast (wc_horizon config) levels fitted = Inr (of_point (os ! i), quantiles) \<and>
        wf_origin_forecast config series levels ((ts # tss) ! i) (of_point (os ! i)) quantiles = Inr (os ! i)"
      proof (cases i)
        case 0
        then show ?thesis using t b pt os by auto
      next
        case (Suc j)
        then show ?thesis using IH i os by auto
      qed
    qed
  qed
  then show "length os = length tss"
    and "i < length tss \<Longrightarrow> \<exists>template fitted quantiles. bc_model_factory c (k + i) = Inr (Inst template) \<and>
      fc_fit template (take (nat (tss ! i)) series) = Inr (Inst fitted) \<and>
      wf_forecast (wc_horizon config) levels fitted = Inr (of_point (os ! i), quantiles) \<and>
      wf_origin_forecast config series levels (tss ! i) (of_point (os ! i)) quantiles = Inr (os ! i)"
    by blast+
qed

section \<open>A whole evaluation\<close>

lemma evaluate_Inr:
  assumes "evaluate_walk_forward values (Inst c) (Inst config) = Inr ev"
  obtains series final where "wf_finite_sequence values = Inr series"
    and "wc_initial_train_size config + wc_horizon config \<le> int (length series)"
    and "wf_origins c config series (wf_quantile_levels (wc_interval_coverages config)) 0 [] None
           (wf_range (wc_initial_train_size config) (int (length series) - wc_horizon config + 1) (wc_stride config))
         = Inr (me_origins ev, final)"
    and "wf_score_by_horizon (me_origins ev) (wf_quantile_levels (wc_interval_coverages config)) (wc_interval_coverages config)
         = Inr (me_by_horizon ev)"
    and "wf_macro_summary (me_by_horizon ev) = Inr (me_aggregate ev)"
    and "me_candidate_name ev = bc_name c"
proof -
  obtain series where s: "wf_finite_sequence values = Inr series"
    and l: "wc_initial_train_size config + wc_horizon config \<le> int (length series)"
    using assms unfolding evaluate_walk_forward_def by (auto simp: bind_res_Inr_iff split: if_splits)
  let ?levels = "wf_quantile_levels (wc_interval_coverages config)"
  let ?grid = "wf_range (wc_initial_train_size config) (int (length series) - wc_horizon config + 1) (wc_stride config)"
  obtain p where p: "wf_origins c config series ?levels 0 [] None ?grid = Inr p"
    and rest: "(case p of (origins, model_version) \<Rightarrow> (case model_version of
       None \<Rightarrow> Inl (RuntimeError ''walk-forward evaluation produced no origins'')
     | Some version \<Rightarrow>
         bind_res (wf_score_by_horizon origins ?levels (wc_interval_coverages config)) (\<lambda>by_horizon.
         bind_res (wf_macro_summary by_horizon) (\<lambda>aggregate.
         Inr \<lparr>me_candidate_name = bc_name c, me_model_version = version, me_origins = origins,
              me_by_horizon = by_horizon, me_aggregate = aggregate,
              me_evaluation_method = ''expanding_window_prefix_only'', me_point_in_time_verified = False,
              me_lookahead_status = ''not_run'', me_purged = False, me_embargoed = False,
              me_dependence_note = ''Overlapping rolling-origin forecast cells are not independent samples.''\<rparr>)))) = Inr ev"
    using assms s l unfolding evaluate_walk_forward_def by (auto simp: Let_def elim!: bind_res_InrE)
  obtain os final where pp: "p = (os, final)" by (cases p)
  have e: "me_origins ev = os" "wf_score_by_horizon os ?levels (wc_interval_coverages config) = Inr (me_by_horizon ev)"
    "wf_macro_summary (me_by_horizon ev) = Inr (me_aggregate ev)" "me_candidate_name ev = bc_name c"
    using rest by (auto simp: pp bind_res_Inr_iff split: option.splits)
  show ?thesis using that [OF s l] p e by (simp add: pp)
qed

lemma walk_forward_config_Inr:
  assumes "walk_forward_config a b d t cs = Inr config"
  shows "1 \<le> wc_initial_train_size config" and "1 \<le> wc_horizon config" and "1 \<le> wc_stride config"
  using assms by (auto simp: walk_forward_config_def wf_positive_integer_def bind_res_Inr_iff integral_def
      split: pyobj.splits if_splits)

lemma wf_finite_sequence_Inr: "wf_finite_sequence (Seq vs) = Inr xs \<longleftrightarrow> map_res (\<lambda>v. wf_finite v ''values'') vs = Inr xs"
  by (simp add: wf_finite_sequence_def)

text \<open>The grid of an evaluation, and what determines the forecast of an origin.\<close>

lemma evaluate_grid:
  assumes "walk_forward_config a b d t cs = Inr config" and "wf_finite_sequence values = Inr series"
    and "evaluate_walk_forward values (Inst c) (Inst config) = Inr ev"
  shows "length (me_origins ev) = length (wf_range (wc_initial_train_size config)
           (int (length series) - wc_horizon config + 1) (wc_stride config))"
    and "i < length (me_origins ev) \<Longrightarrow>
      of_train_end_exclusive (me_origins ev ! i) = wc_initial_train_size config + int i * wc_stride config \<and>
      of_train_end_exclusive (me_origins ev ! i) + wc_horizon config \<le> int (length series) \<and>
      of_actual (me_origins ev ! i) = take (nat (wc_horizon config))
        (drop (nat (of_train_end_exclusive (me_origins ev ! i))) series)"
    and "i < length (me_origins ev) \<Longrightarrow> \<exists>template fitted quantiles. bc_model_factory c i = Inr (Inst template) \<and>
      fc_fit template (take (nat (of_train_end_exclusive (me_origins ev ! i))) series) = Inr (Inst fitted) \<and>
      wf_forecast (wc_horizon config) (wf_quantile_levels (wc_interval_coverages config)) fitted
        = Inr (of_point (me_origins ev ! i), quantiles) \<and>
      map_res (\<lambda>level. case wf_get quantiles level of None \<Rightarrow> Inl (KeyErr (f_repr level))
                | Some path \<Rightarrow> Inr \<lparr>qp_level = level, qp_values = path\<rparr>)
        (wf_quantile_levels (wc_interval_coverages config)) = Inr (of_quantiles (me_origins ev ! i))"
proof -
  note st = walk_forward_config_Inr(3) [OF assms(1)]
  let ?levels = "wf_quantile_levels (wc_interval_coverages config)"
  let ?grid = "wf_range (wc_initial_train_size config) (int (length series) - wc_horizon config + 1) (wc_stride config)"
  obtain final where w: "wf_origins c config series ?levels 0 [] None ?grid = Inr (me_origins ev, final)"
    by (rule evaluate_Inr [OF assms(3)]) (use assms(2) in auto)
  note on = wf_origins_nth [OF w]
  show l: "length (me_origins ev) = length ?grid" by (rule on(1))
  show "\<exists>template fitted quantiles. bc_model_factory c i = Inr (Inst template) \<and>
      fc_fit template (take (nat (of_train_end_exclusive (me_origins ev ! i))) series) = Inr (Inst fitted) \<and>
      wf_forecast (wc_horizon config) ?levels fitted = Inr (of_point (me_origins ev ! i), quantiles) \<and>
      map_res (\<lambda>level. case wf_get quantiles level of None \<Rightarrow> Inl (KeyErr (f_repr level))
                | Some path \<Rightarrow> Inr \<lparr>qp_level = level, qp_values = path\<rparr>) ?levels = Inr (of_quantiles (me_origins ev ! i))"
    if i: "i < length (me_origins ev)" for i
  proof -
    obtain template fitted quantiles where q: "bc_model_factory c i = Inr (Inst template)"
      "fc_fit template (take (nat (?grid ! i)) series) = Inr (Inst fitted)"
      "wf_forecast (wc_horizon config) ?levels fitted = Inr (of_point (me_origins ev ! i), quantiles)"
      "wf_origin_forecast config series ?levels (?grid ! i) (of_point (me_origins ev ! i)) quantiles = Inr (me_origins ev ! i)"
      using on(2) [of i] i l by auto
    note b = wf_origin_forecast_Inr [OF q(4)]
    show ?thesis using q(1-3) b(4) unfolding b(1) by blast
  qed
  show "of_train_end_exclusive (me_origins ev ! i) = wc_initial_train_size config + int i * wc_stride config \<and>
      of_train_end_exclusive (me_origins ev ! i) + wc_horizon config \<le> int (length series) \<and>
      of_actual (me_origins ev ! i) = take (nat (wc_horizon config))
        (drop (nat (of_train_end_exclusive (me_origins ev ! i))) series)"
    if i: "i < length (me_origins ev)" for i
  proof -
    obtain quantiles where b: "wf_origin_forecast config series ?levels (?grid ! i) (of_point (me_origins ev ! i)) quantiles
        = Inr (me_origins ev ! i)"
      using on(2) [of i] i l by auto
    have il: "i < length ?grid" using i l by simp
    show ?thesis
      using wf_origin_forecast_Inr(1,3) [OF b] wf_range_nth(1) [OF st il] wf_range_nth(2) [OF st] il by auto
  qed
qed

lemma macro_sample_count:
  assumes "wf_score_by_horizon origins levels coverages = Inr rows" and "wf_macro_summary rows = Inr agg"
  shows "ms_sample_count agg = int (length (of_actual (hd origins))) * int (length origins)"
proof -
  have m: "map_res (wf_score_offset origins levels coverages) [0..int (length (of_actual (hd origins))) - 1] = Inr rows"
    using assms(1) by (simp add: wf_score_by_horizon_def)
  have c: "ms_sample_count (hm_metrics row) = int (length origins)" if row: "row \<in> set rows" for row
  proof -
    obtain off where "wf_score_offset origins levels coverages off = Inr row" using map_res_in [OF m row] by metis
    then show ?thesis by (auto simp: wf_score_offset_def elim!: bind_res_InrE)
  qed
  have "map ms_sample_count (map hm_metrics rows) = map (\<lambda>_. int (length origins)) rows" using c by simp
  then have "sum_list (map ms_sample_count (map hm_metrics rows)) = int (length rows) * int (length origins)"
    by (simp only: sum_list_triv)
  moreover have "length rows = length (of_actual (hd origins))" using map_res_length [OF m] by simp
  moreover have "ms_sample_count agg = sum_list (map ms_sample_count (map hm_metrics rows))"
    using assms(2) by (auto simp: wf_macro_summary_def Let_def elim!: bind_res_InrE)
  ultimately show ?thesis by simp
qed

section \<open>Ranking\<close>

lemma wf_rank_facts:
  "map le_rank (wf_rank evs) = [1..int (length evs)]" "map le_evaluation (wf_rank evs) = evs"
  by (rule nth_equalityI; simp add: wf_rank_def)+

lemma leaderboard_Inr:
  "build_baseline_leaderboard values (Seq cs) (Inst config) = Inr lb \<longleftrightarrow>
    cs \<noteq> [] \<and> (\<forall>c \<in> set cs. is_inst c) \<and> distinct (map bc_name (insts cs)) \<and>
    (\<exists>series evs. wf_finite_sequence values = Inr series \<and>
      map_res (\<lambda>c. evaluate_walk_forward (wf_floats series) c (Inst config)) cs = Inr evs \<and>
      distinct (map me_model_version evs) \<and>
      lb = \<lparr>lb_config = config, lb_entries = wf_rank (sort_key wf_ranking_key evs),
              lb_ranking_metric = ''aggregate_mean_pinball_loss'',
              lb_ranking_order = [''aggregate_mean_pinball_loss'', ''aggregate_rmse'', ''aggregate_mae'',
                                  ''candidate_name'', ''model_version''],
              lb_aggregation = ''equal_horizon_macro'', lb_point_in_time_verified = False,
              lb_lookahead_status = ''not_run'',
              lb_selection_status = ''evaluation_only_not_post_selection_test''\<rparr>)"
  by (auto simp: build_baseline_leaderboard_def bind_res_Inr_iff)

section \<open>Properties\<close>

text \<open>The origins of an evaluation are exactly the grid: the train sizes that leave a complete horizon and
  are a whole number of strides after the first, in increasing order and none dropped; each origin is scored
  against the observations right after its training prefix; the aggregate counts every forecast cell.\<close>

theorem origins_are_the_grid:
  assumes "walk_forward_config a b d t cs = Inr config" and "wf_finite_sequence values = Inr series"
    and "evaluate_walk_forward values (Inst c) (Inst config) = Inr ev"
  shows "set (map of_train_end_exclusive (me_origins ev)) =
      {n. wc_initial_train_size config \<le> n \<and> n + wc_horizon config \<le> int (length series) \<and>
          (n - wc_initial_train_size config) mod wc_stride config = 0} \<and>
    sorted_wrt (<) (map of_train_end_exclusive (me_origins ev)) \<and>
    (\<forall>orig \<in> set (me_origins ev). of_actual orig =
       take (nat (wc_horizon config)) (drop (nat (of_train_end_exclusive orig)) series)) \<and>
    ms_sample_count (me_aggregate ev) = wc_horizon config * int (length (me_origins ev))"
proof -
  note cf = walk_forward_config_Inr [OF assms(1)]
  note g = evaluate_grid [OF assms]
  let ?grid = "wf_range (wc_initial_train_size config) (int (length series) - wc_horizon config + 1) (wc_stride config)"
  have m: "map of_train_end_exclusive (me_origins ev) = ?grid"
    using g(1,2) wf_range_nth(1) [OF cf(3)] by (intro nth_equalityI) auto
  have actual: "of_actual orig = take (nat (wc_horizon config)) (drop (nat (of_train_end_exclusive orig)) series)"
    if "orig \<in> set (me_origins ev)" for orig
    using that g(2) by (metis in_set_conv_nth)
  obtain series' where len: "wc_initial_train_size config + wc_horizon config \<le> int (length series)"
    and sc: "wf_score_by_horizon (me_origins ev) (wf_quantile_levels (wc_interval_coverages config)) (wc_interval_coverages config)
         = Inr (me_by_horizon ev)" "wf_macro_summary (me_by_horizon ev) = Inr (me_aggregate ev)"
    by (rule evaluate_Inr [OF assms(3)]) (use assms(2) in auto)
  have "wc_initial_train_size config \<in> set ?grid" using len cf by (simp add: wf_range_set)
  then have ne: "me_origins ev \<noteq> []" using m by auto
  then have i0: "0 < length (me_origins ev)" by simp
  have h: "length (of_actual (hd (me_origins ev))) = nat (wc_horizon config)"
  proof -
    have "nat (wc_horizon config) \<le> length series - nat (of_train_end_exclusive (me_origins ev ! 0))"
      using g(2) [OF i0] cf by linarith
    then show ?thesis using g(2) [OF i0] ne by (simp add: hd_conv_nth min_absorb2)
  qed
  have "ms_sample_count (me_aggregate ev) = wc_horizon config * int (length (me_origins ev))"
    using macro_sample_count [OF sc] h cf(2) by simp
  moreover have "set ?grid = {n. wc_initial_train_size config \<le> n \<and> n + wc_horizon config \<le> int (length series) \<and>
          (n - wc_initial_train_size config) mod wc_stride config = 0}"
    using wf_range_set [OF cf(3)] by auto
  ultimately show ?thesis using actual m wf_range_sorted [OF cf(3)] by metis
qed

text \<open>C25. No look-ahead: the forecast of an origin depends only on the candidate, the configuration and the
  observations of its training prefix.  Two evaluations on series that agree up to that point, whatever they
  contain afterwards and however long they are, hold the same point and quantile paths there.\<close>

theorem no_lookahead:
  assumes "walk_forward_config a b d t cs = Inr config"
    and "evaluate_walk_forward (Seq vs) (Inst c) (Inst config) = Inr ev"
    and "evaluate_walk_forward (Seq ws) (Inst c) (Inst config) = Inr ev'"
    and "take n vs = take n ws" and "orig \<in> set (me_origins ev)" and "orig' \<in> set (me_origins ev')"
    and "of_train_end_exclusive orig = int n" and "of_train_end_exclusive orig' = int n"
  shows "of_point orig = of_point orig' \<and> of_quantiles orig = of_quantiles orig'"
proof -
  obtain xs where xs: "wf_finite_sequence (Seq vs) = Inr xs" by (rule evaluate_Inr [OF assms(2)])
  obtain ys where ys: "wf_finite_sequence (Seq ws) = Inr ys" by (rule evaluate_Inr [OF assms(3)])
  have "Inr (take n xs) = (Inr (take n ys) :: f64 list res)"
    using map_res_take [of _ vs xs n] map_res_take [of _ ws ys n] xs ys assms(4) unfolding wf_finite_sequence_Inr by metis
  then have pre: "take n xs = take n ys" by simp
  note g = evaluate_grid [OF assms(1) xs assms(2)] and g' = evaluate_grid [OF assms(1) ys assms(3)]
  obtain i where i: "i < length (me_origins ev)" "orig = me_origins ev ! i" using assms(5) by (metis in_set_conv_nth)
  obtain j where j: "j < length (me_origins ev')" "orig' = me_origins ev' ! j" using assms(6) by (metis in_set_conv_nth)
  have "int i * wc_stride config = int j * wc_stride config"
    using g(2) [OF i(1), folded i(2)] g'(2) [OF j(1), folded j(2)] assms(7,8) by linarith
  then have ij: "i = j" using walk_forward_config_Inr(3) [OF assms(1)] by simp
  obtain template fitted quantiles where q: "bc_model_factory c i = Inr (Inst template)"
      "fc_fit template (take n xs) = Inr (Inst fitted)"
      "wf_forecast (wc_horizon config) (wf_quantile_levels (wc_interval_coverages config)) fitted = Inr (of_point orig, quantiles)"
      "map_res (\<lambda>level. case wf_get quantiles level of None \<Rightarrow> Inl (KeyErr (f_repr level))
                | Some path \<Rightarrow> Inr \<lparr>qp_level = level, qp_values = path\<rparr>)
        (wf_quantile_levels (wc_interval_coverages config)) = Inr (of_quantiles orig)"
    using g(3) [OF i(1)] assms(7) by (auto simp flip: i(2))
  obtain template' fitted' quantiles' where q': "bc_model_factory c j = Inr (Inst template')"
      "fc_fit template' (take n ys) = Inr (Inst fitted')"
      "wf_forecast (wc_horizon config) (wf_quantile_levels (wc_interval_coverages config)) fitted' = Inr (of_point orig', quantiles')"
      "map_res (\<lambda>level. case wf_get quantiles' level of None \<Rightarrow> Inl (KeyErr (f_repr level))
                | Some path \<Rightarrow> Inr \<lparr>qp_level = level, qp_values = path\<rparr>)
        (wf_quantile_levels (wc_interval_coverages config)) = Inr (of_quantiles orig')"
    using g'(3) [OF j(1)] assms(8) by (auto simp flip: j(2))
  have "template' = template" using q(1) q'(1) ij by simp
  then have "fitted' = fitted" using q(2) q'(2) pre by simp
  then have "of_point orig' = of_point orig \<and> quantiles' = quantiles" using q(3) q'(3) by simp
  then show ?thesis using q(4) q'(4) by simp
qed

text \<open>C32. A leaderboard does not depend on the order of its candidates, gives the ranks 1, 2, ... without gaps,
  and lists the evaluations by increasing mean pinball loss, ties broken by the later keys.\<close>

theorem leaderboard_order_independent:
  assumes "mset candidates = mset candidates'"
    and "build_baseline_leaderboard values (Seq candidates) (Inst config) = Inr board"
  shows "build_baseline_leaderboard values (Seq candidates') (Inst config) = Inr board \<and>
    map le_rank (lb_entries board) = [1..int (length candidates)] \<and>
    sorted (map (\<lambda>e. wf_ranking_key (le_evaluation e)) (lb_entries board)) \<and>
    set (map (\<lambda>e. me_candidate_name (le_evaluation e)) (lb_entries board)) = set (map bc_name (insts candidates))"
proof -
  obtain series evs where ne: "candidates \<noteq> []" and inst: "\<forall>c \<in> set candidates. is_inst c"
    and dn: "distinct (map bc_name (insts candidates))" and s: "wf_finite_sequence values = Inr series"
    and m: "map_res (\<lambda>c. evaluate_walk_forward (wf_floats series) c (Inst config)) candidates = Inr evs"
    and dv: "distinct (map me_model_version evs)"
    and lb: "lb_entries board = wf_rank (sort_key wf_ranking_key evs)"
    using assms(2) unfolding leaderboard_Inr by auto
  obtain evs' where m': "map_res (\<lambda>c. evaluate_walk_forward (wf_floats series) c (Inst config)) candidates' = Inr evs'"
    and e: "mset evs' = mset evs"
    by (rule map_res_mset [OF m assms(1) [symmetric]])
  have st: "set candidates' = set candidates" using assms(1) by (metis mset_eq_setD)
  have ci: "candidates = map Inst (insts candidates)" using inst by (simp add: all_is_inst_iff)
  have ci': "candidates' = map Inst (insts candidates')" using inst st by (simp add: all_is_inst_iff [symmetric])
  have mi: "mset (insts candidates') = mset (insts candidates)"
  proof -
    have "image_mset Inst (mset (insts candidates')) = image_mset Inst (mset (insts candidates))"
      using assms(1) ci ci' by (metis mset_map)
    moreover have "inj (image_mset (Inst :: BaselineCandidate \<Rightarrow> BaselineCandidate pyarg))"
      by (intro multiset.inj_map) (simp add: inj_def)
    ultimately show ?thesis by (simp only: inj_eq)
  qed
  then have dn': "distinct (map bc_name (insts candidates'))"
    using dn by (metis mset_map mset_eq_imp_distinct_iff)
  have dv': "distinct (map me_model_version evs')" using dv e by (metis mset_map mset_eq_imp_distinct_iff)
  have nm: "map me_candidate_name evs = map bc_name (insts candidates)"
  proof (rule nth_equalityI)
    show l: "length (map me_candidate_name evs) = length (map bc_name (insts candidates))"
      using map_res_length [OF m] ci by (metis length_map)
    fix i assume "i < length (map me_candidate_name evs)"
    then have i: "i < length (insts candidates)" using l by simp
    then have "candidates ! i = Inst (insts candidates ! i)" using ci by (metis nth_map)
    moreover have "i < length candidates" using i ci by (metis length_map)
    ultimately have "evaluate_walk_forward (wf_floats series) (Inst (insts candidates ! i)) (Inst config) = Inr (evs ! i)"
      using map_res_nth [OF m] by metis
    then have "me_candidate_name (evs ! i) = bc_name (insts candidates ! i)" by (rule evaluate_Inr)
    then show "map me_candidate_name evs ! i = map bc_name (insts candidates) ! i"
      using i l by simp
  qed
  then have "distinct (map me_candidate_name evs)" using dn by simp
  then have inj: "inj_on me_candidate_name (set evs)" by (simp add: distinct_map)
  have "inj_on wf_ranking_key (set evs)"
  proof (rule inj_onI)
    fix x y assume "x \<in> set evs" "y \<in> set evs" "wf_ranking_key x = wf_ranking_key y"
    then show "x = y" using inj by (auto simp: wf_ranking_key_def dest: inj_onD)
  qed
  then have sk: "sort_key wf_ranking_key evs = sort_key wf_ranking_key evs'"
    using e by (intro sort_key_perm) simp_all
  have "build_baseline_leaderboard values (Seq candidates') (Inst config) = Inr board"
    using assms(2) ne inst st s m m' dn' dv' sk unfolding leaderboard_Inr by (metis Inr_inject set_empty)
  moreover have "map le_rank (lb_entries board) = [1..int (length candidates)]"
    using wf_rank_facts(1) map_res_length [OF m] by (simp add: lb)
  moreover have ev: "map le_evaluation (lb_entries board) = sort_key wf_ranking_key evs"
    using wf_rank_facts(2) by (simp add: lb)
  then have "map (\<lambda>e. wf_ranking_key (le_evaluation e)) (lb_entries board) = map wf_ranking_key (sort_key wf_ranking_key evs)"
    by (metis (no_types, lifting) comp_apply list.map_comp map_eq_conv)
  moreover have "map (\<lambda>e. me_candidate_name (le_evaluation e)) (lb_entries board)
      = map me_candidate_name (sort_key wf_ranking_key evs)"
    using ev by (metis (no_types, lifting) comp_apply list.map_comp map_eq_conv)
  then have "set (map (\<lambda>e. me_candidate_name (le_evaluation e)) (lb_entries board)) = set (map me_candidate_name evs)"
    by simp
  ultimately show ?thesis using nm by simp
qed

end
