(* ===== verification/WalkForwardCases.thy ===== *)
theory WalkForwardCases
  imports WalkForwardLaws
begin

text \<open>
  The walk-forward properties at concrete inputs: a model that repeats the last
  observation, scored on the series 4, 8 and 4, 8, 4 with one interval coverage
  of 0.8, horizon one and stride two, so that each series has a single origin.
  The floating-point work is evaluated in small stages.
\<close>

section \<open>The candidate and its forecast\<close>

definition wfc_last :: "string \<Rightarrow> nat \<Rightarrow> f64 \<Rightarrow> Forecaster" where
  "wfc_last nm k v = Forecaster (2 * k + 1) (PyStr nm) (\<lambda>_. Inr Foreign)
     (\<lambda>h. Inr (Seq (replicate (nat h) (PyFloat v))))
     (\<lambda>h levels. Inr (Some (map (\<lambda>l. (PyFloat l, Seq (replicate (nat h) (PyFloat v)))) levels)))"

definition wfc_candidate :: "string \<Rightarrow> BaselineCandidate" where
  "wfc_candidate nm = \<lparr>bc_name = nm, bc_model_factory = (\<lambda>k. Inr (Inst
     (Forecaster (2 * k) (PyStr nm) (\<lambda>h. Inr (Inst (wfc_last nm k (last h))))
        (\<lambda>_. Inl (RuntimeError ''not fitted'')) (\<lambda>_ _. Inl (RuntimeError ''not fitted'')))))\<rparr>"

definition wfc_config :: WalkForwardConfig where
  "wfc_config = \<lparr>wc_initial_train_size = 1, wc_horizon = 1, wc_stride = 2, wc_interval_coverages = [4605380978949069210]\<rparr>"

definition wfc_low :: f64 where "wfc_low = 4591870180066957722"
definition wfc_high :: f64 where "wfc_high = 4606281698874543309"
definition wfc_four :: f64 where "wfc_four = 4616189618054758400"

lemma wfc_config: "walk_forward_config (PyInt 1) (PyInt 1) (PyInt 2) True (Seq [PyFloat 4605380978949069210]) = Inr wfc_config"
  by code_simp

lemma wfc_near:
  "f_le (f_abs (f_sub wfc_low wfc_low)) LEVEL_TOLERANCE" "\<not> f_le (f_abs (f_sub wfc_low f_half)) LEVEL_TOLERANCE"
  "\<not> f_le (f_abs (f_sub wfc_low wfc_high)) LEVEL_TOLERANCE" "f_le (f_abs (f_sub f_half f_half)) LEVEL_TOLERANCE"
  "\<not> f_le (f_abs (f_sub f_half wfc_high)) LEVEL_TOLERANCE" "f_le (f_abs (f_sub wfc_high wfc_high)) LEVEL_TOLERANCE"
  by code_simp+

lemma wfc_level_eq:
  "f_eq wfc_low wfc_low" "f_eq f_half f_half" "f_eq wfc_high wfc_high"
  "\<not> f_eq wfc_low f_half" "\<not> f_eq wfc_low wfc_high" "\<not> f_eq f_half wfc_high"
  "\<not> f_eq f_half wfc_low" "\<not> f_eq wfc_high wfc_low" "\<not> f_eq wfc_high f_half"
  by code_simp+

lemma wfc_level_stages:
  "f_sub f_one 4605380978949069210 = 4596373779694328216" "f_quot 4596373779694328216 f_two = 4591870180066957720"
  "f_round_digits 4591870180066957720 12 = 4591870180066957722"
  "f_add f_one 4605380978949069210 = 4610785298501913805" "f_quot 4610785298501913805 f_two = 4606281698874543309"
  "f_round_digits 4606281698874543309 12 = 4606281698874543309"
  by code_simp+

lemma wfc_levels:
  "wf_low_level 4605380978949069210 = wfc_low" "wf_high_level 4605380978949069210 = wfc_high"
  unfolding wf_low_level_def wf_high_level_def wfc_level_stages wfc_low_def wfc_high_def by simp_all

lemma wfc_level_order: "sort_key f_key [f_half, wfc_low, wfc_high] = [wfc_low, f_half, wfc_high]"
  by code_simp

lemma wfc_quantile_levels: "wf_quantile_levels [4605380978949069210] = [wfc_low, f_half, wfc_high]"
  using wfc_level_order by (simp add: wf_quantile_levels_def wf_add_level_def wfc_levels wfc_level_eq)

lemma wfc_level_range:
  "f_isfinite wfc_low" "f_isfinite f_half" "f_isfinite wfc_high" "f_lt f_zero wfc_low" "f_lt f_zero f_half" "f_lt f_zero wfc_high"
  "f_lt wfc_low f_one" "f_lt f_half f_one" "f_lt wfc_high f_one"
  by code_simp+

lemma wfc_four: "f_isfinite wfc_four" "f_eq wfc_four wfc_four" "\<not> f_lt wfc_four wfc_four"
  by code_simp+

lemma wfc_forecast:
  "wf_forecast 1 [wfc_low, f_half, wfc_high] (wfc_last nm k wfc_four)
     = Inr ([wfc_four], [(wfc_low, [wfc_four]), (f_half, [wfc_four]), (wfc_high, [wfc_four])])"
  by (simp add: wf_forecast_def wfc_last_def wf_forecast_path_def wf_finite_def real_float_def wfc_four
      wf_quantile_paths_def wf_finite_probability_def wfc_level_range wfc_near wfc_level_eq wf_get_def
      wf_validate_distribution_def wf_validate_step_def wf_at_def py_index_def f_isclose_def Let_def)

lemma wfc_origin:
  assumes v: "wf_model_version (PyStr nm) = Inr nm"
  shows "wf_origins (wfc_candidate nm) wfc_config (wfc_four # xs) [wfc_low, f_half, wfc_high] 0 [] None [1] =
     Inr ([\<lparr>of_train_end_exclusive = 1, of_origin_index = 0, of_target_start_index = 1, of_actual = take 1 xs,
            of_point = [wfc_four], of_quantiles = [\<lparr>qp_level = wfc_low, qp_values = [wfc_four]\<rparr>,
              \<lparr>qp_level = f_half, qp_values = [wfc_four]\<rparr>, \<lparr>qp_level = wfc_high, qp_values = [wfc_four]\<rparr>]\<rparr>], Some nm)"
proof -
  have "wf_model (bc_model_factory (wfc_candidate nm)) (wfc_four # xs) 0 [] None 1 = Inr (wfc_last nm 0 wfc_four, [0, 1], nm)"
    using v by (simp add: wf_model_def wfc_candidate_def wfc_last_def Let_def)
  then have "wf_origin (wfc_candidate nm) wfc_config (wfc_four # xs) [wfc_low, f_half, wfc_high] 0 [] None 1 =
      Inr (([wfc_four], [(wfc_low, [wfc_four]), (f_half, [wfc_four]), (wfc_high, [wfc_four])]), [0, 1], nm)"
    using wfc_forecast by (simp add: wf_origin_def wfc_config_def)
  then show ?thesis
    by (simp add: wf_wrap_def wf_origin_forecast_def wfc_config_def wf_get_def wfc_level_eq)
qed

lemma wfc_len_one: "f_len [x] = f_one"
proof -
  have "f_of_int_exact 1 = f_one" by code_simp
  then show ?thesis by (simp add: f_len_def)
qed

lemma wfc_nominal: "f_eq 4605380978949069210 4605380978949069210"
  by code_simp

text \<open>The evaluation on two observations, given the scores of its single forecast.\<close>

lemma wfc_evaluate:
  assumes nm: "wf_model_version (PyStr nm) = Inr nm" and v: "f_isfinite v" and ws: "ws = [] \<or> ws = [wfc_four]"
    and mae: "mean_absolute_error (wf_floats [v]) (wf_floats [wfc_four]) = Inr m"
    and rmse: "root_mean_squared_error (wf_floats [v]) (wf_floats [wfc_four]) = Inr r"
    and pin: "pinball_loss (wf_floats [v]) (wf_floats [wfc_four]) (PyFloat wfc_low) = Inr p1"
      "pinball_loss (wf_floats [v]) (wf_floats [wfc_four]) (PyFloat f_half) = Inr p2"
      "pinball_loss (wf_floats [v]) (wf_floats [wfc_four]) (PyFloat wfc_high) = Inr p3"
    and cov: "empirical_interval_coverage (wf_floats [v]) (wf_floats [wfc_four]) (wf_floats [wfc_four]) = Inr cv"
    and mean: "wf_safe_mean [p1, p2, p3] = Inr p" "is_ok (wf_safe_mean [m])" "is_ok (wf_safe_mean [r])" "is_ok (wf_safe_mean [p])"
      "is_ok (wf_safe_mean [p1])" "is_ok (wf_safe_mean [p2])" "is_ok (wf_safe_mean [p3])" "is_ok (wf_safe_mean [cv])"
  shows "\<exists>ev. evaluate_walk_forward (Seq (PyFloat wfc_four # PyFloat v # map PyFloat ws)) (Inst (wfc_candidate nm)) (Inst wfc_config) = Inr ev
    \<and> me_model_version ev = nm"
proof -
  note e = wfc_level_eq wfc_nominal
  have s: "wf_finite_sequence (Seq (PyFloat wfc_four # PyFloat v # map PyFloat ws)) = Inr (wfc_four # v # ws)"
    using v ws by (auto simp: wf_finite_sequence_def wf_finite_def real_float_def wfc_four)
  have g: "wf_range 1 (int (length (wfc_four # v # ws))) 2 = [1]" using ws by (auto simp: wf_range.simps)
  obtain a b d f1 f2 f3 c where mm: "wf_safe_mean [m] = Inr a" "wf_safe_mean [r] = Inr b" "wf_safe_mean [p] = Inr d"
    "wf_safe_mean [p1] = Inr f1" "wf_safe_mean [p2] = Inr f2" "wf_safe_mean [p3] = Inr f3" "wf_safe_mean [cv] = Inr c"
    using mean(2-8) unfolding is_ok_iff by blast
  let ?orig = "\<lparr>of_train_end_exclusive = 1, of_origin_index = 0, of_target_start_index = 1, of_actual = [v],
            of_point = [wfc_four], of_quantiles = [\<lparr>qp_level = wfc_low, qp_values = [wfc_four]\<rparr>,
              \<lparr>qp_level = f_half, qp_values = [wfc_four]\<rparr>, \<lparr>qp_level = wfc_high, qp_values = [wfc_four]\<rparr>]\<rparr>"
  let ?row = "\<lparr>hm_horizon_step = 1, hm_metrics = \<lparr>ms_sample_count = 1, ms_mae = m, ms_rmse = r, ms_mean_pinball_loss = p,
      ms_by_quantile = [\<lparr>qsc_level = wfc_low, qsc_pinball_loss = p1\<rparr>, \<lparr>qsc_level = f_half, qsc_pinball_loss = p2\<rparr>,
        \<lparr>qsc_level = wfc_high, qsc_pinball_loss = p3\<rparr>],
      ms_by_coverage = [\<lparr>cs_nominal_coverage = 4605380978949069210, cs_empirical_coverage = cv\<rparr>], ms_aggregation = ''within_horizon''\<rparr>\<rparr>"
  have vals: "wf_level_values [?orig] 0 wfc_low = Inr [wfc_four]" "wf_level_values [?orig] 0 f_half = Inr [wfc_four]"
    "wf_level_values [?orig] 0 wfc_high = Inr [wfc_four]"
    by (simp_all add: wf_level_values_def wf_next_def e py_index_def)
  have "wf_score_offset [?orig] [wfc_low, f_half, wfc_high] [4605380978949069210] 0 = Inr ?row"
    by (simp add: wf_score_offset_def vals py_index_def wf_quantile_score_def wf_coverage_score_def wf_get_def
        wfc_levels e mae rmse pin cov mean(1))
  then have h: "wf_score_by_horizon [?orig] [wfc_low, f_half, wfc_high] [4605380978949069210] = Inr [?row]"
    by (simp add: wf_score_by_horizon_def)
  have "is_ok (wf_macro_summary [?row])"
    by (simp add: wf_macro_summary_def Let_def mm wf_macro_quantile_def wf_macro_coverage_def wf_next_def e)
  then show ?thesis
    using s g h wfc_origin [OF nm, of "v # ws"] unfolding is_ok_iff
    by (auto simp: evaluate_walk_forward_def wfc_config_def Let_def wfc_quantile_levels)
qed

lemma wfc_terms_8_a:
  "mt_mae_term f_one (4620693217682128896, wfc_four) = Inr wfc_four"
  "mt_finite_error 4620693217682128896 wfc_four = Inr wfc_four"
  by code_simp+

lemma wfc_terms_8_b:
  "f_abs wfc_four = wfc_four"
  "\<not> f_eq wfc_four f_zero"
  by code_simp+

lemma wfc_terms_8_c:
  "mt_scaled_square wfc_four wfc_four = f_one"
  "f_mul wfc_four f_one = wfc_four"
  by code_simp+

lemma wfc_terms_8_d:
  "mt_pinball_term wfc_low f_one (4620693217682128896, wfc_four) = Inr 4600877379321698714"
  "mt_pinball_term f_half f_one (4620693217682128896, wfc_four) = Inr 4611686018427387904"
  by code_simp+

lemma wfc_terms_8_e:
  "mt_pinball_term wfc_high f_one (4620693217682128896, wfc_four) = Inr 4615288898129284301"
  "f_isfinite 4620693217682128896"
  by code_simp+

lemma wfc_terms_8_f:
  "f_isfinite wfc_four"
  by code_simp+

lemmas wfc_terms_8 = wfc_terms_8_a wfc_terms_8_b wfc_terms_8_c wfc_terms_8_d wfc_terms_8_e wfc_terms_8_f

lemma wfc_sums_8_a:
  "f_fsum [Inr wfc_four] = Inr wfc_four"
  "f_fsum [Inr 4600877379321698714] = Inr 4600877379321698714"
  by code_simp+

lemma wfc_sums_8_b:
  "f_fsum [Inr 4611686018427387904] = Inr 4611686018427387904"
  "f_fsum [Inr 4615288898129284301] = Inr 4615288898129284301"
  by code_simp+

lemmas wfc_sums_8 = wfc_sums_8_a wfc_sums_8_b

lemma wfc_mean_8: "wf_safe_mean [4600877379321698714, 4611686018427387904, 4615288898129284301] = Inr 4611686018427387904"
  by code_simp

lemma wfc_single_means_8_a:
  "is_ok (wf_safe_mean [wfc_four])"
  "is_ok (wf_safe_mean [4611686018427387904])"
  by code_simp+

lemma wfc_single_means_8_b:
  "is_ok (wf_safe_mean [4600877379321698714])"
  "is_ok (wf_safe_mean [4611686018427387904])"
  by code_simp+

lemma wfc_single_means_8_c:
  "is_ok (wf_safe_mean [4615288898129284301])"
  by code_simp+

lemmas wfc_single_means_8 = wfc_single_means_8_a wfc_single_means_8_b wfc_single_means_8_c

lemma wfc_rmse_steps: "f_fsum [Inr f_one] = Inr f_one" "f_quot f_one f_one = f_one" "f_sqrt f_one = f_one"
  by code_simp+

lemma wfc_paired: "mt_paired_values (wf_floats [4620693217682128896]) (wf_floats [wfc_four]) = Inr ([4620693217682128896], [wfc_four])"
  unfolding wf_floats_def by (rule mt_paired_floats) (simp_all add: wfc_terms_8)

lemma wfc_probabilities:
  "mt_probability (PyFloat wfc_low) n = Inr wfc_low" "mt_probability (PyFloat f_half) n = Inr f_half"
  "mt_probability (PyFloat wfc_high) n = Inr wfc_high"
  by (simp_all add: mt_probability_def real_float_def wfc_level_range)

lemma wfc_scores:
  "mean_absolute_error (wf_floats [4620693217682128896]) (wf_floats [wfc_four]) = Inr wfc_four"
  "root_mean_squared_error (wf_floats [4620693217682128896]) (wf_floats [wfc_four]) = Inr wfc_four"
  "pinball_loss (wf_floats [4620693217682128896]) (wf_floats [wfc_four]) (PyFloat wfc_low) = Inr 4600877379321698714"
  "pinball_loss (wf_floats [4620693217682128896]) (wf_floats [wfc_four]) (PyFloat f_half) = Inr 4611686018427387904"
  "pinball_loss (wf_floats [4620693217682128896]) (wf_floats [wfc_four]) (PyFloat wfc_high) = Inr 4615288898129284301"
  by (simp_all add: mean_absolute_error_def root_mean_squared_error_def pinball_loss_def wfc_paired wfc_probabilities
      wfc_len_one wfc_terms_8 wfc_sums_8 wfc_rmse_steps f_maximum_def Let_def)

lemma wfc_coverage:
  "empirical_interval_coverage (wf_floats [4620693217682128896]) (wf_floats [wfc_four]) (wf_floats [wfc_four]) = Inr f_zero"
  "is_ok (wf_safe_mean [f_zero])"
  by code_simp+

lemma wfc_evaluated:
  assumes "wf_model_version (PyStr nm) = Inr nm" and "ws = [] \<or> ws = [wfc_four]"
  shows "\<exists>ev. evaluate_walk_forward (Seq (PyFloat wfc_four # PyFloat 4620693217682128896 # map PyFloat ws)) (Inst (wfc_candidate nm)) (Inst wfc_config) = Inr ev
    \<and> me_model_version ev = nm"
  by (rule wfc_evaluate [OF assms(1) wfc_terms_8_e(2) assms(2) wfc_scores wfc_coverage(1) wfc_mean_8])
    (rule wfc_single_means_8 wfc_coverage(2))+

section \<open>Witnesses\<close>

definition wfc_series :: "pyobj list" where
  "wfc_series = [PyFloat wfc_four, PyFloat 4620693217682128896]"

lemma wfc_names: "wf_model_version (PyStr ''last'') = Inr ''last''" "wf_model_version (PyStr ''copy'') = Inr ''copy''"
  by code_simp+

lemma wfc_runs:
  assumes "wf_model_version (PyStr nm) = Inr nm"
  obtains ev ev' where "evaluate_walk_forward (Seq wfc_series) (Inst (wfc_candidate nm)) (Inst wfc_config) = Inr ev"
    and "me_model_version ev = nm"
    and "evaluate_walk_forward (Seq (wfc_series @ [PyFloat wfc_four])) (Inst (wfc_candidate nm)) (Inst wfc_config) = Inr ev'"
  using wfc_evaluated [OF assms, of "[]"] wfc_evaluated [OF assms, of "[wfc_four]"]
  by (auto simp: wfc_series_def)

lemma wfc_finite:
  "wf_finite_sequence (Seq wfc_series) = Inr [wfc_four, 4620693217682128896]"
  "wf_finite_sequence (Seq (wfc_series @ [PyFloat wfc_four])) = Inr [wfc_four, 4620693217682128896, wfc_four]"
  by (simp_all add: wf_finite_sequence_def wf_finite_def real_float_def wfc_four wfc_terms_8 wfc_series_def)

lemma wfc_first_origin:
  assumes "wf_finite_sequence values = Inr series" and "length series = 2 \<or> length series = 3"
    and "evaluate_walk_forward values (Inst c) (Inst wfc_config) = Inr ev"
  shows "hd (me_origins ev) \<in> set (me_origins ev)" and "of_train_end_exclusive (hd (me_origins ev)) = int 1"
proof -
  note g = evaluate_grid [OF wfc_config assms(1,3)]
  have "wf_range 1 (int (length series)) 2 = [1]" using assms(2) by (auto simp: wf_range.simps)
  then have l: "length (me_origins ev) = 1" using g(1) by (simp add: wfc_config_def)
  then show "hd (me_origins ev) \<in> set (me_origins ev)" by (cases "me_origins ev") simp_all
  have "hd (me_origins ev) = me_origins ev ! 0" using l by (cases "me_origins ev") simp_all
  then show "of_train_end_exclusive (hd (me_origins ev)) = int 1" using g(2) [of 0] l by (simp add: wfc_config_def)
qed

theorem origins_are_the_grid_witness:
  "\<exists>ev. evaluate_walk_forward (Seq wfc_series) (Inst (wfc_candidate ''last'')) (Inst wfc_config) = Inr ev \<and>
    ms_sample_count (me_aggregate ev) = wc_horizon wfc_config * int (length (me_origins ev))"
proof -
  obtain ev where "evaluate_walk_forward (Seq wfc_series) (Inst (wfc_candidate ''last'')) (Inst wfc_config) = Inr ev"
    by (rule wfc_runs [OF wfc_names(1)])
  with origins_are_the_grid [OF wfc_config wfc_finite(1) this] show ?thesis by blast
qed

theorem no_lookahead_witness:
  "\<exists>ev ev'. evaluate_walk_forward (Seq wfc_series) (Inst (wfc_candidate ''last'')) (Inst wfc_config) = Inr ev \<and>
    evaluate_walk_forward (Seq (wfc_series @ [PyFloat wfc_four])) (Inst (wfc_candidate ''last'')) (Inst wfc_config) = Inr ev' \<and>
    of_point (hd (me_origins ev)) = of_point (hd (me_origins ev'))"
proof -
  obtain ev ev' where e: "evaluate_walk_forward (Seq wfc_series) (Inst (wfc_candidate ''last'')) (Inst wfc_config) = Inr ev"
    "evaluate_walk_forward (Seq (wfc_series @ [PyFloat wfc_four])) (Inst (wfc_candidate ''last'')) (Inst wfc_config) = Inr ev'"
    by (rule wfc_runs [OF wfc_names(1)])
  have "take 1 wfc_series = take 1 (wfc_series @ [PyFloat wfc_four])" by (simp add: wfc_series_def)
  from no_lookahead [OF wfc_config e this] wfc_first_origin [OF wfc_finite(1) _ e(1)] wfc_first_origin [OF wfc_finite(2) _ e(2)]
  have "of_point (hd (me_origins ev)) = of_point (hd (me_origins ev'))" by simp
  with e show ?thesis by blast
qed

lemma wfc_floats: "wf_floats [wfc_four, 4620693217682128896] = Seq wfc_series"
  by (simp add: wf_floats_def wfc_series_def)

theorem leaderboard_order_independent_witness:
  "\<exists>board. build_baseline_leaderboard (Seq wfc_series) (Seq [Inst (wfc_candidate ''last''), Inst (wfc_candidate ''copy'')]) (Inst wfc_config) = Inr board \<and>
    build_baseline_leaderboard (Seq wfc_series) (Seq [Inst (wfc_candidate ''copy''), Inst (wfc_candidate ''last'')]) (Inst wfc_config) = Inr board"
proof -
  obtain ev where e: "evaluate_walk_forward (Seq wfc_series) (Inst (wfc_candidate ''last'')) (Inst wfc_config) = Inr ev"
    "me_model_version ev = ''last''" by (rule wfc_runs [OF wfc_names(1)])
  obtain ev2 where e2: "evaluate_walk_forward (Seq wfc_series) (Inst (wfc_candidate ''copy'')) (Inst wfc_config) = Inr ev2"
    "me_model_version ev2 = ''copy''" by (rule wfc_runs [OF wfc_names(2)])
  have "\<exists>board. build_baseline_leaderboard (Seq wfc_series) (Seq [Inst (wfc_candidate ''last''), Inst (wfc_candidate ''copy'')]) (Inst wfc_config) = Inr board"
    unfolding leaderboard_Inr using e e2 by (simp add: wfc_finite wfc_floats wfc_candidate_def)
  then obtain board where b: "build_baseline_leaderboard (Seq wfc_series) (Seq [Inst (wfc_candidate ''last''), Inst (wfc_candidate ''copy'')]) (Inst wfc_config) = Inr board" ..
  have "mset [Inst (wfc_candidate ''last''), Inst (wfc_candidate ''copy'')] = mset [Inst (wfc_candidate ''copy''), Inst (wfc_candidate ''last'')]"
    by simp
  from leaderboard_order_independent [OF this b] b show ?thesis by blast
qed

end
