(* ===== verification/IsoTime.thy ===== *)
theory IsoTime
  imports PyObj
begin

text \<open>
  \<open>datetime.fromisoformat\<close> of the standard library, which the evidence documents use
  to read their timestamps back: calendar and week dates with or without dashes, one
  separator character, a time with optional minutes, seconds and fraction, and an
  optional offset.  The result is the local reading with its offset, or \<open>None\<close> where
  Python raises \<open>ValueError\<close>.

  The main fact: the canonical text of an instant reads back as that instant
  (\<open>parse_instant_text\<close>), so distinct instants have distinct texts.
\<close>

section \<open>Digits\<close>

text \<open>Exactly \<open>n\<close> ASCII digits, the whole string.\<close>

definition iso_digits :: "nat \<Rightarrow> string \<Rightarrow> int option" where
  "iso_digits n s = (if length s = n \<and> n \<noteq> 0 \<and> list_all is_digit s then Some (digits_val s) else None)"

definition slice :: "string \<Rightarrow> nat \<Rightarrow> nat \<Rightarrow> string" where
  "slice s i j = take (j - i) (drop i s)"

section \<open>The date\<close>

text \<open>The index of the separator between date and time.\<close>

definition iso_separator :: "string \<Rightarrow> nat option" where
  "iso_separator s =
     (let n = length s in
      if n < 7 then None
      else if n = 7 then Some 7
      else if s ! 4 = CHR ''-'' then
        (if s ! 5 = CHR ''W'' then
           (if 8 < n \<and> s ! 8 = CHR ''-'' then
              (if n = 9 then None
               else if 10 < n \<and> is_digit (s ! 10) then Some 8 else Some 10)
            else Some 8)
         else Some 10)
      else if s ! 4 = CHR ''W'' then
        (let idx = 7 + length (takeWhile is_digit (drop 7 s)) in
         if idx < 9 then Some idx else if idx mod 2 = 0 then Some 7 else Some 8)
      else Some 8)"

text \<open>The ordinal of the Monday of ISO week 1.\<close>

definition iso_week1_monday :: "int \<Rightarrow> date" where
  "iso_week1_monday y =
     (let firstday = ymd_to_ord y 1 1;
          firstweekday = (firstday + 6) mod 7;
          monday = firstday - firstweekday
      in if 3 < firstweekday then monday + 7 else monday)"

definition iso_week_date :: "int \<Rightarrow> int \<Rightarrow> int \<Rightarrow> date option" where
  "iso_week_date year week day =
     (let long = (let w = (ymd_to_ord year 1 1) mod 7 in w = 4 \<or> (w = 3 \<and> is_leap year)) in
      if 1 \<le> year \<and> year \<le> 9999 \<and> 1 \<le> week \<and> (week < 53 \<or> week = 53 \<and> long) \<and> 1 \<le> day \<and> day \<le> 7
      then let d = iso_week1_monday year + (week - 1) * 7 + (day - 1)
           in if 1 \<le> d \<and> d \<le> max_ordinal then Some d else None
      else None)"

definition month_length :: "int \<Rightarrow> int \<Rightarrow> int" where
  "month_length y m = days_in_month m + (if m = 2 \<and> is_leap y then 1 else 0)"

definition civil_date :: "int \<Rightarrow> int \<Rightarrow> int \<Rightarrow> date option" where
  "civil_date y m d =
     (if 1 \<le> y \<and> y \<le> 9999 \<and> 1 \<le> m \<and> m \<le> 12 \<and> 1 \<le> d \<and> d \<le> month_length y m
      then Some (ymd_to_ord y m d) else None)"

definition iso_date :: "string \<Rightarrow> date option" where
  "iso_date s =
     (case iso_digits 4 (take 4 s) of
        None \<Rightarrow> None
      | Some year \<Rightarrow>
          (let has_sep = (slice s 4 5 = ''-''); pos = (if has_sep then 5 else 4) in
           if slice s pos (pos + 1) = ''W'' then
             (case iso_digits 2 (slice s (pos + 1) (pos + 3)) of
                None \<Rightarrow> None
              | Some week \<Rightarrow>
                  if length s \<le> pos + 3 then iso_week_date year week 1
                  else if (slice s (pos + 3) (pos + 4) = ''-'') \<noteq> has_sep then None
                  else (let p = (if has_sep then pos + 4 else pos + 3) in
                        case iso_digits 1 (slice s p (p + 1)) of
                          None \<Rightarrow> None
                        | Some day \<Rightarrow> iso_week_date year week day))
           else
             (case iso_digits 2 (slice s pos (pos + 2)) of
                None \<Rightarrow> None
              | Some month \<Rightarrow>
                  if (slice s (pos + 2) (pos + 3) = ''-'') \<noteq> has_sep then None
                  else (let p = (if has_sep then pos + 3 else pos + 2) in
                        case iso_digits 2 (slice s p (p + 2)) of
                          None \<Rightarrow> None
                        | Some day \<Rightarrow> civil_date year month day))))"

section \<open>The time\<close>

text \<open>The fraction after the decimal mark: six digits are kept, shorter ones scaled.\<close>

definition iso_fraction :: "string \<Rightarrow> int option" where
  "iso_fraction s =
     (let k = min 6 (length s) in
      if list_all is_digit s then
        (case iso_digits k (take k s) of None \<Rightarrow> None | Some v \<Rightarrow> Some (v * 10 ^ (6 - k)))
      else None)"

text \<open>\<open>HH[:?MM[:?SS[{.,}fff[fff]]]]\<close> in microseconds' components; \<open>n\<close> components are still possible.\<close>

fun iso_components :: "nat \<Rightarrow> bool \<Rightarrow> bool \<Rightarrow> string \<Rightarrow> (int list \<times> string) option" where
  "iso_components 0 first has_sep s = Some ([], s)"
| "iso_components (Suc n) first has_sep s =
     (case iso_digits 2 (take 2 s) of
        None \<Rightarrow> None
      | Some v \<Rightarrow>
          (let r = drop 2 s; sep = (if first then take 1 r = '':'' else has_sep) in
           if r = [] \<or> n = 0 then Some ([v], r)
           else if sep \<and> hd r \<noteq> CHR '':'' then None
           else map_option (\<lambda>(vs, t). (v # vs, t)) (iso_components n False sep (if sep then tl r else r))))"

definition component :: "int list \<Rightarrow> nat \<Rightarrow> int" where
  "component vs i = (if i < length vs then vs ! i else 0)"

definition iso_clock :: "string \<Rightarrow> (int \<times> int \<times> int \<times> int) option" where
  "iso_clock s =
     (case iso_components 3 True False s of
        None \<Rightarrow> None
      | Some (vs, r) \<Rightarrow>
          (case r of
             [] \<Rightarrow> Some (component vs 0, component vs 1, component vs 2, 0)
           | c # f \<Rightarrow>
               if c = CHR ''.'' \<or> c = CHR '','' then
                 map_option (\<lambda>us. (component vs 0, component vs 1, component vs 2, us)) (iso_fraction f)
               else None))"

definition clock_micros :: "int \<times> int \<times> int \<times> int \<Rightarrow> int" where
  "clock_micros = (\<lambda>(h, m, s, us). ((h * 60 + m) * 60 + s) * 1000000 + us)"

definition find_char :: "char \<Rightarrow> string \<Rightarrow> nat option" where
  "find_char c s = (let i = length (takeWhile (\<lambda>d. d \<noteq> c) s) in if i < length s then Some i else None)"

text \<open>The offset: \<open>Some None\<close> is a naive time, an outer \<open>None\<close> a malformed one.\<close>

definition iso_offset :: "char \<Rightarrow> string \<Rightarrow> int option" where
  "iso_offset sign z =
     (if length z \<in> {0, 1, 3} \<or> sign = CHR ''Z'' then None
      else case iso_clock z of
        None \<Rightarrow> None
      | Some c \<Rightarrow>
          (let td = clock_micros c in
           if td < day_micros then Some (if sign = CHR ''-'' then - td else td) else None))"

definition iso_time :: "string \<Rightarrow> (int \<times> int option) option" where
  "iso_time s =
     (if length s < 2 then None
      else
        let tz = (case find_char (CHR ''-'') s of Some i \<Rightarrow> Some i
                  | None \<Rightarrow> (case find_char (CHR ''+'') s of Some i \<Rightarrow> Some i | None \<Rightarrow> find_char (CHR ''Z'') s));
            clock = (case tz of None \<Rightarrow> s | Some i \<Rightarrow> take i s)
        in case iso_clock clock of
             None \<Rightarrow> None
           | Some (h, m, sec, us) \<Rightarrow>
               if \<not> (h < 24 \<and> m < 60 \<and> sec < 60) then None
               else (case tz of
                       None \<Rightarrow> Some (clock_micros (h, m, sec, us), None)
                     | Some i \<Rightarrow>
                         if s ! i = CHR ''Z'' \<and> i + 1 = length s then Some (clock_micros (h, m, sec, us), Some 0)
                         else map_option (\<lambda>off. (clock_micros (h, m, sec, us), Some off)) (iso_offset (s ! i) (drop (i + 1) s))))"

text \<open>\<open>datetime.fromisoformat(s)\<close>\<close>

definition fromisoformat :: "string \<Rightarrow> pyobj option" where
  "fromisoformat s =
     (case iso_separator s of
        None \<Rightarrow> None
      | Some k \<Rightarrow>
          (case iso_date (take k s) of
             None \<Rightarrow> None
           | Some d \<Rightarrow>
               (let rest = drop (k + 1) s in
                if rest = [] then Some (PyDatetime ((d - 1) * day_micros) None)
                else map_option (\<lambda>(t, off). PyDatetime ((d - 1) * day_micros + t) off) (iso_time rest))))"

section \<open>The calendar\<close>

definition month_step :: "bool \<Rightarrow> int \<Rightarrow> int \<times> int" where
  "month_step leap n =
     (let m = (n + 50) div 32;
          pre = days_before_month m + (if 2 < m \<and> leap then 1 else 0)
      in if n < pre
         then (m - 1, n - (pre - (days_in_month (m - 1) + (if m - 1 = 2 \<and> leap then 1 else 0))) + 1)
         else (m, n - pre + 1))"

definition month_ok :: "bool \<Rightarrow> int \<Rightarrow> bool" where
  "month_ok leap n =
     (case month_step leap n of (m, d) \<Rightarrow>
        1 \<le> m \<and> m \<le> 12 \<and> 1 \<le> d \<and> d \<le> days_in_month m + (if m = 2 \<and> leap then 1 else 0) \<and>
        days_before_month m + (if 2 < m \<and> leap then 1 else 0) + d = n + 1)"

lemma month_table: "list_all (month_ok False) [0..364]" "list_all (month_ok True) [0..365]"
  by code_simp+

lemma month_step_ok: "0 \<le> n \<Longrightarrow> n < 365 + (if leap then 1 else 0) \<Longrightarrow> month_ok leap n"
  using month_table by (cases leap) (auto simp: list_all_iff)

lemma leap_year_parts:
  fixes k c f u :: int
  assumes "0 \<le> c" "c < 4" "0 \<le> f" "f < 25" "0 \<le> u" "u < 4"
  shows "is_leap (k * 400 + 1 + c * 100 + f * 4 + u) \<longleftrightarrow> u = 3 \<and> (f \<noteq> 24 \<or> c = 3)"
proof -
  let ?y = "k * 400 + 1 + c * 100 + f * 4 + u"
  have "?y = (k * 100 + c * 25 + f) * 4 + (1 + u)" by simp
  then have m4: "?y mod 4 = (1 + u) mod 4" by (simp only: mod_mult_self3)
  have "?y = (k * 4 + c) * 100 + (1 + f * 4 + u)" by simp
  then have m100: "?y mod 100 = (1 + f * 4 + u) mod 100" by (simp only: mod_mult_self3)
  have "?y = k * 400 + (1 + c * 100 + f * 4 + u)" by simp
  then have m400: "?y mod 400 = (1 + c * 100 + f * 4 + u) mod 400" by (simp only: mod_mult_self3)
  have full: "x mod n = 0 \<longleftrightarrow> x = n" if "0 < x" "x \<le> n" for x n :: int
    using that by (cases "x = n") simp_all
  have u: "(1 + u) mod 4 = 0 \<longleftrightarrow> u = 3" using full [of "1 + u" 4] assms(5,6) by simp
  have f: "(1 + f * 4 + 3) mod 100 = 0 \<longleftrightarrow> f = 24" using full [of "1 + f * 4 + 3" 100] assms(3,4) by simp
  have c: "(1 + c * 100 + 24 * 4 + 3) mod 400 = 0 \<longleftrightarrow> c = 3" using full [of "1 + c * 100 + 24 * 4 + 3" 400] assms(1,2) by simp
  show ?thesis
  proof (cases "u = 3")
    case True
    show ?thesis
    proof (cases "f = 24")
      case f24: True
      then show ?thesis unfolding is_leap_def m4 m100 m400 u unfolding True f24 using c by simp
    next
      case False
      then show ?thesis unfolding is_leap_def m4 m100 m400 u unfolding True using f by simp
    qed
  next
    case False
    then show ?thesis unfolding is_leap_def m4 u by simp
  qed
qed

lemma year_start:
  fixes k c f u :: int
  assumes "0 \<le> c" "c < 4" "0 \<le> f" "f < 25" "0 \<le> u" "u < 4"
  shows "(let p = (k * 400 + 1 + c * 100 + f * 4 + u) - 1 in p * 365 + p div 4 - p div 100 + p div 400)
    = k * 146097 + c * 36524 + f * 1461 + u * 365"
proof -
  let ?p = "k * 400 + c * 100 + f * 4 + u"
  have q: "(q * b + t) div b = q" if "0 \<le> t" "t < b" for q t b :: int
    using that by (simp add: div_mult_self3 div_pos_pos_trivial)
  have "?p = (k * 100 + c * 25 + f) * 4 + u" by simp
  then have d4: "?p div 4 = k * 100 + c * 25 + f" using q [of u 4] assms by (simp only:)
  have "?p = (k * 4 + c) * 100 + (f * 4 + u)" by simp
  moreover have "0 \<le> f * 4 + u" "f * 4 + u < 100" using assms by linarith+
  ultimately have d100: "?p div 100 = k * 4 + c" using q [of "f * 4 + u" 100] by (simp only:)
  have "?p = k * 400 + (c * 100 + f * 4 + u)" by simp
  moreover have "0 \<le> c * 100 + f * 4 + u" "c * 100 + f * 4 + u < 400" using assms by linarith+
  ultimately have d400: "?p div 400 = k" using q [of "c * 100 + f * 4 + u" 400] by (simp only:)
  have "(k * 400 + 1 + c * 100 + f * 4 + u) - 1 = ?p" by simp
  then show ?thesis by (simp only: Let_def d4 d100 d400) simp
qed

text \<open>Every ordinal is the ordinal of its civil date.\<close>

theorem civil_date_of_ordinal:
  assumes "1 \<le> ord" and "ord \<le> max_ordinal" and "ord_to_ymd ord = (y, m, d)"
  shows "civil_date y m d = Some ord"
proof -
  define n0 k a c b f g u n where "n0 = ord - 1" and "k = n0 div 146097" and "a = n0 mod 146097"
    and "c = a div 36524" and "b = a mod 36524" and "f = b div 1461" and "g = b mod 1461"
    and "u = g div 365" and "n = g mod 365"
  note defs = n0_def k_def a_def c_def b_def f_def g_def u_def n_def
  have n0: "0 \<le> n0" "n0 < 3652059" using assms by (simp_all add: n0_def max_ordinal_def)
  have k: "n0 = k * 146097 + a" "0 \<le> a" "a < 146097" "0 \<le> k" "k < 25" using n0 by (auto simp: k_def a_def)
  have c: "a = c * 36524 + b" "0 \<le> b" "b < 36524" "0 \<le> c" "c \<le> 4" using k by (auto simp: c_def b_def)
  have f: "b = f * 1461 + g" "0 \<le> g" "g < 1461" "0 \<le> f" "f < 25" using c by (auto simp: f_def g_def)
  have u: "g = u * 365 + n" "0 \<le> n" "n < 365" "0 \<le> u" "u \<le> 4" using f by (auto simp: u_def n_def)
  have ord: "ord = k * 146097 + c * 36524 + f * 1461 + u * 365 + n + 1" using k(1) c(1) f(1) u(1) by (simp add: n0_def)
  let ?year = "k * 400 + 1 + c * 100 + f * 4 + u"
  have e: "ord_to_ymd ord = (if u = 4 \<or> c = 4 then (?year - 1, 12, 31)
      else case month_step (u = 3 \<and> (f \<noteq> 24 \<or> c = 3)) n of (m, d) \<Rightarrow> (?year, m, d))"
    unfolding ord_to_ymd_def Let_def unfolding n0_def [symmetric] unfolding k_def [symmetric] a_def [symmetric]
    unfolding c_def [symmetric] b_def [symmetric] unfolding f_def [symmetric] g_def [symmetric]
    unfolding u_def [symmetric] n_def [symmetric]
    by (simp only: month_step_def Let_def if_distrib [where f = "\<lambda>p. case p of (m, d) \<Rightarrow> (_, m, d)"] prod.case)
  show ?thesis
  proof (cases "u = 4 \<or> c = 4")
    case False
    then have lt: "c < 4" "u < 4" using c(5) u(5) by simp_all
    let ?leap = "u = 3 \<and> (f \<noteq> 24 \<or> c = 3)"
    obtain m' d' where md: "month_step ?leap n = (m', d')" by fastforce
    have "n < 365 + (if ?leap then 1 else 0)" using u(3) by simp
    then have ok: "month_ok ?leap n" by (rule month_step_ok [OF u(2)])
    have l: "is_leap ?year = ?leap" by (rule leap_year_parts) (use c f u lt in simp_all)
    have s: "(let p = ?year - 1 in p * 365 + p div 4 - p div 100 + p div 400) = k * 146097 + c * 36524 + f * 1461 + u * 365"
      by (rule year_start) (use c f u lt in simp_all)
    have y: "1 \<le> ?year" "?year \<le> 9999" using k c f u lt n0 ord by linarith+
    have v: "y = ?year" "m = m'" "d = d'" using assms(3) e False md by simp_all
    from ok have mo: "1 \<le> m'" "m' \<le> 12" "1 \<le> d'" "d' \<le> days_in_month m' + (if m' = 2 \<and> ?leap then 1 else 0)"
      "days_before_month m' + (if 2 < m' \<and> ?leap then 1 else 0) + d' = n + 1"
      unfolding month_ok_def md prod.case by blast+
    have "ymd_to_ord ?year m' d' = ord" unfolding ymd_to_ord_def s l ord using mo(5) by linarith
    then show ?thesis unfolding v civil_date_def month_length_def l using mo(1-4) y by (simp only: simp_thms if_True)
  next
    case True
    then have v: "y = ?year - 1" "m = 12" "d = 31" using assms(3) e by simp_all
    show ?thesis
    proof (cases "c = 4")
      case True
      then have z: "b = 0" using c k by linarith
      then have "f = 0" "g = 0" using f by linarith+
      then have "u = 0" "n = 0" using u by linarith+
      have l: "is_leap (k * 400 + 1 + 3 * 100 + 24 * 4 + 3)" using leap_year_parts [of 3 24 3 k] by simp
      have s: "(let p = (k * 400 + 1 + 3 * 100 + 24 * 4 + 3) - 1 in p * 365 + p div 4 - p div 100 + p div 400) = k * 146097 + 3 * 36524 + 24 * 1461 + 3 * 365"
        by (rule year_start) simp_all
      have yy: "?year - 1 = k * 400 + 1 + 3 * 100 + 24 * 4 + 3" using True \<open>f = 0\<close> \<open>u = 0\<close> by simp
      have b: "k < 25" "0 \<le> k" using k by simp_all
      have "k * 146097 < 24 * 146097" using n0(2) ord True \<open>f = 0\<close> \<open>u = 0\<close> \<open>n = 0\<close> unfolding n0_def by linarith
      then have "k * 400 + 400 \<le> 9999" by simp
      then show ?thesis unfolding v yy civil_date_def ymd_to_ord_def s using b l ord True \<open>f = 0\<close> \<open>u = 0\<close> \<open>n = 0\<close>
        by (simp add: days_before_month_def days_in_month_def month_length_def)
    next
      case False
      then have u4: "u = 4" "c < 4" using \<open>u = 4 \<or> c = 4\<close> c(5) by simp_all
      then have n: "n = 0" using u f by linarith
      have f24: "f < 24" using u4 u c f by linarith
      have l: "is_leap (k * 400 + 1 + c * 100 + f * 4 + 3)" using leap_year_parts [of c f 3 k] c f f24 u4 by simp
      have s: "(let p = (k * 400 + 1 + c * 100 + f * 4 + 3) - 1 in p * 365 + p div 4 - p div 100 + p div 400) = k * 146097 + c * 36524 + f * 1461 + 3 * 365"
        by (rule year_start) (use c f u4 in simp_all)
      have yy: "?year - 1 = k * 400 + 1 + c * 100 + f * 4 + 3" using u4 by simp
      have "1 \<le> k * 400 + 1 + c * 100 + f * 4 + 3" "k * 400 + 1 + c * 100 + f * 4 + 3 \<le> 9999" using k c f f24 u4 by linarith+
      then show ?thesis unfolding v yy civil_date_def ymd_to_ord_def s using l ord u4 n
        by (simp add: days_before_month_def days_in_month_def month_length_def)
    qed
  qed
qed

section \<open>The canonical text\<close>

lemma nat_str_length: "0 \<le> n \<Longrightarrow> n < 10 ^ w \<Longrightarrow> 0 < w \<Longrightarrow> length (nat_str n) \<le> w"
proof (induction w arbitrary: n)
  case (Suc w)
  show ?case
  proof (cases "n < 10")
    case False
    then have "0 < w" using Suc.prems by (cases w) auto
    moreover have "n div 10 < 10 ^ w" using Suc.prems(2) by simp
    ultimately show ?thesis using Suc.IH [of "n div 10"] Suc.prems(1) False by (simp add: nat_str_step)
  qed (simp add: nat_str_small)
qed simp

lemma digits_val_zeros: "digits_val (replicate k (CHR ''0'') @ s) = digits_val s"
proof -
  have "foldl (\<lambda>a c. 10 * a + digit_val c) 0 (replicate k (CHR ''0'')) = 0"
    by (induction k) (simp_all add: digit_val_def)
  then show ?thesis by (simp add: digits_val_def)
qed

lemma zfill_digits:
  assumes "0 \<le> n" and "n < 10 ^ w" and "0 < w"
  shows "iso_digits w (zfill w n) = Some n" and "length (zfill w n) = w" and "\<forall>c \<in> set (zfill w n). is_digit c"
proof -
  note l = nat_str_length [OF assms]
  then show len: "length (zfill w n) = w" by (simp add: zfill_def Let_def)
  have z: "is_digit (CHR ''0'')" by (simp add: is_digit_def)
  show d: "\<forall>c \<in> set (zfill w n). is_digit c" using nat_str_digits [OF assms(1)] z by (auto simp: zfill_def Let_def)
  have "digits_val (zfill w n) = n" using assms(1) by (simp add: zfill_def Let_def digits_val_zeros)
  then show "iso_digits w (zfill w n) = Some n" using len d assms(3) by (simp add: iso_digits_def list_all_iff)
qed

lemma digit_not_mark:
  "is_digit c \<Longrightarrow> c \<noteq> CHR ''-'' \<and> c \<noteq> CHR ''+'' \<and> c \<noteq> CHR ''Z'' \<and> c \<noteq> CHR '':'' \<and> c \<noteq> CHR ''W'' \<and> c \<noteq> CHR ''.''"
  by (auto simp: is_digit_def)

lemma two_chars: "length s = 2 \<Longrightarrow> \<exists>a b. s = [a, b]"
  by (cases s rule: remdups_adj.cases) auto

lemma split_chars:
  assumes "length s = Suc n"
  obtains a t where "s = a # t" and "length t = n"
  using assms by (cases s) auto

text \<open>The shape of a timestamp with the offset \<open>+00:00\<close>.\<close>

lemma parse_parts:
  assumes y: "iso_digits 4 [y1, y2, y3, y4] = Some y" and mo: "iso_digits 2 [m1, m2] = Some mo" and d: "iso_digits 2 [d1, d2] = Some d"
    and h: "iso_digits 2 [h1, h2] = Some h" and mi: "iso_digits 2 [n1, n2] = Some mi" and sc: "iso_digits 2 [s1, s2] = Some sc"
    and us: "iso_digits 6 [u1, u2, u3, u4, u5, u6] = Some us"
    and date: "civil_date y mo d = Some ord" and clock: "h < 24" "mi < 60" "sc < 60"
  shows "fromisoformat [y1, y2, y3, y4, CHR ''-'', m1, m2, CHR ''-'', d1, d2, CHR ''T'', h1, h2, CHR '':'', n1, n2, CHR '':'', s1, s2,
      CHR ''.'', u1, u2, u3, u4, u5, u6, CHR ''+'', CHR ''0'', CHR ''0'', CHR '':'', CHR ''0'', CHR ''0'']
    = Some (PyDatetime ((ord - 1) * day_micros + clock_micros (h, mi, sc, us)) (Some 0))"
proof -
  have ds: "\<forall>c \<in> {y1, y2, y3, y4, m1, m2, d1, d2, h1, h2, n1, n2, s1, s2, u1, u2, u3, u4, u5, u6}. is_digit c"
    using y mo d h mi sc us by (auto simp: iso_digits_def split: if_splits)
  then have ne: "\<forall>c \<in> {y1, y2, y3, y4, m1, m2, d1, d2, h1, h2, n1, n2, s1, s2, u1, u2, u3, u4, u5, u6}.
      c \<noteq> CHR ''-'' \<and> c \<noteq> CHR ''+'' \<and> c \<noteq> CHR ''Z'' \<and> c \<noteq> CHR '':'' \<and> c \<noteq> CHR ''W'' \<and> c \<noteq> CHR ''.''"
    using digit_not_mark by blast
  have z: "iso_digits 2 [CHR ''0'', CHR ''0''] = Some 0" by code_simp
  have date': "iso_date [y1, y2, y3, y4, CHR ''-'', m1, m2, CHR ''-'', d1, d2] = Some ord"
    using y mo d date ne by (simp add: iso_date_def slice_def Let_def)
  have c0: "iso_clock [h1, h2, CHR '':'', n1, n2, CHR '':'', s1, s2, CHR ''.'', u1, u2, u3, u4, u5, u6] = Some (h, mi, sc, us)"
  proof -
    have "iso_fraction [u1, u2, u3, u4, u5, u6] = Some us"
      using us ds unfolding iso_fraction_def Let_def by (simp add: numeral_eq_Suc)
    then show ?thesis using h mi sc by (simp add: iso_clock_def component_def numeral_3_eq_3 Let_def)
  qed
  have c1: "iso_clock ''00:00'' = Some (0, 0, 0, 0)"
    using z by (simp add: iso_clock_def component_def numeral_3_eq_3 Let_def)
  have off: "iso_offset (CHR ''+'') ''00:00'' = Some 0" by (simp add: iso_offset_def c1 clock_micros_def day_micros_def)
  have t: "iso_time [h1, h2, CHR '':'', n1, n2, CHR '':'', s1, s2, CHR ''.'', u1, u2, u3, u4, u5, u6,
      CHR ''+'', CHR ''0'', CHR ''0'', CHR '':'', CHR ''0'', CHR ''0''] = Some (clock_micros (h, mi, sc, us), Some 0)"
    using ne c0 off clock by (simp add: iso_time_def find_char_def Let_def)
  show ?thesis using ne date' t by (simp add: fromisoformat_def iso_separator_def Let_def)
qed

lemma digit_list:
  assumes "iso_digits w s = Some v"
  shows "length s = w"
  using assms by (simp add: iso_digits_def split: if_splits)

definition valid_instant :: "instant \<Rightarrow> bool" where
  "valid_instant t \<longleftrightarrow> 0 \<le> t \<and> t < max_ordinal * day_micros"

text \<open>The reader of the evidence documents: a trailing \<open>Z\<close> stands for \<open>+00:00\<close>.\<close>

definition iso_zulu :: "string \<Rightarrow> string" where
  "iso_zulu raw = (if raw \<noteq> [] \<and> last raw = CHR ''Z'' then butlast raw @ ''+00:00'' else raw)"

lemma clock_split: "clock_micros (s div 3600000000, s div 60000000 mod 60, s div 1000000 mod 60, s mod 1000000) = s"
proof -
  have m: "s div 60000000 = (s div 1000000) div 60" "s div 3600000000 = (s div 60000000) div 60"
    by (simp_all flip: zdiv_zmult2_eq)
  have a: "s div 3600000000 * 60 + s div 60000000 mod 60 = s div 60000000" unfolding m(2) by simp
  have b: "s div 60000000 * 60 + s div 1000000 mod 60 = s div 1000000" unfolding m(1) by simp
  show ?thesis unfolding clock_micros_def prod.case a b by simp
qed

theorem parse_instant_text:
  assumes "valid_instant t"
  shows "fromisoformat (iso_zulu (instant_text t)) = Some (PyDatetime t (Some 0))"
proof -
  let ?ord = "date_of_instant t" and ?s = "t mod day_micros"
  obtain y m d where ymd: "ord_to_ymd ?ord = (y, m, d)" using prod_cases3 by blast
  have o: "1 \<le> ?ord" "?ord \<le> max_ordinal" using assms by (auto simp: valid_instant_def date_of_instant_def day_micros_def max_ordinal_def)
  note cd = civil_date_of_ordinal [OF o ymd]
  have ml: "month_length y m \<le> 31" if "1 \<le> m" "m \<le> 12"
  proof -
    have "m \<in> {1, 2, 3, 4, 5, 6, 7, 8, 9, 10, 11, 12}" unfolding insert_iff empty_iff using that by presburger
    then show ?thesis by (auto simp: month_length_def days_in_month_def)
  qed
  have b: "1 \<le> y" "y \<le> 9999" "1 \<le> m" "m \<le> 12" "1 \<le> d" "d \<le> 31"
    using cd ml by (auto simp: civil_date_def split: if_splits)
  have s: "0 \<le> ?s" "?s < 86400000000" by (simp_all add: day_micros_def)
  let ?h = "?s div 3600000000" and ?mi = "?s div 60000000 mod 60" and ?sc = "?s div 1000000 mod 60" and ?us = "?s mod 1000000"
  have c: "0 \<le> ?h" "?h < 24" "0 \<le> ?mi" "?mi < 60" "0 \<le> ?sc" "?sc < 60" "0 \<le> ?us" "?us < 1000000" using s by auto
  have z: "iso_digits 4 (zfill 4 y) = Some y" by (rule zfill_digits(1)) (use b(1,2) in simp_all)
  have z2: "iso_digits 2 (zfill 2 v) = Some v" if "0 \<le> v" "v < 100" for v by (rule zfill_digits(1)) (use that in simp_all)
  have z6: "iso_digits 6 (zfill 6 v) = Some v" if "0 \<le> v" "v < 1000000" for v by (rule zfill_digits(1)) (use that in simp_all)
  have zm: "iso_digits 2 (zfill 2 m) = Some m" by (rule z2) (use b(3,4) in linarith)+
  have zd: "iso_digits 2 (zfill 2 d) = Some d" by (rule z2) (use b(5,6) in linarith)+
  have zh: "iso_digits 2 (zfill 2 ?h) = Some ?h" by (rule z2) (use c(1,2) in linarith)+
  have zn: "iso_digits 2 (zfill 2 ?mi) = Some ?mi" by (rule z2) (use c(3,4) in linarith)+
  have zs: "iso_digits 2 (zfill 2 ?sc) = Some ?sc" by (rule z2) (use c(5,6) in linarith)+
  have zu: "iso_digits 6 (zfill 6 ?us) = Some ?us" by (rule z6) (use c(7,8) in linarith)+
  obtain y1 y2 y3 y4 where Y: "zfill 4 y = [y1, y2, y3, y4]" using digit_list [OF z] by (metis split_chars numeral_nat length_0_conv)
  obtain m1 m2 where M: "zfill 2 m = [m1, m2]" using digit_list [OF zm] two_chars by blast
  obtain d1 d2 where D: "zfill 2 d = [d1, d2]" using digit_list [OF zd] two_chars by blast
  obtain h1 h2 where H: "zfill 2 ?h = [h1, h2]" using digit_list [OF zh] two_chars by blast
  obtain n1 n2 where N: "zfill 2 ?mi = [n1, n2]" using digit_list [OF zn] two_chars by blast
  obtain s1 s2 where S: "zfill 2 ?sc = [s1, s2]" using digit_list [OF zs] two_chars by blast
  obtain u1 u2 u3 u4 u5 u6 where U: "zfill 6 ?us = [u1, u2, u3, u4, u5, u6]" using digit_list [OF zu] by (metis split_chars numeral_nat length_0_conv)
  have e: "instant_text t = [y1, y2, y3, y4, CHR ''-'', m1, m2, CHR ''-'', d1, d2, CHR ''T'', h1, h2, CHR '':'', n1, n2, CHR '':'', s1, s2,
      CHR ''.'', u1, u2, u3, u4, u5, u6, CHR ''Z'']"
    by (simp add: instant_text_def date_iso_def ymd Y M D H N S U Let_def)
  have clock: "clock_micros (?h, ?mi, ?sc, ?us) = ?s" by (rule clock_split)
  have t: "(?ord - 1) * day_micros + ?s = t" by (simp add: date_of_instant_def)
  have w: "iso_zulu (instant_text t) = [y1, y2, y3, y4, CHR ''-'', m1, m2, CHR ''-'', d1, d2, CHR ''T'', h1, h2, CHR '':'', n1, n2, CHR '':'', s1, s2,
      CHR ''.'', u1, u2, u3, u4, u5, u6, CHR ''+'', CHR ''0'', CHR ''0'', CHR '':'', CHR ''0'', CHR ''0'']"
    unfolding e iso_zulu_def by simp
  have "fromisoformat (iso_zulu (instant_text t)) = Some (PyDatetime ((?ord - 1) * day_micros + clock_micros (?h, ?mi, ?sc, ?us)) (Some 0))"
    unfolding w by (rule parse_parts [OF z [unfolded Y] zm [unfolded M] zd [unfolded D] zh [unfolded H] zn [unfolded N] zs [unfolded S] zu [unfolded U] cd c(2,4,6)])
  then show ?thesis unfolding clock t .
qed

corollary instant_text_inject:
  assumes "valid_instant s" and "valid_instant t" and "instant_text s = instant_text t"
  shows "s = t"
proof -
  have "Some (PyDatetime s (Some 0)) = Some (PyDatetime t (Some 0))"
    unfolding parse_instant_text [OF assms(1), symmetric] parse_instant_text [OF assms(2), symmetric] assms(3) ..
  then show ?thesis by simp
qed

end
