(* ===== verification/Evidence.thy ===== *)
theory Evidence
  imports IsoTime
begin

text \<open>
  The vocabulary the evidence modules of \<open>app/services\<close> share.  Each of them has
  a private copy of the same validators (\<open>_text\<close>, \<open>_hash\<close>, \<open>_finite\<close>, \<open>_utc\<close>), of
  the same readers of a parsed JSON document (\<open>_object\<close>, \<open>_exact_keys\<close>, \<open>_string\<close>,
  \<open>_parse_timestamp\<close>, \<open>_parse_float_bits\<close>) and of the strict \<open>json.loads\<close> call; the
  copies differ in the exception they raise, which is an argument here.

  The locale \<open>evidence_codec\<close> is the contract of such a module: a validator, the
  document of a validated payload and the reader of documents.  Its lemmas say that
  the canonical bytes decode to the payload they were made of; \<open>idempotent_codec\<close> adds
  that validation is idempotent, so that the validated payload is read back and two
  payloads with the same bytes are equal.  Every module interprets the one it satisfies.
\<close>

section \<open>Validators of objects\<close>

definition ev_text :: "(string \<Rightarrow> exn) \<Rightarrow> nat \<Rightarrow> pyobj \<Rightarrow> string \<Rightarrow> string res" where
  "ev_text raise maximum v label =
     (case v of
        PyStr s \<Rightarrow>
          let normalized = nfc s in
          if normalized = [] \<or> py_strip normalized \<noteq> normalized \<or> maximum < length normalized
             \<or> has_surrogate normalized
          then Inl (raise (label @ '' must be a non-empty trimmed string''))
          else Inr normalized
      | _ \<Rightarrow> Inl (raise (label @ '' must be a string'')))"

definition ev_hash :: "(string \<Rightarrow> exn) \<Rightarrow> pyobj \<Rightarrow> string \<Rightarrow> string res" where
  "ev_hash raise v label =
     (case v of
        PyStr s \<Rightarrow>
          if content_id_pattern s then Inr s
          else Inl (raise (label @ '' must be a canonical sha256 hash''))
      | _ \<Rightarrow> Inl (raise (label @ '' must be a canonical sha256 hash'')))"

definition ev_finite :: "(string \<Rightarrow> exn) \<Rightarrow> pyobj \<Rightarrow> string \<Rightarrow> f64 res" where
  "ev_finite raise v label =
     (case real_float v of
        None \<Rightarrow> Inl (raise (label @ '' must be a finite real number''))
      | Some (Inl _) \<Rightarrow> Inl (raise (label @ '' must be a finite real number''))
      | Some (Inr x) \<Rightarrow>
          if \<not> f_isfinite x then Inl (raise (label @ '' must be finite''))
          else Inr (if f_eq x f_zero then f_zero else x))"

text \<open>\<open>struct.pack(">d", value).hex()\<close>\<close>

definition float_bits :: "f64 \<Rightarrow> string" where
  "float_bits x = hex_fixed 16 (uint x)"

text \<open>An aware \<open>datetime\<close> in UTC.\<close>

definition aware :: "instant \<Rightarrow> pyobj" where
  "aware t = PyDatetime t (Some 0)"

text \<open>\<open>type(a) is type(b) and a == b\<close>; an object of another class equals nothing.\<close>

definition obj_same :: "pyobj \<Rightarrow> pyobj \<Rightarrow> bool" where
  "obj_same a b =
     (case a of
        PyFloat x \<Rightarrow> (case b of PyFloat y \<Rightarrow> f_eq x y | _ \<Rightarrow> False)
      | PyDec x \<Rightarrow> (case b of PyDec y \<Rightarrow> dec_eq x y | _ \<Rightarrow> False)
      | PyDatetime s off \<Rightarrow>
          (case b of
             PyDatetime t off' \<Rightarrow>
               (case off of
                  None \<Rightarrow> off' = None \<and> s = t
                | Some x \<Rightarrow> (case off' of None \<Rightarrow> False | Some y \<Rightarrow> s - x = t - y))
           | _ \<Rightarrow> False)
      | PyOther \<Rightarrow> False
      | _ \<Rightarrow> a = b)"

section \<open>Readers of documents\<close>

definition ev_object :: "exn \<Rightarrow> json \<Rightarrow> (string \<times> json) list res" where
  "ev_object e j = (case j of JObj d \<Rightarrow> Inr d | _ \<Rightarrow> Inl e)"

definition ev_array :: "exn \<Rightarrow> json \<Rightarrow> json list res" where
  "ev_array e j = (case j of JArr xs \<Rightarrow> Inr xs | _ \<Rightarrow> Inl e)"

definition ev_string :: "exn \<Rightarrow> json \<Rightarrow> string res" where
  "ev_string e j = (case j of JStr s \<Rightarrow> Inr s | _ \<Rightarrow> Inl e)"

definition ev_integer :: "exn \<Rightarrow> json \<Rightarrow> int res" where
  "ev_integer e j = (case j of JInt i \<Rightarrow> Inr i | _ \<Rightarrow> Inl e)"

definition ev_exact_keys :: "exn \<Rightarrow> (string \<times> json) list \<Rightarrow> string list \<Rightarrow> unit res" where
  "ev_exact_keys e d expected = check (dict_keys d \<noteq> set expected) e"

definition ev_field :: "(string \<times> json) list \<Rightarrow> string \<Rightarrow> json res" where
  "ev_field d k = (case dict_get d k of Some v \<Rightarrow> Inr v | None \<Rightarrow> Inl (KeyErr k))"

definition ev_parse_timestamp :: "(string \<Rightarrow> exn) \<Rightarrow> json \<Rightarrow> string \<Rightarrow> instant res" where
  "ev_parse_timestamp raise j label =
     bind_res (ev_string (raise (label @ '' must be a string'')) j) (\<lambda>raw.
     case fromisoformat (iso_zulu raw) of
       None \<Rightarrow> Inl (raise (label @ '' must be an ISO timestamp''))
     | Some parsed \<Rightarrow> utc_of raise parsed label)"

text \<open>\<open>struct.unpack(">d", bytes.fromhex(raw))[0]\<close> behind the pattern test.\<close>

definition ev_parse_float_bits :: "(string \<Rightarrow> exn) \<Rightarrow> json \<Rightarrow> string \<Rightarrow> f64 res" where
  "ev_parse_float_bits raise j label =
     bind_res (ev_string (raise (label @ '' must be a string'')) j) (\<lambda>raw.
     bind_res (check (\<not> binary64_hex_pattern raw)
       (raise (label @ '' must be 16 lowercase hexadecimal digits''))) (\<lambda>_.
     ev_finite raise (PyFloat (of_int (unhex raw))) label))"

text \<open>The loop of \<open>_unique_object\<close>; \<open>dup key\<close> is the exception of a repeated key.\<close>

fun ev_unique :: "(string \<Rightarrow> exn) \<Rightarrow> (string \<times> json) list \<Rightarrow> (string \<times> json) list \<Rightarrow> json res" where
  "ev_unique dup result [] = Inr (JObj result)"
| "ev_unique dup result ((k, v) # pairs) =
     (if k \<in> dict_keys result then Inl (dup k) else ev_unique dup (result @ [(k, v)]) pairs)"

definition strict_hooks :: "(string \<Rightarrow> exn) \<Rightarrow> (string \<Rightarrow> exn) \<Rightarrow> json_hooks" where
  "strict_hooks dup constant =
     \<lparr>jh_object = ev_unique dup [], jh_constant = (\<lambda>name. Inl (constant name))\<rparr>"

text \<open>
  The \<open>try\<close> block around \<open>json.loads\<close>: the exceptions \<open>own\<close> pass, any other
  becomes \<open>e\<close>.
\<close>

definition ev_loads :: "(exn \<Rightarrow> bool) \<Rightarrow> exn \<Rightarrow> json_hooks \<Rightarrow> bytes \<Rightarrow> json res" where
  "ev_loads own e h b =
     (case json_loads_with h b of
        Inr j \<Rightarrow> Inr j
      | Inl x \<Rightarrow> Inl (if own x then x else e))"

section \<open>Facts about the validators\<close>

lemma aware_utc [simp]: "valid_instant t \<Longrightarrow> utc_of raise (aware t) label = Inr t"
  by (simp add: aware_def utc_of_def valid_instant_def)

lemma utc_of_valid: "utc_of raise v label = Inr t \<Longrightarrow> valid_instant t"
  by (auto simp: utc_of_Inr_iff valid_instant_def)

definition text_ok :: "nat \<Rightarrow> string \<Rightarrow> bool" where
  "text_ok n s \<longleftrightarrow> s \<noteq> [] \<and> py_strip s = s \<and> length s \<le> n \<and> \<not> has_surrogate s"

lemma ev_text_Inr_iff: "ev_text raise n v label = Inr s \<longleftrightarrow> v = PyStr s \<and> text_ok n s"
  by (auto simp: ev_text_def text_ok_def nfc_def Let_def not_less split: pyobj.splits)

lemma ev_text_id [simp]: "text_ok n s \<Longrightarrow> ev_text raise n (PyStr s) label = Inr s"
  by (simp add: ev_text_Inr_iff)

lemma ev_hash_id [simp]: "content_id_pattern s \<Longrightarrow> ev_hash raise (PyStr s) label = Inr s"
  by (simp add: ev_hash_def)

lemma ev_hash_Inr_iff: "ev_hash raise v label = Inr s \<longleftrightarrow> v = PyStr s \<and> content_id_pattern s"
  by (auto simp: ev_hash_def split: pyobj.splits)

definition normal_float :: "f64 \<Rightarrow> bool" where
  "normal_float x \<longleftrightarrow> f_isfinite x \<and> (f_eq x f_zero \<longrightarrow> x = f_zero)"

lemma ev_finite_normal: "ev_finite raise v label = Inr x \<Longrightarrow> normal_float x"
  by (auto simp: ev_finite_def normal_float_def f_isfinite_def f_idx_def f_zero_def inf_idx_def
      split: option.splits sum.splits if_splits)

lemma ev_finite_id [simp]: "normal_float x \<Longrightarrow> ev_finite raise (PyFloat x) label = Inr x"
  by (auto simp: ev_finite_def normal_float_def real_float_def)

lemma obj_same_aware [simp]: "obj_same (aware s) (aware t) \<longleftrightarrow> s = t"
  by (simp add: aware_def obj_same_def)

lemma obj_same_aware_iff:
  "obj_same v (aware t) \<longleftrightarrow> (\<exists>l off. v = PyDatetime l (Some off) \<and> l - off = t)"
  by (auto simp: aware_def obj_same_def split: pyobj.splits option.splits)

lemma obj_same_simps [simp]:
  "obj_same v (PyStr s) \<longleftrightarrow> v = PyStr s"
  "obj_same v (PyInt i) \<longleftrightarrow> v = PyInt i"
  "obj_same v (PyBytes b) \<longleftrightarrow> v = PyBytes b"
  "obj_same v PyNone \<longleftrightarrow> v = PyNone"
  by (auto simp: obj_same_def split: pyobj.splits)

lemma obj_same_float: "obj_same v (PyFloat y) \<longleftrightarrow> (\<exists>x. v = PyFloat x \<and> f_eq x y)"
  by (auto simp: obj_same_def split: pyobj.splits)

section \<open>Reading back\<close>

lemma dict_keys_Cons [simp]: "dict_keys [] = {}" "dict_keys ((k, v) # d) = insert k (dict_keys d)"
  by (simp_all add: dict_keys_def)

lemma dict_get_in: "dict_get d k = Some v \<Longrightarrow> (k, v) \<in> set d"
  by (induction d k rule: dict_get.induct) (auto split: if_splits)

lemma dict_get_iff: "distinct (map fst d) \<Longrightarrow> dict_get d k = Some v \<longleftrightarrow> (k, v) \<in> set d"
  by (induction d k rule: dict_get.induct) (auto simp: rev_image_eqI)

lemma dict_get_None: "dict_get d k = None \<longleftrightarrow> k \<notin> dict_keys d"
  by (induction d k rule: dict_get.induct) (auto simp: dict_keys_def)

definition sorted_members :: "(string \<times> json) list \<Rightarrow> (string \<times> json) list" where
  "sorted_members d = sort_key fst (map (\<lambda>(k, v). (k, jsort v)) d)"

lemma jsort_JObj: "jsort (JObj d) = JObj (sorted_members d)"
  by (simp add: sorted_members_def)

lemma dict_keys_sorted_members [simp]: "dict_keys (sorted_members d) = dict_keys d"
  by (force simp: dict_keys_def sorted_members_def image_image)

lemma dict_get_sorted_members [simp]:
  assumes "distinct (map fst d)"
  shows "dict_get (sorted_members d) k = map_option jsort (dict_get d k)"
proof -
  have "map fst (map (\<lambda>(k, v). (k, jsort v)) d) = map fst d" by auto
  then have "distinct (map fst (map (\<lambda>(k, v). (k, jsort v)) d))" using assms by (simp only:)
  then have "distinct (map fst (sorted_members d))"
    unfolding sorted_members_def distinct_map set_sort distinct_sort .
  note get = dict_get_iff [OF this]
  show ?thesis
  proof (cases "dict_get d k")
    case None
    then have "dict_get (sorted_members d) k = None" by (simp add: dict_get_None)
    then show ?thesis using None by simp
  next
    case (Some v)
    then have "(k, jsort v) \<in> set (sorted_members d)"
      by (force simp: sorted_members_def dest!: dict_get_in)
    then show ?thesis using Some get by simp
  qed
qed

lemma ev_object_jsort: "ev_object e (jsort (JObj d)) = Inr (sorted_members d)"
  by (simp only: jsort_JObj ev_object_def json.case)

lemma ev_exact_keys_ok: "dict_keys d = set ks \<Longrightarrow> ev_exact_keys e d ks = Inr ()"
  by (simp add: ev_exact_keys_def)

lemma ev_field_sorted:
  "distinct (map fst d) \<Longrightarrow> dict_get d k = Some v \<Longrightarrow> ev_field (sorted_members d) k = Inr (jsort v)"
  by (simp add: ev_field_def)

lemma ev_string_JStr [simp]: "ev_string e (JStr s) = Inr s"
  by (simp add: ev_string_def)

lemma ev_integer_JInt [simp]: "ev_integer e (JInt i) = Inr i"
  by (simp add: ev_integer_def)

lemma ev_array_jsort [simp]: "ev_array e (jsort (JArr xs)) = Inr (map jsort xs)"
  by (simp add: ev_array_def)

lemma ev_parse_timestamp_text [simp]:
  "valid_instant t \<Longrightarrow> ev_parse_timestamp raise (JStr (instant_text t)) label = Inr t"
  by (simp add: ev_parse_timestamp_def parse_instant_text flip: aware_def)

lemma unhex_float_bits: "(of_int (unhex (float_bits x)) :: f64) = x"
proof -
  have "uint x < 16 ^ 16" using uint_lt2p [of x] by simp
  then show ?thesis by (simp add: float_bits_def unhex_hex_fixed)
qed

lemma ev_parse_float_bits_text [simp]:
  assumes "normal_float x"
  shows "ev_parse_float_bits raise (JStr (float_bits x)) label = Inr x"
proof -
  have "binary64_hex_pattern (float_bits x)"
    by (auto simp: binary64_hex_pattern_def float_bits_def hex_fixed_digits)
  then show ?thesis using assms by (simp add: ev_parse_float_bits_def unhex_float_bits)
qed

lemma float_bits_inject: "float_bits x = float_bits y \<longleftrightarrow> x = y"
  by (metis unhex_float_bits)

lemma ev_unique_distinct:
  "distinct (map fst (result @ pairs)) \<Longrightarrow> ev_unique dup result pairs = Inr (JObj (result @ pairs))"
  by (induction dup result pairs rule: ev_unique.induct) (auto simp: dict_keys_def)

lemma strict_hooks_plain: "plain_hooks (strict_hooks dup constant)"
  by (simp add: plain_hooks_def strict_hooks_def ev_unique_distinct)

lemma ev_loads_canonical:
  "plain j \<Longrightarrow> canonical_json j = Inr b \<Longrightarrow> ev_loads own e (strict_hooks dup constant) b = Inr (jsort j)"
  by (simp add: ev_loads_def loads_with_canonical [OF strict_hooks_plain])

section \<open>The size of the canonical form\<close>

text \<open>An upper bound of the rendered length, from the sizes of the leaves.\<close>

fun size_bound :: "json \<Rightarrow> nat" where
  "size_bound JNull = 4"
| "size_bound (JBool b) = 5"
| "size_bound (JInt i) = length (int_str i)"
| "size_bound (JFloat x) = length (f_repr x)"
| "size_bound (JStr s) = 6 * length s + 2"
| "size_bound (JArr js) = 2 + sum_list (map (\<lambda>j. size_bound j + 1) js)"
| "size_bound (JObj d) = 2 + sum_list (map (\<lambda>(k, v). 6 * length k + size_bound v + 4) d)"

lemma length_join_comma: "length (join_comma xs) \<le> sum_list (map (\<lambda>x. length x + 1) xs)"
  by (induction xs rule: join_comma.induct) simp_all

lemma length_esc_char: "length (esc_char c) \<le> 6"
  by (simp add: esc_char_def)

lemma length_render_str: "length (render_str s) \<le> 6 * length s + 2"
proof -
  have "length (concat (map esc_char s)) \<le> 6 * length s"
    by (induction s) (use length_esc_char in \<open>auto intro: add_mono\<close>)
  then show ?thesis by (simp add: render_str_def)
qed

lemma length_render: "length (render j) \<le> size_bound j"
proof (induction j)
  case (JStr s)
  then show ?case by (simp only: render.simps size_bound.simps length_render_str)
next
  case (JArr js)
  have "sum_list (map (\<lambda>x. length x + 1) (map render js)) \<le> sum_list (map (\<lambda>j. size_bound j + 1) js)"
    unfolding map_map by (rule sum_list_mono) (use JArr in simp)
  with length_join_comma [of "map render js"] show ?case by simp
next
  case (JObj d)
  have "sum_list (map (\<lambda>x. length x + 1) (map render_member d))
      \<le> sum_list (map (\<lambda>(k, v). 6 * length k + size_bound v + 4) d)"
    unfolding map_map
  proof (rule sum_list_mono)
    fix x assume x: "x \<in> set d"
    obtain k v where kv: "x = (k, v)" by (cases x)
    have "length (render v) \<le> size_bound v" using JObj [of x v] x kv by simp
    then show "((\<lambda>x. length x + 1) \<circ> render_member) x \<le> (case x of (k, v) \<Rightarrow> 6 * length k + size_bound v + 4)"
      using length_render_str [of k] by (simp add: kv render_member_def)
  qed
  with length_join_comma [of "map render_member d"] show ?case by (simp only: render_JObj) simp
qed simp_all

lemma size_bound_jsort: "size_bound (jsort j) = size_bound j"
proof (induction j)
  case (JArr js)
  then show ?case by (simp add: comp_def cong: map_cong)
next
  case (JObj d)
  let ?f = "\<lambda>(k, v). (k, jsort v)" and ?g = "\<lambda>(k, v). 6 * length k + size_bound v + 4"
  have "sum_list (map ?g (sort_key fst (map ?f d))) = sum_list (map ?g (map ?f d))"
    unfolding sum_mset_sum_list [symmetric] mset_map mset_sort ..
  also have "map ?g (map ?f d) = map ?g d"
    unfolding map_map by (rule map_cong) (use JObj in fastforce)+
  finally show ?case by simp
qed simp_all

lemma length_utf8: "length (utf8_encode s) \<le> 2 * length s"
  by (induction s) (auto simp: utf8_encode_def utf8_char_def)

lemma canonical_size: "length (canonical_bytes j) \<le> 2 * size_bound j"
  using length_utf8 [of "render (jsort j)"] length_render [of "jsort j"] size_bound_jsort [of j]
  by (simp add: canonical_bytes_def)

lemma canonical_nonempty: "canonical_bytes (JObj d) \<noteq> []"
  by (simp add: canonical_bytes_def utf8_encode_def utf8_char_def)

lemma length_instant_text:
  assumes "valid_instant t"
  shows "length (instant_text t) = 27"
proof -
  obtain y m d where ymd: "ord_to_ymd (date_of_instant t) = (y, m, d)" using prod_cases3 by blast
  have o: "1 \<le> date_of_instant t" "date_of_instant t \<le> max_ordinal" using assms by (auto simp: valid_instant_def date_of_instant_def day_micros_def max_ordinal_def)
  have b: "1 \<le> y" "y \<le> 9999" "1 \<le> m" "m \<le> 12" "1 \<le> d" "d \<le> month_length y m"
    using civil_date_of_ordinal [OF o ymd] by (auto simp: civil_date_def split: if_splits)
  have "m \<in> {1, 2, 3, 4, 5, 6, 7, 8, 9, 10, 11, 12}" unfolding insert_iff empty_iff using b by presburger
  then have d: "d < 100" using b by (auto simp: month_length_def days_in_month_def split: if_splits)
  let ?s = "t mod day_micros"
  have s: "0 \<le> ?s" "?s < 86400000000" by (simp_all add: day_micros_def)
  have z: "length (zfill w v) = w" if "0 \<le> v" "v < 10 ^ w" "0 < w" for w v
    using zfill_digits(1) [OF that] digit_list by blast
  have "?s div 3600000000 < 24" using s by auto
  then show ?thesis using b d s ymd
    by (simp add: instant_text_def date_iso_def Let_def z)
qed

lemma length_float_bits [simp]: "length (float_bits x) = 16"
  by (simp add: float_bits_def)

section \<open>The contract\<close>

locale evidence_codec =
  fixes norm :: "'a \<Rightarrow> 'p res"
    and arg :: "'p \<Rightarrow> 'a"
    and document :: "'p \<Rightarrow> json res"
    and decode :: "json \<Rightarrow> 'a res"
  assumes document_ok: "norm a = Inr p \<Longrightarrow>
      \<exists>j. document p = Inr j \<and> plain j \<and> decode (jsort j) = Inr (arg p)"
begin

lemma documentE:
  assumes "norm a = Inr p"
  obtains j where "document p = Inr j" and "plain j" and "decode (jsort j) = Inr (arg p)"
    and "canonical_json j = Inr (canonical_bytes j)"
  using document_ok [OF assms] canonical_json_total by blast

lemma decodes_back:
  assumes "norm a = Inr p" and "bind_res (document p) canonical_json = Inr b"
  shows "bind_res (ev_loads own e (strict_hooks dup constant) b) decode = Inr (arg p)"
proof -
  obtain j where j: "document p = Inr j" "plain j" "decode (jsort j) = Inr (arg p)"
    using assms(1) by (rule documentE)
  then show ?thesis using assms ev_loads_canonical [OF j(2)] by simp
qed

lemma same_bytes_same_arg:
  assumes "norm a = Inr p" and "norm a' = Inr p'"
    and "bind_res (document p) canonical_json = bind_res (document p') canonical_json"
  shows "arg p = arg p'"
proof -
  obtain j where j: "document p = Inr j" "plain j" "decode (jsort j) = Inr (arg p)"
    using assms(1) by (rule documentE)
  obtain j' where j': "document p' = Inr j'" "plain j'" "decode (jsort j') = Inr (arg p')"
    using assms(2) by (rule documentE)
  have "jsort j = jsort j'"
    using assms(3) j j' by (intro canonical_json_inject) simp_all
  then show ?thesis using j(3) j'(3) by simp
qed

end

text \<open>A codec whose validator accepts what it returned, unchanged.\<close>

locale idempotent_codec = evidence_codec norm arg document decode
  for norm :: "'a \<Rightarrow> 'p res" and arg :: "'p \<Rightarrow> 'a" and document :: "'p \<Rightarrow> json res" and decode :: "json \<Rightarrow> 'a res" +
  assumes norm_arg: "norm a = Inr p \<Longrightarrow> norm (arg p) = Inr p"
begin

lemma reads_back:
  assumes "norm a = Inr p" and "bind_res (document p) canonical_json = Inr b"
  shows "bind_res (ev_loads own e (strict_hooks dup constant) b) (\<lambda>j. bind_res (decode j) norm) = Inr p"
proof -
  have "bind_res (ev_loads own e (strict_hooks dup constant) b) decode = Inr (arg p)"
    by (rule decodes_back [OF assms])
  then show ?thesis using norm_arg [OF assms(1)] by (auto simp: bind_res_Inr_iff)
qed

lemma bytes_inject:
  assumes "norm a = Inr p" and "norm a' = Inr p'"
    and "bind_res (document p) canonical_json = bind_res (document p') canonical_json"
  shows "p = p'"
proof -
  have "norm (arg p) = norm (arg p')" by (simp only: same_bytes_same_arg [OF assms])
  then show ?thesis unfolding norm_arg [OF assms(1)] norm_arg [OF assms(2)] by (rule sum.inject(2) [THEN iffD1])
qed

end

end
