(* ===== verification/ForecastOutcomes.thy ===== *)
theory ForecastOutcomes
  imports Evidence
begin

text \<open>
  \<open>app/services/forecast_outcomes.py\<close>: the content-addressed evidence of one
  realized close.  The dataclasses are validated only by \<open>_normalized_payload\<close>, so
  their fields are objects (\<open>...Arg\<close> records); the validated rows are the typed
  records of the same classes.  The stored row is compared field by field against
  a rebuilt one, so its fields stay objects.
\<close>

section \<open>Data\<close>

definition OUTCOME_SCHEMA_VERSION :: int where
  "OUTCOME_SCHEMA_VERSION = 1"

definition OUTCOME_FORMAT :: string where
  "OUTCOME_FORMAT = ''forecast-realized-outcome-v1''"

definition oc_max_canonical_bytes :: nat where
  "oc_max_canonical_bytes = 262144"

definition oc_root_keys :: "string list" where
  "oc_root_keys = [''format'', ''payload'', ''schema_version'']"

definition oc_payload_keys :: "string list" where
  "oc_payload_keys = [''availability_rule_set_hash'', ''currency'', ''outcome_resolution_policy_hash'',
     ''realized_value_f64'', ''resolution_cutoff'', ''series_basis'', ''source_version'', ''symbol'',
     ''target'', ''target_time'']"

definition oc_source_keys :: "string list" where
  "oc_source_keys = [''adjustment_basis'', ''available_at'', ''fetched_at'', ''field'', ''multiplier'',
     ''observed_at'', ''source'', ''source_as_of'', ''symbol'', ''timespan'', ''value_f64'',
     ''version_recorded_at'']"

abbreviation oc_error :: "string \<Rightarrow> exn" where
  "oc_error m \<equiv> OutcomeValidationError m"

record BarVersionEvidenceArg =
  bva_symbol :: pyobj
  bva_timespan :: pyobj
  bva_multiplier :: pyobj
  bva_observed_at :: pyobj
  bva_source :: pyobj
  bva_adjustment_basis :: pyobj
  bva_fetched_at :: pyobj
  bva_source_as_of :: pyobj
  bva_version_recorded_at :: pyobj
  bva_available_at :: pyobj
  bva_field :: pyobj
  bva_value :: pyobj

record BarVersionEvidence =
  bv_symbol :: string
  bv_timespan :: string
  bv_multiplier :: int
  bv_observed_at :: instant
  bv_source :: string
  bv_adjustment_basis :: string
  bv_fetched_at :: instant
  bv_source_as_of :: instant
  bv_version_recorded_at :: instant
  bv_available_at :: instant
  bv_field :: string
  bv_value :: f64

record RealizedOutcomePayloadArg =
  opa_outcome_resolution_policy_hash :: pyobj
  opa_availability_rule_set_hash :: pyobj
  opa_resolution_cutoff :: pyobj
  opa_symbol :: pyobj
  opa_target :: pyobj
  opa_series_basis :: pyobj
  opa_target_time :: pyobj
  opa_currency :: pyobj
  opa_realized_value :: pyobj
  opa_source_version :: "BarVersionEvidenceArg pyarg"
  opa_schema_version :: pyobj

record RealizedOutcomePayload =
  op_outcome_resolution_policy_hash :: string
  op_availability_rule_set_hash :: string
  op_resolution_cutoff :: instant
  op_symbol :: string
  op_target :: string
  op_series_basis :: string
  op_target_time :: instant
  op_currency :: string
  op_realized_value :: f64
  op_source_version :: BarVersionEvidence
  op_schema_version :: int

record RealizedOutcomeRecord =
  or_outcome_id :: pyobj
  or_schema_version :: pyobj
  or_outcome_resolution_policy_hash :: pyobj
  or_availability_rule_set_hash :: pyobj
  or_symbol :: pyobj
  or_target :: pyobj
  or_series_basis :: pyobj
  or_target_time :: pyobj
  or_currency :: pyobj
  or_resolution_cutoff :: pyobj
  or_bar_timespan :: pyobj
  or_bar_multiplier :: pyobj
  or_bar_observed_at :: pyobj
  or_bar_source :: pyobj
  or_bar_adjustment_basis :: pyobj
  or_bar_version_recorded_at :: pyobj
  or_bar_fetched_at :: pyobj
  or_bar_source_as_of :: pyobj
  or_bar_available_at :: pyobj
  or_bar_field :: pyobj
  or_bar_value :: pyobj
  or_realized_value :: pyobj
  or_sealed_at :: pyobj
  or_canonical_evidence :: pyobj

text \<open>A validated object passed as an argument again.\<close>

definition source_arg :: "BarVersionEvidence \<Rightarrow> BarVersionEvidenceArg" where
  "source_arg s = \<lparr>bva_symbol = PyStr (bv_symbol s), bva_timespan = PyStr (bv_timespan s),
     bva_multiplier = PyInt (bv_multiplier s), bva_observed_at = aware (bv_observed_at s),
     bva_source = PyStr (bv_source s), bva_adjustment_basis = PyStr (bv_adjustment_basis s),
     bva_fetched_at = aware (bv_fetched_at s), bva_source_as_of = aware (bv_source_as_of s),
     bva_version_recorded_at = aware (bv_version_recorded_at s), bva_available_at = aware (bv_available_at s),
     bva_field = PyStr (bv_field s), bva_value = PyFloat (bv_value s)\<rparr>"

definition outcome_arg :: "RealizedOutcomePayload \<Rightarrow> RealizedOutcomePayloadArg" where
  "outcome_arg p = \<lparr>
     opa_outcome_resolution_policy_hash = PyStr (op_outcome_resolution_policy_hash p),
     opa_availability_rule_set_hash = PyStr (op_availability_rule_set_hash p),
     opa_resolution_cutoff = aware (op_resolution_cutoff p), opa_symbol = PyStr (op_symbol p),
     opa_target = PyStr (op_target p), opa_series_basis = PyStr (op_series_basis p),
     opa_target_time = aware (op_target_time p), opa_currency = PyStr (op_currency p),
     opa_realized_value = PyFloat (op_realized_value p),
     opa_source_version = Inst (source_arg (op_source_version p)),
     opa_schema_version = PyInt (op_schema_version p)\<rparr>"

section \<open>Validators\<close>

definition oc_utc :: "pyobj \<Rightarrow> string \<Rightarrow> instant res" where
  "oc_utc v label = utc_of OutcomeValidationError v label"

definition oc_text :: "nat \<Rightarrow> pyobj \<Rightarrow> string \<Rightarrow> string res" where
  "oc_text max_length v label = ev_text OutcomeValidationError max_length v label"

definition oc_hash :: "pyobj \<Rightarrow> string \<Rightarrow> string res" where
  "oc_hash v label = ev_hash OutcomeValidationError v label"

definition oc_finite :: "pyobj \<Rightarrow> string \<Rightarrow> f64 res" where
  "oc_finite v label = ev_finite OutcomeValidationError v label"

definition oc_float_bits :: "f64 \<Rightarrow> string res" where
  "oc_float_bits x = bind_res (oc_finite (PyFloat x) ''value'') (\<lambda>y. Inr (float_bits y))"

definition oc_timestamp :: "instant \<Rightarrow> string res" where
  "oc_timestamp t = bind_res (oc_utc (aware t) ''timestamp'') (\<lambda>utc. Inr (instant_text utc))"

text \<open>\<open>^[A-Z]{3}$\<close>, by \<open>fullmatch\<close>.\<close>

definition currency_pattern :: "string \<Rightarrow> bool" where
  "currency_pattern s \<longleftrightarrow> length s = 3 \<and> (\<forall>c \<in> set s. is_upper c)"

definition oc_normalized_source :: "BarVersionEvidenceArg pyarg \<Rightarrow> BarVersionEvidence res" where
  "oc_normalized_source arg =
     (case arg of
        Foreign \<Rightarrow> Inl (oc_error ''source_version has the wrong type'')
      | Inst source \<Rightarrow>
          bind_res (oc_text 32 (bva_symbol source) ''source_version.symbol'') (\<lambda>symbol.
          bind_res (check (symbol \<noteq> py_upper symbol \<or> \<not> symbol_pattern symbol)
            (oc_error ''source version symbol must be uppercase and canonical'')) (\<lambda>_.
          bind_res (check (bva_timespan source \<noteq> PyStr ''day'' \<or> bva_multiplier source \<noteq> PyInt 1)
            (oc_error ''outcome v1 requires one-day source bars'')) (\<lambda>_.
          bind_res (check (bva_adjustment_basis source \<noteq> PyStr ''raw'' \<or> bva_field source \<noteq> PyStr ''close'')
            (oc_error ''outcome v1 requires the raw close source field'')) (\<lambda>_.
          bind_res (oc_text 64 (bva_source source) ''source_version.source'') (\<lambda>source_name.
          bind_res (check (source_name \<noteq> ''polygon_open_close'')
            (oc_error ''outcome v1 requires the polygon_open_close source contract'')) (\<lambda>_.
          bind_res (oc_utc (bva_observed_at source) ''source_version.observed_at'') (\<lambda>observed_at.
          bind_res (oc_utc (bva_fetched_at source) ''source_version.fetched_at'') (\<lambda>fetched_at.
          bind_res (oc_utc (bva_source_as_of source) ''source_version.source_as_of'') (\<lambda>source_as_of.
          bind_res (oc_utc (bva_version_recorded_at source) ''source_version.version_recorded_at'') (\<lambda>version_recorded_at.
          bind_res (oc_utc (bva_available_at source) ''source_version.available_at'') (\<lambda>available_at.
          bind_res (check (\<not> (observed_at \<le> fetched_at \<and> fetched_at \<le> source_as_of
              \<and> source_as_of \<le> version_recorded_at \<and> version_recorded_at \<le> available_at))
            (oc_error ''source version availability timestamps are out of order'')) (\<lambda>_.
          bind_res (oc_finite (bva_value source) ''source_version.value'') (\<lambda>v.
          bind_res (check (f_lt v f_zero) (oc_error ''source close must be nonnegative'')) (\<lambda>_.
          Inr \<lparr>bv_symbol = symbol, bv_timespan = ''day'', bv_multiplier = 1, bv_observed_at = observed_at,
               bv_source = source_name, bv_adjustment_basis = ''raw'', bv_fetched_at = fetched_at,
               bv_source_as_of = source_as_of, bv_version_recorded_at = version_recorded_at,
               bv_available_at = available_at, bv_field = ''close'', bv_value = v\<rparr>)))))))))))))))"

definition oc_normalized_payload ::
  "RealizedOutcomePayloadArg pyarg \<Rightarrow> RealizedOutcomePayload res" where
  "oc_normalized_payload arg =
     (case arg of
        Foreign \<Rightarrow> Inl (TypeErr ''payload must be a RealizedOutcomePayload'')
      | Inst payload \<Rightarrow>
          bind_res (check (opa_schema_version payload \<noteq> PyInt OUTCOME_SCHEMA_VERSION)
            (oc_error ''outcome schema_version is not supported'')) (\<lambda>_.
          bind_res (oc_hash (opa_outcome_resolution_policy_hash payload) ''outcome_resolution_policy_hash'') (\<lambda>policy_hash.
          bind_res (oc_hash (opa_availability_rule_set_hash payload) ''availability_rule_set_hash'') (\<lambda>rule_set_hash.
          bind_res (oc_text 32 (opa_symbol payload) ''symbol'') (\<lambda>symbol.
          bind_res (check (symbol \<noteq> py_upper symbol \<or> \<not> symbol_pattern symbol)
            (oc_error ''symbol must be uppercase and canonical'')) (\<lambda>_.
          bind_res (check (opa_target payload \<noteq> PyStr ''close'')
            (oc_error ''outcome v1 supports raw close only'')) (\<lambda>_.
          bind_res (check (opa_series_basis payload \<noteq> PyStr ''raw'')
            (oc_error ''outcome v1 supports raw close only'')) (\<lambda>_.
          bind_res (oc_text 3 (opa_currency payload) ''currency'') (\<lambda>currency.
          bind_res (check (\<not> currency_pattern currency \<or> currency \<noteq> ''USD'')
            (oc_error ''outcome v1 currency must be USD'')) (\<lambda>_.
          bind_res (oc_utc (opa_target_time payload) ''target_time'') (\<lambda>target_time.
          bind_res (oc_utc (opa_resolution_cutoff payload) ''resolution_cutoff'') (\<lambda>cutoff.
          bind_res (oc_finite (opa_realized_value payload) ''realized_value'') (\<lambda>realized.
          bind_res (check (f_lt realized f_zero) (oc_error ''realized close must be nonnegative'')) (\<lambda>_.
          bind_res (oc_normalized_source (opa_source_version payload)) (\<lambda>source.
          bind_res (check (bv_symbol source \<noteq> symbol)
            (oc_error ''source version symbol does not match outcome'')) (\<lambda>_.
          bind_res (check (bv_observed_at source \<noteq> target_time)
            (oc_error ''source version timestamp does not match target_time'')) (\<lambda>_.
          bind_res (check (PyStr (bv_adjustment_basis source) \<noteq> opa_series_basis payload)
            (oc_error ''source version basis does not match outcome'')) (\<lambda>_.
          bind_res (oc_float_bits (bv_value source)) (\<lambda>source_bits.
          bind_res (oc_float_bits realized) (\<lambda>realized_bits.
          bind_res (check (source_bits \<noteq> realized_bits)
            (oc_error ''source version value does not match realized_value'')) (\<lambda>_.
          bind_res (check (bv_available_at source > cutoff)
            (oc_error ''source version was not available by resolution_cutoff'')) (\<lambda>_.
          Inr \<lparr>op_outcome_resolution_policy_hash = policy_hash,
               op_availability_rule_set_hash = rule_set_hash, op_resolution_cutoff = cutoff,
               op_symbol = symbol, op_target = ''close'', op_series_basis = ''raw'',
               op_target_time = target_time, op_currency = currency, op_realized_value = realized,
               op_source_version = source, op_schema_version = OUTCOME_SCHEMA_VERSION\<rparr>))))))))))))))))))))))"

section \<open>The canonical document\<close>

definition oc_source_document :: "BarVersionEvidence \<Rightarrow> json res" where
  "oc_source_document source =
     bind_res (oc_timestamp (bv_available_at source)) (\<lambda>available_at.
     bind_res (oc_timestamp (bv_fetched_at source)) (\<lambda>fetched_at.
     bind_res (oc_timestamp (bv_observed_at source)) (\<lambda>observed_at.
     bind_res (oc_timestamp (bv_source_as_of source)) (\<lambda>source_as_of.
     bind_res (oc_float_bits (bv_value source)) (\<lambda>value_f64.
     bind_res (oc_timestamp (bv_version_recorded_at source)) (\<lambda>version_recorded_at.
     Inr (JObj [
       (''adjustment_basis'', JStr (bv_adjustment_basis source)),
       (''available_at'', JStr available_at),
       (''fetched_at'', JStr fetched_at),
       (''field'', JStr (bv_field source)),
       (''multiplier'', JInt (bv_multiplier source)),
       (''observed_at'', JStr observed_at),
       (''source'', JStr (bv_source source)),
       (''source_as_of'', JStr source_as_of),
       (''symbol'', JStr (bv_symbol source)),
       (''timespan'', JStr (bv_timespan source)),
       (''value_f64'', JStr value_f64),
       (''version_recorded_at'', JStr version_recorded_at)])))))))"

definition oc_document :: "RealizedOutcomePayload \<Rightarrow> json res" where
  "oc_document p =
     bind_res (oc_float_bits (op_realized_value p)) (\<lambda>realized.
     bind_res (oc_timestamp (op_resolution_cutoff p)) (\<lambda>cutoff.
     bind_res (oc_source_document (op_source_version p)) (\<lambda>source.
     bind_res (oc_timestamp (op_target_time p)) (\<lambda>target_time.
     Inr (JObj [
       (''format'', JStr OUTCOME_FORMAT),
       (''payload'', JObj [
          (''availability_rule_set_hash'', JStr (op_availability_rule_set_hash p)),
          (''currency'', JStr (op_currency p)),
          (''outcome_resolution_policy_hash'', JStr (op_outcome_resolution_policy_hash p)),
          (''realized_value_f64'', JStr realized),
          (''resolution_cutoff'', JStr cutoff),
          (''series_basis'', JStr (op_series_basis p)),
          (''source_version'', source),
          (''symbol'', JStr (op_symbol p)),
          (''target'', JStr (op_target p)),
          (''target_time'', JStr target_time)]),
       (''schema_version'', JInt (op_schema_version p))])))))"

definition canonical_outcome_payload :: "RealizedOutcomePayloadArg pyarg \<Rightarrow> bytes res" where
  "canonical_outcome_payload payload =
     bind_res (oc_normalized_payload payload) (\<lambda>normalized.
     bind_res (oc_document normalized) (\<lambda>document.
     case canonical_json document of
       Inl _ \<Rightarrow> Inl (oc_error ''outcome payload cannot be encoded canonically'')
     | Inr canonical \<Rightarrow>
         if canonical = [] \<or> oc_max_canonical_bytes < length canonical
         then Inl (oc_error ''canonical outcome payload exceeds the storage limit'')
         else Inr canonical))"

section \<open>Reading the document\<close>

definition oc_unique_object :: "(string \<times> json) list \<Rightarrow> json res" where
  "oc_unique_object pairs =
     ev_unique (\<lambda>_. oc_error ''canonical payload contains a duplicate JSON key'') [] pairs"

definition oc_reject_json_constant :: "string \<Rightarrow> exn" where
  "oc_reject_json_constant v = oc_error (''JSON constant '' @ py_repr v @ '' is not permitted'')"

definition oc_hooks :: json_hooks where
  "oc_hooks = \<lparr>jh_object = oc_unique_object, jh_constant = (\<lambda>v. Inl (oc_reject_json_constant v))\<rparr>"

definition oc_exact_keys :: "(string \<times> json) list \<Rightarrow> string list \<Rightarrow> string \<Rightarrow> unit res" where
  "oc_exact_keys d expected label = ev_exact_keys (oc_error (label @ '' has missing or unknown keys'')) d expected"

definition oc_object :: "json \<Rightarrow> string \<Rightarrow> (string \<times> json) list res" where
  "oc_object j label = ev_object (oc_error (label @ '' must be a JSON object'')) j"

definition oc_string :: "json \<Rightarrow> string \<Rightarrow> string res" where
  "oc_string j label = ev_string (oc_error (label @ '' must be a string'')) j"

definition oc_integer :: "json \<Rightarrow> string \<Rightarrow> int res" where
  "oc_integer j label = ev_integer (oc_error (label @ '' must be an integer'')) j"

definition oc_parse_timestamp :: "json \<Rightarrow> string \<Rightarrow> instant res" where
  "oc_parse_timestamp j label = ev_parse_timestamp OutcomeValidationError j label"

definition oc_parse_float_bits :: "json \<Rightarrow> string \<Rightarrow> f64 res" where
  "oc_parse_float_bits j label = ev_parse_float_bits OutcomeValidationError j label"

definition oc_decode_source :: "(string \<times> json) list \<Rightarrow> BarVersionEvidenceArg res" where
  "oc_decode_source row =
     bind_res (bind_res (ev_field row ''symbol'') (\<lambda>j. oc_string j ''source_version.symbol'')) (\<lambda>symbol.
     bind_res (bind_res (ev_field row ''timespan'') (\<lambda>j. oc_string j ''source_version.timespan'')) (\<lambda>timespan.
     bind_res (bind_res (ev_field row ''multiplier'') (\<lambda>j. oc_integer j ''source_version.multiplier'')) (\<lambda>multiplier.
     bind_res (bind_res (ev_field row ''observed_at'') (\<lambda>j. oc_parse_timestamp j ''source_version.observed_at'')) (\<lambda>observed_at.
     bind_res (bind_res (ev_field row ''source'') (\<lambda>j. oc_string j ''source_version.source'')) (\<lambda>source.
     bind_res (bind_res (ev_field row ''adjustment_basis'') (\<lambda>j. oc_string j ''source_version.adjustment_basis'')) (\<lambda>basis.
     bind_res (bind_res (ev_field row ''fetched_at'') (\<lambda>j. oc_parse_timestamp j ''source_version.fetched_at'')) (\<lambda>fetched_at.
     bind_res (bind_res (ev_field row ''source_as_of'') (\<lambda>j. oc_parse_timestamp j ''source_version.source_as_of'')) (\<lambda>source_as_of.
     bind_res (bind_res (ev_field row ''version_recorded_at'') (\<lambda>j. oc_parse_timestamp j ''source_version.version_recorded_at'')) (\<lambda>recorded.
     bind_res (bind_res (ev_field row ''available_at'') (\<lambda>j. oc_parse_timestamp j ''source_version.available_at'')) (\<lambda>available_at.
     bind_res (bind_res (ev_field row ''field'') (\<lambda>j. oc_string j ''source_version.field'')) (\<lambda>field.
     bind_res (bind_res (ev_field row ''value_f64'') (\<lambda>j. oc_parse_float_bits j ''source_version.value_f64'')) (\<lambda>v.
     Inr \<lparr>bva_symbol = PyStr symbol, bva_timespan = PyStr timespan, bva_multiplier = PyInt multiplier,
          bva_observed_at = aware observed_at, bva_source = PyStr source,
          bva_adjustment_basis = PyStr basis, bva_fetched_at = aware fetched_at,
          bva_source_as_of = aware source_as_of, bva_version_recorded_at = aware recorded,
          bva_available_at = aware available_at, bva_field = PyStr field, bva_value = PyFloat v\<rparr>))))))))))))"

definition oc_decode :: "json \<Rightarrow> RealizedOutcomePayloadArg pyarg res" where
  "oc_decode document =
     bind_res (oc_object document ''document'') (\<lambda>root.
     bind_res (oc_exact_keys root oc_root_keys ''document'') (\<lambda>_.
     bind_res (bind_res (ev_field root ''format'') (\<lambda>j. oc_string j ''format'')) (\<lambda>fmt.
     bind_res (check (fmt \<noteq> OUTCOME_FORMAT) (oc_error ''outcome format is not supported'')) (\<lambda>_.
     bind_res (bind_res (ev_field root ''schema_version'') (\<lambda>j. oc_integer j ''schema_version'')) (\<lambda>schema_version.
     bind_res (bind_res (ev_field root ''payload'') (\<lambda>j. oc_object j ''payload'')) (\<lambda>row.
     bind_res (oc_exact_keys row oc_payload_keys ''payload'') (\<lambda>_.
     bind_res (bind_res (ev_field row ''source_version'') (\<lambda>j. oc_object j ''source_version'')) (\<lambda>source_row.
     bind_res (oc_exact_keys source_row oc_source_keys ''source_version'') (\<lambda>_.
     bind_res (oc_decode_source source_row) (\<lambda>source.
     bind_res (bind_res (ev_field row ''outcome_resolution_policy_hash'') (\<lambda>j. oc_string j ''outcome_resolution_policy_hash'')) (\<lambda>policy.
     bind_res (bind_res (ev_field row ''availability_rule_set_hash'') (\<lambda>j. oc_string j ''availability_rule_set_hash'')) (\<lambda>rules.
     bind_res (bind_res (ev_field row ''resolution_cutoff'') (\<lambda>j. oc_parse_timestamp j ''resolution_cutoff'')) (\<lambda>cutoff.
     bind_res (bind_res (ev_field row ''symbol'') (\<lambda>j. oc_string j ''symbol'')) (\<lambda>symbol.
     bind_res (bind_res (ev_field row ''target'') (\<lambda>j. oc_string j ''target'')) (\<lambda>target.
     bind_res (bind_res (ev_field row ''series_basis'') (\<lambda>j. oc_string j ''series_basis'')) (\<lambda>basis.
     bind_res (bind_res (ev_field row ''target_time'') (\<lambda>j. oc_parse_timestamp j ''target_time'')) (\<lambda>target_time.
     bind_res (bind_res (ev_field row ''currency'') (\<lambda>j. oc_string j ''currency'')) (\<lambda>currency.
     bind_res (bind_res (ev_field row ''realized_value_f64'') (\<lambda>j. oc_parse_float_bits j ''realized_value_f64'')) (\<lambda>realized.
     Inr (Inst \<lparr>opa_outcome_resolution_policy_hash = PyStr policy, opa_availability_rule_set_hash = PyStr rules,
       opa_resolution_cutoff = aware cutoff, opa_symbol = PyStr symbol, opa_target = PyStr target,
       opa_series_basis = PyStr basis, opa_target_time = aware target_time, opa_currency = PyStr currency,
       opa_realized_value = PyFloat realized, opa_source_version = Inst source,
       opa_schema_version = PyInt schema_version\<rparr>))))))))))))))))))))"

definition is_outcome_error :: "exn \<Rightarrow> bool" where
  "is_outcome_error e = (case e of OutcomeValidationError _ \<Rightarrow> True | _ \<Rightarrow> False)"

definition parse_outcome_payload :: "pyobj \<Rightarrow> RealizedOutcomePayload res" where
  "parse_outcome_payload canonical_payload =
     (case canonical_payload of
        PyBytes b \<Rightarrow>
          bind_res (check (b = [] \<or> oc_max_canonical_bytes < length b)
            (oc_error ''canonical payload must be non-empty bounded bytes'')) (\<lambda>_.
          bind_res (ev_loads is_outcome_error (oc_error ''canonical payload is not strict UTF-8 JSON'') oc_hooks b) (\<lambda>document.
          bind_res (oc_decode document) (\<lambda>payload.
          bind_res (oc_normalized_payload payload) (\<lambda>normalized.
          bind_res (canonical_outcome_payload (Inst (outcome_arg normalized))) (\<lambda>canonical.
          if canonical \<noteq> b then Inl (oc_error ''outcome payload bytes are not canonical'')
          else Inr normalized)))))
      | _ \<Rightarrow> Inl (oc_error ''canonical payload must be non-empty bounded bytes''))"

definition outcome_id_for_payload :: "pyobj \<Rightarrow> string res" where
  "outcome_id_for_payload canonical_payload =
     bind_res (parse_outcome_payload canonical_payload) (\<lambda>p.
     bind_res (canonical_outcome_payload (Inst (outcome_arg p))) (\<lambda>canonical. Inr (content_id canonical)))"

section \<open>Stored records\<close>

definition build_outcome_record ::
  "RealizedOutcomePayloadArg pyarg \<Rightarrow> pyobj \<Rightarrow> RealizedOutcomeRecord res" where
  "build_outcome_record payload sealed_at =
     bind_res (oc_normalized_payload payload) (\<lambda>n.
     bind_res (oc_utc sealed_at ''sealed_at'') (\<lambda>sealed.
     bind_res (check (sealed < op_resolution_cutoff n)
       (oc_error ''sealed_at must not be earlier than resolution_cutoff'')) (\<lambda>_.
     bind_res (canonical_outcome_payload (Inst (outcome_arg n))) (\<lambda>canonical.
     let source = op_source_version n in
     Inr \<lparr>or_outcome_id = PyStr (content_id canonical),
       or_schema_version = PyInt (op_schema_version n),
       or_outcome_resolution_policy_hash = PyStr (op_outcome_resolution_policy_hash n),
       or_availability_rule_set_hash = PyStr (op_availability_rule_set_hash n),
       or_symbol = PyStr (op_symbol n), or_target = PyStr (op_target n),
       or_series_basis = PyStr (op_series_basis n), or_target_time = aware (op_target_time n),
       or_currency = PyStr (op_currency n), or_resolution_cutoff = aware (op_resolution_cutoff n),
       or_bar_timespan = PyStr (bv_timespan source), or_bar_multiplier = PyInt (bv_multiplier source),
       or_bar_observed_at = aware (bv_observed_at source), or_bar_source = PyStr (bv_source source),
       or_bar_adjustment_basis = PyStr (bv_adjustment_basis source),
       or_bar_version_recorded_at = aware (bv_version_recorded_at source),
       or_bar_fetched_at = aware (bv_fetched_at source), or_bar_source_as_of = aware (bv_source_as_of source),
       or_bar_available_at = aware (bv_available_at source), or_bar_field = PyStr (bv_field source),
       or_bar_value = PyFloat (bv_value source), or_realized_value = PyFloat (op_realized_value n),
       or_sealed_at = aware sealed, or_canonical_evidence = PyBytes canonical\<rparr>))))"

text \<open>The values of \<open>dataclass_fields(RealizedOutcomeRecord)\<close>, in their order.\<close>

definition outcome_record_fields :: "RealizedOutcomeRecord \<Rightarrow> pyobj list" where
  "outcome_record_fields r =
     [or_outcome_id r, or_schema_version r, or_outcome_resolution_policy_hash r,
      or_availability_rule_set_hash r, or_symbol r, or_target r, or_series_basis r, or_target_time r,
      or_currency r, or_resolution_cutoff r, or_bar_timespan r, or_bar_multiplier r,
      or_bar_observed_at r, or_bar_source r, or_bar_adjustment_basis r, or_bar_version_recorded_at r,
      or_bar_fetched_at r, or_bar_source_as_of r, or_bar_available_at r, or_bar_field r,
      or_bar_value r, or_realized_value r, or_sealed_at r, or_canonical_evidence r]"

definition oc_strict_record_equal :: "RealizedOutcomeRecord \<Rightarrow> RealizedOutcomeRecord \<Rightarrow> bool" where
  "oc_strict_record_equal actual expected =
     list_all2 obj_same (outcome_record_fields actual) (outcome_record_fields expected)"

definition validate_outcome_record ::
  "RealizedOutcomeRecord pyarg \<Rightarrow> pyobj \<Rightarrow> pyobj \<Rightarrow> RealizedOutcomePayload res" where
  "validate_outcome_record arg expected_policy_hash expected_rule_set_hash =
     (case arg of
        Foreign \<Rightarrow> Inl (TypeErr ''record must be a RealizedOutcomeRecord'')
      | Inst record \<Rightarrow>
          bind_res (oc_hash expected_policy_hash ''expected_outcome_resolution_policy_hash'') (\<lambda>expected_policy.
          bind_res (oc_hash expected_rule_set_hash ''expected_availability_rule_set_hash'') (\<lambda>expected_rules.
          bind_res (parse_outcome_payload (or_canonical_evidence record)) (\<lambda>payload.
          let actual_id = content_id (case or_canonical_evidence record of PyBytes b \<Rightarrow> b | _ \<Rightarrow> []) in
          bind_res (oc_hash (or_outcome_id record) ''outcome_id'') (\<lambda>outcome_id.
          bind_res (check (outcome_id \<noteq> actual_id)
            (oc_error ''outcome_id does not match canonical_payload'')) (\<lambda>_.
          bind_res (build_outcome_record (Inst (outcome_arg payload)) (or_sealed_at record)) (\<lambda>expected_record.
          bind_res (check (\<not> oc_strict_record_equal record expected_record)
            (oc_error ''outcome header does not match canonical_payload'')) (\<lambda>_.
          bind_res (check (op_outcome_resolution_policy_hash payload \<noteq> expected_policy)
            (oc_error ''outcome resolution policy is not trusted'')) (\<lambda>_.
          bind_res (check (op_availability_rule_set_hash payload \<noteq> expected_rules)
            (oc_error ''outcome availability rule set is not trusted'')) (\<lambda>_.
          Inr payload))))))))))"

end
