(* ===== verification/ForecastOutcomeLaws.thy ===== *)
theory ForecastOutcomeLaws
  imports ForecastOutcomes
begin

text \<open>
  Realized outcomes: the invariant of a validated payload, the interpretation of
  the codec contract, and what a stored row that passes validation must contain.
\<close>

section \<open>The invariant of a validated payload\<close>

definition source_ok :: "BarVersionEvidence \<Rightarrow> bool" where
  "source_ok s \<longleftrightarrow>
     text_ok 32 (bv_symbol s) \<and> bv_symbol s = py_upper (bv_symbol s) \<and> symbol_pattern (bv_symbol s)
     \<and> bv_timespan s = ''day'' \<and> bv_multiplier s = 1 \<and> bv_adjustment_basis s = ''raw''
     \<and> bv_field s = ''close'' \<and> bv_source s = ''polygon_open_close''
     \<and> valid_instant (bv_observed_at s) \<and> valid_instant (bv_fetched_at s) \<and> valid_instant (bv_source_as_of s)
     \<and> valid_instant (bv_version_recorded_at s) \<and> valid_instant (bv_available_at s)
     \<and> bv_observed_at s \<le> bv_fetched_at s \<and> bv_fetched_at s \<le> bv_source_as_of s
     \<and> bv_source_as_of s \<le> bv_version_recorded_at s \<and> bv_version_recorded_at s \<le> bv_available_at s
     \<and> normal_float (bv_value s) \<and> \<not> f_lt (bv_value s) f_zero"

definition outcome_ok :: "RealizedOutcomePayload \<Rightarrow> bool" where
  "outcome_ok p \<longleftrightarrow>
     content_id_pattern (op_outcome_resolution_policy_hash p)
     \<and> content_id_pattern (op_availability_rule_set_hash p)
     \<and> op_symbol p = bv_symbol (op_source_version p) \<and> source_ok (op_source_version p)
     \<and> op_target p = ''close'' \<and> op_series_basis p = ''raw'' \<and> op_currency p = ''USD''
     \<and> op_target_time p = bv_observed_at (op_source_version p)
     \<and> valid_instant (op_resolution_cutoff p)
     \<and> op_realized_value p = bv_value (op_source_version p)
     \<and> bv_available_at (op_source_version p) \<le> op_resolution_cutoff p
     \<and> op_schema_version p = OUTCOME_SCHEMA_VERSION"

lemmas oc_scalars = oc_utc_def oc_text_def oc_hash_def oc_finite_def oc_string_def oc_integer_def
  oc_parse_timestamp_def oc_parse_float_bits_def oc_object_def oc_exact_keys_def

lemma oc_float_bits_normal [simp]: "normal_float x \<Longrightarrow> oc_float_bits x = Inr (float_bits x)"
  by (simp add: oc_float_bits_def oc_finite_def)

lemma oc_timestamp_valid [simp]: "valid_instant t \<Longrightarrow> oc_timestamp t = Inr (instant_text t)"
  by (simp add: oc_timestamp_def oc_utc_def)

lemma normalized_source_ok:
  assumes "oc_normalized_source a = Inr s"
  shows "source_ok s"
proof (cases a)
  case (Inst b)
  show ?thesis
    using assms unfolding Inst oc_normalized_source_def pyarg.case oc_scalars
    by (elim bind_check_InrE bind_res_InrE)
      (auto simp: source_ok_def ev_text_Inr_iff utc_of_valid ev_finite_normal)
qed (use assms in \<open>simp add: oc_normalized_source_def\<close>)

lemma v1_texts [simp]: "text_ok 64 ''polygon_open_close''" "text_ok 3 ''USD''" "currency_pattern ''USD''"
  by code_simp+

lemma normalized_source_arg: "source_ok s \<Longrightarrow> oc_normalized_source (Inst (source_arg s)) = Inr s"
  by (auto simp: oc_normalized_source_def oc_scalars source_ok_def source_arg_def intro: equality)

lemma source_ok_float: "source_ok s \<Longrightarrow> normal_float (bv_value s)"
  by (simp add: source_ok_def)

lemma same_bits:
  "oc_float_bits x = Inr a \<Longrightarrow> oc_float_bits y = Inr b \<Longrightarrow> \<not> a \<noteq> b \<Longrightarrow> normal_float x \<Longrightarrow> normal_float y \<Longrightarrow> x = y"
  using float_bits_inject [of x y] by simp

lemma normalized_payload_ok:
  assumes "oc_normalized_payload a = Inr p"
  shows "outcome_ok p"
proof (cases a)
  case (Inst b)
  show ?thesis
    using assms unfolding Inst oc_normalized_payload_def pyarg.case oc_scalars
  proof (elim bind_check_InrE bind_res_InrE, goal_cases)
    case prems: (1 ph rh sym cur tt co re s sb rb)
    note s = normalized_source_ok [OF prems(14)]
    have v: "bv_value s = re"
      by (rule same_bits [OF prems(18,19,20) source_ok_float [OF s]]) (rule ev_finite_normal [OF prems(12)])
    have p: "p = \<lparr>op_outcome_resolution_policy_hash = ph, op_availability_rule_set_hash = rh,
        op_resolution_cutoff = co, op_symbol = sym, op_target = ''close'', op_series_basis = ''raw'',
        op_target_time = tt, op_currency = cur, op_realized_value = re, op_source_version = s,
        op_schema_version = OUTCOME_SCHEMA_VERSION\<rparr>"
      using prems(22) by simp
    show ?case
      unfolding p outcome_ok_def using s v prems(9,15,16,21) utc_of_valid [OF prems(11)] prems(2,3)
      by (simp add: ev_hash_Inr_iff not_less)
  qed
qed (use assms in \<open>simp add: oc_normalized_payload_def\<close>)

lemma normalized_payload_arg: "outcome_ok p \<Longrightarrow> oc_normalized_payload (Inst (outcome_arg p)) = Inr p"
  by (auto simp: oc_normalized_payload_def oc_scalars outcome_ok_def outcome_arg_def normalized_source_arg
      source_ok_def OUTCOME_SCHEMA_VERSION_def intro: equality)

section \<open>The codec contract\<close>

lemma v1_size: "length (int_str 1) = 1"
  by code_simp

lemma source_document_ok:
  assumes "source_ok s"
  shows "\<exists>d. oc_source_document s = Inr (JObj d) \<and> plain (JObj d) \<and> dict_keys (sorted_members d) = set oc_source_keys
    \<and> oc_decode_source (sorted_members d) = Inr (source_arg s) \<and> size_bound (JObj d) \<le> 3000"
  using assms
  by (auto simp: length_instant_text v1_size text_ok_def source_ok_def oc_source_document_def oc_decode_source_def oc_source_keys_def oc_scalars
      ev_field_sorted source_arg_def)

lemma outcome_document_ok:
  assumes "outcome_ok p"
  shows "\<exists>d. oc_document p = Inr (JObj d) \<and> plain (JObj d) \<and> oc_decode (jsort (JObj d)) = Inr (Inst (outcome_arg p))
    \<and> size_bound (JObj d) \<le> 10000"
proof -
  let ?s = "op_source_version p"
  have s: "source_ok ?s" using assms by (simp add: outcome_ok_def)
  obtain d where d: "oc_source_document ?s = Inr (JObj d)" "plain (JObj d)"
      "dict_keys (sorted_members d) = set oc_source_keys" "oc_decode_source (sorted_members d) = Inr (source_arg ?s)"
      "size_bound (JObj d) \<le> 3000"
    using source_document_ok [OF s] by blast
  have n: "normal_float (op_realized_value p)" "valid_instant (op_target_time p)" "valid_instant (op_resolution_cutoff p)"
    using assms s by (simp_all add: outcome_ok_def source_ok_def)
  let ?row = "[(''availability_rule_set_hash'', JStr (op_availability_rule_set_hash p)),
      (''currency'', JStr (op_currency p)),
      (''outcome_resolution_policy_hash'', JStr (op_outcome_resolution_policy_hash p)),
      (''realized_value_f64'', JStr (float_bits (op_realized_value p))),
      (''resolution_cutoff'', JStr (instant_text (op_resolution_cutoff p))),
      (''series_basis'', JStr (op_series_basis p)), (''source_version'', JObj d),
      (''symbol'', JStr (op_symbol p)), (''target'', JStr (op_target p)),
      (''target_time'', JStr (instant_text (op_target_time p)))]"
  let ?root = "[(''format'', JStr OUTCOME_FORMAT), (''payload'', JObj ?row), (''schema_version'', JInt (op_schema_version p))]"
  have o1: "oc_document p = Inr (JObj ?root)" by (simp add: oc_document_def d n)
  have o2: "plain (JObj ?root)" using d(2) by (simp del: plain.simps(1))
  have row: "dict_keys (sorted_members ?row) = set oc_payload_keys" by (simp add: oc_payload_keys_def)
  have root: "dict_keys (sorted_members ?root) = set oc_root_keys" by (simp add: oc_root_keys_def)
  have "oc_decode (JObj (sorted_members ?root)) = Inr (Inst (outcome_arg p))"
    unfolding oc_decode_def oc_scalars
    by (simp add: ev_object_def ev_exact_keys_ok [OF root] ev_exact_keys_ok [OF row] ev_exact_keys_ok [OF d(3)]
        ev_field_sorted jsort_JObj d(4) n outcome_arg_def del: jsort.simps(2) dict_keys_sorted_members)
  moreover have "length (op_symbol p) \<le> 32" using assms s by (simp add: outcome_ok_def source_ok_def text_ok_def)
  then have "size_bound (JObj ?root) \<le> 10000"
    using assms d(5) n by (simp add: outcome_ok_def length_instant_text content_id_pattern_def OUTCOME_FORMAT_def
        OUTCOME_SCHEMA_VERSION_def v1_size)
  ultimately show ?thesis using o1 o2 by (intro exI [of _ ?root]) (simp only: jsort_JObj simp_thms)
qed

interpretation outcomes: idempotent_codec oc_normalized_payload "\<lambda>p. Inst (outcome_arg p)" oc_document oc_decode
proof unfold_locales
  fix a p assume "oc_normalized_payload a = Inr p"
  then have ok: "outcome_ok p" by (rule normalized_payload_ok)
  then show "oc_normalized_payload (Inst (outcome_arg p)) = Inr p" by (rule normalized_payload_arg)
  show "\<exists>j. oc_document p = Inr j \<and> plain j \<and> oc_decode (jsort j) = Inr (Inst (outcome_arg p))"
    using outcome_document_ok [OF ok] by blast
qed

section \<open>Canonical bytes\<close>

lemma outcome_documentE:
  assumes "oc_normalized_payload a = Inr p"
  obtains j where "oc_document p = Inr j" and "canonical_json j = Inr (canonical_bytes j)"
  using outcomes.documentE [OF assms] by blast

lemma canonical_outcome_iff:
  "canonical_outcome_payload a = Inr b \<longleftrightarrow>
     (\<exists>p. oc_normalized_payload a = Inr p \<and> bind_res (oc_document p) canonical_json = Inr b
        \<and> b \<noteq> [] \<and> length b \<le> oc_max_canonical_bytes)"
proof (cases "oc_normalized_payload a")
  case (Inr p)
  obtain j where "oc_document p = Inr j" "canonical_json j = Inr (canonical_bytes j)"
    using Inr by (rule outcome_documentE)
  then show ?thesis using Inr by (auto simp: canonical_outcome_payload_def)
qed (simp add: canonical_outcome_payload_def)

lemma canonical_outcome_arg:
  "oc_normalized_payload a = Inr p \<Longrightarrow>
     canonical_outcome_payload (Inst (outcome_arg p)) = canonical_outcome_payload a"
  by (simp add: canonical_outcome_payload_def outcomes.norm_arg)

lemma oc_hooks_strict:
  "oc_hooks = strict_hooks (\<lambda>_. oc_error ''canonical payload contains a duplicate JSON key'') oc_reject_json_constant"
  by (simp add: oc_hooks_def strict_hooks_def oc_unique_object_def fun_eq_iff)

lemma parse_canonical_outcome:
  assumes "canonical_outcome_payload a = Inr b" and "oc_normalized_payload a = Inr p"
  shows "parse_outcome_payload (PyBytes b) = Inr p"
proof -
  have b: "bind_res (oc_document p) canonical_json = Inr b" "b \<noteq> []" "length b \<le> oc_max_canonical_bytes"
    using assms by (auto simp: canonical_outcome_iff)
  have "canonical_outcome_payload (Inst (outcome_arg p)) = Inr b"
    using assms by (simp add: canonical_outcome_arg)
  moreover obtain j q where "ev_loads is_outcome_error (oc_error ''canonical payload is not strict UTF-8 JSON'') oc_hooks b = Inr j"
      "oc_decode j = Inr q" "oc_normalized_payload q = Inr p"
    using outcomes.reads_back [OF assms(2) b(1), of is_outcome_error
        "oc_error ''canonical payload is not strict UTF-8 JSON''"]
    unfolding oc_hooks_strict bind_res_Inr_iff by blast
  ultimately show ?thesis
    using b(2,3) by (simp add: parse_outcome_payload_def)
qed

lemma parse_outcomeE:
  assumes "parse_outcome_payload x = Inr p"
  obtains b where "x = PyBytes b" and "oc_normalized_payload (Inst (outcome_arg p)) = Inr p"
    and "canonical_outcome_payload (Inst (outcome_arg p)) = Inr b"
proof (cases x)
  case (PyBytes b)
  show ?thesis
    using assms unfolding PyBytes parse_outcome_payload_def pyobj.case
    by (elim bind_check_InrE bind_res_InrE) (auto split: if_splits intro!: that PyBytes outcomes.norm_arg)
qed (use assms in \<open>simp_all add: parse_outcome_payload_def\<close>)

text \<open>C20. The canonical bytes and the validated payloads correspond one to one: a byte
  string parses to \<open>p\<close> exactly when it is the canonical encoding of some payload that
  validates to \<open>p\<close>.  In particular an encoded payload always parses back, and no
  second spelling of it does.\<close>

theorem outcome_bytes_are_payloads:
  "parse_outcome_payload (PyBytes b) = Inr p \<longleftrightarrow>
     (\<exists>a. oc_normalized_payload a = Inr p \<and> canonical_outcome_payload a = Inr b)"
  using parse_canonical_outcome by (auto elim!: parse_outcomeE)

section \<open>Stored records\<close>

lemma build_outcome_iff:
  "build_outcome_record a s = Inr r \<longleftrightarrow>
     (\<exists>n sealed b. oc_normalized_payload a = Inr n \<and> oc_utc s ''sealed_at'' = Inr sealed
        \<and> op_resolution_cutoff n \<le> sealed \<and> canonical_outcome_payload (Inst (outcome_arg n)) = Inr b
        \<and> build_outcome_record (Inst (outcome_arg n)) (aware sealed) = Inr r
        \<and> or_outcome_id r = PyStr (content_id b) \<and> or_canonical_evidence r = PyBytes b
        \<and> or_sealed_at r = aware sealed)"
  (is "?l \<longleftrightarrow> ?r")
proof
  assume ?l
  then show ?r
    unfolding build_outcome_record_def
    by (elim bind_check_InrE bind_res_InrE)
      (auto simp: outcomes.norm_arg oc_utc_def utc_of_valid build_outcome_record_def Let_def)
next
  assume ?r
  then show ?l by (auto simp: build_outcome_record_def outcomes.norm_arg oc_utc_def utc_of_valid)
qed

lemma canonical_outcome_total:
  assumes "oc_normalized_payload a = Inr p"
  obtains b where "canonical_outcome_payload a = Inr b"
proof -
  obtain d where d: "oc_document p = Inr (JObj d)" "plain (JObj d)" "size_bound (JObj d) \<le> 10000"
    using outcome_document_ok [OF normalized_payload_ok [OF assms]] by blast
  have "length (canonical_bytes (JObj d)) \<le> oc_max_canonical_bytes"
    using canonical_size [of "JObj d"] d(3) by (simp add: oc_max_canonical_bytes_def)
  then have "canonical_outcome_payload a = Inr (canonical_bytes (JObj d))"
    unfolding canonical_outcome_iff
    by (intro exI [of _ p]) (simp add: assms d(1) canonical_nonempty canonical_json_total [OF d(2)])
  then show ?thesis by (rule that)
qed

text \<open>C36. Sealing an outcome never fails for a reason other than its inputs: the record is
  built whenever the payload validates and the sealing time is an aware instant at or
  after the resolution cutoff.  The encoder and its storage limit never refuse a
  validated payload.\<close>

theorem outcome_build_total:
  "is_ok (build_outcome_record a s) \<longleftrightarrow>
     (\<exists>p sealed. oc_normalized_payload a = Inr p \<and> oc_utc s ''sealed_at'' = Inr sealed
        \<and> op_resolution_cutoff p \<le> sealed)"
proof
  assume "is_ok (build_outcome_record a s)"
  then show "\<exists>p sealed. oc_normalized_payload a = Inr p \<and> oc_utc s ''sealed_at'' = Inr sealed
      \<and> op_resolution_cutoff p \<le> sealed"
    unfolding is_ok_iff using build_outcome_iff by blast
next
  assume "\<exists>p sealed. oc_normalized_payload a = Inr p \<and> oc_utc s ''sealed_at'' = Inr sealed
      \<and> op_resolution_cutoff p \<le> sealed"
  then obtain p sealed where p: "oc_normalized_payload a = Inr p" "oc_utc s ''sealed_at'' = Inr sealed"
      "op_resolution_cutoff p \<le> sealed" by blast
  obtain b where "canonical_outcome_payload a = Inr b" using p(1) by (rule canonical_outcome_total)
  then show "is_ok (build_outcome_record a s)"
    using p by (simp add: build_outcome_record_def canonical_outcome_arg Let_def)
qed

lemma validated_outcome_record:
  assumes "validate_outcome_record (Inst r) policy rules = Inr p"
  obtains sealed where "oc_normalized_payload (Inst (outcome_arg p)) = Inr p"
    and "oc_utc (or_sealed_at r) ''sealed_at'' = Inr sealed" and "op_resolution_cutoff p \<le> sealed"
proof -
  obtain e where e: "parse_outcome_payload (or_canonical_evidence r) = Inr p"
      "build_outcome_record (Inst (outcome_arg p)) (or_sealed_at r) = Inr e"
    using assms unfolding validate_outcome_record_def pyarg.case Let_def
    by (elim bind_check_InrE bind_res_InrE) simp
  from e(1) have n: "oc_normalized_payload (Inst (outcome_arg p)) = Inr p" by (rule parse_outcomeE)
  with build_outcome_iff [THEN iffD1, OF e(2)] show ?thesis using that by (metis sum.inject(2))
qed

text \<open>C10. No outcome looks ahead: in every row that validates, the bar is the one observed at
  the target time, it was fetched, stamped, recorded and became visible in that order,
  it was visible by the resolution cutoff, the row was sealed at or after the cutoff,
  and the realized value is that bar's finite nonnegative close.\<close>

theorem outcome_is_point_in_time:
  assumes "validate_outcome_record (Inst r) policy rules = Inr p"
  shows "\<exists>sealed. oc_utc (or_sealed_at r) ''sealed_at'' = Inr sealed
    \<and> op_target_time p = bv_observed_at (op_source_version p)
    \<and> bv_observed_at (op_source_version p) \<le> bv_fetched_at (op_source_version p)
    \<and> bv_fetched_at (op_source_version p) \<le> bv_source_as_of (op_source_version p)
    \<and> bv_source_as_of (op_source_version p) \<le> bv_version_recorded_at (op_source_version p)
    \<and> bv_version_recorded_at (op_source_version p) \<le> bv_available_at (op_source_version p)
    \<and> bv_available_at (op_source_version p) \<le> op_resolution_cutoff p
    \<and> op_resolution_cutoff p \<le> sealed
    \<and> op_realized_value p = bv_value (op_source_version p)
    \<and> f_isfinite (op_realized_value p) \<and> \<not> f_lt (op_realized_value p) f_zero"
proof -
  obtain sealed where s: "oc_normalized_payload (Inst (outcome_arg p)) = Inr p"
    "oc_utc (or_sealed_at r) ''sealed_at'' = Inr sealed" "op_resolution_cutoff p \<le> sealed"
    using assms by (rule validated_outcome_record)
  from s(1) have "outcome_ok p" by (rule normalized_payload_ok)
  then show ?thesis using s by (simp add: outcome_ok_def source_ok_def normal_float_def)
qed

lemma matching_row_validates:
  assumes r: "content_id_pattern policy" "content_id_pattern rules"
      "op_outcome_resolution_policy_hash p = policy" "op_availability_rule_set_hash p = rules"
      "oc_normalized_payload (Inst (outcome_arg p)) = Inr p"
    and e: "build_outcome_record (Inst (outcome_arg p)) (or_sealed_at r) = Inr e"
      "list_all2 obj_same (outcome_record_fields r) (outcome_record_fields e)"
  shows "validate_outcome_record (Inst r) (PyStr policy) (PyStr rules) = Inr p"
proof -
  obtain b where b: "canonical_outcome_payload (Inst (outcome_arg p)) = Inr b"
    "or_outcome_id e = PyStr (content_id b)" "or_canonical_evidence e = PyBytes b"
    using r build_outcome_iff [THEN iffD1, OF e(1)] by (metis sum.inject(2))
  have f: "or_outcome_id r = PyStr (content_id b)" "or_canonical_evidence r = PyBytes b"
    using e(2) b(2,3) by (auto simp: outcome_record_fields_def)
  have p: "parse_outcome_payload (PyBytes b) = Inr p" using r b(1) parse_canonical_outcome by blast
  have s: "oc_strict_record_equal r e" using e(2) by (simp only: oc_strict_record_equal_def)
  have h: "oc_hash (PyStr policy) l = Inr policy" "oc_hash (PyStr rules) l = Inr rules"
    "oc_hash (PyStr (content_id b)) l = Inr (content_id b)" for l
    using r by (simp_all add: oc_hash_def)
  show ?thesis
    unfolding validate_outcome_record_def pyarg.case Let_def f pyobj.case
    by (simp only: h p e(1) s r(3,4) bind_res_simps bind_check_iff simp_thms if_False)
qed

text \<open>C11. Validation of a stored outcome is exact: a row is accepted with payload \<open>p\<close> precisely
  when \<open>p\<close> is a validated payload under the two trusted hashes and every field of the
  row has the class and the value of the row that \<open>build_outcome_record\<close> makes of \<open>p\<close>
  and the row's sealing time.  Whatever is built validates, and no field of a stored
  row can be altered without being refused.\<close>

theorem outcome_validation_exact:
  "validate_outcome_record (Inst r) (PyStr policy) (PyStr rules) = Inr p \<longleftrightarrow>
     content_id_pattern policy \<and> content_id_pattern rules
     \<and> op_outcome_resolution_policy_hash p = policy \<and> op_availability_rule_set_hash p = rules
     \<and> oc_normalized_payload (Inst (outcome_arg p)) = Inr p
     \<and> (\<exists>e. build_outcome_record (Inst (outcome_arg p)) (or_sealed_at r) = Inr e
           \<and> list_all2 obj_same (outcome_record_fields r) (outcome_record_fields e))"
  (is "?l \<longleftrightarrow> ?r")
proof
  assume ?l
  then show ?r
    unfolding validate_outcome_record_def pyarg.case Let_def
    by (elim bind_check_InrE bind_res_InrE)
      (auto simp: oc_hash_def ev_hash_Inr_iff oc_strict_record_equal_def elim!: parse_outcomeE)
next
  assume ?r
  then show ?l using matching_row_validates by blast
qed

section \<open>A concrete outcome\<close>

definition oc_demo_policy_hash :: string where
  "oc_demo_policy_hash = ''sha256:'' @ replicate 64 (CHR ''a'')"

definition oc_demo_instant :: instant where
  "oc_demo_instant = 63871790400000000"

definition oc_demo_source :: BarVersionEvidence where
  "oc_demo_source = \<lparr>bv_symbol = ''AAPL'', bv_timespan = ''day'', bv_multiplier = 1, bv_observed_at = oc_demo_instant,
     bv_source = ''polygon_open_close'', bv_adjustment_basis = ''raw'', bv_fetched_at = oc_demo_instant + 60000000,
     bv_source_as_of = oc_demo_instant + 61000000, bv_version_recorded_at = oc_demo_instant + 62000000,
     bv_available_at = oc_demo_instant + 63000000, bv_field = ''close'', bv_value = f_one\<rparr>"

definition oc_demo_outcome :: RealizedOutcomePayload where
  "oc_demo_outcome = \<lparr>op_outcome_resolution_policy_hash = oc_demo_policy_hash,
     op_availability_rule_set_hash = oc_demo_policy_hash, op_resolution_cutoff = oc_demo_instant + 86400000000,
     op_symbol = ''AAPL'', op_target = ''close'', op_series_basis = ''raw'', op_target_time = oc_demo_instant,
     op_currency = ''USD'', op_realized_value = f_one, op_source_version = oc_demo_source,
     op_schema_version = 1\<rparr>"

lemma oc_demo_outcome_ok: "outcome_ok oc_demo_outcome"
  by code_simp

lemma obj_same_refl: "f_isfinite x \<Longrightarrow> obj_same (PyFloat x) (PyFloat x)"
  by (simp add: obj_same_float f_eq_key)

lemma built_outcome_validates:
  assumes "oc_normalized_payload (Inst (outcome_arg p)) = Inr p"
    and "build_outcome_record (Inst (outcome_arg p)) s = Inr r"
  shows "validate_outcome_record (Inst r) (PyStr (op_outcome_resolution_policy_hash p))
    (PyStr (op_availability_rule_set_hash p)) = Inr p"
proof -
  have ok: "outcome_ok p" using assms(1) by (rule normalized_payload_ok)
  then have v: "f_isfinite (op_realized_value p)" by (simp add: outcome_ok_def source_ok_def normal_float_def)
  from build_outcome_iff [THEN iffD1, OF assms(2)] obtain sealed
    where b: "build_outcome_record (Inst (outcome_arg p)) (aware sealed) = Inr r" "or_sealed_at r = aware sealed"
    using assms(1) by (metis sum.inject(2))
  have "list_all2 obj_same (outcome_record_fields r) (outcome_record_fields r)"
    using b(1) v ok assms(1) unfolding build_outcome_record_def
    by (elim bind_check_InrE bind_res_InrE)
      (auto simp: outcome_record_fields_def obj_same_refl outcome_ok_def Let_def)
  then show ?thesis
    using b ok assms(1) by (intro matching_row_validates) (simp_all add: outcome_ok_def)
qed

theorem outcome_is_point_in_time_witness:
  "\<exists>r. build_outcome_record (Inst (outcome_arg oc_demo_outcome)) (aware (oc_demo_instant + 90000000000)) = Inr r
     \<and> validate_outcome_record (Inst r) (PyStr oc_demo_policy_hash) (PyStr oc_demo_policy_hash) = Inr oc_demo_outcome
     \<and> bv_available_at (op_source_version oc_demo_outcome) \<le> op_resolution_cutoff oc_demo_outcome"
proof -
  have n: "oc_normalized_payload (Inst (outcome_arg oc_demo_outcome)) = Inr oc_demo_outcome"
    using oc_demo_outcome_ok by (rule normalized_payload_arg)
  obtain b where b: "canonical_outcome_payload (Inst (outcome_arg oc_demo_outcome)) = Inr b"
    using n by (rule canonical_outcome_total)
  have "valid_instant (oc_demo_instant + 90000000000)" by code_simp
  then obtain r where r: "build_outcome_record (Inst (outcome_arg oc_demo_outcome)) (aware (oc_demo_instant + 90000000000)) = Inr r"
    using n b by (simp add: build_outcome_record_def oc_utc_def Let_def oc_demo_outcome_def oc_demo_instant_def)
  have h: "op_outcome_resolution_policy_hash oc_demo_outcome = oc_demo_policy_hash"
    "op_availability_rule_set_hash oc_demo_outcome = oc_demo_policy_hash" by (simp_all add: oc_demo_outcome_def)
  from built_outcome_validates [OF n r, unfolded h] r outcome_is_point_in_time show ?thesis by blast
qed

end
