(* ===== verification/ForecastSchema.thy ===== *)
theory ForecastSchema
  imports FloatOps Evidence
begin

text \<open>
  \<open>app/schemas/forecast.py\<close>: the public forecast contract.  A pydantic class is a
  record together with its validation \<open>..._new\<close>, which runs the declared field
  constraints and then the validators of the class.  pydantic itself is third-party: the
  record \<open>pydantic\<close> holds the two of its behaviours that no declaration of the
  source determines (\<open>str_strip_whitespace\<close> and \<open>multiple_of\<close> on floats).  Of a
  \<open>ValidationError\<close> the model keeps the class (a \<open>ValueError\<close>) and the first
  violated rule.  Aware datetimes are instants; the constant disclaimer is left out.
\<close>

record pydantic =
  pd_strip :: "string \<Rightarrow> string"
  pd_multiple_of :: "f64 \<Rightarrow> f64 \<Rightarrow> bool"

type_synonym uuid = int

section \<open>Classes\<close>

record ForecastRequest =
  rq_symbol :: string
  rq_horizon :: int
  rq_horizon_unit :: string
  rq_target :: string
  rq_as_of :: "instant option"
  rq_snapshot_id :: "string option"
  rq_model :: string
  rq_interval_coverages :: "f64 list"

record ForecastQuantile =
  fq_level :: f64
  fq_value :: f64

record ForecastInterval =
  fi_coverage :: f64
  fi_lower_quantile :: f64
  fi_upper_quantile :: f64
  fi_lower :: f64
  fi_upper :: f64

record ForecastStep =
  fs_step :: int
  fs_target_time :: instant
  fs_point :: f64
  fs_quantiles :: "ForecastQuantile list"
  fs_intervals :: "ForecastInterval list"

record LookaheadCheck =
  lc_status :: string
  lc_checked_at :: instant
  lc_max_feature_available_at :: instant
  lc_violations :: "string list"

record DataSourceLineage =
  dl_name :: string
  dl_snapshot_id :: string
  dl_max_available_at :: instant
  dl_fields :: "string list"

record ForecastProvenance =
  pv_forecast_id :: uuid
  pv_snapshot_id :: string
  pv_model_version :: string
  pv_series_basis :: string
  pv_feature_set_hash :: string
  pv_max_available_at :: instant
  pv_generated_at :: instant
  pv_code_version :: "string option"
  pv_data_sources :: "DataSourceLineage list"
  pv_lookahead_check :: LookaheadCheck

record IntervalCalibration =
  ic_horizon :: int
  ic_nominal_coverage :: f64
  ic_empirical_coverage :: "f64 option"
  ic_sample_count :: int
  ic_confidence_low :: "f64 option"
  ic_confidence_high :: "f64 option"

record ForecastCalibration =
  fc_calibration_set_version :: string
  fc_method :: string
  fc_window_start :: "date option"
  fc_window_end :: "date option"
  fc_sample_count :: int
  fc_by_interval :: "IntervalCalibration list"

record ForecastResponse =
  rs_symbol :: string
  rs_target :: string
  rs_horizon :: int
  rs_horizon_unit :: string
  rs_as_of :: instant
  rs_currency :: "string option"
  rs_forecasts :: "ForecastStep list"
  rs_provenance :: ForecastProvenance
  rs_calibration :: ForecastCalibration

section \<open>Constraints\<close>

abbreviation schema_error :: "string \<Rightarrow> exn" where
  "schema_error m \<equiv> ValueError m"

text \<open>\<open>1e-9\<close>\<close>

definition FLOAT_TOLERANCE :: f64 where
  "FLOAT_TOLERANCE = 4472406533629990549"

definition forecast_targets :: "string list" where
  "forecast_targets = [''close'', ''adjusted_close'', ''return'', ''log_return'']"

definition forecast_series_bases :: "string list" where
  "forecast_series_bases = [''raw'', ''split_adjusted'', ''split_dividend_adjusted'']"

definition forecast_horizon_units :: "string list" where
  "forecast_horizon_units = [''trading_day'', ''calendar_day'', ''minute'', ''hour'', ''week'']"

definition forecast_model_selectors :: "string list" where
  "forecast_model_selectors = [''auto'', ''baseline_naive'', ''baseline_drift'', ''baseline_seasonal_naive'',
     ''arima'', ''chronos'']"

definition lookahead_statuses :: "string list" where
  "lookahead_statuses = [''passed'', ''failed'', ''not_run'']"

definition calibration_methods :: "string list" where
  "calibration_methods = [''conformal_quantile_regression'', ''adaptive_conformal'', ''empirical_residual'', ''none'']"

definition schema_literal :: "string \<Rightarrow> string list \<Rightarrow> unit res" where
  "schema_literal v allowed = check (v \<notin> set allowed) (schema_error ''literal_error'')"

text \<open>A bounded string field, after \<open>str_strip_whitespace\<close>.\<close>

definition schema_str :: "pydantic \<Rightarrow> nat \<Rightarrow> nat \<Rightarrow> string \<Rightarrow> string res" where
  "schema_str env minimum maximum s =
     (let t = pd_strip env s in
      bind_res (check (length t < minimum \<or> maximum < length t) (schema_error ''string length'')) (\<lambda>_. Inr t))"

definition schema_finite :: "f64 \<Rightarrow> unit res" where
  "schema_finite x = check (\<not> f_isfinite x) (schema_error ''finite_number'')"

text \<open>\<open>abs(a - b) > 1e-9\<close>\<close>

definition differs :: "f64 \<Rightarrow> f64 \<Rightarrow> bool" where
  "differs a b \<longleftrightarrow> f_lt FLOAT_TOLERANCE (f_abs (f_sub a b))"

text \<open>\<open>round(value, 3)\<close>, with the bound \<open>1e-12\<close>.\<close>

definition canonical_coverage :: "f64 \<Rightarrow> f64 res" where
  "canonical_coverage v =
     (let rounded = f_round_digits v 3 in
      bind_res (check (f_lt 4427486594234968593 (f_abs (f_sub v rounded)))
        (schema_error ''coverage supports at most three decimal places'')) (\<lambda>_. Inr rounded))"

text \<open>\<open>Coverage\<close>: between 0.001 and 0.999 and a multiple of 0.001.\<close>

definition coverage_field :: "pydantic \<Rightarrow> f64 \<Rightarrow> f64 res" where
  "coverage_field env v =
     bind_res (schema_finite v) (\<lambda>_.
     bind_res (check (\<not> f_le 4562254508917369340 v \<or> \<not> f_le v 4607173411600762667)
       (schema_error ''coverage bounds'')) (\<lambda>_.
     bind_res (check (\<not> pd_multiple_of env v 4562254508917369340) (schema_error ''multiple_of'')) (\<lambda>_.
     canonical_coverage v)))"

definition probability_field :: "f64 option \<Rightarrow> unit res" where
  "probability_field v =
     (case v of
        None \<Rightarrow> Inr ()
      | Some x \<Rightarrow> check (\<not> f_isfinite x \<or> \<not> f_le f_zero x \<or> \<not> f_le x f_one) (schema_error ''probability''))"

definition quantile_level_field :: "f64 \<Rightarrow> unit res" where
  "quantile_level_field x =
     check (\<not> f_isfinite x \<or> \<not> f_lt f_zero x \<or> \<not> f_lt x f_one) (schema_error ''quantile level'')"

text \<open>\<open>len(set(xs)) != len(xs)\<close> of finite floats.\<close>

fun float_duplicates :: "f64 list \<Rightarrow> bool" where
  "float_duplicates [] = False"
| "float_duplicates (x # xs) = (list_ex (f_eq x) xs \<or> float_duplicates xs)"

section \<open>Validation\<close>

definition symbol_chars :: "string \<Rightarrow> bool" where
  "symbol_chars s \<longleftrightarrow> s \<noteq> [] \<and> (\<forall>c \<in> set s. is_upper c \<or> is_lower c \<or> is_digit c
     \<or> c \<in> {CHR ''.'', CHR ''-'', CHR ''_'', CHR '':''})"

definition sort_unique_coverages :: "f64 list \<Rightarrow> f64 list res" where
  "sort_unique_coverages v =
     (let ordered = sort_key f_key v in
      bind_res (check (float_duplicates ordered) (schema_error ''interval_coverages must not contain duplicates'')) (\<lambda>_.
      Inr ordered))"

definition ForecastRequest_new :: "pydantic \<Rightarrow> ForecastRequest \<Rightarrow> ForecastRequest res" where
  "ForecastRequest_new env r =
     bind_res (schema_str env 1 32 (rq_symbol r)) (\<lambda>symbol.
     bind_res (check (\<not> symbol_chars symbol) (schema_error ''symbol pattern'')) (\<lambda>_.
     bind_res (check (rq_horizon r < 1 \<or> 252 < rq_horizon r) (schema_error ''horizon bounds'')) (\<lambda>_.
     bind_res (schema_literal (rq_horizon_unit r) forecast_horizon_units) (\<lambda>_.
     bind_res (schema_literal (rq_target r) forecast_targets) (\<lambda>_.
     bind_res (case rq_snapshot_id r of
                 None \<Rightarrow> Inr None
               | Some s \<Rightarrow> bind_res (schema_str env 1 128 s) (\<lambda>t. Inr (Some t))) (\<lambda>snapshot_id.
     bind_res (schema_literal (rq_model r) forecast_model_selectors) (\<lambda>_.
     bind_res (check (rq_interval_coverages r = [] \<or> 9 < length (rq_interval_coverages r))
       (schema_error ''interval_coverages length'')) (\<lambda>_.
     bind_res (map_res (coverage_field env) (rq_interval_coverages r)) (\<lambda>coverages.
     bind_res (sort_unique_coverages coverages) (\<lambda>ordered.
     Inr (r\<lparr>rq_symbol := py_upper symbol, rq_snapshot_id := snapshot_id,
            rq_interval_coverages := ordered\<rparr>)))))))))))"

definition ForecastQuantile_new :: "ForecastQuantile \<Rightarrow> ForecastQuantile res" where
  "ForecastQuantile_new q =
     bind_res (quantile_level_field (fq_level q)) (\<lambda>_.
     bind_res (schema_finite (fq_value q)) (\<lambda>_. Inr q))"

definition validate_ordering :: "ForecastInterval \<Rightarrow> ForecastInterval res" where
  "validate_ordering i =
     bind_res (check (f_le (fi_upper_quantile i) (fi_lower_quantile i))
       (schema_error ''upper_quantile must be greater than lower_quantile'')) (\<lambda>_.
     bind_res (check (differs (f_sub (fi_upper_quantile i) (fi_lower_quantile i)) (fi_coverage i))
       (schema_error ''coverage must equal upper_quantile minus lower_quantile'')) (\<lambda>_.
     bind_res (check (f_lt (fi_upper i) (fi_lower i))
       (schema_error ''upper must be greater than or equal to lower'')) (\<lambda>_.
     Inr i)))"

definition ForecastInterval_new :: "pydantic \<Rightarrow> ForecastInterval \<Rightarrow> ForecastInterval res" where
  "ForecastInterval_new env i =
     bind_res (coverage_field env (fi_coverage i)) (\<lambda>coverage.
     bind_res (quantile_level_field (fi_lower_quantile i)) (\<lambda>_.
     bind_res (quantile_level_field (fi_upper_quantile i)) (\<lambda>_.
     bind_res (schema_finite (fi_lower i)) (\<lambda>_.
     bind_res (schema_finite (fi_upper i)) (\<lambda>_.
     validate_ordering (i\<lparr>fi_coverage := coverage\<rparr>))))))"

definition quantile_value :: "ForecastStep \<Rightarrow> f64 \<Rightarrow> f64 option" where
  "quantile_value s level =
     map_option fq_value (find (\<lambda>q. \<not> differs (fq_level q) level) (fs_quantiles s))"

definition interval_matches :: "ForecastStep \<Rightarrow> ForecastInterval \<Rightarrow> unit res" where
  "interval_matches s i =
     (case (quantile_value s (fi_lower_quantile i), quantile_value s (fi_upper_quantile i)) of
        (Some lower_value, Some upper_value) \<Rightarrow>
          check (differs (fi_lower i) lower_value \<or> differs (fi_upper i) upper_value)
            (schema_error ''interval bounds must equal their referenced quantile values'')
      | _ \<Rightarrow> Inl (schema_error ''interval bounds must reference included quantile levels''))"

definition validate_distribution :: "ForecastStep \<Rightarrow> ForecastStep res" where
  "validate_distribution s =
     bind_res (check (any_adjacent (\<lambda>lower upper. f_lt (fq_value upper) (fq_value lower)) (fs_quantiles s))
       (schema_error ''quantile values must be nondecreasing by level'')) (\<lambda>_.
     bind_res (check (case quantile_value s f_half of None \<Rightarrow> True | Some m \<Rightarrow> differs m (fs_point s))
       (schema_error ''point must equal the 0.5 quantile'')) (\<lambda>_.
     bind_res (check (float_duplicates (map fi_coverage (fs_intervals s)))
       (schema_error ''interval coverages must be unique per forecast step'')) (\<lambda>_.
     bind_res (map_res (interval_matches s) (fs_intervals s)) (\<lambda>_.
     Inr s))))"

definition quantiles_are_unique :: "ForecastQuantile list \<Rightarrow> ForecastQuantile list res" where
  "quantiles_are_unique v =
     bind_res (check (float_duplicates (map fq_level v))
       (schema_error ''quantile levels must be unique per forecast step'')) (\<lambda>_.
     Inr (sort_key (\<lambda>q. f_key (fq_level q)) v))"

definition ForecastStep_new :: "ForecastStep \<Rightarrow> ForecastStep res" where
  "ForecastStep_new s =
     bind_res (check (fs_step s < 1) (schema_error ''step bounds'')) (\<lambda>_.
     bind_res (schema_finite (fs_point s)) (\<lambda>_.
     bind_res (check (fs_quantiles s = []) (schema_error ''quantiles length'')) (\<lambda>_.
     bind_res (quantiles_are_unique (fs_quantiles s)) (\<lambda>quantiles.
     bind_res (check (fs_intervals s = []) (schema_error ''intervals length'')) (\<lambda>_.
     validate_distribution (s\<lparr>fs_quantiles := quantiles\<rparr>))))))"

definition LookaheadCheck_new :: "pydantic \<Rightarrow> LookaheadCheck \<Rightarrow> LookaheadCheck res" where
  "LookaheadCheck_new env c =
     bind_res (schema_literal (lc_status c) lookahead_statuses) (\<lambda>_.
     let violations = map (pd_strip env) (lc_violations c) in
     bind_res (check (lc_status c = ''passed'' \<and> violations \<noteq> [])
       (schema_error ''passed lookahead_check cannot include violations'')) (\<lambda>_.
     Inr (c\<lparr>lc_violations := violations\<rparr>)))"

definition DataSourceLineage_new :: "pydantic \<Rightarrow> DataSourceLineage \<Rightarrow> DataSourceLineage res" where
  "DataSourceLineage_new env d =
     bind_res (schema_str env 1 64 (dl_name d)) (\<lambda>name.
     bind_res (schema_str env 1 128 (dl_snapshot_id d)) (\<lambda>snapshot_id.
     Inr (d\<lparr>dl_name := name, dl_snapshot_id := snapshot_id, dl_fields := map (pd_strip env) (dl_fields d)\<rparr>)))"

text \<open>\<open>^(sha256:)?[A-Fa-f0-9]{64}$\<close>\<close>

definition feature_hash_pattern :: "string \<Rightarrow> bool" where
  "feature_hash_pattern s \<longleftrightarrow>
     (let h = (if startswith s ''sha256:'' then drop 7 s else s)
      in length h = 64 \<and> (\<forall>c \<in> set h. is_hex_lower c \<or> (65 \<le> cp c \<and> cp c \<le> 70)))"

definition ForecastProvenance_new :: "pydantic \<Rightarrow> ForecastProvenance \<Rightarrow> ForecastProvenance res" where
  "ForecastProvenance_new env p =
     bind_res (schema_str env 1 128 (pv_snapshot_id p)) (\<lambda>snapshot_id.
     bind_res (schema_str env 1 128 (pv_model_version p)) (\<lambda>model_version.
     bind_res (schema_literal (pv_series_basis p) forecast_series_bases) (\<lambda>_.
     bind_res (schema_str env 64 71 (pv_feature_set_hash p)) (\<lambda>feature_set_hash.
     bind_res (check (\<not> feature_hash_pattern feature_set_hash) (schema_error ''feature_set_hash pattern'')) (\<lambda>_.
     bind_res (case pv_code_version p of
                 None \<Rightarrow> Inr None
               | Some s \<Rightarrow> bind_res (schema_str env 0 64 s) (\<lambda>t. Inr (Some t))) (\<lambda>code_version.
     Inr (p\<lparr>pv_snapshot_id := snapshot_id, pv_model_version := model_version,
            pv_feature_set_hash := feature_set_hash, pv_code_version := code_version\<rparr>)))))))"

definition validate_confidence_band :: "IntervalCalibration \<Rightarrow> IntervalCalibration res" where
  "validate_confidence_band r =
     (case ic_empirical_coverage r of
        None \<Rightarrow> Inl (schema_error ''calibration evidence rows require empirical_coverage'')
      | Some empirical \<Rightarrow>
          (case (ic_confidence_low r, ic_confidence_high r) of
             (None, None) \<Rightarrow> Inr r
           | (Some low, Some high) \<Rightarrow>
               bind_res (check (f_lt high low)
                 (schema_error ''confidence_high must be greater than or equal to confidence_low'')) (\<lambda>_.
               bind_res (check (\<not> (f_le low empirical \<and> f_le empirical high))
                 (schema_error ''confidence bounds must contain empirical_coverage'')) (\<lambda>_.
               Inr r))
           | _ \<Rightarrow> Inl (schema_error ''confidence_low and confidence_high must be supplied together'')))"

definition IntervalCalibration_new :: "pydantic \<Rightarrow> IntervalCalibration \<Rightarrow> IntervalCalibration res" where
  "IntervalCalibration_new env r =
     bind_res (check (ic_horizon r < 1) (schema_error ''horizon bounds'')) (\<lambda>_.
     bind_res (coverage_field env (ic_nominal_coverage r)) (\<lambda>nominal.
     bind_res (probability_field (ic_empirical_coverage r)) (\<lambda>_.
     bind_res (check (ic_sample_count r < 0) (schema_error ''sample_count bounds'')) (\<lambda>_.
     bind_res (probability_field (ic_confidence_low r)) (\<lambda>_.
     bind_res (probability_field (ic_confidence_high r)) (\<lambda>_.
     validate_confidence_band (r\<lparr>ic_nominal_coverage := nominal\<rparr>)))))))"

definition same_bucket :: "int \<times> f64 \<Rightarrow> int \<times> f64 \<Rightarrow> bool" where
  "same_bucket a b \<longleftrightarrow> fst a = fst b \<and> f_eq (snd a) (snd b)"

fun bucket_duplicates :: "(int \<times> f64) list \<Rightarrow> bool" where
  "bucket_duplicates [] = False"
| "bucket_duplicates (b # bs) = (list_ex (same_bucket b) bs \<or> bucket_duplicates bs)"

definition calibration_buckets :: "ForecastCalibration \<Rightarrow> (int \<times> f64) list" where
  "calibration_buckets c = map (\<lambda>r. (ic_horizon r, ic_nominal_coverage r)) (fc_by_interval c)"

definition validate_window :: "ForecastCalibration \<Rightarrow> ForecastCalibration res" where
  "validate_window c =
     bind_res (check (case (fc_window_start c, fc_window_end c) of
                        (Some window_start, Some window_end) \<Rightarrow> window_end < window_start
                      | _ \<Rightarrow> False)
       (schema_error ''window_end must be on or after window_start'')) (\<lambda>_.
     bind_res (check (fc_method c = ''none'' \<and>
         (fc_window_start c \<noteq> None \<or> fc_window_end c \<noteq> None \<or> fc_sample_count c \<noteq> 0 \<or> fc_by_interval c \<noteq> []))
       (schema_error ''uncalibrated forecasts cannot claim calibration evidence'')) (\<lambda>_.
     bind_res (check (fc_method c \<noteq> ''none'' \<and>
         (fc_window_start c = None \<or> fc_window_end c = None \<or> fc_sample_count c \<le> 0 \<or> fc_by_interval c = []
          \<or> list_ex (\<lambda>r. ic_sample_count r \<le> 0 \<or> fc_sample_count c < ic_sample_count r) (fc_by_interval c)))
       (schema_error ''calibrated forecasts require coherent nonzero evidence'')) (\<lambda>_.
     bind_res (check (bucket_duplicates (calibration_buckets c))
       (schema_error ''calibration horizon/coverage buckets must be unique'')) (\<lambda>_.
     Inr c))))"

definition ForecastCalibration_new :: "pydantic \<Rightarrow> ForecastCalibration \<Rightarrow> ForecastCalibration res" where
  "ForecastCalibration_new env c =
     bind_res (schema_str env 1 128 (fc_calibration_set_version c)) (\<lambda>version.
     bind_res (schema_literal (fc_method c) calibration_methods) (\<lambda>_.
     bind_res (check (fc_sample_count c < 0) (schema_error ''sample_count bounds'')) (\<lambda>_.
     validate_window (c\<lparr>fc_calibration_set_version := version\<rparr>))))"

definition emitted_buckets :: "ForecastResponse \<Rightarrow> (int \<times> f64) list" where
  "emitted_buckets r =
     concat (map (\<lambda>s. map (\<lambda>i. (fs_step s, fi_coverage i)) (fs_intervals s)) (rs_forecasts r))"

definition bucket_subset :: "(int \<times> f64) list \<Rightarrow> (int \<times> f64) list \<Rightarrow> bool" where
  "bucket_subset xs ys \<longleftrightarrow> list_all (\<lambda>x. list_ex (same_bucket x) ys) xs"

definition validate_response_invariants :: "ForecastResponse \<Rightarrow> ForecastResponse res" where
  "validate_response_invariants r =
     (let p = rs_provenance r; target_times = map fs_target_time (rs_forecasts r) in
      bind_res (check (rs_horizon r \<noteq> int (length (rs_forecasts r)))
        (schema_error ''horizon must match the number of forecast steps'')) (\<lambda>_.
      bind_res (check (map fs_step (rs_forecasts r) \<noteq> [1..rs_horizon r])
        (schema_error ''forecast steps must be contiguous and one-indexed'')) (\<lambda>_.
      bind_res (check (list_ex (\<lambda>t. t \<le> rs_as_of r) target_times)
        (schema_error ''forecast target times must be later than as_of'')) (\<lambda>_.
      bind_res (check (any_adjacent (\<lambda>current following. current \<ge> following) target_times)
        (schema_error ''forecast target times must be strictly increasing'')) (\<lambda>_.
      bind_res (check (rs_as_of r < pv_max_available_at p)
        (schema_error ''provenance max_available_at must not be later than as_of'')) (\<lambda>_.
      bind_res (check (pv_generated_at p < rs_as_of r)
        (schema_error ''provenance generated_at must not be earlier than as_of'')) (\<lambda>_.
      bind_res (check (list_ex (\<lambda>d. pv_max_available_at p < dl_max_available_at d) (pv_data_sources p))
        (schema_error ''data-source availability must not exceed provenance cutoff'')) (\<lambda>_.
      bind_res (check (lc_max_feature_available_at (pv_lookahead_check p) \<noteq> pv_max_available_at p)
        (schema_error ''lookahead and provenance availability cutoffs must match'')) (\<lambda>_.
      bind_res (check (rs_target r = ''close'' \<and> pv_series_basis p \<noteq> ''raw'')
        (schema_error ''close forecasts require raw series provenance'')) (\<lambda>_.
      bind_res (check (rs_target r = ''adjusted_close'' \<and> pv_series_basis p = ''raw'')
        (schema_error ''adjusted_close forecasts require adjusted series provenance'')) (\<lambda>_.
      bind_res (check (fc_method (rs_calibration r) \<noteq> ''none''
          \<and> \<not> (bucket_subset (calibration_buckets (rs_calibration r)) (emitted_buckets r)
               \<and> bucket_subset (emitted_buckets r) (calibration_buckets (rs_calibration r))))
        (schema_error ''calibration evidence must match every emitted interval bucket'')) (\<lambda>_.
      bind_res (check (rs_target r \<in> {''return'', ''log_return''} \<and> rs_currency r \<noteq> None)
        (schema_error ''currency must be null for return targets'')) (\<lambda>_.
      bind_res (check (rs_target r \<in> {''close'', ''adjusted_close''} \<and> rs_currency r = None)
        (schema_error ''currency is required for price targets'')) (\<lambda>_.
      Inr r))))))))))))))"

text \<open>\<open>^[A-Z]{3}$\<close>\<close>

definition currency_field :: "pydantic \<Rightarrow> string option \<Rightarrow> string option res" where
  "currency_field env v =
     (case v of
        None \<Rightarrow> Inr None
      | Some s \<Rightarrow>
          let t = pd_strip env s in
          bind_res (check (length t \<noteq> 3 \<or> \<not> (\<forall>c \<in> set t. is_upper c)) (schema_error ''currency pattern'')) (\<lambda>_.
          Inr (Some t)))"

definition ForecastResponse_new :: "pydantic \<Rightarrow> ForecastResponse \<Rightarrow> ForecastResponse res" where
  "ForecastResponse_new env r =
     bind_res (schema_literal (rs_target r) forecast_targets) (\<lambda>_.
     bind_res (check (rs_horizon r < 1) (schema_error ''horizon bounds'')) (\<lambda>_.
     bind_res (schema_literal (rs_horizon_unit r) forecast_horizon_units) (\<lambda>_.
     bind_res (currency_field env (rs_currency r)) (\<lambda>currency.
     bind_res (check (rs_forecasts r = []) (schema_error ''forecasts length'')) (\<lambda>_.
     validate_response_invariants
       (r\<lparr>rs_symbol := py_upper (pd_strip env (rs_symbol r)), rs_currency := currency\<rparr>))))))"

end
