(* ===== verification/ForecastSnapshots.thy ===== *)
theory ForecastSnapshots
  imports ForecastSchema "HOL-Library.Product_Lexorder"
begin

text \<open>
  \<open>app/services/forecast_snapshots.py\<close>: the content-addressed snapshot of a forecast's
  inputs and the fail-closed boundary that turns a stored one into a resolved input.
  As in \<open>ForecastOutcomes\<close>, an \<open>...Arg\<close> record has objects as fields and the record of
  the same class without the suffix is a validated one; \<open>Foreign\<close> stands for a value
  that is not a tuple, or not an instance of the class.
\<close>

section \<open>Data\<close>

definition SNAPSHOT_SCHEMA_VERSION :: int where
  "SNAPSHOT_SCHEMA_VERSION = 1"

definition SNAPSHOT_FORMAT :: string where
  "SNAPSHOT_FORMAT = ''forecast-input-snapshot-v1''"

definition sn_price_targets :: "string list" where
  "sn_price_targets = [''close'', ''adjusted_close'']"

definition sn_input_timespans :: "string list" where
  "sn_input_timespans = [''minute'', ''hour'', ''day'', ''week'']"

definition sn_max_observations :: nat where "sn_max_observations = 10000"
definition sn_max_target_times :: nat where "sn_max_target_times = 252"
definition sn_max_sources :: nat where "sn_max_sources = 64"
definition sn_max_source_fields :: nat where "sn_max_source_fields = 128"
definition sn_max_payload_bytes :: nat where "sn_max_payload_bytes = 4194304"

abbreviation sn_error :: "string \<Rightarrow> exn" where
  "sn_error m \<equiv> SnapshotValidationError m"

record SnapshotObservationArg =
  soa_observed_at :: pyobj
  soa_available_at :: pyobj
  soa_value :: pyobj

record SnapshotObservation =
  so_observed_at :: instant
  so_available_at :: instant
  so_value :: f64

record SnapshotSourceLineageArg =
  ssa_name :: pyobj
  ssa_snapshot_id :: pyobj
  ssa_max_available_at :: pyobj
  ssa_fields :: "pyobj list pyarg"

record SnapshotSourceLineage =
  ss_name :: string
  ss_snapshot_id :: string
  ss_max_available_at :: instant
  ss_fields :: "string list"

record SnapshotAvailabilityEvidenceArg =
  saa_status :: pyobj
  saa_rule_set_hash :: pyobj
  saa_checked_at :: pyobj

record SnapshotAvailabilityEvidence =
  sa_status :: string
  sa_rule_set_hash :: "string option"
  sa_checked_at :: "instant option"

record ForecastInputSnapshotPayloadArg =
  spa_resolution_policy_hash :: pyobj
  spa_symbol :: pyobj
  spa_target :: pyobj
  spa_horizon_unit :: pyobj
  spa_series_basis :: pyobj
  spa_input_timespan :: pyobj
  spa_input_multiplier :: pyobj
  spa_as_of :: pyobj
  spa_currency :: pyobj
  spa_observations :: "SnapshotObservationArg pyarg list pyarg"
  spa_target_times :: "pyobj list pyarg"
  spa_data_sources :: "SnapshotSourceLineageArg pyarg list pyarg"
  spa_availability :: "SnapshotAvailabilityEvidenceArg pyarg"
  spa_schema_version :: pyobj

record ForecastInputSnapshotPayload =
  sp_resolution_policy_hash :: string
  sp_symbol :: string
  sp_target :: string
  sp_horizon_unit :: string
  sp_series_basis :: string
  sp_input_timespan :: string
  sp_input_multiplier :: int
  sp_as_of :: instant
  sp_currency :: "string option"
  sp_observations :: "SnapshotObservation list"
  sp_target_times :: "instant list"
  sp_data_sources :: "SnapshotSourceLineage list"
  sp_availability :: SnapshotAvailabilityEvidence
  sp_schema_version :: int

record ForecastInputSnapshotRecord =
  sr_snapshot_id :: pyobj
  sr_schema_version :: pyobj
  sr_resolution_policy_hash :: pyobj
  sr_symbol :: pyobj
  sr_target :: pyobj
  sr_horizon_unit :: pyobj
  sr_series_basis :: pyobj
  sr_input_timespan :: pyobj
  sr_input_multiplier :: pyobj
  sr_as_of :: pyobj
  sr_sealed_at :: pyobj
  sr_currency :: pyobj
  sr_observation_count :: pyobj
  sr_target_time_count :: pyobj
  sr_first_observed_at :: pyobj
  sr_last_observed_at :: pyobj
  sr_max_available_at :: pyobj
  sr_availability_status :: pyobj
  sr_availability_rule_set_hash :: pyobj
  sr_availability_checked_at :: pyobj
  sr_canonical_payload :: pyobj

text \<open>\<open>ForecastObservation\<close> and \<open>ResolvedForecastInput\<close> of \<open>app/services/forecasting.py\<close>\<close>

record ForecastObservation =
  ob_observed_at :: instant
  ob_available_at :: instant
  ob_value :: f64

record ResolvedForecastInput =
  ri_symbol :: string
  ri_target :: string
  ri_horizon_unit :: string
  ri_series_basis :: string
  ri_snapshot_id :: string
  ri_as_of :: instant
  ri_observations :: "ForecastObservation list"
  ri_target_times :: "instant list"
  ri_data_sources :: "DataSourceLineage list"
  ri_currency :: "string option"
  ri_availability_verified :: bool

text \<open>An optional value, and a validated object passed as an argument again.\<close>

definition opt_arg :: "('a \<Rightarrow> pyobj) \<Rightarrow> 'a option \<Rightarrow> pyobj" where
  "opt_arg f v = (case v of None \<Rightarrow> PyNone | Some x \<Rightarrow> f x)"

definition observation_arg :: "SnapshotObservation \<Rightarrow> SnapshotObservationArg" where
  "observation_arg x = \<lparr>soa_observed_at = aware (so_observed_at x), soa_available_at = aware (so_available_at x),
     soa_value = PyFloat (so_value x)\<rparr>"

definition lineage_arg :: "SnapshotSourceLineage \<Rightarrow> SnapshotSourceLineageArg" where
  "lineage_arg x = \<lparr>ssa_name = PyStr (ss_name x), ssa_snapshot_id = PyStr (ss_snapshot_id x),
     ssa_max_available_at = aware (ss_max_available_at x), ssa_fields = Inst (map PyStr (ss_fields x))\<rparr>"

definition availability_arg :: "SnapshotAvailabilityEvidence \<Rightarrow> SnapshotAvailabilityEvidenceArg" where
  "availability_arg x = \<lparr>saa_status = PyStr (sa_status x), saa_rule_set_hash = opt_arg PyStr (sa_rule_set_hash x),
     saa_checked_at = opt_arg aware (sa_checked_at x)\<rparr>"

definition snapshot_arg :: "ForecastInputSnapshotPayload \<Rightarrow> ForecastInputSnapshotPayloadArg" where
  "snapshot_arg p = \<lparr>spa_resolution_policy_hash = PyStr (sp_resolution_policy_hash p),
     spa_symbol = PyStr (sp_symbol p), spa_target = PyStr (sp_target p),
     spa_horizon_unit = PyStr (sp_horizon_unit p), spa_series_basis = PyStr (sp_series_basis p),
     spa_input_timespan = PyStr (sp_input_timespan p), spa_input_multiplier = PyInt (sp_input_multiplier p),
     spa_as_of = aware (sp_as_of p), spa_currency = opt_arg PyStr (sp_currency p),
     spa_observations = Inst (map (Inst \<circ> observation_arg) (sp_observations p)),
     spa_target_times = Inst (map aware (sp_target_times p)),
     spa_data_sources = Inst (map (Inst \<circ> lineage_arg) (sp_data_sources p)),
     spa_availability = Inst (availability_arg (sp_availability p)),
     spa_schema_version = PyInt (sp_schema_version p)\<rparr>"

section \<open>Validators\<close>

definition sn_utc :: "pyobj \<Rightarrow> string \<Rightarrow> instant res" where
  "sn_utc v label = utc_of SnapshotValidationError v label"

definition sn_text :: "nat \<Rightarrow> pyobj \<Rightarrow> string \<Rightarrow> string res" where
  "sn_text max_length v label = ev_text SnapshotValidationError max_length v label"

definition sn_optional_text :: "nat \<Rightarrow> pyobj \<Rightarrow> string \<Rightarrow> string option res" where
  "sn_optional_text max_length v label =
     (if v = PyNone then Inr None else bind_res (sn_text max_length v label) (\<lambda>s. Inr (Some s)))"

definition sn_hash :: "pyobj \<Rightarrow> string \<Rightarrow> string res" where
  "sn_hash v label = ev_hash SnapshotValidationError v label"

definition sn_finite :: "pyobj \<Rightarrow> string \<Rightarrow> f64 res" where
  "sn_finite v label = ev_finite SnapshotValidationError v label"

definition sn_positive_integer :: "pyobj \<Rightarrow> string \<Rightarrow> int res" where
  "sn_positive_integer v label =
     (case v of
        PyInt i \<Rightarrow>
          if 1 \<le> i \<and> i \<le> 10000 then Inr i else Inl (sn_error (label @ '' must be a positive integer''))
      | _ \<Rightarrow> Inl (sn_error (label @ '' must be a positive integer'')))"

definition sn_float_bits :: "f64 \<Rightarrow> string res" where
  "sn_float_bits x = bind_res (sn_finite (PyFloat x) ''value'') (\<lambda>y. Inr (float_bits y))"

definition sn_timestamp :: "instant \<Rightarrow> string res" where
  "sn_timestamp t = bind_res (sn_utc (aware t) ''timestamp'') (\<lambda>utc. Inr (instant_text utc))"

text \<open>The stages of \<open>_normalized_payload\<close>, in their order.\<close>

definition sn_observation :: "SnapshotObservationArg \<Rightarrow> SnapshotObservation res" where
  "sn_observation item =
     bind_res (sn_utc (soa_observed_at item) ''observation observed_at'') (\<lambda>observed_at.
     bind_res (sn_utc (soa_available_at item) ''observation available_at'') (\<lambda>available_at.
     bind_res (sn_finite (soa_value item) ''observation value'') (\<lambda>v.
     Inr \<lparr>so_observed_at = observed_at, so_available_at = available_at, so_value = v\<rparr>)))"

definition sn_observation_in_scope :: "string \<Rightarrow> instant \<Rightarrow> SnapshotObservation \<Rightarrow> unit res" where
  "sn_observation_in_scope target as_of item =
     bind_res (check (so_observed_at item > as_of)
       (sn_error ''observation time must not be later than as_of'')) (\<lambda>_.
     bind_res (check (so_available_at item < so_observed_at item \<or> so_available_at item > as_of)
       (sn_error ''observation availability must be within its cutoff'')) (\<lambda>_.
     check (target \<in> set sn_price_targets \<and> f_lt (so_value item) f_zero)
       (sn_error ''price snapshot values must be nonnegative'')))"

definition sn_observations ::
  "string \<Rightarrow> instant \<Rightarrow> SnapshotObservationArg pyarg list pyarg \<Rightarrow> SnapshotObservation list res" where
  "sn_observations target as_of arg =
     (case arg of
        Foreign \<Rightarrow> Inl (sn_error ''snapshot observations must be a tuple'')
      | Inst items \<Rightarrow>
          bind_res (check (length items < 1 \<or> sn_max_observations < length items)
            (sn_error ''snapshot observations must be within the size limit'')) (\<lambda>_.
          bind_res (check (list_ex (\<lambda>x. \<not> is_inst x) items)
            (sn_error ''snapshot observations have the wrong type'')) (\<lambda>_.
          bind_res (map_res sn_observation (insts items)) (\<lambda>rows.
          let observations = sort_key so_observed_at rows in
          bind_res (check (\<not> distinct (map so_observed_at observations))
            (sn_error ''observation timestamps must be unique'')) (\<lambda>_.
          bind_res (map_res (sn_observation_in_scope target as_of) observations) (\<lambda>_.
          Inr observations))))))"

definition sn_target_times :: "instant \<Rightarrow> pyobj list pyarg \<Rightarrow> instant list res" where
  "sn_target_times as_of arg =
     (case arg of
        Foreign \<Rightarrow> Inl (sn_error ''snapshot target_times must be a tuple'')
      | Inst items \<Rightarrow>
          bind_res (check (length items < 1 \<or> sn_max_target_times < length items)
            (sn_error ''snapshot target_times must be within the size limit'')) (\<lambda>_.
          bind_res (map_res (\<lambda>v. sn_utc v ''target_time'') items) (\<lambda>times.
          let target_times = sort times in
          bind_res (check (\<not> distinct target_times) (sn_error ''target_times must be unique'')) (\<lambda>_.
          bind_res (check (hd target_times \<le> as_of) (sn_error ''target_times must be later than as_of'')) (\<lambda>_.
          Inr target_times)))))"

text \<open>
  One source row: its grouping key and its set of fields.  A \<open>dict\<close> of sets is a list
  of keys with a list of fields, both in the order of their first insertion.
\<close>

type_synonym source_key = "string \<times> string \<times> instant"

definition sn_source :: "instant \<Rightarrow> SnapshotSourceLineageArg \<Rightarrow> (source_key \<times> string list) res" where
  "sn_source as_of source =
     bind_res (sn_text 64 (ssa_name source) ''source name'') (\<lambda>name.
     bind_res (sn_text 128 (ssa_snapshot_id source) ''source snapshot_id'') (\<lambda>source_snapshot_id.
     bind_res (sn_utc (ssa_max_available_at source) ''source max_available_at'') (\<lambda>max_available_at.
     bind_res (check (max_available_at > as_of)
       (sn_error ''source availability must not be later than as_of'')) (\<lambda>_.
     case ssa_fields source of
       Foreign \<Rightarrow> Inl (sn_error ''source fields must be a tuple'')
     | Inst items \<Rightarrow>
         bind_res (check (length items < 1 \<or> sn_max_source_fields < length items)
           (sn_error ''source fields must be within the size limit'')) (\<lambda>_.
         bind_res (map_res (\<lambda>v. sn_text 128 v ''source field'') items) (\<lambda>texts.
         let names = remdups texts in
         bind_res (check (length names < 1 \<or> sn_max_source_fields < length names)
           (sn_error ''source fields must be within the size limit'')) (\<lambda>_.
         Inr ((name, source_snapshot_id, max_available_at), names))))))))"

text \<open>\<open>grouped_sources.setdefault(key, set()).update(fields)\<close>\<close>

fun group_update :: "'k \<Rightarrow> 'v list \<Rightarrow> ('k \<times> 'v list) list \<Rightarrow> ('k \<times> 'v list) list" where
  "group_update k vs [] = [(k, vs)]"
| "group_update k vs ((k', ws) # g) =
     (if k' = k then (k', ws @ filter (\<lambda>v. v \<notin> set ws) vs) # g else (k', ws) # group_update k vs g)"

definition sn_group :: "(source_key \<times> string list) list \<Rightarrow> (source_key \<times> string list) list" where
  "sn_group rows = foldl (\<lambda>g (k, names). group_update k names g) [] rows"

definition sn_lineage :: "source_key \<times> string list \<Rightarrow> SnapshotSourceLineage" where
  "sn_lineage x = (case x of ((name, source_snapshot_id, max_available_at), names) \<Rightarrow>
     \<lparr>ss_name = name, ss_snapshot_id = source_snapshot_id, ss_max_available_at = max_available_at,
      ss_fields = sort names\<rparr>)"

definition sn_data_sources ::
  "instant \<Rightarrow> SnapshotSourceLineageArg pyarg list pyarg \<Rightarrow> SnapshotSourceLineage list res" where
  "sn_data_sources as_of arg =
     (case arg of
        Foreign \<Rightarrow> Inl (sn_error ''snapshot data_sources must be a tuple'')
      | Inst items \<Rightarrow>
          bind_res (check (length items < 1 \<or> sn_max_sources < length items)
            (sn_error ''snapshot data_sources must be within the size limit'')) (\<lambda>_.
          bind_res (check (list_ex (\<lambda>x. \<not> is_inst x) items)
            (sn_error ''snapshot data_sources have the wrong type'')) (\<lambda>_.
          bind_res (map_res (sn_source as_of) (insts items)) (\<lambda>rows.
          Inr (map sn_lineage (sort_key fst (sn_group rows)))))))"

text \<open>\<open>max([item.available_at ...] + [source.max_available_at ...])\<close>\<close>

definition sn_max_available :: "SnapshotObservation list \<Rightarrow> SnapshotSourceLineage list \<Rightarrow> instant" where
  "sn_max_available observations sources =
     (let ts = map so_available_at observations @ map ss_max_available_at sources in foldl max (hd ts) (tl ts))"

definition sn_availability ::
  "instant \<Rightarrow> SnapshotObservation list \<Rightarrow> SnapshotSourceLineage list
     \<Rightarrow> SnapshotAvailabilityEvidenceArg pyarg \<Rightarrow> SnapshotAvailabilityEvidence res" where
  "sn_availability as_of observations sources arg =
     (case arg of
        Foreign \<Rightarrow> Inl (sn_error ''availability evidence has the wrong type'')
      | Inst a \<Rightarrow>
          if saa_status a = PyStr ''not_run'' then
            bind_res (check (saa_rule_set_hash a \<noteq> PyNone \<or> saa_checked_at a \<noteq> PyNone)
              (sn_error ''not_run availability cannot include proof fields'')) (\<lambda>_.
            Inr \<lparr>sa_status = ''not_run'', sa_rule_set_hash = None, sa_checked_at = None\<rparr>)
          else if saa_status a = PyStr ''passed'' then
            bind_res (check (saa_rule_set_hash a = PyNone \<or> saa_checked_at a = PyNone)
              (sn_error ''passed availability requires proof fields'')) (\<lambda>_.
            bind_res (sn_hash (saa_rule_set_hash a) ''availability rule_set_hash'') (\<lambda>rule_set_hash.
            bind_res (sn_utc (saa_checked_at a) ''availability checked_at'') (\<lambda>checked_at.
            bind_res (check (checked_at < max (sn_max_available observations sources) as_of)
              (sn_error ''availability proof predates its snapshot cutoff'')) (\<lambda>_.
            Inr \<lparr>sa_status = ''passed'', sa_rule_set_hash = Some rule_set_hash, sa_checked_at = Some checked_at\<rparr>))))
          else Inl (sn_error ''availability status is not supported''))"

definition sn_normalized_payload ::
  "ForecastInputSnapshotPayloadArg pyarg \<Rightarrow> ForecastInputSnapshotPayload res" where
  "sn_normalized_payload arg =
     (case arg of
        Foreign \<Rightarrow> Inl (TypeErr ''payload must be a ForecastInputSnapshotPayload'')
      | Inst payload \<Rightarrow>
          bind_res (check (spa_schema_version payload \<noteq> PyInt SNAPSHOT_SCHEMA_VERSION)
            (sn_error ''snapshot schema_version is not supported'')) (\<lambda>_.
          bind_res (sn_hash (spa_resolution_policy_hash payload) ''resolution_policy_hash'') (\<lambda>resolution_policy_hash.
          bind_res (sn_text 32 (spa_symbol payload) ''symbol'') (\<lambda>symbol.
          bind_res (check (symbol \<noteq> py_upper symbol \<or> \<not> symbol_pattern symbol)
            (sn_error ''symbol must be uppercase and canonical'')) (\<lambda>_.
          bind_res (sn_text 32 (spa_target payload) ''target'') (\<lambda>target.
          bind_res (check (target \<notin> set forecast_targets) (sn_error ''target is not supported'')) (\<lambda>_.
          bind_res (sn_text 32 (spa_horizon_unit payload) ''horizon_unit'') (\<lambda>horizon_unit.
          bind_res (check (horizon_unit \<notin> set forecast_horizon_units)
            (sn_error ''horizon_unit is not supported'')) (\<lambda>_.
          bind_res (sn_text 32 (spa_series_basis payload) ''series_basis'') (\<lambda>series_basis.
          bind_res (check (series_basis \<notin> set forecast_series_bases)
            (sn_error ''series_basis is not supported'')) (\<lambda>_.
          bind_res (check (target = ''close'' \<and> series_basis \<noteq> ''raw'')
            (sn_error ''close snapshots require raw series basis'')) (\<lambda>_.
          bind_res (check (target = ''adjusted_close'' \<and> series_basis = ''raw'')
            (sn_error ''adjusted_close snapshots require adjusted series basis'')) (\<lambda>_.
          bind_res (sn_text 16 (spa_input_timespan payload) ''input_timespan'') (\<lambda>input_timespan.
          bind_res (check (input_timespan \<notin> set sn_input_timespans)
            (sn_error ''input_timespan is not supported'')) (\<lambda>_.
          bind_res (sn_positive_integer (spa_input_multiplier payload) ''input_multiplier'') (\<lambda>input_multiplier.
          bind_res (sn_optional_text 3 (spa_currency payload) ''currency'') (\<lambda>currency.
          bind_res (check (target \<in> set sn_price_targets
              \<and> (case currency of None \<Rightarrow> True | Some c \<Rightarrow> length c \<noteq> 3 \<or> \<not> (\<forall>x \<in> set c. is_upper x)))
            (sn_error ''price snapshots require uppercase ISO currency'')) (\<lambda>_.
          bind_res (check (target \<notin> set sn_price_targets \<and> currency \<noteq> None)
            (sn_error ''return snapshots must not specify currency'')) (\<lambda>_.
          bind_res (sn_utc (spa_as_of payload) ''as_of'') (\<lambda>as_of.
          bind_res (sn_observations target as_of (spa_observations payload)) (\<lambda>observations.
          bind_res (sn_target_times as_of (spa_target_times payload)) (\<lambda>target_times.
          bind_res (sn_data_sources as_of (spa_data_sources payload)) (\<lambda>data_sources.
          bind_res (sn_availability as_of observations data_sources (spa_availability payload)) (\<lambda>availability.
          Inr \<lparr>sp_resolution_policy_hash = resolution_policy_hash, sp_symbol = symbol, sp_target = target,
            sp_horizon_unit = horizon_unit, sp_series_basis = series_basis, sp_input_timespan = input_timespan,
            sp_input_multiplier = input_multiplier, sp_as_of = as_of, sp_currency = currency,
            sp_observations = observations, sp_target_times = target_times, sp_data_sources = data_sources,
            sp_availability = availability, sp_schema_version = SNAPSHOT_SCHEMA_VERSION\<rparr>))))))))))))))))))))))))"

section \<open>The canonical document\<close>

definition sn_observation_document :: "SnapshotObservation \<Rightarrow> json res" where
  "sn_observation_document x =
     bind_res (sn_timestamp (so_available_at x)) (\<lambda>available_at.
     bind_res (sn_timestamp (so_observed_at x)) (\<lambda>observed_at.
     bind_res (sn_float_bits (so_value x)) (\<lambda>value_f64.
     Inr (JObj [(''available_at'', JStr available_at), (''observed_at'', JStr observed_at),
                (''value_f64'', JStr value_f64)]))))"

definition sn_source_document :: "SnapshotSourceLineage \<Rightarrow> json res" where
  "sn_source_document x =
     bind_res (sn_timestamp (ss_max_available_at x)) (\<lambda>max_available_at.
     Inr (JObj [(''fields'', JArr (map JStr (ss_fields x))), (''max_available_at'', JStr max_available_at),
                (''name'', JStr (ss_name x)), (''snapshot_id'', JStr (ss_snapshot_id x))]))"

definition json_opt :: "string option \<Rightarrow> json" where
  "json_opt v = (case v of None \<Rightarrow> JNull | Some s \<Rightarrow> JStr s)"

definition sn_optional_timestamp_text :: "instant option \<Rightarrow> string option res" where
  "sn_optional_timestamp_text v =
     (case v of None \<Rightarrow> Inr None | Some t \<Rightarrow> bind_res (sn_timestamp t) (\<lambda>s. Inr (Some s)))"

definition sn_document :: "ForecastInputSnapshotPayload \<Rightarrow> json res" where
  "sn_document p =
     bind_res (sn_timestamp (sp_as_of p)) (\<lambda>as_of.
     bind_res (sn_optional_timestamp_text (sa_checked_at (sp_availability p))) (\<lambda>checked_at.
     bind_res (map_res sn_source_document (sp_data_sources p)) (\<lambda>data_sources.
     bind_res (map_res sn_observation_document (sp_observations p)) (\<lambda>observations.
     bind_res (map_res sn_timestamp (sp_target_times p)) (\<lambda>target_times.
     Inr (JObj [
       (''as_of'', JStr as_of),
       (''availability'', JObj [
          (''checked_at'', json_opt checked_at),
          (''rule_set_hash'', json_opt (sa_rule_set_hash (sp_availability p))),
          (''status'', JStr (sa_status (sp_availability p)))]),
       (''currency'', json_opt (sp_currency p)),
       (''data_sources'', JArr data_sources),
       (''format'', JStr SNAPSHOT_FORMAT),
       (''horizon_unit'', JStr (sp_horizon_unit p)),
       (''input_multiplier'', JInt (sp_input_multiplier p)),
       (''input_timespan'', JStr (sp_input_timespan p)),
       (''observations'', JArr observations),
       (''resolution_policy_hash'', JStr (sp_resolution_policy_hash p)),
       (''schema_version'', JInt (sp_schema_version p)),
       (''series_basis'', JStr (sp_series_basis p)),
       (''symbol'', JStr (sp_symbol p)),
       (''target'', JStr (sp_target p)),
       (''target_times'', JArr (map JStr target_times))]))))))"

definition canonical_snapshot_payload :: "ForecastInputSnapshotPayloadArg pyarg \<Rightarrow> bytes res" where
  "canonical_snapshot_payload payload =
     bind_res (sn_normalized_payload payload) (\<lambda>normalized.
     bind_res (sn_document normalized) (\<lambda>document.
     case canonical_json document of
       Inl _ \<Rightarrow> Inl (sn_error ''snapshot payload cannot be encoded canonically'')
     | Inr canonical \<Rightarrow>
         if sn_max_payload_bytes < length canonical
         then Inl (sn_error ''canonical_payload exceeds the storage limit'')
         else Inr canonical))"

text \<open>The bytes test of \<open>snapshot_id_for_payload\<close> and of \<open>parse_snapshot_payload\<close>.\<close>

definition sn_payload_bytes :: "pyobj \<Rightarrow> bytes res" where
  "sn_payload_bytes v =
     (case v of
        PyBytes b \<Rightarrow>
          if b = [] \<or> sn_max_payload_bytes < length b
          then Inl (sn_error ''canonical_payload must be non-empty bytes'') else Inr b
      | _ \<Rightarrow> Inl (sn_error ''canonical_payload must be non-empty bytes''))"

definition snapshot_id_for_payload :: "pyobj \<Rightarrow> string res" where
  "snapshot_id_for_payload v = bind_res (sn_payload_bytes v) (\<lambda>b. Inr (content_id b))"

definition build_snapshot_record ::
  "ForecastInputSnapshotPayloadArg pyarg \<Rightarrow> pyobj \<Rightarrow> ForecastInputSnapshotRecord res" where
  "build_snapshot_record payload sealed_at =
     bind_res (sn_normalized_payload payload) (\<lambda>n.
     bind_res (sn_utc sealed_at ''sealed_at'') (\<lambda>sealed.
     bind_res (check (sealed < sp_as_of n) (sn_error ''sealed_at must not be earlier than as_of'')) (\<lambda>_.
     bind_res (check (case sa_checked_at (sp_availability n) of None \<Rightarrow> False | Some t \<Rightarrow> t > sealed)
       (sn_error ''availability checked_at must not be later than sealed_at'')) (\<lambda>_.
     bind_res (canonical_snapshot_payload (Inst (snapshot_arg n))) (\<lambda>canonical.
     bind_res (snapshot_id_for_payload (PyBytes canonical)) (\<lambda>snapshot_id.
     Inr \<lparr>sr_snapshot_id = PyStr snapshot_id, sr_schema_version = PyInt (sp_schema_version n),
       sr_resolution_policy_hash = PyStr (sp_resolution_policy_hash n), sr_symbol = PyStr (sp_symbol n),
       sr_target = PyStr (sp_target n), sr_horizon_unit = PyStr (sp_horizon_unit n),
       sr_series_basis = PyStr (sp_series_basis n), sr_input_timespan = PyStr (sp_input_timespan n),
       sr_input_multiplier = PyInt (sp_input_multiplier n), sr_as_of = aware (sp_as_of n),
       sr_sealed_at = aware sealed, sr_currency = opt_arg PyStr (sp_currency n),
       sr_observation_count = PyInt (int (length (sp_observations n))),
       sr_target_time_count = PyInt (int (length (sp_target_times n))),
       sr_first_observed_at = aware (so_observed_at (hd (sp_observations n))),
       sr_last_observed_at = aware (so_observed_at (last (sp_observations n))),
       sr_max_available_at = aware (sn_max_available (sp_observations n) (sp_data_sources n)),
       sr_availability_status = PyStr (sa_status (sp_availability n)),
       sr_availability_rule_set_hash = opt_arg PyStr (sa_rule_set_hash (sp_availability n)),
       sr_availability_checked_at = opt_arg aware (sa_checked_at (sp_availability n)),
       sr_canonical_payload = PyBytes canonical\<rparr>))))))"

end
