(* ===== verification/SnapshotReading.thy ===== *)
theory SnapshotReading
  imports ForecastSnapshots
begin

text \<open>
  \<open>app/services/forecast_snapshots.py\<close>, second half: the strict reader of canonical
  bytes and \<open>validate_and_resolve_snapshot\<close>, which binds a stored record to a request.
\<close>

section \<open>Reading the document\<close>

definition sn_unique_object :: "(string \<times> json) list \<Rightarrow> json res" where
  "sn_unique_object pairs = ev_unique (\<lambda>key. sn_error (''duplicate JSON key: '' @ key)) [] pairs"

definition sn_reject_json_constant :: "string \<Rightarrow> exn" where
  "sn_reject_json_constant v = sn_error (''non-finite JSON constant is forbidden: '' @ v)"

definition sn_hooks :: json_hooks where
  "sn_hooks = \<lparr>jh_object = sn_unique_object, jh_constant = (\<lambda>v. Inl (sn_reject_json_constant v))\<rparr>"

definition sn_exact_keys :: "(string \<times> json) list \<Rightarrow> string list \<Rightarrow> string \<Rightarrow> unit res" where
  "sn_exact_keys d expected label = ev_exact_keys (sn_error (label @ '' has missing or unknown keys'')) d expected"

definition sn_object :: "json \<Rightarrow> string \<Rightarrow> (string \<times> json) list res" where
  "sn_object j label = ev_object (sn_error (label @ '' must be an object'')) j"

definition sn_array :: "json \<Rightarrow> string \<Rightarrow> json list res" where
  "sn_array j label = ev_array (sn_error (label @ '' must be an array'')) j"

definition sn_string :: "json \<Rightarrow> string \<Rightarrow> string res" where
  "sn_string j label = ev_string (sn_error (label @ '' must be a string'')) j"

definition sn_optional_string :: "json \<Rightarrow> string \<Rightarrow> string option res" where
  "sn_optional_string j label =
     (if j = JNull then Inr None else bind_res (sn_string j label) (\<lambda>s. Inr (Some s)))"

definition sn_integer :: "json \<Rightarrow> string \<Rightarrow> int res" where
  "sn_integer j label = ev_integer (sn_error (label @ '' must be an integer'')) j"

definition sn_parse_timestamp :: "json \<Rightarrow> string \<Rightarrow> instant res" where
  "sn_parse_timestamp j label = ev_parse_timestamp SnapshotValidationError j label"

definition sn_optional_timestamp :: "json \<Rightarrow> string \<Rightarrow> instant option res" where
  "sn_optional_timestamp j label =
     (if j = JNull then Inr None else bind_res (sn_parse_timestamp j label) (\<lambda>t. Inr (Some t)))"

definition sn_parse_float_bits :: "json \<Rightarrow> f64 res" where
  "sn_parse_float_bits j = ev_parse_float_bits SnapshotValidationError j ''value_f64''"

definition sn_root_keys :: "string list" where
  "sn_root_keys = [''as_of'', ''availability'', ''currency'', ''data_sources'', ''format'', ''horizon_unit'',
     ''input_multiplier'', ''input_timespan'', ''observations'', ''resolution_policy_hash'',
     ''schema_version'', ''series_basis'', ''symbol'', ''target'', ''target_times'']"

definition sn_indexed :: "string \<Rightarrow> nat \<Rightarrow> string" where
  "sn_indexed label i = label @ ''['' @ int_str (int i) @ '']''"

definition sn_decode_availability :: "json \<Rightarrow> SnapshotAvailabilityEvidenceArg res" where
  "sn_decode_availability j =
     bind_res (sn_object j ''availability'') (\<lambda>row.
     bind_res (sn_exact_keys row [''checked_at'', ''rule_set_hash'', ''status''] ''availability'') (\<lambda>_.
     bind_res (bind_res (ev_field row ''status'') (\<lambda>v. sn_string v ''availability status'')) (\<lambda>status.
     bind_res (check (status \<notin> {''not_run'', ''passed''}) (sn_error ''availability status is not supported'')) (\<lambda>_.
     bind_res (bind_res (ev_field row ''rule_set_hash'') (\<lambda>v. sn_optional_string v ''availability rule_set_hash'')) (\<lambda>rules.
     bind_res (bind_res (ev_field row ''checked_at'') (\<lambda>v. sn_optional_timestamp v ''availability checked_at'')) (\<lambda>checked_at.
     Inr \<lparr>saa_status = PyStr status, saa_rule_set_hash = opt_arg PyStr rules, saa_checked_at = opt_arg aware checked_at\<rparr>))))))"

definition sn_decode_observation :: "nat \<Rightarrow> json \<Rightarrow> SnapshotObservationArg res" where
  "sn_decode_observation index j =
     bind_res (sn_object j (sn_indexed ''observations'' index)) (\<lambda>row.
     bind_res (sn_exact_keys row [''available_at'', ''observed_at'', ''value_f64''] (sn_indexed ''observations'' index)) (\<lambda>_.
     bind_res (bind_res (ev_field row ''observed_at'') (\<lambda>v. sn_parse_timestamp v ''observed_at'')) (\<lambda>observed_at.
     bind_res (bind_res (ev_field row ''available_at'') (\<lambda>v. sn_parse_timestamp v ''available_at'')) (\<lambda>available_at.
     bind_res (bind_res (ev_field row ''value_f64'') sn_parse_float_bits) (\<lambda>v.
     Inr \<lparr>soa_observed_at = aware observed_at, soa_available_at = aware available_at, soa_value = PyFloat v\<rparr>)))))"

definition sn_decode_source :: "nat \<Rightarrow> json \<Rightarrow> SnapshotSourceLineageArg res" where
  "sn_decode_source index j =
     bind_res (sn_object j (sn_indexed ''data_sources'' index)) (\<lambda>row.
     bind_res (sn_exact_keys row [''fields'', ''max_available_at'', ''name'', ''snapshot_id'']
       (sn_indexed ''data_sources'' index)) (\<lambda>_.
     bind_res (bind_res (ev_field row ''fields'') (\<lambda>v. sn_array v (sn_indexed ''data_sources'' index @ ''.fields''))) (\<lambda>items.
     bind_res (map_res (\<lambda>v. sn_string v (sn_indexed ''data_sources'' index @ ''.fields'')) items) (\<lambda>texts.
     bind_res (bind_res (ev_field row ''name'') (\<lambda>v. sn_string v ''source name'')) (\<lambda>name.
     bind_res (bind_res (ev_field row ''snapshot_id'') (\<lambda>v. sn_string v ''source snapshot_id'')) (\<lambda>snapshot_id.
     bind_res (bind_res (ev_field row ''max_available_at'') (\<lambda>v. sn_parse_timestamp v ''source max_available_at'')) (\<lambda>t.
     Inr \<lparr>ssa_name = PyStr name, ssa_snapshot_id = PyStr snapshot_id, ssa_max_available_at = aware t,
          ssa_fields = Inst (map PyStr texts)\<rparr>)))))))"

text \<open>\<open>for index, value in enumerate(values)\<close>\<close>

fun map_res_from :: "nat \<Rightarrow> (nat \<Rightarrow> 'a \<Rightarrow> 'b res) \<Rightarrow> 'a list \<Rightarrow> 'b list res" where
  "map_res_from i f [] = Inr []"
| "map_res_from i f (x # xs) = bind_res (f i x) (\<lambda>y. bind_res (map_res_from (Suc i) f xs) (\<lambda>ys. Inr (y # ys)))"

definition sn_decode :: "json \<Rightarrow> ForecastInputSnapshotPayloadArg pyarg res" where
  "sn_decode document =
     bind_res (sn_object document ''payload'') (\<lambda>root.
     bind_res (sn_exact_keys root sn_root_keys ''payload'') (\<lambda>_.
     bind_res (bind_res (ev_field root ''format'') (\<lambda>v. sn_string v ''format'')) (\<lambda>fmt.
     bind_res (check (fmt \<noteq> SNAPSHOT_FORMAT) (sn_error ''snapshot format is not supported'')) (\<lambda>_.
     bind_res (bind_res (ev_field root ''schema_version'') (\<lambda>v. sn_integer v ''schema_version'')) (\<lambda>schema_version.
     bind_res (bind_res (ev_field root ''availability'') sn_decode_availability) (\<lambda>availability.
     bind_res (bind_res (ev_field root ''observations'') (\<lambda>v. sn_array v ''observations'')) (\<lambda>observations_raw.
     bind_res (map_res_from 0 sn_decode_observation observations_raw) (\<lambda>observations.
     bind_res (bind_res (ev_field root ''data_sources'') (\<lambda>v. sn_array v ''data_sources'')) (\<lambda>sources_raw.
     bind_res (map_res_from 0 sn_decode_source sources_raw) (\<lambda>sources.
     bind_res (bind_res (ev_field root ''target_times'') (\<lambda>v. sn_array v ''target_times'')) (\<lambda>times_raw.
     bind_res (map_res (\<lambda>v. sn_parse_timestamp v ''target_time'') times_raw) (\<lambda>target_times.
     bind_res (bind_res (ev_field root ''target'') (\<lambda>v. sn_string v ''target'')) (\<lambda>target.
     bind_res (bind_res (ev_field root ''resolution_policy_hash'') (\<lambda>v. sn_string v ''resolution_policy_hash'')) (\<lambda>policy.
     bind_res (bind_res (ev_field root ''symbol'') (\<lambda>v. sn_string v ''symbol'')) (\<lambda>symbol.
     bind_res (bind_res (ev_field root ''horizon_unit'') (\<lambda>v. sn_string v ''horizon_unit'')) (\<lambda>horizon_unit.
     bind_res (bind_res (ev_field root ''series_basis'') (\<lambda>v. sn_string v ''series_basis'')) (\<lambda>series_basis.
     bind_res (bind_res (ev_field root ''input_timespan'') (\<lambda>v. sn_string v ''input_timespan'')) (\<lambda>input_timespan.
     bind_res (bind_res (ev_field root ''input_multiplier'') (\<lambda>v. sn_integer v ''input_multiplier'')) (\<lambda>input_multiplier.
     bind_res (bind_res (ev_field root ''as_of'') (\<lambda>v. sn_parse_timestamp v ''as_of'')) (\<lambda>as_of.
     bind_res (bind_res (ev_field root ''currency'') (\<lambda>v. sn_optional_string v ''currency'')) (\<lambda>currency.
     Inr (Inst \<lparr>spa_resolution_policy_hash = PyStr policy, spa_symbol = PyStr symbol, spa_target = PyStr target,
       spa_horizon_unit = PyStr horizon_unit, spa_series_basis = PyStr series_basis,
       spa_input_timespan = PyStr input_timespan, spa_input_multiplier = PyInt input_multiplier,
       spa_as_of = aware as_of, spa_currency = opt_arg PyStr currency,
       spa_observations = Inst (map Inst observations), spa_target_times = Inst (map aware target_times),
       spa_data_sources = Inst (map Inst sources), spa_availability = Inst availability,
       spa_schema_version = PyInt schema_version\<rparr>))))))))))))))))))))))"

definition parse_snapshot_payload :: "pyobj \<Rightarrow> ForecastInputSnapshotPayload res" where
  "parse_snapshot_payload canonical_payload =
     bind_res (sn_payload_bytes canonical_payload) (\<lambda>b.
     bind_res (ev_loads (\<lambda>_. False) (sn_error ''canonical_payload is not strict UTF-8 JSON'') sn_hooks b) (\<lambda>document.
     bind_res (sn_decode document) (\<lambda>payload. sn_normalized_payload payload)))"

section \<open>Resolution\<close>

text \<open>The values of \<open>dataclass_fields(ForecastInputSnapshotRecord)\<close>, in their order.\<close>

definition snapshot_record_fields :: "ForecastInputSnapshotRecord \<Rightarrow> pyobj list" where
  "snapshot_record_fields r =
     [sr_snapshot_id r, sr_schema_version r, sr_resolution_policy_hash r, sr_symbol r, sr_target r,
      sr_horizon_unit r, sr_series_basis r, sr_input_timespan r, sr_input_multiplier r, sr_as_of r,
      sr_sealed_at r, sr_currency r, sr_observation_count r, sr_target_time_count r,
      sr_first_observed_at r, sr_last_observed_at r, sr_max_available_at r, sr_availability_status r,
      sr_availability_rule_set_hash r, sr_availability_checked_at r, sr_canonical_payload r]"

definition sn_strict_record_equal :: "ForecastInputSnapshotRecord \<Rightarrow> ForecastInputSnapshotRecord \<Rightarrow> bool" where
  "sn_strict_record_equal actual expected =
     list_all2 obj_same (snapshot_record_fields actual) (snapshot_record_fields expected)"

text \<open>The first half of \<open>validate_and_resolve_snapshot\<close>: bytes, digest and header.\<close>

definition sn_verified_payload :: "ForecastInputSnapshotRecord \<Rightarrow> (ForecastInputSnapshotPayload \<times> string) res" where
  "sn_verified_payload record =
     bind_res (parse_snapshot_payload (sr_canonical_payload record)) (\<lambda>payload.
     bind_res (canonical_snapshot_payload (Inst (snapshot_arg payload))) (\<lambda>canonical.
     bind_res (check (PyBytes canonical \<noteq> sr_canonical_payload record)
       (sn_error ''canonical_payload bytes are not canonical'')) (\<lambda>_.
     bind_res (sn_hash (sr_snapshot_id record) ''snapshot_id'') (\<lambda>snapshot_id.
     bind_res (snapshot_id_for_payload (sr_canonical_payload record)) (\<lambda>actual_snapshot_id.
     bind_res (check (snapshot_id \<noteq> actual_snapshot_id)
       (sn_error ''snapshot_id does not match canonical_payload'')) (\<lambda>_.
     bind_res (build_snapshot_record (Inst (snapshot_arg payload)) (sr_sealed_at record)) (\<lambda>expected_record.
     bind_res (check (\<not> sn_strict_record_equal record expected_record)
       (sn_error ''snapshot header does not match canonical_payload'')) (\<lambda>_.
     Inr (payload, snapshot_id)))))))))"

text \<open>The second half: the payload against the request and the expected policy.\<close>

definition sn_bind_request ::
  "ForecastInputSnapshotPayload \<Rightarrow> string \<Rightarrow> ForecastRequest \<Rightarrow> string \<Rightarrow> string \<Rightarrow> string \<Rightarrow> int \<Rightarrow> unit res" where
  "sn_bind_request payload snapshot_id request series_basis policy_hash timespan multiplier =
     bind_res (check (sp_resolution_policy_hash payload \<noteq> policy_hash)
       (sn_error ''snapshot resolution policy does not match'')) (\<lambda>_.
     bind_res (check (sp_series_basis payload \<noteq> series_basis)
       (sn_error ''snapshot series basis does not match'')) (\<lambda>_.
     bind_res (check (sp_input_timespan payload \<noteq> timespan)
       (sn_error ''snapshot input_timespan does not match'')) (\<lambda>_.
     bind_res (check (sp_input_multiplier payload \<noteq> multiplier)
       (sn_error ''snapshot input_multiplier does not match'')) (\<lambda>_.
     bind_res (check (sp_symbol payload \<noteq> rq_symbol request)
       (sn_error ''snapshot symbol does not match the request'')) (\<lambda>_.
     bind_res (check (sp_target payload \<noteq> rq_target request)
       (sn_error ''snapshot target does not match the request'')) (\<lambda>_.
     bind_res (check (sp_horizon_unit payload \<noteq> rq_horizon_unit request)
       (sn_error ''snapshot horizon unit does not match the request'')) (\<lambda>_.
     bind_res (case rq_snapshot_id request of
                 Some pinned \<Rightarrow> check (pinned \<noteq> snapshot_id)
                   (sn_error ''pinned snapshot_id does not match the loaded record'')
               | None \<Rightarrow>
                   (case rq_as_of request of
                      Some cutoff \<Rightarrow> check (sp_as_of payload > cutoff)
                        (sn_error ''snapshot is later than the requested as_of cutoff'')
                    | None \<Rightarrow> Inr ())) (\<lambda>_.
     check (int (length (sp_target_times payload)) < rq_horizon request)
       (sn_error ''snapshot does not contain the requested target horizon'')))))))))"

definition availability_trusted :: "ForecastInputSnapshotPayload \<Rightarrow> string option \<Rightarrow> bool" where
  "availability_trusted payload trusted \<longleftrightarrow>
     sa_status (sp_availability payload) = ''passed'' \<and> trusted \<noteq> None
     \<and> sa_rule_set_hash (sp_availability payload) \<noteq> None
     \<and> sa_rule_set_hash (sp_availability payload) = trusted"

definition sn_resolved ::
  "pydantic \<Rightarrow> ForecastInputSnapshotPayload \<Rightarrow> string \<Rightarrow> ForecastRequest \<Rightarrow> bool \<Rightarrow> ResolvedForecastInput res" where
  "sn_resolved env payload snapshot_id request verified =
     bind_res (map_res (\<lambda>s. DataSourceLineage_new env
         \<lparr>dl_name = ss_name s, dl_snapshot_id = ss_snapshot_id s, dl_max_available_at = ss_max_available_at s,
          dl_fields = ss_fields s\<rparr>) (sp_data_sources payload)) (\<lambda>sources.
     Inr \<lparr>ri_symbol = sp_symbol payload, ri_target = sp_target payload, ri_horizon_unit = sp_horizon_unit payload,
       ri_series_basis = sp_series_basis payload, ri_snapshot_id = snapshot_id, ri_as_of = sp_as_of payload,
       ri_observations = map (\<lambda>x. \<lparr>ob_observed_at = so_observed_at x, ob_available_at = so_available_at x,
         ob_value = so_value x\<rparr>) (sp_observations payload),
       ri_target_times = take (nat (rq_horizon request)) (sp_target_times payload),
       ri_data_sources = sources, ri_currency = sp_currency payload, ri_availability_verified = verified\<rparr>)"

definition validate_and_resolve_snapshot ::
  "pydantic \<Rightarrow> ForecastInputSnapshotRecord pyarg \<Rightarrow> ForecastRequest pyarg \<Rightarrow> string \<Rightarrow> pyobj \<Rightarrow> string \<Rightarrow> pyobj
     \<Rightarrow> pyobj \<Rightarrow> ResolvedForecastInput res" where
  "validate_and_resolve_snapshot env record_arg request_arg series_basis policy_arg timespan multiplier_arg trusted_arg =
     (case (record_arg, request_arg) of
        (Foreign, _) \<Rightarrow> Inl (TypeErr ''record must be a ForecastInputSnapshotRecord'')
      | (_, Foreign) \<Rightarrow> Inl (TypeErr ''request must be a ForecastRequest'')
      | (Inst record, Inst request) \<Rightarrow>
          bind_res (sn_hash policy_arg ''expected_resolution_policy_hash'') (\<lambda>policy_hash.
          bind_res (check (series_basis \<notin> set forecast_series_bases)
            (sn_error ''expected_series_basis is not supported'')) (\<lambda>_.
          bind_res (check (timespan \<notin> set sn_input_timespans)
            (sn_error ''expected_input_timespan is not supported'')) (\<lambda>_.
          bind_res (sn_positive_integer multiplier_arg ''expected_input_multiplier'') (\<lambda>multiplier.
          bind_res (if trusted_arg = PyNone then Inr None
                    else bind_res (sn_hash trusted_arg ''trusted_availability_rule_set_hash'') (\<lambda>h. Inr (Some h))) (\<lambda>trusted.
          bind_res (sn_verified_payload record) (\<lambda>(payload, snapshot_id).
          bind_res (sn_bind_request payload snapshot_id request series_basis policy_hash timespan multiplier) (\<lambda>_.
          sn_resolved env payload snapshot_id request (availability_trusted payload trusted)))))))))"

end
