(* ===== verification/Forecasting.thy ===== *)
theory Forecasting
  imports SnapshotReading WalkForward
begin

text \<open>
  \<open>app/services/forecasting.py\<close>: the assembly of one forecast response from a resolved
  input and a freshly fitted forecaster.  The fields the code inspects with
  \<open>isinstance\<close> or converts (\<open>_as_utc\<close>, \<open>_finite\<close>, \<open>type(...) is bool\<close>) are objects of
  unknown class; the request and the lineage rows are validated pydantic models.

  A forecaster is the interface of \<open>ml/models/base.py\<close> as theory \<open>WalkForward\<close> models
  it.  Here \<open>fitted\<close> is not tested with \<open>isinstance\<close>: an object without the interface
  fails at its first attribute.  A \<open>None\<close> among the quantile paths is not
  distinguished from an object that is not iterable.
\<close>

section \<open>Data\<close>

record ForecastObservationArg =
  oba_observed_at :: pyobj
  oba_available_at :: pyobj
  oba_value :: pyobj

record ResolvedForecastInputArg =
  ria_symbol :: pyobj
  ria_target :: string
  ria_horizon_unit :: string
  ria_series_basis :: string
  ria_snapshot_id :: pyobj
  ria_as_of :: pyobj
  ria_observations :: "ForecastObservationArg list"
  ria_target_times :: "pyobj list"
  ria_data_sources :: "DataSourceLineage list"
  ria_currency :: "string option"
  ria_availability_verified :: pyobj

record ForecastRunIdentity =
  id_forecast_id :: uuid
  id_generated_at :: pyobj
  id_model_version :: string
  id_feature_set_hash :: string
  id_code_version :: "string option"

text \<open>What the snapshot boundary hands over, as an argument of the assembly.\<close>

definition forecast_observation_arg :: "ForecastObservation \<Rightarrow> ForecastObservationArg" where
  "forecast_observation_arg x = \<lparr>oba_observed_at = aware (ob_observed_at x), oba_available_at = aware (ob_available_at x),
     oba_value = PyFloat (ob_value x)\<rparr>"

definition resolved_arg :: "ResolvedForecastInput \<Rightarrow> ResolvedForecastInputArg" where
  "resolved_arg r = \<lparr>ria_symbol = PyStr (ri_symbol r), ria_target = ri_target r, ria_horizon_unit = ri_horizon_unit r,
     ria_series_basis = ri_series_basis r, ria_snapshot_id = PyStr (ri_snapshot_id r), ria_as_of = aware (ri_as_of r),
     ria_observations = map forecast_observation_arg (ri_observations r), ria_target_times = map aware (ri_target_times r),
     ria_data_sources = ri_data_sources r, ria_currency = ri_currency r,
     ria_availability_verified = PyBool (ri_availability_verified r)\<rparr>"

definition fa_price_targets :: "string set" where
  "fa_price_targets = {''close'', ''adjusted_close''}"

definition fa_series_bases :: "string set" where
  "fa_series_bases = {''raw'', ''split_adjusted'', ''split_dividend_adjusted''}"

definition fa_baseline_prefix :: "string \<Rightarrow> string option" where
  "fa_baseline_prefix model =
     (if model = ''baseline_naive'' then Some ''baseline-naive@''
      else if model = ''baseline_drift'' then Some ''baseline-drift@''
      else if model = ''baseline_seasonal_naive'' then Some ''baseline-seasonal-naive-s''
      else None)"

section \<open>Conversions\<close>

definition fa_as_utc :: "pyobj \<Rightarrow> string \<Rightarrow> instant res" where
  "fa_as_utc v label =
     (case v of
        PyDatetime t (Some off) \<Rightarrow>
          (if 0 \<le> t - off \<and> t - off < max_ordinal * day_micros then Inr (t - off)
           else Inl (OverflowErr ''date value out of range''))
      | _ \<Rightarrow> Inl (ValueError (label @ '' must be timezone-aware'')))"

definition fa_finite :: "pyobj \<Rightarrow> string \<Rightarrow> f64 res" where
  "fa_finite v label =
     (case real_float v of
        None \<Rightarrow> Inl (ValueError (label @ '' must be a finite real number''))
      | Some r \<Rightarrow>
          bind_res r (\<lambda>converted.
          bind_res (check (\<not> f_isfinite converted) (ValueError (label @ '' must be finite''))) (\<lambda>_.
          Inr converted)))"

definition fa_target_value :: "string \<Rightarrow> pyobj \<Rightarrow> f64 res" where
  "fa_target_value target v =
     bind_res (fa_finite v ''forecast value'') (\<lambda>finite.
     Inr (if target \<in> fa_price_targets then f_max f_zero finite else finite))"

section \<open>The resolved input\<close>

definition fa_observation :: "ForecastObservationArg \<Rightarrow> ForecastObservation res" where
  "fa_observation item =
     bind_res (fa_as_utc (oba_observed_at item) ''observation observed_at'') (\<lambda>observed_at.
     bind_res (fa_as_utc (oba_available_at item) ''observation available_at'') (\<lambda>available_at.
     bind_res (fa_finite (oba_value item) ''observation value'') (\<lambda>v.
     Inr \<lparr>ob_observed_at = observed_at, ob_available_at = available_at, ob_value = v\<rparr>)))"

definition fa_check_observation :: "instant \<Rightarrow> ForecastObservation \<Rightarrow> unit res" where
  "fa_check_observation as_of item =
     bind_res (check (ob_observed_at item > as_of)
       (ValueError ''observation time must not be later than as_of'')) (\<lambda>_.
     bind_res (check (ob_available_at item < ob_observed_at item)
       (ValueError ''available_at must not be earlier than observed_at'')) (\<lambda>_.
     check (ob_available_at item > as_of)
       (ValueError ''observation availability must not be later than as_of'')))"

definition fa_observations :: "instant \<Rightarrow> ForecastObservationArg list \<Rightarrow> ForecastObservation list res" where
  "fa_observations as_of items =
     bind_res (map_res fa_observation items) (\<lambda>observations.
     bind_res (check (any_adjacent (\<lambda>previous current. ob_observed_at previous \<ge> ob_observed_at current) observations)
       (ValueError ''observation times must be strictly increasing'')) (\<lambda>_.
     bind_res (map_res (fa_check_observation as_of) observations) (\<lambda>_.
     Inr observations)))"

text \<open>
  \<open>_canonical_data_sources\<close>: rows with one key are merged, in key order, with their
  field names sorted.  Two names of one key are one element of a Python set.
\<close>

definition fa_group :: "DataSourceLineage list \<Rightarrow> (source_key \<times> string list) list" where
  "fa_group sources =
     foldl (\<lambda>g s. group_update (dl_name s, dl_snapshot_id s, dl_max_available_at s) (remdups (dl_fields s)) g) [] sources"

definition fa_lineage :: "pydantic \<Rightarrow> source_key \<times> string list \<Rightarrow> DataSourceLineage res" where
  "fa_lineage env x = (case x of ((name, snapshot_id, max_available_at), names) \<Rightarrow>
     DataSourceLineage_new env
       \<lparr>dl_name = name, dl_snapshot_id = snapshot_id, dl_max_available_at = max_available_at, dl_fields = sort names\<rparr>)"

definition fa_canonical_data_sources :: "pydantic \<Rightarrow> DataSourceLineage list \<Rightarrow> DataSourceLineage list res" where
  "fa_canonical_data_sources env sources = map_res (fa_lineage env) (sort_key fst (fa_group sources))"

definition fa_target_times :: "instant \<Rightarrow> pyobj list \<Rightarrow> instant list res" where
  "fa_target_times as_of values =
     bind_res (map_res (\<lambda>v. fa_as_utc v ''target_time'') values) (\<lambda>target_times.
     case target_times of
       [] \<Rightarrow> Inl (IndexErr ''tuple index out of range'')
     | first # _ \<Rightarrow>
         bind_res (check (first \<le> as_of) (ValueError ''target times must be later than as_of'')) (\<lambda>_.
         bind_res (check (any_adjacent (\<lambda>current following. current \<ge> following) target_times)
           (ValueError ''target times must be strictly increasing'')) (\<lambda>_.
         Inr target_times)))"

text \<open>The identity checks at the head of \<open>_validated_inputs\<close>; the result is \<open>(as_of, generated_at)\<close>.\<close>

definition fa_validated_header ::
  "ForecastRequest \<Rightarrow> ResolvedForecastInputArg \<Rightarrow> ForecastRunIdentity \<Rightarrow> (instant \<times> instant) res" where
  "fa_validated_header request resolved identity =
     bind_res (check (case ria_symbol resolved of PyStr s \<Rightarrow> py_upper (py_strip s) \<noteq> rq_symbol request | _ \<Rightarrow> True)
       (ValueError ''resolved symbol must match the requested symbol'')) (\<lambda>_.
     bind_res (check (ria_target resolved \<noteq> rq_target request)
       (ValueError ''resolved target must match the requested target'')) (\<lambda>_.
     bind_res (check (ria_horizon_unit resolved \<noteq> rq_horizon_unit request)
       (ValueError ''resolved horizon_unit must match the request'')) (\<lambda>_.
     bind_res (check (ria_series_basis resolved \<notin> fa_series_bases)
       (ValueError ''resolved series_basis is not supported'')) (\<lambda>_.
     bind_res (check (rq_target request = ''close'' \<and> ria_series_basis resolved \<noteq> ''raw'')
       (ValueError ''close forecasts require a raw resolved series'')) (\<lambda>_.
     bind_res (check (rq_target request = ''adjusted_close'' \<and> ria_series_basis resolved = ''raw'')
       (ValueError ''adjusted_close forecasts require an adjusted resolved series'')) (\<lambda>_.
     bind_res (check (case ria_snapshot_id resolved of PyStr s \<Rightarrow> py_strip s = [] | _ \<Rightarrow> True)
       (ValueError ''snapshot_id must not be empty'')) (\<lambda>_.
     bind_res (check (case rq_snapshot_id request of None \<Rightarrow> False | Some s \<Rightarrow> ria_snapshot_id resolved \<noteq> PyStr s)
       (ValueError ''resolved snapshot_id does not match the requested snapshot'')) (\<lambda>_.
     bind_res (fa_as_utc (ria_as_of resolved) ''as_of'') (\<lambda>as_of.
     bind_res (check (rq_snapshot_id request = None
         \<and> (case rq_as_of request of None \<Rightarrow> False | Some cutoff \<Rightarrow> as_of > cutoff))
       (ValueError ''resolved snapshot is later than the requested as_of cutoff'')) (\<lambda>_.
     bind_res (fa_as_utc (id_generated_at identity) ''generated_at'') (\<lambda>generated_at.
     bind_res (check (generated_at < as_of)
       (ValueError ''generated_at must not be earlier than as_of'')) (\<lambda>_.
     Inr (as_of, generated_at)))))))))))))"

definition fa_validated_inputs ::
  "pydantic \<Rightarrow> ForecastRequest \<Rightarrow> ResolvedForecastInputArg \<Rightarrow> ForecastRunIdentity
     \<Rightarrow> (ForecastObservation list \<times> instant list \<times> DataSourceLineage list \<times> instant \<times> instant) res" where
  "fa_validated_inputs env request resolved identity =
     bind_res (fa_validated_header request resolved identity) (\<lambda>(as_of, generated_at).
     bind_res (check (ria_observations resolved = [])
       (ValueError ''at least one forecast observation is required'')) (\<lambda>_.
     bind_res (check (ria_data_sources resolved = [])
       (ValueError ''at least one data source lineage row is required'')) (\<lambda>_.
     bind_res (check (case ria_availability_verified resolved of PyBool _ \<Rightarrow> False | _ \<Rightarrow> True)
       (ValueError ''availability_verified must be a boolean'')) (\<lambda>_.
     bind_res (check (int (length (ria_target_times resolved)) \<noteq> rq_horizon request)
       (ValueError ''target_times length must match the requested horizon'')) (\<lambda>_.
     bind_res (fa_observations as_of (ria_observations resolved)) (\<lambda>observations.
     bind_res (fa_canonical_data_sources env (ria_data_sources resolved)) (\<lambda>data_sources.
     bind_res (check (list_ex (\<lambda>s. dl_max_available_at s > as_of) data_sources)
       (ValueError ''source availability must not be later than as_of'')) (\<lambda>_.
     bind_res (fa_target_times as_of (ria_target_times resolved)) (\<lambda>target_times.
     bind_res (check (rq_target request \<in> fa_price_targets \<and> ria_currency resolved = None)
       (ValueError ''currency is required for price targets'')) (\<lambda>_.
     bind_res (check (rq_target request \<notin> fa_price_targets \<and> ria_currency resolved \<noteq> None)
       (ValueError ''currency must be null for return targets'')) (\<lambda>_.
     Inr (observations, target_times, data_sources, as_of, generated_at))))))))))))"

section \<open>The forecaster's answers\<close>

definition fa_validate_model_selection :: "ForecastRequest \<Rightarrow> string \<Rightarrow> unit res" where
  "fa_validate_model_selection request model_version =
     (if rq_model request = ''auto'' then Inr ()
      else case fa_baseline_prefix (rq_model request) of
             None \<Rightarrow> Inl (ValueError (rq_model request @ '' is not a baseline model selector''))
           | Some expected_prefix \<Rightarrow>
               check (\<not> startswith model_version expected_prefix)
                 (ValueError ''resolved baseline model does not match the requested model''))"

definition fa_coverage_levels :: "f64 \<Rightarrow> f64 \<times> f64" where
  "fa_coverage_levels coverage =
     (f_round_digits (f_quot (f_sub f_one coverage) f_two) 12,
      f_round_digits (f_quot (f_add f_one coverage) f_two) 12)"

definition fa_add_level :: "f64 \<Rightarrow> f64 list \<Rightarrow> f64 list" where
  "fa_add_level x levels = (if list_ex (\<lambda>l. f_eq l x) levels then levels else levels @ [x])"

definition fa_requested_quantile_levels :: "f64 list \<Rightarrow> f64 list" where
  "fa_requested_quantile_levels coverages =
     sort_key f_key (foldl (\<lambda>levels coverage. case fa_coverage_levels coverage of (lower, upper) \<Rightarrow>
       fa_add_level upper (fa_add_level lower levels)) [f_half] coverages)"

text \<open>\<open>level - requested_level\<close> of a dict key of unknown class.\<close>

definition fa_key_number :: "pyobj \<Rightarrow> f64 res" where
  "fa_key_number key =
     (case key of
        PyFloat x \<Rightarrow> Inr x
      | PyInt i \<Rightarrow> f_of_int i
      | PyBool b \<Rightarrow> Inr (if b then f_one else f_zero)
      | _ \<Rightarrow> Inl (TypeErr ''unsupported operand type(s) for -''))"

fun fa_match_level :: "(pyobj \<times> pyobj pyseq) list \<Rightarrow> f64 \<Rightarrow> pyobj pyseq option res" where
  "fa_match_level [] requested_level = Inr None"
| "fa_match_level ((level, values) # items) requested_level =
     bind_res (fa_key_number level) (\<lambda>l.
     if f_le (f_abs (f_sub l requested_level)) 4427486594234968593 then Inr (Some values)
     else fa_match_level items requested_level)"

definition fa_list :: "pyobj pyseq \<Rightarrow> pyobj list res" where
  "fa_list values =
     (case values of Seq xs \<Rightarrow> Inr xs | NotIterable \<Rightarrow> Inl (TypeErr ''object is not iterable''))"

definition fa_quantile_path ::
  "(pyobj \<times> pyobj pyseq) list option \<Rightarrow> f64 \<Rightarrow> int \<Rightarrow> pyobj list res" where
  "fa_quantile_path paths requested_level horizon =
     (case paths of
        None \<Rightarrow> Inl (AttributeErr ''object has no attribute items'')
      | Some items \<Rightarrow>
          bind_res (fa_match_level items requested_level) (\<lambda>found.
          case found of
            None \<Rightarrow> Inl (ValueError (''forecaster omitted requested quantile '' @ f_repr requested_level))
          | Some match \<Rightarrow>
              bind_res (fa_list match) (\<lambda>values.
              bind_res (check (int (length values) \<noteq> horizon)
                (ValueError ''quantile forecast length must match the requested horizon'')) (\<lambda>_.
              Inr values))))"

section \<open>Assembly\<close>

text \<open>\<open>values[level]\<close> of the dict of one step.\<close>

definition fa_value_at :: "(f64 \<times> f64) list \<Rightarrow> f64 \<Rightarrow> f64 res" where
  "fa_value_at vs level =
     (case find (\<lambda>(l, _). f_eq l level) vs of
        None \<Rightarrow> Inl (KeyErr (f_repr level))
      | Some (_, v) \<Rightarrow> Inr v)"

definition fa_interval :: "pydantic \<Rightarrow> (f64 \<times> f64) list \<Rightarrow> f64 \<Rightarrow> ForecastInterval res" where
  "fa_interval env vs coverage =
     (case fa_coverage_levels coverage of (lower_level, upper_level) \<Rightarrow>
      bind_res (fa_value_at vs lower_level) (\<lambda>lower.
      bind_res (fa_value_at vs upper_level) (\<lambda>upper.
      ForecastInterval_new env
        \<lparr>fi_coverage = coverage, fi_lower_quantile = lower_level, fi_upper_quantile = upper_level,
         fi_lower = lower, fi_upper = upper\<rparr>)))"

definition fa_step ::
  "pydantic \<Rightarrow> ForecastRequest \<Rightarrow> pyobj list \<Rightarrow> (f64 \<times> pyobj list) list \<Rightarrow> nat \<Rightarrow> instant \<Rightarrow> ForecastStep res" where
  "fa_step env request raw_points quantile_paths index target_time =
     bind_res (fa_target_value (rq_target request) (raw_points ! index)) (\<lambda>point.
     bind_res (map_res (\<lambda>(level, path). bind_res (fa_target_value (rq_target request) (path ! index)) (\<lambda>v. Inr (level, v)))
       quantile_paths) (\<lambda>vs.
     bind_res (check (any_adjacent (\<lambda>current following. f_lt (f_add following FLOAT_TOLERANCE) current) (map snd vs))
       (ValueError ''forecaster returned crossing quantiles'')) (\<lambda>_.
     bind_res (fa_value_at vs f_half) (\<lambda>median.
     bind_res (check (f_lt FLOAT_TOLERANCE (f_abs (f_sub median point)))
       (ValueError ''forecaster point must equal its median quantile'')) (\<lambda>_.
     bind_res (map_res (\<lambda>(level, v). ForecastQuantile_new \<lparr>fq_level = level, fq_value = v\<rparr>) vs) (\<lambda>quantiles.
     bind_res (map_res (fa_interval env vs) (rq_interval_coverages request)) (\<lambda>intervals.
     ForecastStep_new
       \<lparr>fs_step = int index + 1, fs_target_time = target_time, fs_point = point,
        fs_quantiles = quantiles, fs_intervals = intervals\<rparr>)))))))"

definition fa_max_available_at :: "ForecastObservation list \<Rightarrow> DataSourceLineage list \<Rightarrow> instant" where
  "fa_max_available_at observations data_sources =
     (let ts = map ob_available_at observations @ map dl_max_available_at data_sources
      in foldl max (hd ts) (tl ts))"

definition fa_provenance ::
  "pydantic \<Rightarrow> ResolvedForecastInputArg \<Rightarrow> ForecastRunIdentity \<Rightarrow> DataSourceLineage list \<Rightarrow> instant \<Rightarrow> instant
     \<Rightarrow> ForecastProvenance res" where
  "fa_provenance env resolved identity data_sources max_available_at generated_at =
     (let verified = (ria_availability_verified resolved = PyBool True) in
      bind_res (LookaheadCheck_new env
        \<lparr>lc_status = (if verified then ''passed'' else ''not_run''), lc_checked_at = generated_at,
         lc_max_feature_available_at = max_available_at,
         lc_violations = (if verified then []
           else [''availability timestamps were not verified by the snapshot resolver''])\<rparr>) (\<lambda>lookahead.
      case ria_snapshot_id resolved of
        PyStr snapshot_id \<Rightarrow>
          ForecastProvenance_new env
            \<lparr>pv_forecast_id = id_forecast_id identity, pv_snapshot_id = snapshot_id,
             pv_model_version = id_model_version identity, pv_series_basis = ria_series_basis resolved,
             pv_feature_set_hash = id_feature_set_hash identity, pv_max_available_at = max_available_at,
             pv_generated_at = generated_at, pv_code_version = id_code_version identity,
             pv_data_sources = data_sources, pv_lookahead_check = lookahead\<rparr>
      | _ \<Rightarrow> Inl (schema_error ''string_type'')))"

definition fa_response ::
  "pydantic \<Rightarrow> ForecastRequest \<Rightarrow> ResolvedForecastInputArg \<Rightarrow> ForecastRunIdentity \<Rightarrow> instant \<Rightarrow> ForecastStep list
     \<Rightarrow> ForecastProvenance \<Rightarrow> ForecastResponse res" where
  "fa_response env request resolved identity as_of steps provenance =
     bind_res (ForecastCalibration_new env
       \<lparr>fc_calibration_set_version = ''uncalibrated:'' @ id_model_version identity, fc_method = ''none'',
        fc_window_start = None, fc_window_end = None, fc_sample_count = 0, fc_by_interval = []\<rparr>) (\<lambda>calibration.
     ForecastResponse_new env
       \<lparr>rs_symbol = rq_symbol request, rs_target = rq_target request, rs_horizon = rq_horizon request,
        rs_horizon_unit = rq_horizon_unit request, rs_as_of = as_of, rs_currency = ria_currency resolved,
        rs_forecasts = steps, rs_provenance = provenance, rs_calibration = calibration\<rparr>)"

text \<open>Fitting: the template must answer with another object, of the announced version.\<close>

definition fa_fitted ::
  "(exn + Forecaster pyarg) \<Rightarrow> f64 list \<Rightarrow> ForecastRequest \<Rightarrow> ForecastRunIdentity \<Rightarrow> Forecaster res" where
  "fa_fitted factory history request identity =
     bind_res factory (\<lambda>made.
     case made of
       Foreign \<Rightarrow> Inl (TypeErr ''forecaster_factory must return a Forecaster'')
     | Inst forecaster \<Rightarrow>
         bind_res (fc_fit forecaster history) (\<lambda>result.
         case result of
           Foreign \<Rightarrow> Inl (AttributeErr ''object has no attribute model_version'')
         | Inst fitted \<Rightarrow>
             bind_res (check (fc_id fitted = fc_id forecaster)
               (TypeErr ''Forecaster.fit must return a distinct request-local instance'')) (\<lambda>_.
             bind_res (check (fc_model_version fitted \<noteq> PyStr (id_model_version identity))
               (ValueError ''run identity model_version must match the fitted forecaster'')) (\<lambda>_.
             bind_res (fa_validate_model_selection request (id_model_version identity)) (\<lambda>_.
             Inr fitted)))))"

text \<open>The raw answers: the points, and one path per requested level in level order.\<close>

definition fa_raw_forecast ::
  "ForecastRequest \<Rightarrow> Forecaster \<Rightarrow> (pyobj list \<times> (f64 \<times> pyobj list) list) res" where
  "fa_raw_forecast request fitted =
     bind_res (bind_res (fc_predict fitted (rq_horizon request)) fa_list) (\<lambda>raw_points.
     let levels = fa_requested_quantile_levels (rq_interval_coverages request) in
     bind_res (fc_predict_quantiles fitted (rq_horizon request) levels) (\<lambda>raw_quantiles.
     bind_res (map_res (\<lambda>level. bind_res (fa_quantile_path raw_quantiles level (rq_horizon request)) (\<lambda>path.
       Inr (level, path))) levels) (\<lambda>quantile_paths.
     bind_res (check (int (length raw_points) \<noteq> rq_horizon request)
       (ValueError ''point forecast length must match the requested horizon'')) (\<lambda>_.
     Inr (raw_points, quantile_paths)))))"

definition assemble_baseline_forecast_response ::
  "pydantic \<Rightarrow> ForecastRequest \<Rightarrow> ResolvedForecastInputArg \<Rightarrow> (exn + Forecaster pyarg) \<Rightarrow> ForecastRunIdentity
     \<Rightarrow> ForecastResponse res" where
  "assemble_baseline_forecast_response env request resolved factory identity =
     bind_res (fa_validated_inputs env request resolved identity)
       (\<lambda>(observations, target_times, data_sources, as_of, generated_at).
     bind_res (fa_fitted factory (map ob_value observations) request identity) (\<lambda>fitted.
     bind_res (fa_raw_forecast request fitted) (\<lambda>(raw_points, quantile_paths).
     bind_res (map_res_from 0 (fa_step env request raw_points quantile_paths) target_times) (\<lambda>steps.
     bind_res (fa_provenance env resolved identity data_sources
       (fa_max_available_at observations data_sources) generated_at) (\<lambda>provenance.
     fa_response env request resolved identity as_of steps provenance)))))"

section \<open>The fail-closed service\<close>

text \<open>
  \<open>UnavailableForecastService.forecast\<close> and \<open>get_forecast_service\<close>: the application
  state may lack its settings or its database sessions, and the builder of
  \<open>forecast_serving\<close> answers \<open>None\<close> when serving is not enabled.
\<close>

definition unavailable_forecast :: "ForecastRequest \<Rightarrow> 'r res" where
  "unavailable_forecast request =
     Inl (AppError 501 ''not_implemented'' (''Verified snapshot serving is not enabled for '' @ rq_symbol request @ ''.''))"

definition get_forecast_service ::
  "('settings \<Rightarrow> 'db \<Rightarrow> 'service option res) \<Rightarrow> 'settings option \<Rightarrow> 'db option \<Rightarrow> 'service option res" where
  "get_forecast_service build settings sessionmaker =
     (case (settings, sessionmaker) of
        (Some s, Some db) \<Rightarrow> build s db
      | _ \<Rightarrow> Inr None)"

end
