(* ===== verification/ForecastingLaws.thy ===== *)
theory ForecastingLaws
  imports Forecasting
begin

text \<open>
  What an assembled response guarantees: it is point-in-time, its distribution is
  ordered and its intervals are its own quantiles, and every number in it is the
  forecaster's, clamped at zero for price targets.
\<close>

section \<open>Loops with an index\<close>

lemma map_res_from_length: "map_res_from i f xs = Inr ys \<Longrightarrow> length ys = length xs"
  by (induction xs arbitrary: i ys) (auto simp: bind_res_Inr_iff)

lemma map_res_from_nth:
  "map_res_from i f xs = Inr ys \<Longrightarrow> k < length xs \<Longrightarrow> f (i + k) (xs ! k) = Inr (ys ! k)"
proof (induction xs arbitrary: i ys k)
  case (Cons x xs)
  then obtain y ys' where y: "f i x = Inr y" "map_res_from (Suc i) f xs = Inr ys'" "ys = y # ys'"
    by (auto simp: bind_res_Inr_iff)
  then show ?case using Cons.IH [OF y(2)] Cons.prems(2) by (cases k) auto
qed simp

lemma map_res_unit: "map_res f xs = Inr us \<Longrightarrow> x \<in> set xs \<Longrightarrow> f x = Inr ()"
  by (metis map_res_in_src old.unit.exhaust)

section \<open>The validated inputs\<close>

lemma fa_check_observation_ok:
  "fa_check_observation a x = Inr u \<longleftrightarrow>
     ob_observed_at x \<le> a \<and> ob_observed_at x \<le> ob_available_at x \<and> ob_available_at x \<le> a"
  by (auto simp: fa_check_observation_def check_Inr_iff)

lemma fa_observationsD:
  assumes "fa_observations a items = Inr obs"
  shows "map_res fa_observation items = Inr obs" and "sorted_wrt (<) (map ob_observed_at obs)"
    and "\<forall>x \<in> set obs. ob_observed_at x \<le> ob_available_at x \<and> ob_available_at x \<le> a"
proof -
  obtain us where p: "map_res fa_observation items = Inr obs"
    "\<not> any_adjacent (\<lambda>p c. ob_observed_at p \<ge> ob_observed_at c) obs" "map_res (fa_check_observation a) obs = Inr us"
    using assms unfolding fa_observations_def by (elim bind_check_InrE bind_res_InrE) auto
  show "map_res fa_observation items = Inr obs" by (rule p(1))
  have "sorted_wrt (\<lambda>x y. ob_observed_at x < ob_observed_at y) obs"
    using p(2) unfolding not_any_adjacent_ge strictly_increasing_iff .
  then show "sorted_wrt (<) (map ob_observed_at obs)" by (simp add: sorted_wrt_map)
  show "\<forall>x \<in> set obs. ob_observed_at x \<le> ob_available_at x \<and> ob_available_at x \<le> a"
    using map_res_unit [OF p(3)] by (auto simp: fa_check_observation_ok)
qed

lemma fa_target_timesD:
  assumes "fa_target_times a vs = Inr ts"
  shows "map_res (\<lambda>v. fa_as_utc v ''target_time'') vs = Inr ts" and "ts \<noteq> []" and "sorted_wrt (<) ts" and "\<forall>t \<in> set ts. a < t"
proof -
  obtain t ts' where p: "map_res (\<lambda>v. fa_as_utc v ''target_time'') vs = Inr ts" "ts = t # ts'" "a < t"
    "\<not> any_adjacent (\<lambda>c f. c \<ge> f) ts"
    using assms unfolding fa_target_times_def
    by (elim bind_res_InrE) (auto split: list.splits if_splits)
  show "map_res (\<lambda>v. fa_as_utc v ''target_time'') vs = Inr ts" "ts \<noteq> []" using p by simp_all
  show s: "sorted_wrt (<) ts"
    using p(4) not_any_adjacent_ge [of "\<lambda>x. x" ts] by (simp add: strictly_increasing_iff)
  show "\<forall>t \<in> set ts. a < t" using p(2,3) s by auto
qed

lemma fa_validated_inputsE:
  assumes "fa_validated_inputs env rq ri idn = Inr (obs, ts, ds, a, g)"
  obtains "fa_validated_header rq ri idn = Inr (a, g)" and "ria_observations ri \<noteq> []"
    and "fa_observations a (ria_observations ri) = Inr obs"
    and "fa_canonical_data_sources env (ria_data_sources ri) = Inr ds"
    and "\<forall>d \<in> set ds. dl_max_available_at d \<le> a" and "fa_target_times a (ria_target_times ri) = Inr ts"
    and "int (length (ria_target_times ri)) = rq_horizon rq"
    and "\<exists>v. ria_availability_verified ri = PyBool v"
proof -
  obtain p where p: "fa_validated_header rq ri idn = Inr p"
    and rest: "(\<lambda>(as_of, generated_at).
     bind_res (check (ria_observations ri = [])
       (ValueError ''at least one forecast observation is required'')) (\<lambda>_.
     bind_res (check (ria_data_sources ri = [])
       (ValueError ''at least one data source lineage row is required'')) (\<lambda>_.
     bind_res (check (case ria_availability_verified ri of PyBool _ \<Rightarrow> False | _ \<Rightarrow> True)
       (ValueError ''availability_verified must be a boolean'')) (\<lambda>_.
     bind_res (check (int (length (ria_target_times ri)) \<noteq> rq_horizon rq)
       (ValueError ''target_times length must match the requested horizon'')) (\<lambda>_.
     bind_res (fa_observations as_of (ria_observations ri)) (\<lambda>observations.
     bind_res (fa_canonical_data_sources env (ria_data_sources ri)) (\<lambda>data_sources.
     bind_res (check (list_ex (\<lambda>s. dl_max_available_at s > as_of) data_sources)
       (ValueError ''source availability must not be later than as_of'')) (\<lambda>_.
     bind_res (fa_target_times as_of (ria_target_times ri)) (\<lambda>target_times.
     bind_res (check (rq_target rq \<in> fa_price_targets \<and> ria_currency ri = None)
       (ValueError ''currency is required for price targets'')) (\<lambda>_.
     bind_res (check (rq_target rq \<notin> fa_price_targets \<and> ria_currency ri \<noteq> None)
       (ValueError ''currency must be null for return targets'')) (\<lambda>_.
     Inr (observations, target_times, data_sources, as_of, generated_at)))))))))))) p = Inr (obs, ts, ds, a, g)"
    using assms unfolding fa_validated_inputs_def by (rule bind_res_InrE)
  obtain a' g' where ag: "p = (a', g')" by (cases p)
  show ?thesis
    using rest unfolding ag prod.case
    by (elim bind_check_InrE bind_res_InrE) (rule that; use p ag in \<open>auto simp: list_ex_iff not_less split: pyobj.splits\<close>)
qed

lemma fa_validated_headerD:
  assumes "fa_validated_header rq ri idn = Inr (a, g)"
  shows "fa_as_utc (ria_as_of ri) ''as_of'' = Inr a" and "a \<le> g"
    and "\<exists>s. ria_snapshot_id ri = PyStr s"
    and "rq_snapshot_id rq = None \<Longrightarrow> rq_as_of rq = Some c \<Longrightarrow> a \<le> c"
  using assms unfolding fa_validated_header_def
  by (elim bind_check_InrE bind_res_InrE; auto split: pyobj.splits)+

lemma fa_max_available_bounds:
  assumes "obs \<noteq> []" and "\<forall>x \<in> set obs. ob_available_at x \<le> a" and "\<forall>d \<in> set ds. dl_max_available_at d \<le> a"
  shows "fa_max_available_at obs ds \<le> a" and "x \<in> set obs \<Longrightarrow> ob_available_at x \<le> fa_max_available_at obs ds"
    and "d \<in> set ds \<Longrightarrow> dl_max_available_at d \<le> fa_max_available_at obs ds"
proof -
  let ?ts = "map ob_available_at obs @ map dl_max_available_at ds"
  have ne: "?ts = hd ?ts # tl ?ts" using assms(1) by (cases obs) auto
  have le: "foldl max m xs \<le> b" if "m \<le> b" "\<forall>x \<in> set xs. x \<le> b" for m b :: instant and xs
    using that by (induction xs arbitrary: m) auto
  have all: "\<forall>t \<in> set ?ts. t \<le> a" using assms(2,3) by auto
  show "fa_max_available_at obs ds \<le> a"
    unfolding fa_max_available_at_def Let_def
    by (rule le) (use all ne in \<open>metis list.set_intros(1)\<close>, use all ne in \<open>metis list.set_intros(2)\<close>)
  have ge: "t \<le> fa_max_available_at obs ds" if "t \<in> set ?ts" for t
    unfolding fa_max_available_at_def Let_def by (rule foldl_max_in) (use that ne in metis)
  show "x \<in> set obs \<Longrightarrow> ob_available_at x \<le> fa_max_available_at obs ds" by (rule ge) auto
  show "d \<in> set ds \<Longrightarrow> dl_max_available_at d \<le> fa_max_available_at obs ds" by (rule ge) auto
qed

section \<open>The response object\<close>

lemma validate_response_invariants_same:
  assumes "validate_response_invariants r = Inr r'"
  shows "r' = r"
  using assms unfolding validate_response_invariants_def Let_def by (elim bind_check_InrE) (simp only: sum.inject)

lemma ForecastResponse_newE:
  assumes "ForecastResponse_new env r0 = Inr r"
  obtains currency where "r = r0\<lparr>rs_symbol := py_upper (pd_strip env (rs_symbol r0)), rs_currency := currency\<rparr>"
    and "validate_response_invariants r = Inr r"
proof -
  obtain currency where v: "validate_response_invariants
      (r0\<lparr>rs_symbol := py_upper (pd_strip env (rs_symbol r0)), rs_currency := currency\<rparr>) = Inr r"
    using assms unfolding ForecastResponse_new_def by (elim bind_check_InrE bind_res_InrE) (rule that)
  from validate_response_invariants_same [OF v] have r: "r = r0\<lparr>rs_symbol := py_upper (pd_strip env (rs_symbol r0)), rs_currency := currency\<rparr>" .
  show ?thesis using v unfolding r [symmetric] by (rule that [OF r])
qed

lemma validate_response_invariantsD:
  assumes "validate_response_invariants r = Inr r'"
  shows "map fs_step (rs_forecasts r) = [1..rs_horizon r]" and "rs_horizon r = int (length (rs_forecasts r))"
    and "pv_max_available_at (rs_provenance r) \<le> rs_as_of r" and "rs_as_of r \<le> pv_generated_at (rs_provenance r)"
  using assms unfolding validate_response_invariants_def Let_def
  by (elim bind_check_InrE bind_res_InrE; simp)+

lemma fa_responseD:
  assumes "fa_response env rq ri idn a steps pv = Inr rs"
  shows "rs_forecasts rs = steps" and "rs_provenance rs = pv" and "rs_as_of rs = a" and "rs_horizon rs = rq_horizon rq"
    and "rs_target rs = rq_target rq" and "validate_response_invariants rs = Inr rs"
    and "fc_method (rs_calibration rs) = ''none''"
  using assms unfolding fa_response_def
  by (elim bind_res_InrE ForecastResponse_newE;
      simp add: ForecastCalibration_new_def validate_window_def bind_res_Inr_iff split: if_splits; force)+

lemma fa_provenanceD:
  assumes "fa_provenance env ri idn ds m g = Inr pv"
  shows "pv_max_available_at pv = m" and "pv_generated_at pv = g" and "pv_data_sources pv = ds"
    and "lc_status (pv_lookahead_check pv) = (if ria_availability_verified ri = PyBool True then ''passed'' else ''not_run'')"
  using assms unfolding fa_provenance_def Let_def
  by (elim bind_res_InrE; simp add: LookaheadCheck_new_def ForecastProvenance_new_def bind_res_Inr_iff schema_literal_def
        split: pyobj.splits if_splits; force)+

lemma assembleE:
  assumes "assemble_baseline_forecast_response env rq ri factory idn = Inr rs"
  obtains obs ts ds a g fitted raw paths steps pv where "fa_validated_inputs env rq ri idn = Inr (obs, ts, ds, a, g)"
    and "fa_fitted factory (map ob_value obs) rq idn = Inr fitted" and "fa_raw_forecast rq fitted = Inr (raw, paths)"
    and "map_res_from 0 (fa_step env rq raw paths) ts = Inr steps"
    and "fa_provenance env ri idn ds (fa_max_available_at obs ds) g = Inr pv"
    and "fa_response env rq ri idn a steps pv = Inr rs"
  using assms unfolding assemble_baseline_forecast_response_def
  by (elim bind_res_InrE) (auto elim!: bind_res_InrE simp: that)

section \<open>One step\<close>

lemma quantile_new_same: "ForecastQuantile_new q = Inr q' \<Longrightarrow> q' = q \<and> f_isfinite (fq_value q) \<and> f_isfinite (fq_level q)"
  by (auto simp: ForecastQuantile_new_def quantile_level_field_def schema_finite_def check_def bind_res_Inr_iff split: if_splits)

lemma interval_new_same:
  assumes "ForecastInterval_new env i = Inr i'"
  shows "fi_lower_quantile i' = fi_lower_quantile i" and "fi_upper_quantile i' = fi_upper_quantile i"
    and "fi_lower i' = fi_lower i" and "fi_upper i' = fi_upper i" and "\<not> f_lt (fi_upper i) (fi_lower i)"
  using assms unfolding ForecastInterval_new_def validate_ordering_def
  by (elim bind_check_InrE bind_res_InrE; auto)+

lemma step_newE:
  assumes "ForecastStep_new s0 = Inr s"
  obtains "s = s0\<lparr>fs_quantiles := sort_key (\<lambda>q. f_key (fq_level q)) (fs_quantiles s0)\<rparr>"
    and "\<not> any_adjacent (\<lambda>lower upper. f_lt (fq_value upper) (fq_value lower)) (fs_quantiles s)"
    and "f_isfinite (fs_point s)" and "\<not> float_duplicates (map fq_level (fs_quantiles s0))"
proof -
  obtain v where v: "validate_distribution (s0\<lparr>fs_quantiles := v\<rparr>) = Inr s" "f_isfinite (fs_point s0)"
    "quantiles_are_unique (fs_quantiles s0) = Inr v"
    using assms unfolding ForecastStep_new_def schema_finite_def
    by (elim bind_check_InrE bind_res_InrE) (rule that; simp add: check_Inr_iff)
  have s: "s = s0\<lparr>fs_quantiles := v\<rparr>" and
    a: "\<not> any_adjacent (\<lambda>lower upper. f_lt (fq_value upper) (fq_value lower)) v"
    using v(1) unfolding validate_distribution_def by (elim bind_check_InrE bind_res_InrE; simp)+
  have q: "v = sort_key (\<lambda>q. f_key (fq_level q)) (fs_quantiles s0)" "\<not> float_duplicates (map fq_level (fs_quantiles s0))"
    using v(3) unfolding quantiles_are_unique_def by (elim bind_check_InrE; simp)+
  show ?thesis by (rule that) (use s a q v(2) in simp_all)
qed

lemma fa_value_at_in: "fa_value_at vs level = Inr v \<Longrightarrow> \<exists>l. (l, v) \<in> set vs \<and> f_eq l level"
  by (auto simp: fa_value_at_def find_Some_iff split: option.splits) (metis nth_mem)

lemma fa_target_value_ok:
  assumes "fa_target_value target x = Inr v"
  shows "f_isfinite v" and "target \<in> fa_price_targets \<Longrightarrow> 0 \<le> fval v"
proof -
  obtain r where r: "f_isfinite r" "v = (if target \<in> fa_price_targets then f_max f_zero r else r)"
    using assms unfolding fa_target_value_def fa_finite_def
    by (auto simp: bind_res_Inr_iff split: option.splits if_splits)
  show "f_isfinite v" using r by (simp add: f_max_def)
  show "target \<in> fa_price_targets \<Longrightarrow> 0 \<le> fval v"
    using r f_lt_fval [of f_zero r] by (simp add: f_max_def)
qed

text \<open>The values of one step: level and clamped forecast, in level order.\<close>

definition step_values :: "string \<Rightarrow> (f64 \<times> pyobj list) list \<Rightarrow> nat \<Rightarrow> (f64 \<times> f64) list res" where
  "step_values target paths index =
     map_res (\<lambda>(level, path). bind_res (fa_target_value target (path ! index)) (\<lambda>v. Inr (level, v))) paths"

lemma step_values_levels:
  assumes "step_values target paths k = Inr vs"
  shows "map fst vs = map fst paths"
  using assms unfolding step_values_def by (induction paths arbitrary: vs) (auto simp: bind_res_Inr_iff)

lemma fa_raw_forecastD:
  assumes "fa_raw_forecast rq fitted = Inr (raw, paths)"
  shows "map fst paths = fa_requested_quantile_levels (rq_interval_coverages rq)" and "int (length raw) = rq_horizon rq"
proof -
  obtain qs where q: "map_res (\<lambda>level. bind_res (fa_quantile_path qs level (rq_horizon rq)) (\<lambda>path. Inr (level, path)))
      (fa_requested_quantile_levels (rq_interval_coverages rq)) = Inr paths" "int (length raw) = rq_horizon rq"
    using assms unfolding fa_raw_forecast_def Let_def by (elim bind_check_InrE bind_res_InrE) auto
  have "map_res (\<lambda>level. bind_res (f level) (\<lambda>path. Inr (level, path))) ls = Inr ps \<Longrightarrow> map fst ps = ls" for f ls ps
    by (induction ls arbitrary: ps) (auto simp: bind_res_Inr_iff)
  with q show "map fst paths = fa_requested_quantile_levels (rq_interval_coverages rq)" "int (length raw) = rq_horizon rq" by auto
qed

lemma fa_stepE:
  assumes "fa_step env rq raw paths index t = Inr s"
  obtains vs where "step_values (rq_target rq) paths index = Inr vs"
    and "fa_target_value (rq_target rq) (raw ! index) = Inr (fs_point s)" and "fs_target_time s = t"
    and "fs_quantiles s = sort_key (\<lambda>q. f_key (fq_level q)) (map (\<lambda>(l, v). \<lparr>fq_level = l, fq_value = v\<rparr>) vs)"
    and "\<forall>q \<in> set (fs_quantiles s). f_isfinite (fq_value q)"
    and "\<not> any_adjacent (\<lambda>lower upper. f_lt (fq_value upper) (fq_value lower)) (fs_quantiles s)"
    and "map_res (fa_interval env vs) (rq_interval_coverages rq) = Inr (fs_intervals s)"
proof -
  obtain p vs qs ivs where st: "fa_target_value (rq_target rq) (raw ! index) = Inr p" "step_values (rq_target rq) paths index = Inr vs"
    "map_res (\<lambda>(level, v). ForecastQuantile_new \<lparr>fq_level = level, fq_value = v\<rparr>) vs = Inr qs"
    "map_res (fa_interval env vs) (rq_interval_coverages rq) = Inr ivs"
    "ForecastStep_new \<lparr>fs_step = int index + 1, fs_target_time = t, fs_point = p, fs_quantiles = qs, fs_intervals = ivs\<rparr> = Inr s"
    using assms unfolding fa_step_def
    by (elim bind_check_InrE bind_res_InrE) (rule that; simp add: step_values_def)
  have qs: "qs = map (\<lambda>(l, v). \<lparr>fq_level = l, fq_value = v\<rparr>) vs" "\<forall>q \<in> set qs. f_isfinite (fq_value q)"
    using st(3) by (induction vs arbitrary: qs) (auto simp: bind_res_Inr_iff dest!: quantile_new_same)
  from st(5) show ?thesis
    by (elim step_newE) (rule that; use st qs in simp)
qed

lemma fa_interval_in:
  assumes "fa_interval env vs c = Inr i"
  shows "\<exists>l. (l, fi_lower i) \<in> set vs \<and> f_eq l (fi_lower_quantile i)"
    and "\<exists>l. (l, fi_upper i) \<in> set vs \<and> f_eq l (fi_upper_quantile i)"
    and "(fi_lower_quantile i, fi_upper_quantile i) = fa_coverage_levels c"
proof -
  obtain ll ul lo up where p: "fa_coverage_levels c = (ll, ul)" "fa_value_at vs ll = Inr lo" "fa_value_at vs ul = Inr up"
    "ForecastInterval_new env \<lparr>fi_coverage = c, fi_lower_quantile = ll, fi_upper_quantile = ul, fi_lower = lo, fi_upper = up\<rparr> = Inr i"
    using assms unfolding fa_interval_def by (cases "fa_coverage_levels c") (auto elim!: bind_res_InrE)
  note n = interval_new_same [OF p(4)]
  show "\<exists>l. (l, fi_lower i) \<in> set vs \<and> f_eq l (fi_lower_quantile i)"
    "\<exists>l. (l, fi_upper i) \<in> set vs \<and> f_eq l (fi_upper_quantile i)"
    "(fi_lower_quantile i, fi_upper_quantile i) = fa_coverage_levels c"
    using n fa_value_at_in [OF p(2)] fa_value_at_in [OF p(3)] p(1) by simp_all
qed

lemma nondecreasing_fval:
  assumes "\<forall>q \<in> set qs. f_isfinite (fq_value q)"
    and "\<not> any_adjacent (\<lambda>lower upper. f_lt (fq_value upper) (fq_value lower)) qs"
  shows "sorted (map (\<lambda>q. fval (fq_value q)) qs)"
  using assms
proof (induction qs rule: induct_list012)
  case (3 x y zs)
  then show ?case using f_lt_fval [of "fq_value y" "fq_value x"] by auto
qed simp_all

section \<open>The assembled response\<close>

lemma assembled_step:
  assumes "assemble_baseline_forecast_response env rq ri factory idn = Inr rs" and "k < length (rs_forecasts rs)"
  shows "\<exists>raw paths t. fa_step env rq raw paths k t = Inr (rs_forecasts rs ! k)"
  using assms(1)
proof (rule assembleE, goal_cases)
  case (1 obs ts ds a g fitted raw paths steps pv)
  have r: "rs_forecasts rs = steps" using fa_responseD [OF 1(6)] by simp
  then have "k < length ts" using assms(2) map_res_from_length [OF 1(4)] by simp
  then show ?case using map_res_from_nth [OF 1(4), of k] r by auto
qed

text \<open>C22. An assembled response is point-in-time.  The target times are the resolved
  ones, increasing and after \<open>as_of\<close>, one per step of the requested horizon; the
  provenance cutoff bounds the availability of every observation that was used and does
  not exceed \<open>as_of\<close>; the response does not precede it; and the lookahead check says
  \<open>passed\<close> exactly when the resolver verified availability.\<close>

theorem assembled_response_is_point_in_time:
  assumes "assemble_baseline_forecast_response env rq ri factory idn = Inr rs"
  shows "map_res (\<lambda>v. fa_as_utc v ''target_time'') (ria_target_times ri) = Inr (map fs_target_time (rs_forecasts rs))
    \<and> int (length (rs_forecasts rs)) = rq_horizon rq \<and> map fs_step (rs_forecasts rs) = [1..rq_horizon rq]
    \<and> sorted_wrt (<) (map fs_target_time (rs_forecasts rs)) \<and> (\<forall>s \<in> set (rs_forecasts rs). rs_as_of rs < fs_target_time s)
    \<and> (\<forall>x \<in> set (ria_observations ri). \<exists>t. fa_as_utc (oba_available_at x) ''observation available_at'' = Inr t
          \<and> t \<le> pv_max_available_at (rs_provenance rs))
    \<and> (\<forall>d \<in> set (pv_data_sources (rs_provenance rs)). dl_max_available_at d \<le> pv_max_available_at (rs_provenance rs))
    \<and> pv_max_available_at (rs_provenance rs) \<le> rs_as_of rs \<and> rs_as_of rs \<le> pv_generated_at (rs_provenance rs)
    \<and> (lc_status (pv_lookahead_check (rs_provenance rs)) = ''passed'' \<longleftrightarrow> ria_availability_verified ri = PyBool True)"
  using assms
proof (rule assembleE, goal_cases)
  case (1 obs ts ds a g fitted raw paths steps pv)
  note resp = fa_responseD [OF 1(6)] and prov = fa_provenanceD [OF 1(5)]
  have inv: "map fs_step steps = [1..rq_horizon rq]" "rq_horizon rq = int (length steps)" "a \<le> pv_generated_at pv"
    using validate_response_invariantsD [OF resp(6)] resp by simp_all
  obtain h: "ria_observations ri \<noteq> []" "fa_observations a (ria_observations ri) = Inr obs"
    "\<forall>d \<in> set ds. dl_max_available_at d \<le> a" "fa_target_times a (ria_target_times ri) = Inr ts"
    using 1(1) by (rule fa_validated_inputsE)
  note o = fa_observationsD [OF h(2)] and t = fa_target_timesD [OF h(4)]
  have ne: "obs \<noteq> []" using h(1) map_res_length [OF o(1)] by auto
  note m = fa_max_available_bounds [OF ne _ h(3)]
  have o': "\<forall>x \<in> set obs. ob_available_at x \<le> a" using o(3) by blast
  have times: "map fs_target_time steps = ts"
  proof (rule nth_equalityI)
    show "length (map fs_target_time steps) = length ts" using map_res_from_length [OF 1(4)] by simp
    show "map fs_target_time steps ! k = ts ! k" if "k < length (map fs_target_time steps)" for k
      using map_res_from_nth [OF 1(4), of k] that map_res_from_length [OF 1(4)] by (auto elim: fa_stepE)
  qed
  have avail: "\<exists>t. fa_as_utc (oba_available_at x) ''observation available_at'' = Inr t \<and> t \<le> fa_max_available_at obs ds"
    if x: "x \<in> set (ria_observations ri)" for x
  proof -
    obtain y where y: "y \<in> set obs" "fa_observation x = Inr y" by (rule map_res_in_src [OF o(1) x])
    from y(2) have "fa_as_utc (oba_available_at x) ''observation available_at'' = Inr (ob_available_at y)"
      unfolding fa_observation_def by (elim bind_res_InrE) auto
    with m(2) [OF o' y(1)] show ?thesis by blast
  qed
  have later: "\<forall>s \<in> set steps. a < fs_target_time s" using t(4) unfolding times [symmetric] by simp
  show ?case
    using t(1,3) inv later avail m(1) [OF o'] m(3) [OF o'] resp(1-5) prov unfolding times [symmetric] by simp
qed

text \<open>C23. The distribution of every step is ordered: quantiles by level and by value, the
  bounds of an interval are the values of the quantiles it names, and no price forecast
  is negative.\<close>

theorem assembled_distribution_is_ordered:
  assumes "assemble_baseline_forecast_response env rq ri factory idn = Inr rs" and "s \<in> set (rs_forecasts rs)"
  shows "sorted (map (\<lambda>q. f_key (fq_level q)) (fs_quantiles s)) \<and> sorted (map (\<lambda>q. fval (fq_value q)) (fs_quantiles s))
    \<and> (\<forall>i \<in> set (fs_intervals s).
         (\<exists>q \<in> set (fs_quantiles s). f_eq (fq_level q) (fi_lower_quantile i) \<and> fq_value q = fi_lower i)
       \<and> (\<exists>q \<in> set (fs_quantiles s). f_eq (fq_level q) (fi_upper_quantile i) \<and> fq_value q = fi_upper i))
    \<and> (rq_target rq \<in> fa_price_targets \<longrightarrow> 0 \<le> fval (fs_point s) \<and> (\<forall>q \<in> set (fs_quantiles s). 0 \<le> fval (fq_value q)))"
proof -
  obtain k where k: "k < length (rs_forecasts rs)" "s = rs_forecasts rs ! k" using assms(2) by (metis in_set_conv_nth)
  obtain raw paths t where "fa_step env rq raw paths k t = Inr (rs_forecasts rs ! k)"
    using assembled_step [OF assms(1) k(1)] by blast
  then have st: "fa_step env rq raw paths k t = Inr s" using k(2) by simp
  then show ?thesis
  proof (rule fa_stepE, goal_cases)
    case (1 vs)
    have qs: "q \<in> set (fs_quantiles s) \<longleftrightarrow> (fq_level q, fq_value q) \<in> set vs" for q :: ForecastQuantile
      unfolding 1(4) by (auto simp: image_iff split_beta intro!: bexI [of _ "(fq_level q, fq_value q)"])
    have ints: "(\<exists>q \<in> set (fs_quantiles s). f_eq (fq_level q) (fi_lower_quantile i) \<and> fq_value q = fi_lower i)
       \<and> (\<exists>q \<in> set (fs_quantiles s). f_eq (fq_level q) (fi_upper_quantile i) \<and> fq_value q = fi_upper i)"
      if i: "i \<in> set (fs_intervals s)" for i
    proof -
      obtain c where c: "fa_interval env vs c = Inr i" by (rule map_res_in [OF 1(7) i])
      obtain l u where lu: "(l, fi_lower i) \<in> set vs" "f_eq l (fi_lower_quantile i)"
        "(u, fi_upper i) \<in> set vs" "f_eq u (fi_upper_quantile i)"
        using fa_interval_in [OF c] by blast
      have "\<lparr>fq_level = l, fq_value = fi_lower i\<rparr> \<in> set (fs_quantiles s)" "\<lparr>fq_level = u, fq_value = fi_upper i\<rparr> \<in> set (fs_quantiles s)"
        using lu by (simp_all add: qs)
      with lu show ?thesis by force
    qed
    have price: "0 \<le> fval v" if p: "rq_target rq \<in> fa_price_targets" "(l, v) \<in> set vs" for l v
    proof -
      obtain path where "bind_res (fa_target_value (rq_target rq) (snd path ! k)) (\<lambda>v. Inr (fst path, v)) = Inr (l, v)"
        using 1(1) p(2) unfolding step_values_def by (auto elim!: map_res_in simp: split_beta)
      then show ?thesis using fa_target_value_ok(2) p(1) by (auto simp: bind_res_Inr_iff)
    qed
    show ?case
      using ints price nondecreasing_fval [OF 1(5,6)] fa_target_value_ok(2) [OF 1(2)] qs
      by (auto simp: 1(4))
  qed
qed

text \<open>Every number of the response is the forecaster's.  The point of step \<open>k\<close> is the
  \<open>k\<close>-th prediction and the quantiles are the \<open>k\<close>-th entries of the paths of exactly the
  requested levels, each clamped at zero for price targets, of one fitted instance that
  is distinct from the template.\<close>

theorem reported_values_are_predictions:
  assumes "assemble_baseline_forecast_response env rq ri factory idn = Inr rs"
  shows "\<exists>obs ts ds a g fitted raw paths.
      fa_validated_inputs env rq ri idn = Inr (obs, ts, ds, a, g)
    \<and> fa_fitted factory (map ob_value obs) rq idn = Inr fitted \<and> fa_raw_forecast rq fitted = Inr (raw, paths)
    \<and> map fst paths = fa_requested_quantile_levels (rq_interval_coverages rq)
    \<and> length raw = length (rs_forecasts rs)
    \<and> (\<forall>k < length (rs_forecasts rs). fa_target_value (rq_target rq) (raw ! k) = Inr (fs_point (rs_forecasts rs ! k))
        \<and> step_values (rq_target rq) paths k
          = Inr (map (\<lambda>q. (fq_level q, fq_value q)) (fs_quantiles (rs_forecasts rs ! k))))"
  using assms
proof (rule assembleE, goal_cases)
  case (1 obs ts ds a g fitted raw paths steps pv)
  have r: "rs_forecasts rs = steps" "rs_horizon rs = rq_horizon rq"
    and n: "rq_horizon rq = int (length steps)"
    using fa_responseD [OF 1(6)] validate_response_invariantsD(2) [of rs rs] by simp_all
  have raw: "map fst paths = fa_requested_quantile_levels (rq_interval_coverages rq)" "length raw = length steps"
    using fa_raw_forecastD [OF 1(3)] n by simp_all
  have step: "fa_target_value (rq_target rq) (raw ! k) = Inr (fs_point (steps ! k))
      \<and> step_values (rq_target rq) paths k = Inr (map (\<lambda>q. (fq_level q, fq_value q)) (fs_quantiles (steps ! k)))"
    if k: "k < length steps" for k
  proof -
    have "k < length ts" using k map_res_from_length [OF 1(4)] by simp
    then have "fa_step env rq raw paths k (ts ! k) = Inr (steps ! k)" using map_res_from_nth [OF 1(4), of k] by simp
    then show ?thesis
    proof (rule fa_stepE, goal_cases)
      case (1 vs)
      have "sorted (map f_key (map fst vs))"
        unfolding step_values_levels [OF 1(1)] raw(1) fa_requested_quantile_levels_def by simp
      then have "fs_quantiles (steps ! k) = map (\<lambda>(l, v). \<lparr>fq_level = l, fq_value = v\<rparr>) vs"
        unfolding 1(4) by (intro sort_key_id_if_sorted) (simp add: comp_def split_beta)
      then have "map (\<lambda>q. (fq_level q, fq_value q)) (fs_quantiles (steps ! k)) = vs"
        by (simp add: comp_def split_beta)
      with 1(1,2) show ?case by simp
    qed
  qed
  show ?case
    unfolding r(1)
    by (intro exI [of _ obs] exI [of _ ts] exI [of _ ds] exI [of _ a] exI [of _ g] exI [of _ fitted] exI [of _ raw]
        exI [of _ paths] conjI allI impI) (use 1 raw step in auto)
qed

end
