(* ===== verification/SnapshotLaws.thy ===== *)
theory SnapshotLaws
  imports SnapshotReading
begin

text \<open>
  Forecast-input snapshots: the invariant of a validated payload, grouping of the
  source rows, the codec contract, and what the boundary guarantees of everything it
  resolves.
\<close>

declare sort_key_Nil_iff [simp] distinct_map_sort_key [simp]

section \<open>Grouping\<close>

lemma group_update_keys: "set (map fst (group_update k vs g)) = insert k (set (map fst g))"
  by (induction k vs g rule: group_update.induct) auto

lemma group_update_distinct: "distinct (map fst g) \<Longrightarrow> distinct (map fst (group_update k vs g))"
proof (induction k vs g rule: group_update.induct)
  case (2 k vs k' ws g)
  then show ?case using group_update_keys [of k vs g] by auto
qed simp

lemma group_update_new: "k \<notin> set (map fst g) \<Longrightarrow> group_update k vs g = g @ [(k, vs)]"
  by (induction k vs g rule: group_update.induct) auto

definition field_set :: "('k \<times> 'v list) list \<Rightarrow> 'k \<Rightarrow> 'v set" where
  "field_set g k = \<Union> {set vs | vs. (k, vs) \<in> set g}"

lemma field_set_Cons: "field_set ((k', vs) # g) k = (if k' = k then set vs else {}) \<union> field_set g k"
  by (auto simp: field_set_def)

lemma field_set_Nil [simp]: "field_set [] k = {}"
  by (simp add: field_set_def)

lemma field_set_update:
  "field_set (group_update k vs g) k' = (if k' = k then set vs else {}) \<union> field_set g k'"
proof (induction k vs g rule: group_update.induct)
  case (1 k vs)
  then show ?case by (simp add: field_set_Cons)
next
  case (2 k vs k'' ws g)
  have u: "set (ws @ filter (\<lambda>v. v \<notin> set ws) vs) = set ws \<union> set vs" by auto
  show ?case
  proof (cases "k'' = k")
    case True
    have "group_update k vs ((k'', ws) # g) = (k'', ws @ filter (\<lambda>v. v \<notin> set ws) vs) # g" using True by simp
    then show ?thesis using True unfolding field_set_Cons u by (simp only: field_set_Cons) auto
  next
    case False
    then show ?thesis using 2 by (simp only: group_update.simps if_False field_set_Cons) auto
  qed
qed

definition groups_ok :: "('k \<times> 'v list) list \<Rightarrow> bool" where
  "groups_ok g \<longleftrightarrow> distinct (map fst g) \<and> (\<forall>(k, vs) \<in> set g. distinct vs \<and> vs \<noteq> [])"

lemma group_update_ok:
  "groups_ok g \<Longrightarrow> distinct vs \<Longrightarrow> vs \<noteq> [] \<Longrightarrow> groups_ok (group_update k vs g)"
proof (induction k vs g rule: group_update.induct)
  case (2 k vs k' ws g)
  then show ?case using group_update_keys [of k vs g] by (force simp: groups_ok_def)
qed (simp add: groups_ok_def)

lemma sn_group_ok:
  assumes "\<forall>(k, vs) \<in> set rows. distinct vs \<and> vs \<noteq> []"
  shows "groups_ok (sn_group rows) \<and> set (map fst (sn_group rows)) = set (map fst rows)
    \<and> (\<forall>k. field_set (sn_group rows) k = field_set rows k)"
  using assms
proof (induction rows rule: rev_induct)
  case (snoc x rows)
  obtain k vs where x: "x = (k, vs)" by (cases x)
  have g: "sn_group (rows @ [x]) = group_update k vs (sn_group rows)" by (simp add: sn_group_def x)
  have f: "field_set (rows @ [x]) k' = (if k' = k then set vs else {}) \<union> field_set rows k'" for k'
    by (auto simp: field_set_def x)
  show ?case using snoc group_update_ok [of "sn_group rows" vs k]
    unfolding g f using group_update_keys [of k vs "sn_group rows"] by (simp add: x field_set_update)
qed (simp add: sn_group_def groups_ok_def)

lemma sn_group_distinct:
  assumes "distinct (map fst rows)"
  shows "sn_group rows = rows"
  using assms
proof (induction rows rule: rev_induct)
  case (snoc x rows)
  then show ?case by (cases x) (simp add: sn_group_def group_update_new)
qed (simp add: sn_group_def)

lemma groups_same:
  assumes "groups_ok g" and "groups_ok h" and "set (map fst g) = set (map fst h)"
    and "\<And>k. field_set g k = field_set h k"
  shows "map (\<lambda>(k, vs). (k, sort vs)) (sort_key fst g) = map (\<lambda>(k, vs). (k, sort vs)) (sort_key fst (h :: ('k::linorder \<times> 'v::linorder list) list))"
proof -
  have eq: "map fst (sort_key fst g) = map fst (sort_key fst h)"
    using assms(1-3) by (intro sorted_distinct_set_unique) (simp_all add: groups_ok_def distinct_map)
  have val: "sort vs = sorted_list_of_set (field_set g' k)" if "groups_ok g'" "(k, vs) \<in> set g'" for g' :: "('k \<times> 'v list) list" and k vs
  proof -
    have "vs' = vs" if "(k, vs') \<in> set g'" for vs'
      using \<open>groups_ok g'\<close> \<open>(k, vs) \<in> set g'\<close> that unfolding groups_ok_def by (blast intro: eq_key_imp_eq_value)
    then have "field_set g' k = set vs" using that(2) unfolding field_set_def by blast
    moreover have "distinct vs" using that unfolding groups_ok_def by blast
    ultimately show ?thesis by (simp add: sorted_list_of_set_sort_remdups distinct_remdups_id)
  qed
  have "map (\<lambda>(k, vs). (k, sort vs)) (sort_key fst g') = map (\<lambda>k. (k, sorted_list_of_set (field_set g' k))) (map fst (sort_key fst g'))"
    if "groups_ok g'" for g' :: "('k \<times> 'v list) list"
    using val [OF that] by (auto simp: map_eq_conv)
  from this [OF assms(1)] this [OF assms(2)] show ?thesis unfolding eq assms(4) by simp
qed

section \<open>The invariant of a validated payload\<close>

lemmas sn_scalars = sn_utc_def sn_text_def sn_hash_def sn_finite_def sn_string_def sn_integer_def
  sn_parse_timestamp_def sn_parse_float_bits_def sn_object_def sn_array_def sn_exact_keys_def

definition observation_ok :: "string \<Rightarrow> instant \<Rightarrow> SnapshotObservation \<Rightarrow> bool" where
  "observation_ok target as_of x \<longleftrightarrow>
     valid_instant (so_observed_at x) \<and> valid_instant (so_available_at x) \<and> normal_float (so_value x)
     \<and> so_observed_at x \<le> so_available_at x \<and> so_available_at x \<le> as_of
     \<and> \<not> (target \<in> set sn_price_targets \<and> f_lt (so_value x) f_zero)"

definition lineage_ok :: "instant \<Rightarrow> SnapshotSourceLineage \<Rightarrow> bool" where
  "lineage_ok as_of s \<longleftrightarrow>
     text_ok 64 (ss_name s) \<and> text_ok 128 (ss_snapshot_id s) \<and> valid_instant (ss_max_available_at s)
     \<and> ss_max_available_at s \<le> as_of \<and> ss_fields s \<noteq> [] \<and> sorted_wrt (<) (ss_fields s)
     \<and> (\<forall>f \<in> set (ss_fields s). text_ok 128 f)"

definition lineage_key :: "SnapshotSourceLineage \<Rightarrow> source_key" where
  "lineage_key s = (ss_name s, ss_snapshot_id s, ss_max_available_at s)"

definition availability_ok ::
  "instant \<Rightarrow> SnapshotObservation list \<Rightarrow> SnapshotSourceLineage list \<Rightarrow> SnapshotAvailabilityEvidence \<Rightarrow> bool" where
  "availability_ok as_of observations sources a \<longleftrightarrow>
     a = \<lparr>sa_status = ''not_run'', sa_rule_set_hash = None, sa_checked_at = None\<rparr>
     \<or> (\<exists>h t. a = \<lparr>sa_status = ''passed'', sa_rule_set_hash = Some h, sa_checked_at = Some t\<rparr>
          \<and> content_id_pattern h \<and> valid_instant t \<and> max (sn_max_available observations sources) as_of \<le> t)"

definition observations_ok :: "string \<Rightarrow> instant \<Rightarrow> SnapshotObservation list \<Rightarrow> bool" where
  "observations_ok target as_of xs \<longleftrightarrow>
     xs \<noteq> [] \<and> length xs \<le> sn_max_observations \<and> sorted_wrt (<) (map so_observed_at xs)
     \<and> (\<forall>x \<in> set xs. observation_ok target as_of x)"

definition times_ok :: "instant \<Rightarrow> instant list \<Rightarrow> bool" where
  "times_ok as_of ts \<longleftrightarrow>
     ts \<noteq> [] \<and> length ts \<le> sn_max_target_times \<and> sorted_wrt (<) ts
     \<and> (\<forall>t \<in> set ts. valid_instant t \<and> as_of < t)"

definition sources_ok :: "instant \<Rightarrow> SnapshotSourceLineage list \<Rightarrow> bool" where
  "sources_ok as_of ss \<longleftrightarrow>
     ss \<noteq> [] \<and> length ss \<le> sn_max_sources \<and> sorted_wrt (<) (map lineage_key ss)
     \<and> (\<forall>s \<in> set ss. lineage_ok as_of s)"

definition header_ok :: "ForecastInputSnapshotPayload \<Rightarrow> bool" where
  "header_ok p \<longleftrightarrow>
     content_id_pattern (sp_resolution_policy_hash p) \<and> sp_schema_version p = SNAPSHOT_SCHEMA_VERSION
     \<and> text_ok 32 (sp_symbol p) \<and> sp_symbol p = py_upper (sp_symbol p) \<and> symbol_pattern (sp_symbol p)
     \<and> text_ok 32 (sp_target p) \<and> sp_target p \<in> set forecast_targets
     \<and> text_ok 32 (sp_horizon_unit p) \<and> sp_horizon_unit p \<in> set forecast_horizon_units
     \<and> text_ok 32 (sp_series_basis p) \<and> sp_series_basis p \<in> set forecast_series_bases
     \<and> \<not> (sp_target p = ''close'' \<and> sp_series_basis p \<noteq> ''raw'')
     \<and> \<not> (sp_target p = ''adjusted_close'' \<and> sp_series_basis p = ''raw'')
     \<and> text_ok 16 (sp_input_timespan p) \<and> sp_input_timespan p \<in> set sn_input_timespans
     \<and> 1 \<le> sp_input_multiplier p \<and> sp_input_multiplier p \<le> 10000
     \<and> (case sp_currency p of
          None \<Rightarrow> sp_target p \<notin> set sn_price_targets
        | Some c \<Rightarrow> sp_target p \<in> set sn_price_targets \<and> text_ok 3 c \<and> length c = 3 \<and> (\<forall>x \<in> set c. is_upper x))
     \<and> valid_instant (sp_as_of p)"

definition snapshot_ok :: "ForecastInputSnapshotPayload \<Rightarrow> bool" where
  "snapshot_ok p \<longleftrightarrow> header_ok p
     \<and> observations_ok (sp_target p) (sp_as_of p) (sp_observations p)
     \<and> times_ok (sp_as_of p) (sp_target_times p)
     \<and> sources_ok (sp_as_of p) (sp_data_sources p)
     \<and> availability_ok (sp_as_of p) (sp_observations p) (sp_data_sources p) (sp_availability p)"

text \<open>The limit a merged source may exceed.\<close>

definition fields_within_limit :: "ForecastInputSnapshotPayload \<Rightarrow> bool" where
  "fields_within_limit p \<longleftrightarrow> (\<forall>s \<in> set (sp_data_sources p). length (ss_fields s) \<le> sn_max_source_fields)"

subsection \<open>Every validated payload satisfies it\<close>

lemma sorted_key_strict: "distinct (map f (sort_key f xs)) \<Longrightarrow> sorted_wrt (<) (map f (sort_key f xs))"
  by (simp add: strict_sorted_iff)

lemma sn_observations_ok:
  assumes "sn_observations target as_of a = Inr xs"
  shows "observations_ok target as_of xs"
proof (cases a)
  case (Inst items)
  show ?thesis
    using assms unfolding Inst sn_observations_def pyarg.case Let_def
  proof (elim bind_check_InrE bind_res_InrE, goal_cases)
    case prems: (1 rows us)
    from prems(6) have xs: "xs = sort_key so_observed_at rows" by simp
    have all: "items = map Inst (insts items)" using prems(2) by (simp add: list_ex_iff flip: all_is_inst_iff)
    have len: "length xs = length items" using map_res_length [OF prems(3)] xs arg_cong [OF all, of length] by simp
    have "observation_ok target as_of x" if x: "x \<in> set xs" for x
    proof -
      obtain i where i: "sn_observation i = Inr x" using map_res_in [OF prems(3)] x xs by (metis set_sort)
      obtain u where u: "sn_observation_in_scope target as_of x = Inr u" using map_res_in_src [OF prems(5)] x xs by metis
      show ?thesis using i u unfolding sn_observation_def sn_observation_in_scope_def sn_scalars
        by (elim bind_check_InrE bind_res_InrE)
          (auto simp: observation_ok_def check_Inr_iff dest: utc_of_valid ev_finite_normal)
    qed
    then show ?case using prems(1,4) len xs by (auto simp: observations_ok_def sorted_key_strict)
  qed
qed (use assms in \<open>simp add: sn_observations_def\<close>)

lemma sn_target_times_ok:
  assumes "sn_target_times as_of a = Inr ts"
  shows "times_ok as_of ts"
proof (cases a)
  case (Inst items)
  show ?thesis
    using assms unfolding Inst sn_target_times_def pyarg.case Let_def
  proof (elim bind_check_InrE bind_res_InrE, goal_cases)
    case prems: (1 times)
    from prems(5) have ts: "ts = sort times" by simp
    have len: "length ts = length items" using map_res_length [OF prems(2)] ts by simp
    have v: "valid_instant t" if "t \<in> set ts" for t
      using map_res_in [OF prems(2)] that ts utc_of_valid unfolding sn_utc_def by (metis set_sort)
    have ne: "ts \<noteq> []" using prems(1) len by auto
    have h: "as_of < t" if "t \<in> set ts" for t
    proof -
      have "hd ts \<le> t" using that ne ts by (metis sorted_sort hd_Cons_tl set_ConsD sorted_simps(2) order_refl)
      then show ?thesis using prems(4) ts by simp
    qed
    show ?case using v h prems(1,3) len ts ne by (simp add: times_ok_def strict_sorted_iff)
  qed
qed (use assms in \<open>simp add: sn_target_times_def\<close>)

lemma sn_source_ok:
  assumes "sn_source as_of a = Inr (k, names)"
  shows "distinct names" and "names \<noteq> []" and "length names \<le> sn_max_source_fields"
    and "sorted_wrt (<) (sort names)"
    and "text_ok 64 (fst k)" and "text_ok 128 (fst (snd k))" and "valid_instant (snd (snd k))"
    and "snd (snd k) \<le> as_of" and "\<forall>f \<in> set names. text_ok 128 f"
proof -
  obtain n i t items texts where s: "ev_text SnapshotValidationError 64 (ssa_name a) ''source name'' = Inr n"
    "ev_text SnapshotValidationError 128 (ssa_snapshot_id a) ''source snapshot_id'' = Inr i"
    "utc_of SnapshotValidationError (ssa_max_available_at a) ''source max_available_at'' = Inr t" "t \<le> as_of"
    "map_res (\<lambda>v. ev_text SnapshotValidationError 128 v ''source field'') items = Inr texts"
    "\<not> (length (remdups texts) < 1 \<or> sn_max_source_fields < length (remdups texts))"
    "k = (n, i, t)" "names = remdups texts"
  proof (cases "ssa_fields a")
    case (Inst items)
    from assms show thesis
      unfolding sn_source_def sn_scalars Inst pyarg.case Let_def
      by (elim bind_check_InrE bind_res_InrE) (rule that, auto)
  next
    case Foreign
    from assms show thesis
      unfolding sn_source_def sn_scalars Foreign pyarg.case by (elim bind_check_InrE bind_res_InrE) simp
  qed
  show "distinct names" "names \<noteq> []" "length names \<le> sn_max_source_fields" using s(6,8) by (auto simp: not_less)
  then show "sorted_wrt (<) (sort names)" by (simp add: strict_sorted_iff)
  show "text_ok 64 (fst k)" "text_ok 128 (fst (snd k))" "valid_instant (snd (snd k))" "snd (snd k) \<le> as_of"
    using s(1-4,7) utc_of_valid by (auto simp: ev_text_Inr_iff)
  show "\<forall>f \<in> set names. text_ok 128 f"
    using s(8) map_res_in [OF s(5)] by (metis ev_text_Inr_iff set_remdups)
qed

lemma sn_group_rows:
  assumes "map_res (sn_source as_of) items = Inr rows"
  shows "\<forall>(k, vs) \<in> set rows. distinct vs \<and> vs \<noteq> []"
  using map_res_in [OF assms] sn_source_ok(1,2) by (metis (mono_tags, lifting) case_prodI2)

lemma lineage_sn_lineage [simp]:
  "lineage_key (sn_lineage x) = fst x" "ss_fields (sn_lineage x) = sort (snd x)"
  by (auto simp: lineage_key_def sn_lineage_def split: prod.splits)

lemma length_group: "length (sn_group rows) \<le> length rows"
proof (induction rows rule: rev_induct)
  case (snoc x rows)
  have "length (group_update k vs g) \<le> Suc (length g)" for k vs and g :: "(source_key \<times> string list) list"
    by (induction k vs g rule: group_update.induct) auto
  then show ?case using snoc by (cases x) (simp add: sn_group_def, meson le_SucI le_trans not_less_eq_eq)
qed (simp add: sn_group_def)

lemma sn_data_sources_ok:
  assumes "sn_data_sources as_of a = Inr ss"
  shows "sources_ok as_of ss"
proof (cases a)
  case (Inst items)
  show ?thesis
    using assms unfolding Inst sn_data_sources_def pyarg.case Let_def
  proof (elim bind_check_InrE bind_res_InrE, goal_cases)
    case prems: (1 rows)
    from prems(4) have ss: "ss = map sn_lineage (sort_key fst (sn_group rows))" by simp
    have all: "items = map Inst (insts items)" using prems(2) by (simp add: list_ex_iff flip: all_is_inst_iff)
    have len: "length rows = length items"
      using map_res_length [OF prems(3)] arg_cong [OF all, of length] by simp
    note g = sn_group_ok [OF sn_group_rows [OF prems(3)]]
    have "length ss \<le> sn_max_sources" using length_group [of rows] prems(1) len ss by simp
    moreover have "set (map fst (sn_group rows)) \<noteq> {}" using g prems(1) len by auto
    then have "ss \<noteq> []" using ss by auto
    moreover have "sorted_wrt (<) (map lineage_key ss)"
      using g by (simp add: ss comp_def strict_sorted_iff groups_ok_def)
    moreover have "lineage_ok as_of s" if "s \<in> set ss" for s
    proof -
      obtain k vs where kv: "(k, vs) \<in> set (sn_group rows)" "s = sn_lineage (k, vs)"
        using \<open>s \<in> set ss\<close> ss by (auto simp: set_sort)
      have "k \<in> set (map fst (sn_group rows))" using kv(1) by force
      then have "k \<in> set (map fst rows)" unfolding g [THEN conjunct2, THEN conjunct1] .
      then obtain ws where "(k, ws) \<in> set rows" by auto
      then obtain i where "sn_source as_of i = Inr (k, ws)" using map_res_in [OF prems(3)] by metis
      note sk = sn_source_ok [OF this]
      have vs: "distinct vs" "vs \<noteq> []" using g kv(1) by (auto simp: groups_ok_def)
      have "text_ok 128 f" if "f \<in> set vs" for f
      proof -
        have "f \<in> field_set (sn_group rows) k" using kv(1) that by (auto simp: field_set_def)
        then have "f \<in> field_set rows k" using g by metis
        then obtain us where us: "(k, us) \<in> set rows" "f \<in> set us" by (auto simp: field_set_def)
        then obtain i' where "sn_source as_of i' = Inr (k, us)" using map_res_in [OF prems(3)] by metis
        then show ?thesis using sn_source_ok(9) us(2) by blast
      qed
      then show ?thesis using sk vs
        by (auto simp: kv(2) lineage_ok_def sn_lineage_def strict_sorted_iff split: prod.splits)
    qed
    ultimately show ?case by (simp add: sources_ok_def)
  qed
qed (use assms in \<open>simp add: sn_data_sources_def\<close>)

lemma sn_availability_ok:
  assumes "sn_availability as_of xs ss a = Inr v"
  shows "availability_ok as_of xs ss v"
proof (cases a)
  case (Inst b)
  show ?thesis
    using assms unfolding Inst sn_availability_def pyarg.case sn_scalars
    by (simp split: if_splits add: availability_ok_def)
      (elim exE conjE bind_res_InrE, auto simp: ev_hash_Inr_iff not_less split: if_splits dest: utc_of_valid)
qed (use assms in \<open>simp add: sn_availability_def\<close>)

lemma normalized_snapshot_ok:
  assumes "sn_normalized_payload a = Inr p"
  shows "snapshot_ok p"
proof (cases a)
  case (Inst b)
  show ?thesis
    using assms unfolding Inst sn_normalized_payload_def pyarg.case
  proof (elim bind_check_InrE bind_res_InrE, goal_cases)
    case prems: (1 policy symbol target unit basis span multiplier cur as_of xs ts ss av)
    from prems(24) have p: "p = \<lparr>sp_resolution_policy_hash = policy, sp_symbol = symbol, sp_target = target,
            sp_horizon_unit = unit, sp_series_basis = basis, sp_input_timespan = span,
            sp_input_multiplier = multiplier, sp_as_of = as_of, sp_currency = cur,
            sp_observations = xs, sp_target_times = ts, sp_data_sources = ss,
            sp_availability = av, sp_schema_version = SNAPSHOT_SCHEMA_VERSION\<rparr>" by simp
    have "1 \<le> multiplier \<and> multiplier \<le> 10000"
      using prems(15) by (auto simp: sn_positive_integer_def split: pyobj.splits if_splits)
    moreover have "case cur of None \<Rightarrow> target \<notin> set sn_price_targets
        | Some c \<Rightarrow> target \<in> set sn_price_targets \<and> text_ok 3 c \<and> length c = 3 \<and> (\<forall>x \<in> set c. is_upper x)"
      using prems(16-18) by (auto simp: sn_optional_text_def sn_text_def ev_text_Inr_iff bind_res_Inr_iff split: if_splits)
    ultimately have "header_ok p"
      using prems(2-14,19) utc_of_valid unfolding p header_ok_def sn_scalars
      by (auto simp: ev_text_Inr_iff ev_hash_Inr_iff cong: option.case_cong)
    then show ?case
      using sn_observations_ok [OF prems(20)] sn_target_times_ok [OF prems(21)] sn_data_sources_ok [OF prems(22)]
        sn_availability_ok [OF prems(23)]
      by (simp add: snapshot_ok_def p)
  qed
qed (use assms in \<open>simp add: sn_normalized_payload_def\<close>)

subsection \<open>A payload that satisfies it is accepted again\<close>

lemma sn_observation_arg:
  "observation_ok target as_of x \<Longrightarrow> sn_observation (observation_arg x) = Inr x"
  "observation_ok target as_of x \<Longrightarrow> sn_observation_in_scope target as_of x = Inr ()"
  by (auto simp: observation_ok_def sn_observation_def observation_arg_def sn_scalars
      sn_observation_in_scope_def intro: order_trans)

lemma insts_map_comp [simp]: "insts (map (Inst \<circ> f) xs) = map f xs"
  by (induction xs) simp_all

lemma not_list_ex_Inst [simp]: "\<not> list_ex (\<lambda>x. \<not> is_inst x) (map (Inst \<circ> f) xs)"
  by (induction xs) simp_all

lemma map_res_map_arg: "(\<And>x. x \<in> set xs \<Longrightarrow> f (g x) = Inr x) \<Longrightarrow> map_res f (map g xs) = Inr xs"
  by (induction xs) simp_all

lemma sn_observations_arg:
  assumes "observations_ok target as_of xs"
  shows "sn_observations target as_of (Inst (map (Inst \<circ> observation_arg) xs)) = Inr xs"
proof -
  have "map_res sn_observation (map observation_arg xs) = Inr xs"
    using assms by (intro map_res_map_arg) (auto simp: observations_ok_def intro: sn_observation_arg)
  moreover have "map_res (sn_observation_in_scope target as_of) xs = Inr (map (\<lambda>_. ()) xs)"
    using assms by (intro map_res_total) (auto simp: observations_ok_def intro: sn_observation_arg)
  moreover have "sort_key so_observed_at xs = xs" "distinct (map so_observed_at xs)"
    using assms by (auto simp: observations_ok_def strict_sorted_iff sort_key_id_if_sorted)
  ultimately show ?thesis
    using assms by (auto simp: sn_observations_def observations_ok_def Let_def)
qed

lemma sn_target_times_arg:
  assumes "times_ok as_of ts"
  shows "sn_target_times as_of (Inst (map aware ts)) = Inr ts"
proof -
  have "map_res (\<lambda>v. sn_utc v ''target_time'') (map aware ts) = Inr ts"
    using assms by (intro map_res_map_arg) (auto simp: times_ok_def sn_utc_def)
  then show ?thesis
    using assms by (auto simp: sn_target_times_def times_ok_def Let_def strict_sorted_iff sorted_sort_id neq_Nil_conv)
qed

lemma sn_source_arg:
  assumes "lineage_ok as_of s"
  shows "sn_source as_of (lineage_arg s) =
    (if length (ss_fields s) \<le> sn_max_source_fields then Inr (lineage_key s, ss_fields s)
     else Inl (sn_error ''source fields must be within the size limit''))"
proof -
  have "map_res (\<lambda>v. ev_text SnapshotValidationError 128 v ''source field'') (map PyStr (ss_fields s)) = Inr (ss_fields s)"
    using assms by (intro map_res_map_arg) (auto simp: lineage_ok_def)
  moreover have "remdups (ss_fields s) = ss_fields s"
    using assms by (auto simp: lineage_ok_def strict_sorted_iff distinct_remdups_id)
  ultimately show ?thesis
    using assms by (auto simp: sn_source_def lineage_arg_def sn_scalars lineage_ok_def lineage_key_def Let_def not_le
        distinct_remdups_id)
qed

lemma sn_lineage_key: "sorted_wrt (<) (ss_fields s) \<Longrightarrow> sn_lineage (lineage_key s, ss_fields s) = s"
  by (simp add: sn_lineage_def lineage_key_def strict_sorted_iff sorted_sort_id)

lemma sn_data_sources_arg:
  assumes "sources_ok as_of ss"
  shows "sn_data_sources as_of (Inst (map (Inst \<circ> lineage_arg) ss)) =
    (if \<forall>s \<in> set ss. length (ss_fields s) \<le> sn_max_source_fields then Inr ss
     else Inl (sn_error ''source fields must be within the size limit''))"
proof -
  let ?row = "\<lambda>s. (lineage_key s, ss_fields s)"
  have ok: "lineage_ok as_of s" if "s \<in> set ss" for s using assms that by (simp add: sources_ok_def)
  have len: "ss \<noteq> []" "\<not> sn_max_sources < length ss" using assms by (auto simp: sources_ok_def)
  show ?thesis
  proof (cases "\<forall>s \<in> set ss. length (ss_fields s) \<le> sn_max_source_fields")
    case True
    have rows: "map_res (sn_source as_of) (map lineage_arg ss) = Inr (map ?row ss)"
      using True ok by (induction ss) (auto simp: sn_source_arg)
    have keys: "sorted_wrt (<) (map fst (map ?row ss))" using assms by (simp add: sources_ok_def comp_def)
    then have "sn_group (map ?row ss) = map ?row ss" "sort_key fst (map ?row ss) = map ?row ss"
      by (auto simp: strict_sorted_iff intro!: sn_group_distinct sort_key_id_if_sorted)
    moreover have "map sn_lineage (map ?row ss) = ss"
      using ok by (auto simp: lineage_ok_def sn_lineage_key intro!: map_idI)
    ultimately show ?thesis using True len rows by (simp add: sn_data_sources_def Let_def)
  next
    case False
    then have "map_res (sn_source as_of) (map lineage_arg ss) = Inl (sn_error ''source fields must be within the size limit'')"
      using ok by (induction ss) (auto simp: sn_source_arg)
    then show ?thesis using False len by (simp add: sn_data_sources_def)
  qed
qed

lemma aware_not_none [simp]: "aware t \<noteq> PyNone" "PyNone \<noteq> aware t"
  by (simp_all add: aware_def)

lemma sn_availability_arg:
  "availability_ok as_of xs ss a \<Longrightarrow> sn_availability as_of xs ss (Inst (availability_arg a)) = Inr a"
  by (auto simp: availability_ok_def sn_availability_def availability_arg_def opt_arg_def sn_scalars)

lemma snapshot_arg_sources:
  assumes "header_ok p" and "observations_ok (sp_target p) (sp_as_of p) (sp_observations p)"
    and "times_ok (sp_as_of p) (sp_target_times p)"
  shows "sn_normalized_payload (Inst (snapshot_arg p\<lparr>spa_data_sources := sources\<rparr>)) =
    bind_res (sn_data_sources (sp_as_of p) sources) (\<lambda>ss.
    bind_res (sn_availability (sp_as_of p) (sp_observations p) ss (Inst (availability_arg (sp_availability p)))) (\<lambda>av.
    Inr (p\<lparr>sp_data_sources := ss, sp_availability := av\<rparr>)))"
proof -
  have c: "sn_optional_text 3 (opt_arg PyStr (sp_currency p)) ''currency'' = Inr (sp_currency p)"
    using assms(1) by (auto simp: header_ok_def sn_optional_text_def opt_arg_def sn_text_def split: option.splits)
  have i: "sn_positive_integer (PyInt (sp_input_multiplier p)) ''input_multiplier'' = Inr (sp_input_multiplier p)"
    using assms(1) by (simp add: header_ok_def sn_positive_integer_def)
  show ?thesis
    using assms(1)
    by (auto simp: sn_normalized_payload_def snapshot_arg_def header_ok_def c i sn_scalars
        sn_observations_arg [OF assms(2)] sn_target_times_arg [OF assms(3)]
        split: option.splits intro!: arg_cong2 [where f = bind_res] ext)
qed

lemma snapshot_arg_again:
  assumes "snapshot_ok p"
  shows "sn_normalized_payload (Inst (snapshot_arg p)) =
    (if fields_within_limit p then Inr p
     else Inl (sn_error ''source fields must be within the size limit''))"
proof -
  have h: "header_ok p" "observations_ok (sp_target p) (sp_as_of p) (sp_observations p)"
    "times_ok (sp_as_of p) (sp_target_times p)" "sources_ok (sp_as_of p) (sp_data_sources p)"
    "availability_ok (sp_as_of p) (sp_observations p) (sp_data_sources p) (sp_availability p)"
    using assms by (simp_all add: snapshot_ok_def)
  have "snapshot_arg p\<lparr>spa_data_sources := Inst (map (Inst \<circ> lineage_arg) (sp_data_sources p))\<rparr> = snapshot_arg p"
    by (simp add: snapshot_arg_def)
  with snapshot_arg_sources [OF h(1-3), of "Inst (map (Inst \<circ> lineage_arg) (sp_data_sources p))"] show ?thesis
    by (simp add: sn_data_sources_arg [OF h(4)] sn_availability_arg [OF h(5)] fields_within_limit_def)
qed

section \<open>The order of the inputs\<close>

lemma sn_observations_perm:
  assumes "sn_observations target as_of (Inst items) = Inr xs" and "mset items' = mset items"
  shows "sn_observations target as_of (Inst items') = Inr xs"
proof -
  obtain rows u where p: "map_res sn_observation (insts items) = Inr rows" "xs = sort_key so_observed_at rows"
    "distinct (map so_observed_at xs)" "map_res (sn_observation_in_scope target as_of) xs = Inr u"
    "\<not> (length items < 1 \<or> sn_max_observations < length items)" "\<not> list_ex (\<lambda>x. \<not> is_inst x) items"
    using assms(1) unfolding sn_observations_def pyarg.case Let_def
    by (elim bind_check_InrE bind_res_InrE) (rule that, auto)
  obtain rows' where r: "map_res sn_observation (insts items') = Inr rows'" "mset rows' = mset rows"
    using map_res_mset [OF p(1) insts_mset [OF assms(2)]] by blast
  have "inj_on so_observed_at (set rows)" using p(2,3) by (simp add: distinct_map)
  then have s: "sort_key so_observed_at rows' = xs"
    using r(2) p(2) by (metis sort_key_perm mset_eq_setD)
  have "length items' = length items" "set items' = set items"
    using mset_eq_length [OF assms(2)] mset_eq_setD [OF assms(2)] by blast+
  moreover have "distinct (map so_observed_at rows')"
    using p(2,3) r(2) by (metis distinct_map_sort_key mset_eq_imp_distinct_iff mset_map)
  ultimately show ?thesis using p r(1) s by (simp add: sn_observations_def Let_def list_ex_iff)
qed

lemma sn_target_times_perm:
  assumes "sn_target_times as_of (Inst items) = Inr ts" and "mset items' = mset items"
  shows "sn_target_times as_of (Inst items') = Inr ts"
proof -
  obtain times where p: "map_res (\<lambda>v. sn_utc v ''target_time'') items = Inr times" "ts = sort times"
    "distinct ts" "\<not> hd ts \<le> as_of" "\<not> (length items < 1 \<or> sn_max_target_times < length items)"
    using assms(1) unfolding sn_target_times_def pyarg.case Let_def
    by (elim bind_check_InrE bind_res_InrE) (rule that, auto)
  obtain times' where r: "map_res (\<lambda>v. sn_utc v ''target_time'') items' = Inr times'" "mset times' = mset times"
    using map_res_mset [OF p(1) assms(2)] by blast
  have "sort times' = ts" using r(2) p(2) by (simp add: properties_for_sort)
  moreover have "length items' = length items" using assms(2) by (rule mset_eq_length)
  moreover have "distinct times'" using p(2,3) r(2) by (metis distinct_sort mset_eq_imp_distinct_iff)
  ultimately show ?thesis using p r(1) by (simp add: sn_target_times_def Let_def)
qed

lemma sn_data_sources_perm:
  assumes "sn_data_sources as_of (Inst items) = Inr ss" and "mset items' = mset items"
  shows "sn_data_sources as_of (Inst items') = Inr ss"
proof -
  obtain rows where p: "map_res (sn_source as_of) (insts items) = Inr rows"
    "ss = map sn_lineage (sort_key fst (sn_group rows))"
    "\<not> (length items < 1 \<or> sn_max_sources < length items)" "\<not> list_ex (\<lambda>x. \<not> is_inst x) items"
    using assms(1) unfolding sn_data_sources_def pyarg.case Let_def
    by (elim bind_check_InrE bind_res_InrE) (rule that, auto)
  obtain rows' where r: "map_res (sn_source as_of) (insts items') = Inr rows'" "mset rows' = mset rows"
    using map_res_mset [OF p(1) insts_mset [OF assms(2)]] by blast
  note g = sn_group_ok [OF sn_group_rows [OF p(1)]] and g' = sn_group_ok [OF sn_group_rows [OF r(1)]]
  have e: "set rows' = set rows" using r(2) by (rule mset_eq_setD)
  then have fe: "field_set rows' k = field_set rows k" for k by (simp add: field_set_def)
  have "map (\<lambda>(k, vs). (k, sort vs)) (sort_key fst (sn_group rows')) = map (\<lambda>(k, vs). (k, sort vs)) (sort_key fst (sn_group rows))"
    using g g' e fe by (intro groups_same) auto
  moreover have "sn_lineage x = (case (\<lambda>(k, vs). (k, sort vs)) x of ((n, i, t), fs) \<Rightarrow>
      \<lparr>ss_name = n, ss_snapshot_id = i, ss_max_available_at = t, ss_fields = fs\<rparr>)" for x
    by (auto simp: sn_lineage_def split: prod.splits)
  ultimately have s: "map sn_lineage (sort_key fst (sn_group rows')) = ss"
    unfolding p(2) by (metis (no_types, lifting) map_eq_conv map_map comp_apply)
  have "length items' = length items" "set items' = set items"
    using mset_eq_length [OF assms(2)] mset_eq_setD [OF assms(2)] by blast+
  then show ?thesis using p r(1) s by (simp add: sn_data_sources_def Let_def list_ex_iff)
qed

text \<open>C24. The identity of a snapshot does not depend on the order in which a builder hands over the
  observations, the target times and the source rows: reordered tuples validate to the
  same payload, hence to the same canonical bytes and the same content hash.\<close>

theorem snapshot_identity_order_free:
  assumes "sn_normalized_payload (Inst a) = Inr p"
    and "spa_observations a = Inst xs" and "mset xs' = mset xs"
    and "spa_target_times a = Inst ts" and "mset ts' = mset ts"
    and "spa_data_sources a = Inst ss" and "mset ss' = mset ss"
  shows "sn_normalized_payload (Inst (a\<lparr>spa_observations := Inst xs', spa_target_times := Inst ts',
    spa_data_sources := Inst ss'\<rparr>)) = Inr p"
  using assms(1) unfolding sn_normalized_payload_def pyarg.case assms(2,4,6)
  by (elim bind_check_InrE bind_res_InrE)
    (simp add: assms sn_observations_perm [OF _ assms(3)] sn_target_times_perm [OF _ assms(5)]
      sn_data_sources_perm [OF _ assms(7)])

end
