(* ===== verification/SnapshotCodecLaws.thy ===== *)
theory SnapshotCodecLaws
  imports SnapshotLaws
begin

text \<open>
  The canonical bytes of a snapshot and the stored record: interpretation of the
  codec contract, the round trip and its one exception, and the guarantees of
  \<open>validate_and_resolve_snapshot\<close>.
\<close>

section \<open>The codec contract\<close>

lemma sn_float_bits_normal [simp]: "normal_float x \<Longrightarrow> sn_float_bits x = Inr (float_bits x)"
  by (simp add: sn_float_bits_def sn_finite_def)

lemma sn_timestamp_valid [simp]: "valid_instant t \<Longrightarrow> sn_timestamp t = Inr (instant_text t)"
  by (simp add: sn_timestamp_def sn_utc_def)

definition observation_json :: "SnapshotObservation \<Rightarrow> (string \<times> json) list" where
  "observation_json x = [(''available_at'', JStr (instant_text (so_available_at x))),
     (''observed_at'', JStr (instant_text (so_observed_at x))), (''value_f64'', JStr (float_bits (so_value x)))]"

definition lineage_json :: "SnapshotSourceLineage \<Rightarrow> (string \<times> json) list" where
  "lineage_json s = [(''fields'', JArr (map JStr (ss_fields s))),
     (''max_available_at'', JStr (instant_text (ss_max_available_at s))), (''name'', JStr (ss_name s)),
     (''snapshot_id'', JStr (ss_snapshot_id s))]"

lemma decode_observation:
  assumes "observation_ok target as_of x"
  shows "sn_observation_document x = Inr (JObj (observation_json x))" "plain (JObj (observation_json x))"
    "sn_decode_observation i (jsort (JObj (observation_json x))) = Inr (observation_arg x)"
proof -
  have n: "normal_float (so_value x)" "valid_instant (so_observed_at x)" "valid_instant (so_available_at x)"
    using assms by (auto simp: observation_ok_def)
  show "sn_observation_document x = Inr (JObj (observation_json x))"
    using n by (simp add: sn_observation_document_def observation_json_def)
  show "plain (JObj (observation_json x))" by (simp add: observation_json_def)
  have k: "dict_keys (sorted_members (observation_json x)) = set [''available_at'', ''observed_at'', ''value_f64'']"
    by (simp add: observation_json_def)
  show "sn_decode_observation i (jsort (JObj (observation_json x))) = Inr (observation_arg x)"
    unfolding sn_decode_observation_def sn_scalars ev_object_jsort ev_exact_keys_ok [OF k] bind_res_simps
    using n by (simp add: observation_json_def ev_field_sorted observation_arg_def)
qed

lemma decode_lineage:
  assumes "lineage_ok as_of s"
  shows "sn_source_document s = Inr (JObj (lineage_json s))" "plain (JObj (lineage_json s))"
    "sn_decode_source i (jsort (JObj (lineage_json s))) = Inr (lineage_arg s)"
proof -
  have n: "valid_instant (ss_max_available_at s)" using assms by (simp add: lineage_ok_def)
  show "sn_source_document s = Inr (JObj (lineage_json s))"
    using n by (simp add: sn_source_document_def lineage_json_def)
  show "plain (JObj (lineage_json s))" by (simp add: lineage_json_def)
  have k: "dict_keys (sorted_members (lineage_json s)) = set [''fields'', ''max_available_at'', ''name'', ''snapshot_id'']"
    by (simp add: lineage_json_def)
  have f: "map_res (\<lambda>v. ev_string e v) (map jsort (map JStr fs)) = Inr fs" for e fs
    by (induction fs) simp_all
  show "sn_decode_source i (jsort (JObj (lineage_json s))) = Inr (lineage_arg s)"
    unfolding sn_decode_source_def sn_scalars ev_object_jsort ev_exact_keys_ok [OF k] bind_res_simps
    using n f by (simp add: lineage_json_def ev_field_sorted lineage_arg_def ev_array_def comp_def)
qed

lemma map_res_from_map:
  "(\<And>i x. x \<in> set xs \<Longrightarrow> f i (g x) = Inr (h x)) \<Longrightarrow> map_res_from i f (map g xs) = Inr (map h xs)"
  by (induction xs arbitrary: i) simp_all

definition availability_json :: "SnapshotAvailabilityEvidence \<Rightarrow> (string \<times> json) list" where
  "availability_json a = [(''checked_at'', json_opt (map_option instant_text (sa_checked_at a))),
     (''rule_set_hash'', json_opt (sa_rule_set_hash a)), (''status'', JStr (sa_status a))]"

lemma jsort_json_opt [simp]: "jsort (json_opt v) = json_opt v" "plain (json_opt v)"
  by (simp_all add: json_opt_def split: option.splits)

lemma decode_availability:
  assumes "availability_ok as_of xs ss a"
  shows "sn_optional_timestamp_text (sa_checked_at a) = Inr (map_option instant_text (sa_checked_at a))"
    "plain (JObj (availability_json a))"
    "sn_decode_availability (jsort (JObj (availability_json a))) = Inr (availability_arg a)"
proof -
  show "sn_optional_timestamp_text (sa_checked_at a) = Inr (map_option instant_text (sa_checked_at a))"
    using assms by (auto simp: availability_ok_def sn_optional_timestamp_text_def)
  show "plain (JObj (availability_json a))" by (simp add: availability_json_def)
  have k: "dict_keys (sorted_members (availability_json a)) = set [''checked_at'', ''rule_set_hash'', ''status'']"
    by (simp add: availability_json_def)
  show "sn_decode_availability (jsort (JObj (availability_json a))) = Inr (availability_arg a)"
    unfolding sn_decode_availability_def sn_object_def sn_exact_keys_def ev_object_jsort ev_exact_keys_ok [OF k] bind_res_simps
    using assms by (auto simp: availability_json_def ev_field_sorted availability_arg_def availability_ok_def json_opt_def
        opt_arg_def sn_string_def sn_optional_string_def sn_optional_timestamp_def sn_parse_timestamp_def)
qed

lemma json_opt_string: "sn_optional_string (json_opt v) l = Inr v"
  by (simp add: json_opt_def sn_optional_string_def sn_string_def split: option.splits)

definition snapshot_json :: "ForecastInputSnapshotPayload \<Rightarrow> (string \<times> json) list" where
  "snapshot_json p = [
     (''as_of'', JStr (instant_text (sp_as_of p))),
     (''availability'', JObj (availability_json (sp_availability p))),
     (''currency'', json_opt (sp_currency p)),
     (''data_sources'', JArr (map (JObj \<circ> lineage_json) (sp_data_sources p))),
     (''format'', JStr SNAPSHOT_FORMAT),
     (''horizon_unit'', JStr (sp_horizon_unit p)),
     (''input_multiplier'', JInt (sp_input_multiplier p)),
     (''input_timespan'', JStr (sp_input_timespan p)),
     (''observations'', JArr (map (JObj \<circ> observation_json) (sp_observations p))),
     (''resolution_policy_hash'', JStr (sp_resolution_policy_hash p)),
     (''schema_version'', JInt (sp_schema_version p)),
     (''series_basis'', JStr (sp_series_basis p)),
     (''symbol'', JStr (sp_symbol p)),
     (''target'', JStr (sp_target p)),
     (''target_times'', JArr (map (JStr \<circ> instant_text) (sp_target_times p)))]"

lemma snapshot_document:
  assumes "snapshot_ok p"
  shows "sn_document p = Inr (JObj (snapshot_json p))" "plain (JObj (snapshot_json p))"
proof -
  have h: "header_ok p" "\<forall>x \<in> set (sp_observations p). observation_ok (sp_target p) (sp_as_of p) x"
    "\<forall>t \<in> set (sp_target_times p). valid_instant t" "\<forall>s \<in> set (sp_data_sources p). lineage_ok (sp_as_of p) s"
    "availability_ok (sp_as_of p) (sp_observations p) (sp_data_sources p) (sp_availability p)"
    using assms by (auto simp: snapshot_ok_def observations_ok_def times_ok_def sources_ok_def)
  have v: "valid_instant (sp_as_of p)" using h(1) by (simp add: header_ok_def)
  have "map_res sn_observation_document (sp_observations p) = Inr (map (JObj \<circ> observation_json) (sp_observations p))"
    using h(2) decode_observation(1) by (intro map_res_total) fastforce
  moreover have "map_res sn_source_document (sp_data_sources p) = Inr (map (JObj \<circ> lineage_json) (sp_data_sources p))"
    using h(4) decode_lineage(1) by (intro map_res_total) fastforce
  moreover have "map_res sn_timestamp (sp_target_times p) = Inr (map instant_text (sp_target_times p))"
    using h(3) by (intro map_res_total) simp
  ultimately show "sn_document p = Inr (JObj (snapshot_json p))"
    using v decode_availability(1) [OF h(5)]
    by (simp add: sn_document_def snapshot_json_def availability_json_def)
  show "plain (JObj (snapshot_json p))"
    using h(2,4) decode_observation(2) decode_lineage(2) decode_availability(2) [OF h(5)]
    by (simp add: snapshot_json_def del: plain.simps(3)) (simp add: plain.simps(3) [of "_ # _"], fastforce)
qed

lemma decode_snapshot:
  assumes "snapshot_ok p"
  shows "sn_decode (jsort (JObj (snapshot_json p))) = Inr (Inst (snapshot_arg p))"
proof -
  have h: "header_ok p" "\<forall>x \<in> set (sp_observations p). observation_ok (sp_target p) (sp_as_of p) x"
    "\<forall>t \<in> set (sp_target_times p). valid_instant t" "\<forall>s \<in> set (sp_data_sources p). lineage_ok (sp_as_of p) s"
    "availability_ok (sp_as_of p) (sp_observations p) (sp_data_sources p) (sp_availability p)"
    using assms by (auto simp: snapshot_ok_def observations_ok_def times_ok_def sources_ok_def)
  have v: "valid_instant (sp_as_of p)" using h(1) by (simp add: header_ok_def)
  have k: "dict_keys (sorted_members (snapshot_json p)) = set sn_root_keys"
    by (simp add: snapshot_json_def sn_root_keys_def)
  have o1: "map_res_from 0 sn_decode_observation (map (\<lambda>x. jsort (JObj (observation_json x))) (sp_observations p))
      = Inr (map observation_arg (sp_observations p))"
    using h(2) decode_observation(3) by (intro map_res_from_map) fastforce
  have s1: "map_res_from 0 sn_decode_source (map (\<lambda>x. jsort (JObj (lineage_json x))) (sp_data_sources p))
      = Inr (map lineage_arg (sp_data_sources p))"
    using h(4) decode_lineage(3) by (intro map_res_from_map) fastforce
  have t1: "map_res (\<lambda>v. ev_parse_timestamp SnapshotValidationError v ''target_time'')
      (map (\<lambda>t. JStr (instant_text t)) (sp_target_times p)) = Inr (sp_target_times p)"
    using h(3) by (intro map_res_map_arg) simp
  show ?thesis
    unfolding sn_decode_def sn_object_def sn_exact_keys_def ev_object_jsort ev_exact_keys_ok [OF k] bind_res_simps
    by (simp add: ev_field_sorted snapshot_json_def sn_string_def sn_integer_def sn_array_def ev_array_def sn_parse_timestamp_def
        v o1 s1 t1 json_opt_string decode_availability(3) [OF h(5)] snapshot_arg_def comp_def
        del: jsort.simps(2))
qed

interpretation snapshots: evidence_codec sn_normalized_payload "\<lambda>p. Inst (snapshot_arg p)" sn_document sn_decode
proof
  fix a p assume "sn_normalized_payload a = Inr p"
  then have ok: "snapshot_ok p" by (rule normalized_snapshot_ok)
  show "\<exists>j. sn_document p = Inr j \<and> plain j \<and> sn_decode (jsort j) = Inr (Inst (snapshot_arg p))"
    using snapshot_document [OF ok] decode_snapshot [OF ok] by blast
qed

section \<open>The round trip and its exception\<close>

lemma canonical_snapshot_iff:
  "canonical_snapshot_payload a = Inr b \<longleftrightarrow>
     (\<exists>p. sn_normalized_payload a = Inr p \<and> bind_res (sn_document p) canonical_json = Inr b
        \<and> length b \<le> sn_max_payload_bytes)"
proof (cases "sn_normalized_payload a")
  case (Inr p)
  obtain j where "sn_document p = Inr j" "canonical_json j = Inr (canonical_bytes j)"
    using snapshots.documentE [OF Inr] by blast
  then show ?thesis using Inr by (auto simp: canonical_snapshot_payload_def)
qed (simp add: canonical_snapshot_payload_def)

lemma sn_hooks_strict:
  "sn_hooks = strict_hooks (\<lambda>key. sn_error (''duplicate JSON key: '' @ key)) sn_reject_json_constant"
  by (simp add: sn_hooks_def strict_hooks_def sn_unique_object_def fun_eq_iff)

lemma canonical_bytes_nonempty:
  assumes "sn_normalized_payload a = Inr p" and "bind_res (sn_document p) canonical_json = Inr b"
  shows "b \<noteq> []"
  using assms snapshot_document [OF normalized_snapshot_ok [OF assms(1)]] canonical_nonempty canonical_json_total
  by (metis bind_res_simps(2) sum.inject(2))

lemma parse_canonical_snapshot:
  assumes "canonical_snapshot_payload a = Inr b" and "sn_normalized_payload a = Inr p"
  shows "parse_snapshot_payload (PyBytes b) = sn_normalized_payload (Inst (snapshot_arg p))"
proof -
  have b: "bind_res (sn_document p) canonical_json = Inr b" "length b \<le> sn_max_payload_bytes"
    using assms by (auto simp: canonical_snapshot_iff)
  have ne: "b \<noteq> []" using canonical_bytes_nonempty [OF assms(2) b(1)] .
  obtain j where "ev_loads (\<lambda>_. False) (sn_error ''canonical_payload is not strict UTF-8 JSON'') sn_hooks b = Inr j"
      "sn_decode j = Inr (Inst (snapshot_arg p))"
    using snapshots.decodes_back [OF assms(2) b(1), of "\<lambda>_. False"
        "sn_error ''canonical_payload is not strict UTF-8 JSON''"]
    unfolding sn_hooks_strict bind_res_Inr_iff by blast
  then show ?thesis using ne b(2) by (simp add: parse_snapshot_payload_def sn_payload_bytes_def)
qed

text \<open>C21. Reading the canonical bytes of a snapshot gives the validated payload back, except for a
  payload in which source rows with one key were merged into more than 128 fields: the
  limit is applied to each row before the merge, so such a payload is encoded and the
  reader then refuses its own bytes.\<close>

theorem snapshot_round_trip:
  assumes "canonical_snapshot_payload a = Inr b" and "sn_normalized_payload a = Inr p"
  shows "parse_snapshot_payload (PyBytes b) =
    (if \<forall>s \<in> set (sp_data_sources p). length (ss_fields s) \<le> sn_max_source_fields then Inr p
     else Inl (SnapshotValidationError ''source fields must be within the size limit''))"
  using parse_canonical_snapshot [OF assms] snapshot_arg_again [OF normalized_snapshot_ok [OF assms(2)]]
  by (simp add: fields_within_limit_def)

end
