(* ===== verification/SnapshotResolution.thy ===== *)
theory SnapshotResolution
  imports SnapshotCodecLaws
begin

text \<open>
  What \<open>validate_and_resolve_snapshot\<close> guarantees: the stored row is exactly the one
  its payload builds, and the resolved input never looks past its cutoff.
\<close>

section \<open>Stored records\<close>

lemma build_snapshotE:
  assumes "build_snapshot_record a s = Inr r"
  obtains n sealed b where "sn_normalized_payload a = Inr n" and "sn_utc s ''sealed_at'' = Inr sealed"
    and "sp_as_of n \<le> sealed" and "canonical_snapshot_payload (Inst (snapshot_arg n)) = Inr b"
    and "sr_snapshot_id r = PyStr (content_id b)" and "sr_canonical_payload r = PyBytes b"
    and "sr_availability_rule_set_hash r = opt_arg PyStr (sa_rule_set_hash (sp_availability n))"
    and "b \<noteq> []" and "length b \<le> sn_max_payload_bytes"
  using assms unfolding build_snapshot_record_def snapshot_id_for_payload_def sn_payload_bytes_def
  by (elim bind_check_InrE bind_res_InrE) (rule that, auto split: if_splits)

lemma canonical_arg_fixed:
  assumes "snapshot_ok p" and "canonical_snapshot_payload (Inst (snapshot_arg p)) = Inr b"
  shows "sn_normalized_payload (Inst (snapshot_arg p)) = Inr p"
  using assms snapshot_arg_again [OF assms(1)] by (auto simp: canonical_snapshot_iff split: if_splits)

lemma parse_snapshot_ok:
  assumes "parse_snapshot_payload x = Inr p"
  shows "snapshot_ok p"
  using assms unfolding parse_snapshot_payload_def
  by (elim bind_res_InrE) (rule normalized_snapshot_ok)

lemma fixed_payload_parses:
  assumes "sn_normalized_payload (Inst (snapshot_arg p)) = Inr p"
    and "canonical_snapshot_payload (Inst (snapshot_arg p)) = Inr b"
  shows "parse_snapshot_payload (PyBytes b) = Inr p"
  using parse_canonical_snapshot [OF assms(2,1)] assms(1) by simp

lemma verified_payloadD:
  assumes "sn_verified_payload r = Inr (p, i)"
  shows "sn_normalized_payload (Inst (snapshot_arg p)) = Inr p" and "snapshot_ok p" and "sr_snapshot_id r = PyStr i"
    and "\<exists>e. build_snapshot_record (Inst (snapshot_arg p)) (sr_sealed_at r) = Inr e
      \<and> list_all2 obj_same (snapshot_record_fields r) (snapshot_record_fields e)"
    and "\<exists>b. sr_canonical_payload r = PyBytes b \<and> i = content_id b"
proof -
  obtain c e where p: "parse_snapshot_payload (sr_canonical_payload r) = Inr p"
    "canonical_snapshot_payload (Inst (snapshot_arg p)) = Inr c" "PyBytes c = sr_canonical_payload r"
    "sr_snapshot_id r = PyStr i" "snapshot_id_for_payload (sr_canonical_payload r) = Inr i"
    "build_snapshot_record (Inst (snapshot_arg p)) (sr_sealed_at r) = Inr e" "sn_strict_record_equal r e"
    using assms unfolding sn_verified_payload_def sn_hash_def
    by (elim bind_check_InrE bind_res_InrE) (auto simp: ev_hash_Inr_iff)
  show ok: "snapshot_ok p" using p(1) by (rule parse_snapshot_ok)
  show "sn_normalized_payload (Inst (snapshot_arg p)) = Inr p" by (rule canonical_arg_fixed [OF ok p(2)])
  show "sr_snapshot_id r = PyStr i" by (rule p(4))
  show "\<exists>e. build_snapshot_record (Inst (snapshot_arg p)) (sr_sealed_at r) = Inr e
      \<and> list_all2 obj_same (snapshot_record_fields r) (snapshot_record_fields e)"
    using p(6,7) unfolding sn_strict_record_equal_def by blast
  show "\<exists>b. sr_canonical_payload r = PyBytes b \<and> i = content_id b"
    using p(3,5) by (auto simp: snapshot_id_for_payload_def sn_payload_bytes_def bind_res_Inr_iff split: if_splits pyobj.splits)
qed

lemma matching_snapshot_verifies:
  assumes n: "sn_normalized_payload (Inst (snapshot_arg p)) = Inr p"
    and e: "build_snapshot_record (Inst (snapshot_arg p)) (sr_sealed_at r) = Inr e"
      "list_all2 obj_same (snapshot_record_fields r) (snapshot_record_fields e)"
  obtains i where "sr_snapshot_id r = PyStr i" and "sn_verified_payload r = Inr (p, i)"
proof -
  obtain b where b: "canonical_snapshot_payload (Inst (snapshot_arg p)) = Inr b"
    "sr_snapshot_id e = PyStr (content_id b)" "sr_canonical_payload e = PyBytes b"
    "b \<noteq> []" "length b \<le> sn_max_payload_bytes"
    using e(1) by (rule build_snapshotE) (use n in auto)
  have f: "sr_snapshot_id r = PyStr (content_id b)" "sr_canonical_payload r = PyBytes b"
    using e(2) b(2,3) by (auto simp: snapshot_record_fields_def)
  have p: "parse_snapshot_payload (PyBytes b) = Inr p" using n b(1) by (rule fixed_payload_parses)
  have s: "sn_strict_record_equal r e" using e(2) by (simp only: sn_strict_record_equal_def)
  have h: "sn_hash (PyStr (content_id b)) l = Inr (content_id b)" for l by (simp add: sn_hash_def)
  have i: "snapshot_id_for_payload (PyBytes b) = Inr (content_id b)"
    using b(4,5) by (simp add: snapshot_id_for_payload_def sn_payload_bytes_def)
  have "sn_verified_payload r = Inr (p, content_id b)"
    unfolding sn_verified_payload_def f
    by (simp only: h p i b(1) e(1) s bind_res_simps bind_check_iff simp_thms if_False)
  with f(1) show ?thesis by (rule that)
qed

text \<open>C14. The boundary accepts a stored snapshot with payload \<open>p\<close> exactly when \<open>p\<close> is a payload the
  validator leaves unchanged and every field of the row has the class and the value of
  the row built from \<open>p\<close> and the row's sealing time: the bytes, the digest and each
  denormalised header column are bound to each other.\<close>

theorem snapshot_verification_exact:
  "(\<exists>i. sn_verified_payload r = Inr (p, i)) \<longleftrightarrow>
     sn_normalized_payload (Inst (snapshot_arg p)) = Inr p
     \<and> (\<exists>e. build_snapshot_record (Inst (snapshot_arg p)) (sr_sealed_at r) = Inr e
           \<and> list_all2 obj_same (snapshot_record_fields r) (snapshot_record_fields e))"
  using verified_payloadD(1,4) matching_snapshot_verifies by metis

section \<open>Resolution\<close>

lemma resolved_parts:
  assumes "validate_and_resolve_snapshot env (Inst r) (Inst rq) basis policy tspan multiplier trusted = Inr ri"
  obtains p i ph m t where "sn_verified_payload r = Inr (p, i)" and "sn_bind_request p i rq basis ph tspan m = Inr ()"
    and "sn_resolved env p i rq (availability_trusted p t) = Inr ri"
    and "t = None \<longleftrightarrow> trusted = PyNone" and "\<forall>h. t = Some h \<longrightarrow> trusted = PyStr h" and "policy = PyStr ph"
  using assms unfolding validate_and_resolve_snapshot_def prod.case pyarg.case sn_hash_def
  by (elim bind_check_InrE bind_res_InrE)
    (auto simp: ev_hash_Inr_iff bind_res_Inr_iff split: if_splits prod.splits)

lemma lineage_new_time: "DataSourceLineage_new env d = Inr d' \<Longrightarrow> dl_max_available_at d' = dl_max_available_at d"
  by (auto simp: DataSourceLineage_new_def bind_res_Inr_iff)

text \<open>C8. Nothing that reaches a forecaster through this boundary looks ahead: the observations are
  strictly increasing in time and were all available by the snapshot's cutoff, so was
  every source; an unpinned request's cutoff is respected; the target times are exactly
  the requested number of strictly increasing instants after the cutoff; the identity is
  the SHA-256 of the stored bytes; and availability counts as verified only under the
  rule set the caller trusts, which is the one the row records.\<close>

theorem resolved_input_is_point_in_time:
  assumes "validate_and_resolve_snapshot env (Inst r) (Inst rq) basis policy tspan multiplier trusted = Inr ri"
  shows "ri_observations ri \<noteq> [] \<and> sorted_wrt (<) (map ob_observed_at (ri_observations ri))
    \<and> (\<forall>x \<in> set (ri_observations ri). ob_observed_at x \<le> ob_available_at x \<and> ob_available_at x \<le> ri_as_of ri)
    \<and> (\<forall>d \<in> set (ri_data_sources ri). dl_max_available_at d \<le> ri_as_of ri)
    \<and> (rq_snapshot_id rq = None \<longrightarrow> (\<forall>cutoff. rq_as_of rq = Some cutoff \<longrightarrow> ri_as_of ri \<le> cutoff))
    \<and> sorted_wrt (<) (ri_target_times ri) \<and> (\<forall>t \<in> set (ri_target_times ri). ri_as_of ri < t)
    \<and> length (ri_target_times ri) = nat (rq_horizon rq)
    \<and> (\<exists>b. sr_canonical_payload r = PyBytes b \<and> ri_snapshot_id ri = content_id b)
    \<and> (ri_availability_verified ri \<longrightarrow> trusted \<noteq> PyNone \<and> sr_availability_rule_set_hash r = trusted)"
proof -
  obtain p i ph m t where v: "sn_verified_payload r = Inr (p, i)" and b: "sn_bind_request p i rq basis ph tspan m = Inr ()"
    and s: "sn_resolved env p i rq (availability_trusted p t) = Inr ri"
    and t: "t = None \<longleftrightarrow> trusted = PyNone" "\<forall>h. t = Some h \<longrightarrow> trusted = PyStr h"
    using assms by (rule resolved_parts)
  note vd = verified_payloadD [OF v]
  have ok: "observations_ok (sp_target p) (sp_as_of p) (sp_observations p)" "times_ok (sp_as_of p) (sp_target_times p)"
    "sources_ok (sp_as_of p) (sp_data_sources p)" using vd(2) by (simp_all add: snapshot_ok_def)
  obtain ds where ds: "map_res (\<lambda>s. DataSourceLineage_new env
         \<lparr>dl_name = ss_name s, dl_snapshot_id = ss_snapshot_id s, dl_max_available_at = ss_max_available_at s,
          dl_fields = ss_fields s\<rparr>) (sp_data_sources p) = Inr ds"
    and ri: "ri = \<lparr>ri_symbol = sp_symbol p, ri_target = sp_target p, ri_horizon_unit = sp_horizon_unit p,
       ri_series_basis = sp_series_basis p, ri_snapshot_id = i, ri_as_of = sp_as_of p,
       ri_observations = map (\<lambda>x. \<lparr>ob_observed_at = so_observed_at x, ob_available_at = so_available_at x,
         ob_value = so_value x\<rparr>) (sp_observations p),
       ri_target_times = take (nat (rq_horizon rq)) (sp_target_times p),
       ri_data_sources = ds, ri_currency = sp_currency p, ri_availability_verified = availability_trusted p t\<rparr>"
    using s unfolding sn_resolved_def by (elim bind_res_InrE) (auto simp: that)
  have c: "case rq_snapshot_id rq of Some _ \<Rightarrow> True | None \<Rightarrow> (case rq_as_of rq of Some cutoff \<Rightarrow> sp_as_of p \<le> cutoff | None \<Rightarrow> True)"
    "rq_horizon rq \<le> int (length (sp_target_times p))"
    using b unfolding sn_bind_request_def
    by (elim bind_check_InrE bind_res_InrE; simp add: check_Inr_iff split: option.splits)+
  have d: "dl_max_available_at x \<le> sp_as_of p" if x: "x \<in> set ds" for x
  proof -
    from ds x obtain l where l: "l \<in> set (sp_data_sources p)" and n: "DataSourceLineage_new env
         \<lparr>dl_name = ss_name l, dl_snapshot_id = ss_snapshot_id l, dl_max_available_at = ss_max_available_at l,
          dl_fields = ss_fields l\<rparr> = Inr x" by (rule map_res_in)
    from l ok(3) have "ss_max_available_at l \<le> sp_as_of p" by (simp add: sources_ok_def lineage_ok_def)
    with lineage_new_time [OF n] show ?thesis by simp
  qed
  have tr: "trusted \<noteq> PyNone \<and> sr_availability_rule_set_hash r = trusted" if a: "availability_trusted p t"
  proof -
    obtain h where h: "t = Some h" "sa_rule_set_hash (sp_availability p) = Some h"
      using a by (auto simp: availability_trusted_def)
    obtain e where e: "build_snapshot_record (Inst (snapshot_arg p)) (sr_sealed_at r) = Inr e"
      "list_all2 obj_same (snapshot_record_fields r) (snapshot_record_fields e)" using vd(4) by blast
    have "sr_availability_rule_set_hash e = PyStr h"
      using e(1) by (rule build_snapshotE) (use vd(1) h in \<open>auto simp: opt_arg_def\<close>)
    then have "sr_availability_rule_set_hash r = PyStr h" using e(2) by (simp add: snapshot_record_fields_def)
    then show ?thesis using t h by auto
  qed
  have st: "sorted_wrt (<) (take n (sp_target_times p))" "\<forall>t \<in> set (take n (sp_target_times p)). sp_as_of p < t" for n
    using ok(2) by (auto simp: times_ok_def sorted_wrt_take dest: in_set_takeD)
  have so: "map ob_observed_at (ri_observations ri) = map so_observed_at (sp_observations p)" by (simp add: ri comp_def)
  show ?thesis
    unfolding so using ok(1) st d tr c vd(5)
    by (auto simp: ri observations_ok_def observation_ok_def split: option.splits)
qed

end
