(* ===== verification/ForecastServing.thy ===== *)
theory ForecastServing
  imports ForecastingLaws SnapshotResolution
begin

text \<open>
  \<open>app/services/forecast_serving.py\<close>: the service behind \<open>/v1/forecast\<close>.  The snapshot
  table is the list of its rows and the two statements of the repository are functions
  of it.  The archive of forecast runs is a parameter: given the request, the key, the
  principal_id and the response the producer would compute, it answers.  The clock and the
  id factory are values, read once per request.
\<close>

section \<open>The build revision\<close>

text \<open>The file at \<open>/app/.stockapi-build-revision\<close>: absent, unreadable, or its text.\<close>

datatype revision_file = NoRevision | UnreadableRevision | RevisionText string

definition build_revision_char :: "char \<Rightarrow> bool" where
  "build_revision_char c \<longleftrightarrow> is_upper c \<or> is_lower c \<or> is_digit c \<or> c \<in> {CHR ''.'', CHR ''_'', CHR ''-''}"

definition build_revision_pattern :: "string \<Rightarrow> bool" where
  "build_revision_pattern s \<longleftrightarrow>
     s \<noteq> [] \<and> length s \<le> 64 \<and> (is_upper (hd s) \<or> is_lower (hd s) \<or> is_digit (hd s)) \<and> list_all build_revision_char s"

definition build_revision_error :: "string \<Rightarrow> exn" where
  "build_revision_error message = AppError 503 ''forecast_build_revision_invalid'' message"

definition read_build_revision :: "revision_file \<Rightarrow> string option res" where
  "read_build_revision path =
     (case path of
        NoRevision \<Rightarrow> Inr None
      | UnreadableRevision \<Rightarrow> Inl (build_revision_error ''Forecast build revision cannot be read.'')
      | RevisionText text \<Rightarrow>
          let revision = py_strip text in
          if revision = [] \<or> revision = ''unattested'' then Inr None
          else bind_res (check (\<not> build_revision_pattern revision)
                 (build_revision_error ''Forecast build revision is malformed.'')) (\<lambda>_.
               Inr (Some revision)))"

section \<open>The serving policy\<close>

record ForecastServingPolicy =
  fp_resolution_policy_hash :: string
  fp_trusted_availability_rule_set_hash :: string
  fp_target :: string
  fp_series_basis :: string
  fp_input_timespan :: string
  fp_input_multiplier :: int
  fp_seasonal_period :: int

definition servable_basis :: "string \<Rightarrow> string option" where
  "servable_basis target =
     (if target = ''close'' then Some ''raw''
      else if target = ''adjusted_close'' then Some ''split_dividend_adjusted''
      else None)"

definition ForecastServingPolicy_new :: "ForecastServingPolicy \<Rightarrow> ForecastServingPolicy res" where
  "ForecastServingPolicy_new policy =
     bind_res (check (servable_basis (fp_target policy) = None \<or> servable_basis (fp_target policy) \<noteq> Some (fp_series_basis policy))
       (ValueError ''forecast target and series basis are not one supported epoch'')) (\<lambda>_.
     bind_res (check (\<not> content_id_pattern (fp_resolution_policy_hash policy)
         \<or> \<not> content_id_pattern (fp_trusted_availability_rule_set_hash policy))
       (ValueError ''forecast policy identities must be SHA-256 content addresses'')) (\<lambda>_.
     Inr policy))"

definition series_basis_for :: "ForecastServingPolicy \<Rightarrow> string \<Rightarrow> string res" where
  "series_basis_for policy target =
     bind_res (check (target \<noteq> fp_target policy)
       (AppError 409 ''target_not_servable'' (''target '' @ target @ '' has no servable series basis''))) (\<lambda>_.
     Inr (fp_series_basis policy))"

section \<open>The snapshot store\<close>

record ForecastInputSnapshotSelector =
  sel_resolution_policy_hash :: string
  sel_symbol :: string
  sel_target :: string
  sel_horizon_unit :: string
  sel_series_basis :: string
  sel_input_timespan :: string
  sel_input_multiplier :: int
  sel_cutoff :: "instant option"

record ForecastInputSnapshotRow =
  sw_snapshot_id :: string
  sw_schema_version :: int
  sw_resolution_policy_hash :: string
  sw_symbol :: string
  sw_target :: string
  sw_horizon_unit :: string
  sw_series_basis :: string
  sw_input_timespan :: string
  sw_input_multiplier :: int
  sw_as_of :: instant
  sw_sealed_at :: instant
  sw_currency :: "string option"
  sw_observation_count :: int
  sw_target_time_count :: int
  sw_first_observed_at :: instant
  sw_last_observed_at :: instant
  sw_max_available_at :: instant
  sw_availability_status :: string
  sw_availability_rule_set_hash :: "string option"
  sw_availability_checked_at :: "instant option"
  sw_canonical_payload :: bytes

text \<open>The \<open>where\<close> clauses of \<open>build_latest_snapshot_statement\<close>.\<close>

definition snapshot_selected :: "ForecastInputSnapshotSelector \<Rightarrow> string option \<Rightarrow> ForecastInputSnapshotRow \<Rightarrow> bool" where
  "snapshot_selected selector trusted row \<longleftrightarrow>
     sw_schema_version row = SNAPSHOT_SCHEMA_VERSION
     \<and> sw_resolution_policy_hash row = sel_resolution_policy_hash selector
     \<and> sw_symbol row = sel_symbol selector
     \<and> sw_target row = sel_target selector
     \<and> sw_horizon_unit row = sel_horizon_unit selector
     \<and> sw_series_basis row = sel_series_basis selector
     \<and> sw_input_timespan row = sel_input_timespan selector
     \<and> sw_input_multiplier row = sel_input_multiplier selector
     \<and> (case sel_cutoff selector of None \<Rightarrow> True | Some cutoff \<Rightarrow> sw_as_of row \<le> cutoff)
     \<and> (case trusted of None \<Rightarrow> True
        | Some h \<Rightarrow> sw_availability_status row = ''passed'' \<and> sw_availability_rule_set_hash row = Some h)"

text \<open>\<open>order by as_of desc limit 1\<close>\<close>

definition latest_snapshot_row ::
  "ForecastInputSnapshotSelector \<Rightarrow> string option \<Rightarrow> ForecastInputSnapshotRow list \<Rightarrow> ForecastInputSnapshotRow option" where
  "latest_snapshot_row selector trusted rows =
     (case sort_key (\<lambda>row. - sw_as_of row) (filter (snapshot_selected selector trusted) rows) of
        [] \<Rightarrow> None
      | row # _ \<Rightarrow> Some row)"

definition record_from_row :: "ForecastInputSnapshotRow \<Rightarrow> ForecastInputSnapshotRecord" where
  "record_from_row row =
     \<lparr>sr_snapshot_id = PyStr (sw_snapshot_id row), sr_schema_version = PyInt (sw_schema_version row),
      sr_resolution_policy_hash = PyStr (sw_resolution_policy_hash row), sr_symbol = PyStr (sw_symbol row),
      sr_target = PyStr (sw_target row), sr_horizon_unit = PyStr (sw_horizon_unit row),
      sr_series_basis = PyStr (sw_series_basis row), sr_input_timespan = PyStr (sw_input_timespan row),
      sr_input_multiplier = PyInt (sw_input_multiplier row), sr_as_of = aware (sw_as_of row),
      sr_sealed_at = aware (sw_sealed_at row), sr_currency = opt_arg PyStr (sw_currency row),
      sr_observation_count = PyInt (sw_observation_count row), sr_target_time_count = PyInt (sw_target_time_count row),
      sr_first_observed_at = aware (sw_first_observed_at row), sr_last_observed_at = aware (sw_last_observed_at row),
      sr_max_available_at = aware (sw_max_available_at row), sr_availability_status = PyStr (sw_availability_status row),
      sr_availability_rule_set_hash = opt_arg PyStr (sw_availability_rule_set_hash row),
      sr_availability_checked_at = opt_arg aware (sw_availability_checked_at row),
      sr_canonical_payload = PyBytes (sw_canonical_payload row)\<rparr>"

text \<open>The repository seam, and the one over the table.\<close>

record ForecastInputSnapshotRepository =
  repo_get :: "string \<Rightarrow> ForecastInputSnapshotRecord option"
  repo_latest :: "ForecastInputSnapshotSelector \<Rightarrow> ForecastInputSnapshotRecord option"

definition sql_snapshot_repository :: "ForecastInputSnapshotRow list \<Rightarrow> string option \<Rightarrow> ForecastInputSnapshotRepository" where
  "sql_snapshot_repository rows trusted =
     \<lparr>repo_get = (\<lambda>snapshot_id. map_option record_from_row (find (\<lambda>row. sw_snapshot_id row = snapshot_id) rows)),
      repo_latest = (\<lambda>selector. map_option record_from_row (latest_snapshot_row selector trusted rows))\<rparr>"

section \<open>The baselines as forecaster objects\<close>

text \<open>
  \<open>fit\<close> copies the template: the copy is another object.  An object is built with the
  number \<open>n\<close> of generations of copies it can still make, because a value of the datatype
  is finite; the service makes one.
\<close>

definition baseline_quantiles :: "EmpiricalResidualBaseline \<Rightarrow> int \<Rightarrow> f64 list \<Rightarrow> (pyobj \<times> pyobj pyseq) list option res" where
  "baseline_quantiles model horizon levels =
     bind_res (bl_predict_quantiles model (PyInt horizon) (Seq (map PyFloat levels))) (\<lambda>paths.
     Inr (Some (map (\<lambda>(level, path). (PyFloat level, Seq (map PyFloat path))) paths)))"

primrec baseline_object :: "nat \<Rightarrow> EmpiricalResidualBaseline \<Rightarrow> Forecaster" where
  "baseline_object 0 model = Forecaster 0 (PyStr (bl_model_version (bl_kind model)))
     (\<lambda>_. Inl (RuntimeError ''no further copy''))
     (\<lambda>horizon. bind_res (bl_predict model (PyInt horizon)) (\<lambda>points. Inr (Seq (map PyFloat points))))
     (baseline_quantiles model)"
| "baseline_object (Suc n) model = Forecaster (Suc n) (PyStr (bl_model_version (bl_kind model)))
     (\<lambda>values. bind_res (bl_fit model (Seq (map PyFloat values))) (\<lambda>fitted. Inr (Inst (baseline_object n fitted))))
     (\<lambda>horizon. bind_res (bl_predict model (PyInt horizon)) (\<lambda>points. Inr (Seq (map PyFloat points))))
     (baseline_quantiles model)"

section \<open>The service\<close>

type_synonym run_store =
  "ForecastRequest \<Rightarrow> string option \<Rightarrow> string option \<Rightarrow> ForecastResponse res \<Rightarrow> ForecastResponse res"

record SnapshotForecastService =
  svc_repository :: ForecastInputSnapshotRepository
  svc_policy :: ForecastServingPolicy
  svc_clock :: instant
  svc_id :: uuid
  svc_code_version :: "string option"
  svc_run_store :: "run_store option"

text \<open>\<open>_forecaster_factory\<close>: the result of one call of the factory it returns.\<close>

definition svc_not_implemented :: "string \<Rightarrow> exn" where
  "svc_not_implemented message = AppError 501 ''not_implemented'' message"

definition svc_forecaster :: "ForecastServingPolicy \<Rightarrow> string \<Rightarrow> EmpiricalResidualBaseline res res" where
  "svc_forecaster policy model =
     (if model = ''auto'' \<or> model = ''baseline_naive'' then Inr (Inr naive_forecaster)
      else if model = ''baseline_drift'' then Inr (Inr drift_forecaster)
      else if model = ''baseline_seasonal_naive''
           then Inr (seasonal_naive_forecaster (PyInt (fp_seasonal_period policy)))
      else Inl (svc_not_implemented (''model selector '' @ model @ '' is not implemented for serving yet'')))"

definition svc_model_version_for :: "ForecastServingPolicy \<Rightarrow> string \<Rightarrow> string res" where
  "svc_model_version_for policy model =
     bind_res (svc_forecaster policy model) (\<lambda>made.
     bind_res made (\<lambda>forecaster. Inr (bl_model_version (bl_kind forecaster))))"

definition svc_selector :: "ForecastServingPolicy \<Rightarrow> ForecastRequest \<Rightarrow> string \<Rightarrow> ForecastInputSnapshotSelector" where
  "svc_selector policy request series_basis =
     \<lparr>sel_resolution_policy_hash = fp_resolution_policy_hash policy, sel_symbol = rq_symbol request,
      sel_target = rq_target request, sel_horizon_unit = rq_horizon_unit request, sel_series_basis = series_basis,
      sel_input_timespan = fp_input_timespan policy, sel_input_multiplier = fp_input_multiplier policy,
      sel_cutoff = rq_as_of request\<rparr>"

definition svc_load_record ::
  "ForecastInputSnapshotRepository \<Rightarrow> ForecastServingPolicy \<Rightarrow> ForecastRequest \<Rightarrow> string
     \<Rightarrow> ForecastInputSnapshotRecord res" where
  "svc_load_record repository policy request series_basis =
     (case (case rq_snapshot_id request of
              Some snapshot_id \<Rightarrow> repo_get repository snapshot_id
            | None \<Rightarrow> repo_latest repository (svc_selector policy request series_basis)) of
        None \<Rightarrow> Inl (AppError 404 ''not_found''
          (''no sealed forecast-input snapshot is available for '' @ rq_symbol request))
      | Some record \<Rightarrow> Inr record)"

definition svc_resolve_record ::
  "pydantic \<Rightarrow> ForecastServingPolicy \<Rightarrow> ForecastInputSnapshotRecord \<Rightarrow> ForecastRequest \<Rightarrow> string
     \<Rightarrow> ResolvedForecastInput res" where
  "svc_resolve_record env policy record request series_basis =
     validate_and_resolve_snapshot env (Inst record) (Inst request) series_basis
       (PyStr (fp_resolution_policy_hash policy)) (fp_input_timespan policy) (PyInt (fp_input_multiplier policy))
       (PyStr (fp_trusted_availability_rule_set_hash policy))"

text \<open>\<open>except SnapshotValidationError\<close> and \<open>except ValueError\<close> of \<open>_produce\<close>.\<close>

definition svc_snapshot_error :: "exn \<Rightarrow> exn" where
  "svc_snapshot_error e =
     (case e of SnapshotValidationError m \<Rightarrow> AppError 409 ''snapshot_validation_failed'' m | _ \<Rightarrow> e)"

definition svc_value_error :: "exn \<Rightarrow> exn" where
  "svc_value_error e =
     (case e of ValueError m \<Rightarrow> AppError 409 ''forecast_not_computable'' m | _ \<Rightarrow> e)"

definition map_exn :: "(exn \<Rightarrow> exn) \<Rightarrow> 'a res \<Rightarrow> 'a res" where
  "map_exn f r = (case r of Inl e \<Rightarrow> Inl (f e) | Inr x \<Rightarrow> Inr x)"

text \<open>The id column of a record that passed \<open>_hash\<close> is a \<open>str\<close>.\<close>

definition text_of :: "pyobj \<Rightarrow> string" where
  "text_of v = (case v of PyStr s \<Rightarrow> s | _ \<Rightarrow> [])"

definition svc_identity ::
  "SnapshotForecastService \<Rightarrow> ForecastInputSnapshotRecord \<Rightarrow> ResolvedForecastInput \<Rightarrow> string \<Rightarrow> ForecastRunIdentity" where
  "svc_identity svc record resolved version =
     \<lparr>id_forecast_id = svc_id svc, id_generated_at = aware (max (svc_clock svc) (ri_as_of resolved)),
      id_model_version = version, id_feature_set_hash = text_of (sr_snapshot_id record),
      id_code_version = svc_code_version svc\<rparr>"

definition svc_produce :: "pydantic \<Rightarrow> SnapshotForecastService \<Rightarrow> ForecastRequest \<Rightarrow> ForecastResponse res" where
  "svc_produce env svc request =
     bind_res (check (rq_horizon_unit request \<noteq> ''trading_day'')
       (AppError 409 ''horizon_unit_not_servable'' ''only trading_day forecast horizons are servable by policy v1'')) (\<lambda>_.
     bind_res (series_basis_for (svc_policy svc) (rq_target request)) (\<lambda>series_basis.
     bind_res (svc_load_record (svc_repository svc) (svc_policy svc) request series_basis) (\<lambda>record.
     bind_res (map_exn svc_snapshot_error (svc_resolve_record env (svc_policy svc) record request series_basis)) (\<lambda>resolved.
     bind_res (check (\<not> ri_availability_verified resolved)
       (AppError 503 ''snapshot_not_verified''
          ''snapshot availability evidence is not verified by the trusted rule set'')) (\<lambda>_.
     bind_res (svc_forecaster (svc_policy svc) (rq_model request)) (\<lambda>made.
     bind_res (svc_model_version_for (svc_policy svc) (rq_model request)) (\<lambda>version.
     map_exn svc_value_error
       (assemble_baseline_forecast_response env request (resolved_arg resolved)
         (bind_res made (\<lambda>model. Inr (Inst (baseline_object 1 model))))
         (svc_identity svc record resolved version)))))))))"

definition svc_forecast ::
  "pydantic \<Rightarrow> SnapshotForecastService \<Rightarrow> ForecastRequest \<Rightarrow> string option \<Rightarrow> string option \<Rightarrow> ForecastResponse res" where
  "svc_forecast env svc request idempotency_key principal_id =
     (case svc_run_store svc of
        Some execute \<Rightarrow> execute request idempotency_key principal_id (svc_produce env svc request)
      | None \<Rightarrow>
          bind_res (check (idempotency_key \<noteq> None)
            (svc_not_implemented ''Retry-safe forecast creation requires a persisted forecast-run store'')) (\<lambda>_.
          svc_produce env svc request))"

section \<open>Routing by target\<close>

definition TargetRoutedForecastService_new :: "SnapshotForecastService list \<Rightarrow> SnapshotForecastService list res" where
  "TargetRoutedForecastService_new services =
     (let targets = map (\<lambda>service. fp_target (svc_policy service)) services in
      bind_res (check (targets = [] \<or> \<not> distinct targets)
        (ValueError ''target-routed forecast services must be nonempty and unique'')) (\<lambda>_.
      Inr services))"

definition routed_forecast ::
  "pydantic \<Rightarrow> SnapshotForecastService list \<Rightarrow> ForecastRequest \<Rightarrow> string option \<Rightarrow> string option \<Rightarrow> ForecastResponse res" where
  "routed_forecast env services request idempotency_key principal_id =
     (case find (\<lambda>candidate. fp_target (svc_policy candidate) = rq_target request) services of
        None \<Rightarrow> Inl (svc_not_implemented (''verified snapshot serving is not configured for target '' @ rq_target request))
      | Some service \<Rightarrow> svc_forecast env service request idempotency_key principal_id)"

section \<open>Configuration\<close>

record ServingSettings =
  st_resolution_policy_hash :: "string option"
  st_availability_rule_set_hash :: "string option"
  st_adjusted_resolution_policy_hash :: "string option"
  st_adjusted_availability_rule_set_hash :: "string option"
  st_seasonal_period :: int
  st_jwt_secret :: string

text \<open>What the process supplies: the table, the archive, the revision file, clock and ids.\<close>

record ServingProcess =
  pr_rows :: "ForecastInputSnapshotRow list"
  pr_run_store :: "string \<Rightarrow> string \<Rightarrow> string \<Rightarrow> run_store"
  pr_revision :: revision_file
  pr_now :: instant
  pr_uuid :: uuid

definition configured_policy_pair :: "string option \<Rightarrow> string option \<Rightarrow> string \<Rightarrow> (string \<times> string) option res" where
  "configured_policy_pair resolution_hash availability_hash target =
     (case (resolution_hash, availability_hash) of
        (None, None) \<Rightarrow> Inr None
      | (Some resolution, Some availability) \<Rightarrow>
          (if content_id_pattern resolution \<and> content_id_pattern availability
           then Inr (Some (resolution, availability))
           else Inl (AppError 503 ''forecast_serving_misconfigured'' (''forecast serving for '' @ target @ '' is misconfigured'')))
      | _ \<Rightarrow> Inl (AppError 503 ''forecast_serving_misconfigured'' (''forecast serving for '' @ target @ '' is misconfigured'')))"

definition build_target_service ::
  "ServingProcess \<Rightarrow> ServingSettings \<Rightarrow> string \<Rightarrow> string \<Rightarrow> string \<times> string \<Rightarrow> string option
     \<Rightarrow> SnapshotForecastService res" where
  "build_target_service process settings target series_basis hashes code_version =
     (case hashes of (policy_hash, trusted_hash) \<Rightarrow>
      bind_res (ForecastServingPolicy_new
        \<lparr>fp_resolution_policy_hash = policy_hash, fp_trusted_availability_rule_set_hash = trusted_hash,
         fp_target = target, fp_series_basis = series_basis, fp_input_timespan = ''day'', fp_input_multiplier = 1,
         fp_seasonal_period = st_seasonal_period settings\<rparr>) (\<lambda>policy.
      Inr \<lparr>svc_repository = sql_snapshot_repository (pr_rows process) (Some trusted_hash), svc_policy = policy,
           svc_clock = pr_now process, svc_id = pr_uuid process, svc_code_version = code_version,
           svc_run_store = Some (pr_run_store process (st_jwt_secret settings) policy_hash trusted_hash)\<rparr>))"

definition build_optional_service ::
  "ServingProcess \<Rightarrow> ServingSettings \<Rightarrow> string \<Rightarrow> string \<Rightarrow> (string \<times> string) option \<Rightarrow> string option
     \<Rightarrow> SnapshotForecastService list res" where
  "build_optional_service process settings target series_basis hashes code_version =
     (case hashes of
        None \<Rightarrow> Inr []
      | Some pair \<Rightarrow>
          bind_res (build_target_service process settings target series_basis pair code_version) (\<lambda>service. Inr [service]))"

text \<open>The result: no service, one service, or the routed services.\<close>

datatype forecast_service = SingleService SnapshotForecastService | RoutedService "SnapshotForecastService list"

definition build_forecast_service :: "ServingProcess \<Rightarrow> ServingSettings \<Rightarrow> forecast_service option res" where
  "build_forecast_service process settings =
     bind_res (configured_policy_pair (st_resolution_policy_hash settings) (st_availability_rule_set_hash settings) ''close'')
       (\<lambda>raw_hashes.
     bind_res (configured_policy_pair (st_adjusted_resolution_policy_hash settings)
         (st_adjusted_availability_rule_set_hash settings) ''adjusted_close'') (\<lambda>adjusted_hashes.
     if raw_hashes = None \<and> adjusted_hashes = None then Inr None
     else
       bind_res (read_build_revision (pr_revision process)) (\<lambda>code_version.
       bind_res (build_optional_service process settings ''close'' ''raw'' raw_hashes code_version) (\<lambda>raw_children.
       bind_res (build_optional_service process settings ''adjusted_close'' ''split_dividend_adjusted'' adjusted_hashes
         code_version) (\<lambda>adjusted_children.
       case raw_children @ adjusted_children of
         [service] \<Rightarrow> Inr (Some (SingleService service))
       | children \<Rightarrow>
           bind_res (TargetRoutedForecastService_new children) (\<lambda>services. Inr (Some (RoutedService services))))))))"

text \<open>The application: \<open>get_forecast_service\<close>, then \<open>forecast\<close> of what it returned.\<close>

definition serve_forecast ::
  "pydantic \<Rightarrow> ServingProcess option \<Rightarrow> ServingSettings option \<Rightarrow> ForecastRequest \<Rightarrow> string option \<Rightarrow> string option
     \<Rightarrow> ForecastResponse res" where
  "serve_forecast env process settings request idempotency_key principal_id =
     bind_res (get_forecast_service (\<lambda>s p. build_forecast_service p s) settings process) (\<lambda>service.
     case service of
       None \<Rightarrow> unavailable_forecast request
     | Some (SingleService svc) \<Rightarrow> svc_forecast env svc request idempotency_key principal_id
     | Some (RoutedService services) \<Rightarrow> routed_forecast env services request idempotency_key principal_id)"

end
