(* ===== verification/ForecastServingLaws.thy ===== *)
theory ForecastServingLaws
  imports ForecastServing
begin

text \<open>
  The served forecast.  The contract of the snapshot store is a locale, interpreted on
  the repository over the table; on it rests the end-to-end guarantee of the service:
  whatever it answers comes from a stored, content-addressed snapshot whose availability
  evidence is the one the operator trusts.
\<close>

section \<open>The store contract\<close>

locale snapshot_store =
  fixes get :: "string \<Rightarrow> ForecastInputSnapshotRecord option"
    and latest :: "ForecastInputSnapshotSelector \<Rightarrow> ForecastInputSnapshotRecord option"
    and stored :: "ForecastInputSnapshotRecord set"
    and selects :: "ForecastInputSnapshotSelector \<Rightarrow> ForecastInputSnapshotRecord \<Rightarrow> bool"
    and age :: "ForecastInputSnapshotRecord \<Rightarrow> instant"
  assumes get_stored: "get i = Some r \<Longrightarrow> r \<in> stored \<and> sr_snapshot_id r = PyStr i"
    and latest_selected: "latest s = Some r \<Longrightarrow> r \<in> stored \<and> selects s r"
    and latest_exists: "r \<in> stored \<Longrightarrow> selects s r \<Longrightarrow> \<exists>r'. latest s = Some r' \<and> age r \<le> age r'"
begin

abbreviation store :: ForecastInputSnapshotRepository where
  "store \<equiv> \<lparr>repo_get = get, repo_latest = latest\<rparr>"

lemma load_stored: "svc_load_record store policy rq basis = Inr r \<Longrightarrow> r \<in> stored"
  using get_stored latest_selected by (auto simp: svc_load_record_def split: option.splits)

lemma load_pinned:
  "svc_load_record store policy rq basis = Inr r \<Longrightarrow> rq_snapshot_id rq = Some i \<Longrightarrow> sr_snapshot_id r = PyStr i"
  using get_stored by (auto simp: svc_load_record_def split: option.splits)

lemma load_newest:
  assumes "svc_load_record store policy rq basis = Inr r" and "rq_snapshot_id rq = None"
    and "r' \<in> stored" and "selects (svc_selector policy rq basis) r'"
  shows "age r' \<le> age r"
  using assms latest_exists [OF assms(3,4)] by (auto simp: svc_load_record_def split: option.splits)

lemma load_fails_only_if_none:
  assumes "rq_snapshot_id rq = None"
  shows "(\<exists>e. svc_load_record store policy rq basis = Inl e)
     \<longleftrightarrow> (\<forall>r \<in> stored. \<not> selects (svc_selector policy rq basis) r)"
proof (cases "latest (svc_selector policy rq basis)")
  case None
  then show ?thesis using latest_exists assms by (fastforce simp: svc_load_record_def)
next
  case (Some r)
  then show ?thesis using latest_selected [OF Some] assms by (auto simp: svc_load_record_def)
qed

end

definition row_selects ::
  "ForecastInputSnapshotRow list \<Rightarrow> string option \<Rightarrow> ForecastInputSnapshotSelector \<Rightarrow> ForecastInputSnapshotRecord \<Rightarrow> bool" where
  "row_selects rows trusted selector r \<longleftrightarrow>
     (\<exists>row \<in> set rows. r = record_from_row row \<and> snapshot_selected selector trusted row)"

definition record_age :: "ForecastInputSnapshotRecord \<Rightarrow> instant" where
  "record_age r = (case sr_as_of r of PyDatetime t (Some off) \<Rightarrow> t - off | _ \<Rightarrow> 0)"

lemma record_age_row [simp]: "record_age (record_from_row row) = sw_as_of row"
  by (simp add: record_age_def record_from_row_def aware_def)

lemma latest_row_SomeD:
  assumes "latest_snapshot_row s trusted rows = Some row"
  shows "row \<in> set rows" and "snapshot_selected s trusted row"
    and "row' \<in> set rows \<Longrightarrow> snapshot_selected s trusted row' \<Longrightarrow> sw_as_of row' \<le> sw_as_of row"
proof -
  let ?xs = "sort_key (\<lambda>row. - sw_as_of row) (filter (snapshot_selected s trusted) rows)"
  obtain ys where xs: "?xs = row # ys" using assms by (auto simp: latest_snapshot_row_def split: list.splits)
  have set: "set ?xs = {r \<in> set rows. snapshot_selected s trusted r}" by simp
  have sorted: "sorted (map (\<lambda>row. - sw_as_of row) (row # ys))" unfolding xs [symmetric] by simp
  show "row \<in> set rows" "snapshot_selected s trusted row" using set unfolding xs by auto
  show "sw_as_of row' \<le> sw_as_of row" if "row' \<in> set rows" "snapshot_selected s trusted row'"
  proof -
    have "row' \<in> set (row # ys)" using set that unfolding xs by blast
    then show ?thesis using sorted by auto
  qed
qed

lemma latest_row_exists:
  assumes "row \<in> set rows" and "snapshot_selected s trusted row"
  shows "\<exists>row'. latest_snapshot_row s trusted rows = Some row'"
proof -
  have "filter (snapshot_selected s trusted) rows \<noteq> []" using assms by (auto simp: filter_empty_conv)
  then show ?thesis by (auto simp: latest_snapshot_row_def split: list.splits)
qed

interpretation sql_store: snapshot_store
  "repo_get (sql_snapshot_repository rows trusted)" "repo_latest (sql_snapshot_repository rows trusted)"
  "record_from_row ` set rows" "row_selects rows trusted" record_age
  for rows trusted
proof (unfold_locales, goal_cases)
  case (1 i r)
  then show ?case
    by (auto simp: sql_snapshot_repository_def find_Some_iff record_from_row_def)
next
  case (2 s r)
  then show ?case
    by (auto simp: sql_snapshot_repository_def row_selects_def dest: latest_row_SomeD(1,2))
next
  case (3 r s)
  then obtain row where row: "row \<in> set rows" "r = record_from_row row" "snapshot_selected s trusted row"
    by (auto simp: row_selects_def)
  obtain row' where "latest_snapshot_row s trusted rows = Some row'" using latest_row_exists [OF row(1,3)] by blast
  with latest_row_SomeD(3) [OF this row(1,3)] row(2) show ?case
    by (simp add: sql_snapshot_repository_def)
qed

lemma sql_store_eta:
  "\<lparr>repo_get = repo_get (sql_snapshot_repository rows trusted), repo_latest = repo_latest (sql_snapshot_repository rows trusted)\<rparr>
     = sql_snapshot_repository rows trusted"
  by (simp add: sql_snapshot_repository_def)

lemmas sql_load = sql_store.load_stored [unfolded sql_store_eta] sql_store.load_pinned [unfolded sql_store_eta]
  sql_store.load_newest [unfolded sql_store_eta]

section \<open>A verified record\<close>

lemma map_exn_Inr [simp]: "map_exn f r = Inr x \<longleftrightarrow> r = Inr x"
  by (simp add: map_exn_def split: sum.splits)

text \<open>The header of a record that verifies is the header its payload builds.\<close>

lemma verified_header:
  assumes "sn_verified_payload r = Inr (p, i)"
  shows "sr_snapshot_id r = PyStr i" and "sr_resolution_policy_hash r = PyStr (sp_resolution_policy_hash p)"
    and "sr_symbol r = PyStr (sp_symbol p)" and "obj_same (sr_as_of r) (aware (sp_as_of p))"
    and "sr_availability_status r = PyStr (sa_status (sp_availability p))"
    and "sr_availability_rule_set_hash r = opt_arg PyStr (sa_rule_set_hash (sp_availability p))"
proof -
  note d = verified_payloadD [OF assms]
  obtain e where e: "build_snapshot_record (Inst (snapshot_arg p)) (sr_sealed_at r) = Inr e"
    "list_all2 obj_same (snapshot_record_fields r) (snapshot_record_fields e)"
    using d(4) by blast
  have f: "sr_resolution_policy_hash e = PyStr (sp_resolution_policy_hash p)" "sr_symbol e = PyStr (sp_symbol p)"
    "sr_as_of e = aware (sp_as_of p)" "sr_availability_status e = PyStr (sa_status (sp_availability p))"
    "sr_availability_rule_set_hash e = opt_arg PyStr (sa_rule_set_hash (sp_availability p))"
    using e(1) d(1) unfolding build_snapshot_record_def
    by (elim bind_check_InrE bind_res_InrE; simp; force)+
  have s: "obj_same (sr_resolution_policy_hash r) (sr_resolution_policy_hash e)" "obj_same (sr_symbol r) (sr_symbol e)"
    "obj_same (sr_as_of r) (sr_as_of e)" "obj_same (sr_availability_status r) (sr_availability_status e)"
    "obj_same (sr_availability_rule_set_hash r) (sr_availability_rule_set_hash e)"
    using e(2) by (simp_all add: snapshot_record_fields_def)
  show "sr_snapshot_id r = PyStr i" by (rule d(3))
  show "sr_resolution_policy_hash r = PyStr (sp_resolution_policy_hash p)" "sr_symbol r = PyStr (sp_symbol p)"
    "obj_same (sr_as_of r) (aware (sp_as_of p))" "sr_availability_status r = PyStr (sa_status (sp_availability p))"
    using s f by simp_all
  show "sr_availability_rule_set_hash r = opt_arg PyStr (sa_rule_set_hash (sp_availability p))"
    using s(5) unfolding f by (cases "sa_rule_set_hash (sp_availability p)") (simp_all add: opt_arg_def)
qed

section \<open>The served response\<close>

lemma assembled_cutoffs:
  assumes "assemble_baseline_forecast_response env rq ri factory idn = Inr rs"
  shows "fa_as_utc (ria_as_of ri) ''as_of'' = Inr (rs_as_of rs)"
    and "pv_max_available_at (rs_provenance rs) \<le> rs_as_of rs"
    and "s \<in> set (rs_forecasts rs) \<Longrightarrow> rs_as_of rs < fs_target_time s"
    and "lc_status (pv_lookahead_check (rs_provenance rs)) =
      (if ria_availability_verified ri = PyBool True then ''passed'' else ''not_run'')"
    and "fc_method (rs_calibration rs) = ''none''"
proof -
  obtain obs ts ds a g fitted raw paths steps pv where 1: "fa_validated_inputs env rq ri idn = Inr (obs, ts, ds, a, g)"
    "fa_provenance env ri idn ds (fa_max_available_at obs ds) g = Inr pv" "fa_response env rq ri idn a steps pv = Inr rs"
    using assms by (rule assembleE)
  note resp = fa_responseD [OF 1(3)] and inv = validate_response_invariantsD [OF fa_responseD(6) [OF 1(3)]]
  have "fa_validated_header rq ri idn = Inr (a, g)" using 1(1) by (rule fa_validated_inputsE)
  from fa_validated_headerD(1) [OF this] show "fa_as_utc (ria_as_of ri) ''as_of'' = Inr (rs_as_of rs)" using resp by simp
  show "pv_max_available_at (rs_provenance rs) \<le> rs_as_of rs" by (rule inv(3))
  show "s \<in> set (rs_forecasts rs) \<Longrightarrow> rs_as_of rs < fs_target_time s" using resp(6)
    unfolding validate_response_invariants_def Let_def
    by (elim bind_check_InrE) (auto simp: list_ex_iff not_le)
  show "lc_status (pv_lookahead_check (rs_provenance rs)) =
      (if ria_availability_verified ri = PyBool True then ''passed'' else ''not_run'')"
    using fa_provenanceD(4) [OF 1(2)] resp(2) by simp
  show "fc_method (rs_calibration rs) = ''none''" by (rule resp(7))
qed

lemma build_target_serviceD:
  assumes "build_target_service process settings target basis hashes cv = Inr svc"
  shows "svc_repository svc = sql_snapshot_repository (pr_rows process) (Some (snd hashes))"
    and "fp_target (svc_policy svc) = target" and "fp_series_basis (svc_policy svc) = basis"
    and "fp_resolution_policy_hash (svc_policy svc) = fst hashes"
    and "fp_trusted_availability_rule_set_hash (svc_policy svc) = snd hashes"
  using assms unfolding build_target_service_def ForecastServingPolicy_new_def
  by (cases hashes; simp only: prod.case; elim bind_check_InrE bind_res_InrE; auto)+

lemma sn_resolvedD:
  assumes "sn_resolved env p i rq v = Inr ri"
  shows "ri_as_of ri = sp_as_of p" and "ri_availability_verified ri = v"
  using assms unfolding sn_resolved_def by (elim bind_res_InrE; auto)+

lemma svc_produceE:
  assumes "svc_produce env svc rq = Inr rs"
  obtains rc ri made version where "rq_target rq = fp_target (svc_policy svc)"
    and "svc_load_record (svc_repository svc) (svc_policy svc) rq (fp_series_basis (svc_policy svc)) = Inr rc"
    and "svc_resolve_record env (svc_policy svc) rc rq (fp_series_basis (svc_policy svc)) = Inr ri"
    and "ri_availability_verified ri"
    and "assemble_baseline_forecast_response env rq (resolved_arg ri)
         (bind_res made (\<lambda>model. Inr (Inst (baseline_object 1 model)))) (svc_identity svc rc ri version) = Inr rs"
  using assms unfolding svc_produce_def series_basis_for_def
  by (elim bind_check_InrE bind_res_InrE) (auto simp: that)

text \<open>C2. The service answers only from verified evidence.  A response it produces comes from
  one row of the snapshot table whose id is the SHA-256 address of the stored bytes, which
  was sealed under the pinned resolution policy and whose availability proof passed under
  the rule set the operator trusts; it is the pinned snapshot, or else the newest one that
  qualifies, by the requested cutoff.  The response states the \<open>as_of\<close> of that row, uses no
  data that became available later, predicts only later times, reports a passed lookahead
  check and claims no calibration.\<close>

theorem served_forecast_is_verified:
  assumes "build_target_service process settings target basis hashes cv = Inr svc" and "svc_produce env svc rq = Inr rs"
  shows "\<exists>row \<in> set (pr_rows process).
      sw_snapshot_id row = content_id (sw_canonical_payload row)
    \<and> sw_resolution_policy_hash row = fst hashes
    \<and> sw_availability_status row = ''passed'' \<and> sw_availability_rule_set_hash row = Some (snd hashes)
    \<and> (case rq_snapshot_id rq of
         Some i \<Rightarrow> sw_snapshot_id row = i
       | None \<Rightarrow>
           (\<forall>row' \<in> set (pr_rows process). snapshot_selected (svc_selector (svc_policy svc) rq basis) (Some (snd hashes)) row'
              \<longrightarrow> sw_as_of row' \<le> sw_as_of row)
         \<and> (\<forall>cutoff. rq_as_of rq = Some cutoff \<longrightarrow> sw_as_of row \<le> cutoff))
    \<and> rq_target rq = target \<and> rs_as_of rs = sw_as_of row
    \<and> pv_max_available_at (rs_provenance rs) \<le> sw_as_of row
    \<and> (\<forall>s \<in> set (rs_forecasts rs). sw_as_of row < fs_target_time s)
    \<and> lc_status (pv_lookahead_check (rs_provenance rs)) = ''passed'' \<and> fc_method (rs_calibration rs) = ''none''"
proof -
  note b = build_target_serviceD [OF assms(1)]
  obtain rc ri made version where p: "rq_target rq = target"
    "svc_load_record (sql_snapshot_repository (pr_rows process) (Some (snd hashes))) (svc_policy svc) rq basis = Inr rc"
    "svc_resolve_record env (svc_policy svc) rc rq basis = Inr ri" "ri_availability_verified ri"
    "assemble_baseline_forecast_response env rq (resolved_arg ri)
         (bind_res made (\<lambda>model. Inr (Inst (baseline_object 1 model)))) (svc_identity svc rc ri version) = Inr rs"
    using svc_produceE [OF assms(2)] unfolding b by metis
  obtain row where row: "row \<in> set (pr_rows process)" "rc = record_from_row row" using sql_load(1) [OF p(2)] by blast
  obtain pl i m t where v: "sn_verified_payload rc = Inr (pl, i)"
    and bd: "sn_bind_request pl i rq basis (fst hashes) (fp_input_timespan (svc_policy svc)) m = Inr ()"
    and s: "sn_resolved env pl i rq (availability_trusted pl t) = Inr ri"
    and t: "\<forall>h. t = Some h \<longrightarrow> snd hashes = h"
    using p(3) unfolding svc_resolve_record_def b by (rule resolved_parts) (auto intro: that)
  note h = verified_header [OF v] and r = sn_resolvedD [OF s] and c = assembled_cutoffs [OF p(5)]
  obtain q where q: "sr_canonical_payload rc = PyBytes q" "i = content_id q" using verified_payloadD(5) [OF v] by blast
  have id: "sw_snapshot_id row = content_id (sw_canonical_payload row)"
    using q h(1) by (simp add: row(2) record_from_row_def)
  have as_of: "sw_as_of row = sp_as_of pl" using h(4) by (simp add: row(2) record_from_row_def)
  have policy: "sp_resolution_policy_hash pl = fst hashes"
    and cutoff: "rq_snapshot_id rq = None \<longrightarrow> (\<forall>cutoff. rq_as_of rq = Some cutoff \<longrightarrow> sp_as_of pl \<le> cutoff)"
    using bd unfolding sn_bind_request_def
    by (elim bind_check_InrE bind_res_InrE; auto simp: check_Inr_iff split: option.splits)+
  have trusted: "sw_availability_status row = ''passed''" "sw_availability_rule_set_hash row = Some (snd hashes)"
    using p(4) t h(5,6) unfolding r(2)
    by (auto simp: availability_trusted_def row(2) record_from_row_def opt_arg_def split: option.splits)
  have reply: "rs_as_of rs = sw_as_of row"
    using c(1) by (auto simp: resolved_arg_def r(1) as_of fa_as_utc_def aware_def split: if_splits)
  have newest: "sw_as_of row' \<le> sw_as_of row" if "rq_snapshot_id rq = None" "row' \<in> set (pr_rows process)"
    "snapshot_selected (svc_selector (svc_policy svc) rq basis) (Some (snd hashes)) row'" for row'
    using sql_load(3) [OF p(2) that(1), of "record_from_row row'"] that(2,3) by (auto simp: row(2) row_selects_def)
  have pinned: "sw_snapshot_id row = i" if "rq_snapshot_id rq = Some i" for i
    using sql_load(2) [OF p(2) that] by (simp add: row(2) record_from_row_def)
  show ?thesis
  proof (rule bexI [OF _ row(1)], intro conjI)
    show "case rq_snapshot_id rq of
         Some i \<Rightarrow> sw_snapshot_id row = i
       | None \<Rightarrow>
           (\<forall>row' \<in> set (pr_rows process). snapshot_selected (svc_selector (svc_policy svc) rq basis) (Some (snd hashes)) row'
              \<longrightarrow> sw_as_of row' \<le> sw_as_of row)
         \<and> (\<forall>cutoff. rq_as_of rq = Some cutoff \<longrightarrow> sw_as_of row \<le> cutoff)"
      using pinned newest cutoff as_of by (auto split: option.split)
    show "sw_resolution_policy_hash row = fst hashes" using h(2) policy by (simp add: row(2) record_from_row_def)
  qed (use id trusted reply p(1,4) c(2-5) in \<open>auto simp: resolved_arg_def\<close>)
qed

end
