(* ===== verification/SnapshotCases.thy ===== *)
theory SnapshotCases
  imports SnapshotResolution
begin

text \<open>
  Concrete snapshots: a small payload that is built, stored and resolved, and a payload
  whose merged source rows make the encoder produce bytes its reader refuses.
\<close>

section \<open>Small payloads fit the storage limit\<close>

lemma sum_list_le: "(\<And>x. x \<in> set xs \<Longrightarrow> f x \<le> c) \<Longrightarrow> sum_list (map f xs) \<le> length xs * (c :: nat)"
  by (induction xs) (auto intro: add_mono)

lemma small_snapshot_encodes:
  assumes "sn_normalized_payload a = Inr p" and "length (sp_observations p) \<le> 1000"
    and "sum_list (map (\<lambda>s. length (ss_fields s)) (sp_data_sources p)) \<le> 1000"
    and "length (int_str (sp_input_multiplier p)) \<le> 5"
  obtains b where "canonical_snapshot_payload a = Inr b"
proof -
  have ok: "snapshot_ok p" using assms(1) by (rule normalized_snapshot_ok)
  note doc = snapshot_document [OF ok]
  have h: "header_ok p" "\<forall>x \<in> set (sp_observations p). observation_ok (sp_target p) (sp_as_of p) x"
    "\<forall>t \<in> set (sp_target_times p). valid_instant t" "length (sp_target_times p) \<le> sn_max_target_times"
    "\<forall>s \<in> set (sp_data_sources p). lineage_ok (sp_as_of p) s" "length (sp_data_sources p) \<le> sn_max_sources"
    "availability_ok (sp_as_of p) (sp_observations p) (sp_data_sources p) (sp_availability p)"
    using ok by (auto simp: snapshot_ok_def observations_ok_def times_ok_def sources_ok_def)
  have "sum_list (map (\<lambda>x. size_bound (JObj (observation_json x)) + 1) (sp_observations p)) \<le> length (sp_observations p) * 700"
    using h(2) by (intro sum_list_le) (auto simp: observation_json_def observation_ok_def length_instant_text)
  then have o1: "size_bound (JArr (map (JObj \<circ> observation_json) (sp_observations p))) \<le> 700002"
    unfolding size_bound.simps(6) map_map comp_def using assms(2) by linarith
  have l1: "size_bound (JObj (lineage_json s)) + 1 \<le> 1600 + 772 * length (ss_fields s)" if "s \<in> set (sp_data_sources p)" for s
  proof -
    have l: "lineage_ok (sp_as_of p) s" using h(5) that by blast
    have "sum_list (map (\<lambda>f. Suc (Suc (Suc (6 * length f)))) (ss_fields s)) \<le> length (ss_fields s) * 771"
      using l by (intro sum_list_le) (auto simp: lineage_ok_def text_ok_def)
    then show ?thesis using l by (simp add: lineage_json_def lineage_ok_def text_ok_def length_instant_text comp_def)
  qed
  have "sum_list (map (\<lambda>s. size_bound (JObj (lineage_json s)) + 1) (sp_data_sources p))
      \<le> sum_list (map (\<lambda>s. 1600 + 772 * length (ss_fields s)) (sp_data_sources p))"
    by (rule sum_list_mono) (rule l1)
  also have "\<dots> = 1600 * length (sp_data_sources p) + 772 * sum_list (map (\<lambda>s. length (ss_fields s)) (sp_data_sources p))"
    by (induction "sp_data_sources p" arbitrary: p) (simp_all add: sum_list_addf sum_list_const_mult sum_list_triv)
  finally have s1: "size_bound (JArr (map (JObj \<circ> lineage_json) (sp_data_sources p))) \<le> 900002"
    unfolding size_bound.simps(6) map_map comp_def using assms(3) h(6) unfolding sn_max_sources_def by linarith
  have "sum_list (map (\<lambda>t. size_bound (JStr (instant_text t)) + 1) (sp_target_times p)) \<le> length (sp_target_times p) * 165"
    using h(3) by (intro sum_list_le) (auto simp: length_instant_text)
  then have t1: "size_bound (JArr (map (JStr \<circ> instant_text) (sp_target_times p))) \<le> 42002"
    unfolding size_bound.simps(6) map_map comp_def using h(4) unfolding sn_max_target_times_def by linarith
  have a1: "size_bound (JObj (availability_json (sp_availability p))) \<le> 2000"
    using h(7) by (auto simp: availability_ok_def availability_json_def json_opt_def length_instant_text content_id_pattern_def)
  have c1: "size_bound (json_opt (sp_currency p)) \<le> 30"
    using h(1) by (auto simp: header_ok_def json_opt_def split: option.splits)
  have x: "length (sp_symbol p) \<le> 32" "length (sp_target p) \<le> 32" "length (sp_horizon_unit p) \<le> 32"
    "length (sp_series_basis p) \<le> 32" "length (sp_input_timespan p) \<le> 16" "length (sp_resolution_policy_hash p) = 71"
    "valid_instant (sp_as_of p)" "sp_schema_version p = 1"
    using h(1) by (auto simp: header_ok_def text_ok_def content_id_pattern_def SNAPSHOT_SCHEMA_VERSION_def)
  have i1: "length (int_str 1) = 1" by code_simp
  have "size_bound (JObj (snapshot_json p)) \<le> 2000000"
    unfolding snapshot_json_def size_bound.simps(7) [of "_ # _"]
    using o1 s1 t1 a1 c1 x assms(4)
    by (simp add: length_instant_text SNAPSHOT_FORMAT_def i1 del: size_bound.simps(6,7))
  then have "length (canonical_bytes (JObj (snapshot_json p))) \<le> sn_max_payload_bytes"
    using canonical_size [of "JObj (snapshot_json p)"] by (simp add: sn_max_payload_bytes_def)
  then have "canonical_snapshot_payload a = Inr (canonical_bytes (JObj (snapshot_json p)))"
    unfolding canonical_snapshot_iff
    by (intro exI [of _ p]) (simp add: assms(1) doc(1) canonical_json_total [OF doc(2)])
  then show ?thesis by (rule that)
qed

section \<open>A resolved snapshot\<close>

definition sn_demo_hash :: string where
  "sn_demo_hash = ''sha256:'' @ replicate 64 (CHR ''b'')"

definition sn_demo_time :: instant where
  "sn_demo_time = 63871790400000000"

definition sn_demo_snapshot :: ForecastInputSnapshotPayload where
  "sn_demo_snapshot = \<lparr>sp_resolution_policy_hash = sn_demo_hash, sp_symbol = ''AAPL'', sp_target = ''close'',
     sp_horizon_unit = ''trading_day'', sp_series_basis = ''raw'', sp_input_timespan = ''day'',
     sp_input_multiplier = 1, sp_as_of = sn_demo_time + 86400000000, sp_currency = Some ''USD'',
     sp_observations = [
       \<lparr>so_observed_at = sn_demo_time - 86400000000, so_available_at = sn_demo_time, so_value = f_one\<rparr>,
       \<lparr>so_observed_at = sn_demo_time, so_available_at = sn_demo_time + 60000000, so_value = f_two\<rparr>],
     sp_target_times = [sn_demo_time + 172800000000, sn_demo_time + 259200000000],
     sp_data_sources = [
       \<lparr>ss_name = ''polygon'', ss_snapshot_id = ''bars'', ss_max_available_at = sn_demo_time + 60000000,
        ss_fields = [''close'', ''volume'']\<rparr>],
     sp_availability = \<lparr>sa_status = ''passed'', sa_rule_set_hash = Some sn_demo_hash,
       sa_checked_at = Some (sn_demo_time + 86400000000)\<rparr>,
     sp_schema_version = 1\<rparr>"

definition sn_demo_env :: pydantic where
  "sn_demo_env = \<lparr>pd_strip = py_strip, pd_multiple_of = (\<lambda>_ _. True)\<rparr>"

definition sn_demo_request :: ForecastRequest where
  "sn_demo_request = \<lparr>rq_symbol = ''AAPL'', rq_horizon = 1, rq_horizon_unit = ''trading_day'', rq_target = ''close'',
     rq_as_of = Some (sn_demo_time + 90000000000), rq_snapshot_id = None, rq_model = ''auto'',
     rq_interval_coverages = [f_half]\<rparr>"

lemma sn_demo_ok: "snapshot_ok sn_demo_snapshot" "fields_within_limit sn_demo_snapshot"
proof -
  have "header_ok sn_demo_snapshot"
    "observations_ok (sp_target sn_demo_snapshot) (sp_as_of sn_demo_snapshot) (sp_observations sn_demo_snapshot)"
    "times_ok (sp_as_of sn_demo_snapshot) (sp_target_times sn_demo_snapshot)"
    "sources_ok (sp_as_of sn_demo_snapshot) (sp_data_sources sn_demo_snapshot)"
    by code_simp+
  moreover have "content_id_pattern sn_demo_hash" "valid_instant (sn_demo_time + 86400000000)"
    "max (sn_max_available (sp_observations sn_demo_snapshot) (sp_data_sources sn_demo_snapshot)) (sp_as_of sn_demo_snapshot)
      \<le> sn_demo_time + 86400000000" by code_simp+
  ultimately show "snapshot_ok sn_demo_snapshot"
    unfolding snapshot_ok_def availability_ok_def by (simp add: sn_demo_snapshot_def)
  show "fields_within_limit sn_demo_snapshot" by code_simp
qed

lemma sn_demo_normal: "sn_normalized_payload (Inst (snapshot_arg sn_demo_snapshot)) = Inr sn_demo_snapshot"
  using sn_demo_ok by (simp add: snapshot_arg_again)

lemma sn_demo_int: "length (int_str 1) = 1"
  by code_simp

lemma sn_demo_built:
  obtains e where "build_snapshot_record (Inst (snapshot_arg sn_demo_snapshot)) (aware (sn_demo_time + 90000000000)) = Inr e"
    and "sr_sealed_at e = aware (sn_demo_time + 90000000000)"
proof -
  obtain b where b: "canonical_snapshot_payload (Inst (snapshot_arg sn_demo_snapshot)) = Inr b"
    using sn_demo_normal by (rule small_snapshot_encodes) (simp_all add: sn_demo_snapshot_def sn_demo_int)
  then obtain bs where bs: "bind_res (sn_document sn_demo_snapshot) canonical_json = Inr b" "length b \<le> sn_max_payload_bytes"
    using sn_demo_normal by (auto simp: canonical_snapshot_iff)
  have "snapshot_id_for_payload (PyBytes b) = Inr (content_id b)"
    using bs canonical_bytes_nonempty [OF sn_demo_normal bs(1)]
    by (simp add: snapshot_id_for_payload_def sn_payload_bytes_def)
  moreover have "valid_instant (sn_demo_time + 90000000000)" by code_simp
  moreover have "sp_as_of sn_demo_snapshot = sn_demo_time + 86400000000"
    "sa_checked_at (sp_availability sn_demo_snapshot) = Some (sn_demo_time + 86400000000)"
    by (simp_all add: sn_demo_snapshot_def)
  ultimately have "\<exists>e. build_snapshot_record (Inst (snapshot_arg sn_demo_snapshot)) (aware (sn_demo_time + 90000000000)) = Inr e
      \<and> sr_sealed_at e = aware (sn_demo_time + 90000000000)"
    using b by (simp add: build_snapshot_record_def sn_demo_normal sn_utc_def)
  with that show ?thesis by blast
qed

lemma built_fields_same:
  assumes "build_snapshot_record a s = Inr e"
  shows "list_all2 obj_same (snapshot_record_fields e) (snapshot_record_fields e)"
  using assms unfolding build_snapshot_record_def
  by (elim bind_check_InrE bind_res_InrE) (auto simp: snapshot_record_fields_def opt_arg_def split: option.splits)

theorem snapshot_round_trip_narrow:
  "\<exists>b. canonical_snapshot_payload (Inst (snapshot_arg sn_demo_snapshot)) = Inr b
     \<and> parse_snapshot_payload (PyBytes b) = Inr sn_demo_snapshot"
proof -
  obtain b where b: "canonical_snapshot_payload (Inst (snapshot_arg sn_demo_snapshot)) = Inr b"
    using sn_demo_normal by (rule small_snapshot_encodes) (simp_all add: sn_demo_snapshot_def sn_demo_int)
  with fixed_payload_parses [OF sn_demo_normal b] show ?thesis by blast
qed

theorem resolved_input_is_point_in_time_witness:
  "\<exists>e ri. build_snapshot_record (Inst (snapshot_arg sn_demo_snapshot)) (aware (sn_demo_time + 90000000000)) = Inr e
     \<and> validate_and_resolve_snapshot sn_demo_env (Inst e) (Inst sn_demo_request) ''raw'' (PyStr sn_demo_hash) ''day''
         (PyInt 1) (PyStr sn_demo_hash) = Inr ri
     \<and> ri_availability_verified ri \<and> ri_target_times ri = [sn_demo_time + 172800000000]
     \<and> sr_availability_rule_set_hash e = PyStr sn_demo_hash"
proof -
  obtain e where e: "build_snapshot_record (Inst (snapshot_arg sn_demo_snapshot)) (aware (sn_demo_time + 90000000000)) = Inr e"
    "sr_sealed_at e = aware (sn_demo_time + 90000000000)" by (rule sn_demo_built)
  obtain i where i: "sn_verified_payload e = Inr (sn_demo_snapshot, i)"
    using matching_snapshot_verifies [OF sn_demo_normal, of e e] e built_fields_same [OF e(1)] by metis
  have h: "sn_hash (PyStr sn_demo_hash) l = Inr sn_demo_hash" for l
  proof -
    have "content_id_pattern sn_demo_hash" by code_simp
    then show ?thesis by (simp add: sn_hash_def)
  qed
  have b: "sn_bind_request sn_demo_snapshot i sn_demo_request ''raw'' sn_demo_hash ''day'' 1 = Inr ()"
    by (simp add: sn_bind_request_def sn_demo_snapshot_def sn_demo_request_def)
  have "DataSourceLineage_new sn_demo_env \<lparr>dl_name = ''polygon'', dl_snapshot_id = ''bars'',
      dl_max_available_at = sn_demo_time + 60000000, dl_fields = [''close'', ''volume'']\<rparr>
    = Inr \<lparr>dl_name = ''polygon'', dl_snapshot_id = ''bars'',
      dl_max_available_at = sn_demo_time + 60000000, dl_fields = [''close'', ''volume'']\<rparr>" by code_simp
  then have r: "sn_resolved sn_demo_env sn_demo_snapshot i sn_demo_request v = Inr
      \<lparr>ri_symbol = ''AAPL'', ri_target = ''close'', ri_horizon_unit = ''trading_day'', ri_series_basis = ''raw'',
       ri_snapshot_id = i, ri_as_of = sn_demo_time + 86400000000,
       ri_observations = map (\<lambda>x. \<lparr>ob_observed_at = so_observed_at x, ob_available_at = so_available_at x,
         ob_value = so_value x\<rparr>) (sp_observations sn_demo_snapshot),
       ri_target_times = [sn_demo_time + 172800000000],
       ri_data_sources = [\<lparr>dl_name = ''polygon'', dl_snapshot_id = ''bars'',
         dl_max_available_at = sn_demo_time + 60000000, dl_fields = [''close'', ''volume'']\<rparr>],
       ri_currency = Some ''USD'', ri_availability_verified = v\<rparr>" for v
    by (simp add: sn_resolved_def sn_demo_request_def) (simp add: sn_demo_snapshot_def)
  have t: "availability_trusted sn_demo_snapshot (Some sn_demo_hash)"
    by (simp add: availability_trusted_def sn_demo_snapshot_def)
  obtain ri where ri: "validate_and_resolve_snapshot sn_demo_env (Inst e) (Inst sn_demo_request) ''raw''
      (PyStr sn_demo_hash) ''day'' (PyInt 1) (PyStr sn_demo_hash) = Inr ri"
      "ri_availability_verified ri" "ri_target_times ri = [sn_demo_time + 172800000000]"
    using t by (simp add: validate_and_resolve_snapshot_def h i b r sn_positive_integer_def forecast_series_bases_def
        sn_input_timespans_def)
  from resolved_input_is_point_in_time [OF ri(1)] ri e(1) show ?thesis by blast
qed

theorem snapshot_identity_order_free_witness:
  "sn_normalized_payload (Inst (snapshot_arg sn_demo_snapshot
     \<lparr>spa_observations := Inst (rev (map (Inst \<circ> observation_arg) (sp_observations sn_demo_snapshot))),
      spa_target_times := Inst (rev (map aware (sp_target_times sn_demo_snapshot))),
      spa_data_sources := Inst (map (Inst \<circ> lineage_arg) (sp_data_sources sn_demo_snapshot))\<rparr>))
   = Inr sn_demo_snapshot"
  by (rule snapshot_identity_order_free [OF sn_demo_normal,
        where xs = "map (Inst \<circ> observation_arg) (sp_observations sn_demo_snapshot)"
          and ts = "map aware (sp_target_times sn_demo_snapshot)"
          and ss = "map (Inst \<circ> lineage_arg) (sp_data_sources sn_demo_snapshot)"])
    (simp_all add: snapshot_arg_def)

section \<open>A payload its reader refuses\<close>

definition wide_fields :: "char \<Rightarrow> string list" where
  "wide_fields c = map (\<lambda>n. replicate (Suc n) c) [0..<100]"

definition wide_source :: "char \<Rightarrow> SnapshotSourceLineageArg" where
  "wide_source c = \<lparr>ssa_name = PyStr ''polygon'', ssa_snapshot_id = PyStr ''bars'',
     ssa_max_available_at = aware (sn_demo_time + 60000000), ssa_fields = Inst (map PyStr (wide_fields c))\<rparr>"

text \<open>The same snapshot with its one source handed over in two rows of a hundred fields each.\<close>

definition wide_snapshot :: ForecastInputSnapshotPayloadArg where
  "wide_snapshot = snapshot_arg sn_demo_snapshot
     \<lparr>spa_data_sources := Inst [Inst (wide_source (CHR ''x'')), Inst (wide_source (CHR ''y''))]\<rparr>"

lemma wide_fields_ok: "distinct (wide_fields c)" "length (wide_fields c) = 100"
  by (auto simp: wide_fields_def distinct_map inj_on_def)

lemma wide_text:
  assumes "c = CHR ''x'' \<or> c = CHR ''y''" and "f \<in> set (wide_fields c)"
  shows "text_ok 128 f"
proof -
  obtain n where n: "f = replicate (Suc n) c" "n < 100" using assms(2) by (auto simp: wide_fields_def)
  have s: "\<not> is_space c" "\<not> (55296 \<le> cp c \<and> cp c \<le> 57343)"
    using assms(1) by (auto simp: is_space_def)
  have "dropWhile is_space (replicate (Suc n) c) = replicate (Suc n) c" using s(1) by simp
  then have "py_strip f = f" by (simp only: py_strip_def n(1) rev_replicate)
  then show ?thesis using n s(2) by (auto simp: text_ok_def has_surrogate_def)
qed

lemma wide_row:
  assumes "c = CHR ''x'' \<or> c = CHR ''y''"
  shows "sn_source (sp_as_of sn_demo_snapshot) (wide_source c) =
    Inr ((''polygon'', ''bars'', sn_demo_time + 60000000), wide_fields c)"
proof -
  have t: "text_ok 64 ''polygon''" "text_ok 128 ''bars''" "valid_instant (sn_demo_time + 60000000)" by code_simp+
  have "map_res (\<lambda>v. ev_text SnapshotValidationError 128 v ''source field'') (map PyStr (wide_fields c)) = Inr (wide_fields c)"
    using wide_text [OF assms] by (intro map_res_map_arg) simp
  moreover have "sn_demo_time + 60000000 \<le> sp_as_of sn_demo_snapshot" by code_simp
  moreover have "wide_fields c \<noteq> []" using wide_fields_ok(2) [of c] by auto
  ultimately show ?thesis
    using wide_fields_ok [of c] t
    by (simp add: sn_source_def wide_source_def sn_scalars Let_def distinct_remdups_id sn_max_source_fields_def)
qed

lemma wide_disjoint: "f \<in> set (wide_fields (CHR ''x'')) \<Longrightarrow> f \<notin> set (wide_fields (CHR ''y''))"
  by (auto simp: wide_fields_def)

lemma wide_normal:
  "sn_normalized_payload (Inst wide_snapshot) = Inr (sn_demo_snapshot\<lparr>sp_data_sources :=
     [sn_lineage ((''polygon'', ''bars'', sn_demo_time + 60000000), wide_fields (CHR ''x'') @ wide_fields (CHR ''y''))]\<rparr>)"
proof -
  let ?k = "(''polygon'', ''bars'', sn_demo_time + 60000000)"
  let ?ss = "[sn_lineage (?k, wide_fields (CHR ''x'') @ wide_fields (CHR ''y''))]"
  have h: "header_ok sn_demo_snapshot"
    "observations_ok (sp_target sn_demo_snapshot) (sp_as_of sn_demo_snapshot) (sp_observations sn_demo_snapshot)"
    "times_ok (sp_as_of sn_demo_snapshot) (sp_target_times sn_demo_snapshot)"
    using sn_demo_ok(1) by (simp_all add: snapshot_ok_def)
  have "filter (\<lambda>v. v \<notin> set (wide_fields (CHR ''x''))) (wide_fields (CHR ''y'')) = wide_fields (CHR ''y'')"
    using wide_disjoint by (auto simp: filter_id_conv)
  then have "sn_group [(?k, wide_fields (CHR ''x'')), (?k, wide_fields (CHR ''y''))] =
      [(?k, wide_fields (CHR ''x'') @ wide_fields (CHR ''y''))]" by (simp add: sn_group_def)
  then have "sn_data_sources (sp_as_of sn_demo_snapshot)
      (Inst [Inst (wide_source (CHR ''x'')), Inst (wide_source (CHR ''y''))]) = Inr ?ss"
    by (simp add: sn_data_sources_def wide_row Let_def sn_max_sources_def)
  moreover have "sn_max_available (sp_observations sn_demo_snapshot) ?ss = sn_demo_time + 60000000"
    by (simp add: sn_max_available_def sn_demo_snapshot_def sn_lineage_def)
  then have "availability_ok (sp_as_of sn_demo_snapshot) (sp_observations sn_demo_snapshot) ?ss (sp_availability sn_demo_snapshot)"
    using sn_demo_ok(1) by (simp add: snapshot_ok_def availability_ok_def sn_demo_snapshot_def)
  ultimately show ?thesis
    unfolding wide_snapshot_def snapshot_arg_sources [OF h] by (simp add: sn_availability_arg)
qed

theorem snapshot_round_trip_witness:
  "\<exists>b. canonical_snapshot_payload (Inst wide_snapshot) = Inr b
     \<and> parse_snapshot_payload (PyBytes b) = Inl (SnapshotValidationError ''source fields must be within the size limit'')"
proof -
  obtain b where b: "canonical_snapshot_payload (Inst wide_snapshot) = Inr b"
    using wide_normal by (rule small_snapshot_encodes)
      (simp_all add: sn_demo_snapshot_def sn_demo_int wide_fields_ok)
  from snapshot_round_trip [OF b wide_normal] b show ?thesis
    by (auto simp: wide_fields_ok sn_max_source_fields_def)
qed

end
