(* ===== verification/ServingCases.thy ===== *)
theory ServingCases
  imports ForecastServingLaws SnapshotCases
begin

text \<open>
  A snapshot of three observations is stored, served with the naive baseline, and the
  response is computed to the last digit.
\<close>

section \<open>The stored snapshot\<close>

definition srv_four :: f64 where
  "srv_four = 4616189618054758400"

definition srv_snapshot :: ForecastInputSnapshotPayload where
  "srv_snapshot = sn_demo_snapshot\<lparr>sp_observations := [
       \<lparr>so_observed_at = sn_demo_time - 172800000000, so_available_at = sn_demo_time, so_value = f_one\<rparr>,
       \<lparr>so_observed_at = sn_demo_time - 86400000000, so_available_at = sn_demo_time, so_value = f_two\<rparr>,
       \<lparr>so_observed_at = sn_demo_time, so_available_at = sn_demo_time + 60000000, so_value = srv_four\<rparr>]\<rparr>"

definition srv_observations :: "ForecastObservationArg list" where
  "srv_observations = map (\<lambda>x. forecast_observation_arg \<lparr>ob_observed_at = so_observed_at x, ob_available_at = so_available_at x,
     ob_value = so_value x\<rparr>) (sp_observations srv_snapshot)"

definition srv_history :: "f64 list" where
  "srv_history = [f_one, f_two, srv_four]"

definition srv_fitted :: Forecaster where
  "srv_fitted = baseline_object 0 \<lparr>bl_kind = NaiveForecaster, bl_history = Some srv_history\<rparr>"


text \<open>The constants 0.25, 0.75, 1.25, 1.5, 1.75, -0.25, 3.75 and 4.25.\<close>

abbreviation srv_q25 :: f64 where "srv_q25 \<equiv> 4598175219545276416"
abbreviation srv_q75 :: f64 where "srv_q75 \<equiv> 4604930618986332160"
abbreviation srv_125 :: f64 where "srv_125 \<equiv> 4608308318706860032"
abbreviation srv_150 :: f64 where "srv_150 \<equiv> 4609434218613702656"
abbreviation srv_175 :: f64 where "srv_175 \<equiv> 4610560118520545280"
abbreviation srv_neg25 :: f64 where "srv_neg25 \<equiv> 13821547256400052224"
abbreviation srv_375 :: f64 where "srv_375 \<equiv> 4615626668101337088"
abbreviation srv_425 :: f64 where "srv_425 \<equiv> 4616471093031469056"

lemma srv_level_stages:
  "f_sub f_one f_half = f_half" "f_quot f_half f_two = srv_q25" "f_round_digits srv_q25 12 = srv_q25"
  "f_add f_one f_half = srv_150" "f_quot srv_150 f_two = srv_q75" "f_round_digits srv_q75 12 = srv_q75"
  by code_simp+

lemma srv_eq:
  "f_eq f_half f_half" "\<not> f_eq f_half srv_q25" "\<not> f_eq f_half srv_q75" "\<not> f_eq srv_q25 srv_q75" "\<not> f_eq srv_q25 f_half"
  "\<not> f_eq srv_q75 srv_q25" "\<not> f_eq srv_q75 f_half" "f_eq srv_q25 srv_q25" "f_eq srv_q75 srv_q75" "\<not> f_eq f_one f_two"
  by code_simp+

lemma srv_keys: "f_key srv_q25 = 4598175219545276416" "f_key f_half = 4602678819172646912"
  "f_key srv_q75 = 4604930618986332160" "f_key f_one = 4607182418800017408" "f_key f_two = 4611686018427387904"
  "f_idx f_one = 4607182418800017408"
  by code_simp+

lemma srv_levels: "fa_coverage_levels f_half = (srv_q25, srv_q75)"
  "fa_requested_quantile_levels [f_half] = [srv_q25, f_half, srv_q75]"
  by (simp_all add: fa_coverage_levels_def srv_level_stages fa_requested_quantile_levels_def fa_add_level_def srv_eq srv_keys)

lemma srv_finite:
  "f_isfinite f_one" "f_isfinite f_two" "f_isfinite srv_four" "f_isfinite f_half" "f_isfinite srv_q25" "f_isfinite srv_q75"
  "f_isfinite srv_375" "f_isfinite srv_425"
  by code_simp+

lemma srv_range: "f_lt f_zero srv_q25" "f_lt f_zero f_half" "f_lt f_zero srv_q75" "f_lt srv_q25 f_one" "f_lt f_half f_one" "f_lt srv_q75 f_one"
  by code_simp+

lemma srv_error_stages: "f_sub f_two f_one = f_one" "f_sub srv_four f_two = f_two"
  by code_simp+

text \<open>Adding zero, without aligning the exponents.\<close>

lemma f_sub_zero:
  assumes "f_isfinite x" and "f_idx x \<noteq> 0"
  shows "f_sub x f_zero = x"
proof -
  have k: "f_key (f_sub x f_zero) = f_key x"
    using f_key_sub [OF assms(1) fval_zero(3)] by (simp add: rkey_fval [OF assms(1)])
  have p: "0 < f_idx x" "0 \<le> f_idx (f_sub x f_zero)" using assms(2) f_idx_nonneg [of x] f_idx_nonneg [of "f_sub x f_zero"] by linarith+
  have "f_isneg (f_sub x f_zero) = f_isneg x"
  proof (rule ccontr)
    assume "f_isneg (f_sub x f_zero) \<noteq> f_isneg x"
    then have "f_idx (f_sub x f_zero) + f_idx x = 0" using k by (cases "f_isneg x") (simp_all add: f_key_def)
    then show False using p by linarith
  qed
  with k show ?thesis by (auto simp: f_eq_iff f_key_def split: if_splits)
qed

lemma srv_idx: "f_idx srv_q25 \<noteq> 0" "f_idx f_half \<noteq> 0" "f_idx srv_q75 \<noteq> 0" "f_idx srv_four \<noteq> 0"
  by code_simp+

lemmas srv_zero = f_sub_zero [OF srv_finite(5) srv_idx(1)] f_sub_zero [OF srv_finite(4) srv_idx(2)]
  f_sub_zero [OF srv_finite(6) srv_idx(3)] f_add_zero [OF srv_finite(3) srv_idx(4)]

lemma srv_position: "f_of_int_exact 1 = f_one" "f_of_int_exact 0 = f_zero"
  "f_mul f_one srv_q25 = srv_q25" "f_mul f_one f_half = f_half" "f_mul f_one srv_q75 = srv_q75"
  "f_trunc srv_q25 = 0" "f_trunc f_half = 0" "f_trunc srv_q75 = 0"
  "\<not> f_eq srv_q25 f_zero" "\<not> f_eq f_half f_zero" "\<not> f_eq srv_q75 f_zero"
  by code_simp+

lemma srv_quantile_stages:
  "f_sub f_one srv_q25 = srv_q75" "f_mul srv_q75 f_one = srv_q75" "f_mul srv_q25 f_two = f_half" "f_add srv_q75 f_half = srv_125"
  "f_mul f_half f_one = f_half" "f_mul f_half f_two = f_one" "f_add f_half f_one = srv_150"
  "f_sub f_one srv_q75 = srv_q25" "f_mul srv_q25 f_one = srv_q25" "f_mul srv_q75 f_two = srv_150" "f_add srv_q25 srv_150 = srv_175"
  "f_sub srv_125 srv_150 = srv_neg25" "f_sub srv_150 srv_150 = f_zero" "f_sub srv_175 srv_150 = srv_q25"
  "f_add srv_four srv_neg25 = srv_375" "f_add srv_four srv_q25 = srv_425"
  by code_simp+

lemma srv_linear:
  "bl_linear_quantile_from_ordered [f_one, f_two] srv_q25 = Inr srv_125"
  "bl_linear_quantile_from_ordered [f_one, f_two] f_half = Inr srv_150"
  "bl_linear_quantile_from_ordered [f_one, f_two] srv_q75 = Inr srv_175"
  by (simp_all add: bl_linear_quantile_from_ordered_def srv_position py_index_def srv_quantile_stages srv_level_stages srv_zero Let_def)

lemma srv_errors: "bl_expanding_origin_errors NaiveForecaster srv_history 1 = Inr [f_one, f_two]"
proof -
  have "[1..2] = [1, 2 :: int]" by code_simp
  then show ?thesis
    by (simp add: bl_expanding_origin_errors_def srv_history_def bl_origin_error_def bl_checked_forecast_def
        naive_forecast_at_def py_index_def srv_error_stages srv_finite Let_def)
qed

lemma srv_points: "bl_points NaiveForecaster srv_history 1 = Inr [srv_four]"
  by (simp add: bl_points_def bl_checked_forecast_def naive_forecast_at_def py_index_def srv_history_def srv_finite)

lemma srv_predict: "fa_raw_forecast (sn_demo_request) srv_fitted =
   Inr ([PyFloat srv_four], [(srv_q25, [PyFloat srv_375]), (f_half, [PyFloat srv_four]), (srv_q75, [PyFloat srv_425])])"
proof -
  have l: "bl_quantile_levels (Seq (map PyFloat [srv_q25, f_half, srv_q75])) = Inr [srv_q25, f_half, srv_q75]"
    by (simp add: bl_quantile_levels_def real_float_def srv_finite srv_range srv_eq)
  have s: "bl_step_forecasts NaiveForecaster srv_history [srv_q25, f_half, srv_q75] 1 srv_four = Inr [srv_375, srv_four, srv_425]"
    by (simp add: bl_step_forecasts_def srv_errors srv_keys srv_eq srv_linear bl_level_forecast_def srv_quantile_stages srv_finite srv_zero Let_def)
  have q: "fc_predict_quantiles srv_fitted 1 [srv_q25, f_half, srv_q75] =
      Inr (Some [(PyFloat srv_q25, Seq [PyFloat srv_375]), (PyFloat f_half, Seq [PyFloat srv_four]), (PyFloat srv_q75, Seq [PyFloat srv_425])])"
    using l s by (simp add: srv_fitted_def baseline_quantiles_def bl_predict_quantiles_def bl_positive_integer_def integral_def
        bl_fitted_history_def srv_points)
  have p: "fc_predict srv_fitted 1 = Inr (Seq [PyFloat srv_four])"
    by (simp add: srv_fitted_def bl_predict_def bl_positive_integer_def integral_def bl_fitted_history_def srv_points)
  have near: "f_le (f_abs (f_sub srv_q25 srv_q25)) 4427486594234968593" "\<not> f_le (f_abs (f_sub srv_q25 f_half)) 4427486594234968593"
    "f_le (f_abs (f_sub f_half f_half)) 4427486594234968593" "\<not> f_le (f_abs (f_sub srv_q25 srv_q75)) 4427486594234968593"
    "\<not> f_le (f_abs (f_sub f_half srv_q75)) 4427486594234968593" "f_le (f_abs (f_sub srv_q75 srv_q75)) 4427486594234968593"
    by code_simp+
  show ?thesis
    using p q by (simp add: fa_raw_forecast_def sn_demo_request_def srv_levels fa_list_def fa_quantile_path_def
        fa_key_number_def near)
qed

section \<open>The assembled response\<close>

definition srv_resolved :: "string \<Rightarrow> ResolvedForecastInput" where
  "srv_resolved i = \<lparr>ri_symbol = ''AAPL'', ri_target = ''close'', ri_horizon_unit = ''trading_day'', ri_series_basis = ''raw'',
     ri_snapshot_id = i, ri_as_of = sn_demo_time + 86400000000,
     ri_observations = map (\<lambda>x. \<lparr>ob_observed_at = so_observed_at x, ob_available_at = so_available_at x,
       ob_value = so_value x\<rparr>) (sp_observations srv_snapshot),
     ri_target_times = [sn_demo_time + 172800000000],
     ri_data_sources = [\<lparr>dl_name = ''polygon'', dl_snapshot_id = ''bars'',
       dl_max_available_at = sn_demo_time + 60000000, dl_fields = [''close'', ''volume'']\<rparr>],
     ri_currency = Some ''USD'', ri_availability_verified = True\<rparr>"

definition srv_identity :: "string \<Rightarrow> ForecastRunIdentity" where
  "srv_identity i = \<lparr>id_forecast_id = 7, id_generated_at = aware (sn_demo_time + 90000000000),
     id_model_version = ''baseline-naive@1'', id_feature_set_hash = i, id_code_version = None\<rparr>"

lemma hash_text:
  assumes "content_id_pattern i"
  shows "py_strip i = i" and "i \<noteq> []" and "length i = 71" and "feature_hash_pattern i"
proof -
  have i: "startswith i ''sha256:''" "length i = 71" "\<forall>c \<in> set (drop 7 i). is_hex_lower c"
    using assms by (auto simp: content_id_pattern_def)
  show l: "i \<noteq> []" "length i = 71" using i(2) by auto
  have "hd i = CHR ''s''" using i(1) l by (cases i) (auto simp: startswith_def)
  moreover have "last i \<in> set (drop 7 i)"
  proof -
    have "drop 7 i \<noteq> []" using i(2) by auto
    moreover have "last i = last (drop 7 i)" using i(2) by (simp add: last_drop)
    ultimately show ?thesis by (metis last_in_set)
  qed
  ultimately show "py_strip i = i"
    using i(3) by (intro py_strip_id l) (auto simp: is_space_def is_hex_lower_def is_digit_def)
  show "feature_hash_pattern i" using i by (simp add: feature_hash_pattern_def)
qed

lemma srv_times: "fa_as_utc (aware (sn_demo_time + 86400000000)) l = Inr (sn_demo_time + 86400000000)"
  "fa_as_utc (aware (sn_demo_time + 90000000000)) l = Inr (sn_demo_time + 90000000000)"
  "fa_as_utc (aware (sn_demo_time + 172800000000)) l = Inr (sn_demo_time + 172800000000)"
  "fa_as_utc (aware (sn_demo_time - 172800000000)) l = Inr (sn_demo_time - 172800000000)"
  "fa_as_utc (aware (sn_demo_time - 86400000000)) l = Inr (sn_demo_time - 86400000000)"
  "fa_as_utc (aware sn_demo_time) l = Inr sn_demo_time"
  "fa_as_utc (aware (sn_demo_time + 60000000)) l = Inr (sn_demo_time + 60000000)"
  by (simp_all add: fa_as_utc_def aware_def sn_demo_time_def max_ordinal_def day_micros_def)

lemma srv_inputs:
  assumes "content_id_pattern i"
  shows "fa_validated_inputs sn_demo_env sn_demo_request (resolved_arg (srv_resolved i)) (srv_identity i) =
    Inr (ri_observations (srv_resolved i), [sn_demo_time + 172800000000], ri_data_sources (srv_resolved i),
         sn_demo_time + 86400000000, sn_demo_time + 90000000000)"
proof -
  have up: "py_upper (py_strip ''AAPL'') = ''AAPL''" by code_simp
  have h: "fa_validated_header sn_demo_request (resolved_arg (srv_resolved i)) (srv_identity i) =
      Inr (sn_demo_time + 86400000000, sn_demo_time + 90000000000)"
    using hash_text [OF assms] up
    by (simp add: fa_validated_header_def resolved_arg_def srv_resolved_def srv_identity_def sn_demo_request_def srv_times fa_series_bases_def)
  have o: "fa_observations (sn_demo_time + 86400000000) (map forecast_observation_arg (ri_observations (srv_resolved i))) =
      Inr (ri_observations (srv_resolved i))"
    by (simp add: fa_observations_def srv_resolved_def srv_snapshot_def fa_observation_def forecast_observation_arg_def srv_times
        fa_finite_def real_float_def srv_finite fa_check_observation_def check_Inr_iff)
  have d: "fa_canonical_data_sources sn_demo_env (ri_data_sources (srv_resolved i)) = Inr (ri_data_sources (srv_resolved i))"
    unfolding srv_resolved_def ResolvedForecastInput.simps by code_simp
  have "sp_observations srv_snapshot \<noteq> []" by (simp add: srv_snapshot_def)
  then show ?thesis
    using h o d by (simp add: fa_validated_inputs_def resolved_arg_def srv_resolved_def fa_target_times_def srv_times
        sn_demo_request_def fa_price_targets_def)
qed


definition srv_step :: ForecastStep where
  "srv_step = \<lparr>fs_step = 1, fs_target_time = sn_demo_time + 172800000000, fs_point = srv_four,
     fs_quantiles = [\<lparr>fq_level = srv_q25, fq_value = srv_375\<rparr>, \<lparr>fq_level = f_half, fq_value = srv_four\<rparr>,
       \<lparr>fq_level = srv_q75, fq_value = srv_425\<rparr>],
     fs_intervals = [\<lparr>fi_coverage = f_half, fi_lower_quantile = srv_q25, fi_upper_quantile = srv_q75,
       fi_lower = srv_375, fi_upper = srv_425\<rparr>]\<rparr>"

lemma srv_fit:
  "fa_fitted (Inr (Inst (baseline_object 1 naive_forecaster))) srv_history sn_demo_request (srv_identity i) = Inr srv_fitted"
  by (simp add: fa_fitted_def naive_forecaster_def bl_fit_def bl_finite_history_def srv_history_def bl_finite_value_def
      real_float_def srv_finite srv_identity_def fa_validate_model_selection_def sn_demo_request_def srv_fitted_def)

lemma srv_order: "f_lt f_zero srv_four" "f_lt f_zero srv_375" "f_lt f_zero srv_425" "\<not> f_lt srv_425 srv_375"
  "\<not> f_lt srv_four srv_375" "\<not> f_lt srv_425 srv_four" "\<not> f_le srv_q75 srv_q25"
  by code_simp+

lemma srv_near: "\<not> f_lt (f_add srv_four FLOAT_TOLERANCE) srv_375" "\<not> f_lt (f_add srv_425 FLOAT_TOLERANCE) srv_four"
  "\<not> differs srv_four srv_four" "\<not> differs f_half f_half" "\<not> differs srv_375 srv_375" "\<not> differs srv_425 srv_425"
  by code_simp+

lemma srv_near_levels: "\<not> differs srv_q25 srv_q25" "\<not> differs srv_q75 srv_q75" "differs srv_q25 f_half" "differs srv_q25 srv_q75"
  "differs f_half srv_q75"
  by code_simp+

lemma srv_width: "f_sub srv_q75 srv_q25 = f_half" "coverage_field sn_demo_env f_half = Inr f_half"
  by code_simp+

lemma srv_step:
  "fa_step sn_demo_env sn_demo_request [PyFloat srv_four]
     [(srv_q25, [PyFloat srv_375]), (f_half, [PyFloat srv_four]), (srv_q75, [PyFloat srv_425])] 0
     (sn_demo_time + 172800000000) = Inr srv_step"
proof -
  have t: "fa_target_value ''close'' (PyFloat srv_four) = Inr srv_four" "fa_target_value ''close'' (PyFloat srv_375) = Inr srv_375"
    "fa_target_value ''close'' (PyFloat srv_425) = Inr srv_425"
    by (simp_all add: fa_target_value_def fa_finite_def real_float_def srv_finite fa_price_targets_def f_max_def srv_order)
  have i: "fa_interval sn_demo_env [(srv_q25, srv_375), (f_half, srv_four), (srv_q75, srv_425)] f_half =
      Inr \<lparr>fi_coverage = f_half, fi_lower_quantile = srv_q25, fi_upper_quantile = srv_q75, fi_lower = srv_375, fi_upper = srv_425\<rparr>"
    by (simp add: fa_interval_def srv_levels fa_value_at_def srv_eq ForecastInterval_new_def srv_width quantile_level_field_def
        srv_finite srv_range schema_finite_def validate_ordering_def srv_order srv_near)
  have m: "\<not> f_lt FLOAT_TOLERANCE (f_abs (f_sub srv_four srv_four))" using srv_near(3) by (simp add: differs_def)
  show ?thesis
    using t i m
    by (simp add: fa_step_def sn_demo_request_def srv_near fa_value_at_def srv_eq ForecastQuantile_new_def quantile_level_field_def
        srv_finite srv_range schema_finite_def ForecastStep_new_def quantiles_are_unique_def srv_keys validate_distribution_def
        srv_order quantile_value_def srv_near_levels interval_matches_def srv_step_def)
qed

lemma srv_assembled:
  assumes "content_id_pattern i"
  shows "\<exists>rs. assemble_baseline_forecast_response sn_demo_env sn_demo_request (resolved_arg (srv_resolved i))
      (Inr (Inst (baseline_object 1 naive_forecaster))) (srv_identity i) = Inr rs \<and> rs_forecasts rs = [srv_step]"
proof -
  let ?pv = "\<lparr>pv_forecast_id = 7, pv_snapshot_id = i, pv_model_version = ''baseline-naive@1'', pv_series_basis = ''raw'',
     pv_feature_set_hash = i, pv_max_available_at = sn_demo_time + 60000000, pv_generated_at = sn_demo_time + 90000000000,
     pv_code_version = None, pv_data_sources = ri_data_sources (srv_resolved i),
     pv_lookahead_check = \<lparr>lc_status = ''passed'', lc_checked_at = sn_demo_time + 90000000000,
       lc_max_feature_available_at = sn_demo_time + 60000000, lc_violations = []\<rparr>\<rparr>"
  have m: "fa_max_available_at (ri_observations (srv_resolved i)) (ri_data_sources (srv_resolved i)) = sn_demo_time + 60000000"
    by (simp add: fa_max_available_at_def srv_resolved_def srv_snapshot_def)
  have v: "py_strip ''baseline-naive@1'' = ''baseline-naive@1''" "py_strip ''uncalibrated:baseline-naive@1'' = ''uncalibrated:baseline-naive@1''"
    "py_strip ''USD'' = ''USD''" "py_strip ''AAPL'' = ''AAPL''" "\<forall>c \<in> set ''USD''. is_upper c"
    by code_simp+
  have e: "pd_strip sn_demo_env = py_strip" by (simp add: sn_demo_env_def)
  have p: "fa_provenance sn_demo_env (resolved_arg (srv_resolved i)) (srv_identity i) (ri_data_sources (srv_resolved i))
      (sn_demo_time + 60000000) (sn_demo_time + 90000000000) = Inr ?pv"
    using hash_text [OF assms] v
    by (simp add: fa_provenance_def resolved_arg_def srv_resolved_def srv_identity_def LookaheadCheck_new_def schema_literal_def
        lookahead_statuses_def ForecastProvenance_new_def schema_str_def e forecast_series_bases_def)
  have hist: "map ob_value (ri_observations (srv_resolved i)) = srv_history"
    by (simp add: srv_resolved_def srv_snapshot_def srv_history_def)
  obtain rs where r: "fa_response sn_demo_env sn_demo_request (resolved_arg (srv_resolved i)) (srv_identity i)
      (sn_demo_time + 86400000000) [srv_step] ?pv = Inr rs" "rs_forecasts rs = [srv_step]"
    using v by (simp add: fa_response_def srv_identity_def ForecastCalibration_new_def schema_str_def e schema_literal_def
        calibration_methods_def validate_window_def calibration_buckets_def ForecastResponse_new_def sn_demo_request_def
        forecast_targets_def forecast_horizon_units_def resolved_arg_def srv_resolved_def currency_field_def
        validate_response_invariants_def srv_step_def Let_def)
  show ?thesis
    using srv_inputs [OF assms] srv_fit srv_predict srv_step p r m
    by (simp add: assemble_baseline_forecast_response_def hist)
qed


section \<open>The served row\<close>

lemma srv_snapshot_ok: "snapshot_ok srv_snapshot" "fields_within_limit srv_snapshot"
proof -
  have "header_ok srv_snapshot" "observations_ok (sp_target srv_snapshot) (sp_as_of srv_snapshot) (sp_observations srv_snapshot)"
    "times_ok (sp_as_of srv_snapshot) (sp_target_times srv_snapshot)" "sources_ok (sp_as_of srv_snapshot) (sp_data_sources srv_snapshot)"
    by code_simp+
  moreover have "content_id_pattern sn_demo_hash" "valid_instant (sn_demo_time + 86400000000)"
    "max (sn_max_available (sp_observations srv_snapshot) (sp_data_sources srv_snapshot)) (sp_as_of srv_snapshot)
      \<le> sn_demo_time + 86400000000" by code_simp+
  ultimately show "snapshot_ok srv_snapshot"
    unfolding snapshot_ok_def availability_ok_def by (simp add: srv_snapshot_def sn_demo_snapshot_def)
  show "fields_within_limit srv_snapshot" by code_simp
qed

lemma srv_normal: "sn_normalized_payload (Inst (snapshot_arg srv_snapshot)) = Inr srv_snapshot"
  using srv_snapshot_ok by (simp add: snapshot_arg_again)

definition srv_row :: "bytes \<Rightarrow> ForecastInputSnapshotRow" where
  "srv_row b = \<lparr>sw_snapshot_id = content_id b, sw_schema_version = 1, sw_resolution_policy_hash = sn_demo_hash,
     sw_symbol = ''AAPL'', sw_target = ''close'', sw_horizon_unit = ''trading_day'', sw_series_basis = ''raw'',
     sw_input_timespan = ''day'', sw_input_multiplier = 1, sw_as_of = sn_demo_time + 86400000000,
     sw_sealed_at = sn_demo_time + 90000000000, sw_currency = Some ''USD'', sw_observation_count = 3,
     sw_target_time_count = 2, sw_first_observed_at = sn_demo_time - 172800000000, sw_last_observed_at = sn_demo_time,
     sw_max_available_at = sn_demo_time + 60000000, sw_availability_status = ''passed'',
     sw_availability_rule_set_hash = Some sn_demo_hash,
     sw_availability_checked_at = Some (sn_demo_time + 86400000000), sw_canonical_payload = b\<rparr>"

lemma srv_built:
  assumes b: "canonical_snapshot_payload (Inst (snapshot_arg srv_snapshot)) = Inr b"
  shows "build_snapshot_record (Inst (snapshot_arg srv_snapshot)) (aware (sn_demo_time + 90000000000)) =
    Inr (record_from_row (srv_row b))"
proof -
  obtain bs where bs: "bind_res (sn_document srv_snapshot) canonical_json = Inr b" "length b \<le> sn_max_payload_bytes"
    using b srv_normal by (auto simp: canonical_snapshot_iff)
  have i: "snapshot_id_for_payload (PyBytes b) = Inr (content_id b)"
    using bs canonical_bytes_nonempty [OF srv_normal bs(1)] by (simp add: snapshot_id_for_payload_def sn_payload_bytes_def)
  have "valid_instant (sn_demo_time + 90000000000)" by code_simp
  moreover have "sp_as_of srv_snapshot = sn_demo_time + 86400000000"
    "sa_checked_at (sp_availability srv_snapshot) = Some (sn_demo_time + 86400000000)"
    "sn_max_available (sp_observations srv_snapshot) (sp_data_sources srv_snapshot) = sn_demo_time + 60000000"
    by (simp_all add: srv_snapshot_def sn_demo_snapshot_def sn_max_available_def)
  ultimately show ?thesis
    using b i by (simp add: build_snapshot_record_def srv_normal sn_utc_def)
      (simp add: srv_snapshot_def sn_demo_snapshot_def record_from_row_def srv_row_def opt_arg_def)
qed

lemma srv_resolves:
  assumes b: "canonical_snapshot_payload (Inst (snapshot_arg srv_snapshot)) = Inr b"
  shows "validate_and_resolve_snapshot sn_demo_env (Inst (record_from_row (srv_row b))) (Inst sn_demo_request) ''raw''
      (PyStr sn_demo_hash) ''day'' (PyInt 1) (PyStr sn_demo_hash) = Inr (srv_resolved (content_id b))"
proof -
  let ?e = "record_from_row (srv_row b)"
  have e: "build_snapshot_record (Inst (snapshot_arg srv_snapshot)) (aware (sn_demo_time + 90000000000)) = Inr ?e"
    by (rule srv_built [OF b])
  have sealed: "sr_sealed_at ?e = aware (sn_demo_time + 90000000000)" by (simp add: record_from_row_def srv_row_def)
  obtain i where i: "sn_verified_payload ?e = Inr (srv_snapshot, i)"
    using matching_snapshot_verifies [OF srv_normal, of ?e ?e] e sealed built_fields_same [OF e] by metis
  have "i = content_id b" using verified_header(1) [OF i] by (simp add: record_from_row_def srv_row_def)
  with i have i: "sn_verified_payload ?e = Inr (srv_snapshot, content_id b)" by simp
  have h: "sn_hash (PyStr sn_demo_hash) l = Inr sn_demo_hash" for l
  proof -
    have "content_id_pattern sn_demo_hash" by code_simp
    then show ?thesis by (simp add: sn_hash_def)
  qed
  have bd: "sn_bind_request srv_snapshot (content_id b) sn_demo_request ''raw'' sn_demo_hash ''day'' 1 = Inr ()"
    by (simp add: sn_bind_request_def srv_snapshot_def sn_demo_snapshot_def sn_demo_request_def)
  have "DataSourceLineage_new sn_demo_env \<lparr>dl_name = ''polygon'', dl_snapshot_id = ''bars'',
      dl_max_available_at = sn_demo_time + 60000000, dl_fields = [''close'', ''volume'']\<rparr>
    = Inr \<lparr>dl_name = ''polygon'', dl_snapshot_id = ''bars'',
      dl_max_available_at = sn_demo_time + 60000000, dl_fields = [''close'', ''volume'']\<rparr>" by code_simp
  then have r: "sn_resolved sn_demo_env srv_snapshot (content_id b) sn_demo_request True = Inr (srv_resolved (content_id b))"
    by (simp add: sn_resolved_def sn_demo_request_def srv_resolved_def) (simp add: srv_snapshot_def sn_demo_snapshot_def)
  have t: "availability_trusted srv_snapshot (Some sn_demo_hash)"
    by (simp add: availability_trusted_def srv_snapshot_def sn_demo_snapshot_def)
  show ?thesis
    using t by (simp add: validate_and_resolve_snapshot_def h i bd r sn_positive_integer_def forecast_series_bases_def
        sn_input_timespans_def)
qed

definition srv_process :: "bytes \<Rightarrow> ServingProcess" where
  "srv_process b = \<lparr>pr_rows = [srv_row b], pr_run_store = (\<lambda>_ _ _ _ _ _ produced. produced), pr_revision = NoRevision,
     pr_now = sn_demo_time + 90000000000, pr_uuid = 7\<rparr>"

definition srv_settings :: ServingSettings where
  "srv_settings = \<lparr>st_resolution_policy_hash = Some sn_demo_hash, st_availability_rule_set_hash = Some sn_demo_hash,
     st_adjusted_resolution_policy_hash = None, st_adjusted_availability_rule_set_hash = None,
     st_seasonal_period = 5, st_jwt_secret = ''secret''\<rparr>"

lemma srv_service:
  obtains b svc rs where "build_target_service (srv_process b) srv_settings ''close'' ''raw'' (sn_demo_hash, sn_demo_hash) None = Inr svc"
    and "svc_produce sn_demo_env svc sn_demo_request = Inr rs" and "rs_forecasts rs = [srv_step]"
proof -
  obtain b where b: "canonical_snapshot_payload (Inst (snapshot_arg srv_snapshot)) = Inr b"
    using srv_normal by (rule small_snapshot_encodes) (simp_all add: srv_snapshot_def sn_demo_snapshot_def sn_demo_int)
  have hash: "content_id_pattern sn_demo_hash" by code_simp
  let ?policy = "\<lparr>fp_resolution_policy_hash = sn_demo_hash, fp_trusted_availability_rule_set_hash = sn_demo_hash,
         fp_target = ''close'', fp_series_basis = ''raw'', fp_input_timespan = ''day'', fp_input_multiplier = 1,
         fp_seasonal_period = 5\<rparr>"
  let ?svc = "\<lparr>svc_repository = sql_snapshot_repository [srv_row b] (Some sn_demo_hash), svc_policy = ?policy,
           svc_clock = sn_demo_time + 90000000000, svc_id = 7, svc_code_version = None,
           svc_run_store = Some (\<lambda>_ _ _ produced. produced)\<rparr>"
  have s: "build_target_service (srv_process b) srv_settings ''close'' ''raw'' (sn_demo_hash, sn_demo_hash) None = Inr ?svc"
    using hash by (simp add: build_target_service_def srv_process_def srv_settings_def ForecastServingPolicy_new_def servable_basis_def)
  have sel: "snapshot_selected (svc_selector ?policy sn_demo_request ''raw'') (Some sn_demo_hash) (srv_row b)"
    by (simp add: snapshot_selected_def svc_selector_def sn_demo_request_def srv_row_def SNAPSHOT_SCHEMA_VERSION_def)
  have load: "svc_load_record (sql_snapshot_repository [srv_row b] (Some sn_demo_hash)) ?policy sn_demo_request ''raw'' =
      Inr (record_from_row (srv_row b))"
    using sel by (simp add: svc_load_record_def sql_snapshot_repository_def latest_snapshot_row_def sn_demo_request_def)
  have idn: "svc_identity ?svc (record_from_row (srv_row b)) (srv_resolved (content_id b)) ''baseline-naive@1'' = srv_identity (content_id b)"
    by (simp add: svc_identity_def srv_identity_def record_from_row_def srv_row_def text_of_def srv_resolved_def max_def)
  obtain rs where rs: "assemble_baseline_forecast_response sn_demo_env sn_demo_request (resolved_arg (srv_resolved (content_id b)))
      (Inr (Inst (baseline_object 1 naive_forecaster))) (srv_identity (content_id b)) = Inr rs" "rs_forecasts rs = [srv_step]"
    using srv_assembled [of "content_id b"] by auto
  have m: "svc_forecaster ?policy ''auto'' = Inr (Inr naive_forecaster)" "svc_model_version_for ?policy ''auto'' = Inr ''baseline-naive@1''"
    by (simp_all add: svc_forecaster_def svc_model_version_for_def naive_forecaster_def)
  have rq: "rq_horizon_unit sn_demo_request = ''trading_day''" "rq_target sn_demo_request = ''close''" "rq_model sn_demo_request = ''auto''"
    by (simp_all add: sn_demo_request_def)
  have v: "ri_availability_verified (srv_resolved (content_id b))" by (simp add: srv_resolved_def)
  have "svc_produce sn_demo_env ?svc sn_demo_request = Inr rs"
    using load srv_resolves [OF b] rs(1)
    by (simp add: svc_produce_def rq series_basis_for_def svc_resolve_record_def m idn v map_exn_def del: map_exn_Inr)
  from that [OF s this rs(2)] show ?thesis .
qed

theorem served_forecast_is_verified_witness:
  "\<exists>b svc rs. svc_produce sn_demo_env svc sn_demo_request = Inr rs \<and> rs_forecasts rs = [srv_step]
     \<and> rs_as_of rs = sw_as_of (srv_row b) \<and> lc_status (pv_lookahead_check (rs_provenance rs)) = ''passed''"
proof -
  obtain b svc rs where s: "build_target_service (srv_process b) srv_settings ''close'' ''raw'' (sn_demo_hash, sn_demo_hash) None = Inr svc"
    "svc_produce sn_demo_env svc sn_demo_request = Inr rs" "rs_forecasts rs = [srv_step]"
    by (rule srv_service)
  from served_forecast_is_verified [OF s(1,2)]
  have "rs_as_of rs = sw_as_of (srv_row b)" "lc_status (pv_lookahead_check (rs_provenance rs)) = ''passed''"
    by (auto simp: srv_process_def)
  with s show ?thesis by blast
qed

text \<open>The hash of the demonstration stands for the id of a stored snapshot.\<close>

lemma srv_response:
  obtains rs where "assemble_baseline_forecast_response sn_demo_env sn_demo_request (resolved_arg (srv_resolved sn_demo_hash))
      (Inr (Inst (baseline_object 1 naive_forecaster))) (srv_identity sn_demo_hash) = Inr rs" and "rs_forecasts rs = [srv_step]"
proof -
  have "content_id_pattern sn_demo_hash" by code_simp
  from srv_assembled [OF this] that show ?thesis by blast
qed

theorem assembled_response_is_point_in_time_witness:
  "\<exists>rs :: ForecastResponse. rs_forecasts rs = [srv_step] \<and> pv_max_available_at (rs_provenance rs) \<le> rs_as_of rs
     \<and> lc_status (pv_lookahead_check (rs_provenance rs)) = ''passed''"
proof -
  obtain rs where rs: "assemble_baseline_forecast_response sn_demo_env sn_demo_request (resolved_arg (srv_resolved sn_demo_hash))
      (Inr (Inst (baseline_object 1 naive_forecaster))) (srv_identity sn_demo_hash) = Inr rs" "rs_forecasts rs = [srv_step]"
    by (rule srv_response)
  have v: "ria_availability_verified (resolved_arg (srv_resolved sn_demo_hash)) = PyBool True"
    by (simp add: resolved_arg_def srv_resolved_def)
  from assembled_response_is_point_in_time [OF rs(1)]
  have "pv_max_available_at (rs_provenance rs) \<le> rs_as_of rs"
    "lc_status (pv_lookahead_check (rs_provenance rs)) = ''passed''" using v by simp_all
  with rs(2) show ?thesis by blast
qed

theorem assembled_distribution_is_ordered_witness:
  "sorted (map (\<lambda>q. fval (fq_value q)) (fs_quantiles srv_step)) \<and> 0 \<le> fval (fs_point srv_step)"
proof -
  obtain rs where rs: "assemble_baseline_forecast_response sn_demo_env sn_demo_request (resolved_arg (srv_resolved sn_demo_hash))
      (Inr (Inst (baseline_object 1 naive_forecaster))) (srv_identity sn_demo_hash) = Inr rs" "rs_forecasts rs = [srv_step]"
    by (rule srv_response)
  have "srv_step \<in> set (rs_forecasts rs)" "rq_target sn_demo_request \<in> fa_price_targets"
    by (simp_all add: rs(2) sn_demo_request_def fa_price_targets_def)
  with assembled_distribution_is_ordered [OF rs(1)] show ?thesis by blast
qed

theorem reported_values_are_predictions_witness:
  "\<exists>raw. fa_target_value ''close'' (raw ! 0) = Inr (fs_point srv_step) \<and> length raw = 1"
proof -
  obtain rs where rs: "assemble_baseline_forecast_response sn_demo_env sn_demo_request (resolved_arg (srv_resolved sn_demo_hash))
      (Inr (Inst (baseline_object 1 naive_forecaster))) (srv_identity sn_demo_hash) = Inr rs" "rs_forecasts rs = [srv_step]"
    by (rule srv_response)
  have "rq_target sn_demo_request = ''close''" by (simp add: sn_demo_request_def)
  with reported_values_are_predictions [OF rs(1)] rs(2) show ?thesis by fastforce
qed

end
