(* ===== verification/Etag.thy ===== *)
theory Etag
  imports Sha256 Text
begin

text \<open>
  \<open>app/core/etag.py\<close>: strong entity tags and the strict parser of \<open>If-None-Match\<close>.
  The outer loop of the parser is a \<open>partial_function\<close> over the position, as the code
  has it: the outer \<open>None\<close> would be a loop that never ends, the inner \<open>None\<close> is the
  header the parser rejects.
\<close>

section \<open>Entity tags\<close>

abbreviation dquote :: char where
  "dquote \<equiv> CHR 0x22"

definition strong_etag :: "bytes \<Rightarrow> string" where
  "strong_etag payload = dquote # sha256_hex payload @ [dquote]"

definition etag_char :: "char \<Rightarrow> bool" where
  "etag_char c \<longleftrightarrow> cp c = 33 \<or> (35 \<le> cp c \<and> cp c \<le> 126) \<or> 128 \<le> cp c"

text \<open>The length of the match of \<open>_ENTITY_TAG\<close> at the head of \<open>s\<close>.\<close>

definition entity_tag_length :: "string \<Rightarrow> nat option" where
  "entity_tag_length s =
     (let weak = (if startswith s ''W/'' then 2 else 0) in
      case drop weak s of
        [] \<Rightarrow> None
      | c # cs \<Rightarrow>
          if c \<noteq> dquote then None
          else case dropWhile etag_char cs of
                 [] \<Rightarrow> None
               | d # _ \<Rightarrow> if d = dquote then Some (weak + 2 + length (takeWhile etag_char cs)) else None)"

definition etag_blank :: "char \<Rightarrow> bool" where
  "etag_blank c \<longleftrightarrow> c = CHR '' '' \<or> c = CHR 0x09"

text \<open>\<open>while position < len(text) and text[position] in " \t": position += 1\<close>\<close>

definition skip_blanks :: "string \<Rightarrow> nat \<Rightarrow> nat" where
  "skip_blanks text position = position + length (takeWhile etag_blank (drop position text))"

partial_function (option) etag_loop :: "string \<Rightarrow> nat \<Rightarrow> string list \<Rightarrow> string list option option" where
  [code]: "etag_loop text position tags =
     (if length text \<le> position then Some (Some tags)
      else case entity_tag_length (drop position text) of
             None \<Rightarrow> Some None
           | Some n \<Rightarrow>
               (let tags' = tags @ [take n (drop position text)];
                    here = skip_blanks text (position + n)
                in if here = length text then Some (Some tags')
                   else if text ! here \<noteq> CHR '','' then Some None
                   else let after = skip_blanks text (here + 1)
                        in if after = length text then Some None else etag_loop text after tags'))"

definition parse_if_none_match :: "string \<Rightarrow> string list option option" where
  "parse_if_none_match value =
     (let text = py_strip value in
      if text = ''*'' then Some (Some [''*''])
      else if text = [] then Some None
      else etag_loop text 0 [])"

definition without_weak_prefix :: "string \<Rightarrow> string" where
  "without_weak_prefix etag =
     (let v = py_strip etag in
      if startswith v ''W/'' then dropWhile is_space (drop 2 v) else v)"

text \<open>The result is \<open>None\<close> only if the parser never returns.\<close>

definition if_none_match_matches :: "string option \<Rightarrow> string \<Rightarrow> bool option" where
  "if_none_match_matches value current_etag =
     (case value of
        None \<Rightarrow> Some False
      | Some header \<Rightarrow>
          (case parse_if_none_match header of
             None \<Rightarrow> None
           | Some None \<Rightarrow> Some False
           | Some (Some candidates) \<Rightarrow>
               Some (list_ex (\<lambda>candidate. candidate = ''*''
                 \<or> without_weak_prefix candidate = without_weak_prefix current_etag) candidates)))"

section \<open>Termination\<close>

lemma entity_tag_length_bounds:
  assumes "entity_tag_length s = Some n"
  shows "2 \<le> n" and "n \<le> length s"
proof -
  let ?w = "if startswith s ''W/'' then 2 else 0 :: nat"
  obtain c cs d ds where s: "drop ?w s = c # cs" "dropWhile etag_char cs = d # ds"
    and n: "n = ?w + 2 + length (takeWhile etag_char cs)"
    using assms unfolding entity_tag_length_def Let_def by (auto split: list.splits if_splits)
  have "length cs = length (takeWhile etag_char cs) + length (d # ds)"
    by (metis length_append s(2) takeWhile_dropWhile_id)
  moreover have "length s - ?w = Suc (length cs)" using arg_cong [OF s(1), of length] by simp
  ultimately show "2 \<le> n" "n \<le> length s" unfolding n by simp_all
qed

lemma skip_blanks_bounds:
  assumes "position \<le> length text"
  shows "position \<le> skip_blanks text position" and "skip_blanks text position \<le> length text"
  using assms length_takeWhile_le [of etag_blank "drop position text"] by (simp_all add: skip_blanks_def)

lemma etag_loop_returns: "\<exists>r. etag_loop text position tags = Some r"
proof (induction "length text - position" arbitrary: position tags rule: less_induct)
  case less
  show ?case
  proof (cases "length text \<le> position")
    case True
    then show ?thesis by (simp add: etag_loop.simps)
  next
    case False
    show ?thesis
    proof (cases "entity_tag_length (drop position text)")
      case None
      then show ?thesis using False by (simp add: etag_loop.simps)
    next
      case (Some n)
      let ?here = "skip_blanks text (position + n)" and ?tags = "tags @ [take n (drop position text)]"
      let ?after = "skip_blanks text (?here + 1)"
      have n: "position + n \<le> length text" "2 \<le> n" using entity_tag_length_bounds [OF Some] False by simp_all
      have here: "position < ?here" "?here \<le> length text" using skip_blanks_bounds [OF n(1)] n(2) by simp_all
      show ?thesis
      proof (cases "?here = length text")
        case True
        then show ?thesis using False Some by (simp add: etag_loop.simps)
      next
        case nl: False
        then have "?here + 1 \<le> length text" using here(2) by simp
        from skip_blanks_bounds [OF this] have "length text - ?after < length text - position"
          using here False by simp
        then obtain r where "etag_loop text ?after ?tags = Some r" using less by blast
        then show ?thesis using False Some by (subst etag_loop.simps) (simp add: Let_def)
      qed
    qed
  qed
qed

section \<open>Properties\<close>

text \<open>C37. Parsing an \<open>If-None-Match\<close> header returns for every header: each round of the loop
  consumes an entity tag of at least two characters, so the comparison always answers.\<close>

theorem if_none_match_answers: "\<exists>b. if_none_match_matches header_value current = Some b"
proof (cases header_value)
  case (Some header)
  obtain r where "etag_loop (py_strip header) 0 [] = Some r" using etag_loop_returns by blast
  then show ?thesis
    by (cases r) (auto simp: Some if_none_match_matches_def parse_if_none_match_def Let_def)
qed (auto simp: if_none_match_matches_def)

lemma etag_text:
  assumes "t = strong_etag b \<or> t = ''W/'' @ strong_etag b"
  shows "py_strip t = t" and "t \<noteq> [] \<and> t \<noteq> ''*''" and "without_weak_prefix t = strong_etag b"
    and "entity_tag_length t = Some (length t)"
proof -
  have hex: "c \<in> set (sha256_hex b) \<Longrightarrow> \<not> is_space c \<and> etag_char c \<and> c \<noteq> dquote" for c
    using sha256_hex_digits [of c b] by (auto simp: is_hex_lower_def is_digit_def is_space_def etag_char_def cp_def)
  have q: "\<not> is_space dquote" "\<not> is_space (CHR ''W'')" "\<not> etag_char dquote" by (simp_all add: is_space_def etag_char_def cp_def)
  have s: "py_strip (strong_etag b) = strong_etag b" "py_strip (''W/'' @ strong_etag b) = ''W/'' @ strong_etag b"
    using q by (simp_all add: py_strip_id strong_etag_def)
  have tw: "takeWhile etag_char (sha256_hex b @ [dquote]) = sha256_hex b" "dropWhile etag_char (sha256_hex b @ [dquote]) = [dquote]"
    using hex q by (simp_all add: takeWhile_append dropWhile_append)
  show "py_strip t = t" "t \<noteq> [] \<and> t \<noteq> ''*''" using assms s by (auto simp: strong_etag_def)
  show "without_weak_prefix t = strong_etag b"
    using assms s q by (auto simp: without_weak_prefix_def startswith_def strong_etag_def Let_def)
  show "entity_tag_length t = Some (length t)"
    using assms tw by (auto simp: entity_tag_length_def startswith_def strong_etag_def Let_def)
qed

lemma single_tag_parses:
  assumes "t = strong_etag b \<or> t = ''W/'' @ strong_etag b"
  shows "parse_if_none_match t = Some (Some [t])"
  using etag_text [OF assms] by (simp add: parse_if_none_match_def etag_loop.simps skip_blanks_def)

text \<open>Revalidation compares bytes: a client that returns the tag of a payload, strong or
  weakened by a proxy, is told that its copy is fresh exactly when the SHA-256 digest of
  the current payload is the one of its copy.\<close>

theorem revalidation_compares_digests:
  "if_none_match_matches (Some (strong_etag p)) (strong_etag q) = Some (sha256_hex p = sha256_hex q)
   \<and> if_none_match_matches (Some (''W/'' @ strong_etag p)) (strong_etag q) = Some (sha256_hex p = sha256_hex q)"
proof -
  have p: "strong_etag p \<noteq> ''*''" "''W/'' @ strong_etag p \<noteq> ''*''" by (simp_all add: strong_etag_def)
  have w: "without_weak_prefix (strong_etag p) = strong_etag p" "without_weak_prefix (''W/'' @ strong_etag p) = strong_etag p"
    "without_weak_prefix (strong_etag q) = strong_etag q"
    using etag_text(3) [of "strong_etag p" p] etag_text(3) [of "''W/'' @ strong_etag p" p] etag_text(3) [of "strong_etag q" q]
    by simp_all
  have e: "strong_etag p = strong_etag q \<longleftrightarrow> sha256_hex p = sha256_hex q" by (simp add: strong_etag_def)
  show ?thesis
    using single_tag_parses [of "strong_etag p" p] single_tag_parses [of "''W/'' @ strong_etag p" p] p w e
    by (simp add: if_none_match_matches_def)
qed

end
