(* ===== verification/ScopeGuard.thy ===== *)
theory ScopeGuard
  imports Text "HOL-Library.List_Lexorder" "HOL-Library.Char_ord"
begin

text \<open>
  \<open>ai_dispatcher/scope_guard.py\<close>: glob patterns, the output of \<open>git status\<close>, and the
  check that every changed path is inside the declared scope.  The regular expression
  of a glob is the list of its tokens; matching it anchored at both ends is the
  backtracking search \<open>glob_match\<close>.  A Python set of strings is the list of its
  elements without duplicates.
\<close>

section \<open>Splitting text\<close>

abbreviation backslash :: char where
  "backslash \<equiv> CHR 0x5C"

abbreviation newline :: char where
  "newline \<equiv> CHR 0x0A"

text \<open>\<open>str.splitlines()\<close>: its boundaries below 256; a carriage return takes a line feed with it.\<close>

definition line_break :: "char \<Rightarrow> bool" where
  "line_break c \<longleftrightarrow> cp c \<in> {10, 11, 12, 13, 28, 29, 30, 133}"

fun splitlines_from :: "string \<Rightarrow> string \<Rightarrow> string list" where
  "splitlines_from line [] = (if line = [] then [] else [line])"
| "splitlines_from line (c # cs) =
     (if line_break c
      then line # splitlines_from [] (if cp c = 13 \<and> cs \<noteq> [] \<and> hd cs = newline then tl cs else cs)
      else splitlines_from (line @ [c]) cs)"

definition splitlines :: "string \<Rightarrow> string list" where
  "splitlines s = splitlines_from [] s"

text \<open>The pieces of \<open>s\<close> between the characters that satisfy \<open>p\<close>.\<close>

fun split_chars :: "(char \<Rightarrow> bool) \<Rightarrow> string \<Rightarrow> string list" where
  "split_chars p [] = [[]]"
| "split_chars p (c # cs) =
     (if p c then [] # split_chars p cs
      else case split_chars p cs of [] \<Rightarrow> [[c]] | w # ws \<Rightarrow> (c # w) # ws)"

text \<open>\<open>text.split(sep, 1)[1]\<close> when \<open>sep in text\<close>: what follows the first occurrence.\<close>

fun after_first :: "string \<Rightarrow> string \<Rightarrow> string option" where
  "after_first sep [] = (if sep = [] then Some [] else None)"
| "after_first sep (c # cs) =
     (if startswith (c # cs) sep then Some (drop (length sep) (c # cs)) else after_first sep cs)"

definition contains :: "string \<Rightarrow> string \<Rightarrow> bool" where
  "contains s sep \<longleftrightarrow> after_first sep s \<noteq> None"

definition forward_slashes :: "string \<Rightarrow> string" where
  "forward_slashes s = map (\<lambda>c. if c = backslash then CHR ''/'' else c) s"

definition strip_quotes :: "string \<Rightarrow> string" where
  "strip_quotes s = rstrip_char (CHR 0x22) (lstrip_char (CHR 0x22) s)"

section \<open>Globs\<close>

datatype glob_token = AnyPath | AnyName | AnyChar | Literal char

text \<open>
  \<open>_glob_to_regex\<close>.  After \<open>re.escape\<close> of a text without backslashes, an escaped star
  or question mark is exactly one of the text, so the replacements tokenise it from the
  left, \<open>**\<close> before \<open>*\<close>.
\<close>

fun glob_tokens :: "string \<Rightarrow> glob_token list" where
  "glob_tokens [] = []"
| "glob_tokens [c] = [if c = CHR ''*'' then AnyName else if c = CHR ''?'' then AnyChar else Literal c]"
| "glob_tokens (c # d # cs) =
     (if c = CHR ''*'' \<and> d = CHR ''*'' then AnyPath # glob_tokens cs
      else (if c = CHR ''*'' then AnyName else if c = CHR ''?'' then AnyChar else Literal c) # glob_tokens (d # cs))"

definition glob_to_regex :: "string \<Rightarrow> glob_token list" where
  "glob_to_regex glob = glob_tokens (forward_slashes glob)"

definition name_char :: "char \<Rightarrow> bool" where
  "name_char c \<longleftrightarrow> c \<noteq> CHR ''/'' \<and> c \<noteq> newline"

text \<open>
  The search.  A star first tries to match nothing, then takes one more character and
  stays; the number of tokens and characters left decreases in every call.
\<close>

function glob_match :: "glob_token list \<Rightarrow> string \<Rightarrow> bool" where
  "glob_match [] s = (s = [])"
| "glob_match (Literal c # ts) s = (case s of [] \<Rightarrow> False | d # ds \<Rightarrow> d = c \<and> glob_match ts ds)"
| "glob_match (AnyChar # ts) s = (case s of [] \<Rightarrow> False | d # ds \<Rightarrow> name_char d \<and> glob_match ts ds)"
| "glob_match (AnyName # ts) s =
     (glob_match ts s \<or> (case s of [] \<Rightarrow> False | d # ds \<Rightarrow> name_char d \<and> glob_match (AnyName # ts) ds))"
| "glob_match (AnyPath # ts) s =
     (glob_match ts s \<or> (case s of [] \<Rightarrow> False | d # ds \<Rightarrow> d \<noteq> newline \<and> glob_match (AnyPath # ts) ds))"
  by pat_completeness auto
termination
  by (relation "measure (\<lambda>(ts, s). length ts + length s)") auto

definition matches_any :: "string \<Rightarrow> string list \<Rightarrow> bool" where
  "matches_any path globs = list_ex (\<lambda>g. glob_match (glob_to_regex g) (forward_slashes path)) globs"

section \<open>The output of \<open>git status --porcelain=v1\<close>\<close>

text \<open>One line: two status characters, a blank, a path.  \<open>None\<close> for a line that adds nothing.\<close>

definition status_path :: "string \<Rightarrow> string option" where
  "status_path raw =
     (if py_strip raw = [] \<or> length raw < 4 \<or> \<not> is_space (raw ! 2) \<or> newline \<in> set raw then None
      else
        let xy = take 2 raw;
            path = py_strip (drop 3 raw);
            path = (if (CHR ''R'' \<in> set xy \<or> CHR ''C'' \<in> set xy) \<and> contains path '' -> ''
                    then py_strip (the (after_first '' -> '' path)) else path);
            path = strip_quotes path
        in if path = [] then None else Some (forward_slashes path))"

definition parse_status_porcelain :: "string \<Rightarrow> string list" where
  "parse_status_porcelain text = remdups (List.map_filter status_path (splitlines text))"

section \<open>Scope\<close>

definition out_of_scope :: "string list \<Rightarrow> string list \<Rightarrow> string list" where
  "out_of_scope changed_paths allowed = sort (filter (\<lambda>p. \<not> matches_any p allowed) changed_paths)"

text \<open>
  \<open>re.split\<close> on runs of commas and blanks, without the empty pieces: splitting at each
  such character gives the same nonempty pieces.
\<close>

definition parse_scope_globs :: "string \<Rightarrow> string list" where
  "parse_scope_globs related_files_field =
     filter (\<lambda>t. t \<noteq> []) (map py_strip
       (split_chars (\<lambda>c. c = CHR '','' \<or> is_space c)
         (map (\<lambda>c. if c = CHR 0x60 then CHR '' '' else c) related_files_field)))"

section \<open>What a glob denotes\<close>

fun token_language :: "glob_token \<Rightarrow> string set" where
  "token_language (Literal c) = {[c]}"
| "token_language AnyChar = {[c] | c. name_char c}"
| "token_language AnyName = {s. list_all name_char s}"
| "token_language AnyPath = {s. newline \<notin> set s}"

fun glob_language :: "glob_token list \<Rightarrow> string set" where
  "glob_language [] = {[]}"
| "glob_language (t # ts) = {a @ b | a b. a \<in> token_language t \<and> b \<in> glob_language ts}"

lemma star_language:
  assumes "\<And>s. s \<in> L \<longleftrightarrow> list_all p s"
  shows "(\<exists>a b. s = a @ b \<and> a \<in> L \<and> b \<in> B) \<longleftrightarrow>
    s \<in> B \<or> (case s of [] \<Rightarrow> False | d # ds \<Rightarrow> p d \<and> (\<exists>a b. ds = a @ b \<and> a \<in> L \<and> b \<in> B))"
proof
  assume "\<exists>a b. s = a @ b \<and> a \<in> L \<and> b \<in> B"
  then obtain a b where "s = a @ b" "list_all p a" "b \<in> B" using assms by blast
  then show "s \<in> B \<or> (case s of [] \<Rightarrow> False | d # ds \<Rightarrow> p d \<and> (\<exists>a b. ds = a @ b \<and> a \<in> L \<and> b \<in> B))"
    by (cases a) (auto simp: assms)
next
  assume "s \<in> B \<or> (case s of [] \<Rightarrow> False | d # ds \<Rightarrow> p d \<and> (\<exists>a b. ds = a @ b \<and> a \<in> L \<and> b \<in> B))"
  then show "\<exists>a b. s = a @ b \<and> a \<in> L \<and> b \<in> B"
  proof
    assume "s \<in> B"
    then show ?thesis by (intro exI [of _ "[]"] exI [of _ s]) (simp add: assms)
  next
    assume "case s of [] \<Rightarrow> False | d # ds \<Rightarrow> p d \<and> (\<exists>a b. ds = a @ b \<and> a \<in> L \<and> b \<in> B)"
    then obtain d a b where "s = d # a @ b" "p d" "a \<in> L" "b \<in> B" by (auto split: list.splits)
    then show ?thesis by (intro exI [of _ "d # a"] exI [of _ b]) (simp add: assms)
  qed
qed

lemma glob_match_language: "glob_match ts s \<longleftrightarrow> s \<in> glob_language ts"
proof (induction ts s rule: glob_match.induct)
  case (3 ts s)
  have "d # ds \<in> glob_language (AnyChar # ts)" if "name_char d" "ds \<in> glob_language ts" for d ds
    unfolding glob_language.simps mem_Collect_eq
    by (rule exI [of _ "[d]"], rule exI [of _ ds]) (use that in simp)
  then have "s \<in> glob_language (AnyChar # ts) \<longleftrightarrow>
      (case s of [] \<Rightarrow> False | d # ds \<Rightarrow> name_char d \<and> ds \<in> glob_language ts)"
    by (cases s) auto
  then show ?case using 3 by (simp del: glob_language.simps split: list.splits)
next
  case (4 ts s)
  have "s \<in> glob_language (AnyName # ts) \<longleftrightarrow>
      (\<exists>a b. s = a @ b \<and> a \<in> token_language AnyName \<and> b \<in> glob_language ts)"
    by simp
  also have "\<dots> \<longleftrightarrow> s \<in> glob_language ts
      \<or> (case s of [] \<Rightarrow> False | d # ds \<Rightarrow> name_char d \<and> ds \<in> glob_language (AnyName # ts))"
    unfolding glob_language.simps mem_Collect_eq by (rule star_language) simp
  finally show ?case using 4 by (simp del: glob_language.simps split: list.splits)
next
  case (5 ts s)
  have "s \<in> glob_language (AnyPath # ts) \<longleftrightarrow>
      (\<exists>a b. s = a @ b \<and> a \<in> token_language AnyPath \<and> b \<in> glob_language ts)"
    by simp
  also have "\<dots> \<longleftrightarrow> s \<in> glob_language ts
      \<or> (case s of [] \<Rightarrow> False | d # ds \<Rightarrow> d \<noteq> newline \<and> ds \<in> glob_language (AnyPath # ts))"
    unfolding glob_language.simps mem_Collect_eq by (rule star_language) (auto simp: list_all_iff)
  finally show ?case using 5 by (simp del: glob_language.simps split: list.splits)
qed (auto split: list.splits)


end
