(* ===== verification/DispatchText.thy ===== *)
theory DispatchText
  imports ScopeGuard Prelude Sha256
begin

text \<open>
  The texts the dispatcher reads: decision markers at the tail of a model's answer
  (\<open>ai_dispatcher/agents/base.py\<close>), handoff packets (\<open>packets.py\<close>) and the task brief
  (\<open>tasks.py\<close>).  A dict is the list of its insertions; the last one of a key counts.
\<close>

section \<open>Lines\<close>

definition blank :: "char \<Rightarrow> bool" where
  "blank c \<longleftrightarrow> c = CHR '' '' \<or> c = CHR 0x09"

text \<open>The lines of a multiline pattern: \<open>^\<close> and \<open>$\<close> look at line feeds only.\<close>

definition match_lines :: "string \<Rightarrow> string list" where
  "match_lines text = split_chars (\<lambda>c. c = newline) text"

definition key_char :: "char \<Rightarrow> bool" where
  "key_char c \<longleftrightarrow> is_upper c \<or> is_digit c \<or> c = CHR ''_''"

text \<open>\<open>([A-Z][A-Z0-9_]*):\<close> at the head of a line: the key and what follows the colon.\<close>

definition key_colon :: "string \<Rightarrow> (string \<times> string) option" where
  "key_colon line =
     (let k = takeWhile key_char line in
      case dropWhile key_char line of
        c # rest \<Rightarrow> if c = CHR '':'' \<and> k \<noteq> [] \<and> is_upper (hd k) then Some (k, rest) else None
      | [] \<Rightarrow> None)"

definition last_value :: "(string \<times> string) list \<Rightarrow> string \<Rightarrow> string option" where
  "last_value fields key = map_of (rev fields) key"

section \<open>Decision markers\<close>

text \<open>\<open>^([A-Z][A-Z0-9_]*):[ \t]?(.*)$\<close>; the value is stripped, so the optional blank does not matter.\<close>

definition marker_line :: "string \<Rightarrow> (string \<times> string) option" where
  "marker_line line = map_option (\<lambda>(k, rest). (k, py_strip rest)) (key_colon line)"

definition marker_tail :: "nat \<Rightarrow> string \<Rightarrow> string list" where
  "marker_tail tail_lines text =
     (let non_empty = filter (\<lambda>line. py_strip line \<noteq> []) (splitlines text)
      in drop (length non_empty - tail_lines) non_empty)"

definition extract_markers :: "string \<Rightarrow> string list \<Rightarrow> (string \<times> string) list" where
  "extract_markers text names =
     filter (\<lambda>(k, _). k \<in> set names) (List.map_filter marker_line (marker_tail 8 text))"

definition marker :: "(string \<times> string) list \<Rightarrow> string \<Rightarrow> string" where
  "marker markers key = (case last_value markers key of None \<Rightarrow> [] | Some v \<Rightarrow> py_lower v)"

section \<open>Packets\<close>

text \<open>\<open>^-[ \t]+([A-Z][A-Z0-9_]*):[ \t]*(.*)$\<close>\<close>

definition field_line :: "string \<Rightarrow> (string \<times> string) option" where
  "field_line line =
     (case line of
        c # d # rest \<Rightarrow>
          if c = CHR ''-'' \<and> blank d
          then map_option (\<lambda>(k, v). (k, py_strip v)) (key_colon (dropWhile blank rest)) else None
      | _ \<Rightarrow> None)"

definition parse_fields :: "string \<Rightarrow> (string \<times> string) list" where
  "parse_fields text = List.map_filter field_line (match_lines text)"

definition field :: "(string \<times> string) list \<Rightarrow> string \<Rightarrow> string" where
  "field fields key = (case last_value fields key of None \<Rightarrow> [] | Some v \<Rightarrow> v)"

text \<open>\<open>\w\<close> below 256.\<close>

definition word_char :: "char \<Rightarrow> bool" where
  "word_char c \<longleftrightarrow> is_upper c \<or> is_lower c \<or> is_digit c \<or> c = CHR ''_''
     \<or> cp c \<in> {170, 178, 179, 181, 185, 186, 188, 189, 190} \<or> (192 \<le> cp c \<and> cp c \<noteq> 215 \<and> cp c \<noteq> 247)"

text \<open>\<open>\bWORD\b\<close> somewhere in the text; \<open>inside\<close> says that the character before is a word character.\<close>

fun has_word :: "string \<Rightarrow> bool \<Rightarrow> string \<Rightarrow> bool" where
  "has_word w inside [] = False"
| "has_word w inside (c # cs) =
     ((\<not> inside \<and> startswith (c # cs) w \<and> (case drop (length w) (c # cs) of [] \<Rightarrow> True | d # _ \<Rightarrow> \<not> word_char d))
      \<or> has_word w (word_char c) cs)"

text \<open>\<open><[^>]+>\<close> somewhere in the text.\<close>

fun has_tag :: "string \<Rightarrow> bool" where
  "has_tag [] = False"
| "has_tag (c # cs) =
     ((c = CHR ''<'' \<and> cs \<noteq> [] \<and> hd cs \<noteq> CHR ''>'' \<and> CHR ''>'' \<in> set cs) \<or> has_tag cs)"

definition has_placeholder :: "string \<Rightarrow> bool" where
  "has_placeholder v \<longleftrightarrow> has_tag v \<or> has_word ''TODO'' False v \<or> has_word ''FIXME'' False v \<or> has_word ''TBD'' False v"

definition required_header :: "string list" where
  "required_header = [''DISPATCH_ID'', ''AUTHOR'', ''TIMESTAMP'', ''RELATED_FILES'', ''STATUS'']"

definition required_footer :: "string list" where
  "required_footer = [''HANDOFF_STATUS'', ''DISPATCH_ID'', ''NEXT_ROLE'', ''EXIT_CODE'']"

definition header_problem :: "(string \<times> string) list \<Rightarrow> string \<Rightarrow> string option" where
  "header_problem fields key =
     (if field fields key = [] then Some (''missing or empty header field: '' @ key)
      else if has_placeholder (field fields key)
           then Some (''header field '' @ key @ '' still holds a placeholder: '' @ py_repr (field fields key))
      else None)"

definition footer_problem :: "(string \<times> string) list \<Rightarrow> string \<Rightarrow> string option" where
  "footer_problem fields key =
     (if last_value fields key = None then Some (''missing machine-footer field: '' @ key) else None)"

text \<open>\<open>str.isdigit\<close> below 256 also holds of the superscripts one, two and three.\<close>

definition isdigit_text :: "string \<Rightarrow> bool" where
  "isdigit_text s \<longleftrightarrow> s \<noteq> [] \<and> list_all (\<lambda>c. is_digit c \<or> cp c \<in> {178, 179, 185}) s"

definition packet_problems :: "string \<Rightarrow> string list" where
  "packet_problems text =
     (let fields = parse_fields text; exit_code = field fields ''EXIT_CODE'' in
      List.map_filter (header_problem fields) required_header
      @ List.map_filter (footer_problem fields) required_footer
      @ (if exit_code \<noteq> [] \<and> \<not> isdigit_text (lstrip_char (CHR ''-'') exit_code)
         then [''EXIT_CODE must be an integer, got '' @ py_repr exit_code] else []))"

text \<open>\<open>validate_packet\<close> of a file that may not exist.\<close>

definition validate_packet :: "string \<Rightarrow> string option \<Rightarrow> string list" where
  "validate_packet path text =
     (case text of None \<Rightarrow> [''packet not found: '' @ path] | Some t \<Rightarrow> packet_problems t)"

text \<open>\<open>_escape_packet_field_lines\<close>: free text cannot pass for a field.\<close>

fun join_lines :: "string list \<Rightarrow> string" where
  "join_lines [] = []"
| "join_lines [l] = l"
| "join_lines (l # ls) = l @ newline # join_lines ls"

definition escape_packet_field_lines :: "string \<Rightarrow> string" where
  "escape_packet_field_lines text =
     join_lines (map (\<lambda>line. if field_line line = None then line else ''> '' @ line) (splitlines text))"

section \<open>The task brief\<close>

record Task =
  tk_task_id :: string
  tk_title :: string
  tk_body :: string
  tk_status :: string

definition tk_armed :: "Task \<Rightarrow> bool" where
  "tk_armed t \<longleftrightarrow> py_lower (tk_status t) = ''armed''"

definition id_start :: "char \<Rightarrow> bool" where
  "id_start c \<longleftrightarrow> is_upper c \<or> is_lower c \<or> is_digit c"

definition id_char :: "char \<Rightarrow> bool" where
  "id_char c \<longleftrightarrow> id_start c \<or> c \<in> {CHR ''_'', CHR ''.'', CHR ''-''}"

text \<open>
  The title is the shortest nonempty text before the trailing blanks; when only blanks
  follow the colon, backtracking leaves it the last of them.
\<close>

definition heading_title :: "string \<Rightarrow> string option" where
  "heading_title rest =
     (if rest = [] then None
      else let t = dropWhile blank rest
           in Some (if t = [] then [last rest] else rev (dropWhile blank (rev t))))"

definition heading :: "string \<Rightarrow> (string \<times> string) option" where
  "heading line =
     (if \<not> startswith line ''##'' \<or> drop 2 line = [] \<or> \<not> blank (hd (drop 2 line)) then None
      else
        let after_marks = dropWhile blank (drop 2 line);
            task_id = takeWhile id_char after_marks;
            after_id = dropWhile blank (dropWhile id_char after_marks)
        in if task_id = [] \<or> \<not> id_start (hd task_id) \<or> after_id = [] \<or> hd after_id \<noteq> CHR '':'' then None
           else map_option (\<lambda>title. (task_id, title)) (heading_title (tl after_id)))"

text \<open>\<open>^-[ \t]+STATUS:[ \t]*([A-Za-z_\-]+)\<close>, the first line that matches.\<close>

definition status_char :: "char \<Rightarrow> bool" where
  "status_char c \<longleftrightarrow> is_upper c \<or> is_lower c \<or> c = CHR ''_'' \<or> c = CHR ''-''"

definition status_line :: "string \<Rightarrow> string option" where
  "status_line line =
     (case line of
        c # d # rest \<Rightarrow>
          let t = dropWhile blank rest; v = takeWhile status_char (dropWhile blank (drop 7 t))
          in if c = CHR ''-'' \<and> blank d \<and> startswith t ''STATUS:'' \<and> v \<noteq> [] then Some v else None
      | _ \<Rightarrow> None)"

definition body_status :: "string \<Rightarrow> string" where
  "body_status body =
     (case List.map_filter status_line (match_lines body) of [] \<Rightarrow> ''unarmed'' | s # _ \<Rightarrow> py_lower s)"

definition flush_task :: "(string \<times> string) option \<Rightarrow> string list \<Rightarrow> Task list" where
  "flush_task current buffer =
     (case current of
        None \<Rightarrow> []
      | Some (task_id, title) \<Rightarrow>
          let body = py_strip (join_lines buffer)
          in [\<lparr>tk_task_id = task_id, tk_title = title, tk_body = body, tk_status = body_status body\<rparr>])"

fun tasks_loop :: "(string \<times> string) option \<Rightarrow> string list \<Rightarrow> string list \<Rightarrow> Task list" where
  "tasks_loop current buffer [] = flush_task current buffer"
| "tasks_loop current buffer (line # lines) =
     (case heading line of
        Some h \<Rightarrow> flush_task current buffer @ tasks_loop (Some h) [] lines
      | None \<Rightarrow> tasks_loop current (if current = None then buffer else buffer @ [line]) lines)"

definition parse_tasks :: "string \<Rightarrow> Task list" where
  "parse_tasks text = tasks_loop None [] (splitlines text)"

definition DEFAULT_SIZE_CEILING :: nat where
  "DEFAULT_SIZE_CEILING = 900000"

definition check_size :: "nat \<Rightarrow> string \<Rightarrow> unit res" where
  "check_size ceiling text =
     check (ceiling < length (utf8_encode text))
       (SelectionTooLargeError (''task brief is '' @ int_str (int (length (utf8_encode text))) @ '' bytes, over the ''
         @ int_str (int ceiling) @ ''-byte selection ceiling''))"

definition select_next :: "Task list \<Rightarrow> string list \<Rightarrow> Task option" where
  "select_next tasks done_ids = find (\<lambda>t. tk_armed t \<and> tk_task_id t \<notin> set done_ids) tasks"

end
