(* ===== verification/DispatchVerify.thy ===== *)
theory DispatchVerify
  imports Float64 ScopeGuard
begin

text \<open>
  \<open>ai_dispatcher/verify.py\<close>, with the command results of \<open>subprocess_utils.py\<close> and the
  configuration of \<open>config.py\<close>.  The runner is an external process: its answer may
  depend on everything that happened before, so it is a function of that history.
\<close>

section \<open>Commands\<close>

record CommandResult =
  cr_exit_code :: int
  cr_stdout :: string
  cr_stderr :: string
  cr_duration_s :: f64
  cr_timed_out :: bool
  cr_stalled :: bool

definition cr_ok :: "CommandResult \<Rightarrow> bool" where
  "cr_ok r \<longleftrightarrow> cr_exit_code r = 0 \<and> \<not> cr_timed_out r \<and> \<not> cr_stalled r"

type_synonym argv = "string list"

text \<open>
  What a dispatch does to the world, in order: a command it runs, a call of one of the
  agents, a correction packet it writes.  The answer of a command may depend on all that
  happened before.
\<close>

datatype call =
    Run argv
  | PlanCall nat
  | GateCall nat
  | ExecCall nat
  | ControlCall nat
  | Correction nat string

type_synonym trace = "call list"

type_synonym runner = "trace \<Rightarrow> argv \<Rightarrow> CommandResult"

section \<open>Configuration\<close>

definition DEFAULT_VERIFY_STEPS :: "(string \<times> argv) list" where
  "DEFAULT_VERIFY_STEPS =
     [(''ruff check'', [''uv'', ''run'', ''ruff'', ''check'', ''.'']),
      (''ruff format --check'', [''uv'', ''run'', ''ruff'', ''format'', ''--check'', ''.'']),
      (''mypy'', [''uv'', ''run'', ''mypy'']),
      (''pytest'', [''uv'', ''run'', ''pytest''])]"

definition DEFAULT_HIGH_RISK_GLOBS :: "string list" where
  "DEFAULT_HIGH_RISK_GLOBS =
     [''app/**'', ''data_sources/**'', ''ingestion/**'', ''ml/**'', ''migrations/**'', ''ai_dispatcher/**'',
      ''pyproject.toml'', ''uv.lock'', ''.github/**'', ''docker-compose.yml'', ''Dockerfile'', ''alembic.ini'']"

definition DEFAULT_NEVER_AUTOMERGE_GLOBS :: "string list" where
  "DEFAULT_NEVER_AUTOMERGE_GLOBS = [''ai_dispatcher/**'', ''.github/**'']"

text \<open>The fields a dispatch reads; the timeouts and the model names only go to the processes.\<close>

record DispatcherConfig =
  cfg_git :: argv
  cfg_gh :: argv
  max_plan_revisions :: int
  max_correction_rounds :: int
  max_consecutive_failures :: int
  seatbelt_interval :: int
  verify_steps :: "(string \<times> argv) list"
  high_risk_globs :: "string list"
  never_automerge_globs :: "string list"
  artifact_globs :: "string list"
  integration_ref :: string
  handoffs_dirname :: string

definition default_config :: DispatcherConfig where
  "default_config =
     \<lparr>cfg_git = [''git''], cfg_gh = [''gh''], max_plan_revisions = 2, max_correction_rounds = 1,
      max_consecutive_failures = 3, seatbelt_interval = 10, verify_steps = DEFAULT_VERIFY_STEPS,
      high_risk_globs = DEFAULT_HIGH_RISK_GLOBS, never_automerge_globs = DEFAULT_NEVER_AUTOMERGE_GLOBS,
      artifact_globs = [''ai_dispatcher/handoffs/**''], integration_ref = ''origin/main'',
      handoffs_dirname = ''ai_dispatcher/handoffs''\<rparr>"

section \<open>The gate\<close>

definition MIN_VERIFY_STEPS :: nat where
  "MIN_VERIFY_STEPS = 4"

record VerifyStepResult =
  vs_label :: string
  vs_exit_code :: int
  vs_duration_s :: f64
  vs_timed_out :: bool
  vs_stalled :: bool

definition vs_ok :: "VerifyStepResult \<Rightarrow> bool" where
  "vs_ok s \<longleftrightarrow> vs_exit_code s = 0 \<and> \<not> vs_timed_out s \<and> \<not> vs_stalled s"

record VerifyResult =
  vr_ok :: bool
  vr_steps_total :: nat
  vr_steps_run :: nat
  vr_failed_label :: "string option"
  vr_steps :: "VerifyStepResult list"

definition nat_text :: "nat \<Rightarrow> string" where
  "nat_text n = int_str (int n)"

definition vr_summary_line :: "VerifyResult \<Rightarrow> string" where
  "vr_summary_line r =
     (if vr_ok r then ''VERIFY OK: all '' @ nat_text (vr_steps_total r) @ '' verification step(s) passed.''
      else case vr_failed_label r of
             Some label \<Rightarrow> ''VERIFY FAIL: '' @ label
           | None \<Rightarrow> ''VERIFY FAIL: no steps ran'')"

text \<open>\<open>{duration:.0f}\<close> of a nonnegative finite duration: the nearest integer, ties to even.\<close>

definition seconds_text :: "f64 \<Rightarrow> string" where
  "seconds_text x =
     (let e = f_ex (f_idx x); m = f_man (f_idx x)
      in int_str (if 0 \<le> e then m * 2 ^ nat e else rhe m (2 ^ nat (- e))))"

definition verify_step :: "string \<Rightarrow> CommandResult \<Rightarrow> VerifyStepResult" where
  "verify_step label outcome =
     \<lparr>vs_label = label, vs_exit_code = cr_exit_code outcome, vs_duration_s = cr_duration_s outcome,
      vs_timed_out = cr_timed_out outcome, vs_stalled = cr_stalled outcome\<rparr>"

text \<open>
  The loop over the steps: \<open>n\<close> is \<open>len(steps)\<close>, \<open>earlier\<close> the commands that ran before
  (of any kind), \<open>results\<close> the steps that ran.  The result carries the log lines.
\<close>

fun verify_loop ::
  "runner \<Rightarrow> nat \<Rightarrow> trace \<Rightarrow> VerifyStepResult list \<Rightarrow> string list \<Rightarrow> (string \<times> argv) list
     \<Rightarrow> VerifyResult \<times> trace \<times> string list"
where
  "verify_loop runner n earlier results sink [] =
     (let result = \<lparr>vr_ok = True, vr_steps_total = n, vr_steps_run = length results,
        vr_failed_label = None, vr_steps = results\<rparr>
      in (result, earlier, sink @ [vr_summary_line result]))"
| "verify_loop runner n earlier results sink ((label, argv) # steps) =
     (let started = sink @ [''=== ['' @ nat_text (length results + 1) @ ''/'' @ nat_text n @ ''] '' @ label @ '' ==='' ];
          outcome = runner earlier argv;
          step = verify_step label outcome;
          results' = results @ [step]
      in if vs_ok step
         then verify_loop runner n (earlier @ [Run argv]) results'
                (started @ [''--- ok: '' @ label @ '' ('' @ seconds_text (vs_duration_s step) @ ''s) ---'']) steps
         else let result = \<lparr>vr_ok = False, vr_steps_total = n, vr_steps_run = length results',
                    vr_failed_label = Some label, vr_steps = results'\<rparr>
              in (result, earlier @ [Run argv],
                  started @ [''--- STEP FAILED: '' @ label @ '' (exit '' @ int_str (vs_exit_code step) @ '') ---'',
                             vr_summary_line result]))"

definition run_verify :: "DispatcherConfig \<Rightarrow> runner \<Rightarrow> trace \<Rightarrow> string list \<Rightarrow> VerifyResult \<times> trace \<times> string list" where
  "run_verify cfg runner earlier sink =
     verify_loop runner (length (verify_steps cfg)) earlier [] sink (verify_steps cfg)"

definition is_publishable :: "VerifyResult \<Rightarrow> bool" where
  "is_publishable r \<longleftrightarrow> vr_ok r \<and> vr_steps_run r = vr_steps_total r \<and> MIN_VERIFY_STEPS \<le> vr_steps_total r"

section \<open>The gate is exact\<close>

text \<open>The results of running the whole list one after the other.\<close>

fun all_outcomes :: "runner \<Rightarrow> trace \<Rightarrow> (string \<times> argv) list \<Rightarrow> VerifyStepResult list" where
  "all_outcomes runner earlier [] = []"
| "all_outcomes runner earlier ((label, argv) # steps) =
     verify_step label (runner earlier argv) # all_outcomes runner (earlier @ [Run argv]) steps"

lemma length_all_outcomes [simp]: "length (all_outcomes runner earlier steps) = length steps"
  by (induction runner earlier steps rule: all_outcomes.induct) simp_all

lemma verify_loop_green:
  assumes "\<forall>s \<in> set (all_outcomes runner earlier steps). vs_ok s"
  shows "\<exists>r sink'. verify_loop runner n earlier results sink steps = (r, earlier @ map (Run \<circ> snd) steps, sink') \<and> vr_ok r
    \<and> vr_steps_total r = n \<and> vr_steps_run r = length results + length steps \<and> vr_failed_label r = None
    \<and> vr_steps r = results @ all_outcomes runner earlier steps"
  using assms
proof (induction steps arbitrary: earlier results sink)
  case Nil
  then show ?case by (simp add: Let_def)
next
  case (Cons st steps)
  obtain label argv where st: "st = (label, argv)" by (cases st)
  have "\<forall>s \<in> set (all_outcomes runner (earlier @ [Run argv]) steps). vs_ok s" "vs_ok (verify_step label (runner earlier argv))"
    using Cons.prems by (simp_all add: st)
  then show ?case
    using Cons.IH [of "earlier @ [Run argv]" "results @ [verify_step label (runner earlier argv)]"
        "sink @ [''=== ['' @ nat_text (length results + 1) @ ''/'' @ nat_text n @ ''] '' @ label @ '' ==='',
          ''--- ok: '' @ label @ '' ('' @ seconds_text (vs_duration_s (verify_step label (runner earlier argv))) @ ''s) ---'']"]
    by (auto simp: st Let_def)
qed

lemma verify_loop_red:
  assumes "s \<in> set (all_outcomes runner earlier steps)" and "\<not> vs_ok s"
  shows "\<exists>r earlier2 sink' k. verify_loop runner n earlier results sink steps = (r, earlier2, sink') \<and> \<not> vr_ok r
    \<and> vr_steps_total r = n \<and> k < length steps \<and> earlier2 = earlier @ map (Run \<circ> snd) (take (Suc k) steps)
    \<and> vr_steps r = results @ take (Suc k) (all_outcomes runner earlier steps) \<and> vr_steps_run r = length results + Suc k
    \<and> vr_failed_label r = Some (fst (steps ! k)) \<and> \<not> vs_ok (all_outcomes runner earlier steps ! k)
    \<and> (\<forall>j < k. vs_ok (all_outcomes runner earlier steps ! j))"
  using assms(1)
proof (induction steps arbitrary: earlier results sink)
  case (Cons st steps)
  obtain label argv where st: "st = (label, argv)" by (cases st)
  let ?o = "verify_step label (runner earlier argv)"
  show ?case
  proof (cases "vs_ok ?o")
    case False
    then show ?thesis by (intro exI [where x = 0] exI conjI) (auto simp: st Let_def)
  next
    case True
    then have "s \<in> set (all_outcomes runner (earlier @ [Run argv]) steps)" using Cons.prems assms(2) by (auto simp: st)
    from Cons.IH [OF this, of "results @ [?o]"
        "sink @ [''=== ['' @ nat_text (length results + 1) @ ''/'' @ nat_text n @ ''] '' @ label @ '' ==='',
          ''--- ok: '' @ label @ '' ('' @ seconds_text (vs_duration_s ?o) @ ''s) ---'']"]
    obtain r earlier2 sink' k where k: "verify_loop runner n (earlier @ [Run argv]) (results @ [?o])
        (sink @ [''=== ['' @ nat_text (length results + 1) @ ''/'' @ nat_text n @ ''] '' @ label @ '' ==='',
          ''--- ok: '' @ label @ '' ('' @ seconds_text (vs_duration_s ?o) @ ''s) ---'']) steps = (r, earlier2, sink')" "\<not> vr_ok r"
      "vr_steps_total r = n" "k < length steps" "earlier2 = (earlier @ [Run argv]) @ map (Run \<circ> snd) (take (Suc k) steps)"
      "vr_steps r = (results @ [?o]) @ take (Suc k) (all_outcomes runner (earlier @ [Run argv]) steps)"
      "vr_steps_run r = length (results @ [?o]) + Suc k" "vr_failed_label r = Some (fst (steps ! k))"
      "\<not> vs_ok (all_outcomes runner (earlier @ [Run argv]) steps ! k)" "\<forall>j < k. vs_ok (all_outcomes runner (earlier @ [Run argv]) steps ! j)"
      by blast
    have "\<forall>j < Suc k. vs_ok ((?o # all_outcomes runner (earlier @ [Run argv]) steps) ! j)"
      using k(10) True by (auto simp: less_Suc_eq_0_disj)
    with k True show ?thesis
      by (intro exI [of _ r] exI [of _ earlier2] exI [of _ sink'] exI [of _ "Suc k"]) (simp add: st Let_def)
  qed
qed simp

end
