(* ===== verification/DispatchAgents.thy ===== *)
theory DispatchAgents
  imports DispatchText DispatchVerify Json
begin

text \<open>
  The agents of the dispatcher (\<open>ai_dispatcher/agents/\<close>) and the packets it renders and
  extracts (\<open>packets.py\<close>).  An agent is an external process: its outcome and the files
  it leaves are arguments, what the adapters make of them is modelled.
\<close>

section \<open>Python values of a JSON document\<close>

fun join_with :: "string \<Rightarrow> string list \<Rightarrow> string" where
  "join_with sep [] = []"
| "join_with sep [s] = s"
| "join_with sep (s # ss) = s @ sep @ join_with sep ss"

definition float_text :: "f64 \<Rightarrow> string" where
  "float_text x =
     (if f_isnan x then ''nan'' else if f_isinf x then (if f_isneg x then ''-inf'' else ''inf'') else f_repr x)"

fun json_repr :: "json \<Rightarrow> string" where
  "json_repr JNull = ''None''"
| "json_repr (JBool b) = (if b then ''True'' else ''False'')"
| "json_repr (JInt i) = int_str i"
| "json_repr (JFloat x) = float_text x"
| "json_repr (JStr s) = py_repr s"
| "json_repr (JArr xs) = ''['' @ join_with '', '' (map json_repr xs) @ '']''"
| "json_repr (JObj d) = ''{'' @ join_with '', '' (map (\<lambda>(k, v). py_repr k @ '': '' @ json_repr v) d) @ ''}''"

text \<open>\<open>str(value)\<close> and the truth value.\<close>

definition json_text :: "json \<Rightarrow> string" where
  "json_text j = (case j of JStr s \<Rightarrow> s | _ \<Rightarrow> json_repr j)"

definition json_true :: "json \<Rightarrow> bool" where
  "json_true j =
     (case j of JNull \<Rightarrow> False | JBool b \<Rightarrow> b | JInt i \<Rightarrow> i \<noteq> 0 | JFloat x \<Rightarrow> \<not> f_eq x f_zero
      | JStr s \<Rightarrow> s \<noteq> [] | JArr xs \<Rightarrow> xs \<noteq> [] | JObj d \<Rightarrow> d \<noteq> [])"

text \<open>\<open>str(data.get(key, ""))\<close>\<close>

definition get_text :: "(string \<times> json) list \<Rightarrow> string \<Rightarrow> string" where
  "get_text d key = (case dict_get d key of None \<Rightarrow> [] | Some j \<Rightarrow> json_text j)"

text \<open>\<open>json.loads(text)\<close>; \<open>Path.read_text\<close> reads the line ends of every platform as line feeds.\<close>

definition loads_text :: "string \<Rightarrow> json res" where
  "loads_text text = json_parse default_hooks text"

fun read_text :: "string \<Rightarrow> string" where
  "read_text [] = []"
| "read_text [c] = [if cp c = 13 then newline else c]"
| "read_text (c # d # cs) =
     (if cp c = 13 then (if d = newline then newline # read_text cs else newline # read_text (d # cs))
      else c # read_text (d # cs))"

lemma read_text_id: "\<forall>c \<in> set s. cp c \<noteq> 13 \<Longrightarrow> read_text s = s"
  by (induction s rule: read_text.induct) simp_all

lemma cp_newline: "cp newline = 10"
  by code_simp

lemma no_cr_read_text: "list_all (\<lambda>c. cp c \<noteq> 13) (read_text s)"
proof (induction s rule: read_text.induct)
  case (2 c)
  then show ?case by (cases "cp c = 13") (simp_all del: cp_simps add: cp_newline)
next
  case (3 c d cs)
  then show ?case
    by (cases "cp c = 13"; cases "d = newline") (simp_all del: cp_simps add: cp_newline)
qed simp

section \<open>Agent results\<close>

record AgentResult =
  ar_ok :: bool
  ar_text :: string
  ar_markers :: "(string \<times> string) list"
  ar_raw :: string
  ar_error :: "string option"

definition agent_failure :: "string \<Rightarrow> string \<Rightarrow> string \<Rightarrow> AgentResult" where
  "agent_failure text raw e = \<lparr>ar_ok = False, ar_text = text, ar_markers = [], ar_raw = raw, ar_error = Some e\<rparr>"

text \<open>\<open>ClaudeExecutor._invoke\<close>; the text of a \<open>JSONDecodeError\<close> is one constant.\<close>

definition claude_invoke :: "CommandResult \<Rightarrow> string list \<Rightarrow> AgentResult" where
  "claude_invoke outcome names =
     (let raw = cr_stdout outcome in
      if \<not> cr_ok outcome
      then agent_failure [] raw (''claude '' @
             (if cr_timed_out outcome then ''timeout'' else if cr_stalled outcome then ''stall'' else ''nonzero exit''))
      else case loads_text raw of
             Inl e \<Rightarrow> agent_failure [] raw ''bad JSON envelope: JSONDecodeError''
           | Inr (JObj envelope) \<Rightarrow>
               if (case dict_get envelope ''is_error'' of None \<Rightarrow> False | Some j \<Rightarrow> json_true j)
               then agent_failure [] raw ''claude reported is_error''
               else let text = get_text envelope ''result''
                    in \<lparr>ar_ok = True, ar_text = text, ar_markers = extract_markers text names, ar_raw = raw,
                        ar_error = None\<rparr>
           | Inr _ \<Rightarrow> agent_failure [] raw ''envelope is not an object'')"

definition plan_gate :: "CommandResult \<Rightarrow> AgentResult" where
  "plan_gate outcome = claude_invoke outcome [''GATE_VERDICT'']"

definition execute :: "CommandResult \<Rightarrow> AgentResult" where
  "execute outcome = claude_invoke outcome [''EXEC_STATUS'', ''EXEC_PACKET'']"

definition readiness_probe :: "CommandResult \<Rightarrow> bool" where
  "readiness_probe outcome =
     (let r = claude_invoke outcome [] in ar_ok r \<and> contains (py_lower (ar_text r)) ''ready'')"

text \<open>\<open>CodexAgent\<close>: \<open>last_message\<close> is the text of the output file, if the process left one.\<close>

definition codex_plan :: "CommandResult \<Rightarrow> string option \<Rightarrow> AgentResult" where
  "codex_plan outcome last_message =
     (let raw = cr_stdout outcome in
      if \<not> cr_ok outcome then agent_failure raw raw ''codex plan failed''
      else \<lparr>ar_ok = True, ar_text = (case last_message of None \<Rightarrow> raw | Some t \<Rightarrow> read_text t),
            ar_markers = [], ar_raw = raw, ar_error = None\<rparr>)"

definition load_json :: "string option \<Rightarrow> (string \<times> json) list option" where
  "load_json file =
     (case file of
        None \<Rightarrow> None
      | Some t \<Rightarrow> (case loads_text (read_text t) of Inr (JObj d) \<Rightarrow> Some d | _ \<Rightarrow> None))"

definition ACL_MARKERS :: "string list" where
  "ACL_MARKERS = [''permission denied'', ''access is denied'', ''sandbox'', ''operation not permitted'']"

definition codex_control ::
  "CommandResult \<Rightarrow> string option \<Rightarrow> AgentResult \<times> (string \<times> json) list option"
where
  "codex_control outcome out_message =
     (let raw = cr_stdout outcome;
          combined = py_lower (raw @ newline # cr_stderr outcome)
      in if \<not> cr_ok outcome
         then (if list_ex (contains combined) ACL_MARKERS
               then (agent_failure [] raw ''codex read-only sandbox denied'', None)
               else (agent_failure [] raw ''codex control failed'', None))
         else case load_json out_message of
                None \<Rightarrow> (agent_failure raw raw ''control JSON missing/invalid'', None)
              | Some verdict \<Rightarrow>
                  (\<lparr>ar_ok = True, ar_text = raw, ar_markers = [], ar_raw = raw, ar_error = None\<rparr>, Some verdict))"

section \<open>Packets of a model's answer\<close>

text \<open>
  \<open>_FENCE_RE\<close>.  \<open>fence_close\<close> reads the shortest content up to a line feed (or carriage
  return and line feed) and three backquotes.
\<close>

definition backquotes :: string where
  "backquotes = [CHR 0x60, CHR 0x60, CHR 0x60]"

definition skip_line_end :: "string \<Rightarrow> string option" where
  "skip_line_end s =
     (case s of
        [] \<Rightarrow> None
      | c # cs \<Rightarrow>
          if c = newline then Some cs
          else if cp c = 13 \<and> cs \<noteq> [] \<and> hd cs = newline then Some (tl cs) else None)"

definition at_close :: "string \<Rightarrow> string option" where
  "at_close s =
     (case skip_line_end s of
        None \<Rightarrow> None | Some r \<Rightarrow> if startswith r backquotes then Some (drop 3 r) else None)"

fun fence_close :: "string \<Rightarrow> (string \<times> string) option" where
  "fence_close [] = None"
| "fence_close (c # cs) =
     (case at_close (c # cs) of
        Some r \<Rightarrow> Some ([], r)
      | None \<Rightarrow> map_option (\<lambda>(t, r). (c # t, r)) (fence_close cs))"

definition fence_open :: "string \<Rightarrow> string option" where
  "fence_open s =
     (if startswith s backquotes
      then let r = drop 3 s;
               r = (if startswith (py_lower r) ''markdown'' then drop 8 r
                    else if startswith (py_lower r) ''md'' then drop 2 r else r)
           in skip_line_end (dropWhile blank r)
      else None)"

lemma length_skip_line_end: "skip_line_end s = Some r \<Longrightarrow> length r < length s"
  by (auto simp: skip_line_end_def split: list.splits if_splits)

lemma length_at_close: "at_close s = Some r \<Longrightarrow> length r < length s"
  by (auto simp: at_close_def split: option.splits if_splits dest: length_skip_line_end)

lemma length_fence_close: "fence_close s = Some (t, r) \<Longrightarrow> length r < length s"
  by (induction s arbitrary: t) (auto split: option.splits dest: length_at_close)

lemma length_fence_open: "fence_open s = Some r \<Longrightarrow> length r < length s"
  by (auto simp: fence_open_def Let_def split: if_splits dest!: length_skip_line_end
      intro: order.strict_trans1 [OF order.trans [OF length_dropWhile_le]]
      order.strict_trans2 [OF _ order.trans [OF length_dropWhile_le]])

function fences :: "string \<Rightarrow> string list" where
  "fences [] = []"
| "fences (c # cs) =
     (case (case fence_open (c # cs) of None \<Rightarrow> None | Some r \<Rightarrow> fence_close r) of
        None \<Rightarrow> fences cs
      | Some (t, r) \<Rightarrow> t # fences r)"
  by pat_completeness auto
termination
  by (relation "measure length")
    (auto split: option.splits dest!: length_fence_close length_fence_open)

definition from_first :: "string \<Rightarrow> string \<Rightarrow> string option" where
  "from_first sep s = map_option (\<lambda>r. sep @ r) (after_first sep s)"

definition packet_in :: "string \<Rightarrow> string \<Rightarrow> string \<Rightarrow> string option" where
  "packet_in packet_type dispatch_id candidate =
     (case from_first (''# '' @ packet_type) candidate of
        None \<Rightarrow> None
      | Some t \<Rightarrow>
          let packet = py_strip t
          in if last_value (parse_fields packet) ''DISPATCH_ID'' = Some dispatch_id
             then Some (packet @ [newline]) else None)"

definition extract_packet_markdown :: "string \<Rightarrow> string \<Rightarrow> string \<Rightarrow> string" where
  "extract_packet_markdown text packet_type dispatch_id =
     (case List.map_filter (packet_in packet_type dispatch_id) (map py_strip (fences text) @ [py_strip text]) of
        packet # _ \<Rightarrow> packet
      | [] \<Rightarrow> py_strip text @ [newline])"

end
