(* ===== verification/DispatchLoop.thy ===== *)
theory DispatchLoop
  imports DispatchAgents
begin

text \<open>
  One bounded dispatch (\<open>ai_dispatcher/loop.py\<close>): preflight, plan and gate, then rounds of
  execution, verification and control.  The agents, git and the file system are an
  environment whose answers may depend on everything that happened before; the state that
  is passed on is that history and the log.  A prompt is represented by the number of its
  round: its text does not reach any decision.
\<close>

section \<open>The environment\<close>

record env =
  env_run :: runner
  env_plan :: "trace \<Rightarrow> CommandResult \<times> string option"
  env_gate :: "trace \<Rightarrow> CommandResult"
  env_exec :: "trace \<Rightarrow> CommandResult"
  env_exec_packet :: "trace \<Rightarrow> (string \<times> string) option"
  env_control :: "trace \<Rightarrow> CommandResult \<times> string option"
  env_timestamp :: "trace \<Rightarrow> string"

type_synonym dispatch_state = "trace \<times> string list"

section \<open>The task packet\<close>

text \<open>
  Titles have a dash beyond the range of the model's characters: it is the argument
  \<open>dash\<close>.
\<close>

definition id_pattern :: "string \<Rightarrow> bool" where
  "id_pattern s \<longleftrightarrow>
     (let t = (if s \<noteq> [] \<and> last s = newline then butlast s else s)
      in t \<noteq> [] \<and> id_start (hd t) \<and> list_all id_char t)"

definition packet_line :: "string \<Rightarrow> string \<Rightarrow> string" where
  "packet_line key v = ''- '' @ key @ '': '' @ v"

definition scaffold_packet :: "char \<Rightarrow> string \<Rightarrow> string \<Rightarrow> string \<Rightarrow> string \<Rightarrow> string res" where
  "scaffold_packet dash ts dispatch_id packet_type author =
     bind_res (check (\<not> id_pattern dispatch_id) (ValueError (''invalid dispatch id: '' @ py_repr dispatch_id))) (\<lambda>_.
     Inr (join_lines
       [''# '' @ packet_type @ '' '' @ dash # '' '' @ dispatch_id, [],
        packet_line ''DISPATCH_ID'' dispatch_id, packet_line ''AUTHOR'' author, packet_line ''TIMESTAMP'' ts,
        packet_line ''RELATED_FILES''
          (CHR 0x60 # ''<comma-separated repo-relative paths this packet concerns>'' @ [CHR 0x60]),
        packet_line ''STATUS'' ''draft'', [], ''## Goal'', [], ''<one-paragraph statement of the bounded task>'', [],
        ''## Scope'', [],
        ''MAY edit: '' @ CHR 0x60 # ''<glob>'' @ CHR 0x60 # '', '' @ CHR 0x60 # ''<glob>'' @ [CHR 0x60],
        ''MUST NOT edit: '' @ CHR 0x60 # ''<glob>'' @ [CHR 0x60], [],
        ''## Notes'', [], ''<planner/executor notes>'', [],
        ''<!-- machine-footer: filled on completion -->'', packet_line ''HANDOFF_STATUS'' ''DRAFT'',
        packet_line ''DISPATCH_ID'' dispatch_id,
        packet_line ''NEXT_ROLE'' (if packet_type = ''EXEC'' then ''CONTROLLER_AI'' else ''EXECUTOR_AI''),
        packet_line ''EXIT_CODE'' ''0'', []]))"

definition scope_delimiter :: "char \<Rightarrow> bool" where
  "scope_delimiter c \<longleftrightarrow> c = CHR 0x60 \<or> c = CHR '','' \<or> is_space c"

definition or_default :: "string \<Rightarrow> string \<Rightarrow> string" where
  "or_default s d = (if s = [] then d else s)"

definition field_or :: "(string \<times> string) list \<Rightarrow> string \<Rightarrow> string \<Rightarrow> string" where
  "field_or fs key d = (case last_value fs key of None \<Rightarrow> d | Some v \<Rightarrow> v)"

definition rendered_packet ::
  "char \<Rightarrow> string \<Rightarrow> string \<Rightarrow> string \<Rightarrow> string \<Rightarrow> string \<Rightarrow> string \<Rightarrow> string"
where
  "rendered_packet dash dispatch_id author timestamp related_inline goal notes =
     join_lines
       [''# TASK '' @ dash # '' '' @ dispatch_id, [],
        packet_line ''DISPATCH_ID'' dispatch_id, packet_line ''AUTHOR'' author,
        packet_line ''TIMESTAMP'' timestamp, packet_line ''RELATED_FILES'' related_inline,
        packet_line ''STATUS'' ''ready'', [], ''## Goal'', [], goal, [], ''## Scope'', [],
        ''MAY edit: '' @ related_inline,
        ''MUST NOT edit: any file outside the RELATED_FILES list.'', [],
        ''## Notes'', [], notes, [],
        ''<!-- machine-footer: filled on completion -->'', packet_line ''HANDOFF_STATUS'' ''COMPLETE'',
        packet_line ''DISPATCH_ID'' dispatch_id, packet_line ''NEXT_ROLE'' ''EXECUTOR_AI'',
        packet_line ''EXIT_CODE'' ''0'', []]"

definition render_task_packet_from_plan_json :: "char \<Rightarrow> string \<Rightarrow> string \<Rightarrow> string \<Rightarrow> string res" where
  "render_task_packet_from_plan_json dash plan_text scaffold now =
     (case loads_text plan_text of
        Inl e \<Rightarrow> Inl (ValueError ''invalid planner JSON: JSONDecodeError'')
      | Inr (JObj d) \<Rightarrow>
          (let fs = parse_fields scaffold; dispatch_id = py_strip (get_text d ''dispatch_id'') in
           bind_res (check (Some dispatch_id \<noteq> last_value fs ''DISPATCH_ID'')
             (ValueError ''planner JSON dispatch_id does not match scaffold'')) (\<lambda>_.
           case dict_get d ''related_files'' of
             Some (JArr related) \<Rightarrow>
               bind_res (check (related = [])
                 (ValueError ''planner JSON related_files must be a non-empty list'')) (\<lambda>_.
               let related_files = map (py_strip \<circ> json_text) related in
               bind_res (check ([] \<in> set related_files)
                 (ValueError ''planner JSON related_files cannot contain empty values'')) (\<lambda>_.
               bind_res (check (list_ex (list_ex scope_delimiter) related_files)
                 (ValueError ''planner JSON related_files entries must be single scope tokens'')) (\<lambda>_.
               let goal = py_strip (get_text d ''goal'') in
               bind_res (check (goal = []) (ValueError ''planner JSON goal cannot be empty'')) (\<lambda>_.
               let notes = or_default (py_strip (get_text d ''notes'')) ''No additional notes.''
               in Inr (rendered_packet dash dispatch_id (field_or fs ''AUTHOR'' ''planner:codex'')
                    (field_or fs ''TIMESTAMP'' now)
                    (join_with '', '' (map (\<lambda>f. CHR 0x60 # f @ [CHR 0x60]) related_files))
                    (escape_packet_field_lines goal) (escape_packet_field_lines notes))))))
           | _ \<Rightarrow> Inl (ValueError ''planner JSON related_files must be a non-empty list'')))
      | Inr _ \<Rightarrow> Inl (ValueError ''planner JSON must be an object''))"

section \<open>Results\<close>

datatype DispatchStatus = Passed | Blocked | Failed

record DispatchResult =
  dr_dispatch_id :: string
  dr_status :: DispatchStatus
  dr_detail :: string
  dr_changed_files :: "string list"
  dr_verify :: "VerifyResult option"
  dr_control_verdict :: "(string \<times> json) list option"
  dr_scope_violations :: "string list"
  dr_rounds :: nat

definition publishable :: "DispatchResult \<Rightarrow> bool" where
  "publishable r \<longleftrightarrow> dr_status r = Passed"

definition result :: "Task \<Rightarrow> DispatchStatus \<Rightarrow> string \<Rightarrow> DispatchResult" where
  "result task status detail =
     \<lparr>dr_dispatch_id = tk_task_id task, dr_status = status, dr_detail = detail, dr_changed_files = [],
      dr_verify = None, dr_control_verdict = None, dr_scope_violations = [], dr_rounds = 0\<rparr>"

section \<open>Git\<close>

definition git_out :: "DispatcherConfig \<Rightarrow> env \<Rightarrow> string list \<Rightarrow> dispatch_state \<Rightarrow> string \<times> dispatch_state" where
  "git_out cfg env args st =
     (cr_stdout (env_run env (fst st) (cfg_git cfg @ args)), (fst st @ [Run (cfg_git cfg @ args)], snd st))"

definition git_status :: "DispatcherConfig \<Rightarrow> env \<Rightarrow> dispatch_state \<Rightarrow> string \<times> dispatch_state" where
  "git_status cfg env st = git_out cfg env [''status'', ''--porcelain=v1''] st"

definition py_split :: "string \<Rightarrow> string list" where
  "py_split s = filter (\<lambda>w. w \<noteq> []) (split_chars is_space s)"

definition preflight :: "DispatcherConfig \<Rightarrow> env \<Rightarrow> dispatch_state \<Rightarrow> string option \<times> dispatch_state" where
  "preflight cfg env st =
     (case git_status cfg env st of
        (status, st1) \<Rightarrow>
          if parse_status_porcelain status \<noteq> []
          then (Some ''working tree is dirty; start from a clean base'', st1)
          else case git_out cfg env [''rev-list'', ''--left-right'', ''--count'', integration_ref cfg @ ''...HEAD''] st1 of
                 (counts, st2) \<Rightarrow>
                   (if py_split counts = [] \<or> py_split counts = [''0'', ''0''] then None
                    else Some (''branch not synced with '' @ integration_ref cfg @ '' (rev-list: ''
                                 @ py_repr (py_strip counts) @ '')''), st2))"


section \<open>Plan and gate\<close>

text \<open>The rounds of \<open>range(max + 1)\<close>.\<close>

definition rounds :: "int \<Rightarrow> nat list" where
  "rounds limit = [0..<nat (limit + 1)]"

definition plan_packet_text :: "env \<Rightarrow> char \<Rightarrow> Task \<Rightarrow> string \<Rightarrow> trace \<Rightarrow> string \<Rightarrow> string" where
  "plan_packet_text env dash task task_packet tr plan_text =
     (case render_task_packet_from_plan_json dash plan_text (read_text task_packet) (env_timestamp env tr) of
        Inr packet_text \<Rightarrow> packet_text
      | Inl e \<Rightarrow> extract_packet_markdown plan_text ''TASK'' (tk_task_id task))"

text \<open>
  One revision; \<open>task_packet\<close> is the text of the packet file.  The result is the one that
  ends the dispatch, the approved packet, or \<open>None\<close> when another revision is due; with it
  the text now in the file.
\<close>

definition plan_stage ::
  "DispatcherConfig \<Rightarrow> env \<Rightarrow> char \<Rightarrow> Task \<Rightarrow> string \<Rightarrow> nat \<Rightarrow> dispatch_state
     \<Rightarrow> (DispatchResult + string) option \<times> string \<times> dispatch_state"
where
  "plan_stage cfg env dash task task_packet revision st =
     (let plan = (case env_plan env (fst st) of (outcome, last_message) \<Rightarrow> codex_plan outcome last_message);
          tr1 = fst st @ [PlanCall revision]
      in if \<not> ar_ok plan
         then (Some (Inl (result task Failed (''plan failed: '' @ (case ar_error plan of None \<Rightarrow> ''None'' | Some e \<Rightarrow> e)))),
               task_packet, (tr1, snd st))
         else
           let packet_text = plan_packet_text env dash task task_packet tr1 (ar_text plan);
               problems = validate_packet (tk_task_id task) (Some (read_text packet_text))
           in if problems \<noteq> []
              then (if int revision < max_plan_revisions cfg then None
                    else Some (Inl (result task Failed (''invalid TASK packet: '' @ hd problems))),
                    packet_text, (tr1, snd st))
              else
                let gate = plan_gate (env_gate env tr1);
                    verdict = marker (ar_markers gate) ''GATE_VERDICT''
                in (if verdict = ''approve'' then Some (Inr packet_text)
                    else if verdict = ''block'' then Some (Inl (result task Blocked ''plan gate blocked the task''))
                    else if verdict \<noteq> ''needs_changes'' \<or> max_plan_revisions cfg \<le> int revision
                    then Some (Inl (result task Failed ''plan gate did not approve''))
                    else None,
                    packet_text,
                    (tr1 @ [GateCall revision],
                     snd st @ [''plan-gate rev'' @ nat_text revision @ '': '' @ or_default verdict ''(none)''])))"

fun plan_loop ::
  "DispatcherConfig \<Rightarrow> env \<Rightarrow> char \<Rightarrow> Task \<Rightarrow> string \<Rightarrow> dispatch_state \<Rightarrow> nat list
     \<Rightarrow> (DispatchResult + string) \<times> dispatch_state"
where
  "plan_loop cfg env dash task task_packet st [] =
     (Inl (result task Failed ''plan revisions exhausted''), st)"
| "plan_loop cfg env dash task task_packet st (revision # revisions) =
     (case plan_stage cfg env dash task task_packet revision st of
        (Some r, _, st1) \<Rightarrow> (r, st1)
      | (None, packet_text, st1) \<Rightarrow> plan_loop cfg env dash task packet_text st1 revisions)"

definition plan_with_gate ::
  "DispatcherConfig \<Rightarrow> env \<Rightarrow> char \<Rightarrow> Task \<Rightarrow> string \<Rightarrow> dispatch_state \<Rightarrow> (DispatchResult + string) \<times> dispatch_state"
where
  "plan_with_gate cfg env dash task task_packet st =
     plan_loop cfg env dash task task_packet st (rounds (max_plan_revisions cfg))"

section \<open>Execution, verification, control\<close>

definition allowed_globs :: "DispatcherConfig \<Rightarrow> string \<Rightarrow> string list" where
  "allowed_globs cfg packet_text =
     parse_scope_globs (field (parse_fields (read_text packet_text)) ''RELATED_FILES'')
     @ [handoffs_dirname cfg @ ''/**'']"

text \<open>The newest EXEC packet of the dispatch: its name and text, if there is one.\<close>

definition latest_valid_exec_packet :: "(string \<times> string) option \<Rightarrow> string option" where
  "latest_valid_exec_packet packet =
     (case packet of
        None \<Rightarrow> None
      | Some (name, file) \<Rightarrow>
          let text = read_text file; fs = parse_fields text
          in if validate_packet name (Some text) \<noteq> [] then None
             else if last_value fs ''EXIT_CODE'' \<noteq> Some ''0'' then None
             else if py_upper (field fs ''HANDOFF_STATUS'') \<noteq> ''COMPLETE'' then None
             else Some name)"

text \<open>\<open>str(f) for f in verdict.get("required_fixes", []) or []\<close>\<close>

definition required_fixes :: "(string \<times> json) list \<Rightarrow> string list res" where
  "required_fixes verdict =
     (case dict_get verdict ''required_fixes'' of
        None \<Rightarrow> Inr []
      | Some j \<Rightarrow>
          if \<not> json_true j then Inr []
          else case j of
                 JArr xs \<Rightarrow> Inr (map json_text xs)
               | JStr s \<Rightarrow> Inr (map (\<lambda>c. [c]) s)
               | JObj d \<Rightarrow> Inr (map fst d)
               | _ \<Rightarrow> Inl (TypeErr ''object is not iterable''))"

text \<open>\<open>_write_correction\<close>: a new CORRECT packet, with the reason appended.\<close>

definition write_correction :: "env \<Rightarrow> char \<Rightarrow> Task \<Rightarrow> nat \<Rightarrow> string \<Rightarrow> dispatch_state \<Rightarrow> dispatch_state res" where
  "write_correction env dash task rnd reason st =
     bind_res (scaffold_packet dash (env_timestamp env (fst st)) (tk_task_id task) ''CORRECT'' ''controller:codex'') (\<lambda>text.
     Inr (fst st @ [Correction rnd (text @ join_lines [[], ''## Required fixes (round '' @ nat_text rnd @ '')'', [], reason, []])],
          snd st))"

text \<open>The git call of \<open>_review_bundle\<close>; what it prints goes into the prompt.\<close>

definition review_bundle :: "DispatcherConfig \<Rightarrow> string list \<Rightarrow> trace \<Rightarrow> trace" where
  "review_bundle cfg changed tr =
     (if changed = [] then tr
      else tr @ [Run (cfg_git cfg @ [''diff'', ''--no-ext-diff'', ''HEAD'', ''--''] @ changed)])"

definition steps_text :: "VerifyResult \<Rightarrow> string" where
  "steps_text r = ''verify gate not publishable (steps '' @ nat_text (vr_steps_run r) @ ''/''
     @ nat_text (vr_steps_total r) @ '', min '' @ nat_text MIN_VERIFY_STEPS @ '')''"

definition late_result ::
  "Task \<Rightarrow> DispatchStatus \<Rightarrow> string \<Rightarrow> string list \<Rightarrow> VerifyResult \<Rightarrow> (string \<times> json) list option \<Rightarrow> nat \<Rightarrow> DispatchResult"
where
  "late_result task status detail changed verify verdict rnd =
     (result task status detail)\<lparr>dr_changed_files := changed, dr_verify := Some verify,
        dr_control_verdict := verdict, dr_rounds := rnd\<rparr>"

text \<open>
  One round: the result that ends the dispatch, or \<open>None\<close> when a correction was written
  and the next round is due.  The three stages follow one another in the loop's body.
\<close>

definition control_stage ::
  "DispatcherConfig \<Rightarrow> env \<Rightarrow> char \<Rightarrow> Task \<Rightarrow> nat \<Rightarrow> string list \<Rightarrow> VerifyResult \<Rightarrow> dispatch_state
     \<Rightarrow> (DispatchResult option \<times> dispatch_state) res"
where
  "control_stage cfg env dash task rnd changed verify st =
     (let tr1 = review_bundle cfg changed (fst st);
          tr2 = tr1 @ [ControlCall rnd]
      in case (case env_control env tr1 of (outcome, out_message) \<Rightarrow> codex_control outcome out_message) of
           (control, None) \<Rightarrow>
             Inr (Some (late_result task Failed (''control failed: '' @ (case ar_error control of None \<Rightarrow> ''None'' | Some e \<Rightarrow> e))
               changed verify None rnd), (tr2, snd st))
         | (control, Some verdict) \<Rightarrow>
             let decision = py_lower (get_text verdict ''verdict'');
                 readiness = py_lower (get_text verdict ''commit_readiness'');
                 sink2 = snd st @ [''control round'' @ nat_text rnd @ '': '' @ or_default decision ''(none)'' @ ''/''
                                    @ or_default readiness ''(none)'']
             in if \<not> ar_ok control
                then Inr (Some (late_result task Failed (''control failed: '' @ (case ar_error control of None \<Rightarrow> ''None'' | Some e \<Rightarrow> e))
                       changed verify None rnd), (tr2, snd st))
                else if decision = ''pass'' \<and> readiness \<noteq> ''not_ready''
                then Inr (Some (late_result task Passed ''control passed'' changed verify (Some verdict) rnd), (tr2, sink2))
                else if decision = ''block''
                then Inr (Some (late_result task Blocked ''control blocked'' changed verify (Some verdict) rnd), (tr2, sink2))
                else if (decision = ''needs_changes'' \<or> decision = ''pass'') \<and> int rnd < max_correction_rounds cfg
                then bind_res (required_fixes verdict) (\<lambda>fixes.
                     bind_res (write_correction env dash task rnd
                       (or_default (join_with ''; '' fixes) ''see control review'') (tr2, sink2)) (\<lambda>st3. Inr (None, st3)))
                else Inr (Some (late_result task Failed ''control did not pass'' changed verify (Some verdict) rnd), (tr2, sink2)))"

definition verify_stage ::
  "DispatcherConfig \<Rightarrow> env \<Rightarrow> char \<Rightarrow> Task \<Rightarrow> string list \<Rightarrow> nat \<Rightarrow> dispatch_state
     \<Rightarrow> (DispatchResult option \<times> dispatch_state) res"
where
  "verify_stage cfg env dash task allowed rnd st =
     (case git_status cfg env st of
        (status_text, st1) \<Rightarrow>
          let changed = sort (parse_status_porcelain status_text);
              violations = out_of_scope changed allowed
          in if violations \<noteq> []
             then Inr (Some ((result task Failed ''scope violation'')\<lparr>dr_changed_files := changed,
                    dr_scope_violations := violations, dr_rounds := rnd\<rparr>), st1)
             else
               case run_verify cfg (env_run env) (fst st1) (snd st1) of
                 (verify, tr2, sink2) \<Rightarrow>
                   if \<not> vr_ok verify
                   then (if int rnd < max_correction_rounds cfg
                         then bind_res (write_correction env dash task rnd (vr_summary_line verify) (tr2, sink2))
                                (\<lambda>st3. Inr (None, st3))
                         else Inr (Some (late_result task Failed (vr_summary_line verify) changed verify None rnd), (tr2, sink2)))
                   else if \<not> is_publishable verify
                   then Inr (Some (late_result task Failed (steps_text verify) changed verify None rnd), (tr2, sink2))
                   else control_stage cfg env dash task rnd changed verify (tr2, sink2))"

definition exec_stage ::
  "DispatcherConfig \<Rightarrow> env \<Rightarrow> char \<Rightarrow> Task \<Rightarrow> string list \<Rightarrow> nat \<Rightarrow> dispatch_state
     \<Rightarrow> (DispatchResult option \<times> dispatch_state) res"
where
  "exec_stage cfg env dash task allowed rnd st =
     (let execution = execute (env_exec env (fst st));
          tr1 = fst st @ [ExecCall rnd];
          exec_status = marker (ar_markers execution) ''EXEC_STATUS'';
          exec_packet = (if exec_status = [] then latest_valid_exec_packet (env_exec_packet env tr1) else None)
      in if \<not> ar_ok execution
         then Inr (Some ((result task Failed (''executor failed: '' @ (case ar_error execution of None \<Rightarrow> ''None'' | Some e \<Rightarrow> e)))
                \<lparr>dr_rounds := rnd\<rparr>), (tr1, snd st))
         else if exec_status = ''executed'' then verify_stage cfg env dash task allowed rnd (tr1, snd st)
         else case exec_packet of
                Some name \<Rightarrow>
                  verify_stage cfg env dash task allowed rnd
                    (tr1, snd st @ [''executor status recovered from EXEC packet: '' @ name])
              | None \<Rightarrow>
                  Inr (Some ((result task Blocked (''executor reported '' @ or_default exec_status ''no status''))
                    \<lparr>dr_rounds := rnd\<rparr>), (tr1, snd st)))"

fun exec_loop ::
  "DispatcherConfig \<Rightarrow> env \<Rightarrow> char \<Rightarrow> Task \<Rightarrow> string list \<Rightarrow> dispatch_state \<Rightarrow> nat list
     \<Rightarrow> (DispatchResult \<times> dispatch_state) res"
where
  "exec_loop cfg env dash task allowed st [] =
     Inr (result task Failed ''correction rounds exhausted'', st)"
| "exec_loop cfg env dash task allowed st (rnd # rnds) =
     bind_res (exec_stage cfg env dash task allowed rnd st) (\<lambda>(r, st1).
     case r of
       Some r \<Rightarrow> Inr (r, st1)
     | None \<Rightarrow> exec_loop cfg env dash task allowed st1 rnds)"

definition execute_with_control ::
  "DispatcherConfig \<Rightarrow> env \<Rightarrow> char \<Rightarrow> Task \<Rightarrow> string \<Rightarrow> dispatch_state \<Rightarrow> (DispatchResult \<times> dispatch_state) res"
where
  "execute_with_control cfg env dash task packet_text st =
     exec_loop cfg env dash task (allowed_globs cfg packet_text) st (rounds (max_correction_rounds cfg))"

definition dispatch_run ::
  "DispatcherConfig \<Rightarrow> env \<Rightarrow> char \<Rightarrow> Task \<Rightarrow> dispatch_state \<Rightarrow> (DispatchResult \<times> dispatch_state) res"
where
  "dispatch_run cfg env dash task st =
     (case preflight cfg env st of
        (Some preflight_error, st1) \<Rightarrow> Inr (result task Failed preflight_error, st1)
      | (None, st1) \<Rightarrow>
          bind_res (scaffold_packet dash (env_timestamp env (fst st1)) (tk_task_id task) ''TASK'' ''planner:codex'') (\<lambda>task_packet.
          case plan_with_gate cfg env dash task task_packet st1 of
            (Inl planned, st2) \<Rightarrow> Inr (planned, st2)
          | (Inr packet_text, st2) \<Rightarrow> execute_with_control cfg env dash task packet_text st2))"

end
