(* ===== verification/DispatchPublish.thy ===== *)
theory DispatchPublish
  imports DispatchAgents PyObj IsoTime
begin

text \<open>
  Publishing a verified change (\<open>ai_dispatcher/publish.py\<close>): the authorization store,
  the decision, the git and gh commands that carry it out, and the log of merges.
\<close>

section \<open>Authorizations\<close>

record Authorization =
  au_auth_id :: string
  au_scope_globs :: "string list"
  au_max_merges :: int
  au_expires :: date
  au_granted_by :: string

definition au_covers :: "Authorization \<Rightarrow> string list \<Rightarrow> bool" where
  "au_covers a changed_files \<longleftrightarrow>
     changed_files \<noteq> [] \<and> list_all (\<lambda>f. matches_any f (au_scope_globs a)) changed_files"

definition au_expired :: "Authorization \<Rightarrow> date \<Rightarrow> bool" where
  "au_expired a today \<longleftrightarrow> au_expires a < today"

datatype PublishMode = ModeBranch | ModePr | ModeMain

datatype PublishAction = ActBranch | ActPr | ActMerge

record PublishDecision =
  pd_action :: PublishAction
  pd_reason :: string
  pd_auth_id :: "string option"

record PublishOutcome =
  po_action :: PublishAction
  po_ok :: bool
  po_detail :: string
  po_pr_url :: "string option"

definition classify_risk :: "string list \<Rightarrow> string list \<Rightarrow> string" where
  "classify_risk changed_files high_risk =
     (if list_ex (\<lambda>f. matches_any f high_risk) changed_files then ''high'' else ''low'')"

text \<open>\<open>_no_duplicate_keys\<close>, the hook of the store's parser.\<close>

fun no_duplicate_keys :: "(string \<times> json) list \<Rightarrow> (string \<times> json) list \<Rightarrow> json res" where
  "no_duplicate_keys done_pairs [] = Inr (JObj done_pairs)"
| "no_duplicate_keys done_pairs ((key, v) # pairs) =
     (if key \<in> set (map fst done_pairs) then Inl (ValueError (''duplicate key: '' @ py_repr key))
      else no_duplicate_keys (done_pairs @ [(key, v)]) pairs)"

definition auth_hooks :: json_hooks where
  "auth_hooks = default_hooks\<lparr>jh_object := no_duplicate_keys []\<rparr>"

text \<open>\<open>[A-Za-z0-9][A-Za-z0-9_.\-]*\<close> and \<open>[0-9]{4}-[0-9]{2}-[0-9]{2}\<close>, by \<open>fullmatch\<close>.\<close>

definition auth_id_pattern :: "string \<Rightarrow> bool" where
  "auth_id_pattern s \<longleftrightarrow> s \<noteq> [] \<and> id_start (hd s) \<and> list_all id_char (tl s)"

definition date_pattern :: "string \<Rightarrow> bool" where
  "date_pattern s \<longleftrightarrow> length s = 10 \<and> list_all is_digit (take 4 s) \<and> s ! 4 = CHR ''-''
     \<and> list_all is_digit (take 2 (drop 5 s)) \<and> s ! 7 = CHR ''-'' \<and> list_all is_digit (drop 8 s)"

definition scope_forbidden :: "char \<Rightarrow> bool" where
  "scope_forbidden c \<longleftrightarrow> c \<in> {CHR 0x60, CHR '','', CHR 0x27, CHR 0x22}"

text \<open>\<open>None\<close> for an item that makes the entry invalid.\<close>

definition scope_glob :: "json \<Rightarrow> string option" where
  "scope_glob item =
     (case item of
        JStr s \<Rightarrow>
          let glob = py_strip s
          in if glob = [] \<or> list_ex scope_forbidden glob \<or> list_ex is_space glob then None
             else if list_ex (\<lambda>seg. contains seg ''**'' \<and> seg \<noteq> ''**'') (split_chars (\<lambda>c. c = CHR ''/'') glob) then None
             else Some glob
      | _ \<Rightarrow> None)"

fun all_some :: "'a option list \<Rightarrow> 'a list option" where
  "all_some [] = Some []"
| "all_some (x # xs) = (case x of None \<Rightarrow> None | Some y \<Rightarrow> map_option (Cons y) (all_some xs))"

definition auth_keys :: "string list" where
  "auth_keys = [''id'', ''scope'', ''max_merges'', ''expires'', ''granted_by'']"

definition build_auth :: "json \<Rightarrow> Authorization option" where
  "build_auth entry =
     (case entry of
        JObj d \<Rightarrow>
          if set (map fst d) \<noteq> set auth_keys then None
          else (case (dict_get d ''id'', dict_get d ''scope'', dict_get d ''max_merges'', dict_get d ''expires'',
                      dict_get d ''granted_by'') of
                  (Some (JStr auth_id), Some (JArr scope), Some (JInt max_merges), Some (JStr expires_raw), Some (JStr granted_by)) \<Rightarrow>
                    if \<not> auth_id_pattern auth_id \<or> scope = [] then None
                    else (case all_some (map scope_glob scope) of
                            None \<Rightarrow> None
                          | Some globs \<Rightarrow>
                              if max_merges \<le> 0 \<or> \<not> date_pattern expires_raw then None
                              else (case iso_date expires_raw of
                                      None \<Rightarrow> None
                                    | Some expires \<Rightarrow>
                                        if py_strip granted_by = [] then None
                                        else Some \<lparr>au_auth_id = auth_id, au_scope_globs = globs, au_max_merges = max_merges,
                                               au_expires = expires, au_granted_by = py_strip granted_by\<rparr>))
                | _ \<Rightarrow> None)
      | _ \<Rightarrow> None)"

definition parse_authorizations :: "date \<Rightarrow> string \<Rightarrow> Authorization list" where
  "parse_authorizations today text =
     (case json_parse auth_hooks text of
        Inr (JObj doc) \<Rightarrow>
          if set (map fst doc) \<noteq> {''authorizations''} then []
          else (case dict_get doc ''authorizations'' of
                  Some (JArr entries) \<Rightarrow>
                    (case all_some (map build_auth entries) of
                       None \<Rightarrow> []
                     | Some auths \<Rightarrow> filter (\<lambda>a. \<not> au_expired a today) auths)
                | _ \<Rightarrow> [])
      | _ \<Rightarrow> [])"

section \<open>The decision\<close>

definition decision :: "PublishAction \<Rightarrow> string \<Rightarrow> string option \<Rightarrow> PublishDecision" where
  "decision action reason auth_id = \<lparr>pd_action = action, pd_reason = reason, pd_auth_id = auth_id\<rparr>"

definition decide_publish ::
  "DispatcherConfig \<Rightarrow> PublishMode \<Rightarrow> string list \<Rightarrow> Authorization list \<Rightarrow> (string \<Rightarrow> int) \<Rightarrow> PublishDecision"
where
  "decide_publish cfg mode changed_files authorizations used_counts =
     (if mode = ModeBranch then decision ActBranch ''branch mode: no remote publish'' None
      else if changed_files = [] then decision ActBranch ''no changes to publish'' None
      else if mode = ModePr then decision ActPr ''pr mode'' None
      else
        let reviewable = filter (\<lambda>f. \<not> matches_any f (artifact_globs cfg)) changed_files;
            protected_files = filter (\<lambda>f. matches_any f (never_automerge_globs cfg)) reviewable
        in if reviewable = [] then decision ActBranch ''no reviewable changes (only dispatcher artifacts)'' None
           else if protected_files \<noteq> []
           then decision ActPr (''protected path requires review: '' @ hd protected_files) None
           else
             case find (\<lambda>a. used_counts (au_auth_id a) < au_max_merges a \<and> au_covers a reviewable) authorizations of
               Some a \<Rightarrow> decision ActMerge (''authorized by '' @ au_auth_id a) (Some (au_auth_id a))
             | None \<Rightarrow> decision ActPr (''no covering authorization (risk='' @ classify_risk reviewable (high_risk_globs cfg)
                         @ ''); downgraded to PR'') None)"

section \<open>The log of merges\<close>

definition merge_row :: "string \<Rightarrow> string option" where
  "merge_row raw =
     (let line = py_strip raw
      in if line = [] then None
         else case loads_text line of
                Inr (JObj row) \<Rightarrow> (case dict_get row ''auth_id'' of Some (JStr a) \<Rightarrow> Some a | _ \<Rightarrow> None)
              | _ \<Rightarrow> None)"

text \<open>The count of every id; an id that does not occur has none.  \<open>None\<close>: there is no log.\<close>

definition merge_counts :: "string option \<Rightarrow> string \<Rightarrow> int" where
  "merge_counts file auth_id =
     (case file of
        None \<Rightarrow> 0
      | Some text \<Rightarrow> int (count_list (List.map_filter merge_row (splitlines (read_text text))) auth_id))"

text \<open>\<open>json.dumps\<close> with its default separators; what it escapes beyond ASCII.\<close>

definition ascii_char :: "char \<Rightarrow> string" where
  "ascii_char c = (if cp c < 127 then esc_char c else [CHR 0x5C, CHR ''u''] @ hex_fixed 4 (cp c))"

definition ascii_str :: "string \<Rightarrow> string" where
  "ascii_str s = CHR 0x22 # concat (map ascii_char s) @ [CHR 0x22]"

definition quoted :: "string \<Rightarrow> string" where
  "quoted s = CHR 0x22 # s @ [CHR 0x22]"

definition merge_line :: "string \<Rightarrow> string \<Rightarrow> string \<Rightarrow> string" where
  "merge_line auth_id dispatch_id sha =
     ''{'' @ quoted ''auth_id'' @ '': '' @ ascii_str auth_id @ '', '' @ quoted ''dispatch_id'' @ '': '' @ ascii_str dispatch_id
     @ '', '' @ quoted ''sha'' @ '': '' @ ascii_str sha @ ''}'' @ [newline]"

definition record_merge :: "string \<Rightarrow> string \<Rightarrow> string \<Rightarrow> string option \<Rightarrow> string option" where
  "record_merge auth_id dispatch_id sha file =
     Some ((case file of None \<Rightarrow> [] | Some text \<Rightarrow> text) @ merge_line auth_id dispatch_id sha)"

section \<open>The commands\<close>

definition pub_git :: "DispatcherConfig \<Rightarrow> runner \<Rightarrow> string list \<Rightarrow> trace \<Rightarrow> CommandResult \<times> trace" where
  "pub_git cfg runner args tr = (runner tr (cfg_git cfg @ args), tr @ [Run (cfg_git cfg @ args)])"

definition pub_gh :: "DispatcherConfig \<Rightarrow> runner \<Rightarrow> string list \<Rightarrow> trace \<Rightarrow> CommandResult \<times> trace" where
  "pub_gh cfg runner args tr = (runner tr (cfg_gh cfg @ args), tr @ [Run (cfg_gh cfg @ args)])"

text \<open>The names \<open>git diff --cached --name-only\<close> prints.\<close>

definition staged_files :: "string \<Rightarrow> string list" where
  "staged_files out = map (\<lambda>l. strip_quotes (py_strip l)) (filter (\<lambda>l. py_strip l \<noteq> []) (splitlines out))"

definition list_text :: "string list \<Rightarrow> string" where
  "list_text xs = ''['' @ join_with '', '' (map py_repr xs) @ '']''"

definition commit_exact ::
  "DispatcherConfig \<Rightarrow> runner \<Rightarrow> string \<Rightarrow> string list \<Rightarrow> trace \<Rightarrow> (bool \<times> string) \<times> trace"
where
  "commit_exact cfg runner message expected tr =
     (case pub_git cfg runner [''add'', ''-A''] tr of
        (added, tr1) \<Rightarrow>
          if \<not> cr_ok added then ((False, ''git add failed''), tr1)
          else case pub_git cfg runner [''diff'', ''--cached'', ''--name-only''] tr1 of
            (staged, tr2) \<Rightarrow>
              let extra = filter (\<lambda>f. f \<notin> set expected) (staged_files (cr_stdout staged))
              in if expected \<noteq> [] \<and> extra \<noteq> []
                 then ((False, ''refusing to commit unauthorized files: '' @ list_text (sort (remdups extra))),
                       snd (pub_git cfg runner [''reset'', ''-q''] tr2))
                 else case pub_git cfg runner [''commit'', ''-m'', message] tr2 of
                   (committed, tr3) \<Rightarrow>
                     if cr_ok committed then ((True, ''committed''), tr3) else ((False, ''git commit failed''), tr3))"

definition outcome_of :: "PublishAction \<Rightarrow> bool \<Rightarrow> string \<Rightarrow> string option \<Rightarrow> PublishOutcome" where
  "outcome_of action success detail url = \<lparr>po_action = action, po_ok = success, po_detail = detail, po_pr_url = url\<rparr>"

definition open_pr ::
  "DispatcherConfig \<Rightarrow> runner \<Rightarrow> string \<Rightarrow> string \<Rightarrow> string \<Rightarrow> trace \<Rightarrow> PublishOutcome \<times> trace"
where
  "open_pr cfg runner branch title body tr =
     (case pub_git cfg runner [''push'', ''-u'', ''origin'', branch] tr of
        (push, tr1) \<Rightarrow>
          if \<not> cr_ok push then (outcome_of ActPr False ''push failed'' None, tr1)
          else case pub_gh cfg runner [''pr'', ''create'', ''--base'', ''main'', ''--head'', branch, ''--title'', title, ''--body'', body] tr1 of
            (created, tr2) \<Rightarrow>
              (outcome_of ActPr (cr_ok created) (if cr_ok created then ''opened PR'' else ''gh pr create failed'')
                 (if cr_ok created \<and> py_strip (cr_stdout created) \<noteq> []
                  then Some (last (splitlines (py_strip (cr_stdout created)))) else None), tr2))"

definition merge_to_main :: "DispatcherConfig \<Rightarrow> runner \<Rightarrow> string \<Rightarrow> trace \<Rightarrow> PublishOutcome \<times> trace" where
  "merge_to_main cfg runner branch tr =
     (case pub_git cfg runner [''fetch'', ''origin'', ''main''] tr of
        (r, tr1) \<Rightarrow>
          if \<not> cr_ok r then (outcome_of ActMerge False ''fetch failed'' None, tr1)
          else case pub_git cfg runner [''checkout'', ''main''] tr1 of
            (r, tr2) \<Rightarrow>
              if \<not> cr_ok r then (outcome_of ActMerge False ''checkout main failed'' None, tr2)
              else case pub_git cfg runner [''merge'', ''--ff-only'', branch] tr2 of
                (r, tr3) \<Rightarrow>
                  if \<not> cr_ok r then (outcome_of ActMerge False ''ff-only merge failed (main advanced?)'' None, tr3)
                  else case pub_git cfg runner [''push'', ''origin'', ''main''] tr3 of
                    (r, tr4) \<Rightarrow>
                      if \<not> cr_ok r
                      then (outcome_of ActMerge False ''push failed; reset to origin/main'' None,
                            snd (pub_git cfg runner [''reset'', ''--hard'', ''origin/main''] tr4))
                      else (outcome_of ActMerge True ''fast-forwarded and pushed origin/main'' None, tr4))"

text \<open>The test for an action that is none of the three has no counterpart: the type has three.\<close>

definition publish ::
  "DispatcherConfig \<Rightarrow> runner \<Rightarrow> PublishDecision \<Rightarrow> string \<Rightarrow> string \<Rightarrow> string \<Rightarrow> string \<Rightarrow> string list \<Rightarrow> trace
     \<Rightarrow> PublishOutcome \<times> trace"
where
  "publish cfg runner d branch commit_message title body changed_files tr =
     (case pub_git cfg runner [''checkout'', ''-b'', branch] tr of
        (created, tr1) \<Rightarrow>
          if \<not> cr_ok created
          then (outcome_of (pd_action d) False (''could not create branch '' @ branch) None, tr1)
          else case commit_exact cfg runner commit_message changed_files tr1 of
            ((committed, detail), tr2) \<Rightarrow>
              if \<not> committed then (outcome_of (pd_action d) False detail None, tr2)
              else (case pd_action d of
                      ActBranch \<Rightarrow> (outcome_of ActBranch True (''committed on '' @ branch @ '' (local only)'') None, tr2)
                    | ActPr \<Rightarrow> open_pr cfg runner branch title body tr2
                    | ActMerge \<Rightarrow> merge_to_main cfg runner branch tr2))"

end
