(* ===== verification/DispatchCli.thy ===== *)
theory DispatchCli
  imports DispatchLoop DispatchPublish
begin

text \<open>
  The sentinels (\<open>ai_dispatcher/sentinels.py\<close>) and the \<open>loop\<close> command (\<open>cli.py\<close>): the
  files an operator and the dispatcher share, one command over them, and the steps by
  which they change.  What the commands print is not modelled.
\<close>

section \<open>Sentinels\<close>

text \<open>\<open>None\<close> is a file that does not exist.\<close>

record ai_files =
  stop_sentinel :: bool
  halt_sentinel :: "string option"
  failure_counter :: "string option"
  seatbelt_counter :: "string option"
  merges_log :: "string option"
  authorizations_file :: "string option"
  tasks_file :: string

definition read_count :: "string option \<Rightarrow> int" where
  "read_count file =
     (case file of
        None \<Rightarrow> 0
      | Some path_text \<Rightarrow>
          if path_text = [] then 0
          else case loads_text path_text of
                 Inr (JObj d) \<Rightarrow>
                   (case dict_get d ''count'' of
                      Some (JInt i) \<Rightarrow> i | Some (JBool b) \<Rightarrow> (if b then 1 else 0) | _ \<Rightarrow> 0)
               | _ \<Rightarrow> 0)"

text \<open>\<open>json.dumps({"count": count})\<close>\<close>

definition count_text :: "int \<Rightarrow> string" where
  "count_text n = ''{'' @ quoted ''count'' @ '': '' @ int_str n @ ''}''"

record HaltState =
  hs_halted :: bool
  hs_reason :: "string option"

definition halt_state :: "ai_files \<Rightarrow> HaltState" where
  "halt_state fs =
     (case halt_sentinel fs of
        None \<Rightarrow> \<lparr>hs_halted = False, hs_reason = None\<rparr>
      | Some t \<Rightarrow> let reason = py_strip (read_text t)
                  in \<lparr>hs_halted = True, hs_reason = (if reason = [] then None else Some reason)\<rparr>)"

definition write_halt :: "string \<Rightarrow> ai_files \<Rightarrow> ai_files" where
  "write_halt reason fs = fs\<lparr>halt_sentinel := Some reason\<rparr>"

definition clear_halt :: "ai_files \<Rightarrow> ai_files" where
  "clear_halt fs = fs\<lparr>halt_sentinel := None\<rparr>"

definition consecutive_failures :: "ai_files \<Rightarrow> int" where
  "consecutive_failures fs = read_count (map_option read_text (failure_counter fs))"

definition bump_consecutive_failures :: "ai_files \<Rightarrow> ai_files" where
  "bump_consecutive_failures fs = fs\<lparr>failure_counter := Some (count_text (consecutive_failures fs + 1))\<rparr>"

definition reset_consecutive_failures :: "ai_files \<Rightarrow> ai_files" where
  "reset_consecutive_failures fs = fs\<lparr>failure_counter := Some (count_text 0)\<rparr>"

definition breaker_tripped :: "DispatcherConfig \<Rightarrow> ai_files \<Rightarrow> bool" where
  "breaker_tripped cfg fs \<longleftrightarrow>
     0 < max_consecutive_failures cfg \<and> max_consecutive_failures cfg \<le> consecutive_failures fs"

definition bump_seatbelt :: "ai_files \<Rightarrow> ai_files" where
  "bump_seatbelt fs =
     fs\<lparr>seatbelt_counter := Some (count_text (read_count (map_option read_text (seatbelt_counter fs)) + 1))\<rparr>"

definition seatbelt_due :: "DispatcherConfig \<Rightarrow> ai_files \<Rightarrow> bool" where
  "seatbelt_due cfg fs \<longleftrightarrow>
     0 < seatbelt_interval cfg \<and> seatbelt_interval cfg \<le> read_count (map_option read_text (seatbelt_counter fs))"

definition reset_seatbelt :: "ai_files \<Rightarrow> ai_files" where
  "reset_seatbelt fs = fs\<lparr>seatbelt_counter := Some (count_text 0)\<rparr>"

section \<open>Publishing a result\<close>

definition store_authorizations :: "date \<Rightarrow> ai_files \<Rightarrow> Authorization list" where
  "store_authorizations today fs =
     parse_authorizations today (case authorizations_file fs of None \<Rightarrow> [] | Some t \<Rightarrow> read_text t)"

definition publish_result ::
  "DispatcherConfig \<Rightarrow> runner \<Rightarrow> date \<Rightarrow> DispatchResult \<Rightarrow> PublishMode \<Rightarrow> ai_files \<Rightarrow> trace \<Rightarrow> int \<times> ai_files \<times> trace"
where
  "publish_result cfg runner today r mode fs tr =
     (let d = decide_publish cfg mode (dr_changed_files r) (store_authorizations today fs) (merge_counts (merges_log fs))
      in case publish cfg runner d (''ai-dispatch/'' @ dr_dispatch_id r)
                (''ai-dispatch '' @ dr_dispatch_id r @ '': '' @ dr_detail r)
                (''ai-dispatch '' @ dr_dispatch_id r) (dr_detail r) (dr_changed_files r) tr of
           (out, tr2) \<Rightarrow>
             (if po_ok out then 0 else 1,
              (case pd_auth_id d of
                 Some auth_id \<Rightarrow>
                   if po_action out = ActMerge \<and> po_ok out
                   then fs\<lparr>merges_log := record_merge auth_id (dr_dispatch_id r) [] (merges_log fs)\<rparr> else fs
               | None \<Rightarrow> fs),
              tr2))"

section \<open>The loop command\<close>

text \<open>
  The exit code, the files and the history, or the exception that ends the process; it
  leaves the files as they are.  \<open>mode\<close> is \<open>None\<close> for \<open>--publish none\<close>.
\<close>

definition cmd_loop ::
  "DispatcherConfig \<Rightarrow> env \<Rightarrow> char \<Rightarrow> date \<Rightarrow> string \<Rightarrow> PublishMode option \<Rightarrow> ai_files \<Rightarrow> trace
     \<Rightarrow> (int \<times> ai_files \<times> trace) res"
where
  "cmd_loop cfg env dash today task_id mode fs tr =
     (if stop_sentinel fs then Inr (2, fs, tr)
      else if hs_halted (halt_state fs) then Inr (2, fs, tr)
      else if breaker_tripped cfg fs then Inr (2, fs, tr)
      else
        let brief = read_text (tasks_file fs) in
        case check_size DEFAULT_SIZE_CEILING brief of
          Inl e \<Rightarrow> Inr (2, fs, tr)
        | Inr _ \<Rightarrow>
            (case find (\<lambda>t. tk_task_id t = task_id) (parse_tasks brief) of
               None \<Rightarrow> Inr (1, fs, tr)
             | Some task \<Rightarrow>
                 bind_res (dispatch_run cfg env dash task (tr, [])) (\<lambda>(r, tr1, _).
                 if dr_status r \<noteq> Passed then Inr (1, bump_consecutive_failures fs, tr1)
                 else
                   let fs1 = reset_consecutive_failures fs in
                   case mode of
                     None \<Rightarrow> Inr (0, fs1, tr1)
                   | Some m \<Rightarrow> Inr (publish_result cfg (env_run env) today r m fs1 tr1))))"

definition cmd_select :: "string \<Rightarrow> int \<times> Task option" where
  "cmd_select brief =
     (case select_next (parse_tasks (read_text brief)) [] of None \<Rightarrow> (1, None) | Some t \<Rightarrow> (0, Some t))"

section \<open>What changes the files\<close>

text \<open>
  A dispatcher run, which may raise, and the operator: the kill switch, the halt file,
  the brief.  The authorization store stays as it is.
\<close>

inductive operated :: "DispatcherConfig \<Rightarrow> char \<Rightarrow> ai_files \<Rightarrow> ai_files \<Rightarrow> bool" for cfg dash where
  ran_loop: "cmd_loop cfg env dash today task_id mode fs tr = Inr (code, fs2, tr2) \<Longrightarrow> operated cfg dash fs fs2"
| raised_loop: "cmd_loop cfg env dash today task_id mode fs tr = Inl e \<Longrightarrow> operated cfg dash fs fs"
| stop_switch: "operated cfg dash fs (fs\<lparr>stop_sentinel := b\<rparr>)"
| halt_written: "operated cfg dash fs (write_halt reason fs)"
| halt_cleared: "operated cfg dash fs (clear_halt fs)"
| seatbelt_bumped: "operated cfg dash fs (bump_seatbelt fs)"
| seatbelt_reset: "operated cfg dash fs (reset_seatbelt fs)"
| brief_edited: "operated cfg dash fs (fs\<lparr>tasks_file := brief\<rparr>)"

inductive reachable :: "DispatcherConfig \<Rightarrow> char \<Rightarrow> ai_files \<Rightarrow> ai_files \<Rightarrow> bool" for cfg dash fs0 where
  start: "reachable cfg dash fs0 fs0"
| step: "reachable cfg dash fs0 fs \<Longrightarrow> operated cfg dash fs fs2 \<Longrightarrow> reachable cfg dash fs0 fs2"

inductive_cases operatedE: "operated cfg dash fs fs2"
inductive_simps reachable_iff: "reachable cfg dash fs0 fs"

text \<open>A fresh checkout: no counter, no log.\<close>

definition fresh :: "ai_files \<Rightarrow> bool" where
  "fresh fs \<longleftrightarrow> failure_counter fs = None \<and> seatbelt_counter fs = None \<and> merges_log fs = None"

end
