(* ===== verification/DispatchPublishLaws.thy ===== *)
theory DispatchPublishLaws
  imports DispatchCli
begin

text \<open>
  What publishing promises: the store fails closed, the commit is exact, main is pushed
  only under an authorization, and no authorization is used more often than it allows.
\<close>

section \<open>The store\<close>

lemma all_some_iff: "all_some xs = Some ys \<longleftrightarrow> xs = map Some ys"
  by (induction xs arbitrary: ys) (auto split: option.splits)

lemma scope_glob_shape:
  "scope_glob item = Some g \<Longrightarrow> g \<noteq> [] \<and> \<not> list_ex scope_forbidden g \<and> \<not> list_ex is_space g
     \<and> (\<forall>seg \<in> set (split_chars (\<lambda>c. c = CHR ''/'') g). contains seg ''**'' \<longrightarrow> seg = ''**'')"
  by (auto simp: scope_glob_def Let_def list_ex_iff split: json.splits if_splits)

lemma all_some_in: "all_some (map f xs) = Some ys \<Longrightarrow> y \<in> set ys \<Longrightarrow> \<exists>x. f x = Some y"
  by (induction xs arbitrary: ys) (auto split: option.splits)

lemma build_authE:
  assumes "build_auth entry = Some a"
  obtains d auth_id scope globs max_merges granted_by where
    "entry = JObj d" "auth_id_pattern auth_id" "scope \<noteq> []" "all_some (map scope_glob scope) = Some globs" "0 < max_merges"
    "py_strip granted_by \<noteq> []" "au_auth_id a = auth_id" "au_scope_globs a = globs" "au_max_merges a = max_merges"
    "au_granted_by a = py_strip granted_by"
proof -
  obtain d where d: "entry = JObj d" using assms by (cases entry) (simp_all add: build_auth_def)
  define k1 k2 k3 k4 k5 where k: "k1 = dict_get d ''id''" "k2 = dict_get d ''scope''" "k3 = dict_get d ''max_merges''"
    "k4 = dict_get d ''expires''" "k5 = dict_get d ''granted_by''"
  have b: "(case (k1, k2, k3, k4, k5) of
        (Some (JStr auth_id), Some (JArr scope), Some (JInt max_merges), Some (JStr expires_raw), Some (JStr granted_by)) \<Rightarrow>
          if \<not> auth_id_pattern auth_id \<or> scope = [] then None
          else (case all_some (map scope_glob scope) of
                  None \<Rightarrow> None
                | Some globs \<Rightarrow>
                    if max_merges \<le> 0 \<or> \<not> date_pattern expires_raw then None
                    else (case iso_date expires_raw of
                            None \<Rightarrow> None
                          | Some expires \<Rightarrow>
                              if py_strip granted_by = [] then None
                              else Some \<lparr>au_auth_id = auth_id, au_scope_globs = globs, au_max_merges = max_merges,
                                     au_expires = expires, au_granted_by = py_strip granted_by\<rparr>))
      | _ \<Rightarrow> None) = Some a"
    using assms unfolding d k build_auth_def json.case by (metis option.distinct(1))
  obtain auth_id scope max_merges expires_raw granted_by where
    "k1 = Some (JStr auth_id)" "k2 = Some (JArr scope)" "k3 = Some (JInt max_merges)" "k4 = Some (JStr expires_raw)" "k5 = Some (JStr granted_by)"
    using b by (auto split: option.split_asm json.split_asm)
  with b d show thesis
    by (intro that) (auto split: option.split_asm if_split_asm)
qed

lemma all_some_nonempty: "all_some (map f xs) = Some ys \<Longrightarrow> xs \<noteq> [] \<Longrightarrow> ys \<noteq> []"
  by (auto simp: all_some_iff)

lemma build_auth_shape:
  assumes "build_auth entry = Some a"
  shows "auth_id_pattern (au_auth_id a) \<and> 0 < au_max_merges a \<and> au_scope_globs a \<noteq> [] \<and> au_granted_by a \<noteq> []
    \<and> (\<forall>g \<in> set (au_scope_globs a). \<exists>item. scope_glob item = Some g)"
  using assms by (rule build_authE) (auto dest: all_some_in all_some_nonempty)

lemma parse_authorizations_in:
  assumes "a \<in> set (parse_authorizations today text)"
  shows "today \<le> au_expires a \<and> (\<exists>entry. build_auth entry = Some a)"
proof -
  obtain doc where doc: "json_parse auth_hooks text = Inr (JObj doc)"
    using assms by (cases "json_parse auth_hooks text"; cases "projr (json_parse auth_hooks text)")
      (simp_all add: parse_authorizations_def)
  obtain entries where en: "dict_get doc ''authorizations'' = Some (JArr entries)"
    using assms doc by (cases "dict_get doc ''authorizations''"; cases "the (dict_get doc ''authorizations'')")
      (simp_all add: parse_authorizations_def split: if_split_asm)
  obtain auths where au: "all_some (map build_auth entries) = Some auths" "a \<in> set auths" "\<not> au_expired a today"
    using assms doc en by (cases "all_some (map build_auth entries)")
      (simp_all add: parse_authorizations_def split: if_split_asm)
  then show ?thesis by (auto simp: au_expired_def dest: all_some_in)
qed

text \<open>C40. The authorization store fails closed: whatever the file holds, every authorization
it yields has a well-formed id, a positive number of merges, has not expired, and has scope
globs without blanks, quotes or commas, a double star only as a whole path segment.\<close>

theorem authorizations_fail_closed:
  "list_all (\<lambda>a. today \<le> au_expires a \<and> 0 < au_max_merges a \<and> auth_id_pattern (au_auth_id a)
      \<and> au_scope_globs a \<noteq> []
      \<and> list_all (\<lambda>g. \<not> list_ex scope_forbidden g \<and> \<not> list_ex is_space g
           \<and> \<not> list_ex (\<lambda>seg. contains seg ''**'' \<and> seg \<noteq> ''**'') (split_chars (\<lambda>c. c = CHR ''/'') g))
         (au_scope_globs a))
      (parse_authorizations today text)"
proof -
  have "\<not> list_ex scope_forbidden g \<and> \<not> list_ex is_space g
      \<and> \<not> list_ex (\<lambda>seg. contains seg ''**'' \<and> seg \<noteq> ''**'') (split_chars (\<lambda>c. c = CHR ''/'') g)"
    if "scope_glob item = Some g" for item g
    using scope_glob_shape [OF that] by (simp add: list_ex_iff)
  then show ?thesis
    unfolding list_all_iff using parse_authorizations_in build_auth_shape by blast
qed

text \<open>One invalid entry disables the whole store.\<close>

lemma invalid_entry_yields_none:
  "json_parse auth_hooks text = Inr (JObj [(''authorizations'', JArr entries)]) \<Longrightarrow>
      None \<in> set (map build_auth entries) \<Longrightarrow> parse_authorizations today text = []"
proof -
  have "None \<in> set (map build_auth entries) \<Longrightarrow> all_some (map build_auth entries) = None"
    by (metis all_some_iff ex_map_conv not_None_eq)
  then show "json_parse auth_hooks text = Inr (JObj [(''authorizations'', JArr entries)]) \<Longrightarrow>
      None \<in> set (map build_auth entries) \<Longrightarrow> parse_authorizations today text = []"
    by (simp add: parse_authorizations_def)
qed

section \<open>The commit\<close>

lemma commit_exact_ok:
  assumes "commit_exact cfg runner msg expected tr = ((True, detail), tr2)"
  shows "tr2 = tr @ [Run (cfg_git cfg @ [''add'', ''-A'']), Run (cfg_git cfg @ [''diff'', ''--cached'', ''--name-only'']),
      Run (cfg_git cfg @ [''commit'', ''-m'', msg])]
    \<and> (expected = [] \<or> set (staged_files (cr_stdout (runner (tr @ [Run (cfg_git cfg @ [''add'', ''-A''])])
         (cfg_git cfg @ [''diff'', ''--cached'', ''--name-only''])))) \<subseteq> set expected)"
  using assms unfolding commit_exact_def pub_git_def
  by (auto simp: Let_def filter_empty_conv split: if_splits)

text \<open>With an empty set of expected files \<open>_commit_exact\<close> commits whatever is staged.\<close>

theorem empty_expectation_commits_all:
  assumes "\<forall>tr args. cr_ok (runner tr args)"
  shows "commit_exact cfg runner msg [] tr = ((True, ''committed''),
    tr @ [Run (cfg_git cfg @ [''add'', ''-A'']), Run (cfg_git cfg @ [''diff'', ''--cached'', ''--name-only'']),
      Run (cfg_git cfg @ [''commit'', ''-m'', msg])])"
  using assms by (simp add: commit_exact_def pub_git_def)

section \<open>The decision\<close>

lemma find_Some_in: "find P xs = Some x \<Longrightarrow> x \<in> set xs \<and> P x"
  by (induction xs) (auto split: if_splits)

lemma decide_merge_iff:
  "pd_action (decide_publish cfg mode changed auths used) = ActMerge \<longleftrightarrow>
     mode = ModeMain \<and> (\<exists>f \<in> set changed. \<not> matches_any f (artifact_globs cfg))
     \<and> (\<forall>f \<in> set changed. \<not> matches_any f (artifact_globs cfg) \<longrightarrow> \<not> matches_any f (never_automerge_globs cfg))
     \<and> (\<exists>a \<in> set auths. used (au_auth_id a) < au_max_merges a
          \<and> (\<forall>f \<in> set changed. \<not> matches_any f (artifact_globs cfg) \<longrightarrow> matches_any f (au_scope_globs a)))"
proof -
  have find: "find P xs = None \<longleftrightarrow> (\<forall>x \<in> set xs. \<not> P x)" for P :: "Authorization \<Rightarrow> bool" and xs
    by (auto simp: find_None_iff)
  show ?thesis
    unfolding decide_publish_def Let_def decision_def au_covers_def
    by (cases mode) (auto simp: find filter_empty_conv list_all_iff split: option.splits dest: find_Some_in)
qed

lemma decide_merge_auth:
  assumes "pd_action (decide_publish cfg mode changed auths used) = ActMerge"
  shows "\<exists>a \<in> set auths. pd_auth_id (decide_publish cfg mode changed auths used) = Some (au_auth_id a)
    \<and> used (au_auth_id a) < au_max_merges a"
  using assms unfolding decide_publish_def Let_def decision_def
  by (auto split: option.splits if_splits dest!: find_Some_in)

lemma decide_not_merge_auth:
  "pd_action (decide_publish cfg mode changed auths used) \<noteq> ActMerge \<Longrightarrow>
    pd_auth_id (decide_publish cfg mode changed auths used) = None"
  unfolding decide_publish_def Let_def decision_def
  by (auto split: option.splits if_splits)

end
