(* ===== verification/DispatchLoopLaws.thy ===== *)
theory DispatchLoopLaws
  imports DispatchLoop "HOL-Library.Sublist"
begin

text \<open>
  What a dispatch promises: a result that may be published has passed every gate, in
  order; the number of rounds is bounded; a preflight that git cannot answer is passed.
\<close>

section \<open>The history only grows\<close>

lemma verify_loop_trace: "verify_loop runner n tr rs sink steps = (r, tr2, sink2) \<Longrightarrow> prefix tr tr2"
proof (induction steps arbitrary: tr rs sink)
  case (Cons st steps)
  then show ?case
    by (cases st) (auto simp: Let_def split: if_splits dest!: Cons.IH intro: prefix_order.trans [rotated])
qed (auto simp: Let_def)

lemma review_bundle_trace: "prefix tr (review_bundle cfg changed tr)"
  by (simp add: review_bundle_def)

lemma write_correction_trace: "write_correction env dash task rnd reason st = Inr st2 \<Longrightarrow> prefix (fst st) (fst st2)"
  by (auto simp: write_correction_def elim!: bind_res_InrE)

lemma control_stage_trace:
  assumes "control_stage cfg env dash task rnd changed verify st = Inr (x, st2)"
  shows "prefix (fst st) (fst st2)"
proof -
  have *: "prefix (fst st) (review_bundle cfg changed (fst st) @ [ControlCall rnd])"
    using review_bundle_trace [of "fst st" cfg changed] by (rule prefix_prefix)
  show ?thesis
    using assms unfolding control_stage_def Let_def
    by (auto simp: * split: prod.splits option.splits if_splits elim!: bind_res_InrE
        dest!: write_correction_trace intro: prefix_order.trans [OF *])
qed

lemma verify_stage_trace:
  assumes "verify_stage cfg env dash task allowed rnd st = Inr (x, st2)"
  shows "prefix (fst st) (fst st2)"
proof -
  have *: "prefix (fst st @ [Run c]) t \<Longrightarrow> prefix (fst st) t" for c t
    by (metis append_prefixD)
  show ?thesis
    using assms unfolding verify_stage_def Let_def git_status_def git_out_def run_verify_def
    by (auto split: prod.splits if_splits elim!: bind_res_InrE
        dest!: write_correction_trace control_stage_trace verify_loop_trace
        intro: * prefix_order.trans)
qed

lemma exec_stage_trace:
  assumes "exec_stage cfg env dash task allowed rnd st = Inr (x, st2)"
  shows "prefix (fst st) (fst st2)"
proof -
  have *: "prefix (fst st @ [c]) t \<Longrightarrow> prefix (fst st) t" for c t
    by (metis append_prefixD)
  show ?thesis
    using assms unfolding exec_stage_def Let_def
    by (auto split: option.splits if_splits dest!: verify_stage_trace intro: *)
qed

lemma plan_stage_trace:
  "plan_stage cfg env dash task pk rn st = (x, pk2, st2) \<Longrightarrow> prefix (fst st) (fst st2)"
  unfolding plan_stage_def Let_def by (auto split: if_splits)

lemma plan_loop_trace:
  "plan_loop cfg env dash task pk st revs = (x, st2) \<Longrightarrow> prefix (fst st) (fst st2)"
  by (induction revs arbitrary: pk st)
    (auto split: prod.splits option.splits dest!: plan_stage_trace intro: prefix_order.trans)

section \<open>The stages\<close>

lemma control_stage_passed:
  assumes "control_stage cfg env dash task rnd changed verify st = Inr (Some r, st2)" and "dr_status r = Passed"
  shows "\<exists>verdict outcome out_message control. env_control env (review_bundle cfg changed (fst st)) = (outcome, out_message)
    \<and> codex_control outcome out_message = (control, Some verdict) \<and> ar_ok control
    \<and> py_lower (get_text verdict ''verdict'') = ''pass''
    \<and> py_lower (get_text verdict ''commit_readiness'') \<noteq> ''not_ready''
    \<and> r = late_result task Passed ''control passed'' changed verify (Some verdict) rnd \<and> dr_rounds r = rnd
    \<and> fst st2 = review_bundle cfg changed (fst st) @ [ControlCall rnd]"
  using assms unfolding control_stage_def Let_def
  by (auto simp: late_result_def result_def split: prod.splits option.splits if_splits elim!: bind_res_InrE)

lemma verify_loop_ok:
  assumes "verify_loop runner n tr rs sink steps = (r, tr2, sink2)" and "vr_ok r"
  shows "tr2 = tr @ map (Run \<circ> snd) steps \<and> vr_steps r = rs @ all_outcomes runner tr steps
    \<and> vr_steps_total r = n \<and> vr_steps_run r = length rs + length steps
    \<and> (\<forall>s \<in> set (all_outcomes runner tr steps). vs_ok s)"
proof -
  have ok: "\<forall>s \<in> set (all_outcomes runner tr steps). vs_ok s"
    using verify_loop_red [of _ runner tr steps n rs sink] assms by fastforce
  with verify_loop_green [of runner tr steps n rs sink] assms(1) show ?thesis by auto
qed

lemma verify_stage_passed:
  assumes "verify_stage cfg env dash task allowed rnd st = Inr (Some r, st2)" and "dr_status r = Passed"
  shows "\<exists>status tr1 tr2 verify sink2. status = cr_stdout (env_run env (fst st) (cfg_git cfg @ [''status'', ''--porcelain=v1'']))
    \<and> dr_changed_files r = sort (parse_status_porcelain status)
    \<and> (\<forall>p \<in> set (parse_status_porcelain status). matches_any p allowed)
    \<and> tr1 = fst st @ [Run (cfg_git cfg @ [''status'', ''--porcelain=v1''])]
    \<and> tr2 = tr1 @ map (Run \<circ> snd) (verify_steps cfg)
    \<and> dr_verify r = Some verify \<and> is_publishable verify
    \<and> vr_steps verify = all_outcomes (env_run env) tr1 (verify_steps cfg) \<and> (\<forall>s \<in> set (vr_steps verify). vs_ok s)
    \<and> MIN_VERIFY_STEPS \<le> length (verify_steps cfg)
    \<and> control_stage cfg env dash task rnd (dr_changed_files r) verify (tr2, sink2) = Inr (Some r, st2)"
proof -
  let ?git = "cfg_git cfg @ [''status'', ''--porcelain=v1'']"
  let ?status = "cr_stdout (env_run env (fst st) ?git)"
  let ?changed = "sort (parse_status_porcelain ?status)"
  let ?tr1 = "fst st @ [Run ?git]"
  obtain verify tr2 sink2 where v: "run_verify cfg (env_run env) ?tr1 (snd st) = (verify, tr2, sink2)"
    by (cases "run_verify cfg (env_run env) ?tr1 (snd st)")
  have none: "out_of_scope ?changed allowed = []" and ok: "vr_ok verify" "is_publishable verify"
    and control: "control_stage cfg env dash task rnd ?changed verify (tr2, sink2) = Inr (Some r, st2)"
    using assms v unfolding verify_stage_def Let_def git_status_def git_out_def
    by (auto simp: result_def late_result_def split: if_splits elim!: bind_res_InrE)
  have scope: "\<forall>p \<in> set (parse_status_porcelain ?status). matches_any p allowed"
    using arg_cong [where f = set, OF none] by (auto simp: out_of_scope_def filter_empty_conv)
  note vok = verify_loop_ok [OF v [unfolded run_verify_def] ok(1)]
  have "dr_changed_files r = ?changed" "dr_verify r = Some verify"
    using control_stage_passed [OF control assms(2)] by (auto simp: late_result_def result_def)
  with scope vok ok(2) control show ?thesis
    by (intro exI [of _ ?status] exI [of _ ?tr1] exI [of _ tr2] exI [of _ verify] exI [of _ sink2])
      (auto simp: is_publishable_def)
qed

lemma exec_stage_passed:
  assumes "exec_stage cfg env dash task allowed rnd st = Inr (Some r, st2)" and "dr_status r = Passed"
  shows "\<exists>sink1. ar_ok (execute (env_exec env (fst st)))
    \<and> verify_stage cfg env dash task allowed rnd (fst st @ [ExecCall rnd], sink1) = Inr (Some r, st2)"
  using assms unfolding exec_stage_def Let_def
  by (auto simp: result_def split: option.splits if_splits)

lemma exec_loop_passed:
  assumes "exec_loop cfg env dash task allowed st rnds = Inr (r, st2)" and "dr_status r = Passed"
  shows "\<exists>rnd st1. rnd \<in> set rnds \<and> prefix (fst st) (fst st1)
    \<and> exec_stage cfg env dash task allowed rnd st1 = Inr (Some r, st2)"
  using assms(1)
proof (induction rnds arbitrary: st)
  case Nil
  with assms(2) show ?case by (auto simp: result_def)
next
  case (Cons rnd rnds)
  obtain x st1 where e: "exec_stage cfg env dash task allowed rnd st = Inr (x, st1)"
    using Cons.prems by (auto elim!: bind_res_InrE)
  show ?case
  proof (cases x)
    case None
    then have "exec_loop cfg env dash task allowed st1 rnds = Inr (r, st2)" using Cons.prems e by simp
    from Cons.IH [OF this] show ?thesis using exec_stage_trace [OF e] by (auto intro: prefix_order.trans)
  next
    case (Some r')
    then show ?thesis using Cons.prems e by (intro exI [of _ rnd] exI [of _ st]) simp
  qed
qed

lemma plan_stage_approved:
  assumes "plan_stage cfg env dash task pk rn st = (Some (Inr packet_text), pk2, st2)"
  shows "\<exists>tr. tr = fst st @ [PlanCall rn] \<and> fst st2 = tr @ [GateCall rn]
    \<and> marker (ar_markers (plan_gate (env_gate env tr))) ''GATE_VERDICT'' = ''approve''
    \<and> packet_problems (read_text packet_text) = []"
  using assms unfolding plan_stage_def Let_def validate_packet_def by (auto split: if_splits)

lemma plan_loop_approved:
  "plan_loop cfg env dash task pk st revs = (Inr packet_text, st2) \<Longrightarrow>
     \<exists>tr rn. rn \<in> set revs \<and> prefix (fst st) tr \<and> fst st2 = tr @ [GateCall rn]
       \<and> marker (ar_markers (plan_gate (env_gate env tr))) ''GATE_VERDICT'' = ''approve''
       \<and> packet_problems (read_text packet_text) = []"
proof (induction revs arbitrary: pk st)
  case (Cons rn revs)
  obtain x pk2 st1 where p: "plan_stage cfg env dash task pk rn st = (x, pk2, st1)"
    by (cases "plan_stage cfg env dash task pk rn st")
  show ?case
  proof (cases x)
    case None
    then have "plan_loop cfg env dash task pk2 st1 revs = (Inr packet_text, st2)" using Cons.prems p by simp
    from Cons.IH [OF this] show ?thesis using plan_stage_trace [OF p] by (auto intro: prefix_order.trans)
  next
    case (Some r)
    then have "plan_stage cfg env dash task pk rn st = (Some (Inr packet_text), pk2, st2)" using Cons.prems p by simp
    from plan_stage_approved [OF this] show ?thesis by auto
  qed
qed simp

lemma plan_loop_not_passed:
  "plan_loop cfg env dash task pk st revs = (Inl r, st2) \<Longrightarrow> dr_status r \<noteq> Passed"
proof (induction revs arbitrary: pk st)
  case (Cons rn revs)
  have "plan_stage cfg env dash task pk rn st = (Some (Inl r), pk2, st1) \<Longrightarrow> dr_status r \<noteq> Passed" for pk2 st1
    unfolding plan_stage_def Let_def by (auto simp: result_def split: if_splits)
  with Cons show ?case by (auto split: prod.splits option.splits)
qed (auto simp: result_def)

section \<open>What a passed dispatch has passed\<close>

lemma preflight_clean:
  assumes "preflight cfg env st = (None, st2)"
  shows "\<exists>counts. parse_status_porcelain (cr_stdout (env_run env (fst st) (cfg_git cfg @ [''status'', ''--porcelain=v1'']))) = []
    \<and> counts = cr_stdout (env_run env (fst st @ [Run (cfg_git cfg @ [''status'', ''--porcelain=v1''])])
         (cfg_git cfg @ [''rev-list'', ''--left-right'', ''--count'', integration_ref cfg @ ''...HEAD'']))
    \<and> (py_split counts = [] \<or> py_split counts = [''0'', ''0''])
    \<and> prefix (fst st) (fst st2)"
  using assms unfolding preflight_def git_status_def git_out_def
  by (auto split: if_splits)

lemma rounds_bound: "n \<in> set (rounds limit) \<Longrightarrow> int n \<le> limit"
  by (auto simp: rounds_def)


section \<open>What the gates decide\<close>

text \<open>C39. The verify gate is exact: a run is publishable if and only if at least four steps are
configured and every one of them, run in order after the ones before it, exits with zero and
neither timed out nor stalled.\<close>

theorem verify_gate_is_exact:
  "is_publishable (fst (run_verify cfg runner tr sink)) \<longleftrightarrow>
     MIN_VERIFY_STEPS \<le> length (verify_steps cfg) \<and> list_all vs_ok (all_outcomes runner tr (verify_steps cfg))"
proof (cases "\<forall>s \<in> set (all_outcomes runner tr (verify_steps cfg)). vs_ok s")
  case True
  from verify_loop_green [OF this, of "length (verify_steps cfg)" "[]" sink] True show ?thesis
    by (auto simp: run_verify_def is_publishable_def list_all_iff)
next
  case False
  then obtain s where "s \<in> set (all_outcomes runner tr (verify_steps cfg))" "\<not> vs_ok s" by blast
  from verify_loop_red [OF this, of "length (verify_steps cfg)" "[]" sink] False show ?thesis
    by (auto simp: run_verify_def is_publishable_def list_all_iff)
qed

text \<open>A preflight that git cannot answer is passed: when every command prints nothing,
whatever its exit code, the base counts as clean and synced.\<close>

theorem unanswered_preflight_passes:
  assumes "\<forall>tr argv. cr_stdout (env_run env tr argv) = []"
  shows "fst (preflight cfg env st) = None"
proof -
  have "parse_status_porcelain [] = []" "py_split [] = []" by code_simp+
  then show ?thesis by (simp add: preflight_def git_status_def git_out_def assms)
qed

end
