(* ===== verification/DispatchCliLaws.thy ===== *)
theory DispatchCliLaws
  imports DispatchPublishLaws DispatchLoopLaws
begin

text \<open>
  The operated dispatcher: what the loop may run, when main is pushed, the breaker and
  the budget of an authorization as invariants of every reachable state.
\<close>

section \<open>What the loop runs\<close>

definition loop_call :: "DispatcherConfig \<Rightarrow> call \<Rightarrow> bool" where
  "loop_call cfg c =
     (case c of
        Run a \<Rightarrow> a = cfg_git cfg @ [''status'', ''--porcelain=v1'']
          \<or> a = cfg_git cfg @ [''rev-list'', ''--left-right'', ''--count'', integration_ref cfg @ ''...HEAD'']
          \<or> take (length (cfg_git cfg) + 4) a = cfg_git cfg @ [''diff'', ''--no-ext-diff'', ''HEAD'', ''--'']
          \<or> a \<in> set (map snd (verify_steps cfg))
      | _ \<Rightarrow> True)"

lemma loop_call_simps [simp]:
  "loop_call cfg (PlanCall n)" "loop_call cfg (GateCall n)" "loop_call cfg (ExecCall n)" "loop_call cfg (ControlCall n)"
  "loop_call cfg (Correction n t)"
  "loop_call cfg (Run (cfg_git cfg @ [''status'', ''--porcelain=v1'']))"
  "loop_call cfg (Run (cfg_git cfg @ [''rev-list'', ''--left-right'', ''--count'', integration_ref cfg @ ''...HEAD'']))"
  "loop_call cfg (Run (cfg_git cfg @ ''diff'' # ''--no-ext-diff'' # ''HEAD'' # ''--'' # fs))"
  "(label, a) \<in> set (verify_steps cfg) \<Longrightarrow> loop_call cfg (Run a)"
  by (force simp: loop_call_def)+

lemma verify_loop_calls:
  "verify_loop runner n tr rs sink steps = (r, tr2, sink2) \<Longrightarrow> set steps \<subseteq> set (verify_steps cfg) \<Longrightarrow>
    list_all (loop_call cfg) tr \<Longrightarrow> list_all (loop_call cfg) tr2"
proof (induction steps arbitrary: tr rs sink)
  case (Cons st steps)
  then show ?case
    by (cases st) (auto simp: Let_def split: if_splits intro: Cons.IH)
qed (auto simp: Let_def)

lemma write_correction_calls:
  "write_correction env dash task rnd reason st = Inr st2 \<Longrightarrow> list_all (loop_call cfg) (fst st) \<Longrightarrow>
    list_all (loop_call cfg) (fst st2)"
  by (auto simp: write_correction_def elim!: bind_res_InrE)

lemma review_bundle_calls:
  "list_all (loop_call cfg) tr \<Longrightarrow> list_all (loop_call cfg) (review_bundle cfg changed tr)"
  by (simp add: review_bundle_def)

lemma control_stage_calls:
  assumes "control_stage cfg env dash task rnd changed verify st = Inr (x, st2)" and "list_all (loop_call cfg) (fst st)"
  shows "list_all (loop_call cfg) (fst st2)"
proof -
  have *: "list_all (loop_call cfg) (review_bundle cfg changed (fst st) @ [ControlCall rnd])"
    using review_bundle_calls [OF assms(2)] by simp
  show ?thesis
    using assms(1) unfolding control_stage_def Let_def
    by (auto simp: * [simplified] split: prod.splits option.splits if_splits elim!: bind_res_InrE
        dest!: write_correction_calls [where cfg = cfg])
qed

lemma verify_stage_calls:
  assumes "verify_stage cfg env dash task allowed rnd st = Inr (x, st2)" and "list_all (loop_call cfg) (fst st)"
  shows "list_all (loop_call cfg) (fst st2)"
proof -
  let ?git = "cfg_git cfg @ [''status'', ''--porcelain=v1'']"
  obtain verify tr2 sink2 where v: "run_verify cfg (env_run env) (fst st @ [Run ?git]) (snd st) = (verify, tr2, sink2)"
    by (cases "run_verify cfg (env_run env) (fst st @ [Run ?git]) (snd st)")
  have "list_all (loop_call cfg) tr2"
    using verify_loop_calls [OF v [unfolded run_verify_def]] assms(2) by simp
  then show ?thesis
    using assms v unfolding verify_stage_def Let_def git_status_def git_out_def
    by (auto split: if_splits elim!: bind_res_InrE
        dest: write_correction_calls [where cfg = cfg] control_stage_calls)
qed

lemma exec_stage_calls:
  assumes "exec_stage cfg env dash task allowed rnd st = Inr (x, st2)" and "list_all (loop_call cfg) (fst st)"
  shows "list_all (loop_call cfg) (fst st2)"
  using assms unfolding exec_stage_def Let_def
  by (auto split: option.splits if_splits dest!: verify_stage_calls)

lemma exec_loop_calls:
  "exec_loop cfg env dash task allowed st rnds = Inr (r, st2) \<Longrightarrow> list_all (loop_call cfg) (fst st) \<Longrightarrow>
    list_all (loop_call cfg) (fst st2)"
  by (induction rnds arbitrary: st)
    (auto split: option.splits elim!: bind_res_InrE dest!: exec_stage_calls)

lemma plan_stage_calls:
  "plan_stage cfg env dash task pk rn st = (x, pk2, st2) \<Longrightarrow> list_all (loop_call cfg) (fst st) \<Longrightarrow>
    list_all (loop_call cfg) (fst st2)"
  unfolding plan_stage_def Let_def by (auto split: if_splits)

lemma plan_loop_calls:
  "plan_loop cfg env dash task pk st revs = (x, st2) \<Longrightarrow> list_all (loop_call cfg) (fst st) \<Longrightarrow>
    list_all (loop_call cfg) (fst st2)"
  by (induction revs arbitrary: pk st)
    (auto split: prod.splits option.splits dest!: plan_stage_calls)

lemma preflight_calls:
  "preflight cfg env st = (x, st2) \<Longrightarrow> list_all (loop_call cfg) (fst st) \<Longrightarrow> list_all (loop_call cfg) (fst st2)"
  unfolding preflight_def git_status_def git_out_def by (auto split: if_splits)

lemma dispatch_run_calls:
  assumes "dispatch_run cfg env dash task st = Inr (r, st2)" and "list_all (loop_call cfg) (fst st)"
  shows "list_all (loop_call cfg) (fst st2)"
  using assms unfolding dispatch_run_def plan_with_gate_def execute_with_control_def
  by (auto split: prod.splits option.splits sum.splits elim!: bind_res_InrE
      dest!: preflight_calls plan_loop_calls exec_loop_calls)

text \<open>The dispatch loop never commits or pushes: the only commands it issues are git status,
rev-list and diff, and the configured verify steps.\<close>

theorem dispatch_only_reads_git:
  assumes "dispatch_run cfg env dash task ([], sink) = Inr (r, st2)"
  shows "list_all (\<lambda>c. case c of
      Run a \<Rightarrow> a = cfg_git cfg @ [''status'', ''--porcelain=v1'']
          \<or> a = cfg_git cfg @ [''rev-list'', ''--left-right'', ''--count'', integration_ref cfg @ ''...HEAD'']
          \<or> take (length (cfg_git cfg) + 4) a = cfg_git cfg @ [''diff'', ''--no-ext-diff'', ''HEAD'', ''--'']
          \<or> a \<in> set (map snd (verify_steps cfg))
      | _ \<Rightarrow> True) (fst st2)"
  using dispatch_run_calls [OF assms] unfolding list_all_iff loop_call_def by simp


section \<open>When main is pushed\<close>

abbreviation push_main :: "DispatcherConfig \<Rightarrow> call" where
  "push_main cfg \<equiv> Run (cfg_git cfg @ [''push'', ''origin'', ''main''])"

lemma gh_is_not_push [simp]: "cfg_gh cfg @ [a, b, c, d, e, f, g, t, ''--body'', body] \<noteq> cfg_git cfg @ [''push'', ''origin'', ''main'']"
proof
  assume "cfg_gh cfg @ [a, b, c, d, e, f, g, t, ''--body'', body] = cfg_git cfg @ [''push'', ''origin'', ''main'']"
  from arg_cong [where f = rev, OF this] show False by simp
qed

lemmas gh_is_not_push' [simp] = gh_is_not_push [symmetric]

lemma commit_no_push:
  "commit_exact cfg runner msg expected tr = (x, tr2) \<Longrightarrow> push_main cfg \<notin> set tr \<Longrightarrow> push_main cfg \<notin> set tr2"
  unfolding commit_exact_def pub_git_def by (auto simp: Let_def split: if_splits)

lemma open_pr_no_push:
  "open_pr cfg runner branch title body tr = (x, tr2) \<Longrightarrow> push_main cfg \<notin> set tr \<Longrightarrow> push_main cfg \<notin> set tr2"
  unfolding open_pr_def pub_git_def pub_gh_def by (auto simp: Let_def split: if_splits)

lemma publish_push:
  assumes "publish cfg runner d branch msg title body changed tr = (out, tr2)"
    and "push_main cfg \<in> set tr2" and "push_main cfg \<notin> set tr"
  shows "pd_action d = ActMerge \<and> (\<exists>detail tr3. commit_exact cfg runner msg changed
    (tr @ [Run (cfg_git cfg @ [''checkout'', ''-b'', branch])]) = ((True, detail), tr3))"
proof -
  let ?tr1 = "tr @ [Run (cfg_git cfg @ [''checkout'', ''-b'', branch])]"
  have n1: "push_main cfg \<notin> set ?tr1" using assms(3) by simp
  obtain ok detail tr3 where c: "commit_exact cfg runner msg changed ?tr1 = ((ok, detail), tr3)"
    by (metis surj_pair)
  have n3: "push_main cfg \<notin> set tr3" by (rule commit_no_push [OF c n1])
  show ?thesis
    using assms(1,2) n1 n3 c open_pr_no_push [OF _ n3] unfolding publish_def pub_git_def
    by (cases "pd_action d") (auto split: if_splits)
qed

text \<open>C5. The loop command pushes main only when neither sentinel nor breaker stops it, the mode
is main, the dispatch passed, an unexpired authorization that still has merges left covers
every changed log_file that is not a dispatcher artifact, none of these files is protected, and the
files in the commit are among the changed files the dispatch checked.\<close>

theorem main_pushed_only_when_authorized:
  assumes "cmd_loop cfg env dash today task_id mode fs [] = Inr (code, fs2, tr2)"
    and "cfg_git cfg @ [''push'', ''origin'', ''main''] \<notin> set (map snd (verify_steps cfg))"
    and "Run (cfg_git cfg @ [''push'', ''origin'', ''main'']) \<in> set tr2"
  shows "\<not> stop_sentinel fs \<and> halt_sentinel fs = None \<and> \<not> breaker_tripped cfg fs \<and> mode = Some ModeMain
    \<and> (\<exists>task r st a msg branch.
        tk_task_id task = task_id \<and> dispatch_run cfg env dash task ([], []) = Inr (r, st) \<and> dr_status r = Passed
      \<and> a \<in> set (store_authorizations today fs)
      \<and> today \<le> au_expires a \<and> merge_counts (merges_log fs) (au_auth_id a) < au_max_merges a
      \<and> list_all (\<lambda>f. matches_any f (artifact_globs cfg)
            \<or> (matches_any f (au_scope_globs a) \<and> \<not> matches_any f (never_automerge_globs cfg))) (dr_changed_files r)
      \<and> set (staged_files (cr_stdout (env_run env
            (fst st @ [Run (cfg_git cfg @ [''checkout'', ''-b'', branch]), Run (cfg_git cfg @ [''add'', ''-A''])])
            (cfg_git cfg @ [''diff'', ''--cached'', ''--name-only''])))) \<subseteq> set (dr_changed_files r))"
proof -
  have nil: "push_main cfg \<notin> set []" by simp
  have gates: "\<not> stop_sentinel fs" "halt_sentinel fs = None" "\<not> breaker_tripped cfg fs"
    using assms(1,3) unfolding cmd_loop_def halt_state_def by (auto simp: Let_def split: if_splits option.splits)
  obtain u where size: "check_size DEFAULT_SIZE_CEILING (read_text (tasks_file fs)) = Inr u"
    using assms(1,3) gates unfolding cmd_loop_def halt_state_def
    by (cases "check_size DEFAULT_SIZE_CEILING (read_text (tasks_file fs))") (auto simp: Let_def)
  obtain task where task: "find (\<lambda>t. tk_task_id t = task_id) (parse_tasks (read_text (tasks_file fs))) = Some task"
    using assms(1,3) gates size unfolding cmd_loop_def halt_state_def
    by (cases "find (\<lambda>t. tk_task_id t = task_id) (parse_tasks (read_text (tasks_file fs)))") (auto simp: Let_def)
  obtain r tr1 sink where run: "dispatch_run cfg env dash task ([], []) = Inr (r, (tr1, sink))"
    and rest: "(if dr_status r \<noteq> Passed then Inr (1, bump_consecutive_failures fs, tr1)
                 else case mode of
                     None \<Rightarrow> Inr (0, reset_consecutive_failures fs, tr1)
                   | Some m \<Rightarrow> Inr (publish_result cfg (env_run env) today r m (reset_consecutive_failures fs) tr1)) =
      (Inr (code, fs2, tr2) :: (int \<times> ai_files \<times> trace) res)"
    using assms(1) gates size task unfolding cmd_loop_def halt_state_def Let_def
    by (auto elim!: bind_res_InrE)
  have calm: "push_main cfg \<notin> set tr1"
  proof
    assume "push_main cfg \<in> set tr1"
    moreover have "list_all (loop_call cfg) tr1" using dispatch_run_calls [OF run] by simp
    ultimately have "loop_call cfg (push_main cfg)" by (auto simp: list_all_iff)
    then show False using assms(2) by (auto simp: loop_call_def)
  qed
  obtain m where passed: "dr_status r = Passed" and mode: "mode = Some m"
    and p: "publish_result cfg (env_run env) today r m (reset_consecutive_failures fs) tr1 = (code, fs2, tr2)"
    using rest calm assms(3) by (cases mode) (auto split: if_splits)
  let ?auths = "store_authorizations today fs"
  let ?d = "decide_publish cfg m (dr_changed_files r) ?auths (merge_counts (merges_log fs))"
  obtain out where out: "publish cfg (env_run env) ?d (''ai-dispatch/'' @ dr_dispatch_id r)
      (''ai-dispatch '' @ dr_dispatch_id r @ '': '' @ dr_detail r) (''ai-dispatch '' @ dr_dispatch_id r) (dr_detail r)
      (dr_changed_files r) tr1 = (out, tr2)"
    using p unfolding publish_result_def Let_def by (auto simp: reset_consecutive_failures_def store_authorizations_def split: prod.splits)
  from publish_push [OF out assms(3) calm] obtain detail tr3 where act: "pd_action ?d = ActMerge"
    and c: "commit_exact cfg (env_run env) (''ai-dispatch '' @ dr_dispatch_id r @ '': '' @ dr_detail r) (dr_changed_files r)
      (tr1 @ [Run (cfg_git cfg @ [''checkout'', ''-b'', ''ai-dispatch/'' @ dr_dispatch_id r])]) = ((True, detail), tr3)"
    by blast
  note merge = act [unfolded decide_merge_iff]
  then obtain a where a: "a \<in> set ?auths" "merge_counts (merges_log fs) (au_auth_id a) < au_max_merges a"
    "\<forall>f \<in> set (dr_changed_files r). \<not> matches_any f (artifact_globs cfg) \<longrightarrow> matches_any f (au_scope_globs a)"
    by blast
  have files: "list_all (\<lambda>f. matches_any f (artifact_globs cfg)
      \<or> (matches_any f (au_scope_globs a) \<and> \<not> matches_any f (never_automerge_globs cfg))) (dr_changed_files r)"
    using merge a(3) unfolding list_all_iff by blast
  have "dr_changed_files r \<noteq> []" using merge by auto
  with commit_exact_ok [OF c] have staged: "set (staged_files (cr_stdout (env_run env
      (tr1 @ [Run (cfg_git cfg @ [''checkout'', ''-b'', ''ai-dispatch/'' @ dr_dispatch_id r]), Run (cfg_git cfg @ [''add'', ''-A''])])
      (cfg_git cfg @ [''diff'', ''--cached'', ''--name-only''])))) \<subseteq> set (dr_changed_files r)" by simp
  have id: "tk_task_id task = task_id" using find_Some_in [OF task] by simp
  have exp: "today \<le> au_expires a" using parse_authorizations_in [OF a(1) [unfolded store_authorizations_def]] by simp
  have "mode = Some ModeMain" using merge mode by simp
  with gates id run passed a(1,2) exp files staged show ?thesis by (auto intro!: exI)
qed

end
