(* ===== verification/DispatchStateLaws.thy ===== *)
theory DispatchStateLaws
  imports DispatchCliLaws
begin

text \<open>
  The files the dispatcher keeps: what it writes it reads back, the failure counter stays
  within the breaker's cap, the log of merges within every authorization's budget.
\<close>

section \<open>Written and read back\<close>

lemma ascii_char_plain: "c \<in> set (ascii_char d) \<Longrightarrow> 32 \<le> cp c \<and> cp c < 127"
proof -
  have hex: "c \<in> set (hex_fixed 4 n) \<Longrightarrow> 32 \<le> cp c \<and> cp c < 127" for n
    using hex_fixed_digits [of c 4 n] by (auto simp: is_hex_lower_def is_digit_def)
  show "c \<in> set (ascii_char d) \<Longrightarrow> 32 \<le> cp c \<and> cp c < 127"
    by (auto simp: ascii_char_def esc_char_def split: if_splits dest: hex)
qed

lemma parse_ascii: "parse_str (ascii_char c @ r) = map_option (\<lambda>(s, t). (c # s, t)) (parse_str r)"
proof (cases "cp c < 127")
  case True
  then show ?thesis by (simp add: ascii_char_def parse_esc)
next
  case False
  let ?n = "cp c"
  have n: "0 \<le> ?n" "?n < 256" by (rule cp_bounds)+
  have hx: "hex_fixed 4 ?n = [hex_char (?n div 4096 mod 16), hex_char (?n div 256 mod 16),
      hex_char (?n div 16 mod 16), hex_char (?n mod 16)]"
    by (simp add: eval_nat_numeral flip: zdiv_zmult2_eq)
  have "?n div 4096 = 0" "?n div 256 = 0" "?n div 16 < 16" "0 \<le> ?n div 16"
    using n by (simp_all add: div_pos_pos_trivial)
  then have z: "?n div 4096 mod 16 = 0" "?n div 256 mod 16 = 0" "?n div 16 mod 16 = ?n div 16"
    by (simp_all add: mod_pos_pos_trivial)
  have v: "((?n div 4096 mod 16 * 16 + ?n div 256 mod 16) * 16 + ?n div 16 mod 16) * 16 + ?n mod 16 = ?n"
    unfolding z by simp
  have e: "ascii_char c = [CHR 0x5C, CHR ''u''] @ hex_fixed 4 ?n" using False by (simp add: ascii_char_def)
  have "parse_str (ascii_char c @ r) = map_option (\<lambda>(s, t). (char_of ?n # s, t)) (parse_str r)"
    unfolding e hx append_Cons append_Nil
    by (rule parse_str_u [OF _ _ _ _ _ _ _ _ v]) (use n in simp_all)
  then show ?thesis by simp
qed

lemma parse_ascii_str: "parse_str (concat (map ascii_char s) @ CHR 0x22 # r) = Some (s, r)"
  by (induction s) (simp_all add: parse_ascii)

lemma ws_facts [simp]: "is_ws (CHR '' '')" "\<not> is_ws (CHR ''{'')"
  by (simp_all add: is_ws_def)

lemma skip_blank [simp]: "is_ws c \<Longrightarrow> skip_ws (c # cs) = skip_ws cs"
  by (simp add: skip_ws_def)

lemma skip_digit: "is_digit c \<or> c = CHR ''-'' \<Longrightarrow> skip_ws (c # cs) = c # cs"
  by (auto simp: skip_ws_def is_ws_def is_digit_def)

text \<open>One member of an object written with the default separators.\<close>

lemma parse_member_int:
  assumes "delim t"
  shows "parse_members h (Suc (Suc n)) (CHR 0x22 # ''count'' @ CHR 0x22 # '': '' @ int_str i @ t) =
    (case skip_ws t of
       [] \<Rightarrow> Inl json_error
     | e # es \<Rightarrow>
         if e = CHR ''}'' then Inr ([(''count'', JInt i)], es)
         else if e = CHR '','' then
           bind_res (parse_members h (Suc n) (skip_ws es)) (\<lambda>(m, t). Inr ((''count'', JInt i) # m, t))
         else Inl json_error)"
proof -
  obtain c cs where c: "int_str i = c # cs" "is_digit c \<or> c = CHR ''-''" by (rule int_str_hd)
  have v: "parse_value h (Suc n) (c # cs @ t) = Inr (JInt i, t)"
    using parse_scalar_int [OF assms, of i] c by (auto simp: is_digit_def)
  have s: "parse_str (''count'' @ CHR 0x22 # r) = Some (''count'', r)" for r
    using parse_str_render [of "''count''" r] by (simp add: esc_char_def)
  show ?thesis
    using v s [of "'': '' @ int_str i @ t"] c by (simp add: skip_ws_Cons skip_digit del: parse_value.simps)
qed

lemma read_count_text: "read_count (Some (read_text (count_text n))) = n"
proof -
  have "c \<in> set (int_str n) \<Longrightarrow> cp c \<noteq> 13" for c
    using nat_str_digits [of "\<bar>n\<bar>" c] nat_str_digits [of n c] nat_str_digits [of "- n" c]
    by (auto simp: int_str_def is_digit_def split: if_splits)
  then have r: "read_text (count_text n) = count_text n"
    by (intro read_text_id) (auto simp: count_text_def quoted_def)
  obtain k where k: "2 * length (count_text n) + 2 = Suc (Suc (Suc k))"
    by (intro that [of "2 * length (count_text n) - 1"]) (simp add: count_text_def)
  have "loads_text (count_text n) = Inr (JObj [(''count'', JInt n)])"
    unfolding loads_text_def json_parse_def k
    using parse_member_int [of "''}''" default_hooks k n]
    by (simp add: count_text_def quoted_def skip_ws_Cons default_hooks_def)
      (simp add: skip_ws_def)
  moreover have "count_text n \<noteq> []" by (simp add: count_text_def)
  ultimately show ?thesis unfolding r by (simp add: read_count_def)
qed


section \<open>The log of merges\<close>

definition merge_json :: "string \<Rightarrow> string \<Rightarrow> string \<Rightarrow> json" where
  "merge_json a d s = JObj [(''auth_id'', JStr a), (''dispatch_id'', JStr d), (''sha'', JStr s)]"

text \<open>A string member, whatever name it has.\<close>

lemma parse_member_str:
  assumes "parse_str (k @ CHR 0x22 # '': '' @ ascii_str v @ t) = Some (k, '': '' @ ascii_str v @ t)"
  shows "parse_members h (Suc (Suc n)) (CHR 0x22 # k @ CHR 0x22 # '': '' @ ascii_str v @ t) =
    (case skip_ws t of
       [] \<Rightarrow> Inl json_error
     | e # es \<Rightarrow>
         if e = CHR ''}'' then Inr ([(k, JStr v)], es)
         else if e = CHR '','' then
           bind_res (parse_members h (Suc n) (skip_ws es)) (\<lambda>(m, t). Inr ((k, JStr v) # m, t))
         else Inl json_error)"
proof -
  have "parse_value h (Suc n) (ascii_str v @ t) = Inr (JStr v, t)"
    using parse_ascii_str [of v t] by (simp add: ascii_str_def)
  moreover have "skip_ws ('' '' @ ascii_str v @ t) = ascii_str v @ t"
    by (simp add: ascii_str_def skip_ws_Cons)
  ultimately show ?thesis
    using assms by (simp add: skip_ws_Cons del: parse_value.simps)
qed

lemma loads_merge_line:
  "loads_text (''{'' @ quoted ''auth_id'' @ '': '' @ ascii_str a @ '', '' @ quoted ''dispatch_id'' @ '': '' @ ascii_str d
     @ '', '' @ quoted ''sha'' @ '': '' @ ascii_str s @ ''}'') = Inr (merge_json a d s)"
  (is "loads_text ?l = _")
proof -
  have pk: "parse_str (''auth_id'' @ CHR 0x22 # r) = Some (''auth_id'', r)"
    "parse_str (''dispatch_id'' @ CHR 0x22 # r) = Some (''dispatch_id'', r)"
    "parse_str (''sha'' @ CHR 0x22 # r) = Some (''sha'', r)" for r
    using parse_str_render [of "''auth_id''" r] parse_str_render [of "''dispatch_id''" r]
      parse_str_render [of "''sha''" r] by (simp_all add: esc_char_def)
  obtain k where k: "2 * length ?l + 2 = Suc (Suc (Suc (Suc (Suc k))))"
    by (intro that [of "2 * length ?l - 3"]) simp
  let ?t3 = "''}''"
  let ?t2 = "'', '' @ CHR 0x22 # ''sha'' @ CHR 0x22 # '': '' @ ascii_str s @ ?t3"
  let ?t1 = "'', '' @ CHR 0x22 # ''dispatch_id'' @ CHR 0x22 # '': '' @ ascii_str d @ ?t2"
  let ?m0 = "CHR 0x22 # ''auth_id'' @ CHR 0x22 # '': '' @ ascii_str a @ ?t1"
  have m3: "parse_members default_hooks (Suc (Suc k)) (CHR 0x22 # ''sha'' @ CHR 0x22 # '': '' @ ascii_str s @ ?t3) =
      Inr ([(''sha'', JStr s)], [])"
    unfolding parse_member_str [OF pk(3)] by (simp add: skip_ws_Cons)
  have m2: "parse_members default_hooks (Suc (Suc (Suc k))) (CHR 0x22 # ''dispatch_id'' @ CHR 0x22 # '': '' @ ascii_str d @ ?t2) =
      Inr ([(''dispatch_id'', JStr d), (''sha'', JStr s)], [])"
    unfolding parse_member_str [OF pk(2)] using m3 by (simp add: skip_ws_Cons)
  have m1: "parse_members default_hooks (Suc (Suc (Suc (Suc k)))) ?m0 =
      Inr ([(''auth_id'', JStr a), (''dispatch_id'', JStr d), (''sha'', JStr s)], [])"
    unfolding parse_member_str [OF pk(1)] using m2 by (simp add: skip_ws_Cons)
  have l: "?l = CHR ''{'' # ?m0" by (simp add: quoted_def)
  have q: "skip_ws ?m0 = ?m0" by (simp add: skip_ws_Cons)
  have v: "parse_value default_hooks (Suc (Suc (Suc (Suc (Suc k))))) (CHR ''{'' # ?m0) = Inr (merge_json a d s, [])"
    using m1 q by (simp add: default_hooks_def merge_json_def del: parse_members.simps)
  have w: "skip_ws (CHR ''{'' # ?m0) = CHR ''{'' # ?m0" by (simp add: skip_ws_Cons)
  show ?thesis
    unfolding loads_text_def json_parse_def k [unfolded l] l w v by (simp add: skip_ws_def)
qed

definition merge_body :: "string \<Rightarrow> string \<Rightarrow> string" where
  "merge_body a d = butlast (merge_line a d [])"

lemma merge_line_body: "merge_line a d [] = merge_body a d @ [newline]"
  by (simp add: merge_body_def merge_line_def butlast_append)

lemma merge_body_plain: "c \<in> set (merge_body a d) \<Longrightarrow> 32 \<le> cp c \<and> cp c < 127"
proof -
  have q: "list_all (\<lambda>c. 32 \<le> cp c \<and> cp c < 127) (quoted ''auth_id'' @ quoted ''dispatch_id'' @ quoted ''sha'' @ ''{: , }'' @ [CHR 0x22])"
    by code_simp
  have "merge_body a d = ''{'' @ quoted ''auth_id'' @ '': '' @ ascii_str a @ '', '' @ quoted ''dispatch_id'' @ '': '' @ ascii_str d
     @ '', '' @ quoted ''sha'' @ '': '' @ ascii_str [] @ ''}''"
    by (simp add: merge_body_def merge_line_def butlast_append)
  then show "c \<in> set (merge_body a d) \<Longrightarrow> 32 \<le> cp c \<and> cp c < 127"
    using q by (auto simp: ascii_str_def quoted_def list_all_iff simp del: cp_simps dest: ascii_char_plain)
qed

lemma merge_row_body: "merge_row (merge_body a d) = Some a"
proof -
  have b: "merge_body a d = ''{'' @ quoted ''auth_id'' @ '': '' @ ascii_str a @ '', '' @ quoted ''dispatch_id'' @ '': '' @ ascii_str d
     @ '', '' @ quoted ''sha'' @ '': '' @ ascii_str [] @ ''}''"
    by (simp add: merge_body_def merge_line_def butlast_append)
  have "\<not> is_space (CHR ''{'')" "\<not> is_space (CHR ''}'')" by code_simp+
  then have s: "py_strip (merge_body a d) = merge_body a d"
    by (intro py_strip_id) (simp_all add: b)
  have "merge_body a d \<noteq> []" by (simp add: b)
  then show ?thesis
    using loads_merge_line [of a d "[]", folded b] by (simp add: merge_row_def s merge_json_def)
qed

definition log_text :: "(string \<times> string) list \<Rightarrow> string" where
  "log_text rows = concat (map (\<lambda>(a, d). merge_line a d []) rows)"

lemma splitlines_line:
  "\<forall>c \<in> set l. \<not> line_break c \<Longrightarrow> splitlines_from acc (l @ newline # rest) = (acc @ l) # splitlines_from [] rest"
proof (induction l arbitrary: acc)
  case Nil
  have "line_break newline" "cp newline \<noteq> 13" by code_simp+
  then show ?case by simp
qed simp

lemma splitlines_log: "splitlines (log_text rows) = map (\<lambda>(a, d). merge_body a d) rows"
proof (induction rows)
  case Nil
  show ?case by (simp add: log_text_def splitlines_def)
next
  case (Cons ad rows)
  obtain a d where ad: "ad = (a, d)" by (cases ad)
  have "\<forall>c \<in> set (merge_body a d). \<not> line_break c"
    by (auto simp: line_break_def simp del: cp_simps dest!: merge_body_plain)
  from splitlines_line [OF this, of "[]" "log_text rows"] Cons show ?case
    by (simp add: ad log_text_def splitlines_def merge_line_body)
qed

lemma read_text_log: "read_text (log_text rows) = log_text rows"
proof (rule read_text_id)
  show "\<forall>c \<in> set (log_text rows). cp c \<noteq> 13"
    using merge_body_plain cp_newline by (fastforce simp: log_text_def merge_line_body simp del: cp_simps)
qed

lemma merge_counts_log: "merge_counts (Some (log_text rows)) i = int (count_list (map fst rows) i)"
proof -
  have "List.map_filter merge_row (map (\<lambda>(a, d). merge_body a d) rows) = map fst rows"
    by (induction rows) (auto simp: merge_row_body List.map_filter_simps)
  then show ?thesis by (simp add: merge_counts_def read_text_log splitlines_log)
qed

lemma record_merge_log:
  "record_merge a d [] (Some (log_text rows)) = Some (log_text (rows @ [(a, d)]))"
  "record_merge a d [] None = Some (log_text [(a, d)])"
  by (simp_all add: record_merge_def log_text_def)


section \<open>What one command does to the files\<close>

lemma publish_result_files:
  assumes "publish_result cfg runner today r mode fs tr = (code, fs2, tr2)"
  shows "fs2 = fs \<or> (\<exists>a \<in> set (store_authorizations today fs).
      merge_counts (merges_log fs) (au_auth_id a) < au_max_merges a
      \<and> fs2 = fs\<lparr>merges_log := record_merge (au_auth_id a) (dr_dispatch_id r) [] (merges_log fs)\<rparr>)"
proof -
  let ?auths = "store_authorizations today fs"
  let ?d = "decide_publish cfg mode (dr_changed_files r) ?auths (merge_counts (merges_log fs))"
  show ?thesis
  proof (cases "pd_action ?d = ActMerge")
    case True
    then obtain a where "a \<in> set ?auths" "pd_auth_id ?d = Some (au_auth_id a)"
      "merge_counts (merges_log fs) (au_auth_id a) < au_max_merges a"
      using decide_merge_auth by blast
    with assms show ?thesis
      unfolding publish_result_def Let_def by (auto split: prod.splits if_splits)
  next
    case False
    then have "pd_auth_id ?d = None" by (rule decide_not_merge_auth)
    with assms show ?thesis unfolding publish_result_def Let_def by (auto split: prod.splits)
  qed
qed

lemma store_authorizations_reset [simp]:
  "store_authorizations today (reset_consecutive_failures fs) = store_authorizations today fs"
  by (simp add: store_authorizations_def reset_consecutive_failures_def)

lemma cmd_loop_files:
  assumes "cmd_loop cfg env dash today task_id mode fs tr = Inr (code, fs2, tr2)"
  shows "fs2 = fs \<or> \<not> breaker_tripped cfg fs \<and> (fs2 = bump_consecutive_failures fs \<or> fs2 = reset_consecutive_failures fs
    \<or> (\<exists>a d. a \<in> set (store_authorizations today fs)
      \<and> merge_counts (merges_log fs) (au_auth_id a) < au_max_merges a
      \<and> fs2 = (reset_consecutive_failures fs)\<lparr>merges_log := record_merge (au_auth_id a) d [] (merges_log fs)\<rparr>))"
    (is "_ \<or> _ \<and> (_ \<or> _ \<or> ?merged)")
proof -
  have log: "merges_log (reset_consecutive_failures fs) = merges_log fs"
    by (simp add: reset_consecutive_failures_def)
  have pub: "fs2 = reset_consecutive_failures fs \<or> ?merged"
    if "publish_result cfg (env_run env) today r m (reset_consecutive_failures fs) tr1 = (code, fs2, tr2)" for r m tr1
    using publish_result_files [OF that] unfolding log store_authorizations_reset by blast
  consider "fs2 = fs" | r tr1 where "\<not> breaker_tripped cfg fs"
      "(if dr_status r \<noteq> Passed then Inr (1, bump_consecutive_failures fs, tr1)
        else case mode of None \<Rightarrow> Inr (0, reset_consecutive_failures fs, tr1)
             | Some m \<Rightarrow> Inr (publish_result cfg (env_run env) today r m (reset_consecutive_failures fs) tr1)) =
       (Inr (code, fs2, tr2) :: (int \<times> ai_files \<times> trace) res)"
    using assms unfolding cmd_loop_def Let_def
    by (auto split: if_split_asm sum.split_asm option.split_asm elim!: bind_res_InrE)
  then show ?thesis
  proof cases
    case 2
    then show ?thesis using pub by (cases mode) (auto split: if_split_asm)
  qed simp
qed

lemma operated_files:
  "operated cfg dash fs fs2 \<Longrightarrow>
     (\<exists>env today task_id mode tr code tr2. cmd_loop cfg env dash today task_id mode fs tr = Inr (code, fs2, tr2))
     \<or> (failure_counter fs2 = failure_counter fs \<and> merges_log fs2 = merges_log fs
        \<and> authorizations_file fs2 = authorizations_file fs)"
  by (erule operatedE)
    (auto simp: write_halt_def clear_halt_def bump_seatbelt_def reset_seatbelt_def)

section \<open>The breaker\<close>

definition counter_ok :: "DispatcherConfig \<Rightarrow> ai_files \<Rightarrow> bool" where
  "counter_ok cfg fs \<longleftrightarrow> failure_counter fs = None \<and> 0 < max_consecutive_failures cfg
     \<or> (\<exists>n. failure_counter fs = Some (count_text n) \<and> 0 \<le> n \<and> n \<le> max_consecutive_failures cfg)"

lemma failures_read:
  "failure_counter fs = None \<Longrightarrow> consecutive_failures fs = 0"
  "failure_counter fs = Some (count_text n) \<Longrightarrow> consecutive_failures fs = n"
  by (simp_all add: consecutive_failures_def read_count_text) (simp add: read_count_def)

lemma counter_ok_bound:
  "counter_ok cfg fs \<Longrightarrow> 0 \<le> consecutive_failures fs \<and> consecutive_failures fs \<le> max_consecutive_failures cfg"
  by (auto simp: counter_ok_def failures_read)

lemma counter_ok_step:
  assumes "operated cfg dash fs fs2" and "counter_ok cfg fs" and "0 < max_consecutive_failures cfg"
  shows "counter_ok cfg fs2"
proof -
  have bump: "\<not> breaker_tripped cfg fs \<Longrightarrow> counter_ok cfg (bump_consecutive_failures fs)"
    using counter_ok_bound [OF assms(2)] assms(3)
    by (auto simp: counter_ok_def bump_consecutive_failures_def breaker_tripped_def)
  show ?thesis
    using operated_files [OF assms(1)] assms(2,3) bump
    by (auto simp: counter_ok_def reset_consecutive_failures_def dest!: cmd_loop_files)
qed

lemma tripped_refuses:
  "breaker_tripped cfg fs \<Longrightarrow> cmd_loop cfg env dash today task_id mode fs tr = Inr (2, fs, tr)"
  by (simp add: cmd_loop_def)


section \<open>The budget\<close>

definition log_within :: "string \<Rightarrow> int \<Rightarrow> string option \<Rightarrow> bool" where
  "log_within i b log_file \<longleftrightarrow>
     log_file = None \<or> (\<exists>rows. log_file = Some (log_text rows) \<and> int (count_list (map fst rows) i) \<le> b)"

lemma log_within_counts: "log_within i b log_file \<Longrightarrow> 0 \<le> b \<Longrightarrow> merge_counts log_file i \<le> b"
proof -
  have "merge_counts None i = 0" by (simp add: merge_counts_def)
  then show "log_within i b log_file \<Longrightarrow> 0 \<le> b \<Longrightarrow> merge_counts log_file i \<le> b"
    by (auto simp: log_within_def merge_counts_log)
qed

lemma log_within_record:
  assumes "log_within i b log_file" and "a = i \<Longrightarrow> merge_counts log_file i < b" and "0 \<le> b"
  shows "log_within i b (record_merge a d [] log_file)"
proof (cases log_file)
  case None
  then show ?thesis
    using assms(2,3) unfolding log_within_def
    by (intro disjI2 exI [of _ "[(a, d)]"]) (auto simp: record_merge_log merge_counts_def)
next
  case (Some t)
  then obtain rows where rows: "log_file = Some (log_text rows)" "int (count_list (map fst rows) i) \<le> b"
    using assms(1) by (auto simp: log_within_def)
  then show ?thesis
    using assms(2) unfolding log_within_def
    by (intro disjI2 exI [of _ "rows @ [(a, d)]"]) (auto simp: record_merge_log merge_counts_log)
qed


end
