(* ===== verification/DispatchScope.thy ===== *)
theory DispatchScope
  imports DispatchLoop
begin

text \<open>
  The scope of a rendered TASK packet is the list of the planner's JSON: no free text of
  the plan can add a field to the packet or change one.
\<close>

section \<open>Lines of a joined text\<close>

lemma split_chars_nonempty [simp]: "split_chars p s \<noteq> []"
  by (induction s) (auto split: list.splits)

lemma split_chars_append: "p c \<Longrightarrow> split_chars p (a @ c # b) = split_chars p a @ split_chars p b"
  by (induction a) (auto split: list.splits)

lemma split_chars_none: "\<forall>c \<in> set s. \<not> p c \<Longrightarrow> split_chars p s = [s]"
  by (induction s) auto

lemma split_chars_pieces: "w \<in> set (split_chars p s) \<Longrightarrow> c \<in> set w \<Longrightarrow> \<not> p c \<and> c \<in> set s"
proof (induction s arbitrary: w)
  case (Cons d s)
  obtain v vs where vs: "split_chars p s = v # vs" by (cases "split_chars p s") simp_all
  have ih: "w' \<in> set (v # vs) \<Longrightarrow> c \<in> set w' \<Longrightarrow> \<not> p c \<and> c \<in> set s" for w'
    using Cons.IH [of w'] vs by simp
  show ?case
  proof (cases "p d")
    case True
    then have "w = [] \<or> w \<in> set (v # vs)" using Cons.prems vs by auto
    with Cons.prems ih [of w] show ?thesis by auto
  next
    case False
    then have "w = d # v \<or> w \<in> set (v # vs)" using Cons.prems vs by auto
    with Cons.prems False ih [of w] ih [of v] show ?thesis by auto
  qed
qed simp

lemma match_lines_join: "ls \<noteq> [] \<Longrightarrow> match_lines (join_lines ls) = concat (map match_lines ls)"
  by (induction ls rule: join_lines.induct) (simp_all add: match_lines_def split_chars_append)

lemma map_filter_concat: "List.map_filter f (concat xss) = concat (map (List.map_filter f) xss)"
  by (induction xss) (simp_all add: List.map_filter_def)

lemma parse_fields_join: "ls \<noteq> [] \<Longrightarrow> parse_fields (join_lines ls) = concat (map parse_fields ls)"
  unfolding parse_fields_def by (simp add: match_lines_join map_filter_concat comp_def)

definition inline :: "string \<Rightarrow> bool" where
  "inline s \<longleftrightarrow> list_all (\<lambda>c. c \<noteq> newline \<and> cp c \<noteq> 13) s"

lemma parse_fields_inline:
  "inline s \<Longrightarrow> parse_fields s = (case field_line s of None \<Rightarrow> [] | Some kv \<Rightarrow> [kv])"
  by (simp add: parse_fields_def match_lines_def split_chars_none inline_def list_all_iff List.map_filter_def
      split: option.split)

section \<open>Field lines\<close>

lemma py_strip_blank: "is_space c \<Longrightarrow> py_strip (c # s) = py_strip s"
  by (simp add: py_strip_def)

lemma set_py_strip: "set (py_strip s) \<subseteq> set s"
  by (auto simp: py_strip_def dest!: set_dropWhileD)

lemma field_line_packet_line:
  assumes "k \<noteq> []" and "is_upper (hd k)" and "list_all key_char k"
  shows "field_line (packet_line k v) = Some (k, py_strip v)"
proof -
  have n: "\<not> key_char (CHR '':'')" "is_space (CHR '' '')" "blank (CHR '' '')" by code_simp+
  have t: "takeWhile key_char (k @ '': '' @ v) = k" "dropWhile key_char (k @ '': '' @ v) = '': '' @ v"
    using assms(3) n(1) by (simp_all add: list_all_iff takeWhile_append2 dropWhile_append2)
  have "\<not> blank (hd k)" using assms(2) by (auto simp: blank_def is_upper_def)
  then have d: "dropWhile blank (k @ '': '' @ v) = k @ '': '' @ v" using assms(1) by (cases k) simp_all
  show ?thesis
    using assms(1,2) t d n by (simp add: field_line_def packet_line_def key_colon_def Let_def py_strip_blank)
qed

lemma field_line_value:
  assumes "field_line s = Some (k, v)"
  shows "set v \<subseteq> set s"
proof -
  obtain c d rest where s: "s = c # d # rest" using assms by (cases s; cases "tl s") (auto simp: field_line_def)
  obtain r where r: "key_colon (dropWhile blank rest) = Some (k, r)" "v = py_strip r"
    using assms s by (auto simp: field_line_def split: if_splits)
  have "set r \<subseteq> set (dropWhile blank rest)"
    using r(1) set_dropWhileD [of _ key_char "dropWhile blank rest"]
    by (fastforce simp: key_colon_def Let_def split: list.splits if_splits)
  then show ?thesis using r(2) s set_py_strip [of r] by (auto dest: set_dropWhileD)
qed

lemma parse_fields_value:
  assumes "(k, v) \<in> set (parse_fields t)" and "list_all (\<lambda>c. cp c \<noteq> 13) t"
  shows "inline v"
proof -
  obtain l where l: "l \<in> set (match_lines t)" "field_line l = Some (k, v)"
    using assms(1) by (auto simp: parse_fields_def List.map_filter_def split: option.splits)
  have "c \<in> set v \<Longrightarrow> c \<noteq> newline \<and> cp c \<noteq> 13" for c
    using field_line_value [OF l(2)] split_chars_pieces [OF l(1) [unfolded match_lines_def]] assms(2)
    by (auto simp: list_all_iff simp del: cp_simps)
  then show ?thesis by (auto simp: inline_def list_all_iff)
qed

section \<open>Free text has no fields\<close>

lemma splitlines_from_break:
  "l \<in> set (splitlines_from acc s) \<Longrightarrow> \<forall>c \<in> set acc. \<not> line_break c \<Longrightarrow> c \<in> set l \<Longrightarrow> \<not> line_break c"
proof (induction acc s rule: splitlines_from.induct)
  case (2 acc c cs)
  then show ?case by (auto split: if_splits)
qed (auto split: if_splits)

lemma escaped_line:
  assumes "l \<in> set (splitlines t)"
  shows "inline (if field_line l = None then l else ''> '' @ l)
    \<and> field_line (if field_line l = None then l else ''> '' @ l) = None"
proof -
  have "line_break newline" "\<forall>c \<in> set ''> ''. c \<noteq> newline \<and> cp c \<noteq> 13" by code_simp+
  moreover have "cp c = 13 \<Longrightarrow> line_break c" for c by (simp add: line_break_def)
  ultimately have "inline l" "inline (''> '' @ l)"
    using splitlines_from_break [OF assms [unfolded splitlines_def]]
    by (auto simp: inline_def list_all_iff simp del: cp_simps)
  then show ?thesis by (simp add: field_line_def)
qed

lemma escaped_no_fields: "parse_fields (escape_packet_field_lines t) = []"
proof (cases "splitlines t")
  case Nil
  then show ?thesis
    by (simp add: escape_packet_field_lines_def parse_fields_def match_lines_def field_line_def List.map_filter_def)
next
  case (Cons l ls)
  then show ?thesis
    using escaped_line [of _ t]
    by (auto simp: escape_packet_field_lines_def parse_fields_join parse_fields_inline)
qed

section \<open>The scope of a rendered packet\<close>

lemma scope_pieces_nonempty:
  "filter (\<lambda>t. t \<noteq> []) (map py_strip (split_chars (\<lambda>c. c = CHR '','' \<or> is_space c) s)) =
   filter (\<lambda>t. t \<noteq> []) (split_chars (\<lambda>c. c = CHR '','' \<or> is_space c) s)"
proof -
  have "py_strip w = w" if "w \<in> set (split_chars (\<lambda>c. c = CHR '','' \<or> is_space c) s)" for w
  proof (cases "w = []")
    case False
    then show ?thesis using split_chars_pieces [OF that] by (intro py_strip_id) auto
  qed (simp add: py_strip_def)
  then show ?thesis by (simp cong: map_cong)
qed

abbreviation quoted_scope :: "string list \<Rightarrow> string" where
  "quoted_scope fs \<equiv> join_with '', '' (map (\<lambda>f. CHR 0x60 # f @ [CHR 0x60]) fs)"

lemma parse_scope_quoted:
  assumes "[] \<notin> set fs" and "\<not> list_ex (list_ex scope_delimiter) fs"
  shows "parse_scope_globs (quoted_scope fs) = fs"
proof -
  let ?p = "\<lambda>c. c = CHR '','' \<or> is_space c"
  let ?g = "\<lambda>c. if c = CHR 0x60 then CHR '' '' else c"
  let ?tok = "\<lambda>s. filter (\<lambda>t. t \<noteq> []) (split_chars ?p s)"
  have sp: "?p (CHR '' '')" "?p (CHR '','')" by code_simp+
  have g: "map ?g f = f" if "f \<in> set fs" for f
  proof -
    have "\<forall>c \<in> set f. c \<noteq> CHR 0x60" using assms(2) that by (auto simp: list_ex_iff scope_delimiter_def)
    then show ?thesis by (induction f) simp_all
  qed
  have word: "?tok (CHR '' '' # f @ CHR '' '' # r) = f # ?tok r" if "f \<in> set fs" for f r
  proof -
    have "\<forall>c \<in> set f. \<not> ?p c" using assms(2) that by (auto simp: list_ex_iff scope_delimiter_def)
    then have "split_chars ?p (f @ CHR '' '' # r) = f # split_chars ?p r"
      using split_chars_append [of ?p "CHR '' ''" f r] sp(1) by (simp add: split_chars_none)
    moreover have "f \<noteq> []" using assms(1) that by auto
    ultimately show ?thesis using sp(1) by simp
  qed
  have "set gs \<subseteq> set fs \<Longrightarrow> ?tok (map ?g (quoted_scope gs)) = gs" for gs
  proof (induction gs rule: induct_list012)
    case (2 f)
    then show ?case using word [of f "[]"] g [of f] by simp
  next
    case (3 f f2 gs)
    have "?tok (map ?g (quoted_scope (f2 # gs))) = f2 # gs" using 3 by simp
    then show ?case using 3(3) word [of f "'', '' @ map ?g (quoted_scope (f2 # gs))"] g [of f] sp by simp
  qed simp
  then show ?thesis by (simp add: parse_scope_globs_def scope_pieces_nonempty)
qed

lemma inline_literals [simp]:
  "inline []" "inline (a @ b) \<longleftrightarrow> inline a \<and> inline b"
  "inline (c # s) \<longleftrightarrow> c \<noteq> newline \<and> cp c \<noteq> 13 \<and> inline s"
  by (auto simp: inline_def simp del: cp_simps)

lemma join_lines_no_cr:
  "\<forall>l \<in> set ls. \<forall>c \<in> set l. cp c \<noteq> 13 \<Longrightarrow> \<forall>c \<in> set (join_lines ls). cp c \<noteq> 13"
  by (induction ls rule: join_lines.induct) (auto simp: cp_newline simp del: cp_simps)

lemma escaped_no_cr: "\<forall>c \<in> set (escape_packet_field_lines t). cp c \<noteq> 13"
  unfolding escape_packet_field_lines_def
proof (rule join_lines_no_cr, intro ballI)
  fix l c
  assume "l \<in> set (map (\<lambda>line. if field_line line = None then line else ''> '' @ line) (splitlines t))" and c: "c \<in> set l"
  then obtain k where "k \<in> set (splitlines t)" "l = (if field_line k = None then k else ''> '' @ k)" by auto
  then have "inline l" using escaped_line [of k t] by simp
  then show "cp c \<noteq> 13" using c by (simp add: inline_def list_all_iff del: cp_simps)
qed

lemma rendered_fields:
  assumes "inline dispatch_id" and "inline author" and "inline ts" and "inline rel" and "dash \<noteq> newline" and "cp dash \<noteq> 13"
  shows "last_value (parse_fields (read_text (rendered_packet dash dispatch_id author ts rel
      (escape_packet_field_lines goal) (escape_packet_field_lines notes)))) ''RELATED_FILES'' = Some (py_strip rel)"
proof -
  let ?ls = "[''# TASK '' @ dash # '' '' @ dispatch_id, [],
        packet_line ''DISPATCH_ID'' dispatch_id, packet_line ''AUTHOR'' author,
        packet_line ''TIMESTAMP'' ts, packet_line ''RELATED_FILES'' rel,
        packet_line ''STATUS'' ''ready'', [], ''## Goal'', [], escape_packet_field_lines goal, [], ''## Scope'', [],
        ''MAY edit: '' @ rel,
        ''MUST NOT edit: any file outside the RELATED_FILES list.'', [],
        ''## Notes'', [], escape_packet_field_lines notes, [],
        ''<!-- machine-footer: filled on completion -->'', packet_line ''HANDOFF_STATUS'' ''COMPLETE'',
        packet_line ''DISPATCH_ID'' dispatch_id, packet_line ''NEXT_ROLE'' ''EXECUTOR_AI'',
        packet_line ''EXIT_CODE'' ''0'', []]"
  have keys: "list_all (\<lambda>k. k \<noteq> [] \<and> is_upper (hd k) \<and> list_all key_char k \<and> inline (''- '' @ k @ '': ''))
      [''DISPATCH_ID'', ''AUTHOR'', ''TIMESTAMP'', ''RELATED_FILES'', ''STATUS'', ''HANDOFF_STATUS'', ''NEXT_ROLE'', ''EXIT_CODE'']"
    by code_simp
  have lits: "list_all inline [''# TASK '', '' '', ''ready'', ''## Goal'', ''## Scope'', ''MAY edit: '',
      ''MUST NOT edit: any file outside the RELATED_FILES list.'', ''## Notes'',
      ''<!-- machine-footer: filled on completion -->'', ''COMPLETE'', ''EXECUTOR_AI'', ''0'']"
    by code_simp
  have pl: "inline v \<Longrightarrow> k \<in> {''DISPATCH_ID'', ''AUTHOR'', ''TIMESTAMP'', ''RELATED_FILES'', ''STATUS'', ''HANDOFF_STATUS'', ''NEXT_ROLE'', ''EXIT_CODE''} \<Longrightarrow>
      inline (packet_line k v) \<and> parse_fields (packet_line k v) = [(k, py_strip v)]" for k v
  proof -
    assume v: "inline v" and k: "k \<in> {''DISPATCH_ID'', ''AUTHOR'', ''TIMESTAMP'', ''RELATED_FILES'', ''STATUS'', ''HANDOFF_STATUS'', ''NEXT_ROLE'', ''EXIT_CODE''}"
    have kk: "k \<noteq> []" "is_upper (hd k)" "list_all key_char k" "inline (''- '' @ k @ '': '')"
      using keys k unfolding list_all_iff by (auto simp del: inline_literals cp_simps)
    have i: "inline (packet_line k v)"
      using kk(4) v unfolding packet_line_def inline_def list_all_iff by (auto simp del: cp_simps)
    with parse_fields_inline [OF i] field_line_packet_line [OF kk(1-3)] show ?thesis by simp
  qed
  have k: "parse_fields l = []" if "inline l" "l = [] \<or> hd l \<noteq> CHR ''-''" for l
    using that by (cases l) (auto simp: parse_fields_inline field_line_def split: list.split)
  have none: "parse_fields (''# TASK '' @ dash # '' '' @ dispatch_id) = []" "parse_fields [] = []"
    "parse_fields ''## Goal'' = []" "parse_fields ''## Scope'' = []" "parse_fields (''MAY edit: '' @ rel) = []"
    "parse_fields ''MUST NOT edit: any file outside the RELATED_FILES list.'' = []" "parse_fields ''## Notes'' = []"
    "parse_fields ''<!-- machine-footer: filled on completion -->'' = []"
    using lits assms unfolding list.pred_inject by (intro k; simp del: cp_simps)+
  have lit: "inline ''ready''" "inline ''COMPLETE''" "inline ''EXECUTOR_AI''" "inline ''0''"
    using lits unfolding list.pred_inject by blast+
  have ins: "inline (''# TASK '' @ dash # '' '' @ dispatch_id)" "inline (''MAY edit: '' @ rel)"
    using lits assms unfolding list.pred_inject by (simp_all del: cp_simps)
  have "\<forall>l \<in> set ?ls. \<forall>c \<in> set l. cp c \<noteq> 13"
  proof -
    have "inline l \<Longrightarrow> \<forall>c \<in> set l. cp c \<noteq> 13" for l by (auto simp: inline_def list_all_iff)
    moreover have "list_all (\<lambda>l. inline l \<or> l = escape_packet_field_lines goal \<or> l = escape_packet_field_lines notes) ?ls"
      using lits lit ins assms pl unfolding list.pred_inject by (simp del: cp_simps inline_literals(2,3))
    ultimately show ?thesis using escaped_no_cr unfolding list_all_iff by blast
  qed
  then have r: "read_text (join_lines ?ls) = join_lines ?ls"
    by (intro read_text_id join_lines_no_cr)
  have "parse_fields (join_lines ?ls) = [(''DISPATCH_ID'', py_strip dispatch_id), (''AUTHOR'', py_strip author),
      (''TIMESTAMP'', py_strip ts), (''RELATED_FILES'', py_strip rel), (''STATUS'', py_strip ''ready''),
      (''HANDOFF_STATUS'', py_strip ''COMPLETE''), (''DISPATCH_ID'', py_strip dispatch_id),
      (''NEXT_ROLE'', py_strip ''EXECUTOR_AI''), (''EXIT_CODE'', py_strip ''0'')]"
    by (subst parse_fields_join)
      (simp_all add: none none(1,5) [simplified] escaped_no_fields pl assms lit del: inline_literals cp_simps)
  then show ?thesis
    unfolding rendered_packet_def r by (simp add: last_value_def)
qed

text \<open>C19. The executor's scope is the planner's list and nothing else: when the planner's JSON is
rendered into a TASK packet, the globs the loop later reads from that packet are exactly the
related files of the JSON, and the handoff directory; no text in the goal or the notes, whatever
lines it holds, can add to them.\<close>

theorem rendered_scope_is_planned:
  assumes "render_task_packet_from_plan_json dash plan_text (read_text scaffold) now = Inr packet"
    and "inline now" and "dash \<noteq> newline" and "cp dash \<noteq> 13"
  shows "\<exists>d related. loads_text plan_text = Inr (JObj d) \<and> dict_get d ''related_files'' = Some (JArr related)
    \<and> allowed_globs cfg packet = map (py_strip \<circ> json_text) related @ [handoffs_dirname cfg @ ''/**'']"
proof -
  let ?fields = "parse_fields (read_text scaffold)"
  have fld: "inline v" if "last_value ?fields k = Some v" for k v
    using that parse_fields_value [OF _ no_cr_read_text] unfolding last_value_def
    by (metis map_of_SomeD set_rev)
  have fo: "inline (field_or ?fields k v)" if "inline v" for k v
    using that fld by (auto simp: field_or_def split: option.split)
  obtain d where d: "loads_text plan_text = Inr (JObj d)"
    using assms(1) unfolding render_task_packet_from_plan_json_def
    by (cases "loads_text plan_text"; cases "projr (loads_text plan_text)") simp_all
  obtain related where related: "dict_get d ''related_files'' = Some (JArr related)"
    using assms(1) unfolding render_task_packet_from_plan_json_def d sum.case json.case Let_def
    by (elim bind_check_InrE, cases "dict_get d ''related_files''"; cases "the (dict_get d ''related_files'')") simp_all
  let ?files = "map (py_strip \<circ> json_text) related"
  let ?goal = "py_strip (get_text d ''goal'')"
  let ?remarks = "or_default (py_strip (get_text d ''notes'')) ''No additional notes.''"
  have parts: "last_value ?fields ''DISPATCH_ID'' = Some (py_strip (get_text d ''dispatch_id''))"
    "[] \<notin> set ?files" "\<not> list_ex (list_ex scope_delimiter) ?files"
    "packet = rendered_packet dash (py_strip (get_text d ''dispatch_id'')) (field_or ?fields ''AUTHOR'' ''planner:codex'')
      (field_or ?fields ''TIMESTAMP'' now) (quoted_scope ?files) (escape_packet_field_lines ?goal) (escape_packet_field_lines ?remarks)"
    "related \<noteq> []"
    using assms(1) unfolding render_task_packet_from_plan_json_def d related sum.case json.case option.case Let_def
    by (elim bind_check_InrE; simp only: sum.inject not_not simp_thms)+
  have f: "inline f" if "f \<in> set ?files" for f
  proof -
    have sp: "is_space newline" "cp c = 13 \<Longrightarrow> is_space c" for c
      by code_simp (simp add: is_space_def)
    have "\<forall>c \<in> set f. \<not> is_space c" using parts(3) that by (auto simp: list_ex_iff scope_delimiter_def)
    then show ?thesis using sp by (auto simp: inline_def list_all_iff simp del: cp_simps)
  qed
  have lit: "inline ''planner:codex''" "inline '', ''" "inline [CHR 0x60]" by code_simp+
  have scope: "inline (quoted_scope gs)" if "set gs \<subseteq> set ?files" for gs
    using that
  proof (induction gs rule: induct_list012)
    case (2 g)
    then show ?case using f [of g] lit(3) by (simp del: cp_simps)
  next
    case (3 g g2 gs)
    then have "inline (quoted_scope (g2 # gs))" by simp
    then show ?case using 3(3) f [of g] lit(2,3) by (simp del: cp_simps)
  qed simp
  have ends: "py_strip (quoted_scope gs) = quoted_scope gs" if "gs \<noteq> []" for gs
  proof (rule py_strip_id)
    have bq: "\<not> is_space (CHR 0x60)" by code_simp
    have "quoted_scope gs \<noteq> [] \<and> hd (quoted_scope gs) = CHR 0x60 \<and> last (quoted_scope gs) = CHR 0x60"
      using that by (induction gs rule: induct_list012) auto
    then show "quoted_scope gs \<noteq> []" "\<not> is_space (hd (quoted_scope gs))" "\<not> is_space (last (quoted_scope gs))"
      using bq by auto
  qed
  have "last_value (parse_fields (read_text packet)) ''RELATED_FILES'' = Some (py_strip (quoted_scope ?files))"
    unfolding parts(4)
    by (rule rendered_fields) (use fld [OF parts(1)] fo lit(1) assms(2-4) scope [OF subset_refl] in \<open>simp_all only: simp_thms\<close>)
  also have "\<dots> = Some (quoted_scope ?files)" using ends [of ?files] parts(5) by simp
  finally have "field (parse_fields (read_text packet)) ''RELATED_FILES'' = quoted_scope ?files" by (simp add: field_def)
  with parse_scope_quoted [OF parts(2,3)] d related show ?thesis by (simp add: allowed_globs_def)
qed

end
