(* ===== verification/DispatchCases.thy ===== *)
theory DispatchCases
  imports DispatchStateLaws DispatchScope
begin

text \<open>
  A dispatch from the brief to the push, and one that fails: the properties of the
  dispatcher at concrete inputs.
\<close>

text \<open>A tilde stands for the double quote.\<close>

definition dq :: "string \<Rightarrow> string" where
  "dq s = map (\<lambda>c. if c = CHR ''~'' then CHR 0x22 else c) s"

definition done_ok :: "string \<Rightarrow> CommandResult" where
  "done_ok out = \<lparr>cr_exit_code = 0, cr_stdout = out, cr_stderr = [], cr_duration_s = f_zero, cr_timed_out = False, cr_stalled = False\<rparr>"

definition demo_env :: env where
  "demo_env =
     \<lparr>env_run = (\<lambda>tr argv.
        if argv = [''git'', ''status'', ''--porcelain=v1'']
        then done_ok (if ExecCall 0 \<in> set tr then '' M docs/a.md'' else [])
        else if argv = [''git'', ''diff'', ''--cached'', ''--name-only''] then done_ok ''docs/a.md''
        else done_ok []),
      env_plan = (\<lambda>tr. (done_ok [], Some (dq ''{~dispatch_id~:~T1~,~related_files~:[~docs/a.md~],~goal~:~g~}''))),
      env_gate = (\<lambda>tr. done_ok (dq ''{~result~:~GATE_VERDICT: approve~}'')),
      env_exec = (\<lambda>tr. done_ok (dq ''{~result~:~EXEC_STATUS: executed~}'')),
      env_exec_packet = (\<lambda>tr. None),
      env_control = (\<lambda>tr. (done_ok [], Some (dq ''{~verdict~:~pass~}''))),
      env_timestamp = (\<lambda>tr. ''2026-01-01'')\<rparr>"

definition demo_files :: ai_files where
  "demo_files =
     \<lparr>stop_sentinel = False, halt_sentinel = None, failure_counter = None, seatbelt_counter = None, merges_log = None,
      authorizations_file = Some (dq ''{~authorizations~:[{~id~:~A~,~scope~:[~docs/**~],~max_merges~:1,~expires~:~2026-12-31~,~granted_by~:~H~}]}''),
      tasks_file = ''## T1: t''\<rparr>"

definition demo_task :: Task where
  "demo_task = \<lparr>tk_task_id = ''T1'', tk_title = ''t'', tk_body = [], tk_status = ''unarmed''\<rparr>"

section \<open>Its texts\<close>

definition demo_scaffold :: string where
  "demo_scaffold = projr (scaffold_packet (CHR ''-'') ''2026-01-01'' ''T1'' ''TASK'' ''planner:codex'')"

lemma demo_scaffold: "scaffold_packet (CHR ''-'') ''2026-01-01'' ''T1'' ''TASK'' ''planner:codex'' = Inr demo_scaffold"
  by code_simp

definition demo_plan_text :: string where
  "demo_plan_text = dq ''{~dispatch_id~:~T1~,~related_files~:[~docs/a.md~],~goal~:~g~}''"

definition demo_packet :: string where
  "demo_packet = projr (render_task_packet_from_plan_json (CHR ''-'') demo_plan_text (read_text demo_scaffold) ''2026-01-01'')"

lemma demo_render: "render_task_packet_from_plan_json (CHR ''-'') demo_plan_text (read_text demo_scaffold) ''2026-01-01'' = Inr demo_packet"
  by code_simp

lemma demo_packet_valid: "packet_problems (read_text demo_packet) = []"
  by code_simp

lemma demo_globs: "allowed_globs default_config demo_packet = [''docs/a.md'', ''ai_dispatcher/handoffs/**'']"
  by code_simp

lemma demo_verdict: "marker (ar_markers (plan_gate (done_ok (dq ''{~result~:~GATE_VERDICT: approve~}'')))) ''GATE_VERDICT'' = ''approve''"
  by code_simp

lemma demo_executed: "ar_ok (execute (done_ok (dq ''{~result~:~EXEC_STATUS: executed~}''))) \<and>
    marker (ar_markers (execute (done_ok (dq ''{~result~:~EXEC_STATUS: executed~}'')))) ''EXEC_STATUS'' = ''executed''"
  by code_simp

lemma demo_control: "codex_control (done_ok []) (Some (dq ''{~verdict~:~pass~}'')) =
    (\<lparr>ar_ok = True, ar_text = [], ar_markers = [], ar_raw = [], ar_error = None\<rparr>, Some [(''verdict'', JStr ''pass'')])"
  by code_simp

lemma demo_changed: "parse_status_porcelain '' M docs/a.md'' = [''docs/a.md'']" "parse_status_porcelain [] = []"
  by code_simp+

lemma demo_scope: "out_of_scope [''docs/a.md''] [''docs/a.md'', ''ai_dispatcher/handoffs/**''] = []"
  by code_simp

lemma demo_tasks: "parse_tasks ''## T1: t'' = [demo_task]"
  by code_simp

section \<open>Its stages\<close>

abbreviation demo_dash :: char where
  "demo_dash \<equiv> CHR ''-''"

definition demo_tr1 :: trace where
  "demo_tr1 = [Run [''git'', ''status'', ''--porcelain=v1''],
     Run [''git'', ''rev-list'', ''--left-right'', ''--count'', ''origin/main...HEAD'']]"

lemma demo_preflight: "preflight default_config demo_env ([], []) = (None, (demo_tr1, []))"
  by code_simp

lemma demo_plan:
  "plan_stage default_config demo_env demo_dash demo_task demo_scaffold 0 (demo_tr1, []) =
     (Some (Inr demo_packet), demo_packet, (demo_tr1 @ [PlanCall 0, GateCall 0], [''plan-gate rev0: approve'']))"
proof -
  have p: "codex_plan (done_ok []) (Some (dq ''{~dispatch_id~:~T1~,~related_files~:[~docs/a.md~],~goal~:~g~}'')) =
      \<lparr>ar_ok = True, ar_text = demo_plan_text, ar_markers = [], ar_raw = [], ar_error = None\<rparr>"
    by code_simp
  have t: "plan_packet_text demo_env demo_dash demo_task demo_scaffold tr demo_plan_text = demo_packet" for tr
    by (simp add: plan_packet_text_def demo_env_def demo_render)
  have n: "''plan-gate rev'' @ nat_text 0 @ '': '' @ or_default ''approve'' ''(none)'' = ''plan-gate rev0: approve''"
    by code_simp
  show ?thesis
    using n by (simp add: plan_stage_def Let_def demo_env_def p t [unfolded demo_env_def] validate_packet_def demo_packet_valid demo_verdict)
qed

definition demo_tr2 :: trace where
  "demo_tr2 = demo_tr1 @ [PlanCall 0, GateCall 0, ExecCall 0, Run [''git'', ''status'', ''--porcelain=v1'']]"

definition demo_verify :: "VerifyResult \<times> trace \<times> string list" where
  "demo_verify = run_verify default_config (env_run demo_env) demo_tr2 [''plan-gate rev0: approve'']"

lemma demo_verify_ok:
  "vr_ok (fst demo_verify)" "is_publishable (fst demo_verify)"
  "fst (snd demo_verify) = demo_tr2 @ [Run [''uv'', ''run'', ''ruff'', ''check'', ''.''],
     Run [''uv'', ''run'', ''ruff'', ''format'', ''--check'', ''.''], Run [''uv'', ''run'', ''mypy''], Run [''uv'', ''run'', ''pytest'']]"
  by code_simp+

definition demo_result :: DispatchResult where
  "demo_result = late_result demo_task Passed ''control passed'' [''docs/a.md''] (fst demo_verify) (Some [(''verdict'', JStr ''pass'')]) 0"

definition demo_tr3 :: trace where
  "demo_tr3 = fst (snd demo_verify) @ [Run [''git'', ''diff'', ''--no-ext-diff'', ''HEAD'', ''--'', ''docs/a.md''], ControlCall 0]"

definition demo_sink :: "string list" where
  "demo_sink = snd (snd demo_verify) @ [''control round0: pass/(none)'']"

lemma demo_control_stage:
  "control_stage default_config demo_env demo_dash demo_task 0 [''docs/a.md''] (fst demo_verify) (snd demo_verify) =
     Inr (Some demo_result, (demo_tr3, demo_sink))"
proof -
  have r: "review_bundle default_config [''docs/a.md''] tr = tr @ [Run [''git'', ''diff'', ''--no-ext-diff'', ''HEAD'', ''--'', ''docs/a.md'']]" for tr
    by (simp add: review_bundle_def default_config_def)
  have g: "py_lower (get_text [(''verdict'', JStr ''pass'')] ''verdict'') = ''pass''"
    "py_lower (get_text [(''verdict'', JStr ''pass'')] ''commit_readiness'') = []"
    "''control round'' @ nat_text 0 @ '': '' @ or_default ''pass'' ''(none)'' @ ''/'' @ or_default [] ''(none)'' = ''control round0: pass/(none)''"
    by code_simp+
  show ?thesis
    using g(3) by (simp add: control_stage_def Let_def r demo_env_def demo_control g(1,2) demo_result_def demo_tr3_def demo_sink_def)
qed

lemma demo_exec_stage:
  "exec_stage default_config demo_env demo_dash demo_task [''docs/a.md'', ''ai_dispatcher/handoffs/**''] 0
     (demo_tr1 @ [PlanCall 0, GateCall 0], [''plan-gate rev0: approve'']) = Inr (Some demo_result, (demo_tr3, demo_sink))"
proof -
  let ?st = "(demo_tr1 @ [PlanCall 0, GateCall 0, ExecCall 0], [''plan-gate rev0: approve''])"
  have s: "git_status default_config demo_env ?st = ('' M docs/a.md'', (demo_tr2, [''plan-gate rev0: approve'']))"
    by code_simp
  have v: "verify_stage default_config demo_env demo_dash demo_task [''docs/a.md'', ''ai_dispatcher/handoffs/**''] 0 ?st =
      Inr (Some demo_result, (demo_tr3, demo_sink))"
  proof -
    obtain w tr k where d: "demo_verify = (w, tr, k)" by (cases demo_verify)
    then have "run_verify default_config (env_run demo_env) demo_tr2 [''plan-gate rev0: approve''] = (w, tr, k)"
      by (simp only: demo_verify_def)
    then show ?thesis
      using demo_control_stage [unfolded d] demo_verify_ok [unfolded d]
      by (simp add: verify_stage_def s Let_def demo_changed demo_scope)
  qed
  show ?thesis
    using v by (simp add: exec_stage_def Let_def demo_env_def [THEN arg_cong, of env_exec, simplified] demo_executed)
qed

lemma demo_run: "dispatch_run default_config demo_env demo_dash demo_task ([], []) = Inr (demo_result, (demo_tr3, demo_sink))"
proof -
  have r: "rounds 2 = [0, 1, 2]" "rounds 1 = [0, 1]" by code_simp+
  have c: "max_plan_revisions default_config = 2" "max_correction_rounds default_config = 1" "env_timestamp demo_env tr = ''2026-01-01''"
    "tk_task_id demo_task = ''T1''" for tr
    by (simp_all add: default_config_def demo_env_def demo_task_def)
  show ?thesis
    by (simp add: dispatch_run_def demo_preflight c demo_scaffold plan_with_gate_def r demo_plan
        execute_with_control_def demo_globs demo_exec_stage)
qed

section \<open>The command\<close>

lemma demo_small: "check_size DEFAULT_SIZE_CEILING ''## T1: t'' = Inr ()"
proof -
  have "length (utf8_encode ''## T1: t'') = 8" by code_simp
  then show ?thesis by (simp only: check_size_def DEFAULT_SIZE_CEILING_def) simp
qed

lemma demo_open: "read_count None = 0" "max_consecutive_failures default_config = 3"
  by (simp_all add: read_count_def default_config_def)

definition demo_auth :: Authorization where
  "demo_auth = \<lparr>au_auth_id = ''A'', au_scope_globs = [''docs/**''], au_max_merges = 1, au_expires = 739981, au_granted_by = ''H''\<rparr>"

definition demo_entry :: json where
  "demo_entry = JObj [(''id'', JStr ''A''), (''scope'', JArr [JStr ''docs/**'']), (''max_merges'', JInt 1),
     (''expires'', JStr ''2026-12-31''), (''granted_by'', JStr ''H'')]"

lemma demo_json: "json_parse auth_hooks (read_text (the (authorizations_file demo_files))) =
    Inr (JObj [(''authorizations'', JArr [demo_entry])])"
  by code_simp

lemma demo_build: "build_auth demo_entry = Some demo_auth"
  by code_simp

lemma demo_store: "store_authorizations today demo_files = filter (\<lambda>a. \<not> au_expired a today) [demo_auth]"
proof -
  have f: "authorizations_file demo_files = Some (the (authorizations_file demo_files))" by (simp add: demo_files_def)
  show ?thesis
    unfolding store_authorizations_def
    by (subst f, simp only: option.case parse_authorizations_def demo_json) (simp add: demo_build)
qed

definition demo_tr4 :: trace where
  "demo_tr4 = demo_tr3 @
     [Run [''git'', ''checkout'', ''-b'', ''ai-dispatch/T1''], Run [''git'', ''add'', ''-A''],
      Run [''git'', ''diff'', ''--cached'', ''--name-only''],
      Run [''git'', ''commit'', ''-m'', ''ai-dispatch T1: control passed''], Run [''git'', ''fetch'', ''origin'', ''main''],
      Run [''git'', ''checkout'', ''main''], Run [''git'', ''merge'', ''--ff-only'', ''ai-dispatch/T1''],
      Run [''git'', ''push'', ''origin'', ''main'']]"

lemma demo_decide:
  "decide_publish default_config ModeMain [''docs/a.md''] [demo_auth] (\<lambda>i. 0) = decision ActMerge ''authorized by A'' (Some ''A'')"
  by code_simp

lemma demo_publish:
  "publish default_config (env_run demo_env) (decision ActMerge ''authorized by A'' (Some ''A'')) ''ai-dispatch/T1''
     ''ai-dispatch T1: control passed'' ''ai-dispatch T1'' ''control passed'' [''docs/a.md''] demo_tr3 =
   (outcome_of ActMerge True ''fast-forwarded and pushed origin/main'' None, demo_tr4)"
proof -
  have s: "staged_files ''docs/a.md'' = [''docs/a.md'']" by code_simp
  show ?thesis
    by (simp add: publish_def commit_exact_def merge_to_main_def pub_git_def default_config_def demo_env_def decision_def
        demo_tr4_def done_ok_def cr_ok_def s Let_def)
qed

definition demo_files2 :: ai_files where
  "demo_files2 = (reset_consecutive_failures demo_files)\<lparr>merges_log := record_merge ''A'' ''T1'' [] None\<rparr>"

lemma demo_loop: "cmd_loop default_config demo_env demo_dash 739617 ''T1'' (Some ModeMain) demo_files [] = Inr (0, demo_files2, demo_tr4)"
proof -
  have r: "dr_status demo_result = Passed" "dr_changed_files demo_result = [''docs/a.md'']" "dr_dispatch_id demo_result = ''T1''"
    "dr_detail demo_result = ''control passed''"
    by (simp_all add: demo_result_def late_result_def result_def demo_task_def)
  have st: "store_authorizations 739617 demo_files = [demo_auth]"
    by (simp add: demo_store demo_auth_def au_expired_def)
  have mc: "merge_counts None = (\<lambda>i. 0)" by (rule ext) (simp add: merge_counts_def)
  have f: "merges_log (reset_consecutive_failures demo_files) = None"
    by (simp add: reset_consecutive_failures_def demo_files_def)
  have p: "publish_result default_config (env_run demo_env) 739617 demo_result ModeMain (reset_consecutive_failures demo_files) demo_tr3 =
      (0, demo_files2, demo_tr4)"
    using demo_publish
    by (simp add: publish_result_def Let_def r st f mc demo_decide decision_def outcome_of_def demo_files2_def)
  have g: "\<not> stop_sentinel demo_files" "halt_sentinel demo_files = None" "tasks_file demo_files = ''## T1: t''"
    "failure_counter demo_files = None"
    by (simp_all add: demo_files_def)
  have t: "tk_task_id demo_task = ''T1''" by (simp add: demo_task_def)
  show ?thesis
    using p by (simp add: cmd_loop_def Let_def g halt_state_def breaker_tripped_def consecutive_failures_def demo_open demo_small demo_tasks t
        demo_run r)
qed

section \<open>A dispatch that fails\<close>

definition dirty_env :: env where
  "dirty_env = demo_env\<lparr>env_run := \<lambda>tr argv. done_ok '' M docs/a.md''\<rparr>"

lemma dirty_loop:
  assumes "\<not> stop_sentinel fs" and "halt_sentinel fs = None" and "tasks_file fs = ''## T1: t''"
    and "\<not> breaker_tripped default_config fs"
  shows "cmd_loop default_config dirty_env demo_dash 739617 ''T1'' None fs [] =
    Inr (1, bump_consecutive_failures fs, [Run [''git'', ''status'', ''--porcelain=v1'']])"
proof -
  have d: "dispatch_run default_config dirty_env demo_dash demo_task ([], []) =
      Inr (result demo_task Failed ''working tree is dirty; start from a clean base'', ([Run [''git'', ''status'', ''--porcelain=v1'']], []))"
    by code_simp
  have t: "tk_task_id demo_task = ''T1''" by (simp add: demo_task_def)
  show ?thesis
    using assms by (simp add: cmd_loop_def Let_def halt_state_def demo_small demo_tasks t d) (simp add: result_def)
qed

section \<open>The witnesses\<close>


theorem dispatch_only_reads_git_witness:
  "list_all (\<lambda>c. case c of
      Run a \<Rightarrow> a = cfg_git default_config @ [''status'', ''--porcelain=v1'']
          \<or> a = cfg_git default_config @ [''rev-list'', ''--left-right'', ''--count'', integration_ref default_config @ ''...HEAD'']
          \<or> take (length (cfg_git default_config) + 4) a = cfg_git default_config @ [''diff'', ''--no-ext-diff'', ''HEAD'', ''--'']
          \<or> a \<in> set (map snd (verify_steps default_config))
      | _ \<Rightarrow> True) (fst (demo_tr3, demo_sink))"
  by (rule dispatch_only_reads_git [OF demo_run])

theorem main_pushed_only_when_authorized_witness:
  "\<not> stop_sentinel demo_files \<and> halt_sentinel demo_files = None \<and> \<not> breaker_tripped default_config demo_files
    \<and> Some ModeMain = Some ModeMain
    \<and> (\<exists>task r st a msg branch.
        tk_task_id task = ''T1'' \<and> dispatch_run default_config demo_env demo_dash task ([], []) = Inr (r, st) \<and> dr_status r = Passed
      \<and> a \<in> set (store_authorizations 739617 demo_files)
      \<and> 739617 \<le> au_expires a \<and> merge_counts (merges_log demo_files) (au_auth_id a) < au_max_merges a
      \<and> list_all (\<lambda>f. matches_any f (artifact_globs default_config)
            \<or> (matches_any f (au_scope_globs a) \<and> \<not> matches_any f (never_automerge_globs default_config))) (dr_changed_files r)
      \<and> set (staged_files (cr_stdout (env_run demo_env
            (fst st @ [Run (cfg_git default_config @ [''checkout'', ''-b'', branch]), Run (cfg_git default_config @ [''add'', ''-A''])])
            (cfg_git default_config @ [''diff'', ''--cached'', ''--name-only''])))) \<subseteq> set (dr_changed_files r))"
proof (rule main_pushed_only_when_authorized [OF demo_loop])
  show "cfg_git default_config @ [''push'', ''origin'', ''main''] \<notin> set (map snd (verify_steps default_config))"
    by (simp add: default_config_def DEFAULT_VERIFY_STEPS_def)
  show "Run (cfg_git default_config @ [''push'', ''origin'', ''main'']) \<in> set demo_tr4"
    by (simp add: default_config_def demo_tr4_def)
qed

definition failed_twice :: ai_files where
  "failed_twice = bump_consecutive_failures (bump_consecutive_failures demo_files)"

lemma failed_twice_reachable: "reachable default_config demo_dash demo_files failed_twice"
proof -
  let ?f1 = "bump_consecutive_failures demo_files"
  have c: "consecutive_failures demo_files = 0" "consecutive_failures ?f1 = 1"
    by (simp_all add: failures_read bump_consecutive_failures_def demo_files_def)
  have "cmd_loop default_config dirty_env demo_dash 739617 ''T1'' None demo_files [] = Inr (1, ?f1, [Run [''git'', ''status'', ''--porcelain=v1'']])"
    by (rule dirty_loop) (simp_all add: demo_files_def breaker_tripped_def c(1) [unfolded demo_files_def] demo_open)
  moreover have "cmd_loop default_config dirty_env demo_dash 739617 ''T1'' None ?f1 [] =
      Inr (1, failed_twice, [Run [''git'', ''status'', ''--porcelain=v1'']])"
    unfolding failed_twice_def
    by (rule dirty_loop) (simp_all add: breaker_tripped_def c demo_open, simp_all add: demo_files_def bump_consecutive_failures_def)
  ultimately show ?thesis by (blast intro: reachable.intros operated.ran_loop)
qed



theorem empty_expectation_commits_all_witness:
  "commit_exact default_config (\<lambda>tr args. done_ok ''evil.py'') ''m'' [] [] = ((True, ''committed''),
    [] @ [Run (cfg_git default_config @ [''add'', ''-A'']), Run (cfg_git default_config @ [''diff'', ''--cached'', ''--name-only'']),
      Run (cfg_git default_config @ [''commit'', ''-m'', ''m''])])"
  by (rule empty_expectation_commits_all) (simp add: cr_ok_def done_ok_def)

theorem unanswered_preflight_passes_witness:
  "fst (preflight default_config (demo_env\<lparr>env_run := \<lambda>tr argv. (done_ok [])\<lparr>cr_exit_code := 128\<rparr>\<rparr>) ([], [])) = None"
  by (rule unanswered_preflight_passes) (simp add: done_ok_def)

theorem rendered_scope_is_planned_witness:
  "\<exists>d related. loads_text demo_plan_text = Inr (JObj d) \<and> dict_get d ''related_files'' = Some (JArr related)
    \<and> allowed_globs default_config demo_packet = map (py_strip \<circ> json_text) related @ [handoffs_dirname default_config @ ''/**'']"
proof (rule rendered_scope_is_planned [OF demo_render])
  show "inline ''2026-01-01''" "demo_dash \<noteq> newline" "cp demo_dash \<noteq> 13" by code_simp+
qed

end
