(* ===== verification/BarHistory.thy ===== *)
theory BarHistory
  imports PyObj "HOL-Library.Product_Lexorder" "HOL-Library.List_Lexorder" "HOL-Library.Char_ord"
begin

text \<open>
  The versioned bar store: the pure planning of \<open>ingestion/upsert.py\<close>, the statements it
  sends, and the database triggers of the migrations that stamp, version and receipt what
  is written (\<open>migrations/versions/0008_bar_version_availability.py\<close>).  A table is the
  list of its rows; the database clock is an argument of every statement that reads it.
\<close>

section \<open>Keys\<close>

datatype BarKey = BarKey (bk_symbol: string) (bk_timespan: string) (bk_multiplier: int) (bk_ts: instant)
  (bk_source: string) (bk_adjustment_basis: string)

definition key_tuple :: "BarKey \<Rightarrow> string \<times> string \<times> int \<times> instant \<times> string \<times> string" where
  "key_tuple k = (bk_symbol k, bk_timespan k, bk_multiplier k, bk_ts k, bk_source k, bk_adjustment_basis k)"

lemma key_tuple_inject [simp]: "key_tuple a = key_tuple b \<longleftrightarrow> a = b"
  by (cases a; cases b) (simp add: key_tuple_def)

text \<open>Keys are ordered as the tuples the code sorts by.\<close>

instantiation BarKey :: linorder
begin

definition less_eq_BarKey :: "BarKey \<Rightarrow> BarKey \<Rightarrow> bool" where
  "less_eq_BarKey a b \<longleftrightarrow> key_tuple a \<le> key_tuple b"

definition less_BarKey :: "BarKey \<Rightarrow> BarKey \<Rightarrow> bool" where
  "less_BarKey a b \<longleftrightarrow> key_tuple a < key_tuple b"

instance
  by intro_classes (auto simp: less_eq_BarKey_def less_BarKey_def dest: order.antisym [of "key_tuple _"])

end

section \<open>Rows\<close>

record BarUpsertRow =
  bu_key :: BarKey
  bu_open :: f64
  bu_high :: f64
  bu_low :: f64
  bu_close :: f64
  bu_volume :: f64
  bu_vwap :: "f64 option"
  bu_trade_count :: "int option"
  bu_fetched_at :: instant
  bu_as_of :: instant

text \<open>Python's and SQL's equality of optional values and of \<open>value_tuple()\<close>; the values are finite.\<close>

definition opt_eq :: "('a \<Rightarrow> 'a \<Rightarrow> bool) \<Rightarrow> 'a option \<Rightarrow> 'a option \<Rightarrow> bool" where
  "opt_eq eq x y = (case (x, y) of (Some a, Some b) \<Rightarrow> eq a b | (None, None) \<Rightarrow> True | _ \<Rightarrow> False)"

definition values_equal :: "BarUpsertRow \<Rightarrow> BarUpsertRow \<Rightarrow> bool" where
  "values_equal a b \<longleftrightarrow> f_eq (bu_open a) (bu_open b) \<and> f_eq (bu_high a) (bu_high b) \<and> f_eq (bu_low a) (bu_low b)
     \<and> f_eq (bu_close a) (bu_close b) \<and> f_eq (bu_volume a) (bu_volume b) \<and> opt_eq f_eq (bu_vwap a) (bu_vwap b)
     \<and> bu_trade_count a = bu_trade_count b"

definition timestamps_follow_availability_order :: "BarUpsertRow \<Rightarrow> unit res" where
  "timestamps_follow_availability_order row =
     bind_res (check (bu_fetched_at row < bk_ts (bu_key row))
       (ValueError ''fetched_at must not be earlier than the bar timestamp'')) (\<lambda>_.
     check (bu_as_of row < bu_fetched_at row) (ValueError ''as_of must not be earlier than fetched_at''))"

text \<open>\<open>_dedupe_rows\<close>: a dict in insertion order, then its values by key.\<close>

definition dedupe_row :: "BarUpsertRow list \<Rightarrow> BarUpsertRow \<Rightarrow> BarUpsertRow list res" where
  "dedupe_row by_key row =
     (case find (\<lambda>r. bu_key r = bu_key row) by_key of
        None \<Rightarrow> Inr (by_key @ [row])
      | Some previous \<Rightarrow>
          if \<not> values_equal previous row
          then Inl (BarVersionConflictError ''one ingest batch cannot contain conflicting values for the same bar key'')
          else if bu_as_of row < bu_as_of previous
               \<or> (bu_as_of row = bu_as_of previous \<and> bu_fetched_at row < bu_fetched_at previous)
          then Inr (map (\<lambda>r. if bu_key r = bu_key row then row else r) by_key)
          else Inr by_key)"

fun dedupe_loop :: "BarUpsertRow list \<Rightarrow> BarUpsertRow list \<Rightarrow> BarUpsertRow list res" where
  "dedupe_loop by_key [] = Inr by_key"
| "dedupe_loop by_key (row # rows) = bind_res (dedupe_row by_key row) (\<lambda>acc. dedupe_loop acc rows)"

definition dedupe_rows :: "BarUpsertRow list \<Rightarrow> BarUpsertRow list res" where
  "dedupe_rows rows = bind_res (dedupe_loop [] rows) (\<lambda>by_key. Inr (sort_key bu_key by_key))"

section \<open>The plan\<close>

record BarRevisionRow =
  pr_conflict_key :: BarKey
  pr_previous :: BarUpsertRow
  pr_incoming :: BarUpsertRow

record BarUpsertPlan =
  bp_rows :: "BarUpsertRow list"
  bp_revisions :: "BarRevisionRow list"

fun plan_revisions :: "BarUpsertRow list \<Rightarrow> BarUpsertRow list \<Rightarrow> BarRevisionRow list res" where
  "plan_revisions existing [] = Inr []"
| "plan_revisions existing (row # rows) =
     (case find (\<lambda>r. bu_key r = bu_key row) (rev existing) of
        None \<Rightarrow> plan_revisions existing rows
      | Some previous \<Rightarrow>
          if values_equal previous row then plan_revisions existing rows
          else if bu_as_of row \<le> bu_as_of previous \<or> bu_fetched_at row \<le> bu_fetched_at previous
          then Inl (BarVersionConflictError ''changed bar values require strictly newer fetched_at and as_of timestamps'')
          else bind_res (plan_revisions existing rows) (\<lambda>revisions.
            Inr (\<lparr>pr_conflict_key = bu_key row, pr_previous = previous, pr_incoming = row\<rparr> # revisions)))"

definition build_bar_upsert_plan_from_rows :: "BarUpsertRow list \<Rightarrow> BarUpsertRow list \<Rightarrow> BarUpsertPlan res" where
  "build_bar_upsert_plan_from_rows rows existing_rows =
     bind_res (dedupe_rows rows) (\<lambda>row_list.
     bind_res (plan_revisions existing_rows row_list) (\<lambda>revisions.
     Inr \<lparr>bp_rows = row_list, bp_revisions = revisions\<rparr>))"

section \<open>The database\<close>

record BarRow =
  ba_row :: BarUpsertRow
  ba_recorded_at :: instant
  ba_creator_xid :: int

record BarRevision =
  rv_key :: BarKey
  rv_previous :: BarUpsertRow
  rv_incoming :: BarUpsertRow
  rv_previous_recorded_at :: "instant option"
  rv_incoming_recorded_at :: "instant option"
  rv_previous_creator_xid :: int
  rv_incoming_creator_xid :: int
  rv_revised_at :: instant

record BarReceipt =
  rc_key :: BarKey
  rc_version_recorded_at :: instant
  rc_available_at :: instant

record bar_db =
  bars :: "BarRow list"
  bars_revisions :: "BarRevision list"
  bar_version_availability :: "BarReceipt list"

text \<open>
  The check constraints of the table \<open>bars\<close>.  PostgreSQL orders NaN above every number;
  a comparison with NULL is not false, so a constraint on a missing value holds.
\<close>

definition pg_lt :: "f64 \<Rightarrow> f64 \<Rightarrow> bool" where
  "pg_lt x y \<longleftrightarrow> \<not> f_isnan x \<and> (f_isnan y \<or> f_lt x y)"

definition pg_number_ok :: "f64 \<Rightarrow> bool" where
  "pg_number_ok x \<longleftrightarrow> \<not> pg_lt x f_zero \<and> pg_lt x f_inf"

definition bar_checks :: "BarRow \<Rightarrow> bool" where
  "bar_checks b =
     (let r = ba_row b in
      1 \<le> bk_multiplier (bu_key r)
      \<and> pg_number_ok (bu_open r) \<and> pg_number_ok (bu_high r) \<and> pg_number_ok (bu_low r)
      \<and> pg_number_ok (bu_close r) \<and> pg_number_ok (bu_volume r)
      \<and> (case bu_vwap r of None \<Rightarrow> True | Some x \<Rightarrow> pg_number_ok x)
      \<and> (case bu_trade_count r of None \<Rightarrow> True | Some n \<Rightarrow> 0 \<le> n)
      \<and> \<not> pg_lt (bu_high r) (bu_low r)
      \<and> \<not> pg_lt (bu_high r) (bu_open r) \<and> \<not> pg_lt (bu_high r) (bu_close r)
      \<and> \<not> pg_lt (bu_open r) (bu_low r) \<and> \<not> pg_lt (bu_close r) (bu_low r)
      \<and> bk_ts (bu_key r) \<le> bu_fetched_at r \<and> bu_fetched_at r \<le> bu_as_of r \<and> bu_as_of r \<le> ba_recorded_at b
      \<and> 0 \<le> ba_creator_xid b)"

text \<open>
  One row of \<open>INSERT ... ON CONFLICT DO UPDATE ... WHERE\<close> under the trigger
  \<open>version_bar_write\<close>.  The database tests the constraints of the proposed row before it
  looks for a conflict.  A new key is inserted, equal values change nothing, a restatement
  archives the old row; it is recorded no earlier than proposed, so the constraints hold
  again.  The statement never changes a key, so that test of the trigger is left out.
\<close>

definition write_bar :: "int \<Rightarrow> instant \<Rightarrow> BarUpsertRow \<Rightarrow> bar_db \<Rightarrow> bar_db res" where
  "write_bar xid now row db =
     (let proposed = \<lparr>ba_row = row, ba_recorded_at = now, ba_creator_xid = xid\<rparr> in
      bind_res (check (\<not> bar_checks proposed) (BackendError ''a check constraint of bars is violated'')) (\<lambda>_.
      case find (\<lambda>b. bu_key (ba_row b) = bu_key row) (bars db) of
        None \<Rightarrow> Inr (db\<lparr>bars := bars db @ [proposed]\<rparr>)
      | Some old \<Rightarrow>
          if values_equal (ba_row old) row then Inr db
          else if bu_as_of row \<le> bu_as_of (ba_row old) \<or> bu_fetched_at row \<le> bu_fetched_at (ba_row old)
          then Inl (BackendError ''changed bars require newer fetched_at and as_of'')
          else
            let recorded = max now (ba_recorded_at old + 1);
                new = \<lparr>ba_row = row, ba_recorded_at = recorded, ba_creator_xid = xid\<rparr>
            in Inr (db\<lparr>bars := map (\<lambda>b. if bu_key (ba_row b) = bu_key row then new else b) (bars db),
                 bars_revisions := bars_revisions db @
                   [\<lparr>rv_key = bu_key row, rv_previous = ba_row old, rv_incoming = row,
                     rv_previous_recorded_at = Some (ba_recorded_at old), rv_incoming_recorded_at = Some recorded,
                     rv_previous_creator_xid = ba_creator_xid old, rv_incoming_creator_xid = xid,
                     rv_revised_at = recorded\<rparr>]\<rparr>)))"

text \<open>The clock is read once per row: \<open>clock i\<close> is the reading for the row that has \<open>i\<close> rows after it.\<close>

fun write_bars :: "int \<Rightarrow> (nat \<Rightarrow> instant) \<Rightarrow> BarUpsertRow list \<Rightarrow> bar_db \<Rightarrow> bar_db res" where
  "write_bars xid clock [] db = Inr db"
| "write_bars xid clock (row # rest) db =
     bind_res (write_bar xid (clock (length rest)) row db) (\<lambda>db2. write_bars xid clock rest db2)"

definition load_existing_bar_rows :: "BarUpsertRow list \<Rightarrow> bar_db \<Rightarrow> BarUpsertRow list" where
  "load_existing_bar_rows rows db = filter (\<lambda>r. bu_key r \<in> set (map bu_key rows)) (map ba_row (bars db))"

definition verify_persisted_rows :: "BarUpsertRow list \<Rightarrow> bar_db \<Rightarrow> unit res" where
  "verify_persisted_rows rows db =
     check (list_ex (\<lambda>incoming. case find (\<lambda>r. bu_key r = bu_key incoming) (load_existing_bar_rows rows db) of
              None \<Rightarrow> True | Some current \<Rightarrow> \<not> values_equal current incoming) rows)
       (BarVersionConflictError ''database retained a different bar version'')"

definition load_persisted_revisions :: "BarUpsertRow list \<Rightarrow> instant \<Rightarrow> bar_db \<Rightarrow> BarRevisionRow list res" where
  "load_persisted_revisions rows recorded_not_before db =
     (let found = filter (\<lambda>v. list_ex (\<lambda>r. bu_key r = rv_key v \<and> bu_fetched_at r = bu_fetched_at (rv_incoming v)
                       \<and> bu_as_of r = bu_as_of (rv_incoming v)) rows
                  \<and> (case rv_incoming_recorded_at v of None \<Rightarrow> False | Some t \<Rightarrow> recorded_not_before \<le> t))
                (bars_revisions db);
          revisions = map (\<lambda>v. \<lparr>pr_conflict_key = rv_key v, pr_previous = rv_previous v, pr_incoming = rv_incoming v\<rparr>) found
      in bind_res (check (\<not> distinct (map pr_conflict_key revisions))
           (RuntimeError ''database emitted duplicate revisions for one incoming bar version'')) (\<lambda>_.
         Inr (sort_key pr_conflict_key revisions)))"

text \<open>One transaction: it returns the new database or raises, and then nothing was written.\<close>

definition upsert_bar_rows ::
  "int \<Rightarrow> instant \<Rightarrow> (nat \<Rightarrow> instant) \<Rightarrow> BarUpsertRow list \<Rightarrow> bar_db \<Rightarrow> (BarUpsertPlan \<times> bar_db) res"
where
  "upsert_bar_rows xid started clock rows db =
     bind_res (dedupe_rows rows) (\<lambda>row_list.
     if row_list = [] then Inr (\<lparr>bp_rows = [], bp_revisions = []\<rparr>, db)
     else
       bind_res (build_bar_upsert_plan_from_rows row_list (load_existing_bar_rows row_list db)) (\<lambda>plan.
       bind_res (write_bars xid clock (bp_rows plan) db) (\<lambda>db2.
       bind_res (verify_persisted_rows (bp_rows plan) db2) (\<lambda>_.
       bind_res (load_persisted_revisions (bp_rows plan) started db2) (\<lambda>revisions.
       Inr (\<lparr>bp_rows = bp_rows plan, bp_revisions = revisions\<rparr>, db2))))))"

section \<open>Versions and receipts\<close>

text \<open>Every version the store knows: current rows, archived rows, incoming rows of revisions.\<close>

definition current_versions :: "bar_db \<Rightarrow> (BarUpsertRow \<times> instant \<times> int) list" where
  "current_versions db = map (\<lambda>b. (ba_row b, ba_recorded_at b, ba_creator_xid b)) (bars db)"

definition previous_versions :: "bar_db \<Rightarrow> (BarUpsertRow \<times> instant \<times> int) list" where
  "previous_versions db = List.map_filter (\<lambda>v. map_option (\<lambda>t. (rv_previous v, t, rv_previous_creator_xid v))
     (rv_previous_recorded_at v)) (bars_revisions db)"

definition incoming_versions :: "bar_db \<Rightarrow> (BarUpsertRow \<times> instant \<times> int) list" where
  "incoming_versions db = List.map_filter (\<lambda>v. map_option (\<lambda>t. (rv_incoming v, t, rv_incoming_creator_xid v))
     (rv_incoming_recorded_at v)) (bars_revisions db)"

definition stored_versions :: "bar_db \<Rightarrow> (BarUpsertRow \<times> instant \<times> int) list" where
  "stored_versions db = current_versions db @ previous_versions db @ incoming_versions db"

text \<open>\<open>BAR_VERSION_LANE_KEY\<close>: the key without the bar's time.\<close>

definition lane :: "BarKey \<Rightarrow> string \<times> string \<times> int \<times> string \<times> string" where
  "lane k = (bk_symbol k, bk_timespan k, bk_multiplier k, bk_source k, bk_adjustment_basis k)"

definition receipt_exists :: "bar_db \<Rightarrow> BarKey \<Rightarrow> instant \<Rightarrow> bool" where
  "receipt_exists db k recorded \<longleftrightarrow>
     list_ex (\<lambda>r. rc_key r = k \<and> rc_version_recorded_at r = recorded) (bar_version_availability db)"

definition missing_versions :: "BarUpsertRow list \<Rightarrow> bar_db \<Rightarrow> (BarKey \<times> instant) list" where
  "missing_versions rows db =
     filter (\<lambda>(k, recorded). \<not> receipt_exists db k recorded)
       (remdups (map (\<lambda>(row, recorded, _). (bu_key row, recorded))
          (filter (\<lambda>(row, _, _). lane (bu_key row) \<in> set (map (lane \<circ> bu_key) rows)) (stored_versions db))))"

text \<open>
  One inserted receipt under \<open>stamp_bar_version_availability\<close>, the primary key
  (\<open>ON CONFLICT DO NOTHING\<close>) and the check that it does not precede its version.
\<close>

definition insert_receipt :: "int \<Rightarrow> instant \<Rightarrow> BarKey \<Rightarrow> instant \<Rightarrow> bar_db \<Rightarrow> bar_db res" where
  "insert_receipt xid now k recorded db =
     (let versions = filter (\<lambda>(row, t, _). bu_key row = k \<and> t = recorded) (stored_versions db)
      in bind_res (check (versions = []) (BackendError ''availability receipt does not identify a stored bar version'')) (\<lambda>_.
         bind_res (check (list_ex (\<lambda>(_, _, creator). creator = xid) versions)
           (BackendError ''bar availability must be finalized after its write commits'')) (\<lambda>_.
         bind_res (check (now < recorded) (BackendError ''ck_bar_version_availability_availability_not_before_recording'')) (\<lambda>_.
         if receipt_exists db k recorded then Inr db
         else Inr (db\<lparr>bar_version_availability := bar_version_availability db @
                [\<lparr>rc_key = k, rc_version_recorded_at = recorded, rc_available_at = now\<rparr>]\<rparr>)))))"

fun insert_receipts :: "int \<Rightarrow> (nat \<Rightarrow> instant) \<Rightarrow> (BarKey \<times> instant) list \<Rightarrow> bar_db \<Rightarrow> bar_db res" where
  "insert_receipts xid clock [] db = Inr db"
| "insert_receipts xid clock ((k, recorded) # rest) db =
     bind_res (insert_receipt xid (clock (length rest)) k recorded db) (\<lambda>db2. insert_receipts xid clock rest db2)"

definition finalize_bar_version_availability ::
  "int \<Rightarrow> (nat \<Rightarrow> instant) \<Rightarrow> BarUpsertRow list \<Rightarrow> bar_db \<Rightarrow> bar_db res"
where
  "finalize_bar_version_availability xid clock rows db =
     bind_res (dedupe_rows rows) (\<lambda>row_list.
     if row_list = [] then Inr db
     else insert_receipts xid clock (missing_versions row_list db) db)"

section \<open>The life of the store\<close>

text \<open>
  Committed transactions of writers, in the order of the database clock; every reading of
  the clock lies between the times before and after.  A statement that raises changes nothing.
\<close>

inductive bar_step :: "bar_db \<times> instant \<Rightarrow> bar_db \<times> instant \<Rightarrow> bool" where
  upserted: "list_all (\<lambda>r. timestamps_follow_availability_order r = Inr ()) rows \<Longrightarrow>
     upsert_bar_rows xid started clock rows db = Inr (plan, db2) \<Longrightarrow>
     (\<And>i. now \<le> clock i \<and> clock i \<le> later) \<Longrightarrow> now \<le> later \<Longrightarrow> bar_step (db, now) (db2, later)"
| finalized: "finalize_bar_version_availability xid clock rows db = Inr db2 \<Longrightarrow>
     (\<And>i. now \<le> clock i \<and> clock i \<le> later) \<Longrightarrow> now \<le> later \<Longrightarrow> bar_step (db, now) (db2, later)"
| waited: "now \<le> later \<Longrightarrow> bar_step (db, now) (db, later)"

inductive bar_steps :: "bar_db \<times> instant \<Rightarrow> bar_db \<times> instant \<Rightarrow> bool" for s where
  here: "bar_steps s s"
| there: "bar_steps s t \<Longrightarrow> bar_step t u \<Longrightarrow> bar_steps s u"

inductive_cases bar_stepE: "bar_step (db, now) (db2, later)"
inductive_simps bar_steps_iff: "bar_steps s t"

definition empty_db :: bar_db where
  "empty_db = \<lparr>bars = [], bars_revisions = [], bar_version_availability = []\<rparr>"

end
