(* ===== verification/OutcomeResolution.thy ===== *)
theory OutcomeResolution
  imports ForecastOutcomes BarHistory
begin

text \<open>
  \<open>app/services/forecast_outcome_resolution.py\<close>: the policy that fixes when a realized
  close is settled, and the resolver that reads it from the versioned bar store.

  The installed packages and the exchange calendar are the record \<open>resolution_env\<close>, an
  argument of every definition that uses them; \<open>db_session\<close> is one database transaction:
  what the store holds when the statement runs, the reading of its clock and the failures
  of its statements.  A row of the result set is a record of objects, as the driver gives it.
\<close>

section \<open>The rule set\<close>

definition canonical_document :: "json \<Rightarrow> bytes res" where
  "canonical_document document = canonical_json document"

definition hash_document :: "json \<Rightarrow> string res" where
  "hash_document document = bind_res (canonical_document document) (\<lambda>b. Inr (content_id b))"

definition outcome_availability_rule_set_document :: json where
  "outcome_availability_rule_set_document = JObj [
     (''format'', JStr ''forecast-outcome-availability-rules-v1''),
     (''schema_version'', JInt 1),
     (''rules'', JArr (map JStr [
        ''exact_polygon_open_close_raw_day_one_source_key'',
        ''post_commit_receipt_for_exact_bar_version'',
        ''receipt_available_at_not_after_resolution_cutoff'',
        ''maximum_version_recorded_at_among_cutoff_visible_versions'',
        ''distinct_candidates_tied_at_maximum_are_rejected'',
        ''observed_at_is_exact_xnys_regular_session_close'',
        ''observed_at<=fetched_at<=source_as_of<=version_recorded_at<=post_commit_available_at<=resolution_cutoff'',
        ''finite_nonnegative_raw_close'',
        ''database_clock_not_before_resolution_cutoff'',
        ''transaction_isolation_is_read_committed'',
        ''receipt_writers_take_database_enforced_series_fence'',
        ''outcome_publication_requires_preheld_series_fence''])),
     (''version_visibility'', JObj [
        (''deduplication'', JStr ''sql_union_exact_candidate_bytes''),
        (''reconstruction_lanes'', JArr (map JStr
           [''bars.current'', ''bars_revisions.previous'', ''bars_revisions.incoming''])),
        (''receipt_order'', JStr ''irrelevant_to_version_selection''),
        (''selection'', JStr ''unique maximum version_recorded_at whose exact receipt.available_at<=resolution_cutoff''),
        (''same_maximum_distinct_candidates'', JStr ''reject''),
        (''same_transaction_receipt'', JStr ''rejected_by_database''),
        (''legacy_or_unfinalized_version'', JStr ''not_visible''),
        (''transaction_isolation'', JStr ''read_committed''),
        (''writer_exclusion'', JObj [
           (''identity'', JStr ''sha256_length_framed_first_signed_bigint_v1''),
           (''namespace'', JStr ''stockapi.bar-series-fence.v1''),
           (''outcome_publication'', JStr ''preheld_transaction_advisory_lock''),
           (''receipt_publication'', JStr ''database_trigger_transaction_advisory_lock'')])])]"

definition availability_rule_set_hash :: "string res" where
  "availability_rule_set_hash = hash_document outcome_availability_rule_set_document"

section \<open>The policy\<close>

definition max_resolution_lag_seconds :: int where
  "max_resolution_lag_seconds = 366 * 24 * 60 * 60"

record ResolutionPolicy =
  rp_resolution_lag_seconds :: int

definition make_resolution_policy :: "pyobj \<Rightarrow> ResolutionPolicy res" where
  "make_resolution_policy lag =
     (case lag of
        PyInt n \<Rightarrow>
          if n \<le> 0 \<or> max_resolution_lag_seconds < n
          then Inl (OutcomeResolutionMisconfigured ''resolution_lag_seconds must be a positive bounded integer'')
          else Inr \<lparr>rp_resolution_lag_seconds = n\<rparr>
      | _ \<Rightarrow> Inl (OutcomeResolutionMisconfigured ''resolution_lag_seconds must be a positive bounded integer''))"

record resolution_env =
  re_pandas_version :: string
  re_tzdata_version :: string
  re_calendars_version :: string
  re_get_calendar :: "unit res"
  re_timestamp :: "date \<Rightarrow> int res"
  re_is_session :: "int \<Rightarrow> bool res"
  re_session_close :: "int \<Rightarrow> pyobj res"

definition CALENDAR_ENGINE_VERSION :: string where
  "CALENDAR_ENGINE_VERSION = ''4.13.2''"

definition calendar_members :: "resolution_env \<Rightarrow> (string \<times> json) list" where
  "calendar_members env = [
     (''engine'', JStr ''exchange_calendars''),
     (''engine_version'', JStr CALENDAR_ENGINE_VERSION),
     (''name'', JStr ''XNYS''),
     (''pandas_version'', JStr (re_pandas_version env)),
     (''schedule_start'', JStr ''1990-01-01''),
     (''schedule_end'', JStr ''2100-12-31''),
     (''target_timestamp'', JStr ''regular_session_close_utc''),
     (''tzdata_version'', JStr (re_tzdata_version env))]"

definition cutoff_members :: "ResolutionPolicy \<Rightarrow> (string \<times> json) list" where
  "cutoff_members policy = [
     (''formula'', JStr ''target_time_utc+resolution_lag_seconds''),
     (''resolution_lag_seconds'', JInt (rp_resolution_lag_seconds policy)),
     (''maturity_clock'', JStr ''postgresql_clock_timestamp'')]"

definition policy_members :: "resolution_env \<Rightarrow> ResolutionPolicy \<Rightarrow> string \<Rightarrow> (string \<times> json) list" where
  "policy_members env policy rule_set_hash = [
     (''format'', JStr ''forecast-outcome-resolution-policy-v1''),
     (''schema_version'', JInt 1),
     (''availability_rule_set_hash'', JStr rule_set_hash),
     (''calendar'', JObj (calendar_members env)),
     (''currency'', JObj [(''resolver'', JStr ''fixed_us_equity_v1''), (''value'', JStr ''USD'')]),
     (''cutoff'', JObj (cutoff_members policy)),
     (''source'', JObj [
        (''adjustment_basis'', JStr ''raw''),
        (''field'', JStr ''close''),
        (''multiplier'', JInt 1),
        (''provider_endpoint'', JStr ''/v1/open-close/{ticker}/{date}?adjusted=false''),
        (''provider_semantics'', JStr ''regular_session_close; preMarket and afterHours are separate fields''),
        (''source'', JStr ''polygon_open_close''),
        (''timespan'', JStr ''day'')]),
     (''target'', JObj [(''name'', JStr ''close''), (''series_basis'', JStr ''raw''), (''transform'', JStr ''identity'')])]"

definition outcome_resolution_policy_document :: "resolution_env \<Rightarrow> ResolutionPolicy \<Rightarrow> json res" where
  "outcome_resolution_policy_document env policy =
     bind_res availability_rule_set_hash (\<lambda>rule_set_hash. Inr (JObj (policy_members env policy rule_set_hash)))"

definition outcome_resolution_policy_hash :: "resolution_env \<Rightarrow> ResolutionPolicy \<Rightarrow> string res" where
  "outcome_resolution_policy_hash env policy =
     bind_res (outcome_resolution_policy_document env policy) hash_document"

definition canonical_policy :: "resolution_env \<Rightarrow> ResolutionPolicy \<Rightarrow> bytes res" where
  "canonical_policy env policy = bind_res (outcome_resolution_policy_document env policy) canonical_document"

definition rs_utc :: "pyobj \<Rightarrow> string \<Rightarrow> instant res" where
  "rs_utc v label = utc_of OutcomeResolutionPolicyError v label"

text \<open>\<open>target + timedelta\<close> overflows past the year 9999.\<close>

definition cutoff_for :: "ResolutionPolicy \<Rightarrow> pyobj \<Rightarrow> instant res" where
  "cutoff_for policy target_time =
     bind_res (rs_utc target_time ''target_time'') (\<lambda>target.
     let cutoff = target + rp_resolution_lag_seconds policy * 1000000
     in if max_ordinal * day_micros \<le> cutoff
        then Inl (OutcomeResolutionPolicyError ''target_time cannot represent the policy cutoff'')
        else Inr cutoff)"

section \<open>The request\<close>

record OutcomeResolutionRequest =
  rq_symbol :: string
  rq_target_time :: instant
  rq_resolution_cutoff :: instant

definition rs_canonical_symbol :: "pyobj \<Rightarrow> string res" where
  "rs_canonical_symbol v =
     (case v of
        PyStr s \<Rightarrow>
          if s = [] \<or> py_strip s \<noteq> s \<or> 32 < length s \<or> s \<noteq> py_upper s \<or> \<not> symbol_pattern s
          then Inl (OutcomeResolutionPolicyError ''symbol must be uppercase and canonical'')
          else Inr s
      | _ \<Rightarrow> Inl (OutcomeResolutionPolicyError ''symbol must be uppercase and canonical''))"

definition xnys_calendar :: "resolution_env \<Rightarrow> unit res" where
  "xnys_calendar env =
     bind_res (check (re_calendars_version env \<noteq> CALENDAR_ENGINE_VERSION)
       (OutcomeResolutionMisconfigured ''exchange_calendars version differs from the hashed outcome policy'')) (\<lambda>_.
     case re_get_calendar env of
       Inr _ \<Rightarrow> Inr ()
     | Inl (KeyErr m) \<Rightarrow> Inl (OutcomeResolutionMisconfigured ''the pinned outcome exchange calendar is unavailable'')
     | Inl (ValueError m) \<Rightarrow> Inl (OutcomeResolutionMisconfigured ''the pinned outcome exchange calendar is unavailable'')
     | Inl e \<Rightarrow> Inl e)"

text \<open>The handlers of the \<open>try\<close> block around the schedule's two answers.\<close>

definition schedule_error :: "exn \<Rightarrow> exn" where
  "schedule_error e =
     (case e of
        KeyErr m \<Rightarrow> OutcomeResolutionPolicyError ''target_time is outside the pinned XNYS schedule''
      | ValueError m \<Rightarrow> OutcomeResolutionPolicyError ''target_time is outside the pinned XNYS schedule''
      | OverflowErr m \<Rightarrow> OutcomeResolutionPolicyError ''target_time is outside the pinned XNYS schedule''
      | _ \<Rightarrow> e)"

definition session_close_of :: "resolution_env \<Rightarrow> int \<Rightarrow> instant res" where
  "session_close_of env label =
     bind_res (re_is_session env label) (\<lambda>session.
     bind_res (check (\<not> session) (OutcomeResolutionPolicyError ''target_time date is not an XNYS session'')) (\<lambda>_.
     bind_res (re_session_close env label) (\<lambda>close.
     rs_utc close ''XNYS session close'')))"

definition validate_xnys_close :: "resolution_env \<Rightarrow> instant \<Rightarrow> unit res" where
  "validate_xnys_close env target_time =
     bind_res (xnys_calendar env) (\<lambda>_.
     bind_res (re_timestamp env (date_of_instant target_time)) (\<lambda>label.
     case session_close_of env label of
       Inl e \<Rightarrow> Inl (schedule_error e)
     | Inr session_close \<Rightarrow>
         check (target_time \<noteq> session_close)
           (OutcomeResolutionPolicyError ''target_time must equal the exact XNYS regular session close'')))"

definition validate_request ::
  "resolution_env \<Rightarrow> ResolutionPolicy \<Rightarrow> pyobj \<Rightarrow> pyobj \<Rightarrow> pyobj \<Rightarrow> OutcomeResolutionRequest res"
where
  "validate_request env policy symbol target_time resolution_cutoff =
     bind_res (rs_canonical_symbol symbol) (\<lambda>normalized_symbol.
     bind_res (rs_utc target_time ''target_time'') (\<lambda>target.
     bind_res (rs_utc resolution_cutoff ''resolution_cutoff'') (\<lambda>cutoff.
     bind_res (validate_xnys_close env target) (\<lambda>_.
     bind_res (cutoff_for policy (aware target)) (\<lambda>expected.
     bind_res (check (cutoff \<noteq> expected)
       (OutcomeResolutionPolicyMismatch ''resolution_cutoff does not equal the policy-derived cutoff'')) (\<lambda>_.
     Inr \<lparr>rq_symbol = normalized_symbol, rq_target_time = target, rq_resolution_cutoff = cutoff\<rparr>))))))"

definition validate_hashes :: "resolution_env \<Rightarrow> ResolutionPolicy \<Rightarrow> string \<Rightarrow> string \<Rightarrow> unit res" where
  "validate_hashes env policy policy_hash rule_set_hash =
     bind_res (outcome_resolution_policy_hash env policy) (\<lambda>own_policy_hash.
     bind_res (check (policy_hash \<noteq> own_policy_hash)
       (OutcomeResolutionPolicyMismatch ''outcome resolution policy hash does not match the resolver'')) (\<lambda>_.
     bind_res availability_rule_set_hash (\<lambda>own_rule_set_hash.
     check (rule_set_hash \<noteq> own_rule_set_hash)
       (OutcomeResolutionPolicyMismatch ''outcome availability rule-set hash does not match the resolver''))))"

section \<open>The statement\<close>

record BarVersion =
  ver_key :: BarKey
  ver_fetched_at :: instant
  ver_source_as_of :: instant
  ver_version_recorded_at :: instant
  ver_value :: f64

record RankedVersion =
  rk_version :: BarVersion
  rk_available_at :: instant

definition requested_key :: "OutcomeResolutionRequest \<Rightarrow> BarKey" where
  "requested_key request =
     BarKey (rq_symbol request) ''day'' 1 (rq_target_time request) ''polygon_open_close'' ''raw''"

definition bar_version :: "BarUpsertRow \<times> instant \<times> int \<Rightarrow> BarVersion" where
  "bar_version v =
     (case v of (row, recorded, _) \<Rightarrow>
        \<lparr>ver_key = bu_key row, ver_fetched_at = bu_fetched_at row, ver_source_as_of = bu_as_of row,
         ver_version_recorded_at = recorded, ver_value = bu_close row\<rparr>)"

text \<open>Rows that \<open>UNION\<close> takes for the same; the database compares numbers by value.\<close>

definition same_version :: "BarVersion \<Rightarrow> BarVersion \<Rightarrow> bool" where
  "same_version a b \<longleftrightarrow> ver_key a = ver_key b \<and> ver_fetched_at a = ver_fetched_at b
     \<and> ver_source_as_of a = ver_source_as_of b \<and> ver_version_recorded_at a = ver_version_recorded_at b
     \<and> \<not> pg_lt (ver_value a) (ver_value b) \<and> \<not> pg_lt (ver_value b) (ver_value a)"

fun union_rows :: "BarVersion list \<Rightarrow> BarVersion list" where
  "union_rows [] = []"
| "union_rows (v # vs) = v # filter (\<lambda>w. \<not> same_version v w) (union_rows vs)"

definition outcome_bar_versions :: "OutcomeResolutionRequest \<Rightarrow> bar_db \<Rightarrow> BarVersion list" where
  "outcome_bar_versions request db =
     union_rows (filter (\<lambda>v. ver_key v = requested_key request) (map bar_version (stored_versions db)))"

definition visible_versions :: "OutcomeResolutionRequest \<Rightarrow> bar_db \<Rightarrow> RankedVersion list" where
  "visible_versions request db =
     concat (map (\<lambda>v. map (\<lambda>r. \<lparr>rk_version = v, rk_available_at = rc_available_at r\<rparr>)
         (filter (\<lambda>r. rc_key r = ver_key v \<and> rc_version_recorded_at r = ver_version_recorded_at v
              \<and> rc_available_at r \<le> rq_resolution_cutoff request) (bar_version_availability db)))
       (outcome_bar_versions request db))"

definition rank_of :: "RankedVersion list \<Rightarrow> RankedVersion \<Rightarrow> nat" where
  "rank_of vs v = 1 + length (filter (\<lambda>w. ver_version_recorded_at (rk_version v)
     < ver_version_recorded_at (rk_version w)) vs)"

text \<open>The sort key of the statement; the constraints make the values finite.\<close>

definition descending :: "RankedVersion \<Rightarrow> int \<times> int \<times> int \<times> int" where
  "descending v = (- ver_version_recorded_at (rk_version v), - ver_fetched_at (rk_version v),
     - ver_source_as_of (rk_version v),
     - f_key (ver_value (rk_version v)))"

definition exact_bar_version_statement :: "OutcomeResolutionRequest \<Rightarrow> bar_db \<Rightarrow> RankedVersion list" where
  "exact_bar_version_statement request db =
     (let ranked = visible_versions request db
      in take 2 (sort_key descending (filter (\<lambda>v. rank_of ranked v = 1) ranked)))"

section \<open>The evidence\<close>

record OutcomeRow =
  ow_symbol :: pyobj
  ow_timespan :: pyobj
  ow_multiplier :: pyobj
  ow_observed_at :: pyobj
  ow_source :: pyobj
  ow_adjustment_basis :: pyobj
  ow_fetched_at :: pyobj
  ow_source_as_of :: pyobj
  ow_version_recorded_at :: pyobj
  ow_available_at :: pyobj
  ow_value :: pyobj

definition result_row :: "RankedVersion \<Rightarrow> OutcomeRow" where
  "result_row v =
     (let w = rk_version v; k = ver_key w in
      \<lparr>ow_symbol = PyStr (bk_symbol k), ow_timespan = PyStr (bk_timespan k), ow_multiplier = PyInt (bk_multiplier k),
       ow_observed_at = aware (bk_ts k), ow_source = PyStr (bk_source k),
       ow_adjustment_basis = PyStr (bk_adjustment_basis k), ow_fetched_at = aware (ver_fetched_at w),
       ow_source_as_of = aware (ver_source_as_of w), ow_version_recorded_at = aware (ver_version_recorded_at w),
       ow_available_at = aware (rk_available_at v), ow_value = PyFloat (ver_value w)\<rparr>)"

definition finite_nonnegative :: "pyobj \<Rightarrow> string \<Rightarrow> f64 res" where
  "finite_nonnegative v label =
     (case real_float v of
        None \<Rightarrow> Inl (TypeErr (label @ '' must be a real number''))
      | Some r \<Rightarrow>
          bind_res r (\<lambda>x.
          bind_res (check (\<not> f_isfinite x \<or> f_lt x f_zero) (ValueError (label @ '' must be finite and nonnegative''))) (\<lambda>_.
          Inr (if f_eq x f_zero then f_zero else x))))"

definition evidence_from_row :: "OutcomeRow \<Rightarrow> OutcomeResolutionRequest \<Rightarrow> BarVersionEvidence res" where
  "evidence_from_row row request =
     bind_res (rs_utc (ow_observed_at row) ''bar observed_at'') (\<lambda>observed_at.
     bind_res (rs_utc (ow_fetched_at row) ''bar fetched_at'') (\<lambda>fetched_at.
     bind_res (rs_utc (ow_source_as_of row) ''bar source_as_of'') (\<lambda>source_as_of.
     bind_res (rs_utc (ow_version_recorded_at row) ''bar version_recorded_at'') (\<lambda>version_recorded_at.
     bind_res (rs_utc (ow_available_at row) ''bar available_at'') (\<lambda>available_at.
     bind_res (finite_nonnegative (ow_value row) ''bar close'') (\<lambda>v.
     bind_res (check (ow_symbol row \<noteq> PyStr (rq_symbol request) \<or> ow_timespan row \<noteq> PyStr ''day''
         \<or> ow_multiplier row \<noteq> PyInt 1 \<or> ow_source row \<noteq> PyStr ''polygon_open_close''
         \<or> ow_adjustment_basis row \<noteq> PyStr ''raw'' \<or> observed_at \<noteq> rq_target_time request
         \<or> \<not> (observed_at \<le> fetched_at \<and> fetched_at \<le> source_as_of \<and> source_as_of \<le> version_recorded_at
              \<and> version_recorded_at \<le> available_at \<and> available_at \<le> rq_resolution_cutoff request))
       (ValueError ''resolved evidence violates the pinned availability rules'')) (\<lambda>_.
     Inr \<lparr>bv_symbol = rq_symbol request, bv_timespan = ''day'', bv_multiplier = 1,
          bv_observed_at = rq_target_time request, bv_source = ''polygon_open_close'',
          bv_adjustment_basis = ''raw'', bv_fetched_at = fetched_at, bv_source_as_of = source_as_of,
          bv_version_recorded_at = version_recorded_at, bv_available_at = available_at,
          bv_field = ''close'', bv_value = v\<rparr>)))))))"

section \<open>Errors\<close>

definition resolution_invalid_request :: exn where
  "resolution_invalid_request = AppError 422 ''forecast_outcome_resolution_invalid''
     ''The realized-outcome resolution request is invalid.''"

definition resolution_policy_mismatch :: exn where
  "resolution_policy_mismatch = AppError 500 ''forecast_outcome_resolution_policy_mismatch''
     ''The realized-outcome cutoff does not match the pinned policy.''"

definition resolution_not_ready :: exn where
  "resolution_not_ready = AppError 409 ''forecast_outcome_resolution_not_ready''
     ''The realized-outcome resolution cutoff has not matured.''"

definition source_unavailable :: exn where
  "source_unavailable = AppError 409 ''forecast_outcome_source_unavailable''
     ''No finalized source version was available at the outcome cutoff.''"

definition source_ambiguous :: exn where
  "source_ambiguous = AppError 500 ''forecast_outcome_source_ambiguous''
     ''Realized-outcome source evidence has an ambiguous newest version.''"

definition source_corrupt :: exn where
  "source_corrupt = AppError 500 ''forecast_outcome_source_corrupt''
     ''Realized-outcome source evidence failed validation.''"

definition source_store_unavailable :: exn where
  "source_store_unavailable = AppError 503 ''forecast_outcome_source_store_unavailable''
     ''Realized-outcome source storage is unavailable.''"

definition source_configuration_invalid :: exn where
  "source_configuration_invalid = AppError 500 ''forecast_outcome_source_configuration_invalid''
     ''Realized-outcome source database configuration is invalid.''"

section \<open>Resolution\<close>

text \<open>
  How a statement fails: SQLAlchemy's timeout, a driver error with the SQLSTATE that its
  exception chain carries, or any other \<open>SQLAlchemyError\<close>.
\<close>

datatype db_failure = TimedOut | DriverError "string option" | OtherDbError

definition resolution_database_error :: "string option \<Rightarrow> exn" where
  "resolution_database_error sqlstate =
     (case sqlstate of
        None \<Rightarrow> source_store_unavailable
      | Some s \<Rightarrow>
          if list_ex (startswith s) [''0A'', ''22'', ''28'', ''3D'', ''3F'', ''42'']
          then source_configuration_invalid else source_store_unavailable)"

definition resolution_db_failure :: "db_failure \<Rightarrow> exn" where
  "resolution_db_failure f =
     (case f of
        TimedOut \<Rightarrow> source_store_unavailable
      | DriverError sqlstate \<Rightarrow> resolution_database_error sqlstate
      | OtherDbError \<Rightarrow> source_configuration_invalid)"

text \<open>
  One transaction under the series lock: the failures of the statements up to the clock's
  reading and of the selection, the reading, and the store the selection sees.
\<close>

record db_session =
  ds_open :: "db_failure option"
  ds_clock :: pyobj
  ds_select :: "db_failure option"
  ds_db :: bar_db

definition session_rows :: "db_session \<Rightarrow> OutcomeResolutionRequest \<Rightarrow> OutcomeRow list res" where
  "session_rows ses request =
     (case ds_open ses of
        Some f \<Rightarrow> Inl (resolution_db_failure f)
      | None \<Rightarrow>
          (case rs_utc (ds_clock ses) ''database clock'' of
             Inl _ \<Rightarrow> Inl source_corrupt
           | Inr database_now \<Rightarrow>
               if database_now < rq_resolution_cutoff request then Inl resolution_not_ready
               else case ds_select ses of
                 Some f \<Rightarrow> Inl (resolution_db_failure f)
               | None \<Rightarrow> Inr (map result_row (exact_bar_version_statement request (ds_db ses)))))"

definition request_error :: "exn \<Rightarrow> exn" where
  "request_error e =
     (case e of
        OutcomeResolutionMisconfigured m \<Rightarrow> source_configuration_invalid
      | OutcomeResolutionPolicyMismatch m \<Rightarrow> resolution_policy_mismatch
      | OutcomeResolutionPolicyError m \<Rightarrow> resolution_invalid_request
      | _ \<Rightarrow> e)"

text \<open>The handler of \<open>KeyError\<close>, \<open>TypeError\<close>, \<open>ValueError\<close> and \<open>OverflowError\<close>; the policy errors are \<open>ValueError\<close>s.\<close>

definition row_error :: "exn \<Rightarrow> exn" where
  "row_error e =
     (case e of
        KeyErr m \<Rightarrow> source_corrupt
      | TypeErr m \<Rightarrow> source_corrupt
      | ValueError m \<Rightarrow> source_corrupt
      | OverflowErr m \<Rightarrow> source_corrupt
      | OutcomeResolutionPolicyError m \<Rightarrow> source_corrupt
      | _ \<Rightarrow> e)"

definition resolve_rows :: "OutcomeRow list \<Rightarrow> OutcomeResolutionRequest \<Rightarrow> BarVersionEvidence res" where
  "resolve_rows rows request =
     (case rows of
        [] \<Rightarrow> Inl source_unavailable
      | [row] \<Rightarrow> (case evidence_from_row row request of Inl e \<Rightarrow> Inl (row_error e) | Inr evidence \<Rightarrow> Inr evidence)
      | _ \<Rightarrow> Inl source_ambiguous)"

definition resolve ::
  "resolution_env \<Rightarrow> ResolutionPolicy \<Rightarrow> db_session \<Rightarrow> pyobj \<Rightarrow> pyobj \<Rightarrow> pyobj \<Rightarrow> BarVersionEvidence res"
where
  "resolve env policy ses symbol target_time resolution_cutoff =
     (case validate_request env policy symbol target_time resolution_cutoff of
        Inl e \<Rightarrow> Inl (request_error e)
      | Inr request \<Rightarrow> bind_res (session_rows ses request) (\<lambda>rows. resolve_rows rows request))"

end
