(* ===== verification/BarHistoryLaws.thy ===== *)
theory BarHistoryLaws
  imports BarHistory
begin

text \<open>
  The versioned bar store as a state machine.  \<open>history_ok\<close> is its invariant: one current
  row per key, recorded after every other version of the key; at most one version of a
  key per recording time; at most one receipt per version, for a version the store knows.
  Versions and receipts are only ever added.
\<close>

section \<open>The versions as a set\<close>

definition versions_of :: "bar_db \<Rightarrow> (BarUpsertRow \<times> instant) set" where
  "versions_of db = (\<lambda>(row, recorded, _). (row, recorded)) ` set (stored_versions db)"

lemma set_map_filter_option: "set (List.map_filter (\<lambda>v. map_option (g v) (f v)) vs) = {g v t |v t. v \<in> set vs \<and> f v = Some t}"
  by (induction vs) (auto simp: List.map_filter_simps split: option.splits)

lemma versions_of_alt:
  "versions_of db = (\<lambda>b. (ba_row b, ba_recorded_at b)) ` set (bars db)
     \<union> {(rv_previous v, t) |v t. v \<in> set (bars_revisions db) \<and> rv_previous_recorded_at v = Some t}
     \<union> {(rv_incoming v, t) |v t. v \<in> set (bars_revisions db) \<and> rv_incoming_recorded_at v = Some t}"
  unfolding versions_of_def stored_versions_def current_versions_def previous_versions_def incoming_versions_def
  by (simp only: set_append image_Un set_map_filter_option set_map image_image) (auto simp: image_iff; blast)

definition receipt_of :: "bar_db \<Rightarrow> BarKey \<Rightarrow> instant \<Rightarrow> instant \<Rightarrow> bool" where
  "receipt_of db k recorded available \<longleftrightarrow>
     \<lparr>rc_key = k, rc_version_recorded_at = recorded, rc_available_at = available\<rparr> \<in> set (bar_version_availability db)"

definition history_ok :: "bar_db \<Rightarrow> bool" where
  "history_ok db \<longleftrightarrow>
     distinct (map (bu_key \<circ> ba_row) (bars db))
     \<and> (\<forall>r t. (r, t) \<in> versions_of db \<longrightarrow> (\<exists>b \<in> set (bars db). bu_key (ba_row b) = bu_key r \<and> t \<le> ba_recorded_at b))
     \<and> (\<forall>r r' t. (r, t) \<in> versions_of db \<longrightarrow> (r', t) \<in> versions_of db \<longrightarrow> bu_key r = bu_key r' \<longrightarrow> r = r')
     \<and> (\<forall>r t. (r, t) \<in> versions_of db \<longrightarrow> bar_checks \<lparr>ba_row = r, ba_recorded_at = t, ba_creator_xid = 0\<rparr>)
     \<and> distinct (map (\<lambda>r. (rc_key r, rc_version_recorded_at r)) (bar_version_availability db))
     \<and> (\<forall>k t a. receipt_of db k t a \<longrightarrow> t \<le> a \<and> (\<exists>r. (r, t) \<in> versions_of db \<and> bu_key r = k))"

section \<open>One write\<close>

lemma find_key:
  assumes "distinct (map f xs)"
  shows "find (\<lambda>x. f x = k) xs = Some y \<longleftrightarrow> y \<in> set xs \<and> f y = k"
  using assms by (induction xs) (auto simp: image_iff)

lemma write_bar_cases:
  assumes "write_bar xid now row db = Inr db2" and "distinct (map (bu_key \<circ> ba_row) (bars db))"
  obtains (same) "db2 = db"
  | (inserted) "bu_key row \<notin> (bu_key \<circ> ba_row) ` set (bars db)" "bar_checks \<lparr>ba_row = row, ba_recorded_at = now, ba_creator_xid = xid\<rparr>"
      "db2 = db\<lparr>bars := bars db @ [\<lparr>ba_row = row, ba_recorded_at = now, ba_creator_xid = xid\<rparr>]\<rparr>"
  | (restated) old new where "old \<in> set (bars db)" "bu_key (ba_row old) = bu_key row" "bar_checks \<lparr>ba_row = row, ba_recorded_at = now, ba_creator_xid = xid\<rparr>"
      "new = \<lparr>ba_row = row, ba_recorded_at = max now (ba_recorded_at old + 1), ba_creator_xid = xid\<rparr>"
      "bars db2 = map (\<lambda>b. if bu_key (ba_row b) = bu_key row then new else b) (bars db)"
      "bars_revisions db2 = bars_revisions db @ [\<lparr>rv_key = bu_key row, rv_previous = ba_row old, rv_incoming = row,
         rv_previous_recorded_at = Some (ba_recorded_at old), rv_incoming_recorded_at = Some (ba_recorded_at new),
         rv_previous_creator_xid = ba_creator_xid old, rv_incoming_creator_xid = xid, rv_revised_at = ba_recorded_at new\<rparr>]"
      "bar_version_availability db2 = bar_version_availability db"
proof (cases "find (\<lambda>b. bu_key (ba_row b) = bu_key row) (bars db)")
  case None
  then have "bu_key row \<notin> (bu_key \<circ> ba_row) ` set (bars db)" by (auto simp: find_None_iff)
  then show ?thesis
    using assms(1) None by (intro inserted) (auto simp: write_bar_def Let_def split: if_splits)
next
  case (Some old)
  then have old: "old \<in> set (bars db)" "bu_key (ba_row old) = bu_key row"
    using find_key [OF assms(2), of "bu_key row" old] by (auto simp: comp_def)
  show ?thesis
    using assms(1) Some
    by (auto simp: write_bar_def Let_def split: if_splits intro: same restated [OF old])
qed

lemma bar_checks_later:
  assumes "bar_checks \<lparr>ba_row = r, ba_recorded_at = t, ba_creator_xid = x\<rparr>" and "t \<le> u" and "0 \<le> y"
  shows "bar_checks \<lparr>ba_row = r, ba_recorded_at = u, ba_creator_xid = y\<rparr>"
  using assms unfolding bar_checks_def by (auto simp: Let_def)

text \<open>A write adds at most one version, recorded after every version of its key.\<close>

definition extends :: "bar_db \<Rightarrow> bar_db \<Rightarrow> bool" where
  "extends db db2 \<longleftrightarrow> versions_of db \<subseteq> versions_of db2
     \<and> (\<forall>r t r' t'. (r, t) \<in> versions_of db2 - versions_of db \<longrightarrow> (r', t') \<in> versions_of db \<longrightarrow> bu_key r' = bu_key r \<longrightarrow> t' < t)"

lemma versions_inserted:
  "versions_of (db\<lparr>bars := bars db @ [b]\<rparr>) = insert (ba_row b, ba_recorded_at b) (versions_of db)"
  by (simp add: versions_of_alt)

lemma moved_union:
  "A2 \<union> {x} = insert y A \<Longrightarrow> B2 = insert x B \<Longrightarrow> C2 = insert y C \<Longrightarrow> A2 \<union> B2 \<union> C2 = insert y (A \<union> B \<union> C)"
  by blast

lemma versions_restated:
  assumes d: "distinct (map (bu_key \<circ> ba_row) (bars db))"
    and old: "old \<in> set (bars db)" "bu_key (ba_row old) = bu_key (ba_row new)"
    and b: "bars db2 = map (\<lambda>b. if bu_key (ba_row b) = bu_key (ba_row new) then new else b) (bars db)"
    and v: "bars_revisions db2 = bars_revisions db @ [v]" "rv_previous v = ba_row old"
      "rv_previous_recorded_at v = Some (ba_recorded_at old)" "rv_incoming v = ba_row new"
      "rv_incoming_recorded_at v = Some (ba_recorded_at new)"
  shows "versions_of db2 = insert (ba_row new, ba_recorded_at new) (versions_of db)"
proof -
  have only: "b = old" if "b \<in> set (bars db)" "bu_key (ba_row b) = bu_key (ba_row new)" for b
    using d old that by (auto simp: distinct_map inj_on_def)
  have split_bars: "set (bars db) = insert old (set (bars db) - {old})" using old(1) by blast
  have "set (bars db2) = insert new (set (bars db) - {old})"
  proof -
    have "(if bu_key (ba_row b) = bu_key (ba_row new) then new else b) = (if b = old then new else b)"
      if "b \<in> set (bars db)" for b using only [OF that] old(2) by metis
    then show ?thesis unfolding b set_map using old(1) by (auto simp: image_iff)
  qed
  then have "(\<lambda>b. (ba_row b, ba_recorded_at b)) ` set (bars db2) \<union> {(ba_row old, ba_recorded_at old)}
      = insert (ba_row new, ba_recorded_at new) ((\<lambda>b. (ba_row b, ba_recorded_at b)) ` set (bars db))"
    using old(1) by auto
  moreover have "{(rv_previous w, t) |w t. w \<in> set (bars_revisions db2) \<and> rv_previous_recorded_at w = Some t}
      = insert (ba_row old, ba_recorded_at old)
          {(rv_previous w, t) |w t. w \<in> set (bars_revisions db) \<and> rv_previous_recorded_at w = Some t}"
    unfolding v(1) using v(2,3) by (auto intro: exI [of _ v])
  moreover have "{(rv_incoming w, t) |w t. w \<in> set (bars_revisions db2) \<and> rv_incoming_recorded_at w = Some t}
      = insert (ba_row new, ba_recorded_at new)
          {(rv_incoming w, t) |w t. w \<in> set (bars_revisions db) \<and> rv_incoming_recorded_at w = Some t}"
    unfolding v(1) using v(4,5) by (auto intro: exI [of _ v])
  ultimately show ?thesis
    unfolding versions_of_alt by (rule moved_union)
qed

lemma history_okD:
  assumes "history_ok db"
  shows "distinct (map (bu_key \<circ> ba_row) (bars db))"
    and "(r, t) \<in> versions_of db \<Longrightarrow> \<exists>b \<in> set (bars db). bu_key (ba_row b) = bu_key r \<and> t \<le> ba_recorded_at b"
    and "(r, t) \<in> versions_of db \<Longrightarrow> (r', t) \<in> versions_of db \<Longrightarrow> bu_key r = bu_key r' \<Longrightarrow> r = r'"
    and "(r, t) \<in> versions_of db \<Longrightarrow> bar_checks \<lparr>ba_row = r, ba_recorded_at = t, ba_creator_xid = 0\<rparr>"
    and "distinct (map (\<lambda>r. (rc_key r, rc_version_recorded_at r)) (bar_version_availability db))"
    and "receipt_of db k t a \<Longrightarrow> t \<le> a \<and> (\<exists>r. (r, t) \<in> versions_of db \<and> bu_key r = k)"
proof -
  note h = assms [unfolded history_ok_def]
  show "distinct (map (bu_key \<circ> ba_row) (bars db))" using h by (rule conjunct1)
  note h1 = conjunct2 [OF h]
  show "(r, t) \<in> versions_of db \<Longrightarrow> \<exists>b \<in> set (bars db). bu_key (ba_row b) = bu_key r \<and> t \<le> ba_recorded_at b"
    using conjunct1 [OF h1] by blast
  note h2 = conjunct2 [OF h1]
  show "(r, t) \<in> versions_of db \<Longrightarrow> (r', t) \<in> versions_of db \<Longrightarrow> bu_key r = bu_key r' \<Longrightarrow> r = r'"
    using conjunct1 [OF h2] by blast
  note h3 = conjunct2 [OF h2]
  show "(r, t) \<in> versions_of db \<Longrightarrow> bar_checks \<lparr>ba_row = r, ba_recorded_at = t, ba_creator_xid = 0\<rparr>"
    using conjunct1 [OF h3] by blast
  note h4 = conjunct2 [OF h3]
  show "distinct (map (\<lambda>r. (rc_key r, rc_version_recorded_at r)) (bar_version_availability db))"
    using h4 by (rule conjunct1)
  show "receipt_of db k t a \<Longrightarrow> t \<le> a \<and> (\<exists>r. (r, t) \<in> versions_of db \<and> bu_key r = k)"
    using conjunct2 [OF h4] by blast
qed

lemma history_ok_added:
  assumes ok: "history_ok db" and v: "versions_of db2 = insert (row, u) (versions_of db)"
    and older: "\<And>r t. (r, t) \<in> versions_of db \<Longrightarrow> bu_key r = bu_key row \<Longrightarrow> t < u"
    and receipts: "bar_version_availability db2 = bar_version_availability db"
    and d: "distinct (map (bu_key \<circ> ba_row) (bars db2))"
    and top: "\<And>r t. (r, t) \<in> versions_of db2 \<Longrightarrow> \<exists>b \<in> set (bars db2). bu_key (ba_row b) = bu_key r \<and> t \<le> ba_recorded_at b"
    and checks: "bar_checks \<lparr>ba_row = row, ba_recorded_at = u, ba_creator_xid = 0\<rparr>"
  shows "history_ok db2"
  unfolding history_ok_def
proof (intro conjI)
  show "\<forall>r t. (r, t) \<in> versions_of db2 \<longrightarrow> (\<exists>b \<in> set (bars db2). bu_key (ba_row b) = bu_key r \<and> t \<le> ba_recorded_at b)"
    using top by blast
  have fresh: "(q, u) \<notin> versions_of db" if "bu_key q = bu_key row" for q using older that by blast
  show "\<forall>r r' t. (r, t) \<in> versions_of db2 \<longrightarrow> (r', t) \<in> versions_of db2 \<longrightarrow> bu_key r = bu_key r' \<longrightarrow> r = r'"
    unfolding v using history_okD(3) [OF ok] fresh by (metis Pair_inject insert_iff)
  show "\<forall>r t. (r, t) \<in> versions_of db2 \<longrightarrow> bar_checks \<lparr>ba_row = r, ba_recorded_at = t, ba_creator_xid = 0\<rparr>"
    unfolding v using history_okD(4) [OF ok] checks by blast
  show "\<forall>k t a. receipt_of db2 k t a \<longrightarrow> t \<le> a \<and> (\<exists>r. (r, t) \<in> versions_of db2 \<and> bu_key r = k)"
    using history_okD(6) [OF ok] unfolding v receipt_of_def receipts by blast
qed (use history_okD(5) [OF ok] d in \<open>simp_all only: receipts\<close>)

lemma write_bar_extends:
  assumes w: "write_bar xid now row db = Inr db2" and ok: "history_ok db"
  shows "history_ok db2" and "extends db db2" and "bar_version_availability db2 = bar_version_availability db"
    and "\<exists>t. versions_of db2 \<subseteq> insert (row, t) (versions_of db) \<and> now \<le> t"
proof -
  have d: "distinct (map (bu_key \<circ> ba_row) (bars db))" using ok by (simp add: history_ok_def)
  note latest = history_okD(2) [OF ok]
  have only: "b = b'" if "b \<in> set (bars db)" "b' \<in> set (bars db)" "bu_key (ba_row b) = bu_key (ba_row b')" for b b'
    using d that by (auto simp: distinct_map inj_on_def)
  have "history_ok db2 \<and> extends db db2 \<and> bar_version_availability db2 = bar_version_availability db
      \<and> (\<exists>t. versions_of db2 \<subseteq> insert (row, t) (versions_of db) \<and> now \<le> t)"
    using w d
  proof (cases rule: write_bar_cases)
    case same
    then show ?thesis using ok by (auto simp: extends_def)
  next
    case inserted
    have new: "bu_key r \<noteq> bu_key row" if "(r, t) \<in> versions_of db" for r t
      using latest [OF that] inserted(1) by (metis comp_apply imageI)
    have v: "versions_of db2 = insert (row, now) (versions_of db)"
      unfolding inserted(3) versions_inserted by simp
    have "history_ok db2"
    proof (rule history_ok_added [OF ok v])
      show "bar_checks \<lparr>ba_row = row, ba_recorded_at = now, ba_creator_xid = 0\<rparr>"
        using inserted(2) by (auto intro: bar_checks_later)
    qed (use new latest d inserted(1) in \<open>auto simp: inserted(3) versions_inserted\<close>)
    moreover have "extends db db2" using new by (auto simp: extends_def v)
    ultimately show ?thesis by (auto simp: v) (auto simp: inserted(3))
  next
    case (restated old new)
    have v: "versions_of db2 = insert (row, ba_recorded_at new) (versions_of db)"
      using versions_restated [OF d restated(1), of new db2] restated(2,4,5,6) by simp
    have older: "t < ba_recorded_at new" if "(r, t) \<in> versions_of db" "bu_key r = bu_key row" for r t
      using latest [OF that(1)] only restated(1,2,4) that(2) by fastforce
    have keys: "map (bu_key \<circ> ba_row) (bars db2) = map (bu_key \<circ> ba_row) (bars db)"
      by (simp add: restated(4,5))
    have checks: "bar_checks \<lparr>ba_row = row, ba_recorded_at = ba_recorded_at new, ba_creator_xid = 0\<rparr>"
      using bar_checks_later [OF restated(3)] by (simp add: restated(4))
    have top: "\<exists>b \<in> set (bars db2). bu_key (ba_row b) = bu_key r \<and> t \<le> ba_recorded_at b"
      if "(r, t) \<in> versions_of db2" for r t
    proof (cases "bu_key r = bu_key row")
      case True
      have "new \<in> set (bars db2)" using restated(1,2,5) by force
      moreover have "t \<le> ba_recorded_at new" using that older [of r t] True by (auto simp: v)
      ultimately show ?thesis using True by (intro bexI [of _ new]) (simp_all add: restated(4))
    next
      case False
      then have "(r, t) \<in> versions_of db" using that by (auto simp: v)
      then obtain b where "b \<in> set (bars db)" "bu_key (ba_row b) = bu_key r" "t \<le> ba_recorded_at b"
        using latest by blast
      then show ?thesis using False by (auto simp: restated(5) intro!: bexI [of _ b])
    qed
    have "history_ok db2"
      by (rule history_ok_added [OF ok v]) (use older top checks d keys restated(7) in auto)
    moreover have "extends db db2" using older by (auto simp: extends_def v)
    ultimately show ?thesis by (auto simp: v restated(4,7))
  qed
  then show "history_ok db2" "extends db db2" "bar_version_availability db2 = bar_version_availability db"
    "\<exists>t. versions_of db2 \<subseteq> insert (row, t) (versions_of db) \<and> now \<le> t" by auto
qed

section \<open>Transactions\<close>

lemma extends_refl [simp]: "extends db db"
  by (auto simp: extends_def)

text \<open>What every statement keeps, when the clock reads at least \<open>now\<close>.\<close>

definition grows :: "instant \<Rightarrow> bar_db \<Rightarrow> bar_db \<Rightarrow> bool" where
  "grows now db db2 \<longleftrightarrow> versions_of db \<subseteq> versions_of db2
     \<and> (\<forall>k t a. receipt_of db k t a \<longrightarrow> receipt_of db2 k t a)
     \<and> (\<forall>k t a. receipt_of db2 k t a \<longrightarrow> receipt_of db k t a \<or> now \<le> a)"

lemma grows_refl [simp]: "grows now db db"
  by (auto simp: grows_def)

lemma grows_trans: "grows now a b \<Longrightarrow> grows later b c \<Longrightarrow> now \<le> later \<Longrightarrow> grows now a c"
  unfolding grows_def by (meson order_trans subset_trans)

lemma write_bars_ok:
  "write_bars xid clock rows db = Inr db2 \<Longrightarrow> history_ok db \<Longrightarrow>
     history_ok db2 \<and> versions_of db \<subseteq> versions_of db2
     \<and> bar_version_availability db2 = bar_version_availability db"
proof (induction rows arbitrary: db)
  case (Cons row rest)
  then obtain mid where mid: "write_bar xid (clock (length rest)) row db = Inr mid"
    and rest: "write_bars xid clock rest mid = Inr db2" by (auto elim: bind_res_InrE)
  note one = write_bar_extends [OF mid Cons.prems(2)]
  show ?case
    using Cons.IH [OF rest one(1)] one(2,3) by (auto simp: extends_def)
qed simp

lemma upsertE:
  assumes "upsert_bar_rows xid started clock rows db = Inr (plan, db2)"
  obtains (empty) "dedupe_rows rows = Inr []" "plan = \<lparr>bp_rows = [], bp_revisions = []\<rparr>" "db2 = db"
  | (written) row_list p revisions where "dedupe_rows rows = Inr row_list" "row_list \<noteq> []"
      "build_bar_upsert_plan_from_rows row_list (load_existing_bar_rows row_list db) = Inr p"
      "write_bars xid clock (bp_rows p) db = Inr db2" "verify_persisted_rows (bp_rows p) db2 = Inr ()"
      "load_persisted_revisions (bp_rows p) started db2 = Inr revisions"
      "plan = \<lparr>bp_rows = bp_rows p, bp_revisions = revisions\<rparr>"
proof -
  obtain row_list where d: "dedupe_rows rows = Inr row_list"
    using assms unfolding upsert_bar_rows_def by (rule bind_res_InrE)
  show thesis
  proof (cases "row_list = []")
    case True
    then show ?thesis using assms d by (intro empty) (simp_all add: upsert_bar_rows_def)
  next
    case False
    with assms d have "bind_res (build_bar_upsert_plan_from_rows row_list (load_existing_bar_rows row_list db)) (\<lambda>p.
        bind_res (write_bars xid clock (bp_rows p) db) (\<lambda>db3.
        bind_res (verify_persisted_rows (bp_rows p) db3) (\<lambda>_.
        bind_res (load_persisted_revisions (bp_rows p) started db3) (\<lambda>revisions.
        Inr (\<lparr>bp_rows = bp_rows p, bp_revisions = revisions\<rparr>, db3))))) = Inr (plan, db2)"
      by (simp add: upsert_bar_rows_def)
    then show ?thesis
      by (elim bind_res_InrE) (rule written [OF d False], auto)
  qed
qed

lemma upsert_grows:
  assumes "upsert_bar_rows xid started clock rows db = Inr (plan, db2)" and "history_ok db"
  shows "history_ok db2 \<and> grows now db db2"
  using assms(1)
proof (cases rule: upsertE)
  case (written row_list p revisions)
  show ?thesis using write_bars_ok [OF written(4) assms(2)] by (simp add: grows_def receipt_of_def)
qed (simp add: assms(2))

lemma insert_receipt_ok:
  assumes w: "insert_receipt xid now k recorded db = Inr db2" and ok: "history_ok db"
  shows "history_ok db2 \<and> grows now db db2 \<and> versions_of db2 = versions_of db
    \<and> (\<exists>a. receipt_of db2 k recorded a)"
proof -
  have "filter (\<lambda>(row, t, _). bu_key row = k \<and> t = recorded) (stored_versions db) \<noteq> []" and late: "recorded \<le> now"
    using w by (auto simp: insert_receipt_def Let_def split: if_splits)
  then obtain r x where "(r, recorded, x) \<in> set (stored_versions db)" "bu_key r = k"
    by (auto simp: filter_empty_conv)
  then have known: "\<exists>r. (r, recorded) \<in> versions_of db \<and> bu_key r = k"
    unfolding versions_of_def by (force simp: image_iff)
  show ?thesis
  proof (cases "receipt_exists db k recorded")
    case True
    then have "db2 = db" using w by (auto simp: insert_receipt_def Let_def split: if_splits)
    moreover have "\<exists>a. receipt_of db k recorded a"
      using True by (auto simp: receipt_exists_def receipt_of_def list_ex_iff) (metis BarReceipt.surjective old.unit.exhaust)
    ultimately show ?thesis using ok by simp
  next
    case False
    then have db2: "db2 = db\<lparr>bar_version_availability := bar_version_availability db @
        [\<lparr>rc_key = k, rc_version_recorded_at = recorded, rc_available_at = now\<rparr>]\<rparr>"
      using w by (auto simp: insert_receipt_def Let_def split: if_splits)
    have v: "versions_of db2 = versions_of db" by (simp add: db2 versions_of_alt)
    have new: "\<not> receipt_of db k recorded a" for a
      using False by (force simp: receipt_exists_def receipt_of_def list_ex_iff)
    have r: "receipt_of db2 k' t a \<longleftrightarrow> receipt_of db k' t a \<or> (k' = k \<and> t = recorded \<and> a = now)" for k' t a
      by (auto simp: receipt_of_def db2)
    have "history_ok db2"
      using ok known late False unfolding history_ok_def v r
      by (auto simp: db2 receipt_exists_def list_ex_iff)
    then show ?thesis by (auto simp: v r grows_def)
  qed
qed

lemma grows_weaken: "grows later a b \<Longrightarrow> now \<le> later \<Longrightarrow> grows now a b"
  unfolding grows_def by (meson order_trans)

lemma insert_receipts_ok:
  "insert_receipts xid clock vs db = Inr db2 \<Longrightarrow> history_ok db \<Longrightarrow> (\<And>i. now \<le> clock i) \<Longrightarrow>
     history_ok db2 \<and> grows now db db2 \<and> versions_of db2 = versions_of db
     \<and> (\<forall>v \<in> set vs. \<exists>a. receipt_of db2 (fst v) (snd v) a)"
proof (induction vs arbitrary: db)
  case (Cons v vs)
  obtain k t where v: "v = (k, t)" by (cases v)
  obtain mid where mid: "insert_receipt xid (clock (length vs)) k t db = Inr mid"
    and rest: "insert_receipts xid clock vs mid = Inr db2"
    using Cons.prems(1) unfolding v by (auto elim: bind_res_InrE)
  note one = insert_receipt_ok [OF mid Cons.prems(2)]
  have "history_ok mid" using one by blast
  note IH = Cons.IH [OF rest this Cons.prems(3)]
  have "grows now db mid" using one Cons.prems(3) grows_weaken by blast
  then have "grows now db db2" using IH grows_trans by blast
  moreover have "\<exists>a. receipt_of db2 k t a" using one IH unfolding grows_def by blast
  ultimately show ?case using one IH by (simp add: v)
qed simp

lemma finalize_ok:
  assumes "finalize_bar_version_availability xid clock rows db = Inr db2" and "history_ok db" and "\<And>i. now \<le> clock i"
  shows "history_ok db2 \<and> grows now db db2"
proof -
  obtain row_list where "(if row_list = [] then Inr db else insert_receipts xid clock (missing_versions row_list db) db) = Inr db2"
    using assms(1) unfolding finalize_bar_version_availability_def by (elim bind_res_InrE) blast
  then have "db2 = db \<or> insert_receipts xid clock (missing_versions row_list db) db = Inr db2"
    by (simp split: if_split_asm)
  then show ?thesis using insert_receipts_ok [OF _ assms(2,3)] assms(2) by auto
qed

section \<open>Reachable stores\<close>

lemma bar_step_ok:
  assumes "bar_step (db, now) (db2, later)" and "history_ok db"
  shows "history_ok db2 \<and> grows now db db2 \<and> now \<le> later"
  using assms(1)
proof (rule bar_stepE)
  fix rows xid started clock plan
  assume "upsert_bar_rows xid started clock rows db = Inr (plan, db2)" "now \<le> later"
  then show ?thesis using upsert_grows [OF _ assms(2)] by blast
next
  fix xid clock rows
  assume f: "finalize_bar_version_availability xid clock rows db = Inr db2" "now \<le> later"
    and "\<And>i. now \<le> clock i \<and> clock i \<le> later"
  then have "\<And>i. now \<le> clock i" by blast
  from finalize_ok [OF f(1) assms(2) this] f(2) show ?thesis by blast
qed (use assms(2) in simp)

lemma bar_steps_ok:
  "bar_steps s t \<Longrightarrow> history_ok (fst s) \<Longrightarrow>
     history_ok (fst t) \<and> grows (snd s) (fst s) (fst t) \<and> snd s \<le> snd t"
proof (induction rule: bar_steps.induct)
  case (there t u)
  have "history_ok (fst t)" using there by blast
  then show ?case
    using bar_step_ok [of "fst t" "snd t" "fst u" "snd u"] there grows_trans by fastforce
qed simp

lemma empty_ok: "history_ok empty_db"
  by (simp add: history_ok_def empty_db_def versions_of_alt receipt_of_def)

lemma reachable_ok: "bar_steps (empty_db, start) (db, now) \<Longrightarrow> history_ok db"
  using bar_steps_ok [of "(empty_db, start)" "(db, now)"] empty_ok by simp

end
