(* ===== verification/OutcomeResolutionLaws.thy ===== *)
theory OutcomeResolutionLaws
  imports OutcomeResolution BarHistoryLaws ForecastOutcomeLaws
begin

text \<open>
  What resolution promises.  Its evidence is a source version that the outcome module
  accepts unchanged; over a store that grew by its own statements the statement returns at
  most one row, the newest version visible at the cutoff; and once the clock has passed
  the cutoff no later ingestion changes the answer.
\<close>

section \<open>Evidence\<close>

lemma validate_requestE:
  assumes "validate_request env policy symbol target_time resolution_cutoff = Inr rq"
  obtains "symbol = PyStr (rq_symbol rq)" "text_ok 32 (rq_symbol rq)" "rq_symbol rq = py_upper (rq_symbol rq)"
    "symbol_pattern (rq_symbol rq)" "rs_utc target_time ''target_time'' = Inr (rq_target_time rq)"
    "rs_utc resolution_cutoff ''resolution_cutoff'' = Inr (rq_resolution_cutoff rq)"
    "rq_resolution_cutoff rq = rq_target_time rq + rp_resolution_lag_seconds policy * 1000000"
    "valid_instant (rq_target_time rq)" "valid_instant (rq_resolution_cutoff rq)"
  using assms unfolding validate_request_def
proof (elim bind_check_InrE bind_res_InrE)
  fix s target cutoff u expected
  assume a: "rs_canonical_symbol symbol = Inr s" "rs_utc target_time ''target_time'' = Inr target"
      "rs_utc resolution_cutoff ''resolution_cutoff'' = Inr cutoff" "cutoff_for policy (aware target) = Inr expected"
      "\<not> cutoff \<noteq> expected"
      "Inr \<lparr>rq_symbol = s, rq_target_time = target, rq_resolution_cutoff = cutoff\<rparr> = Inr rq"
  have v: "valid_instant target" "valid_instant cutoff" using a(2,3) by (auto simp: rs_utc_def utc_of_valid)
  have "expected = target + rp_resolution_lag_seconds policy * 1000000"
    using a(4) v by (auto simp: cutoff_for_def rs_utc_def Let_def split: if_splits)
  moreover have "\<not> 55296 \<le> cp c" for c using cp_bounds(2) [of c] by simp
  then have "\<not> has_surrogate s" by (simp add: has_surrogate_def)
  ultimately show thesis
    using a v by (intro that) (auto simp: rs_canonical_symbol_def text_ok_def split: pyobj.splits if_splits)
qed

lemma evidence_from_row_ok:
  assumes "evidence_from_row row rq = Inr ev" and "text_ok 32 (rq_symbol rq)"
    and "rq_symbol rq = py_upper (rq_symbol rq)" and "symbol_pattern (rq_symbol rq)" and "valid_instant (rq_target_time rq)"
  shows "source_ok ev \<and> bv_symbol ev = rq_symbol rq \<and> bv_observed_at ev = rq_target_time rq
    \<and> bv_available_at ev \<le> rq_resolution_cutoff rq"
proof -
  have zero: "f_isfinite f_zero" "\<not> f_lt f_zero f_zero" by code_simp+
  have n: "finite_nonnegative v l = Inr x \<Longrightarrow> normal_float x \<and> \<not> f_lt x f_zero" for v l x
    by (auto simp: finite_nonnegative_def normal_float_def bind_res_Inr_iff zero split: option.splits if_splits)
  show ?thesis
    using assms(1) unfolding evidence_from_row_def
    by (elim bind_check_InrE bind_res_InrE)
      (use assms(2-) in \<open>auto simp: source_ok_def rs_utc_def utc_of_valid dest!: n\<close>)
qed

lemma resolve_rows_ok:
  "resolve_rows rows rq = Inr ev \<Longrightarrow> \<exists>row. rows = [row] \<and> evidence_from_row row rq = Inr ev"
  by (auto simp: resolve_rows_def split: list.splits sum.splits)

lemma session_rowsE:
  assumes "session_rows ses rq = Inr rows"
  obtains now where "ds_open ses = None" "rs_utc (ds_clock ses) ''database clock'' = Inr now"
    "rq_resolution_cutoff rq \<le> now" "rows = map result_row (exact_bar_version_statement rq (ds_db ses))"
  using assms by (auto simp: session_rows_def split: option.splits sum.splits if_splits)

lemma resolveE:
  assumes "resolve env policy ses symbol target_time resolution_cutoff = Inr ev"
  obtains rq now v where "validate_request env policy symbol target_time resolution_cutoff = Inr rq"
    "rs_utc (ds_clock ses) ''database clock'' = Inr now" "rq_resolution_cutoff rq \<le> now"
    "exact_bar_version_statement rq (ds_db ses) = [v]" "evidence_from_row (result_row v) rq = Inr ev"
  using assms unfolding resolve_def
  by (auto split: sum.splits elim!: bind_res_InrE session_rowsE dest!: resolve_rows_ok)

lemma rule_set_hash_total: "\<exists>h. availability_rule_set_hash = Inr h \<and> content_id_pattern h"
  by (simp add: availability_rule_set_hash_def hash_document_def canonical_document_def canonical_json_def
      outcome_availability_rule_set_document_def)

lemma policy_hash_total: "\<exists>h. outcome_resolution_policy_hash env policy = Inr h \<and> content_id_pattern h"
proof -
  obtain r where r: "availability_rule_set_hash = Inr r" using rule_set_hash_total by blast
  show ?thesis
    by (simp add: outcome_resolution_policy_hash_def outcome_resolution_policy_document_def r
        policy_members_def calendar_members_def cutoff_members_def
        hash_document_def canonical_document_def canonical_json_def)
qed

section \<open>The statement over a reachable store\<close>

text \<open>The versions of the requested bar whose receipt is visible at the cutoff.\<close>

definition settled :: "OutcomeResolutionRequest \<Rightarrow> bar_db \<Rightarrow> (BarUpsertRow \<times> instant \<times> instant) set" where
  "settled rq db = {(r, t, a). (r, t) \<in> versions_of db \<and> bu_key r = requested_key rq
     \<and> receipt_of db (requested_key rq) t a \<and> a \<le> rq_resolution_cutoff rq}"

definition ranked :: "BarUpsertRow \<times> instant \<times> instant \<Rightarrow> RankedVersion" where
  "ranked v = (case v of (r, t, a) \<Rightarrow> \<lparr>rk_version = bar_version (r, t, 0), rk_available_at = a\<rparr>)"

lemma pg_number_finite: "pg_number_ok x \<Longrightarrow> f_isfinite x \<and> \<not> f_lt x f_zero"
proof -
  assume a: "pg_number_ok x"
  have c: "f_key f_inf = inf_idx" "f_key f_zero = 0" "\<not> f_isnan f_inf" "\<not> f_isnan f_zero" by code_simp+
  have "\<not> f_isnan x" "f_key x < inf_idx" "0 \<le> f_key x"
    using a by (auto simp: pg_number_ok_def pg_lt_def f_lt_def c)
  moreover from this(2,3) have "f_idx x < inf_idx"
    using f_idx_nonneg [of x] by (auto simp: f_key_def inf_idx_def split: if_splits)
  ultimately show ?thesis by (simp add: f_isfinite_def f_lt_def c)
qed

lemma union_rows_set:
  assumes "\<And>a b. a \<in> set vs \<Longrightarrow> b \<in> set vs \<Longrightarrow> same_version a b \<longleftrightarrow> a = b"
  shows "set (union_rows vs) = set vs \<and> distinct (union_rows vs)"
  using assms
proof (induction vs)
  case (Cons v vs)
  then have IH: "set (union_rows vs) = set vs" "distinct (union_rows vs)" by auto
  have "filter (\<lambda>w. \<not> same_version v w) (union_rows vs) = filter (\<lambda>w. w \<noteq> v) (union_rows vs)"
    using IH(1) Cons.prems by (intro filter_cong) auto
  then show ?case using IH by auto
qed simp

lemma outcome_versions_set:
  assumes "history_ok db"
  shows "set (outcome_bar_versions rq db) = (\<lambda>(r, t). bar_version (r, t, 0)) ` {(r, t) \<in> versions_of db. bu_key r = requested_key rq}"
    and "distinct (outcome_bar_versions rq db)"
    and "\<And>v w. v \<in> set (outcome_bar_versions rq db) \<Longrightarrow> w \<in> set (outcome_bar_versions rq db) \<Longrightarrow>
      ver_version_recorded_at v = ver_version_recorded_at w \<Longrightarrow> v = w"
proof -
  let ?vs = "filter (\<lambda>v. ver_key v = requested_key rq) (map bar_version (stored_versions db))"
  have set_vs: "set ?vs = (\<lambda>(r, t). bar_version (r, t, 0)) ` {(r, t) \<in> versions_of db. bu_key r = requested_key rq}"
  proof -
    have "bar_version ` set (stored_versions db) = (\<lambda>(r, t). bar_version (r, t, 0)) ` versions_of db"
      unfolding versions_of_def image_image by (intro image_cong) (auto simp: bar_version_def)
    then show ?thesis by (auto simp: bar_version_def)
  qed
  have one: "v = w" if vw: "v \<in> set ?vs" "w \<in> set ?vs" "ver_version_recorded_at v = ver_version_recorded_at w" for v w
  proof -
    obtain r t where v: "v = bar_version (r, t, 0)" "(r, t) \<in> versions_of db" "bu_key r = requested_key rq"
      using vw(1) unfolding set_vs by auto
    obtain r' t' where w: "w = bar_version (r', t', 0)" "(r', t') \<in> versions_of db" "bu_key r' = requested_key rq"
      using vw(2) unfolding set_vs by auto
    have "t' = t" using vw(3) by (simp add: v(1) w(1) bar_version_def)
    then have "r' = r" using history_okD(3) [OF assms, of r' t r] v w by simp
    then show ?thesis using \<open>t' = t\<close> by (simp add: v(1) w(1))
  qed
  have refl: "\<not> pg_lt x x" for x by (auto simp: pg_lt_def f_lt_def)
  have "same_version a b \<longleftrightarrow> a = b" if "a \<in> set ?vs" "b \<in> set ?vs" for a b
    using one [OF that] refl by (auto simp: same_version_def)
  then have u: "set (union_rows ?vs) = set ?vs \<and> distinct (union_rows ?vs)" by (rule union_rows_set)
  show "set (outcome_bar_versions rq db) = (\<lambda>(r, t). bar_version (r, t, 0)) ` {(r, t) \<in> versions_of db. bu_key r = requested_key rq}"
    "distinct (outcome_bar_versions rq db)"
    using u set_vs by (simp_all add: outcome_bar_versions_def)
  show "\<And>v w. v \<in> set (outcome_bar_versions rq db) \<Longrightarrow> w \<in> set (outcome_bar_versions rq db) \<Longrightarrow>
      ver_version_recorded_at v = ver_version_recorded_at w \<Longrightarrow> v = w"
    using u one unfolding outcome_bar_versions_def by blast
qed

lemma visible_set:
  assumes "history_ok db"
  shows "set (visible_versions rq db) = ranked ` settled rq db"
proof -
  have "v \<in> set (visible_versions rq db) \<longleftrightarrow> v \<in> ranked ` settled rq db" for v
  proof
    assume "v \<in> set (visible_versions rq db)"
    then obtain w rc where v: "v = \<lparr>rk_version = w, rk_available_at = rc_available_at rc\<rparr>"
      and w: "w \<in> set (outcome_bar_versions rq db)" and rc: "rc \<in> set (bar_version_availability db)"
        "rc_key rc = ver_key w" "rc_version_recorded_at rc = ver_version_recorded_at w"
        "rc_available_at rc \<le> rq_resolution_cutoff rq"
      by (auto simp: visible_versions_def)
    then obtain r t where rt: "w = bar_version (r, t, 0)" "(r, t) \<in> versions_of db" "bu_key r = requested_key rq"
      using outcome_versions_set(1) [OF assms, of rq] by auto
    have "receipt_of db (requested_key rq) t (rc_available_at rc)"
      using rc(1-3) rt unfolding receipt_of_def bar_version_def
      by (metis (mono_tags, lifting) BarReceipt.surjective old.unit.exhaust BarVersion.select_convs(1,4) case_prod_conv)
    then show "v \<in> ranked ` settled rq db"
      using rt rc(4) by (intro image_eqI [of _ _ "(r, t, rc_available_at rc)"]) (auto simp: v ranked_def settled_def)
  next
    assume "v \<in> ranked ` settled rq db"
    then obtain r t a where s: "v = ranked (r, t, a)" "(r, t) \<in> versions_of db" "bu_key r = requested_key rq"
        "receipt_of db (requested_key rq) t a" "a \<le> rq_resolution_cutoff rq" by (auto simp: settled_def)
    have "bar_version (r, t, 0) \<in> set (outcome_bar_versions rq db)"
      using outcome_versions_set(1) [OF assms, of rq] s(2,3) by force
    then show "v \<in> set (visible_versions rq db)"
      using s(3-5) unfolding visible_versions_def s(1)
      by (force simp: ranked_def receipt_of_def bar_version_def)
  qed
  then show ?thesis by blast
qed

lemma settled_unique:
  assumes "history_ok db" and "(r, t, a) \<in> settled rq db" and "(r', t, a') \<in> settled rq db"
  shows "r = r' \<and> a = a'"
proof -
  have "distinct (map (\<lambda>r. (rc_key r, rc_version_recorded_at r)) (bar_version_availability db))"
    by (rule history_okD(5) [OF assms(1)])
  then have inj: "inj_on (\<lambda>r. (rc_key r, rc_version_recorded_at r)) (set (bar_version_availability db))"
    by (simp add: distinct_map)
  have "\<lparr>rc_key = requested_key rq, rc_version_recorded_at = t, rc_available_at = a\<rparr>
      = \<lparr>rc_key = requested_key rq, rc_version_recorded_at = t, rc_available_at = a'\<rparr>"
    by (rule inj_onD [OF inj]) (use assms(2,3) in \<open>simp_all add: settled_def receipt_of_def\<close>)
  then have "a = a'" by simp
  moreover have "r = r'" using history_okD(3) [OF assms(1)] assms(2,3) by (auto simp: settled_def)
  ultimately show ?thesis by blast
qed

lemma keyed_filter: "distinct (map f xs) \<Longrightarrow> length (filter (\<lambda>x. f x = k \<and> P x) xs) \<le> 1"
  by (induction xs) (auto simp: filter_empty_conv image_iff)

lemma short_distinct: "length xs \<le> 1 \<Longrightarrow> distinct xs"
  by (cases xs) auto

lemma visible_distinct:
  assumes "history_ok db"
  shows "distinct (visible_versions rq db)"
proof -
  define rows where "rows v = map (\<lambda>r. \<lparr>rk_version = v, rk_available_at = rc_available_at r\<rparr>)
     (filter (\<lambda>r. rc_key r = ver_key v \<and> rc_version_recorded_at r = ver_version_recorded_at v
        \<and> rc_available_at r \<le> rq_resolution_cutoff rq) (bar_version_availability db))" for v
  have each: "distinct (rows v)" for v
    using keyed_filter [OF history_okD(5) [OF assms], of "(ver_key v, ver_version_recorded_at v)"
        "\<lambda>r. rc_available_at r \<le> rq_resolution_cutoff rq"]
    by (intro short_distinct) (simp add: rows_def conj_assoc)
  have own: "x \<in> set (rows v) \<Longrightarrow> rk_version x = v" for x v
    by (auto simp: rows_def)
  have "distinct (concat (map rows vs))" if "distinct vs" for vs
    using that
  proof (induction vs)
    case (Cons v vs)
    have "x \<notin> set (rows w)" if "x \<in> set (rows v)" "w \<in> set vs" for x w
      using own [OF that(1)] own [of x w] that(2) Cons.prems by auto
    then show ?case using Cons each by auto
  qed simp
  then show ?thesis
    using outcome_versions_set(2) [OF assms] unfolding visible_versions_def rows_def by blast
qed

text \<open>The statement returns the newest settled version, and nothing else.\<close>

definition newest :: "(BarUpsertRow \<times> instant \<times> instant) set \<Rightarrow> BarUpsertRow \<times> instant \<times> instant \<Rightarrow> bool" where
  "newest vs v \<longleftrightarrow> v \<in> vs \<and> (\<forall>(r, t, a) \<in> vs. t \<le> fst (snd v))"

lemma rank_one: "rank_of vs v = Suc 0 \<longleftrightarrow> (\<forall>w \<in> set vs. ver_version_recorded_at (rk_version w) \<le> ver_version_recorded_at (rk_version v))"
  by (auto simp: rank_of_def filter_empty_conv not_less)

lemma only_element:
  assumes d: "distinct xs" and x: "x \<in> set xs" and only: "\<And>y. y \<in> set xs \<Longrightarrow> y = x"
  shows "xs = [x]"
proof (cases xs)
  case (Cons y ys)
  have y: "y = x" using only [of y] by (simp add: Cons)
  have "ys = []"
  proof (rule ccontr)
    assume "ys \<noteq> []"
    then have "hd ys \<in> set ys" by simp
    moreover from this have "hd ys = x" using only [of "hd ys"] by (simp add: Cons)
    ultimately show False using d y by (simp add: Cons)
  qed
  then show ?thesis by (simp add: Cons y)
qed (use x in simp)

lemma statement_none:
  assumes "history_ok db" and "settled rq db = {}"
  shows "exact_bar_version_statement rq db = []"
  using visible_set [OF assms(1), of rq] assms(2) by (simp add: exact_bar_version_statement_def)

lemma statement_newest:
  assumes ok: "history_ok db" and v: "newest (settled rq db) v"
  shows "exact_bar_version_statement rq db = [ranked v]"
proof -
  let ?vs = "visible_versions rq db"
  have rec [simp]: "ver_version_recorded_at (rk_version (ranked w)) = fst (snd w)" for w
    by (cases w) (simp add: ranked_def bar_version_def)
  have "filter (\<lambda>w. rank_of ?vs w = 1) ?vs = [ranked v]"
  proof (rule only_element)
    show "distinct (filter (\<lambda>w. rank_of ?vs w = 1) ?vs)" using visible_distinct [OF ok] by simp
    show "ranked v \<in> set (filter (\<lambda>w. rank_of ?vs w = 1) ?vs)"
      using v unfolding newest_def by (auto simp: rank_one visible_set [OF ok])
    fix y assume "y \<in> set (filter (\<lambda>w. rank_of ?vs w = 1) ?vs)"
    then obtain w where w: "y = ranked w" "w \<in> settled rq db" "\<forall>u \<in> settled rq db. fst (snd u) \<le> fst (snd w)"
      by (auto simp: rank_one visible_set [OF ok])
    obtain r t a r' t' a' where rt: "v = (r, t, a)" "w = (r', t', a')" by (cases v; cases w)
    have "t' = t" using w(2,3) v rt by (fastforce simp: newest_def)
    then show "y = ranked v"
      using settled_unique [OF ok, of r t a rq r' a'] w v rt by (auto simp: newest_def)
  qed
  then show ?thesis by (simp add: exact_bar_version_statement_def)
qed

lemma newest_exists:
  assumes "settled rq db \<noteq> {}"
  shows "\<exists>v. newest (settled rq db) v"
proof -
  have "finite (versions_of db)" by (simp add: versions_of_def)
  moreover have "(fst \<circ> snd) ` settled rq db \<subseteq> snd ` versions_of db" by (force simp: settled_def)
  ultimately have fin: "finite ((fst \<circ> snd) ` settled rq db)" by (meson finite_imageI finite_subset)
  moreover have "(fst \<circ> snd) ` settled rq db \<noteq> {}" using assms by simp
  ultimately obtain t where "t \<in> (fst \<circ> snd) ` settled rq db" "\<forall>u \<in> (fst \<circ> snd) ` settled rq db. u \<le> t"
    using Max_in [OF fin] Max_ge [OF fin] by blast
  then show ?thesis by (force simp: newest_def)
qed

section \<open>What resolution returns\<close>

lemma settled_evidence:
  assumes ok: "history_ok db" and s: "(r, t, a) \<in> settled rq db"
    and v: "valid_instant (rq_target_time rq)" "valid_instant (rq_resolution_cutoff rq)"
  shows "\<exists>ev. evidence_from_row (result_row (ranked (r, t, a))) rq = Inr ev \<and> bv_version_recorded_at ev = t
    \<and> bv_available_at ev = a \<and> f_eq (bv_value ev) (bu_close r)"
proof -
  have k: "bu_key r = requested_key rq" and le: "t \<le> a" "a \<le> rq_resolution_cutoff rq"
    using s history_okD(6) [OF ok] by (auto simp: settled_def)
  have "bar_checks \<lparr>ba_row = r, ba_recorded_at = t, ba_creator_xid = 0\<rparr>"
    using s history_okD(4) [OF ok] by (auto simp: settled_def)
  then have ord: "rq_target_time rq \<le> bu_fetched_at r" "bu_fetched_at r \<le> bu_as_of r" "bu_as_of r \<le> t"
    and num: "f_isfinite (bu_close r)" "\<not> f_lt (bu_close r) f_zero"
    using pg_number_finite [of "bu_close r"] by (auto simp: bar_checks_def k requested_key_def Let_def)
  have utc: "rs_utc (aware x) l = Inr x" if "rq_target_time rq \<le> x" "x \<le> rq_resolution_cutoff rq" for x l
    using that v by (simp add: rs_utc_def valid_instant_def)
  have fin: "finite_nonnegative (PyFloat (bu_close r)) l = Inr (if f_eq (bu_close r) f_zero then f_zero else bu_close r)" for l
    using num by (simp add: finite_nonnegative_def real_float_def)
  have self: "f_eq (if f_eq (bu_close r) f_zero then f_zero else bu_close r) (bu_close r)"
    using num(1) by (auto simp: f_eq_def f_finite_not_nan)
  show ?thesis
    using ord le self
    by (simp add: evidence_from_row_def result_row_def ranked_def bar_version_def k requested_key_def Let_def utc fin)
qed

lemma resolve_request:
  assumes "validate_request env policy symbol target_time resolution_cutoff = Inr rq" and "ds_open ses = None"
    and "ds_select ses = None" and "rs_utc (ds_clock ses) ''database clock'' = Inr now" and "rq_resolution_cutoff rq \<le> now"
  shows "resolve env policy ses symbol target_time resolution_cutoff
    = resolve_rows (map result_row (exact_bar_version_statement rq (ds_db ses))) rq"
  using assms by (simp add: resolve_def session_rows_def)

text \<open>C4. Over every store its own statements can reach, resolution is decided by the history
alone: with a working session after the cutoff it answers the newest version whose receipt
is visible at the cutoff, and reports the source as unavailable exactly when there is none;
it never finds an ambiguous or corrupt version.\<close>

theorem resolution_is_decided:
  assumes reach: "bar_steps (empty_db, start) (ds_db ses, stopped)"
    and rq: "validate_request env policy symbol target_time resolution_cutoff = Inr rq"
    and open_ok: "ds_open ses = None" "ds_select ses = None"
    and clock: "rs_utc (ds_clock ses) ''database clock'' = Inr now" "rq_resolution_cutoff rq \<le> now"
  shows "(settled rq (ds_db ses) = {} \<and> resolve env policy ses symbol target_time resolution_cutoff = Inl source_unavailable)
    \<or> (\<exists>r t a ev. newest (settled rq (ds_db ses)) (r, t, a)
        \<and> resolve env policy ses symbol target_time resolution_cutoff = Inr ev
        \<and> bv_version_recorded_at ev = t \<and> bv_available_at ev = a \<and> f_eq (bv_value ev) (bu_close r))"
proof -
  note ok = reachable_ok [OF reach]
  note res = resolve_request [OF rq open_ok clock]
  have v: "valid_instant (rq_target_time rq)" "valid_instant (rq_resolution_cutoff rq)"
    using rq by (auto elim: validate_requestE)
  show ?thesis
  proof (cases "settled rq (ds_db ses) = {}")
    case True
    then show ?thesis using res statement_none [OF ok True] by (simp add: resolve_rows_def)
  next
    case False
    then obtain r t a where n: "newest (settled rq (ds_db ses)) (r, t, a)"
      using newest_exists by (metis prod_cases3)
    then have "(r, t, a) \<in> settled rq (ds_db ses)" by (simp add: newest_def)
    then obtain ev where "evidence_from_row (result_row (ranked (r, t, a))) rq = Inr ev"
        "bv_version_recorded_at ev = t" "bv_available_at ev = a" "f_eq (bv_value ev) (bu_close r)"
      using settled_evidence [OF ok _ v] by blast
    then show ?thesis using n res statement_newest [OF ok n] by (auto simp: resolve_rows_def)
  qed
qed

lemma settled_stable:
  assumes ok: "history_ok db" "history_ok db2" and g: "grows now db db2" and c: "rq_resolution_cutoff rq < now"
  shows "settled rq db2 = settled rq db"
proof -
  have "(r, t, a) \<in> settled rq db" if "(r, t, a) \<in> settled rq db2" for r t a
  proof -
    have "receipt_of db (requested_key rq) t a" using that g c unfolding settled_def grows_def by fastforce
    moreover from this obtain r' where "(r', t) \<in> versions_of db" "bu_key r' = requested_key rq"
      using history_okD(6) [OF ok(1)] by blast
    moreover from this have "r' = r"
      using that g history_okD(3) [OF ok(2), of r' t r] by (auto simp: settled_def grows_def)
    ultimately show ?thesis using that by (auto simp: settled_def)
  qed
  moreover have "settled rq db \<subseteq> settled rq db2" using g by (auto simp: settled_def grows_def)
  ultimately show ?thesis by auto
qed

text \<open>C1. Truth is stable: once the database clock has passed the cutoff, no ingestion, restatement
or late receipt that follows changes what resolution answers, whatever that answer is.\<close>

theorem resolution_is_stable:
  assumes reach: "bar_steps (empty_db, start) (db, now)" and later: "bar_steps (db, now) (db2, later)"
    and cutoff: "rs_utc resolution_cutoff ''resolution_cutoff'' = Inr cutoff" "cutoff < now"
  shows "resolve env policy (ses\<lparr>ds_db := db2\<rparr>) symbol target_time resolution_cutoff
    = resolve env policy (ses\<lparr>ds_db := db\<rparr>) symbol target_time resolution_cutoff"
proof (cases "validate_request env policy symbol target_time resolution_cutoff")
  case (Inr rq)
  have ok: "history_ok db" "history_ok db2" and g: "grows now db db2"
    using reachable_ok [OF reach] bar_steps_ok [OF later] by simp_all
  have "rq_resolution_cutoff rq < now" using Inr cutoff by (auto elim: validate_requestE)
  note s = settled_stable [OF ok g this]
  have "exact_bar_version_statement rq db2 = exact_bar_version_statement rq db"
  proof (cases "settled rq db = {}")
    case True
    then show ?thesis using statement_none [OF ok(1), of rq] statement_none [OF ok(2), of rq] s by simp
  next
    case False
    then obtain v where v: "newest (settled rq db) v" using newest_exists by blast
    show ?thesis using statement_newest [OF ok(1) v] statement_newest [OF ok(2), of rq v] v s by simp
  qed
  then have "session_rows (ses\<lparr>ds_db := db2\<rparr>) rq = session_rows (ses\<lparr>ds_db := db\<rparr>) rq"
    by (simp add: session_rows_def cong: option.case_cong sum.case_cong if_cong)
  then show ?thesis by (simp add: resolve_def Inr)
qed (simp add: resolve_def)

text \<open>The payload the publisher composes from a resolution.\<close>

definition resolved_payload ::
  "string \<Rightarrow> string \<Rightarrow> instant \<Rightarrow> BarVersionEvidence \<Rightarrow> RealizedOutcomePayload"
where
  "resolved_payload policy_hash rule_set_hash cutoff ev = \<lparr>
     op_outcome_resolution_policy_hash = policy_hash, op_availability_rule_set_hash = rule_set_hash,
     op_resolution_cutoff = cutoff, op_symbol = bv_symbol ev, op_target = ''close'', op_series_basis = ''raw'',
     op_target_time = bv_observed_at ev, op_currency = ''USD'', op_realized_value = bv_value ev,
     op_source_version = ev, op_schema_version = OUTCOME_SCHEMA_VERSION\<rparr>"

text \<open>C7. What the resolver returns is exactly what the outcome module accepts: the evidence names the
requested bar at the requested time, was visible by the cutoff, which is the target plus
the policy's lag and has passed on the database clock; and with the hashes of policy and rule
set it makes a payload that validates unchanged.\<close>

theorem resolved_evidence_is_accepted:
  assumes "resolve env policy ses symbol target_time resolution_cutoff = Inr ev"
  shows "\<exists>policy_hash rule_set_hash cutoff now.
    outcome_resolution_policy_hash env policy = Inr policy_hash \<and> availability_rule_set_hash = Inr rule_set_hash
    \<and> symbol = PyStr (bv_symbol ev) \<and> rs_utc target_time ''target_time'' = Inr (bv_observed_at ev)
    \<and> rs_utc resolution_cutoff ''resolution_cutoff'' = Inr cutoff
    \<and> cutoff = bv_observed_at ev + rp_resolution_lag_seconds policy * 1000000
    \<and> bv_available_at ev \<le> cutoff
    \<and> rs_utc (ds_clock ses) ''database clock'' = Inr now \<and> cutoff \<le> now
    \<and> oc_normalized_payload (Inst (outcome_arg (resolved_payload policy_hash rule_set_hash cutoff ev)))
        = Inr (resolved_payload policy_hash rule_set_hash cutoff ev)"
  using assms
proof (rule resolveE)
  fix rq now v
  assume rq: "validate_request env policy symbol target_time resolution_cutoff = Inr rq"
    and now: "rs_utc (ds_clock ses) ''database clock'' = Inr now" "rq_resolution_cutoff rq \<le> now"
    and ev: "evidence_from_row (result_row v) rq = Inr ev"
  obtain ph where ph: "outcome_resolution_policy_hash env policy = Inr ph" "content_id_pattern ph"
    using policy_hash_total by blast
  obtain rh where rh: "availability_rule_set_hash = Inr rh" "content_id_pattern rh"
    using rule_set_hash_total by blast
  show ?thesis
    using rq
  proof (rule validate_requestE)
    assume q: "symbol = PyStr (rq_symbol rq)" "text_ok 32 (rq_symbol rq)" "rq_symbol rq = py_upper (rq_symbol rq)"
      "symbol_pattern (rq_symbol rq)" "rs_utc target_time ''target_time'' = Inr (rq_target_time rq)"
      "rs_utc resolution_cutoff ''resolution_cutoff'' = Inr (rq_resolution_cutoff rq)"
      "rq_resolution_cutoff rq = rq_target_time rq + rp_resolution_lag_seconds policy * 1000000"
      "valid_instant (rq_target_time rq)" "valid_instant (rq_resolution_cutoff rq)"
    note e = evidence_from_row_ok [OF ev q(2-4,8)]
    have "outcome_ok (resolved_payload ph rh (rq_resolution_cutoff rq) ev)"
      using e q(9) ph(2) rh(2) by (simp add: outcome_ok_def resolved_payload_def)
    then have accepted: "oc_normalized_payload (Inst (outcome_arg (resolved_payload ph rh (rq_resolution_cutoff rq) ev)))
        = Inr (resolved_payload ph rh (rq_resolution_cutoff rq) ev)" by (rule normalized_payload_arg)
    show ?thesis
      by (intro exI [of _ ph] exI [of _ rh] exI [of _ "rq_resolution_cutoff rq"] exI [of _ now] conjI
          accepted ph(1) rh(1) q(6) now) (use e q(1,5,7) in simp_all)
  qed
qed

section \<open>The identity of a policy\<close>

lemma member_of_sorted:
  assumes "jsort (JObj d) = jsort (JObj d')" and "distinct (map fst d)" and "distinct (map fst d')"
    and "dict_get d k = Some v" and "dict_get d' k = Some v'"
  shows "jsort v = jsort v'"
proof -
  have "sorted_members d = sorted_members d'" using assms(1) by (simp only: jsort_JObj json.inject)
  then have "dict_get (sorted_members d) k = dict_get (sorted_members d') k" by (simp only:)
  then show ?thesis by (simp only: dict_get_sorted_members [OF assms(2)] dict_get_sorted_members [OF assms(3)]
    assms(4,5) option.map option.inject)
qed

lemma policy_members_distinct [simp]:
  "distinct (map fst (policy_members env policy h))" "distinct (map fst (calendar_members env))"
  "distinct (map fst (cutoff_members policy))"
  unfolding policy_members_def calendar_members_def cutoff_members_def list.map fst_conv by code_simp+

lemma policy_members_get:
  "dict_get (policy_members env policy h) ''calendar'' = Some (JObj (calendar_members env))"
  "dict_get (policy_members env policy h) ''cutoff'' = Some (JObj (cutoff_members policy))"
  "dict_get (calendar_members env) ''pandas_version'' = Some (JStr (re_pandas_version env))"
  "dict_get (calendar_members env) ''tzdata_version'' = Some (JStr (re_tzdata_version env))"
  "dict_get (cutoff_members policy) ''resolution_lag_seconds'' = Some (JInt (rp_resolution_lag_seconds policy))"
  by (simp_all add: policy_members_def calendar_members_def cutoff_members_def)

lemma policy_members_plain: "plain (JObj (policy_members env policy h))"
proof -
  have "plain (JObj (calendar_members env))" "plain (JObj (cutoff_members policy))"
    by (simp_all only: plain.simps policy_members_distinct) (simp_all add: calendar_members_def cutoff_members_def)
  then show ?thesis
    by (simp only: plain.simps policy_members_distinct) (simp add: policy_members_def)
qed

text \<open>The canonical bytes registered for a policy determine it: two policies with the same bytes have
the same lag, hence the same cutoff for every target, and the same pandas and time-zone versions.\<close>

theorem policy_bytes_determine_policy:
  assumes "canonical_policy env p = canonical_policy env2 q"
  shows "p = q \<and> re_pandas_version env = re_pandas_version env2 \<and> re_tzdata_version env = re_tzdata_version env2"
proof -
  obtain h where h: "availability_rule_set_hash = Inr h" using rule_set_hash_total by blast
  have "canonical_json (JObj (policy_members env p h)) = canonical_json (JObj (policy_members env2 q h))"
    using assms by (simp only: canonical_policy_def outcome_resolution_policy_document_def h bind_res_simps canonical_document_def)
  then have top: "jsort (JObj (policy_members env p h)) = jsort (JObj (policy_members env2 q h))"
    by (intro canonical_json_inject policy_members_plain)
  note part = member_of_sorted [OF top policy_members_distinct(1) policy_members_distinct(1)]
  note cal = part [OF policy_members_get(1) policy_members_get(1)]
  note cut = part [OF policy_members_get(2) policy_members_get(2)]
  note inner = member_of_sorted [OF cal policy_members_distinct(2) policy_members_distinct(2)]
  have "rp_resolution_lag_seconds p = rp_resolution_lag_seconds q"
    using member_of_sorted [OF cut policy_members_distinct(3) policy_members_distinct(3) policy_members_get(5) policy_members_get(5)]
    by simp
  moreover have "re_pandas_version env = re_pandas_version env2"
    using inner [OF policy_members_get(3) policy_members_get(3)] by simp
  moreover have "re_tzdata_version env = re_tzdata_version env2"
    using inner [OF policy_members_get(4) policy_members_get(4)] by simp
  ultimately show ?thesis by simp
qed

end
