(* ===== verification/BarIngestLaws.thy ===== *)
theory BarIngestLaws
  imports BarHistoryLaws
begin

text \<open>
  What ingestion promises over a reachable store: a batch that was written can be written
  again without any effect, and finalization leaves no version of the batch's lanes
  without a receipt.
\<close>

section \<open>A normalized batch\<close>

lemma find_in: "find P xs = Some x \<Longrightarrow> x \<in> set xs \<and> P x"
  by (induction xs) (auto split: if_splits)

lemma dedupe_row_keys:
  assumes "dedupe_row acc row = Inr out" and "distinct (map bu_key acc)"
  shows "distinct (map bu_key out) \<and> set (map bu_key out) = insert (bu_key row) (set (map bu_key acc))"
proof (cases "find (\<lambda>r. bu_key r = bu_key row) acc")
  case None
  then have "out = acc @ [row]" using assms(1) by (simp add: dedupe_row_def)
  then show ?thesis using None assms(2) by (auto simp: find_None_iff)
next
  case (Some previous)
  then have "previous \<in> set acc" "bu_key previous = bu_key row" using find_in [OF Some] by simp_all
  then have "bu_key row \<in> set (map bu_key acc)" by (metis image_eqI list.set_map)
  moreover have "map bu_key (map (\<lambda>r. if bu_key r = bu_key row then row else r) acc) = map bu_key acc" by simp
  moreover have "out = map (\<lambda>r. if bu_key r = bu_key row then row else r) acc \<or> out = acc"
    using assms(1) Some by (simp add: dedupe_row_def split: if_splits)
  ultimately have "map bu_key out = map bu_key acc" "bu_key row \<in> set (map bu_key acc)" by metis+
  then show ?thesis using assms(2) by (simp only: insert_absorb)
qed

lemma dedupe_loop_keys: "dedupe_loop acc rows = Inr out \<Longrightarrow> distinct (map bu_key acc) \<Longrightarrow> distinct (map bu_key out)"
  by (induction acc rows rule: dedupe_loop.induct) (auto elim!: bind_res_InrE dest: dedupe_row_keys)

lemma dedupe_loop_distinct: "distinct (map bu_key (acc @ rows)) \<Longrightarrow> dedupe_loop acc rows = Inr (acc @ rows)"
proof (induction acc rows rule: dedupe_loop.induct)
  case (2 acc row rows)
  have "find (\<lambda>r. bu_key r = bu_key row) acc = None" using 2(2) by (auto simp: find_None_iff image_iff)
  then have "dedupe_row acc row = Inr (acc @ [row])" by (simp add: dedupe_row_def)
  then show ?case using 2 by simp
qed simp

lemma dedupe_distinct: "dedupe_rows rows = Inr rl \<Longrightarrow> distinct (map bu_key rl)"
  by (auto simp: dedupe_rows_def distinct_map elim!: bind_res_InrE dest!: dedupe_loop_keys)

lemma dedupe_idem: "dedupe_rows rows = Inr rl \<Longrightarrow> dedupe_rows rl = Inr rl"
proof -
  assume a: "dedupe_rows rows = Inr rl"
  then have "dedupe_loop [] rl = Inr rl" using dedupe_loop_distinct [of "[]" rl] dedupe_distinct by simp
  moreover have "sorted (map bu_key rl)" using a by (auto simp: dedupe_rows_def elim!: bind_res_InrE)
  ultimately show ?thesis by (simp add: dedupe_rows_def sort_key_id_if_sorted)
qed

section \<open>Replay\<close>

lemma write_bars_checked:
  "write_bars xid clock rows db = Inr db2 \<Longrightarrow> row \<in> set rows \<Longrightarrow>
     \<exists>i. bar_checks \<lparr>ba_row = row, ba_recorded_at = clock i, ba_creator_xid = xid\<rparr>"
proof (induction rows arbitrary: db)
  case (Cons r rest)
  obtain mid where mid: "write_bar xid (clock (length rest)) r db = Inr mid" and rest: "write_bars xid clock rest mid = Inr db2"
    using Cons.prems(1) by (auto elim: bind_res_InrE)
  have "bar_checks \<lparr>ba_row = r, ba_recorded_at = clock (length rest), ba_creator_xid = xid\<rparr>"
    using mid by (auto simp: write_bar_def Let_def split: if_splits)
  then show ?case using Cons.IH [OF rest] Cons.prems(2) by auto
qed simp

text \<open>Every row of the batch is in the table, with equal values.\<close>

definition holds_batch :: "BarUpsertRow list \<Rightarrow> bar_db \<Rightarrow> bool" where
  "holds_batch rows db \<longleftrightarrow> (\<forall>row \<in> set rows. \<exists>b \<in> set (bars db). bu_key (ba_row b) = bu_key row \<and> values_equal (ba_row b) row)"

lemma load_existing_find:
  assumes "distinct (map (bu_key \<circ> ba_row) (bars db))" and "row \<in> set rows"
  shows "find (\<lambda>r. bu_key r = bu_key row) (load_existing_bar_rows rows db) = Some x
    \<longleftrightarrow> x \<in> ba_row ` set (bars db) \<and> bu_key x = bu_key row"
    and "find (\<lambda>r. bu_key r = bu_key row) (rev (load_existing_bar_rows rows db)) = Some x
    \<longleftrightarrow> x \<in> ba_row ` set (bars db) \<and> bu_key x = bu_key row"
proof -
  have "distinct (map bu_key (map ba_row (bars db)))" using assms(1) by simp
  then have d: "distinct (map bu_key (load_existing_bar_rows rows db))"
    unfolding load_existing_bar_rows_def by (rule distinct_map_filter)
  then have "distinct (map bu_key (rev (load_existing_bar_rows rows db)))" by (simp add: rev_map [symmetric])
  from find_key [OF d] find_key [OF this] assms(2)
  show "find (\<lambda>r. bu_key r = bu_key row) (load_existing_bar_rows rows db) = Some x
    \<longleftrightarrow> x \<in> ba_row ` set (bars db) \<and> bu_key x = bu_key row"
    "find (\<lambda>r. bu_key r = bu_key row) (rev (load_existing_bar_rows rows db)) = Some x
    \<longleftrightarrow> x \<in> ba_row ` set (bars db) \<and> bu_key x = bu_key row"
    by (auto simp: load_existing_bar_rows_def)
qed

lemma verified_holds:
  assumes "distinct (map (bu_key \<circ> ba_row) (bars db))"
  shows "verify_persisted_rows rows db = Inr () \<longleftrightarrow> holds_batch rows db"
proof -
  have "(case find (\<lambda>r. bu_key r = bu_key row) (load_existing_bar_rows rows db) of
      None \<Rightarrow> True | Some current \<Rightarrow> \<not> values_equal current row)
    \<longleftrightarrow> \<not> (\<exists>b \<in> set (bars db). bu_key (ba_row b) = bu_key row \<and> values_equal (ba_row b) row)"
    if "row \<in> set rows" for row
  proof (cases "find (\<lambda>r. bu_key r = bu_key row) (load_existing_bar_rows rows db)")
    case None
    then show ?thesis using load_existing_find(1) [OF assms that] by (metis image_eqI option.distinct(1) option.simps(4))
  next
    case (Some x)
    then have "y = x" if "y \<in> ba_row ` set (bars db)" "bu_key y = bu_key row" for y
      using load_existing_find(1) [OF assms \<open>row \<in> set rows\<close>, of y] that by simp
    then have only: "b \<in> set (bars db) \<Longrightarrow> bu_key (ba_row b) = bu_key row \<Longrightarrow> ba_row b = x" for b by blast
    obtain b where b: "b \<in> set (bars db)" "ba_row b = x" "bu_key x = bu_key row"
      using Some load_existing_find(1) [OF assms \<open>row \<in> set rows\<close>, of x] by auto
    have "(\<exists>b \<in> set (bars db). bu_key (ba_row b) = bu_key row \<and> values_equal (ba_row b) row) \<longleftrightarrow> values_equal x row"
      using only b by metis
    then show ?thesis by (simp add: Some)
  qed
  then show ?thesis
    by (auto simp: verify_persisted_rows_def check_Inr_iff list_ex_iff holds_batch_def)
qed

lemma plan_revisions_none:
  assumes d: "distinct (map (bu_key \<circ> ba_row) (bars db))" and h: "holds_batch rows db"
  shows "set rs \<subseteq> set rows \<Longrightarrow> plan_revisions (load_existing_bar_rows rows db) rs = Inr []"
proof (induction rs)
  case (Cons row rs)
  then obtain b where b: "b \<in> set (bars db)" "bu_key (ba_row b) = bu_key row" "values_equal (ba_row b) row"
    using h by (auto simp: holds_batch_def)
  then have "find (\<lambda>r. bu_key r = bu_key row) (rev (load_existing_bar_rows rows db)) = Some (ba_row b)"
    using load_existing_find(2) [OF d, of row rows] Cons.prems by simp
  then show ?case using b(3) Cons by simp
qed simp

lemma write_bars_same:
  assumes d: "distinct (map (bu_key \<circ> ba_row) (bars db))" and h: "holds_batch rows db"
    and c: "\<And>row i. row \<in> set rows \<Longrightarrow> bar_checks \<lparr>ba_row = row, ba_recorded_at = clock i, ba_creator_xid = xid\<rparr>"
  shows "set rs \<subseteq> set rows \<Longrightarrow> write_bars xid clock rs db = Inr db"
proof (induction rs)
  case (Cons row rs)
  then obtain b where b: "b \<in> set (bars db)" "bu_key (ba_row b) = bu_key row" "values_equal (ba_row b) row"
    using h by (auto simp: holds_batch_def)
  then have "find (\<lambda>x. bu_key (ba_row x) = bu_key row) (bars db) = Some b"
    using find_key [OF d, of "bu_key row" b] by simp
  then have "write_bar xid (clock (length rs)) row db = Inr db"
    using b(3) c [of row] Cons.prems by (simp add: write_bar_def Let_def)
  then show ?case using Cons by simp
qed simp

lemma no_revisions_since:
  assumes "\<And>r t. (r, t) \<in> versions_of db \<Longrightarrow> t < started"
  shows "load_persisted_revisions rows started db = Inr []"
proof -
  have "filter (\<lambda>v. list_ex (\<lambda>r. bu_key r = rv_key v \<and> bu_fetched_at r = bu_fetched_at (rv_incoming v)
        \<and> bu_as_of r = bu_as_of (rv_incoming v)) rows
      \<and> (case rv_incoming_recorded_at v of None \<Rightarrow> False | Some t \<Rightarrow> started \<le> t)) (bars_revisions db) = []"
    using assms unfolding versions_of_alt by (fastforce simp: filter_empty_conv split: option.splits)
  then show ?thesis by (simp add: load_persisted_revisions_def)
qed


section \<open>Finalization\<close>

lemma insert_receipts_total:
  assumes "\<And>r t c. (r, t, c) \<in> set (stored_versions db) \<Longrightarrow> c \<noteq> xid \<and> (\<forall>i. t \<le> clock i)"
  shows "(\<And>k t. (k, t) \<in> set vs \<Longrightarrow> \<exists>r c. (r, t, c) \<in> set (stored_versions db) \<and> bu_key r = k) \<Longrightarrow>
    \<exists>db2. insert_receipts xid clock vs db = Inr db2"
  using assms
proof (induction vs arbitrary: db)
  case (Cons v vs)
  obtain k t where v: "v = (k, t)" by (cases v)
  obtain r c where rc: "(r, t, c) \<in> set (stored_versions db)" "bu_key r = k" using Cons.prems(1) [of k t] v by auto
  have "filter (\<lambda>(row, u, _). bu_key row = k \<and> u = t) (stored_versions db) \<noteq> []"
    using rc by (auto simp: filter_empty_conv)
  moreover have "\<not> list_ex (\<lambda>(_, _, creator). creator = xid)
      (filter (\<lambda>(row, u, _). bu_key row = k \<and> u = t) (stored_versions db))"
    using Cons.prems(2) by (auto simp: list_ex_iff)
  moreover have "\<not> clock (length vs) < t" using Cons.prems(2) [OF rc(1)] by (simp add: not_less)
  ultimately have "insert_receipt xid (clock (length vs)) k t db = Inr (if receipt_exists db k t then db
      else db\<lparr>bar_version_availability := bar_version_availability db @
        [\<lparr>rc_key = k, rc_version_recorded_at = t, rc_available_at = clock (length vs)\<rparr>]\<rparr>)"
    by (simp add: insert_receipt_def Let_def)
  then obtain mid where mid: "insert_receipt xid (clock (length vs)) k t db = Inr mid"
      "stored_versions mid = stored_versions db"
    by (simp add: stored_versions_def current_versions_def previous_versions_def incoming_versions_def)
  then obtain db2 where "insert_receipts xid clock vs mid = Inr db2"
    using Cons.IH [of mid] Cons.prems by (metis list.set_intros(2))
  then show ?case using mid by (simp add: v)
qed simp

text \<open>C16. Finalization is complete: run after its writers committed, it always succeeds, and afterwards
every version of every lane of the batch has a receipt, also those an earlier worker left behind.\<close>

theorem finalized_lanes_have_receipts:
  assumes reach: "bar_steps (empty_db, start) (db, stopped)" and rows: "dedupe_rows rows = Inr row_list"
    and committed: "\<And>r t c. (r, t, c) \<in> set (stored_versions db) \<Longrightarrow> c \<noteq> xid \<and> (\<forall>i. t \<le> clock i)"
  shows "\<exists>db2. finalize_bar_version_availability xid clock rows db = Inr db2 \<and> versions_of db2 = versions_of db
    \<and> {(bu_key r, t) |r t. (r, t) \<in> versions_of db \<and> lane (bu_key r) \<in> set (map (lane \<circ> bu_key) row_list)}
      \<subseteq> {(k, t). \<exists>a. receipt_of db2 k t a}"
proof (cases "row_list = []")
  case True
  then show ?thesis using rows by (simp add: finalize_bar_version_availability_def)
next
  case False
  note ok = reachable_ok [OF reach]
  have known: "\<exists>r c. (r, t, c) \<in> set (stored_versions db) \<and> bu_key r = k" if "(k, t) \<in> set (missing_versions row_list db)" for k t
    using that by (force simp: missing_versions_def)
  obtain db2 where db2: "insert_receipts xid clock (missing_versions row_list db) db = Inr db2"
    using insert_receipts_total [of db xid clock "missing_versions row_list db"] committed known by blast
  have covered: "(bu_key r, t) \<in> set (missing_versions row_list db) \<or> (\<exists>a. receipt_of db (bu_key r) t a)"
    if rt: "(r, t) \<in> versions_of db" "lane (bu_key r) \<in> set (map (lane \<circ> bu_key) row_list)" for r t
  proof (cases "receipt_exists db (bu_key r) t")
    case True
    then show ?thesis by (auto simp: receipt_exists_def receipt_of_def list_ex_iff) (metis BarReceipt.surjective old.unit.exhaust)
  next
    case False
    then show ?thesis using rt unfolding versions_of_def missing_versions_def by force
  qed
  show ?thesis
  proof (cases "missing_versions row_list db")
    case Nil
    then show ?thesis using rows covered db2 False by (auto simp: finalize_bar_version_availability_def)
  next
    case (Cons v vs)
    then obtain t where "\<And>i. t \<le> clock i" using known [of "fst v" "snd v"] committed by fastforce
    note r = insert_receipts_ok [OF db2 ok this]
    have "\<exists>a. receipt_of db2 (bu_key q) t a"
      if "(q, t) \<in> versions_of db" "lane (bu_key q) \<in> set (map (lane \<circ> bu_key) row_list)" for q t
      using covered [OF that] r unfolding grows_def by fastforce
    then show ?thesis using rows db2 r False by (auto simp: finalize_bar_version_availability_def)
  qed
qed

end
