(* ===== verification/ResolutionCases.thy ===== *)
theory ResolutionCases
  imports OutcomeResolutionLaws BarIngestLaws
begin

text \<open>
  One bar from its first write to the answer of the resolver, and a restatement that comes
  after the cutoff: the properties of the store and the resolver at concrete inputs.
\<close>

definition demo_key :: BarKey where
  "demo_key = BarKey ''AAPL'' ''day'' 1 10 ''polygon_open_close'' ''raw''"

definition demo_row :: "f64 \<Rightarrow> instant \<Rightarrow> BarUpsertRow" where
  "demo_row price fetched = \<lparr>bu_key = demo_key, bu_open = price, bu_high = price, bu_low = price, bu_close = price,
     bu_volume = f_one, bu_vwap = None, bu_trade_count = None, bu_fetched_at = fetched, bu_as_of = fetched + 5\<rparr>"

definition demo_price :: f64 where
  "demo_price = 4611686018427387904"

definition demo_bar :: BarRow where
  "demo_bar = \<lparr>ba_row = demo_row f_one 20, ba_recorded_at = 40, ba_creator_xid = 1\<rparr>"

definition demo_restated :: BarRow where
  "demo_restated = \<lparr>ba_row = demo_row demo_price 70, ba_recorded_at = 2000001, ba_creator_xid = 3\<rparr>"

definition written_db :: bar_db where
  "written_db = \<lparr>bars = [demo_bar], bars_revisions = [], bar_version_availability = []\<rparr>"

definition finalized_db :: bar_db where
  "finalized_db = \<lparr>bars = [demo_bar], bars_revisions = [], bar_version_availability =
     [\<lparr>rc_key = demo_key, rc_version_recorded_at = 40, rc_available_at = 60\<rparr>]\<rparr>"

definition restated_db :: bar_db where
  "restated_db = \<lparr>bars = [demo_restated], bars_revisions =
     [\<lparr>rv_key = demo_key, rv_previous = demo_row f_one 20, rv_incoming = demo_row demo_price 70,
       rv_previous_recorded_at = Some 40, rv_incoming_recorded_at = Some 2000001, rv_previous_creator_xid = 1,
       rv_incoming_creator_xid = 3, rv_revised_at = 2000001\<rparr>],
     bar_version_availability = [\<lparr>rc_key = demo_key, rc_version_recorded_at = 40, rc_available_at = 60\<rparr>]\<rparr>"

lemma demo_numbers:
  "pg_number_ok f_one" "pg_number_ok demo_price" "\<not> pg_lt f_one f_one" "\<not> pg_lt demo_price demo_price"
  "f_eq f_one f_one" "f_eq demo_price demo_price" "\<not> f_eq f_one demo_price" "f_isfinite f_one" "\<not> f_eq f_one f_zero"
  "\<not> f_lt f_one f_zero"
  by code_simp+

lemmas demo_defs = demo_row_def demo_key_def bar_checks_def values_equal_def opt_eq_def timestamps_follow_availability_order_def

lemma demo_checks:
  "bar_checks \<lparr>ba_row = demo_row f_one 20, ba_recorded_at = 40, ba_creator_xid = 1\<rparr>"
  "bar_checks \<lparr>ba_row = demo_row demo_price 70, ba_recorded_at = 2000001, ba_creator_xid = 3\<rparr>"
  "values_equal (demo_row f_one 20) (demo_row f_one 20)" "values_equal (demo_row demo_price 70) (demo_row demo_price 70)"
  "\<not> values_equal (demo_row f_one 20) (demo_row demo_price 70)"
  by (simp_all add: demo_defs demo_numbers)

lemma demo_fields [simp]: "bu_key (demo_row p f) = demo_key" "bu_fetched_at (demo_row p f) = f" "bu_as_of (demo_row p f) = f + 5"
  "bu_close (demo_row p f) = p"
  by (simp_all add: demo_row_def)

lemma demo_dedupe: "dedupe_rows [demo_row p f] = Inr [demo_row p f]"
  by (simp add: dedupe_rows_def dedupe_row_def)

lemmas demo_upsert = upsert_bar_rows_def demo_dedupe build_bar_upsert_plan_from_rows_def load_existing_bar_rows_def
  write_bar_def verify_persisted_rows_def load_persisted_revisions_def Let_def demo_checks

lemma first_write:
  "upsert_bar_rows 1 40 (\<lambda>_. 40) [demo_row f_one 20] empty_db
    = Inr (\<lparr>bp_rows = [demo_row f_one 20], bp_revisions = []\<rparr>, written_db)"
  by (simp add: demo_upsert empty_db_def written_db_def demo_bar_def)

lemma second_write:
  "upsert_bar_rows 3 2000001 (\<lambda>_. 2000001) [demo_row demo_price 70] finalized_db
    = Inr (\<lparr>bp_rows = [demo_row demo_price 70], bp_revisions =
        [\<lparr>pr_conflict_key = demo_key, pr_previous = demo_row f_one 20, pr_incoming = demo_row demo_price 70\<rparr>]\<rparr>, restated_db)"
  by (simp add: demo_upsert finalized_db_def restated_db_def demo_bar_def demo_restated_def)

lemmas demo_versions = stored_versions_def current_versions_def previous_versions_def incoming_versions_def

lemma first_receipt: "finalize_bar_version_availability 2 (\<lambda>_. 60) [demo_row f_one 20] written_db = Inr finalized_db"
  by (simp add: finalize_bar_version_availability_def demo_dedupe missing_versions_def demo_versions written_db_def
      finalized_db_def demo_bar_def receipt_exists_def insert_receipt_def Let_def map_filter_simps)

lemma reach_written: "bar_steps (empty_db, 40) (written_db, 50)"
proof (rule bar_steps.there [OF bar_steps.here])
  show "bar_step (empty_db, 40) (written_db, 50)"
    by (rule bar_step.upserted [OF _ first_write]) (simp_all add: timestamps_follow_availability_order_def demo_key_def)
qed

lemma reach_finalized: "bar_steps (empty_db, 40) (finalized_db, 2000000)"
  by (rule bar_steps.there [OF reach_written]) (rule bar_step.finalized [OF first_receipt]; simp)

lemma restated_step: "bar_step (finalized_db, 2000000) (restated_db, 2000002)"
  by (rule bar_step.upserted [OF _ second_write]) (simp_all add: timestamps_follow_availability_order_def demo_key_def)

definition calendar_env :: resolution_env where
  "calendar_env = \<lparr>re_pandas_version = ''2'', re_tzdata_version = ''2025'', re_calendars_version = CALENDAR_ENGINE_VERSION,
     re_get_calendar = Inr (), re_timestamp = Inr, re_is_session = (\<lambda>_. Inr True), re_session_close = (\<lambda>_. Inr (aware 10))\<rparr>"

definition demo_policy :: ResolutionPolicy where
  "demo_policy = \<lparr>rp_resolution_lag_seconds = 1\<rparr>"

definition demo_session :: "bar_db \<Rightarrow> db_session" where
  "demo_session db = \<lparr>ds_open = None, ds_clock = aware 2000003, ds_select = None, ds_db = db\<rparr>"

definition demo_request :: OutcomeResolutionRequest where
  "demo_request = \<lparr>rq_symbol = ''AAPL'', rq_target_time = 10, rq_resolution_cutoff = 1000010\<rparr>"

lemma demo_symbol: "rs_canonical_symbol (PyStr ''AAPL'') = Inr ''AAPL''"
  by code_simp

lemma demo_utc: "0 \<le> t \<Longrightarrow> t < 10000000 \<Longrightarrow> rs_utc (aware t) l = Inr t"
  by (simp add: rs_utc_def valid_instant_def max_ordinal_def day_micros_def)

lemma demo_valid: "validate_request calendar_env demo_policy (PyStr ''AAPL'') (aware 10) (aware 1000010) = Inr demo_request"
  by (simp add: validate_request_def demo_symbol demo_utc validate_xnys_close_def xnys_calendar_def session_close_of_def
      cutoff_for_def calendar_env_def demo_policy_def demo_request_def max_ordinal_def day_micros_def Let_def)

lemma demo_settled: "settled demo_request finalized_db = {(demo_row f_one 20, 40, 60)}"
  by (auto simp: settled_def versions_of_def demo_versions receipt_of_def finalized_db_def demo_bar_def demo_request_def
      requested_key_def demo_key_def map_filter_simps)

theorem resolution_is_decided_witness:
  "\<exists>ev. resolve calendar_env demo_policy (demo_session finalized_db) (PyStr ''AAPL'') (aware 10) (aware 1000010) = Inr ev
     \<and> bv_version_recorded_at ev = 40 \<and> bv_available_at ev = 60 \<and> f_eq (bv_value ev) f_one"
proof -
  have "ds_db (demo_session finalized_db) = finalized_db" "ds_open (demo_session finalized_db) = None"
    "ds_select (demo_session finalized_db) = None"
    "rs_utc (ds_clock (demo_session finalized_db)) ''database clock'' = Inr 2000003"
    by (simp_all add: demo_session_def demo_utc)
  moreover have "rq_resolution_cutoff demo_request \<le> 2000003" by (simp add: demo_request_def)
  ultimately show ?thesis
    using resolution_is_decided [of 40 "demo_session finalized_db" 2000000, OF _ demo_valid] reach_finalized demo_settled
    by (auto simp: newest_def)
qed

lemma demo_resolved:
  "resolve calendar_env demo_policy (demo_session finalized_db) (PyStr ''AAPL'') (aware 10) (aware 1000010)
     = Inr \<lparr>bv_symbol = ''AAPL'', bv_timespan = ''day'', bv_multiplier = 1, bv_observed_at = 10,
         bv_source = ''polygon_open_close'', bv_adjustment_basis = ''raw'', bv_fetched_at = 20, bv_source_as_of = 25,
         bv_version_recorded_at = 40, bv_available_at = 60, bv_field = ''close'', bv_value = f_one\<rparr>"
proof -
  have "newest (settled demo_request finalized_db) (demo_row f_one 20, 40, 60)" by (simp add: demo_settled newest_def)
  then have "exact_bar_version_statement demo_request finalized_db = [ranked (demo_row f_one 20, 40, 60)]"
    by (rule statement_newest [OF reachable_ok [OF reach_finalized]])
  then show ?thesis
    by (simp add: resolve_def demo_valid session_rows_def demo_session_def demo_utc resolve_rows_def evidence_from_row_def
        result_row_def ranked_def bar_version_def finite_nonnegative_def real_float_def demo_numbers demo_request_def
        demo_key_def Let_def)
qed

theorem resolution_is_stable_witness:
  "resolve calendar_env demo_policy ((demo_session finalized_db)\<lparr>ds_db := restated_db\<rparr>) (PyStr ''AAPL'') (aware 10) (aware 1000010)
     = resolve calendar_env demo_policy ((demo_session finalized_db)\<lparr>ds_db := finalized_db\<rparr>) (PyStr ''AAPL'') (aware 10) (aware 1000010)"
  by (rule resolution_is_stable [OF reach_finalized bar_steps.there [OF bar_steps.here restated_step] demo_utc]) simp_all

theorem resolved_evidence_is_accepted_witness:
  "\<exists>policy_hash rule_set_hash. outcome_resolution_policy_hash calendar_env demo_policy = Inr policy_hash
     \<and> availability_rule_set_hash = Inr rule_set_hash
     \<and> is_ok (oc_normalized_payload (Inst (outcome_arg (resolved_payload policy_hash rule_set_hash 1000010
         \<lparr>bv_symbol = ''AAPL'', bv_timespan = ''day'', bv_multiplier = 1, bv_observed_at = 10,
         bv_source = ''polygon_open_close'', bv_adjustment_basis = ''raw'', bv_fetched_at = 20, bv_source_as_of = 25,
         bv_version_recorded_at = 40, bv_available_at = 60, bv_field = ''close'', bv_value = f_one\<rparr>))))"
proof -
  obtain ph rh c where "outcome_resolution_policy_hash calendar_env demo_policy = Inr ph" "availability_rule_set_hash = Inr rh"
    and c: "c = 10 + rp_resolution_lag_seconds demo_policy * 1000000"
    and ok: "is_ok (oc_normalized_payload (Inst (outcome_arg (resolved_payload ph rh c
         \<lparr>bv_symbol = ''AAPL'', bv_timespan = ''day'', bv_multiplier = 1, bv_observed_at = 10,
         bv_source = ''polygon_open_close'', bv_adjustment_basis = ''raw'', bv_fetched_at = 20, bv_source_as_of = 25,
         bv_version_recorded_at = 40, bv_available_at = 60, bv_field = ''close'', bv_value = f_one\<rparr>))))"
    using resolved_evidence_is_accepted [OF demo_resolved] by (auto simp: is_ok_def)
  moreover have "c = 1000010" by (simp add: c demo_policy_def)
  ultimately show ?thesis by (intro exI [of _ ph] exI [of _ rh]) simp
qed


lemma restated_versions:
  "set (stored_versions restated_db) = {(demo_row demo_price 70, 2000001, 3), (demo_row f_one 20, 40, 1)}"
  by (auto simp: demo_versions restated_db_def demo_restated_def map_filter_simps)

theorem finalized_lanes_have_receipts_witness:
  "\<exists>db2. finalize_bar_version_availability 9 (\<lambda>_. 3000000) [demo_row f_one 20] restated_db = Inr db2
     \<and> (\<exists>a. receipt_of db2 demo_key 2000001 a)"
proof -
  have committed: "c \<noteq> 9 \<and> (\<forall>i::nat. t \<le> 3000000)" if "(r, t, c) \<in> set (stored_versions restated_db)" for r t c
    using that by (auto simp: restated_versions)
  obtain db2 where db2: "finalize_bar_version_availability 9 (\<lambda>_. 3000000) [demo_row f_one 20] restated_db = Inr db2"
    "{(bu_key r, t) |r t. (r, t) \<in> versions_of restated_db \<and> lane (bu_key r) \<in> set (map (lane \<circ> bu_key) [demo_row f_one 20])}
      \<subseteq> {(k, t). \<exists>a. receipt_of db2 k t a}"
    using finalized_lanes_have_receipts [OF bar_steps.there [OF reach_finalized restated_step] demo_dedupe,
        where xid = 9 and clock = "\<lambda>_. 3000000"] committed by blast
  have "(demo_row demo_price 70, 2000001) \<in> versions_of restated_db"
    by (simp add: versions_of_def restated_versions)
  then have "(bu_key (demo_row demo_price 70), 2000001) \<in> {(bu_key r, t) |r t. (r, t) \<in> versions_of restated_db
      \<and> lane (bu_key r) \<in> set (map (lane \<circ> bu_key) [demo_row f_one 20])}"
    by (intro CollectI exI [of _ "demo_row demo_price 70"] exI [of _ 2000001]) simp
  from subsetD [OF db2(2) this] db2(1) show ?thesis by simp
qed

end
