(* ===== verification/Spec2Isabelle.thy ===== *)
theory Spec2Isabelle
  imports RateLimit AdjustedWindowLaws CorporateActionLaws ConformalLaws TechnicalCases MetricsLaws BaselinesLaws WalkForwardCases
    ForecastOutcomeLaws ServingCases Etag DispatchCases ResolutionCases
begin

text \<open>
  A verification development for the stock-prediction API: the service under \<open>app/\<close>, the
  forecasting library under \<open>ml/\<close>, the bar ingestion under \<open>ingestion/\<close>, and the
  dispatcher under \<open>ai_dispatcher/\<close> that plans, executes and publishes changes of the
  repository.

  \<^bold>\<open>The program.\<close>  Ingestion writes bars with their history: every restatement archives the
  previous version, and a receipt stamped by a second transaction says when a version became
  visible.  Corporate actions and raw prices give content-addressed adjustment factors and,
  with them, adjusted windows.  Observations are sealed into forecast-input snapshots; the
  forecast service selects one, verifies it, fits a baseline, and assembles a response.
  After a target has passed, the resolver reads the realized close from the bar history as it
  was visible at a fixed cutoff, and the outcome module seals it.  Walk-forward evaluation,
  metrics and conformal calibration score the forecasts.  The same questions return in
  every part: nothing looks ahead of its cutoff, stored evidence is exactly what its own bytes
  rebuild, and a failing check stops the step.  The dispatcher has the same shape: a change
  goes out only after every gate, under an authorization that still allows it.

  \<^bold>\<open>Foundations.\<close>
  \<^item> \<open>Prelude\<close>: exceptions, the result type, traversal by a function that may raise, stable
    sorting; the collection \<open>res_simps\<close>.
  \<^item> \<open>Text\<close>, \<open>Sha256\<close>, \<open>Json\<close>, \<open>IsoTime\<close>, \<open>PyObj\<close>: what the program uses of Python's strings,
    \<open>hashlib\<close>, \<open>json\<close>, \<open>datetime.fromisoformat\<close>, and objects of unknown class.  The reader of
    JSON takes fuel, twice the length of the text and two: every call consumes a character
    or descends once, and the round-trip lemmas show that it is enough for rendered text.
  \<^item> \<open>Float64\<close>, \<open>FloatLaws\<close>, \<open>FloatOps\<close>: binary64 as 64-bit words, each operation one rounding of
    the exact result, and \<open>math.fsum\<close>.  \<open>Decimal34\<close>: the decimal contexts.
  \<^item> \<open>Evidence\<close>: the validators and readers that the evidence modules repeat, and the
    locales \<open>evidence_codec\<close> and \<open>idempotent_codec\<close>, the contract of a module that encodes
    validated payloads canonically; interpreted by outcomes and snapshots.

  \<^bold>\<open>Components.\<close>  A theory carries the definitions, in the order of the source; the theories
  named \<open>...Laws\<close> and \<open>...Cases\<close> beside it carry its theorems and their concrete instances.
  \<^item> \<open>BarHistory\<close>: \<open>ingestion/upsert.py\<close>, the tables of \<open>app/db/models/bars.py\<close> and the triggers of
    migration 0008.  The state is \<open>bar_db\<close>, three lists of rows; \<open>bar_step\<close> is a committed
    transaction with its readings of the database clock.  \<open>BarHistoryLaws\<close>: the invariant
    \<open>history_ok\<close> of every reachable store.  \<open>BarIngestLaws\<close>: replay changes nothing,
    finalization is complete.
  \<^item> \<open>OutcomeResolution\<close>: \<open>app/services/forecast_outcome_resolution.py\<close>.  Its laws: over a reachable
    store the answer is the newest version visible at the cutoff, it never changes once
    the clock has passed the cutoff, and the outcome module accepts it unchanged.
  \<^item> \<open>ForecastOutcomes\<close>: \<open>app/services/forecast_outcomes.py\<close>; point-in-time evidence, exact
    validation of stored rows, bytes and payloads in bijection, totality of the builder.
  \<^item> \<open>ForecastSnapshots\<close>, \<open>SnapshotReading\<close>: \<open>app/services/forecast_snapshots.py\<close>, with
    \<open>SnapshotLaws\<close>, \<open>SnapshotCodecLaws\<close>, \<open>SnapshotResolution\<close>, \<open>SnapshotCases\<close>.
  \<^item> \<open>ForecastSchema\<close>, \<open>Forecasting\<close>, \<open>ForecastServing\<close>: \<open>app/schemas/forecast.py\<close>,
    \<open>app/services/forecasting.py\<close>, \<open>app/services/forecast_serving.py\<close>.  The locale of
    \<open>ForecastServingLaws\<close> is the contract of the snapshot repository, interpreted on the one over
    the table; \<open>ServingCases\<close> computes one response to the last digit.
  \<^item> \<open>AdjustmentFactors\<close>, \<open>AdjustedPrices\<close>, \<open>CorporateActions\<close>: the modules of the same names under
    \<open>app/services\<close>; the factor recurrence, independence of the order of the input, the builder
    accepted by its reader, adjusted values as correctly rounded products.
  \<^item> \<open>Baselines\<close>, \<open>WalkForward\<close>, \<open>Metrics\<close>, \<open>Conformal\<close>, \<open>Technical\<close>: \<open>ml/models/baselines.py\<close>,
    \<open>ml/evaluation/walk_forward.py\<close>, \<open>ml/evaluation/metrics.py\<close>, \<open>ml/calibration/conformal.py\<close>,
    \<open>ml/features/technical.py\<close>; no look-ahead, ranges, warm-up, error classes, order statistics.
  \<^item> \<open>RateLimit\<close>, \<open>Etag\<close>: \<open>app/core/rate_limit.py\<close> with the key check of \<open>app/core/security.py\<close>,
    and \<open>app/core/etag.py\<close>.
  \<^item> \<open>ScopeGuard\<close>, \<open>DispatchText\<close>, \<open>DispatchVerify\<close>, \<open>DispatchAgents\<close>, \<open>DispatchLoop\<close>, \<open>DispatchPublish\<close>,
    \<open>DispatchCli\<close>: the modules of \<open>ai_dispatcher/\<close>.  Agents, git, commands and files are an
    environment whose answer may depend on the whole trace of calls before it; a prompt is
    represented by the number of its round.  \<open>DispatchLoopLaws\<close>, \<open>DispatchPublishLaws\<close>,
    \<open>DispatchCliLaws\<close>, \<open>DispatchStateLaws\<close>, \<open>DispatchScope\<close>: every passed dispatch went through
    every gate in order, main is pushed only under an authorization, the breaker and the
    budget are invariants of the files the dispatcher keeps, and no free text of a plan
    can change the scope that is read back from it.

  \<^bold>\<open>Conventions.\<close>  A Python exception is the left injection of \<open>'a res\<close>; its message is kept
  where the source fixes it.  A function that inspects the class of its argument takes a
  \<open>pyobj\<close> (or a record of them); typed arguments stand for fields whose class a frozen dataclass
  or a pydantic model has fixed before.  Instants are microseconds of UTC from year 1.
  Third-party code is an argument: the exchange calendar, package versions, pydantic's string
  stripping, the logarithms of the C library, Redis.  A model factory is a function of the number
  of its earlier calls.  An SQL statement is a function on the rows of its tables; row
  locks and advisory locks are modelled by the step relation, whose steps are whole committed
  transactions.

  \<^bold>\<open>Limits of the model.\<close>  Text is Latin-1, where NFC is the identity.  \<open>math.fsum\<close> raises
  when a partial sum overflows by the rule stated in \<open>FloatOps\<close>; the square \<open>x ** 2\<close> is the
  correctly rounded product.  \<open>RecursionError\<close> and the digit limit of \<open>int\<close> in \<open>json.loads\<close> do not
  occur.  The constant disclaimer of a response, log lines and metrics are left out.

  \<^bold>\<open>Not modelled.\<close>  The PostgreSQL stores and snapshot builders (\<open>*_store.py\<close>, \<open>*_builder.py\<close>): sessions,
  locks and driver errors around the records modelled here.  Migrations other than the bar
  triggers, table declarations, routes, tasks, vendor clients and scripts: declarations,
  wiring, network and files.  Forecast runs, cohorts, selection policies and the
  calibration documents (\<open>forecast_runs.py\<close>, \<open>forecast_cohorts.py\<close>, \<open>forecast_selection_policies.py\<close>,
  \<open>forecast_calibration_*.py\<close>) are further modules of the evidence pattern; they rest on each
  other and on the serialised response, and are the next to model.  Process control of the
  dispatcher is left to the operating system.
\<close>

end
